(* ===== verification/Prelude.thy ===== *)
theory Prelude
  imports Complex_Main
    "HOL-Library.FSet"
    "HOL-Library.AList"
    "HOL-Library.Char_ord"
    "HOL-Library.List_Lexorder"
    "HOL-Library.Product_Lexorder"
    "HOL-Library.Multiset"
begin

text \<open>
  What every theory of the development shares: Python's errors as values, its dictionaries
  as insertion-ordered association lists, its (frozen) sets as finite sets, \<open>sorted\<close>,
  loops whose body may raise, and the facts on stable sorting that make the order of the
  emitted events independent of the order in which a Python set is iterated.

  Python strings are HOL strings. The program orders them with \<open>sorted\<close>, that is by code
  point; the instances of \<open>List_Lexorder\<close> and \<open>Char_ord\<close> give the same order (byte order of
  UTF-8 text is code-point order).
\<close>

named_theorems dict_simps \<open>lookups in Python dictionaries\<close>
named_theorems ctor_defs \<open>unfolding the event constructors\<close>
named_theorems stream_defs \<open>unfolding the per-stream diff functions\<close>

section \<open>Errors as values\<close>

text \<open>
  The exceptions the modelled code can raise; \<open>BadType\<close> stands for \<open>TypeError\<close> and
  \<open>AttributeError\<close>, which a value of the wrong kind causes; only the code that loads a baseline tells
  the two apart, and there \<open>AttributeError\<close> stands for itself.
\<close>

datatype py_error = KeyError | ValueError | BadType | AttributeError | OverflowError

type_synonym 'a result = "py_error + 'a"

definition bindr :: "'a result \<Rightarrow> ('a \<Rightarrow> 'b result) \<Rightarrow> 'b result" where
  "bindr m f = (case m of Inl e \<Rightarrow> Inl e | Inr a \<Rightarrow> f a)"

lemma bindr_simps [simp]:
  "bindr (Inl e) f = Inl e"
  "bindr (Inr a) f = f a"
  by (simp_all add: bindr_def)

lemma bindr_eq_Inr: "bindr m f = Inr b \<longleftrightarrow> (\<exists>a. m = Inr a \<and> f a = Inr b)"
  by (cases m) simp_all

text \<open>\<open>for x in xs: out.extend(f(x))\<close>, where the body may raise.\<close>

fun concat_mapr :: "('a \<Rightarrow> 'b list result) \<Rightarrow> 'a list \<Rightarrow> 'b list result" where
  "concat_mapr f [] = Inr []"
| "concat_mapr f (x # xs) =
     bindr (f x) (\<lambda>ys. bindr (concat_mapr f xs) (\<lambda>zs. Inr (ys @ zs)))"

lemma concat_mapr_Inr:
  assumes "\<And>x. x \<in> set xs \<Longrightarrow> f x = Inr (g x)"
  shows "concat_mapr f xs = Inr (concat (map g xs))"
  using assms by (induction xs) simp_all

lemma concat_mapr_eq_InrD:
  assumes "concat_mapr f xs = Inr ys"
  shows "ys = concat (map (\<lambda>x. projr (f x)) xs) \<and> (\<forall>x\<in>set xs. \<exists>zs. f x = Inr zs)"
  using assms by (induction xs arbitrary: ys) (auto simp: bindr_eq_Inr)

lemma concat_mapr_elem:
  assumes "concat_mapr f xs = Inr ys" and "y \<in> set ys"
  obtains x zs where "x \<in> set xs" and "f x = Inr zs" and "y \<in> set zs"
proof -
  from concat_mapr_eq_InrD [OF assms(1)] assms(2)
  obtain x where x: "x \<in> set xs" "y \<in> set (projr (f x))" by auto
  moreover from x(1) concat_mapr_eq_InrD [OF assms(1)] obtain zs where "f x = Inr zs" by blast
  ultimately show thesis using that by auto
qed

lemma concat_mapr_InlD: "concat_mapr f xs = Inl e \<Longrightarrow> \<exists>x\<in>set xs. f x = Inl e"
  by (induction xs) (auto simp: bindr_def split: sum.splits)

section \<open>Dictionaries\<close>

text \<open>
  A Python dictionary keeps the order of first insertion; \<open>d[k] = v\<close> is
  \<^const>\<open>AList.update\<close> (in place when the key is present, at the end otherwise) and its
  keys are distinct (\<open>dict_ok\<close>).
\<close>

type_synonym ('k, 'v) dict = "('k \<times> 'v) list"

definition dict_get :: "('k, 'v) dict \<Rightarrow> 'k \<Rightarrow> 'v option" where
  "dict_get d k = map_of d k"

definition dict_get_default :: "('k, 'v) dict \<Rightarrow> 'k \<Rightarrow> 'v \<Rightarrow> 'v" where
  "dict_get_default d k z = (case dict_get d k of None \<Rightarrow> z | Some v \<Rightarrow> v)"

text \<open>The subscript \<open>d[k]\<close>, which raises where \<open>.get\<close> returns \<open>None\<close>.\<close>

definition dict_item :: "('k, 'v) dict \<Rightarrow> 'k \<Rightarrow> 'v result" where
  "dict_item d k = (case dict_get d k of None \<Rightarrow> Inl KeyError | Some v \<Rightarrow> Inr v)"

definition dict_set :: "('k, 'v) dict \<Rightarrow> 'k \<Rightarrow> 'v \<Rightarrow> ('k, 'v) dict" where
  "dict_set d k v = AList.update k v d"

definition dict_keys :: "('k, 'v) dict \<Rightarrow> 'k fset" where
  "dict_keys d = fset_of_list (map fst d)"

definition dict_ok :: "('k, 'v) dict \<Rightarrow> bool" where
  "dict_ok d \<longleftrightarrow> distinct (map fst d)"

lemma dict_get_simps [simp, dict_simps]:
  "dict_get [] k = None"
  "dict_get ((k', v) # d) k = (if k = k' then Some v else dict_get d k)"
  by (auto simp: dict_get_def)

lemma dict_get_set [simp]: "dict_get (dict_set d k v) k' = (if k = k' then Some v else dict_get d k')"
  by (simp add: dict_get_def dict_set_def update_conv)

lemma dict_get_append: "dict_get (d @ e) k = (case dict_get d k of None \<Rightarrow> dict_get e k | Some v \<Rightarrow> Some v)"
  by (simp add: dict_get_def map_add_def split: option.split)

lemma dict_set_same: "dict_get d k = Some v \<Longrightarrow> dict_set d k v = d"
  by (induction d) (auto simp: dict_set_def dict_get_def split: if_splits)

lemma dict_ok_Nil [simp]: "dict_ok []"
  by (simp add: dict_ok_def)

lemma dict_ok_set [simp]: "dict_ok d \<Longrightarrow> dict_ok (dict_set d k v)"
  by (simp add: dict_ok_def dict_set_def distinct_update)

lemma fmember_dict_keys: "k |\<in>| dict_keys d \<longleftrightarrow> dict_get d k \<noteq> None"
  by (induction d) (auto simp: dict_keys_def fset_of_list_elem)

lemma dict_get_mem: "dict_ok d \<Longrightarrow> dict_get d k = Some v \<longleftrightarrow> (k, v) \<in> set d"
  by (simp add: dict_ok_def dict_get_def)

lemma dict_get_memD: "dict_get d k = Some v \<Longrightarrow> (k, v) \<in> set d"
  by (simp add: dict_get_def map_of_SomeD)

lemma dict_get_default_simps [simp, dict_simps]:
  "dict_get d k = None \<Longrightarrow> dict_get_default d k z = z"
  "dict_get d k = Some v \<Longrightarrow> dict_get_default d k z = v"
  by (simp_all add: dict_get_default_def)

section \<open>Sets, \<open>sorted\<close>, and the order in which a set is iterated\<close>

definition py_sorted :: "'a::linorder fset \<Rightarrow> 'a list" where
  "py_sorted S = sorted_list_of_fset S"

lemma py_sorted_set [simp]: "set (py_sorted S) = fset S"
  by (simp add: py_sorted_def)

lemma py_sorted_distinct [simp]: "distinct (py_sorted S)"
  by (simp add: py_sorted_def sorted_list_of_fset.rep_eq)

lemma py_sorted_sorted [simp]: "sorted (py_sorted S)"
  by (simp add: py_sorted_def sorted_list_of_fset.rep_eq)

lemma py_sorted_of_list: "py_sorted (fset_of_list xs) = sort (remdups xs)"
  by (simp add: py_sorted_def sorted_list_of_fset.rep_eq fset_of_list.rep_eq
      sorted_list_of_set_sort_remdups)

lemma py_sorted_fempty [simp]: "py_sorted {||} = []"
  by (simp add: py_sorted_def sorted_list_of_fset.rep_eq)

lemma py_sorted_finsert:
  "py_sorted (finsert x S) = insort x (py_sorted (S |-| {|x|}))"
  by (simp add: py_sorted_def sorted_list_of_fset.rep_eq sorted_list_of_set_insert_remove
      bot_fset.rep_eq minus_fset.rep_eq)

lemma py_sorted_eq_Nil [simp]: "py_sorted S = [] \<longleftrightarrow> S = {||}"
  by (metis fset_of_list_simps(1) py_sorted_def py_sorted_fempty sorted_list_of_fset_simps(2))

text \<open>
  Where the program writes \<open>for x in s\<close> for a set \<open>s\<close>, the order is the interpreter's:
  for strings it even changes with the hash seed of the process. A model of such a loop takes
  the order as an argument; the locale states all that the language promises about it.
\<close>

locale set_order =
  fixes iter :: "'a fset \<Rightarrow> 'a list"
  assumes iter_set: "set (iter S) = fset S"
    and iter_distinct: "distinct (iter S)"
begin

lemma iter_mset: "mset (iter S) = mset_set (fset S)"
  by (metis iter_distinct iter_set mset_set_set)

lemma iter_fempty: "iter {||} = []"
  using iter_set [of "{||}"] by simp

end

interpretation sorted_order: set_order "py_sorted :: 'a::linorder fset \<Rightarrow> 'a list"
  by unfold_locales simp_all

interpretation reverse_order: set_order "\<lambda>S. rev (py_sorted (S :: 'a::linorder fset))"
  by unfold_locales simp_all

section \<open>Comprehensions that skip \<open>None\<close>\<close>

lemma set_map_filter: "set (List.map_filter f xs) = {y. \<exists>x\<in>set xs. f x = Some y}"
  by (force simp: List.map_filter_def)

lemma map_filter_distinct:
  "distinct xs \<Longrightarrow> (\<And>x y z. f x = Some z \<Longrightarrow> f y = Some z \<Longrightarrow> x = y) \<Longrightarrow>
     distinct (List.map_filter f xs)"
  by (induction xs) (auto simp: set_map_filter split: option.split)

lemma map_filter_eq_Nil: "List.map_filter f xs = [] \<longleftrightarrow> (\<forall>x\<in>set xs. f x = None)"
  by (auto simp: List.map_filter_def filter_empty_conv)

lemma map_filter_append [simp]:
  "List.map_filter f (xs @ ys) = List.map_filter f xs @ List.map_filter f ys"
  by (simp add: List.map_filter_def)

lemma map_filter_map [simp]: "List.map_filter f (map g xs) = List.map_filter (\<lambda>x. f (g x)) xs"
  by (induction xs) (auto split: option.split)

lemma map_filter_Some [simp]: "List.map_filter (\<lambda>x. Some (h x)) xs = map h xs"
  by (induction xs) auto

lemma map_filter_None [simp]: "List.map_filter (\<lambda>x. None) xs = []"
  by (induction xs) auto

lemma map_filter_map_cong:
  "(\<And>x. x \<in> set xs \<Longrightarrow> f (g x) = Some (h x)) \<Longrightarrow> List.map_filter f (map g xs) = map h xs"
  by (induction xs) simp_all

section \<open>Stable sorting by a key\<close>

text \<open>
  Two lists that agree on the subsequence of every key have the same stable sort: Python's
  \<open>list.sort(key=\<dots>)\<close> and HOL's \<^const>\<open>sort_key\<close> are both stable.
\<close>

lemma mset_eq_if_filter_eq:
  assumes "\<And>k. filter (\<lambda>x. f x = k) xs = filter (\<lambda>x. f x = k) ys"
  shows "mset xs = mset ys"
proof (rule multiset_eqI)
  fix a
  have *: "count (mset zs) a = count (mset (filter (\<lambda>x. f x = f a) zs)) a" for zs
    by (induction zs) auto
  show "count (mset xs) a = count (mset ys) a"
    by (simp only: * [of xs] * [of ys] assms)
qed

lemma sort_key_cong_filter:
  assumes "\<And>k. filter (\<lambda>x. f x = k) xs = filter (\<lambda>x. f x = k) ys"
  shows "sort_key f xs = sort_key f ys"
proof (rule properties_for_sort_key)
  show "mset (sort_key f ys) = mset xs"
    using mset_eq_if_filter_eq [OF assms] by simp
  show "filter (\<lambda>x. f k = f x) (sort_key f ys) = filter (\<lambda>x. f k = f x) xs"
    if "k \<in> set (sort_key f ys)" for k
    using assms [of "f k"] by (simp add: eq_commute [of "f k"] sort_key_stable)
  show "sorted (map f (sort_key f ys))" by simp
qed

lemma sort_key_inj_cong:
  assumes "mset xs = mset ys" and "inj_on f (set xs)"
  shows "sort_key f xs = sort_key f ys"
  using assms by (intro sort_key_inj_key_eq) simp_all

text \<open>
  Groups of events keyed by the loop variable may be produced in any order of the loop: the
  sort puts them in the same place.
\<close>

lemma filter_concat_group:
  assumes dist: "distinct is"
    and key: "\<And>i x. i \<in> set is \<Longrightarrow> x \<in> set (g i) \<Longrightarrow> grp x = i"
    and sub: "\<And>x. P x \<Longrightarrow> grp x = k"
  shows "filter P (concat (map g is)) = (if k \<in> set is then filter P (g k) else [])"
  using dist key
proof (induction "is")
  case Nil
  then show ?case by simp
next
  case (Cons i "is")
  have other: "filter P (g i) = []" if "i \<noteq> k"
    using that Cons.prems(2) sub by (fastforce simp: filter_empty_conv)
  have IH: "filter P (concat (map g is)) = (if k \<in> set is then filter P (g k) else [])"
    using Cons by simp
  show ?case using IH other Cons.prems(1) by auto
qed

lemma sort_key_concat_order:
  fixes f :: "'b \<Rightarrow> 'k::linorder"
  assumes "distinct is" and "distinct js" and same: "set is = set js"
    and key: "\<And>i x. i \<in> set is \<Longrightarrow> x \<in> set (g i) \<Longrightarrow> grp (f x) = i"
  shows "sort_key f (concat (map g is)) = sort_key f (concat (map g js))"
proof (rule sort_key_cong_filter)
  fix k
  have "filter (\<lambda>x. f x = k) (concat (map g is)) =
      (if grp k \<in> set is then filter (\<lambda>x. f x = k) (g (grp k)) else [])"
    using assms by (intro filter_concat_group [where grp = "\<lambda>x. grp (f x)"]) auto
  also have "\<dots> = filter (\<lambda>x. f x = k) (concat (map g js))"
    using assms by (subst filter_concat_group [where grp = "\<lambda>x. grp (f x)" and k = "grp k"]) auto
  finally show "filter (\<lambda>x. f x = k) (concat (map g is)) =
      filter (\<lambda>x. f x = k) (concat (map g js))" .
qed

end
