(* ===== verification/Dates.thy ===== *)
theory Dates
  imports Prelude "HOL-Library.Monad_Syntax"
begin

text \<open>
  \<open>src/chronicler/util/dates.py\<close> (the two CK3 date forms and their common ISO form) and the
  age computation of \<open>save/diff.py\<close> that reads ISO dates back.

  The regular expressions are scanners over the text. Each is deterministic: what follows a
  run of digits, blanks or word characters is never of that class, so the greedy match is the
  only one. Digits, blanks and word characters are the ASCII ones, which is what the game
  writes (Python's \<open>\d\<close>, \<open>\s\<close> also accept non-ASCII digits and blanks; a non-ASCII month name
  fails the lookup either way). Python's limit of 4300 digits in \<open>int()\<close> is not modelled.
\<close>

section \<open>Characters and decimal numbers\<close>

definition is_digit :: "char \<Rightarrow> bool" where
  "is_digit c \<longleftrightarrow> 48 \<le> (of_char c :: nat) \<and> (of_char c :: nat) \<le> 57"

definition is_space :: "char \<Rightarrow> bool" where
  "is_space c \<longleftrightarrow> (let n = (of_char c :: nat) in (9 \<le> n \<and> n \<le> 13) \<or> (28 \<le> n \<and> n \<le> 32))"

definition is_word :: "char \<Rightarrow> bool" where
  "is_word c \<longleftrightarrow> (let n = (of_char c :: nat) in
     is_digit c \<or> (65 \<le> n \<and> n \<le> 90) \<or> (97 \<le> n \<and> n \<le> 122) \<or> n = 95)"

definition digit_char :: "nat \<Rightarrow> char" where
  "digit_char n = char_of (48 + n)"

definition digit_val :: "char \<Rightarrow> nat" where
  "digit_val c = of_char c - 48"

text \<open>\<open>int(s)\<close> on a string of digits, \<open>str(n)\<close> and \<open>f"{n:0wd}"\<close> on natural numbers.\<close>

definition parse_nat :: "string \<Rightarrow> nat" where
  "parse_nat s = foldl (\<lambda>n c. 10 * n + digit_val c) 0 s"

fun show_nat :: "nat \<Rightarrow> string" where
  "show_nat n = (if n < 10 then [digit_char n] else show_nat (n div 10) @ [digit_char (n mod 10)])"

declare show_nat.simps [simp del]

definition fmt0 :: "nat \<Rightarrow> nat \<Rightarrow> string" where
  "fmt0 w n = (let s = show_nat n in replicate (w - length s) (CHR ''0'') @ s)"

section \<open>The scanners\<close>

fun lit :: "string \<Rightarrow> string \<Rightarrow> string option" where
  "lit [] s = Some s"
| "lit (c # cs) [] = None"
| "lit (c # cs) (x # s) = (if c = x then lit cs s else None)"

definition run1 :: "(char \<Rightarrow> bool) \<Rightarrow> string \<Rightarrow> (string \<times> string) option" where
  "run1 P s = (let t = takeWhile P s in if t = [] then None else Some (t, dropWhile P s))"

definition digits12 :: "string \<Rightarrow> (string \<times> string) option" where
  "digits12 s = do {
     (t, r) \<leftarrow> run1 is_digit s;
     if length t \<le> 2 then Some (t, r) else None }"

definition spaces1 :: "string \<Rightarrow> string option" where
  "spaces1 s = do { (_, r) \<leftarrow> run1 is_space s; Some r }"

text \<open>\<open>_SHORT_DATE_RE\<close>: year, month and day of \<open>YYYY.M.D\<close>.\<close>

definition SHORT_DATE_RE :: "string \<Rightarrow> (string \<times> string \<times> string) option" where
  "SHORT_DATE_RE text = do {
     (year, r) \<leftarrow> run1 is_digit (dropWhile is_space text);
     r \<leftarrow> lit ''.'' r;
     (month, r) \<leftarrow> digits12 r;
     r \<leftarrow> lit ''.'' r;
     (day, r) \<leftarrow> digits12 r;
     if list_all is_space r then Some (year, month, day) else None }"

text \<open>\<open>_LONG_DATE_RE\<close>: day, month name and year of \<open>16th of September, 1066 AD\<close>.\<close>

definition LONG_DATE_RE :: "string \<Rightarrow> (string \<times> string \<times> string) option" where
  "LONG_DATE_RE text = do {
     (day, r) \<leftarrow> digits12 (dropWhile is_space text);
     r \<leftarrow> (if take 2 r \<in> {''st'', ''nd'', ''rd'', ''th''} then Some (drop 2 r) else None);
     r \<leftarrow> spaces1 r;
     r \<leftarrow> lit ''of'' r;
     r \<leftarrow> spaces1 r;
     (month, r) \<leftarrow> run1 is_word r;
     r \<leftarrow> lit '','' r;
     r \<leftarrow> spaces1 r;
     (year, r) \<leftarrow> run1 is_digit r;
     r \<leftarrow> spaces1 r;
     r \<leftarrow> lit ''AD'' r;
     if list_all is_space r then Some (day, month, year) else None }"

definition MONTHS :: "(string, nat) dict" where
  "MONTHS = [(''January'', 1), (''February'', 2), (''March'', 3), (''April'', 4), (''May'', 5),
     (''June'', 6), (''July'', 7), (''August'', 8), (''September'', 9), (''October'', 10),
     (''November'', 11), (''December'', 12)]"

text \<open>The f-string both parsers end with.\<close>

definition iso_date :: "nat \<Rightarrow> nat \<Rightarrow> nat \<Rightarrow> string" where
  "iso_date y m d = fmt0 4 y @ ''-'' @ fmt0 2 m @ ''-'' @ fmt0 2 d"

definition parse_ck3_short_date :: "string \<Rightarrow> string option" where
  "parse_ck3_short_date text = do {
     (ys, ms, ds) \<leftarrow> SHORT_DATE_RE text;
     let year = parse_nat ys; month = parse_nat ms; day = parse_nat ds in
     if year \<le> 0 \<or> \<not> (1 \<le> month \<and> month \<le> 12) \<or> \<not> (1 \<le> day \<and> day \<le> 31) then None
     else Some (iso_date year month day) }"

definition parse_ck3_long_date :: "string \<Rightarrow> string option" where
  "parse_ck3_long_date text = do {
     (ds, name, ys) \<leftarrow> LONG_DATE_RE text;
     month \<leftarrow> dict_get MONTHS name;
     let day = parse_nat ds; year = parse_nat ys in
     if \<not> (1 \<le> day \<and> day \<le> 31) then None
     else if year \<le> 0 then None
     else Some (iso_date year month day) }"

definition parse_ck3_date :: "string \<Rightarrow> string option" where
  "parse_ck3_date text =
     (case parse_ck3_long_date text of Some s \<Rightarrow> Some s | None \<Rightarrow> parse_ck3_short_date text)"

section \<open>Age at death\<close>

text \<open>
  \<open>_compute_death_age\<close>: Python's empty string counts as missing (\<open>if not birth_date\<close>); the
  years are the first four characters of the ISO dates, month and day the text after the
  fifth, compared as strings.
\<close>

definition compute_death_age :: "string option \<Rightarrow> string option \<Rightarrow> int option" where
  "compute_death_age birth_date death_date =
     (if birth_date \<in> {None, Some []} \<or> death_date \<in> {None, Some []} then None
      else case (parse_ck3_date (the birth_date), parse_ck3_date (the death_date)) of
        (Some birth_iso, Some death_iso) \<Rightarrow>
          (let birth_year = int (parse_nat (take 4 birth_iso));
               death_year = int (parse_nat (take 4 death_iso));
               age = death_year - birth_year;
               age' = (if drop 5 death_iso < drop 5 birth_iso then age - 1 else age)
           in Some (max age' 0))
      | _ \<Rightarrow> None)"

section \<open>Decimal numerals\<close>

lemma of_char_digit_char [simp]: "n < 10 \<Longrightarrow> (of_char (digit_char n) :: nat) = 48 + n"
  by (simp add: digit_char_def)

lemma is_digit_digit_char [simp]: "n < 10 \<Longrightarrow> is_digit (digit_char n)"
  by (simp add: is_digit_def)

lemma digit_val_digit_char [simp]: "n < 10 \<Longrightarrow> digit_val (digit_char n) = n"
  by (simp add: digit_val_def)

lemma digit_char_less: "m < 10 \<Longrightarrow> n < 10 \<Longrightarrow> digit_char m < digit_char n \<longleftrightarrow> m < n"
  by (simp add: less_char_def)

lemma digit_char_inject: "m < 10 \<Longrightarrow> n < 10 \<Longrightarrow> digit_char m = digit_char n \<longleftrightarrow> m = n"
  by (metis digit_val_digit_char)

lemma parse_nat_snoc [simp]: "parse_nat (s @ [c]) = 10 * parse_nat s + digit_val c"
  by (simp add: parse_nat_def)

lemma parse_nat_Nil [simp]: "parse_nat [] = 0"
  by (simp add: parse_nat_def)

lemma parse_nat_zeros: "parse_nat (replicate k (CHR ''0'') @ s) = parse_nat s"
proof -
  have "foldl (\<lambda>n c. 10 * n + digit_val c) 0 (replicate k (CHR ''0'')) = 0"
    by (induction k) (simp_all add: digit_val_def)
  then show ?thesis by (simp add: parse_nat_def)
qed

lemma parse_show_nat [simp]: "parse_nat (show_nat n) = n"
proof (induction n rule: less_induct)
  case (less n)
  show ?case
  proof (cases "n < 10")
    case True
    then show ?thesis
      using parse_nat_snoc [of "[]" "digit_char n"] by (simp add: show_nat.simps [of n])
  next
    case False
    with less have "parse_nat (show_nat (n div 10)) = n div 10" by simp
    with False show ?thesis by (simp add: show_nat.simps [of n])
  qed
qed

lemma show_nat_digits [simp]: "\<forall>c\<in>set (show_nat n). is_digit c"
proof (induction n rule: show_nat.induct)
  case (1 n)
  then show ?case by (cases "n < 10") (auto simp: show_nat.simps [of n])
qed

lemma show_nat_not_Nil [simp]: "show_nat n \<noteq> []"
  by (simp add: show_nat.simps [of n])

lemma parse_fmt0 [simp]: "parse_nat (fmt0 w n) = n"
  by (simp add: fmt0_def Let_def parse_nat_zeros)

lemma length_show_nat: "n < 10 ^ w \<Longrightarrow> 0 < w \<Longrightarrow> length (show_nat n) \<le> w"
proof (induction w arbitrary: n)
  case 0
  then show ?case by simp
next
  case (Suc w)
  show ?case
  proof (cases "n < 10")
    case True
    then show ?thesis by (simp add: show_nat.simps [of n])
  next
    case False
    with Suc.prems have w: "0 < w" by (cases w) auto
    from Suc.prems have "n div 10 < 10 ^ w"
      by (simp add: less_mult_imp_div_less mult.commute)
    with Suc.IH w have "length (show_nat (n div 10)) \<le> w" by simp
    with False show ?thesis by (simp add: show_nat.simps [of n])
  qed
qed

lemma length_fmt0 [simp]: "n < 10 ^ w \<Longrightarrow> 0 < w \<Longrightarrow> length (fmt0 w n) = w"
  using length_show_nat [of n w] by (simp add: fmt0_def Let_def)

lemma fmt0_Suc:
  assumes "n < 10 ^ Suc w" and "0 < w"
  shows "fmt0 (Suc w) n = fmt0 w (n div 10) @ [digit_char (n mod 10)]"
proof (cases "n < 10")
  case True
  have zero: "CHR ''0'' = digit_char 0" by (simp add: digit_char_def char_of_def bit_0)
  obtain v where v: "w = Suc v" using assms(2) by (cases w) auto
  show ?thesis using True
    by (simp add: fmt0_def show_nat.simps [of n] show_nat.simps [of 0] zero v
        replicate_append_same)
next
  case False
  then show ?thesis by (simp add: fmt0_def show_nat.simps [of n] Let_def)
qed

section \<open>ISO dates sort as dates\<close>

lemma append_less_iff:
  fixes a b c d :: "'a::linorder list"
  assumes "length a = length c"
  shows "a @ b < c @ d \<longleftrightarrow> a < c \<or> a = c \<and> b < d"
  using assms by (induction a c rule: list_induct2) auto

lemma less_div_mod_10:
  "(m::nat) < n \<longleftrightarrow> m div 10 < n div 10 \<or> m div 10 = n div 10 \<and> m mod 10 < n mod 10"
proof -
  have "10 * a + r < 10 * b + s \<longleftrightarrow> a < b \<or> a = b \<and> r < s" if "r < 10" "s < 10" for a b r s :: nat
    using that by arith
  from this [of "m mod 10" "n mod 10" "m div 10" "n div 10"] show ?thesis by simp
qed

lemma fmt0_less:
  "m < 10 ^ w \<Longrightarrow> n < 10 ^ w \<Longrightarrow> 0 < w \<Longrightarrow> fmt0 w m < fmt0 w n \<longleftrightarrow> m < n"
proof (induction w arbitrary: m n)
  case 0
  then show ?case by simp
next
  case (Suc w)
  show ?case
  proof (cases "w = 0")
    case True
    with Suc.prems show ?thesis
      by (simp add: fmt0_def show_nat.simps [of m] show_nat.simps [of n] digit_char_less)
  next
    case False
    from Suc.prems have div: "m div 10 < 10 ^ w" "n div 10 < 10 ^ w"
      by (simp_all add: less_mult_imp_div_less mult.commute)
    have eq: "fmt0 w (m div 10) = fmt0 w (n div 10) \<longleftrightarrow> m div 10 = n div 10"
      by (metis parse_fmt0)
    have split: "fmt0 (Suc w) m < fmt0 (Suc w) n \<longleftrightarrow>
        fmt0 w (m div 10) < fmt0 w (n div 10) \<or>
        m div 10 = n div 10 \<and> digit_char (m mod 10) < digit_char (n mod 10)"
      using False Suc.prems div by (subst (1 2) fmt0_Suc) (auto simp: append_less_iff eq)
    have IH: "fmt0 w (m div 10) < fmt0 w (n div 10) \<longleftrightarrow> m div 10 < n div 10"
      using Suc.IH [OF div] False by simp
    have dig: "digit_char (m mod 10) < digit_char (n mod 10) \<longleftrightarrow> m mod 10 < n mod 10"
      by (simp add: digit_char_less)
    show ?thesis unfolding split IH dig by (rule less_div_mod_10 [symmetric])
  qed
qed

lemma fmt0_eq [simp]: "fmt0 w m = fmt0 w n \<longleftrightarrow> m = n"
  by (metis parse_fmt0)

text \<open>Year, month and day that fit the four and two columns.\<close>

definition date_ok :: "nat \<Rightarrow> nat \<Rightarrow> nat \<Rightarrow> bool" where
  "date_ok y m d \<longleftrightarrow> 1 \<le> y \<and> 1 \<le> m \<and> m \<le> 12 \<and> 1 \<le> d \<and> d \<le> 31"

lemma iso_date_less:
  assumes "date_ok y m d" "date_ok y' m' d'" "y \<le> 9999" "y' \<le> 9999"
  shows "iso_date y m d < iso_date y' m' d' \<longleftrightarrow> (y, m, d) < (y', m', d')"
  using assms fmt0_less [of y 4 y'] fmt0_less [of m 2 m'] fmt0_less [of d 2 d']
  by (auto simp: iso_date_def date_ok_def append_less_iff)

lemma iso_month_day_less:
  assumes "date_ok y m d" "date_ok y' m' d'"
  shows "fmt0 2 m @ ''-'' @ fmt0 2 d < fmt0 2 m' @ ''-'' @ fmt0 2 d' \<longleftrightarrow> (m, d) < (m', d')"
  using assms fmt0_less [of m 2 m'] fmt0_less [of d 2 d']
  by (auto simp: date_ok_def append_less_iff)

section \<open>The scanners on well-formed text\<close>

lemma run1_append [simp]:
  "t \<noteq> [] \<Longrightarrow> \<forall>c\<in>set t. P c \<Longrightarrow> r = [] \<or> \<not> P (hd r) \<Longrightarrow> run1 P (t @ r) = Some (t, r)"
  by (cases r) (auto simp: run1_def Let_def takeWhile_eq_all_conv [THEN iffD2])

lemma run1_SomeD: "run1 P s = Some (t, r) \<Longrightarrow> s = t @ r \<and> t \<noteq> [] \<and> (\<forall>c\<in>set t. P c)"
  by (auto simp: run1_def Let_def split: if_splits dest: set_takeWhileD)

lemma lit_append [simp]: "lit p (p @ r) = Some r"
  by (induction p) auto

lemma dropWhile_space_show_nat [simp]: "dropWhile is_space (show_nat n @ r) = show_nat n @ r"
proof -
  have "is_digit (hd (show_nat n))" using show_nat_digits show_nat_not_Nil hd_in_set by blast
  then have "\<not> is_space (hd (show_nat n))" by (simp add: is_digit_def is_space_def Let_def)
  then show ?thesis
    by (metis append_is_Nil_conv dropWhile_eq_self_iff hd_append2 show_nat_not_Nil)
qed

lemma digits12_show_nat [simp]:
  "n \<le> 31 \<Longrightarrow> r = [] \<or> \<not> is_digit (hd r) \<Longrightarrow> digits12 (show_nat n @ r) = Some (show_nat n, r)"
  using length_show_nat [of n 2] by (simp add: digits12_def)

lemma not_is_digit [simp]:
  "\<not> is_digit (CHR ''.'')" "\<not> is_digit (CHR ''-'')" "\<not> is_digit (CHR '' '')"
  "\<not> is_digit (CHR ''s'')" "\<not> is_digit (CHR ''n'')" "\<not> is_digit (CHR ''r'')"
  "\<not> is_digit (CHR ''t'')"
  by (simp_all add: is_digit_def)

definition short_form :: "nat \<Rightarrow> nat \<Rightarrow> nat \<Rightarrow> string" where
  "short_form y m d = show_nat y @ ''.'' @ show_nat m @ ''.'' @ show_nat d"

definition long_form :: "nat \<Rightarrow> string \<Rightarrow> string \<Rightarrow> nat \<Rightarrow> string" where
  "long_form d suffix month y = show_nat d @ suffix @ '' of '' @ month @ '', '' @ show_nat y @ '' AD''"

lemma SHORT_DATE_RE_short_form:
  "m \<le> 31 \<Longrightarrow> d \<le> 31 \<Longrightarrow>
     SHORT_DATE_RE (short_form y m d) = Some (show_nat y, show_nat m, show_nat d)"
  using digits12_show_nat [of d "[]"] by (simp add: SHORT_DATE_RE_def short_form_def)

lemma parse_short_form:
  "date_ok y m d \<Longrightarrow> parse_ck3_short_date (short_form y m d) = Some (iso_date y m d)"
  by (simp add: parse_ck3_short_date_def SHORT_DATE_RE_short_form date_ok_def)

lemma digits12_show_natD:
  "r = [] \<or> \<not> is_digit (hd r) \<Longrightarrow> digits12 (show_nat n @ r) = Some (t, r') \<Longrightarrow> r' = r"
  by (simp add: digits12_def split: if_splits)

lemma LONG_DATE_RE_short_form: "LONG_DATE_RE (short_form y m d) = None"
proof (cases "digits12 (show_nat y @ ''.'' @ show_nat m @ ''.'' @ show_nat d)")
  case None
  then show ?thesis by (simp add: LONG_DATE_RE_def short_form_def)
next
  case (Some p)
  obtain t r where p: "p = (t, r)" by (cases p)
  with Some have "r = ''.'' @ show_nat m @ ''.'' @ show_nat d"
    by (intro digits12_show_natD [of _ y t r]) auto
  with Some p show ?thesis by (simp add: LONG_DATE_RE_def short_form_def)
qed

lemma parse_date_short_form:
  "date_ok y m d \<Longrightarrow> parse_ck3_date (short_form y m d) = Some (iso_date y m d)"
  by (simp add: parse_ck3_date_def parse_ck3_long_date_def LONG_DATE_RE_short_form
      parse_short_form)

lemma MONTHS_word: "(name, m) \<in> set MONTHS \<Longrightarrow> name \<noteq> [] \<and> (\<forall>c\<in>set name. is_word c)"
  by (auto simp: MONTHS_def is_word_def is_digit_def Let_def)

lemma spaces1_blank [simp]: "r \<noteq> [] \<Longrightarrow> \<not> is_space (hd r) \<Longrightarrow> spaces1 ('' '' @ r) = Some r"
  using run1_append [of "'' ''" is_space r] by (simp add: spaces1_def is_space_def)

lemma hd_word_not_space:
  "name \<noteq> [] \<Longrightarrow> \<forall>c\<in>set name. is_word c \<Longrightarrow> \<not> is_space (hd (name @ r))"
  by (cases name) (auto simp: is_word_def is_space_def is_digit_def Let_def)

lemma LONG_DATE_RE_long_form:
  assumes "d \<le> 31" and sfx: "sfx \<in> {''st'', ''nd'', ''rd'', ''th''}"
    and name: "name \<noteq> []" "\<forall>c\<in>set name. is_word c"
  shows "LONG_DATE_RE (long_form d sfx name y) = Some (show_nat d, name, show_nat y)"
proof -
  have blank: "spaces1 (CHR '' '' # r) = Some r" if "r \<noteq> []" "\<not> is_space (hd r)" for r
    using spaces1_blank [OF that] by simp
  have sy: "\<not> is_space (hd (show_nat y @ r))" for r
    using show_nat_digits [of y] hd_word_not_space [of "show_nat y" r]
    by (simp add: is_word_def)
  have yr: "run1 is_digit (show_nat y @ '' AD'') = Some (show_nat y, '' AD'')"
    by simp
  have mon: "run1 is_word (name @ '','' @ r) = Some (name, '','' @ r)" for r
    using name by (intro run1_append) (auto simp: is_word_def is_digit_def Let_def)
  have dd: "digits12 (show_nat d @ sfx @ r) = Some (show_nat d, sfx @ r)" for r
    using assms(1) sfx by (intro digits12_show_nat) auto
  have nsp: "\<not> is_space (CHR ''o'')" "\<not> is_space (CHR ''A'')"
    by (simp_all add: is_space_def)
  show ?thesis
    using dd mon yr sy name hd_word_not_space [OF name] sfx
    by (auto simp: LONG_DATE_RE_def long_form_def blank nsp)
qed

lemma parse_long_form:
  assumes "date_ok y m d" and "(name, m) \<in> set MONTHS"
    and "sfx \<in> {''st'', ''nd'', ''rd'', ''th''}"
  shows "parse_ck3_long_date (long_form d sfx name y) = Some (iso_date y m d)"
proof -
  have m: "dict_get MONTHS name = Some m"
    using assms(2) by (subst dict_get_mem) (auto simp: dict_ok_def MONTHS_def)
  have "LONG_DATE_RE (long_form d sfx name y) = Some (show_nat d, name, show_nat y)"
    using assms MONTHS_word [OF assms(2)]
    by (intro LONG_DATE_RE_long_form) (auto simp: date_ok_def)
  with m assms(1) show ?thesis
    by (simp add: parse_ck3_long_date_def date_ok_def)
qed

section \<open>What the parsers accept\<close>

lemma parse_date_long_form:
  assumes "date_ok y m d" and "(name, m) \<in> set MONTHS"
    and "sfx \<in> {''st'', ''nd'', ''rd'', ''th''}"
  shows "parse_ck3_date (long_form d sfx name y) = Some (iso_date y m d)"
  by (simp add: parse_ck3_date_def parse_long_form [OF assms])

lemma parse_short_sound:
  assumes "parse_ck3_short_date text = Some s"
  shows "\<exists>y m d. date_ok y m d \<and> s = iso_date y m d"
proof -
  from assms obtain y m d where "date_ok y m d" "s = iso_date y m d"
    by (auto simp: parse_ck3_short_date_def bind_eq_Some_conv date_ok_def Let_def Suc_le_eq
        split: if_splits)
  then show ?thesis by blast
qed

lemma MONTHS_range: "dict_get MONTHS name = Some m \<Longrightarrow> 1 \<le> m \<and> m \<le> 12"
  by (auto simp: MONTHS_def split: if_splits)

lemma parse_long_sound:
  assumes "parse_ck3_long_date text = Some s"
  shows "\<exists>y m d. date_ok y m d \<and> s = iso_date y m d"
proof -
  from assms obtain ds name ys m where m: "dict_get MONTHS name = Some m"
    and "0 < parse_nat ds" "parse_nat ds \<le> 31" "0 < parse_nat ys"
    and "s = iso_date (parse_nat ys) m (parse_nat ds)"
    by (auto simp: parse_ck3_long_date_def bind_eq_Some_conv Let_def Suc_le_eq split: if_splits)
  with MONTHS_range [OF m] have "date_ok (parse_nat ys) m (parse_nat ds)"
    by (simp add: date_ok_def)
  with \<open>s = _\<close> show ?thesis by blast
qed

lemma parse_date_sound:
  assumes "parse_ck3_date text = Some s"
  shows "\<exists>y m d. date_ok y m d \<and> s = iso_date y m d"
  using assms by (auto simp: parse_ck3_date_def split: option.splits
      dest: parse_long_sound parse_short_sound)

lemma parse_date_Nil [simp]: "parse_ck3_date [] = None"
  by (simp add: parse_ck3_date_def parse_ck3_long_date_def parse_ck3_short_date_def
      LONG_DATE_RE_def SHORT_DATE_RE_def digits12_def run1_def)

section \<open>The age at death\<close>

lemma take_4_iso: "1 \<le> y \<Longrightarrow> y \<le> 9999 \<Longrightarrow> take 4 (iso_date y m d) = fmt0 4 y"
  by (simp add: iso_date_def)

lemma drop_5_iso:
  "1 \<le> y \<Longrightarrow> y \<le> 9999 \<Longrightarrow> drop 5 (iso_date y m d) = fmt0 2 m @ ''-'' @ fmt0 2 d"
  by (simp add: iso_date_def)

lemma compute_death_age_iso:
  assumes b: "parse_ck3_date birth = Some (iso_date y m d)" "date_ok y m d" "y \<le> 9999"
    and d: "parse_ck3_date death = Some (iso_date y' m' d')" "date_ok y' m' d'" "y' \<le> 9999"
  shows "compute_death_age (Some birth) (Some death) =
    Some (max 0 (int y' - int y - (if (m', d') < (m, d) then 1 else 0)))"
proof -
  have "birth \<noteq> []" "death \<noteq> []" using b(1) d(1) by auto
  moreover have "1 \<le> y" "1 \<le> y'" using b(2) d(2) by (simp_all add: date_ok_def)
  ultimately show ?thesis
    using b d iso_month_day_less [OF d(2) b(2)]
    by (simp add: compute_death_age_def take_4_iso drop_5_iso Let_def max.commute)
qed

lemma compute_death_age_nonneg: "compute_death_age b d = Some a \<Longrightarrow> 0 \<le> a"
  by (auto simp: compute_death_age_def Let_def split: if_splits option.splits)

end
