(* ===== verification/Localization.thy ===== *)
theory Localization
  imports Dates
begin

text \<open>
  \<open>strip_loca_markup\<close> of \<open>save/localization.py\<close>: the rich-text markup of the game (a NAK byte,
  \<open>0x15\<close>, before each directive) removed from names before they reach an event. Each regular
  expression substitution is a left-to-right scan; the classes are the ASCII ones of
  \<^verbatim>\<open>Dates\<close>, with every non-ASCII byte a word character for the boundary after \<open>\x15L\<close>.
\<close>

section \<open>The substitutions\<close>

definition NAK :: char where
  "NAK = CHR 0x15"

definition is_upper :: "char \<Rightarrow> bool" where
  "is_upper c \<longleftrightarrow> 65 \<le> (of_char c :: nat) \<and> (of_char c :: nat) \<le> 90"

text \<open>\<open>_CK3_DIRECTIVE_WITH_PAYLOAD\<close>: what follows a payload directive, if one starts here.\<close>

definition after_directive :: "string \<Rightarrow> string option" where
  "after_directive s = (case run1 is_upper s of
       Some (_, r) \<Rightarrow> map_option (dropWhile (\<lambda>x. x \<noteq> NAK)) (lit '':'' r)
     | None \<Rightarrow> None)"

lemma length_lit: "lit p s = Some r \<Longrightarrow> length r \<le> length s"
  by (induction p s rule: lit.induct) (auto split: if_splits)

lemma length_after_directive:
  assumes "after_directive s = Some r"
  shows "length r < Suc (length s)"
proof -
  from assms obtain z where z: "lit '':'' (dropWhile is_upper s) = Some z"
    and r: "r = dropWhile (\<lambda>x. x \<noteq> NAK) z"
    by (auto simp: after_directive_def run1_def Let_def split: option.splits if_splits)
  have "length r \<le> length z" unfolding r by (rule length_dropWhile_le)
  also have "\<dots> \<le> length (dropWhile is_upper s)" by (rule length_lit [OF z])
  also have "\<dots> \<le> length s" by (rule length_dropWhile_le)
  finally show ?thesis by simp
qed

function sub_directives :: "string \<Rightarrow> string" where
  "sub_directives [] = []"
| "sub_directives (c # s) =
     (case (if c = NAK then after_directive s else None) of
        Some r \<Rightarrow> sub_directives r
      | None \<Rightarrow> c # sub_directives s)"
  by pat_completeness auto
termination
  by (relation "measure length") (auto split: if_splits dest: length_after_directive)

text \<open>\<open>_CK3_LITERAL_MARKER\<close> (\<open>\x15L\b\<close>) and \<open>_CK3_CLOSE_MARKER\<close> (\<open>\x15!\<close>).\<close>

definition word_byte :: "char \<Rightarrow> bool" where
  "word_byte c \<longleftrightarrow> is_word c \<or> 128 \<le> (of_char c :: nat)"

fun sub_literals :: "string \<Rightarrow> string" where
  "sub_literals (c # d # s) =
     (if c = NAK \<and> d = CHR ''L'' \<and> (s = [] \<or> \<not> word_byte (hd s)) then sub_literals s
      else c # sub_literals (d # s))"
| "sub_literals s = s"

fun sub_closes :: "string \<Rightarrow> string" where
  "sub_closes (c # d # s) =
     (if c = NAK \<and> d = CHR ''!'' then sub_closes s else c # sub_closes (d # s))"
| "sub_closes s = s"

text \<open>\<open>_WHITESPACE\<close>: every run of blanks becomes one space.\<close>

function collapse_spaces :: "string \<Rightarrow> string" where
  "collapse_spaces [] = []"
| "collapse_spaces (c # s) =
     (if is_space c then CHR '' '' # collapse_spaces (dropWhile is_space s)
      else c # collapse_spaces s)"
  by pat_completeness auto
termination
  by (relation "measure length") (auto simp: less_Suc_eq_le length_dropWhile_le)

definition leading_punct :: "char \<Rightarrow> bool" where
  "leading_punct c \<longleftrightarrow> is_space c \<or> c \<in> set '';,:.-''"

text \<open>\<open>_STRANDED_SEMICOLON\<close>: blanks, a semicolon or comma, blanks, starting at this place.\<close>

definition after_stranded :: "string \<Rightarrow> string option" where
  "after_stranded s = (case dropWhile is_space s of
       (d # r) \<Rightarrow> if d \<in> set '';,'' then spaces1 r else None
     | [] \<Rightarrow> None)"

lemma length_spaces1: "spaces1 s = Some r \<Longrightarrow> length r \<le> length s"
  by (auto simp: spaces1_def run1_def Let_def length_dropWhile_le bind_eq_Some_conv
      split: if_splits)

lemma length_after_stranded: "after_stranded s = Some r \<Longrightarrow> length r < Suc (length s)"
  using length_dropWhile_le [of is_space s]
  by (auto simp: after_stranded_def split: list.splits if_splits dest!: length_spaces1)

function sub_stranded :: "string \<Rightarrow> string" where
  "sub_stranded [] = []"
| "sub_stranded (c # s) =
     (case (if is_space c then after_stranded s else None) of
        Some r \<Rightarrow> CHR '' '' # sub_stranded r
      | None \<Rightarrow> c # sub_stranded s)"
  by pat_completeness auto
termination
  by (relation "measure length") (auto split: if_splits dest: length_after_stranded)

definition strip :: "string \<Rightarrow> string" where
  "strip s = rev (dropWhile is_space (rev (dropWhile is_space s)))"

definition strip_loca_markup :: "string option \<Rightarrow> string option" where
  "strip_loca_markup raw =
     (case raw of
        None \<Rightarrow> None
      | Some r \<Rightarrow>
          if r = [] \<or> NAK \<notin> set r then Some r
          else
            let s = sub_directives r;
                s = sub_literals s;
                s = sub_closes s;
                s = filter (\<lambda>c. c \<noteq> NAK) s;
                s = collapse_spaces s;
                s = dropWhile leading_punct s;
                s = sub_stranded s
            in Some (strip s))"

section \<open>No marker survives; the function is idempotent\<close>

lemma NAK_not_blank [simp]: "NAK \<noteq> CHR '' ''"
  by (simp add: NAK_def)

lemma set_dropWhile: "set (dropWhile P xs) \<subseteq> set xs"
  by (auto dest: set_dropWhileD)

lemma set_collapse_spaces: "set (collapse_spaces s) \<subseteq> insert (CHR '' '') (set s)"
proof (induction s rule: collapse_spaces.induct)
  case (2 c s)
  then show ?case
    using set_dropWhile [of is_space s] by (cases "is_space c") auto
qed simp

lemma set_lit: "lit p s = Some r \<Longrightarrow> set r \<subseteq> set s"
  by (induction p s rule: lit.induct) (auto split: if_splits)

lemma set_spaces1: "spaces1 s = Some r \<Longrightarrow> set r \<subseteq> set s"
  by (auto simp: spaces1_def bind_eq_Some_conv dest!: run1_SomeD)

lemma set_after_stranded:
  assumes "after_stranded s = Some r"
  shows "set r \<subseteq> set s"
proof (cases "dropWhile is_space s")
  case Nil
  with assms show ?thesis by (simp add: after_stranded_def)
next
  case (Cons d q)
  with assms have r: "spaces1 q = Some r" by (simp add: after_stranded_def split: if_splits)
  have "set q \<subseteq> set (dropWhile is_space s)" unfolding Cons by (rule set_subset_Cons)
  from subset_trans [OF this set_dropWhile] set_spaces1 [OF r] show ?thesis
    by (rule subset_trans [rotated])
qed

lemma set_sub_stranded: "set (sub_stranded s) \<subseteq> insert (CHR '' '') (set s)"
proof (induction s rule: sub_stranded.induct)
  case (2 c s)
  show ?case
  proof (cases "if is_space c then after_stranded s else None")
    case None
    with 2(1) show ?thesis by auto
  next
    case (Some r)
    then have "set r \<subseteq> set s" by (simp split: if_splits add: set_after_stranded)
    with 2(2) [OF Some] Some show ?thesis by auto
  qed
qed simp

lemma set_strip: "set (strip s) \<subseteq> set s"
  unfolding strip_def by (metis (no_types, lifting) set_dropWhile set_rev subset_trans)

lemma no_NAK_tail:
  "NAK \<notin> set (strip (sub_stranded (dropWhile leading_punct
     (collapse_spaces (filter (\<lambda>c. c \<noteq> NAK) s)))))"
proof
  assume "NAK \<in> set (strip (sub_stranded (dropWhile leading_punct
     (collapse_spaces (filter (\<lambda>c. c \<noteq> NAK) s)))))"
  then have "NAK \<in> set (collapse_spaces (filter (\<lambda>c. c \<noteq> NAK) s))"
    using set_strip set_sub_stranded set_dropWhile NAK_not_blank by (meson insertE subsetD)
  then have "NAK \<in> set (filter (\<lambda>c. c \<noteq> NAK) s)"
    using set_collapse_spaces NAK_not_blank by (meson insertE subsetD)
  then show False by simp
qed

lemma strip_loca_markup_no_NAK: "strip_loca_markup raw = Some t \<Longrightarrow> NAK \<notin> set t"
  using no_NAK_tail by (auto simp: strip_loca_markup_def Let_def split: option.splits if_splits)

lemma strip_loca_markup_unmarked: "NAK \<notin> set r \<Longrightarrow> strip_loca_markup (Some r) = Some r"
  by (simp add: strip_loca_markup_def)

lemma strip_loca_markup_None [simp]: "strip_loca_markup None = None"
  by (simp add: strip_loca_markup_def)

lemma strip_loca_markup_idem: "strip_loca_markup (strip_loca_markup raw) = strip_loca_markup raw"
  by (cases "strip_loca_markup raw")
    (simp_all add: strip_loca_markup_unmarked strip_loca_markup_no_NAK)

end
