(* ===== verification/Snapshot.thy ===== *)
theory Snapshot
  imports Prelude
begin

text \<open>
  The data model of \<open>src/chronicler/save/snapshot.py\<close>: one record per frozen dataclass, with
  the fields of the source in its order (the class's prefix is added, since Isabelle's field
  selectors share one name space).

  \<^item> \<open>int | None\<close> and \<open>str | None\<close> are options, tuples are lists, frozensets are finite
    sets, dictionaries are association lists (\<^verbatim>\<open>Prelude\<close>);
  \<^item> \<open>float\<close> is \<open>rat\<close>: a finite double is a rational, and the program only compares and
    copies them (NaN and the infinities are not represented);
  \<^item> the raw save records carried along in the last two fields are values of \<open>json\<close>, and so is
    the ethnicity, which the parser copies without looking at its type.

  The theory also states \<open>wf_snapshot\<close>, the invariant that the diff relies on: dictionaries
  keyed by the identifier of the record they hold, and the reverse index from holders to titles
  in agreement with the title table it was built from.
\<close>

section \<open>JSON values\<close>

datatype json =
    JNull
  | JBool bool
  | JInt int
  | JFloat rat
  | JStr string
  | JArr "json list"
  | JObj "(string \<times> json) list"

section \<open>Component dataclasses\<close>

record memory_snapshot =
  mem_memory_id :: int
  mem_memory_type :: string
  mem_creation_date :: string
  mem_end_date :: "string option"
  mem_participants :: "(string \<times> int) list"

record family_snapshot =
  fam_mother :: "int option"
  fam_father :: "int option"
  fam_primary_spouse :: "int option"
  fam_spouses :: "int list"
  fam_former_spouses :: "int list"
  fam_concubinist :: "int option"
  fam_concubines :: "int list"
  fam_children :: "int list"
  fam_betrothed :: "int list"

text \<open>\<open>FamilySnapshot()\<close> with every default.\<close>

definition empty_family :: family_snapshot where
  "empty_family = \<lparr>fam_mother = None, fam_father = None, fam_primary_spouse = None,
     fam_spouses = [], fam_former_spouses = [], fam_concubinist = None, fam_concubines = [],
     fam_children = [], fam_betrothed = []\<rparr>"

record character_snapshot =
  cs_ck3_id :: int
  cs_first_name :: "string option"
  cs_nickname :: "string option"
  cs_is_dead :: bool
  cs_female :: bool
  cs_birth_date :: "string option"
  cs_death_date :: "string option"
  cs_culture_id :: "int option"
  cs_faith_id :: "int option"
  cs_dynasty_house_id :: "int option"
  cs_ethnicity :: "json option"
  cs_traits :: "int list"
  cs_family :: family_snapshot
  cs_location_id :: "int option"
  cs_memories :: "memory_snapshot list"
  cs_death_cause :: "string option"
  cs_death_killer :: "int option"
  cs_government :: "string option"
  cs_decisions_taken :: "(string \<times> string) list"
  cs_gold :: "rat option"
  cs_prestige :: "rat option"
  cs_prestige_lifetime :: "rat option"
  cs_piety :: "rat option"
  cs_piety_lifetime :: "rat option"
  cs_modifiers :: "string list"
  cs_perks :: "string list"

record artifact_snapshot =
  art_artifact_id :: int
  art_name :: "string option"
  art_type :: "string option"
  art_rarity :: "string option"
  art_owner_id :: "int option"

record construction_snapshot =
  con_province_id :: int
  con_slot_index :: int
  con_building :: string
  con_start_date :: "string option"
  con_character_id :: "int option"

record epidemic_snapshot =
  ep_epidemic_id :: int
  ep_epidemic_type :: "string option"
  ep_name :: "string option"
  ep_intensity :: "string option"
  ep_creation_date :: "string option"
  ep_start_province :: "int option"
  ep_num_infected_provinces :: int
  ep_num_infected_characters :: int
  ep_num_character_deaths :: int

record activity_snapshot =
  act_activity_id :: int
  act_activity_type :: "string option"
  act_host_id :: "int option"
  act_creation_date :: "string option"
  act_active_start_date :: "string option"
  act_start_province_id :: "int option"
  act_attendees :: "int fset"

record inspiration_snapshot =
  insp_inspiration_id :: int
  insp_inspiration_type :: "string option"
  insp_sponsored :: "string option"
  insp_total_cost :: int
  insp_progress :: int
  insp_artisan_character_id :: "int option"

record domicile_snapshot =
  dom_domicile_id :: int
  dom_owner_title_id :: "int option"
  dom_domicile_type :: "string option"
  dom_province_id :: "int option"

record court_position_snapshot =
  pos_position_id :: int
  pos_court_position :: "string option"
  pos_employee_id :: "int option"
  pos_employer_id :: "int option"
  pos_hire_date :: "string option"

record contract_snapshot =
  ctr_contract_id :: int
  ctr_contract_type :: "string option"
  ctr_name :: "string option"
  ctr_tier :: "int option"
  ctr_employer_id :: "int option"
  ctr_owner_id :: "int option"
  ctr_location_province_id :: "int option"
  ctr_status :: string
  ctr_acceptance_date :: "string option"
  ctr_completion_date :: "string option"

record war_snapshot =
  war_war_id :: int
  war_name :: "string option"
  war_start_date :: "string option"
  war_casus_belli_type :: "string option"
  war_targeted_titles :: "int list"
  war_primary_attacker_id :: "int option"
  war_primary_defender_id :: "int option"
  war_claimant_id :: "int option"
  war_attacker_participants :: "int fset"
  war_defender_participants :: "int fset"

record title_snapshot =
  tit_title_id :: int
  tit_key :: string
  tit_name :: "string option"
  tit_tier :: string
  tit_holder_id :: "int option"
  tit_de_jure_liege_id :: "int option"

section \<open>Tier of a title from its key\<close>

definition TIER_PREFIX_MAP :: "(string, string) dict" where
  "TIER_PREFIX_MAP =
    [(''b_'', ''barony''), (''c_'', ''county''), (''d_'', ''duchy''), (''k_'', ''kingdom''),
     (''e_'', ''empire'')]"

definition tier_from_key :: "string \<Rightarrow> string" where
  "tier_from_key key =
     (if 2 \<le> length key \<and> key ! 1 = CHR ''_''
      then dict_get_default TIER_PREFIX_MAP (take 2 key) ''other''
      else ''other'')"

section \<open>The snapshot of one save\<close>

record save_snapshot =
  sn_playthrough_id :: string
  sn_ck3_version :: string
  sn_bookmark_date :: "string option"
  sn_current_date :: string
  sn_player_character_id :: "int option"
  sn_characters :: "(int, character_snapshot) dict"
  sn_alliances :: "(int, int fset) dict"
  sn_traits_lookup :: "string list"
  sn_houses_lookup :: "(int, string) dict"
  sn_cultures_lookup :: "(int, string) dict"
  sn_faiths_lookup :: "(int, string) dict"
  sn_dynasties_lookup :: "(int, string) dict"
  sn_house_to_dynasty :: "(int, int) dict"
  sn_titles :: "(int, title_snapshot) dict"
  sn_title_holders :: "(int, int fset) dict"
  sn_kingdoms_by_de_jure_empire :: "(int, int fset) dict"
  sn_wars :: "(int, war_snapshot) dict"
  sn_character_to_wars :: "(int, int fset) dict"
  sn_artifacts :: "(int, artifact_snapshot) dict"
  sn_character_to_artifacts :: "(int, int fset) dict"
  sn_dynasty_perks :: "(int, string fset) dict"
  sn_dynasty_renown :: "(int, rat) dict"
  sn_dynasty_heads :: "(int, int) dict"
  sn_epidemics :: "(int, epidemic_snapshot) dict"
  sn_character_to_epidemics :: "(int, int fset) dict"
  sn_in_flight_constructions :: "(int \<times> int, construction_snapshot) dict"
  sn_character_to_constructions :: "(int, (int \<times> int) fset) dict"
  sn_holding_buildings_by_slot :: "(int \<times> int, string) dict"
  sn_activities :: "(int, activity_snapshot) dict"
  sn_character_to_activities :: "(int, int fset) dict"
  sn_inspirations :: "(int, inspiration_snapshot) dict"
  sn_character_to_sponsored_inspirations :: "(int, int fset) dict"
  sn_task_contracts :: "(int, contract_snapshot) dict"
  sn_character_to_contracts :: "(int, int fset) dict"
  sn_court_positions :: "(int, court_position_snapshot) dict"
  sn_character_to_court_positions :: "(int, int fset) dict"
  sn_domiciles :: "(int, domicile_snapshot) dict"
  sn_character_to_domicile :: "(int, int) dict"
  sn_dynasties_renown :: "(int, rat) dict"
  sn_tracked_raw_records :: "(int, json) dict"
  sn_tracked_coa :: "(int, json) dict"

text \<open>\<open>SaveSnapshot(\<dots>)\<close> with the five mandatory fields and every default.\<close>

definition new_snapshot ::
  "string \<Rightarrow> string \<Rightarrow> string option \<Rightarrow> string \<Rightarrow> int option \<Rightarrow> save_snapshot" where
  "new_snapshot playthrough version bookmark current player =
    \<lparr>sn_playthrough_id = playthrough, sn_ck3_version = version, sn_bookmark_date = bookmark,
     sn_current_date = current, sn_player_character_id = player,
     sn_characters = [], sn_alliances = [], sn_traits_lookup = [], sn_houses_lookup = [],
     sn_cultures_lookup = [], sn_faiths_lookup = [], sn_dynasties_lookup = [],
     sn_house_to_dynasty = [], sn_titles = [], sn_title_holders = [],
     sn_kingdoms_by_de_jure_empire = [], sn_wars = [], sn_character_to_wars = [],
     sn_artifacts = [], sn_character_to_artifacts = [], sn_dynasty_perks = [],
     sn_dynasty_renown = [], sn_dynasty_heads = [], sn_epidemics = [],
     sn_character_to_epidemics = [], sn_in_flight_constructions = [],
     sn_character_to_constructions = [], sn_holding_buildings_by_slot = [],
     sn_activities = [], sn_character_to_activities = [], sn_inspirations = [],
     sn_character_to_sponsored_inspirations = [], sn_task_contracts = [],
     sn_character_to_contracts = [], sn_court_positions = [],
     sn_character_to_court_positions = [], sn_domiciles = [], sn_character_to_domicile = [],
     sn_dynasties_renown = [], sn_tracked_raw_records = [], sn_tracked_coa = []\<rparr>"

text \<open>\<open>CharacterSnapshot(\<dots>)\<close> with its thirteen mandatory fields and every default.\<close>

definition new_character ::
  "int \<Rightarrow> string option \<Rightarrow> string option \<Rightarrow> bool \<Rightarrow> bool \<Rightarrow> string option \<Rightarrow> string option
   \<Rightarrow> int option \<Rightarrow> int option \<Rightarrow> int option \<Rightarrow> json option \<Rightarrow> int list \<Rightarrow> family_snapshot
   \<Rightarrow> character_snapshot" where
  "new_character ck3_id first nick dead fem birth death culture faith house ethnicity traits fam =
    \<lparr>cs_ck3_id = ck3_id, cs_first_name = first, cs_nickname = nick, cs_is_dead = dead,
     cs_female = fem, cs_birth_date = birth, cs_death_date = death, cs_culture_id = culture,
     cs_faith_id = faith, cs_dynasty_house_id = house, cs_ethnicity = ethnicity,
     cs_traits = traits, cs_family = fam, cs_location_id = None, cs_memories = [],
     cs_death_cause = None, cs_death_killer = None, cs_government = None,
     cs_decisions_taken = [], cs_gold = None, cs_prestige = None, cs_prestige_lifetime = None,
     cs_piety = None, cs_piety_lifetime = None, cs_modifiers = [], cs_perks = []\<rparr>"

section \<open>Well-formedness\<close>

text \<open>
  Every character is stored under its own identifier, as the parser stores it. This is what
  makes the primary character of an event the loop variable of the diff.
\<close>

definition wf_characters :: "save_snapshot \<Rightarrow> bool" where
  "wf_characters s \<longleftrightarrow>
     (\<forall>(cid, c) \<in> set (sn_characters s). cs_ck3_id c = cid)"

text \<open>
  The holder index, where present, lists exactly the titles whose record names that holder;
  an absent (empty) index is what hand-made snapshots have, and the program then scans.
\<close>

definition holders_agree :: "save_snapshot \<Rightarrow> bool" where
  "holders_agree s \<longleftrightarrow>
     (sn_title_holders s \<noteq> [] \<longrightarrow>
       (\<forall>hid tid. tid |\<in>| dict_get_default (sn_title_holders s) hid {||} \<longleftrightarrow>
          (\<exists>t. dict_get (sn_titles s) tid = Some t \<and> tit_holder_id t = Some hid)))"

definition wf_titles :: "save_snapshot \<Rightarrow> bool" where
  "wf_titles s \<longleftrightarrow> dict_ok (sn_titles s) \<and>
     (\<forall>(tid, t) \<in> set (sn_titles s). tit_title_id t = tid)"

definition wf_snapshot :: "save_snapshot \<Rightarrow> bool" where
  "wf_snapshot s \<longleftrightarrow> wf_characters s \<and> wf_titles s \<and> holders_agree s"

lemma wf_charactersD:
  "wf_characters s \<Longrightarrow> dict_get (sn_characters s) cid = Some c \<Longrightarrow> cs_ck3_id c = cid"
  by (auto simp: wf_characters_def dest!: dict_get_memD)

lemma wf_snapshotD:
  assumes "wf_snapshot s"
  shows "wf_characters s" and "wf_titles s" and "holders_agree s"
  using assms by (simp_all add: wf_snapshot_def)

lemma holders_agreeD:
  "holders_agree s \<Longrightarrow> sn_title_holders s \<noteq> [] \<Longrightarrow>
     tid |\<in>| dict_get_default (sn_title_holders s) hid {||} \<longleftrightarrow>
       (\<exists>t. dict_get (sn_titles s) tid = Some t \<and> tit_holder_id t = Some hid)"
  by (simp add: holders_agree_def)

lemma wf_titlesD:
  "wf_titles s \<Longrightarrow> dict_get (sn_titles s) tid = Some t \<Longrightarrow> tit_title_id t = tid"
  by (auto simp: wf_titles_def dest!: dict_get_memD)

lemma new_snapshot_wf: "wf_snapshot (new_snapshot p v b d pl)"
  by (simp add: wf_snapshot_def wf_characters_def wf_titles_def holders_agree_def
      new_snapshot_def)

end
