(* ===== verification/Py_Json.thy ===== *)
theory Py_Json
  imports Dates Snapshot
begin

text \<open>
  What the parser does with untyped JSON values: Python's truth value, \<open>dict.get\<close>, \<open>str\<close>, and the
  coercions at the head of \<open>save/parse.py\<close>. A value of \<^typ>\<open>json\<close> stands for the decoded Python
  object; a decimal number is the exact rational, so rounding, infinities and NaN are left out,
  and \<open>str\<close> of a number with a fraction or of a container is the argument \<open>repr\<close>.
\<close>

section \<open>Python on JSON values\<close>

type_synonym obj = "(string, json) dict"

fun truthy :: "json \<Rightarrow> bool" where
  "truthy JNull = False"
| "truthy (JBool b) = b"
| "truthy (JInt i) = (i \<noteq> 0)"
| "truthy (JFloat r) = (r \<noteq> 0)"
| "truthy (JStr s) = (s \<noteq> [])"
| "truthy (JArr xs) = (xs \<noteq> [])"
| "truthy (JObj d) = (d \<noteq> [])"

text \<open>\<open>d.get(k)\<close>, and \<open>d.get(k) or {}\<close>.\<close>

definition get :: "obj \<Rightarrow> string \<Rightarrow> json" where
  "get d k = (case dict_get d k of None \<Rightarrow> JNull | Some v \<Rightarrow> v)"

text \<open>\<open>isinstance(v, dict)\<close>.\<close>

definition is_obj :: "json \<Rightarrow> bool" where
  "is_obj v = (case v of JObj _ \<Rightarrow> True | _ \<Rightarrow> False)"

definition or_dict :: "json \<Rightarrow> json" where
  "or_dict v = (if truthy v then v else JObj [])"

text \<open>\<open>v.get(\<dots>)\<close> needs a dictionary; anything else raises.\<close>

fun as_dict :: "json \<Rightarrow> obj result" where
  "as_dict (JObj d) = Inr d"
| "as_dict _ = Inl BadType"

definition show_int :: "int \<Rightarrow> string" where
  "show_int i = (if i < 0 then CHR ''-'' # show_nat (nat (- i)) else show_nat (nat i))"

fun py_str :: "(json \<Rightarrow> string) \<Rightarrow> json \<Rightarrow> string" where
  "py_str repr JNull = ''None''"
| "py_str repr (JBool b) = (if b then ''True'' else ''False'')"
| "py_str repr (JInt i) = show_int i"
| "py_str repr (JStr s) = s"
| "py_str repr v = repr v"

section \<open>Numbers from text\<close>

text \<open>
  \<open>int(text)\<close>: blanks around, a sign, digits with single underscores between them, at most 4300
  of them. \<open>float(text)\<close> adds a fraction and an exponent.
\<close>

definition trim :: "string \<Rightarrow> string" where
  "trim s = rev (dropWhile is_space (rev (dropWhile is_space s)))"

fun sign_of :: "string \<Rightarrow> int \<times> string" where
  "sign_of (c # s) = (if c = CHR ''-'' then (- 1, s) else if c = CHR ''+'' then (1, s) else (1, c # s))"
| "sign_of [] = (1, [])"

text \<open>Digits with underscores: the digits, if the text has that form.\<close>

fun digit_part :: "string \<Rightarrow> string option" where
  "digit_part [c] = (if is_digit c then Some [c] else None)"
| "digit_part (c # d # s) =
     (if \<not> is_digit c then None
      else map_option (Cons c) (digit_part (if d = CHR ''_'' then s else d # s)))"
| "digit_part [] = None"

definition int_of_text :: "string \<Rightarrow> int option" where
  "int_of_text text =
     (let (sgn, s) = sign_of (trim text) in
      case digit_part s of
        None \<Rightarrow> None
      | Some ds \<Rightarrow> if length ds > 4300 then None else Some (sgn * int (parse_nat ds)))"

text \<open>The decimal mantissa and exponent of \<open>float\<close>.\<close>

definition split_at :: "(char \<Rightarrow> bool) \<Rightarrow> string \<Rightarrow> string \<times> string option" where
  "split_at P s = (case dropWhile (\<lambda>c. \<not> P c) s of
     [] \<Rightarrow> (s, None) | _ # r \<Rightarrow> (takeWhile (\<lambda>c. \<not> P c) s, Some r))"

definition opt_digits :: "string \<Rightarrow> string option" where
  "opt_digits s = (if s = [] then Some [] else digit_part s)"

definition mantissa :: "string \<Rightarrow> rat option" where
  "mantissa s = (case split_at (\<lambda>c. c = CHR ''.'') s of
     (whole, None) \<Rightarrow> map_option (\<lambda>ds. of_nat (parse_nat ds)) (digit_part whole)
   | (whole, Some fp) \<Rightarrow>
       if whole = [] \<and> fp = [] then None
       else do {
         ds \<leftarrow> opt_digits whole;
         fs \<leftarrow> opt_digits fp;
         Some (of_nat (parse_nat (ds @ fs)) / 10 ^ length fs) })"

definition scale :: "rat \<Rightarrow> int \<Rightarrow> rat" where
  "scale r e = (if e < 0 then r / 10 ^ nat (- e) else r * 10 ^ nat e)"

definition float_of_text :: "string \<Rightarrow> rat option" where
  "float_of_text text =
     (let (sgn, s) = sign_of (trim text) in
      case split_at (\<lambda>c. c = CHR ''e'' \<or> c = CHR ''E'') s of
        (m, None) \<Rightarrow> map_option (\<lambda>r. of_int sgn * r) (mantissa m)
      | (m, Some ex) \<Rightarrow>
          (let (esgn, es) = sign_of ex in do {
             r \<leftarrow> mantissa m;
             ds \<leftarrow> digit_part es;
             Some (of_int sgn * scale r (esgn * int (parse_nat ds))) }))"

definition truncate_rat :: "rat \<Rightarrow> int" where
  "truncate_rat r = (if r < 0 then - floor (- r) else floor r)"

section \<open>The coercions of the parser\<close>

fun coerce_int :: "json \<Rightarrow> int option" where
  "coerce_int (JBool b) = Some (if b then 1 else 0)"
| "coerce_int (JInt i) = Some i"
| "coerce_int (JFloat r) = Some (truncate_rat r)"
| "coerce_int (JStr s) = int_of_text s"
| "coerce_int _ = None"

text \<open>\<open>float(i)\<close> of an integer that rounds to no finite double raises \<open>OverflowError\<close>, which \<open>_coerce_float\<close>
  does not catch: from half a unit above the greatest double on, in either direction.\<close>

definition FLOAT_LIMIT :: int where
  "FLOAT_LIMIT = 2 ^ 1024 - 2 ^ 970"

fun coerce_float :: "json \<Rightarrow> rat option result" where
  "coerce_float (JBool b) = Inr (Some (if b then 1 else 0))"
| "coerce_float (JInt i) = (if FLOAT_LIMIT \<le> \<bar>i\<bar> then Inl OverflowError else Inr (Some (of_int i)))"
| "coerce_float (JFloat r) = Inr (Some r)"
| "coerce_float (JStr s) = Inr (float_of_text s)"
| "coerce_float _ = Inr None"

fun opt_text :: "json \<Rightarrow> string option" where
  "opt_text (JStr s) = (if s = [] then None else Some s)"
| "opt_text _ = None"

definition opt_str :: "obj \<Rightarrow> string \<Rightarrow> string option" where
  "opt_str raw key = opt_text (get raw key)"

text \<open>\<open>_parse_currency\<close>: the accrued total when preferred and there, else the first balance.\<close>

definition or_next :: "rat option result \<Rightarrow> rat option result \<Rightarrow> rat option result" where
  "or_next m n = bindr m (\<lambda>v. if v \<noteq> None then Inr v else n)"

definition parse_currency :: "bool \<Rightarrow> json \<Rightarrow> rat option result" where
  "parse_currency accrued raw =
     (case raw of
        JObj d \<Rightarrow>
          or_next (if accrued then coerce_float (get d ''accrued'') else Inr None)
            (or_next (coerce_float (get d ''currency'')) (coerce_float (get d ''value'')))
      | _ \<Rightarrow> coerce_float raw)"

definition as_int_tuple :: "json \<Rightarrow> int list" where
  "as_int_tuple v =
     (case v of
        JArr xs \<Rightarrow> List.map_filter coerce_int xs
      | _ \<Rightarrow> (case coerce_int v of None \<Rightarrow> [] | Some i \<Rightarrow> [i]))"

text \<open>The rows of a table whose key is an integer and whose value is a record.\<close>

definition int_rows :: "json \<Rightarrow> (int \<times> obj) list" where
  "int_rows node =
     (case node of
        JObj d \<Rightarrow> List.map_filter (\<lambda>(raw_id, raw).
          case raw of JObj r \<Rightarrow> map_option (\<lambda>rid. (rid, r)) (int_of_text raw_id) | _ \<Rightarrow> None) d
      | _ \<Rightarrow> [])"

text \<open>\<open>_iter_db_records\<close>: the guarded walk down the path, then the rows of the table.\<close>

fun walk :: "json \<Rightarrow> string list \<Rightarrow> json" where
  "walk node [] = node"
| "walk (JObj d) (key # path) = walk (or_dict (get d key)) path"
| "walk _ (key # path) = JNull"

definition iter_db_records :: "obj \<Rightarrow> string list \<Rightarrow> (int \<times> obj) list" where
  "iter_db_records data path = int_rows (walk (JObj data) path)"

text \<open>The integers of a list of entries, as a set.\<close>

definition int_set :: "json \<Rightarrow> int fset" where
  "int_set v = (case v of JArr xs \<Rightarrow> fset_of_list (List.map_filter coerce_int xs) | _ \<Rightarrow> {||})"

section \<open>Reverse indexes\<close>

text \<open>\<open>builder.setdefault(k, set()).add(v)\<close>, for a list of pairs in order.\<close>

definition add_index :: "('k, 'v fset) dict \<Rightarrow> 'k \<times> 'v \<Rightarrow> ('k, 'v fset) dict" where
  "add_index d kv = dict_set d (fst kv) (finsert (snd kv) (dict_get_default d (fst kv) {||}))"

definition build_index :: "('k \<times> 'v) list \<Rightarrow> ('k, 'v fset) dict" where
  "build_index kvs = foldl add_index [] kvs"

text \<open>A table filled row by row: a later row with the same key overwrites.\<close>

definition build_table :: "('k \<times> 'r) list \<Rightarrow> ('k, 'r) dict" where
  "build_table rows = foldl (\<lambda>d (k, r). dict_set d k r) [] rows"

text \<open>The reverse index of a list of rows: every owner of a row gets its identifier.\<close>

definition index_by :: "('r \<Rightarrow> 'k list) \<Rightarrow> ('i \<times> 'r) list \<Rightarrow> ('k, 'i fset) dict" where
  "index_by owners rows = build_index (concat (map (\<lambda>(i, r). map (\<lambda>k. (k, i)) (owners r)) rows))"

text \<open>\<open>data.get(k) or {}\<close> read as a dictionary, and \<open>(data.get(a) or {}).get(b) or {}\<close>.\<close>

definition section_of :: "obj \<Rightarrow> string \<Rightarrow> obj result" where
  "section_of data a = as_dict (or_dict (get data a))"

definition subsection_of :: "obj \<Rightarrow> string \<Rightarrow> string \<Rightarrow> json result" where
  "subsection_of data a b = bindr (section_of data a) (\<lambda>d. Inr (or_dict (get d b)))"

lemma dict_get_default_Nil [simp]: "dict_get_default [] k z = z"
  by (simp add: dict_get_default_def)

lemma dict_get_default_set [simp]:
  "dict_get_default (dict_set d k v) k' z = (if k = k' then v else dict_get_default d k' z)"
  by (simp add: dict_get_default_def)

lemma add_index_get:
  "dict_get_default (add_index d (k, v)) k' {||} =
     (if k = k' then finsert v (dict_get_default d k' {||}) else dict_get_default d k' {||})"
  by (simp add: add_index_def)

lemma foldl_add_index:
  "v |\<in>| dict_get_default (foldl add_index d kvs) k {||} \<longleftrightarrow>
     v |\<in>| dict_get_default d k {||} \<or> (k, v) \<in> set kvs"
proof (induction kvs arbitrary: d)
  case (Cons kv kvs)
  then show ?case by (cases kv) (auto simp: add_index_get)
qed simp

lemma build_index_mem: "v |\<in>| dict_get_default (build_index kvs) k {||} \<longleftrightarrow> (k, v) \<in> set kvs"
  by (simp add: build_index_def foldl_add_index)

text \<open>Two orders of the same pairs give indexes with the same entries.\<close>

lemma build_index_cong:
  "set kvs = set kvs' \<Longrightarrow> dict_get_default (build_index kvs) k {||} = dict_get_default (build_index kvs') k {||}"
  by (rule fset_eqI) (simp add: build_index_mem)

lemma foldl_table_ok: "dict_ok d \<Longrightarrow> dict_ok (foldl (\<lambda>d (k, r). dict_set d k r) d rows)"
  by (induction rows arbitrary: d) auto

lemma build_table_ok: "dict_ok (build_table rows)"
  by (simp add: build_table_def foldl_table_ok)

lemma foldl_table_get:
  "dict_get (foldl (\<lambda>d (k, r). dict_set d k r) d rows) k =
     (case map_of (rev rows) k of None \<Rightarrow> dict_get d k | Some r \<Rightarrow> Some r)"
proof (induction rows rule: rev_induct)
  case (snoc row rows)
  then show ?case by (cases row) simp
qed simp

lemma build_table_get: "dict_get (build_table rows) k = map_of (rev rows) k"
  by (simp add: build_table_def foldl_table_get split: option.split)

lemma build_table_SomeD: "dict_get (build_table rows) k = Some r \<Longrightarrow> (k, r) \<in> set rows"
  by (auto simp: build_table_get dest: map_of_SomeD)

lemma build_table_mem: "(k, r) \<in> set (build_table rows) \<Longrightarrow> (k, r) \<in> set rows"
  using dict_get_mem [OF build_table_ok, of rows k r] build_table_SomeD by metis

lemma build_table_hit: "(k, r) \<in> set rows \<Longrightarrow> \<exists>r'. dict_get (build_table rows) k = Some r'"
  by (cases "map_of (rev rows) k") (force simp: build_table_get map_of_eq_None_iff)+

lemma build_table_distinct:
  "distinct (map fst rows) \<Longrightarrow> dict_get (build_table rows) k = Some r \<longleftrightarrow> (k, r) \<in> set rows"
  by (simp add: build_table_get map_of_eq_Some_iff rev_map [symmetric])

text \<open>
  What a parser relies on when it fills a table and its reverse index from the same rows: each
  row carries its own identifier.
\<close>

locale keyed_rows =
  fixes rows :: "(int \<times> 'r) list" and ident :: "'r \<Rightarrow> int"
  assumes rows_ident: "(i, r) \<in> set rows \<Longrightarrow> ident r = i"
begin

lemma table_ident: "dict_get (build_table rows) i = Some r \<Longrightarrow> ident r = i"
  by (rule rows_ident) (rule build_table_SomeD)

lemma index_mem:
  "i |\<in>| dict_get_default (index_by owners rows) k {||} \<longleftrightarrow> (\<exists>r. (i, r) \<in> set rows \<and> k \<in> set (owners r))"
  by (force simp: index_by_def build_index_mem)

lemma index_recorded:
  "i |\<in>| dict_get_default (index_by owners rows) k {||} \<Longrightarrow>
     \<exists>r. dict_get (build_table rows) i = Some r \<and> ident r = i"
  using build_table_hit table_ident by (metis index_mem)

text \<open>When no identifier occurs twice, the index is the inverse of the table.\<close>

lemma index_inverse:
  assumes "distinct (map fst rows)"
  shows "i |\<in>| dict_get_default (index_by owners rows) k {||} \<longleftrightarrow>
    (\<exists>r. dict_get (build_table rows) i = Some r \<and> k \<in> set (owners r))"
  using assms by (simp add: index_mem build_table_distinct)

end

section \<open>Facts on the readers\<close>

lemma get_simps [simp]:
  "get [] k = JNull"
  "get ((k', v) # d) k = (if k = k' then v else get d k)"
  by (simp_all add: get_def)

lemma opt_text_Some [simp]: "opt_text v = Some s \<longleftrightarrow> v = JStr s \<and> s \<noteq> []"
  by (cases v) auto

lemma opt_str_Some [simp]: "opt_str raw k = Some s \<longleftrightarrow> get raw k = JStr s \<and> s \<noteq> []"
  by (simp add: opt_str_def)

end
