(* ===== verification/Name_Decode.thy ===== *)
theory Name_Decode
  imports Localization Py_Json
begin

text \<open>
  The name decoding of \<open>save/localization.py\<close> (\<open>decode_ck3_name\<close>, \<open>decode_house_name\<close>) and the
  resolvers of \<open>save/ck3_names.py\<close>. Text is the UTF-8 bytes; every escape is a letter and an
  underscore, both ASCII, so the scan over bytes and Python's scan over code points take the
  same steps. The tables the program loads from the game's files are the arguments \<open>names\<close>
  and \<open>dynasties\<close>.
\<close>

section \<open>The tables\<close>

definition ESCAPE_MAP :: "(string, string) dict" where
  "ESCAPE_MAP =
    [(''E_'', [CHR 0xC3, CHR 0x86]), (''e_'', [CHR 0xC3, CHR 0xA6]),
     (''T_'', [CHR 0xC3, CHR 0x9E]), (''t_'', [CHR 0xC3, CHR 0xBE]),
     (''D_'', [CHR 0xC3, CHR 0x90]), (''d_'', [CHR 0xC3, CHR 0xB0]),
     (''O_'', [CHR 0xC3, CHR 0x98]), (''o_'', [CHR 0xC3, CHR 0xB8]),
     (''A_'', [CHR 0xC3, CHR 0x85]), (''a_'', [CHR 0xC3, CHR 0xA5])]"

definition is_lower :: "char \<Rightarrow> bool" where
  "is_lower c \<longleftrightarrow> 97 \<le> (of_char c :: nat) \<and> (of_char c :: nat) \<le> 122"

definition LC_ESCAPE_MAP :: "(string, string) dict" where
  "LC_ESCAPE_MAP = filter (\<lambda>(k, v). is_lower (hd k)) ESCAPE_MAP"

definition CULTURE_DIACRITIC_MAPS :: "(string, (string, string) dict) dict" where
  "CULTURE_DIACRITIC_MAPS =
    [(''anglo_saxon'',
      [(''E_'', [CHR 0xC3, CHR 0x86]), (''e_'', [CHR 0xC3, CHR 0xA6]),
       (''T_'', [CHR 0xC3, CHR 0x9E]), (''t_'', [CHR 0xC3, CHR 0xBE]),
       (''D_'', [CHR 0xC3, CHR 0x90]), (''d_'', [CHR 0xC3, CHR 0xB0])]),
     (''english'',
      [(''E_'', [CHR 0xC3, CHR 0x86]), (''e_'', [CHR 0xC3, CHR 0xA6]),
       (''T_'', [CHR 0xC3, CHR 0x9E]), (''t_'', [CHR 0xC3, CHR 0xBE]),
       (''D_'', [CHR 0xC3, CHR 0x90]), (''d_'', [CHR 0xC3, CHR 0xB0])]),
     (''norse'',
      [(''E_'', [CHR 0xC3, CHR 0x86]), (''e_'', [CHR 0xC3, CHR 0xA6]),
       (''T_'', [CHR 0xC3, CHR 0x9E]), (''t_'', [CHR 0xC3, CHR 0xBE]),
       (''D_'', [CHR 0xC3, CHR 0x90]), (''d_'', [CHR 0xC3, CHR 0xB0]),
       (''O_'', [CHR 0xC3, CHR 0x96]), (''o_'', [CHR 0xC3, CHR 0xB6]),
       (''A_'', [CHR 0xC3, CHR 0x85]), (''a_'', [CHR 0xC3, CHR 0xA5])]),
     (''icelandic'',
      [(''A_'', [CHR 0xC3, CHR 0x81]), (''a_'', [CHR 0xC3, CHR 0xA1]),
       (''E_'', [CHR 0xC3, CHR 0x89]), (''e_'', [CHR 0xC3, CHR 0xA9]),
       (''I_'', [CHR 0xC3, CHR 0x8D]), (''i_'', [CHR 0xC3, CHR 0xAD]),
       (''O_'', [CHR 0xC3, CHR 0x93]), (''o_'', [CHR 0xC3, CHR 0xB3]),
       (''U_'', [CHR 0xC3, CHR 0x9A]), (''u_'', [CHR 0xC3, CHR 0xBA]),
       (''T_'', [CHR 0xC3, CHR 0x9E]), (''t_'', [CHR 0xC3, CHR 0xBE]),
       (''D_'', [CHR 0xC3, CHR 0x90]), (''d_'', [CHR 0xC3, CHR 0xB0])]),
     (''castilian'',
      [(''A_'', [CHR 0xC3, CHR 0x81]), (''a_'', [CHR 0xC3, CHR 0xA1]),
       (''E_'', [CHR 0xC3, CHR 0x89]), (''e_'', [CHR 0xC3, CHR 0xA9]),
       (''I_'', [CHR 0xC3, CHR 0x8D]), (''i_'', [CHR 0xC3, CHR 0xAD]),
       (''O_'', [CHR 0xC3, CHR 0x93]), (''o_'', [CHR 0xC3, CHR 0xB3]),
       (''U_'', [CHR 0xC3, CHR 0x9A]), (''u_'', [CHR 0xC3, CHR 0xBA]),
       (''N_'', [CHR 0xC3, CHR 0x91]), (''n_'', [CHR 0xC3, CHR 0xB1])]),
     (''occitan'',
      [(''A_'', [CHR 0xC3, CHR 0x80]), (''a_'', [CHR 0xC3, CHR 0xA0]),
       (''E_'', [CHR 0xC3, CHR 0x88]), (''e_'', [CHR 0xC3, CHR 0xA8]),
       (''I_'', [CHR 0xC3, CHR 0x8C]), (''i_'', [CHR 0xC3, CHR 0xAC]),
       (''O_'', [CHR 0xC3, CHR 0x92]), (''o_'', [CHR 0xC3, CHR 0xB2]),
       (''U_'', [CHR 0xC3, CHR 0x99]), (''u_'', [CHR 0xC3, CHR 0xB9])]),
     (''magyar'',
      [(''A_'', [CHR 0xC3, CHR 0x81]), (''a_'', [CHR 0xC3, CHR 0xA1]),
       (''E_'', [CHR 0xC3, CHR 0x89]), (''e_'', [CHR 0xC3, CHR 0xA9]),
       (''I_'', [CHR 0xC3, CHR 0x8D]), (''i_'', [CHR 0xC3, CHR 0xAD]),
       (''O_'', [CHR 0xC3, CHR 0x93]), (''o_'', [CHR 0xC3, CHR 0xB3]),
       (''U_'', [CHR 0xC3, CHR 0x9A]), (''u_'', [CHR 0xC3, CHR 0xBA])]),
     (''polish'',
      [(''L_'', [CHR 0xC5, CHR 0x81]), (''l_'', [CHR 0xC5, CHR 0x82])]),
     (''breton'',
      [(''E_'', [CHR 0xC3, CHR 0x8B]), (''e_'', [CHR 0xC3, CHR 0xAB])]),
     (''sami'',
      [(''A_'', [CHR 0xC3, CHR 0x81]), (''a_'', [CHR 0xC3, CHR 0xA1])])]"

definition CULTURE_UNICODE_FIXUP :: "(string, (string, string) dict) dict" where
  "CULTURE_UNICODE_FIXUP =
    [(''norse'',
      [([CHR 0xC3, CHR 0x98], [CHR 0xC3, CHR 0x96]),
       ([CHR 0xC3, CHR 0xB8], [CHR 0xC3, CHR 0xB6])])]"

definition KNOWN_ESCAPE_LETTERS :: "char list" where
  "KNOWN_ESCAPE_LETTERS = ''ACDEILOSTU'' @ ''acdeilostu''"

definition lower :: "char \<Rightarrow> char" where
  "lower c = (if is_upper c then char_of ((of_char c :: nat) + 32) else c)"

section \<open>The scan\<close>

text \<open>
  The loop of \<open>decode_ck3_name\<close>: \<open>first\<close> says that the scan is at position 0. The branches are
  the source's, in its order: the digit guard, the culture's map, the blind map, the lossy
  fallback, the letter itself.
\<close>

function decode_loop :: "(string, string) dict option \<Rightarrow> bool \<Rightarrow> string \<Rightarrow> string" where
  "decode_loop cm first [] = []"
| "decode_loop cm first [c] = [c]"
| "decode_loop cm first (c # d # s) =
     (if d = CHR ''_'' \<and> s \<noteq> [] \<and> is_digit (hd s) then c # decode_loop cm False (d # s)
      else case (case cm of None \<Rightarrow> None
          | Some m \<Rightarrow> dict_get m (if first then [c, d] else [lower c, lower d])) of
        Some r \<Rightarrow> r @ decode_loop cm False s
      | None \<Rightarrow>
        (case dict_get (if first then ESCAPE_MAP else LC_ESCAPE_MAP) [c, d] of
          Some r \<Rightarrow> r @ decode_loop cm False s
        | None \<Rightarrow>
            if d = CHR ''_'' \<and> c \<in> set KNOWN_ESCAPE_LETTERS
            then (if first then c else lower c) # decode_loop cm False s
            else c # decode_loop cm False (d # s)))"
  by pat_completeness auto
termination
  by (relation "measure (\<lambda>(cm, first, s). length s)") auto

fun fixup_text :: "(string, string) dict \<Rightarrow> string \<Rightarrow> string" where
  "fixup_text m (c # d # s) =
     (case dict_get m [c, d] of Some r \<Rightarrow> r @ fixup_text m s | None \<Rightarrow> c # fixup_text m (d # s))"
| "fixup_text m s = s"

text \<open>\<open>re.sub(r"_\d+$", "", result)\<close>; the \<open>$\<close> also matches before a final newline.\<close>

definition strip_ordinal :: "string \<Rightarrow> string" where
  "strip_ordinal s =
     (let (body, nl) = (if s \<noteq> [] \<and> last s = CHR 0x0A then (butlast s, [CHR 0x0A]) else (s, []));
          ds = takeWhile is_digit (rev body); r = dropWhile is_digit (rev body)
      in if ds \<noteq> [] \<and> r \<noteq> [] \<and> hd r = CHR ''_'' then rev (tl r) @ nl else s)"

definition culture_table :: "(string, 'a) dict \<Rightarrow> string option \<Rightarrow> 'a option" where
  "culture_table tbl culture =
     (case culture of None \<Rightarrow> None | Some c \<Rightarrow> if c = [] then None else dict_get tbl c)"

text \<open>What follows the loop: the fix-up of the culture and the ordinal.\<close>

definition finish_name :: "string option \<Rightarrow> string \<Rightarrow> string" where
  "finish_name culture result =
     (let result = (case culture_table CULTURE_UNICODE_FIXUP culture of
          None \<Rightarrow> result | Some m \<Rightarrow> fixup_text m result)
      in strip_ordinal result)"

definition decode_ck3_name :: "string option \<Rightarrow> string option \<Rightarrow> string option" where
  "decode_ck3_name raw culture =
     (if raw \<in> {None, Some []} then raw
      else case strip_loca_markup raw of
        None \<Rightarrow> None
      | Some r \<Rightarrow>
          if r = [] then Some r
          else Some (finish_name culture
            (decode_loop (culture_table CULTURE_DIACRITIC_MAPS culture) True r)))"

definition HOUSE_KEY_PREFIXES :: "string list" where
  "HOUSE_KEY_PREFIXES = [''dynn_'', ''dyn_'', ''dynasty_'', ''house_'']"

text \<open>\<open>x or y\<close> on optional text.\<close>

definition or_text :: "string option \<Rightarrow> string option \<Rightarrow> string option" where
  "or_text x y = (if x \<in> {None, Some []} then y else x)"

definition decode_house_name :: "string option \<Rightarrow> string option \<Rightarrow> string option" where
  "decode_house_name raw culture =
     (if raw \<in> {None, Some []} then raw
      else case strip_loca_markup raw of
        None \<Rightarrow> None
      | Some r \<Rightarrow>
          if r = [] then Some r
          else case List.find (\<lambda>p. take (length p) r = p) HOUSE_KEY_PREFIXES of
            Some p \<Rightarrow> (let tail = drop (length p) r
              in or_text (decode_ck3_name (Some tail) culture) (Some tail))
          | None \<Rightarrow> Some r)"

section \<open>The resolvers\<close>

definition resolve_name :: "(string, string) dict \<Rightarrow> string option \<Rightarrow> string option" where
  "resolve_name names token =
     (case token of None \<Rightarrow> None | Some t \<Rightarrow> if t = [] then None else dict_get names t)"

definition resolve_character_name ::
  "(string, string) dict \<Rightarrow> string option \<Rightarrow> string option \<Rightarrow> string option" where
  "resolve_character_name names token culture =
     or_text (resolve_name names token) (decode_ck3_name token culture)"

definition resolve_house_name ::
  "(string, string) dict \<Rightarrow> string option \<Rightarrow> string option \<Rightarrow> string option" where
  "resolve_house_name dynasties raw culture =
     (case resolve_name dynasties raw of Some hit \<Rightarrow> Some hit | None \<Rightarrow> decode_house_name raw culture)"

definition resolve_dynasty_name ::
  "(string, string) dict \<Rightarrow> int option \<Rightarrow> (int, string) dict \<Rightarrow> (int, int) dict
   \<Rightarrow> (int, string) dict \<Rightarrow> string option \<Rightarrow> string option \<times> string option" where
  "resolve_dynasty_name dynasties dynasty_house_id houses_lookup house_to_dynasty
     dynasties_lookup culture =
     (case dynasty_house_id of
        None \<Rightarrow> (None, None)
      | Some hid \<Rightarrow>
          (let house_name = resolve_house_name dynasties (dict_get houses_lookup hid) culture;
               raw_dynasty_name = (case dict_get house_to_dynasty hid of
                 None \<Rightarrow> None | Some did \<Rightarrow> dict_get dynasties_lookup did);
               dynasty_name = resolve_house_name dynasties raw_dynasty_name culture
           in (if dynasty_name \<in> {None, Some []} \<and> house_name \<notin> {None, Some []}
               then house_name else dynasty_name, house_name)))"

section \<open>Name fields of a save record\<close>

text \<open>
  The parser passes whatever the record holds, after \<open>or None\<close>. Text goes through the decoders
  above. Anything else that counts as true raises, except a list of one text, whose only
  element reaches the end of the loop; a dictionary of one key raises \<open>KeyError\<close> at \<open>raw[0]\<close>
  (with more keys it is the slice that fails, \<open>TypeError\<close> up to Python 3.11).
\<close>

fun nickname_field :: "string option \<Rightarrow> json \<Rightarrow> string option result" where
  "nickname_field culture (JStr s) = Inr (if s = [] then None else decode_ck3_name (Some s) culture)"
| "nickname_field culture (JArr [JStr s]) =
     (if s = [NAK] then Inl BadType else Inr (Some (finish_name culture s)))"
| "nickname_field culture (JObj [(k, v)]) = (if k = [NAK] then Inl BadType else Inl KeyError)"
| "nickname_field culture v = (if truthy v then Inl BadType else Inr None)"

fun first_name_field ::
  "(string, string) dict \<Rightarrow> string option \<Rightarrow> json \<Rightarrow> string option result" where
  "first_name_field names culture (JStr s) =
     Inr (resolve_character_name names (if s = [] then None else Some s) culture)"
| "first_name_field names culture v = (if truthy v then Inl BadType else Inr None)"

section \<open>Facts\<close>

lemma decode_None [simp]: "decode_ck3_name None culture = None"
  by (simp add: decode_ck3_name_def)

lemma strip_ordinal_plain:
  assumes "CHR ''_'' \<notin> set s"
  shows "strip_ordinal s = s"
proof -
  have no: "\<not> (dropWhile is_digit (rev b) \<noteq> [] \<and> hd (dropWhile is_digit (rev b)) = CHR ''_'')"
    if "set b \<subseteq> set s" for b
  proof
    assume *: "dropWhile is_digit (rev b) \<noteq> [] \<and> hd (dropWhile is_digit (rev b)) = CHR ''_''"
    then have "CHR ''_'' \<in> set (dropWhile is_digit (rev b))" using hd_in_set by metis
    then have "CHR ''_'' \<in> set (rev b)" by (rule set_dropWhileD)
    with assms that show False by auto
  qed
  have "set (butlast s) \<subseteq> set s" by (auto dest: in_set_butlastD)
  from no [OF this] no [of s] show ?thesis by (auto simp: strip_ordinal_def Let_def)
qed

text \<open>Every escape ends in an underscore, so text without one passes unchanged.\<close>

definition escapes_end :: "(string, string) dict \<Rightarrow> bool" where
  "escapes_end m \<longleftrightarrow> list_all (\<lambda>(k, r). length k = 2 \<and> last k = CHR ''_'') m"

lemma escapes_endD: "escapes_end m \<Longrightarrow> d \<noteq> CHR ''_'' \<Longrightarrow> dict_get m [c, d] = None"
  by (cases "dict_get m [c, d]") (auto simp: escapes_end_def list_all_iff dest!: dict_get_memD)

lemma escapes_end_tables:
  "escapes_end ESCAPE_MAP" "escapes_end LC_ESCAPE_MAP"
  "list_all (\<lambda>(k, m). escapes_end m) CULTURE_DIACRITIC_MAPS"
  by (simp_all add: escapes_end_def LC_ESCAPE_MAP_def ESCAPE_MAP_def CULTURE_DIACRITIC_MAPS_def)

lemma culture_escapes_end:
  "culture_table CULTURE_DIACRITIC_MAPS culture = Some m \<Longrightarrow> escapes_end m"
  using escapes_end_tables(3)
  by (auto simp: culture_table_def list_all_iff split: option.splits if_splits dest!: dict_get_memD)

lemma lower_underscore: "lower d = CHR ''_'' \<Longrightarrow> d = CHR ''_''"
proof (cases "is_upper d")
  case True
  assume "lower d = CHR ''_''"
  with True have "(of_char (char_of ((of_char d :: nat) + 32) :: char) :: nat) = 95"
    by (simp add: lower_def)
  moreover from True have "(of_char d :: nat) + 32 < 256" by (simp add: is_upper_def)
  ultimately have "(of_char d :: nat) = 63" by simp
  with True show ?thesis by (simp add: is_upper_def)
qed (simp add: lower_def)

lemma decode_loop_plain:
  assumes "\<And>m. cm = Some m \<Longrightarrow> escapes_end m" and "CHR ''_'' \<notin> set s"
  shows "decode_loop cm first s = s"
  using assms(2)
proof (induction s arbitrary: first rule: induct_list012)
  case (3 c d s)
  then have d: "d \<noteq> CHR ''_''" "lower d \<noteq> CHR ''_''" by (auto dest: lower_underscore)
  then have "dict_get (if first then ESCAPE_MAP else LC_ESCAPE_MAP) [c, d] = None"
    by (simp add: escapes_endD escapes_end_tables)
  moreover have "(case cm of None \<Rightarrow> None
      | Some m \<Rightarrow> dict_get m (if first then [c, d] else [lower c, lower d])) = None"
    using assms(1) d by (simp add: escapes_endD split: option.split)
  ultimately show ?case using d 3 by simp
qed simp_all

lemma decode_plain:
  assumes "CHR ''_'' \<notin> set s" and "NAK \<notin> set s"
    and "culture_table CULTURE_UNICODE_FIXUP culture = None"
  shows "decode_ck3_name (Some s) culture = Some s"
  using assms
  by (simp add: decode_ck3_name_def strip_loca_markup_unmarked decode_loop_plain
      culture_escapes_end finish_name_def strip_ordinal_plain)

lemma resolve_dynasty_house_stands_in:
  "resolve_dynasty_name dyn hid hs h2d ds culture = (d, h) \<Longrightarrow> h \<notin> {None, Some []} \<Longrightarrow>
     d \<notin> {None, Some []}"
  by (auto simp: resolve_dynasty_name_def Let_def split: option.splits if_splits)

end
