(* ===== verification/Titles.thy ===== *)
theory Titles
  imports Snapshot
begin

text \<open>
  The read-only title queries of \<open>save/titles.py\<close>. They read the holder index when there is
  one and scan the title table otherwise; iterating the index means iterating a set, so the
  order is a parameter (\<^verbatim>\<open>set_order\<close> of \<^verbatim>\<open>Prelude\<close>), and the theory shows that the sorted
  queries do not depend on it, nor on which of the two ways was taken.
\<close>

section \<open>The queries\<close>

definition get_titles_held_by ::
  "(int fset \<Rightarrow> int list) \<Rightarrow> save_snapshot \<Rightarrow> int \<Rightarrow> title_snapshot list" where
  "get_titles_held_by iter snap character_id =
     (if sn_title_holders snap \<noteq> []
      then List.map_filter (dict_get (sn_titles snap))
             (iter (dict_get_default (sn_title_holders snap) character_id {||}))
      else filter (\<lambda>t. tit_holder_id t = Some character_id) (map snd (sn_titles snap)))"

definition PRIMARY_TIER_RANK :: "(string, int) dict" where
  "PRIMARY_TIER_RANK = [(''barony'', 0), (''county'', 1), (''duchy'', 2), (''kingdom'', 3),
     (''empire'', 4), (''other'', -1)]"

text \<open>The key of the sort: \<open>(-_PRIMARY_TIER_RANK.get(t.tier, -1), t.title_id)\<close>.\<close>

definition held_key :: "title_snapshot \<Rightarrow> int \<times> int" where
  "held_key t = (- dict_get_default PRIMARY_TIER_RANK (tit_tier t) (- 1), tit_title_id t)"

definition get_held_titles_sorted ::
  "(int fset \<Rightarrow> int list) \<Rightarrow> save_snapshot \<Rightarrow> int \<Rightarrow> title_snapshot list" where
  "get_held_titles_sorted iter snap character_id =
     sort_key held_key (get_titles_held_by iter snap character_id)"

definition get_primary_title_held_by ::
  "(int fset \<Rightarrow> int list) \<Rightarrow> save_snapshot \<Rightarrow> int \<Rightarrow> title_snapshot option" where
  "get_primary_title_held_by iter snap character_id =
     (case get_held_titles_sorted iter snap character_id of [] \<Rightarrow> None | t # _ \<Rightarrow> Some t)"

section \<open>Index and scan list the same titles\<close>

text \<open>What the queries promise: the titles whose record names the character as holder.\<close>

definition holds :: "save_snapshot \<Rightarrow> int \<Rightarrow> title_snapshot \<Rightarrow> bool" where
  "holds snap cid t \<longleftrightarrow> t \<in> snd ` set (sn_titles snap) \<and> tit_holder_id t = Some cid"

lemma titles_lookup:
  "wf_titles s \<Longrightarrow> t \<in> snd ` set (sn_titles s) \<longleftrightarrow> dict_get (sn_titles s) (tit_title_id t) = Some t"
  by (force simp: wf_titles_def dict_get_mem)

lemma scan_distinct:
  assumes "wf_titles s"
  shows "distinct (map snd (sn_titles s))"
proof -
  have "map (tit_title_id \<circ> snd) (sn_titles s) = map fst (sn_titles s)"
    using assms by (force simp: wf_titles_def)
  moreover have "distinct (map fst (sn_titles s))"
    using assms by (simp add: wf_titles_def dict_ok_def)
  ultimately have "distinct (map tit_title_id (map snd (sn_titles s)))"
    by (metis map_map)
  then show ?thesis by (rule distinct_map [THEN iffD1, THEN conjunct1])
qed

context set_order
begin

lemma map_filter_iter:
  assumes "\<And>x y z. f x = Some z \<Longrightarrow> f y = Some z \<Longrightarrow> x = y"
  shows "distinct (List.map_filter f (iter S))"
    and "set (List.map_filter f (iter S)) = {y. \<exists>x. x |\<in>| S \<and> f x = Some y}"
  using assms iter_distinct by (auto simp: set_map_filter iter_set intro: map_filter_distinct)

end

lemma held_mset:
  assumes "set_order iter" and wf: "wf_snapshot s"
  shows "mset (get_titles_held_by iter s cid) =
    mset (filter (\<lambda>t. tit_holder_id t = Some cid) (map snd (sn_titles s)))"
proof (cases "sn_title_holders s = []")
  case True
  then show ?thesis by (simp add: get_titles_held_by_def)
next
  case False
  note wfs = wf_snapshotD [OF wf]
  let ?ids = "dict_get_default (sn_title_holders s) cid {||}"
  have inj: "dict_get (sn_titles s) x = Some z \<Longrightarrow> dict_get (sn_titles s) y = Some z \<Longrightarrow> x = y"
    for x y z using wf_titlesD [OF wfs(2)] by metis
  have "set (List.map_filter (dict_get (sn_titles s)) (iter ?ids)) =
      set (filter (\<lambda>t. tit_holder_id t = Some cid) (map snd (sn_titles s)))"
    using set_order.map_filter_iter(2) [OF assms(1), of "dict_get (sn_titles s)" ?ids, OF inj]
      holders_agreeD [OF wfs(3) False] titles_lookup [OF wfs(2)] wf_titlesD [OF wfs(2)]
    by auto
  moreover have "distinct (List.map_filter (dict_get (sn_titles s)) (iter ?ids))"
    by (rule set_order.map_filter_iter(1) [OF assms(1), of "dict_get (sn_titles s)", OF inj])
  moreover have "distinct (filter (\<lambda>t. tit_holder_id t = Some cid) (map snd (sn_titles s)))"
    by (rule distinct_filter [OF scan_distinct [OF wfs(2)]])
  ultimately have "mset (List.map_filter (dict_get (sn_titles s)) (iter ?ids)) =
      mset (filter (\<lambda>t. tit_holder_id t = Some cid) (map snd (sn_titles s)))"
    by (simp only: set_eq_iff_mset_eq_distinct)
  with False show ?thesis unfolding get_titles_held_by_def by (simp only: if_True not_False_eq_True)
qed

lemma held_key_inj:
  assumes "wf_titles s"
  shows "inj_on held_key (snd ` set (sn_titles s))"
proof (rule inj_onI)
  fix x y assume xy: "x \<in> snd ` set (sn_titles s)" "y \<in> snd ` set (sn_titles s)"
    and "held_key x = held_key y"
  then have "tit_title_id x = tit_title_id y" by (simp add: held_key_def)
  with xy show "x = y" using titles_lookup [OF assms] by (metis option.inject)
qed

lemma held_sorted_scan:
  assumes "set_order iter" and wf: "wf_snapshot s"
  shows "get_held_titles_sorted iter s cid =
    sort_key held_key (filter (\<lambda>t. tit_holder_id t = Some cid) (map snd (sn_titles s)))"
  unfolding get_held_titles_sorted_def
proof (rule sort_key_inj_cong [OF held_mset [OF assms]])
  have "set (get_titles_held_by iter s cid) \<subseteq> snd ` set (sn_titles s)"
    using held_mset [OF assms, of cid] by (metis filter_is_subset image_set set_mset_mset)
  then show "inj_on held_key (set (get_titles_held_by iter s cid))"
    using held_key_inj [OF wf_snapshotD(2) [OF wf]] by (rule inj_on_subset [rotated])
qed

lemma set_held_sorted:
  assumes "set_order iter" and "wf_snapshot s"
  shows "set (get_held_titles_sorted iter s cid) = {t. holds s cid t}"
  by (auto simp: held_sorted_scan [OF assms] holds_def)

lemma primary_best:
  assumes "set_order iter" and "wf_snapshot s"
    and "get_primary_title_held_by iter s cid = Some t"
  shows "holds s cid t" and "holds s cid t' \<Longrightarrow> held_key t \<le> held_key t'"
proof -
  from assms(3) obtain ts where ts: "get_held_titles_sorted iter s cid = t # ts"
    by (auto simp: get_primary_title_held_by_def split: list.splits)
  then show "holds s cid t" using set_held_sorted [OF assms(1,2), of cid] by auto
  have "sorted (map held_key (t # ts))"
    using ts by (metis get_held_titles_sorted_def sorted_sort_key)
  then show "held_key t \<le> held_key t'" if "holds s cid t'"
    using that ts set_held_sorted [OF assms(1,2), of cid] by auto
qed

text \<open>Erasing the index does not change the sorted answer.\<close>

lemma held_canonical:
  assumes "set_order i1" and "set_order i2" and wf: "wf_snapshot s"
  shows "get_held_titles_sorted i1 s cid =
    get_held_titles_sorted i2 (s\<lparr>sn_title_holders := []\<rparr>) cid"
proof -
  have "wf_snapshot (s\<lparr>sn_title_holders := []\<rparr>)"
    using wf by (simp add: wf_snapshot_def wf_characters_def wf_titles_def holders_agree_def)
  from held_sorted_scan [OF assms(2) this] held_sorted_scan [OF assms(1) wf] show ?thesis by simp
qed

lemma primary_None:
  assumes "set_order iter" and "wf_snapshot s"
  shows "get_primary_title_held_by iter s cid = None \<longleftrightarrow> (\<forall>t. \<not> holds s cid t)"
  using set_held_sorted [OF assms, of cid]
  by (auto simp: get_primary_title_held_by_def split: list.splits)

end
