(* ===== verification/Parse_Titles.thy ===== *)
theory Parse_Titles
  imports Name_Decode Titles
begin

text \<open>
  The title part of \<open>save/parse.py\<close>: the table of titles with the inference of the tier of
  titles without a telling prefix (a recursion over the de jure hierarchy with a memo table and
  a guard against cycles), the index of holders and the index of kingdoms by empire.
\<close>

section \<open>Tier inference\<close>

definition TIER_DEMOTE :: "(string, string) dict" where
  "TIER_DEMOTE = [(''empire'', ''kingdom''), (''kingdom'', ''duchy''), (''duchy'', ''county''),
     (''county'', ''barony'')]"

definition TIER_PROMOTE :: "(string, string) dict" where
  "TIER_PROMOTE = [(''barony'', ''county''), (''county'', ''duchy''), (''duchy'', ''kingdom''),
     (''kingdom'', ''empire''), (''empire'', ''empire'')]"

definition TIER_DESCENDING :: "string list" where
  "TIER_DESCENDING = [''empire'', ''kingdom'', ''duchy'', ''county'', ''barony'']"

type_synonym title_raws = "(int, obj) dict"
type_synonym tier_memo = "(int, string) dict"

text \<open>The fields the walk reads; a row of \<open>raws\<close> always has its key as text.\<close>

definition raw_tier :: "obj \<Rightarrow> string" where
  "raw_tier raw = tier_from_key (case get raw ''key'' of JStr k \<Rightarrow> k | _ \<Rightarrow> [])"

definition known_liege :: "title_raws \<Rightarrow> obj \<Rightarrow> int option" where
  "known_liege raws raw =
     (case coerce_int (get raw ''de_jure_liege'') of
        None \<Rightarrow> None
      | Some pid \<Rightarrow> if dict_get raws pid = None then None else Some pid)"

definition known_vassals :: "title_raws \<Rightarrow> obj \<Rightarrow> int list" where
  "known_vassals raws raw =
     (case get raw ''de_jure_vassals'' of
        JArr vs \<Rightarrow> filter (\<lambda>vid. dict_get raws vid \<noteq> None) (List.map_filter coerce_int vs)
      | _ \<Rightarrow> [])"

text \<open>One above the grandest of the given tiers.\<close>

definition promoted_tier :: "string list \<Rightarrow> string option" where
  "promoted_tier tiers =
     (case List.find (\<lambda>t. t \<in> set tiers) TIER_DESCENDING of
        None \<Rightarrow> None | Some t \<Rightarrow> dict_get TIER_PROMOTE t)"

text \<open>Every descent puts one more title of the table in flight.\<close>

definition unvisited :: "title_raws \<Rightarrow> int fset \<Rightarrow> nat" where
  "unvisited raws inflight = fcard (dict_keys raws |-| inflight)"

lemma unvisited_less:
  assumes "dict_get raws tid = Some raw" and "tid |\<notin>| inflight"
  shows "unvisited raws (finsert tid inflight) < unvisited raws inflight"
  unfolding unvisited_def
proof (rule pfsubset_fcard_mono)
  have "tid |\<in>| dict_keys raws |-| inflight" using assms by (simp add: fmember_dict_keys)
  then show "dict_keys raws |-| finsert tid inflight |\<subset>| dict_keys raws |-| inflight" by blast
qed

text \<open>
  \<open>_infer_tier_for_title\<close> returns the tier and the memo it has written; \<open>infer_vassals\<close> is its
  loop over the vassals, \<open>infer_liege\<close> its step up: the demoted tier, if there is one.
\<close>

function (sequential) infer_tier ::
    "title_raws \<Rightarrow> int \<Rightarrow> tier_memo \<Rightarrow> int fset \<Rightarrow> string \<times> tier_memo"
  and infer_liege ::
    "title_raws \<Rightarrow> int option \<Rightarrow> tier_memo \<Rightarrow> int fset \<Rightarrow> string option \<times> tier_memo"
  and infer_vassals ::
    "title_raws \<Rightarrow> int list \<Rightarrow> tier_memo \<Rightarrow> int fset \<Rightarrow> string list \<times> tier_memo"
where
  "infer_tier raws tid memo inflight =
     (case dict_get memo tid of
        Some t \<Rightarrow> (t, memo)
      | None \<Rightarrow>
          if tid |\<in>| inflight then (''other'', memo)
          else case dict_get raws tid of
            None \<Rightarrow> (''other'', memo)
          | Some raw \<Rightarrow>
              if raw_tier raw \<noteq> ''other'' then (raw_tier raw, dict_set memo tid (raw_tier raw))
              else case infer_liege raws (known_liege raws raw) memo (finsert tid inflight) of
                (Some demoted, memo) \<Rightarrow> (demoted, dict_set memo tid demoted)
              | (None, memo) \<Rightarrow>
                  case infer_vassals raws (known_vassals raws raw) memo (finsert tid inflight) of
                    (tiers, memo) \<Rightarrow>
                      (case promoted_tier tiers of
                         Some promoted \<Rightarrow> (promoted, dict_set memo tid promoted)
                       | None \<Rightarrow> (''other'', dict_set memo tid ''other'')))"
| "infer_liege raws (Some pid) memo inflight =
     (case infer_tier raws pid memo inflight of (t, memo) \<Rightarrow> (dict_get TIER_DEMOTE t, memo))"
| "infer_liege raws None memo inflight = (None, memo)"
| "infer_vassals raws [] memo inflight = ([], memo)"
| "infer_vassals raws (vid # vs) memo inflight =
     (case infer_tier raws vid memo inflight of (t, memo) \<Rightarrow>
       case infer_vassals raws vs memo inflight of (ts, memo) \<Rightarrow> (t # ts, memo))"
  by pat_completeness auto

termination
  by (relation "inv_image (less_than <*lex*> less_than)
      (\<lambda>x. case x of Inl (raws, tid, memo, inflight) \<Rightarrow> (unvisited raws inflight, 0)
       | Inr (Inl (raws, pid, memo, inflight)) \<Rightarrow> (unvisited raws inflight, 1)
       | Inr (Inr (raws, vs, memo, inflight)) \<Rightarrow> (unvisited raws inflight, Suc (length vs)))")
    (auto simp: unvisited_less)

declare infer_tier.simps [simp del]

section \<open>The table of titles\<close>

definition title_raws_of :: "obj \<Rightarrow> title_raws" where
  "title_raws_of data = build_table (filter (\<lambda>(tid, raw). opt_str raw ''key'' \<noteq> None)
     (iter_db_records data [''landed_titles'', ''landed_titles'']))"

definition title_name_of :: "obj \<Rightarrow> string option" where
  "title_name_of raw =
     (case or_dict (get raw ''title_name_data'') of
        JObj d \<Rightarrow>
          (case get d ''name'' of
             JStr name \<Rightarrow> (case strip_loca_markup (Some name) of
               None \<Rightarrow> None | Some s \<Rightarrow> if s = [] then None else Some s)
           | _ \<Rightarrow> None)
      | _ \<Rightarrow> None)"

definition title_of_raw :: "int \<Rightarrow> obj \<Rightarrow> string \<Rightarrow> title_snapshot" where
  "title_of_raw tid raw tier =
     \<lparr>tit_title_id = tid,
      tit_key = (case get raw ''key'' of JStr k \<Rightarrow> k | _ \<Rightarrow> []),
      tit_name = title_name_of raw,
      tit_tier = tier,
      tit_holder_id = coerce_int (get raw ''holder''),
      tit_de_jure_liege_id = coerce_int (get raw ''de_jure_liege'')\<rparr>"

fun title_rows :: "title_raws \<Rightarrow> tier_memo \<Rightarrow> (int \<times> obj) list \<Rightarrow> (int \<times> title_snapshot) list" where
  "title_rows raws memo [] = []"
| "title_rows raws memo ((tid, raw) # rows) =
     (case infer_tier raws tid memo {||} of (tier, memo) \<Rightarrow>
        (tid, title_of_raw tid raw tier) # title_rows raws memo rows)"

definition parse_titles :: "obj \<Rightarrow> (int, title_snapshot) dict" where
  "parse_titles data = (let raws = title_raws_of data in build_table (title_rows raws [] raws))"

section \<open>The indexes\<close>

definition build_title_holders :: "(int, title_snapshot) dict \<Rightarrow> (int, int fset) dict" where
  "build_title_holders titles =
     build_index (List.map_filter (\<lambda>(tid, t). map_option (\<lambda>hid. (hid, tid)) (tit_holder_id t)) titles)"

text \<open>
  The titles left to see: the identifiers of the table, and the one of the start, which need not
  be in it.
\<close>

definition unseen :: "(int, title_snapshot) dict \<Rightarrow> int fset \<Rightarrow> title_snapshot \<Rightarrow> nat" where
  "unseen titles seen current =
     fcard (fset_of_list (tit_title_id current # map (tit_title_id \<circ> snd) titles) |-| seen)"

lemma fminus_step:
  assumes "x |\<in>| fset_of_list ys" and "c |\<notin>| S"
  shows "fset_of_list (x # ys) |-| finsert c S |\<subset>| fset_of_list (c # ys) |-| S"
proof -
  have "finsert x K |-| finsert c S |\<subset>| finsert c K |-| S" if "x |\<in>| K" for K
    using that assms(2) by blast
  from this [OF assms(1)] show ?thesis by simp
qed

lemma unseen_less:
  assumes "dict_get titles lid = Some t" and "tit_title_id c |\<notin>| seen"
  shows "unseen titles (finsert (tit_title_id c) seen) t < unseen titles seen c"
proof -
  have t: "tit_title_id t |\<in>| fset_of_list (map (tit_title_id \<circ> snd) titles)"
    using assms(1) by (force simp: fset_of_list_elem dest: dict_get_memD)
  show ?thesis unfolding unseen_def by (rule pfsubset_fcard_mono) (rule fminus_step [OF t assms(2)])
qed

text \<open>The loop up the de jure chain, with the titles seen so far.\<close>

function empire_above ::
  "(int, title_snapshot) dict \<Rightarrow> int fset \<Rightarrow> title_snapshot \<Rightarrow> int option" where
  "empire_above titles seen current =
     (if tit_title_id current |\<in>| seen then None
      else if tit_tier current = ''empire'' then Some (tit_title_id current)
      else case tit_de_jure_liege_id current of
        None \<Rightarrow> None
      | Some lid \<Rightarrow>
          (case dict_get titles lid of
             None \<Rightarrow> None
           | Some t \<Rightarrow> empire_above titles (finsert (tit_title_id current) seen) t))"
  by pat_completeness auto

termination
  by (relation "measure (\<lambda>(titles, seen, current). unseen titles seen current)")
    (auto simp: unseen_less)

declare empire_above.simps [simp del]

definition build_kingdoms_by_de_jure_empire ::
  "(int, title_snapshot) dict \<Rightarrow> (int, int fset) dict" where
  "build_kingdoms_by_de_jure_empire titles =
     build_index (List.map_filter (\<lambda>(tid, t).
        if tit_tier t \<noteq> ''kingdom'' then None
        else map_option (\<lambda>eid. (eid, tid)) (empire_above titles {||} t)) titles)"

section \<open>What the inference finds\<close>

text \<open>
  The tier that the prefixes of a title and of its neighbours in the hierarchy give, without
  recursion and without a memo: the prefix, else one below the liege, else one above the
  grandest vassal. A title is settled when the prefixes decide.
\<close>

definition base_of :: "title_raws \<Rightarrow> int \<Rightarrow> string" where
  "base_of raws tid = (case dict_get raws tid of None \<Rightarrow> ''other'' | Some raw \<Rightarrow> raw_tier raw)"

definition local_tier :: "title_raws \<Rightarrow> obj \<Rightarrow> string" where
  "local_tier raws raw =
     (if raw_tier raw \<noteq> ''other'' then raw_tier raw
      else case (case known_liege raws raw of
          None \<Rightarrow> None | Some pid \<Rightarrow> dict_get TIER_DEMOTE (base_of raws pid)) of
        Some d \<Rightarrow> d
      | None \<Rightarrow>
          (case promoted_tier (map (base_of raws) (known_vassals raws raw)) of
             Some p \<Rightarrow> p | None \<Rightarrow> ''other''))"

definition settled :: "title_raws \<Rightarrow> obj \<Rightarrow> bool" where
  "settled raws raw \<longleftrightarrow>
     (let vassals_known = list_all (\<lambda>v. base_of raws v \<noteq> ''other'') (known_vassals raws raw) in
      raw_tier raw \<noteq> ''other'' \<or>
      (case known_liege raws raw of
         None \<Rightarrow> vassals_known
       | Some pid \<Rightarrow> base_of raws pid \<noteq> ''other''
           \<and> (dict_get TIER_DEMOTE (base_of raws pid) \<noteq> None \<or> vassals_known)))"

definition all_tiers :: "string list" where
  "all_tiers = ''other'' # TIER_DESCENDING"

definition tier_ok :: "title_raws \<Rightarrow> int \<Rightarrow> string \<Rightarrow> bool" where
  "tier_ok raws tid t \<longleftrightarrow> t \<in> set all_tiers \<and>
     (\<forall>raw. dict_get raws tid = Some raw \<longrightarrow> settled raws raw \<longrightarrow> t = local_tier raws raw)"

definition memo_ok :: "title_raws \<Rightarrow> tier_memo \<Rightarrow> bool" where
  "memo_ok raws memo \<longleftrightarrow> (\<forall>tid t. dict_get memo tid = Some t \<longrightarrow> tier_ok raws tid t)"

definition flight_ok :: "title_raws \<Rightarrow> int fset \<Rightarrow> bool" where
  "flight_ok raws inflight \<longleftrightarrow> (\<forall>tid. tid |\<in>| inflight \<longrightarrow> base_of raws tid = ''other'')"

text \<open>What a caller may use of a tier found for a neighbour.\<close>

definition tier_seen :: "title_raws \<Rightarrow> int \<Rightarrow> string \<Rightarrow> bool" where
  "tier_seen raws tid t \<longleftrightarrow>
     t \<in> set all_tiers \<and> (base_of raws tid \<noteq> ''other'' \<longrightarrow> t = base_of raws tid)"

lemma raw_tier_range: "raw_tier raw \<in> set all_tiers"
  by (auto simp: raw_tier_def tier_from_key_def TIER_PREFIX_MAP_def dict_get_default_def
      all_tiers_def TIER_DESCENDING_def split: option.splits)

lemma demote_range: "dict_get TIER_DEMOTE t = Some d \<Longrightarrow> d \<in> set all_tiers"
  by (auto simp: TIER_DEMOTE_def all_tiers_def TIER_DESCENDING_def split: if_splits)

lemma promoted_range: "promoted_tier ts = Some p \<Longrightarrow> p \<in> set all_tiers"
  by (auto simp: promoted_tier_def TIER_PROMOTE_def all_tiers_def TIER_DESCENDING_def
      split: option.splits if_splits)

lemma base_range: "base_of raws tid \<in> set all_tiers"
  using raw_tier_range by (auto simp: base_of_def all_tiers_def split: option.splits)

lemma memo_ok_set: "memo_ok raws memo \<Longrightarrow> tier_ok raws tid t \<Longrightarrow> memo_ok raws (dict_set memo tid t)"
  by (simp add: memo_ok_def)

lemma tier_ok_prefixed:
  "dict_get raws tid = Some raw \<Longrightarrow> raw_tier raw \<noteq> ''other'' \<Longrightarrow> tier_ok raws tid (raw_tier raw)"
  by (simp add: tier_ok_def raw_tier_range local_tier_def)

lemma tier_seen_ok: "tier_ok raws tid t \<Longrightarrow> tier_seen raws tid t"
  by (auto simp: tier_seen_def tier_ok_def base_of_def settled_def local_tier_def Let_def
      split: option.splits)

lemma tier_seen_other: "base_of raws tid = ''other'' \<Longrightarrow> tier_seen raws tid ''other''"
  by (simp add: tier_seen_def all_tiers_def)

lemma tiers_seen_known:
  "list_all2 (tier_seen raws) vs ts \<Longrightarrow> list_all (\<lambda>v. base_of raws v \<noteq> ''other'') vs \<Longrightarrow>
     ts = map (base_of raws) vs"
  by (induction rule: list_all2_induct) (auto simp: tier_seen_def)

text \<open>The two results of the walk, for a title without a telling prefix.\<close>

lemma tier_ok_demoted:
  assumes raw: "dict_get raws tid = Some raw" "raw_tier raw = ''other''"
    and "\<exists>pid t. known_liege raws raw = Some pid \<and> tier_seen raws pid t \<and> dict_get TIER_DEMOTE t = Some d"
  shows "tier_ok raws tid d"
  using assms demote_range [of _ d]
  by (auto simp: tier_ok_def tier_seen_def settled_def local_tier_def Let_def)

lemma tier_ok_promoted:
  assumes raw: "dict_get raws tid = Some raw" "raw_tier raw = ''other''"
    and up: "case known_liege raws raw of None \<Rightarrow> True
      | Some pid \<Rightarrow> \<exists>t. tier_seen raws pid t \<and> dict_get TIER_DEMOTE t = None"
    and down: "list_all2 (tier_seen raws) (known_vassals raws raw) ts"
  shows "tier_ok raws tid (case promoted_tier ts of Some p \<Rightarrow> p | None \<Rightarrow> ''other'')"
proof -
  have range: "(case promoted_tier ts of Some p \<Rightarrow> p | None \<Rightarrow> ''other'') \<in> set all_tiers"
    using promoted_range [of ts] by (simp add: all_tiers_def split: option.split)
  have "(case promoted_tier ts of Some p \<Rightarrow> p | None \<Rightarrow> ''other'') = local_tier raws raw"
    if s: "settled raws raw"
  proof -
    have none: "(case known_liege raws raw of
        None \<Rightarrow> None | Some pid \<Rightarrow> dict_get TIER_DEMOTE (base_of raws pid)) = None"
      and "list_all (\<lambda>v. base_of raws v \<noteq> ''other'') (known_vassals raws raw)"
      using s up raw by (auto simp: settled_def tier_seen_def Let_def split: option.splits)
    then have "ts = map (base_of raws) (known_vassals raws raw)" using tiers_seen_known [OF down] by simp
    with none raw show ?thesis by (simp add: local_tier_def)
  qed
  with range raw show ?thesis by (simp add: tier_ok_def)
qed

lemma infer_ok:
  shows "memo_ok raws memo \<Longrightarrow> flight_ok raws inflight \<Longrightarrow>
      infer_tier raws tid memo inflight = (t, memo') \<Longrightarrow>
      memo_ok raws memo' \<and> tier_seen raws tid t \<and> (tid |\<notin>| inflight \<longrightarrow> dict_get raws tid \<noteq> None \<longrightarrow> tier_ok raws tid t)"
    and "memo_ok raws memo \<Longrightarrow> flight_ok raws inflight \<Longrightarrow>
      infer_liege raws liege memo inflight = (d, memo') \<Longrightarrow>
      memo_ok raws memo' \<and> (case liege of None \<Rightarrow> d = None
        | Some pid \<Rightarrow> \<exists>t. tier_seen raws pid t \<and> d = dict_get TIER_DEMOTE t)"
    and "memo_ok raws memo \<Longrightarrow> flight_ok raws inflight \<Longrightarrow>
      infer_vassals raws vs memo inflight = (ts, memo') \<Longrightarrow>
      memo_ok raws memo' \<and> list_all2 (tier_seen raws) vs ts"
proof (induction raws tid memo inflight and raws liege memo inflight and raws vs memo inflight
    arbitrary: t memo' and d memo' and ts memo' rule: infer_tier_infer_liege_infer_vassals.induct)
  case (1 raws tid memo inflight)
  note simps = infer_tier.simps [of raws tid memo inflight]
  show ?case
  proof (cases "dict_get memo tid = None \<and> tid |\<notin>| inflight \<and> base_of raws tid = ''other''
      \<and> dict_get raws tid \<noteq> None")
    case False
    then show ?thesis
      using 1(3-5) tier_seen_ok [of raws tid t] tier_seen_other [of raws tid]
      by (auto simp: simps memo_ok_def flight_ok_def base_of_def tier_ok_prefixed
          split: option.splits if_splits)
  next
    case True
    then obtain raw where new: "dict_get memo tid = None" "tid |\<notin>| inflight"
      and raw: "dict_get raws tid = Some raw" "raw_tier raw = ''other''"
      by (auto simp: base_of_def)
    have flight: "flight_ok raws (finsert tid inflight)"
      using 1(4) True by (simp add: flight_ok_def)
    obtain d memo1 where up: "infer_liege raws (known_liege raws raw) memo (finsert tid inflight) = (d, memo1)"
      by fastforce
    from 1(1) [OF new raw(1) _ 1(3) flight up] raw(2)
    have memo1: "memo_ok raws memo1"
      and liege: "case known_liege raws raw of None \<Rightarrow> d = None
        | Some pid \<Rightarrow> \<exists>t. tier_seen raws pid t \<and> d = dict_get TIER_DEMOTE t"
      by simp_all
    show ?thesis
    proof (cases d)
      case (Some demoted)
      then have "tier_ok raws tid demoted"
        using liege by (intro tier_ok_demoted [OF raw]) (auto split: option.splits)
      moreover have "t = demoted \<and> memo' = dict_set memo1 tid demoted"
        using Some 1(5) new raw up by (auto simp: simps)
      ultimately show ?thesis using memo1 by (simp add: memo_ok_set tier_seen_ok)
    next
      case None
      obtain ts memo2 where down:
        "infer_vassals raws (known_vassals raws raw) memo1 (finsert tid inflight) = (ts, memo2)"
        by fastforce
      from 1(2) [OF new raw(1) _ up [symmetric] None memo1 flight down] raw(2)
      have memo2: "memo_ok raws memo2" and vs: "list_all2 (tier_seen raws) (known_vassals raws raw) ts"
        by simp_all
      have "tier_ok raws tid (case promoted_tier ts of Some p \<Rightarrow> p | None \<Rightarrow> ''other'')"
        using liege None by (intro tier_ok_promoted [OF raw _ vs]) (auto split: option.splits)
      moreover have "t = (case promoted_tier ts of Some p \<Rightarrow> p | None \<Rightarrow> ''other'')
          \<and> memo' = dict_set memo2 tid t"
        using None 1(5) new raw up down by (auto simp: simps split: option.splits)
      ultimately show ?thesis using memo2 by (simp add: memo_ok_set tier_seen_ok)
    qed
  qed
next
  case (2 raws pid memo inflight)
  then show ?case by (fastforce split: prod.splits)
next
  case (3 raws memo inflight)
  then show ?case by simp
next
  case (4 raws memo inflight)
  then show ?case by simp
next
  case (5 raws vid vs memo inflight)
  obtain u memo1 where one: "infer_tier raws vid memo inflight = (u, memo1)" by fastforce
  obtain us memo2 where rest: "infer_vassals raws vs memo1 inflight = (us, memo2)" by fastforce
  from 5(1) [OF 5(3,4) one] have memo1: "memo_ok raws memo1" and u: "tier_seen raws vid u" by simp_all
  from 5(2) [OF one [symmetric] memo1 5(4) rest] u 5(5) one rest show ?case by auto
qed

section \<open>The table of titles and its indexes\<close>

lemma title_raws_of_key:
  "dict_get (title_raws_of data) tid = Some raw \<Longrightarrow> \<exists>k. get raw ''key'' = JStr k \<and> k \<noteq> []"
  by (auto simp: title_raws_of_def dest!: build_table_SomeD)

lemma title_rows_ok:
  assumes "memo_ok raws memo" and "\<forall>(tid, raw)\<in>set rows. dict_get raws tid = Some raw"
    and "(tid, t) \<in> set (title_rows raws memo rows)"
  shows "\<exists>raw. dict_get raws tid = Some raw \<and> tier_ok raws tid (tit_tier t)
    \<and> t = title_of_raw tid raw (tit_tier t)"
  using assms
proof (induction rows arbitrary: memo)
  case (Cons row rows)
  obtain rid raw where row: "row = (rid, raw)" by (cases row)
  obtain tier memo' where inf: "infer_tier raws rid memo {||} = (tier, memo')" by fastforce
  have flight: "flight_ok raws {||}" by (simp add: flight_ok_def)
  have ok: "memo_ok raws memo'" "tier_ok raws rid tier"
    using infer_ok(1) [OF Cons.prems(1) flight inf] Cons.prems(2) row by auto
  show ?case
    using Cons.IH [OF ok(1)] Cons.prems(2,3) ok(2) row inf
    by (auto simp: title_of_raw_def)
qed simp

lemma title_rows_keys: "map fst (title_rows raws memo rows) = map fst rows"
  by (induction raws memo rows rule: title_rows.induct) (auto split: prod.split)

lemma title_raws_ok: "dict_ok (title_raws_of data)"
  by (simp add: title_raws_of_def build_table_ok)

lemma parse_titles_ok: "dict_ok (parse_titles data)"
  by (simp add: parse_titles_def Let_def build_table_ok)

text \<open>Every row of the table comes from the record of its identifier.\<close>

lemma parse_titles_SomeD:
  assumes "dict_get (parse_titles data) tid = Some t"
  shows "\<exists>raw. dict_get (title_raws_of data) tid = Some raw
    \<and> tier_ok (title_raws_of data) tid (tit_tier t) \<and> t = title_of_raw tid raw (tit_tier t)"
proof (rule title_rows_ok)
  show "memo_ok (title_raws_of data) []" by (simp add: memo_ok_def)
  show "\<forall>(tid, raw)\<in>set (title_raws_of data). dict_get (title_raws_of data) tid = Some raw"
    by (auto simp: dict_get_mem [OF title_raws_ok])
  show "(tid, t) \<in> set (title_rows (title_raws_of data) [] (title_raws_of data))"
    using assms by (auto simp: parse_titles_def Let_def dest: build_table_SomeD)
qed

lemma parse_titles_dom:
  "dict_get (parse_titles data) tid \<noteq> None \<longleftrightarrow> dict_get (title_raws_of data) tid \<noteq> None"
proof
  assume "dict_get (title_raws_of data) tid \<noteq> None"
  then have "tid \<in> fst ` set (title_rows (title_raws_of data) [] (title_raws_of data))"
    using title_rows_keys [of "title_raws_of data" "[]" "title_raws_of data"]
    by (metis dict_get_def image_set map_of_eq_None_iff)
  then show "dict_get (parse_titles data) tid \<noteq> None"
    using build_table_hit by (fastforce simp: parse_titles_def Let_def)
qed (auto dest: parse_titles_SomeD)

lemma parse_titles_wf: "(tid, t) \<in> set (parse_titles data) \<Longrightarrow> tit_title_id t = tid"
  using parse_titles_SomeD [of data tid t] dict_get_mem [OF parse_titles_ok]
  by (metis title_of_raw_def title_snapshot.select_convs(1))

lemma title_holders_mem:
  assumes "dict_ok titles"
  shows "tid |\<in>| dict_get_default (build_title_holders titles) hid {||} \<longleftrightarrow>
    (\<exists>t. dict_get titles tid = Some t \<and> tit_holder_id t = Some hid)"
  by (force simp: build_title_holders_def build_index_mem set_map_filter dict_get_mem [OF assms])

text \<open>
  The step of the walk to an empire, on identifiers: from a title that is no empire to its de
  jure liege.
\<close>

definition below :: "(int, title_snapshot) dict \<Rightarrow> int \<Rightarrow> int \<Rightarrow> bool" where
  "below titles a b \<longleftrightarrow> (\<exists>t u. dict_get titles a = Some t \<and> tit_tier t \<noteq> ''empire''
     \<and> tit_de_jure_liege_id t = Some b \<and> dict_get titles b = Some u)"

definition is_empire :: "(int, title_snapshot) dict \<Rightarrow> int \<Rightarrow> bool" where
  "is_empire titles e \<longleftrightarrow> (\<exists>t. dict_get titles e = Some t \<and> tit_tier t = ''empire'')"

lemma below_det: "below titles a b \<Longrightarrow> below titles a c \<Longrightarrow> b = c"
  by (auto simp: below_def)

lemma not_below_empire: "is_empire titles e \<Longrightarrow> \<not> below titles e b"
  by (auto simp: below_def is_empire_def)

lemma below_terminal:
  "(below titles ^^ n) a e \<Longrightarrow> (below titles ^^ m) a e \<Longrightarrow> is_empire titles e \<Longrightarrow> n = m"
proof (induction n arbitrary: m a)
  case 0
  then have e: "a = e" by simp
  have "m \<noteq> Suc k" for k using 0(2,3) not_below_empire e by (blast dest: relpowp_Suc_D2)
  then show ?case by (cases m) blast+
next
  case (Suc n)
  from relpowp_Suc_D2 [OF Suc.prems(1)] obtain b where b: "below titles a b" "(below titles ^^ n) b e"
    by blast
  show ?case
  proof (cases m)
    case 0
    with Suc.prems b show ?thesis by (auto simp: not_below_empire)
  next
    case (Suc k)
    with Suc.prems(2) obtain c where "below titles a c" "(below titles ^^ k) c e"
      by (blast dest: relpowp_Suc_D2)
    with b have "(below titles ^^ k) b e" by (auto dest: below_det)
    with Suc.IH [OF b(2)] Suc.prems(3) \<open>m = Suc k\<close> show ?thesis by simp
  qed
qed

lemma empire_above_sound:
  assumes wf: "\<And>tid t. dict_get titles tid = Some t \<Longrightarrow> tit_title_id t = tid"
    and "dict_get titles tid = Some t" and "empire_above titles seen t = Some e"
  shows "(below titles)\<^sup>*\<^sup>* tid e \<and> is_empire titles e"
  using wf assms(2,3)
proof (induction titles seen t arbitrary: tid rule: empire_above.induct)
  case (1 ts seen current)
  have tid: "tit_title_id current = tid" using 1(2) [OF 1(3)] .
  show ?case
  proof (cases "tit_title_id current |\<in>| seen \<or> tit_tier current = ''empire''")
    case True
    with 1(3,4) tid show ?thesis
      by (auto simp: empire_above.simps [of ts seen current] is_empire_def split: if_splits)
  next
    case False
    with 1(4) obtain lid u where lid: "tit_de_jure_liege_id current = Some lid"
      and u: "dict_get ts lid = Some u"
      and rec: "empire_above ts (finsert (tit_title_id current) seen) u = Some e"
      by (auto simp: empire_above.simps [of ts seen current] split: option.splits)
    have "(below ts)\<^sup>*\<^sup>* lid e \<and> is_empire ts e"
      using 1(1) [OF _ _ lid u 1(2) u rec] False by simp
    moreover have "below ts tid lid" using 1(3) lid u False by (simp add: below_def)
    ultimately show ?thesis by (simp add: converse_rtranclp_into_rtranclp)
  qed
qed

lemma empire_above_complete:
  assumes wf: "\<And>tid t. dict_get titles tid = Some t \<Longrightarrow> tit_title_id t = tid"
    and "(below titles ^^ n) tid e" and "is_empire titles e"
    and "dict_get titles tid = Some t" and "\<And>y. y |\<in>| seen \<Longrightarrow> \<not> (below titles)\<^sup>*\<^sup>* tid y"
  shows "empire_above titles seen t = Some e"
  using assms(2-)
proof (induction n arbitrary: tid t seen)
  case 0
  then show ?case using wf by (auto simp: empire_above.simps [of titles seen t] is_empire_def)
next
  case (Suc n)
  from relpowp_Suc_D2 [OF Suc.prems(1)] obtain b where b: "below titles tid b" "(below titles ^^ n) b e"
    by blast
  then obtain u where u: "tit_tier t \<noteq> ''empire''" "tit_de_jure_liege_id t = Some b"
    "dict_get titles b = Some u"
    using Suc.prems(3) by (auto simp: below_def)
  have id: "tit_title_id t = tid" by (rule wf [OF Suc.prems(3)])
  have acyclic: "\<not> (below titles)\<^sup>*\<^sup>* b tid"
  proof
    assume "(below titles)\<^sup>*\<^sup>* b tid"
    then obtain k where "(below titles ^^ k) b tid" by (auto dest: rtranclp_imp_relpowp)
    then have "(below titles ^^ (k + Suc n)) b e"
      using Suc.prems(1) by (auto simp: relpowp_add)
    from below_terminal [OF this b(2) Suc.prems(2)] show False by simp
  qed
  have "empire_above titles (finsert tid seen) u = Some e"
  proof (rule Suc.IH [OF b(2) Suc.prems(2) u(3)])
    fix y assume "y |\<in>| finsert tid seen"
    then show "\<not> (below titles)\<^sup>*\<^sup>* b y"
      using acyclic Suc.prems(4) b(1) by (auto intro: converse_rtranclp_into_rtranclp)
  qed
  moreover have "tid |\<notin>| seen" using Suc.prems(4) by blast
  ultimately show ?case using u id by (simp add: empire_above.simps [of titles seen t])
qed

text \<open>The walk of a well-formed table finds exactly the empire at the end of the chain.\<close>

lemma empire_above_iff:
  assumes "\<And>tid t. dict_get titles tid = Some t \<Longrightarrow> tit_title_id t = tid"
    and "dict_get titles tid = Some t"
  shows "empire_above titles {||} t = Some e \<longleftrightarrow> (below titles)\<^sup>*\<^sup>* tid e \<and> is_empire titles e"
  using empire_above_sound [OF assms] empire_above_complete [OF assms(1) _ _ assms(2), of _ e "{||}"]
  by (auto dest: rtranclp_imp_relpowp)

lemma kingdoms_mem:
  assumes ok: "dict_ok titles"
    and wf: "\<And>tid t. dict_get titles tid = Some t \<Longrightarrow> tit_title_id t = tid"
  shows "kid |\<in>| dict_get_default (build_kingdoms_by_de_jure_empire titles) e {||} \<longleftrightarrow>
    (\<exists>t. dict_get titles kid = Some t \<and> tit_tier t = ''kingdom'')
      \<and> (below titles)\<^sup>*\<^sup>* kid e \<and> is_empire titles e"
proof -
  have "kid |\<in>| dict_get_default (build_kingdoms_by_de_jure_empire titles) e {||} \<longleftrightarrow>
    (\<exists>t. dict_get titles kid = Some t \<and> tit_tier t = ''kingdom'' \<and> empire_above titles {||} t = Some e)"
    by (force simp: build_kingdoms_by_de_jure_empire_def build_index_mem set_map_filter
        dict_get_mem [OF ok] split: if_splits)
  then show ?thesis using empire_above_iff [OF wf] by blast
qed

end
