(* ===== verification/Parse_Tables.thy ===== *)
theory Parse_Tables
  imports Name_Decode
begin

text \<open>
  The table extractors of \<open>save/parse.py\<close>: each reads one database of the save into a
  dictionary of records and, where the diff needs one, the reverse index from characters to
  records. A row of the save whose identifier is no number or whose value is no record is
  skipped; of two rows whose identifiers read as the same number the later fills the table and
  both fill the index. The order in which the interpreter iterates a set of characters is the
  argument \<open>iter\<close>.
\<close>

section \<open>Alliances\<close>

definition alliance_pairs :: "json \<Rightarrow> (int \<times> int) list" where
  "alliance_pairs rel =
     (case rel of
        JObj d \<Rightarrow>
          if dict_get d ''alliances'' = None then []
          else (case (coerce_int (get d ''first''), coerce_int (get d ''second'')) of
            (Some first, Some second) \<Rightarrow> [(first, second), (second, first)]
          | _ \<Rightarrow> [])
      | _ \<Rightarrow> [])"

definition parse_alliances :: "obj \<Rightarrow> (int, int fset) dict result" where
  "parse_alliances data =
     bindr (section_of data ''relations'') (\<lambda>relations.
       case get relations ''active_relations'' of
         JArr rels \<Rightarrow> Inr (build_index (concat (map alliance_pairs rels)))
       | _ \<Rightarrow> Inr [])"

section \<open>Artifacts\<close>

text \<open>
  \<open>strip_loca_markup(raw.get("name"))\<close>: the test for the marker fails on a number, passes on a
  list or a dictionary that does not contain it, and those are dropped afterwards.
\<close>

fun artifact_name :: "json \<Rightarrow> string option result" where
  "artifact_name (JStr s) = Inr (case strip_loca_markup (Some s) of
     None \<Rightarrow> None | Some n \<Rightarrow> if n = [] then None else Some n)"
| "artifact_name (JArr xs) = (if JStr [NAK] \<in> set xs then Inl BadType else Inr None)"
| "artifact_name (JObj d) = (if dict_get d [NAK] \<noteq> None then Inl BadType else Inr None)"
| "artifact_name v = (if truthy v then Inl BadType else Inr None)"

definition artifact_rows :: "obj \<Rightarrow> (int \<times> artifact_snapshot) list result" where
  "artifact_rows data =
     concat_mapr (\<lambda>(aid, raw). bindr (artifact_name (get raw ''name'')) (\<lambda>name.
       Inr [(aid,
         \<lparr>art_artifact_id = aid,
          art_name = name,
          art_type = opt_str raw ''type'',
          art_rarity = opt_str raw ''rarity'',
          art_owner_id = coerce_int (get raw ''owner'')\<rparr>)]))
       (iter_db_records data [''artifacts'', ''artifacts''])"

definition artifact_owners :: "artifact_snapshot \<Rightarrow> int list" where
  "artifact_owners a = (case art_owner_id a of None \<Rightarrow> [] | Some owner \<Rightarrow> [owner])"

definition parse_artifacts ::
  "obj \<Rightarrow> ((int, artifact_snapshot) dict \<times> (int, int fset) dict) result" where
  "parse_artifacts data = bindr (artifact_rows data) (\<lambda>rows.
     Inr (build_table rows, index_by artifact_owners rows))"

section \<open>Wars\<close>

definition parse_war_side_participants :: "json \<Rightarrow> int fset" where
  "parse_war_side_participants side =
     (case side of
        JObj d \<Rightarrow>
          (case get d ''participants'' of
             JArr raw \<Rightarrow> fset_of_list (List.map_filter (\<lambda>entry.
               case entry of JObj e \<Rightarrow> coerce_int (get e ''character'') | _ \<Rightarrow> None) raw)
           | _ \<Rightarrow> {||})
      | _ \<Rightarrow> {||})"

text \<open>\<open>isinstance(x, int)\<close> holds of the truth values too.\<close>

fun int_instance :: "json \<Rightarrow> int option" where
  "int_instance (JInt i) = Some i"
| "int_instance (JBool b) = Some (if b then 1 else 0)"
| "int_instance _ = None"

definition war_of_raw :: "int \<Rightarrow> obj \<Rightarrow> war_snapshot" where
  "war_of_raw wid raw =
     (let cb = (case or_dict (get raw ''casus_belli'') of JObj d \<Rightarrow> d | _ \<Rightarrow> []) in
      \<lparr>war_war_id = wid,
       war_name = opt_str raw ''name'',
       war_start_date = opt_str raw ''start_date'',
       war_casus_belli_type = opt_str cb ''type'',
       war_targeted_titles = (case get cb ''targeted_titles'' of
         JArr tt \<Rightarrow> List.map_filter int_instance tt | _ \<Rightarrow> []),
       war_primary_attacker_id = coerce_int (get cb ''attacker''),
       war_primary_defender_id = coerce_int (get cb ''defender''),
       war_claimant_id = coerce_int (get cb ''claimant''),
       war_attacker_participants = parse_war_side_participants (get raw ''attacker''),
       war_defender_participants = parse_war_side_participants (get raw ''defender'')\<rparr>)"

definition war_rows :: "obj \<Rightarrow> (int \<times> war_snapshot) list" where
  "war_rows data = map (\<lambda>(wid, raw). (wid, war_of_raw wid raw))
     (iter_db_records data [''wars'', ''active_wars''])"

definition war_owners :: "(int fset \<Rightarrow> int list) \<Rightarrow> war_snapshot \<Rightarrow> int list" where
  "war_owners iter w = iter (war_attacker_participants w |\<union>| war_defender_participants w)"

definition parse_wars ::
  "(int fset \<Rightarrow> int list) \<Rightarrow> obj \<Rightarrow> (int, war_snapshot) dict \<times> (int, int fset) dict" where
  "parse_wars iter data =
     (let rows = war_rows data in (build_table rows, index_by (war_owners iter) rows))"

section \<open>Epidemics\<close>

definition or_zero :: "int option \<Rightarrow> int" where
  "or_zero v = (case v of None \<Rightarrow> 0 | Some i \<Rightarrow> i)"

definition epidemic_of_raw :: "int \<Rightarrow> obj \<Rightarrow> epidemic_snapshot" where
  "epidemic_of_raw eid raw =
     \<lparr>ep_epidemic_id = eid,
      ep_epidemic_type = opt_str raw ''type'',
      ep_name = opt_str raw ''name'',
      ep_intensity = opt_str raw ''intensity'',
      ep_creation_date = opt_str raw ''creation_date'',
      ep_start_province = coerce_int (get raw ''start_province''),
      ep_num_infected_provinces = or_zero (coerce_int (get raw ''num_infected_provinces'')),
      ep_num_infected_characters = or_zero (coerce_int (get raw ''num_infected_characters'')),
      ep_num_character_deaths = or_zero (coerce_int (get raw ''num_character_deaths''))\<rparr>"

definition affected :: "obj \<Rightarrow> int fset" where
  "affected raw = int_set (get raw ''characters'')"

definition parse_epidemics ::
  "(int fset \<Rightarrow> int list) \<Rightarrow> obj \<Rightarrow> (int, epidemic_snapshot) dict \<times> (int, int fset) dict" where
  "parse_epidemics iter data =
     (let rows = iter_db_records data [''epidemics'', ''database''] in
      (build_table (map (\<lambda>(eid, raw). (eid, epidemic_of_raw eid raw)) rows),
       index_by (\<lambda>raw. iter (affected raw)) rows))"

section \<open>Activities\<close>

definition first_province :: "json \<Rightarrow> int option" where
  "first_province phases =
     (case phases of JArr (JObj first # _) \<Rightarrow> coerce_int (get first ''province'') | _ \<Rightarrow> None)"

definition activity_of_raw :: "int \<Rightarrow> obj \<Rightarrow> activity_snapshot" where
  "activity_of_raw aid raw =
     \<lparr>act_activity_id = aid,
      act_activity_type = opt_str raw ''type'',
      act_host_id = coerce_int (get raw ''host''),
      act_creation_date = opt_str raw ''creation_date'',
      act_active_start_date = opt_str raw ''active_start_date'',
      act_start_province_id = first_province (get raw ''phases''),
      act_attendees = int_set (get raw ''attending'')\<rparr>"

definition activity_rows :: "obj \<Rightarrow> (int \<times> activity_snapshot) list" where
  "activity_rows data = map (\<lambda>(aid, raw). (aid, activity_of_raw aid raw))
     (iter_db_records data [''activity_manager'', ''database''])"

definition activity_owners :: "(int fset \<Rightarrow> int list) \<Rightarrow> activity_snapshot \<Rightarrow> int list" where
  "activity_owners iter a =
     (case act_host_id a of None \<Rightarrow> [] | Some host \<Rightarrow> [host]) @ iter (act_attendees a)"

definition parse_activities ::
  "(int fset \<Rightarrow> int list) \<Rightarrow> obj \<Rightarrow> (int, activity_snapshot) dict \<times> (int, int fset) dict" where
  "parse_activities iter data =
     (let rows = activity_rows data in (build_table rows, index_by (activity_owners iter) rows))"

section \<open>Inspirations\<close>

text \<open>The living characters whose row is a plain record, with one of its blocks.\<close>

definition living_blocks :: "obj \<Rightarrow> string \<Rightarrow> (int \<times> obj) list" where
  "living_blocks data block =
     List.map_filter (\<lambda>(cid, char).
       case get char block of JObj b \<Rightarrow> Some (cid, b) | _ \<Rightarrow> None)
       (int_rows (or_dict (get data ''living'')))"

definition artisan_for :: "obj \<Rightarrow> (int, int) dict" where
  "artisan_for data =
     build_table (List.map_filter (\<lambda>(cid, alive).
       map_option (\<lambda>iid. (iid, cid)) (coerce_int (get alive ''inspiration'')))
       (living_blocks data ''alive_data''))"

definition sponsored_pairs :: "obj \<Rightarrow> (int \<times> int) list" where
  "sponsored_pairs data =
     concat (map (\<lambda>(cid, landed). case get landed ''sponsored_inspirations'' of
         JArr si \<Rightarrow> map (Pair cid) (List.map_filter coerce_int si) | _ \<Rightarrow> [])
       (living_blocks data ''landed_data''))"

definition inspiration_of_raw :: "(int, int) dict \<Rightarrow> int \<Rightarrow> obj \<Rightarrow> inspiration_snapshot" where
  "inspiration_of_raw artisans iid raw =
     \<lparr>insp_inspiration_id = iid,
      insp_inspiration_type = opt_str raw ''type'',
      insp_sponsored = opt_str raw ''sponsored'',
      insp_total_cost = or_zero (coerce_int (get raw ''total_cost'')),
      insp_progress = or_zero (coerce_int (get raw ''progress'')),
      insp_artisan_character_id = dict_get artisans iid\<rparr>"

definition parse_inspirations ::
  "obj \<Rightarrow> (int, inspiration_snapshot) dict \<times> (int, int fset) dict" where
  "parse_inspirations data =
     (case or_dict (get data ''inspirations_manager'') of
        JObj manager \<Rightarrow>
          if \<not> is_obj (or_dict (get manager ''database'')) then ([], [])
          else
            (build_table (map (\<lambda>(iid, raw). (iid, inspiration_of_raw (artisan_for data) iid raw))
               (iter_db_records data [''inspirations_manager'', ''database''])),
             build_index (sponsored_pairs data))
      | _ \<Rightarrow> ([], []))"

section \<open>Contracts, court positions, domiciles\<close>

definition contract_of_raw :: "int \<Rightarrow> obj \<Rightarrow> contract_snapshot option" where
  "contract_of_raw cid raw =
     map_option (\<lambda>status.
       \<lparr>ctr_contract_id = cid,
        ctr_contract_type = opt_str raw ''type'',
        ctr_name = opt_str raw ''name'',
        ctr_tier = coerce_int (get raw ''tier''),
        ctr_employer_id = coerce_int (get raw ''employer''),
        ctr_owner_id = coerce_int (get raw ''owner''),
        ctr_location_province_id = coerce_int (get raw ''location''),
        ctr_status = status,
        ctr_acceptance_date = opt_str raw ''acceptance_date'',
        ctr_completion_date = opt_str raw ''completion_date''\<rparr>)
     (opt_str raw ''status'')"

definition contract_rows :: "obj \<Rightarrow> (int \<times> contract_snapshot) list" where
  "contract_rows data = List.map_filter (\<lambda>(cid, raw). map_option (Pair cid) (contract_of_raw cid raw))
     (iter_db_records data [''task_contracts'', ''database''])"

definition contract_owners :: "contract_snapshot \<Rightarrow> int list" where
  "contract_owners c = (case ctr_owner_id c of None \<Rightarrow> [] | Some owner \<Rightarrow> [owner])"

definition parse_contracts ::
  "obj \<Rightarrow> (int, contract_snapshot) dict \<times> (int, int fset) dict" where
  "parse_contracts data =
     (let rows = contract_rows data in (build_table rows, index_by contract_owners rows))"

definition position_of_raw :: "int \<Rightarrow> obj \<Rightarrow> court_position_snapshot option" where
  "position_of_raw pid raw =
     map_option (\<lambda>employer.
       \<lparr>pos_position_id = pid,
        pos_court_position = opt_str raw ''court_position'',
        pos_employee_id = coerce_int (get raw ''employee''),
        pos_employer_id = Some employer,
        pos_hire_date = opt_str raw ''hire_date''\<rparr>)
     (coerce_int (get raw ''employer''))"

definition position_rows :: "obj \<Rightarrow> (int \<times> court_position_snapshot) list" where
  "position_rows data = List.map_filter (\<lambda>(pid, raw). map_option (Pair pid) (position_of_raw pid raw))
     (iter_db_records data [''court_positions'', ''database''])"

definition position_owners :: "court_position_snapshot \<Rightarrow> int list" where
  "position_owners p = (case pos_employer_id p of None \<Rightarrow> [] | Some employer \<Rightarrow> [employer])"

definition parse_court_positions ::
  "obj \<Rightarrow> (int, court_position_snapshot) dict \<times> (int, int fset) dict" where
  "parse_court_positions data =
     (let rows = position_rows data in (build_table rows, index_by position_owners rows))"

definition domicile_of_raw :: "int \<Rightarrow> obj \<Rightarrow> domicile_snapshot option" where
  "domicile_of_raw did raw =
     map_option (\<lambda>owner_title.
       \<lparr>dom_domicile_id = did,
        dom_owner_title_id = Some owner_title,
        dom_domicile_type = opt_str raw ''domicile_type'',
        dom_province_id = coerce_int (get raw ''province'')\<rparr>)
     (coerce_int (get raw ''owner_title''))"

definition domicile_holder :: "(int, title_snapshot) dict \<Rightarrow> domicile_snapshot \<Rightarrow> int option" where
  "domicile_holder titles d =
     (case dom_owner_title_id d of
        None \<Rightarrow> None
      | Some tid \<Rightarrow> (case dict_get titles tid of None \<Rightarrow> None | Some t \<Rightarrow> tit_holder_id t))"

definition parse_domiciles ::
  "obj \<Rightarrow> (int, title_snapshot) dict \<Rightarrow> (int, domicile_snapshot) dict \<times> (int, int) dict" where
  "parse_domiciles data titles =
     (let rows = List.map_filter (\<lambda>(did, raw). map_option (Pair did) (domicile_of_raw did raw))
            (iter_db_records data [''domiciles'', ''database''])
      in (build_table rows,
          build_table (List.map_filter (\<lambda>(did, d).
            map_option (\<lambda>hid. (hid, did)) (domicile_holder titles d)) rows)))"

section \<open>Constructions and buildings\<close>

definition holding_of :: "obj \<Rightarrow> obj option" where
  "holding_of province = (case get province ''holding'' of JObj h \<Rightarrow> Some h | _ \<Rightarrow> None)"

definition holdings :: "obj \<Rightarrow> (int \<times> obj) list" where
  "holdings data = List.map_filter (\<lambda>(pid, pdata). map_option (Pair pid) (holding_of pdata))
     (int_rows (or_dict (get data ''provinces'')))"

definition building_slots :: "int \<times> obj \<Rightarrow> ((int \<times> int) \<times> string) list" where
  "building_slots ph =
     (case get (snd ph) ''buildings'' of
        JArr bs \<Rightarrow> List.map_filter (\<lambda>(slot, b). case b of
            JObj d \<Rightarrow> map_option (Pair (fst ph, int slot)) (opt_str d ''type'')
          | _ \<Rightarrow> None) (enumerate 0 bs)
      | _ \<Rightarrow> [])"

definition construction_list :: "json \<Rightarrow> obj list" where
  "construction_list cons_raw =
     (case cons_raw of
        JObj d \<Rightarrow> [d]
      | JArr cs \<Rightarrow> List.map_filter (\<lambda>c. case c of JObj d \<Rightarrow> Some d | _ \<Rightarrow> None) cs
      | _ \<Rightarrow> [])"

definition construction_of_raw :: "int \<Rightarrow> obj \<Rightarrow> construction_snapshot option" where
  "construction_of_raw pid cons =
     (case (coerce_int (get cons ''index''), opt_str cons ''building'') of
        (Some slot, Some building) \<Rightarrow> Some
          \<lparr>con_province_id = pid,
           con_slot_index = slot,
           con_building = building,
           con_start_date = opt_str cons ''start_time'',
           con_character_id = coerce_int (get cons ''character'')\<rparr>
      | _ \<Rightarrow> None)"

definition construction_key :: "construction_snapshot \<Rightarrow> int \<times> int" where
  "construction_key c = (con_province_id c, con_slot_index c)"

definition construction_rows :: "obj \<Rightarrow> ((int \<times> int) \<times> construction_snapshot) list" where
  "construction_rows data =
     concat (map (\<lambda>(pid, holding). List.map_filter (\<lambda>cons.
         map_option (\<lambda>c. (construction_key c, c)) (construction_of_raw pid cons))
       (construction_list (get holding ''constructions''))) (holdings data))"

definition construction_owners :: "construction_snapshot \<Rightarrow> int list" where
  "construction_owners c = (case con_character_id c of None \<Rightarrow> [] | Some cid \<Rightarrow> [cid])"

definition parse_constructions_and_buildings ::
  "obj \<Rightarrow> (int \<times> int, construction_snapshot) dict \<times> (int, (int \<times> int) fset) dict
     \<times> (int \<times> int, string) dict" where
  "parse_constructions_and_buildings data =
     (let rows = construction_rows data in
      (build_table rows, index_by construction_owners rows,
       build_table (concat (map building_slots (holdings data)))))"

section \<open>Dynasties, houses, cultures, faiths\<close>

definition resolve_dynasty_or_house_name :: "obj \<Rightarrow> string option" where
  "resolve_dynasty_or_house_name raw =
     (case List.map_filter (opt_str raw) [''localized_name'', ''custom_name'', ''name'', ''key''] of
        [] \<Rightarrow> None | v # _ \<Rightarrow> Some v)"

text \<open>The rows of a table that give a value, as \<open>if v is not None: out[id] = v\<close> fills it.\<close>

definition table_of :: "(obj \<Rightarrow> 'v option) \<Rightarrow> (int \<times> obj) list \<Rightarrow> (int, 'v) dict" where
  "table_of f rows = build_table (List.map_filter (\<lambda>(i, raw). map_option (Pair i) (f raw)) rows)"

definition perk_set :: "obj \<Rightarrow> string fset option" where
  "perk_set raw =
     (case get raw ''perk'' of
        JArr ps \<Rightarrow> (let s = fset_of_list (List.map_filter opt_text ps)
          in if s = {||} then None else Some s)
      | _ \<Rightarrow> None)"

definition renown_of :: "obj \<Rightarrow> rat option result" where
  "renown_of raw =
     (case get raw ''prestige'' of JObj p \<Rightarrow> coerce_float (get p ''accumulated'') | _ \<Rightarrow> Inr None)"

text \<open>The two numbers of a row, in the order in which they are read.\<close>

definition renown_row :: "int \<times> obj \<Rightarrow> (int \<times> rat option \<times> rat option) list result" where
  "renown_row = (\<lambda>(i, raw).
     bindr (renown_of raw) (\<lambda>accumulated.
     bindr (parse_currency False (get raw ''prestige'')) (\<lambda>currency. Inr [(i, accumulated, currency)])))"

record dynasty_tables =
  dt_names :: "(int, string) dict"
  dt_perks :: "(int, string fset) dict"
  dt_heads :: "(int, int) dict"
  dt_renown_accumulated :: "(int, rat) dict"
  dt_renown_currency :: "(int, rat) dict"

definition given :: "('r \<Rightarrow> 'v option) \<Rightarrow> (int \<times> 'r) list \<Rightarrow> (int, 'v) dict" where
  "given f rows = build_table (List.map_filter (\<lambda>(i, r). map_option (Pair i) (f r)) rows)"

definition parse_dynasties :: "obj \<Rightarrow> dynasty_tables result" where
  "parse_dynasties data =
     (let rows = iter_db_records data [''dynasties'', ''dynasties''] in
      bindr (concat_mapr renown_row rows) (\<lambda>renown. Inr
      \<lparr>dt_names = table_of resolve_dynasty_or_house_name rows,
       dt_perks = table_of perk_set rows,
       dt_heads = table_of (\<lambda>raw. coerce_int (get raw ''dynasty_head'')) rows,
       dt_renown_accumulated = given fst renown,
       dt_renown_currency = given snd renown\<rparr>))"

record house_tables =
  ht_names :: "(int, string) dict"
  ht_house_to_dynasty :: "(int, int) dict"

definition parse_houses :: "obj \<Rightarrow> house_tables" where
  "parse_houses data =
     (let rows = iter_db_records data [''dynasties'', ''dynasty_house''] in
      \<lparr>ht_names = table_of resolve_dynasty_or_house_name rows,
       ht_house_to_dynasty = table_of (\<lambda>raw. coerce_int (get raw ''dynasty'')) rows\<rparr>)"

text \<open>\<open>raw.get(a) or raw.get(b)\<close>, when it is a text.\<close>

definition first_true :: "string \<Rightarrow> string \<Rightarrow> obj \<Rightarrow> string option" where
  "first_true a b raw = opt_text (if truthy (get raw a) then get raw a else get raw b)"

definition parse_cultures_lookup :: "obj \<Rightarrow> (int, string) dict result" where
  "parse_cultures_lookup data = bindr (subsection_of data ''culture_manager'' ''cultures'') (\<lambda>cm.
     Inr (table_of (first_true ''name'' ''culture_template'') (int_rows cm)))"

definition parse_faiths_lookup :: "obj \<Rightarrow> (int, string) dict result" where
  "parse_faiths_lookup data = bindr (subsection_of data ''religion'' ''faiths'') (\<lambda>faiths.
     Inr (table_of (first_true ''faith_type'' ''tag'') (int_rows faiths)))"

section \<open>Tables and indexes agree\<close>

interpretation war_table: keyed_rows "war_rows data" war_war_id for data
  by unfold_locales (auto simp: war_rows_def war_of_raw_def Let_def)

interpretation activity_table: keyed_rows "activity_rows data" act_activity_id for data
  by unfold_locales (auto simp: activity_rows_def activity_of_raw_def)

interpretation contract_table: keyed_rows "contract_rows data" ctr_contract_id for data
  by unfold_locales (auto simp: contract_rows_def contract_of_raw_def set_map_filter)

interpretation position_table: keyed_rows "position_rows data" pos_position_id for data
  by unfold_locales (auto simp: position_rows_def position_of_raw_def set_map_filter)

lemma artifact_rows_keyed: "artifact_rows data = Inr rows \<Longrightarrow> keyed_rows rows art_artifact_id"
proof unfold_locales
  fix i r
  assume "artifact_rows data = Inr rows" and "(i, r) \<in> set rows"
  then show "art_artifact_id r = i"
    unfolding artifact_rows_def
    by (elim concat_mapr_elem) (auto simp: bindr_eq_Inr)
qed

text \<open>
  Whatever order the interpreter iterates a set of characters in, the index has the same
  entries.
\<close>

lemma index_by_iter:
  assumes "set_order i1" and "set_order i2"
  shows "dict_get_default (index_by (\<lambda>r. f r @ i1 (g r)) rows) k {||} =
    dict_get_default (index_by (\<lambda>r. f r @ i2 (g r)) rows) k {||}"
  unfolding index_by_def
  by (rule build_index_cong) (auto simp: set_order.iter_set [OF assms(1)] set_order.iter_set [OF assms(2)])

lemma alliances_symmetric:
  "parse_alliances data = Inr al \<Longrightarrow> b |\<in>| dict_get_default al a {||} \<longleftrightarrow> a |\<in>| dict_get_default al b {||}"
proof -
  have pairs: "(x, y) \<in> set (alliance_pairs rel) \<Longrightarrow> (y, x) \<in> set (alliance_pairs rel)" for x y rel
    by (auto simp: alliance_pairs_def split: json.splits if_splits option.splits)
  have swap: "(\<exists>rel\<in>set rels. (x, y) \<in> set (alliance_pairs rel)) \<longleftrightarrow>
      (\<exists>rel\<in>set rels. (y, x) \<in> set (alliance_pairs rel))" for x y rels
    using pairs by blast
  assume "parse_alliances data = Inr al"
  then obtain relations where "(case get relations ''active_relations'' of
      JArr rels \<Rightarrow> Inr (build_index (concat (map alliance_pairs rels))) | _ \<Rightarrow> Inr []) = (Inr al :: _ result)"
    by (auto simp: parse_alliances_def bindr_eq_Inr)
  then show ?thesis
    by (cases "get relations ''active_relations''") (auto simp: build_index_mem swap [of _ a b])
qed

end
