(* ===== verification/Parse.thy ===== *)
theory Parse
  imports Parse_Titles Parse_Tables
begin

text \<open>
  The characters and the whole of \<open>parse_save\<close> (\<open>save/parse.py\<close>), with the record lookup of
  \<open>save/raw_record.py\<close>. The parser reads what it knows and leaves the rest; where it calls
  \<open>.get\<close> on a section that is no dictionary, or decodes a name that is no text, the result is
  the error Python raises. The arguments are \<open>repr\<close> (the text of a container or of a decimal
  number), \<open>names\<close> (the game's own names) and \<open>iter\<close> (the order of a set).
\<close>

section \<open>The playthrough\<close>

definition founding_id :: "obj \<Rightarrow> int option" where
  "founding_id data =
     (case get data ''played_character'' of
        JObj pc \<Rightarrow>
          (case get pc ''legacy'' of
             JArr (JObj first # _) \<Rightarrow> coerce_int (get first ''character'')
           | _ \<Rightarrow> None)
      | _ \<Rightarrow> None)"

definition resolve_playthrough_id :: "(json \<Rightarrow> string) \<Rightarrow> obj \<Rightarrow> string" where
  "resolve_playthrough_id repr data =
     (case opt_str data ''playthrough_id'' of
        Some canonical \<Rightarrow> canonical
      | None \<Rightarrow>
          (let seed = get data ''random_seed'';
               bookmark = get data ''bookmark_date'';
               parts = [(if seed = JNull then [] else py_str repr seed),
                 (if truthy bookmark then py_str repr bookmark else []),
                 (case founding_id data of None \<Rightarrow> [] | Some i \<Rightarrow> show_int i)]
           in if list_all (\<lambda>p. p = []) parts then []
              else ''synth:'' @ parts ! 0 @ '':'' @ parts ! 1 @ '':'' @ parts ! 2))"

section \<open>Families and memories\<close>

definition parse_family :: "json \<Rightarrow> family_snapshot" where
  "parse_family raw =
     (case raw of
        JObj d \<Rightarrow>
          \<lparr>fam_mother = coerce_int (get d ''mother''),
           fam_father = coerce_int (get d ''father''),
           fam_primary_spouse = coerce_int (get d ''primary_spouse''),
           fam_spouses = as_int_tuple (get d ''spouse''),
           fam_former_spouses = as_int_tuple (get d ''former_spouses''),
           fam_concubinist = coerce_int (get d ''concubinist''),
           fam_concubines = as_int_tuple (get d ''concubine''),
           fam_children = as_int_tuple (get d ''child''),
           fam_betrothed = as_int_tuple (get d ''betrothed'')\<rparr>
      | _ \<Rightarrow> empty_family)"

text \<open>\<open>str(raw.get(k, ""))\<close>, and \<open>str(raw[k]) if k in raw else None\<close>.\<close>

definition str_or_empty :: "(json \<Rightarrow> string) \<Rightarrow> obj \<Rightarrow> string \<Rightarrow> string" where
  "str_or_empty repr raw k =
     (case dict_get raw k of None \<Rightarrow> [] | Some v \<Rightarrow> py_str repr v)"

definition str_if_there :: "(json \<Rightarrow> string) \<Rightarrow> obj \<Rightarrow> string \<Rightarrow> string option" where
  "str_if_there repr raw k = map_option (py_str repr) (dict_get raw k)"

definition parse_memory :: "(json \<Rightarrow> string) \<Rightarrow> int \<Rightarrow> obj \<Rightarrow> memory_snapshot" where
  "parse_memory repr memory_id raw =
     \<lparr>mem_memory_id = memory_id,
      mem_memory_type = str_or_empty repr raw ''type'',
      mem_creation_date = str_or_empty repr raw ''creation_date'',
      mem_end_date = str_if_there repr raw ''end_date'',
      mem_participants = (case or_dict (get raw ''participants'') of
          JObj ps \<Rightarrow> List.map_filter (\<lambda>(role, char_id). map_option (Pair role) (coerce_int char_id)) ps
        | _ \<Rightarrow> [])\<rparr>"

definition build_memory_index :: "(json \<Rightarrow> string) \<Rightarrow> json \<Rightarrow> (int, memory_snapshot) dict" where
  "build_memory_index repr memory_db =
     build_table (map (\<lambda>(mid, raw). (mid, parse_memory repr mid raw)) (int_rows memory_db))"

section \<open>One character\<close>

text \<open>The block with the fields of the living, or of the dead.\<close>

definition life_block :: "bool \<Rightarrow> obj \<Rightarrow> obj" where
  "life_block is_dead raw =
     (case (if is_dead then or_dict (get raw ''dead_data'') else get raw ''alive_data'') of
        JObj d \<Rightarrow> d | _ \<Rightarrow> [])"

definition memory_ids_of :: "obj \<Rightarrow> int list" where
  "memory_ids_of block =
     (case get block ''memories'' of JArr ms \<Rightarrow> List.map_filter coerce_int ms | _ \<Rightarrow> [])"

definition location_of :: "obj \<Rightarrow> int option" where
  "location_of block =
     (case get block ''location'' of JObj w \<Rightarrow> coerce_int (get w ''location'') | _ \<Rightarrow> None)"

definition text_list :: "json \<Rightarrow> string list" where
  "text_list v = (case v of JArr xs \<Rightarrow> List.map_filter opt_text xs | _ \<Rightarrow> [])"

text \<open>The fields of \<open>dead_data\<close>, read whatever bucket the record came from.\<close>

definition dead_block :: "obj \<Rightarrow> obj" where
  "dead_block raw = (case get raw ''dead_data'' of JObj d \<Rightarrow> d | _ \<Rightarrow> [])"

definition landed_block :: "obj \<Rightarrow> obj" where
  "landed_block raw = (case get raw ''landed_data'' of JObj d \<Rightarrow> d | _ \<Rightarrow> [])"

definition decisions_of :: "(json \<Rightarrow> string) \<Rightarrow> obj \<Rightarrow> (string \<times> string) list" where
  "decisions_of repr landed =
     (case get landed ''decision_cooldowns'' of
        JObj cooldowns \<Rightarrow> sort (List.map_filter (\<lambda>(did, end_date).
          if did = [] then None
          else Some (did, if end_date = JNull then [] else py_str repr end_date)) cooldowns)
      | _ \<Rightarrow> [])"

definition modifier_keys_of :: "obj \<Rightarrow> string list" where
  "modifier_keys_of raw =
     (case get raw ''character_modifier'' of
        JArr mods \<Rightarrow> List.map_filter (\<lambda>entry. case entry of
          JObj d \<Rightarrow> opt_str d ''modifier'' | _ \<Rightarrow> None) mods
      | _ \<Rightarrow> [])"

definition parse_character ::
  "(json \<Rightarrow> string) \<Rightarrow> (string, string) dict \<Rightarrow> (int, memory_snapshot) dict \<Rightarrow> (int, string) dict
   \<Rightarrow> bool \<Rightarrow> int \<Rightarrow> obj \<Rightarrow> character_snapshot result" where
  "parse_character repr names memory_index cultures_lookup is_dead ck3_id raw =
     (let block = life_block is_dead raw;
          dead = dead_block raw;
          landed = landed_block raw;
          culture_id = coerce_int (get raw ''culture'');
          culture_name = (case culture_id of None \<Rightarrow> None | Some c \<Rightarrow> dict_get cultures_lookup c);
          money = (\<lambda>accrued k. if is_dead then Inr None else parse_currency accrued (get block k))
      in bindr (money False ''gold'') (\<lambda>gold.
         bindr (money False ''prestige'') (\<lambda>prestige.
         bindr (money True ''prestige'') (\<lambda>prestige_lifetime.
         bindr (money False ''piety'') (\<lambda>piety.
         bindr (money True ''piety'') (\<lambda>piety_lifetime.
         bindr (first_name_field names culture_name (get raw ''first_name'')) (\<lambda>first_name.
         bindr (nickname_field culture_name (get raw ''nickname_text'')) (\<lambda>nickname.
         Inr
          \<lparr>cs_ck3_id = ck3_id,
           cs_first_name = first_name,
           cs_nickname = nickname,
           cs_is_dead = is_dead,
           cs_female = truthy (get raw ''female''),
           cs_birth_date = str_if_there repr raw ''birth'',
           cs_death_date = (if get dead ''date'' = JNull then None
             else Some (py_str repr (get dead ''date''))),
           cs_culture_id = culture_id,
           cs_faith_id = coerce_int (get raw ''faith''),
           cs_dynasty_house_id = coerce_int (get raw ''dynasty_house''),
           cs_ethnicity = (if truthy (get raw ''ethnicity'') then Some (get raw ''ethnicity'') else None),
           cs_traits = as_int_tuple (get raw ''traits''),
           cs_family = parse_family (get raw ''family_data''),
           cs_location_id = location_of block,
           cs_memories = List.map_filter (dict_get memory_index) (memory_ids_of block),
           cs_death_cause = opt_str dead ''reason'',
           cs_death_killer = coerce_int (get dead ''killer''),
           cs_government = opt_str landed ''government'',
           cs_decisions_taken = decisions_of repr landed,
           cs_gold = gold,
           cs_prestige = prestige,
           cs_prestige_lifetime = prestige_lifetime,
           cs_piety = piety,
           cs_piety_lifetime = piety_lifetime,
           cs_modifiers = modifier_keys_of raw,
           cs_perks = (if is_dead then [] else text_list (get block ''perk''))\<rparr>))))))))"

section \<open>The three buckets of characters\<close>

text \<open>\<open>character_entry\<close>: a repeated identifier is folded into a list, of which the last record counts.\<close>

fun character_entry :: "json \<Rightarrow> obj option" where
  "character_entry (JArr vs) =
     (let dicts = List.map_filter (\<lambda>v. case v of JObj d \<Rightarrow> Some d | _ \<Rightarrow> None) vs
      in if dicts = [] then None else Some (last dicts))"
| "character_entry (JObj d) = Some d"
| "character_entry _ = None"

definition entry_rows :: "json \<Rightarrow> (int \<times> obj) list" where
  "entry_rows bucket =
     (case bucket of
        JObj d \<Rightarrow> List.map_filter (\<lambda>(raw_id, raw).
          case (int_of_text raw_id, character_entry raw) of
            (Some cid, Some record) \<Rightarrow> Some (cid, record) | _ \<Rightarrow> None) d
      | _ \<Rightarrow> [])"

text \<open>
  The living first, then the two buckets of the dead: a character found in several is the one
  read last. The sections of the dead are looked up only after the living are done.
\<close>

definition parse_bucket ::
  "(int \<Rightarrow> obj \<Rightarrow> character_snapshot result) \<Rightarrow> json \<Rightarrow> (int \<times> character_snapshot) list result" where
  "parse_bucket parse_one bucket =
     concat_mapr (\<lambda>(cid, record). bindr (parse_one cid record) (\<lambda>c. Inr [(cid, c)]))
       (entry_rows bucket)"

definition parse_characters ::
  "(bool \<Rightarrow> int \<Rightarrow> obj \<Rightarrow> character_snapshot result) \<Rightarrow> obj
   \<Rightarrow> (int, character_snapshot) dict result" where
  "parse_characters parse_one data =
     bindr (parse_bucket (parse_one False) (or_dict (get data ''living''))) (\<lambda>living.
     bindr (parse_bucket (parse_one True) (or_dict (get data ''dead_unprunable''))) (\<lambda>dead.
     bindr (subsection_of data ''characters'' ''dead_prunable'') (\<lambda>prunable.
     bindr (parse_bucket (parse_one True) prunable) (\<lambda>fresh.
       Inr (build_table (living @ dead @ fresh))))))"

section \<open>The whole save\<close>

text \<open>\<open>meta.get("meta_date") or data.get("date") or ""\<close>, as text.\<close>

definition current_date_of :: "(json \<Rightarrow> string) \<Rightarrow> obj \<Rightarrow> obj \<Rightarrow> string" where
  "current_date_of repr meta data =
     (if truthy (get meta ''meta_date'') then py_str repr (get meta ''meta_date'')
      else if truthy (get data ''date'') then py_str repr (get data ''date'') else [])"

definition parse_save ::
  "(json \<Rightarrow> string) \<Rightarrow> (string, string) dict \<Rightarrow> (int fset \<Rightarrow> int list) \<Rightarrow> obj \<Rightarrow> save_snapshot result" where
  "parse_save repr names iter data =
     bindr (section_of data ''meta_data'') (\<lambda>meta.
     bindr (Inr (or_dict (get meta ''meta_main_portrait''))) (\<lambda>main_portrait.
     bindr (subsection_of data ''character_memory_manager'' ''database'') (\<lambda>memory_db.
     bindr (parse_cultures_lookup data) (\<lambda>cultures_lookup.
     bindr (parse_characters
        (parse_character repr names (build_memory_index repr memory_db) cultures_lookup) data) (\<lambda>characters.
     bindr (parse_artifacts data) (\<lambda>(artifacts, character_to_artifacts).
     bindr (parse_dynasties data) (\<lambda>dynasty_tbl.
     let traits_lookup = (case get data ''traits_lookup'' of
             JArr ts \<Rightarrow> map (py_str repr) ts | _ \<Rightarrow> []);
         (wars, character_to_wars) = parse_wars iter data;
         house_tbl = parse_houses data;
         (epidemics, character_to_epidemics) = parse_epidemics iter data;
         (in_flight, character_to_constructions, buildings) = parse_constructions_and_buildings data;
         (activities, character_to_activities) = parse_activities iter data;
         (inspirations, sponsored) = parse_inspirations data;
         (contracts, character_to_contracts) = parse_contracts data;
         (positions, character_to_positions) = parse_court_positions data;
         titles = parse_titles data;
         (domiciles, character_to_domicile) = parse_domiciles data titles
     in
     bindr (as_dict main_portrait) (\<lambda>portrait.
     bindr (parse_alliances data) (\<lambda>alliances.
     bindr (parse_faiths_lookup data) (\<lambda>faiths_lookup.
     Inr
      \<lparr>sn_playthrough_id = resolve_playthrough_id repr data,
       sn_ck3_version = str_or_empty repr meta ''version'',
       sn_bookmark_date = str_if_there repr data ''bookmark_date'',
       sn_current_date = current_date_of repr meta data,
       sn_player_character_id = coerce_int (get portrait ''id''),
       sn_characters = characters,
       sn_alliances = alliances,
       sn_traits_lookup = traits_lookup,
       sn_houses_lookup = ht_names house_tbl,
       sn_cultures_lookup = cultures_lookup,
       sn_faiths_lookup = faiths_lookup,
       sn_dynasties_lookup = dt_names dynasty_tbl,
       sn_house_to_dynasty = ht_house_to_dynasty house_tbl,
       sn_titles = titles,
       sn_title_holders = build_title_holders titles,
       sn_kingdoms_by_de_jure_empire = build_kingdoms_by_de_jure_empire titles,
       sn_wars = wars,
       sn_character_to_wars = character_to_wars,
       sn_artifacts = artifacts,
       sn_character_to_artifacts = character_to_artifacts,
       sn_dynasty_perks = dt_perks dynasty_tbl,
       sn_dynasty_renown = dt_renown_accumulated dynasty_tbl,
       sn_dynasty_heads = dt_heads dynasty_tbl,
       sn_epidemics = epidemics,
       sn_character_to_epidemics = character_to_epidemics,
       sn_in_flight_constructions = in_flight,
       sn_character_to_constructions = character_to_constructions,
       sn_holding_buildings_by_slot = buildings,
       sn_activities = activities,
       sn_character_to_activities = character_to_activities,
       sn_inspirations = inspirations,
       sn_character_to_sponsored_inspirations = sponsored,
       sn_task_contracts = contracts,
       sn_character_to_contracts = character_to_contracts,
       sn_court_positions = positions,
       sn_character_to_court_positions = character_to_positions,
       sn_domiciles = domiciles,
       sn_character_to_domicile = character_to_domicile,
       sn_dynasties_renown = dt_renown_currency dynasty_tbl,
       sn_tracked_raw_records = [],
       sn_tracked_coa = []\<rparr>))))))))))"

end
