(* ===== verification/Progression.thy ===== *)
theory Progression
  imports Prelude
begin

text \<open>
  The two static tables the diff derives events from:
  \<open>save/dynasty_splendor.py\<close> (the splendor tier of a dynasty from its lifetime renown) and
  \<open>save/lifestyle_perks.py\<close> (the lifestyle a perk belongs to).
\<close>

section \<open>Splendor tiers\<close>

definition SPLENDOR_THRESHOLDS :: "rat list" where
  "SPLENDOR_THRESHOLDS = [1000, 5000, 15000, 35000, 65000, 105000]"

definition SPLENDOR_TIER_NAMES :: "string list" where
  "SPLENDOR_TIER_NAMES = [''Base Origins'', ''Obscure'', ''Insignificant'', ''Noteworthy'',
     ''Reputable'', ''Well-known'', ''Significant'']"

text \<open>The loop over the thresholds, which stops at the first one not reached.\<close>

fun count_reached :: "rat \<Rightarrow> rat list \<Rightarrow> int" where
  "count_reached accumulated [] = 0"
| "count_reached accumulated (threshold # ts) =
     (if accumulated \<ge> threshold then 1 + count_reached accumulated ts else 0)"

definition derive_splendor_tier :: "rat \<Rightarrow> int" where
  "derive_splendor_tier accumulated =
     (if accumulated \<le> 0 then 0 else count_reached accumulated SPLENDOR_THRESHOLDS)"

lemma count_reached_bounds: "0 \<le> count_reached a ts \<and> count_reached a ts \<le> int (length ts)"
  by (induction ts) auto

lemma count_reached_mono: "a \<le> b \<Longrightarrow> count_reached a ts \<le> count_reached b ts"
  using count_reached_bounds by (induction ts) (auto intro: order_trans)

text \<open>On an ascending table, stopping at the first miss loses nothing.\<close>

lemma count_reached_filter:
  "sorted ts \<Longrightarrow> count_reached a ts = int (length (filter (\<lambda>t. t \<le> a) ts))"
proof (induction ts)
  case Nil
  then show ?case by simp
next
  case (Cons t ts)
  then have "t' \<le> a \<Longrightarrow> t \<le> a" if "t' \<in> set ts" for t'
    using that by (auto intro: order_trans)
  with Cons show ?case by (auto simp: filter_empty_conv)
qed

lemma thresholds_sorted: "sorted SPLENDOR_THRESHOLDS"
  by (simp add: SPLENDOR_THRESHOLDS_def)

lemma derive_splendor_tier_bounds: "0 \<le> derive_splendor_tier a \<and> derive_splendor_tier a \<le> 6"
  using count_reached_bounds [of a SPLENDOR_THRESHOLDS]
  by (simp add: derive_splendor_tier_def SPLENDOR_THRESHOLDS_def)

lemma derive_splendor_tier_mono: "a \<le> b \<Longrightarrow> derive_splendor_tier a \<le> derive_splendor_tier b"
  using count_reached_mono [of a b SPLENDOR_THRESHOLDS] count_reached_bounds
  by (auto simp: derive_splendor_tier_def)

lemma derive_splendor_tier_count:
  "derive_splendor_tier a = int (length (filter (\<lambda>t. t \<le> a) SPLENDOR_THRESHOLDS))"
proof (cases "a \<le> 0")
  case True
  then have "filter (\<lambda>t. t \<le> a) SPLENDOR_THRESHOLDS = []"
    by (simp add: SPLENDOR_THRESHOLDS_def)
  with True show ?thesis by (simp add: derive_splendor_tier_def)
next
  case False
  then show ?thesis
    by (simp add: derive_splendor_tier_def count_reached_filter thresholds_sorted)
qed

lemma tier_names_cover: "length SPLENDOR_TIER_NAMES = Suc (length SPLENDOR_THRESHOLDS)"
  by (simp add: SPLENDOR_TIER_NAMES_def SPLENDOR_THRESHOLDS_def)

section \<open>Lifestyles\<close>

definition KNOWN_LIFESTYLES :: "string list" where
  "KNOWN_LIFESTYLES = [''martial_lifestyle'', ''diplomacy_lifestyle'',
     ''stewardship_lifestyle'', ''intrigue_lifestyle'', ''learning_lifestyle'',
     ''wanderer_lifestyle'']"

definition LIFESTYLE_FOR_PERK :: "(string, string) dict" where
  "LIFESTYLE_FOR_PERK =
    [(''bellum_justum_perk'', ''martial_lifestyle''),
     (''parthian_tactics_perk'', ''martial_lifestyle''),
     (''overseer_perk'', ''martial_lifestyle''),
     (''chivalric_brilliance_perk'', ''martial_lifestyle''),
     (''tomb_raider_perk'', ''martial_lifestyle''),
     (''gallant_perk'', ''martial_lifestyle''),
     (''schemer_perk'', ''intrigue_lifestyle''),
     (''intrigue_perk'', ''intrigue_lifestyle''),
     (''seducer_perk'', ''intrigue_lifestyle''),
     (''torturer_perk'', ''intrigue_lifestyle''),
     (''underhanded_perk'', ''intrigue_lifestyle''),
     (''mystic_perk'', ''learning_lifestyle''),
     (''scholar_perk'', ''learning_lifestyle''),
     (''medicus_perk'', ''learning_lifestyle''),
     (''theologian_perk'', ''learning_lifestyle''),
     (''august_perk'', ''diplomacy_lifestyle''),
     (''diplomat_perk'', ''diplomacy_lifestyle''),
     (''family_first_perk'', ''diplomacy_lifestyle''),
     (''groomed_to_rule_perk'', ''diplomacy_lifestyle''),
     (''architect_perk'', ''stewardship_lifestyle''),
     (''fiscal_perk'', ''stewardship_lifestyle''),
     (''organizer_perk'', ''stewardship_lifestyle''),
     (''avaricious_perk'', ''stewardship_lifestyle'')]"

definition lifestyle_of_perk :: "string \<Rightarrow> string option" where
  "lifestyle_of_perk perk_key =
     (if perk_key = [] then None else dict_get LIFESTYLE_FOR_PERK perk_key)"

lemma lifestyle_table_known: "\<forall>(k, ls) \<in> set LIFESTYLE_FOR_PERK. ls \<in> set KNOWN_LIFESTYLES"
  by (simp add: LIFESTYLE_FOR_PERK_def KNOWN_LIFESTYLES_def)

lemma lifestyle_of_perk_known: "lifestyle_of_perk k = Some ls \<Longrightarrow> ls \<in> set KNOWN_LIFESTYLES"
  using lifestyle_table_known by (auto simp: lifestyle_of_perk_def split: if_splits
      dest!: dict_get_memD)

end
