(* ===== verification/Events.thy ===== *)
theory Events
  imports Snapshot
begin

text \<open>
  The event models of \<open>schema/events.py\<close>: one record per payload class, the union of the
  payloads, the event with its five fields \<open>v\<close>, \<open>t\<close>, \<open>d\<close>, \<open>c\<close>, \<open>p\<close>, and one constructor per
  event class, which fills in the schema version and its own discriminator as the class's
  defaults do. \<open>valid_event\<close> is what the discriminated union \<open>EventPayload\<close> accepts: a known
  discriminator, the payload class that belongs to it, and the \<open>Literal\<close> fields of the payload
  within their values. (Field types are enforced by Isabelle's types.)
\<close>

section \<open>Payloads\<close>

record death_payload =
  dp_killer :: "int option"
  dp_cause :: "string option"
  dp_death_age :: "int option"

record marriage_payload =
  mp_spouse_character_id :: "int option"

record divorce_payload =
  vp_former_spouse_character_id :: "int option"

record travel_payload =
  tp_from_location :: "int option"
  tp_to_location :: "int option"

record trait_payload =
  trp_trait_id :: int
  trp_trait_name :: "string option"

record government_changed_payload =
  gp_previous_government :: string
  gp_new_government :: string

record alliance_payload =
  alp_ally_character_id :: int

record nickname_payload =
  np_from_nickname :: "string option"
  np_to_nickname :: "string option"

record title_acquired_payload =
  tap_title_id :: int
  tap_title_key :: string
  tap_title_name :: "string option"
  tap_tier :: "string option"
  tap_from_holder_id :: "int option"

record title_relinquished_payload =
  trelp_title_id :: int
  trelp_title_key :: string
  trelp_title_name :: "string option"
  trelp_tier :: "string option"
  trelp_to_holder_id :: "int option"

record title_created_payload =
  tcp_title_id :: int
  tcp_title_key :: string
  tcp_title_name :: "string option"
  tcp_tier :: "string option"

record house_change_payload =
  hcp_from_house_id :: "int option"
  hcp_from_house_name :: "string option"
  hcp_to_house_id :: "int option"
  hcp_to_house_name :: "string option"

record culture_change_payload =
  ccp_from_culture_id :: "int option"
  ccp_from_culture_name :: "string option"
  ccp_to_culture_id :: "int option"
  ccp_to_culture_name :: "string option"

record faith_change_payload =
  fcp_from_faith_id :: "int option"
  fcp_from_faith_name :: "string option"
  fcp_to_faith_id :: "int option"
  fcp_to_faith_name :: "string option"

record war_side_payload =
  wsp_war_id :: int
  wsp_war_name :: "string option"
  wsp_casus_belli_type :: "string option"
  wsp_targeted_titles :: "int list"
  wsp_side :: "string option"
  wsp_primary_attacker_id :: "int option"
  wsp_primary_defender_id :: "int option"
  wsp_claimant_id :: "int option"

record artifact_payload =
  artp_artifact_id :: int
  artp_name :: "string option"
  artp_type :: "string option"
  artp_rarity :: "string option"

record dynasty_legacy_payload =
  dlp_dynasty_id :: int
  dlp_dynasty_name :: "string option"
  dlp_legacy_key :: string

record splendor_payload =
  sp_dynasty_id :: int
  sp_dynasty_name :: "string option"
  sp_dynasty_head_id :: "int option"
  sp_old_tier :: int
  sp_new_tier :: int
  sp_total_renown_at_change :: rat

record concubine_payload =
  cop_concubine_id :: int
  cop_concubine_name :: "string option"

record modifier_payload =
  modp_modifier_key :: string

record perk_payload =
  pp_perk_key :: string

record lifestyle_committed_payload =
  lcp_lifestyle_key :: string
  lcp_first_perk_key :: string

record contract_payload =
  ctp_contract_type :: "string option"
  ctp_name :: "string option"
  ctp_tier :: "int option"
  ctp_employer_id :: "int option"
  ctp_location_province_id :: "int option"
  ctp_outcome :: string
  ctp_acceptance_date :: "string option"
  ctp_completion_date :: "string option"

record camp_companion_payload =
  ccmp_position_id :: int
  ccmp_court_position :: "string option"
  ccmp_employee_id :: "int option"
  ccmp_employee_name :: "string option"
  ccmp_hire_date :: "string option"

record domicile_payload =
  domp_domicile_id :: int
  domp_domicile_type :: "string option"
  domp_from_province_id :: "int option"
  domp_to_province_id :: "int option"

record vanilla_memory_payload =
  vmp_memory_type :: string
  vmp_end_date :: "string option"
  vmp_participants :: "(string, int) dict"
  vmp_deceased_cause :: "string option"
  vmp_deceased_age :: "int option"
  vmp_deceased_first_name :: "string option"
  vmp_deceased_killer_id :: "int option"
  vmp_deceased_killer_first_name :: "string option"

record epidemic_payload =
  epp_epidemic_id :: int
  epp_epidemic_type :: "string option"
  epp_name :: "string option"
  epp_intensity :: "string option"
  epp_start_date :: "string option"
  epp_num_infected_provinces :: int
  epp_num_character_deaths :: int

record activity_payload =
  actp_activity_id :: int
  actp_activity_type :: "string option"
  actp_role :: string
  actp_host_id :: "int option"
  actp_start_province_id :: "int option"
  actp_start_date :: "string option"

record inspiration_sponsored_payload =
  isp_inspiration_id :: int
  isp_inspiration_type :: "string option"
  isp_artisan_character_id :: "int option"
  isp_total_cost :: "int option"

record miscarriage_payload =
  misp_assumed_father_id :: "int option"

record decision_taken_payload =
  dtp_decision_id :: string
  dtp_cooldown_end_date :: "string option"

record building_completed_payload =
  bcp_building :: string
  bcp_province_id :: int
  bcp_slot_index :: int
  bcp_start_date :: "string option"

section \<open>The union of the payloads and the event\<close>

datatype (plugins only: code size) payload =
    EmptyPayload
  | DeathPayload death_payload
  | MarriagePayload marriage_payload
  | DivorcePayload divorce_payload
  | TravelPayload travel_payload
  | TraitPayload trait_payload
  | GovernmentChangedPayload government_changed_payload
  | AlliancePayload alliance_payload
  | NicknamePayload nickname_payload
  | TitleAcquiredPayload title_acquired_payload
  | TitleRelinquishedPayload title_relinquished_payload
  | TitleCreatedPayload title_created_payload
  | HouseChangePayload house_change_payload
  | CultureChangePayload culture_change_payload
  | FaithChangePayload faith_change_payload
  | WarSidePayload war_side_payload
  | ArtifactPayload artifact_payload
  | DynastyLegacyPayload dynasty_legacy_payload
  | SplendorPayload splendor_payload
  | ConcubinePayload concubine_payload
  | ModifierPayload modifier_payload
  | PerkPayload perk_payload
  | LifestyleCommittedPayload lifestyle_committed_payload
  | ContractPayload contract_payload
  | CampCompanionPayload camp_companion_payload
  | DomicilePayload domicile_payload
  | VanillaMemoryPayload vanilla_memory_payload
  | EpidemicPayload epidemic_payload
  | ActivityPayload activity_payload
  | InspirationSponsoredPayload inspiration_sponsored_payload
  | MiscarriagePayload miscarriage_payload
  | DecisionTakenPayload decision_taken_payload
  | BuildingCompletedPayload building_completed_payload

record event =
  ev_v :: int
  ev_t :: string
  ev_d :: string
  ev_c :: int
  ev_p :: payload

definition SCHEMA_VERSION :: int where
  "SCHEMA_VERSION = 1"

section \<open>The event classes\<close>

definition DeathEvent :: "string \<Rightarrow> int \<Rightarrow> death_payload \<Rightarrow> event" where
  "DeathEvent d c p = \<lparr>ev_v = SCHEMA_VERSION, ev_t = ''death'', ev_d = d, ev_c = c,
     ev_p = DeathPayload p\<rparr>"

definition BirthEvent :: "string \<Rightarrow> int \<Rightarrow> event" where
  "BirthEvent d c = \<lparr>ev_v = SCHEMA_VERSION, ev_t = ''birth'', ev_d = d, ev_c = c,
     ev_p = EmptyPayload\<rparr>"

definition MarriageEvent :: "string \<Rightarrow> int \<Rightarrow> marriage_payload \<Rightarrow> event" where
  "MarriageEvent d c p = \<lparr>ev_v = SCHEMA_VERSION, ev_t = ''marriage'', ev_d = d, ev_c = c,
     ev_p = MarriagePayload p\<rparr>"

definition DivorceEvent :: "string \<Rightarrow> int \<Rightarrow> divorce_payload \<Rightarrow> event" where
  "DivorceEvent d c p = \<lparr>ev_v = SCHEMA_VERSION, ev_t = ''divorce'', ev_d = d, ev_c = c,
     ev_p = DivorcePayload p\<rparr>"

definition TitleGainEvent :: "string \<Rightarrow> int \<Rightarrow> event" where
  "TitleGainEvent d c = \<lparr>ev_v = SCHEMA_VERSION, ev_t = ''title_gain'', ev_d = d, ev_c = c,
     ev_p = EmptyPayload\<rparr>"

definition TitleLostEvent :: "string \<Rightarrow> int \<Rightarrow> event" where
  "TitleLostEvent d c = \<lparr>ev_v = SCHEMA_VERSION, ev_t = ''title_lost'', ev_d = d, ev_c = c,
     ev_p = EmptyPayload\<rparr>"

definition WarStartedEvent :: "string \<Rightarrow> int \<Rightarrow> event" where
  "WarStartedEvent d c = \<lparr>ev_v = SCHEMA_VERSION, ev_t = ''war_started'', ev_d = d, ev_c = c,
     ev_p = EmptyPayload\<rparr>"

definition WarWonAttackerEvent :: "string \<Rightarrow> int \<Rightarrow> event" where
  "WarWonAttackerEvent d c = \<lparr>ev_v = SCHEMA_VERSION, ev_t = ''war_won_attacker'', ev_d = d, ev_c = c,
     ev_p = EmptyPayload\<rparr>"

definition WarWonDefenderEvent :: "string \<Rightarrow> int \<Rightarrow> event" where
  "WarWonDefenderEvent d c = \<lparr>ev_v = SCHEMA_VERSION, ev_t = ''war_won_defender'', ev_d = d, ev_c = c,
     ev_p = EmptyPayload\<rparr>"

definition ImprisonEvent :: "string \<Rightarrow> int \<Rightarrow> event" where
  "ImprisonEvent d c = \<lparr>ev_v = SCHEMA_VERSION, ev_t = ''imprison'', ev_d = d, ev_c = c,
     ev_p = EmptyPayload\<rparr>"

definition ReleaseEvent :: "string \<Rightarrow> int \<Rightarrow> event" where
  "ReleaseEvent d c = \<lparr>ev_v = SCHEMA_VERSION, ev_t = ''release'', ev_d = d, ev_c = c,
     ev_p = EmptyPayload\<rparr>"

definition TravelEvent :: "string \<Rightarrow> int \<Rightarrow> travel_payload \<Rightarrow> event" where
  "TravelEvent d c p = \<lparr>ev_v = SCHEMA_VERSION, ev_t = ''travel'', ev_d = d, ev_c = c,
     ev_p = TravelPayload p\<rparr>"

definition TraitGainedEvent :: "string \<Rightarrow> int \<Rightarrow> trait_payload \<Rightarrow> event" where
  "TraitGainedEvent d c p = \<lparr>ev_v = SCHEMA_VERSION, ev_t = ''trait_gained'', ev_d = d, ev_c = c,
     ev_p = TraitPayload p\<rparr>"

definition TraitLostEvent :: "string \<Rightarrow> int \<Rightarrow> trait_payload \<Rightarrow> event" where
  "TraitLostEvent d c p = \<lparr>ev_v = SCHEMA_VERSION, ev_t = ''trait_lost'', ev_d = d, ev_c = c,
     ev_p = TraitPayload p\<rparr>"

definition AdventurerStartedEvent :: "string \<Rightarrow> int \<Rightarrow> event" where
  "AdventurerStartedEvent d c = \<lparr>ev_v = SCHEMA_VERSION, ev_t = ''adventurer_started'', ev_d = d, ev_c = c,
     ev_p = EmptyPayload\<rparr>"

definition AdventurerEndedEvent :: "string \<Rightarrow> int \<Rightarrow> event" where
  "AdventurerEndedEvent d c = \<lparr>ev_v = SCHEMA_VERSION, ev_t = ''adventurer_ended'', ev_d = d, ev_c = c,
     ev_p = EmptyPayload\<rparr>"

definition GovernmentChangedEvent :: "string \<Rightarrow> int \<Rightarrow> government_changed_payload \<Rightarrow> event" where
  "GovernmentChangedEvent d c p = \<lparr>ev_v = SCHEMA_VERSION, ev_t = ''government_changed'', ev_d = d, ev_c = c,
     ev_p = GovernmentChangedPayload p\<rparr>"

definition AllianceFormedEvent :: "string \<Rightarrow> int \<Rightarrow> alliance_payload \<Rightarrow> event" where
  "AllianceFormedEvent d c p = \<lparr>ev_v = SCHEMA_VERSION, ev_t = ''alliance_formed'', ev_d = d, ev_c = c,
     ev_p = AlliancePayload p\<rparr>"

definition AllianceBrokenEvent :: "string \<Rightarrow> int \<Rightarrow> alliance_payload \<Rightarrow> event" where
  "AllianceBrokenEvent d c p = \<lparr>ev_v = SCHEMA_VERSION, ev_t = ''alliance_broken'', ev_d = d, ev_c = c,
     ev_p = AlliancePayload p\<rparr>"

definition NicknameEvent :: "string \<Rightarrow> int \<Rightarrow> nickname_payload \<Rightarrow> event" where
  "NicknameEvent d c p = \<lparr>ev_v = SCHEMA_VERSION, ev_t = ''nickname'', ev_d = d, ev_c = c,
     ev_p = NicknamePayload p\<rparr>"

definition TitleAcquiredEvent :: "string \<Rightarrow> int \<Rightarrow> title_acquired_payload \<Rightarrow> event" where
  "TitleAcquiredEvent d c p = \<lparr>ev_v = SCHEMA_VERSION, ev_t = ''title_acquired'', ev_d = d, ev_c = c,
     ev_p = TitleAcquiredPayload p\<rparr>"

definition TitleRelinquishedEvent :: "string \<Rightarrow> int \<Rightarrow> title_relinquished_payload \<Rightarrow> event" where
  "TitleRelinquishedEvent d c p = \<lparr>ev_v = SCHEMA_VERSION, ev_t = ''title_relinquished'', ev_d = d, ev_c = c,
     ev_p = TitleRelinquishedPayload p\<rparr>"

definition TitleCreatedEvent :: "string \<Rightarrow> int \<Rightarrow> title_created_payload \<Rightarrow> event" where
  "TitleCreatedEvent d c p = \<lparr>ev_v = SCHEMA_VERSION, ev_t = ''title_created'', ev_d = d, ev_c = c,
     ev_p = TitleCreatedPayload p\<rparr>"

definition HouseChangeEvent :: "string \<Rightarrow> int \<Rightarrow> house_change_payload \<Rightarrow> event" where
  "HouseChangeEvent d c p = \<lparr>ev_v = SCHEMA_VERSION, ev_t = ''house_change'', ev_d = d, ev_c = c,
     ev_p = HouseChangePayload p\<rparr>"

definition CultureChangeEvent :: "string \<Rightarrow> int \<Rightarrow> culture_change_payload \<Rightarrow> event" where
  "CultureChangeEvent d c p = \<lparr>ev_v = SCHEMA_VERSION, ev_t = ''culture_change'', ev_d = d, ev_c = c,
     ev_p = CultureChangePayload p\<rparr>"

definition FaithChangeEvent :: "string \<Rightarrow> int \<Rightarrow> faith_change_payload \<Rightarrow> event" where
  "FaithChangeEvent d c p = \<lparr>ev_v = SCHEMA_VERSION, ev_t = ''faith_change'', ev_d = d, ev_c = c,
     ev_p = FaithChangePayload p\<rparr>"

definition WarDeclaredEvent :: "string \<Rightarrow> int \<Rightarrow> war_side_payload \<Rightarrow> event" where
  "WarDeclaredEvent d c p = \<lparr>ev_v = SCHEMA_VERSION, ev_t = ''war_declared'', ev_d = d, ev_c = c,
     ev_p = WarSidePayload p\<rparr>"

definition WarJoinedEvent :: "string \<Rightarrow> int \<Rightarrow> war_side_payload \<Rightarrow> event" where
  "WarJoinedEvent d c p = \<lparr>ev_v = SCHEMA_VERSION, ev_t = ''war_joined'', ev_d = d, ev_c = c,
     ev_p = WarSidePayload p\<rparr>"

definition WarLeftEvent :: "string \<Rightarrow> int \<Rightarrow> war_side_payload \<Rightarrow> event" where
  "WarLeftEvent d c p = \<lparr>ev_v = SCHEMA_VERSION, ev_t = ''war_left'', ev_d = d, ev_c = c,
     ev_p = WarSidePayload p\<rparr>"

definition WarConcludedEvent :: "string \<Rightarrow> int \<Rightarrow> war_side_payload \<Rightarrow> event" where
  "WarConcludedEvent d c p = \<lparr>ev_v = SCHEMA_VERSION, ev_t = ''war_concluded'', ev_d = d, ev_c = c,
     ev_p = WarSidePayload p\<rparr>"

definition ArtifactAcquiredEvent :: "string \<Rightarrow> int \<Rightarrow> artifact_payload \<Rightarrow> event" where
  "ArtifactAcquiredEvent d c p = \<lparr>ev_v = SCHEMA_VERSION, ev_t = ''artifact_acquired'', ev_d = d, ev_c = c,
     ev_p = ArtifactPayload p\<rparr>"

definition ArtifactLostEvent :: "string \<Rightarrow> int \<Rightarrow> artifact_payload \<Rightarrow> event" where
  "ArtifactLostEvent d c p = \<lparr>ev_v = SCHEMA_VERSION, ev_t = ''artifact_lost'', ev_d = d, ev_c = c,
     ev_p = ArtifactPayload p\<rparr>"

definition DynastyLegacyUnlockedEvent :: "string \<Rightarrow> int \<Rightarrow> dynasty_legacy_payload \<Rightarrow> event" where
  "DynastyLegacyUnlockedEvent d c p = \<lparr>ev_v = SCHEMA_VERSION, ev_t = ''dynasty_legacy_unlocked'', ev_d = d, ev_c = c,
     ev_p = DynastyLegacyPayload p\<rparr>"

definition SplendorIncreasedEvent :: "string \<Rightarrow> int \<Rightarrow> splendor_payload \<Rightarrow> event" where
  "SplendorIncreasedEvent d c p = \<lparr>ev_v = SCHEMA_VERSION, ev_t = ''splendor_increased'', ev_d = d, ev_c = c,
     ev_p = SplendorPayload p\<rparr>"

definition ConcubineTakenEvent :: "string \<Rightarrow> int \<Rightarrow> concubine_payload \<Rightarrow> event" where
  "ConcubineTakenEvent d c p = \<lparr>ev_v = SCHEMA_VERSION, ev_t = ''concubine_taken'', ev_d = d, ev_c = c,
     ev_p = ConcubinePayload p\<rparr>"

definition ModifierAcquiredEvent :: "string \<Rightarrow> int \<Rightarrow> modifier_payload \<Rightarrow> event" where
  "ModifierAcquiredEvent d c p = \<lparr>ev_v = SCHEMA_VERSION, ev_t = ''modifier_acquired'', ev_d = d, ev_c = c,
     ev_p = ModifierPayload p\<rparr>"

definition PerkAcquiredEvent :: "string \<Rightarrow> int \<Rightarrow> perk_payload \<Rightarrow> event" where
  "PerkAcquiredEvent d c p = \<lparr>ev_v = SCHEMA_VERSION, ev_t = ''perk_acquired'', ev_d = d, ev_c = c,
     ev_p = PerkPayload p\<rparr>"

definition LifestyleCommittedEvent :: "string \<Rightarrow> int \<Rightarrow> lifestyle_committed_payload \<Rightarrow> event" where
  "LifestyleCommittedEvent d c p = \<lparr>ev_v = SCHEMA_VERSION, ev_t = ''lifestyle_committed'', ev_d = d, ev_c = c,
     ev_p = LifestyleCommittedPayload p\<rparr>"

definition ContractCompletedEvent :: "string \<Rightarrow> int \<Rightarrow> contract_payload \<Rightarrow> event" where
  "ContractCompletedEvent d c p = \<lparr>ev_v = SCHEMA_VERSION, ev_t = ''contract_completed'', ev_d = d, ev_c = c,
     ev_p = ContractPayload p\<rparr>"

definition CampCompanionJoinedEvent :: "string \<Rightarrow> int \<Rightarrow> camp_companion_payload \<Rightarrow> event" where
  "CampCompanionJoinedEvent d c p = \<lparr>ev_v = SCHEMA_VERSION, ev_t = ''camp_companion_joined'', ev_d = d, ev_c = c,
     ev_p = CampCompanionPayload p\<rparr>"

definition CampCompanionLeftEvent :: "string \<Rightarrow> int \<Rightarrow> camp_companion_payload \<Rightarrow> event" where
  "CampCompanionLeftEvent d c p = \<lparr>ev_v = SCHEMA_VERSION, ev_t = ''camp_companion_left'', ev_d = d, ev_c = c,
     ev_p = CampCompanionPayload p\<rparr>"

definition DomicileMovedEvent :: "string \<Rightarrow> int \<Rightarrow> domicile_payload \<Rightarrow> event" where
  "DomicileMovedEvent d c p = \<lparr>ev_v = SCHEMA_VERSION, ev_t = ''domicile_moved'', ev_d = d, ev_c = c,
     ev_p = DomicilePayload p\<rparr>"

definition VanillaMemoryEvent :: "string \<Rightarrow> int \<Rightarrow> vanilla_memory_payload \<Rightarrow> event" where
  "VanillaMemoryEvent d c p = \<lparr>ev_v = SCHEMA_VERSION, ev_t = ''vanilla_memory'', ev_d = d, ev_c = c,
     ev_p = VanillaMemoryPayload p\<rparr>"

definition EpidemicOutbreakEvent :: "string \<Rightarrow> int \<Rightarrow> epidemic_payload \<Rightarrow> event" where
  "EpidemicOutbreakEvent d c p = \<lparr>ev_v = SCHEMA_VERSION, ev_t = ''epidemic_outbreak'', ev_d = d, ev_c = c,
     ev_p = EpidemicPayload p\<rparr>"

definition ActivityCompletedEvent :: "string \<Rightarrow> int \<Rightarrow> activity_payload \<Rightarrow> event" where
  "ActivityCompletedEvent d c p = \<lparr>ev_v = SCHEMA_VERSION, ev_t = ''activity_completed'', ev_d = d, ev_c = c,
     ev_p = ActivityPayload p\<rparr>"

definition InspirationSponsoredEvent :: "string \<Rightarrow> int \<Rightarrow> inspiration_sponsored_payload \<Rightarrow> event" where
  "InspirationSponsoredEvent d c p = \<lparr>ev_v = SCHEMA_VERSION, ev_t = ''inspiration_sponsored'', ev_d = d, ev_c = c,
     ev_p = InspirationSponsoredPayload p\<rparr>"

definition MiscarriageEvent :: "string \<Rightarrow> int \<Rightarrow> miscarriage_payload \<Rightarrow> event" where
  "MiscarriageEvent d c p = \<lparr>ev_v = SCHEMA_VERSION, ev_t = ''miscarriage'', ev_d = d, ev_c = c,
     ev_p = MiscarriagePayload p\<rparr>"

definition DecisionTakenEvent :: "string \<Rightarrow> int \<Rightarrow> decision_taken_payload \<Rightarrow> event" where
  "DecisionTakenEvent d c p = \<lparr>ev_v = SCHEMA_VERSION, ev_t = ''decision_taken'', ev_d = d, ev_c = c,
     ev_p = DecisionTakenPayload p\<rparr>"

definition BuildingCompletedEvent :: "string \<Rightarrow> int \<Rightarrow> building_completed_payload \<Rightarrow> event" where
  "BuildingCompletedEvent d c p = \<lparr>ev_v = SCHEMA_VERSION, ev_t = ''building_completed'', ev_d = d, ev_c = c,
     ev_p = BuildingCompletedPayload p\<rparr>"

lemmas [ctor_defs] =
  DeathEvent_def BirthEvent_def MarriageEvent_def DivorceEvent_def
  TitleGainEvent_def TitleLostEvent_def WarStartedEvent_def WarWonAttackerEvent_def
  WarWonDefenderEvent_def ImprisonEvent_def ReleaseEvent_def TravelEvent_def
  TraitGainedEvent_def TraitLostEvent_def AdventurerStartedEvent_def AdventurerEndedEvent_def
  GovernmentChangedEvent_def AllianceFormedEvent_def AllianceBrokenEvent_def NicknameEvent_def
  TitleAcquiredEvent_def TitleRelinquishedEvent_def TitleCreatedEvent_def HouseChangeEvent_def
  CultureChangeEvent_def FaithChangeEvent_def WarDeclaredEvent_def WarJoinedEvent_def
  WarLeftEvent_def WarConcludedEvent_def ArtifactAcquiredEvent_def ArtifactLostEvent_def
  DynastyLegacyUnlockedEvent_def SplendorIncreasedEvent_def ConcubineTakenEvent_def ModifierAcquiredEvent_def
  PerkAcquiredEvent_def LifestyleCommittedEvent_def ContractCompletedEvent_def CampCompanionJoinedEvent_def
  CampCompanionLeftEvent_def DomicileMovedEvent_def VanillaMemoryEvent_def EpidemicOutbreakEvent_def
  ActivityCompletedEvent_def InspirationSponsoredEvent_def MiscarriageEvent_def DecisionTakenEvent_def
  BuildingCompletedEvent_def

lemma event_c_simps [simp]:
  "ev_c (DeathEvent d c p0) = c"
  "ev_c (BirthEvent d c) = c"
  "ev_c (MarriageEvent d c p2) = c"
  "ev_c (DivorceEvent d c p3) = c"
  "ev_c (TitleGainEvent d c) = c"
  "ev_c (TitleLostEvent d c) = c"
  "ev_c (WarStartedEvent d c) = c"
  "ev_c (WarWonAttackerEvent d c) = c"
  "ev_c (WarWonDefenderEvent d c) = c"
  "ev_c (ImprisonEvent d c) = c"
  "ev_c (ReleaseEvent d c) = c"
  "ev_c (TravelEvent d c p4) = c"
  "ev_c (TraitGainedEvent d c p5) = c"
  "ev_c (TraitLostEvent d c p5) = c"
  "ev_c (AdventurerStartedEvent d c) = c"
  "ev_c (AdventurerEndedEvent d c) = c"
  "ev_c (GovernmentChangedEvent d c p6) = c"
  "ev_c (AllianceFormedEvent d c p7) = c"
  "ev_c (AllianceBrokenEvent d c p7) = c"
  "ev_c (NicknameEvent d c p8) = c"
  "ev_c (TitleAcquiredEvent d c p9) = c"
  "ev_c (TitleRelinquishedEvent d c p10) = c"
  "ev_c (TitleCreatedEvent d c p11) = c"
  "ev_c (HouseChangeEvent d c p12) = c"
  "ev_c (CultureChangeEvent d c p13) = c"
  "ev_c (FaithChangeEvent d c p14) = c"
  "ev_c (WarDeclaredEvent d c p15) = c"
  "ev_c (WarJoinedEvent d c p15) = c"
  "ev_c (WarLeftEvent d c p15) = c"
  "ev_c (WarConcludedEvent d c p15) = c"
  "ev_c (ArtifactAcquiredEvent d c p16) = c"
  "ev_c (ArtifactLostEvent d c p16) = c"
  "ev_c (DynastyLegacyUnlockedEvent d c p17) = c"
  "ev_c (SplendorIncreasedEvent d c p18) = c"
  "ev_c (ConcubineTakenEvent d c p19) = c"
  "ev_c (ModifierAcquiredEvent d c p20) = c"
  "ev_c (PerkAcquiredEvent d c p21) = c"
  "ev_c (LifestyleCommittedEvent d c p22) = c"
  "ev_c (ContractCompletedEvent d c p23) = c"
  "ev_c (CampCompanionJoinedEvent d c p24) = c"
  "ev_c (CampCompanionLeftEvent d c p24) = c"
  "ev_c (DomicileMovedEvent d c p25) = c"
  "ev_c (VanillaMemoryEvent d c p26) = c"
  "ev_c (EpidemicOutbreakEvent d c p27) = c"
  "ev_c (ActivityCompletedEvent d c p28) = c"
  "ev_c (InspirationSponsoredEvent d c p29) = c"
  "ev_c (MiscarriageEvent d c p30) = c"
  "ev_c (DecisionTakenEvent d c p31) = c"
  "ev_c (BuildingCompletedEvent d c p32) = c"
  by (simp_all add: ctor_defs)

lemma event_d_simps [simp]:
  "ev_d (DeathEvent d c p0) = d"
  "ev_d (BirthEvent d c) = d"
  "ev_d (MarriageEvent d c p2) = d"
  "ev_d (DivorceEvent d c p3) = d"
  "ev_d (TitleGainEvent d c) = d"
  "ev_d (TitleLostEvent d c) = d"
  "ev_d (WarStartedEvent d c) = d"
  "ev_d (WarWonAttackerEvent d c) = d"
  "ev_d (WarWonDefenderEvent d c) = d"
  "ev_d (ImprisonEvent d c) = d"
  "ev_d (ReleaseEvent d c) = d"
  "ev_d (TravelEvent d c p4) = d"
  "ev_d (TraitGainedEvent d c p5) = d"
  "ev_d (TraitLostEvent d c p5) = d"
  "ev_d (AdventurerStartedEvent d c) = d"
  "ev_d (AdventurerEndedEvent d c) = d"
  "ev_d (GovernmentChangedEvent d c p6) = d"
  "ev_d (AllianceFormedEvent d c p7) = d"
  "ev_d (AllianceBrokenEvent d c p7) = d"
  "ev_d (NicknameEvent d c p8) = d"
  "ev_d (TitleAcquiredEvent d c p9) = d"
  "ev_d (TitleRelinquishedEvent d c p10) = d"
  "ev_d (TitleCreatedEvent d c p11) = d"
  "ev_d (HouseChangeEvent d c p12) = d"
  "ev_d (CultureChangeEvent d c p13) = d"
  "ev_d (FaithChangeEvent d c p14) = d"
  "ev_d (WarDeclaredEvent d c p15) = d"
  "ev_d (WarJoinedEvent d c p15) = d"
  "ev_d (WarLeftEvent d c p15) = d"
  "ev_d (WarConcludedEvent d c p15) = d"
  "ev_d (ArtifactAcquiredEvent d c p16) = d"
  "ev_d (ArtifactLostEvent d c p16) = d"
  "ev_d (DynastyLegacyUnlockedEvent d c p17) = d"
  "ev_d (SplendorIncreasedEvent d c p18) = d"
  "ev_d (ConcubineTakenEvent d c p19) = d"
  "ev_d (ModifierAcquiredEvent d c p20) = d"
  "ev_d (PerkAcquiredEvent d c p21) = d"
  "ev_d (LifestyleCommittedEvent d c p22) = d"
  "ev_d (ContractCompletedEvent d c p23) = d"
  "ev_d (CampCompanionJoinedEvent d c p24) = d"
  "ev_d (CampCompanionLeftEvent d c p24) = d"
  "ev_d (DomicileMovedEvent d c p25) = d"
  "ev_d (VanillaMemoryEvent d c p26) = d"
  "ev_d (EpidemicOutbreakEvent d c p27) = d"
  "ev_d (ActivityCompletedEvent d c p28) = d"
  "ev_d (InspirationSponsoredEvent d c p29) = d"
  "ev_d (MiscarriageEvent d c p30) = d"
  "ev_d (DecisionTakenEvent d c p31) = d"
  "ev_d (BuildingCompletedEvent d c p32) = d"
  by (simp_all add: ctor_defs)

lemma event_t_simps [simp]:
  "ev_t (DeathEvent d c p0) = ''death''"
  "ev_t (BirthEvent d c) = ''birth''"
  "ev_t (MarriageEvent d c p2) = ''marriage''"
  "ev_t (DivorceEvent d c p3) = ''divorce''"
  "ev_t (TitleGainEvent d c) = ''title_gain''"
  "ev_t (TitleLostEvent d c) = ''title_lost''"
  "ev_t (WarStartedEvent d c) = ''war_started''"
  "ev_t (WarWonAttackerEvent d c) = ''war_won_attacker''"
  "ev_t (WarWonDefenderEvent d c) = ''war_won_defender''"
  "ev_t (ImprisonEvent d c) = ''imprison''"
  "ev_t (ReleaseEvent d c) = ''release''"
  "ev_t (TravelEvent d c p4) = ''travel''"
  "ev_t (TraitGainedEvent d c p5) = ''trait_gained''"
  "ev_t (TraitLostEvent d c p5) = ''trait_lost''"
  "ev_t (AdventurerStartedEvent d c) = ''adventurer_started''"
  "ev_t (AdventurerEndedEvent d c) = ''adventurer_ended''"
  "ev_t (GovernmentChangedEvent d c p6) = ''government_changed''"
  "ev_t (AllianceFormedEvent d c p7) = ''alliance_formed''"
  "ev_t (AllianceBrokenEvent d c p7) = ''alliance_broken''"
  "ev_t (NicknameEvent d c p8) = ''nickname''"
  "ev_t (TitleAcquiredEvent d c p9) = ''title_acquired''"
  "ev_t (TitleRelinquishedEvent d c p10) = ''title_relinquished''"
  "ev_t (TitleCreatedEvent d c p11) = ''title_created''"
  "ev_t (HouseChangeEvent d c p12) = ''house_change''"
  "ev_t (CultureChangeEvent d c p13) = ''culture_change''"
  "ev_t (FaithChangeEvent d c p14) = ''faith_change''"
  "ev_t (WarDeclaredEvent d c p15) = ''war_declared''"
  "ev_t (WarJoinedEvent d c p15) = ''war_joined''"
  "ev_t (WarLeftEvent d c p15) = ''war_left''"
  "ev_t (WarConcludedEvent d c p15) = ''war_concluded''"
  "ev_t (ArtifactAcquiredEvent d c p16) = ''artifact_acquired''"
  "ev_t (ArtifactLostEvent d c p16) = ''artifact_lost''"
  "ev_t (DynastyLegacyUnlockedEvent d c p17) = ''dynasty_legacy_unlocked''"
  "ev_t (SplendorIncreasedEvent d c p18) = ''splendor_increased''"
  "ev_t (ConcubineTakenEvent d c p19) = ''concubine_taken''"
  "ev_t (ModifierAcquiredEvent d c p20) = ''modifier_acquired''"
  "ev_t (PerkAcquiredEvent d c p21) = ''perk_acquired''"
  "ev_t (LifestyleCommittedEvent d c p22) = ''lifestyle_committed''"
  "ev_t (ContractCompletedEvent d c p23) = ''contract_completed''"
  "ev_t (CampCompanionJoinedEvent d c p24) = ''camp_companion_joined''"
  "ev_t (CampCompanionLeftEvent d c p24) = ''camp_companion_left''"
  "ev_t (DomicileMovedEvent d c p25) = ''domicile_moved''"
  "ev_t (VanillaMemoryEvent d c p26) = ''vanilla_memory''"
  "ev_t (EpidemicOutbreakEvent d c p27) = ''epidemic_outbreak''"
  "ev_t (ActivityCompletedEvent d c p28) = ''activity_completed''"
  "ev_t (InspirationSponsoredEvent d c p29) = ''inspiration_sponsored''"
  "ev_t (MiscarriageEvent d c p30) = ''miscarriage''"
  "ev_t (DecisionTakenEvent d c p31) = ''decision_taken''"
  "ev_t (BuildingCompletedEvent d c p32) = ''building_completed''"
  by (simp_all add: ctor_defs)

lemma event_p_simps [simp]:
  "ev_p (DeathEvent d c p0) = DeathPayload p0"
  "ev_p (BirthEvent d c) = EmptyPayload"
  "ev_p (MarriageEvent d c p2) = MarriagePayload p2"
  "ev_p (DivorceEvent d c p3) = DivorcePayload p3"
  "ev_p (TitleGainEvent d c) = EmptyPayload"
  "ev_p (TitleLostEvent d c) = EmptyPayload"
  "ev_p (WarStartedEvent d c) = EmptyPayload"
  "ev_p (WarWonAttackerEvent d c) = EmptyPayload"
  "ev_p (WarWonDefenderEvent d c) = EmptyPayload"
  "ev_p (ImprisonEvent d c) = EmptyPayload"
  "ev_p (ReleaseEvent d c) = EmptyPayload"
  "ev_p (TravelEvent d c p4) = TravelPayload p4"
  "ev_p (TraitGainedEvent d c p5) = TraitPayload p5"
  "ev_p (TraitLostEvent d c p5) = TraitPayload p5"
  "ev_p (AdventurerStartedEvent d c) = EmptyPayload"
  "ev_p (AdventurerEndedEvent d c) = EmptyPayload"
  "ev_p (GovernmentChangedEvent d c p6) = GovernmentChangedPayload p6"
  "ev_p (AllianceFormedEvent d c p7) = AlliancePayload p7"
  "ev_p (AllianceBrokenEvent d c p7) = AlliancePayload p7"
  "ev_p (NicknameEvent d c p8) = NicknamePayload p8"
  "ev_p (TitleAcquiredEvent d c p9) = TitleAcquiredPayload p9"
  "ev_p (TitleRelinquishedEvent d c p10) = TitleRelinquishedPayload p10"
  "ev_p (TitleCreatedEvent d c p11) = TitleCreatedPayload p11"
  "ev_p (HouseChangeEvent d c p12) = HouseChangePayload p12"
  "ev_p (CultureChangeEvent d c p13) = CultureChangePayload p13"
  "ev_p (FaithChangeEvent d c p14) = FaithChangePayload p14"
  "ev_p (WarDeclaredEvent d c p15) = WarSidePayload p15"
  "ev_p (WarJoinedEvent d c p15) = WarSidePayload p15"
  "ev_p (WarLeftEvent d c p15) = WarSidePayload p15"
  "ev_p (WarConcludedEvent d c p15) = WarSidePayload p15"
  "ev_p (ArtifactAcquiredEvent d c p16) = ArtifactPayload p16"
  "ev_p (ArtifactLostEvent d c p16) = ArtifactPayload p16"
  "ev_p (DynastyLegacyUnlockedEvent d c p17) = DynastyLegacyPayload p17"
  "ev_p (SplendorIncreasedEvent d c p18) = SplendorPayload p18"
  "ev_p (ConcubineTakenEvent d c p19) = ConcubinePayload p19"
  "ev_p (ModifierAcquiredEvent d c p20) = ModifierPayload p20"
  "ev_p (PerkAcquiredEvent d c p21) = PerkPayload p21"
  "ev_p (LifestyleCommittedEvent d c p22) = LifestyleCommittedPayload p22"
  "ev_p (ContractCompletedEvent d c p23) = ContractPayload p23"
  "ev_p (CampCompanionJoinedEvent d c p24) = CampCompanionPayload p24"
  "ev_p (CampCompanionLeftEvent d c p24) = CampCompanionPayload p24"
  "ev_p (DomicileMovedEvent d c p25) = DomicilePayload p25"
  "ev_p (VanillaMemoryEvent d c p26) = VanillaMemoryPayload p26"
  "ev_p (EpidemicOutbreakEvent d c p27) = EpidemicPayload p27"
  "ev_p (ActivityCompletedEvent d c p28) = ActivityPayload p28"
  "ev_p (InspirationSponsoredEvent d c p29) = InspirationSponsoredPayload p29"
  "ev_p (MiscarriageEvent d c p30) = MiscarriagePayload p30"
  "ev_p (DecisionTakenEvent d c p31) = DecisionTakenPayload p31"
  "ev_p (BuildingCompletedEvent d c p32) = BuildingCompletedPayload p32"
  by (simp_all add: ctor_defs)

section \<open>The discriminated union\<close>

text \<open>The class of a payload, by its name in the source.\<close>

fun payload_class :: "payload \<Rightarrow> string" where
  "payload_class EmptyPayload = ''_EmptyPayload''"
| "payload_class (DeathPayload p) = ''DeathPayload''"
| "payload_class (MarriagePayload p) = ''MarriagePayload''"
| "payload_class (DivorcePayload p) = ''DivorcePayload''"
| "payload_class (TravelPayload p) = ''TravelPayload''"
| "payload_class (TraitPayload p) = ''TraitPayload''"
| "payload_class (GovernmentChangedPayload p) = ''GovernmentChangedPayload''"
| "payload_class (AlliancePayload p) = ''AlliancePayload''"
| "payload_class (NicknamePayload p) = ''NicknamePayload''"
| "payload_class (TitleAcquiredPayload p) = ''TitleAcquiredPayload''"
| "payload_class (TitleRelinquishedPayload p) = ''TitleRelinquishedPayload''"
| "payload_class (TitleCreatedPayload p) = ''TitleCreatedPayload''"
| "payload_class (HouseChangePayload p) = ''HouseChangePayload''"
| "payload_class (CultureChangePayload p) = ''CultureChangePayload''"
| "payload_class (FaithChangePayload p) = ''FaithChangePayload''"
| "payload_class (WarSidePayload p) = ''WarSidePayload''"
| "payload_class (ArtifactPayload p) = ''ArtifactPayload''"
| "payload_class (DynastyLegacyPayload p) = ''DynastyLegacyPayload''"
| "payload_class (SplendorPayload p) = ''SplendorPayload''"
| "payload_class (ConcubinePayload p) = ''ConcubinePayload''"
| "payload_class (ModifierPayload p) = ''ModifierPayload''"
| "payload_class (PerkPayload p) = ''PerkPayload''"
| "payload_class (LifestyleCommittedPayload p) = ''LifestyleCommittedPayload''"
| "payload_class (ContractPayload p) = ''ContractPayload''"
| "payload_class (CampCompanionPayload p) = ''CampCompanionPayload''"
| "payload_class (DomicilePayload p) = ''DomicilePayload''"
| "payload_class (VanillaMemoryPayload p) = ''VanillaMemoryPayload''"
| "payload_class (EpidemicPayload p) = ''EpidemicPayload''"
| "payload_class (ActivityPayload p) = ''ActivityPayload''"
| "payload_class (InspirationSponsoredPayload p) = ''InspirationSponsoredPayload''"
| "payload_class (MiscarriagePayload p) = ''MiscarriagePayload''"
| "payload_class (DecisionTakenPayload p) = ''DecisionTakenPayload''"
| "payload_class (BuildingCompletedPayload p) = ''BuildingCompletedPayload''"

text \<open>\<open>EventPayload\<close>: the discriminator of every class of the union, with its payload class.\<close>

definition EVENT_UNION :: "(string, string) dict" where
  "EVENT_UNION =
    [(''death'', ''DeathPayload''),
     (''birth'', ''_EmptyPayload''),
     (''marriage'', ''MarriagePayload''),
     (''divorce'', ''DivorcePayload''),
     (''title_gain'', ''_EmptyPayload''),
     (''title_lost'', ''_EmptyPayload''),
     (''war_started'', ''_EmptyPayload''),
     (''war_won_attacker'', ''_EmptyPayload''),
     (''war_won_defender'', ''_EmptyPayload''),
     (''imprison'', ''_EmptyPayload''),
     (''release'', ''_EmptyPayload''),
     (''travel'', ''TravelPayload''),
     (''trait_gained'', ''TraitPayload''),
     (''trait_lost'', ''TraitPayload''),
     (''adventurer_started'', ''_EmptyPayload''),
     (''adventurer_ended'', ''_EmptyPayload''),
     (''government_changed'', ''GovernmentChangedPayload''),
     (''alliance_formed'', ''AlliancePayload''),
     (''alliance_broken'', ''AlliancePayload''),
     (''nickname'', ''NicknamePayload''),
     (''title_acquired'', ''TitleAcquiredPayload''),
     (''title_relinquished'', ''TitleRelinquishedPayload''),
     (''title_created'', ''TitleCreatedPayload''),
     (''house_change'', ''HouseChangePayload''),
     (''culture_change'', ''CultureChangePayload''),
     (''faith_change'', ''FaithChangePayload''),
     (''war_declared'', ''WarSidePayload''),
     (''war_joined'', ''WarSidePayload''),
     (''war_left'', ''WarSidePayload''),
     (''war_concluded'', ''WarSidePayload''),
     (''artifact_acquired'', ''ArtifactPayload''),
     (''artifact_lost'', ''ArtifactPayload''),
     (''dynasty_legacy_unlocked'', ''DynastyLegacyPayload''),
     (''splendor_increased'', ''SplendorPayload''),
     (''concubine_taken'', ''ConcubinePayload''),
     (''modifier_acquired'', ''ModifierPayload''),
     (''perk_acquired'', ''PerkPayload''),
     (''lifestyle_committed'', ''LifestyleCommittedPayload''),
     (''contract_completed'', ''ContractPayload''),
     (''camp_companion_joined'', ''CampCompanionPayload''),
     (''camp_companion_left'', ''CampCompanionPayload''),
     (''domicile_moved'', ''DomicilePayload''),
     (''vanilla_memory'', ''VanillaMemoryPayload''),
     (''epidemic_outbreak'', ''EpidemicPayload''),
     (''activity_completed'', ''ActivityPayload''),
     (''inspiration_sponsored'', ''InspirationSponsoredPayload''),
     (''miscarriage'', ''MiscarriagePayload''),
     (''decision_taken'', ''DecisionTakenPayload''),
     (''building_completed'', ''BuildingCompletedPayload'')]"

text \<open>The \<open>Literal\<close> fields of the payloads.\<close>

fun valid_payload :: "payload \<Rightarrow> bool" where
  "valid_payload (WarSidePayload p) =
     (wsp_side p \<in> {None, Some ''attacker'', Some ''defender''})"
| "valid_payload (ContractPayload p) = (ctp_outcome p \<in> {''completed'', ''invalidated''})"
| "valid_payload (ActivityPayload p) = (actp_role p \<in> {''host'', ''attendee''})"
| "valid_payload _ = True"

definition valid_event :: "event \<Rightarrow> bool" where
  "valid_event e \<longleftrightarrow> ev_v e = SCHEMA_VERSION \<and>
     dict_get EVENT_UNION (ev_t e) = Some (payload_class (ev_p e)) \<and> valid_payload (ev_p e)"

text \<open>The union looks each discriminator up once; the entries are evaluated here.\<close>

lemma EVENT_UNION_get:
  "dict_get EVENT_UNION ''death'' = Some ''DeathPayload''"
  "dict_get EVENT_UNION ''birth'' = Some ''_EmptyPayload''"
  "dict_get EVENT_UNION ''marriage'' = Some ''MarriagePayload''"
  "dict_get EVENT_UNION ''divorce'' = Some ''DivorcePayload''"
  "dict_get EVENT_UNION ''title_gain'' = Some ''_EmptyPayload''"
  "dict_get EVENT_UNION ''title_lost'' = Some ''_EmptyPayload''"
  "dict_get EVENT_UNION ''war_started'' = Some ''_EmptyPayload''"
  "dict_get EVENT_UNION ''war_won_attacker'' = Some ''_EmptyPayload''"
  "dict_get EVENT_UNION ''war_won_defender'' = Some ''_EmptyPayload''"
  "dict_get EVENT_UNION ''imprison'' = Some ''_EmptyPayload''"
  "dict_get EVENT_UNION ''release'' = Some ''_EmptyPayload''"
  "dict_get EVENT_UNION ''travel'' = Some ''TravelPayload''"
  "dict_get EVENT_UNION ''trait_gained'' = Some ''TraitPayload''"
  "dict_get EVENT_UNION ''trait_lost'' = Some ''TraitPayload''"
  "dict_get EVENT_UNION ''adventurer_started'' = Some ''_EmptyPayload''"
  "dict_get EVENT_UNION ''adventurer_ended'' = Some ''_EmptyPayload''"
  "dict_get EVENT_UNION ''government_changed'' = Some ''GovernmentChangedPayload''"
  "dict_get EVENT_UNION ''alliance_formed'' = Some ''AlliancePayload''"
  "dict_get EVENT_UNION ''alliance_broken'' = Some ''AlliancePayload''"
  "dict_get EVENT_UNION ''nickname'' = Some ''NicknamePayload''"
  "dict_get EVENT_UNION ''title_acquired'' = Some ''TitleAcquiredPayload''"
  "dict_get EVENT_UNION ''title_relinquished'' = Some ''TitleRelinquishedPayload''"
  "dict_get EVENT_UNION ''title_created'' = Some ''TitleCreatedPayload''"
  "dict_get EVENT_UNION ''house_change'' = Some ''HouseChangePayload''"
  "dict_get EVENT_UNION ''culture_change'' = Some ''CultureChangePayload''"
  "dict_get EVENT_UNION ''faith_change'' = Some ''FaithChangePayload''"
  "dict_get EVENT_UNION ''war_declared'' = Some ''WarSidePayload''"
  "dict_get EVENT_UNION ''war_joined'' = Some ''WarSidePayload''"
  "dict_get EVENT_UNION ''war_left'' = Some ''WarSidePayload''"
  "dict_get EVENT_UNION ''war_concluded'' = Some ''WarSidePayload''"
  "dict_get EVENT_UNION ''artifact_acquired'' = Some ''ArtifactPayload''"
  "dict_get EVENT_UNION ''artifact_lost'' = Some ''ArtifactPayload''"
  "dict_get EVENT_UNION ''dynasty_legacy_unlocked'' = Some ''DynastyLegacyPayload''"
  "dict_get EVENT_UNION ''splendor_increased'' = Some ''SplendorPayload''"
  "dict_get EVENT_UNION ''concubine_taken'' = Some ''ConcubinePayload''"
  "dict_get EVENT_UNION ''modifier_acquired'' = Some ''ModifierPayload''"
  "dict_get EVENT_UNION ''perk_acquired'' = Some ''PerkPayload''"
  "dict_get EVENT_UNION ''lifestyle_committed'' = Some ''LifestyleCommittedPayload''"
  "dict_get EVENT_UNION ''contract_completed'' = Some ''ContractPayload''"
  "dict_get EVENT_UNION ''camp_companion_joined'' = Some ''CampCompanionPayload''"
  "dict_get EVENT_UNION ''camp_companion_left'' = Some ''CampCompanionPayload''"
  "dict_get EVENT_UNION ''domicile_moved'' = Some ''DomicilePayload''"
  "dict_get EVENT_UNION ''vanilla_memory'' = Some ''VanillaMemoryPayload''"
  "dict_get EVENT_UNION ''epidemic_outbreak'' = Some ''EpidemicPayload''"
  "dict_get EVENT_UNION ''activity_completed'' = Some ''ActivityPayload''"
  "dict_get EVENT_UNION ''inspiration_sponsored'' = Some ''InspirationSponsoredPayload''"
  "dict_get EVENT_UNION ''miscarriage'' = Some ''MiscarriagePayload''"
  "dict_get EVENT_UNION ''decision_taken'' = Some ''DecisionTakenPayload''"
  "dict_get EVENT_UNION ''building_completed'' = Some ''BuildingCompletedPayload''"
  by code_simp+

text \<open>Every constructor builds a member of the union, the literal fields aside.\<close>

lemma valid_event_simps [simp]:
  "valid_event (DeathEvent d c p0)"
  "valid_event (BirthEvent d c)"
  "valid_event (MarriageEvent d c p2)"
  "valid_event (DivorceEvent d c p3)"
  "valid_event (TitleGainEvent d c)"
  "valid_event (TitleLostEvent d c)"
  "valid_event (WarStartedEvent d c)"
  "valid_event (WarWonAttackerEvent d c)"
  "valid_event (WarWonDefenderEvent d c)"
  "valid_event (ImprisonEvent d c)"
  "valid_event (ReleaseEvent d c)"
  "valid_event (TravelEvent d c p4)"
  "valid_event (TraitGainedEvent d c p5)"
  "valid_event (TraitLostEvent d c p5)"
  "valid_event (AdventurerStartedEvent d c)"
  "valid_event (AdventurerEndedEvent d c)"
  "valid_event (GovernmentChangedEvent d c p6)"
  "valid_event (AllianceFormedEvent d c p7)"
  "valid_event (AllianceBrokenEvent d c p7)"
  "valid_event (NicknameEvent d c p8)"
  "valid_event (TitleAcquiredEvent d c p9)"
  "valid_event (TitleRelinquishedEvent d c p10)"
  "valid_event (TitleCreatedEvent d c p11)"
  "valid_event (HouseChangeEvent d c p12)"
  "valid_event (CultureChangeEvent d c p13)"
  "valid_event (FaithChangeEvent d c p14)"
  "valid_event (WarDeclaredEvent d c p15) \<longleftrightarrow> valid_payload (WarSidePayload p15)"
  "valid_event (WarJoinedEvent d c p15) \<longleftrightarrow> valid_payload (WarSidePayload p15)"
  "valid_event (WarLeftEvent d c p15) \<longleftrightarrow> valid_payload (WarSidePayload p15)"
  "valid_event (WarConcludedEvent d c p15) \<longleftrightarrow> valid_payload (WarSidePayload p15)"
  "valid_event (ArtifactAcquiredEvent d c p16)"
  "valid_event (ArtifactLostEvent d c p16)"
  "valid_event (DynastyLegacyUnlockedEvent d c p17)"
  "valid_event (SplendorIncreasedEvent d c p18)"
  "valid_event (ConcubineTakenEvent d c p19)"
  "valid_event (ModifierAcquiredEvent d c p20)"
  "valid_event (PerkAcquiredEvent d c p21)"
  "valid_event (LifestyleCommittedEvent d c p22)"
  "valid_event (ContractCompletedEvent d c p23) \<longleftrightarrow> valid_payload (ContractPayload p23)"
  "valid_event (CampCompanionJoinedEvent d c p24)"
  "valid_event (CampCompanionLeftEvent d c p24)"
  "valid_event (DomicileMovedEvent d c p25)"
  "valid_event (VanillaMemoryEvent d c p26)"
  "valid_event (EpidemicOutbreakEvent d c p27)"
  "valid_event (ActivityCompletedEvent d c p28) \<longleftrightarrow> valid_payload (ActivityPayload p28)"
  "valid_event (InspirationSponsoredEvent d c p29)"
  "valid_event (MiscarriageEvent d c p30)"
  "valid_event (DecisionTakenEvent d c p31)"
  "valid_event (BuildingCompletedEvent d c p32)"
  by (simp_all add: valid_event_def ctor_defs EVENT_UNION_get)

lemma EVENT_UNION_ok: "dict_ok EVENT_UNION"
  unfolding dict_ok_def by code_simp

end
