(* ===== verification/Event_Streams.thy ===== *)
theory Event_Streams
  imports Events
begin

text \<open>
  The events of the diff layer (\<open>DiffEvent\<close> of \<open>save/diff.py\<close>) and the contracts that the
  streams of events keep towards \<open>diff_snapshots\<close>, as locales:

  \<^item> \<open>event_stream\<close>: a stream emits only events of its owner, of its own types, that validate
    against the schema, and none when nothing changed;
  \<^item> \<open>living_stream\<close>: moreover none for a character who is dead in the current snapshot;
  \<^item> \<open>set_stream\<close>: the events of the stream, read back in order, turn the previous set into the
    current one.

  The theories of the streams interpret them; what follows from the contracts for a pair of
  snapshots and for a whole run of the game (a list of snapshots) is proved here once.
\<close>

section \<open>Events with their participants\<close>

record diff_event =
  de_event :: event
  de_participants :: "(string \<times> int) list"

definition DiffEvent :: "event \<Rightarrow> (string \<times> int) list \<Rightarrow> diff_event" where
  "DiffEvent ev ps = \<lparr>de_event = ev, de_participants = ps\<rparr>"

lemma DiffEvent_simps [simp]:
  "de_event (DiffEvent ev ps) = ev" "de_participants (DiffEvent ev ps) = ps"
  "DiffEvent ev ps = DiffEvent ev' ps' \<longleftrightarrow> ev = ev' \<and> ps = ps'"
  by (simp_all add: DiffEvent_def)

abbreviation de_c :: "diff_event \<Rightarrow> int" where
  "de_c e \<equiv> ev_c (de_event e)"

abbreviation de_t :: "diff_event \<Rightarrow> string" where
  "de_t e \<equiv> ev_t (de_event e)"

section \<open>Well-behaved lists of events\<close>

definition stream_ok :: "int \<Rightarrow> string list \<Rightarrow> diff_event list \<Rightarrow> bool" where
  "stream_ok c ts es \<longleftrightarrow>
     (\<forall>e\<in>set es. de_c e = c \<and> de_t e \<in> set ts \<and> valid_event (de_event e))"

lemma stream_ok_Nil [simp]: "stream_ok c ts []"
  by (simp add: stream_ok_def)

lemma stream_ok_Cons [simp]:
  "stream_ok c ts (e # es) \<longleftrightarrow>
     de_c e = c \<and> de_t e \<in> set ts \<and> valid_event (de_event e) \<and> stream_ok c ts es"
  by (auto simp: stream_ok_def)

lemma stream_ok_append [simp]:
  "stream_ok c ts (es @ fs) \<longleftrightarrow> stream_ok c ts es \<and> stream_ok c ts fs"
  by (auto simp: stream_ok_def)

lemma stream_ok_map [simp]:
  "stream_ok c ts (map f xs) \<longleftrightarrow> (\<forall>x\<in>set xs. stream_ok c ts [f x])"
  by (auto simp: stream_ok_def)

lemma stream_ok_map_filter [simp]:
  "stream_ok c ts (List.map_filter f xs) \<longleftrightarrow> (\<forall>x\<in>set xs. \<forall>e. f x = Some e \<longrightarrow> stream_ok c ts [e])"
  by (auto simp: stream_ok_def set_map_filter)

lemma stream_ok_concat:
  "stream_ok c ts (concat ess) \<longleftrightarrow> (\<forall>es\<in>set ess. stream_ok c ts es)"
  by (auto simp: stream_ok_def)

lemma stream_ok_mono: "stream_ok c ts es \<Longrightarrow> set ts \<subseteq> set us \<Longrightarrow> stream_ok c us es"
  by (auto simp: stream_ok_def)

lemma stream_okD:
  assumes "stream_ok c ts es" and "e \<in> set es"
  shows "de_c e = c" and "de_t e \<in> set ts" and "valid_event (de_event e)"
  using assms by (auto simp: stream_ok_def)

section \<open>A run of the game\<close>

text \<open>The emissions of every adjacent pair of a list of states, oldest first.\<close>

fun adjacent :: "('p \<Rightarrow> 'p \<Rightarrow> 'e list) \<Rightarrow> 'p list \<Rightarrow> 'e list" where
  "adjacent f (x # y # zs) = f x y @ adjacent f (y # zs)"
| "adjacent f _ = []"

fun adjacent_all :: "('p \<Rightarrow> 'p \<Rightarrow> bool) \<Rightarrow> 'p list \<Rightarrow> bool" where
  "adjacent_all P (x # y # zs) = (P x y \<and> adjacent_all P (y # zs))"
| "adjacent_all P _ = True"

lemma adjacent_Nil_if:
  "adjacent_all (\<lambda>x y. f x y = []) xs \<Longrightarrow> adjacent f xs = []"
  by (induction f xs rule: adjacent.induct) simp_all

section \<open>The contracts\<close>

locale event_stream =
  fixes emit :: "'p \<Rightarrow> 'p \<Rightarrow> diff_event list"
    and owner :: "'p \<Rightarrow> int"
    and types :: "string list"
  assumes emit_ok: "stream_ok (owner cur) types (emit prev cur)"
    and emit_idle: "emit s s = []"
begin

lemma emit_owner: "e \<in> set (emit prev cur) \<Longrightarrow> de_c e = owner cur"
  using emit_ok by (rule stream_okD)

lemma emit_types: "e \<in> set (emit prev cur) \<Longrightarrow> de_t e \<in> set types"
  using emit_ok by (rule stream_okD)

lemma emit_valid: "e \<in> set (emit prev cur) \<Longrightarrow> valid_event (de_event e)"
  using emit_ok by (rule stream_okD)

lemma run_constant: "adjacent emit (replicate n s) = []"
proof (induction n)
  case (Suc n)
  then show ?case by (cases n) (simp_all add: emit_idle)
qed simp

lemma run_types: "e \<in> set (adjacent emit ss) \<Longrightarrow> de_t e \<in> set types"
  using emit_types by (induction emit ss rule: adjacent.induct) auto

end

locale living_stream = event_stream +
  fixes dead :: "'a \<Rightarrow> bool"
  assumes emit_dead: "dead cur \<Longrightarrow> emit prev cur = []"
begin

lemma run_dead: "\<forall>s\<in>set ss. dead s \<Longrightarrow> adjacent emit (s # ss) = []"
proof (induction ss arbitrary: s)
  case (Cons t ss)
  then show ?case by (simp add: emit_dead)
qed simp

end

text \<open>Reading a set back from its stream: \<open>(True, x)\<close> enters, \<open>(False, x)\<close> leaves.\<close>

fun apply_change :: "'a fset \<Rightarrow> bool \<times> 'a \<Rightarrow> 'a fset" where
  "apply_change S (True, x) = finsert x S"
| "apply_change S (False, x) = S |-| {|x|}"

definition replay :: "'a fset \<Rightarrow> (bool \<times> 'a) list \<Rightarrow> 'a fset" where
  "replay S cs = foldl apply_change S cs"

lemma replay_append [simp]: "replay S (xs @ ys) = replay (replay S xs) ys"
  by (simp add: replay_def)

lemma replay_Nil [simp]: "replay S [] = S"
  by (simp add: replay_def)

lemma replay_enter: "replay S (map (Pair True) xs) = S |\<union>| fset_of_list xs"
proof (induction xs arbitrary: S)
  case (Cons x xs)
  then show ?case by (simp add: replay_def)
qed (simp add: replay_def)

lemma replay_leave: "replay S (map (Pair False) xs) = S |-| fset_of_list xs"
proof (induction xs arbitrary: S)
  case (Cons x xs)
  then show ?case by (auto simp: replay_def)
qed (simp add: replay_def)

lemma fset_of_py_sorted [simp]: "fset_of_list (py_sorted S) = S"
  by (simp add: py_sorted_def)

lemma replay_delta:
  "replay P (map (Pair True) (py_sorted (C |-| P)) @ map (Pair False) (py_sorted (P |-| C))) = C"
  by (auto simp: replay_enter replay_leave)

text \<open>
  \<open>changes\<close> reads an event as a change of the set, \<open>live\<close> says of a pair of states that the
  stream is not suppressed (the character is alive, the records are there).
\<close>

locale set_stream =
  fixes emit :: "'p \<Rightarrow> 'p \<Rightarrow> diff_event list"
    and view :: "'p \<Rightarrow> 'a::linorder fset"
    and changes :: "diff_event \<Rightarrow> (bool \<times> 'a) option"
    and live :: "'p \<Rightarrow> 'p \<Rightarrow> bool"
  assumes emit_delta: "live prev cur \<Longrightarrow> List.map_filter changes (emit prev cur) =
      map (Pair True) (py_sorted (view cur |-| view prev))
      @ map (Pair False) (py_sorted (view prev |-| view cur))"
begin

lemma replay_pair:
  "live prev cur \<Longrightarrow> replay (view prev) (List.map_filter changes (emit prev cur)) = view cur"
  by (simp only: emit_delta replay_delta)

text \<open>Over a whole run, the log of the stream determines the last set from the first.\<close>

lemma replay_run:
  "adjacent_all live (s # ss) \<Longrightarrow>
     replay (view s) (List.map_filter changes (adjacent emit (s # ss))) = view (last (s # ss))"
proof (induction ss arbitrary: s)
  case Nil
  then show ?case by simp
next
  case (Cons t ss)
  then have "live s t" and "adjacent_all live (t # ss)" by simp_all
  with Cons.IH [of t] show ?case by (simp add: replay_pair)
qed

text \<open>Quiet pairs are exactly those in which the set did not change.\<close>

lemma delta_Nil_iff:
  "live prev cur \<Longrightarrow> List.map_filter changes (emit prev cur) = [] \<longleftrightarrow> view prev = view cur"
  by (auto simp: emit_delta)

end

end
