(* ===== verification/Diff_Character.thy ===== *)
theory Diff_Character
  imports Dates Progression Localization Event_Streams
begin

text \<open>
  The per-character half of \<open>save/diff.py\<close>: the beats that compare the two snapshots of one
  character. One definition per helper of the source, in the order of the code within each
  group; each returns the events in the order in which the code appends them.

  A loop over a Python set that is not sorted takes the iteration order as its first argument
  (only the lifestyle commitments have one here).
\<close>

section \<open>Small idioms\<close>

text \<open>Python's \<open>s or default\<close> on optional strings, and a tuple of at most one role.\<close>

definition or_str :: "string option \<Rightarrow> string \<Rightarrow> string" where
  "or_str s z = (case s of None \<Rightarrow> z | Some t \<Rightarrow> if t = [] then z else t)"

definition opt_role :: "string \<Rightarrow> int option \<Rightarrow> (string \<times> int) list" where
  "opt_role role cid = (case cid of None \<Rightarrow> [] | Some i \<Rightarrow> [(role, i)])"

section \<open>Event constructors\<close>

definition family_participants :: "character_snapshot \<Rightarrow> (string \<times> int) list" where
  "family_participants c =
     opt_role ''mother'' (fam_mother (cs_family c))
     @ opt_role ''father'' (fam_father (cs_family c))
     @ opt_role ''primary_spouse'' (fam_primary_spouse (cs_family c))
     @ map (\<lambda>sp. (''spouse'', sp)) (fam_spouses (cs_family c))
     @ map (\<lambda>ch. (''child'', ch)) (fam_children (cs_family c))"

definition make_death :: "character_snapshot \<Rightarrow> string \<Rightarrow> diff_event" where
  "make_death c date =
     (let death_date = or_str (cs_death_date c) date;
          family = family_participants c;
          participants = (case cs_death_killer c of
              None \<Rightarrow> family
            | Some k \<Rightarrow> if list_ex (\<lambda>(role, pid). role = ''killer'' \<and> pid = k) family then family
                        else family @ [(''killer'', k)])
      in DiffEvent (DeathEvent death_date (cs_ck3_id c)
           \<lparr>dp_killer = cs_death_killer c, dp_cause = cs_death_cause c,
            dp_death_age = compute_death_age (cs_birth_date c) (Some death_date)\<rparr>)
           participants)"

definition make_travel :: "character_snapshot \<Rightarrow> int \<Rightarrow> int \<Rightarrow> string \<Rightarrow> diff_event" where
  "make_travel c from_loc to_loc date =
     DiffEvent (TravelEvent date (cs_ck3_id c)
       \<lparr>tp_from_location = Some from_loc, tp_to_location = Some to_loc\<rparr>) []"

definition make_marriage :: "character_snapshot \<Rightarrow> int \<Rightarrow> string \<Rightarrow> diff_event" where
  "make_marriage c spouse_id date =
     DiffEvent (MarriageEvent date (cs_ck3_id c) \<lparr>mp_spouse_character_id = Some spouse_id\<rparr>)
       [(''spouse'', spouse_id)]"

definition make_divorce :: "character_snapshot \<Rightarrow> int \<Rightarrow> string \<Rightarrow> diff_event" where
  "make_divorce c former_id date =
     DiffEvent (DivorceEvent date (cs_ck3_id c)
       \<lparr>vp_former_spouse_character_id = Some former_id\<rparr>) [(''former_spouse'', former_id)]"

definition LANDLESS_ADVENTURER_GOVERNMENT :: string where
  "LANDLESS_ADVENTURER_GOVERNMENT = ''landless_adventurer_government''"

definition make_adventurer_started :: "character_snapshot \<Rightarrow> string \<Rightarrow> diff_event" where
  "make_adventurer_started c date = DiffEvent (AdventurerStartedEvent date (cs_ck3_id c)) []"

definition make_adventurer_ended :: "character_snapshot \<Rightarrow> string \<Rightarrow> diff_event" where
  "make_adventurer_ended c date = DiffEvent (AdventurerEndedEvent date (cs_ck3_id c)) []"

definition make_government_changed ::
  "character_snapshot \<Rightarrow> string \<Rightarrow> string \<Rightarrow> string \<Rightarrow> diff_event" where
  "make_government_changed c previous new date =
     DiffEvent (GovernmentChangedEvent date (cs_ck3_id c)
       \<lparr>gp_previous_government = previous, gp_new_government = new\<rparr>) []"

definition make_nickname ::
  "character_snapshot \<Rightarrow> string option \<Rightarrow> string option \<Rightarrow> string \<Rightarrow> diff_event" where
  "make_nickname c from_nick to_nick date =
     DiffEvent (NicknameEvent date (cs_ck3_id c)
       \<lparr>np_from_nickname = from_nick, np_to_nickname = to_nick\<rparr>) []"

definition NARRATIVELY_INTERESTING_DECISIONS :: "string list" where
  "NARRATIVELY_INTERESTING_DECISIONS = [''raise_stele_decision'']"

definition make_decision_taken ::
  "character_snapshot \<Rightarrow> string \<Rightarrow> string \<Rightarrow> string \<Rightarrow> diff_event" where
  "make_decision_taken c decision_id cooldown_end_date diff_date =
     DiffEvent (DecisionTakenEvent diff_date (cs_ck3_id c)
       \<lparr>dtp_decision_id = decision_id,
        dtp_cooldown_end_date = (if cooldown_end_date = [] then None else Some cooldown_end_date)\<rparr>)
       []"

text \<open>\<open>dict(pairs)\<close>: a later pair overwrites an earlier one with the same key.\<close>

definition dict_of_pairs :: "('k \<times> 'v) list \<Rightarrow> ('k, 'v) dict" where
  "dict_of_pairs ps = foldl (\<lambda>d (k, v). dict_set d k v) [] ps"

text \<open>The deceased's details that a \<open>relative_died\<close> memory carries along.\<close>

definition deceased_of ::
  "memory_snapshot \<Rightarrow> (int, character_snapshot) dict \<Rightarrow> character_snapshot option" where
  "deceased_of mem characters =
     (if mem_memory_type mem = ''relative_died''
      then Option.bind (dict_get (dict_of_pairs (mem_participants mem)) ''dead_relation'')
             (dict_get characters)
      else None)"

definition make_vanilla_memory ::
  "character_snapshot \<Rightarrow> memory_snapshot \<Rightarrow> (int, character_snapshot) dict \<Rightarrow> string
   \<Rightarrow> diff_event" where
  "make_vanilla_memory c mem characters diff_window_date =
     (let deceased = deceased_of mem characters;
          killer_id = Option.bind deceased cs_death_killer
      in DiffEvent (VanillaMemoryEvent
           (if mem_creation_date mem = [] then diff_window_date else mem_creation_date mem)
           (cs_ck3_id c)
           \<lparr>vmp_memory_type = mem_memory_type mem,
            vmp_end_date = mem_end_date mem,
            vmp_participants = dict_of_pairs (mem_participants mem),
            vmp_deceased_cause = Option.bind deceased cs_death_cause,
            vmp_deceased_age =
              Option.bind deceased (\<lambda>d. compute_death_age (cs_birth_date d) (cs_death_date d)),
            vmp_deceased_first_name = Option.bind deceased cs_first_name,
            vmp_deceased_killer_id = killer_id,
            vmp_deceased_killer_first_name =
              Option.bind killer_id (\<lambda>k. Option.bind (dict_get characters k) cs_first_name)\<rparr>)
           (mem_participants mem))"

section \<open>\<open>_diff_one_character\<close>, beat by beat\<close>

definition death_beat :: "character_snapshot \<Rightarrow> character_snapshot \<Rightarrow> string \<Rightarrow> diff_event list" where
  "death_beat prev cur date =
     (let became_dead = \<not> cs_is_dead prev \<and> cs_is_dead cur \<and> cs_death_date prev = None;
          death_date_appeared = cs_death_date prev = None \<and> cs_death_date cur \<noteq> None
      in if became_dead \<or> death_date_appeared then [make_death cur date] else [])"

definition travel_beat :: "character_snapshot \<Rightarrow> character_snapshot \<Rightarrow> string \<Rightarrow> diff_event list" where
  "travel_beat prev cur date =
     (case (cs_location_id prev, cs_location_id cur) of
        (Some f, Some t) \<Rightarrow>
          if \<not> cs_is_dead cur \<and> f \<noteq> t then [make_travel cur f t date] else []
      | _ \<Rightarrow> [])"

text \<open>The spouses that count as new, the promoted primary spouse excluded.\<close>

definition new_spouses :: "character_snapshot \<Rightarrow> character_snapshot \<Rightarrow> int fset" where
  "new_spouses prev cur =
     (let base = fset_of_list (fam_spouses (cs_family cur))
                   |-| fset_of_list (fam_spouses (cs_family prev))
      in case fam_primary_spouse (cs_family cur) of
           None \<Rightarrow> base
         | Some sp \<Rightarrow>
             if sp \<noteq> 0 \<and> fam_primary_spouse (cs_family prev) \<noteq> Some sp
                \<and> sp \<notin> set (fam_spouses (cs_family prev))
             then finsert sp base else base)"

definition marriage_beat :: "character_snapshot \<Rightarrow> character_snapshot \<Rightarrow> string \<Rightarrow> diff_event list" where
  "marriage_beat prev cur date =
     map (\<lambda>spouse_id. make_marriage cur spouse_id date) (py_sorted (new_spouses prev cur))"

definition divorce_beat :: "character_snapshot \<Rightarrow> character_snapshot \<Rightarrow> string \<Rightarrow> diff_event list" where
  "divorce_beat prev cur date =
     map (\<lambda>former_id. make_divorce cur former_id date)
       (py_sorted (fset_of_list (fam_former_spouses (cs_family cur))
                     |-| fset_of_list (fam_former_spouses (cs_family prev))))"

definition nickname_beat :: "character_snapshot \<Rightarrow> character_snapshot \<Rightarrow> string \<Rightarrow> diff_event list" where
  "nickname_beat prev cur date =
     (if \<not> cs_is_dead cur \<and> cs_nickname prev \<noteq> cs_nickname cur
      then [make_nickname cur (cs_nickname prev) (cs_nickname cur) date] else [])"

definition government_beat :: "character_snapshot \<Rightarrow> character_snapshot \<Rightarrow> string \<Rightarrow> diff_event list" where
  "government_beat prev cur date =
     (if \<not> cs_is_dead cur \<and> cs_government prev \<noteq> cs_government cur then
        let was_adv = cs_government prev = Some LANDLESS_ADVENTURER_GOVERNMENT;
            is_adv = cs_government cur = Some LANDLESS_ADVENTURER_GOVERNMENT
        in if \<not> was_adv \<and> is_adv then [make_adventurer_started cur date]
           else if was_adv \<and> \<not> is_adv then [make_adventurer_ended cur date]
           else case (cs_government prev, cs_government cur) of
               (Some f, Some t) \<Rightarrow>
                 if \<not> was_adv \<and> \<not> is_adv then [make_government_changed cur f t date] else []
             | _ \<Rightarrow> []
      else [])"

definition decision_beat :: "character_snapshot \<Rightarrow> character_snapshot \<Rightarrow> string \<Rightarrow> diff_event list" where
  "decision_beat prev cur date =
     map (\<lambda>(decision_id, end_date). make_decision_taken cur decision_id end_date date)
       (filter (\<lambda>(decision_id, end_date).
           (decision_id, end_date) \<notin> set (cs_decisions_taken prev)
           \<and> decision_id \<in> set NARRATIVELY_INTERESTING_DECISIONS) (cs_decisions_taken cur))"

definition diff_one_character ::
  "character_snapshot \<Rightarrow> character_snapshot \<Rightarrow> string \<Rightarrow> (int, character_snapshot) dict
   \<Rightarrow> memory_snapshot list \<Rightarrow> diff_event list" where
  "diff_one_character prev cur date characters new_memories =
     death_beat prev cur date
     @ travel_beat prev cur date
     @ marriage_beat prev cur date
     @ divorce_beat prev cur date
     @ nickname_beat prev cur date
     @ government_beat prev cur date
     @ map (\<lambda>mem. make_vanilla_memory cur mem characters date) new_memories
     @ decision_beat prev cur date"

section \<open>Set differences on the character record\<close>

definition diff_modifiers :: "character_snapshot \<Rightarrow> character_snapshot \<Rightarrow> string \<Rightarrow> diff_event list" where
  "diff_modifiers prev cur date =
     (if cs_is_dead cur then []
      else map (\<lambda>key. DiffEvent (ModifierAcquiredEvent date (cs_ck3_id cur) \<lparr>modp_modifier_key = key\<rparr>) [])
             (py_sorted (fset_of_list (cs_modifiers cur) |-| fset_of_list (cs_modifiers prev))))"

definition diff_perks :: "character_snapshot \<Rightarrow> character_snapshot \<Rightarrow> string \<Rightarrow> diff_event list" where
  "diff_perks prev cur date =
     (if cs_is_dead cur then []
      else map (\<lambda>key. DiffEvent (PerkAcquiredEvent date (cs_ck3_id cur) \<lparr>pp_perk_key = key\<rparr>) [])
             (py_sorted (fset_of_list (cs_perks cur) |-| fset_of_list (cs_perks prev))))"

text \<open>
  The lifestyle commitments. The loop over the new perks is over a set of strings, in the
  interpreter's order; it fills a dictionary from lifestyle to the list of its new perks.
\<close>

definition add_new_perk ::
  "string list \<Rightarrow> (string, string list) dict \<Rightarrow> string \<Rightarrow> (string, string list) dict" where
  "add_new_perk prev_lifestyles d perk =
     (case lifestyle_of_perk perk of
        None \<Rightarrow> d
      | Some ls \<Rightarrow>
          if ls \<in> set prev_lifestyles then d
          else dict_set d ls (dict_get_default d ls [] @ [perk]))"

definition group_new_perks ::
  "(string fset \<Rightarrow> string list) \<Rightarrow> string list \<Rightarrow> string fset \<Rightarrow> (string, string list) dict" where
  "group_new_perks iter prev_lifestyles new_perks =
     foldl (add_new_perk prev_lifestyles) [] (iter new_perks)"

definition diff_lifestyle_commits ::
  "(string fset \<Rightarrow> string list) \<Rightarrow> character_snapshot \<Rightarrow> character_snapshot \<Rightarrow> string
   \<Rightarrow> diff_event list" where
  "diff_lifestyle_commits iter prev cur date =
     (if cs_is_dead cur then []
      else
        let new_perks = fset_of_list (cs_perks cur) |-| fset_of_list (cs_perks prev) in
        if new_perks = {||} then []
        else
          let prev_lifestyles = List.map_filter lifestyle_of_perk (cs_perks prev);
              by_lifestyle = group_new_perks iter prev_lifestyles new_perks
          in map (\<lambda>lifestyle. DiffEvent (LifestyleCommittedEvent date (cs_ck3_id cur)
                   \<lparr>lcp_lifestyle_key = lifestyle,
                    lcp_first_perk_key = hd (sort (dict_get_default by_lifestyle lifestyle []))\<rparr>) [])
               (py_sorted (dict_keys by_lifestyle)))"

definition diff_concubines ::
  "character_snapshot \<Rightarrow> character_snapshot \<Rightarrow> (int, character_snapshot) dict \<Rightarrow> string
   \<Rightarrow> diff_event list" where
  "diff_concubines prev cur characters date =
     (if cs_is_dead cur then []
      else map (\<lambda>cid. DiffEvent (ConcubineTakenEvent date (cs_ck3_id cur)
                 \<lparr>cop_concubine_id = cid,
                  cop_concubine_name = Option.bind (dict_get characters cid) cs_first_name\<rparr>)
                 [(''concubine'', cid)])
             (py_sorted (fset_of_list (fam_concubines (cs_family cur))
                           |-| fset_of_list (fam_concubines (cs_family prev)))))"

definition lookup_trait_name :: "int \<Rightarrow> string list \<Rightarrow> string option" where
  "lookup_trait_name trait_id traits_lookup =
     (if 0 \<le> trait_id \<and> trait_id < int (length traits_lookup)
      then Some (traits_lookup ! nat trait_id) else None)"

definition diff_traits ::
  "character_snapshot \<Rightarrow> character_snapshot \<Rightarrow> string list \<Rightarrow> string \<Rightarrow> diff_event list" where
  "diff_traits prev cur traits_lookup date =
     (if cs_is_dead cur then []
      else
        let prev_set = fset_of_list (cs_traits prev); cur_set = fset_of_list (cs_traits cur);
            payload = (\<lambda>trait_id. \<lparr>trp_trait_id = trait_id,
                         trp_trait_name = lookup_trait_name trait_id traits_lookup\<rparr>)
        in if prev_set = cur_set then []
           else map (\<lambda>i. DiffEvent (TraitGainedEvent date (cs_ck3_id cur) (payload i)) [])
                  (py_sorted (cur_set |-| prev_set))
                @ map (\<lambda>i. DiffEvent (TraitLostEvent date (cs_ck3_id cur) (payload i)) [])
                    (py_sorted (prev_set |-| cur_set)))"

section \<open>Miscarriage\<close>

definition PREGNANT_TRAIT_NAME :: string where
  "PREGNANT_TRAIT_NAME = ''pregnant''"

fun index_from :: "int \<Rightarrow> string \<Rightarrow> string list \<Rightarrow> int option" where
  "index_from idx name [] = None"
| "index_from idx name (n # ns) = (if n = name then Some idx else index_from (idx + 1) name ns)"

definition trait_id_by_name :: "string \<Rightarrow> string list \<Rightarrow> int option" where
  "trait_id_by_name name traits_lookup = index_from 0 name traits_lookup"

definition diff_miscarriage ::
  "character_snapshot \<Rightarrow> character_snapshot \<Rightarrow> int option \<Rightarrow> string \<Rightarrow> memory_snapshot list
   \<Rightarrow> diff_event list" where
  "diff_miscarriage prev cur pregnant_trait_id date new_memories =
     (if cs_is_dead cur then []
      else case pregnant_trait_id of
        None \<Rightarrow> []
      | Some pid \<Rightarrow>
          let was_pregnant = pid \<in> set (cs_traits prev);
              is_pregnant = pid \<in> set (cs_traits cur)
          in if \<not> (was_pregnant \<and> \<not> is_pregnant) then []
             else if list_ex (\<lambda>m. mem_memory_type m = ''child_born'') new_memories then []
             else [DiffEvent (MiscarriageEvent date (cs_ck3_id cur)
                     \<lparr>misp_assumed_father_id = fam_primary_spouse (cs_family cur)\<rparr>)
                     (opt_role ''assumed_father'' (fam_primary_spouse (cs_family cur)))])"

section \<open>House, culture and faith\<close>

definition diff_state_changes ::
  "character_snapshot \<Rightarrow> character_snapshot \<Rightarrow> (int, string) dict \<Rightarrow> (int, string) dict
   \<Rightarrow> (int, string) dict \<Rightarrow> string \<Rightarrow> diff_event list" where
  "diff_state_changes prev cur houses_lookup cultures_lookup faiths_lookup date =
     (if cs_is_dead cur then []
      else
        (if cs_dynasty_house_id prev \<noteq> cs_dynasty_house_id cur
         then [DiffEvent (HouseChangeEvent date (cs_ck3_id cur)
                \<lparr>hcp_from_house_id = cs_dynasty_house_id prev,
                 hcp_from_house_name = Option.bind (cs_dynasty_house_id prev) (dict_get houses_lookup),
                 hcp_to_house_id = cs_dynasty_house_id cur,
                 hcp_to_house_name = Option.bind (cs_dynasty_house_id cur) (dict_get houses_lookup)\<rparr>)
                []]
         else [])
        @ (if cs_culture_id prev \<noteq> cs_culture_id cur
           then [DiffEvent (CultureChangeEvent date (cs_ck3_id cur)
                  \<lparr>ccp_from_culture_id = cs_culture_id prev,
                   ccp_from_culture_name = Option.bind (cs_culture_id prev) (dict_get cultures_lookup),
                   ccp_to_culture_id = cs_culture_id cur,
                   ccp_to_culture_name = Option.bind (cs_culture_id cur) (dict_get cultures_lookup)\<rparr>)
                  []]
           else [])
        @ (if cs_faith_id prev \<noteq> cs_faith_id cur
           then [DiffEvent (FaithChangeEvent date (cs_ck3_id cur)
                  \<lparr>fcp_from_faith_id = cs_faith_id prev,
                   fcp_from_faith_name = Option.bind (cs_faith_id prev) (dict_get faiths_lookup),
                   fcp_to_faith_id = cs_faith_id cur,
                   fcp_to_faith_name = Option.bind (cs_faith_id cur) (dict_get faiths_lookup)\<rparr>)
                  []]
           else []))"

section \<open>The contracts of the streams\<close>

text \<open>
  The memories that are new in the current record; \<open>diff_snapshots\<close> computes the list once and
  hands it to the two streams that read it.
\<close>

definition new_memories :: "character_snapshot \<Rightarrow> character_snapshot \<Rightarrow> memory_snapshot list" where
  "new_memories prev cur =
     (let prev_mem_ids = fset_of_list (map mem_memory_id (cs_memories prev))
      in filter (\<lambda>m. mem_memory_id m |\<notin>| prev_mem_ids) (cs_memories cur))"

lemma new_memories_same [simp]: "new_memories c c = []"
  by (auto simp: new_memories_def filter_empty_conv fset_of_list_elem)

lemmas beat_defs [stream_defs] = death_beat_def travel_beat_def marriage_beat_def divorce_beat_def
  nickname_beat_def government_beat_def decision_beat_def

lemmas make_defs [stream_defs] = make_death_def make_travel_def make_marriage_def make_divorce_def
  make_nickname_def make_adventurer_started_def make_adventurer_ended_def
  make_government_changed_def make_vanilla_memory_def make_decision_taken_def

definition one_character_types :: "string list" where
  "one_character_types = [''death'', ''travel'', ''marriage'', ''divorce'', ''nickname'',
     ''adventurer_started'', ''adventurer_ended'', ''government_changed'', ''vanilla_memory'',
     ''decision_taken'']"

lemma diff_one_character_ok:
  "stream_ok (cs_ck3_id cur) one_character_types
     (diff_one_character prev cur date characters mems)"
  by (auto simp: diff_one_character_def stream_defs one_character_types_def Let_def
      split: option.split)

lemma new_spouses_same [simp]: "new_spouses c c = {||}"
  by (auto simp: new_spouses_def Let_def split: option.split)

lemma diff_one_character_idle: "diff_one_character c c date characters [] = []"
  by (auto simp: diff_one_character_def stream_defs filter_empty_conv Let_def split: option.split)

interpretation one_char: event_stream
  "\<lambda>p c. diff_one_character p c date characters (new_memories p c)" cs_ck3_id one_character_types
  for date characters
  by unfold_locales (simp_all add: diff_one_character_ok diff_one_character_idle)

interpretation mods: living_stream
  "\<lambda>p c. diff_modifiers p c date" cs_ck3_id "[''modifier_acquired'']" cs_is_dead for date
  by unfold_locales (auto simp: diff_modifiers_def)

interpretation perks: living_stream
  "\<lambda>p c. diff_perks p c date" cs_ck3_id "[''perk_acquired'']" cs_is_dead for date
  by unfold_locales (auto simp: diff_perks_def)

interpretation commits: living_stream
  "\<lambda>p c. diff_lifestyle_commits iter p c date" cs_ck3_id "[''lifestyle_committed'']" cs_is_dead
  for iter date
  by unfold_locales (auto simp: diff_lifestyle_commits_def Let_def)

interpretation concs: living_stream
  "\<lambda>p c. diff_concubines p c characters date" cs_ck3_id "[''concubine_taken'']" cs_is_dead
  for characters date
  by unfold_locales (auto simp: diff_concubines_def)

interpretation trts: living_stream
  "\<lambda>p c. diff_traits p c traits_lookup date" cs_ck3_id "[''trait_gained'', ''trait_lost'']"
  cs_is_dead for traits_lookup date
  by unfold_locales (auto simp: diff_traits_def Let_def)

interpretation misc: living_stream
  "\<lambda>p c. diff_miscarriage p c pid date (new_memories p c)" cs_ck3_id "[''miscarriage'']" cs_is_dead
  for pid date
  by unfold_locales (auto simp: diff_miscarriage_def Let_def split: option.split)

interpretation state: living_stream
  "\<lambda>p c. diff_state_changes p c houses cultures faiths date" cs_ck3_id
  "[''house_change'', ''culture_change'', ''faith_change'']" cs_is_dead
  for houses cultures faiths date
  by unfold_locales (auto simp: diff_state_changes_def)

end
