(* ===== verification/Diff_Streams.thy ===== *)
theory Diff_Streams
  imports Diff_Character
begin

text \<open>
  The snapshot-level streams of \<open>save/diff.py\<close>: the declarative set-difference registry
  (\<open>SetDiffSpec\<close>, \<open>make_set_differ\<close> and its six specifications), the six bespoke streams
  (wars, dynasty legacies, splendor, contracts, domicile, constructions), and the list
  \<open>STREAM_DIFFERS\<close> that \<open>diff_snapshots\<close> runs for every character.
\<close>

type_synonym stream_differ =
  "int \<Rightarrow> character_snapshot \<Rightarrow> save_snapshot \<Rightarrow> save_snapshot \<Rightarrow> string \<Rightarrow> diff_event list"

type_synonym set_diff_builder =
  "int \<Rightarrow> int \<Rightarrow> save_snapshot \<Rightarrow> save_snapshot \<Rightarrow> string \<Rightarrow> diff_event option"

section \<open>The set-difference registry\<close>

record set_diff_spec =
  sd_name :: string
  sd_index :: "save_snapshot \<Rightarrow> (int, int fset) dict"
  sd_on_added :: "set_diff_builder option"
  sd_on_removed :: "set_diff_builder option"

text \<open>The builder run over a list of identifiers, \<open>None\<close> builders and results skipped.\<close>

definition build_events ::
  "set_diff_builder option \<Rightarrow> int \<Rightarrow> int list \<Rightarrow> save_snapshot \<Rightarrow> save_snapshot \<Rightarrow> string
   \<Rightarrow> diff_event list" where
  "build_events builder cid eids prev cur date =
     (case builder of
        None \<Rightarrow> []
      | Some f \<Rightarrow> List.map_filter (\<lambda>eid. f cid eid prev cur date) eids)"

definition make_set_differ :: "set_diff_spec \<Rightarrow> stream_differ" where
  "make_set_differ spec cid char prev cur date =
     (if cs_is_dead char then []
      else
        let prev_set = dict_get_default (sd_index spec prev) cid {||};
            cur_set = dict_get_default (sd_index spec cur) cid {||}
        in if prev_set = cur_set then []
           else build_events (sd_on_added spec) cid (py_sorted (cur_set |-| prev_set)) prev cur date
                @ build_events (sd_on_removed spec) cid (py_sorted (prev_set |-| cur_set)) prev cur date)"

subsection \<open>Alliances\<close>

definition alliance_added :: set_diff_builder where
  "alliance_added cid ally_id prev cur date =
     Some (DiffEvent (AllianceFormedEvent date cid \<lparr>alp_ally_character_id = ally_id\<rparr>)
             [(''ally'', ally_id)])"

definition alliance_removed :: set_diff_builder where
  "alliance_removed cid ally_id prev cur date =
     Some (DiffEvent (AllianceBrokenEvent date cid \<lparr>alp_ally_character_id = ally_id\<rparr>)
             [(''former_ally'', ally_id)])"

definition ALLIANCES_SPEC :: set_diff_spec where
  "ALLIANCES_SPEC = \<lparr>sd_name = ''alliances'', sd_index = sn_alliances,
     sd_on_added = Some alliance_added, sd_on_removed = Some alliance_removed\<rparr>"

subsection \<open>Artifacts\<close>

definition artifact_payload_of :: "int \<Rightarrow> artifact_snapshot \<Rightarrow> artifact_payload" where
  "artifact_payload_of art_id art =
     \<lparr>artp_artifact_id = art_id, artp_name = art_name art, artp_type = art_type art,
      artp_rarity = art_rarity art\<rparr>"

definition artifact_added :: set_diff_builder where
  "artifact_added cid art_id prev cur date =
     (case dict_get (sn_artifacts cur) art_id of
        None \<Rightarrow> None
      | Some art \<Rightarrow> Some (DiffEvent
          (ArtifactAcquiredEvent date cid (artifact_payload_of art_id art)) []))"

definition artifact_removed :: set_diff_builder where
  "artifact_removed cid art_id prev cur date =
     (case (case dict_get (sn_artifacts prev) art_id of
              Some a \<Rightarrow> Some a | None \<Rightarrow> dict_get (sn_artifacts cur) art_id) of
        None \<Rightarrow> None
      | Some art \<Rightarrow> Some (DiffEvent
          (ArtifactLostEvent date cid (artifact_payload_of art_id art)) []))"

definition ARTIFACTS_SPEC :: set_diff_spec where
  "ARTIFACTS_SPEC = \<lparr>sd_name = ''artifacts'', sd_index = sn_character_to_artifacts,
     sd_on_added = Some artifact_added, sd_on_removed = Some artifact_removed\<rparr>"

subsection \<open>Epidemics\<close>

definition epidemic_added :: set_diff_builder where
  "epidemic_added cid ep_id prev cur date =
     (case dict_get (sn_epidemics cur) ep_id of
        None \<Rightarrow> None
      | Some ep \<Rightarrow> Some (DiffEvent (EpidemicOutbreakEvent date cid
          \<lparr>epp_epidemic_id = ep_epidemic_id ep, epp_epidemic_type = ep_epidemic_type ep,
           epp_name = ep_name ep, epp_intensity = ep_intensity ep,
           epp_start_date = ep_creation_date ep,
           epp_num_infected_provinces = ep_num_infected_provinces ep,
           epp_num_character_deaths = ep_num_character_deaths ep\<rparr>) []))"

definition EPIDEMICS_SPEC :: set_diff_spec where
  "EPIDEMICS_SPEC = \<lparr>sd_name = ''epidemics'', sd_index = sn_character_to_epidemics,
     sd_on_added = Some epidemic_added, sd_on_removed = None\<rparr>"

subsection \<open>Activities\<close>

definition activity_removed :: set_diff_builder where
  "activity_removed cid activity_id prev cur date =
     (case dict_get (sn_activities prev) activity_id of
        None \<Rightarrow> None
      | Some snap \<Rightarrow>
          let role = (if act_host_id snap = Some cid then ''host'' else ''attendee'') in
          Some (DiffEvent (ActivityCompletedEvent date cid
            \<lparr>actp_activity_id = act_activity_id snap, actp_activity_type = act_activity_type snap,
             actp_role = role, actp_host_id = act_host_id snap,
             actp_start_province_id = act_start_province_id snap,
             actp_start_date = act_active_start_date snap\<rparr>) []))"

definition ACTIVITIES_SPEC :: set_diff_spec where
  "ACTIVITIES_SPEC = \<lparr>sd_name = ''activities'', sd_index = sn_character_to_activities,
     sd_on_added = None, sd_on_removed = Some activity_removed\<rparr>"

subsection \<open>Inspirations\<close>

definition inspiration_added :: set_diff_builder where
  "inspiration_added cid inspiration_id prev cur date =
     (case dict_get (sn_inspirations cur) inspiration_id of
        None \<Rightarrow> None
      | Some snap \<Rightarrow> Some (DiffEvent (InspirationSponsoredEvent date cid
          \<lparr>isp_inspiration_id = insp_inspiration_id snap,
           isp_inspiration_type = insp_inspiration_type snap,
           isp_artisan_character_id = insp_artisan_character_id snap,
           isp_total_cost = Some (insp_total_cost snap)\<rparr>) []))"

definition INSPIRATIONS_SPEC :: set_diff_spec where
  "INSPIRATIONS_SPEC = \<lparr>sd_name = ''inspirations'',
     sd_index = sn_character_to_sponsored_inspirations,
     sd_on_added = Some inspiration_added, sd_on_removed = None\<rparr>"

subsection \<open>Court positions\<close>

definition resolve_employee_name ::
  "int option \<Rightarrow> (int, character_snapshot) dict \<Rightarrow> string option" where
  "resolve_employee_name employee_id characters =
     (case employee_id of
        None \<Rightarrow> None
      | Some i \<Rightarrow> (case dict_get characters i of None \<Rightarrow> None | Some char \<Rightarrow> cs_first_name char))"

definition companion_payload_of ::
  "court_position_snapshot \<Rightarrow> save_snapshot \<Rightarrow> camp_companion_payload" where
  "companion_payload_of snap cur =
     \<lparr>ccmp_position_id = pos_position_id snap, ccmp_court_position = pos_court_position snap,
      ccmp_employee_id = pos_employee_id snap,
      ccmp_employee_name = resolve_employee_name (pos_employee_id snap) (sn_characters cur),
      ccmp_hire_date = pos_hire_date snap\<rparr>"

definition court_position_added :: set_diff_builder where
  "court_position_added cid pid prev cur date =
     (case dict_get (sn_court_positions cur) pid of
        None \<Rightarrow> None
      | Some snap \<Rightarrow> Some (DiffEvent
          (CampCompanionJoinedEvent date cid (companion_payload_of snap cur)) []))"

definition court_position_removed :: set_diff_builder where
  "court_position_removed cid pid prev cur date =
     (case dict_get (sn_court_positions prev) pid of
        None \<Rightarrow> None
      | Some snap \<Rightarrow> Some (DiffEvent
          (CampCompanionLeftEvent date cid (companion_payload_of snap cur)) []))"

definition COURT_POSITIONS_SPEC :: set_diff_spec where
  "COURT_POSITIONS_SPEC = \<lparr>sd_name = ''court_positions'',
     sd_index = sn_character_to_court_positions,
     sd_on_added = Some court_position_added, sd_on_removed = Some court_position_removed\<rparr>"

section \<open>Wars\<close>

definition resolve_war_side :: "war_snapshot \<Rightarrow> int \<Rightarrow> string option" where
  "resolve_war_side war ck3_id =
     (if ck3_id |\<in>| war_attacker_participants war then Some ''attacker''
      else if ck3_id |\<in>| war_defender_participants war then Some ''defender''
      else None)"

definition war_side_payload_of :: "war_snapshot \<Rightarrow> string option \<Rightarrow> war_side_payload" where
  "war_side_payload_of war side =
     \<lparr>wsp_war_id = war_war_id war,
      wsp_war_name = strip_loca_markup (war_name war),
      wsp_casus_belli_type = war_casus_belli_type war,
      wsp_targeted_titles = war_targeted_titles war,
      wsp_side = (if side \<in> {Some ''attacker'', Some ''defender''} then side else None),
      wsp_primary_attacker_id = war_primary_attacker_id war,
      wsp_primary_defender_id = war_primary_defender_id war,
      wsp_claimant_id = war_claimant_id war\<rparr>"

definition war_participants :: "war_snapshot \<Rightarrow> (string \<times> int) list" where
  "war_participants war =
     opt_role ''primary_attacker'' (war_primary_attacker_id war)
     @ opt_role ''primary_defender'' (war_primary_defender_id war)
     @ (if war_claimant_id war \<noteq> None
           \<and> war_claimant_id war \<notin> {war_primary_attacker_id war, war_primary_defender_id war}
        then opt_role ''claimant'' (war_claimant_id war) else [])"

definition is_principal :: "war_snapshot \<Rightarrow> int \<Rightarrow> bool" where
  "is_principal war ck3_id \<longleftrightarrow>
     Some ck3_id \<in> {war_primary_attacker_id war, war_primary_defender_id war}"

definition war_entered ::
  "int \<Rightarrow> (int, war_snapshot) dict \<Rightarrow> (int, war_snapshot) dict \<Rightarrow> string \<Rightarrow> int
   \<Rightarrow> diff_event option" where
  "war_entered ck3_id prev_wars cur_wars date war_id =
     (case dict_get cur_wars war_id of
        None \<Rightarrow> None
      | Some war \<Rightarrow>
          let payload = war_side_payload_of war (resolve_war_side war ck3_id) in
          if dict_get prev_wars war_id = None \<and> is_principal war ck3_id
          then Some (DiffEvent (WarDeclaredEvent date ck3_id payload) (war_participants war))
          else Some (DiffEvent (WarJoinedEvent date ck3_id payload) (war_participants war)))"

definition war_exited ::
  "int \<Rightarrow> (int, war_snapshot) dict \<Rightarrow> (int, war_snapshot) dict \<Rightarrow> string \<Rightarrow> int
   \<Rightarrow> diff_event option" where
  "war_exited ck3_id prev_wars cur_wars date war_id =
     (case dict_get prev_wars war_id of
        None \<Rightarrow> None
      | Some prev_war \<Rightarrow>
          let payload = war_side_payload_of prev_war (resolve_war_side prev_war ck3_id) in
          if dict_get cur_wars war_id = None
          then Some (DiffEvent (WarConcludedEvent date ck3_id payload) (war_participants prev_war))
          else Some (DiffEvent (WarLeftEvent date ck3_id payload) (war_participants prev_war)))"

definition diff_wars ::
  "int \<Rightarrow> character_snapshot \<Rightarrow> (int, war_snapshot) dict \<Rightarrow> (int, war_snapshot) dict
   \<Rightarrow> (int, int fset) dict \<Rightarrow> (int, int fset) dict \<Rightarrow> string \<Rightarrow> diff_event list" where
  "diff_wars ck3_id char prev_wars cur_wars prev_char_to_wars cur_char_to_wars date =
     (if cs_is_dead char then []
      else
        let prev_set = dict_get_default prev_char_to_wars ck3_id {||};
            cur_set = dict_get_default cur_char_to_wars ck3_id {||}
        in if prev_set = cur_set then []
           else List.map_filter (war_entered ck3_id prev_wars cur_wars date)
                  (py_sorted (cur_set |-| prev_set))
                @ List.map_filter (war_exited ck3_id prev_wars cur_wars date)
                    (py_sorted (prev_set |-| cur_set)))"

section \<open>Dynasties\<close>

text \<open>The dynasty of a character, through its house; both streams resolve it this way.\<close>

definition dynasty_of :: "character_snapshot \<Rightarrow> (int, int) dict \<Rightarrow> int option" where
  "dynasty_of char house_to_dynasty =
     (case cs_dynasty_house_id char of None \<Rightarrow> None | Some h \<Rightarrow> dict_get house_to_dynasty h)"

definition diff_dynasty_legacies ::
  "int \<Rightarrow> character_snapshot \<Rightarrow> (int, string fset) dict \<Rightarrow> (int, string fset) dict
   \<Rightarrow> (int, int) dict \<Rightarrow> (int, string) dict \<Rightarrow> string \<Rightarrow> diff_event list" where
  "diff_dynasty_legacies ck3_id char prev_perks cur_perks house_to_dynasty dynasties_lookup date =
     (if cs_is_dead char then []
      else case dynasty_of char house_to_dynasty of
        None \<Rightarrow> []
      | Some dynasty_id \<Rightarrow>
          map (\<lambda>legacy_key. DiffEvent (DynastyLegacyUnlockedEvent date ck3_id
                 \<lparr>dlp_dynasty_id = dynasty_id,
                  dlp_dynasty_name = dict_get dynasties_lookup dynasty_id,
                  dlp_legacy_key = legacy_key\<rparr>) [])
            (py_sorted (dict_get_default cur_perks dynasty_id {||}
                          |-| dict_get_default prev_perks dynasty_id {||})))"

definition diff_dynasty_splendor ::
  "int \<Rightarrow> character_snapshot \<Rightarrow> (int, rat) dict \<Rightarrow> (int, rat) dict \<Rightarrow> (int, int) dict
   \<Rightarrow> (int, string) dict \<Rightarrow> (int, int) dict \<Rightarrow> string \<Rightarrow> diff_event list" where
  "diff_dynasty_splendor ck3_id char prev_renown cur_renown house_to_dynasty dynasties_lookup
     dynasty_heads date =
     (if cs_is_dead char then []
      else case dynasty_of char house_to_dynasty of
        None \<Rightarrow> []
      | Some dynasty_id \<Rightarrow>
          let prev_acc = dict_get_default prev_renown dynasty_id 0;
              cur_acc = dict_get_default cur_renown dynasty_id 0;
              prev_tier = derive_splendor_tier prev_acc;
              cur_tier = derive_splendor_tier cur_acc
          in if cur_tier \<le> prev_tier then []
             else [DiffEvent (SplendorIncreasedEvent date ck3_id
                     \<lparr>sp_dynasty_id = dynasty_id,
                      sp_dynasty_name = dict_get dynasties_lookup dynasty_id,
                      sp_dynasty_head_id = dict_get dynasty_heads dynasty_id,
                      sp_old_tier = prev_tier, sp_new_tier = cur_tier,
                      sp_total_renown_at_change = cur_acc\<rparr>) []])"

section \<open>Contracts\<close>

definition CONTRACT_TERMINAL_STATUSES :: "string list" where
  "CONTRACT_TERMINAL_STATUSES = [''completed'', ''invalidated'']"

definition contract_event ::
  "int \<Rightarrow> (int, contract_snapshot) dict \<Rightarrow> (int, contract_snapshot) dict \<Rightarrow> string \<Rightarrow> int
   \<Rightarrow> diff_event option" where
  "contract_event ck3_id prev_contracts cur_contracts date contract_id =
     (case dict_get cur_contracts contract_id of
        None \<Rightarrow> None
      | Some cur_snap \<Rightarrow>
          if ctr_status cur_snap \<notin> set CONTRACT_TERMINAL_STATUSES then None
          else if (case dict_get prev_contracts contract_id of
                     None \<Rightarrow> False
                   | Some prev_snap \<Rightarrow> ctr_status prev_snap \<in> set CONTRACT_TERMINAL_STATUSES)
          then None
          else Some (DiffEvent (ContractCompletedEvent date ck3_id
            \<lparr>ctp_contract_type = ctr_contract_type cur_snap, ctp_name = ctr_name cur_snap,
             ctp_tier = ctr_tier cur_snap, ctp_employer_id = ctr_employer_id cur_snap,
             ctp_location_province_id = ctr_location_province_id cur_snap,
             ctp_outcome = ctr_status cur_snap,
             ctp_acceptance_date = ctr_acceptance_date cur_snap,
             ctp_completion_date = ctr_completion_date cur_snap\<rparr>) []))"

definition diff_contracts ::
  "int \<Rightarrow> character_snapshot \<Rightarrow> (int, contract_snapshot) dict \<Rightarrow> (int, contract_snapshot) dict
   \<Rightarrow> (int, int fset) dict \<Rightarrow> (int, int fset) dict \<Rightarrow> string \<Rightarrow> diff_event list" where
  "diff_contracts ck3_id char prev_contracts cur_contracts prev_char_to_contracts
     cur_char_to_contracts date =
     (if cs_is_dead char then []
      else List.map_filter (contract_event ck3_id prev_contracts cur_contracts date)
             (py_sorted (dict_get_default prev_char_to_contracts ck3_id {||}
                           |\<union>| dict_get_default cur_char_to_contracts ck3_id {||})))"

section \<open>Domicile\<close>

definition diff_domicile ::
  "int \<Rightarrow> character_snapshot \<Rightarrow> (int, domicile_snapshot) dict \<Rightarrow> (int, domicile_snapshot) dict
   \<Rightarrow> (int, int) dict \<Rightarrow> (int, int) dict \<Rightarrow> string \<Rightarrow> diff_event list" where
  "diff_domicile ck3_id char prev_domiciles cur_domiciles prev_char_to_domicile
     cur_char_to_domicile date =
     (if cs_is_dead char then []
      else case (dict_get prev_char_to_domicile ck3_id, dict_get cur_char_to_domicile ck3_id) of
        (Some prev_did, Some cur_did) \<Rightarrow>
          (case (dict_get prev_domiciles prev_did, dict_get cur_domiciles cur_did) of
             (Some prev_dom, Some cur_dom) \<Rightarrow>
               (case (dom_province_id prev_dom, dom_province_id cur_dom) of
                  (Some f, Some t) \<Rightarrow>
                    if f = t then []
                    else [DiffEvent (DomicileMovedEvent date ck3_id
                            \<lparr>domp_domicile_id = dom_domicile_id cur_dom,
                             domp_domicile_type = dom_domicile_type cur_dom,
                             domp_from_province_id = Some f, domp_to_province_id = Some t\<rparr>) []]
                | _ \<Rightarrow> [])
           | _ \<Rightarrow> [])
      | _ \<Rightarrow> [])"

section \<open>Constructions\<close>

definition construction_event ::
  "int \<Rightarrow> (int \<times> int, construction_snapshot) dict \<Rightarrow> (int \<times> int, string) dict \<Rightarrow> string
   \<Rightarrow> int \<times> int \<Rightarrow> diff_event option" where
  "construction_event ck3_id prev_in_flight cur_buildings_by_slot date key =
     (case dict_get prev_in_flight key of
        None \<Rightarrow> None
      | Some cons \<Rightarrow>
          if dict_get cur_buildings_by_slot key \<noteq> Some (con_building cons) then None
          else Some (DiffEvent (BuildingCompletedEvent date ck3_id
            \<lparr>bcp_building = con_building cons, bcp_province_id = con_province_id cons,
             bcp_slot_index = con_slot_index cons, bcp_start_date = con_start_date cons\<rparr>) []))"

definition diff_constructions ::
  "int \<Rightarrow> character_snapshot \<Rightarrow> (int \<times> int, construction_snapshot) dict
   \<Rightarrow> (int, (int \<times> int) fset) dict \<Rightarrow> (int, (int \<times> int) fset) dict \<Rightarrow> (int \<times> int, string) dict
   \<Rightarrow> string \<Rightarrow> diff_event list" where
  "diff_constructions ck3_id char prev_in_flight prev_char_to_cons cur_char_to_cons
     cur_buildings_by_slot date =
     (if cs_is_dead char then []
      else List.map_filter (construction_event ck3_id prev_in_flight cur_buildings_by_slot date)
             (py_sorted (dict_get_default prev_char_to_cons ck3_id {||}
                           |-| dict_get_default cur_char_to_cons ck3_id {||})))"

section \<open>The registry that \<open>diff_snapshots\<close> runs\<close>

definition wars_differ :: stream_differ where
  "wars_differ cid c prev cur date =
     diff_wars cid c (sn_wars prev) (sn_wars cur) (sn_character_to_wars prev)
       (sn_character_to_wars cur) date"

definition legacies_differ :: stream_differ where
  "legacies_differ cid c prev cur date =
     diff_dynasty_legacies cid c (sn_dynasty_perks prev) (sn_dynasty_perks cur)
       (sn_house_to_dynasty cur) (sn_dynasties_lookup cur) date"

definition splendor_differ :: stream_differ where
  "splendor_differ cid c prev cur date =
     diff_dynasty_splendor cid c (sn_dynasty_renown prev) (sn_dynasty_renown cur)
       (sn_house_to_dynasty cur) (sn_dynasties_lookup cur) (sn_dynasty_heads cur) date"

definition contracts_differ :: stream_differ where
  "contracts_differ cid c prev cur date =
     diff_contracts cid c (sn_task_contracts prev) (sn_task_contracts cur)
       (sn_character_to_contracts prev) (sn_character_to_contracts cur) date"

definition domicile_differ :: stream_differ where
  "domicile_differ cid c prev cur date =
     diff_domicile cid c (sn_domiciles prev) (sn_domiciles cur) (sn_character_to_domicile prev)
       (sn_character_to_domicile cur) date"

definition constructions_differ :: stream_differ where
  "constructions_differ cid c prev cur date =
     diff_constructions cid c (sn_in_flight_constructions prev)
       (sn_character_to_constructions prev) (sn_character_to_constructions cur)
       (sn_holding_buildings_by_slot cur) date"

definition STREAM_DIFFERS :: "stream_differ list" where
  "STREAM_DIFFERS =
     [make_set_differ ALLIANCES_SPEC, wars_differ, make_set_differ ARTIFACTS_SPEC,
      legacies_differ, splendor_differ, make_set_differ EPIDEMICS_SPEC,
      make_set_differ ACTIVITIES_SPEC, make_set_differ INSPIRATIONS_SPEC, contracts_differ,
      make_set_differ COURT_POSITIONS_SPEC, domicile_differ, constructions_differ]"

end
