(* ===== verification/Stream_Facts.thy ===== *)
theory Stream_Facts
  imports Diff_Streams
begin

text \<open>
  The snapshot-level streams keep the contracts of \<^verbatim>\<open>Event_Streams\<close>. For the declarative
  registry this is proved once, for any specification whose builders build events of the given
  character and types (locale \<open>diff_spec\<close>), and each of the six specifications interprets it.
\<close>

section \<open>The declarative registry\<close>

locale diff_spec =
  fixes spec :: set_diff_spec
    and types :: "string list"
  assumes added_ok:
      "sd_on_added spec = Some f \<Longrightarrow> f cid eid prev cur date = Some e \<Longrightarrow> stream_ok cid types [e]"
    and removed_ok:
      "sd_on_removed spec = Some f \<Longrightarrow> f cid eid prev cur date = Some e \<Longrightarrow> stream_ok cid types [e]"
begin

lemma differ_ok: "stream_ok cid types (make_set_differ spec cid c prev cur date)"
  using added_ok removed_ok
  by (auto simp: make_set_differ_def build_events_def Let_def split: option.split)

lemma differ_idle: "make_set_differ spec cid c s s date = []"
  by (simp add: make_set_differ_def)

lemma differ_dead: "cs_is_dead c \<Longrightarrow> make_set_differ spec cid c prev cur date = []"
  by (simp add: make_set_differ_def)

text \<open>The guard for equal sets only saves work: the loops are empty then.\<close>

lemma differ_unguarded:
  assumes "\<not> cs_is_dead c"
  shows "make_set_differ spec cid c prev cur date =
    (let P = dict_get_default (sd_index spec prev) cid {||};
         C = dict_get_default (sd_index spec cur) cid {||}
     in build_events (sd_on_added spec) cid (py_sorted (C |-| P)) prev cur date
        @ build_events (sd_on_removed spec) cid (py_sorted (P |-| C)) prev cur date)"
  using assms by (auto simp: make_set_differ_def build_events_def Let_def split: option.split)

end

sublocale diff_spec \<subseteq> stream: living_stream
  "\<lambda>prev cur. make_set_differ spec cid c prev cur date" "\<lambda>_. cid" types "\<lambda>_. cs_is_dead c"
  for cid c date
  by unfold_locales (simp_all add: differ_ok differ_idle differ_dead)

lemmas builder_defs = alliance_added_def alliance_removed_def artifact_added_def
  artifact_removed_def epidemic_added_def activity_removed_def inspiration_added_def
  court_position_added_def court_position_removed_def

lemmas spec_defs = ALLIANCES_SPEC_def ARTIFACTS_SPEC_def EPIDEMICS_SPEC_def ACTIVITIES_SPEC_def
  INSPIRATIONS_SPEC_def COURT_POSITIONS_SPEC_def

interpretation alliances: diff_spec ALLIANCES_SPEC "[''alliance_formed'', ''alliance_broken'']"
  by unfold_locales (auto simp: spec_defs builder_defs)

interpretation artifacts: diff_spec ARTIFACTS_SPEC "[''artifact_acquired'', ''artifact_lost'']"
  by unfold_locales (auto simp: spec_defs builder_defs split: option.splits)

interpretation epidemics: diff_spec EPIDEMICS_SPEC "[''epidemic_outbreak'']"
  by unfold_locales (auto simp: spec_defs builder_defs split: option.splits)

interpretation activities: diff_spec ACTIVITIES_SPEC "[''activity_completed'']"
  by unfold_locales (auto simp: spec_defs builder_defs Let_def split: option.splits)

interpretation inspirations: diff_spec INSPIRATIONS_SPEC "[''inspiration_sponsored'']"
  by unfold_locales (auto simp: spec_defs builder_defs split: option.splits)

interpretation positions: diff_spec COURT_POSITIONS_SPEC
  "[''camp_companion_joined'', ''camp_companion_left'']"
  by unfold_locales (auto simp: spec_defs builder_defs split: option.splits)

section \<open>The bespoke streams\<close>

definition war_types :: "string list" where
  "war_types = [''war_declared'', ''war_joined'', ''war_concluded'', ''war_left'']"

lemma wsp_side_cases:
  "wsp_side (war_side_payload_of war side) = Some y \<Longrightarrow> y = ''attacker'' \<or> y = ''defender''"
  by (auto simp: war_side_payload_of_def split: if_splits)

lemma valid_war_side: "valid_payload (WarSidePayload (war_side_payload_of war side))"
  by (auto dest: wsp_side_cases)

lemma war_entered_ok: "war_entered cid pw cw date w = Some e \<Longrightarrow> stream_ok cid war_types [e]"
  using valid_war_side
  by (auto simp: war_entered_def war_types_def Let_def simp del: valid_payload.simps
      split: option.splits if_splits)

lemma war_exited_ok: "war_exited cid pw cw date w = Some e \<Longrightarrow> stream_ok cid war_types [e]"
  using valid_war_side
  by (auto simp: war_exited_def war_types_def Let_def simp del: valid_payload.simps
      split: option.splits if_splits)

interpretation wars: living_stream
  "\<lambda>prev cur. wars_differ cid c prev cur date" "\<lambda>_. cid" war_types "\<lambda>_. cs_is_dead c" for cid c date
proof unfold_locales
  show "stream_ok cid war_types (wars_differ cid c prev cur date)" for prev cur
    by (simp add: wars_differ_def diff_wars_def Let_def war_entered_ok war_exited_ok
        del: stream_ok_Cons)
qed (simp_all add: wars_differ_def diff_wars_def)

interpretation legacies: living_stream
  "\<lambda>prev cur. legacies_differ cid c prev cur date" "\<lambda>_. cid" "[''dynasty_legacy_unlocked'']"
  "\<lambda>_. cs_is_dead c" for cid c date
  by unfold_locales
    (auto simp: legacies_differ_def diff_dynasty_legacies_def split: option.split)

interpretation splendor: living_stream
  "\<lambda>prev cur. splendor_differ cid c prev cur date" "\<lambda>_. cid" "[''splendor_increased'']"
  "\<lambda>_. cs_is_dead c" for cid c date
  by unfold_locales
    (auto simp: splendor_differ_def diff_dynasty_splendor_def Let_def split: option.split)

lemma contract_event_ok:
  "contract_event cid pc cc date k = Some e \<Longrightarrow> stream_ok cid [''contract_completed''] [e]"
  by (auto simp: contract_event_def CONTRACT_TERMINAL_STATUSES_def split: option.splits if_splits)

lemma contract_event_idle: "contract_event cid pc pc date k = None"
  by (auto simp: contract_event_def split: option.split)

interpretation contracts: living_stream
  "\<lambda>prev cur. contracts_differ cid c prev cur date" "\<lambda>_. cid" "[''contract_completed'']"
  "\<lambda>_. cs_is_dead c" for cid c date
  by unfold_locales
    (simp_all add: contracts_differ_def diff_contracts_def contract_event_idle contract_event_ok
      map_filter_eq_Nil del: stream_ok_Cons)

interpretation domicile: living_stream
  "\<lambda>prev cur. domicile_differ cid c prev cur date" "\<lambda>_. cid" "[''domicile_moved'']"
  "\<lambda>_. cs_is_dead c" for cid c date
  by unfold_locales
    (auto simp: domicile_differ_def diff_domicile_def split: option.split)

interpretation constructions: living_stream
  "\<lambda>prev cur. constructions_differ cid c prev cur date" "\<lambda>_. cid" "[''building_completed'']"
  "\<lambda>_. cs_is_dead c" for cid c date
  by unfold_locales
    (auto simp: constructions_differ_def diff_constructions_def construction_event_def
      split: option.splits if_splits)

section \<open>The whole registry\<close>

definition stream_types :: "string list" where
  "stream_types = [''alliance_formed'', ''alliance_broken'', ''war_declared'', ''war_joined'',
     ''war_concluded'', ''war_left'', ''artifact_acquired'', ''artifact_lost'',
     ''dynasty_legacy_unlocked'', ''splendor_increased'', ''epidemic_outbreak'',
     ''activity_completed'', ''inspiration_sponsored'', ''contract_completed'',
     ''camp_companion_joined'', ''camp_companion_left'', ''domicile_moved'',
     ''building_completed'']"

lemmas stream_oks = alliances.differ_ok wars.emit_ok artifacts.differ_ok legacies.emit_ok
  splendor.emit_ok epidemics.differ_ok activities.differ_ok inspirations.differ_ok
  contracts.emit_ok positions.differ_ok domicile.emit_ok constructions.emit_ok

lemma STREAM_DIFFERS_ok:
  assumes "differ \<in> set STREAM_DIFFERS"
  shows "stream_ok cid stream_types (differ cid c prev cur date)"
  using assms unfolding STREAM_DIFFERS_def
  by (auto intro!: stream_oks [THEN stream_ok_mono] simp: stream_types_def war_types_def)

lemma STREAM_DIFFERS_idle:
  assumes "differ \<in> set STREAM_DIFFERS"
  shows "differ cid c s s date = []"
  using assms unfolding STREAM_DIFFERS_def
  by (auto simp: alliances.differ_idle wars.emit_idle artifacts.differ_idle legacies.emit_idle
      splendor.emit_idle epidemics.differ_idle activities.differ_idle inspirations.differ_idle
      contracts.emit_idle positions.differ_idle domicile.emit_idle constructions.emit_idle)

lemma STREAM_DIFFERS_dead:
  assumes "differ \<in> set STREAM_DIFFERS" and "cs_is_dead c"
  shows "differ cid c prev cur date = []"
  using assms unfolding STREAM_DIFFERS_def
  by (auto simp: alliances.differ_dead wars.emit_dead artifacts.differ_dead legacies.emit_dead
      splendor.emit_dead epidemics.differ_dead activities.differ_dead inspirations.differ_dead
      contracts.emit_dead positions.differ_dead domicile.emit_dead constructions.emit_dead)

end
