(* ===== verification/Diff_Titles.thy ===== *)
theory Diff_Titles
  imports Titles Stream_Facts
begin

text \<open>
  The title stream \<open>_diff_titles\<close> of \<open>save/diff.py\<close>. It reads the holder index when a snapshot
  has one and scans its title table otherwise; a title that the index names and the table lacks
  makes the subscript raise, so the stream returns a result. For snapshots whose index agrees
  with the table it never does, and the stream is then a replayable log of the holdings.
\<close>

section \<open>The stream\<close>

definition held_of :: "save_snapshot \<Rightarrow> int \<Rightarrow> int fset" where
  "held_of s character_id =
     (if sn_title_holders s \<noteq> [] then dict_get_default (sn_title_holders s) character_id {||}
      else fset_of_list (map fst
             (filter (\<lambda>(tid, t). tit_holder_id t = Some character_id) (sn_titles s))))"

text \<open>The body of the loop over the titles that are new in the current holdings.\<close>

definition title_gained ::
  "int \<Rightarrow> (int, title_snapshot) dict \<Rightarrow> (int, title_snapshot) dict \<Rightarrow> string \<Rightarrow> int
   \<Rightarrow> diff_event list result" where
  "title_gained character_id prev_titles cur_titles date tid =
     bindr (dict_item cur_titles tid) (\<lambda>title.
       case dict_get prev_titles tid of
         None \<Rightarrow> Inr [DiffEvent (TitleCreatedEvent date character_id
           \<lparr>tcp_title_id = tid, tcp_title_key = tit_key title, tcp_title_name = tit_name title,
            tcp_tier = Some (tit_tier title)\<rparr>) []]
       | Some prev_title \<Rightarrow> Inr [DiffEvent (TitleAcquiredEvent date character_id
           \<lparr>tap_title_id = tid, tap_title_key = tit_key title, tap_title_name = tit_name title,
            tap_tier = Some (tit_tier title), tap_from_holder_id = tit_holder_id prev_title\<rparr>)
           (opt_role ''former_holder'' (tit_holder_id prev_title))])"

text \<open>The body of the loop over the titles that left the holdings.\<close>

definition title_lost ::
  "int \<Rightarrow> (int, title_snapshot) dict \<Rightarrow> (int, title_snapshot) dict \<Rightarrow> string \<Rightarrow> int
   \<Rightarrow> diff_event list result" where
  "title_lost character_id prev_titles cur_titles date tid =
     bindr (dict_item prev_titles tid) (\<lambda>prev_title.
       let new_holder = Option.bind (dict_get cur_titles tid) tit_holder_id in
       Inr [DiffEvent (TitleRelinquishedEvent date character_id
         \<lparr>trelp_title_id = tid, trelp_title_key = tit_key prev_title,
          trelp_title_name = tit_name prev_title, trelp_tier = Some (tit_tier prev_title),
          trelp_to_holder_id = new_holder\<rparr>)
         (opt_role ''new_holder'' new_holder)])"

definition diff_titles ::
  "int \<Rightarrow> save_snapshot \<Rightarrow> save_snapshot \<Rightarrow> string \<Rightarrow> diff_event list result" where
  "diff_titles character_id prev cur date =
     (if sn_titles prev = [] then Inr []
      else
        let prev_held = held_of prev character_id;
            cur_held = held_of cur character_id
        in bindr (concat_mapr (title_gained character_id (sn_titles prev) (sn_titles cur) date)
                    (py_sorted (cur_held |-| prev_held))) (\<lambda>gained.
           bindr (concat_mapr (title_lost character_id (sn_titles prev) (sn_titles cur) date)
                    (py_sorted (prev_held |-| cur_held))) (\<lambda>lost.
           Inr (gained @ lost))))"

section \<open>What the holdings are\<close>

lemma held_of_mem:
  assumes "wf_snapshot s"
  shows "tid |\<in>| held_of s cid \<longleftrightarrow>
    (\<exists>t. dict_get (sn_titles s) tid = Some t \<and> tit_holder_id t = Some cid)"
proof (cases "sn_title_holders s = []")
  case True
  have "dict_ok (sn_titles s)"
    using wf_snapshotD(2) [OF assms] by (simp add: wf_titles_def)
  then show ?thesis
    using True by (force simp: held_of_def fset_of_list_elem dict_get_mem)
next
  case False
  then show ?thesis
    using holders_agreeD [OF wf_snapshotD(3) [OF assms]] by (simp add: held_of_def)
qed

text \<open>Index or scan: the holdings are those of \<open>save/titles.py\<close>.\<close>

lemma held_of_holds:
  assumes "wf_snapshot s"
  shows "tid |\<in>| held_of s cid \<longleftrightarrow> (\<exists>t. holds s cid t \<and> tit_title_id t = tid)"
  using titles_lookup [OF wf_snapshotD(2) [OF assms]] wf_titlesD [OF wf_snapshotD(2) [OF assms]]
  unfolding held_of_mem [OF assms] holds_def by metis

section \<open>The events, and when they can be built\<close>

text \<open>The events as total functions of the title identifier, for titles that are there.\<close>

definition gained_event :: "int \<Rightarrow> save_snapshot \<Rightarrow> save_snapshot \<Rightarrow> string \<Rightarrow> int \<Rightarrow> diff_event" where
  "gained_event cid prev cur date tid = hd (projr (title_gained cid (sn_titles prev) (sn_titles cur) date tid))"

definition lost_event :: "int \<Rightarrow> save_snapshot \<Rightarrow> save_snapshot \<Rightarrow> string \<Rightarrow> int \<Rightarrow> diff_event" where
  "lost_event cid prev cur date tid = hd (projr (title_lost cid (sn_titles prev) (sn_titles cur) date tid))"

lemma title_gained_Inr:
  "dict_get (sn_titles cur) tid = Some t \<Longrightarrow>
     title_gained cid (sn_titles prev) (sn_titles cur) date tid = Inr [gained_event cid prev cur date tid]"
  by (simp add: gained_event_def title_gained_def dict_item_def split: option.split)

lemma title_lost_Inr:
  "dict_get (sn_titles prev) tid = Some t \<Longrightarrow>
     title_lost cid (sn_titles prev) (sn_titles cur) date tid = Inr [lost_event cid prev cur date tid]"
  by (simp add: lost_event_def title_lost_def dict_item_def Let_def)

definition titles_total :: "int \<Rightarrow> save_snapshot \<Rightarrow> save_snapshot \<Rightarrow> string \<Rightarrow> diff_event list" where
  "titles_total cid prev cur date =
     (if sn_titles prev = [] then []
      else map (gained_event cid prev cur date) (py_sorted (held_of cur cid |-| held_of prev cid))
           @ map (lost_event cid prev cur date) (py_sorted (held_of prev cid |-| held_of cur cid)))"

lemma diff_titles_total:
  assumes "wf_snapshot prev" and "wf_snapshot cur"
  shows "diff_titles cid prev cur date = Inr (titles_total cid prev cur date)"
proof -
  have gained: "concat_mapr (title_gained cid (sn_titles prev) (sn_titles cur) date)
      (py_sorted (held_of cur cid |-| held_of prev cid)) =
    Inr (concat (map (\<lambda>tid. [gained_event cid prev cur date tid])
      (py_sorted (held_of cur cid |-| held_of prev cid))))"
    by (rule concat_mapr_Inr) (auto simp: held_of_mem [OF assms(2)] intro: title_gained_Inr)
  have lost: "concat_mapr (title_lost cid (sn_titles prev) (sn_titles cur) date)
      (py_sorted (held_of prev cid |-| held_of cur cid)) =
    Inr (concat (map (\<lambda>tid. [lost_event cid prev cur date tid])
      (py_sorted (held_of prev cid |-| held_of cur cid))))"
    by (rule concat_mapr_Inr) (auto simp: held_of_mem [OF assms(1)] intro: title_lost_Inr)
  show ?thesis
    by (simp add: diff_titles_def Let_def gained lost titles_total_def)
qed

text \<open>The branches of the two events, written out.\<close>

lemma gained_event_simps:
  assumes "dict_get (sn_titles cur) tid = Some t"
  shows "dict_get (sn_titles prev) tid = None \<Longrightarrow>
      gained_event cid prev cur date tid = DiffEvent (TitleCreatedEvent date cid
        \<lparr>tcp_title_id = tid, tcp_title_key = tit_key t, tcp_title_name = tit_name t,
         tcp_tier = Some (tit_tier t)\<rparr>) []"
    and "dict_get (sn_titles prev) tid = Some u \<Longrightarrow>
      gained_event cid prev cur date tid = DiffEvent (TitleAcquiredEvent date cid
        \<lparr>tap_title_id = tid, tap_title_key = tit_key t, tap_title_name = tit_name t,
         tap_tier = Some (tit_tier t), tap_from_holder_id = tit_holder_id u\<rparr>)
        (opt_role ''former_holder'' (tit_holder_id u))"
  using assms by (simp_all add: gained_event_def title_gained_def dict_item_def)

lemma lost_event_simps:
  assumes "dict_get (sn_titles prev) tid = Some u"
  shows "lost_event cid prev cur date tid = DiffEvent (TitleRelinquishedEvent date cid
      \<lparr>trelp_title_id = tid, trelp_title_key = tit_key u, trelp_title_name = tit_name u,
       trelp_tier = Some (tit_tier u),
       trelp_to_holder_id = Option.bind (dict_get (sn_titles cur) tid) tit_holder_id\<rparr>)
      (opt_role ''new_holder'' (Option.bind (dict_get (sn_titles cur) tid) tit_holder_id))"
  using assms by (simp add: lost_event_def title_lost_def dict_item_def Let_def)

section \<open>The contracts\<close>

definition title_types :: "string list" where
  "title_types = [''title_acquired'', ''title_created'', ''title_relinquished'']"

lemma title_gained_ok:
  "title_gained cid pt ct date tid = Inr es \<Longrightarrow> stream_ok cid title_types es"
  by (auto simp: title_gained_def dict_item_def title_types_def split: option.splits)

lemma title_lost_ok:
  "title_lost cid pt ct date tid = Inr es \<Longrightarrow> stream_ok cid title_types es"
  by (auto simp: title_lost_def dict_item_def title_types_def Let_def split: option.splits)

lemma concat_mapr_ok:
  assumes "concat_mapr f xs = Inr es" and "\<And>x zs. f x = Inr zs \<Longrightarrow> stream_ok cid ts zs"
  shows "stream_ok cid ts es"
proof -
  have "es = concat (map (\<lambda>x. projr (f x)) xs) \<and> (\<forall>x\<in>set xs. \<exists>zs. f x = Inr zs)"
    using assms(1) by (rule concat_mapr_eq_InrD)
  then show ?thesis using assms(2) by (auto simp: stream_ok_concat)
qed

lemma diff_titles_ok:
  "diff_titles cid prev cur date = Inr es \<Longrightarrow> stream_ok cid title_types es"
  by (auto simp: diff_titles_def Let_def bindr_eq_Inr
      intro: concat_mapr_ok [OF _ title_gained_ok] concat_mapr_ok [OF _ title_lost_ok]
      split: if_splits)

lemma diff_titles_idle: "diff_titles cid s s date = Inr []"
  by (simp add: diff_titles_def)

text \<open>The holdings are read back from the events.\<close>

definition title_change :: "diff_event \<Rightarrow> (bool \<times> int) option" where
  "title_change e =
     (case ev_p (de_event e) of
        TitleCreatedPayload p \<Rightarrow> Some (True, tcp_title_id p)
      | TitleAcquiredPayload p \<Rightarrow> Some (True, tap_title_id p)
      | TitleRelinquishedPayload p \<Rightarrow> Some (False, trelp_title_id p)
      | _ \<Rightarrow> None)"

lemma title_change_gained:
  assumes "dict_get (sn_titles cur) tid = Some t"
  shows "title_change (gained_event cid prev cur date tid) = Some (True, tid)"
  by (cases "dict_get (sn_titles prev) tid")
    (simp_all add: gained_event_simps [OF assms] title_change_def)

lemma title_change_lost:
  "dict_get (sn_titles prev) tid = Some u \<Longrightarrow>
     title_change (lost_event cid prev cur date tid) = Some (False, tid)"
  by (simp add: lost_event_simps title_change_def)

interpretation holdings: set_stream
  "\<lambda>prev cur. titles_total cid prev cur date" "\<lambda>s. held_of s cid" title_change
  "\<lambda>prev cur. wf_snapshot prev \<and> wf_snapshot cur \<and> sn_titles prev \<noteq> []" for cid date
proof unfold_locales
  fix prev cur
  assume live: "wf_snapshot prev \<and> wf_snapshot cur \<and> sn_titles prev \<noteq> []"
  have "title_change (gained_event cid prev cur date tid) = Some (True, tid)"
    if "tid \<in> set (py_sorted (held_of cur cid |-| held_of prev cid))" for tid
    using that live by (auto simp: held_of_mem intro: title_change_gained)
  moreover have "title_change (lost_event cid prev cur date tid) = Some (False, tid)"
    if "tid \<in> set (py_sorted (held_of prev cid |-| held_of cur cid))" for tid
    using that live by (auto simp: held_of_mem intro: title_change_lost)
  ultimately show "List.map_filter title_change (titles_total cid prev cur date) =
      map (Pair True) (py_sorted (held_of cur cid |-| held_of prev cid))
      @ map (Pair False) (py_sorted (held_of prev cid |-| held_of cur cid))"
    using live by (simp add: titles_total_def map_filter_map_cong del: map_filter_map py_sorted_set)
qed

end
