(* ===== verification/Diff.thy ===== *)
theory Diff
  imports Diff_Titles
begin

text \<open>
  \<open>diff_snapshots\<close> of \<open>save/diff.py\<close>: the loop over the characters, the streams it runs for
  each, and the final sort. The two loops over unsorted Python sets (the character identifiers
  here, the new perks of the lifestyle stream) take their iteration order as an argument; the
  logging calls are not modelled.
\<close>

section \<open>The loop body\<close>

text \<open>
  Everything emitted for a character that both snapshots have, in the order of the
  \<open>out.extend\<close> calls. Only the title stream can raise.
\<close>

definition pair_events ::
  "(string fset \<Rightarrow> string list) \<Rightarrow> save_snapshot \<Rightarrow> save_snapshot \<Rightarrow> int option \<Rightarrow> int
   \<Rightarrow> character_snapshot \<Rightarrow> character_snapshot \<Rightarrow> diff_event list result" where
  "pair_events key_order prev cur pregnant_trait_id cid p c =
     (let date = sn_current_date cur;
          mems = new_memories p c
      in bindr (diff_titles cid prev cur date) (\<lambda>title_events. Inr (
           diff_one_character p c date (sn_characters cur) mems
           @ title_events
           @ concat (map (\<lambda>differ. differ cid c prev cur date) STREAM_DIFFERS)
           @ diff_traits p c (sn_traits_lookup cur) date
           @ diff_concubines p c (sn_characters cur) date
           @ diff_modifiers p c date
           @ diff_perks p c date
           @ diff_lifestyle_commits key_order p c date
           @ diff_miscarriage p c pregnant_trait_id date mems
           @ diff_state_changes p c (sn_houses_lookup cur) (sn_cultures_lookup cur)
               (sn_faiths_lookup cur) date)))"

text \<open>
  One turn of the loop: a character gone from the current save is skipped; one that appears is
  skipped too, unless a tracked filter is given and the character is first seen dead.
\<close>

definition character_events ::
  "(string fset \<Rightarrow> string list) \<Rightarrow> save_snapshot \<Rightarrow> save_snapshot \<Rightarrow> bool \<Rightarrow> int option \<Rightarrow> int
   \<Rightarrow> diff_event list result" where
  "character_events key_order prev cur filtered pregnant_trait_id cid =
     (case dict_get (sn_characters cur) cid of
        None \<Rightarrow> Inr []
      | Some c \<Rightarrow>
          (case dict_get (sn_characters prev) cid of
             None \<Rightarrow>
               if filtered \<and> (cs_is_dead c \<or> cs_death_date c \<noteq> None)
               then Inr [make_death c (sn_current_date cur)] else Inr []
           | Some p \<Rightarrow> pair_events key_order prev cur pregnant_trait_id cid p c))"

text \<open>The key of the final sort, \<open>(d.event.c, d.event.t)\<close>.\<close>

definition event_key :: "diff_event \<Rightarrow> int \<times> string" where
  "event_key e = (de_c e, de_t e)"

definition diff_ids :: "save_snapshot \<Rightarrow> save_snapshot \<Rightarrow> int fset option \<Rightarrow> int fset" where
  "diff_ids prev cur tracked_filter =
     (case tracked_filter of
        None \<Rightarrow> dict_keys (sn_characters prev) |\<union>| dict_keys (sn_characters cur)
      | Some ids \<Rightarrow> ids)"

definition diff_snapshots ::
  "(int fset \<Rightarrow> int list) \<Rightarrow> (string fset \<Rightarrow> string list) \<Rightarrow> save_snapshot \<Rightarrow> save_snapshot
   \<Rightarrow> int fset option \<Rightarrow> diff_event list result" where
  "diff_snapshots id_order key_order prev cur tracked_filter =
     (if sn_playthrough_id prev \<noteq> [] \<and> sn_playthrough_id cur \<noteq> []
         \<and> sn_playthrough_id prev \<noteq> sn_playthrough_id cur
      then Inl ValueError
      else
        let pregnant_trait_id = trait_id_by_name PREGNANT_TRAIT_NAME (sn_traits_lookup cur) in
        bindr (concat_mapr
                 (character_events key_order prev cur (tracked_filter \<noteq> None) pregnant_trait_id)
                 (id_order (diff_ids prev cur tracked_filter)))
          (\<lambda>out. Inr (sort_key event_key out)))"

section \<open>The loop body for well-formed snapshots\<close>

definition pair_total ::
  "(string fset \<Rightarrow> string list) \<Rightarrow> save_snapshot \<Rightarrow> save_snapshot \<Rightarrow> int \<Rightarrow> character_snapshot
   \<Rightarrow> character_snapshot \<Rightarrow> diff_event list" where
  "pair_total key_order prev cur cid p c =
     projr (pair_events key_order prev cur
              (trait_id_by_name PREGNANT_TRAIT_NAME (sn_traits_lookup cur)) cid p c)"

definition character_total ::
  "(string fset \<Rightarrow> string list) \<Rightarrow> save_snapshot \<Rightarrow> save_snapshot \<Rightarrow> bool \<Rightarrow> int
   \<Rightarrow> diff_event list" where
  "character_total key_order prev cur filtered cid =
     projr (character_events key_order prev cur filtered
              (trait_id_by_name PREGNANT_TRAIT_NAME (sn_traits_lookup cur)) cid)"

lemma pair_total_eq:
  assumes "wf_snapshot prev" and "wf_snapshot cur"
  shows "pair_total key_order prev cur cid p c =
    diff_one_character p c (sn_current_date cur) (sn_characters cur) (new_memories p c)
    @ titles_total cid prev cur (sn_current_date cur)
    @ concat (map (\<lambda>differ. differ cid c prev cur (sn_current_date cur)) STREAM_DIFFERS)
    @ diff_traits p c (sn_traits_lookup cur) (sn_current_date cur)
    @ diff_concubines p c (sn_characters cur) (sn_current_date cur)
    @ diff_modifiers p c (sn_current_date cur)
    @ diff_perks p c (sn_current_date cur)
    @ diff_lifestyle_commits key_order p c (sn_current_date cur)
    @ diff_miscarriage p c (trait_id_by_name PREGNANT_TRAIT_NAME (sn_traits_lookup cur))
        (sn_current_date cur) (new_memories p c)
    @ diff_state_changes p c (sn_houses_lookup cur) (sn_cultures_lookup cur)
        (sn_faiths_lookup cur) (sn_current_date cur)"
  by (simp add: pair_total_def pair_events_def Let_def diff_titles_total [OF assms])

lemma character_events_Inr:
  assumes "wf_snapshot prev" and "wf_snapshot cur"
  shows "character_events key_order prev cur filtered
      (trait_id_by_name PREGNANT_TRAIT_NAME (sn_traits_lookup cur)) cid =
    Inr (character_total key_order prev cur filtered cid)"
  by (simp add: character_total_def character_events_def pair_events_def Let_def
      diff_titles_total [OF assms] split: option.split)

lemma character_total_simps:
  "dict_get (sn_characters cur) cid = None \<Longrightarrow>
     character_total key_order prev cur filtered cid = []"
  "dict_get (sn_characters cur) cid = Some c \<Longrightarrow> dict_get (sn_characters prev) cid = None \<Longrightarrow>
     character_total key_order prev cur filtered cid =
       (if filtered \<and> (cs_is_dead c \<or> cs_death_date c \<noteq> None)
        then [make_death c (sn_current_date cur)] else [])"
  "dict_get (sn_characters cur) cid = Some c \<Longrightarrow> dict_get (sn_characters prev) cid = Some p \<Longrightarrow>
     character_total key_order prev cur filtered cid = pair_total key_order prev cur cid p c"
  by (simp_all add: character_total_def character_events_def pair_total_def)

definition same_playthrough :: "save_snapshot \<Rightarrow> save_snapshot \<Rightarrow> bool" where
  "same_playthrough prev cur \<longleftrightarrow>
     sn_playthrough_id prev = [] \<or> sn_playthrough_id cur = []
     \<or> sn_playthrough_id prev = sn_playthrough_id cur"

lemma diff_snapshots_total:
  assumes "wf_snapshot prev" and "wf_snapshot cur" and "same_playthrough prev cur"
  shows "diff_snapshots id_order key_order prev cur tf =
    Inr (sort_key event_key (concat (map (character_total key_order prev cur (tf \<noteq> None))
      (id_order (diff_ids prev cur tf)))))"
proof -
  have "concat_mapr (character_events key_order prev cur (tf \<noteq> None)
      (trait_id_by_name PREGNANT_TRAIT_NAME (sn_traits_lookup cur)))
      (id_order (diff_ids prev cur tf)) =
    Inr (concat (map (character_total key_order prev cur (tf \<noteq> None))
      (id_order (diff_ids prev cur tf))))"
    by (rule concat_mapr_Inr) (rule character_events_Inr [OF assms(1,2)])
  then show ?thesis
    using assms(3) by (auto simp: diff_snapshots_def same_playthrough_def Let_def)
qed

section \<open>Whose events they are, and of which types\<close>

definition diff_types :: "string list" where
  "diff_types = one_character_types @ title_types @ stream_types
     @ [''trait_gained'', ''trait_lost'', ''concubine_taken'', ''modifier_acquired'',
        ''perk_acquired'', ''lifestyle_committed'', ''miscarriage'', ''house_change'',
        ''culture_change'', ''faith_change'']"

lemmas character_stream_oks = one_char.emit_ok trts.emit_ok concs.emit_ok mods.emit_ok
  perks.emit_ok commits.emit_ok misc.emit_ok state.emit_ok

lemma differs_ok:
  "stream_ok cid stream_types (concat (map (\<lambda>differ. differ cid c prev cur date) STREAM_DIFFERS))"
  by (auto simp: stream_ok_concat intro: STREAM_DIFFERS_ok)

lemma pair_events_ok:
  assumes "pair_events key_order prev cur pid cid p c = Inr es" and "cs_ck3_id c = cid"
  shows "stream_ok cid diff_types es"
proof -
  obtain ts where ts: "diff_titles cid prev cur (sn_current_date cur) = Inr ts"
    using assms(1) by (auto simp: pair_events_def Let_def bindr_eq_Inr)
  have own: "stream_ok cid diff_types xs" if "stream_ok cid us xs" "set us \<subseteq> set diff_types" for us xs
    using that by (rule stream_ok_mono)
  have sub: "set one_character_types \<subseteq> set diff_types" "set title_types \<subseteq> set diff_types"
    "set stream_types \<subseteq> set diff_types"
    by (auto simp: diff_types_def)
  have rest: "''trait_gained'' \<in> set diff_types" "''trait_lost'' \<in> set diff_types"
    "''concubine_taken'' \<in> set diff_types" "''modifier_acquired'' \<in> set diff_types"
    "''perk_acquired'' \<in> set diff_types" "''lifestyle_committed'' \<in> set diff_types"
    "''miscarriage'' \<in> set diff_types" "''house_change'' \<in> set diff_types"
    "''culture_change'' \<in> set diff_types" "''faith_change'' \<in> set diff_types"
    by (simp_all add: diff_types_def)
  note oks = own [OF diff_titles_ok [OF ts] sub(2)] own [OF differs_ok sub(3)]
    own [OF one_char.emit_ok [of c, unfolded assms(2)] sub(1)]
    own [OF trts.emit_ok [of c, unfolded assms(2)]] own [OF concs.emit_ok [of c, unfolded assms(2)]]
    own [OF mods.emit_ok [of c, unfolded assms(2)]] own [OF perks.emit_ok [of c, unfolded assms(2)]]
    own [OF commits.emit_ok [of c, unfolded assms(2)]] own [OF misc.emit_ok [of c, unfolded assms(2)]]
    own [OF state.emit_ok [of c, unfolded assms(2)]]
  show ?thesis
    using assms(1) by (auto simp: pair_events_def Let_def ts rest intro!: oks)
qed

lemma make_death_ok: "stream_ok (cs_ck3_id c) [''death''] [make_death c date]"
  by (simp add: make_death_def Let_def)

lemma character_events_ok:
  assumes "wf_characters cur" and es: "character_events key_order prev cur filtered pid cid = Inr es"
  shows "stream_ok cid diff_types es"
proof (cases "dict_get (sn_characters cur) cid")
  case None
  with es show ?thesis by (simp add: character_events_def)
next
  case (Some c)
  note c = wf_charactersD [OF assms(1) Some]
  show ?thesis
  proof (cases "dict_get (sn_characters prev) cid")
    case None
    have "stream_ok cid diff_types [make_death c (sn_current_date cur)]"
      using make_death_ok [of c] unfolding c
      by (rule stream_ok_mono) (simp add: diff_types_def one_character_types_def)
    with es Some None show ?thesis
      by (simp add: character_events_def del: stream_ok_Cons split: if_splits)
  next
    case (Some p)
    with es \<open>dict_get (sn_characters cur) cid = Some c\<close>
    have "pair_events key_order prev cur pid cid p c = Inr es" by (simp add: character_events_def)
    then show ?thesis using c by (rule pair_events_ok)
  qed
qed

lemma character_total_ok:
  assumes "wf_snapshot prev" and "wf_snapshot cur"
  shows "stream_ok cid diff_types (character_total key_order prev cur filtered cid)"
  using wf_snapshotD(1) [OF assms(2)] character_events_Inr [OF assms] by (rule character_events_ok)

section \<open>What the result of a diff consists of\<close>

text \<open>
  Membership: an event of the result is an event of the loop body of its own character.
\<close>

lemma diff_snapshots_elem:
  assumes "diff_snapshots id_order key_order prev cur tf = Inr out"
  obtains es where "out = sort_key event_key es"
    and "concat_mapr (character_events key_order prev cur (tf \<noteq> None)
      (trait_id_by_name PREGNANT_TRAIT_NAME (sn_traits_lookup cur)))
      (id_order (diff_ids prev cur tf)) = Inr es"
  using assms by (auto simp: diff_snapshots_def Let_def bindr_eq_Inr split: if_splits)

lemma diff_snapshots_ok:
  assumes "set_order id_order" and "wf_characters cur"
    and "diff_snapshots id_order key_order prev cur tf = Inr out" and "e \<in> set out"
  shows "de_c e |\<in>| diff_ids prev cur tf" and "de_t e \<in> set diff_types"
    and "valid_event (de_event e)"
proof -
  from diff_snapshots_elem [OF assms(3)] obtain es where es: "out = sort_key event_key es"
    and body: "concat_mapr (character_events key_order prev cur (tf \<noteq> None)
      (trait_id_by_name PREGNANT_TRAIT_NAME (sn_traits_lookup cur)))
      (id_order (diff_ids prev cur tf)) = Inr es" by blast
  have "e \<in> set es" using assms(4) es by simp
  with body obtain cid zs where cid: "cid \<in> set (id_order (diff_ids prev cur tf))"
    and zs: "character_events key_order prev cur (tf \<noteq> None)
      (trait_id_by_name PREGNANT_TRAIT_NAME (sn_traits_lookup cur)) cid = Inr zs" "e \<in> set zs"
    by (rule concat_mapr_elem)
  note ok = stream_okD [OF character_events_ok [OF assms(2) zs(1)] zs(2)]
  from cid have "cid |\<in>| diff_ids prev cur tf"
    by (simp add: set_order.iter_set [OF assms(1)])
  with ok show "de_c e |\<in>| diff_ids prev cur tf" and "de_t e \<in> set diff_types"
    and "valid_event (de_event e)" by simp_all
qed

text \<open>
  Order: the events of one character and one type stand in the result as the loop body emits
  them, whatever the order of the loop.
\<close>

definition events_of :: "diff_event list \<Rightarrow> int \<Rightarrow> string \<Rightarrow> diff_event list" where
  "events_of out cid t = filter (\<lambda>e. event_key e = (cid, t)) out"

lemma filter_sort_key: "filter (\<lambda>x. f x = k) (sort_key f xs) = filter (\<lambda>x. f x = k) xs"
  using sort_key_stable [of f k xs] by (simp add: eq_commute)

lemma events_of_diff:
  assumes "set_order id_order" and "wf_snapshot prev" and "wf_snapshot cur"
    and "diff_snapshots id_order key_order prev cur tf = Inr out"
    and "cid |\<in>| diff_ids prev cur tf"
  shows "events_of out cid t =
    filter (\<lambda>e. de_t e = t) (character_total key_order prev cur (tf \<noteq> None) cid)"
proof -
  let ?g = "character_total key_order prev cur (tf \<noteq> None)"
  let ?ids = "id_order (diff_ids prev cur tf)"
  have own: "de_c e = i" if "e \<in> set (?g i)" for e i
    using stream_okD(1) [OF character_total_ok [OF assms(2,3)] that] .
  have "same_playthrough prev cur"
    using assms(4) by (auto simp: diff_snapshots_def same_playthrough_def split: if_splits)
  then have "out = sort_key event_key (concat (map ?g ?ids))"
    using diff_snapshots_total [OF assms(2,3)] assms(4) by auto
  then have "events_of out cid t = filter (\<lambda>e. event_key e = (cid, t)) (concat (map ?g ?ids))"
    by (simp add: events_of_def filter_sort_key)
  also have "\<dots> = (if cid \<in> set ?ids then filter (\<lambda>e. event_key e = (cid, t)) (?g cid) else [])"
    using own set_order.iter_distinct [OF assms(1)]
    by (intro filter_concat_group [where grp = de_c]) (auto simp: event_key_def)
  also have "\<dots> = filter (\<lambda>e. event_key e = (cid, t)) (?g cid)"
    using assms(5) by (simp add: set_order.iter_set [OF assms(1)])
  also have "\<dots> = filter (\<lambda>e. de_t e = t) (?g cid)"
    using own by (intro filter_cong) (auto simp: event_key_def)
  finally show ?thesis .
qed

text \<open>A stream contributes nothing to a type it does not declare, and all of itself to its only type.\<close>

lemma filter_other_types:
  "stream_ok c ts es \<Longrightarrow> t \<notin> set ts \<Longrightarrow> filter (\<lambda>e. de_t e = t) es = []"
  by (auto simp: filter_empty_conv dest: stream_okD(2))

lemma filter_only_type: "stream_ok c [t] es \<Longrightarrow> filter (\<lambda>e. de_t e = t) es = es"
  by (auto intro!: filter_True dest: stream_okD(2))

end
