(* ===== verification/Character_Facts.thy ===== *)
theory Character_Facts
  imports Diff_Character
begin

text \<open>
  What the per-character streams do, beyond their contracts: the lifestyle commitments do not
  depend on the order in which the interpreter walks the set of new perks, traits replay, a
  death is one edge of the record, a miscarriage is a pregnancy that ended without a birth, a
  change of government gives at most one beat.
\<close>

section \<open>Lifestyle commitments\<close>

lemma add_new_perk_get:
  "dict_get_default (add_new_perk P d perk) ls [] =
     dict_get_default d ls [] @ (if ls \<notin> set P \<and> lifestyle_of_perk perk = Some ls then [perk] else [])"
  by (auto simp: add_new_perk_def dict_get_default_def split: option.split)

lemma group_get:
  "dict_get_default (foldl (add_new_perk P) d xs) ls [] =
     dict_get_default d ls []
     @ (if ls \<in> set P then [] else filter (\<lambda>perk. lifestyle_of_perk perk = Some ls) xs)"
  by (induction xs arbitrary: d) (auto simp: add_new_perk_get)

lemma dict_keys_Nil: "dict_keys [] = {||}"
  by (simp add: dict_keys_def)

lemma add_new_perk_keys:
  "ls |\<in>| dict_keys (add_new_perk P d perk) \<longleftrightarrow>
     ls |\<in>| dict_keys d \<or> ls \<notin> set P \<and> lifestyle_of_perk perk = Some ls"
  by (auto simp: add_new_perk_def fmember_dict_keys split: option.split)

lemma group_keys:
  "ls |\<in>| dict_keys (foldl (add_new_perk P) d xs) \<longleftrightarrow>
     ls |\<in>| dict_keys d \<or> ls \<notin> set P \<and> (\<exists>perk\<in>set xs. lifestyle_of_perk perk = Some ls)"
  by (induction xs arbitrary: d) (auto simp: add_new_perk_keys)

lemma hd_sort_Min: "xs \<noteq> [] \<Longrightarrow> hd (sort xs) = Min (set (xs :: 'a::linorder list))"
proof -
  assume "xs \<noteq> []"
  then obtain y ys where s: "sort xs = y # ys" by (metis neq_Nil_conv set_empty set_sort)
  have "sorted (sort xs)" by simp
  then have "Min (set (sort xs)) = y" unfolding s by (auto intro!: Min_eqI)
  then show "hd (sort xs) = Min (set xs)" by (simp only: set_sort) (simp only: s list.sel)
qed

text \<open>The new lifestyles with, for each, its least new perk: no iteration order in sight.\<close>

definition committed :: "character_snapshot \<Rightarrow> character_snapshot \<Rightarrow> string fset" where
  "committed prev cur =
     fset_of_list (filter (\<lambda>ls. Some ls \<notin> lifestyle_of_perk ` set (cs_perks prev))
       (List.map_filter lifestyle_of_perk
         (filter (\<lambda>perk. perk \<notin> set (cs_perks prev)) (cs_perks cur))))"

definition first_perk :: "character_snapshot \<Rightarrow> character_snapshot \<Rightarrow> string \<Rightarrow> string" where
  "first_perk prev cur ls =
     Min {perk \<in> set (cs_perks cur) - set (cs_perks prev). lifestyle_of_perk perk = Some ls}"

lemma committed_mem:
  "ls |\<in>| committed prev cur \<longleftrightarrow>
     (\<exists>perk. perk \<in> set (cs_perks cur) - set (cs_perks prev) \<and> lifestyle_of_perk perk = Some ls)
     \<and> (\<forall>perk\<in>set (cs_perks prev). lifestyle_of_perk perk \<noteq> Some ls)"
  by (force simp: committed_def fset_of_list_elem set_map_filter)

lemma lifestyle_commits_spec:
  assumes "set_order iter"
  shows "diff_lifestyle_commits iter prev cur date =
    (if cs_is_dead cur then []
     else map (\<lambda>ls. DiffEvent (LifestyleCommittedEvent date (cs_ck3_id cur)
              \<lparr>lcp_lifestyle_key = ls, lcp_first_perk_key = first_perk prev cur ls\<rparr>) [])
            (py_sorted (committed prev cur)))"
proof (cases "cs_is_dead cur")
  case True
  then show ?thesis by (simp add: diff_lifestyle_commits_def)
next
  case alive: False
  let ?new = "fset_of_list (cs_perks cur) |-| fset_of_list (cs_perks prev)"
  let ?P = "List.map_filter lifestyle_of_perk (cs_perks prev)"
  let ?d = "group_new_perks iter ?P ?new"
  have new: "fset ?new = set (cs_perks cur) - set (cs_perks prev)"
    by (simp add: fset_of_list.rep_eq minus_fset.rep_eq)
  have iter: "set (iter ?new) = set (cs_perks cur) - set (cs_perks prev)"
    by (simp only: set_order.iter_set [OF assms] new)
  have keys: "dict_keys ?d = committed prev cur"
    by (rule fset_eqI)
      (auto simp: group_new_perks_def group_keys iter committed_mem set_map_filter dict_keys_Nil)
  have first: "hd (sort (dict_get_default ?d ls [])) = first_perk prev cur ls"
    if "ls |\<in>| committed prev cur" for ls
  proof -
    have "dict_get_default ?d ls [] = filter (\<lambda>perk. lifestyle_of_perk perk = Some ls) (iter ?new)"
      using that by (auto simp: group_new_perks_def group_get committed_mem set_map_filter)
    moreover have "\<dots> \<noteq> []"
      using that iter by (auto simp: filter_empty_conv committed_mem)
    ultimately show ?thesis
      by (simp add: hd_sort_Min first_perk_def iter Collect_conj_eq [symmetric] conj_assoc)
  qed
  show ?thesis
  proof (cases "?new = {||}")
    case True
    then have none: "set (cs_perks cur) - set (cs_perks prev) = {}"
      using new [unfolded True] by simp
    have "committed prev cur = {||}"
      by (rule fset_eqI) (use none in \<open>auto simp: committed_mem\<close>)
    with True alive show ?thesis by (simp add: diff_lifestyle_commits_def)
  next
    case False
    with alive keys first show ?thesis by (simp add: diff_lifestyle_commits_def Let_def)
  qed
qed

section \<open>Traits\<close>

lemma index_from_spec:
  "index_from i name ns = (if name \<in> set ns
     then Some (i + int (LEAST k. k < length ns \<and> ns ! k = name)) else None)"
proof (induction ns arbitrary: i)
  case Nil
  then show ?case by simp
next
  case (Cons n ns)
  show ?case
  proof (cases "n = name")
    case True
    then have "(LEAST k. k < length (n # ns) \<and> (n # ns) ! k = name) = 0"
      by (intro Least_equality) auto
    with True show ?thesis by simp
  next
    case False
    have "(LEAST k. k < length (n # ns) \<and> (n # ns) ! k = name) =
        Suc (LEAST k. k < length ns \<and> ns ! k = name)" if "name \<in> set ns"
    proof -
      from that obtain k where "k < length ns \<and> ns ! k = name" by (auto simp: in_set_conv_nth)
      then have "Suc k < length (n # ns) \<and> (n # ns) ! Suc k = name" by simp
      then have "(LEAST k. k < length (n # ns) \<and> (n # ns) ! k = name) =
          Suc (LEAST k. Suc k < length (n # ns) \<and> (n # ns) ! Suc k = name)"
        using False by (intro Least_Suc [of _ "Suc k"]) auto
      then show ?thesis by simp
    qed
    with False show ?thesis by (simp add: Cons.IH)
  qed
qed

text \<open>The identifier found resolves back to the name, and it is the first such.\<close>

lemma trait_id_by_name_Some:
  assumes "trait_id_by_name name ns = Some i"
  shows "lookup_trait_name i ns = Some name" and "0 \<le> j \<Longrightarrow> j < i \<Longrightarrow> lookup_trait_name j ns \<noteq> Some name"
proof -
  let ?P = "\<lambda>k. k < length ns \<and> ns ! k = name"
  from assms have mem: "name \<in> set ns" and i: "i = int (LEAST k. ?P k)"
    by (auto simp: trait_id_by_name_def index_from_spec split: if_splits)
  from mem obtain k where "?P k" by (auto simp: in_set_conv_nth)
  then have "?P (LEAST k. ?P k)" by (rule LeastI)
  then show "lookup_trait_name i ns = Some name" by (simp add: lookup_trait_name_def i)
  show "lookup_trait_name j ns \<noteq> Some name" if "0 \<le> j" "j < i"
  proof -
    from that have "nat j < (LEAST k. ?P k)" using i by simp
    then have "\<not> ?P (nat j)" by (rule not_less_Least)
    with that show ?thesis by (auto simp: lookup_trait_name_def)
  qed
qed

lemma trait_id_by_name_None: "trait_id_by_name name ns = None \<longleftrightarrow> name \<notin> set ns"
  by (simp add: trait_id_by_name_def index_from_spec)

definition trait_change :: "diff_event \<Rightarrow> (bool \<times> int) option" where
  "trait_change e =
     (case ev_p (de_event e) of
        TraitPayload p \<Rightarrow> Some (de_t e = ''trait_gained'', trp_trait_id p)
      | _ \<Rightarrow> None)"

text \<open>The reading of the trait set, and its replay.\<close>

definition trait_set :: "character_snapshot \<Rightarrow> int fset" where
  "trait_set c = fset_of_list (cs_traits c)"

interpretation trait_log: set_stream
  "\<lambda>p c. diff_traits p c traits_lookup date" trait_set trait_change "\<lambda>p c. \<not> cs_is_dead c"
  for traits_lookup date
  by unfold_locales
    (auto simp: diff_traits_def trait_set_def trait_change_def Let_def map_filter_map_cong
      simp del: map_filter_map)

section \<open>Death\<close>

lemma death_beat_iff:
  "death_beat p c date \<noteq> [] \<longleftrightarrow>
     cs_death_date p = None \<and> (cs_death_date c \<noteq> None \<or> \<not> cs_is_dead p \<and> cs_is_dead c)"
  by (auto simp: death_beat_def Let_def)

lemma death_beat_cases: "death_beat p c date = [] \<or> death_beat p c date = [make_death c date]"
  by (simp add: death_beat_def Let_def)

text \<open>A record with its death dated: dead characters carry the date of their death.\<close>

definition dated :: "character_snapshot \<Rightarrow> bool" where
  "dated c \<longleftrightarrow> (cs_is_dead c \<longrightarrow> cs_death_date c \<noteq> None)"

lemma death_beat_dated:
  "dated c \<Longrightarrow> death_beat p c date =
     (if cs_death_date p = None \<and> cs_death_date c \<noteq> None then [make_death c date] else [])"
  by (auto simp: death_beat_def dated_def Let_def)

section \<open>Government\<close>

lemma government_beat_length: "length (government_beat p c date) \<le> 1"
  by (simp add: government_beat_def Let_def split: option.split)

lemma government_beat_adventurer:
  assumes "\<not> cs_is_dead c"
    and "cs_government p \<noteq> Some LANDLESS_ADVENTURER_GOVERNMENT"
    and "cs_government c = Some LANDLESS_ADVENTURER_GOVERNMENT"
  shows "government_beat p c date = [make_adventurer_started c date]"
  using assms by (simp add: government_beat_def Let_def)

section \<open>Marriage\<close>

lemma new_spouses_mem:
  "sp |\<in>| new_spouses p c \<longleftrightarrow>
     sp \<notin> set (fam_spouses (cs_family p))
     \<and> (sp \<in> set (fam_spouses (cs_family c))
        \<or> fam_primary_spouse (cs_family c) = Some sp \<and> sp \<noteq> 0
          \<and> fam_primary_spouse (cs_family p) \<noteq> Some sp)"
  by (auto simp: new_spouses_def fset_of_list_elem Let_def split: option.split)

section \<open>Miscarriage\<close>

lemma miscarriage_iff:
  "diff_miscarriage p c pid date mems \<noteq> [] \<longleftrightarrow>
     \<not> cs_is_dead c
     \<and> (\<exists>i. pid = Some i \<and> i \<in> set (cs_traits p) \<and> i \<notin> set (cs_traits c))
     \<and> (\<forall>m\<in>set mems. mem_memory_type m \<noteq> ''child_born'')"
  by (auto simp: diff_miscarriage_def Let_def list_ex_iff split: option.split)

end
