(* ===== verification/Diff_Facts.thy ===== *)
theory Diff_Facts
  imports Diff Character_Facts
begin

text \<open>
  What a whole diff does. A completed diff in which one character is compared is a \<open>diffed\<close>
  fact; from it the events of each type are those of the one stream that emits the type. The
  order of the loops does not matter, a tracked filter selects, an unchanged snapshot is silent,
  and over a run of the game the events of a set-valued stream rebuild the set.
\<close>

section \<open>The events of one type come from one stream\<close>

definition diffed ::
  "(int fset \<Rightarrow> int list) \<Rightarrow> (string fset \<Rightarrow> string list) \<Rightarrow> int fset option \<Rightarrow> int
   \<Rightarrow> save_snapshot \<Rightarrow> character_snapshot \<Rightarrow> save_snapshot \<Rightarrow> character_snapshot
   \<Rightarrow> diff_event list \<Rightarrow> bool" where
  "diffed id_order key_order tf cid prev p cur c out \<longleftrightarrow>
     set_order id_order \<and> set_order key_order \<and> wf_snapshot prev \<and> wf_snapshot cur
     \<and> diff_snapshots id_order key_order prev cur tf = Inr out
     \<and> cid |\<in>| diff_ids prev cur tf
     \<and> dict_get (sn_characters prev) cid = Some p \<and> dict_get (sn_characters cur) cid = Some c"

lemma diffedD:
  assumes "diffed id_order key_order tf cid prev p cur c out"
  shows "set_order id_order" and "set_order key_order" and "wf_snapshot prev" and "wf_snapshot cur"
    and "diff_snapshots id_order key_order prev cur tf = Inr out"
    and "cid |\<in>| diff_ids prev cur tf"
    and "dict_get (sn_characters prev) cid = Some p" and "dict_get (sn_characters cur) cid = Some c"
    and "cs_ck3_id p = cid" and "cs_ck3_id c = cid"
  using assms wf_charactersD [OF wf_snapshotD(1)] by (auto simp: diffed_def)

lemma titles_total_ok:
  assumes "wf_snapshot prev" and "wf_snapshot cur"
  shows "stream_ok cid title_types (titles_total cid prev cur date)"
  by (rule diff_titles_ok) (rule diff_titles_total [OF assms])

lemmas filter_other = filter_other_types [OF one_char.emit_ok] filter_other_types [OF trts.emit_ok]
  filter_other_types [OF concs.emit_ok] filter_other_types [OF mods.emit_ok]
  filter_other_types [OF perks.emit_ok] filter_other_types [OF commits.emit_ok]
  filter_other_types [OF misc.emit_ok] filter_other_types [OF state.emit_ok]
  filter_other_types [OF alliances.differ_ok] filter_other_types [OF wars.emit_ok]
  filter_other_types [OF artifacts.differ_ok] filter_other_types [OF legacies.emit_ok]
  filter_other_types [OF splendor.emit_ok] filter_other_types [OF epidemics.differ_ok]
  filter_other_types [OF activities.differ_ok] filter_other_types [OF inspirations.differ_ok]
  filter_other_types [OF contracts.emit_ok] filter_other_types [OF positions.differ_ok]
  filter_other_types [OF domicile.emit_ok] filter_other_types [OF constructions.emit_ok]

lemmas filter_single = filter_only_type [OF concs.emit_ok] filter_only_type [OF mods.emit_ok]
  filter_only_type [OF perks.emit_ok] filter_only_type [OF commits.emit_ok]
  filter_only_type [OF misc.emit_ok] filter_only_type [OF legacies.emit_ok]
  filter_only_type [OF splendor.emit_ok] filter_only_type [OF epidemics.differ_ok]
  filter_only_type [OF activities.differ_ok] filter_only_type [OF inspirations.differ_ok]
  filter_only_type [OF contracts.emit_ok] filter_only_type [OF domicile.emit_ok]
  filter_only_type [OF constructions.emit_ok]

text \<open>
  The types that a compared character can produce, split once and for all: for every type the
  events in the result are the ones of that type in the stream that declares it.
\<close>

lemma diffed_events:
  assumes "diffed id_order key_order tf cid prev p cur c out"
  shows "events_of out cid t = filter (\<lambda>e. de_t e = t) (pair_total key_order prev cur cid p c)"
  using events_of_diff [OF diffedD(1,3,4,5,6) [OF assms]] character_total_simps(3)
    diffedD(7,8) [OF assms] by simp

lemma diffed_one_character:
  assumes "diffed io ko tf cid prev p cur c out" and "t \<in> set one_character_types"
  shows "events_of out cid t = filter (\<lambda>e. de_t e = t)
    (diff_one_character p c (sn_current_date cur) (sn_characters cur) (new_memories p c))"
  using assms(2) filter_other_types [OF titles_total_ok [OF diffedD(3,4) [OF assms(1)]]]
  by (auto simp: diffed_events [OF assms(1)] pair_total_eq [OF diffedD(3,4) [OF assms(1)]]
      STREAM_DIFFERS_def one_character_types_def title_types_def war_types_def filter_other)

lemma diffed_titles:
  assumes "diffed io ko tf cid prev p cur c out" and "t \<in> set title_types"
  shows "events_of out cid t =
    filter (\<lambda>e. de_t e = t) (titles_total cid prev cur (sn_current_date cur))"
  using assms(2)
  by (auto simp: diffed_events [OF assms(1)] pair_total_eq [OF diffedD(3,4) [OF assms(1)]]
      STREAM_DIFFERS_def title_types_def war_types_def filter_other
      one_character_types_def)

lemma diffed_streams:
  assumes "diffed io ko tf cid prev p cur c out" and "t \<in> set stream_types"
  shows "events_of out cid t = filter (\<lambda>e. de_t e = t)
    (concat (map (\<lambda>differ. differ cid c prev cur (sn_current_date cur)) STREAM_DIFFERS))"
proof -
  have "t \<notin> set one_character_types" "t \<notin> set title_types"
    "t \<notin> set [''trait_gained'', ''trait_lost'']" "t \<notin> set [''concubine_taken'']"
    "t \<notin> set [''modifier_acquired'']" "t \<notin> set [''perk_acquired'']"
    "t \<notin> set [''lifestyle_committed'']" "t \<notin> set [''miscarriage'']"
    "t \<notin> set [''house_change'', ''culture_change'', ''faith_change'']"
    using assms(2) by (auto simp: stream_types_def one_character_types_def title_types_def)
  then show ?thesis
    using filter_other_types [OF titles_total_ok [OF diffedD(3,4) [OF assms(1)]]]
    by (simp add: diffed_events [OF assms(1)] pair_total_eq [OF diffedD(3,4) [OF assms(1)]]
        filter_other)
qed

lemma diffed_rest:
  assumes d: "diffed io ko tf cid prev p cur c out"
  shows "t \<in> {''trait_gained'', ''trait_lost''} \<Longrightarrow> events_of out cid t =
      filter (\<lambda>e. de_t e = t) (diff_traits p c (sn_traits_lookup cur) (sn_current_date cur))"
    and "events_of out cid ''concubine_taken'' =
      diff_concubines p c (sn_characters cur) (sn_current_date cur)"
    and "events_of out cid ''modifier_acquired'' = diff_modifiers p c (sn_current_date cur)"
    and "events_of out cid ''perk_acquired'' = diff_perks p c (sn_current_date cur)"
    and "events_of out cid ''lifestyle_committed'' =
      diff_lifestyle_commits ko p c (sn_current_date cur)"
    and "events_of out cid ''miscarriage'' = diff_miscarriage p c
      (trait_id_by_name PREGNANT_TRAIT_NAME (sn_traits_lookup cur)) (sn_current_date cur)
      (new_memories p c)"
  using filter_other_types [OF titles_total_ok [OF diffedD(3,4) [OF d]]]
    filter_other_types [OF differs_ok]
  by (auto simp: diffed_events [OF d] pair_total_eq [OF diffedD(3,4) [OF d]]
      stream_types_def one_character_types_def title_types_def filter_other filter_single)

end
