(* ===== verification/Diff_Runs.thy ===== *)
theory Diff_Runs
  imports Diff_Facts
begin

text \<open>
  A run of the game: a list of snapshots of one playthrough, each diffed against its
  predecessor, the results concatenated into a log. For a character followed through the whole
  run, the log rebuilds each of the sets the streams watch, and it tells the character's death
  once.
\<close>

section \<open>The log of a run\<close>

definition run_log ::
  "(int fset \<Rightarrow> int list) \<Rightarrow> (string fset \<Rightarrow> string list) \<Rightarrow> int fset option
   \<Rightarrow> save_snapshot list \<Rightarrow> diff_event list" where
  "run_log id_order key_order tf ss =
     adjacent (\<lambda>prev cur. projr (diff_snapshots id_order key_order prev cur tf)) ss"

definition char_at :: "save_snapshot \<Rightarrow> int \<Rightarrow> character_snapshot" where
  "char_at s cid = the (dict_get (sn_characters s) cid)"

text \<open>A character present in a well-formed snapshot of the playthrough, and tracked.\<close>

definition followed :: "string \<Rightarrow> int fset option \<Rightarrow> int \<Rightarrow> save_snapshot \<Rightarrow> bool" where
  "followed playthrough tf cid s \<longleftrightarrow>
     wf_snapshot s \<and> sn_playthrough_id s = playthrough \<and> dict_get (sn_characters s) cid \<noteq> None
     \<and> (case tf of None \<Rightarrow> True | Some T \<Rightarrow> cid |\<in>| T)"

lemma followed_diffed:
  assumes "set_order id_order" and "set_order key_order"
    and "followed pt tf cid prev" and "followed pt tf cid cur"
  shows "diffed id_order key_order tf cid prev (char_at prev cid) cur (char_at cur cid)
    (projr (diff_snapshots id_order key_order prev cur tf))"
proof -
  have wf: "wf_snapshot prev" "wf_snapshot cur" and same: "same_playthrough prev cur"
    using assms(3,4) by (simp_all add: followed_def same_playthrough_def)
  show ?thesis
    using assms diff_snapshots_total [OF wf same]
    by (auto simp: diffed_def followed_def char_at_def diff_ids_def fmember_dict_keys
        split: option.splits)
qed

lemma events_of_append [simp]: "events_of (xs @ ys) cid t = events_of xs cid t @ events_of ys cid t"
  by (simp add: events_of_def)

lemma events_of_run:
  assumes "\<forall>s\<in>set ss. P s"
    and "\<And>prev cur. P prev \<Longrightarrow> P cur \<Longrightarrow>
      events_of (projr (diff_snapshots id_order key_order prev cur tf)) cid t = f prev cur"
  shows "events_of (run_log id_order key_order tf ss) cid t = adjacent f ss"
  using assms(1)
proof (induction ss rule: induct_list012)
  case (3 s t ss)
  then show ?case by (simp add: run_log_def assms(2))
qed (simp_all add: run_log_def events_of_def)

section \<open>Reading sets back\<close>

text \<open>A replay in which no element both enters and leaves does not depend on the order.\<close>

lemma replay_mem:
  assumes "\<And>x. (True, x) \<in> set cs \<Longrightarrow> (False, x) \<notin> set cs"
  shows "x |\<in>| replay S cs \<longleftrightarrow> (True, x) \<in> set cs \<or> x |\<in>| S \<and> (False, x) \<notin> set cs"
  using assms
proof (induction cs rule: rev_induct)
  case (snoc c cs)
  obtain b y where c: "c = (b, y)" by (cases c)
  have "x |\<in>| replay S cs \<longleftrightarrow> (True, x) \<in> set cs \<or> x |\<in>| S \<and> (False, x) \<notin> set cs"
    using snoc.prems by (intro snoc.IH) auto
  then show ?case using snoc.prems [of x] by (cases b) (auto simp: c replay_def)
qed simp

definition delta_of :: "'a fset \<Rightarrow> 'a fset \<Rightarrow> (bool \<times> 'a) set" where
  "delta_of P C = Pair True ` fset (C |-| P) \<union> Pair False ` fset (P |-| C)"

lemma replay_delta_set: "set cs = delta_of P C \<Longrightarrow> replay P cs = C"
  by (rule fset_eqI, subst replay_mem) (auto simp: delta_of_def)

text \<open>The changes that a log makes to one character's set, as \<open>ch\<close> reads them.\<close>

definition changes_of ::
  "(diff_event \<Rightarrow> (bool \<times> 'a) option) \<Rightarrow> int \<Rightarrow> diff_event list \<Rightarrow> (bool \<times> 'a) list" where
  "changes_of ch cid out = List.map_filter ch (filter (\<lambda>e. de_c e = cid) out)"

lemma changes_of_append [simp]:
  "changes_of ch cid (xs @ ys) = changes_of ch cid xs @ changes_of ch cid ys"
  by (simp add: changes_of_def)

lemma set_changes_of:
  assumes "\<And>e y. ch e = Some y \<Longrightarrow> de_t e \<in> set ts"
    and "\<And>t. t \<in> set ts \<Longrightarrow> events_of out cid t = filter (\<lambda>e. de_t e = t) es"
  shows "set (changes_of ch cid out) = set (List.map_filter ch es)"
proof -
  have "e \<in> set out \<and> de_c e = cid \<longleftrightarrow> e \<in> set es" if "ch e = Some y" for e y
  proof -
    have "de_t e \<in> set ts" using that by (rule assms(1))
    from assms(2) [OF this] have "e \<in> set (events_of out cid (de_t e)) \<longleftrightarrow> e \<in> set es"
      by simp
    then show ?thesis by (auto simp: events_of_def event_key_def)
  qed
  then show ?thesis by (fastforce simp: changes_of_def set_map_filter)
qed

text \<open>A condition that a stream has on the older of two saves alone need not hold of the last.\<close>

lemma run_replay_guarded:
  assumes "\<forall>u\<in>set (s # ss). P u" and "\<forall>u\<in>set (butlast (s # ss)). Q u"
    and "\<And>prev cur. P prev \<Longrightarrow> P cur \<Longrightarrow> Q prev \<Longrightarrow>
      set (changes_of ch cid (projr (diff_snapshots id_order key_order prev cur tf))) =
        delta_of (view prev) (view cur)"
  shows "replay (view s) (changes_of ch cid (run_log id_order key_order tf (s # ss))) =
    view (last (s # ss))"
  using assms(1,2)
proof (induction ss arbitrary: s)
  case Nil
  then show ?case by (simp add: run_log_def changes_of_def)
next
  case (Cons t ss)
  then have st: "P s" "P t" "Q s" and "\<forall>u\<in>set (t # ss). P u" "\<forall>u\<in>set (butlast (t # ss)). Q u" by simp_all
  then have "replay (view t) (changes_of ch cid (run_log id_order key_order tf (t # ss))) =
      view (last (t # ss))"
    by (intro Cons.IH)
  with replay_delta_set [OF assms(3) [OF st]] show ?case by (simp add: run_log_def)
qed

lemma run_replay:
  assumes "\<forall>u\<in>set (s # ss). P u"
    and "\<And>prev cur. P prev \<Longrightarrow> P cur \<Longrightarrow>
      set (changes_of ch cid (projr (diff_snapshots id_order key_order prev cur tf))) =
        delta_of (view prev) (view cur)"
  shows "replay (view s) (changes_of ch cid (run_log id_order key_order tf (s # ss))) =
    view (last (s # ss))"
  by (rule run_replay_guarded [OF assms(1), where Q = "\<lambda>_. True"]) (simp_all add: assms(2))

text \<open>The contract of \<open>set_stream\<close> gives the changes of one diff.\<close>

context set_stream
begin

lemma emit_changes:
  "live prev cur \<Longrightarrow> set (List.map_filter changes (emit prev cur)) = delta_of (view prev) (view cur)"
  by (simp add: emit_delta delta_of_def)

end

section \<open>Alliances, wars, artifacts and court positions\<close>

definition ally_change :: "diff_event \<Rightarrow> (bool \<times> int) option" where
  "ally_change e =
     (case ev_p (de_event e) of
        AlliancePayload p \<Rightarrow>
          if de_t e = ''alliance_formed'' then Some (True, alp_ally_character_id p)
          else if de_t e = ''alliance_broken'' then Some (False, alp_ally_character_id p) else None
      | _ \<Rightarrow> None)"

definition war_change :: "diff_event \<Rightarrow> (bool \<times> int) option" where
  "war_change e =
     (case ev_p (de_event e) of
        WarSidePayload p \<Rightarrow>
          if de_t e \<in> {''war_declared'', ''war_joined''} then Some (True, wsp_war_id p)
          else if de_t e \<in> {''war_concluded'', ''war_left''} then Some (False, wsp_war_id p) else None
      | _ \<Rightarrow> None)"

definition artifact_change :: "diff_event \<Rightarrow> (bool \<times> int) option" where
  "artifact_change e =
     (case ev_p (de_event e) of
        ArtifactPayload p \<Rightarrow>
          if de_t e = ''artifact_acquired'' then Some (True, artp_artifact_id p)
          else if de_t e = ''artifact_lost'' then Some (False, artp_artifact_id p) else None
      | _ \<Rightarrow> None)"

definition companion_change :: "diff_event \<Rightarrow> (bool \<times> int) option" where
  "companion_change e =
     (case ev_p (de_event e) of
        CampCompanionPayload p \<Rightarrow>
          if de_t e = ''camp_companion_joined'' then Some (True, ccmp_position_id p)
          else if de_t e = ''camp_companion_left'' then Some (False, ccmp_position_id p) else None
      | _ \<Rightarrow> None)"

text \<open>The set a stream watches, and the records behind its members.\<close>

definition watched :: "(save_snapshot \<Rightarrow> (int, int fset) dict) \<Rightarrow> int \<Rightarrow> save_snapshot \<Rightarrow> int fset" where
  "watched index cid s = dict_get_default (index s) cid {||}"

text \<open>Every record stored under an identifier carries that identifier.\<close>

definition recorded ::
  "(save_snapshot \<Rightarrow> (int, 'r) dict) \<Rightarrow> ('r \<Rightarrow> int) \<Rightarrow> save_snapshot \<Rightarrow> int fset \<Rightarrow> bool" where
  "recorded table ident s ids \<longleftrightarrow>
     (\<forall>i. i |\<in>| ids \<longrightarrow> (\<exists>r. dict_get (table s) i = Some r \<and> ident r = i))"

lemma recordedE:
  assumes "recorded table ident s ids" and "i |\<in>| ids"
  obtains r where "dict_get (table s) i = Some r" and "ident r = i"
  using assms by (auto simp: recorded_def)

lemma build_events_changes:
  assumes "\<And>eid. eid \<in> set eids \<Longrightarrow>
    \<exists>e. f cid eid prev cur date = Some e \<and> ch e = Some (b, eid)"
  shows "List.map_filter ch (build_events (Some f) cid eids prev cur date) = map (Pair b) eids"
  using assms
proof (induction eids)
  case (Cons eid eids)
  from Cons.prems [of eid] obtain e where "f cid eid prev cur date = Some e" "ch e = Some (b, eid)"
    by auto
  with Cons show ?case by (simp add: build_events_def)
qed (simp add: build_events_def)

text \<open>One statement for the three registry streams with both builders.\<close>

locale replay_spec = diff_spec +
  fixes changes :: "diff_event \<Rightarrow> (bool \<times> int) option"
    and known :: "int \<Rightarrow> save_snapshot \<Rightarrow> bool"
  assumes added_change: "known cid cur \<Longrightarrow> eid |\<in>| watched (sd_index spec) cid cur \<Longrightarrow>
      \<exists>f e. sd_on_added spec = Some f \<and> f cid eid prev cur date = Some e \<and> changes e = Some (True, eid)"
    and removed_change: "known cid prev \<Longrightarrow> eid |\<in>| watched (sd_index spec) cid prev \<Longrightarrow>
      \<exists>f e. sd_on_removed spec = Some f \<and> f cid eid prev cur date = Some e \<and> changes e = Some (False, eid)"
    and changes_types: "changes e = Some y \<Longrightarrow> de_t e \<in> set types"
begin

lemma differ_changes:
  assumes "\<not> cs_is_dead c" and "known cid prev" and "known cid cur"
  shows "List.map_filter changes (make_set_differ spec cid c prev cur date) =
    map (Pair True) (py_sorted (watched (sd_index spec) cid cur |-| watched (sd_index spec) cid prev))
    @ map (Pair False) (py_sorted (watched (sd_index spec) cid prev |-| watched (sd_index spec) cid cur))"
proof -
  let ?P = "watched (sd_index spec) cid prev" and ?C = "watched (sd_index spec) cid cur"
  have "List.map_filter changes (build_events (sd_on_added spec) cid (py_sorted (?C |-| ?P)) prev cur date) =
      map (Pair True) (py_sorted (?C |-| ?P))"
  proof (cases "?C |-| ?P = {||}")
    case True
    show ?thesis unfolding True by (simp add: build_events_def split: option.split)
  next
    case False
    then obtain i where "i |\<in>| ?C" by auto
    with added_change [OF assms(3)] obtain f where "sd_on_added spec = Some f" by blast
    moreover from this have "\<exists>e. f cid eid prev cur date = Some e \<and> changes e = Some (True, eid)"
      if "eid |\<in>| ?C" for eid
      using added_change [OF assms(3) that] by fastforce
    ultimately show ?thesis by (auto intro!: build_events_changes)
  qed
  moreover have "List.map_filter changes (build_events (sd_on_removed spec) cid (py_sorted (?P |-| ?C)) prev cur date) =
      map (Pair False) (py_sorted (?P |-| ?C))"
  proof (cases "?P |-| ?C = {||}")
    case True
    show ?thesis unfolding True by (simp add: build_events_def split: option.split)
  next
    case False
    then obtain i where "i |\<in>| ?P" by auto
    with removed_change [OF assms(2)] obtain f where "sd_on_removed spec = Some f" by blast
    moreover from this have "\<exists>e. f cid eid prev cur date = Some e \<and> changes e = Some (False, eid)"
      if "eid |\<in>| ?P" for eid
      using removed_change [OF assms(2) that] by fastforce
    ultimately show ?thesis by (auto intro!: build_events_changes)
  qed
  ultimately show ?thesis
    unfolding differ_unguarded [OF assms(1)] Let_def watched_def [symmetric] by simp
qed

end

text \<open>So the registry streams are replayable, with \<open>emit\<close> reading the character from the save.\<close>

sublocale replay_spec \<subseteq> log: set_stream
  "\<lambda>prev cur. make_set_differ spec cid (char_at cur cid) prev cur (sn_current_date cur)"
  "watched (sd_index spec) cid" changes
  "\<lambda>prev cur. \<not> cs_is_dead (char_at cur cid) \<and> known cid prev \<and> known cid cur" for cid
  by unfold_locales (simp add: differ_changes)


definition no_record_needed :: "int \<Rightarrow> save_snapshot \<Rightarrow> bool" where
  "no_record_needed cid s = True"

definition artifacts_known :: "int \<Rightarrow> save_snapshot \<Rightarrow> bool" where
  "artifacts_known cid s =
     recorded sn_artifacts art_artifact_id s (watched sn_character_to_artifacts cid s)"

definition positions_known :: "int \<Rightarrow> save_snapshot \<Rightarrow> bool" where
  "positions_known cid s =
     recorded sn_court_positions pos_position_id s (watched sn_character_to_court_positions cid s)"

definition wars_known :: "int \<Rightarrow> save_snapshot \<Rightarrow> bool" where
  "wars_known cid s = recorded sn_wars war_war_id s (watched sn_character_to_wars cid s)"

text \<open>The set each registry stream watches.\<close>

lemma spec_index:
  "sd_index ALLIANCES_SPEC = sn_alliances"
  "sd_index ARTIFACTS_SPEC = sn_character_to_artifacts"
  "sd_index COURT_POSITIONS_SPEC = sn_character_to_court_positions"
  by (simp_all add: spec_defs)

lemmas change_defs = ally_change_def war_change_def artifact_change_def companion_change_def

lemma change_types:
  "ally_change e = Some y \<Longrightarrow> de_t e \<in> set [''alliance_formed'', ''alliance_broken'']"
  "war_change e = Some y \<Longrightarrow> de_t e \<in> set war_types"
  "artifact_change e = Some y \<Longrightarrow> de_t e \<in> set [''artifact_acquired'', ''artifact_lost'']"
  "companion_change e = Some y \<Longrightarrow>
     de_t e \<in> set [''camp_companion_joined'', ''camp_companion_left'']"
  by (auto simp: change_defs war_types_def split: payload.splits if_splits)

text \<open>What each builder makes of a recorded identifier.\<close>

lemma alliance_builders_change:
  "\<exists>e. alliance_added cid i prev cur date = Some e \<and> ally_change e = Some (True, i)"
  "\<exists>e. alliance_removed cid i prev cur date = Some e \<and> ally_change e = Some (False, i)"
  by (simp_all add: alliance_added_def alliance_removed_def ally_change_def)

lemma artifact_builders_change:
  "dict_get (sn_artifacts cur) i = Some r \<Longrightarrow>
     \<exists>e. artifact_added cid i prev cur date = Some e \<and> artifact_change e = Some (True, i)"
  "dict_get (sn_artifacts prev) i = Some r \<Longrightarrow>
     \<exists>e. artifact_removed cid i prev cur date = Some e \<and> artifact_change e = Some (False, i)"
  by (simp_all add: builder_defs artifact_change_def artifact_payload_of_def)

lemma position_builders_change:
  "dict_get (sn_court_positions cur) i = Some r \<Longrightarrow> pos_position_id r = i \<Longrightarrow>
     \<exists>e. court_position_added cid i prev cur date = Some e \<and> companion_change e = Some (True, i)"
  "dict_get (sn_court_positions prev) i = Some r \<Longrightarrow> pos_position_id r = i \<Longrightarrow>
     \<exists>e. court_position_removed cid i prev cur date = Some e \<and> companion_change e = Some (False, i)"
  by (simp_all add: builder_defs companion_change_def companion_payload_of_def)

interpretation alliance_log: replay_spec ALLIANCES_SPEC
  "[''alliance_formed'', ''alliance_broken'']" ally_change no_record_needed
  by unfold_locales
    (auto simp: spec_defs alliance_builders_change dest: change_types(1))

interpretation artifact_log: replay_spec ARTIFACTS_SPEC
  "[''artifact_acquired'', ''artifact_lost'']" artifact_change artifacts_known
  by unfold_locales
    (auto simp: spec_defs artifacts_known_def elim!: recordedE dest: change_types(3)
      intro: artifact_builders_change)

interpretation companion_log: replay_spec COURT_POSITIONS_SPEC
  "[''camp_companion_joined'', ''camp_companion_left'']" companion_change positions_known
  by unfold_locales
    (auto simp: spec_defs positions_known_def elim!: recordedE dest: change_types(4)
      intro: position_builders_change)

lemma war_entered_change:
  assumes "dict_get cw w = Some war" and "war_war_id war = w"
  shows "\<exists>e. war_entered cid pw cw date w = Some e \<and> war_change e = Some (True, w)"
  using assms by (auto simp: war_entered_def war_change_def war_side_payload_of_def Let_def)

lemma war_exited_change:
  assumes "dict_get pw w = Some war" and "war_war_id war = w"
  shows "\<exists>e. war_exited cid pw cw date w = Some e \<and> war_change e = Some (False, w)"
  using assms by (auto simp: war_exited_def war_change_def war_side_payload_of_def Let_def)

lemma map_filter_map_filter:
  assumes "\<And>x. x \<in> set xs \<Longrightarrow> \<exists>e. f x = Some e \<and> g e = Some (h x)"
  shows "List.map_filter g (List.map_filter f xs) = map h xs"
  using assms
proof (induction xs)
  case (Cons x xs)
  from Cons.prems [of x] obtain e where "f x = Some e" "g e = Some (h x)" by auto
  with Cons show ?case by simp
qed simp

interpretation war_log: set_stream
  "\<lambda>prev cur. wars_differ cid (char_at cur cid) prev cur (sn_current_date cur)"
  "watched sn_character_to_wars cid" war_change
  "\<lambda>prev cur. \<not> cs_is_dead (char_at cur cid) \<and> wars_known cid prev \<and> wars_known cid cur" for cid
proof unfold_locales
  fix prev cur
  let ?P = "watched sn_character_to_wars cid prev" and ?C = "watched sn_character_to_wars cid cur"
  assume live: "\<not> cs_is_dead (char_at cur cid) \<and> wars_known cid prev \<and> wars_known cid cur"
  have "List.map_filter war_change (List.map_filter
      (war_entered cid (sn_wars prev) (sn_wars cur) (sn_current_date cur)) (py_sorted (?C |-| ?P))) =
      map (Pair True) (py_sorted (?C |-| ?P))"
  proof (rule map_filter_map_filter)
    fix w assume "w \<in> set (py_sorted (?C |-| ?P))"
    with live obtain r where "dict_get (sn_wars cur) w = Some r" "war_war_id r = w"
      by (auto simp: wars_known_def elim: recordedE)
    then show "\<exists>e. war_entered cid (sn_wars prev) (sn_wars cur) (sn_current_date cur) w = Some e
        \<and> war_change e = Some (True, w)"
      by (rule war_entered_change)
  qed
  moreover have "List.map_filter war_change (List.map_filter
      (war_exited cid (sn_wars prev) (sn_wars cur) (sn_current_date cur)) (py_sorted (?P |-| ?C))) =
      map (Pair False) (py_sorted (?P |-| ?C))"
  proof (rule map_filter_map_filter)
    fix w assume "w \<in> set (py_sorted (?P |-| ?C))"
    with live obtain r where "dict_get (sn_wars prev) w = Some r" "war_war_id r = w"
      by (auto simp: wars_known_def elim: recordedE)
    then show "\<exists>e. war_exited cid (sn_wars prev) (sn_wars cur) (sn_current_date cur) w = Some e
        \<and> war_change e = Some (False, w)"
      by (rule war_exited_change)
  qed
  ultimately show "List.map_filter war_change
      (wars_differ cid (char_at cur cid) prev cur (sn_current_date cur)) =
      map (Pair True) (py_sorted (?C |-| ?P)) @ map (Pair False) (py_sorted (?P |-| ?C))"
    using live by (simp add: wars_differ_def diff_wars_def Let_def watched_def)
qed

section \<open>The changes in a whole diff\<close>

lemma diffed_registry:
  assumes "diffed io ko tf cid prev p cur c out"
  shows "t \<in> set [''alliance_formed'', ''alliance_broken''] \<Longrightarrow> events_of out cid t =
      filter (\<lambda>e. de_t e = t) (make_set_differ ALLIANCES_SPEC cid c prev cur (sn_current_date cur))"
    and "t \<in> set war_types \<Longrightarrow> events_of out cid t =
      filter (\<lambda>e. de_t e = t) (wars_differ cid c prev cur (sn_current_date cur))"
    and "t \<in> set [''artifact_acquired'', ''artifact_lost''] \<Longrightarrow> events_of out cid t =
      filter (\<lambda>e. de_t e = t) (make_set_differ ARTIFACTS_SPEC cid c prev cur (sn_current_date cur))"
    and "t \<in> set [''camp_companion_joined'', ''camp_companion_left''] \<Longrightarrow> events_of out cid t =
      filter (\<lambda>e. de_t e = t)
        (make_set_differ COURT_POSITIONS_SPEC cid c prev cur (sn_current_date cur))"
  by (subst diffed_streams [OF assms];
      auto simp: stream_types_def STREAM_DIFFERS_def war_types_def filter_other)+


text \<open>The sections of the log, one per stream, as the changes of the set it watches.\<close>

lemma diffed_changes:
  assumes "diffed io ko tf cid prev p cur c out"
  shows "set (changes_of ally_change cid out) = set (List.map_filter ally_change
      (make_set_differ ALLIANCES_SPEC cid c prev cur (sn_current_date cur)))"
    and "set (changes_of war_change cid out) = set (List.map_filter war_change
      (wars_differ cid c prev cur (sn_current_date cur)))"
    and "set (changes_of artifact_change cid out) = set (List.map_filter artifact_change
      (make_set_differ ARTIFACTS_SPEC cid c prev cur (sn_current_date cur)))"
    and "set (changes_of companion_change cid out) = set (List.map_filter companion_change
      (make_set_differ COURT_POSITIONS_SPEC cid c prev cur (sn_current_date cur)))"
  using set_changes_of [OF change_types(1) diffed_registry(1) [OF assms]]
    set_changes_of [OF change_types(2) diffed_registry(2) [OF assms]]
    set_changes_of [OF change_types(3) diffed_registry(3) [OF assms]]
    set_changes_of [OF change_types(4) diffed_registry(4) [OF assms]] by simp_all

text \<open>Titles and traits are read by type as well.\<close>

definition title_log_change :: "diff_event \<Rightarrow> (bool \<times> int) option" where
  "title_log_change e = (if de_t e \<in> set title_types then title_change e else None)"

definition trait_log_change :: "diff_event \<Rightarrow> (bool \<times> int) option" where
  "trait_log_change e =
     (if de_t e \<in> {''trait_gained'', ''trait_lost''} then trait_change e else None)"

lemma map_filter_cong_set:
  "(\<And>x. x \<in> set xs \<Longrightarrow> f x = g x) \<Longrightarrow> List.map_filter f xs = List.map_filter g xs"
  by (induction xs) (auto split: option.split)

lemma diffed_title_changes:
  assumes "diffed io ko tf cid prev p cur c out"
  shows "set (changes_of title_log_change cid out) =
    set (List.map_filter title_change (titles_total cid prev cur (sn_current_date cur)))"
proof -
  have "set (changes_of title_log_change cid out) =
      set (List.map_filter title_log_change (titles_total cid prev cur (sn_current_date cur)))"
    by (rule set_changes_of [OF _ diffed_titles [OF assms]])
      (simp_all add: title_log_change_def split: if_splits)
  also have "List.map_filter title_log_change (titles_total cid prev cur (sn_current_date cur)) =
      List.map_filter title_change (titles_total cid prev cur (sn_current_date cur))"
    using stream_okD(2) [OF titles_total_ok [OF diffedD(3,4) [OF assms]]]
    by (intro map_filter_cong_set) (simp add: title_log_change_def)
  finally show ?thesis .
qed

lemma diffed_trait_changes:
  assumes "diffed io ko tf cid prev p cur c out"
  shows "set (changes_of trait_log_change cid out) =
    set (List.map_filter trait_change
      (diff_traits p c (sn_traits_lookup cur) (sn_current_date cur)))"
proof -
  have "set (changes_of trait_log_change cid out) = set (List.map_filter trait_log_change
      (diff_traits p c (sn_traits_lookup cur) (sn_current_date cur)))"
    by (rule set_changes_of [where ts = "[''trait_gained'', ''trait_lost'']"])
      (auto simp: trait_log_change_def diffed_rest(1) [OF assms] split: if_splits)
  also have "List.map_filter trait_log_change
      (diff_traits p c (sn_traits_lookup cur) (sn_current_date cur)) =
      List.map_filter trait_change (diff_traits p c (sn_traits_lookup cur) (sn_current_date cur))"
    using trts.emit_types by (intro map_filter_cong_set) (fastforce simp: trait_log_change_def)
  finally show ?thesis .
qed

section \<open>The death of a character over a run\<close>

lemma filter_death:
  "filter (\<lambda>e. de_t e = ''death'') (diff_one_character p c date characters mems) =
     death_beat p c date"
  by (auto simp: diff_one_character_def stream_defs filter_empty_conv Let_def split: option.split)

lemma diffed_death:
  assumes "diffed io ko tf cid prev p cur c out"
  shows "events_of out cid ''death'' = death_beat p c (sn_current_date cur)"
  using diffed_one_character [OF assms, of "''death''"]
  by (simp add: one_character_types_def filter_death)

text \<open>A date of death, once recorded, stays.\<close>

definition death_keeps :: "int \<Rightarrow> save_snapshot \<Rightarrow> save_snapshot \<Rightarrow> bool" where
  "death_keeps cid prev cur \<longleftrightarrow>
     (cs_death_date (char_at prev cid) \<noteq> None \<longrightarrow> cs_death_date (char_at cur cid) \<noteq> None)"

lemma deaths_of_run:
  assumes "adjacent_all (death_keeps cid) (s # ss)"
    and "\<forall>u\<in>set (s # ss). dated (char_at u cid)"
  shows "length (adjacent (\<lambda>prev cur.
      death_beat (char_at prev cid) (char_at cur cid) (sn_current_date cur)) (s # ss)) =
    (if cs_death_date (char_at s cid) = None
        \<and> cs_death_date (char_at (last (s # ss)) cid) \<noteq> None then 1 else 0)"
  using assms
proof (induction ss arbitrary: s)
  case Nil
  show ?case by (cases "cs_death_date (char_at s cid)") simp_all
next
  case (Cons t ss)
  have dead: "cs_death_date (char_at (last (t # ss)) cid) \<noteq> None"
    if "cs_death_date (char_at t cid) \<noteq> None" "adjacent_all (death_keeps cid) (t # ss)" for t ss
    using that by (induction ss arbitrary: t) (auto simp: death_keeps_def)
  from Cons have IH: "length (adjacent (\<lambda>prev cur.
      death_beat (char_at prev cid) (char_at cur cid) (sn_current_date cur)) (t # ss)) =
    (if cs_death_date (char_at t cid) = None
        \<and> cs_death_date (char_at (last (t # ss)) cid) \<noteq> None then 1 else 0)"
    by (intro Cons.IH) simp_all
  from Cons.prems have keeps: "death_keeps cid s t" and tdated: "dated (char_at t cid)"
    and rest: "adjacent_all (death_keeps cid) (t # ss)" by simp_all
  have "length (adjacent (\<lambda>prev cur.
      death_beat (char_at prev cid) (char_at cur cid) (sn_current_date cur)) (s # t # ss)) =
    (if cs_death_date (char_at s cid) = None \<and> cs_death_date (char_at t cid) \<noteq> None then 1 else 0)
    + (if cs_death_date (char_at t cid) = None
        \<and> cs_death_date (char_at (last (t # ss)) cid) \<noteq> None then 1 else 0)"
    using IH by (simp add: death_beat_dated [OF tdated] del: last.simps)
  with dead [OF _ rest] keeps show ?case by (auto simp: death_keeps_def)
qed

end
