(* ===== verification/Parse_Facts.thy ===== *)
theory Parse_Facts
  imports Parse Diff_Runs
begin

text \<open>
  What the diff may assume of a snapshot that \<open>parse_save\<close> returned, and when it returns one.
\<close>

section \<open>Taking a parsed save apart\<close>

text \<open>The parts of the snapshot and where they come from.\<close>

lemma parse_save_InrD:
  assumes "parse_save repr names iter data = Inr s"
  shows "\<exists>memory_db. subsection_of data ''character_memory_manager'' ''database'' = Inr memory_db
      \<and> parse_characters (parse_character repr names (build_memory_index repr memory_db)
          (sn_cultures_lookup s)) data = Inr (sn_characters s)"
    and "parse_artifacts data = Inr (sn_artifacts s, sn_character_to_artifacts s)"
    and "parse_alliances data = Inr (sn_alliances s)"
    and "(sn_wars s, sn_character_to_wars s) = parse_wars iter data"
    and "(sn_epidemics s, sn_character_to_epidemics s) = parse_epidemics iter data"
    and "(sn_activities s, sn_character_to_activities s) = parse_activities iter data"
    and "(sn_task_contracts s, sn_character_to_contracts s) = parse_contracts data"
    and "(sn_court_positions s, sn_character_to_court_positions s) = parse_court_positions data"
    and "sn_titles s = parse_titles data"
    and "sn_title_holders s = build_title_holders (parse_titles data)"
    and "sn_kingdoms_by_de_jure_empire s = build_kingdoms_by_de_jure_empire (parse_titles data)"
    and "sn_playthrough_id s = resolve_playthrough_id repr data"
  using assms
  by (auto simp: parse_save_def bindr_eq_Inr Let_def case_prod_beta)

section \<open>A parsed save is well-formed\<close>

lemma parse_character_id:
  "parse_character repr names index cultures is_dead cid raw = Inr c \<Longrightarrow> cs_ck3_id c = cid"
  "parse_character repr names index cultures is_dead cid raw = Inr c \<Longrightarrow> cs_is_dead c = is_dead"
  by (auto simp: parse_character_def Let_def bindr_eq_Inr)

lemma parse_bucket_elem:
  assumes "parse_bucket f bucket = Inr rows" and "(cid, c) \<in> set rows"
  obtains raw where "(cid, raw) \<in> set (entry_rows bucket)" and "f cid raw = Inr c"
  using assms unfolding parse_bucket_def
  by (elim concat_mapr_elem) (auto simp: bindr_eq_Inr)

lemma parse_characters_rows:
  assumes "parse_characters f data = Inr cs"
  obtains living dead fresh prunable where "cs = build_table (living @ dead @ fresh)"
    and "parse_bucket (f False) (or_dict (get data ''living'')) = Inr living"
    and "parse_bucket (f True) (or_dict (get data ''dead_unprunable'')) = Inr dead"
    and "subsection_of data ''characters'' ''dead_prunable'' = Inr prunable"
    and "parse_bucket (f True) prunable = Inr fresh"
  using assms by (auto simp: parse_characters_def bindr_eq_Inr)

lemma parse_characters_elem:
  assumes "parse_characters f data = Inr cs" and "(cid, c) \<in> set cs"
  obtains is_dead raw where "f is_dead cid raw = Inr c"
proof -
  from assms(1) obtain living dead fresh prunable where cs: "cs = build_table (living @ dead @ fresh)"
    and rows: "parse_bucket (f False) (or_dict (get data ''living'')) = Inr living"
      "parse_bucket (f True) (or_dict (get data ''dead_unprunable'')) = Inr dead"
      "parse_bucket (f True) prunable = Inr fresh"
    by (rule parse_characters_rows)
  from assms(2) have "(cid, c) \<in> set living \<or> (cid, c) \<in> set dead \<or> (cid, c) \<in> set fresh"
    unfolding cs by (auto dest: build_table_mem)
  then show thesis using rows that by (auto elim: parse_bucket_elem)
qed

lemma parse_save_wf:
  assumes "parse_save repr names iter data = Inr s"
  shows "wf_snapshot s"
proof -
  note parts = parse_save_InrD [OF assms]
  have "wf_characters s"
    using parts(1) unfolding wf_characters_def
    by (auto elim!: parse_characters_elem dest: parse_character_id)
  moreover have "wf_titles s"
    by (auto simp: wf_titles_def parts(9) parse_titles_ok dest: parse_titles_wf)
  moreover have "holders_agree s"
    by (simp add: holders_agree_def parts(9,10) title_holders_mem [OF parse_titles_ok])
  ultimately show ?thesis by (simp add: wf_snapshot_def)
qed

text \<open>Every identifier in a reverse index has its record, so the streams that need one find it.\<close>

lemma parse_save_known:
  assumes "parse_save repr names iter data = Inr s"
  shows "wars_known cid s" and "artifacts_known cid s" and "positions_known cid s"
proof -
  note parts = parse_save_InrD [OF assms]
  show "wars_known cid s"
    using parts(4) by (simp add: wars_known_def recorded_def watched_def parse_wars_def Let_def
        war_table.index_recorded)
  show "positions_known cid s"
    using parts(8) by (simp add: positions_known_def recorded_def watched_def
        parse_court_positions_def Let_def position_table.index_recorded)
  obtain rows where rows: "artifact_rows data = Inr rows"
    and tables: "sn_artifacts s = build_table rows"
      "sn_character_to_artifacts s = index_by artifact_owners rows"
    using parts(2) by (auto simp: parse_artifacts_def bindr_eq_Inr)
  show "artifacts_known cid s"
    unfolding artifacts_known_def recorded_def watched_def tables
    by (intro allI impI) (rule keyed_rows.index_recorded [OF artifact_rows_keyed [OF rows]])
qed

section \<open>When the parser raises\<close>

lemma bindr_Inl: "(\<exists>e. bindr m f = Inl e) \<longleftrightarrow> (\<exists>e. m = Inl e) \<or> (\<exists>a. m = Inr a \<and> (\<exists>e. f a = Inl e))"
  by (cases m) simp_all

lemma concat_mapr_Inl: "(\<exists>e. concat_mapr f xs = Inl e) \<longleftrightarrow> (\<exists>x\<in>set xs. \<exists>e. f x = Inl e)"
  by (induction xs) (simp_all add: bindr_Inl, metis sum.exhaust)

text \<open>A name field that cannot be decoded, and a character with one.\<close>

definition bad_names :: "obj \<Rightarrow> bool" where
  "bad_names raw \<longleftrightarrow>
     (truthy (get raw ''first_name'') \<and> (\<forall>s. get raw ''first_name'' \<noteq> JStr s)) \<or>
     (truthy (get raw ''nickname_text'') \<and> (\<forall>s. get raw ''nickname_text'' \<noteq> JStr s)
        \<and> (\<forall>s. s \<noteq> [NAK] \<longrightarrow> get raw ''nickname_text'' \<noteq> JArr [JStr s]))"

lemma first_name_field_Inl:
  "(\<exists>e. first_name_field names culture v = Inl e) \<longleftrightarrow> truthy v \<and> (\<forall>s. v \<noteq> JStr s)"
  by (cases v) auto

lemma nickname_field_Inl:
  "(\<exists>e. nickname_field culture v = Inl e) \<longleftrightarrow>
     truthy v \<and> (\<forall>s. v \<noteq> JStr s) \<and> (\<forall>s. s \<noteq> [NAK] \<longrightarrow> v \<noteq> JArr [JStr s])"
  by (cases "(culture, v)" rule: nickname_field.cases) auto

text \<open>A number that is too large, reached by the reading of a balance: the first value that is one
  ends the search.\<close>

definition too_large :: "json \<Rightarrow> bool" where
  "too_large v \<longleftrightarrow> (case v of JInt i \<Rightarrow> FLOAT_LIMIT \<le> \<bar>i\<bar> | _ \<Rightarrow> False)"

definition no_number :: "json \<Rightarrow> bool" where
  "no_number v \<longleftrightarrow> (case v of JInt _ \<Rightarrow> False | JFloat _ \<Rightarrow> False | JBool _ \<Rightarrow> False
     | JStr s \<Rightarrow> float_of_text s = None | _ \<Rightarrow> True)"

definition bad_balance :: "bool \<Rightarrow> json \<Rightarrow> bool" where
  "bad_balance accrued v \<longleftrightarrow>
     (case v of
        JObj d \<Rightarrow> accrued \<and> too_large (get d ''accrued'')
          \<or> (\<not> accrued \<or> no_number (get d ''accrued''))
            \<and> (too_large (get d ''currency'') \<or> no_number (get d ''currency'') \<and> too_large (get d ''value''))
      | _ \<Rightarrow> too_large v)"

definition bad_balances :: "obj \<Rightarrow> bool" where
  "bad_balances raw \<longleftrightarrow>
     (case get raw ''alive_data'' of
        JObj block \<Rightarrow> bad_balance False (get block ''gold'')
          \<or> bad_balance False (get block ''prestige'') \<or> bad_balance True (get block ''prestige'')
          \<or> bad_balance False (get block ''piety'') \<or> bad_balance True (get block ''piety'')
      | _ \<Rightarrow> False)"

definition bad_renown :: "obj \<Rightarrow> bool" where
  "bad_renown raw \<longleftrightarrow>
     (case get raw ''prestige'' of JObj p \<Rightarrow> too_large (get p ''accumulated'') | _ \<Rightarrow> False)
     \<or> bad_balance False (get raw ''prestige'')"

lemma coerce_float_Inl: "(\<exists>e. coerce_float v = Inl e) \<longleftrightarrow> too_large v"
  by (cases v) (simp_all add: too_large_def)

lemma coerce_float_None: "coerce_float v = Inr None \<longleftrightarrow> no_number v"
  by (cases v) (simp_all add: no_number_def)

lemma or_next_Inl: "(\<exists>e. or_next m n = Inl e) \<longleftrightarrow> (\<exists>e. m = Inl e) \<or> m = Inr None \<and> (\<exists>e. n = Inl e)"
  by (cases m) (auto simp: or_next_def)

lemma parse_currency_Inl: "(\<exists>e. parse_currency accrued v = Inl e) \<longleftrightarrow> bad_balance accrued v"
  by (cases v) (simp_all add: parse_currency_def bad_balance_def or_next_Inl coerce_float_Inl coerce_float_None too_large_def)

lemma renown_of_Inl: "(\<exists>e. renown_of raw = Inl e) \<longleftrightarrow>
    (case get raw ''prestige'' of JObj p \<Rightarrow> too_large (get p ''accumulated'') | _ \<Rightarrow> False)"
  by (cases "get raw ''prestige''") (simp_all add: renown_of_def coerce_float_Inl)

lemma renown_row_Inl: "(\<exists>e. renown_row x = Inl e) \<longleftrightarrow> bad_renown (snd x)"
  unfolding bad_renown_def renown_of_Inl [symmetric] parse_currency_Inl [symmetric]
  by (simp add: renown_row_def bindr_Inl case_prod_beta) (metis sum.exhaust)

lemma parse_dynasties_Inl: "(\<exists>e. parse_dynasties data = Inl e) \<longleftrightarrow>
    (\<exists>(did, raw)\<in>set (iter_db_records data [''dynasties'', ''dynasties'']). bad_renown raw)"
  by (simp add: parse_dynasties_def Let_def bindr_Inl concat_mapr_Inl case_prod_beta renown_row_Inl)

lemma bad_names_raise:
  "(\<exists>e. first_name_field names culture (get raw ''first_name'') = Inl e)
     \<or> (\<exists>e. nickname_field culture (get raw ''nickname_text'') = Inl e) \<longleftrightarrow> bad_names raw"
  unfolding first_name_field_Inl nickname_field_Inl bad_names_def by blast

lemma bindr_Inl_const:
  "(\<And>a. (\<exists>e. f a = Inl e) \<longleftrightarrow> Q) \<Longrightarrow> (\<exists>e. bindr m f = Inl e) \<longleftrightarrow> (\<exists>e. m = Inl e) \<or> Q"
  by (cases m) auto

lemma bindr_Inl_last: "(\<exists>e. bindr m (\<lambda>a. Inr (g a)) = Inl e) \<longleftrightarrow> (\<exists>e. m = Inl e)"
  by (cases m) simp_all

lemma money_Inl:
  assumes "money = (\<lambda>accrued k. if is_dead then Inr None else parse_currency accrued (get (life_block is_dead raw) k))"
  shows "(\<exists>e. money False ''gold'' = Inl e) \<or> (\<exists>e. money False ''prestige'' = Inl e)
      \<or> (\<exists>e. money True ''prestige'' = Inl e) \<or> (\<exists>e. money False ''piety'' = Inl e)
      \<or> (\<exists>e. money True ''piety'' = Inl e) \<longleftrightarrow> \<not> is_dead \<and> bad_balances raw"
proof (cases is_dead)
  case False
  then have money: "(\<exists>e. money accrued k = Inl e) \<longleftrightarrow> bad_balance accrued (get (life_block False raw) k)" for accrued k
    by (simp add: assms parse_currency_Inl)
  show ?thesis using False unfolding money bad_balances_def
    by (cases "get raw ''alive_data''") (simp_all add: life_block_def bad_balance_def too_large_def get_def)
qed (simp add: assms)

lemma parse_character_Inl:
  "(\<exists>e. parse_character repr names index cultures is_dead cid raw = Inl e)
     \<longleftrightarrow> bad_names raw \<or> \<not> is_dead \<and> bad_balances raw"
proof -
  define money where "money = (\<lambda>accrued k. if is_dead then Inr None else parse_currency accrued (get (life_block is_dead raw) k))"
  have "(\<exists>e. parse_character repr names index cultures is_dead cid raw = Inl e) \<longleftrightarrow>
      (\<exists>e. money False ''gold'' = Inl e) \<or> (\<exists>e. money False ''prestige'' = Inl e)
      \<or> (\<exists>e. money True ''prestige'' = Inl e) \<or> (\<exists>e. money False ''piety'' = Inl e)
      \<or> (\<exists>e. money True ''piety'' = Inl e) \<or> bad_names raw"
    unfolding parse_character_def Let_def money_def
      bad_names_raise [where names = names and raw = raw and culture =
        "case coerce_int (get raw ''culture'') of None \<Rightarrow> None | Some c \<Rightarrow> dict_get cultures c", symmetric]
    by (intro bindr_Inl_const bindr_Inl_last)
  then show ?thesis using money_Inl [OF money_def] by blast
qed

lemma parse_bucket_Inl:
  "(\<exists>e. parse_bucket f bucket = Inl e) \<longleftrightarrow> (\<exists>(cid, raw)\<in>set (entry_rows bucket). \<exists>e. f cid raw = Inl e)"
  by (simp add: parse_bucket_def concat_mapr_Inl bindr_Inl case_prod_beta)

lemma ex_Inr: "(\<exists>a. m = Inr a) \<longleftrightarrow> \<not> (\<exists>e. m = Inl e)"
  by (cases m) simp_all

lemma as_dict_Inr: "as_dict v = Inr d \<longleftrightarrow> v = JObj d"
  by (cases v) auto

lemma as_dict_Inl: "(\<exists>e. as_dict v = Inl e) \<longleftrightarrow> \<not> is_obj v"
  by (cases v) (simp_all add: is_obj_def)

text \<open>
  The sections on which \<open>.get\<close> is called without a check, the names without a type check, and
  the artifacts.
\<close>

definition bad_sections :: "obj \<Rightarrow> bool" where
  "bad_sections data \<longleftrightarrow>
     (\<exists>k\<in>set [''meta_data'', ''character_memory_manager'', ''culture_manager'', ''characters'',
        ''relations'', ''religion'']. \<not> is_obj (or_dict (get data k)))
     \<or> (\<exists>meta. or_dict (get data ''meta_data'') = JObj meta
          \<and> \<not> is_obj (or_dict (get meta ''meta_main_portrait'')))"

definition bad_artifact_name :: "json \<Rightarrow> bool" where
  "bad_artifact_name v \<longleftrightarrow> truthy v \<and>
     (case v of
        JStr s \<Rightarrow> False
      | JArr xs \<Rightarrow> JStr [NAK] \<in> set xs
      | JObj d \<Rightarrow> dict_get d [NAK] \<noteq> None
      | _ \<Rightarrow> True)"

definition character_records :: "obj \<Rightarrow> obj set" where
  "character_records data = snd ` (set (entry_rows (or_dict (get data ''living'')))
     \<union> set (entry_rows (or_dict (get data ''dead_unprunable'')))
     \<union> (case or_dict (get data ''characters'') of
          JObj d \<Rightarrow> set (entry_rows (or_dict (get d ''dead_prunable''))) | _ \<Rightarrow> {}))"

definition living_records :: "obj \<Rightarrow> obj set" where
  "living_records data = snd ` set (entry_rows (or_dict (get data ''living'')))"

lemma artifact_name_Inl: "(\<exists>e. artifact_name v = Inl e) \<longleftrightarrow> bad_artifact_name v"
  by (cases v) (auto simp: bad_artifact_name_def)

lemma parse_artifacts_Inl:
  "(\<exists>e. parse_artifacts data = Inl e) \<longleftrightarrow>
     (\<exists>(aid, raw)\<in>set (iter_db_records data [''artifacts'', ''artifacts'']).
        bad_artifact_name (get raw ''name''))"
  by (simp add: parse_artifacts_def artifact_rows_def bindr_Inl concat_mapr_Inl case_prod_beta
      artifact_name_Inl)

lemma is_obj_section: "is_obj (or_dict (get data k)) \<longleftrightarrow> (\<exists>d. section_of data k = Inr d)"
  by (cases "or_dict (get data k)") (simp_all add: is_obj_def section_of_def)

lemma section_of_Inr: "section_of data k = Inr d \<longleftrightarrow> or_dict (get data k) = JObj d"
  by (cases "or_dict (get data k)") (auto simp: section_of_def)

lemma parse_alliances_Inr: "section_of data ''relations'' = Inr d \<Longrightarrow> \<exists>al. parse_alliances data = Inr al"
  by (simp add: parse_alliances_def split: json.split)

lemma parse_characters_Inl:
  assumes "section_of data ''characters'' = Inr d"
    and "\<And>is_dead cid raw. (\<exists>e. f is_dead cid raw = Inl e) \<longleftrightarrow> bad_names raw \<or> \<not> is_dead \<and> bad_balances raw"
  shows "(\<exists>e. parse_characters f data = Inl e) \<longleftrightarrow>
    (\<exists>raw\<in>character_records data. bad_names raw) \<or> (\<exists>raw\<in>living_records data. bad_balances raw)"
proof -
  have bucket: "(\<exists>e. parse_bucket (f is_dead) bucket = Inl e) \<longleftrightarrow>
      (\<exists>raw\<in>snd ` set (entry_rows bucket). bad_names raw \<or> \<not> is_dead \<and> bad_balances raw)" for is_dead bucket
    by (force simp: parse_bucket_Inl assms(2))
  have sub: "subsection_of data ''characters'' ''dead_prunable'' = Inr (or_dict (get d ''dead_prunable''))"
    by (simp add: subsection_of_def assms(1))
  have "(\<exists>e. parse_characters f data = Inl e) \<longleftrightarrow>
     (\<exists>e. parse_bucket (f False) (or_dict (get data ''living'')) = Inl e)
     \<or> (\<exists>e. parse_bucket (f True) (or_dict (get data ''dead_unprunable'')) = Inl e)
     \<or> (\<exists>e. parse_bucket (f True) (or_dict (get d ''dead_prunable'')) = Inl e)"
    unfolding parse_characters_def sub bindr_simps by (simp add: bindr_Inl) (metis sum.exhaust)
  then show ?thesis
    using assms(1) unfolding bucket
    by (auto simp: character_records_def living_records_def section_of_Inr)
qed

lemma parse_save_Inr_sections:
  assumes "parse_save repr names iter data = Inr s"
  shows "\<not> bad_sections data"
proof -
  from assms obtain meta portrait memory_db cm where "section_of data ''meta_data'' = Inr meta"
    and "as_dict (or_dict (get meta ''meta_main_portrait'')) = Inr portrait"
    and "subsection_of data ''character_memory_manager'' ''database'' = Inr memory_db"
    and "subsection_of data ''culture_manager'' ''cultures'' = Inr cm"
    and "\<exists>al. parse_alliances data = Inr al"
    and "\<exists>fl. parse_faiths_lookup data = Inr fl"
    and "\<exists>prunable. subsection_of data ''characters'' ''dead_prunable'' = Inr prunable"
    by (auto simp: parse_save_def parse_cultures_lookup_def parse_characters_def bindr_eq_Inr
        Let_def case_prod_beta)
  then show ?thesis
    by (auto simp: bad_sections_def is_obj_section subsection_of_def bindr_eq_Inr section_of_Inr
        parse_alliances_def parse_faiths_lookup_def as_dict_Inr is_obj_def)
qed

text \<open>The exact conditions under which \<open>parse_save\<close> raises.\<close>

lemma parse_save_Inl:
  "(\<exists>e. parse_save repr names iter data = Inl e) \<longleftrightarrow>
     bad_sections data \<or> (\<exists>raw\<in>character_records data. bad_names raw)
     \<or> (\<exists>(aid, raw)\<in>set (iter_db_records data [''artifacts'', ''artifacts'']).
          bad_artifact_name (get raw ''name''))
     \<or> (\<exists>raw\<in>living_records data. bad_balances raw)
     \<or> (\<exists>(did, raw)\<in>set (iter_db_records data [''dynasties'', ''dynasties'']). bad_renown raw)"
proof (cases "bad_sections data")
  case True
  with parse_save_Inr_sections [of repr names iter data] show ?thesis
    by (cases "parse_save repr names iter data") auto
next
  case False
  then obtain meta mm cm ch rel religion portrait where sections:
    "section_of data ''meta_data'' = Inr meta" "section_of data ''character_memory_manager'' = Inr mm"
    "section_of data ''culture_manager'' = Inr cm" "section_of data ''characters'' = Inr ch"
    "section_of data ''relations'' = Inr rel" "section_of data ''religion'' = Inr religion"
    "as_dict (or_dict (get meta ''meta_main_portrait'')) = Inr portrait"
    unfolding bad_sections_def is_obj_section
    by (auto simp: section_of_Inr is_obj_def split: json.splits)
  from parse_alliances_Inr [OF sections(5)] obtain al where al: "parse_alliances data = Inr al" ..
  note chars = parse_characters_Inl [OF sections(4) parse_character_Inl]
  have artifacts: "(\<exists>a b. parse_artifacts data = Inr (a, b)) \<longleftrightarrow>
      \<not> (\<exists>x\<in>set (iter_db_records data [''artifacts'', ''artifacts'']). bad_artifact_name (get (snd x) ''name''))"
    using parse_artifacts_Inl [of data] by (cases "parse_artifacts data") (auto simp: case_prod_beta)
  show ?thesis
    using False
    by (simp add: parse_save_def parse_cultures_lookup_def parse_faiths_lookup_def subsection_of_def
        sections al bindr_Inl Let_def case_prod_beta chars parse_artifacts_Inl parse_dynasties_Inl ex_Inr
        artifacts) blast
qed

section \<open>Which bucket wins\<close>

text \<open>The rows of the two buckets of the dead.\<close>

definition dead_rows :: "obj \<Rightarrow> (int \<times> obj) list" where
  "dead_rows data = entry_rows (or_dict (get data ''dead_unprunable''))
     @ (case or_dict (get data ''characters'') of
          JObj d \<Rightarrow> entry_rows (or_dict (get d ''dead_prunable'')) | _ \<Rightarrow> [])"

definition living_rows :: "obj \<Rightarrow> (int \<times> obj) list" where
  "living_rows data = entry_rows (or_dict (get data ''living''))"

lemma character_records_rows:
  "character_records data = snd ` set (living_rows data @ dead_rows data)"
  by (cases "or_dict (get data ''characters'')")
    (auto simp: character_records_def living_rows_def dead_rows_def)

lemma concat_mapr_pairs:
  "concat_mapr (\<lambda>(i, r). bindr (f i r) (\<lambda>c. Inr [(i, c)])) rows = Inr out \<Longrightarrow>
     list_all2 (\<lambda>(i, r) (j, c). j = i \<and> f i r = Inr c) rows out"
  by (induction rows arbitrary: out) (auto simp: bindr_eq_Inr)

lemma parse_bucket_rows:
  "parse_bucket f bucket = Inr out \<Longrightarrow>
     list_all2 (\<lambda>(i, r) (j, c). j = i \<and> f i r = Inr c) (entry_rows bucket) out"
  unfolding parse_bucket_def by (rule concat_mapr_pairs)

text \<open>The table is the parse of the living rows followed by that of the dead ones.\<close>

lemma parse_characters_table:
  assumes "parse_characters f data = Inr cs"
  obtains living dead where "cs = build_table (living @ dead)"
    and "list_all2 (\<lambda>(i, r) (j, c). j = i \<and> f False i r = Inr c) (living_rows data) living"
    and "list_all2 (\<lambda>(i, r) (j, c). j = i \<and> f True i r = Inr c) (dead_rows data) dead"
proof -
  from assms obtain living dead fresh prunable where cs: "cs = build_table (living @ dead @ fresh)"
    and rows: "parse_bucket (f False) (or_dict (get data ''living'')) = Inr living"
      "parse_bucket (f True) (or_dict (get data ''dead_unprunable'')) = Inr dead"
    and sub: "subsection_of data ''characters'' ''dead_prunable'' = Inr prunable"
    and fresh: "parse_bucket (f True) prunable = Inr fresh"
    by (rule parse_characters_rows)
  from sub obtain d where "or_dict (get data ''characters'') = JObj d"
    and "prunable = or_dict (get d ''dead_prunable'')"
    by (auto simp: subsection_of_def bindr_eq_Inr section_of_Inr)
  then have "list_all2 (\<lambda>(i, r) (j, c). j = i \<and> f True i r = Inr c) (dead_rows data) (dead @ fresh)"
    using parse_bucket_rows [OF rows(2)] parse_bucket_rows [OF fresh]
    by (simp add: dead_rows_def list_all2_appendI)
  with that cs parse_bucket_rows [OF rows(1)] show thesis by (simp add: living_rows_def)
qed

lemma rows_keys:
  "list_all2 (\<lambda>(i, r) (j, c). j = i \<and> f i r = Inr c) rows out \<Longrightarrow> map fst out = map fst rows"
  by (induction rule: list_all2_induct) auto

lemma rows_elem:
  "list_all2 (\<lambda>(i, r) (j, c). j = i \<and> f i r = Inr c) rows out \<Longrightarrow> (j, c) \<in> set out \<Longrightarrow>
     \<exists>r. (j, r) \<in> set rows \<and> f j r = Inr c"
  by (induction rule: list_all2_induct) auto

lemma build_table_append:
  "dict_get (build_table (xs @ ys)) k =
     (case dict_get (build_table ys) k of None \<Rightarrow> dict_get (build_table xs) k | Some v \<Rightarrow> Some v)"
  by (simp add: build_table_get map_add_def split: option.split)

lemma build_table_None: "dict_get (build_table rows) k = None \<longleftrightarrow> k \<notin> fst ` set rows"
  by (simp add: build_table_get map_of_eq_None_iff)

text \<open>Every character of the save is in the snapshot, and dead exactly if a dead bucket has it.\<close>

lemma parsed_character:
  assumes "parse_save repr names iter data = Inr s"
  shows "(\<exists>c. dict_get (sn_characters s) cid = Some c \<and> cs_is_dead c) \<longleftrightarrow> cid \<in> fst ` set (dead_rows data)"
    and "(\<exists>c. dict_get (sn_characters s) cid = Some c \<and> \<not> cs_is_dead c) \<longleftrightarrow>
      cid \<in> fst ` set (living_rows data) - fst ` set (dead_rows data)"
proof -
  obtain f where f: "parse_characters f data = Inr (sn_characters s)"
    and flag: "\<And>is_dead i r c. f is_dead i r = Inr c \<Longrightarrow> cs_is_dead c = is_dead"
    using parse_save_InrD(1) [OF assms] parse_character_id(2) by blast
  from f obtain living dead where cs: "sn_characters s = build_table (living @ dead)"
    and living: "list_all2 (\<lambda>(i, r) (j, c). j = i \<and> f False i r = Inr c) (living_rows data) living"
    and dead: "list_all2 (\<lambda>(i, r) (j, c). j = i \<and> f True i r = Inr c) (dead_rows data) dead"
    by (rule parse_characters_table)
  have keys: "fst ` set living = fst ` set (living_rows data)" "fst ` set dead = fst ` set (dead_rows data)"
    using rows_keys [OF living] rows_keys [OF dead] by (metis list.set_map)+
  have "cs_is_dead c" if "dict_get (build_table dead) cid = Some c" for c
    using rows_elem [OF dead build_table_SomeD [OF that]] flag by blast
  moreover have "\<not> cs_is_dead c" if "dict_get (build_table living) cid = Some c" for c
    using rows_elem [OF living build_table_SomeD [OF that]] flag by blast
  ultimately show "(\<exists>c. dict_get (sn_characters s) cid = Some c \<and> cs_is_dead c) \<longleftrightarrow>
      cid \<in> fst ` set (dead_rows data)"
    "(\<exists>c. dict_get (sn_characters s) cid = Some c \<and> \<not> cs_is_dead c) \<longleftrightarrow>
      cid \<in> fst ` set (living_rows data) - fst ` set (dead_rows data)"
    using build_table_None [of living cid] build_table_None [of dead cid]
    unfolding cs build_table_append keys by (cases "dict_get (build_table dead) cid"; force)+
qed

section \<open>The order of sets does not show\<close>

lemma parse_save_order:
  assumes "set_order i1" and "set_order i2"
    and "parse_save repr names i1 data = Inr s" and "parse_save repr names i2 data = Inr t"
  shows "t = s\<lparr>sn_character_to_wars := sn_character_to_wars t,
      sn_character_to_epidemics := sn_character_to_epidemics t,
      sn_character_to_activities := sn_character_to_activities t\<rparr>"
    and "watched sn_character_to_wars cid t = watched sn_character_to_wars cid s"
    and "watched sn_character_to_epidemics cid t = watched sn_character_to_epidemics cid s"
    and "watched sn_character_to_activities cid t = watched sn_character_to_activities cid s"
proof -
  have tables: "fst (parse_wars i1 data) = fst (parse_wars i2 data)"
    "fst (parse_epidemics i1 data) = fst (parse_epidemics i2 data)"
    "fst (parse_activities i1 data) = fst (parse_activities i2 data)"
    by (simp_all add: parse_wars_def parse_epidemics_def parse_activities_def Let_def)
  show "t = s\<lparr>sn_character_to_wars := sn_character_to_wars t,
      sn_character_to_epidemics := sn_character_to_epidemics t,
      sn_character_to_activities := sn_character_to_activities t\<rparr>"
    using assms(3,4) by (auto simp: parse_save_def bindr_eq_Inr Let_def case_prod_beta tables)
  note order = index_by_iter [OF assms(1,2)]
  note s = parse_save_InrD [OF assms(3)] and t = parse_save_InrD [OF assms(4)]
  show "watched sn_character_to_wars cid t = watched sn_character_to_wars cid s"
    using s(4) t(4) order [of "\<lambda>_. []" "\<lambda>w. war_attacker_participants w |\<union>| war_defender_participants w"
        "war_rows data" cid]
    by (simp add: watched_def parse_wars_def Let_def war_owners_def [abs_def])
  show "watched sn_character_to_epidemics cid t = watched sn_character_to_epidemics cid s"
    using s(5) t(5) order [of "\<lambda>_. []" affected "iter_db_records data [''epidemics'', ''database'']" cid]
    by (simp add: watched_def parse_epidemics_def Let_def)
  show "watched sn_character_to_activities cid t = watched sn_character_to_activities cid s"
    using s(6) t(6) order [of "\<lambda>a. case act_host_id a of None \<Rightarrow> [] | Some host \<Rightarrow> [host]" act_attendees
        "activity_rows data" cid]
    by (simp add: watched_def parse_activities_def Let_def activity_owners_def [abs_def])
qed

end
