(* ===== verification/Raw_Record.thy ===== *)
theory Raw_Record
  imports Parse_Facts
begin

text \<open>
  \<open>save/raw_record.py\<close>: one character's raw record, trimmed and with names and traits written
  out, for the narrative layer.
\<close>

section \<open>Operations\<close>

definition RAW_RECORD_DROP_FIELDS :: "string list" where
  "RAW_RECORD_DROP_FIELDS = [''dna'', ''first_name'', ''nickname_text'', ''female'']"

definition FAMILY_CHAR_ID_KEYS :: "string list" where
  "FAMILY_CHAR_ID_KEYS = [''mother'', ''father'', ''primary_spouse'', ''spouse'', ''former_spouses'',
     ''concubinist'', ''concubine'', ''child'', ''betrothed'']"

text \<open>\<open>collection.get(key)\<close>, for a collection that is a dictionary.\<close>

definition entry_in :: "json \<Rightarrow> string \<Rightarrow> obj option" where
  "entry_in collection key =
     (case collection of JObj d \<Rightarrow> character_entry (get d key) | _ \<Rightarrow> None)"

definition lookup_character_record :: "obj \<Rightarrow> int \<Rightarrow> obj option" where
  "lookup_character_record data ck3_id =
     (let key = show_int ck3_id;
          prunable = (case get data ''characters'' of
            JObj d \<Rightarrow> get d ''dead_prunable'' | _ \<Rightarrow> JNull)
      in case List.map_filter (\<lambda>c. entry_in c key)
           [get data ''living'', get data ''dead_unprunable'', prunable] of
         [] \<Rightarrow> None | raw # _ \<Rightarrow> Some raw)"

definition trait_label :: "string list \<Rightarrow> json \<Rightarrow> string option" where
  "trait_label traits_lookup v =
     map_option (\<lambda>tid. if 0 \<le> tid \<and> tid < int (length traits_lookup)
         then traits_lookup ! nat tid else ''trait_'' @ py_str (\<lambda>_. []) v)
       (int_instance v)"

text \<open>\<open>None\<close> when there is nothing to decode.\<close>

definition decode_traits :: "json \<Rightarrow> string list \<Rightarrow> string list option" where
  "decode_traits traits_value traits_lookup =
     (let labels = (case traits_value of
          JArr xs \<Rightarrow> List.map_filter (trait_label traits_lookup) xs
        | v \<Rightarrow> (case trait_label traits_lookup v of None \<Rightarrow> [] | Some l \<Rightarrow> [l]))
      in if labels = [] then None else Some labels)"

definition named :: "(int, string) dict \<Rightarrow> json \<Rightarrow> json" where
  "named name_lookup v =
     (case int_instance v of
        None \<Rightarrow> v
      | Some i \<Rightarrow> JObj [(''id'', v),
          (''name'', case dict_get name_lookup i of None \<Rightarrow> JNull | Some n \<Rightarrow> JStr n)])"

definition resolve_family_names :: "obj \<Rightarrow> (int, string) dict \<Rightarrow> obj" where
  "resolve_family_names family name_lookup =
     map (\<lambda>(k, v). (k,
       if k \<notin> set FAMILY_CHAR_ID_KEYS then v
       else case v of JArr xs \<Rightarrow> JArr (map (named name_lookup) xs) | _ \<Rightarrow> named name_lookup v)) family"

definition extract_character_record ::
  "obj \<Rightarrow> int \<Rightarrow> (int, string) dict option \<Rightarrow> string list option \<Rightarrow> obj option" where
  "extract_character_record data ck3_id name_lookup traits_lookup =
     map_option (\<lambda>raw.
       let out = filter (\<lambda>(k, v). k \<notin> set RAW_RECORD_DROP_FIELDS) raw;
           out = (case get out ''family_data'' of
             JArr _ \<Rightarrow> dict_set out ''family_data'' (JObj []) | _ \<Rightarrow> out);
           out = (case (name_lookup, get out ''family_data'') of
             (Some names, JObj family) \<Rightarrow>
               dict_set out ''family_data'' (JObj (resolve_family_names family names))
           | _ \<Rightarrow> out)
       in case traits_lookup of
            None \<Rightarrow> out
          | Some lookup \<Rightarrow>
              (case decode_traits (get out ''traits'') lookup of
                 None \<Rightarrow> out
               | Some decoded \<Rightarrow> dict_set out ''traits_named'' (JArr (map JStr decoded))))
     (lookup_character_record data ck3_id)"

section \<open>A printed integer is read back\<close>

lemma digit_part_digits: "ds \<noteq> [] \<Longrightarrow> \<forall>c\<in>set ds. is_digit c \<Longrightarrow> digit_part ds = Some ds"
proof (induction ds rule: digit_part.induct)
  case (2 c d s)
  then have "d \<noteq> CHR ''_''" by (auto simp: is_digit_def)
  with 2 show ?case by simp
qed simp_all

lemma digit_char_class: "is_digit c \<Longrightarrow> \<not> is_space c \<and> c \<noteq> CHR ''-'' \<and> c \<noteq> CHR ''+''"
  by (auto simp: is_digit_def is_space_def Let_def)

lemma trim_id: "\<forall>c\<in>set s. \<not> is_space c \<Longrightarrow> trim s = s"
proof -
  have keep: "dropWhile is_space t = t" if "\<forall>c\<in>set t. \<not> is_space c" for t
    using that by (cases t) simp_all
  assume "\<forall>c\<in>set s. \<not> is_space c"
  then show ?thesis by (simp add: trim_def keep)
qed

text \<open>The integers whose text Python still reads.\<close>

definition readable :: "int \<Rightarrow> bool" where
  "readable i \<longleftrightarrow> length (show_nat (nat \<bar>i\<bar>)) \<le> 4300"

lemma int_of_show_int:
  assumes "readable i"
  shows "int_of_text (show_int i) = Some i"
proof (cases "i < 0")
  case True
  have "trim (CHR ''-'' # show_nat (nat (- i))) = CHR ''-'' # show_nat (nat (- i))"
    using show_nat_digits [of "nat (- i)"] digit_char_class by (intro trim_id) (auto simp: is_space_def)
  with True assms digit_part_digits [of "show_nat (nat (- i))"] show ?thesis
    by (simp add: int_of_text_def show_int_def readable_def)
next
  case False
  have "trim (show_nat (nat i)) = show_nat (nat i)"
    using show_nat_digits [of "nat i"] digit_char_class by (intro trim_id) auto
  moreover have "sign_of (show_nat (nat i)) = (1, show_nat (nat i))"
    using show_nat_digits [of "nat i"] digit_char_class by (cases "show_nat (nat i)") auto
  ultimately show ?thesis
    using False assms digit_part_digits [of "show_nat (nat i)"]
    by (simp add: int_of_text_def show_int_def readable_def)
qed

section \<open>A record that is found belongs to a parsed character\<close>

lemma entry_in_rows:
  assumes "entry_in bucket (show_int i) = Some raw" and "readable i"
  shows "(i, raw) \<in> set (entry_rows (or_dict bucket))"
proof -
  obtain d where d: "bucket = JObj d" and e: "character_entry (get d (show_int i)) = Some raw"
    using assms(1) by (auto simp: entry_in_def split: json.splits)
  then obtain v where v: "dict_get d (show_int i) = Some v" "character_entry v = Some raw"
    by (cases "dict_get d (show_int i)") (auto simp: get_def)
  from v(1) have "(show_int i, v) \<in> set d" by (rule dict_get_memD)
  moreover from this have "or_dict bucket = JObj d" by (auto simp: or_dict_def d)
  ultimately show ?thesis
    using v(2) int_of_show_int [OF assms(2)] by (force simp: entry_rows_def set_map_filter)
qed

lemma map_filter_hd:
  "List.map_filter f xs = y # ys \<Longrightarrow> \<exists>x\<in>set xs. f x = Some y"
  by (induction xs) (auto split: option.splits)

lemma looked_up_row:
  assumes "lookup_character_record data i = Some raw" and "readable i"
  shows "(i, raw) \<in> set (living_rows data @ dead_rows data)"
proof -
  let ?prunable = "case get data ''characters'' of JObj d \<Rightarrow> get d ''dead_prunable'' | _ \<Rightarrow> JNull"
  from assms(1) obtain ys where "List.map_filter (\<lambda>c. entry_in c (show_int i))
      [get data ''living'', get data ''dead_unprunable'', ?prunable] = raw # ys"
    by (auto simp: lookup_character_record_def Let_def simp del: map_filter_simps split: list.splits)
  from map_filter_hd [OF this] obtain c where c: "entry_in c (show_int i) = Some raw"
    and "c \<in> {get data ''living'', get data ''dead_unprunable'', ?prunable}"
    by auto
  then consider "c = get data ''living''" | "c = get data ''dead_unprunable''" | "c = ?prunable"
    by blast
  then show ?thesis
  proof cases
    case 3
    with c obtain d where d: "get data ''characters'' = JObj d" "c = get d ''dead_prunable''"
      by (cases "get data ''characters''") (auto simp: entry_in_def)
    with c have "d \<noteq> []" by (auto simp: get_def entry_in_def)
    with d entry_in_rows [OF c assms(2)] show ?thesis by (simp add: dead_rows_def or_dict_def)
  qed (use entry_in_rows [OF c assms(2)] in \<open>simp_all add: living_rows_def dead_rows_def\<close>)
qed

lemma looked_up_parsed:
  assumes "lookup_character_record data i = Some raw" and "readable i"
    and "parse_save repr names iter data = Inr s"
  shows "dict_get (sn_characters s) i \<noteq> None"
proof -
  have "i \<in> fst ` set (living_rows data) \<union> fst ` set (dead_rows data)"
    using looked_up_row [OF assms(1,2)] by force
  then have "(\<exists>c. dict_get (sn_characters s) i = Some c \<and> cs_is_dead c)
      \<or> (\<exists>c. dict_get (sn_characters s) i = Some c \<and> \<not> cs_is_dead c)"
    unfolding parsed_character [OF assms(3)] by blast
  then show ?thesis by auto
qed

text \<open>The dropped fields are gone from the extracted record.\<close>

lemma get_filter_dropped: "k \<in> set RAW_RECORD_DROP_FIELDS \<Longrightarrow>
  dict_get (filter (\<lambda>(k, v). k \<notin> set RAW_RECORD_DROP_FIELDS) raw) k = None"
  by (induction raw) auto

lemma extracted_dropped:
  assumes "extract_character_record data i names traits = Some out" and "k \<in> set RAW_RECORD_DROP_FIELDS"
  shows "dict_get out k = None"
proof -
  have k: "k \<noteq> ''family_data''" "k \<noteq> ''traits_named''"
    using assms(2) by (auto simp: RAW_RECORD_DROP_FIELDS_def)
  have set_fam: "dict_get (case v of JArr _ \<Rightarrow> dict_set out ''family_data'' w | _ \<Rightarrow> out) k = dict_get out k"
    for v w out using k by (cases v) simp_all
  have set_names: "dict_get (case (ns, v) of (Some names, JObj family) \<Rightarrow>
      dict_set out ''family_data'' (w names family) | _ \<Rightarrow> out) k = dict_get out k" for ns v w out
    using k by (cases ns; cases v) simp_all
  have set_traits: "dict_get (case ts of None \<Rightarrow> out | Some lookup \<Rightarrow>
      (case x lookup of None \<Rightarrow> out | Some decoded \<Rightarrow> dict_set out ''traits_named'' (w decoded))) k =
      dict_get out k" for ts x w out
    using k by (simp split: option.split)
  obtain raw where "out = (let out = filter (\<lambda>(k, v). k \<notin> set RAW_RECORD_DROP_FIELDS) raw;
           out = (case get out ''family_data'' of
             JArr _ \<Rightarrow> dict_set out ''family_data'' (JObj []) | _ \<Rightarrow> out);
           out = (case (names, get out ''family_data'') of
             (Some names, JObj family) \<Rightarrow>
               dict_set out ''family_data'' (JObj (resolve_family_names family names))
           | _ \<Rightarrow> out)
       in case traits of
            None \<Rightarrow> out
          | Some lookup \<Rightarrow>
              (case decode_traits (get out ''traits'') lookup of
                 None \<Rightarrow> out
               | Some decoded \<Rightarrow> dict_set out ''traits_named'' (JArr (map JStr decoded))))"
    using assms(1) unfolding extract_character_record_def by blast
  then show ?thesis
    by (simp only: Let_def set_traits set_names set_fam get_filter_dropped [OF assms(2)])
qed

end
