(* ===== verification/Demo_Parse.thy ===== *)
theory Demo_Parse
  imports Raw_Record
begin

text \<open>
  Small save files on which the properties of the parser are exercised: two consecutive saves
  with one living and one dead character, a war that ends, an artifact and three titles; and a
  hierarchy of scripted titles that can be written in two orders.
\<close>

definition demo_repr :: "json \<Rightarrow> string" where
  "demo_repr v = ''?''"

definition demo_character :: "string \<Rightarrow> json" where
  "demo_character name = JObj [(''first_name'', JStr name), (''birth'', JStr ''1040.5.2'')]"

definition demo_title :: "string \<Rightarrow> (string \<times> json) list \<Rightarrow> json" where
  "demo_title key extra = JObj ((''key'', JStr key) # extra)"

definition demo_titles_section :: json where
  "demo_titles_section = JObj [(''landed_titles'', JObj
     [(''1'', demo_title ''e_britannia'' [(''holder'', JInt 1)]),
      (''2'', demo_title ''x_script_isles'' [(''holder'', JInt 1), (''de_jure_liege'', JInt 1)]),
      (''3'', demo_title ''d_orkney'' [(''de_jure_liege'', JInt 2)])])]"

definition demo_wars_section :: json where
  "demo_wars_section = JObj [(''active_wars'', JObj
     [(''50'', JObj [(''name'', JStr ''The War''),
        (''attacker'', JObj [(''participants'', JArr [JObj [(''character'', JInt 1)]])])]),
      (''51'', JStr ''none'')])]"

definition demo_data :: "bool \<Rightarrow> obj" where
  "demo_data war =
    [(''meta_data'', JObj [(''version'', JStr ''1.19''), (''meta_date'', JStr ''1066.1.1'')]),
     (''playthrough_id'', JStr ''run''),
     (''living'', JObj [(''1'', demo_character ''Alice''), (''2'', demo_character ''Bob'')]),
     (''dead_unprunable'', JObj [(''2'', JArr [demo_character ''Bob'', demo_character ''Bob''])]),
     (''landed_titles'', demo_titles_section),
     (''artifacts'', JObj [(''artifacts'', JObj
        [(''9'', JObj [(''name'', JStr ''Sword''), (''owner'', JInt 1)])])])]
     @ (if war then [(''wars'', demo_wars_section)] else [])"

lemma demo_fields:
  "get (demo_data war) ''meta_data'' = JObj [(''version'', JStr ''1.19''), (''meta_date'', JStr ''1066.1.1'')]"
  "get (demo_data war) ''living'' = JObj [(''1'', demo_character ''Alice''), (''2'', demo_character ''Bob'')]"
  "get (demo_data war) ''dead_unprunable'' = JObj [(''2'', JArr [demo_character ''Bob'', demo_character ''Bob''])]"
  "get (demo_data war) ''landed_titles'' = demo_titles_section"
  "get (demo_data war) ''characters'' = JNull" "get (demo_data war) ''relations'' = JNull"
  "get (demo_data war) ''religion'' = JNull" "get (demo_data war) ''culture_manager'' = JNull"
  "get (demo_data war) ''character_memory_manager'' = JNull"
  "get (demo_data war) ''playthrough_id'' = JStr ''run''" "get (demo_data war) ''dynasties'' = JNull"
  "get (demo_data war) ''artifacts'' = JObj [(''artifacts'', JObj
        [(''9'', JObj [(''name'', JStr ''Sword''), (''owner'', JInt 1)])])]"
  by (simp_all add: demo_data_def)

lemma demo_ints:
  "int_of_text ''1'' = Some 1" "int_of_text ''2'' = Some 2" "int_of_text ''3'' = Some 3"
  "int_of_text ''9'' = Some 9" "int_of_text ''50'' = Some 50" "int_of_text ''51'' = Some 51"
  by (simp_all add: int_of_text_def trim_def is_space_def is_digit_def parse_nat_def digit_val_def)

lemma demo_digit: "show_int 1 = ''1''"
  by code_simp

lemma demo_entries:
  "living_rows (demo_data war) =
     [(1, [(''first_name'', JStr ''Alice''), (''birth'', JStr ''1040.5.2'')]),
      (2, [(''first_name'', JStr ''Bob''), (''birth'', JStr ''1040.5.2'')])]"
  "dead_rows (demo_data war) = [(2, [(''first_name'', JStr ''Bob''), (''birth'', JStr ''1040.5.2'')])]"
  by (simp_all add: living_rows_def dead_rows_def demo_fields or_dict_def entry_rows_def demo_ints
      demo_character_def)

lemma demo_parses: "\<exists>s. parse_save demo_repr names iter (demo_data war) = Inr s"
proof -
  have "\<not> bad_sections (demo_data war)"
    by (simp add: bad_sections_def demo_fields or_dict_def is_obj_def)
  moreover have "\<not> (\<exists>raw\<in>character_records (demo_data war). bad_names raw)"
    by (simp add: character_records_rows demo_entries bad_names_def)
  moreover have "\<not> (\<exists>(aid, raw)\<in>set (iter_db_records (demo_data war) [''artifacts'', ''artifacts'']).
      bad_artifact_name (get raw ''name''))"
    by (simp add: iter_db_records_def demo_fields or_dict_def int_rows_def demo_ints
        bad_artifact_name_def)
  moreover have "\<not> (\<exists>raw\<in>living_records (demo_data war). bad_balances raw)"
    by (simp add: living_records_def demo_entries [unfolded living_rows_def] bad_balances_def)
  moreover have "\<not> (\<exists>(did, raw)\<in>set (iter_db_records (demo_data war) [''dynasties'', ''dynasties'']). bad_renown raw)"
    by (simp add: iter_db_records_def demo_fields or_dict_def int_rows_def)
  ultimately show ?thesis
    using parse_save_Inl [of demo_repr names iter "demo_data war"]
    by (cases "parse_save demo_repr names iter (demo_data war)") auto
qed

definition demo_save :: "bool \<Rightarrow> save_snapshot" where
  "demo_save war = projr (parse_save demo_repr [] py_sorted (demo_data war))"

lemma demo_parsed: "parse_save demo_repr [] py_sorted (demo_data war) = Inr (demo_save war)"
  using demo_parses [of "[]" py_sorted war] by (auto simp: demo_save_def)

lemma demo_run: "sn_playthrough_id (demo_save war) = ''run''"
  by (simp add: parse_save_InrD(12) [OF demo_parsed] resolve_playthrough_id_def opt_str_def demo_fields)

lemma demo_alive: "\<exists>c. dict_get (sn_characters (demo_save war)) 1 = Some c \<and> \<not> cs_is_dead c"
  unfolding parsed_character(2) [OF demo_parsed] by (simp add: demo_entries)

section \<open>A scripted kingdom, its scripted duchy and a duchy\<close>

definition isles_row :: "string \<times> json" where
  "isles_row = (''1'', demo_title ''x_isles'' [(''de_jure_vassals'', JArr [JInt 2, JInt 3])])"

definition march_row :: "string \<times> json" where
  "march_row = (''2'', demo_title ''x_march'' [(''de_jure_liege'', JInt 1)])"

definition orkney_row :: "string \<times> json" where
  "orkney_row = (''3'', demo_title ''d_orkney'' [(''de_jure_liege'', JInt 1)])"

definition titles_data :: "(string \<times> json) list \<Rightarrow> obj" where
  "titles_data rows = [(''landed_titles'', JObj [(''landed_titles'', JObj rows)])]"

end
