(* ===== verification/Diff_Order.thy ===== *)
theory Diff_Order
  imports Diff Character_Facts
begin

text \<open>
  The diff as a whole: it fails only as documented, it does not depend on the order in which the
  interpreter iterates its sets, a tracked filter selects from the unfiltered result, and the
  dead are silent but for their death, their family, their memories and their titles.
\<close>

section \<open>Failure\<close>

lemma diff_titles_error: "diff_titles cid prev cur date = Inl e \<Longrightarrow> e = KeyError"
proof -
  have "title_gained cid pt ct date tid = Inl e \<Longrightarrow> e = KeyError"
    and "title_lost cid pt ct date tid = Inl e \<Longrightarrow> e = KeyError" for pt ct tid
    by (auto simp: title_gained_def title_lost_def dict_item_def bindr_def Let_def
        split: option.splits)
  then show "diff_titles cid prev cur date = Inl e \<Longrightarrow> e = KeyError"
    by (auto simp: diff_titles_def Let_def bindr_def split: sum.splits if_splits
        dest!: concat_mapr_InlD)
qed

lemma character_events_error:
  "character_events key_order prev cur f pid cid = Inl e \<Longrightarrow> e = KeyError"
  by (auto simp: character_events_def pair_events_def Let_def bindr_def
      split: option.splits sum.splits if_splits dest: diff_titles_error)

lemma diff_snapshots_error:
  assumes "diff_snapshots id_order key_order prev cur tf = Inl e"
  shows "e = (if same_playthrough prev cur then KeyError else ValueError)"
  using assms character_events_error
  by (auto simp: diff_snapshots_def same_playthrough_def Let_def bindr_def
      split: sum.splits if_splits dest!: concat_mapr_InlD)

lemma diff_snapshots_ValueError:
  "diff_snapshots id_order key_order prev cur tf = Inl ValueError \<longleftrightarrow> \<not> same_playthrough prev cur"
proof
  assume "diff_snapshots id_order key_order prev cur tf = Inl ValueError"
  from diff_snapshots_error [OF this] show "\<not> same_playthrough prev cur" by (auto split: if_splits)
qed (auto simp: diff_snapshots_def same_playthrough_def)

lemma diff_snapshots_same:
  "diff_snapshots id_order key_order s s tf = Inr []"
proof -
  let ?g = "character_events key_order s s (tf \<noteq> None)
    (trait_id_by_name PREGNANT_TRAIT_NAME (sn_traits_lookup s))"
  have "?g cid = Inr []" for cid
  proof (cases "dict_get (sn_characters s) cid")
    case (Some c)
    have "concat (map (\<lambda>differ. differ cid c s s (sn_current_date s)) STREAM_DIFFERS) = []"
      using STREAM_DIFFERS_idle by simp
    with Some show ?thesis
      by (simp add: character_events_def pair_events_def Let_def diff_titles_idle
          diff_one_character_idle trts.emit_idle concs.emit_idle mods.emit_idle perks.emit_idle
          commits.emit_idle misc.emit_idle [simplified] state.emit_idle)
  qed (simp add: character_events_def)
  then have "concat_mapr ?g (id_order (diff_ids s s tf)) = Inr []"
    by (intro concat_mapr_Inr [where g = "\<lambda>_. []", THEN trans]) (simp_all add: concat_eq_Nil_conv)
  then show ?thesis by (simp add: diff_snapshots_def)
qed

section \<open>Order independence\<close>

lemma character_total_key_order:
  assumes "set_order k1" and "set_order k2" and "wf_snapshot prev" and "wf_snapshot cur"
  shows "character_total k1 prev cur f cid = character_total k2 prev cur f cid"
  using lifestyle_commits_spec [OF assms(1)] lifestyle_commits_spec [OF assms(2)]
  by (cases "dict_get (sn_characters cur) cid"; cases "dict_get (sn_characters prev) cid")
    (simp_all add: character_total_simps pair_total_eq [OF assms(3,4)])

lemma diff_snapshots_order:
  assumes "set_order i1" and "set_order i2" and "set_order k1" and "set_order k2"
    and wf: "wf_snapshot prev" "wf_snapshot cur"
  shows "diff_snapshots i1 k1 prev cur tf = diff_snapshots i2 k2 prev cur tf"
proof (cases "same_playthrough prev cur")
  case False
  then show ?thesis by (auto simp: diff_snapshots_def same_playthrough_def)
next
  case True
  let ?ids = "diff_ids prev cur tf" and ?g = "character_total k2 prev cur (tf \<noteq> None)"
  have "sort_key event_key (concat (map ?g (i1 ?ids))) = sort_key event_key (concat (map ?g (i2 ?ids)))"
  proof (rule sort_key_concat_order [where grp = fst])
    show "distinct (i1 ?ids)" "distinct (i2 ?ids)" "set (i1 ?ids) = set (i2 ?ids)"
      by (simp_all add: set_order.iter_distinct [OF assms(1)] set_order.iter_distinct [OF assms(2)]
          set_order.iter_set [OF assms(1)] set_order.iter_set [OF assms(2)])
    show "fst (event_key e) = cid" if "e \<in> set (?g cid)" for cid e
      using stream_okD(1) [OF character_total_ok [OF wf] that] by (simp add: event_key_def)
  qed
  moreover have "character_total k1 prev cur (tf \<noteq> None) = ?g"
    by (rule ext) (rule character_total_key_order [OF assms(3,4) wf])
  ultimately show ?thesis
    unfolding diff_snapshots_total [OF wf True] by simp
qed

section \<open>The tracked filter\<close>

lemma concat_map_support:
  assumes "\<And>x. x \<in> set xs \<Longrightarrow> x \<notin> A \<Longrightarrow> g x = []"
  shows "concat (map g xs) = concat (map g (filter (\<lambda>x. x \<in> A) xs))"
  using assms by (induction xs) auto

lemma filter_concat_own:
  assumes "\<And>i x. x \<in> set (g i) \<Longrightarrow> own x = i"
  shows "filter (\<lambda>x. own x \<in> A) (concat (map g is)) = concat (map g (filter (\<lambda>i. i \<in> A) is))"
proof (induction "is")
  case (Cons i "is")
  have "filter (\<lambda>x. own x \<in> A) (g i) = (if i \<in> A then g i else [])"
    using assms by (auto simp: filter_empty_conv intro!: filter_True)
  with Cons show ?case by simp
qed simp

text \<open>
  What tracking adds is only the missed deaths; where every tracked character was known before,
  the filtered diff is the selection of the full one.
\<close>

lemma diff_snapshots_tracked:
  assumes ord: "set_order id_order" and wf: "wf_snapshot prev" "wf_snapshot cur"
    and same: "same_playthrough prev cur"
    and known: "\<And>cid. cid |\<in>| T \<Longrightarrow> dict_get (sn_characters cur) cid \<noteq> None \<Longrightarrow>
      dict_get (sn_characters prev) cid \<noteq> None"
    and full: "diff_snapshots id_order key_order prev cur None = Inr out"
  shows "diff_snapshots id_order key_order prev cur (Some T) =
    Inr (filter (\<lambda>e. de_c e |\<in>| T) out)"
proof -
  let ?all = "diff_ids prev cur None"
  let ?g = "character_total key_order prev cur False" and ?h = "character_total key_order prev cur True"
  have own: "de_c e = i" if "e \<in> set (?g i)" for e i
    using stream_okD(1) [OF character_total_ok [OF wf] that] .
  have gh: "?h cid = ?g cid" if "cid |\<in>| T" for cid
    using known [OF that]
    by (cases "dict_get (sn_characters cur) cid"; cases "dict_get (sn_characters prev) cid")
      (simp_all add: character_total_simps)
  have outside: "?g cid = []" if "cid |\<notin>| ?all" for cid
    using that by (simp add: diff_ids_def fmember_dict_keys character_total_simps)
  have "filter (\<lambda>e. de_c e |\<in>| T) out =
      sort_key event_key (filter (\<lambda>e. de_c e |\<in>| T) (concat (map ?g (id_order ?all))))"
    using full unfolding diff_snapshots_total [OF wf same] by (auto simp: filter_sort)
  also have "\<dots> = sort_key event_key (concat (map ?g (filter (\<lambda>i. i |\<in>| T) (id_order ?all))))"
    by (simp add: filter_concat_own [of ?g de_c "fset T", OF own])
  also have "\<dots> = sort_key event_key (concat (map ?g (filter (\<lambda>i. i |\<in>| ?all) (id_order T))))"
    using own by (intro sort_key_concat_order [where grp = fst])
      (auto simp: event_key_def set_order.iter_set [OF ord] set_order.iter_distinct [OF ord])
  also have "\<dots> = sort_key event_key (concat (map ?g (id_order T)))"
    using outside by (subst concat_map_support [of "id_order T" "fset ?all" ?g]) auto
  also have "map ?g (id_order T) = map ?h (id_order T)"
    using gh by (simp add: set_order.iter_set [OF ord])
  finally show ?thesis
    using diff_snapshots_total [OF wf same] by (simp add: diff_ids_def)
qed

section \<open>The dead\<close>

definition dead_types :: "string list" where
  "dead_types = [''death'', ''marriage'', ''divorce'', ''vanilla_memory'', ''decision_taken'']
     @ title_types"

lemma diff_one_character_dead:
  assumes "cs_is_dead c"
  shows "stream_ok (cs_ck3_id c) dead_types (diff_one_character p c date characters mems)"
  using assms by (auto simp: diff_one_character_def stream_defs dead_types_def Let_def
      split: option.split)

lemma character_total_dead:
  assumes wf: "wf_snapshot prev" "wf_snapshot cur"
    and c: "dict_get (sn_characters cur) cid = Some c" and "cs_is_dead c"
  shows "stream_ok cid dead_types (character_total key_order prev cur f cid)"
proof -
  have id: "cs_ck3_id c = cid" using wf_charactersD [OF wf_snapshotD(1) [OF wf(2)] c] .
  have one: "stream_ok cid dead_types (diff_one_character p c date characters mems)"
    for p date characters mems
    using diff_one_character_dead [OF assms(4)] unfolding id .
  have titles: "stream_ok cid dead_types (titles_total cid prev cur date)" for date
    using diff_titles_ok [OF diff_titles_total [OF wf]]
    by (rule stream_ok_mono) (auto simp: dead_types_def)
  have death: "stream_ok cid dead_types [make_death c date]" for date
    using make_death_ok [of c] unfolding id by (rule stream_ok_mono) (simp add: dead_types_def)
  have silent: "concat (map (\<lambda>differ. differ cid c prev cur date) STREAM_DIFFERS) = []" for date
    using STREAM_DIFFERS_dead assms(4) by simp
  show ?thesis
    by (cases "dict_get (sn_characters prev) cid")
      (simp_all add: character_total_simps c pair_total_eq [OF wf] one titles death silent
        trts.emit_dead concs.emit_dead mods.emit_dead perks.emit_dead commits.emit_dead
        misc.emit_dead [simplified] state.emit_dead assms(4) del: stream_ok_Cons)
qed


text \<open>The events of one character in the result are those of its turn of the loop.\<close>

lemma diff_snapshots_own:
  assumes "set_order id_order" and wf: "wf_snapshot prev" "wf_snapshot cur"
    and "diff_snapshots id_order key_order prev cur tf = Inr out"
  shows "filter (\<lambda>e. de_c e = cid) out = (if cid |\<in>| diff_ids prev cur tf
    then sort_key event_key (character_total key_order prev cur (tf \<noteq> None) cid) else [])"
proof -
  let ?g = "character_total key_order prev cur (tf \<noteq> None)"
  let ?ids = "id_order (diff_ids prev cur tf)"
  have own: "de_c e = i" if "e \<in> set (?g i)" for e i
    using stream_okD(1) [OF character_total_ok [OF wf] that] .
  have "same_playthrough prev cur"
    using assms(4) by (auto simp: diff_snapshots_def same_playthrough_def split: if_splits)
  then have "out = sort_key event_key (concat (map ?g ?ids))"
    using diff_snapshots_total [OF wf] assms(4) by auto
  then have "filter (\<lambda>e. de_c e = cid) out =
      sort_key event_key (filter (\<lambda>e. de_c e = cid) (concat (map ?g ?ids)))"
    by (simp add: filter_sort)
  also have "filter (\<lambda>e. de_c e = cid) (concat (map ?g ?ids)) =
      (if cid \<in> set ?ids then filter (\<lambda>e. de_c e = cid) (?g cid) else [])"
    using own set_order.iter_distinct [OF assms(1)]
    by (intro filter_concat_group [where grp = de_c]) auto
  also have "filter (\<lambda>e. de_c e = cid) (?g cid) = ?g cid"
    using own by simp
  finally show ?thesis by (simp add: set_order.iter_set [OF assms(1)])
qed

lemma first_observed_dead:
  assumes "set_order id_order" and wf: "wf_snapshot prev" "wf_snapshot cur"
    and "diff_snapshots id_order key_order prev cur tf = Inr out"
    and "dict_get (sn_characters prev) cid = None" and "dict_get (sn_characters cur) cid = Some c"
    and "cs_is_dead c"
  shows "filter (\<lambda>e. de_c e = cid) out =
    (if \<exists>T. tf = Some T \<and> cid |\<in>| T then [make_death c (sn_current_date cur)] else [])"
  using assms(5-7)
  by (cases tf) (simp_all add: diff_snapshots_own [OF assms(1-4)] character_total_simps diff_ids_def)

lemma dead_event_types:
  assumes "set_order id_order" and wf: "wf_snapshot prev" "wf_snapshot cur"
    and "diff_snapshots id_order key_order prev cur tf = Inr out"
    and "dict_get (sn_characters cur) cid = Some c" and "cs_is_dead c"
    and "e \<in> set out" and "de_c e = cid"
  shows "de_t e \<in> set dead_types"
proof -
  have "e \<in> set (filter (\<lambda>e. de_c e = cid) out)" using assms(7,8) by simp
  then have "e \<in> set (character_total key_order prev cur (tf \<noteq> None) cid)"
    unfolding diff_snapshots_own [OF assms(1-4)] by (simp split: if_splits)
  then show ?thesis
    using stream_okD(2) [OF character_total_dead [OF wf assms(5,6)]] by blast
qed

end
