(* ===== verification/Demo.thy ===== *)
theory Demo
  imports Diff_Runs Diff_Order
begin

text \<open>
  Three small consecutive saves of one playthrough on which the properties are exercised. Alice
  (1) holds the kingdom of England and is allied with Bob (2); in the second save she has broken
  with him, allied with Carol (3), lost England to Bob, founded the county of Kent, declared war
  on him, acquired a sword, learnt a trait and a perk, and taken a spouse; in the third she is
  dead.
\<close>

definition demo_england :: "int \<Rightarrow> title_snapshot" where
  "demo_england holder = \<lparr>tit_title_id = 100, tit_key = ''k_england'', tit_name = Some ''England'',
     tit_tier = ''kingdom'', tit_holder_id = Some holder, tit_de_jure_liege_id = None\<rparr>"

definition demo_kent :: title_snapshot where
  "demo_kent = \<lparr>tit_title_id = 101, tit_key = ''c_kent'', tit_name = None,
     tit_tier = ''county'', tit_holder_id = Some 1, tit_de_jure_liege_id = Some 100\<rparr>"

definition demo_war :: war_snapshot where
  "demo_war = \<lparr>war_war_id = 50, war_name = Some ''The War'', war_start_date = Some ''1066.3.1'',
     war_casus_belli_type = Some ''claim_cb'', war_targeted_titles = [100],
     war_primary_attacker_id = Some 1, war_primary_defender_id = Some 2, war_claimant_id = None,
     war_attacker_participants = {|1|}, war_defender_participants = {|2|}\<rparr>"

definition demo_sword :: artifact_snapshot where
  "demo_sword = \<lparr>art_artifact_id = 9, art_name = Some ''Sword'', art_type = Some ''sword'',
     art_rarity = Some ''famed'', art_owner_id = Some 1\<rparr>"

definition demo_alice :: character_snapshot where
  "demo_alice = (new_character 1 (Some ''Alice'') None False True (Some ''1040.5.2'') None
     (Some 1) (Some 1) (Some 7) None [5] empty_family)"

definition demo_alice2 :: character_snapshot where
  "demo_alice2 = demo_alice\<lparr>cs_traits := [5, 6], cs_perks := [''gallant_perk''],
     cs_family := empty_family\<lparr>fam_primary_spouse := Some 4\<rparr>\<rparr>"

definition demo_alice3 :: character_snapshot where
  "demo_alice3 = demo_alice2\<lparr>cs_is_dead := True, cs_death_date := Some ''1067.1.9''\<rparr>"

definition demo_bob :: character_snapshot where
  "demo_bob = new_character 2 (Some ''Bob'') None False False (Some ''1035.1.1'') None
     (Some 1) (Some 1) (Some 8) None [] empty_family"

definition demo1 :: save_snapshot where
  "demo1 = (new_snapshot ''run'' ''1.12'' None ''1066.1.1'' (Some 1))
     \<lparr>sn_characters := [(1, demo_alice), (2, demo_bob)],
      sn_alliances := [(1, {|2|}), (2, {|1|})],
      sn_traits_lookup := [''brave'', ''pregnant''],
      sn_titles := [(100, demo_england 1)], sn_title_holders := [(1, {|100|})]\<rparr>"

definition demo2 :: save_snapshot where
  "demo2 = (new_snapshot ''run'' ''1.12'' None ''1066.6.1'' (Some 1))
     \<lparr>sn_characters := [(1, demo_alice2), (2, demo_bob)],
      sn_alliances := [(1, {|3|})],
      sn_traits_lookup := [''brave'', ''pregnant''],
      sn_titles := [(100, demo_england 2), (101, demo_kent)],
      sn_title_holders := [(2, {|100|}), (1, {|101|})],
      sn_wars := [(50, demo_war)], sn_character_to_wars := [(1, {|50|}), (2, {|50|})],
      sn_artifacts := [(9, demo_sword)], sn_character_to_artifacts := [(1, {|9|})]\<rparr>"

definition demo3 :: save_snapshot where
  "demo3 = demo2\<lparr>sn_current_date := ''1067.2.1'',
     sn_characters := [(1, demo_alice3), (2, demo_bob)]\<rparr>"

lemmas demo_chars = demo_alice_def demo_alice2_def demo_alice3_def demo_bob_def new_character_def
  empty_family_def

lemmas demo_saves = demo1_def demo2_def demo3_def new_snapshot_def

lemmas demo_records = demo_england_def demo_kent_def demo_war_def demo_sword_def

lemma demo_wf: "wf_snapshot demo1" "wf_snapshot demo2" "wf_snapshot demo3"
  by (auto simp: demo_saves demo_chars demo_records wf_snapshot_def wf_characters_def wf_titles_def
      holders_agree_def dict_ok_def dict_get_default_def)

lemma demo_get:
  "dict_get (sn_characters demo1) 1 = Some demo_alice"
  "dict_get (sn_characters demo2) 1 = Some demo_alice2"
  "dict_get (sn_characters demo3) 1 = Some demo_alice3"
  "dict_get (sn_characters demo1) 2 = Some demo_bob"
  "dict_get (sn_characters demo2) 2 = Some demo_bob"
  by (simp_all add: demo_saves)

lemma demo_same: "same_playthrough demo1 demo2" "same_playthrough demo2 demo3"
  by (simp_all add: same_playthrough_def demo_saves)

lemma demo_followed:
  "followed ''run'' None 1 demo1" "followed ''run'' None 1 demo2" "followed ''run'' None 1 demo3"
  "followed ''run'' None 2 demo1" "followed ''run'' None 2 demo2"
  using demo_wf by (simp_all add: followed_def demo_get, simp_all add: demo_saves)

lemma demo_char_at: "char_at demo1 1 = demo_alice" "char_at demo2 1 = demo_alice2"
  "char_at demo3 1 = demo_alice3" "char_at demo1 2 = demo_bob" "char_at demo2 2 = demo_bob"
  by (simp_all add: char_at_def demo_get)

lemmas py_order = sorted_order.set_order_axioms
lemmas rev_order = reverse_order.set_order_axioms

definition demo_diff :: "diff_event list" where
  "demo_diff = projr (diff_snapshots py_sorted py_sorted demo1 demo2 None)"

lemma demo_diffed:
  "diffed py_sorted py_sorted None 1 demo1 demo_alice demo2 demo_alice2 demo_diff"
  "diffed py_sorted py_sorted None 2 demo1 demo_bob demo2 demo_bob demo_diff"
  using followed_diffed [OF py_order py_order demo_followed(1,2)]
    followed_diffed [OF py_order py_order demo_followed(4,5)]
  by (simp_all add: demo_diff_def demo_char_at)

text \<open>Variants: a save in which the death is flagged and not dated, one without a title table,
  one in which Alice changed sides.\<close>

definition demo_undated :: save_snapshot where
  "demo_undated = demo2\<lparr>sn_characters := [(1, demo_alice2\<lparr>cs_is_dead := True\<rparr>), (2, demo_bob)]\<rparr>"

lemma demo_undated_facts:
  "followed ''run'' None 1 demo_undated" "char_at demo_undated 1 = demo_alice2\<lparr>cs_is_dead := True\<rparr>"
proof -
  have "wf_snapshot demo_undated"
    using demo_wf(2) by (simp add: demo_undated_def wf_snapshot_def wf_characters_def wf_titles_def
        holders_agree_def demo_saves demo_chars)
  then show "followed ''run'' None 1 demo_undated"
    by (simp add: followed_def) (simp add: demo_undated_def demo_saves)
  show "char_at demo_undated 1 = demo_alice2\<lparr>cs_is_dead := True\<rparr>"
    by (simp add: char_at_def demo_undated_def)
qed

lemma demo_known: "wars_known 1 demo1" "wars_known 1 demo2" "artifacts_known 1 demo1"
  "artifacts_known 1 demo2"
  by (auto simp: wars_known_def artifacts_known_def recorded_def watched_def demo_saves demo_records)

definition demo_bare :: save_snapshot where
  "demo_bare = demo1\<lparr>sn_titles := [], sn_title_holders := []\<rparr>"

definition demo_switched :: save_snapshot where
  "demo_switched = demo2\<lparr>sn_wars := [(50, demo_war\<lparr>war_attacker_participants := {||},
     war_defender_participants := {|1, 2|}, war_primary_attacker_id := None\<rparr>)]\<rparr>"

lemma demo_switched_diffed:
  "diffed py_sorted py_sorted None 1 demo2 demo_alice2 demo_switched demo_alice2
    (projr (diff_snapshots py_sorted py_sorted demo2 demo_switched None))"
proof -
  have "wf_snapshot demo_switched"
    using demo_wf(2) by (simp add: demo_switched_def wf_snapshot_def wf_characters_def wf_titles_def
        holders_agree_def)
  then have "followed ''run'' None 1 demo_switched"
    by (simp add: followed_def, simp add: demo_switched_def demo_saves)
  then show ?thesis
    using followed_diffed [OF py_order py_order demo_followed(2), of demo_switched]
    by (simp add: demo_char_at) (simp add: char_at_def demo_switched_def demo_get)
qed

text \<open>Alice finishes a contract and a castle, and her dynasty gains renown.\<close>

definition demo_contract :: contract_snapshot where
  "demo_contract = \<lparr>ctr_contract_id = 70, ctr_contract_type = Some ''escort'', ctr_name = None,
     ctr_tier = Some 2, ctr_employer_id = Some 2, ctr_owner_id = Some 1,
     ctr_location_province_id = None, ctr_status = ''completed'', ctr_acceptance_date = None,
     ctr_completion_date = None\<rparr>"

definition demo_work :: construction_snapshot where
  "demo_work = \<lparr>con_province_id = 3, con_slot_index = 0, con_building = ''castle'',
     con_start_date = None, con_character_id = Some 1\<rparr>"

definition demo_works :: save_snapshot where
  "demo_works = demo1\<lparr>sn_in_flight_constructions := [((3, 0), demo_work)],
     sn_character_to_constructions := [(1, {|(3, 0)|})]\<rparr>"

definition demo_busy :: save_snapshot where
  "demo_busy = demo2\<lparr>sn_task_contracts := [(70, demo_contract)],
     sn_character_to_contracts := [(1, {|70|})],
     sn_holding_buildings_by_slot := [((3, 0), ''castle'')],
     sn_house_to_dynasty := [(7, 77)], sn_dynasty_renown := [(77, 60000)]\<rparr>"

lemma demo_busy_followed:
  "followed ''run'' None 1 demo_works" "followed ''run'' None 1 demo_busy"
  "char_at demo_works 1 = demo_alice" "char_at demo_busy 1 = demo_alice2"
proof -
  have "wf_snapshot demo_works" "wf_snapshot demo_busy"
    using demo_wf by (simp_all add: demo_works_def demo_busy_def wf_snapshot_def wf_characters_def
        wf_titles_def holders_agree_def)
  then show "followed ''run'' None 1 demo_works" "followed ''run'' None 1 demo_busy"
    by (simp_all add: followed_def, simp_all add: demo_works_def demo_busy_def demo_saves)
qed (simp_all add: char_at_def demo_works_def demo_busy_def demo_get)

lemma demo_busy_diffed:
  "diffed py_sorted py_sorted None 1 demo1 demo_alice demo_busy demo_alice2
     (projr (diff_snapshots py_sorted py_sorted demo1 demo_busy None))"
  using followed_diffed [OF py_order py_order demo_followed(1) demo_busy_followed(2)]
  by (simp add: demo_char_at demo_busy_followed)

lemma demo_works_diffed:
  "diffed py_sorted py_sorted None 1 demo_works demo_alice demo_busy demo_alice2
     (projr (diff_snapshots py_sorted py_sorted demo_works demo_busy None))"
  using followed_diffed [OF py_order py_order demo_busy_followed(1,2)]
  by (simp add: demo_busy_followed)

end
