(* ===== verification/Diff_Laws.thy ===== *)
theory Diff_Laws
  imports Diff_Runs Diff_Order
begin

text \<open>
  The laws of the single streams, stated over the result of a whole diff: when exactly an event
  of each kind appears, and what it carries.
\<close>

section \<open>Members of the result\<close>

lemma events_of_mem:
  "e \<in> set (events_of out cid t) \<longleftrightarrow> e \<in> set out \<and> de_c e = cid \<and> de_t e = t"
  by (auto simp: events_of_def event_key_def)

text \<open>A character with an event in the result, other than a missed death, was compared.\<close>

lemma event_diffed:
  assumes "set_order io" and "set_order ko" and wf: "wf_snapshot prev" "wf_snapshot cur"
    and out: "diff_snapshots io ko prev cur tf = Inr out" and e: "e \<in> set out" "de_t e \<noteq> ''death''"
  obtains p c where "diffed io ko tf (de_c e) prev p cur c out"
proof -
  have "e \<in> set (filter (\<lambda>x. de_c x = de_c e) out)" using e(1) by simp
  then have ids: "de_c e |\<in>| diff_ids prev cur tf"
    and tot: "e \<in> set (character_total ko prev cur (tf \<noteq> None) (de_c e))"
    unfolding diff_snapshots_own [OF assms(1) wf out] by (simp_all split: if_splits)
  obtain c where c: "dict_get (sn_characters cur) (de_c e) = Some c"
    using tot by (cases "dict_get (sn_characters cur) (de_c e)") (simp_all add: character_total_simps)
  have "de_t (make_death c date) = ''death''" for date
    by (simp add: make_death_def Let_def)
  then obtain p where p: "dict_get (sn_characters prev) (de_c e) = Some p"
    using tot c e(2)
    by (cases "dict_get (sn_characters prev) (de_c e)")
      (auto simp: character_total_simps split: if_splits)
  from ids c p assms that show thesis by (simp add: diffed_def)
qed

section \<open>Titles\<close>

lemma titles_total_mem:
  "e \<in> set (titles_total cid prev cur date) \<longleftrightarrow> sn_titles prev \<noteq> [] \<and>
     ((\<exists>tid. tid |\<in>| held_of cur cid |-| held_of prev cid \<and> e = gained_event cid prev cur date tid)
      \<or> (\<exists>tid. tid |\<in>| held_of prev cid |-| held_of cur cid \<and> e = lost_event cid prev cur date tid))"
  by (auto simp: titles_total_def)

lemma title_event_mem:
  assumes "diffed io ko tf cid prev p cur c out" and "de_t e \<in> set title_types" and "de_c e = cid"
  shows "e \<in> set out \<longleftrightarrow> e \<in> set (titles_total cid prev cur (sn_current_date cur))"
  using diffed_titles [OF assms(1,2)] assms(3) events_of_mem [of e out cid "de_t e"] by simp

lemma stale_index_raises_aux:
  assumes "x \<in> set xs" and "f x = Inl e"
  shows "\<exists>e'. concat_mapr f xs = Inl e'"
  using assms by (induction xs) (auto simp: bindr_def split: sum.split)

lemma stale_title_index:
  assumes "set_order id_order" and "same_playthrough prev cur"
    and "cid |\<in>| diff_ids prev cur tf"
    and "dict_get (sn_characters prev) cid \<noteq> None" and "dict_get (sn_characters cur) cid \<noteq> None"
    and "sn_titles prev \<noteq> []"
    and "tid |\<in>| held_of cur cid |-| held_of prev cid" and "dict_get (sn_titles cur) tid = None"
  shows "diff_snapshots id_order key_order prev cur tf = Inl KeyError"
proof -
  let ?pid = "trait_id_by_name PREGNANT_TRAIT_NAME (sn_traits_lookup cur)"
  have "title_gained cid (sn_titles prev) (sn_titles cur) (sn_current_date cur) tid = Inl KeyError"
    using assms(8) by (simp add: title_gained_def dict_item_def)
  then have "\<exists>e. concat_mapr (title_gained cid (sn_titles prev) (sn_titles cur) (sn_current_date cur))
      (py_sorted (held_of cur cid |-| held_of prev cid)) = Inl e"
    using assms(7) by (intro stale_index_raises_aux [of tid]) simp_all
  then obtain e where "diff_titles cid prev cur (sn_current_date cur) = Inl e"
    using assms(6) by (auto simp: diff_titles_def Let_def)
  then have "character_events key_order prev cur (tf \<noteq> None) ?pid cid = Inl e"
    using assms(4,5) by (auto simp: character_events_def pair_events_def Let_def)
  moreover have "cid \<in> set (id_order (diff_ids prev cur tf))"
    using assms(3) by (simp add: set_order.iter_set [OF assms(1)])
  ultimately obtain e' where "concat_mapr (character_events key_order prev cur (tf \<noteq> None) ?pid)
      (id_order (diff_ids prev cur tf)) = Inl e'"
    using stale_index_raises_aux by metis
  then have "diff_snapshots id_order key_order prev cur tf = Inl e'"
    using assms(2) by (auto simp: diff_snapshots_def same_playthrough_def Let_def)
  moreover from diff_snapshots_error [OF this] assms(2) have "e' = KeyError" by simp
  ultimately show ?thesis by simp
qed

lemma title_transfer:
  assumes a: "diffed io ko tf a prev p cur c out" and b: "diffed io ko tf b prev q cur d out"
    and u: "dict_get (sn_titles prev) tid = Some u" "tit_holder_id u = Some a"
    and t: "dict_get (sn_titles cur) tid = Some t" "tit_holder_id t = Some b" and "a \<noteq> b"
  shows "DiffEvent (TitleAcquiredEvent (sn_current_date cur) b
      \<lparr>tap_title_id = tid, tap_title_key = tit_key t, tap_title_name = tit_name t,
       tap_tier = Some (tit_tier t), tap_from_holder_id = Some a\<rparr>) [(''former_holder'', a)] \<in> set out"
    and "DiffEvent (TitleRelinquishedEvent (sn_current_date cur) a
      \<lparr>trelp_title_id = tid, trelp_title_key = tit_key u, trelp_title_name = tit_name u,
       trelp_tier = Some (tit_tier u), trelp_to_holder_id = Some b\<rparr>) [(''new_holder'', b)] \<in> set out"
proof -
  note wf = diffedD(3,4) [OF a]
  have ne: "sn_titles prev \<noteq> []" using u(1) by auto
  have held: "tid |\<in>| held_of cur b |-| held_of prev b" "tid |\<in>| held_of prev a |-| held_of cur a"
    using u t \<open>a \<noteq> b\<close> by (auto simp: held_of_mem [OF wf(1)] held_of_mem [OF wf(2)])
  show "DiffEvent (TitleAcquiredEvent (sn_current_date cur) b
      \<lparr>tap_title_id = tid, tap_title_key = tit_key t, tap_title_name = tit_name t,
       tap_tier = Some (tit_tier t), tap_from_holder_id = Some a\<rparr>) [(''former_holder'', a)] \<in> set out"
    using ne held(1)
    by (subst title_event_mem [OF b])
      (auto simp: titles_total_mem title_types_def gained_event_simps(2) [OF t(1) u(1)] u(2) opt_role_def
        intro!: disjI1 exI [of _ tid])
  show "DiffEvent (TitleRelinquishedEvent (sn_current_date cur) a
      \<lparr>trelp_title_id = tid, trelp_title_key = tit_key u, trelp_title_name = tit_name u,
       trelp_tier = Some (tit_tier u), trelp_to_holder_id = Some b\<rparr>) [(''new_holder'', b)] \<in> set out"
    using ne held(2)
    by (subst title_event_mem [OF a])
      (auto simp: titles_total_mem title_types_def lost_event_simps [OF u(1)] t opt_role_def
        intro!: disjI2 exI [of _ tid])
qed

lemma title_created_mem:
  assumes d: "diffed io ko tf cid prev p cur c out" and ne: "sn_titles prev \<noteq> []"
  shows "DiffEvent (TitleCreatedEvent date cid pl) ps \<in> set out \<longleftrightarrow>
    date = sn_current_date cur \<and> ps = [] \<and> dict_get (sn_titles prev) (tcp_title_id pl) = None
    \<and> (\<exists>t. dict_get (sn_titles cur) (tcp_title_id pl) = Some t \<and> tit_holder_id t = Some cid
         \<and> pl = \<lparr>tcp_title_id = tcp_title_id pl, tcp_title_key = tit_key t,
              tcp_title_name = tit_name t, tcp_tier = Some (tit_tier t)\<rparr>)"
    (is "?e \<in> _ \<longleftrightarrow> ?R")
proof -
  note wf = diffedD(3,4) [OF d]
  let ?date = "sn_current_date cur"
  have lost: "?e \<noteq> lost_event cid prev cur ?date tid" if "tid |\<in>| held_of prev cid" for tid
    using that by (auto simp: held_of_mem [OF wf(1)] lost_event_simps ctor_defs)
  have "?e \<in> set out \<longleftrightarrow>
      (\<exists>tid. tid |\<in>| held_of cur cid |-| held_of prev cid \<and> ?e = gained_event cid prev cur ?date tid)"
    using ne lost by (subst title_event_mem [OF d]) (auto simp: titles_total_mem title_types_def)
  also have "\<dots> \<longleftrightarrow> ?R"
  proof
    assume "\<exists>tid. tid |\<in>| held_of cur cid |-| held_of prev cid \<and> ?e = gained_event cid prev cur ?date tid"
    then obtain tid t where t: "dict_get (sn_titles cur) tid = Some t" "tit_holder_id t = Some cid"
      and e: "?e = gained_event cid prev cur ?date tid"
      by (auto simp: held_of_mem [OF wf(2)])
    show ?R
      using e t gained_event_simps [OF t(1), of prev]
      by (cases "dict_get (sn_titles prev) tid") (auto simp: ctor_defs)
  next
    assume R: ?R
    then obtain t where t: "dict_get (sn_titles cur) (tcp_title_id pl) = Some t"
      "tit_holder_id t = Some cid" and pl: "pl = \<lparr>tcp_title_id = tcp_title_id pl,
        tcp_title_key = tit_key t, tcp_title_name = tit_name t, tcp_tier = Some (tit_tier t)\<rparr>" by blast
    have "?e = gained_event cid prev cur ?date (tcp_title_id pl)"
      using R gained_event_simps(1) [OF t(1), of prev cid ?date] by (subst pl) simp
    moreover have "tcp_title_id pl |\<in>| held_of cur cid |-| held_of prev cid"
      using R t by (simp add: held_of_mem [OF wf(1)] held_of_mem [OF wf(2)])
    ultimately show "\<exists>tid. tid |\<in>| held_of cur cid |-| held_of prev cid
        \<and> ?e = gained_event cid prev cur ?date tid" by blast
  qed
  finally show ?thesis .
qed

lemma no_title_storm_aux:
  assumes "set_order io" and "set_order ko" and "wf_snapshot prev" and "wf_snapshot cur"
    and out: "diff_snapshots io ko prev cur tf = Inr out" and "sn_titles prev = []"
    and e: "e \<in> set out"
  shows "de_t e \<notin> set title_types"
proof
  assume t: "de_t e \<in> set title_types"
  then have "de_t e \<noteq> ''death''" by (auto simp: title_types_def)
  with assms obtain p c where d: "diffed io ko tf (de_c e) prev p cur c out"
    using event_diffed by metis
  have "e \<in> set (titles_total (de_c e) prev cur (sn_current_date cur))"
    using title_event_mem [OF d t] e by simp
  with assms(6) show False by (simp add: titles_total_def)
qed

section \<open>Wars\<close>

lemma war_event_mem:
  assumes "diffed io ko tf cid prev p cur c out" and "de_t e \<in> set war_types" and "de_c e = cid"
  shows "e \<in> set out \<longleftrightarrow> e \<in> set (wars_differ cid c prev cur (sn_current_date cur))"
  using diffed_registry(2) [OF assms(1,2)] assms(3) events_of_mem [of e out cid "de_t e"] by simp

definition war_event :: "diff_event list \<Rightarrow> int \<Rightarrow> string \<Rightarrow> int \<Rightarrow> bool" where
  "war_event out cid t w \<longleftrightarrow> (\<exists>e\<in>set out. de_c e = cid \<and> de_t e = t
     \<and> (\<exists>pl. ev_p (de_event e) = WarSidePayload pl \<and> wsp_war_id pl = w))"

lemma wars_differ_mem:
  assumes "\<not> cs_is_dead c" and "wars_known cid prev" and "wars_known cid cur"
  shows "e \<in> set (wars_differ cid c prev cur date) \<longleftrightarrow>
    (\<exists>w. w |\<in>| watched sn_character_to_wars cid cur |-| watched sn_character_to_wars cid prev
       \<and> war_entered cid (sn_wars prev) (sn_wars cur) date w = Some e)
    \<or> (\<exists>w. w |\<in>| watched sn_character_to_wars cid prev |-| watched sn_character_to_wars cid cur
       \<and> war_exited cid (sn_wars prev) (sn_wars cur) date w = Some e)"
  using assms by (auto simp: wars_differ_def diff_wars_def Let_def set_map_filter watched_def)

text \<open>The type an entry or an exit must have, by the tables of the two snapshots.\<close>

definition entry_type :: "save_snapshot \<Rightarrow> save_snapshot \<Rightarrow> int \<Rightarrow> int \<Rightarrow> string" where
  "entry_type prev cur cid w =
     (if dict_get (sn_wars prev) w = None
         \<and> (\<exists>war. dict_get (sn_wars cur) w = Some war \<and> is_principal war cid)
      then ''war_declared'' else ''war_joined'')"

definition exit_type :: "save_snapshot \<Rightarrow> int \<Rightarrow> string" where
  "exit_type cur w = (if dict_get (sn_wars cur) w = None then ''war_concluded'' else ''war_left'')"

lemma war_entered_type:
  assumes "wars_known cid cur" and "w |\<in>| watched sn_character_to_wars cid cur"
  shows "\<exists>e pl. war_entered cid (sn_wars prev) (sn_wars cur) date w = Some e \<and> de_c e = cid
    \<and> de_t e = entry_type prev cur cid w \<and> ev_p (de_event e) = WarSidePayload pl
    \<and> wsp_war_id pl = w"
  using assms by (auto simp: wars_known_def war_entered_def war_side_payload_of_def entry_type_def
      Let_def elim!: recordedE)

lemma war_exited_type:
  assumes "wars_known cid prev" and "w |\<in>| watched sn_character_to_wars cid prev"
  shows "\<exists>e pl. war_exited cid (sn_wars prev) (sn_wars cur) date w = Some e \<and> de_c e = cid
    \<and> de_t e = exit_type cur w \<and> ev_p (de_event e) = WarSidePayload pl \<and> wsp_war_id pl = w"
  using assms by (auto simp: wars_known_def war_exited_def war_side_payload_of_def exit_type_def
      Let_def elim!: recordedE)

lemma war_event_differ:
  assumes "diffed io ko tf cid prev p cur c out" and "t \<in> set war_types"
  shows "war_event out cid t w \<longleftrightarrow> war_event (wars_differ cid c prev cur (sn_current_date cur)) cid t w"
  unfolding war_event_def using war_event_mem [OF assms(1)] assms(2) by metis

lemma war_classification:
  assumes d: "diffed io ko tf cid prev p cur c out" and alive: "\<not> cs_is_dead c"
    and k: "wars_known cid prev" "wars_known cid cur" and t: "t \<in> set war_types"
  shows "war_event out cid t w \<longleftrightarrow>
    w |\<in>| watched sn_character_to_wars cid cur |-| watched sn_character_to_wars cid prev
      \<and> t = entry_type prev cur cid w
    \<or> w |\<in>| watched sn_character_to_wars cid prev |-| watched sn_character_to_wars cid cur
      \<and> t = exit_type cur w"
    (is "_ \<longleftrightarrow> ?entry \<or> ?exit")
proof -
  let ?es = "wars_differ cid c prev cur (sn_current_date cur)"
  have "?entry \<or> ?exit" if "war_event ?es cid t w"
  proof -
    from that obtain e where e: "e \<in> set ?es" "de_t e = t"
      "\<exists>pl. ev_p (de_event e) = WarSidePayload pl \<and> wsp_war_id pl = w"
      by (auto simp: war_event_def)
    then show ?thesis
      unfolding wars_differ_mem [OF alive k]
      using war_entered_type [OF k(2), of _ prev "sn_current_date cur"]
        war_exited_type [OF k(1), of _ cur "sn_current_date cur"]
      by fastforce
  qed
  moreover have "war_event ?es cid t w" if entry: "?entry"
  proof -
    from entry have "w |\<in>| watched sn_character_to_wars cid cur" by simp
    from war_entered_type [OF k(2) this, of prev "sn_current_date cur"] entry
    show ?thesis unfolding war_event_def Bex_def wars_differ_mem [OF alive k] by auto
  qed
  moreover have "war_event ?es cid t w" if exit: "?exit"
  proof -
    from exit have "w |\<in>| watched sn_character_to_wars cid prev" by simp
    from war_exited_type [OF k(1) this, of cur "sn_current_date cur"] exit
    show ?thesis unfolding war_event_def Bex_def wars_differ_mem [OF alive k] by auto
  qed
  ultimately show ?thesis unfolding war_event_differ [OF d t] by blast
qed

lemma war_silent:
  assumes "diffed io ko tf cid prev p cur c out" and "t \<in> set war_types"
    and "watched sn_character_to_wars cid prev = watched sn_character_to_wars cid cur"
  shows "events_of out cid t = []"
  using assms(3) by (simp add: diffed_registry(2) [OF assms(1,2)] wars_differ_def diff_wars_def
      Let_def watched_def)


section \<open>The streams with one type of event\<close>

lemma diffed_bespoke:
  assumes d: "diffed io ko tf cid prev p cur c out"
  shows "events_of out cid ''dynasty_legacy_unlocked'' = legacies_differ cid c prev cur (sn_current_date cur)"
    and "events_of out cid ''splendor_increased'' = splendor_differ cid c prev cur (sn_current_date cur)"
    and "events_of out cid ''epidemic_outbreak'' =
      make_set_differ EPIDEMICS_SPEC cid c prev cur (sn_current_date cur)"
    and "events_of out cid ''activity_completed'' =
      make_set_differ ACTIVITIES_SPEC cid c prev cur (sn_current_date cur)"
    and "events_of out cid ''inspiration_sponsored'' =
      make_set_differ INSPIRATIONS_SPEC cid c prev cur (sn_current_date cur)"
    and "events_of out cid ''contract_completed'' = contracts_differ cid c prev cur (sn_current_date cur)"
    and "events_of out cid ''domicile_moved'' = domicile_differ cid c prev cur (sn_current_date cur)"
    and "events_of out cid ''building_completed'' =
      constructions_differ cid c prev cur (sn_current_date cur)"
  by (simp_all add: diffed_streams [OF d] stream_types_def STREAM_DIFFERS_def war_types_def
      filter_other filter_single)

section \<open>The beats of one character\<close>

definition government_types :: "string list" where
  "government_types = [''adventurer_started'', ''adventurer_ended'', ''government_changed'']"

lemma beat_oks:
  "stream_ok (cs_ck3_id c) [''death''] (death_beat p c date)"
  "stream_ok (cs_ck3_id c) [''travel''] (travel_beat p c date)"
  "stream_ok (cs_ck3_id c) [''marriage''] (marriage_beat p c date)"
  "stream_ok (cs_ck3_id c) [''divorce''] (divorce_beat p c date)"
  "stream_ok (cs_ck3_id c) [''nickname''] (nickname_beat p c date)"
  "stream_ok (cs_ck3_id c) government_types (government_beat p c date)"
  "stream_ok (cs_ck3_id c) [''vanilla_memory'']
     (map (\<lambda>mem. make_vanilla_memory c mem characters date) mems)"
  "stream_ok (cs_ck3_id c) [''decision_taken''] (decision_beat p c date)"
  by (auto simp: stream_defs government_types_def Let_def split: option.split)

lemmas beat_others = beat_oks [THEN filter_other_types]

lemmas beat_only = beat_oks(1) [THEN filter_only_type] beat_oks(2) [THEN filter_only_type]
  beat_oks(3) [THEN filter_only_type] beat_oks(4) [THEN filter_only_type]
  beat_oks(5) [THEN filter_only_type] beat_oks(7) [THEN filter_only_type]
  beat_oks(8) [THEN filter_only_type]

lemma diffed_beats:
  assumes d: "diffed io ko tf cid prev p cur c out"
  shows "events_of out cid ''marriage'' = marriage_beat p c (sn_current_date cur)"
    and "events_of out cid ''divorce'' = divorce_beat p c (sn_current_date cur)"
    and "events_of out cid ''vanilla_memory'' = map (\<lambda>mem. make_vanilla_memory c mem
      (sn_characters cur) (sn_current_date cur)) (new_memories p c)"
    and "events_of out cid ''travel'' = travel_beat p c (sn_current_date cur)"
    and "events_of out cid ''nickname'' = nickname_beat p c (sn_current_date cur)"
  by (simp_all add: diffed_one_character [OF d] one_character_types_def diff_one_character_def
      beat_others beat_only government_types_def del: filter_map)

lemma diffed_government:
  assumes "diffed io ko tf cid prev p cur c out" and "t \<in> set government_types"
  shows "events_of out cid t =
    filter (\<lambda>e. de_t e = t) (government_beat p c (sn_current_date cur))"
proof -
  have "t \<in> set one_character_types" "t \<noteq> ''death''" "t \<noteq> ''travel''" "t \<noteq> ''marriage''"
    "t \<noteq> ''divorce''" "t \<noteq> ''nickname''" "t \<noteq> ''vanilla_memory''" "t \<noteq> ''decision_taken''"
    using assms(2) by (auto simp: government_types_def one_character_types_def)
  then show ?thesis
    by (simp add: diffed_one_character [OF assms(1)] diff_one_character_def beat_others
        del: filter_map)
qed


section \<open>Members of the single streams\<close>

text \<open>The payload of a contract event, as the record has it.\<close>

definition contract_payload_of :: "contract_snapshot \<Rightarrow> contract_payload" where
  "contract_payload_of snap =
     \<lparr>ctp_contract_type = ctr_contract_type snap, ctp_name = ctr_name snap,
      ctp_tier = ctr_tier snap, ctp_employer_id = ctr_employer_id snap,
      ctp_location_province_id = ctr_location_province_id snap, ctp_outcome = ctr_status snap,
      ctp_acceptance_date = ctr_acceptance_date snap,
      ctp_completion_date = ctr_completion_date snap\<rparr>"

lemma contract_event_Some:
  "contract_event cid prev_contracts cur_contracts date k = Some e \<longleftrightarrow>
     (\<exists>snap. dict_get cur_contracts k = Some snap
        \<and> ctr_status snap \<in> {''completed'', ''invalidated''}
        \<and> (\<forall>old. dict_get prev_contracts k = Some old \<longrightarrow>
             ctr_status old \<notin> {''completed'', ''invalidated''})
        \<and> e = DiffEvent (ContractCompletedEvent date cid (contract_payload_of snap)) [])"
  by (cases "dict_get cur_contracts k"; cases "dict_get prev_contracts k")
    (auto simp: contract_event_def CONTRACT_TERMINAL_STATUSES_def contract_payload_of_def)

lemma construction_event_Some:
  "construction_event cid works slots date key = Some e \<longleftrightarrow>
     (\<exists>work. dict_get works key = Some work \<and> dict_get slots key = Some (con_building work)
        \<and> e = DiffEvent (BuildingCompletedEvent date cid
            \<lparr>bcp_building = con_building work, bcp_province_id = con_province_id work,
             bcp_slot_index = con_slot_index work, bcp_start_date = con_start_date work\<rparr>) [])"
  by (cases "dict_get works key") (auto simp: construction_event_def)

lemma contract_event_mem:
  assumes d: "diffed io ko tf cid prev p cur c out" and "\<not> cs_is_dead c"
  shows "DiffEvent (ContractCompletedEvent date cid pl) ps \<in> set out \<longleftrightarrow>
    date = sn_current_date cur \<and> ps = []
    \<and> (\<exists>k snap. (k |\<in>| watched sn_character_to_contracts cid prev
                 \<or> k |\<in>| watched sn_character_to_contracts cid cur)
         \<and> dict_get (sn_task_contracts cur) k = Some snap
         \<and> ctr_status snap \<in> {''completed'', ''invalidated''}
         \<and> (\<forall>old. dict_get (sn_task_contracts prev) k = Some old \<longrightarrow>
              ctr_status old \<notin> {''completed'', ''invalidated''})
         \<and> pl = contract_payload_of snap)"
    (is "?e \<in> _ \<longleftrightarrow> ?R")
proof -
  have "?e \<in> set out \<longleftrightarrow> ?e \<in> set (contracts_differ cid c prev cur (sn_current_date cur))"
    using events_of_mem [of ?e out cid "''contract_completed''"] diffed_bespoke(6) [OF d] by simp
  also have "\<dots> \<longleftrightarrow> (\<exists>k. (k |\<in>| watched sn_character_to_contracts cid prev
        \<or> k |\<in>| watched sn_character_to_contracts cid cur)
      \<and> contract_event cid (sn_task_contracts prev) (sn_task_contracts cur) (sn_current_date cur) k = Some ?e)"
    using assms(2) by (auto simp: contracts_differ_def diff_contracts_def set_map_filter watched_def)
  also have "\<dots> \<longleftrightarrow> ?R"
    unfolding contract_event_Some DiffEvent_simps ContractCompletedEvent_def by auto
  finally show ?thesis .
qed

lemma building_event_mem:
  assumes d: "diffed io ko tf cid prev p cur c out" and "\<not> cs_is_dead c"
  shows "DiffEvent (BuildingCompletedEvent date cid pl) ps \<in> set out \<longleftrightarrow>
    date = sn_current_date cur \<and> ps = []
    \<and> (\<exists>slot work. slot |\<in>| dict_get_default (sn_character_to_constructions prev) cid {||}
         \<and> slot |\<notin>| dict_get_default (sn_character_to_constructions cur) cid {||}
         \<and> dict_get (sn_in_flight_constructions prev) slot = Some work
         \<and> dict_get (sn_holding_buildings_by_slot cur) slot = Some (con_building work)
         \<and> pl = \<lparr>bcp_building = con_building work, bcp_province_id = con_province_id work,
              bcp_slot_index = con_slot_index work, bcp_start_date = con_start_date work\<rparr>)"
    (is "?e \<in> _ \<longleftrightarrow> ?R")
proof -
  have "?e \<in> set out \<longleftrightarrow> ?e \<in> set (constructions_differ cid c prev cur (sn_current_date cur))"
    using events_of_mem [of ?e out cid "''building_completed''"] diffed_bespoke(8) [OF d] by simp
  also have "\<dots> \<longleftrightarrow> (\<exists>slot. slot |\<in>| dict_get_default (sn_character_to_constructions prev) cid {||}
      \<and> slot |\<notin>| dict_get_default (sn_character_to_constructions cur) cid {||}
      \<and> construction_event cid (sn_in_flight_constructions prev) (sn_holding_buildings_by_slot cur)
          (sn_current_date cur) slot = Some ?e)"
    using assms(2) by (auto simp: constructions_differ_def diff_constructions_def set_map_filter)
  also have "\<dots> \<longleftrightarrow> ?R"
    unfolding construction_event_Some DiffEvent_simps BuildingCompletedEvent_def by auto
  finally show ?thesis .
qed

lemma marriage_mem:
  assumes d: "diffed io ko tf cid prev p cur c out"
  shows "DiffEvent (MarriageEvent date cid pl) ps \<in> set out \<longleftrightarrow>
    date = sn_current_date cur
    \<and> (\<exists>sp. pl = \<lparr>mp_spouse_character_id = Some sp\<rparr> \<and> ps = [(''spouse'', sp)]
         \<and> sp \<notin> set (fam_spouses (cs_family p))
         \<and> (sp \<in> set (fam_spouses (cs_family c))
            \<or> fam_primary_spouse (cs_family c) = Some sp \<and> sp \<noteq> 0
              \<and> fam_primary_spouse (cs_family p) \<noteq> Some sp))"
    (is "?e \<in> _ \<longleftrightarrow> _")
proof -
  have "?e \<in> set out \<longleftrightarrow> ?e \<in> set (marriage_beat p c (sn_current_date cur))"
    using events_of_mem [of ?e out cid "''marriage''"] diffed_beats(1) [OF d] by simp
  then show ?thesis
    by (auto simp: marriage_beat_def make_marriage_def MarriageEvent_def new_spouses_mem
        diffedD(10) [OF d])
qed

lemma diffed_commits:
  assumes d: "diffed io ko tf cid prev p cur c out"
  shows "events_of out cid ''lifestyle_committed'' = (if cs_is_dead c then []
     else map (\<lambda>ls. DiffEvent (LifestyleCommittedEvent (sn_current_date cur) cid
              \<lparr>lcp_lifestyle_key = ls, lcp_first_perk_key = first_perk p c ls\<rparr>) [])
            (py_sorted (committed p c)))"
  using lifestyle_commits_spec [OF diffedD(2) [OF d]] diffed_rest(5) [OF d] diffedD(10) [OF d] by simp

lemma commits_distinct:
  assumes "diffed io ko tf cid prev p cur c out"
  shows "distinct (events_of out cid ''lifestyle_committed'')"
  by (auto simp: diffed_commits [OF assms] distinct_map LifestyleCommittedEvent_def intro!: inj_onI)

lemma Min_is_arg_min:
  "finite A \<Longrightarrow> A \<noteq> {} \<Longrightarrow> is_arg_min id (\<lambda>x. x \<in> A) x \<longleftrightarrow> x = Min (A :: 'a::linorder set)"
  by (auto simp: is_arg_min_def not_less intro: Min_eqI [symmetric] intro!: Min_in)

lemma commits_mem:
  assumes d: "diffed io ko tf cid prev p cur c out"
  shows "DiffEvent (LifestyleCommittedEvent date cid pl) ps \<in> set out \<longleftrightarrow>
    \<not> cs_is_dead c \<and> date = sn_current_date cur \<and> ps = []
    \<and> lcp_lifestyle_key pl \<in> set KNOWN_LIFESTYLES
    \<and> (\<forall>perk\<in>set (cs_perks p). lifestyle_of_perk perk \<noteq> Some (lcp_lifestyle_key pl))
    \<and> is_arg_min id (\<lambda>perk. perk \<in> set (cs_perks c) - set (cs_perks p)
        \<and> lifestyle_of_perk perk = Some (lcp_lifestyle_key pl)) (lcp_first_perk_key pl)"
    (is "?e \<in> _ \<longleftrightarrow> _")
proof -
  let ?new = "\<lambda>ls. {perk \<in> set (cs_perks c) - set (cs_perks p). lifestyle_of_perk perk = Some ls}"
  obtain ls k where pl: "pl = \<lparr>lcp_lifestyle_key = ls, lcp_first_perk_key = k\<rparr>" by (cases pl) simp
  have first: "is_arg_min id (\<lambda>perk. perk \<in> set (cs_perks c) - set (cs_perks p)
        \<and> lifestyle_of_perk perk = Some ls) k \<longleftrightarrow> ?new ls \<noteq> {} \<and> k = first_perk p c ls"
    using Min_is_arg_min [of "?new ls" k] by (auto simp: is_arg_min_def first_perk_def)
  have "?e \<in> set out \<longleftrightarrow> ?e \<in> set (events_of out cid ''lifestyle_committed'')"
    by (simp add: events_of_mem)
  also have "\<dots> \<longleftrightarrow> \<not> cs_is_dead c \<and> date = sn_current_date cur \<and> ps = [] \<and> ls |\<in>| committed p c
      \<and> k = first_perk p c ls"
    by (auto simp: diffed_commits [OF d] LifestyleCommittedEvent_def pl)
  finally show ?thesis
    using first by (auto simp: pl committed_mem dest: lifestyle_of_perk_known)
qed

end
