(* ===== verification/Parse_Props.thy ===== *)
theory Parse_Props
  imports Demo_Parse Demo Diff_Laws
begin

text \<open>
  The properties of the parser and of the parser followed by the diff. Each witness is on the
  saves of \<^verbatim>\<open>Demo_Parse\<close>.
\<close>

section \<open>Parser and diff together\<close>

text \<open>C3: two saves of one playthrough, whatever else is in the files, can be compared once they
  are parsed: the parsed snapshots satisfy the invariant of the diff, so \<open>diff_snapshots\<close> returns.\<close>

theorem parsed_saves_diff:
  assumes "parse_save repr names iter data1 = Inr s" and "parse_save repr names iter data2 = Inr t"
    and "resolve_playthrough_id repr data1 = resolve_playthrough_id repr data2"
  shows "\<exists>out. diff_snapshots id_order key_order s t tf = Inr out"
proof -
  have "same_playthrough s t"
    using assms(3) parse_save_InrD(12) [OF assms(1)] parse_save_InrD(12) [OF assms(2)]
    by (simp add: same_playthrough_def)
  from diff_snapshots_total [OF parse_save_wf [OF assms(1)] parse_save_wf [OF assms(2)] this]
  show ?thesis by blast
qed

theorem parsed_saves_diff_witness:
  "\<exists>out. diff_snapshots py_sorted py_sorted (demo_save False) (demo_save True) None = Inr out"
  by (rule parsed_saves_diff [OF demo_parsed demo_parsed])
    (simp add: resolve_playthrough_id_def opt_str_def demo_fields)

text \<open>Over a run of parsed saves of one playthrough the log rebuilds the wars, the artifacts
  and the court positions of a character alive in all of them, with no assumption on the files.\<close>

theorem parsed_run_replays:
  assumes "set_order id_order" and "set_order key_order"
    and "\<forall>u\<in>set (s # ss). (\<exists>data. parse_save repr names iter data = Inr u)
      \<and> sn_playthrough_id u = pt
      \<and> (\<exists>c. dict_get (sn_characters u) cid = Some c \<and> \<not> cs_is_dead c)"
  shows "replay (watched sn_character_to_wars cid s)
        (changes_of war_change cid (run_log id_order key_order None (s # ss))) =
      watched sn_character_to_wars cid (last (s # ss))
    \<and> replay (watched sn_character_to_artifacts cid s)
        (changes_of artifact_change cid (run_log id_order key_order None (s # ss))) =
      watched sn_character_to_artifacts cid (last (s # ss))
    \<and> replay (watched sn_character_to_court_positions cid s)
        (changes_of companion_change cid (run_log id_order key_order None (s # ss))) =
      watched sn_character_to_court_positions cid (last (s # ss))"
proof -
  have run: "\<forall>u\<in>set (s # ss). followed pt None cid u \<and> \<not> cs_is_dead (char_at u cid)
      \<and> wars_known cid u \<and> artifacts_known cid u \<and> positions_known cid u"
    using assms(3) by (auto simp: followed_def char_at_def parse_save_wf parse_save_known)
  note changes = diffed_changes [OF followed_diffed [OF assms(1,2), of pt]]
  show ?thesis
    by (intro conjI; rule run_replay [OF run])
      (simp_all add: changes war_log.emit_changes artifact_log.log.emit_changes [unfolded spec_index]
        companion_log.log.emit_changes [unfolded spec_index])
qed

theorem parsed_run_replays_witness:
  "replay (watched sn_character_to_wars 1 (demo_save False))
     (changes_of war_change 1 (run_log py_sorted py_sorted None [demo_save False, demo_save True])) = {|50|}"
proof -
  have "watched sn_character_to_wars 1 (demo_save True) = {|50|}"
    unfolding watched_def parse_save_InrD(4) [OF demo_parsed, THEN arg_cong [where f = snd], unfolded snd_conv]
    by (simp add: parse_wars_def Let_def war_rows_def iter_db_records_def or_dict_def
        demo_data_def demo_wars_section_def int_rows_def demo_ints war_of_raw_def
        parse_war_side_participants_def index_by_def war_owners_def build_index_def add_index_def
        dict_get_default_def py_sorted_finsert)
  moreover have "\<exists>data. parse_save demo_repr [] py_sorted data = Inr (demo_save war)" for war
    using demo_parsed by blast
  ultimately show ?thesis
    using parsed_run_replays [OF py_order py_order, of "demo_save False" "[demo_save True]"
        demo_repr "[]" py_sorted "''run''" 1, THEN conjunct1] demo_alive
    by (simp add: demo_run)
qed

section \<open>When the parser raises, and which record it reads\<close>

text \<open>C25: \<open>parse_save\<close> raises exactly when one of six sections (or the portrait in the first)
  holds something other than a dictionary that counts as true, when a name of a character is
  neither text nor empty (a nickname may be a list of one text), when the name of an artifact is a
  number other than nought, \<open>true\<close>, or a container with a lone marker in it, or when a number too
  large for a double is read as a balance of a living character (gold, prestige, piety) or as the
  renown of a dynasty; that is for JSON whose decimal numbers are finite.\<close>

theorem parse_save_raises_iff:
  "(\<exists>e. parse_save repr names iter data = Inl e) \<longleftrightarrow>
     bad_sections data \<or> (\<exists>raw\<in>character_records data. bad_names raw)
     \<or> (\<exists>(aid, raw)\<in>set (iter_db_records data [''artifacts'', ''artifacts'']).
          bad_artifact_name (get raw ''name''))
     \<or> (\<exists>raw\<in>living_records data. bad_balances raw)
     \<or> (\<exists>(did, raw)\<in>set (iter_db_records data [''dynasties'', ''dynasties'']). bad_renown raw)"
  by (rule parse_save_Inl)

text \<open>Every character of the save whose identifier is a number is in the snapshot, as dead if
  one of the two buckets of the dead has it, whatever the living bucket says.\<close>

theorem parsed_dead_wins:
  assumes "parse_save repr names iter data = Inr s"
  shows "((\<exists>c. dict_get (sn_characters s) cid = Some c \<and> cs_is_dead c) \<longleftrightarrow>
      cid \<in> fst ` set (dead_rows data))
    \<and> ((\<exists>c. dict_get (sn_characters s) cid = Some c \<and> \<not> cs_is_dead c) \<longleftrightarrow>
      cid \<in> fst ` set (living_rows data) - fst ` set (dead_rows data))"
  using parsed_character [OF assms] by (rule conjI)

theorem parsed_dead_wins_witness:
  "\<exists>c. dict_get (sn_characters (demo_save True)) 2 = Some c \<and> cs_is_dead c"
  by (subst parsed_dead_wins [OF demo_parsed, THEN conjunct1]) (simp add: demo_entries)

text \<open>A raw record that the narrative layer finds for a character belongs to a character of the
  parsed snapshot, and the record handed on lacks the four dropped fields.\<close>

theorem extracted_record_parsed:
  assumes "parse_save repr names iter data = Inr s" and "readable cid"
    and "extract_character_record data cid name_lookup traits = Some out"
  shows "dict_get (sn_characters s) cid \<noteq> None
    \<and> list_all (\<lambda>k. dict_get out k = None) [''dna'', ''first_name'', ''nickname_text'', ''female'']"
proof
  from assms(3) obtain raw where "lookup_character_record data cid = Some raw"
    by (auto simp: extract_character_record_def)
  from looked_up_parsed [OF this assms(2,1)] show "dict_get (sn_characters s) cid \<noteq> None" .
  show "list_all (\<lambda>k. dict_get out k = None) [''dna'', ''first_name'', ''nickname_text'', ''female'']"
    using extracted_dropped [OF assms(3)] by (simp add: list_all_iff RAW_RECORD_DROP_FIELDS_def)
qed

theorem extracted_record_parsed_witness:
  "dict_get (sn_characters (demo_save True)) 1 \<noteq> None
    \<and> list_all (\<lambda>k. dict_get [(''birth'', JStr ''1040.5.2'')] k = None)
        [''dna'', ''first_name'', ''nickname_text'', ''female'']"
proof (rule extracted_record_parsed [OF demo_parsed])
  show "readable 1" by (simp add: readable_def show_nat.simps)
  show "extract_character_record (demo_data True) 1 None None = Some [(''birth'', JStr ''1040.5.2'')]"
    by (simp add: extract_character_record_def lookup_character_record_def entry_in_def demo_fields
        demo_digit demo_character_def RAW_RECORD_DROP_FIELDS_def)
qed

section \<open>Titles\<close>

text \<open>The memoised recursion over the de jure hierarchy agrees, on every title whose prefix or
  whose neighbours' prefixes decide it, with the rule of its documentation read off the record
  alone: the prefix, else one below the liege, else one above the grandest vassal. Every tier it
  gives is one of the six.\<close>

theorem title_tier_rule:
  assumes "dict_get (parse_titles data) tid = Some t"
    and "dict_get (title_raws_of data) tid = Some raw" and "settled (title_raws_of data) raw"
  shows "tit_tier t = local_tier (title_raws_of data) raw
    \<and> tit_tier t \<in> {''other'', ''empire'', ''kingdom'', ''duchy'', ''county'', ''barony''}"
  using parse_titles_SomeD [OF assms(1)] assms(2,3)
  by (auto simp: tier_ok_def all_tiers_def TIER_DESCENDING_def)

theorem title_tier_rule_witness:
  "\<exists>t. dict_get (parse_titles (demo_data True)) 2 = Some t \<and> tit_tier t = ''kingdom''"
proof -
  let ?raws = "title_raws_of (demo_data True)"
  have raws: "?raws = [(1, [(''key'', JStr ''e_britannia''), (''holder'', JInt 1)]),
      (2, [(''key'', JStr ''x_script_isles''), (''holder'', JInt 1), (''de_jure_liege'', JInt 1)]),
      (3, [(''key'', JStr ''d_orkney''), (''de_jure_liege'', JInt 2)])]"
    by (simp add: title_raws_of_def iter_db_records_def or_dict_def demo_fields demo_titles_section_def
        demo_title_def int_rows_def demo_ints build_table_def dict_set_def)
  obtain t where t: "dict_get (parse_titles (demo_data True)) 2 = Some t"
    using parse_titles_dom [of "demo_data True" 2] by (auto simp: raws)
  have "tit_tier t = local_tier ?raws
      [(''key'', JStr ''x_script_isles''), (''holder'', JInt 1), (''de_jure_liege'', JInt 1)]"
    by (rule title_tier_rule [OF t, THEN conjunct1])
      (simp_all add: raws settled_def known_liege_def base_of_def raw_tier_def tier_from_key_def
        TIER_PREFIX_MAP_def dict_get_default_def TIER_DEMOTE_def Let_def)
  also have "\<dots> = ''kingdom''"
    by (simp add: raws local_tier_def known_liege_def base_of_def raw_tier_def tier_from_key_def
        TIER_PREFIX_MAP_def dict_get_default_def TIER_DEMOTE_def)
  finally show ?thesis using t by blast
qed

text \<open>Where the prefixes do not decide, the tier depends on the order of the rows in the save:
  a scripted duchy under a scripted kingdom is a duchy when its row is read first and of no tier
  when the kingdom's is, since the answer given to break the cycle is then kept for good.\<close>

theorem tier_depends_on_order:
  "map (\<lambda>(tid, t). (tid, tit_tier t)) (parse_titles (titles_data [isles_row, march_row, orkney_row])) =
     [(1, ''kingdom''), (2, ''other''), (3, ''duchy'')]
   \<and> map (\<lambda>(tid, t). (tid, tit_tier t)) (parse_titles (titles_data [march_row, isles_row, orkney_row])) =
     [(2, ''duchy''), (1, ''kingdom''), (3, ''duchy'')]"
proof -
  note raws = parse_titles_def title_raws_of_def titles_data_def isles_row_def march_row_def
    orkney_row_def demo_title_def iter_db_records_def or_dict_def int_rows_def demo_ints
    build_table_def dict_set_def
  note walk = infer_tier.simps raw_tier_def tier_from_key_def TIER_PREFIX_MAP_def known_liege_def
    known_vassals_def TIER_DEMOTE_def dict_set_def promoted_tier_def TIER_DESCENDING_def
    TIER_PROMOTE_def title_of_raw_def dict_get_default_def
  show ?thesis by (simp add: raws) (simp add: walk)
qed

text \<open>The index of kingdoms lists under an empire exactly the kingdoms from which the chain of
  de jure lieges reaches it, before any other empire; a chain that runs in a circle ends the walk.\<close>

theorem kingdom_index_reaches:
  "kid |\<in>| dict_get_default (build_kingdoms_by_de_jure_empire (parse_titles data)) e {||} \<longleftrightarrow>
     (\<exists>t. dict_get (parse_titles data) kid = Some t \<and> tit_tier t = ''kingdom'')
     \<and> (below (parse_titles data))\<^sup>*\<^sup>* kid e \<and> is_empire (parse_titles data) e"
proof (rule kingdoms_mem [OF parse_titles_ok])
  fix tid t
  assume "dict_get (parse_titles data) tid = Some t"
  then show "tit_title_id t = tid" by (intro parse_titles_wf) (rule dict_get_memD)
qed

end
