(* ===== verification/Queue_State.thy ===== *)
theory Queue_State
  imports Prelude
begin

text \<open>
  \<open>narrative/queue_state.py\<close>: the blackboard of the narrative tasks. Each method takes the lock of
  the object, so it is one atomic transition of the state; the clock is the argument \<open>now\<close>.
  A notification is recorded in \<open>qs_frames\<close>: the items handed to the listeners, in order (what a
  listener raises is dropped by the code). The methods that read return what they compute; that
  a returned item is the live object is not modelled.
\<close>

section \<open>State\<close>

datatype queue_status = Queued | Generating | Completed | Failed

record queue_item =
  qi_item_id :: int
  qi_character_id :: int
  qi_kind :: string
  qi_status :: queue_status
  qi_enqueued_at :: string
  qi_started_at :: "string option"
  qi_completed_at :: "string option"
  qi_duration_ms :: "int option"
  qi_error :: "string option"
  qi_character_name :: "string option"
  qi_campaign_uuid :: "string option"

record queue_snapshot =
  qsn_queued :: "queue_item list"
  qsn_active :: "queue_item list"
  qsn_recent :: "queue_item list"
  qsn_completed_count :: int
  qsn_failed_count :: int
  qsn_avg_duration_ms :: "int option"

record character_stats =
  cst_character_id :: int
  cst_kind :: string
  cst_completed_count :: int
  cst_failed_count :: int
  cst_median_duration_ms :: "int option"
  cst_last_success_at :: "string option"
  cst_character_name :: "string option"

text \<open>The per-character aggregates, and the whole state.\<close>

record char_aggregate =
  ca_completed_count :: int
  ca_failed_count :: int
  ca_durations :: "int list"
  ca_last_success_at :: "string option"
  ca_character_name :: "string option"

record queue_state =
  qs_next_id :: int
  qs_items :: "(int, queue_item) dict"
  qs_recent :: "queue_item list"
  qs_recent_capacity :: nat
  qs_completed_count :: int
  qs_failed_count :: int
  qs_duration_total_ms :: int
  qs_duration_samples :: int
  qs_sample_window :: nat
  qs_per_char :: "(int \<times> string, char_aggregate) dict"
  qs_frames :: "queue_item list"

definition new_queue :: "nat \<Rightarrow> nat \<Rightarrow> queue_state" where
  "new_queue recent_capacity sample_window =
    \<lparr>qs_next_id = 1, qs_items = [], qs_recent = [], qs_recent_capacity = recent_capacity,
     qs_completed_count = 0, qs_failed_count = 0, qs_duration_total_ms = 0,
     qs_duration_samples = 0, qs_sample_window = sample_window, qs_per_char = [], qs_frames = []\<rparr>"

section \<open>Operations\<close>

text \<open>\<open>deque(maxlen=n).append\<close>: what does not fit falls off the left end.\<close>

definition ring_append :: "nat \<Rightarrow> 'a list \<Rightarrow> 'a \<Rightarrow> 'a list" where
  "ring_append n xs x = (let ys = xs @ [x] in drop (length ys - n) ys)"

definition dict_del :: "('k, 'v) dict \<Rightarrow> 'k \<Rightarrow> ('k, 'v) dict" where
  "dict_del d k = filter (\<lambda>(k', v). k' \<noteq> k) d"

definition notify_locked :: "queue_item \<Rightarrow> queue_state \<Rightarrow> queue_state" where
  "notify_locked item q = q\<lparr>qs_frames := qs_frames q @ [item]\<rparr>"

definition enqueue ::
  "string \<Rightarrow> int \<Rightarrow> string \<Rightarrow> string option \<Rightarrow> string option \<Rightarrow> queue_state \<Rightarrow> int \<times> queue_state" where
  "enqueue now character_id kind campaign_uuid character_name q =
     (let item_id = qs_next_id q;
          item = \<lparr>qi_item_id = item_id, qi_character_id = character_id, qi_kind = kind,
            qi_status = Queued, qi_enqueued_at = now, qi_started_at = None, qi_completed_at = None,
            qi_duration_ms = None, qi_error = None, qi_character_name = character_name,
            qi_campaign_uuid = campaign_uuid\<rparr>;
          q = q\<lparr>qs_next_id := item_id + 1, qs_items := dict_set (qs_items q) item_id item\<rparr>
      in (item_id, notify_locked item q))"

definition mark_started :: "string \<Rightarrow> int \<Rightarrow> queue_state \<Rightarrow> queue_state" where
  "mark_started now item_id q =
     (case dict_get (qs_items q) item_id of
        None \<Rightarrow> q
      | Some item \<Rightarrow>
          if qi_status item \<noteq> Queued then q
          else
            let item = item\<lparr>qi_status := Generating, qi_started_at := Some now\<rparr>
            in notify_locked item (q\<lparr>qs_items := dict_set (qs_items q) item_id item\<rparr>))"

definition fresh_aggregate :: char_aggregate where
  "fresh_aggregate = \<lparr>ca_completed_count = 0, ca_failed_count = 0, ca_durations = [],
     ca_last_success_at = None, ca_character_name = None\<rparr>"

definition per_char_locked :: "queue_state \<Rightarrow> int \<times> string \<Rightarrow> char_aggregate" where
  "per_char_locked q key = dict_get_default (qs_per_char q) key fresh_aggregate"

definition stamp_name :: "queue_item \<Rightarrow> char_aggregate \<Rightarrow> char_aggregate" where
  "stamp_name item stats =
     (case qi_character_name item of None \<Rightarrow> stats | Some n \<Rightarrow> stats\<lparr>ca_character_name := Some n\<rparr>)"

definition item_key :: "queue_item \<Rightarrow> int \<times> string" where
  "item_key item = (qi_character_id item, qi_kind item)"

definition mark_completed :: "string \<Rightarrow> int \<Rightarrow> int \<Rightarrow> queue_state \<Rightarrow> queue_state" where
  "mark_completed now item_id duration_ms q =
     (case dict_get (qs_items q) item_id of
        None \<Rightarrow> q
      | Some item \<Rightarrow>
          (let d = max 0 duration_ms;
               item = item\<lparr>qi_status := Completed, qi_completed_at := Some now, qi_duration_ms := Some d\<rparr>;
               stats = per_char_locked q (item_key item);
               stats = stamp_name item (stats\<lparr>ca_completed_count := ca_completed_count stats + 1,
                 ca_durations := ring_append (qs_sample_window q) (ca_durations stats) d,
                 ca_last_success_at := Some now\<rparr>)
           in notify_locked item (q\<lparr>qs_items := dict_del (qs_items q) item_id,
                qs_completed_count := qs_completed_count q + 1,
                qs_duration_total_ms := qs_duration_total_ms q + d,
                qs_duration_samples := qs_duration_samples q + 1,
                qs_recent := ring_append (qs_recent_capacity q) (qs_recent q) item,
                qs_per_char := dict_set (qs_per_char q) (item_key item) stats\<rparr>)))"

definition mark_failed :: "string \<Rightarrow> int \<Rightarrow> string \<Rightarrow> queue_state \<Rightarrow> queue_state" where
  "mark_failed now item_id err q =
     (case dict_get (qs_items q) item_id of
        None \<Rightarrow> q
      | Some item \<Rightarrow>
          (let item = item\<lparr>qi_status := Failed, qi_completed_at := Some now, qi_error := Some err\<rparr>;
               stats = per_char_locked q (item_key item);
               stats = stamp_name item (stats\<lparr>ca_failed_count := ca_failed_count stats + 1\<rparr>)
           in notify_locked item (q\<lparr>qs_items := dict_del (qs_items q) item_id,
                qs_failed_count := qs_failed_count q + 1,
                qs_recent := ring_append (qs_recent_capacity q) (qs_recent q) item,
                qs_per_char := dict_set (qs_per_char q) (item_key item) stats\<rparr>)))"

definition remove :: "int \<Rightarrow> queue_state \<Rightarrow> bool \<times> queue_state" where
  "remove item_id q =
     (dict_get (qs_items q) item_id \<noteq> None, q\<lparr>qs_items := dict_del (qs_items q) item_id\<rparr>)"

section \<open>Views\<close>

definition median_of :: "int list \<Rightarrow> int option" where
  "median_of ds = (if ds = [] then None else Some (sort ds ! (length ds div 2)))"

definition character_stats :: "queue_state \<Rightarrow> character_stats list" where
  "character_stats q =
     sort_key (\<lambda>r. (cst_character_id r, cst_kind r))
       (map (\<lambda>((character_id, kind), stats).
          \<lparr>cst_character_id = character_id, cst_kind = kind,
           cst_completed_count = ca_completed_count stats,
           cst_failed_count = ca_failed_count stats,
           cst_median_duration_ms = median_of (ca_durations stats),
           cst_last_success_at = ca_last_success_at stats,
           cst_character_name = ca_character_name stats\<rparr>) (qs_per_char q))"

definition queue_snapshot_of :: "queue_state \<Rightarrow> queue_snapshot" where
  "queue_snapshot_of q =
     \<lparr>qsn_queued = sort_key qi_item_id (filter (\<lambda>i. qi_status i = Queued) (map snd (qs_items q))),
      qsn_active = sort_key qi_item_id (filter (\<lambda>i. qi_status i = Generating) (map snd (qs_items q))),
      qsn_recent = qs_recent q,
      qsn_completed_count = qs_completed_count q,
      qsn_failed_count = qs_failed_count q,
      qsn_avg_duration_ms =
        (if qs_duration_samples q > 0 then Some (qs_duration_total_ms q div qs_duration_samples q)
         else None)\<rparr>"

definition find_recent :: "queue_state \<Rightarrow> int \<Rightarrow> queue_item option" where
  "find_recent q item_id = List.find (\<lambda>i. qi_item_id i = item_id) (qs_recent q)"

section \<open>The life of an item\<close>

lemma dict_get_del [simp]: "dict_get (dict_del d k) k' = (if k = k' then None else dict_get d k')"
  by (induction d) (auto simp: dict_del_def)

lemma dict_ok_del [simp]: "dict_ok d \<Longrightarrow> dict_ok (dict_del d k)"
  by (simp add: dict_ok_def dict_del_def distinct_map_filter)

lemma ring_append_length: "length (ring_append n xs x) \<le> n"
  by (simp add: ring_append_def Let_def)

lemma ring_append_mem: "r \<in> set (ring_append n xs x) \<Longrightarrow> r = x \<or> r \<in> set xs"
  unfolding ring_append_def Let_def by (drule in_set_dropD) auto

text \<open>
  The statuses an item has been announced with, oldest first, and whether the item is still in the
  queue: the automaton of \<open>_items\<close>.
\<close>

definition frames_of :: "queue_state \<Rightarrow> int \<Rightarrow> queue_status list" where
  "frames_of q i = map qi_status (filter (\<lambda>f. qi_item_id f = i) (qs_frames q))"

text \<open>
  What the announcements of an item may be: nothing before it is enqueued; with a last status as
  in the table while it is in it; and afterwards a finished life, or one cut short by \<open>remove\<close>.
\<close>

definition live_words :: "queue_status \<Rightarrow> queue_status list" where
  "live_words s = (if s = Queued then [Queued] else [Queued, Generating])"

definition final_words :: "queue_status list list" where
  "final_words = [[Queued], [Queued, Generating], [Queued, Completed], [Queued, Failed],
     [Queued, Generating, Completed], [Queued, Generating, Failed]]"

definition item_ok :: "queue_state \<Rightarrow> int \<Rightarrow> bool" where
  "item_ok q i \<longleftrightarrow>
     (case dict_get (qs_items q) i of
        Some item \<Rightarrow> qi_item_id item = i \<and> 1 \<le> i \<and> i < qs_next_id q
          \<and> qi_status item \<in> {Queued, Generating} \<and> frames_of q i = live_words (qi_status item)
      | None \<Rightarrow> (if 1 \<le> i \<and> i < qs_next_id q then frames_of q i \<in> set final_words else frames_of q i = []))"

definition count_status :: "queue_status \<Rightarrow> queue_state \<Rightarrow> int" where
  "count_status s q = int (length (filter (\<lambda>f. qi_status f = s) (qs_frames q)))"

definition durations_announced :: "queue_state \<Rightarrow> int list" where
  "durations_announced q = List.map_filter qi_duration_ms
     (filter (\<lambda>f. qi_status f = Completed) (qs_frames q))"

definition queue_ok :: "queue_state \<Rightarrow> bool" where
  "queue_ok q \<longleftrightarrow> dict_ok (qs_items q) \<and> 1 \<le> qs_next_id q \<and> (\<forall>i. item_ok q i)
     \<and> length (qs_recent q) \<le> qs_recent_capacity q
     \<and> (\<forall>r\<in>set (qs_recent q). qi_status r \<in> {Completed, Failed})
     \<and> qs_completed_count q = count_status Completed q
     \<and> qs_failed_count q = count_status Failed q
     \<and> qs_duration_samples q = qs_completed_count q
     \<and> qs_duration_total_ms q = sum_list (durations_announced q)
     \<and> (\<forall>d\<in>set (durations_announced q). 0 \<le> d)"

text \<open>An operation of the queue, and a history of operations.\<close>

datatype queue_op =
    Enqueue string int string "string option" "string option"
  | Start string int
  | Complete string int int
  | Fail string int string
  | Remove int

fun apply_op :: "queue_op \<Rightarrow> queue_state \<Rightarrow> queue_state" where
  "apply_op (Enqueue now c k u n) q = snd (enqueue now c k u n q)"
| "apply_op (Start now i) q = mark_started now i q"
| "apply_op (Complete now i d) q = mark_completed now i d q"
| "apply_op (Fail now i e) q = mark_failed now i e q"
| "apply_op (Remove i) q = snd (remove i q)"

definition queue_run :: "queue_op list \<Rightarrow> queue_state \<Rightarrow> queue_state" where
  "queue_run ops q = foldl (\<lambda>q op. apply_op op q) q ops"

lemmas queue_defs = enqueue_def mark_started_def mark_completed_def mark_failed_def remove_def
  notify_locked_def Let_def

lemma new_queue_ok: "queue_ok (new_queue c w)"
  by (auto simp: queue_ok_def new_queue_def item_ok_def frames_of_def count_status_def
      durations_announced_def)

text \<open>How the announcements change.\<close>

lemma frames_of_notify:
  "frames_of (notify_locked item q) i =
     frames_of q i @ (if qi_item_id item = i then [qi_status item] else [])"
  by (simp add: frames_of_def notify_locked_def)

lemma count_status_notify:
  "count_status s (notify_locked item q) = count_status s q + (if qi_status item = s then 1 else 0)"
  by (simp add: count_status_def notify_locked_def)

lemma durations_notify:
  "durations_announced (notify_locked item q) = durations_announced q @
     (if qi_status item = Completed then (case qi_duration_ms item of None \<Rightarrow> [] | Some d \<Rightarrow> [d]) else [])"
  by (simp add: durations_announced_def notify_locked_def split: option.split)

lemma notify_simps [simp]:
  "qs_items (notify_locked item q) = qs_items q"
  "qs_next_id (notify_locked item q) = qs_next_id q"
  "qs_recent (notify_locked item q) = qs_recent q"
  "qs_recent_capacity (notify_locked item q) = qs_recent_capacity q"
  "qs_completed_count (notify_locked item q) = qs_completed_count q"
  "qs_failed_count (notify_locked item q) = qs_failed_count q"
  "qs_duration_samples (notify_locked item q) = qs_duration_samples q"
  "qs_duration_total_ms (notify_locked item q) = qs_duration_total_ms q"
  by (simp_all add: notify_locked_def)

lemma update_frames [simp]:
  "frames_of (q\<lparr>qs_items := d\<rparr>) i = frames_of q i"
  "frames_of (q\<lparr>qs_next_id := n\<rparr>) i = frames_of q i"
  "frames_of (q\<lparr>qs_recent := rs\<rparr>) i = frames_of q i"
  "frames_of (q\<lparr>qs_completed_count := c\<rparr>) i = frames_of q i"
  "frames_of (q\<lparr>qs_failed_count := c\<rparr>) i = frames_of q i"
  "frames_of (q\<lparr>qs_duration_total_ms := c\<rparr>) i = frames_of q i"
  "frames_of (q\<lparr>qs_duration_samples := c\<rparr>) i = frames_of q i"
  "frames_of (q\<lparr>qs_per_char := pc\<rparr>) i = frames_of q i"
  by (simp_all add: frames_of_def)

lemma update_counts [simp]:
  "count_status st (q\<lparr>qs_items := d\<rparr>) = count_status st q"
  "count_status st (q\<lparr>qs_next_id := n\<rparr>) = count_status st q"
  "count_status st (q\<lparr>qs_recent := rs\<rparr>) = count_status st q"
  "count_status st (q\<lparr>qs_completed_count := c\<rparr>) = count_status st q"
  "count_status st (q\<lparr>qs_failed_count := c\<rparr>) = count_status st q"
  "count_status st (q\<lparr>qs_duration_total_ms := c\<rparr>) = count_status st q"
  "count_status st (q\<lparr>qs_duration_samples := c\<rparr>) = count_status st q"
  "count_status st (q\<lparr>qs_per_char := pc\<rparr>) = count_status st q"
  by (simp_all add: count_status_def)

lemma update_durations [simp]:
  "durations_announced (q\<lparr>qs_items := d\<rparr>) = durations_announced q"
  "durations_announced (q\<lparr>qs_next_id := n\<rparr>) = durations_announced q"
  "durations_announced (q\<lparr>qs_recent := rs\<rparr>) = durations_announced q"
  "durations_announced (q\<lparr>qs_completed_count := c\<rparr>) = durations_announced q"
  "durations_announced (q\<lparr>qs_failed_count := c\<rparr>) = durations_announced q"
  "durations_announced (q\<lparr>qs_duration_total_ms := c\<rparr>) = durations_announced q"
  "durations_announced (q\<lparr>qs_duration_samples := c\<rparr>) = durations_announced q"
  "durations_announced (q\<lparr>qs_per_char := pc\<rparr>) = durations_announced q"
  by (simp_all add: durations_announced_def)

section \<open>The invariant\<close>

lemma queue_okD:
  assumes "queue_ok q"
  shows "dict_ok (qs_items q)" and "1 \<le> qs_next_id q" and "item_ok q i"
    and "length (qs_recent q) \<le> qs_recent_capacity q"
    and "r \<in> set (qs_recent q) \<Longrightarrow> qi_status r \<in> {Completed, Failed}"
    and "qs_completed_count q = count_status Completed q"
    and "qs_failed_count q = count_status Failed q"
    and "qs_duration_samples q = qs_completed_count q"
    and "qs_duration_total_ms q = sum_list (durations_announced q)"
    and "d \<in> set (durations_announced q) \<Longrightarrow> 0 \<le> d"
  using assms by (auto simp: queue_ok_def)

lemma enqueue_ok: "queue_ok q \<Longrightarrow> queue_ok (snd (enqueue now c k u n q))"
proof -
  assume ok: "queue_ok q"
  let ?q = "snd (enqueue now c k u n q)"
  have "frames_of q (qs_next_id q) = []" and "dict_get (qs_items q) (qs_next_id q) = None"
    using queue_okD(3) [OF ok, of "qs_next_id q"] by (auto simp: item_ok_def split: option.splits)
  then have "item_ok ?q i" for i
    using queue_okD(2) [OF ok] queue_okD(3) [OF ok, of i]
    by (cases "i = qs_next_id q"; cases "dict_get (qs_items q) i")
      (auto simp: item_ok_def enqueue_def Let_def frames_of_notify live_words_def)
  then show ?thesis
    using ok by (simp add: queue_ok_def enqueue_def Let_def count_status_notify durations_notify)
qed

lemma item_okD:
  assumes "queue_ok q" and "dict_get (qs_items q) i = Some item"
  shows "qi_item_id item = i" and "1 \<le> i" and "i < qs_next_id q"
    and "qi_status item \<in> {Queued, Generating}" and "frames_of q i = live_words (qi_status item)"
  using queue_okD(3) [OF assms(1), of i] assms(2) by (simp_all add: item_ok_def)

lemma started_ok: "queue_ok q \<Longrightarrow> queue_ok (mark_started now i q)"
proof -
  assume ok: "queue_ok q"
  show ?thesis
  proof (cases "\<exists>item. dict_get (qs_items q) i = Some item \<and> qi_status item = Queued")
    case False
    then show ?thesis using ok by (auto simp: mark_started_def split: option.split)
  next
    case True
    then obtain item where item: "dict_get (qs_items q) i = Some item" "qi_status item = Queued" by blast
    note own = item_okD [OF ok item(1)]
    have "item_ok (mark_started now i q) j" for j
      using queue_okD(3) [OF ok, of j] own item
      by (cases "j = i"; cases "dict_get (qs_items q) j")
        (simp_all add: item_ok_def mark_started_def Let_def frames_of_notify live_words_def)
    then show ?thesis
      using ok item by (simp add: queue_ok_def mark_started_def Let_def count_status_notify durations_notify)
  qed
qed

lemma final_word: "s \<in> {Completed, Failed} \<Longrightarrow> st \<in> {Queued, Generating} \<Longrightarrow>
  live_words st @ [s] \<in> set final_words"
  by (auto simp: live_words_def final_words_def)

lemma completed_ok: "queue_ok q \<Longrightarrow> queue_ok (mark_completed now i d q)"
proof -
  assume ok: "queue_ok q"
  show ?thesis
  proof (cases "dict_get (qs_items q) i")
    case None
    then show ?thesis using ok by (simp add: mark_completed_def)
  next
    case (Some item)
    note own = item_okD [OF ok Some]
    have "item_ok (mark_completed now i d q) j" for j
      using queue_okD(3) [OF ok, of j] own Some final_word [OF _ own(4), of Completed]
      by (cases "j = i"; cases "dict_get (qs_items q) j")
        (simp_all add: item_ok_def mark_completed_def Let_def frames_of_notify)
    moreover have "r \<in> set (qs_recent (mark_completed now i d q)) \<Longrightarrow> qi_status r \<in> {Completed, Failed}" for r
      using queue_okD(5) [OF ok, of r] Some by (auto simp: mark_completed_def Let_def dest!: ring_append_mem)
    ultimately show ?thesis
      using ok Some
      by (auto simp: queue_ok_def mark_completed_def Let_def count_status_notify durations_notify
          ring_append_length)
  qed
qed

lemma failed_ok: "queue_ok q \<Longrightarrow> queue_ok (mark_failed now i e q)"
proof -
  assume ok: "queue_ok q"
  show ?thesis
  proof (cases "dict_get (qs_items q) i")
    case None
    then show ?thesis using ok by (simp add: mark_failed_def)
  next
    case (Some item)
    note own = item_okD [OF ok Some]
    have "item_ok (mark_failed now i e q) j" for j
      using queue_okD(3) [OF ok, of j] own Some final_word [OF _ own(4), of Failed]
      by (cases "j = i"; cases "dict_get (qs_items q) j")
        (simp_all add: item_ok_def mark_failed_def Let_def frames_of_notify)
    moreover have "r \<in> set (qs_recent (mark_failed now i e q)) \<Longrightarrow> qi_status r \<in> {Completed, Failed}" for r
      using queue_okD(5) [OF ok, of r] Some by (auto simp: mark_failed_def Let_def dest!: ring_append_mem)
    ultimately show ?thesis
      using ok Some
      by (auto simp: queue_ok_def mark_failed_def Let_def count_status_notify durations_notify
          ring_append_length)
  qed
qed

lemma removed_ok: "queue_ok q \<Longrightarrow> queue_ok (snd (remove i q))"
proof -
  assume ok: "queue_ok q"
  have "item_ok (snd (remove i q)) j" for j
    using queue_okD(3) [OF ok, of j]
    by (cases "j = i"; cases "dict_get (qs_items q) j")
      (auto simp: item_ok_def remove_def live_words_def final_words_def)
  then show ?thesis using ok by (simp add: queue_ok_def remove_def)
qed

lemma apply_op_ok: "queue_ok q \<Longrightarrow> queue_ok (apply_op op q)"
  by (cases op) (simp_all add: enqueue_ok started_ok completed_ok failed_ok removed_ok)

lemma queue_run_ok: "queue_ok q \<Longrightarrow> queue_ok (queue_run ops q)"
  by (induction ops arbitrary: q) (simp_all add: queue_run_def apply_op_ok)

end
