(* ===== verification/Queue_History.thy ===== *)
theory Queue_History
  imports Queue_State
begin

text \<open>
  What the queue keeps beside its live items is a function of what it has announced: the ring of
  recent items, the totals and the per-character aggregates are the ones a listener would compute
  from the frames it received (\<open>log_ok\<close>). And no item is lost: every id given out belongs to an
  item still in the queue, to a completed or a failed one, or to one taken out by \<open>remove\<close>.
\<close>

section \<open>The views as functions of the announcements\<close>

definition last_n :: "nat \<Rightarrow> 'a list \<Rightarrow> 'a list" where
  "last_n n xs = drop (length xs - n) xs"

definition settled :: "queue_state \<Rightarrow> queue_item list" where
  "settled q = filter (\<lambda>f. qi_status f \<in> {Completed, Failed}) (qs_frames q)"

definition latest_name :: "queue_item list \<Rightarrow> string option" where
  "latest_name fs = fold (\<lambda>f acc. case qi_character_name f of None \<Rightarrow> acc | Some n \<Rightarrow> Some n) fs None"

definition completed_of :: "queue_item list \<Rightarrow> queue_item list" where
  "completed_of fs = filter (\<lambda>f. qi_status f = Completed) fs"

definition aggregate_of :: "nat \<Rightarrow> queue_item list \<Rightarrow> char_aggregate" where
  "aggregate_of w fs =
     \<lparr>ca_completed_count = int (length (completed_of fs)),
      ca_failed_count = int (length (filter (\<lambda>f. qi_status f = Failed) fs)),
      ca_durations = last_n w (List.map_filter qi_duration_ms (completed_of fs)),
      ca_last_success_at = (if completed_of fs = [] then None else qi_completed_at (last (completed_of fs))),
      ca_character_name = latest_name fs\<rparr>"

definition settled_for :: "queue_state \<Rightarrow> int \<times> string \<Rightarrow> queue_item list" where
  "settled_for q key = filter (\<lambda>f. item_key f = key) (settled q)"

definition log_ok :: "queue_state \<Rightarrow> bool" where
  "log_ok q \<longleftrightarrow> qs_recent q = last_n (qs_recent_capacity q) (settled q)
     \<and> (\<forall>key. dict_get (qs_per_char q) key =
          (if settled_for q key = [] then None
           else Some (aggregate_of (qs_sample_window q) (settled_for q key))))"

lemma ring_append_last_n: "ring_append n (last_n n xs) x = last_n n (xs @ [x])"
  by (cases "length xs < n") (auto simp: ring_append_def last_n_def Let_def Suc_diff_le)

lemma aggregate_of_Nil: "aggregate_of w [] = fresh_aggregate"
  by (simp add: aggregate_of_def fresh_aggregate_def completed_of_def last_n_def latest_name_def)

lemma aggregate_of_completed:
  assumes "qi_status f = Completed" and "qi_duration_ms f = Some d"
  shows "aggregate_of w (fs @ [f]) = stamp_name f ((aggregate_of w fs)
    \<lparr>ca_completed_count := ca_completed_count (aggregate_of w fs) + 1,
     ca_durations := ring_append w (ca_durations (aggregate_of w fs)) d,
     ca_last_success_at := qi_completed_at f\<rparr>)"
  using assms
  by (cases "qi_character_name f")
    (simp_all add: aggregate_of_def stamp_name_def completed_of_def ring_append_last_n latest_name_def)

lemma aggregate_of_failed:
  assumes "qi_status f = Failed"
  shows "aggregate_of w (fs @ [f]) = stamp_name f ((aggregate_of w fs)
    \<lparr>ca_failed_count := ca_failed_count (aggregate_of w fs) + 1\<rparr>)"
  using assms
  by (cases "qi_character_name f")
    (simp_all add: aggregate_of_def stamp_name_def completed_of_def latest_name_def)

lemma settled_notify:
  "settled (notify_locked item q) =
     settled q @ (if qi_status item \<in> {Completed, Failed} then [item] else [])"
  by (simp add: settled_def notify_locked_def)

lemma settled_update [simp]:
  "settled (q\<lparr>qs_items := d\<rparr>) = settled q"
  "settled (q\<lparr>qs_next_id := n\<rparr>) = settled q"
  "settled (q\<lparr>qs_recent := rs\<rparr>) = settled q"
  "settled (q\<lparr>qs_completed_count := c\<rparr>) = settled q"
  "settled (q\<lparr>qs_failed_count := c\<rparr>) = settled q"
  "settled (q\<lparr>qs_duration_total_ms := c\<rparr>) = settled q"
  "settled (q\<lparr>qs_duration_samples := c\<rparr>) = settled q"
  "settled (q\<lparr>qs_per_char := pc\<rparr>) = settled q"
  by (simp_all add: settled_def)

lemma notify_rest [simp]:
  "qs_per_char (notify_locked item q) = qs_per_char q"
  "qs_sample_window (notify_locked item q) = qs_sample_window q"
  by (simp_all add: notify_locked_def)

lemma per_char_aggregate:
  "log_ok q \<Longrightarrow> per_char_locked q key = aggregate_of (qs_sample_window q) (settled_for q key)"
  by (cases key) (simp add: log_ok_def per_char_locked_def dict_get_default_def aggregate_of_Nil)

section \<open>Every operation keeps the views\<close>

lemma log_ok_new: "log_ok (new_queue c w)"
  by (simp add: log_ok_def new_queue_def settled_def settled_for_def last_n_def)

lemma log_ok_unsettled:
  assumes "log_ok q" and "qi_status item \<in> {Queued, Generating}"
  shows "log_ok (notify_locked item q)"
  using assms by (auto simp: log_ok_def settled_notify settled_for_def)

lemma log_ok_items [simp]: "log_ok (q\<lparr>qs_items := d\<rparr>) = log_ok q"
  by (simp add: log_ok_def settled_for_def)

lemma log_ok_next_id [simp]: "log_ok (q\<lparr>qs_next_id := n\<rparr>) = log_ok q"
  by (simp add: log_ok_def settled_for_def)

text \<open>A final transition: the ring and the aggregate of the item's key take the frame in.\<close>

lemma log_ok_settle:
  assumes "log_ok q" and "qi_status item \<in> {Completed, Failed}"
    and "qs_frames q' = qs_frames q" and "qs_sample_window q' = qs_sample_window q"
    and "qs_recent_capacity q' = qs_recent_capacity q"
    and "qs_recent q' = ring_append (qs_recent_capacity q) (qs_recent q) item"
    and "qs_per_char q' = dict_set (qs_per_char q) (item_key item) agg"
    and "agg = aggregate_of (qs_sample_window q) (settled_for q (item_key item) @ [item])"
  shows "log_ok (notify_locked item q')"
proof -
  have "settled q' = settled q" using assms(3) by (simp add: settled_def)
  then show ?thesis
    using assms by (auto simp: log_ok_def settled_notify settled_for_def ring_append_last_n)
qed

lemma completed_log: "log_ok q \<Longrightarrow> log_ok (mark_completed now i d q)"
  unfolding mark_completed_def Let_def
  by (auto split: option.split intro!: log_ok_settle
      simp: per_char_aggregate item_key_def aggregate_of_completed)

lemma failed_log: "log_ok q \<Longrightarrow> log_ok (mark_failed now i e q)"
  unfolding mark_failed_def Let_def
  by (auto split: option.split intro!: log_ok_settle
      simp: per_char_aggregate item_key_def aggregate_of_failed)

lemma apply_op_log: "log_ok q \<Longrightarrow> log_ok (apply_op op q)"
  by (cases op) (auto simp: completed_log failed_log enqueue_def mark_started_def remove_def Let_def
      intro!: log_ok_unsettled split: option.split)

lemma queue_run_log: "log_ok q \<Longrightarrow> log_ok (queue_run ops q)"
  by (induction ops arbitrary: q) (simp_all add: queue_run_def apply_op_log)

section \<open>No item is lost\<close>

text \<open>How many items \<open>remove\<close> has taken out along a history.\<close>

fun removals :: "queue_op list \<Rightarrow> queue_state \<Rightarrow> int" where
  "removals [] q = 0"
| "removals (op # ops) q =
     (case op of Remove i \<Rightarrow> (if fst (remove i q) then 1 else 0) | _ \<Rightarrow> 0) + removals ops (apply_op op q)"

definition unaccounted :: "queue_state \<Rightarrow> int" where
  "unaccounted q = qs_next_id q - 1
     - (int (length (qs_items q)) + qs_completed_count q + qs_failed_count q)"

lemma length_dict_set:
  "length (dict_set d k v) = (if dict_get d k = None then Suc (length d) else length d)"
  by (induction d) (auto simp: dict_set_def)

lemma dict_del_absent: "dict_get d k = None \<Longrightarrow> dict_del d k = d"
  by (induction d) (auto simp: dict_del_def split: if_splits)

lemma length_dict_del:
  "dict_ok d \<Longrightarrow> dict_get d k = Some v \<Longrightarrow> length d = Suc (length (dict_del d k))"
proof (induction d)
  case (Cons p d)
  then show ?case
    using dict_del_absent [of d "fst p"]
    by (cases p) (auto simp: dict_del_def dict_ok_def dict_get_def map_of_eq_None_iff split: if_splits)
qed simp

lemma fresh_id_absent: "queue_ok q \<Longrightarrow> dict_get (qs_items q) (qs_next_id q) = None"
  using queue_okD(3) [of q "qs_next_id q"] by (auto simp: item_ok_def split: option.splits)

lemma apply_op_accounts:
  assumes ok: "queue_ok q"
  shows "unaccounted (apply_op op q) =
    unaccounted q + (case op of Remove i \<Rightarrow> (if fst (remove i q) then 1 else 0) | _ \<Rightarrow> 0)"
  using fresh_id_absent [OF ok] length_dict_del [OF queue_okD(1) [OF ok]]
  by (cases op)
    (auto simp: unaccounted_def enqueue_def mark_started_def mark_completed_def mark_failed_def
      remove_def Let_def length_dict_set dict_del_absent split: option.split)

lemma queue_run_accounts:
  "queue_ok q \<Longrightarrow> unaccounted (queue_run ops q) = unaccounted q + removals ops q"
proof (induction ops arbitrary: q)
  case (Cons op ops)
  then show ?case
    using apply_op_accounts [OF Cons.prems, of op] Cons.IH [OF apply_op_ok [OF Cons.prems, of op]]
    by (simp add: queue_run_def)
qed (simp add: queue_run_def)

lemma unaccounted_new: "unaccounted (new_queue c w) = 0"
  by (simp add: unaccounted_def new_queue_def)

section \<open>What the queue promises to the tasks\<close>

text \<open>
  The contract of the transitions a task announces: on an item that is not in the queue any more
  they do nothing, they put no item into it, and a final one takes its item out.
\<close>

locale item_transition =
  fixes transition :: "int \<Rightarrow> queue_state \<Rightarrow> queue_state"
  assumes on_absent: "dict_get (qs_items q) i = None \<Longrightarrow> transition i q = q"
    and keeps_absent: "dict_get (qs_items q) j = None \<Longrightarrow> dict_get (qs_items (transition i q)) j = None"

locale final_transition = item_transition +
  assumes takes_out: "dict_get (qs_items (transition i q)) i = None"

interpretation started: item_transition "mark_started now" for now
  by unfold_locales (auto simp: mark_started_def Let_def split: option.split)

interpretation failed: final_transition "\<lambda>i. mark_failed now i e" for now e
  by unfold_locales (auto simp: mark_failed_def Let_def split: option.split)

interpretation completed: final_transition "\<lambda>i. mark_completed now i ms" for now ms
  by unfold_locales (auto simp: mark_completed_def Let_def split: option.split)

end
