(* ===== verification/Scheduler.thy ===== *)
theory Scheduler
  imports Queue_History
begin

text \<open>
  \<open>narrative/scheduler.py\<close>: the asyncio tasks that write biographies, one per call of
  \<open>_enqueue_and_spawn\<close>, behind a FIFO semaphore of \<open>width\<close> permits and one lock per character.
  A task is the coroutine \<open>_run\<close> cut at the points where it suspends (its phase); \<open>task_step\<close> runs
  it from one suspension to the next, which on an event loop is atomic. \<open>asyncio.Semaphore\<close>,
  \<open>asyncio.Lock\<close> and \<open>Task.cancel\<close> are modelled as the standard library documents and implements
  them (CPython 3.11 and later): a waiter whose future is cancelled stays in its queue until its
  task runs, a granted permit is owned before its task runs, and cancelling a task that has not
  started means that its body is never entered.

  The queue state is shared by the schedulers of all campaigns, so the operations work on a pair of
  the queue, \<open>None\<close> when the scheduler has none, and the scheduler.
\<close>

section \<open>State\<close>

text \<open>
  \<open>Permitted\<close> is the phase of a task that holds a permit and no lock while it runs; no task is
  suspended in it.
\<close>

datatype task_phase =
    Fresh
  | SemWait
  | SemGranted
  | Permitted
  | LockWait
  | LockGranted
  | Running
  | Finished

record task =
  tk_char :: int
  tk_item :: "int option"
  tk_phase :: task_phase
  tk_cancel :: bool

record char_lock =
  lk_locked :: bool
  lk_waiters :: "nat list"

text \<open>
  A task is named by its position in \<open>sc_tasks\<close>, in order of creation; the set \<open>_tasks\<close> of the code
  holds those not finished. \<open>sc_loop_running\<close> says that the owning loop is known and runs, and
  \<open>sc_calls\<close> are the calls handed to it with \<open>call_soon_threadsafe\<close> that it has not run yet.
\<close>

record sched =
  sc_uuid :: "string option"
  sc_width :: int
  sc_free :: nat
  sc_sem :: "nat list"
  sc_locks :: "(int, char_lock) dict"
  sc_tasks :: "task list"
  sc_active :: "(int, nat) dict"
  sc_loop_running :: bool
  sc_calls :: "int list"

type_synonym desk = "queue_state option \<times> sched"

text \<open>What the provider reports as its width need not be an integer.\<close>

datatype width_value = IntWidth int | OtherWidth

definition clamp_width :: "int option \<Rightarrow> width_value \<Rightarrow> int" where
  "clamp_width max_concurrent reported =
     (case (case max_concurrent of Some w \<Rightarrow> IntWidth w | None \<Rightarrow> reported) of
        IntWidth w \<Rightarrow> (if w < 1 then 1 else w)
      | OtherWidth \<Rightarrow> 1)"

definition sched_of_width :: "string option \<Rightarrow> int \<Rightarrow> bool \<Rightarrow> sched" where
  "sched_of_width campaign_uuid width on_loop =
     \<lparr>sc_uuid = campaign_uuid, sc_width = width, sc_free = nat width, sc_sem = [], sc_locks = [],
      sc_tasks = [], sc_active = [], sc_loop_running = on_loop, sc_calls = []\<rparr>"

definition new_sched :: "string option \<Rightarrow> int option \<Rightarrow> width_value \<Rightarrow> bool \<Rightarrow> sched" where
  "new_sched campaign_uuid max_concurrent reported on_loop =
     sched_of_width campaign_uuid (clamp_width max_concurrent reported) on_loop"

definition phase_of :: "sched \<Rightarrow> nat \<Rightarrow> task_phase" where
  "phase_of s t = (if t < length (sc_tasks s) then tk_phase (sc_tasks s ! t) else Finished)"

definition cancelled :: "sched \<Rightarrow> nat \<Rightarrow> bool" where
  "cancelled s t \<longleftrightarrow> t < length (sc_tasks s) \<and> tk_cancel (sc_tasks s ! t)"

definition task_char :: "sched \<Rightarrow> nat \<Rightarrow> int" where
  "task_char s t = tk_char (sc_tasks s ! t)"

definition item_of :: "sched \<Rightarrow> nat \<Rightarrow> int option" where
  "item_of s t = tk_item (sc_tasks s ! t)"

definition set_phase :: "nat \<Rightarrow> task_phase \<Rightarrow> sched \<Rightarrow> sched" where
  "set_phase t p s = s\<lparr>sc_tasks := (sc_tasks s)[t := (sc_tasks s ! t)\<lparr>tk_phase := p\<rparr>]\<rparr>"

section \<open>The semaphore\<close>

definition sem_locked :: "sched \<Rightarrow> bool" where
  "sem_locked s \<longleftrightarrow> sc_free s = 0
     \<or> list_ex (\<lambda>t. \<not> (phase_of s t = SemWait \<and> cancelled s t)) (sc_sem s)"

definition sem_pending :: "sched \<Rightarrow> nat list" where
  "sem_pending s = filter (\<lambda>t. phase_of s t = SemWait \<and> \<not> cancelled s t) (sc_sem s)"

definition wake_up_next :: "sched \<Rightarrow> bool \<times> sched" where
  "wake_up_next s =
     (case sem_pending s of
        [] \<Rightarrow> (False, s)
      | t # _ \<Rightarrow> (True, set_phase t SemGranted (s\<lparr>sc_free := sc_free s - 1\<rparr>)))"

lemma wake_up_next_free: "fst (wake_up_next s) \<Longrightarrow> sc_free (snd (wake_up_next s)) = sc_free s - 1"
  by (auto simp: wake_up_next_def set_phase_def split: list.splits)

text \<open>The loop \<open>while self._value > 0: if not self._wake_up_next(): break\<close>.\<close>

function wake_while :: "sched \<Rightarrow> sched" where
  "wake_while s =
     (if sc_free s > 0 then
        (let (woken, s') = wake_up_next s in if woken then wake_while s' else s')
      else s)"
  by pat_completeness auto
termination
  by (relation "measure sc_free") (auto dest!: arg_cong [where f = fst] simp: wake_up_next_def
      set_phase_def split: list.splits)

declare wake_while.simps [simp del]

definition sem_release :: "sched \<Rightarrow> sched" where
  "sem_release s = snd (wake_up_next (s\<lparr>sc_free := sc_free s + 1\<rparr>))"

text \<open>\<open>acquire\<close> up to its suspension, and what the task does when it is resumed in it.\<close>

definition sem_acquire :: "nat \<Rightarrow> sched \<Rightarrow> bool \<times> sched" where
  "sem_acquire t s =
     (if sem_locked s then (False, set_phase t SemWait (s\<lparr>sc_sem := sc_sem s @ [t]\<rparr>))
      else (True, set_phase t Permitted (s\<lparr>sc_free := sc_free s - 1\<rparr>)))"

definition sem_resume :: "nat \<Rightarrow> sched \<Rightarrow> sched" where
  "sem_resume t s = wake_while (set_phase t Permitted (s\<lparr>sc_sem := remove1 t (sc_sem s)\<rparr>))"

definition sem_abandon :: "nat \<Rightarrow> sched \<Rightarrow> sched" where
  "sem_abandon t s =
     wake_while (set_phase t Finished (s\<lparr>sc_sem := remove1 t (sc_sem s),
       sc_free := (if phase_of s t = SemGranted then sc_free s + 1 else sc_free s)\<rparr>))"

section \<open>The lock of a character\<close>

definition lock_of :: "sched \<Rightarrow> int \<Rightarrow> char_lock" where
  "lock_of s c = dict_get_default (sc_locks s) c \<lparr>lk_locked = False, lk_waiters = []\<rparr>"

definition set_lock :: "int \<Rightarrow> char_lock \<Rightarrow> sched \<Rightarrow> sched" where
  "set_lock c l s = s\<lparr>sc_locks := dict_set (sc_locks s) c l\<rparr>"

definition wake_up_first :: "int \<Rightarrow> sched \<Rightarrow> sched" where
  "wake_up_first c s =
     (case lk_waiters (lock_of s c) of
        [] \<Rightarrow> s
      | t # _ \<Rightarrow> if phase_of s t = LockWait \<and> \<not> cancelled s t then set_phase t LockGranted s else s)"

definition lock_acquire :: "nat \<Rightarrow> sched \<Rightarrow> bool \<times> sched" where
  "lock_acquire t s =
     (let c = task_char s t; l = lock_of s c
      in if \<not> lk_locked l \<and> list_all (\<lambda>w. phase_of s w = LockWait \<and> cancelled s w) (lk_waiters l)
         then (True, set_phase t Running (set_lock c (l\<lparr>lk_locked := True\<rparr>) s))
         else (False, set_phase t LockWait (set_lock c (l\<lparr>lk_waiters := lk_waiters l @ [t]\<rparr>) s)))"

definition lock_resume :: "nat \<Rightarrow> sched \<Rightarrow> sched" where
  "lock_resume t s =
     (let c = task_char s t; l = lock_of s c
      in set_phase t Running
           (set_lock c \<lparr>lk_locked = True, lk_waiters = remove1 t (lk_waiters l)\<rparr> s))"

definition lock_abandon :: "nat \<Rightarrow> sched \<Rightarrow> sched" where
  "lock_abandon t s =
     (let c = task_char s t; l = lock_of s c;
          s = set_phase t Permitted (set_lock c (l\<lparr>lk_waiters := remove1 t (lk_waiters l)\<rparr>) s)
      in if \<not> lk_locked l then wake_up_first c s else s)"

definition lock_release :: "nat \<Rightarrow> sched \<Rightarrow> sched" where
  "lock_release t s =
     (let c = task_char s t; l = lock_of s c
      in wake_up_first c (set_phase t Permitted (set_lock c (l\<lparr>lk_locked := False\<rparr>) s)))"

section \<open>The coroutine\<close>

text \<open>How \<open>generate_biography\<close> ends: with a duration, an error value, an exception, or cancelled.\<close>

datatype outcome = Written int | BioError string | BioRaised string | BioCancelled

text \<open>\<open>if self._queue_state is not None and item_id is not None\<close>.\<close>

definition note_item :: "nat \<Rightarrow> (int \<Rightarrow> queue_state \<Rightarrow> queue_state) \<Rightarrow> desk \<Rightarrow> desk" where
  "note_item t f d =
     (case d of (q, s) \<Rightarrow>
        (case (q, item_of s t) of (Some q, Some i) \<Rightarrow> (Some (f i q), s) | _ \<Rightarrow> (q, s)))"

definition on_sched :: "(sched \<Rightarrow> sched) \<Rightarrow> desk \<Rightarrow> desk" where
  "on_sched f d = (fst d, f (snd d))"

text \<open>The \<open>finally\<close> clause: the entry of the item in \<open>_active_tasks\<close> goes.\<close>

definition forget_item :: "nat \<Rightarrow> sched \<Rightarrow> sched" where
  "forget_item t s =
     (case item_of s t of None \<Rightarrow> s | Some i \<Rightarrow> s\<lparr>sc_active := dict_del (sc_active s) i\<rparr>)"

definition finish_task :: "nat \<Rightarrow> sched \<Rightarrow> sched" where
  "finish_task t s = sem_release (set_phase t Finished s)"

definition fail_cancelled :: "string \<Rightarrow> nat \<Rightarrow> desk \<Rightarrow> desk" where
  "fail_cancelled now t d = note_item t (\<lambda>i. mark_failed now i ''cancelled'') d"

definition enter_lock :: "string \<Rightarrow> nat \<Rightarrow> desk \<Rightarrow> desk" where
  "enter_lock now t d =
     (let (got, s) = lock_acquire t (snd d)
      in if got then note_item t (mark_started now) (fst d, s) else (fst d, s))"

definition note_outcome :: "string \<Rightarrow> outcome \<Rightarrow> nat \<Rightarrow> desk \<Rightarrow> desk" where
  "note_outcome now out t d =
     note_item t (\<lambda>i. case out of
         Written ms \<Rightarrow> mark_completed now i ms
       | BioError e \<Rightarrow> mark_failed now i e
       | BioRaised r \<Rightarrow> mark_failed now i r
       | BioCancelled \<Rightarrow> mark_failed now i ''cancelled'') d"

definition ready :: "sched \<Rightarrow> nat \<Rightarrow> bool" where
  "ready s t \<longleftrightarrow> phase_of s t \<in> {Fresh, SemGranted, LockGranted, Running}
     \<or> (phase_of s t \<in> {SemWait, LockWait} \<and> cancelled s t)"

definition task_step :: "string \<Rightarrow> outcome \<Rightarrow> nat \<Rightarrow> desk \<Rightarrow> desk" where
  "task_step now out t d =
     (let s = snd d; c = cancelled s t
      in case phase_of s t of
        Fresh \<Rightarrow>
          (if c then on_sched (set_phase t Finished) d
           else let (got, s') = sem_acquire t s
                in if got then enter_lock now t (fst d, s') else (fst d, s'))
      | SemWait \<Rightarrow>
          on_sched (forget_item t) (fail_cancelled now t (on_sched (sem_abandon t) d))
      | SemGranted \<Rightarrow>
          (if c then on_sched (forget_item t) (fail_cancelled now t (on_sched (sem_abandon t) d))
           else enter_lock now t (on_sched (sem_resume t) d))
      | LockWait \<Rightarrow>
          on_sched (forget_item t) (fail_cancelled now t
            (on_sched (finish_task t) (on_sched (lock_abandon t) d)))
      | LockGranted \<Rightarrow>
          (if c then on_sched (forget_item t) (fail_cancelled now t
             (on_sched (finish_task t) (on_sched (lock_abandon t) d)))
           else note_item t (mark_started now) (on_sched (lock_resume t) d))
      | Running \<Rightarrow>
          on_sched (forget_item t) ((if out = BioCancelled then fail_cancelled now t else id)
            (on_sched (finish_task t) (on_sched (lock_release t) (note_outcome now out t d))))
      | Permitted \<Rightarrow> d
      | Finished \<Rightarrow> d)"

section \<open>Submitting\<close>

definition spawn :: "int \<Rightarrow> int option \<Rightarrow> sched \<Rightarrow> sched" where
  "spawn character_id item_id s =
     (let t = length (sc_tasks s);
          s = s\<lparr>sc_tasks := sc_tasks s @ [\<lparr>tk_char = character_id, tk_item = item_id,
                tk_phase = Fresh, tk_cancel = False\<rparr>]\<rparr>
      in case item_id of None \<Rightarrow> s | Some i \<Rightarrow> s\<lparr>sc_active := dict_set (sc_active s) i t\<rparr>)"

text \<open>
  \<open>on_loop\<close>: the caller runs on an event loop; otherwise the call is handed to the owning loop when
  that runs, and skipped when there is none.
\<close>

definition enqueue_and_spawn ::
  "string \<Rightarrow> (int \<Rightarrow> string option) \<Rightarrow> bool \<Rightarrow> int \<Rightarrow> desk \<Rightarrow> int option \<times> desk" where
  "enqueue_and_spawn now name_of on_loop character_id d =
     (let (q, s) = d in
      if on_loop then
        (let s = s\<lparr>sc_loop_running := True\<rparr>
         in case q of
              None \<Rightarrow> (None, (None, spawn character_id None s))
            | Some q \<Rightarrow>
                (let (item_id, q) = enqueue now character_id ''biography'' (sc_uuid s)
                       (name_of character_id) q
                 in (Some item_id, (Some q, spawn character_id (Some item_id) s))))
      else if sc_loop_running s then (None, (q, s\<lparr>sc_calls := sc_calls s @ [character_id]\<rparr>))
      else (None, d))"

text \<open>The loop runs a call that was handed to it.\<close>

definition run_posted :: "string \<Rightarrow> (int \<Rightarrow> string option) \<Rightarrow> desk \<Rightarrow> desk" where
  "run_posted now name_of d =
     (case sc_calls (snd d) of
        [] \<Rightarrow> d
      | c # cs \<Rightarrow> snd (enqueue_and_spawn now name_of True c (fst d, (snd d)\<lparr>sc_calls := cs\<rparr>)))"

definition schedule_biography ::
  "(int \<Rightarrow> bool) \<Rightarrow> (int \<Rightarrow> bool) \<Rightarrow> bool \<Rightarrow> string \<Rightarrow> (int \<Rightarrow> string option) \<Rightarrow> bool \<Rightarrow> int \<Rightarrow> desk \<Rightarrow> desk" where
  "schedule_biography is_tracked is_paused globally_paused now name_of on_loop character_id d =
     (if \<not> is_tracked character_id then d
      else if is_paused character_id then d
      else if globally_paused then d
      else snd (enqueue_and_spawn now name_of on_loop character_id d))"

definition regenerate ::
  "string \<Rightarrow> (int \<Rightarrow> string option) \<Rightarrow> bool \<Rightarrow> int \<Rightarrow> desk \<Rightarrow> int option \<times> desk" where
  "regenerate now name_of on_loop character_id d =
     enqueue_and_spawn now name_of on_loop character_id d"

section \<open>Cancelling and reordering\<close>

text \<open>\<open>task.cancel()\<close>: without effect on a finished task.\<close>

definition cancel_task :: "nat \<Rightarrow> sched \<Rightarrow> sched" where
  "cancel_task t s =
     (if phase_of s t = Finished then s
      else s\<lparr>sc_tasks := (sc_tasks s)[t := (sc_tasks s ! t)\<lparr>tk_cancel := True\<rparr>]\<rparr>)"

text \<open>
  \<open>cancel_item\<close> up to the point where it awaits the task. It goes on when the task has finished.
\<close>

definition cancel_item :: "int \<Rightarrow> sched \<Rightarrow> bool \<times> sched" where
  "cancel_item item_id s =
     (case dict_get (sc_active s) item_id of
        None \<Rightarrow> (False, s)
      | Some t \<Rightarrow> if phase_of s t = Finished then (False, s) else (True, cancel_task t s))"

text \<open>
  The order of a reordered queue: the requested items that are queued, once each, then the others
  as they were.
\<close>

fun requested_items :: "queue_item list \<Rightarrow> int list \<Rightarrow> int list \<Rightarrow> queue_item list" where
  "requested_items queued seen [] = []"
| "requested_items queued seen (rid # rids) =
     (case List.find (\<lambda>i. qi_item_id i = rid) queued of
        None \<Rightarrow> requested_items queued seen rids
      | Some item \<Rightarrow>
          if rid \<in> set seen then requested_items queued seen rids
          else item # requested_items queued (rid # seen) rids)"

definition reorder_sequence :: "queue_item list \<Rightarrow> int list \<Rightarrow> queue_item list" where
  "reorder_sequence queued requested_ids =
     (let req = requested_items queued [] requested_ids
      in if req = [] then []
         else req @ filter (\<lambda>i. qi_item_id i \<notin> set (map qi_item_id req)) queued)"

definition own_tasks :: "sched \<Rightarrow> queue_item list \<Rightarrow> nat list" where
  "own_tasks s queued = List.map_filter (\<lambda>i. dict_get (sc_active s) (qi_item_id i)) queued"

text \<open>
  \<open>reorder_queued\<close> in its three parts: the queued items leave the queue and their tasks are
  cancelled; the loop runs those tasks, which \<open>gather\<close> awaits; every item is submitted again.
\<close>

definition reorder_begin :: "queue_item list \<Rightarrow> queue_state \<Rightarrow> sched \<Rightarrow> desk" where
  "reorder_begin queued q s =
     (Some (foldl (\<lambda>q i. snd (remove (qi_item_id i) q)) q queued),
      foldl (\<lambda>s t. cancel_task t s) s (own_tasks s queued))"

definition await_tasks :: "string \<Rightarrow> nat list \<Rightarrow> desk \<Rightarrow> desk" where
  "await_tasks now ts d = foldl (\<lambda>d t. task_step now BioCancelled t d) d ts"

fun respawn_all ::
  "string \<Rightarrow> (int \<Rightarrow> string option) \<Rightarrow> queue_item list \<Rightarrow> desk \<Rightarrow> int list \<times> desk" where
  "respawn_all now name_of [] d = ([], d)"
| "respawn_all now name_of (item # items) d =
     (let (new_id, d) = regenerate now name_of True (qi_character_id item) d;
          (ids, d) = respawn_all now name_of items d
      in (case new_id of None \<Rightarrow> ids | Some i \<Rightarrow> i # ids, d))"

definition reorder_queued ::
  "string \<Rightarrow> (int \<Rightarrow> string option) \<Rightarrow> int list \<Rightarrow> desk \<Rightarrow> int list \<times> desk" where
  "reorder_queued now name_of requested_ids d =
     (case fst d of
        None \<Rightarrow> ([], d)
      | Some q \<Rightarrow>
          (let s = snd d; queued = qsn_queued (queue_snapshot_of q);
               ordered = reorder_sequence queued requested_ids
           in if queued = [] \<or> ordered = [] then ([], d)
              else respawn_all now name_of ordered
                (await_tasks now (own_tasks s queued) (reorder_begin queued q s))))"

text \<open>
  The route \<open>PATCH /narrative-queue/reorder\<close> calls every scheduler in turn on the one queue and
  joins the ids.
\<close>

fun reorder_narrative_queue ::
  "string \<Rightarrow> (int \<Rightarrow> string option) list \<Rightarrow> int list \<Rightarrow> queue_state option \<Rightarrow> sched list
    \<Rightarrow> int list \<times> queue_state option \<times> sched list" where
  "reorder_narrative_queue now (name_of # names) ids q (s # ss) =
     (let (new_ids, (q, s)) = reorder_queued now name_of ids (q, s);
          (more, (q, ss)) = reorder_narrative_queue now names ids q ss
      in (new_ids @ more, (q, s # ss)))"
| "reorder_narrative_queue now names ids q ss = ([], (q, ss))"

text \<open>The route \<open>DELETE /narrative-queue/{item_id}\<close>: the first scheduler that knows the item.\<close>

fun cancel_narrative_queue_item :: "int \<Rightarrow> sched list \<Rightarrow> bool \<times> sched list" where
  "cancel_narrative_queue_item item_id [] = (False, [])"
| "cancel_narrative_queue_item item_id (s # ss) =
     (let (ok, s) = cancel_item item_id s
      in if ok then (True, s # ss)
         else let (ok, ss) = cancel_narrative_queue_item item_id ss in (ok, s # ss))"

section \<open>The step relation\<close>

text \<open>
  Everything that can happen to a scheduler: a submission, a call handed to the loop, a
  cancellation, a step of a task that is ready, and whatever others do to the queue they share. A
  generation ends cancelled only when its task was cancelled.
\<close>

inductive sched_step :: "desk \<Rightarrow> desk \<Rightarrow> bool" where
  Submit: "sched_step d (snd (enqueue_and_spawn now name_of on_loop c d))"
| Posted: "sched_step d (run_posted now name_of d)"
| Cancel: "sched_step (q, s) (q, cancel_task t s)"
| Step: "ready (snd d) t \<Longrightarrow> out = BioCancelled \<longrightarrow> cancelled (snd d) t
    \<Longrightarrow> sched_step d (task_step now out t d)"
| Others: "sched_step (q, s) (q', s)"

inductive sched_reach :: "desk \<Rightarrow> bool" where
  Start: "sched_reach (q, new_sched uuid max_concurrent reported on_loop)"
| Next: "sched_reach d \<Longrightarrow> sched_step d d' \<Longrightarrow> sched_reach d'"

inductive_cases sched_stepE: "sched_step d d'"

end
