(* ===== verification/Scheduler_Facts.thy ===== *)
theory Scheduler_Facts
  imports Scheduler
begin

text \<open>
  The invariant of the scheduler (\<open>sched_ok\<close>): the permits and their holders add up to the width,
  the waiters of the semaphore and of each lock are the tasks in the matching phases, a locked lock
  has one running task, and whoever could be woken will be. Every step keeps it; a task can step
  as long as one is unfinished; and steps of tasks lower a measure.
\<close>

named_theorems view_simps \<open>what the elementary updates do to the views of a scheduler\<close>

section \<open>Views\<close>

text \<open>An update of one task, seen through a field that it does not change.\<close>

lemma nth_list_update_or: "f x = f (xs ! t) \<Longrightarrow> f (xs[t := x] ! u) = f (xs ! u)"
  by (cases "t < length xs"; cases "u = t") (simp_all add: list_update_beyond)

lemma phase_bound: "phase_of s t \<noteq> Finished \<Longrightarrow> t < length (sc_tasks s)"
  by (simp add: phase_of_def split: if_splits)

lemma phase_set_phase [view_simps]:
  "t < length (sc_tasks s) \<Longrightarrow> phase_of (set_phase t p s) u = (if u = t then p else phase_of s u)"
  by (simp add: phase_of_def set_phase_def)

lemma views_set_phase [view_simps]:
  "cancelled (set_phase t p s) = cancelled s"
  "lock_of (set_phase t p s) = lock_of s"
  "sc_sem (set_phase t p s) = sc_sem s"
  "sc_free (set_phase t p s) = sc_free s"
  "sc_width (set_phase t p s) = sc_width s"
  "length (sc_tasks (set_phase t p s)) = length (sc_tasks s)"
  by (cases "t < length (sc_tasks s)";
      auto simp: fun_eq_iff cancelled_def lock_of_def set_phase_def nth_list_update list_update_beyond)+

lemma char_set_phase [view_simps]: "task_char (set_phase t p s) u = task_char s u"
  by (cases "t < length (sc_tasks s)"; cases "u = t")
    (simp_all add: task_char_def set_phase_def list_update_beyond)

lemma item_set_phase [view_simps]: "item_of (set_phase t p s) = item_of s"
  by (rule ext) (simp add: item_of_def set_phase_def nth_list_update_or)

lemma rest_simps [view_simps]:
  "sc_active (set_phase t p s) = sc_active s" "sc_uuid (set_phase t p s) = sc_uuid s"
  "sc_active (set_lock c l s) = sc_active s" "sc_uuid (set_lock c l s) = sc_uuid s"
  "item_of (set_lock c l s) = item_of s" "item_of (s\<lparr>sc_sem := w\<rparr>) = item_of s"
  "item_of (s\<lparr>sc_free := n\<rparr>) = item_of s" "item_of (s\<lparr>sc_active := a\<rparr>) = item_of s"
  "item_of (s\<lparr>sc_loop_running := b\<rparr>) = item_of s" "item_of (s\<lparr>sc_calls := cs\<rparr>) = item_of s"
  by (simp_all add: item_of_def set_phase_def set_lock_def fun_eq_iff)

lemma views_sem [view_simps]:
  "phase_of (s\<lparr>sc_sem := w\<rparr>) = phase_of s"
  "cancelled (s\<lparr>sc_sem := w\<rparr>) = cancelled s"
  "task_char (s\<lparr>sc_sem := w\<rparr>) = task_char s"
  "lock_of (s\<lparr>sc_sem := w\<rparr>) = lock_of s"
  "phase_of (s\<lparr>sc_free := n\<rparr>) = phase_of s"
  "cancelled (s\<lparr>sc_free := n\<rparr>) = cancelled s"
  "task_char (s\<lparr>sc_free := n\<rparr>) = task_char s"
  "lock_of (s\<lparr>sc_free := n\<rparr>) = lock_of s"
  by (auto simp: fun_eq_iff phase_of_def cancelled_def task_char_def lock_of_def)

lemma views_lock [view_simps]:
  "phase_of (set_lock c l s) = phase_of s"
  "cancelled (set_lock c l s) = cancelled s"
  "task_char (set_lock c l s) = task_char s"
  "sc_sem (set_lock c l s) = sc_sem s"
  "sc_free (set_lock c l s) = sc_free s"
  "sc_width (set_lock c l s) = sc_width s"
  "sc_tasks (set_lock c l s) = sc_tasks s"
  "lock_of (set_lock c l s) c' = (if c' = c then l else lock_of s c')"
  by (auto simp: fun_eq_iff phase_of_def cancelled_def task_char_def lock_of_def set_lock_def
      dict_get_default_def)

section \<open>The invariant\<close>

definition holding :: "task_phase \<Rightarrow> bool" where
  "holding p \<longleftrightarrow> p \<in> {SemGranted, Permitted, LockWait, LockGranted, Running}"

definition holders :: "sched \<Rightarrow> nat set" where
  "holders s = {t. holding (phase_of s t)}"

definition sem_ok :: "sched \<Rightarrow> bool" where
  "sem_ok s \<longleftrightarrow> sc_free s + card (holders s) = nat (sc_width s) \<and> distinct (sc_sem s)
     \<and> set (sc_sem s) = {t. phase_of s t \<in> {SemWait, SemGranted}}"

definition sem_live :: "sched \<Rightarrow> bool" where
  "sem_live s \<longleftrightarrow> sc_free s = 0 \<or> sem_pending s = [] \<or> (\<exists>t. phase_of s t = SemGranted)
     \<or> (\<exists>t. phase_of s t = SemWait \<and> cancelled s t)"

text \<open>The tasks of a character in a phase.\<close>

definition phase_set :: "sched \<Rightarrow> int \<Rightarrow> task_phase \<Rightarrow> nat set" where
  "phase_set s c p = {t. phase_of s t = p \<and> task_char s t = c}"

definition lock_ok :: "int \<Rightarrow> sched \<Rightarrow> bool" where
  "lock_ok c s \<longleftrightarrow> (let l = lock_of s c; ws = lk_waiters l in
     distinct ws
     \<and> set ws = phase_set s c LockWait \<union> phase_set s c LockGranted
     \<and> phase_set s c LockGranted \<subseteq> {hd ws}
     \<and> (phase_set s c LockGranted \<noteq> {} \<longrightarrow> \<not> lk_locked l)
     \<and> (if lk_locked l then (\<exists>t. phase_set s c Running = {t}) else phase_set s c Running = {})
     \<and> (\<not> lk_locked l \<longrightarrow> ws \<noteq> [] \<longrightarrow> ready s (hd ws)))"

definition core_ok :: "sched \<Rightarrow> bool" where
  "core_ok s \<longleftrightarrow> sem_ok s \<and> sem_live s \<and> (\<forall>c. lock_ok c s)"

definition sched_ok :: "sched \<Rightarrow> bool" where
  "sched_ok s \<longleftrightarrow> core_ok s \<and> (\<forall>t. phase_of s t \<noteq> Permitted)"

lemma finite_holders [simp]: "finite (holders s)"
  using phase_bound [of s]
  by (intro finite_subset [of "holders s" "{..< length (sc_tasks s)}"])
    (auto simp: holders_def holding_def)

lemma holders_set_phase:
  assumes "t < length (sc_tasks s)"
  shows "holders (set_phase t p s) = (if holding p then insert t (holders s) else holders s - {t})"
  using assms by (auto simp: holders_def view_simps)

lemma card_holders_set_phase:
  assumes "t < length (sc_tasks s)"
  shows "card (holders (set_phase t p s)) =
    (if holding p then (if t \<in> holders s then card (holders s) else card (holders s) + 1)
     else (if t \<in> holders s then card (holders s) - 1 else card (holders s)))"
  by (auto simp: holders_set_phase [OF assms] insert_absorb)

lemma holders_cong: "(\<And>t. holding (phase_of s' t) = holding (phase_of s t)) \<Longrightarrow> holders s' = holders s"
  by (simp add: holders_def)

lemma holders_pos: "t \<in> holders s \<Longrightarrow> 0 < card (holders s)"
  by (auto simp: card_gt_0_iff)

text \<open>Each half of the invariant only sees some of the phases.\<close>

lemma phase_set_set_phase:
  "t < length (sc_tasks s) \<Longrightarrow> phase_set (set_phase t p s) c q =
     (if p = q \<and> task_char s t = c then insert t (phase_set s c q) else phase_set s c q - {t})"
  by (auto simp: phase_set_def view_simps)

lemma lock_ok_sets:
  assumes eq: "\<And>p. p \<in> {LockWait, LockGranted, Running} \<Longrightarrow> phase_set s' c p = phase_set s c p"
    and "\<And>t. cancelled s t \<Longrightarrow> cancelled s' t" and "lock_of s' c = lock_of s c" and ok: "lock_ok c s"
  shows "lock_ok c s'"
proof -
  let ?ws = "lk_waiters (lock_of s c)"
  have "ready s' (hd ?ws)" if "?ws \<noteq> []" "ready s (hd ?ws)"
  proof -
    have hd: "hd ?ws \<in> phase_set s c LockWait \<union> phase_set s c LockGranted"
      using ok hd_in_set [OF that(1)] by (auto simp: lock_ok_def Let_def)
    have "hd ?ws \<in> phase_set s' c p" if "hd ?ws \<in> phase_set s c p" "p \<in> {LockWait, LockGranted}" for p
      using that by (auto simp: eq)
    with hd have "phase_of s' (hd ?ws) = phase_of s (hd ?ws)" by (auto simp: phase_set_def)
    with hd that(2) assms(2) [of "hd ?ws"] show ?thesis by (auto simp: phase_set_def ready_def)
  qed
  then show ?thesis using ok by (simp add: lock_ok_def Let_def eq assms(3))
qed

lemma lock_ok_cong:
  assumes "\<And>t. phase_of s' t = phase_of s t \<or>
      (phase_of s' t \<notin> {LockWait, LockGranted, Running} \<and> phase_of s t \<notin> {LockWait, LockGranted, Running})"
    and "\<And>t. phase_of s t \<in> {LockWait, LockGranted, Running} \<Longrightarrow> task_char s' t = task_char s t"
    and "\<And>t. cancelled s t \<Longrightarrow> cancelled s' t"
    and "lock_of s' c = lock_of s c" and ok: "lock_ok c s"
  shows "lock_ok c s'"
proof (rule lock_ok_sets [OF _ assms(3,4) ok])
  fix p :: task_phase
  assume p: "p \<in> {LockWait, LockGranted, Running}"
  have "(phase_of s' t = p \<and> task_char s' t = c) = (phase_of s t = p \<and> task_char s t = c)" for t
    using assms(1) [of t] assms(2) [of t] p by auto
  then show "phase_set s' c p = phase_set s c p" by (simp add: phase_set_def)
qed

lemma sem_ok_cong:
  assumes "\<And>t. phase_of s' t = phase_of s t \<or>
      (phase_of s' t \<notin> {SemWait, SemGranted} \<and> phase_of s t \<notin> {SemWait, SemGranted}
       \<and> holding (phase_of s' t) = holding (phase_of s t))"
    and "sc_sem s' = sc_sem s" and "sc_free s' = sc_free s" and "sc_width s' = sc_width s"
    and "sem_ok s"
  shows "sem_ok s'"
proof -
  have "holders s' = holders s" by (rule holders_cong) (metis assms(1))
  moreover have "{t. phase_of s' t \<in> {SemWait, SemGranted}} = {t. phase_of s t \<in> {SemWait, SemGranted}}"
    using assms(1) by (metis (lifting))
  ultimately show ?thesis using assms(2-5) by (simp add: sem_ok_def)
qed

lemma sem_live_cong:
  assumes "\<And>t. phase_of s' t = phase_of s t \<or>
      (phase_of s' t \<notin> {SemWait, SemGranted} \<and> phase_of s t \<notin> {SemWait, SemGranted})"
    and "sc_sem s' = sc_sem s" and "sc_free s' = sc_free s"
    and "\<And>t. cancelled s t \<Longrightarrow> cancelled s' t"
    and "sem_live s"
  shows "sem_live s'"
proof -
  have "set (sem_pending s') \<subseteq> set (sem_pending s)"
    using assms(1,2,4) unfolding sem_pending_def by auto (metis insertI1)
  then have "sem_pending s = [] \<Longrightarrow> sem_pending s' = []" by simp
  moreover have "phase_of s t = p \<Longrightarrow> p \<in> {SemWait, SemGranted} \<Longrightarrow> phase_of s' t = p" for t p
    using assms(1) [of t] by auto
  ultimately show ?thesis using assms(3-5) unfolding sem_live_def by (metis insertCI)
qed

section \<open>Waking waiters of the semaphore\<close>

text \<open>What granting permits leaves alone.\<close>

definition grants :: "sched \<Rightarrow> sched \<Rightarrow> bool" where
  "grants s s' \<longleftrightarrow> sc_sem s' = sc_sem s \<and> sc_width s' = sc_width s \<and> lock_of s' = lock_of s
     \<and> length (sc_tasks s') = length (sc_tasks s) \<and> cancelled s' = cancelled s \<and> task_char s' = task_char s
     \<and> item_of s' = item_of s \<and> sc_active s' = sc_active s \<and> sc_uuid s' = sc_uuid s
     \<and> (\<forall>t. phase_of s' t = phase_of s t \<or> (phase_of s t = SemWait \<and> phase_of s' t = SemGranted))"

lemma grants_refl [simp]: "grants s s"
  by (simp add: grants_def)

lemma grants_trans: "grants s s' \<Longrightarrow> grants s' s'' \<Longrightarrow> grants s s''"
  unfolding grants_def by (metis task_phase.distinct)

lemma pending_mem: "sem_pending s = t # ts \<Longrightarrow> phase_of s t = SemWait \<and> t \<in> set (sc_sem s)"
proof -
  assume "sem_pending s = t # ts"
  then have "t \<in> set (sem_pending s)" by simp
  then show ?thesis by (simp add: sem_pending_def)
qed

lemma wake_up_next_grants: "grants s (snd (wake_up_next s))"
  using pending_mem [of s] phase_bound [of s]
  by (auto simp: wake_up_next_def grants_def view_simps fun_eq_iff split: list.split)

lemma wake_up_next_sem_ok: "sem_ok s \<Longrightarrow> 0 < sc_free s \<Longrightarrow> sem_ok (snd (wake_up_next s))"
proof (cases "sem_pending s")
  case (Cons t ts)
  assume ok: "sem_ok s" and pos: "0 < sc_free s"
  have t: "phase_of s t = SemWait" "t < length (sc_tasks s)"
    using pending_mem [OF Cons] phase_bound [of s t] by auto
  have "holders (s\<lparr>sc_free := n\<rparr>) = holders s" for n by (simp add: holders_def view_simps)
  moreover have "t \<notin> holders s" using t by (simp add: holders_def holding_def)
  ultimately show ?thesis
    using ok pos t Cons
    by (auto simp: wake_up_next_def sem_ok_def view_simps card_holders_set_phase holding_def)
qed (simp add: wake_up_next_def)

lemma wake_while_spec:
  "grants s (wake_while s) \<and> (sem_ok s \<longrightarrow> sem_ok (wake_while s))
    \<and> (sc_free (wake_while s) = 0 \<or> sem_pending (wake_while s) = [])"
proof (induction s rule: wake_while.induct)
  case (1 s)
  obtain b s' where w: "wake_up_next s = (b, s')" by (cases "wake_up_next s")
  have g: "grants s s'" and ok: "sem_ok s \<Longrightarrow> 0 < sc_free s \<Longrightarrow> sem_ok s'"
    using wake_up_next_grants [of s] wake_up_next_sem_ok [of s] w by simp_all
  have none: "\<not> b \<Longrightarrow> sem_pending s' = []"
    using w by (auto simp: wake_up_next_def split: list.splits)
  show ?case
    using 1 [OF _ w [symmetric] refl] g ok none grants_trans [OF g]
    by (subst (1 2 3 4) wake_while.simps) (auto simp: w Let_def)
qed

lemma grants_lock_ok: "grants s s' \<Longrightarrow> lock_ok c s \<Longrightarrow> lock_ok c s'"
  by (rule lock_ok_cong [of s' s]) (auto simp: grants_def)

lemma sem_live_done: "sc_free s = 0 \<or> sem_pending s = [] \<Longrightarrow> sem_live s"
  by (auto simp: sem_live_def)

text \<open>Any change of the semaphore that \<open>wake_while\<close> follows.\<close>

lemma wake_while_core:
  assumes "sem_ok s" and "\<And>c. lock_ok c s"
  shows "core_ok (wake_while s)"
  using assms wake_while_spec [of s] grants_lock_ok [of s "wake_while s"] sem_live_done
  by (auto simp: core_ok_def)

section \<open>The transitions keep the invariant\<close>

lemma coreD:
  assumes "core_ok s"
  shows "sem_ok s" and "sem_live s" and "lock_ok c s"
  using assms by (simp_all add: core_ok_def)

lemma sem_okD:
  assumes "sem_ok s"
  shows "sc_free s + card (holders s) = nat (sc_width s)" and "distinct (sc_sem s)"
    and "t \<in> set (sc_sem s) \<longleftrightarrow> phase_of s t = SemWait \<or> phase_of s t = SemGranted"
  using assms by (auto simp: sem_ok_def)

lemma holders_sem [simp]:
  "holders (s\<lparr>sc_free := n\<rparr>) = holders s"
  "holders (s\<lparr>sc_sem := w\<rparr>) = holders s"
  "holders (set_lock c l s) = holders s"
  by (simp_all add: holders_def view_simps)

lemma mem_holders: "t \<in> holders s \<longleftrightarrow> holding (phase_of s t)"
  by (simp add: holders_def)

lemma holding_simps [simp]:
  "holding SemGranted" "holding Permitted" "holding LockWait" "holding LockGranted" "holding Running"
  "\<not> holding Fresh" "\<not> holding SemWait" "\<not> holding Finished"
  by (simp_all add: holding_def)

text \<open>A phase outside the lock goes to a phase outside the lock.\<close>

lemma lock_ok_outside:
  assumes "lock_ok c s" and "phase_of s t \<notin> {LockWait, LockGranted, Running, Finished}"
    and "p \<notin> {LockWait, LockGranted, Running}"
  shows "lock_ok c (set_phase t p s)"
proof (rule lock_ok_cong [OF _ _ _ _ assms(1)])
  have t: "t < length (sc_tasks s)" using assms(2) phase_bound [of s t] by auto
  show "phase_of (set_phase t p s) u = phase_of s u \<or>
     phase_of (set_phase t p s) u \<notin> {LockWait, LockGranted, Running} \<and>
     phase_of s u \<notin> {LockWait, LockGranted, Running}" for u
    using assms(2,3) by (auto simp: view_simps t)
qed (simp_all add: view_simps)

lemma lock_ok_sem_fields [simp]:
  "lock_ok c (s\<lparr>sc_free := n\<rparr>) = lock_ok c s"
  "lock_ok c (s\<lparr>sc_sem := w\<rparr>) = lock_ok c s"
  by (simp_all add: lock_ok_def phase_set_def ready_def view_simps)

lemma set_remove1_distinct: "distinct xs \<Longrightarrow> set (remove1 t xs) = set xs - {t}"
  by (induction xs) auto

lemma lock_ok_outside' [simp]:
  assumes "lock_ok c s" and "phase_of s t \<notin> {LockWait, LockGranted, Running, Finished}"
    and "p \<notin> {LockWait, LockGranted, Running}"
  shows "lock_ok c (set_phase t p (s\<lparr>sc_free := n\<rparr>))"
    and "lock_ok c (set_phase t p (s\<lparr>sc_sem := w\<rparr>))"
    and "lock_ok c (set_phase t p (s\<lparr>sc_sem := w, sc_free := n\<rparr>))"
  using assms by (auto intro!: lock_ok_outside simp: view_simps)

lemma sem_acquire_core:
  assumes ok: "core_ok s" and t: "phase_of s t = Fresh"
  shows "core_ok (snd (sem_acquire t s))"
proof -
  note sem = sem_okD [OF coreD(1) [OF ok]]
  have b: "t < length (sc_tasks s)" using t phase_bound [of s t] by simp
  have t': "t \<notin> holders s" "t \<notin> set (sc_sem s)" using t sem(3) by (simp_all add: mem_holders)
  have locks: "lock_ok c (snd (sem_acquire t s))" for c
    using coreD(3) [OF ok, of c] t by (auto simp: sem_acquire_def)
  show ?thesis
  proof (cases "sem_locked s")
    case True
    let ?s = "set_phase t SemWait (s\<lparr>sc_sem := sc_sem s @ [t]\<rparr>)"
    have "sem_ok ?s"
      using sem t' b by (auto simp: sem_ok_def view_simps card_holders_set_phase)
    moreover have "sem_live ?s"
    proof (cases "sc_free s = 0")
      case False
      then obtain w where "w \<in> set (sc_sem s)" "\<not> (phase_of s w = SemWait \<and> cancelled s w)"
        using True by (auto simp: sem_locked_def list_ex_iff)
      then have "phase_of s w = SemGranted \<or> w \<in> set (sem_pending s)"
        using sem(3) by (auto simp: sem_pending_def)
      then have "(\<exists>u. phase_of s u = SemGranted) \<or> (\<exists>u. phase_of s u = SemWait \<and> cancelled s u)"
        using coreD(2) [OF ok] False by (auto simp: sem_live_def)
      then obtain u where "phase_of s u = SemGranted \<or> (phase_of s u = SemWait \<and> cancelled s u)" by blast
      then have "phase_of ?s u = SemGranted \<or> (phase_of ?s u = SemWait \<and> cancelled ?s u)"
        using t b by (auto simp: view_simps)
      then show ?thesis by (auto simp: sem_live_def)
    qed (simp add: sem_live_def view_simps)
    ultimately show ?thesis using True locks by (simp add: core_ok_def sem_acquire_def)
  next
    case False
    then have pos: "0 < sc_free s" and none: "\<And>w. w \<in> set (sc_sem s) \<Longrightarrow> cancelled s w"
      by (auto simp: sem_locked_def list_ex_iff)
    let ?s = "set_phase t Permitted (s\<lparr>sc_free := sc_free s - 1\<rparr>)"
    have "sem_ok ?s"
      using sem t' b pos by (auto simp: sem_ok_def view_simps card_holders_set_phase)
    moreover have "sem_pending ?s = []"
      using none t' b by (auto simp: sem_pending_def view_simps filter_empty_conv)
    ultimately show ?thesis
      using False locks by (simp add: core_ok_def sem_acquire_def sem_live_done)
  qed
qed

lemma sem_resume_core:
  assumes ok: "core_ok s" and t: "phase_of s t = SemGranted"
  shows "core_ok (sem_resume t s)"
proof -
  note sem = sem_okD [OF coreD(1) [OF ok]]
  have b: "t < length (sc_tasks s)" using t phase_bound [of s t] by simp
  have t': "t \<in> holders s" using t by (simp add: mem_holders)
  show ?thesis
    unfolding sem_resume_def
    by (rule wake_while_core)
      (use sem t t' b coreD(3) [OF ok] in
        \<open>auto simp: sem_ok_def view_simps card_holders_set_phase set_remove1_distinct\<close>)
qed

lemma sem_abandon_core:
  assumes ok: "core_ok s" and t: "phase_of s t = SemGranted \<or> phase_of s t = SemWait"
  shows "core_ok (sem_abandon t s)"
proof -
  note sem = sem_okD [OF coreD(1) [OF ok]]
  have b: "t < length (sc_tasks s)" using t phase_bound [of s t] by auto
  have pos: "phase_of s t = SemGranted \<Longrightarrow> 0 < card (holders s)"
    by (rule holders_pos [of t]) (simp add: mem_holders)
  show ?thesis
    unfolding sem_abandon_def
    by (rule wake_while_core)
      (use sem t b pos coreD(3) [OF ok] in
        \<open>auto simp: sem_ok_def view_simps card_holders_set_phase set_remove1_distinct mem_holders\<close>)
qed

text \<open>\<open>release\<close>: one more permit, which goes to the first that waits.\<close>

lemma finish_task_core:
  assumes ok: "core_ok s" and t: "phase_of s t = Permitted"
  shows "core_ok (finish_task t s)"
proof -
  note sem = sem_okD [OF coreD(1) [OF ok]]
  have b: "t < length (sc_tasks s)" using t phase_bound [of s t] by auto
  have pos: "0 < card (holders s)" using t by (intro holders_pos [of t]) (simp add: mem_holders)
  let ?s = "(set_phase t Finished s)\<lparr>sc_free := sc_free s + 1\<rparr>"
  have eq: "finish_task t s = snd (wake_up_next ?s)"
    by (simp add: finish_task_def sem_release_def view_simps)
  have sem': "sem_ok ?s"
    using sem t b pos by (auto simp: sem_ok_def view_simps card_holders_set_phase mem_holders)
  have "lock_ok c ?s" for c using coreD(3) [OF ok, of c] t by (auto intro!: lock_ok_outside)
  then have locks: "lock_ok c (finish_task t s)" for c
    unfolding eq by (rule grants_lock_ok [OF wake_up_next_grants])
  have "sem_live (finish_task t s)"
  proof (cases "sem_pending ?s")
    case (Cons u us)
    then have "phase_of (finish_task t s) u = SemGranted"
      using pending_mem [OF Cons] phase_bound [of ?s u]
      by (simp add: eq wake_up_next_def view_simps)
    then show ?thesis by (auto simp: sem_live_def)
  qed (simp add: eq wake_up_next_def sem_live_done)
  then show ?thesis
    using wake_up_next_sem_ok [OF sem'] locks by (simp add: core_ok_def eq)
qed

section \<open>The lock of a character\<close>

text \<open>A change of one lock and of the phase of one of its tasks, seen from the semaphore.\<close>

definition after_permit :: "task_phase \<Rightarrow> bool" where
  "after_permit p \<longleftrightarrow> p \<in> {Permitted, LockWait, LockGranted, Running}"

lemma core_ok_lock:
  assumes ok: "core_ok s"
    and "\<And>t. phase_of s' t = phase_of s t \<or> (after_permit (phase_of s' t) \<and> after_permit (phase_of s t))"
    and "sc_sem s' = sc_sem s" and "sc_free s' = sc_free s" and "sc_width s' = sc_width s"
    and "cancelled s' = cancelled s" and "\<And>c. lock_ok c s'"
  shows "core_ok s'"
proof -
  have 1: "phase_of s' t = phase_of s t \<or>
      (phase_of s' t \<notin> {SemWait, SemGranted} \<and> phase_of s t \<notin> {SemWait, SemGranted}
       \<and> holding (phase_of s' t) = holding (phase_of s t))" for t
    using assms(2) [of t] by (auto simp: after_permit_def)
  have "sem_ok s'" by (rule sem_ok_cong [OF 1]) (simp_all add: assms coreD(1) [OF ok])
  moreover have "sem_live s'"
    by (rule sem_live_cong [of s' s]) (use 1 in \<open>auto simp: assms coreD(2) [OF ok]\<close>)
  ultimately show ?thesis using assms(7) by (simp add: core_ok_def)
qed

lemma phase_set_lock [simp]: "phase_set (set_lock c l s) c' p = phase_set s c' p"
  by (simp add: phase_set_def view_simps)

lemma ready_set_lock [simp]: "ready (set_lock c l s) t = ready s t"
  by (simp add: ready_def view_simps)

lemma lock_ok_other:
  assumes "task_char s t \<noteq> c" and "lock_ok c s" and "t < length (sc_tasks s)"
  shows "lock_ok c (set_phase t p (set_lock (task_char s t) l s))"
  by (rule lock_ok_sets [OF _ _ _ assms(2)])
    (use assms in \<open>auto simp: phase_set_set_phase view_simps phase_set_def\<close>)

lemma lock_okD:
  assumes "lock_ok c s"
  shows "distinct (lk_waiters (lock_of s c))"
    and "set (lk_waiters (lock_of s c)) = phase_set s c LockWait \<union> phase_set s c LockGranted"
    and "phase_set s c LockGranted \<subseteq> {hd (lk_waiters (lock_of s c))}"
    and "phase_set s c LockGranted \<noteq> {} \<Longrightarrow> \<not> lk_locked (lock_of s c)"
    and "\<not> lk_locked (lock_of s c) \<Longrightarrow> phase_set s c Running = {}"
    and "lk_locked (lock_of s c) \<Longrightarrow> \<exists>t. phase_set s c Running = {t}"
    and "\<not> lk_locked (lock_of s c) \<Longrightarrow> lk_waiters (lock_of s c) \<noteq> [] \<Longrightarrow>
      ready s (hd (lk_waiters (lock_of s c)))"
  using assms by (auto simp: lock_ok_def Let_def split: if_splits)

lemma phase_set_minus [simp]: "phase_of s t \<noteq> p \<Longrightarrow> phase_set s c p - {t} = phase_set s c p"
  by (auto simp: phase_set_def)

text \<open>The invariant of a lock but for the claim that its first waiter can run.\<close>

definition lock_shape :: "int \<Rightarrow> sched \<Rightarrow> bool" where
  "lock_shape c s \<longleftrightarrow> (let l = lock_of s c; ws = lk_waiters l in
     distinct ws
     \<and> set ws = phase_set s c LockWait \<union> phase_set s c LockGranted
     \<and> phase_set s c LockGranted \<subseteq> {hd ws}
     \<and> (phase_set s c LockGranted \<noteq> {} \<longrightarrow> \<not> lk_locked l)
     \<and> (if lk_locked l then (\<exists>t. phase_set s c Running = {t}) else phase_set s c Running = {}))"

lemma lock_ok_shape: "lock_ok c s \<longleftrightarrow> lock_shape c s \<and>
  (\<not> lk_locked (lock_of s c) \<longrightarrow> lk_waiters (lock_of s c) \<noteq> [] \<longrightarrow> ready s (hd (lk_waiters (lock_of s c))))"
  by (auto simp: lock_ok_def lock_shape_def Let_def)

lemma lock_acquire_core:
  assumes ok: "core_ok s" and t: "phase_of s t = Permitted"
  shows "core_ok (snd (lock_acquire t s))"
proof -
  let ?c = "task_char s t"
  note own = lock_okD [OF coreD(3) [OF ok, of ?c]]
  have b: "t < length (sc_tasks s)" using t phase_bound [of s t] by simp
  have out: "t \<notin> set (lk_waiters (lock_of s ?c))" using t own(2) by (simp add: phase_set_def)
  have core: "core_ok (set_phase t p (set_lock ?c l s))"
    if "lock_ok ?c (set_phase t p (set_lock ?c l s))" "after_permit p" for p l
  proof (rule core_ok_lock [OF ok])
    show "lock_ok c (set_phase t p (set_lock ?c l s))" for c
      using lock_ok_other [OF _ coreD(3) [OF ok] b] that(1) by (cases "c = ?c") auto
  qed (use t b that(2) in \<open>auto simp: view_simps after_permit_def\<close>)
  show ?thesis
  proof (cases "fst (lock_acquire t s)")
    case True
    then have free: "\<not> lk_locked (lock_of s ?c)"
      and all: "\<And>w. w \<in> set (lk_waiters (lock_of s ?c)) \<Longrightarrow> phase_of s w = LockWait"
      by (auto simp: lock_acquire_def Let_def list_all_iff split: if_splits)
    let ?s = "set_phase t Running (set_lock ?c (lock_of s ?c\<lparr>lk_locked := True\<rparr>) s)"
    have eq: "snd (lock_acquire t s) = ?s" using True by (simp add: lock_acquire_def Let_def split: if_splits)
    have none: "phase_set s ?c LockGranted = {}" using all own(2) by (force simp: phase_set_def)
    have "lock_ok ?c ?s"
      using own free none out t b
      by (simp add: lock_ok_def Let_def view_simps phase_set_set_phase)
    then show ?thesis unfolding eq by (rule core) (simp add: after_permit_def)
  next
    case False
    let ?l = "lock_of s ?c\<lparr>lk_waiters := lk_waiters (lock_of s ?c) @ [t]\<rparr>"
    let ?s = "set_phase t LockWait (set_lock ?c ?l s)"
    have eq: "snd (lock_acquire t s) = ?s"
      and busy: "lk_locked (lock_of s ?c) \<or> lk_waiters (lock_of s ?c) \<noteq> []"
      using False by (auto simp: lock_acquire_def Let_def split: if_splits)
    have "lock_ok ?c ?s"
    proof (cases "lk_waiters (lock_of s ?c)")
      case Nil
      then show ?thesis
        using own busy t b by (auto simp: lock_ok_def Let_def view_simps phase_set_set_phase)
    next
      case (Cons w ws)
      then have w: "w \<noteq> t" using out by auto
      have "phase_of ?s w = phase_of s w" using w b by (simp add: view_simps)
      then have "ready ?s w = ready s w" by (simp add: ready_def view_simps)
      then show ?thesis
        using own out t b Cons
        by (auto simp: lock_ok_def Let_def view_simps phase_set_set_phase)
    qed
    then show ?thesis unfolding eq by (rule core) (simp add: after_permit_def)
  qed
qed

lemma lock_resume_core:
  assumes ok: "core_ok s" and t: "phase_of s t = LockGranted"
  shows "core_ok (lock_resume t s)"
proof -
  let ?c = "task_char s t"
  note own = lock_okD [OF coreD(3) [OF ok, of ?c]]
  have b: "t < length (sc_tasks s)" using t phase_bound [of s t] by simp
  have g: "t \<in> phase_set s ?c LockGranted" using t by (simp add: phase_set_def)
  then have free: "\<not> lk_locked (lock_of s ?c)" and hd: "phase_set s ?c LockGranted = {t}"
    using own(4) subset_singletonD [OF own(3)] by auto
  let ?l = "\<lparr>lk_locked = True, lk_waiters = remove1 t (lk_waiters (lock_of s ?c))\<rparr>"
  have eq: "lock_resume t s = set_phase t Running (set_lock ?c ?l s)"
    by (simp add: lock_resume_def Let_def)
  have "lock_ok ?c (lock_resume t s)"
    using own free hd t b
    by (auto simp: eq lock_ok_def Let_def view_simps phase_set_set_phase set_remove1_distinct)
  then have "lock_ok c (lock_resume t s)" for c
    using lock_ok_other [OF _ coreD(3) [OF ok] b] eq by (cases "c = ?c") auto
  then show ?thesis
    using t b by (intro core_ok_lock [OF ok]) (auto simp: eq view_simps after_permit_def)
qed

text \<open>Waking the first waiter of a lock that nobody holds.\<close>

lemma wake_up_first_views:
  "sc_sem (wake_up_first c s) = sc_sem s" "sc_free (wake_up_first c s) = sc_free s"
  "sc_width (wake_up_first c s) = sc_width s" "cancelled (wake_up_first c s) = cancelled s"
  "task_char (wake_up_first c s) = task_char s" "lock_of (wake_up_first c s) = lock_of s"
  "phase_of (wake_up_first c s) t = phase_of s t \<or>
     (phase_of s t = LockWait \<and> phase_of (wake_up_first c s) t = LockGranted)"
  using phase_bound [of s]
  by (auto simp: wake_up_first_def view_simps fun_eq_iff split: list.split)

lemma wake_up_first_ok:
  assumes shape: "lock_shape c s" and free: "\<not> lk_locked (lock_of s c)"
  shows "lock_ok c (wake_up_first c s)"
proof (cases "lk_waiters (lock_of s c)")
  case Nil
  then show ?thesis using shape by (simp add: wake_up_first_def lock_ok_shape)
next
  case (Cons t ts)
  then have mem: "t \<in> phase_set s c LockWait \<union> phase_set s c LockGranted"
    and sub: "phase_set s c LockGranted \<subseteq> {t}"
    using shape by (auto simp: lock_shape_def Let_def)
  then have b: "t < length (sc_tasks s)" using phase_bound [of s t] by (auto simp: phase_set_def)
  show ?thesis
  proof (cases "phase_of s t = LockWait \<and> \<not> cancelled s t")
    case True
    then have "phase_set s c LockGranted = {}" "task_char s t = c"
      using sub mem by (auto simp: phase_set_def)
    then show ?thesis
      using True shape free Cons b
      by (auto simp: wake_up_first_def lock_ok_def lock_shape_def Let_def view_simps
          phase_set_set_phase ready_def)
  next
    case False
    then have "ready s t" using mem by (auto simp: ready_def phase_set_def)
    then show ?thesis using False shape Cons by (auto simp: wake_up_first_def lock_ok_shape)
  qed
qed

lemma wake_up_first_other:
  assumes "c' \<noteq> c" and "lock_shape c s" and "lock_ok c' s"
  shows "lock_ok c' (wake_up_first c s)"
proof (rule lock_ok_sets [OF _ _ _ assms(3)])
  have "task_char s t = c \<and> t < length (sc_tasks s)" if "t \<in> set (lk_waiters (lock_of s c))" for t
    using that assms(2) phase_bound [of s t] by (auto simp: lock_shape_def Let_def phase_set_def)
  then show "phase_set (wake_up_first c s) c' p = phase_set s c' p" for p
    using assms(1)
    by (auto simp: wake_up_first_def phase_set_set_phase phase_set_def view_simps split: list.split)
qed (simp_all add: wake_up_first_views)

text \<open>A task leaves the lock: as one that gives up waiting, or as the one that held it.\<close>

lemma leave_lock_core:
  assumes ok: "core_ok s" and t: "after_permit (phase_of s t)" and c: "task_char s t = c"
    and s1: "s1 = set_phase t Permitted (set_lock c l s)"
    and shape: "lock_shape c s1"
  shows "core_ok (if \<not> lk_locked l then wake_up_first c s1 else s1)"
proof -
  have b: "t < length (sc_tasks s)" using t phase_bound [of s t] by (auto simp: after_permit_def)
  have l: "lock_of s1 c = l" by (simp add: s1 view_simps)
  have other: "lock_ok c' s1" if "c' \<noteq> c" for c'
    using lock_ok_other [of s t c' Permitted l] coreD(3) [OF ok, of c'] b c that by (auto simp: s1)
  let ?s = "if \<not> lk_locked l then wake_up_first c s1 else s1"
  have "lock_ok c' ?s" for c'
    using wake_up_first_ok [OF shape] wake_up_first_other [OF _ shape other, of c'] other [of c'] shape l
    by (cases "c' = c") (auto simp: lock_ok_shape)
  moreover have "phase_of ?s u = phase_of s u \<or> (after_permit (phase_of ?s u) \<and> after_permit (phase_of s u))" for u
    using wake_up_first_views(7) [of c s1 u] t b by (auto simp: s1 view_simps after_permit_def)
  ultimately show ?thesis
    by (intro core_ok_lock [OF ok]) (auto simp: wake_up_first_views s1 view_simps)
qed

lemma hd_remove1: "t \<noteq> hd xs \<Longrightarrow> hd (remove1 t xs) = hd xs"
  by (cases xs) auto

lemma lock_abandon_core:
  assumes ok: "core_ok s" and t: "phase_of s t = LockWait \<or> phase_of s t = LockGranted"
  shows "core_ok (lock_abandon t s)"
proof -
  let ?c = "task_char s t"
  note own = lock_okD [OF coreD(3) [OF ok, of ?c]]
  have b: "t < length (sc_tasks s)" using t phase_bound [of s t] by auto
  let ?l = "lock_of s ?c\<lparr>lk_waiters := remove1 t (lk_waiters (lock_of s ?c))\<rparr>"
  let ?s1 = "set_phase t Permitted (set_lock ?c ?l s)"
  have "phase_set s ?c LockGranted - {t} \<subseteq> {hd (remove1 t (lk_waiters (lock_of s ?c)))}"
    using own(3) hd_remove1 [of t "lk_waiters (lock_of s ?c)"]
    by (cases "t = hd (lk_waiters (lock_of s ?c))") auto
  moreover have "phase_set s ?c Running - {t} = phase_set s ?c Running" using t by (intro phase_set_minus) auto
  ultimately have "lock_shape ?c ?s1"
    using own t b
    by (auto simp: lock_shape_def Let_def view_simps phase_set_set_phase set_remove1_distinct)
  from leave_lock_core [OF ok _ refl refl this] show ?thesis
    using t by (auto simp: lock_abandon_def Let_def after_permit_def)
qed

lemma lock_release_core:
  assumes ok: "core_ok s" and t: "phase_of s t = Running"
  shows "core_ok (lock_release t s)"
proof -
  let ?c = "task_char s t"
  note own = lock_okD [OF coreD(3) [OF ok, of ?c]]
  have b: "t < length (sc_tasks s)" using t phase_bound [of s t] by auto
  let ?l = "lock_of s ?c\<lparr>lk_locked := False\<rparr>"
  let ?s1 = "set_phase t Permitted (set_lock ?c ?l s)"
  have run: "t \<in> phase_set s ?c Running" using t by (simp add: phase_set_def)
  then have locked: "lk_locked (lock_of s ?c)" using own(5) by blast
  then have "phase_set s ?c LockGranted = {}" and "phase_set s ?c Running = {t}"
    using own(4,6) run by auto
  then have "lock_shape ?c ?s1"
    using own t b by (simp add: lock_shape_def Let_def view_simps phase_set_set_phase)
  from leave_lock_core [OF ok _ refl refl this] show ?thesis
    using t by (auto simp: lock_release_def Let_def after_permit_def)
qed

section \<open>What a step does to the other tasks\<close>

text \<open>A step of a task may grant another one its permit or its lock, and no more.\<close>

definition moves :: "nat \<Rightarrow> sched \<Rightarrow> sched \<Rightarrow> bool" where
  "moves t s s' \<longleftrightarrow> length (sc_tasks s') = length (sc_tasks s) \<and> sc_width s' = sc_width s
     \<and> cancelled s' = cancelled s \<and> task_char s' = task_char s \<and> item_of s' = item_of s
     \<and> sc_uuid s' = sc_uuid s
     \<and> (\<forall>i u. dict_get (sc_active s') i = Some u \<longrightarrow> dict_get (sc_active s) i = Some u)
     \<and> (\<forall>u. u \<noteq> t \<longrightarrow> phase_of s' u = phase_of s u
          \<or> (phase_of s u = SemWait \<and> phase_of s' u = SemGranted)
          \<or> (phase_of s u = LockWait \<and> phase_of s' u = LockGranted))"

lemma moves_trans: "moves t s s' \<Longrightarrow> moves t s' s'' \<Longrightarrow> moves t s s''"
  unfolding moves_def by (metis task_phase.distinct)

lemma moves_refl [simp]: "moves t s s"
  by (simp add: moves_def)

lemma moves_set_phase: "t < length (sc_tasks s) \<Longrightarrow> moves t s (set_phase t p s)"
  by (simp add: moves_def view_simps fun_eq_iff)

lemma moves_fields:
  "moves t s (s\<lparr>sc_sem := w\<rparr>)" "moves t s (s\<lparr>sc_free := n\<rparr>)" "moves t s (set_lock c l s)"
  "moves t s (s\<lparr>sc_sem := w, sc_free := n\<rparr>)" "moves t s (s\<lparr>sc_active := dict_del (sc_active s) i\<rparr>)"
  by (simp_all add: moves_def view_simps phase_of_def cancelled_def task_char_def fun_eq_iff set_lock_def
      item_of_def)

lemma grants_moves: "grants s s' \<Longrightarrow> moves t s s'"
  by (auto simp: grants_def moves_def)

lemma grants_phase: "grants s s' \<Longrightarrow> phase_of s t \<noteq> SemWait \<Longrightarrow> phase_of s' t = phase_of s t"
  by (metis grants_def)

lemma wake_up_first_moves: "moves t s (wake_up_first c s)"
  using phase_bound [of s]
  by (auto simp: wake_up_first_def moves_def view_simps fun_eq_iff split: list.split)

lemma wake_up_first_keeps: "phase_of s t \<noteq> LockWait \<Longrightarrow> phase_of (wake_up_first c s) t = phase_of s t"
  by (metis wake_up_first_views(7))

lemma sem_acquire_moves:
  assumes "t < length (sc_tasks s)"
  shows "moves t s (snd (sem_acquire t s))"
    and "phase_of (snd (sem_acquire t s)) t = (if fst (sem_acquire t s) then Permitted else SemWait)"
  using assms
  by (auto simp: sem_acquire_def view_simps intro!: moves_trans [OF moves_fields(1) moves_set_phase]
      moves_trans [OF moves_fields(2) moves_set_phase])

lemma sem_resume_moves:
  assumes "t < length (sc_tasks s)"
  shows "moves t s (sem_resume t s)" and "phase_of (sem_resume t s) t = Permitted"
proof -
  let ?s = "set_phase t Permitted (s\<lparr>sc_sem := remove1 t (sc_sem s)\<rparr>)"
  have g: "grants ?s (sem_resume t s)" using wake_while_spec [of ?s] by (simp add: sem_resume_def)
  have "moves t s ?s" using assms by (intro moves_trans [OF moves_fields(1) moves_set_phase]) simp
  then show "moves t s (sem_resume t s)" by (rule moves_trans [OF _ grants_moves [OF g]])
  show "phase_of (sem_resume t s) t = Permitted"
    using grants_phase [OF g, of t] assms by (simp add: view_simps)
qed

lemma sem_abandon_moves:
  assumes "t < length (sc_tasks s)"
  shows "moves t s (sem_abandon t s)" and "phase_of (sem_abandon t s) t = Finished"
proof -
  let ?s = "set_phase t Finished (s\<lparr>sc_sem := remove1 t (sc_sem s),
       sc_free := (if phase_of s t = SemGranted then sc_free s + 1 else sc_free s)\<rparr>)"
  have g: "grants ?s (sem_abandon t s)" using wake_while_spec [of ?s] by (simp add: sem_abandon_def)
  have "moves t s ?s" using assms by (intro moves_trans [OF moves_fields(4) moves_set_phase]) simp
  then show "moves t s (sem_abandon t s)" by (rule moves_trans [OF _ grants_moves [OF g]])
  show "phase_of (sem_abandon t s) t = Finished"
    using grants_phase [OF g, of t] assms by (simp add: view_simps)
qed

lemma finish_task_moves:
  assumes "t < length (sc_tasks s)"
  shows "moves t s (finish_task t s)" and "phase_of (finish_task t s) t = Finished"
proof -
  let ?s = "(set_phase t Finished s)\<lparr>sc_free := sc_free s + 1\<rparr>"
  have g: "grants ?s (finish_task t s)"
    using wake_up_next_grants [of ?s] by (simp add: finish_task_def sem_release_def view_simps)
  have "moves t s ?s" using assms by (intro moves_trans [OF moves_set_phase moves_fields(2)])
  then show "moves t s (finish_task t s)" by (rule moves_trans [OF _ grants_moves [OF g]])
  show "phase_of (finish_task t s) t = Finished"
    using grants_phase [OF g, of t] assms by (simp add: view_simps)
qed

lemma set_phase_lock_moves: "t < length (sc_tasks s) \<Longrightarrow> moves t s (set_phase t p (set_lock c l s))"
  by (intro moves_trans [OF moves_fields(3) moves_set_phase]) (simp add: view_simps)

lemma lock_moves:
  assumes "t < length (sc_tasks s)"
  shows "moves t s (snd (lock_acquire t s))" and "moves t s (lock_resume t s)"
    and "moves t s (lock_abandon t s)" and "moves t s (lock_release t s)"
    and "phase_of (snd (lock_acquire t s)) t = (if fst (lock_acquire t s) then Running else LockWait)"
    and "phase_of (lock_resume t s) t = Running"
    and "phase_of (lock_abandon t s) t = Permitted" and "phase_of (lock_release t s) t = Permitted"
  using assms
  by (auto simp: lock_acquire_def lock_resume_def lock_abandon_def lock_release_def Let_def
      view_simps set_phase_lock_moves wake_up_first_keeps
      intro: moves_trans [OF set_phase_lock_moves wake_up_first_moves])

section \<open>A step of a task\<close>

lemma snd_note_item [simp]: "snd (note_item t f d) = snd d"
  by (simp add: note_item_def split: prod.split option.split)

lemma snd_on_sched [simp]: "snd (on_sched f d) = f (snd d)"
  by (simp add: on_sched_def)

lemma snd_fail_cancelled [simp]: "snd (fail_cancelled now t d) = snd d"
  by (simp add: fail_cancelled_def)

lemma snd_note_outcome [simp]: "snd (note_outcome now out t d) = snd d"
  by (simp add: note_outcome_def)

lemma snd_enter_lock [simp]: "snd (enter_lock now t d) = snd (lock_acquire t (snd d))"
  by (simp add: enter_lock_def split: prod.split)

definition sched_after :: "nat \<Rightarrow> sched \<Rightarrow> sched" where
  "sched_after t s =
     (case phase_of s t of
        Fresh \<Rightarrow> (if cancelled s t then set_phase t Finished s
          else if fst (sem_acquire t s) then snd (lock_acquire t (snd (sem_acquire t s)))
          else snd (sem_acquire t s))
      | SemWait \<Rightarrow> forget_item t (sem_abandon t s)
      | SemGranted \<Rightarrow> (if cancelled s t then forget_item t (sem_abandon t s)
          else snd (lock_acquire t (sem_resume t s)))
      | LockWait \<Rightarrow> forget_item t (finish_task t (lock_abandon t s))
      | LockGranted \<Rightarrow> (if cancelled s t then forget_item t (finish_task t (lock_abandon t s))
          else lock_resume t s)
      | Running \<Rightarrow> forget_item t (finish_task t (lock_release t s))
      | _ \<Rightarrow> s)"

lemma snd_task_step: "snd (task_step now out t d) = sched_after t (snd d)"
  by (cases "phase_of (snd d) t")
    (simp_all add: task_step_def sched_after_def Let_def split: prod.split)

lemma forget_item_moves: "moves t s (forget_item t s)" and phase_forget [simp]: "phase_of (forget_item t s) = phase_of s"
  by (auto simp: forget_item_def moves_fields phase_of_def fun_eq_iff split: option.split)

lemma views_active [view_simps]:
  "phase_of (s\<lparr>sc_active := a\<rparr>) = phase_of s" "cancelled (s\<lparr>sc_active := a\<rparr>) = cancelled s"
  "task_char (s\<lparr>sc_active := a\<rparr>) = task_char s" "lock_of (s\<lparr>sc_active := a\<rparr>) = lock_of s"
  "phase_of (s\<lparr>sc_loop_running := b\<rparr>) = phase_of s" "cancelled (s\<lparr>sc_loop_running := b\<rparr>) = cancelled s"
  "task_char (s\<lparr>sc_loop_running := b\<rparr>) = task_char s" "lock_of (s\<lparr>sc_loop_running := b\<rparr>) = lock_of s"
  "phase_of (s\<lparr>sc_calls := cs\<rparr>) = phase_of s" "cancelled (s\<lparr>sc_calls := cs\<rparr>) = cancelled s"
  "task_char (s\<lparr>sc_calls := cs\<rparr>) = task_char s" "lock_of (s\<lparr>sc_calls := cs\<rparr>) = lock_of s"
  by (auto simp: fun_eq_iff phase_of_def cancelled_def task_char_def lock_of_def)

lemmas core_defs = core_ok_def sem_ok_def sem_live_def lock_ok_def holders_def sem_pending_def
  phase_set_def ready_def

lemma core_ok_fields [simp]:
  "core_ok (s\<lparr>sc_active := a\<rparr>) = core_ok s" "core_ok (s\<lparr>sc_loop_running := b\<rparr>) = core_ok s"
  "core_ok (s\<lparr>sc_calls := cs\<rparr>) = core_ok s"
  by (simp_all add: core_defs view_simps)

lemma core_forget [simp]: "core_ok (forget_item t s) = core_ok s"
  by (simp add: forget_item_def split: option.split)

text \<open>How far a task is from its end.\<close>

fun rank :: "task_phase \<Rightarrow> nat" where
  "rank Fresh = 7"
| "rank SemWait = 6"
| "rank SemGranted = 5"
| "rank Permitted = 4"
| "rank LockWait = 3"
| "rank LockGranted = 2"
| "rank Running = 1"
| "rank Finished = 0"

lemma ready_bound: "ready s t \<Longrightarrow> t < length (sc_tasks s)"
  using phase_bound [of s t] by (auto simp: ready_def)

lemma moves_length: "moves t s s' \<Longrightarrow> length (sc_tasks s') = length (sc_tasks s)"
  by (simp add: moves_def)

text \<open>The two ways from the permit onwards, and the ways out.\<close>

lemma permit_then_lock:
  assumes "moves t s s1" and "phase_of s1 t = Permitted" and "t < length (sc_tasks s)"
  shows "moves t s (snd (lock_acquire t s1))"
    and "phase_of (snd (lock_acquire t s1)) t \<in> {Running, LockWait}"
    and "core_ok s1 \<Longrightarrow> core_ok (snd (lock_acquire t s1))"
  using assms lock_moves [of t s1] lock_acquire_core [of s1 t]
  by (auto simp: moves_length intro: moves_trans)

lemma permit_then_finish:
  assumes "moves t s s1" and "phase_of s1 t = Permitted" and "t < length (sc_tasks s)"
  shows "moves t s (forget_item t (finish_task t s1))"
    and "phase_of (forget_item t (finish_task t s1)) t = Finished"
    and "core_ok s1 \<Longrightarrow> core_ok (forget_item t (finish_task t s1))"
  using assms finish_task_moves [of t s1] finish_task_core [of s1 t]
  by (auto simp: moves_length intro: moves_trans forget_item_moves)

lemma abandon_then_forget:
  assumes "t < length (sc_tasks s)"
  shows "moves t s (forget_item t (sem_abandon t s))"
    and "phase_of (forget_item t (sem_abandon t s)) t = Finished"
  using sem_abandon_moves [OF assms] by (auto intro: moves_trans forget_item_moves)

lemma step_moves:
  assumes r: "ready s t"
  shows "moves t s (sched_after t s)"
    and "rank (phase_of (sched_after t s) t) < rank (phase_of s t)"
    and "phase_of (sched_after t s) t \<noteq> Permitted"
proof -
  note b = ready_bound [OF r]
  have "moves t s (sched_after t s) \<and> rank (phase_of (sched_after t s) t) < rank (phase_of s t)
    \<and> phase_of (sched_after t s) t \<noteq> Permitted"
  proof (cases "phase_of s t")
    case Fresh
    then show ?thesis
      using b sem_acquire_moves [OF b] permit_then_lock [OF sem_acquire_moves(1) [OF b] _ b]
      by (auto simp: sched_after_def moves_set_phase view_simps)
  next
    case SemGranted
    then show ?thesis
      using abandon_then_forget [OF b] permit_then_lock [OF sem_resume_moves [OF b] b]
      by (auto simp: sched_after_def)
  next
    case LockGranted
    then show ?thesis
      using lock_moves [OF b] permit_then_finish [OF lock_moves(3) [OF b] lock_moves(7) [OF b] b]
      by (auto simp: sched_after_def)
  next
    case Running
    then show ?thesis
      using permit_then_finish [OF lock_moves(4) [OF b] lock_moves(8) [OF b] b]
      by (auto simp: sched_after_def)
  next
    case SemWait
    then show ?thesis using abandon_then_forget [OF b] by (auto simp: sched_after_def)
  next
    case LockWait
    then show ?thesis
      using permit_then_finish [OF lock_moves(3) [OF b] lock_moves(7) [OF b] b]
      by (auto simp: sched_after_def)
  qed (use r in \<open>auto simp: ready_def\<close>)
  then show "moves t s (sched_after t s)" "rank (phase_of (sched_after t s) t) < rank (phase_of s t)"
    "phase_of (sched_after t s) t \<noteq> Permitted" by blast+
qed

lemma set_fresh_finished_core:
  assumes ok: "core_ok s" and t: "phase_of s t = Fresh"
  shows "core_ok (set_phase t Finished s)"
proof -
  have b: "t < length (sc_tasks s)" using t phase_bound [of s t] by simp
  have "lock_ok c (set_phase t Finished s)" for c
    using coreD(3) [OF ok, of c] t by (intro lock_ok_outside) auto
  moreover have "sem_ok (set_phase t Finished s)"
    by (rule sem_ok_cong [OF _ _ _ _ coreD(1) [OF ok]]) (use t b in \<open>auto simp: view_simps\<close>)
  moreover have "sem_live (set_phase t Finished s)"
    by (rule sem_live_cong [OF _ _ _ _ coreD(2) [OF ok]]) (use t b in \<open>auto simp: view_simps\<close>)
  ultimately show ?thesis by (simp add: core_ok_def)
qed

lemma step_core:
  assumes r: "ready s t" and ok: "core_ok s"
  shows "core_ok (sched_after t s)"
proof -
  note b = ready_bound [OF r]
  show ?thesis
  proof (cases "phase_of s t")
    case Fresh
    then show ?thesis
      using sem_acquire_core [OF ok] permit_then_lock [OF sem_acquire_moves(1) [OF b] _ b]
        sem_acquire_moves(2) [OF b] set_fresh_finished_core [OF ok]
      by (auto simp: sched_after_def)
  next
    case SemGranted
    then show ?thesis
      using sem_abandon_core [OF ok] permit_then_lock [OF sem_resume_moves [OF b] b] sem_resume_core [OF ok]
      by (auto simp: sched_after_def)
  next
    case LockGranted
    then show ?thesis
      using permit_then_finish(3) [OF lock_moves(3) [OF b] lock_moves(7) [OF b] b]
        lock_abandon_core [OF ok] lock_resume_core [OF ok]
      by (auto simp: sched_after_def)
  next
    case Running
    then show ?thesis
      using permit_then_finish(3) [OF lock_moves(4) [OF b] lock_moves(8) [OF b] b] lock_release_core [OF ok]
      by (auto simp: sched_after_def)
  next
    case SemWait
    then show ?thesis using sem_abandon_core [OF ok] by (auto simp: sched_after_def)
  next
    case LockWait
    then show ?thesis
      using permit_then_finish(3) [OF lock_moves(3) [OF b] lock_moves(7) [OF b] b] lock_abandon_core [OF ok]
      by (auto simp: sched_after_def)
  qed (use r in \<open>auto simp: ready_def\<close>)
qed

lemma step_sched_ok:
  assumes "ready s t" and "sched_ok s"
  shows "sched_ok (sched_after t s)"
proof -
  have "phase_of (sched_after t s) u \<noteq> Permitted" for u
  proof (cases "u = t")
    case False
    then have "phase_of (sched_after t s) u = phase_of s u
        \<or> phase_of (sched_after t s) u \<in> {SemGranted, LockGranted}"
      using step_moves(1) [OF assms(1)] by (auto simp: moves_def)
    then show ?thesis using assms(2) by (auto simp: sched_ok_def)
  qed (simp add: step_moves(3) [OF assms(1)])
  then show ?thesis using step_core [OF assms(1)] assms(2) by (simp add: sched_ok_def)
qed

end
