(* ===== verification/Scheduler_Runs.thy ===== *)
theory Scheduler_Runs
  imports Scheduler_Facts
begin

text \<open>
  Submitting and cancelling keep the invariant, so every reachable scheduler has it. A scheduler
  with an unfinished task has one that can step, and steps of tasks lower \<open>work\<close>: left alone, the
  tasks all finish, in whatever order the loop runs them.
\<close>

section \<open>Submitting and cancelling\<close>

lemma phase_spawn:
  "phase_of (spawn c i s) t = (if t = length (sc_tasks s) then Fresh else phase_of s t)"
  by (auto simp: spawn_def Let_def phase_of_def nth_append split: option.split)

lemma views_spawn:
  "sc_sem (spawn c i s) = sc_sem s" "sc_free (spawn c i s) = sc_free s"
  "sc_width (spawn c i s) = sc_width s" "lock_of (spawn c i s) = lock_of s"
  "length (sc_tasks (spawn c i s)) = Suc (length (sc_tasks s))" "sc_uuid (spawn c i s) = sc_uuid s"
  "cancelled (spawn c i s) t = cancelled s t"
  "t < length (sc_tasks s) \<Longrightarrow> task_char (spawn c i s) t = task_char s t"
  "t < length (sc_tasks s) \<Longrightarrow> item_of (spawn c i s) t = item_of s t"
  "item_of (spawn c i s) (length (sc_tasks s)) = i"
  by (auto simp: spawn_def Let_def lock_of_def cancelled_def task_char_def item_of_def nth_append
      less_Suc_eq fun_eq_iff split: option.split)

lemma spawn_ok: "sched_ok s \<Longrightarrow> sched_ok (spawn c i s)"
proof -
  assume ok: "sched_ok s"
  then have core: "core_ok s" by (simp add: sched_ok_def)
  have len: "phase_of s (length (sc_tasks s)) = Finished" by (simp add: phase_of_def)
  have "lock_ok c' (spawn c i s)" for c'
    by (rule lock_ok_cong [OF _ _ _ _ coreD(3) [OF core]])
      (use len phase_bound [of s] in \<open>auto simp: phase_spawn views_spawn\<close>)
  moreover have "sem_ok (spawn c i s)"
    by (rule sem_ok_cong [OF _ _ _ _ coreD(1) [OF core]])
      (use len in \<open>auto simp: phase_spawn views_spawn\<close>)
  moreover have "sem_live (spawn c i s)"
    by (rule sem_live_cong [OF _ _ _ _ coreD(2) [OF core]])
      (use len in \<open>auto simp: phase_spawn views_spawn\<close>)
  ultimately show ?thesis using ok by (simp add: core_ok_def sched_ok_def phase_spawn)
qed

lemma views_cancel:
  "phase_of (cancel_task t s) = phase_of s" "lock_of (cancel_task t s) = lock_of s"
  "task_char (cancel_task t s) = task_char s" "sc_sem (cancel_task t s) = sc_sem s"
  "sc_free (cancel_task t s) = sc_free s" "sc_width (cancel_task t s) = sc_width s"
  "length (sc_tasks (cancel_task t s)) = length (sc_tasks s)" "sc_active (cancel_task t s) = sc_active s"
  "item_of (cancel_task t s) = item_of s" "sc_uuid (cancel_task t s) = sc_uuid s"
  "cancelled (cancel_task t s) u \<longleftrightarrow> cancelled s u \<or> (u = t \<and> phase_of s t \<noteq> Finished)"
  using phase_bound [of s t]
  by (auto simp: cancel_task_def phase_of_def lock_of_def task_char_def item_of_def cancelled_def
      fun_eq_iff nth_list_update nth_list_update_or)

lemma cancel_task_ok: "sched_ok s \<Longrightarrow> sched_ok (cancel_task t s)"
proof -
  assume ok: "sched_ok s"
  then have core: "core_ok s" by (simp add: sched_ok_def)
  have "lock_ok c (cancel_task t s)" for c
    by (rule lock_ok_cong [OF _ _ _ _ coreD(3) [OF core]]) (simp_all add: views_cancel)
  moreover have "sem_ok (cancel_task t s)"
    by (rule sem_ok_cong [OF _ _ _ _ coreD(1) [OF core]]) (simp_all add: views_cancel)
  moreover have "sem_live (cancel_task t s)"
    by (rule sem_live_cong [OF _ _ _ _ coreD(2) [OF core]]) (simp_all add: views_cancel)
  ultimately show ?thesis using ok by (simp add: core_ok_def sched_ok_def views_cancel)
qed

section \<open>Reachable schedulers\<close>

text \<open>What the index of the live items promises, and the invariant of every reachable scheduler.\<close>

definition active_ok :: "sched \<Rightarrow> bool" where
  "active_ok s \<longleftrightarrow> (\<forall>i t. dict_get (sc_active s) i = Some t \<longrightarrow>
     t < length (sc_tasks s) \<and> item_of s t = Some i)"

definition reach_ok :: "sched \<Rightarrow> bool" where
  "reach_ok s \<longleftrightarrow> sched_ok s \<and> active_ok s \<and> 1 \<le> sc_width s"

lemma clamp_width_pos: "1 \<le> clamp_width m r"
  by (auto simp: clamp_width_def split: option.split width_value.split)

lemma sched_of_width_ok: "sched_ok (sched_of_width u w l)"
  by (auto simp: sched_ok_def core_defs sched_of_width_def phase_of_def lock_of_def Let_def
      dict_get_default_def)

lemma new_sched_ok: "reach_ok (new_sched u m r l)"
  using sched_of_width_ok [of u "clamp_width m r" l] clamp_width_pos [of m r]
  by (simp add: reach_ok_def new_sched_def active_ok_def sched_of_width_def)

lemma active_spawn: "active_ok s \<Longrightarrow> active_ok (spawn c i s)"
proof -
  assume ok: "active_ok s"
  have "dict_get (sc_active (spawn c i s)) j =
    (if i = Some j then Some (length (sc_tasks s)) else dict_get (sc_active s) j)" for j
    by (cases i) (auto simp: spawn_def Let_def)
  then show ?thesis
    using ok by (auto simp: active_ok_def views_spawn less_Suc_eq split: if_splits)
qed

lemma active_moves: "moves t s s' \<Longrightarrow> active_ok s \<Longrightarrow> active_ok s'"
  unfolding moves_def active_ok_def by metis

lemma reach_ok_fields [simp]:
  "reach_ok (s\<lparr>sc_loop_running := b\<rparr>) = reach_ok s" "reach_ok (s\<lparr>sc_calls := cs\<rparr>) = reach_ok s"
  by (simp_all add: reach_ok_def sched_ok_def active_ok_def view_simps)

lemma reach_ok_spawn: "reach_ok s \<Longrightarrow> reach_ok (spawn c i s)"
  by (simp add: reach_ok_def spawn_ok active_spawn views_spawn)

lemma reach_ok_cancel: "reach_ok s \<Longrightarrow> reach_ok (cancel_task t s)"
  by (simp add: reach_ok_def cancel_task_ok active_ok_def views_cancel)

lemma reach_ok_step: "reach_ok s \<Longrightarrow> ready s t \<Longrightarrow> reach_ok (sched_after t s)"
  using step_moves(1) [of s t] step_sched_ok [of s t] active_moves [of t s]
  by (auto simp: reach_ok_def moves_def)

lemma reach_ok_enqueue: "reach_ok (snd d) \<Longrightarrow> reach_ok (snd (snd (enqueue_and_spawn now nm on c d)))"
  by (cases d; cases "fst d") (simp_all add: enqueue_and_spawn_def Let_def reach_ok_spawn split: prod.split)

lemma reach_ok_posted: "reach_ok (snd d) \<Longrightarrow> reach_ok (snd (run_posted now nm d))"
  by (auto simp: run_posted_def intro!: reach_ok_enqueue split: list.split)

lemma sched_step_ok: "sched_step d d' \<Longrightarrow> reach_ok (snd d) \<Longrightarrow> reach_ok (snd d')"
  by (erule sched_stepE)
    (auto simp: reach_ok_enqueue reach_ok_posted reach_ok_cancel snd_task_step reach_ok_step)

theorem sched_reach_ok: "sched_reach d \<Longrightarrow> reach_ok (snd d)"
  by (induction rule: sched_reach.induct) (simp_all add: new_sched_ok sched_step_ok)

text \<open>What the invariant says of the tasks that run.\<close>

lemma running_bound:
  assumes "sched_ok s"
  shows "card {t. phase_of s t = Running} \<le> nat (sc_width s)"
proof -
  have "card {t. phase_of s t = Running} \<le> card (holders s)"
    by (rule card_mono [OF finite_holders]) (auto simp: holders_def)
  then show ?thesis using assms by (simp add: sched_ok_def core_ok_def sem_ok_def)
qed

lemma running_unique:
  assumes "sched_ok s" and "phase_of s t = Running" and "phase_of s u = Running"
    and "task_char s t = task_char s u"
  shows "t = u"
proof -
  have ok: "lock_ok (task_char s u) s" using assms(1) by (simp add: sched_ok_def core_ok_def)
  have "{t, u} \<subseteq> phase_set s (task_char s u) Running" using assms(2-4) by (auto simp: phase_set_def)
  then show ?thesis using lock_okD(5,6) [OF ok] by (cases "lk_locked (lock_of s (task_char s u))") auto
qed

section \<open>Somebody can always step\<close>

lemma lock_waiter_progress:
  assumes "lock_ok c s" and "t \<in> set (lk_waiters (lock_of s c))"
  shows "\<exists>u. ready s u"
proof (cases "lk_locked (lock_of s c)")
  case True
  then obtain u where "u \<in> phase_set s c Running" using lock_okD(6) [OF assms(1)] by blast
  then have "ready s u" by (simp add: phase_set_def ready_def)
  then show ?thesis ..
next
  case False
  moreover have "lk_waiters (lock_of s c) \<noteq> []" using assms(2) by auto
  ultimately show ?thesis using lock_okD(7) [OF assms(1)] by blast
qed

theorem progress:
  assumes ok: "sched_ok s" and width: "1 \<le> sc_width s" and t: "phase_of s t \<noteq> Finished"
  shows "\<exists>u. ready s u"
proof -
  have core: "core_ok s" and noP: "\<And>u. phase_of s u \<noteq> Permitted" using ok by (auto simp: sched_ok_def)
  have waiting: "\<exists>u. ready s u" if "phase_of s v \<in> {LockWait, LockGranted}" for v
    using lock_waiter_progress [OF coreD(3) [OF core], of v "task_char s v"]
      lock_okD(2) [OF coreD(3) [OF core, of "task_char s v"]] that by (auto simp: phase_set_def)
  show ?thesis
  proof (cases "phase_of s t = SemWait \<and> \<not> cancelled s t")
    case False
    then show ?thesis using t noP waiting [of t] by (cases "phase_of s t") (auto simp: ready_def)
  next
    case True
    then have "t \<in> set (sc_sem s)" using sem_okD(3) [OF coreD(1) [OF core]] by simp
    then have pend: "sem_pending s \<noteq> []" using True by (auto simp: sem_pending_def filter_empty_conv)
    show ?thesis
    proof (cases "sc_free s = 0")
      case True
      then have "0 < card (holders s)"
        using sem_okD(1) [OF coreD(1) [OF core]] width by simp
      then obtain u where "u \<in> holders s" by (metis card.empty equals0I less_irrefl)
      then have u: "holding (phase_of s u)" by (simp add: holders_def)
      show ?thesis using u noP [of u] waiting [of u] by (cases "phase_of s u") (auto simp: ready_def)
    next
      case False
      then show ?thesis using coreD(2) [OF core] pend by (auto simp: sem_live_def ready_def)
    qed
  qed
qed

section \<open>The work that is left\<close>

definition work :: "sched \<Rightarrow> nat" where
  "work s = (\<Sum>t < length (sc_tasks s). rank (phase_of s t))"

lemma work_bound: "work s \<le> 7 * length (sc_tasks s)"
proof -
  have "rank p \<le> 7" for p by (cases p) simp_all
  then have "(\<Sum>t < length (sc_tasks s). rank (phase_of s t)) \<le> (\<Sum>t < length (sc_tasks s). 7)"
    by (intro sum_mono) simp
  then show ?thesis by (simp add: work_def)
qed

lemma work_step:
  assumes r: "ready s t"
  shows "work (sched_after t s) < work s"
proof -
  let ?s = "sched_after t s"
  note mv = step_moves [OF r]
  have len: "length (sc_tasks ?s) = length (sc_tasks s)" by (rule moves_length [OF mv(1)])
  have le: "rank (phase_of ?s u) \<le> rank (phase_of s u)" for u
  proof (cases "u = t")
    case False
    then have "phase_of ?s u = phase_of s u \<or> (phase_of s u = SemWait \<and> phase_of ?s u = SemGranted)
        \<or> (phase_of s u = LockWait \<and> phase_of ?s u = LockGranted)"
      using mv(1) by (simp add: moves_def)
    then show ?thesis by auto
  qed (use mv(2) in simp)
  show ?thesis
    unfolding work_def len
    by (rule sum_strict_mono_ex1) (use le mv(2) ready_bound [OF r] in auto)
qed

lemma work_0: "work s = 0 \<Longrightarrow> phase_of s t = Finished"
proof (rule ccontr)
  assume w: "work s = 0" and t: "phase_of s t \<noteq> Finished"
  then have "rank (phase_of s t) = 0" using phase_bound [OF t] by (simp add: work_def)
  with t show False by (cases "phase_of s t") simp_all
qed

text \<open>
  The loop, left alone: \<open>pick\<close> chooses among the tasks that can step, \<open>out\<close> says how generations end.
\<close>

definition ready_tasks :: "sched \<Rightarrow> nat list" where
  "ready_tasks s = filter (ready s) [0..<length (sc_tasks s)]"

fun run_tasks :: "string \<Rightarrow> (nat list \<Rightarrow> nat) \<Rightarrow> (nat \<Rightarrow> outcome) \<Rightarrow> nat \<Rightarrow> desk \<Rightarrow> desk" where
  "run_tasks now pick out 0 d = d"
| "run_tasks now pick out (Suc n) d =
     (if ready_tasks (snd d) = [] then d
      else run_tasks now pick out n
        (let t = pick (ready_tasks (snd d)) in task_step now (out t) t d))"

lemma set_ready_tasks [simp]: "set (ready_tasks s) = {t. ready s t}"
  using ready_bound [of s] by (auto simp: ready_tasks_def)

lemma run_tasks_finish:
  assumes pick: "\<And>ts. ts \<noteq> [] \<Longrightarrow> pick ts \<in> set ts"
  shows "reach_ok (snd d) \<Longrightarrow> work (snd d) \<le> n \<Longrightarrow>
    reach_ok (snd (run_tasks now pick out n d)) \<and> work (snd (run_tasks now pick out n d)) = 0"
proof (induction n arbitrary: d)
  case (Suc n)
  show ?case
  proof (cases "ready_tasks (snd d) = []")
    case True
    then have "\<nexists>u. ready (snd d) u" using set_ready_tasks [of "snd d"] by auto
    then have "phase_of (snd d) t = Finished" for t
      using progress [of "snd d" t] Suc.prems(1) by (auto simp: reach_ok_def)
    then show ?thesis using True Suc.prems by (simp add: work_def)
  next
    case False
    then have r: "ready (snd d) (pick (ready_tasks (snd d)))"
      using pick [OF False] by simp
    show ?thesis
      using Suc.IH Suc.prems work_step [OF r] reach_ok_step [OF _ r] False
      by (simp add: Let_def snd_task_step)
  qed
qed simp

lemma finished_idle:
  assumes ok: "sched_ok s" and fin: "\<And>t. phase_of s t = Finished"
  shows "sc_free s = nat (sc_width s)" and "sc_sem s = []"
    and "\<not> lk_locked (lock_of s c) \<and> lk_waiters (lock_of s c) = []"
proof -
  have core: "core_ok s" using ok by (simp add: sched_ok_def)
  have "holders s = {}" by (simp add: holders_def fin)
  then show "sc_free s = nat (sc_width s)" "sc_sem s = []"
    using sem_okD(1) [OF coreD(1) [OF core]] sem_okD(3) [OF coreD(1) [OF core], of "hd (sc_sem s)"]
    by (cases "sc_sem s"; simp add: fin)+
  have "phase_set s c p = {}" if "p \<noteq> Finished" for p using that by (auto simp: phase_set_def fin)
  then show "\<not> lk_locked (lock_of s c) \<and> lk_waiters (lock_of s c) = []"
    using lock_okD(2,6) [OF coreD(3) [OF core, of c]] by auto
qed


section \<open>What becomes of the items\<close>

text \<open>An item is gone when the queue, if there is one, does not hold it any more.\<close>

definition item_gone :: "queue_state option \<Rightarrow> int option \<Rightarrow> bool" where
  "item_gone q i = (case (q, i) of (Some q, Some i) \<Rightarrow> dict_get (qs_items q) i = None | _ \<Rightarrow> True)"

lemma fst_note_item: "fst (note_item t f d) =
  (case (fst d, item_of (snd d) t) of (Some q, Some i) \<Rightarrow> Some (f i q) | (q, _) \<Rightarrow> q)"
  by (simp add: note_item_def split: prod.split option.split)

lemma fst_on_sched [simp]: "fst (on_sched f d) = fst d"
  by (simp add: on_sched_def)

lemma item_gone_simps [simp]:
  "item_gone (Some q) (Some i) \<longleftrightarrow> dict_get (qs_items q) i = None"
  "item_gone None j" "item_gone q' None"
  by (simp_all add: item_gone_def split: option.split)

context item_transition
begin

lemma note_keeps_gone: "item_gone (fst d) i \<Longrightarrow> item_gone (fst (note_item t transition d)) i"
  by (cases i) (auto simp: fst_note_item keeps_absent split: option.splits)

lemma note_on_gone: "item_gone (fst d) (item_of (snd d) t) \<Longrightarrow> note_item t transition d = d"
  by (cases d) (auto simp: note_item_def on_absent split: option.split)

end

context final_transition
begin

lemma note_takes_out: "item_gone (fst (note_item t transition d)) (item_of (snd d) t)"
  by (cases "fst d"; cases "item_of (snd d) t") (simp_all add: fst_note_item takes_out)

end

text \<open>The transition of an ended generation, by its outcome.\<close>

interpretation ended: final_transition "\<lambda>i. case out of
    Written ms \<Rightarrow> mark_completed now i ms
  | BioError e \<Rightarrow> mark_failed now i e
  | BioRaised r \<Rightarrow> mark_failed now i r
  | BioCancelled \<Rightarrow> mark_failed now i ''cancelled''" for now out
  by (unfold_locales; cases out)
    (simp_all add: failed.on_absent failed.keeps_absent failed.takes_out completed.on_absent
      completed.keeps_absent completed.takes_out)

lemmas gone_started = started.note_keeps_gone

lemma gone_failed:
  "item_gone (fst d) i \<Longrightarrow> item_gone (fst (fail_cancelled now t d)) i"
  "item_gone (fst (fail_cancelled now t d)) (item_of (snd d) t)"
  unfolding fail_cancelled_def by (erule failed.note_keeps_gone) (rule failed.note_takes_out)

lemma gone_outcome:
  "item_gone (fst d) i \<Longrightarrow> item_gone (fst (note_outcome now out t d)) i"
  "item_gone (fst (note_outcome now out t d)) (item_of (snd d) t)"
  unfolding note_outcome_def by (erule ended.note_keeps_gone) (rule ended.note_takes_out)

lemma gone_enter: "item_gone (fst d) i \<Longrightarrow> item_gone (fst (enter_lock now t d)) i"
  using gone_started [of "(fst d, s)" i for s] by (auto simp: enter_lock_def split: prod.split)

lemma item_of_parts:
  assumes "t < length (sc_tasks s)"
  shows "item_of (sem_abandon t s) = item_of s" and "item_of (finish_task t (lock_abandon t s)) = item_of s"
    and "item_of (finish_task t (lock_release t s)) = item_of s"
  using sem_abandon_moves [OF assms] lock_moves(3,4) [OF assms] finish_task_moves(1) [of t "lock_abandon t s"]
    finish_task_moves(1) [of t "lock_release t s"] assms
  by (auto simp: moves_def)

lemma task_step_gone:
  assumes r: "ready (snd d) t"
  shows "item_gone (fst d) i \<Longrightarrow> item_gone (fst (task_step now out t d)) i"
    and "phase_of (sched_after t (snd d)) t = Finished \<Longrightarrow> \<not> (phase_of (snd d) t = Fresh \<and> cancelled (snd d) t)
      \<Longrightarrow> item_gone (fst (task_step now out t d)) (item_of (snd d) t)"
proof -
  note b = ready_bound [OF r]
  show "item_gone (fst d) i \<Longrightarrow> item_gone (fst (task_step now out t d)) i"
    by (cases "phase_of (snd d) t")
      (auto simp: task_step_def Let_def gone_enter gone_failed gone_outcome gone_started split: prod.split)
  assume fin: "phase_of (sched_after t (snd d)) t = Finished"
    and live: "\<not> (phase_of (snd d) t = Fresh \<and> cancelled (snd d) t)"
  show "item_gone (fst (task_step now out t d)) (item_of (snd d) t)"
  proof (cases "phase_of (snd d) t")
    case Fresh
    then show ?thesis
      using fin live sem_acquire_moves [OF b] permit_then_lock(2) [OF sem_acquire_moves(1) [OF b] _ b]
      by (auto simp: sched_after_def split: if_splits)
  next
    case SemWait
    then show ?thesis
      using gone_failed(2) [of now t "on_sched (sem_abandon t) d"] item_of_parts [OF b]
      by (simp add: task_step_def)
  next
    case SemGranted
    then show ?thesis
      using fin gone_failed(2) [of now t "on_sched (sem_abandon t) d"] item_of_parts [OF b]
        permit_then_lock(2) [OF sem_resume_moves [OF b] b]
      by (auto simp: sched_after_def task_step_def split: if_splits)
  next
    case LockWait
    then show ?thesis
      using gone_failed(2) [of now t "on_sched (finish_task t) (on_sched (lock_abandon t) d)"]
        item_of_parts [OF b] by (simp add: task_step_def)
  next
    case LockGranted
    then show ?thesis
      using fin gone_failed(2) [of now t "on_sched (finish_task t) (on_sched (lock_abandon t) d)"]
        item_of_parts [OF b] lock_moves(6) [OF b]
      by (auto simp: sched_after_def task_step_def split: if_splits)
  next
    case Running
    then show ?thesis
      using gone_outcome(2) [of now out t d] by (auto simp: task_step_def gone_failed)
  qed (use r in \<open>auto simp: ready_def\<close>)
qed

text \<open>Nothing is owed for a task that is still to run its body, or whose item is gone.\<close>

definition settles :: "nat \<Rightarrow> desk \<Rightarrow> bool" where
  "settles u d \<longleftrightarrow> (phase_of (snd d) u \<noteq> Finished \<and> \<not> (phase_of (snd d) u = Fresh \<and> cancelled (snd d) u))
     \<or> item_gone (fst d) (item_of (snd d) u)"

lemma settles_step:
  assumes r: "ready (snd d) t" and u: "settles u d"
  shows "settles u (task_step now out t d)"
proof -
  note mv = step_moves [OF r]
  have same: "item_of (sched_after t (snd d)) = item_of (snd d)"
    "cancelled (sched_after t (snd d)) = cancelled (snd d)" using mv(1) by (simp_all add: moves_def)
  show ?thesis
  proof (cases "u = t \<or> item_gone (fst d) (item_of (snd d) u)")
    case False
    then have "phase_of (sched_after t (snd d)) u = phase_of (snd d) u \<or>
        phase_of (sched_after t (snd d)) u \<in> {SemGranted, LockGranted}"
      using mv(1) by (auto simp: moves_def)
    then show ?thesis using u False by (auto simp: settles_def snd_task_step same)
  next
    case True
    moreover have "phase_of (sched_after t (snd d)) t \<noteq> Fresh" using mv(2) by (cases "phase_of (snd d) t") auto
    ultimately show ?thesis
      using u task_step_gone(1) [OF r, where i = "item_of (snd d) u"] task_step_gone(2) [OF r]
      by (auto simp: settles_def snd_task_step same)
  qed
qed

lemma settles_run:
  assumes pick: "\<And>ts. ts \<noteq> [] \<Longrightarrow> pick ts \<in> set ts"
  shows "settles u d \<Longrightarrow> settles u (run_tasks now pick out n d)"
proof (induction n arbitrary: d)
  case (Suc n)
  then show ?case
    using pick [of "ready_tasks (snd d)"] settles_step [of d "pick (ready_tasks (snd d))" u now]
    by (auto simp: Let_def)
qed simp

lemma run_tasks_items:
  assumes pick: "\<And>ts. ts \<noteq> [] \<Longrightarrow> pick ts \<in> set ts"
  shows "item_of (snd (run_tasks now pick out n d)) = item_of (snd d)"
proof (induction n arbitrary: d)
  case (Suc n)
  have "item_of (sched_after t (snd d)) = item_of (snd d)" if "ready (snd d) t" for t
    using step_moves(1) [OF that] by (simp add: moves_def)
  then show ?case
    using pick [of "ready_tasks (snd d)"] Suc by (auto simp: Let_def snd_task_step)
qed simp

section \<open>Shutting down\<close>

text \<open>
  The loop runs on while \<open>drain\<close> awaits some tasks: a turn is a step of a task or a call that was posted
  to the loop, which may spawn a further task; \<open>call n\<close> says which comes first. It goes on until the
  awaited tasks have finished, or for as many turns as fit before the timeout.
\<close>

fun run_until ::
  "nat list \<Rightarrow> string \<Rightarrow> (int \<Rightarrow> string option) \<Rightarrow> (nat list \<Rightarrow> nat) \<Rightarrow> (nat \<Rightarrow> bool) \<Rightarrow> (nat \<Rightarrow> outcome)
   \<Rightarrow> nat \<Rightarrow> desk \<Rightarrow> desk" where
  "run_until awaited now name_of pick call out 0 d = d"
| "run_until awaited now name_of pick call out (Suc n) d =
     (if \<forall>t\<in>set awaited. phase_of (snd d) t = Finished then d
      else if sc_calls (snd d) \<noteq> [] \<and> (call n \<or> ready_tasks (snd d) = [])
        then run_until awaited now name_of pick call out n (run_posted now name_of d)
      else if ready_tasks (snd d) = [] then d
      else run_until awaited now name_of pick call out n
        (let t = pick (ready_tasks (snd d)) in task_step now (out t) t d))"

definition unfinished :: "sched \<Rightarrow> nat list" where
  "unfinished s = filter (\<lambda>t. phase_of s t \<noteq> Finished) [0..<length (sc_tasks s)]"

definition cancel_all :: "nat list \<Rightarrow> desk \<Rightarrow> desk" where
  "cancel_all pending = on_sched (\<lambda>s. foldl (\<lambda>s t. cancel_task t s) s pending)"

text \<open>Turns after which the tasks and the posted calls are all done.\<close>

definition turns_left :: "sched \<Rightarrow> nat" where
  "turns_left s = work s + 8 * length (sc_calls s)"

text \<open>
  \<open>drain\<close>: as long as there are tasks, those of the moment are awaited; \<open>steps r\<close> turns fit before the
  timeout. If some are left then, they are cancelled and awaited, and it is over, whatever has been
  spawned meanwhile. Each further round needs a call that was posted before, so the rounds suffice.
\<close>

fun drain_rounds ::
  "nat \<Rightarrow> string \<Rightarrow> (int \<Rightarrow> string option) \<Rightarrow> (nat list \<Rightarrow> nat) \<Rightarrow> (nat \<Rightarrow> bool) \<Rightarrow> (nat \<Rightarrow> outcome)
   \<Rightarrow> (nat \<Rightarrow> nat) \<Rightarrow> desk \<Rightarrow> desk" where
  "drain_rounds 0 now name_of pick call out steps d = d"
| "drain_rounds (Suc r) now name_of pick call out steps d =
     (let snapshot = unfinished (snd d)
      in if snapshot = [] then d
         else let d = run_until snapshot now name_of pick call out (steps r) d;
                  pending = filter (\<lambda>t. phase_of (snd d) t \<noteq> Finished) snapshot
              in if pending = [] then drain_rounds r now name_of pick call out steps d
                 else let d = cancel_all pending d
                      in run_until pending now name_of pick call
                           (\<lambda>t. if t \<in> set pending then BioCancelled else out t) (turns_left (snd d)) d)"

definition drain ::
  "string \<Rightarrow> (int \<Rightarrow> string option) \<Rightarrow> (nat list \<Rightarrow> nat) \<Rightarrow> (nat \<Rightarrow> bool) \<Rightarrow> (nat \<Rightarrow> outcome)
   \<Rightarrow> (nat \<Rightarrow> nat) \<Rightarrow> desk \<Rightarrow> desk" where
  "drain now name_of pick call out steps d =
     drain_rounds (Suc (length (sc_calls (snd d)))) now name_of pick call out steps d"

lemma unfinished_Nil: "unfinished s = [] \<Longrightarrow> phase_of s t = Finished"
  using phase_bound [of s t] by (force simp: unfinished_def filter_empty_conv)

lemma set_unfinished: "set (unfinished s) = {t. phase_of s t \<noteq> Finished}"
  using phase_bound [of s] by (auto simp: unfinished_def)

lemma foldl_cancel:
  "reach_ok s \<Longrightarrow> reach_ok (foldl (\<lambda>s t. cancel_task t s) s ts)"
  "length (sc_tasks (foldl (\<lambda>s t. cancel_task t s) s ts)) = length (sc_tasks s)"
  "sc_calls (foldl (\<lambda>s t. cancel_task t s) s ts) = sc_calls s"
  "phase_of (foldl (\<lambda>s t. cancel_task t s) s ts) = phase_of s"
proof -
  have calls: "sc_calls (cancel_task t s) = sc_calls s" for t s by (simp add: cancel_task_def)
  show "reach_ok s \<Longrightarrow> reach_ok (foldl (\<lambda>s t. cancel_task t s) s ts)"
    "length (sc_tasks (foldl (\<lambda>s t. cancel_task t s) s ts)) = length (sc_tasks s)"
    "sc_calls (foldl (\<lambda>s t. cancel_task t s) s ts) = sc_calls s"
    "phase_of (foldl (\<lambda>s t. cancel_task t s) s ts) = phase_of s"
    by (induction ts arbitrary: s) (simp_all add: reach_ok_cancel views_cancel calls)
qed

text \<open>What a turn of the loop keeps: the invariant, the tasks with the calls that will spawn some, and
  that a finished task stays finished. And it lowers the turns that are left.\<close>

definition turn_ok :: "desk \<Rightarrow> desk \<Rightarrow> bool" where
  "turn_ok d d' \<longleftrightarrow> reach_ok (snd d') \<and> length (sc_tasks (snd d)) \<le> length (sc_tasks (snd d'))
     \<and> length (sc_tasks (snd d')) + length (sc_calls (snd d')) = length (sc_tasks (snd d)) + length (sc_calls (snd d))
     \<and> (\<forall>t<length (sc_tasks (snd d)). phase_of (snd d) t = Finished \<longrightarrow> phase_of (snd d') t = Finished)"

lemma turn_ok_trans: "turn_ok d d' \<Longrightarrow> turn_ok d' d'' \<Longrightarrow> turn_ok d d''"
  by (auto simp: turn_ok_def)

lemma turn_ok_refl: "reach_ok (snd d) \<Longrightarrow> turn_ok d d"
  by (simp add: turn_ok_def)

lemma cancelling_turn: "reach_ok (snd d) \<Longrightarrow> turn_ok d (cancel_all ts d)"
  by (simp add: turn_ok_def cancel_all_def foldl_cancel)

lemma posted_turn:
  assumes ok: "reach_ok (snd d)" and calls: "sc_calls (snd d) \<noteq> []"
  shows "turn_ok d (run_posted now name_of d)"
    and "turns_left (snd (run_posted now name_of d)) < turns_left (snd d)"
proof -
  obtain q s c cs where d: "d = (q, s)" "sc_calls s = c # cs" using calls by (cases d; cases "sc_calls (snd d)") auto
  have "\<exists>i. snd (run_posted now name_of d) = spawn c i (s\<lparr>sc_calls := cs, sc_loop_running := True\<rparr>)"
    using d by (cases q) (auto simp: run_posted_def enqueue_and_spawn_def Let_def split: prod.split)
  then obtain i where s': "snd (run_posted now name_of d) = spawn c i (s\<lparr>sc_calls := cs, sc_loop_running := True\<rparr>)" ..
  let ?s = "s\<lparr>sc_calls := cs, sc_loop_running := True\<rparr>"
  have same: "phase_of ?s = phase_of s" by (simp add: view_simps)
  have calls': "sc_calls (spawn c i ?s) = cs" by (simp add: spawn_def Let_def split: option.split)
  show "turn_ok d (run_posted now name_of d)"
    using reach_ok_posted [OF ok, of now name_of] d
    by (simp add: turn_ok_def s' [unfolded d(1)] views_spawn calls' phase_spawn same)
  have "work (spawn c i ?s) = work s + rank Fresh"
    by (simp add: work_def views_spawn phase_spawn same)
  then show "turns_left (snd (run_posted now name_of d)) < turns_left (snd d)"
    using d by (simp add: turns_left_def s' [unfolded d(1)] calls')
qed

lemma calls_parts [simp]:
  "sc_calls (set_phase t p s) = sc_calls s" "sc_calls (set_lock c l s) = sc_calls s"
  "sc_calls (forget_item t s) = sc_calls s" "sc_calls (snd (wake_up_next s)) = sc_calls s"
  "sc_calls (wake_up_first c s) = sc_calls s"
  by (simp_all add: set_phase_def set_lock_def forget_item_def wake_up_next_def wake_up_first_def
      split: option.split list.split)

lemma calls_wake [simp]: "sc_calls (wake_while s) = sc_calls s"
proof (induction s rule: wake_while.induct)
  case (1 s)
  then show ?case using calls_parts(4) [of s]
    by (subst wake_while.simps) (auto simp del: calls_parts(4) split: prod.split)
qed

lemma calls_step: "sc_calls (sched_after t s) = sc_calls s"
  by (auto simp: sched_after_def sem_acquire_def sem_resume_def sem_abandon_def sem_release_def lock_acquire_def
      lock_resume_def lock_abandon_def lock_release_def finish_task_def Let_def split: task_phase.split)

lemma task_turn:
  assumes ok: "reach_ok (snd d)" and r: "ready (snd d) t"
  shows "turn_ok d (task_step now out t d)" and "turns_left (snd (task_step now out t d)) < turns_left (snd d)"
proof -
  note mv = step_moves(1) [OF r]
  have "phase_of (sched_after t (snd d)) u = Finished" if "phase_of (snd d) u = Finished" for u
  proof -
    have "u \<noteq> t" using r that by (auto simp: ready_def)
    then show ?thesis using mv that by (auto simp: moves_def)
  qed
  then show "turn_ok d (task_step now out t d)"
    using reach_ok_step [OF ok r] moves_length [OF mv] by (simp add: turn_ok_def snd_task_step calls_step)
  show "turns_left (snd (task_step now out t d)) < turns_left (snd d)"
    using work_step [OF r] by (simp add: turns_left_def snd_task_step calls_step)
qed

lemma turn_okD:
  "turn_ok d d' \<Longrightarrow> t < length (sc_tasks (snd d)) \<Longrightarrow> phase_of (snd d) t = Finished \<Longrightarrow> phase_of (snd d') t = Finished"
  "turn_ok d d' \<Longrightarrow> reach_ok (snd d')"
  "turn_ok d d' \<Longrightarrow> t < length (sc_tasks (snd d)) \<Longrightarrow> t < length (sc_tasks (snd d'))"
  by (auto simp: turn_ok_def)

text \<open>Awaiting: what each turn keeps is kept, and with turns enough the awaited tasks have finished.\<close>

lemma run_until_ok:
  assumes pick: "\<And>ts. ts \<noteq> [] \<Longrightarrow> pick ts \<in> set ts"
  shows "reach_ok (snd d) \<Longrightarrow> turn_ok d (run_until awaited now name_of pick call out n d)
    \<and> (turns_left (snd d) \<le> n \<longrightarrow>
         (\<forall>t\<in>set awaited. phase_of (snd (run_until awaited now name_of pick call out n d)) t = Finished))"
proof (induction n arbitrary: d)
  case 0
  then show ?case by (auto simp: turn_ok_refl turns_left_def work_0)
next
  case (Suc n)
  let ?posted = "run_posted now name_of d"
  let ?t = "pick (ready_tasks (snd d))"
  consider (over) "\<forall>t\<in>set awaited. phase_of (snd d) t = Finished"
    | (posted) "\<not> (\<forall>t\<in>set awaited. phase_of (snd d) t = Finished)" "sc_calls (snd d) \<noteq> []"
        "call n \<or> ready_tasks (snd d) = []"
    | (stuck) "sc_calls (snd d) = []" "ready_tasks (snd d) = []"
    | (step) "\<not> (\<forall>t\<in>set awaited. phase_of (snd d) t = Finished)" "ready_tasks (snd d) \<noteq> []"
        "\<not> (sc_calls (snd d) \<noteq> [] \<and> (call n \<or> ready_tasks (snd d) = []))"
    by blast
  then show ?case
  proof cases
    case posted
    note t = posted_turn [OF Suc.prems posted(2), of now name_of]
    have eq: "run_until awaited now name_of pick call out (Suc n) d = run_until awaited now name_of pick call out n ?posted"
      using posted by (simp only: run_until.simps if_False if_True simp_thms conj_commute)
    show ?thesis unfolding eq
      using Suc.IH [OF turn_okD(2) [OF t(1)]] t(2) turn_ok_trans [OF t(1)] by (meson less_Suc_eq_le less_le_trans)
  next
    case stuck
    then have "phase_of (snd d) t = Finished" for t
      using progress [of "snd d" t] Suc.prems set_ready_tasks [of "snd d"] by (auto simp: reach_ok_def)
    then show ?thesis using Suc.prems by (simp add: turn_ok_refl)
  next
    case step
    then have "ready (snd d) ?t" using pick [OF step(2)] by simp
    note t = task_turn [OF Suc.prems this, of now "out ?t"]
    have eq: "run_until awaited now name_of pick call out (Suc n) d
        = run_until awaited now name_of pick call out n (task_step now (out ?t) ?t d)"
      using step by (simp only: run_until.simps if_False Let_def)
    show ?thesis unfolding eq
      using Suc.IH [OF turn_okD(2) [OF t(1)]] t(2) turn_ok_trans [OF t(1)] by (meson less_Suc_eq_le less_le_trans)
  qed (use Suc.prems in \<open>simp add: turn_ok_refl\<close>)
qed

text \<open>A drain keeps what its turns keep, and the tasks of its start have finished at its end.\<close>

lemma drain_rounds_ok:
  assumes pick: "\<And>ts. ts \<noteq> [] \<Longrightarrow> pick ts \<in> set ts"
  shows "reach_ok (snd d) \<Longrightarrow> turn_ok d (drain_rounds r now name_of pick call out steps d)
    \<and> (\<forall>t<length (sc_tasks (snd d)). 0 < r \<longrightarrow>
         phase_of (snd (drain_rounds r now name_of pick call out steps d)) t = Finished)"
proof (induction r arbitrary: d)
  case 0
  then show ?case by (simp add: turn_ok_refl)
next
  case (Suc r)
  let ?awaited = "unfinished (snd d)"
  let ?d1 = "run_until ?awaited now name_of pick call out (steps r) d"
  let ?pending = "filter (\<lambda>t. phase_of (snd ?d1) t \<noteq> Finished) ?awaited"
  let ?d2 = "cancel_all ?pending ?d1"
  let ?d3 = "run_until ?pending now name_of pick call (\<lambda>t. if t \<in> set ?pending then BioCancelled else out t)
    (turns_left (snd ?d2)) ?d2"
  have d1: "turn_ok d ?d1" using run_until_ok [OF pick Suc.prems] by blast
  have others: "phase_of (snd ?d1) t = Finished" if "t < length (sc_tasks (snd d))" "t \<notin> set ?pending" for t
    using that turn_okD(1) [OF d1] set_unfinished [of "snd d"] by (cases "phase_of (snd d) t = Finished") auto
  consider (none) "?awaited = []" | (go_on) "?awaited \<noteq> []" "?pending = []" | (timeout) "?awaited \<noteq> []" "?pending \<noteq> []"
    by blast
  then show ?case
  proof cases
    case none
    then show ?thesis using Suc.prems unfinished_Nil [OF none] by (simp add: turn_ok_refl)
  next
    case go_on
    have eq: "drain_rounds (Suc r) now name_of pick call out steps d = drain_rounds r now name_of pick call out steps ?d1"
      using go_on by (simp add: Let_def)
    have d': "turn_ok ?d1 (drain_rounds r now name_of pick call out steps ?d1)"
      using Suc.IH turn_okD(2) [OF d1] by blast
    show ?thesis unfolding eq
      using turn_ok_trans [OF d1 d'] others go_on(2) turn_okD(1) [OF d'] turn_okD(3) [OF d1] by simp
  next
    case timeout
    have eq: "drain_rounds (Suc r) now name_of pick call out steps d = ?d3" using timeout by (simp add: Let_def)
    have d2: "turn_ok ?d1 ?d2" by (rule cancelling_turn [OF turn_okD(2) [OF d1]])
    have d3: "turn_ok ?d2 ?d3" and fin: "\<forall>t\<in>set ?pending. phase_of (snd ?d3) t = Finished"
      using run_until_ok [OF pick turn_okD(2) [OF d2]] by blast+
    have "phase_of (snd ?d3) t = Finished" if "t < length (sc_tasks (snd d))" for t
      using fin others [OF that] turn_okD(1,3) [OF turn_ok_trans [OF d2 d3], of t] turn_okD(3) [OF d1 that] by blast
    then show ?thesis unfolding eq using turn_ok_trans [OF d1 turn_ok_trans [OF d2 d3]] by blast
  qed
qed

lemma unfinished_none: "(\<And>t. t < length (sc_tasks s) \<Longrightarrow> phase_of s t = Finished) \<Longrightarrow> unfinished s = []"
  by (simp add: unfinished_def)

text \<open>If no round times out, none is left at all.\<close>

lemma drain_rounds_all:
  assumes pick: "\<And>ts. ts \<noteq> [] \<Longrightarrow> pick ts \<in> set ts"
    and steps: "\<And>i. 8 * m \<le> steps i"
  shows "reach_ok (snd d) \<Longrightarrow> length (sc_tasks (snd d)) + length (sc_calls (snd d)) = m
    \<Longrightarrow> length (sc_calls (snd d)) < r \<Longrightarrow> unfinished (snd (drain_rounds r now name_of pick call out steps d)) = []"
proof (induction r arbitrary: d)
  case (Suc r)
  let ?d1 = "run_until (unfinished (snd d)) now name_of pick call out (steps r) d"
  have "turns_left (snd d) \<le> steps r"
    using work_bound [of "snd d"] Suc.prems(2) steps [of r] by (simp add: turns_left_def)
  then have d1: "turn_ok d ?d1" and fin: "\<forall>t\<in>set (unfinished (snd d)). phase_of (snd ?d1) t = Finished"
    using run_until_ok [OF pick Suc.prems(1)] by blast+
  have all: "phase_of (snd ?d1) t = Finished" if "t < length (sc_tasks (snd d))" for t
    using fin that turn_okD(1) [OF d1 that] set_unfinished [of "snd d"] by blast
  have none: "filter (\<lambda>t. phase_of (snd ?d1) t \<noteq> Finished) (unfinished (snd d)) = []"
    using fin by (simp add: filter_empty_conv)
  show ?case
  proof (cases "unfinished (snd d) = []")
    case True
    then show ?thesis by simp
  next
    case False
    then have eq: "drain_rounds (Suc r) now name_of pick call out steps d = drain_rounds r now name_of pick call out steps ?d1"
      using none by (simp add: Let_def)
    show ?thesis
    proof (cases "unfinished (snd ?d1) = []")
      case True
      then show ?thesis unfolding eq by (cases r) simp_all
    next
      case False
      then have "length (sc_tasks (snd ?d1)) \<noteq> length (sc_tasks (snd d))"
        using all unfinished_none [of "snd ?d1"] by auto
      then have "length (sc_calls (snd ?d1)) < r" using d1 Suc.prems(3) by (simp add: turn_ok_def)
      then show ?thesis unfolding eq using Suc.IH [of ?d1] d1 Suc.prems(2) by (simp add: turn_ok_def)
    qed
  qed
qed simp

lemma drain_finishes:
  assumes pick: "\<And>ts. ts \<noteq> [] \<Longrightarrow> pick ts \<in> set ts" and ok: "reach_ok (snd d)"
  shows "t < length (sc_tasks (snd d)) \<or> sc_calls (snd d) = []
      \<or> (\<forall>i. 8 * (length (sc_tasks (snd d)) + length (sc_calls (snd d))) \<le> steps i)
    \<Longrightarrow> phase_of (snd (drain now name_of pick call out steps d)) t = Finished"
proof -
  let ?d = "drain now name_of pick call out steps d"
  have all: "turn_ok d ?d \<and> (\<forall>u<length (sc_tasks (snd d)). 0 < Suc (length (sc_calls (snd d))) \<longrightarrow>
      phase_of (snd ?d) u = Finished)"
    unfolding drain_def by (rule drain_rounds_ok [OF pick ok])
  then have d: "turn_ok d ?d" and fin: "\<And>u. u < length (sc_tasks (snd d)) \<Longrightarrow> phase_of (snd ?d) u = Finished" by simp_all
  assume "t < length (sc_tasks (snd d)) \<or> sc_calls (snd d) = []
      \<or> (\<forall>i. 8 * (length (sc_tasks (snd d)) + length (sc_calls (snd d))) \<le> steps i)"
  then consider (early) "t < length (sc_tasks (snd d))" | (calm) "sc_calls (snd d) = []"
    | (generous) "\<And>i. 8 * (length (sc_tasks (snd d)) + length (sc_calls (snd d))) \<le> steps i" by blast
  then show ?thesis
  proof cases
    case calm
    then have "length (sc_tasks (snd ?d)) = length (sc_tasks (snd d))" using d unfolding turn_ok_def by simp
    then show ?thesis using fin [of t] by (cases "t < length (sc_tasks (snd d))") (auto simp: phase_of_def)
  next
    case generous
    show ?thesis
      unfolding drain_def by (rule unfinished_Nil [OF drain_rounds_all [OF pick generous ok refl]]) simp_all
  qed (rule fin)
qed

end
