(* ===== verification/Scheduler_Reorder.thy ===== *)
theory Scheduler_Reorder
  imports Scheduler_Runs
begin

text \<open>
  What \<open>reorder_queued\<close> does to the queue: the queued items, of every campaign, are replaced by new
  ones in the requested order, all owned by the campaign of the scheduler that was asked; nothing is
  counted as failed and the items that generate are untouched.
\<close>

section \<open>The queued items\<close>

abbreviation queued_items :: "queue_state \<Rightarrow> queue_item list" where
  "queued_items q \<equiv> qsn_queued (queue_snapshot_of q)"

lemma set_queued_items:
  assumes "queue_ok q"
  shows "x \<in> set (queued_items q) \<longleftrightarrow>
    dict_get (qs_items q) (qi_item_id x) = Some x \<and> qi_status x = Queued"
proof -
  have "dict_get (qs_items q) (qi_item_id x) = Some x \<longleftrightarrow> (\<exists>k. (k, x) \<in> set (qs_items q))"
    using item_okD(1) [OF assms] dict_get_mem [OF queue_okD(1) [OF assms]] by metis
  then show ?thesis by (force simp: queue_snapshot_of_def)
qed

lemma items_keyed: "queue_ok q \<Longrightarrow> map fst (qs_items q) = map (qi_item_id \<circ> snd) (qs_items q)"
proof (rule nth_equalityI)
  fix k
  assume ok: "queue_ok q" and "k < length (map fst (qs_items q))"
  then have k: "qs_items q ! k \<in> set (qs_items q)" by simp
  then have "dict_get (qs_items q) (fst (qs_items q ! k)) = Some (snd (qs_items q ! k))"
    using dict_get_mem [OF queue_okD(1) [OF ok]] by simp
  then show "map fst (qs_items q) ! k = map (qi_item_id \<circ> snd) (qs_items q) ! k"
    using item_okD(1) [OF ok] \<open>k < length (map fst (qs_items q))\<close> by fastforce
qed simp

lemma distinct_queued_ids: "queue_ok q \<Longrightarrow> distinct (map qi_item_id (queued_items q))"
proof -
  assume ok: "queue_ok q"
  have "distinct (map qi_item_id (map snd (qs_items q)))"
    using queue_okD(1) [OF ok] unfolding dict_ok_def items_keyed [OF ok] by simp
  then have "distinct (map qi_item_id (filter (\<lambda>i. qi_status i = Queued) (map snd (qs_items q))))"
    by (rule distinct_map_filter)
  then show ?thesis by (simp add: queue_snapshot_of_def distinct_map inj_on_def)
qed

section \<open>The order that is asked for\<close>

lemma find_SomeD: "List.find P xs = Some x \<Longrightarrow> x \<in> set xs \<and> P x"
  by (auto simp: find_Some_iff)

lemma requested_items_sub:
  "set (requested_items queued seen ids) \<subseteq> set queued"
  "x \<in> set (requested_items queued seen ids) \<Longrightarrow> qi_item_id x \<in> set ids \<and> qi_item_id x \<notin> set seen"
  by (induction queued seen ids rule: requested_items.induct)
    (auto split: option.splits if_splits dest: find_SomeD)

lemma requested_items_distinct: "distinct (map qi_item_id (requested_items queued seen ids))"
proof (induction queued seen ids rule: requested_items.induct)
  case (2 queued seen rid rids)
  then show ?case
  proof (cases "List.find (\<lambda>i. qi_item_id i = rid) queued")
    case (Some x)
    then have x: "qi_item_id x = rid" using find_SomeD [OF Some] by simp
    have "rid \<notin> qi_item_id ` set (requested_items queued (rid # seen) rids)"
      using requested_items_sub(2) [of _ queued "rid # seen" rids] by force
    then show ?thesis using 2 Some x by simp
  qed simp
qed simp

lemma reorder_sequence_mset:
  assumes "distinct (map qi_item_id queued)" and "reorder_sequence queued ids \<noteq> []"
  shows "mset (reorder_sequence queued ids) = mset queued"
proof -
  let ?req = "requested_items queued [] ids"
  let ?rest = "filter (\<lambda>i. qi_item_id i \<notin> set (map qi_item_id ?req)) queued"
  have eq: "reorder_sequence queued ids = ?req @ ?rest"
    using assms(2) by (simp add: reorder_sequence_def Let_def split: if_splits)
  have sub: "set ?req \<subseteq> set queued" by (rule requested_items_sub)
  have inj: "inj_on qi_item_id (set queued)" using assms(1) by (simp add: distinct_map)
  have "distinct (reorder_sequence queued ids)"
    using requested_items_distinct [of queued "[]" ids] assms(1)
    by (auto simp: eq distinct_map)
  moreover have "set (reorder_sequence queued ids) = set queued"
    using sub inj by (auto simp: eq inj_on_def)
  moreover have "distinct queued" using assms(1) by (simp add: distinct_map)
  ultimately show ?thesis by (simp add: set_eq_iff_mset_eq_distinct)
qed

section \<open>The items leave the queue\<close>

lemma dict_get_filter_keys: "dict_get (filter (\<lambda>(k, _). P k) d) k = (if P k then dict_get d k else None)"
  by (induction d) auto

lemma removes:
  "foldl (\<lambda>q i. snd (remove (qi_item_id i) q)) q xs =
     q\<lparr>qs_items := filter (\<lambda>(k, _). k \<notin> set (map qi_item_id xs)) (qs_items q)\<rparr>"
proof (induction xs arbitrary: q)
  case (Cons x xs)
  have "filter (\<lambda>(k, _). k \<notin> set (map qi_item_id xs)) (dict_del d (qi_item_id x)) =
      filter (\<lambda>(k, _). k \<notin> set (map qi_item_id (x # xs))) d" for d :: "(int, queue_item) dict"
    unfolding dict_del_def filter_filter by (rule filter_cong) auto
  with Cons show ?case by (simp add: remove_def)
qed simp

definition without_queued :: "queue_state \<Rightarrow> queue_state" where
  "without_queued q = q\<lparr>qs_items := filter (\<lambda>(_, i). qi_status i \<noteq> Queued) (qs_items q)\<rparr>"

lemma removes_queued:
  assumes "queue_ok q"
  shows "foldl (\<lambda>q i. snd (remove (qi_item_id i) q)) q (queued_items q) = without_queued q"
proof -
  have "k \<notin> set (map qi_item_id (queued_items q)) \<longleftrightarrow> qi_status i \<noteq> Queued"
    if "(k, i) \<in> set (qs_items q)" for k i
  proof -
    have i: "dict_get (qs_items q) k = Some i" using that dict_get_mem [OF queue_okD(1) [OF assms]] by simp
    then have k: "qi_item_id i = k" by (rule item_okD(1) [OF assms])
    have "x = i" if "x \<in> set (queued_items q)" "qi_item_id x = k" for x
      using that i set_queued_items [OF assms, of x] by simp
    then have "k \<in> set (map qi_item_id (queued_items q)) \<longleftrightarrow> i \<in> set (queued_items q)"
      using k unfolding set_map by blast
    then show ?thesis using i k set_queued_items [OF assms, of i] by simp
  qed
  then have "filter (\<lambda>(k, _). k \<notin> set (map qi_item_id (queued_items q))) (qs_items q) =
      filter (\<lambda>(_, i). qi_status i \<noteq> Queued) (qs_items q)"
    by (intro filter_cong) auto
  then show ?thesis unfolding removes without_queued_def by simp
qed

lemma without_queued_ok: "queue_ok q \<Longrightarrow> queue_ok (without_queued q)"
proof -
  have "queue_ok q \<Longrightarrow> queue_ok (foldl (\<lambda>q i. snd (remove (qi_item_id i) q)) q xs)" for xs
    by (induction xs arbitrary: q) (simp_all add: removed_ok)
  then show "queue_ok q \<Longrightarrow> queue_ok (without_queued q)" by (metis removes_queued)
qed

lemma without_queued_get:
  "queue_ok q \<Longrightarrow> i \<in> set (queued_items q) \<Longrightarrow> dict_get (qs_items (without_queued q)) (qi_item_id i) = None"
  using removes [of q "queued_items q"] removes_queued [of q] by (simp add: dict_get_filter_keys)

section \<open>The cancelled tasks end\<close>

text \<open>A step of a task whose item has left the queue does not change the queue.\<close>

lemma note_gone:
  "item_gone (fst d) (item_of (snd d) t) \<Longrightarrow> note_item t (mark_started now) d = d"
  "item_gone (fst d) (item_of (snd d) t) \<Longrightarrow> fail_cancelled now t d = d"
  "item_gone (fst d) (item_of (snd d) t) \<Longrightarrow> note_outcome now out t d = d"
  unfolding fail_cancelled_def note_outcome_def
  by (rule started.note_on_gone failed.note_on_gone ended.note_on_gone, assumption)+

lemma task_step_quiet:
  assumes r: "ready (snd d) t" and g: "item_gone (fst d) (item_of (snd d) t)"
  shows "fst (task_step now out t d) = fst d"
proof -
  note b = ready_bound [OF r]
  have acq: "item_of (snd (sem_acquire t (snd d))) = item_of (snd d)"
    and res: "item_of (sem_resume t (snd d)) = item_of (snd d)"
    using sem_acquire_moves(1) [OF b] sem_resume_moves(1) [OF b] by (simp_all add: moves_def)
  have lock: "item_of (snd (lock_acquire t s)) t = item_of s t" "item_of (lock_resume t s) t = item_of s t" for s
    by (simp_all add: lock_acquire_def lock_resume_def Let_def view_simps)
  have enter: "fst (enter_lock now t (fst d, s)) = fst d" if "item_of s t = item_of (snd d) t" for s
    using note_gone(1) [of "(fst d, snd (lock_acquire t s))" t] g that
    by (auto simp: enter_lock_def lock split: prod.split)
  show ?thesis
    using g acq res lock note_gone item_of_parts [OF b] enter
    by (cases "phase_of (snd d) t")
      (auto simp: task_step_def Let_def on_sched_def lock split: prod.split)
qed

lemma cancels:
  "phase_of (foldl (\<lambda>s t. cancel_task t s) s ts) = phase_of s"
  "item_of (foldl (\<lambda>s t. cancel_task t s) s ts) = item_of s"
  "sc_uuid (foldl (\<lambda>s t. cancel_task t s) s ts) = sc_uuid s"
  "cancelled (foldl (\<lambda>s t. cancel_task t s) s ts) u \<longleftrightarrow>
     cancelled s u \<or> (u \<in> set ts \<and> phase_of s u \<noteq> Finished)"
  "reach_ok s \<Longrightarrow> reach_ok (foldl (\<lambda>s t. cancel_task t s) s ts)"
  by (induction ts arbitrary: s) (auto simp: views_cancel reach_ok_cancel)

text \<open>A cancelled task can step until it has finished.\<close>

lemma cancelled_ready: "sched_ok s \<Longrightarrow> cancelled s t \<Longrightarrow> phase_of s t \<noteq> Finished \<Longrightarrow> ready s t"
  by (cases "phase_of s t") (auto simp: ready_def sched_ok_def)

lemma step_finished: "phase_of (snd d) t = Finished \<Longrightarrow> task_step now out t d = d"
  by (simp add: task_step_def Let_def)

lemma await_tasks_quiet:
  assumes "reach_ok (snd d)"
    and "\<And>t. t \<in> set ts \<Longrightarrow> item_gone (fst d) (item_of (snd d) t)"
    and "\<And>t. t \<in> set ts \<Longrightarrow> cancelled (snd d) t \<or> phase_of (snd d) t = Finished"
  shows "fst (await_tasks now ts d) = fst d \<and> reach_ok (snd (await_tasks now ts d))
    \<and> sc_uuid (snd (await_tasks now ts d)) = sc_uuid (snd d)"
  using assms
proof (induction ts arbitrary: d)
  case (Cons t ts)
  show ?case
  proof (cases "phase_of (snd d) t = Finished")
    case True
    then show ?thesis using Cons by (simp add: await_tasks_def step_finished)
  next
    case False
    let ?d = "task_step now BioCancelled t d"
    have ok: "sched_ok (snd d)" using Cons.prems(1) by (simp add: reach_ok_def)
    have r: "ready (snd d) t" using Cons.prems(3) [of t] False by (auto intro: cancelled_ready ok)
    note mv = step_moves(1) [OF r]
    have q: "fst ?d = fst d" by (rule task_step_quiet [OF r]) (simp add: Cons.prems)
    have "phase_of (snd ?d) u = Finished" if "phase_of (snd d) u = Finished" for u
    proof (cases "u = t")
      case False
      then show ?thesis using mv that by (auto simp: moves_def snd_task_step)
    qed (use that \<open>phase_of (snd d) t \<noteq> Finished\<close> in simp)
    then have "fst (await_tasks now ts ?d) = fst ?d \<and> reach_ok (snd (await_tasks now ts ?d))
        \<and> sc_uuid (snd (await_tasks now ts ?d)) = sc_uuid (snd ?d)"
      using Cons.prems mv reach_ok_step [OF _ r]
      by (intro Cons.IH) (auto simp: q snd_task_step moves_def)
    then show ?thesis using q mv by (simp add: await_tasks_def snd_task_step moves_def)
  qed
qed (simp add: await_tasks_def)

section \<open>The items come back\<close>

fun fresh_items ::
  "string \<Rightarrow> (int \<Rightarrow> string option) \<Rightarrow> string option \<Rightarrow> int \<Rightarrow> queue_item list \<Rightarrow> queue_item list" where
  "fresh_items now name_of uuid n [] = []"
| "fresh_items now name_of uuid n (i # is) =
     \<lparr>qi_item_id = n, qi_character_id = qi_character_id i, qi_kind = ''biography'',
      qi_status = Queued, qi_enqueued_at = now, qi_started_at = None, qi_completed_at = None,
      qi_duration_ms = None, qi_error = None, qi_character_name = name_of (qi_character_id i),
      qi_campaign_uuid = uuid\<rparr> # fresh_items now name_of uuid (n + 1) is"

lemma fresh_items_facts:
  "map qi_character_id (fresh_items now nm u n is) = map qi_character_id is"
  "x \<in> set (fresh_items now nm u n is) \<Longrightarrow>
     qi_status x = Queued \<and> qi_campaign_uuid x = u \<and> n \<le> qi_item_id x"
  "length (fresh_items now nm u n is) = length is"
  by (induction "is" arbitrary: n) force+

lemma fresh_items_sorted: "sorted (map qi_item_id (fresh_items now nm u n is))"
  by (induction "is" arbitrary: n) (auto dest!: fresh_items_facts(2))

lemma dict_set_fresh: "dict_get d k = None \<Longrightarrow> dict_set d k v = d @ [(k, v)]"
  by (induction d) (auto simp: dict_set_def split: if_splits)

definition with_fresh :: "queue_state \<Rightarrow> queue_item list \<Rightarrow> queue_state" where
  "with_fresh q fs = q\<lparr>qs_next_id := qs_next_id q + int (length fs),
     qs_items := qs_items q @ map (\<lambda>i. (qi_item_id i, i)) fs, qs_frames := qs_frames q @ fs\<rparr>"

lemma respawn_all_queue:
  "queue_ok q \<Longrightarrow>
     fst (respawn_all now nm is (Some q, s)) =
       map qi_item_id (fresh_items now nm (sc_uuid s) (qs_next_id q) is)
     \<and> fst (snd (respawn_all now nm is (Some q, s))) =
       Some (with_fresh q (fresh_items now nm (sc_uuid s) (qs_next_id q) is))"
proof (induction "is" arbitrary: q s)
  case (Cons i "is")
  let ?q = "snd (enqueue now (qi_character_id i) ''biography'' (sc_uuid s) (nm (qi_character_id i)) q)"
  let ?s = "spawn (qi_character_id i) (Some (qs_next_id q)) (s\<lparr>sc_loop_running := True\<rparr>)"
  let ?fs = "fresh_items now nm (sc_uuid s) (qs_next_id q)"
  have step: "regenerate now nm True (qi_character_id i) (Some q, s) = (Some (qs_next_id q), (Some ?q, ?s))"
    by (simp add: regenerate_def enqueue_and_spawn_def Let_def enqueue_def)
  have next_id: "qs_next_id ?q = qs_next_id q + 1" and uuid: "sc_uuid ?s = sc_uuid s"
    by (simp_all add: enqueue_def Let_def views_spawn)
  have "with_fresh ?q xs = with_fresh q (hd (?fs (i # is)) # xs)" for xs
    using dict_set_fresh [OF fresh_id_absent [OF Cons.prems]]
    by (simp add: with_fresh_def enqueue_def Let_def notify_locked_def)
  then show ?case
    using Cons.IH [OF enqueue_ok [OF Cons.prems], where s = ?s] next_id uuid
    by (simp add: step Let_def split_beta)
qed (simp add: with_fresh_def)

text \<open>The queue after a reorder, from the queue before it.\<close>

lemma reorder_queued_queue:
  assumes ok: "queue_ok q" and s: "reach_ok s"
    and some: "reorder_sequence (queued_items q) ids \<noteq> []"
  shows "fst (reorder_queued now nm ids (Some q, s)) =
      map qi_item_id (fresh_items now nm (sc_uuid s) (qs_next_id q) (reorder_sequence (queued_items q) ids))"
    and "fst (snd (reorder_queued now nm ids (Some q, s))) =
      Some (with_fresh (without_queued q)
        (fresh_items now nm (sc_uuid s) (qs_next_id q) (reorder_sequence (queued_items q) ids)))"
proof -
  let ?ts = "own_tasks s (queued_items q)"
  let ?d = "reorder_begin (queued_items q) q s"
  have ne: "queued_items q \<noteq> []"
  proof
    assume "queued_items q = []"
    moreover have "requested_items [] seen ids = []" for seen
      by (induction ids arbitrary: seen) simp_all
    ultimately show False using some by (simp add: reorder_sequence_def Let_def)
  qed
  have start: "fst ?d = Some (without_queued q)" "phase_of (snd ?d) = phase_of s" "item_of (snd ?d) = item_of s"
    "reach_ok (snd ?d)" "sc_uuid (snd ?d) = sc_uuid s"
    and canc: "\<And>t. t \<in> set ?ts \<Longrightarrow> cancelled (snd ?d) t \<or> phase_of s t = Finished"
    using removes_queued [OF ok] cancels [of s ?ts] cancels(5) [OF s] by (auto simp: reorder_begin_def)
  have "item_gone (fst ?d) (item_of (snd ?d) t)" if mem: "t \<in> set ?ts" for t
  proof -
    obtain i where i: "i \<in> set (queued_items q)" "dict_get (sc_active s) (qi_item_id i) = Some t"
      using mem by (auto simp: own_tasks_def set_map_filter)
    then have "item_of s t = Some (qi_item_id i)" using s by (simp add: reach_ok_def active_ok_def)
    then show ?thesis using without_queued_get [OF ok i(1)] start by (simp add: item_gone_def)
  qed
  then have "fst (await_tasks now ?ts ?d) = fst ?d \<and> reach_ok (snd (await_tasks now ?ts ?d))
      \<and> sc_uuid (snd (await_tasks now ?ts ?d)) = sc_uuid (snd ?d)"
    using canc start by (intro await_tasks_quiet) auto
  then obtain s' where await: "await_tasks now ?ts ?d = (Some (without_queued q), s')" and uuid: "sc_uuid s' = sc_uuid s"
    using start by (cases "await_tasks now ?ts ?d") auto
  have "qs_next_id (without_queued q) = qs_next_id q" by (simp add: without_queued_def)
  then show "fst (reorder_queued now nm ids (Some q, s)) =
      map qi_item_id (fresh_items now nm (sc_uuid s) (qs_next_id q) (reorder_sequence (queued_items q) ids))"
    "fst (snd (reorder_queued now nm ids (Some q, s))) =
      Some (with_fresh (without_queued q)
        (fresh_items now nm (sc_uuid s) (qs_next_id q) (reorder_sequence (queued_items q) ids)))"
    using respawn_all_queue [OF without_queued_ok [OF ok], of now nm "reorder_sequence (queued_items q) ids" s']
      ne some await uuid by (simp_all add: reorder_queued_def Let_def)
qed

lemma sort_key_id: "sorted (map f xs) \<Longrightarrow> sort_key f xs = xs"
  by (rule sort_key_id_if_sorted)

text \<open>What a reader of the queue sees of it.\<close>

lemma with_fresh_views:
  assumes "fs = fresh_items now nm u n is"
  shows "queued_items (with_fresh (without_queued q) fs) = fs"
    and "qsn_active (queue_snapshot_of (with_fresh (without_queued q) fs)) = qsn_active (queue_snapshot_of q)"
    and "qsn_completed_count (queue_snapshot_of (with_fresh (without_queued q) fs)) = qs_completed_count q"
    and "qsn_failed_count (queue_snapshot_of (with_fresh (without_queued q) fs)) = qs_failed_count q"
    and "qsn_recent (queue_snapshot_of (with_fresh (without_queued q) fs)) = qs_recent q"
proof -
  let ?old = "map snd (qs_items (without_queued q))"
  have st: "\<forall>x\<in>set fs. qi_status x = Queued" using fresh_items_facts(2) assms by blast
  have "filter (\<lambda>i. qi_status i = Queued) ?old = []"
    by (auto simp: filter_empty_conv without_queued_def)
  moreover have "filter (\<lambda>i. qi_status i = Queued) fs = fs" using st by (simp add: filter_id_conv)
  moreover have "sorted (map qi_item_id fs)" using assms fresh_items_sorted by simp
  ultimately show "queued_items (with_fresh (without_queued q) fs) = fs"
    by (simp add: queue_snapshot_of_def with_fresh_def o_def sort_key_id)
  have "filter (\<lambda>i. qi_status i = Generating) ?old = filter (\<lambda>i. qi_status i = Generating) (map snd (qs_items q))"
    by (auto simp: without_queued_def filter_map o_def case_prod_beta intro!: arg_cong [of _ _ "map snd"] filter_cong)
  moreover have "filter (\<lambda>i. qi_status i = Generating) fs = []" using st by (auto simp: filter_empty_conv)
  ultimately show "qsn_active (queue_snapshot_of (with_fresh (without_queued q) fs)) = qsn_active (queue_snapshot_of q)"
    by (simp add: queue_snapshot_of_def with_fresh_def o_def)
qed (simp_all add: queue_snapshot_of_def with_fresh_def without_queued_def)

section \<open>Two campaigns\<close>

lemma requested_items_hit:
  "x \<in> set queued \<Longrightarrow> qi_item_id x \<in> set ids \<Longrightarrow> qi_item_id x \<notin> set seen \<Longrightarrow>
     requested_items queued seen ids \<noteq> []"
  by (induction queued seen ids rule: requested_items.induct)
    (auto split: option.split simp: find_None_iff)

lemma reorder_sequence_hit:
  "x \<in> set queued \<Longrightarrow> qi_item_id x \<in> set ids \<Longrightarrow> reorder_sequence queued ids \<noteq> []"
  using requested_items_hit [of x queued ids "[]"] by (simp add: reorder_sequence_def Let_def)

lemma reorder_sequence_miss:
  assumes "\<And>x. x \<in> set queued \<Longrightarrow> qi_item_id x \<notin> set ids"
  shows "reorder_sequence queued ids = []"
proof -
  have "requested_items queued [] ids = []"
    using requested_items_sub(1) [of queued "[]" ids] requested_items_sub(2) [of _ queued "[]" ids] assms
    by (cases "requested_items queued [] ids") force+
  then show ?thesis by (simp add: reorder_sequence_def Let_def)
qed

lemma reorder_queued_miss:
  "(\<And>x. x \<in> set (queued_items q) \<Longrightarrow> qi_item_id x \<notin> set ids) \<Longrightarrow>
     reorder_queued now nm ids (Some q, s) = ([], (Some q, s))"
  by (simp add: reorder_queued_def Let_def reorder_sequence_miss)

text \<open>A queued item that is reordered leaves without a further announcement.\<close>

lemma reordered_item_gone:
  assumes ok: "queue_ok q" and x: "x \<in> set (queued_items q)"
    and fs: "fs = fresh_items now nm u (qs_next_id q) is"
  shows "dict_get (qs_items (with_fresh (without_queued q) fs)) (qi_item_id x) = None"
    and "frames_of (with_fresh (without_queued q) fs) (qi_item_id x) = [Queued]"
proof -
  have x': "dict_get (qs_items q) (qi_item_id x) = Some x" "qi_status x = Queued"
    using x set_queued_items [OF ok] by blast+
  then have less: "qi_item_id x < qs_next_id q" by (rule_tac item_okD(3) [OF ok])
  then have new: "qi_item_id y \<noteq> qi_item_id x" if "y \<in> set fs" for y
    using that fresh_items_facts(2) [of y] fs by force
  then have "dict_get (map (\<lambda>i. (qi_item_id i, i)) fs) (qi_item_id x) = None"
    unfolding dict_get_def map_of_eq_None_iff by force
  then show "dict_get (qs_items (with_fresh (without_queued q) fs)) (qi_item_id x) = None"
    using without_queued_get [OF ok x] by (simp add: with_fresh_def dict_get_append)
  have "filter (\<lambda>f. qi_item_id f = qi_item_id x) fs = []" using new by (auto simp: filter_empty_conv)
  then have "frames_of (with_fresh (without_queued q) fs) (qi_item_id x) = frames_of q (qi_item_id x)"
    by (simp add: frames_of_def with_fresh_def without_queued_def)
  then show "frames_of (with_fresh (without_queued q) fs) (qi_item_id x) = [Queued]"
    using item_okD(5) [OF ok x'(1)] x'(2) by (simp add: live_words_def)
qed

end
