(* ===== verification/Queue_Props.thy ===== *)
theory Queue_Props
  imports Scheduler_Reorder
begin

text \<open>
  The properties of the narrative queue and of its schedulers: the history of the queue, mutual
  exclusion and the bound on what runs, that every task ends, and what a reorder does, with one
  campaign and with two.
\<close>

section \<open>A queue with two campaigns\<close>

definition no_name :: "int \<Rightarrow> string option" where
  "no_name c = None"

text \<open>
  Campaign \<open>a\<close> writes about character 1 and has character 3 waiting; then campaign \<open>b\<close> submits its
  character 2, on the same queue.
\<close>

definition demo_start :: desk where
  "demo_start = (Some (new_queue 20 20), new_sched (Some ''a'') (Some 1) OtherWidth True)"

definition demo_submitted :: desk where
  "demo_submitted = snd (enqueue_and_spawn ''t1'' no_name True 3
     (snd (enqueue_and_spawn ''t0'' no_name True 1 demo_start)))"

definition demo_a :: desk where
  "demo_a = task_step ''t3'' (Written 0) 1 (task_step ''t2'' (Written 0) 0 demo_submitted)"

definition demo_b :: desk where
  "demo_b = snd (enqueue_and_spawn ''t4'' no_name True 2
     (fst demo_a, new_sched (Some ''b'') None (IntWidth 1) True))"

lemmas demo_desks = demo_b_def demo_a_def demo_submitted_def demo_start_def

lemma demo_a_ready: "ready (snd demo_submitted) 0"
  "ready (snd (task_step ''t2'' (Written 0) 0 demo_submitted)) 1"
  by code_simp+

lemma demo_reach: "sched_reach demo_submitted" "sched_reach demo_a" "sched_reach demo_b"
proof -
  have start: "sched_reach (q, new_sched u m r l)" for q u m r l by (rule Start)
  show sub: "sched_reach demo_submitted"
    unfolding demo_submitted_def demo_start_def by (intro Next [OF _ Submit] start)
  have one: "sched_reach (task_step ''t2'' (Written 0) 0 demo_submitted)"
    by (rule Next [OF sub Step [OF demo_a_ready(1)]]) simp
  show "sched_reach demo_a"
    unfolding demo_a_def by (rule Next [OF one Step [OF demo_a_ready(2)]]) simp
  show "sched_reach demo_b"
    unfolding demo_b_def by (intro Next [OF _ Submit] start)
qed

lemma demo_queue: "queue_ok (the (fst demo_b))"
proof -
  have "the (fst demo_b) = queue_run [Enqueue ''t0'' 1 ''biography'' (Some ''a'') None,
     Enqueue ''t1'' 3 ''biography'' (Some ''a'') None, Start ''t2'' 1,
     Enqueue ''t4'' 2 ''biography'' (Some ''b'') None] (new_queue 20 20)"
    by code_simp
  then show ?thesis by (simp only: queue_run_ok new_queue_ok)
qed

section \<open>The queue\<close>

text \<open>C37: after any sequence of operations, the announcements of every item are a life that the
  status allows, ended exactly when the item has left the queue; the ring of recent items, the
  totals and the per-character aggregates are those a listener computes from the announcements it
  received; and every id given out is an item still queued or generating, completed, failed, or
  removed.\<close>

theorem queue_history:
  "let q = queue_run ops (new_queue recent_capacity window) in
     queue_ok q \<and> log_ok q
     \<and> qs_next_id q - 1 = int (length (qs_items q)) + qs_completed_count q + qs_failed_count q
         + removals ops (new_queue recent_capacity window)"
  using queue_run_ok [OF new_queue_ok] queue_run_log [OF log_ok_new]
    queue_run_accounts [OF new_queue_ok, of ops recent_capacity window]
  by (simp add: Let_def unaccounted_def new_queue_def)

section \<open>The scheduler\<close>

text \<open>C38: in every reachable state at most as many generations run as the semaphore has permits,
  no two of them for the same character, and the free permits and the tasks that own one add up to
  the width.\<close>

theorem scheduler_safe:
  assumes "sched_reach (q, s)"
  shows "1 \<le> sc_width s
    \<and> sc_free s + card (holders s) = nat (sc_width s)
    \<and> card {t. phase_of s t = Running} \<le> nat (sc_width s)
    \<and> inj_on (task_char s) {t. phase_of s t = Running}"
proof -
  have ok: "reach_ok s" using sched_reach_ok [OF assms] by simp
  then have "sem_ok s" by (simp add: reach_ok_def sched_ok_def core_ok_def)
  then show ?thesis
    using ok running_bound [of s] running_unique [of s]
    by (auto simp: reach_ok_def sem_ok_def inj_on_def)
qed

theorem scheduler_safe_witness:
  "sc_free (snd demo_a) + card (holders (snd demo_a)) = 1
    \<and> card {t. phase_of (snd demo_a) t = Running} \<le> 1"
proof -
  have "sc_width (snd demo_a) = 1" by code_simp
  then show ?thesis using scheduler_safe [of "fst demo_a" "snd demo_a"] demo_reach(2) by simp
qed

text \<open>C39: left alone, every task of a reachable scheduler ends, whichever ready task the loop runs
  next and however the generations end; all permits are free again and no lock is held; and the item
  of a task that was to run has left the queue. The exception is a task cancelled before its first
  step, whose item stays. And a drain, however early its timeouts, leaves none of the tasks behind that
  were there when it began, and none at all if no call is waiting in the loop to spawn another, or if
  no round of it times out.\<close>

theorem scheduler_drains:
  assumes "sched_reach (q, s)" and "\<And>ts. ts \<noteq> [] \<Longrightarrow> pick ts \<in> set ts"
    and "7 * length (sc_tasks s) \<le> n" and "run_tasks now pick out n (q, s) = (q', s')"
  shows "phase_of s' t = Finished
    \<and> sc_free s' = nat (sc_width s') \<and> sc_sem s' = []
    \<and> lk_locked (lock_of s' c) = False \<and> lk_waiters (lock_of s' c) = []
    \<and> (phase_of s t = Finished \<or> (phase_of s t = Fresh \<and> cancelled s t)
       \<or> item_gone q' (item_of s t))
    \<and> (t < length (sc_tasks s) \<or> sc_calls s = [] \<or> (\<forall>i. 8 * (length (sc_tasks s) + length (sc_calls s)) \<le> steps i)
       \<longrightarrow> phase_of (snd (drain now name_of pick call out steps (q, s))) t = Finished)"
proof -
  have ok: "reach_ok s" using sched_reach_ok [OF assms(1)] by simp
  have "work s \<le> n" using work_bound [of s] assms(3) by simp
  then have run: "reach_ok s'" "work s' = 0"
    using run_tasks_finish [OF assms(2), of "(q, s)" n now out] ok assms(4) by simp_all
  have fin: "phase_of s' u = Finished" for u by (rule work_0 [OF run(2)])
  have "settles t (q, s) \<Longrightarrow> item_gone q' (item_of s t)"
    using settles_run [OF assms(2), of t "(q, s)"] run_tasks_items [OF assms(2), where d = "(q, s)"]
      assms(4) fin by (simp add: settles_def) (metis fst_conv snd_conv)
  then show ?thesis
    using fin drain_finishes [OF assms(2), of "(q, s)" t steps now name_of call out] ok finished_idle(1,2) [OF _ fin] finished_idle(3) [OF _ fin, where c = c] run(1) by (auto simp: reach_ok_def settles_def)
qed

theorem scheduler_drains_witness:
  "phase_of (snd (run_tasks ''t5'' hd (\<lambda>t. Written 7) 14 demo_a)) 1 = Finished"
proof -
  have len: "length (sc_tasks (snd demo_a)) = 2" by code_simp
  obtain q' s' where r: "run_tasks ''t5'' hd (\<lambda>t. Written 7) 14 demo_a = (q', s')" by (metis surj_pair)
  have "phase_of s' 1 = Finished"
    using scheduler_drains [where q = "fst demo_a" and s = "snd demo_a" and pick = hd and n = 14
        and t = 1 and q' = q' and s' = s'] demo_reach(2) len r by simp
  with r show ?thesis by simp
qed

text \<open>Why the constructor clamps the width: with no permit the first task waits for ever, which
  no schedule changes, while a scheduler the constructor builds has a permit, whatever width it is
  given or the provider reports.\<close>

theorem zero_width_deadlocks:
  assumes "w < 1" and "\<And>ts. ts \<noteq> [] \<Longrightarrow> pick ts \<in> set ts"
  shows "phase_of (snd (run_tasks now pick out (Suc n) (q, spawn c i (sched_of_width uuid w on_loop)))) 0 = SemWait
    \<and> 1 \<le> sc_free (new_sched uuid m r on_loop)"
proof -
  let ?s = "spawn c i (sched_of_width uuid w on_loop)"
  have len: "length (sc_tasks ?s) = 1" by (simp add: views_spawn sched_of_width_def)
  have fresh: "phase_of ?s 0 = Fresh" "sc_free ?s = 0"
    using assms(1) by (simp_all add: phase_spawn views_spawn sched_of_width_def)
  have canc: "cancelled ?s 0 = False" by (simp add: views_spawn) (simp add: sched_of_width_def cancelled_def)
  have ts: "ready_tasks ?s = [0]" using fresh by (simp add: ready_tasks_def len ready_def)
  then have pick: "pick (ready_tasks ?s) = 0" using assms(2) [of "[0]"] by simp
  obtain s1 where acq: "sem_acquire 0 ?s = (False, s1)"
    using fresh by (simp add: sem_acquire_def sem_locked_def)
  have step: "task_step now (out 0) 0 (q, ?s) = (q, s1)"
    using fresh canc by (simp add: task_step_def Let_def acq)
  have s1: "phase_of s1 0 = SemWait" "cancelled s1 0 = False" "length (sc_tasks s1) = 1"
    using sem_acquire_moves [of 0 ?s] len fresh canc acq by (auto simp: moves_def)
  then have "ready_tasks s1 = []" by (simp add: ready_tasks_def ready_def)
  then have "run_tasks now pick out n (q, s1) = (q, s1)" for n by (cases n) simp_all
  then show ?thesis
    using ts pick step s1 clamp_width_pos [of m r] by (simp add: Let_def new_sched_def sched_of_width_def)
qed

theorem zero_width_deadlocks_witness:
  "phase_of (snd (run_tasks ''t'' hd (\<lambda>t. Written 0) 5 (None, spawn 1 None (sched_of_width None 0 True)))) 0 = SemWait"
  using zero_width_deadlocks [where w = 0 and pick = hd and n = 4] by simp

section \<open>Reordering\<close>

text \<open>When a requested item is queued, a reorder replaces the queued items, whatever campaign
  they belong to, by as many new ones in the order asked for, under the campaign of the scheduler
  that was asked; what generates, what was finished and the counts stay as they were, so nothing
  counts as failed.\<close>

theorem reorder_result:
  assumes "sched_reach (Some q, s)" and "queue_ok q"
    and "reorder_sequence (queued_items q) ids \<noteq> []"
    and "reorder_queued now name_of ids (Some q, s) = (new_ids, (q', s'))"
  shows "\<exists>q''. q' = Some q''
    \<and> queued_items q'' = fresh_items now name_of (sc_uuid s) (qs_next_id q)
          (reorder_sequence (queued_items q) ids)
    \<and> new_ids = map qi_item_id (queued_items q'')
    \<and> mset (map qi_character_id (queued_items q'')) = mset (map qi_character_id (queued_items q))
    \<and> qsn_active (queue_snapshot_of q'') = qsn_active (queue_snapshot_of q)
    \<and> qs_failed_count q'' = qs_failed_count q \<and> qs_recent q'' = qs_recent q"
proof -
  have ok: "reach_ok s" using sched_reach_ok [OF assms(1)] by simp
  let ?fs = "fresh_items now name_of (sc_uuid s) (qs_next_id q) (reorder_sequence (queued_items q) ids)"
  let ?q = "with_fresh (without_queued q) ?fs"
  have eq: "q' = Some ?q" "new_ids = map qi_item_id ?fs"
    using reorder_queued_queue [OF assms(2) ok assms(3), of now name_of] assms(4) by simp_all
  have "mset (map qi_character_id ?fs) = mset (map qi_character_id (queued_items q))"
    using reorder_sequence_mset [OF distinct_queued_ids [OF assms(2)] assms(3)]
    by (simp only: fresh_items_facts(1) mset_map)
  then show ?thesis
    using eq with_fresh_views(1,2) [OF refl, of q now name_of "sc_uuid s" "qs_next_id q"
        "reorder_sequence (queued_items q) ids"]
    by (intro exI [of _ ?q]) (simp add: with_fresh_def without_queued_def)
qed

theorem reorder_result_witness:
  "\<exists>q''. fst (snd (reorder_queued ''t6'' no_name [3] (fst demo_b, snd demo_a))) = Some q''
    \<and> map (\<lambda>i. (qi_character_id i, qi_campaign_uuid i)) (queued_items q'') =
        [(2, Some ''a''), (3, Some ''a'')]"
proof -
  let ?q = "the (fst demo_b)" and ?r = "reorder_queued ''t6'' no_name [3] (fst demo_b, snd demo_a)"
  have q: "fst demo_b = Some ?q" by code_simp
  have reach: "sched_reach (Some ?q, snd demo_a)"
    by (rule Next [of "(fst demo_a, snd demo_a)", OF _ Others]) (simp add: demo_reach(2))
  have ne: "reorder_sequence (queued_items ?q) [3] \<noteq> []" by code_simp
  have "?r = (fst ?r, (fst (snd ?r), snd (snd ?r)))" by simp
  from reorder_result [OF reach demo_queue ne, of "''t6''" no_name, folded q, OF this]
  obtain q'' where r: "fst (snd ?r) = Some q''"
    and fs: "queued_items q'' = fresh_items ''t6'' no_name (sc_uuid (snd demo_a)) (qs_next_id ?q)
       (reorder_sequence (queued_items ?q) [3])" by blast
  have "map (\<lambda>i. (qi_character_id i, qi_campaign_uuid i)) (fresh_items ''t6'' no_name (sc_uuid (snd demo_a))
      (qs_next_id ?q) (reorder_sequence (queued_items ?q) [3])) = [(2, Some ''a''), (3, Some ''a'')]"
    by code_simp
  with r fs show ?thesis by auto
qed

text \<open>With two campaigns on the one queue, the reorder route gives the items of both to the
  scheduler it asks first, the one of the other campaign unchanged: the item of its task is gone without
  an announcement, while that task was not cancelled and still runs, and the character comes back as
  an item of the first campaign. The route's comment says that every scheduler reorders the items it
  owns.\<close>

theorem reorder_crosses_campaigns:
  assumes "sched_reach (Some q, s1)" and "queue_ok q"
    and x: "x \<in> set (queued_items q)" "qi_item_id x \<in> set ids"
    and known: "list_all (\<lambda>i. i < qs_next_id q) ids"
    and "reorder_narrative_queue now [n1, n2] ids (Some q) [s1, s2] = (new_ids, (q', ss))"
  shows "ss ! 1 = s2 \<and> (\<exists>q''. q' = Some q''
    \<and> dict_get (qs_items q'') (qi_item_id x) = None \<and> frames_of q'' (qi_item_id x) = [Queued]
    \<and> (\<exists>y\<in>set (queued_items q''). qi_character_id y = qi_character_id x \<and> qi_campaign_uuid y = sc_uuid s1))"
proof -
  let ?r = "reorder_sequence (queued_items q) ids"
  let ?fs = "fresh_items now n1 (sc_uuid s1) (qs_next_id q) ?r"
  let ?q = "with_fresh (without_queued q) ?fs"
  have ok: "reach_ok s1" using sched_reach_ok [OF assms(1)] by simp
  have ne: "?r \<noteq> []" by (rule reorder_sequence_hit [OF x])
  obtain s1' ids1 where one: "reorder_queued now n1 ids (Some q, s1) = (ids1, (Some ?q, s1'))"
    using reorder_queued_queue(2) [OF assms(2) ok ne, of now n1] by (metis prod.collapse)
  have "qi_item_id y \<notin> set ids" if "y \<in> set (queued_items ?q)" for y
    using that known fresh_items_facts(2) [of y now n1 "sc_uuid s1" "qs_next_id q" ?r]
    by (force simp: with_fresh_views(1) [OF refl] list_all_iff)
  note two = reorder_queued_miss [OF this, where now = now and nm = n2 and s = s2]
  have eq: "q' = Some ?q" "ss = [s1', s2]" using assms(6) one two by simp_all
  have "x \<in> set ?r"
    using x reorder_sequence_mset [OF distinct_queued_ids [OF assms(2)] ne] by (metis set_mset_mset)
  then have "qi_character_id x \<in> set (map qi_character_id ?fs)" by (simp add: fresh_items_facts(1))
  then obtain y where y: "y \<in> set ?fs" "qi_character_id y = qi_character_id x" by auto
  then have "qi_campaign_uuid y = sc_uuid s1" using fresh_items_facts(2) by blast
  then show ?thesis
    using eq y reordered_item_gone [OF assms(2) x(1) refl, of now n1 "sc_uuid s1" ?r]
    by (auto simp: with_fresh_views(1) [OF refl])
qed

theorem reorder_crosses_campaigns_witness:
  "snd (snd (reorder_narrative_queue ''t6'' [no_name, no_name] [3] (fst demo_b) [snd demo_a, snd demo_b])) ! 1
     = snd demo_b"
proof -
  let ?q = "the (fst demo_b)"
  let ?r = "reorder_narrative_queue ''t6'' [no_name, no_name] [3] (Some ?q) [snd demo_a, snd demo_b]"
  have q: "fst demo_b = Some ?q" by code_simp
  have reach: "sched_reach (Some ?q, snd demo_a)"
    by (rule Next [of "(fst demo_a, snd demo_a)", OF _ Others]) (simp add: demo_reach(2))
  have x: "hd (rev (queued_items ?q)) \<in> set (queued_items ?q)" "qi_item_id (hd (rev (queued_items ?q))) \<in> set [3]"
    and known: "list_all (\<lambda>i. i < qs_next_id ?q) [3]"
    by code_simp+
  have "?r = (fst ?r, (fst (snd ?r), snd (snd ?r)))" by simp
  from reorder_crosses_campaigns [OF reach demo_queue x known this]
  have "snd (snd ?r) ! 1 = snd demo_b" by blast
  then show ?thesis using q by simp
qed

end
