(* ===== verification/Worldbuilding.thy ===== *)
theory Worldbuilding
  imports Parse_Facts
begin

text \<open>
  \<open>save/worldbuilding.py\<close>: the facts about the world around a character that the tick stores beside
  it, the summary of its de jure region and the great cause it fights for. Typed dictionaries are
  records. A set that the code iterates takes the order as an argument; \<open>snap.titles[tid]\<close> may raise.
\<close>

section \<open>Data\<close>

definition MAX_PEERS :: nat where
  "MAX_PEERS = 8"

definition MAX_CROSS_CURRENTS :: nat where
  "MAX_CROSS_CURRENTS = 6"

record realm_facts =
  rf_kingdom_key :: string
  rf_kingdom_name :: "string option"
  rf_culture :: "string option"
  rf_faith :: "string option"
  rf_ruler_first_name :: "string option"
  rf_ruler_nickname :: "string option"

record cross_current =
  cc_held_title_key :: string
  cc_held_title_name :: "string option"
  cc_held_tier :: string
  cc_de_jure_kingdom_key :: string
  cc_de_jure_kingdom_name :: "string option"
  cc_holder_realm_key :: string
  cc_holder_realm_name :: "string option"
  cc_holder_first_name :: "string option"

record region_summary =
  rs_region_empire_key :: string
  rs_region_empire_name :: "string option"
  rs_self_realm :: realm_facts
  rs_peers :: "realm_facts list"
  rs_cross_currents :: "cross_current list"

section \<open>Up the de jure chain\<close>

definition tier_rank :: "string \<Rightarrow> int" where
  "tier_rank tier = dict_get_default PRIMARY_TIER_RANK tier (- 1)"

function walk_de_jure ::
  "(int, title_snapshot) dict \<Rightarrow> int fset \<Rightarrow> string \<Rightarrow> title_snapshot \<Rightarrow> title_snapshot option" where
  "walk_de_jure titles seen target_tier current =
     (if tit_title_id current |\<in>| seen then None
      else if tit_tier current = target_tier then Some current
      else case tit_de_jure_liege_id current of
        None \<Rightarrow> None
      | Some lid \<Rightarrow>
          (case dict_get titles lid of
             None \<Rightarrow> None
           | Some t \<Rightarrow> walk_de_jure titles (finsert (tit_title_id current) seen) target_tier t))"
  by pat_completeness auto
termination
  by (relation "measure (\<lambda>(titles, seen, _, current). unseen titles seen current)")
    (auto simp: unseen_less)

declare walk_de_jure.simps [simp del]

definition walk_de_jure_to_tier ::
  "save_snapshot \<Rightarrow> title_snapshot \<Rightarrow> string \<Rightarrow> title_snapshot option" where
  "walk_de_jure_to_tier snap title target_tier =
     (if tier_rank (tit_tier title) > tier_rank target_tier then None
      else walk_de_jure (sn_titles snap) {||} target_tier title)"

definition de_jure_empire_of :: "save_snapshot \<Rightarrow> title_snapshot \<Rightarrow> title_snapshot option" where
  "de_jure_empire_of snap title = walk_de_jure_to_tier snap title ''empire''"

definition de_jure_kingdom_of :: "save_snapshot \<Rightarrow> title_snapshot \<Rightarrow> title_snapshot option" where
  "de_jure_kingdom_of snap title = walk_de_jure_to_tier snap title ''kingdom''"

section \<open>The realm of a character\<close>

text \<open>The realm that the character's own titles give.\<close>

definition own_realm ::
  "(int fset \<Rightarrow> int list) \<Rightarrow> save_snapshot \<Rightarrow> int \<Rightarrow> title_snapshot option" where
  "own_realm iter snap character_id =
     (case get_held_titles_sorted iter snap character_id of
        [] \<Rightarrow> None
      | primary # _ \<Rightarrow>
          if tier_rank (tit_tier primary) \<ge> tier_rank ''kingdom'' then Some primary
          else de_jure_kingdom_of snap primary)"

definition realm_relations :: "character_snapshot \<Rightarrow> int list" where
  "realm_relations char =
     (let fam = cs_family char
      in List.map_filter id [fam_primary_spouse fam, fam_father fam, fam_mother fam])"

text \<open>
  \<open>_primary_realm_with_fallback\<close>: a depth-first search through spouse, father and mother whose set
  \<open>_seen\<close> is shared by all calls. The first realm found ends every call, so the relations still to
  be tried form a stack, the argument \<open>pending\<close>.
\<close>

definition unvisited :: "save_snapshot \<Rightarrow> int fset \<Rightarrow> nat" where
  "unvisited snap seen = fcard (dict_keys (sn_characters snap) |-| seen)"

lemma unvisited_known:
  assumes "dict_get (sn_characters snap) cid = Some c" and "cid |\<notin>| seen"
  shows "unvisited snap (finsert cid seen) < unvisited snap seen"
proof -
  have "cid |\<in>| dict_keys (sn_characters snap)" using assms(1) by (simp add: fmember_dict_keys)
  then show ?thesis unfolding unvisited_def using assms(2) by (intro pfsubset_fcard_mono) blast
qed

lemma unvisited_mono: "unvisited snap (finsert cid seen) \<le> unvisited snap seen"
  unfolding unvisited_def by (rule fcard_mono) blast

function realm_search ::
  "(int fset \<Rightarrow> int list) \<Rightarrow> save_snapshot \<Rightarrow> int fset \<Rightarrow> int list \<Rightarrow> title_snapshot option" where
  "realm_search iter snap seen [] = None"
| "realm_search iter snap seen (cid # pending) =
     (if cid |\<in>| seen then realm_search iter snap seen pending
      else case own_realm iter snap cid of
        Some realm \<Rightarrow> Some realm
      | None \<Rightarrow>
          (case dict_get (sn_characters snap) cid of
             None \<Rightarrow> realm_search iter snap (finsert cid seen) pending
           | Some char \<Rightarrow>
               realm_search iter snap (finsert cid seen) (realm_relations char @ pending)))"
  by pat_completeness auto
termination
  by (relation "measures [\<lambda>(_, snap, seen, _). unvisited snap seen, \<lambda>(_, _, _, pending). length pending]")
    (auto simp: unvisited_known le_imp_less_or_eq [OF unvisited_mono])

definition primary_realm_of_character ::
  "(int fset \<Rightarrow> int list) \<Rightarrow> save_snapshot \<Rightarrow> int \<Rightarrow> title_snapshot option" where
  "primary_realm_of_character iter snap character_id = realm_search iter snap {||} [character_id]"

section \<open>The region\<close>

definition lookup_opt :: "(int, 'a) dict \<Rightarrow> int option \<Rightarrow> 'a option" where
  "lookup_opt d k = (case k of None \<Rightarrow> None | Some i \<Rightarrow> dict_get d i)"

definition realm_facts_of :: "save_snapshot \<Rightarrow> title_snapshot \<Rightarrow> realm_facts" where
  "realm_facts_of snap kingdom =
     (let holder = lookup_opt (sn_characters snap) (tit_holder_id kingdom)
      in \<lparr>rf_kingdom_key = tit_key kingdom,
          rf_kingdom_name = tit_name kingdom,
          rf_culture = (case holder of None \<Rightarrow> None
             | Some h \<Rightarrow> lookup_opt (sn_cultures_lookup snap) (cs_culture_id h)),
          rf_faith = (case holder of None \<Rightarrow> None
             | Some h \<Rightarrow> lookup_opt (sn_faiths_lookup snap) (cs_faith_id h)),
          rf_ruler_first_name = (case holder of None \<Rightarrow> None | Some h \<Rightarrow> cs_first_name h),
          rf_ruler_nickname = (case holder of None \<Rightarrow> None | Some h \<Rightarrow> cs_nickname h)\<rparr>)"

definition cross_current_of ::
  "(int fset \<Rightarrow> int list) \<Rightarrow> save_snapshot \<Rightarrow> title_snapshot \<Rightarrow> title_snapshot \<Rightarrow> cross_current option" where
  "cross_current_of iter snap empire title =
     (if tit_tier title \<noteq> ''duchy'' then None
      else case tit_holder_id title of
        None \<Rightarrow> None
      | Some holder_id \<Rightarrow>
          (case de_jure_kingdom_of snap title of
             None \<Rightarrow> None
           | Some kingdom \<Rightarrow>
               (case de_jure_empire_of snap kingdom of
                  None \<Rightarrow> None
                | Some e \<Rightarrow>
                    if tit_title_id e \<noteq> tit_title_id empire then None
                    else (case primary_realm_of_character iter snap holder_id of
                        None \<Rightarrow> None
                      | Some holder_primary \<Rightarrow>
                          if tit_title_id holder_primary = tit_title_id kingdom then None
                          else Some
                            \<lparr>cc_held_title_key = tit_key title,
                             cc_held_title_name = tit_name title,
                             cc_held_tier = tit_tier title,
                             cc_de_jure_kingdom_key = tit_key kingdom,
                             cc_de_jure_kingdom_name = tit_name kingdom,
                             cc_holder_realm_key = tit_key holder_primary,
                             cc_holder_realm_name = tit_name holder_primary,
                             cc_holder_first_name =
                               (case dict_get (sn_characters snap) holder_id of
                                  None \<Rightarrow> None | Some h \<Rightarrow> cs_first_name h)\<rparr>))))"

text \<open>The two cases of the self realm in the source keep the entry and change nothing.\<close>

definition detect_cross_currents ::
  "(int fset \<Rightarrow> int list) \<Rightarrow> save_snapshot \<Rightarrow> title_snapshot \<Rightarrow> cross_current list" where
  "detect_cross_currents iter snap empire =
     take MAX_CROSS_CURRENTS (sort_key cc_held_title_key
       (List.map_filter (cross_current_of iter snap empire) (map snd (sn_titles snap))))"

definition kingdoms_in :: "save_snapshot \<Rightarrow> title_snapshot \<Rightarrow> int fset" where
  "kingdoms_in snap empire =
     dict_get_default (sn_kingdoms_by_de_jure_empire snap) (tit_title_id empire) {||}"

text \<open>The kingdoms an emperor holds in the empire: from the indexes, or by a scan.\<close>

definition own_kingdoms ::
  "save_snapshot \<Rightarrow> int \<Rightarrow> title_snapshot \<Rightarrow> title_snapshot list result" where
  "own_kingdoms snap character_id empire =
     (if kingdoms_in snap empire \<noteq> {||} \<and> sn_title_holders snap \<noteq> [] then
        (let held = dict_get_default (sn_title_holders snap) character_id {||}
         in concat_mapr (\<lambda>tid. bindr (dict_item (sn_titles snap) tid) (\<lambda>t. Inr [t]))
              (py_sorted (held |\<inter>| kingdoms_in snap empire)))
      else Inr (sort_key tit_title_id (filter (\<lambda>t.
             tit_holder_id t = Some character_id \<and> tit_tier t = ''kingdom''
             \<and> tit_title_id (case de_jure_empire_of snap t of None \<Rightarrow> empire | Some e \<Rightarrow> e)
                 = tit_title_id empire) (map snd (sn_titles snap)))))"

definition peer_titles ::
  "(int fset \<Rightarrow> int list) \<Rightarrow> save_snapshot \<Rightarrow> title_snapshot \<Rightarrow> title_snapshot \<Rightarrow> title_snapshot list" where
  "peer_titles iter snap empire self_kingdom =
     take MAX_PEERS (sort_key tit_key
       (if kingdoms_in snap empire \<noteq> {||} then
          List.map_filter (\<lambda>tid. if tid = tit_title_id self_kingdom then None
            else dict_get (sn_titles snap) tid) (iter (kingdoms_in snap empire))
        else filter (\<lambda>t. tit_tier t = ''kingdom'' \<and> tit_title_id t \<noteq> tit_title_id self_kingdom
            \<and> (case de_jure_empire_of snap t of None \<Rightarrow> False
               | Some e \<Rightarrow> tit_title_id e = tit_title_id empire)) (map snd (sn_titles snap))))"

text \<open>Culture and faith of the subject where the ruler's are missing.\<close>

definition self_realm_facts ::
  "save_snapshot \<Rightarrow> int \<Rightarrow> title_snapshot \<Rightarrow> realm_facts" where
  "self_realm_facts snap character_id self_kingdom =
     (let facts = realm_facts_of snap self_kingdom
      in case dict_get (sn_characters snap) character_id of
        None \<Rightarrow> facts
      | Some subject \<Rightarrow>
          (let facts = (if rf_culture facts = None \<and> cs_culture_id subject \<noteq> None
                 then facts\<lparr>rf_culture := lookup_opt (sn_cultures_lookup snap) (cs_culture_id subject)\<rparr>
                 else facts)
           in if rf_faith facts = None \<and> cs_faith_id subject \<noteq> None
              then facts\<lparr>rf_faith := lookup_opt (sn_faiths_lookup snap) (cs_faith_id subject)\<rparr>
              else facts))"

definition summarise_region ::
  "(int fset \<Rightarrow> int list) \<Rightarrow> save_snapshot \<Rightarrow> int \<Rightarrow> region_summary option result" where
  "summarise_region iter snap character_id =
     (case primary_realm_of_character iter snap character_id of
        None \<Rightarrow> Inr None
      | Some primary \<Rightarrow>
          (case (if tit_tier primary = ''empire'' then Some primary else de_jure_empire_of snap primary) of
             None \<Rightarrow> Inr None
           | Some empire \<Rightarrow>
               bindr (if tit_tier primary = ''kingdom'' then Inr primary
                      else bindr (own_kingdoms snap character_id empire)
                        (\<lambda>own. Inr (case own of [] \<Rightarrow> primary | k # _ \<Rightarrow> k)))
                 (\<lambda>self_kingdom. Inr (Some
                    \<lparr>rs_region_empire_key = tit_key empire,
                     rs_region_empire_name = tit_name empire,
                     rs_self_realm = self_realm_facts snap character_id self_kingdom,
                     rs_peers = map (realm_facts_of snap) (peer_titles iter snap empire self_kingdom),
                     rs_cross_currents = detect_cross_currents iter snap empire\<rparr>))))"

section \<open>The great cause\<close>

definition GREAT_CAUSE_CB_TYPES :: "string list" where
  "GREAT_CAUSE_CB_TYPES =
     [''undirected_great_holy_war'', ''directed_great_holy_war'', ''papal_crusade'']"

definition MAX_GREAT_CAUSE_ALLIES :: nat where
  "MAX_GREAT_CAUSE_ALLIES = 5"

record great_cause_ally =
  gca_character_id :: int
  gca_first_name :: "string option"
  gca_realm_key :: string
  gca_realm_name :: "string option"

record great_cause_facts =
  gc_war_id :: int
  gc_casus_belli_type :: string
  gc_war_name :: "string option"
  gc_side :: string
  gc_start_date :: "string option"
  gc_target_kingdom_key :: "string option"
  gc_target_kingdom_name :: "string option"
  gc_allies :: "great_cause_ally list"

definition resolve_side_for_character :: "war_snapshot \<Rightarrow> int \<Rightarrow> string" where
  "resolve_side_for_character war character_id =
     (if character_id |\<in>| war_attacker_participants war then ''attacker''
      else if character_id |\<in>| war_defender_participants war then ''defender''
      else ''unknown'')"

definition great_cause_target ::
  "save_snapshot \<Rightarrow> war_snapshot \<Rightarrow> string option \<times> string option" where
  "great_cause_target snap war =
     (case war_targeted_titles war of
        [] \<Rightarrow> (None, None)
      | tid # _ \<Rightarrow>
          (case dict_get (sn_titles snap) tid of
             None \<Rightarrow> (None, None)
           | Some target \<Rightarrow>
               if tit_tier target = ''kingdom'' \<or> tit_tier target = ''empire''
               then (Some (tit_key target), tit_name target)
               else (case walk_de_jure_to_tier snap target ''kingdom'' of
                   Some walked \<Rightarrow> (Some (tit_key walked), tit_name walked)
                 | None \<Rightarrow> (Some (tit_key target), tit_name target))))"

definition great_cause_ally_of ::
  "(int fset \<Rightarrow> int list) \<Rightarrow> save_snapshot \<Rightarrow> int \<Rightarrow> int \<Rightarrow> great_cause_ally option" where
  "great_cause_ally_of iter snap exclude_character_id cid =
     (if cid = exclude_character_id then None
      else case primary_realm_of_character iter snap cid of
        None \<Rightarrow> None
      | Some realm \<Rightarrow>
          if tier_rank (tit_tier realm) < tier_rank ''kingdom'' then None
          else if tit_holder_id realm \<noteq> Some cid then None
          else Some
            \<lparr>gca_character_id = cid,
             gca_first_name = (case dict_get (sn_characters snap) cid of None \<Rightarrow> None
                | Some c \<Rightarrow> cs_first_name c),
             gca_realm_key = tit_key realm,
             gca_realm_name = tit_name realm\<rparr>)"

definition great_cause_allies ::
  "(int fset \<Rightarrow> int list) \<Rightarrow> save_snapshot \<Rightarrow> war_snapshot \<Rightarrow> string \<Rightarrow> int \<Rightarrow> great_cause_ally list" where
  "great_cause_allies iter snap war side exclude_character_id =
     (let participants = (if side = ''attacker'' then war_attacker_participants war
          else if side = ''defender'' then war_defender_participants war else {||})
      in take MAX_GREAT_CAUSE_ALLIES
           (List.map_filter (great_cause_ally_of iter snap exclude_character_id)
             (py_sorted participants)))"

definition great_cause_wars ::
  "(int fset \<Rightarrow> int list) \<Rightarrow> save_snapshot \<Rightarrow> int \<Rightarrow> war_snapshot list" where
  "great_cause_wars iter snap character_id =
     filter (\<lambda>w. case war_casus_belli_type w of None \<Rightarrow> False
         | Some cb \<Rightarrow> cb \<in> set GREAT_CAUSE_CB_TYPES)
       (List.map_filter (dict_get (sn_wars snap))
          (iter (dict_get_default (sn_character_to_wars snap) character_id {||})))"

definition detect_great_cause ::
  "(int fset \<Rightarrow> int list) \<Rightarrow> save_snapshot \<Rightarrow> int \<Rightarrow> great_cause_facts option" where
  "detect_great_cause iter snap character_id =
     (case sort_key war_war_id (great_cause_wars iter snap character_id) of
        [] \<Rightarrow> None
      | war # _ \<Rightarrow>
          (let side = resolve_side_for_character war character_id;
               (target_key, target_name) = great_cause_target snap war
           in Some \<lparr>gc_war_id = war_war_id war,
                gc_casus_belli_type = (case war_casus_belli_type war of None \<Rightarrow> '''' | Some cb \<Rightarrow> cb),
                gc_war_name = war_name war,
                gc_side = side,
                gc_start_date = war_start_date war,
                gc_target_kingdom_key = target_key,
                gc_target_kingdom_name = target_name,
                gc_allies = great_cause_allies iter snap war side character_id\<rparr>))"

end
