(* ===== verification/World_Facts.thy ===== *)
theory World_Facts
  imports Worldbuilding
begin

text \<open>
  What the world facts are: the realm of a character is a kingdom or an empire; on a well-formed
  snapshot nothing raises; the indexes the parser builds and the scans of hand-made snapshots give the
  same region, unless the character is an emperor, where they can differ; and which great cause
  is found.
\<close>

section \<open>The realm is sovereign\<close>

lemma sovereign_tier: "tier_rank ''kingdom'' \<le> tier_rank tier \<longleftrightarrow> tier \<in> {''kingdom'', ''empire''}"
  by (auto simp: tier_rank_def PRIMARY_TIER_RANK_def dict_get_default_def)

lemma walk_de_jure_tier: "walk_de_jure titles seen target t = Some u \<Longrightarrow> tit_tier u = target"
proof (induction titles seen target t rule: walk_de_jure.induct)
  case (1 titles seen target t)
  show ?case
    using 1 (2)
    by (subst (asm) walk_de_jure.simps)
      (auto split: if_splits option.splits dest: 1 (1))
qed

lemma own_realm_tier: "own_realm iter s cid = Some t \<Longrightarrow> tit_tier t \<in> {''kingdom'', ''empire''}"
  by (auto simp: own_realm_def sovereign_tier de_jure_kingdom_of_def walk_de_jure_to_tier_def
      dest: walk_de_jure_tier split: list.splits if_splits)

lemma realm_search_tier: "realm_search iter s seen cids = Some t \<Longrightarrow> tit_tier t \<in> {''kingdom'', ''empire''}"
proof (induction iter s seen cids rule: realm_search.induct)
  case (2 iter s seen cid pending)
  show ?case
  proof (cases "own_realm iter s cid")
    case None
    then show ?thesis using 2 by (simp split: if_splits option.splits)
  next
    case (Some realm)
    then show ?thesis using 2 own_realm_tier [OF Some] by (simp split: if_splits)
  qed
qed simp

lemma primary_realm_tier:
  "primary_realm_of_character iter s cid = Some t \<Longrightarrow> tit_tier t \<in> {''kingdom'', ''empire''}"
  unfolding primary_realm_of_character_def by (rule realm_search_tier)

section \<open>Walks and indexes\<close>

lemma walk_empire_above: "map_option tit_title_id (walk_de_jure titles seen ''empire'' t) = empire_above titles seen t"
proof (induction titles seen t rule: empire_above.induct)
  case (1 titles seen t)
  then show ?case
    by (subst walk_de_jure.simps, subst empire_above.simps) (auto split: option.split)
qed

text \<open>What the parser guarantees of its two indexes.\<close>

definition kingdoms_agree :: "save_snapshot \<Rightarrow> bool" where
  "kingdoms_agree s \<longleftrightarrow>
     sn_kingdoms_by_de_jure_empire s = build_kingdoms_by_de_jure_empire (sn_titles s)"

definition without_indexes :: "save_snapshot \<Rightarrow> save_snapshot" where
  "without_indexes s = s\<lparr>sn_title_holders := [], sn_kingdoms_by_de_jure_empire := []\<rparr>"

lemma without_indexes_simps [simp]:
  "sn_titles (without_indexes s) = sn_titles s" "sn_characters (without_indexes s) = sn_characters s"
  "sn_cultures_lookup (without_indexes s) = sn_cultures_lookup s"
  "sn_faiths_lookup (without_indexes s) = sn_faiths_lookup s"
  "kingdoms_in (without_indexes s) e = {||}"
  by (simp_all add: without_indexes_def kingdoms_in_def dict_get_default_def)

lemma without_indexes_wf: "wf_snapshot s \<Longrightarrow> wf_snapshot (without_indexes s)"
  by (simp add: wf_snapshot_def wf_characters_def wf_titles_def holders_agree_def without_indexes_def)

lemma de_jure_without [simp]:
  "de_jure_empire_of (without_indexes s) t = de_jure_empire_of s t"
  "de_jure_kingdom_of (without_indexes s) t = de_jure_kingdom_of s t"
  by (simp_all add: de_jure_empire_of_def de_jure_kingdom_of_def walk_de_jure_to_tier_def)

lemma realm_facts_without [simp]:
  "realm_facts_of (without_indexes s) t = realm_facts_of s t"
  "self_realm_facts (without_indexes s) cid t = self_realm_facts s cid t"
  by (simp_all add: realm_facts_of_def self_realm_facts_def cong: option.case_cong if_cong)

lemma realm_facts_without' [simp]: "realm_facts_of (without_indexes s) = realm_facts_of s"
  by (rule ext) simp

lemma own_realm_without:
  assumes "set_order i1" and "set_order i2" and "wf_snapshot s"
  shows "own_realm i1 s cid = own_realm i2 (without_indexes s) cid"
  using held_sorted_scan [OF assms(1,3), of cid]
    held_sorted_scan [OF assms(2) without_indexes_wf [OF assms(3)], of cid]
  by (simp add: own_realm_def split: list.split)

lemma realm_search_without:
  "set_order i1 \<Longrightarrow> wf_snapshot s \<Longrightarrow> set_order i2 \<Longrightarrow>
     realm_search i1 s seen cids = realm_search i2 (without_indexes s) seen cids"
proof (induction i1 s seen cids rule: realm_search.induct)
  case (2 iter s seen cid pending)
  have own: "own_realm i2 (without_indexes s) cid = own_realm iter s cid"
    using own_realm_without [OF 2(4,6,5)] by simp
  show ?case using 2(1) [OF _ 2(4,5,6)] 2(2,3) [OF _ _ _ 2(4,5,6)]
    by (auto simp: own split: option.split)
qed simp

lemma primary_realm_without:
  "set_order i1 \<Longrightarrow> set_order i2 \<Longrightarrow> wf_snapshot s \<Longrightarrow>
     primary_realm_of_character i1 s cid = primary_realm_of_character i2 (without_indexes s) cid"
  unfolding primary_realm_of_character_def by (rule realm_search_without)

lemma cross_currents_without:
  assumes "set_order i1" and "set_order i2" and "wf_snapshot s"
  shows "detect_cross_currents i1 s e = detect_cross_currents i2 (without_indexes s) e"
proof -
  have "cross_current_of i1 s e = cross_current_of i2 (without_indexes s) e"
    by (rule ext)
      (simp add: cross_current_of_def primary_realm_without [OF assms] cong: option.case_cong if_cong)
  then show ?thesis by (simp add: detect_cross_currents_def)
qed

section \<open>Peers from the index and from the scan\<close>

lemma de_jure_empire_kingdom:
  assumes "tit_tier t = ''kingdom''"
  shows "map_option tit_title_id (de_jure_empire_of s t) = empire_above (sn_titles s) {||} t"
  using assms walk_empire_above [of "sn_titles s" "{||}" t]
  by (simp add: de_jure_empire_of_def walk_de_jure_to_tier_def tier_rank_def PRIMARY_TIER_RANK_def
      dict_get_default_def)

lemma kingdoms_in_mem:
  assumes "wf_titles s" and "kingdoms_agree s"
  shows "kid |\<in>| kingdoms_in s e \<longleftrightarrow> (\<exists>t. dict_get (sn_titles s) kid = Some t \<and> tit_tier t = ''kingdom''
    \<and> map_option tit_title_id (de_jure_empire_of s t) = Some (tit_title_id e))"
proof -
  have ok: "dict_ok (sn_titles s)" using assms(1) by (simp add: wf_titles_def)
  have "kid |\<in>| kingdoms_in s e \<longleftrightarrow> (\<exists>t. dict_get (sn_titles s) kid = Some t \<and> tit_tier t = ''kingdom''
    \<and> empire_above (sn_titles s) {||} t = Some (tit_title_id e))"
    using assms(2) unfolding kingdoms_agree_def
    by (force simp: kingdoms_in_def build_kingdoms_by_de_jure_empire_def build_index_mem set_map_filter
        dict_get_mem [OF ok] split: if_splits)
  then show ?thesis using de_jure_empire_kingdom by metis
qed

definition is_peer :: "save_snapshot \<Rightarrow> title_snapshot \<Rightarrow> title_snapshot \<Rightarrow> title_snapshot \<Rightarrow> bool" where
  "is_peer s e k t \<longleftrightarrow> tit_tier t = ''kingdom'' \<and> tit_title_id t \<noteq> tit_title_id k
     \<and> map_option tit_title_id (de_jure_empire_of s t) = Some (tit_title_id e)"

lemma peer_scan_eq:
  "(tit_tier t = ''kingdom'' \<and> tit_title_id t \<noteq> tit_title_id k
     \<and> (case de_jure_empire_of s t of None \<Rightarrow> False | Some e' \<Rightarrow> tit_title_id e' = tit_title_id e)) \<longleftrightarrow>
   is_peer s e k t"
  by (auto simp: is_peer_def split: option.split)

lemma peers_index_mset:
  assumes iter: "set_order iter" and wf: "wf_titles s" and agree: "kingdoms_agree s"
  shows "mset (List.map_filter (\<lambda>tid. if tid = tit_title_id k then None else dict_get (sn_titles s) tid)
      (iter (kingdoms_in s e))) = mset (filter (is_peer s e k) (map snd (sn_titles s)))"
proof -
  let ?f = "\<lambda>tid. if tid = tit_title_id k then None else dict_get (sn_titles s) tid"
  have inj: "?f x = Some z \<Longrightarrow> ?f y = Some z \<Longrightarrow> x = y" for x y z
    using wf_titlesD [OF wf] by (metis option.distinct(1))
  have "set (List.map_filter ?f (iter (kingdoms_in s e))) = set (filter (is_peer s e k) (map snd (sn_titles s)))"
  proof (rule set_eqI)
    fix t
    have "(\<exists>x. x |\<in>| kingdoms_in s e \<and> ?f x = Some t) \<longleftrightarrow>
        dict_get (sn_titles s) (tit_title_id t) = Some t \<and> is_peer s e k t" (is "?L = ?R")
    proof
      assume ?L
      then obtain x where "x |\<in>| kingdoms_in s e" "x \<noteq> tit_title_id k" "dict_get (sn_titles s) x = Some t"
        by (auto split: if_splits)
      then show ?R using wf_titlesD [OF wf] kingdoms_in_mem [OF wf agree, of x e] by (auto simp: is_peer_def)
    next
      assume ?R
      then show ?L using kingdoms_in_mem [OF wf agree, of "tit_title_id t" e]
        by (intro exI [of _ "tit_title_id t"]) (auto simp: is_peer_def)
    qed
    also have "\<dots> \<longleftrightarrow> t \<in> set (filter (is_peer s e k) (map snd (sn_titles s)))"
      using titles_lookup [OF wf] by auto
    finally show "t \<in> set (List.map_filter ?f (iter (kingdoms_in s e))) \<longleftrightarrow>
        t \<in> set (filter (is_peer s e k) (map snd (sn_titles s)))"
      using set_order.map_filter_iter(2) [OF iter, of ?f "kingdoms_in s e", OF inj] by simp
  qed
  moreover have "distinct (List.map_filter ?f (iter (kingdoms_in s e)))"
    by (rule set_order.map_filter_iter(1) [OF iter, of ?f, OF inj])
  moreover have "distinct (filter (is_peer s e k) (map snd (sn_titles s)))"
    by (rule distinct_filter [OF scan_distinct [OF wf]])
  ultimately show ?thesis by (simp only: set_eq_iff_mset_eq_distinct)
qed

definition keys_distinct :: "save_snapshot \<Rightarrow> bool" where
  "keys_distinct s \<longleftrightarrow> inj_on tit_key (snd ` set (sn_titles s))"

lemma peers_without:
  assumes i: "set_order i1" and wf: "wf_titles s" and agree: "kingdoms_agree s" and keys: "keys_distinct s"
  shows "peer_titles i1 s e k = peer_titles i2 (without_indexes s) e k"
proof (cases "kingdoms_in s e = {||}")
  case True
  then show ?thesis by (simp add: peer_titles_def cong: option.case_cong if_cong)
next
  case False
  let ?xs = "List.map_filter (\<lambda>tid. if tid = tit_title_id k then None else dict_get (sn_titles s) tid)
      (i1 (kingdoms_in s e))"
  note m = peers_index_mset [OF i wf agree, of k e]
  have "set ?xs \<subseteq> snd ` set (sn_titles s)"
    using arg_cong [OF m, of set_mset] by auto
  then have "inj_on tit_key (set ?xs)" using keys by (auto simp: keys_distinct_def intro: inj_on_subset)
  from sort_key_inj_cong [OF m this]
  have "sort_key tit_key ?xs = sort_key tit_key (filter (is_peer s e k) (map snd (sn_titles s)))" .
  then show ?thesis using False by (simp add: peer_titles_def peer_scan_eq cong: option.case_cong if_cong)
qed

section \<open>The summary\<close>

lemma own_kingdoms_total:
  assumes "wf_snapshot s"
  shows "\<exists>ks. own_kingdoms s cid e = Inr ks"
proof (cases "kingdoms_in s e \<noteq> {||} \<and> sn_title_holders s \<noteq> []")
  case True
  let ?held = "dict_get_default (sn_title_holders s) cid {||}"
  have "\<exists>t. dict_get (sn_titles s) tid = Some t" if "tid |\<in>| ?held" for tid
    using that holders_agreeD [OF wf_snapshotD(3) [OF assms]] True by blast
  then have "concat_mapr (\<lambda>tid. bindr (dict_item (sn_titles s) tid) (\<lambda>t. Inr [t]))
      (py_sorted (?held |\<inter>| kingdoms_in s e)) =
    Inr (concat (map (\<lambda>tid. [the (dict_get (sn_titles s) tid)]) (py_sorted (?held |\<inter>| kingdoms_in s e))))"
    by (intro concat_mapr_Inr) (force simp: dict_item_def)
  then show ?thesis using True by (simp add: own_kingdoms_def Let_def)
qed (auto simp: own_kingdoms_def)

lemma summarise_region_total:
  assumes "wf_snapshot s"
  shows "\<exists>r. summarise_region iter s cid = Inr r"
proof -
  obtain g where own: "\<And>e. own_kingdoms s cid e = Inr (g e)"
    using own_kingdoms_total [OF assms, of cid] by metis
  show ?thesis by (simp add: summarise_region_def own split: option.split)
qed

lemma summarise_region_without:
  assumes "set_order i1" and "set_order i2" and wf: "wf_snapshot s"
    and "kingdoms_agree s" and "keys_distinct s"
    and no: "\<And>p. primary_realm_of_character i1 s cid = Some p \<Longrightarrow> tit_tier p \<noteq> ''empire''"
  shows "summarise_region i1 s cid = summarise_region i2 (without_indexes s) cid"
proof (cases "primary_realm_of_character i1 s cid")
  case (Some p)
  then have "tit_tier p = ''kingdom''" using primary_realm_tier [OF Some] no by auto
  then show ?thesis
    using Some primary_realm_without [OF assms(1,2) wf, of cid]
      peers_without [OF assms(1) wf_snapshotD(2) [OF wf] assms(4,5), where ?i2.0 = i2]
      cross_currents_without [OF assms(1,2) wf]
    by (simp add: summarise_region_def cong: option.case_cong if_cong)
qed (simp add: summarise_region_def primary_realm_without [OF assms(1,2) wf, symmetric])

section \<open>The great cause\<close>

lemma sort_key_hd:
  assumes "sort_key f xs = x # xs'"
  shows "x \<in> set xs \<and> (\<forall>y\<in>set xs. f x \<le> f y)"
proof -
  have "sorted (map f (x # xs'))" using assms by (metis sorted_sort_key)
  moreover have "set xs = set (x # xs')" using assms by (metis set_sort)
  ultimately show ?thesis by auto
qed

definition causes_of :: "save_snapshot \<Rightarrow> int \<Rightarrow> war_snapshot set" where
  "causes_of s cid = {w. \<exists>wid. wid |\<in>| dict_get_default (sn_character_to_wars s) cid {||}
     \<and> dict_get (sn_wars s) wid = Some w
     \<and> (\<exists>cb\<in>set GREAT_CAUSE_CB_TYPES. war_casus_belli_type w = Some cb)}"

lemma set_great_cause_wars:
  "set_order iter \<Longrightarrow> set (great_cause_wars iter s cid) = causes_of s cid"
  by (auto simp: great_cause_wars_def causes_of_def set_map_filter set_order.iter_set split: option.splits)

lemma great_cause_found:
  assumes "set_order iter" and "detect_great_cause iter s cid = Some g"
  shows "\<exists>w\<in>causes_of s cid. gc_war_id g = war_war_id w
    \<and> (\<forall>w'\<in>causes_of s cid. war_war_id w \<le> war_war_id w')
    \<and> gc_side g = resolve_side_for_character w cid
    \<and> gc_allies g = great_cause_allies iter s w (resolve_side_for_character w cid) cid"
proof -
  obtain w ws where w: "sort_key war_war_id (great_cause_wars iter s cid) = w # ws"
    using assms(2) by (auto simp: detect_great_cause_def split: list.splits)
  show ?thesis
    using sort_key_hd [OF w] assms(2) w unfolding set_great_cause_wars [OF assms(1)]
    by (intro bexI [of _ w]) (auto simp: detect_great_cause_def Let_def split: prod.splits)
qed

lemma no_great_cause:
  assumes "set_order iter"
  shows "detect_great_cause iter s cid = None \<longleftrightarrow> causes_of s cid = {}"
proof -
  have "detect_great_cause iter s cid = None \<longleftrightarrow> sort_key war_war_id (great_cause_wars iter s cid) = []"
    by (auto simp: detect_great_cause_def Let_def split: list.split prod.split)
  also have "\<dots> \<longleftrightarrow> set (great_cause_wars iter s cid) = {}" by (metis set_empty set_sort)
  finally show ?thesis using set_great_cause_wars [OF assms] by simp
qed

lemma great_cause_ally_ofD:
  "great_cause_ally_of iter s cid c = Some a \<Longrightarrow> gca_character_id a = c \<and> c \<noteq> cid"
  by (auto simp: great_cause_ally_of_def split: if_splits option.splits)

lemma great_cause_allies_length:
  "length (great_cause_allies iter s w side cid) \<le> MAX_GREAT_CAUSE_ALLIES"
  by (simp add: great_cause_allies_def Let_def)

lemma great_cause_allies_unknown [simp]: "great_cause_allies iter s w ''unknown'' cid = []"
  by (simp add: great_cause_allies_def py_sorted_def sorted_list_of_fset.rep_eq List.map_filter_def)

lemma great_cause_allies_side:
  "a \<in> set (great_cause_allies iter s w side cid) \<Longrightarrow> gca_character_id a \<noteq> cid
     \<and> gca_character_id a |\<in>| (if side = ''attacker'' then war_attacker_participants w
          else if side = ''defender'' then war_defender_participants w else {||})"
  by (auto simp: great_cause_allies_def Let_def set_map_filter
      dest!: in_set_takeD great_cause_ally_ofD split: if_splits)

end
