(* ===== verification/World_Props.thy ===== *)
theory World_Props
  imports World_Facts
begin

text \<open>
  The properties of the world facts, on a map of one empire with two kingdoms and three duchies and
  an orphan kingdom outside every empire.
\<close>

section \<open>A map\<close>

definition map_title :: "int \<Rightarrow> string \<Rightarrow> string \<Rightarrow> int option \<Rightarrow> int option \<Rightarrow> title_snapshot" where
  "map_title tid key tier holder liege = \<lparr>tit_title_id = tid, tit_key = key, tit_name = None,
     tit_tier = tier, tit_holder_id = holder, tit_de_jure_liege_id = liege\<rparr>"

definition map_save :: save_snapshot where
  "map_save = (new_snapshot ''run'' ''1.12'' None ''1066.1.1'' (Some 1))
     \<lparr>sn_titles := [(1, map_title 1 ''e_rome'' ''empire'' (Some 9) None),
        (2, map_title 2 ''k_italy'' ''kingdom'' (Some 8) (Some 1)),
        (3, map_title 3 ''k_gaul'' ''kingdom'' (Some 7) (Some 1)),
        (4, map_title 4 ''d_nice'' ''duchy'' (Some 8) (Some 3)),
        (5, map_title 5 ''k_orphan'' ''kingdom'' (Some 9) None)],
      sn_title_holders := [(9, {|1, 5|}), (8, {|2, 4|}), (7, {|3|})],
      sn_kingdoms_by_de_jure_empire := [(1, {|2, 3|})]\<rparr>"

lemmas map_defs = map_save_def map_title_def new_snapshot_def

lemma map_wf: "wf_snapshot map_save"
  by (auto simp: map_defs wf_snapshot_def wf_characters_def wf_titles_def holders_agree_def dict_ok_def
      dict_get_default_def)

lemma map_agree: "kingdoms_agree map_save"
  unfolding kingdoms_agree_def by code_simp

lemma map_keys: "keys_distinct map_save"
  by (simp add: keys_distinct_def map_defs)

lemma map_realm: "primary_realm_of_character py_sorted map_save 8 =
    Some (map_title 2 ''k_italy'' ''kingdom'' (Some 8) (Some 1))"
  by code_simp

section \<open>The region\<close>

text \<open>C36: the region of a character does not depend on the indexes the parser builds, if the realm that
  the look-up finds for it, by its own titles or its family, is none or no empire (so not of an emperor,
  nor of the landless kin whom the look-up puts into an emperor's realm): on a well-formed snapshot
  whose index of kingdoms agrees with its titles, and whose title keys are distinct, the summary is the
  one of the snapshot without indexes, whatever the orders in which the sets are walked.\<close>

theorem region_canonical:
  assumes "set_order i1" and "set_order i2" and "wf_snapshot s" and "kingdoms_agree s"
    and "keys_distinct s"
    and "\<And>p. primary_realm_of_character i1 s cid = Some p \<Longrightarrow> tit_tier p \<noteq> ''empire''"
  shows "summarise_region i1 s cid = summarise_region i2 (without_indexes s) cid"
  by (rule summarise_region_without [OF assms])

theorem region_canonical_witness:
  "summarise_region py_sorted map_save 8 = summarise_region (\<lambda>S. rev (py_sorted S)) (without_indexes map_save) 8"
  by (rule region_canonical [OF sorted_order.set_order_axioms reverse_order.set_order_axioms map_wf map_agree map_keys])
    (simp add: map_realm map_title_def)

text \<open>Of an emperor it does depend on them. With the index the emperor who holds no kingdom
  of his empire is at home in the empire; the scan counts a kingdom outside every empire as one of
  his empire and puts him there.\<close>

theorem emperor_index_scan_differ:
  "map_option (\<lambda>r. rf_kingdom_key (rs_self_realm r)) (case summarise_region py_sorted map_save 9 of
       Inr r \<Rightarrow> r | Inl _ \<Rightarrow> None) = Some ''e_rome''
   \<and> map_option (\<lambda>r. rf_kingdom_key (rs_self_realm r)) (case summarise_region py_sorted (without_indexes map_save) 9 of
       Inr r \<Rightarrow> r | Inl _ \<Rightarrow> None) = Some ''k_orphan''"
  by code_simp

text \<open>On every parsed save the summary exists.\<close>

theorem parsed_region_total:
  "parse_save repr names iter data = Inr s \<Longrightarrow> \<exists>r. summarise_region i s cid = Inr r"
  by (rule summarise_region_total [OF parse_save_wf])

section \<open>The great cause\<close>

definition same_side :: "war_snapshot \<Rightarrow> int \<Rightarrow> int \<Rightarrow> bool" where
  "same_side w a b \<longleftrightarrow>
     a |\<in>| war_attacker_participants w \<and> b |\<in>| war_attacker_participants w \<or>
     a |\<in>| war_defender_participants w \<and> b |\<in>| war_defender_participants w"

text \<open>The great cause of a character is the crusade or great holy war with the lowest
  number among the wars it takes part in, and the facts name at most five allies: all of them
  other characters who fight on the character's side of that war.\<close>

theorem great_cause_bounded:
  assumes "set_order iter" and "detect_great_cause iter s cid = Some g"
  shows "\<exists>w\<in>causes_of s cid. gc_war_id g = war_war_id w
    \<and> (\<forall>w'\<in>causes_of s cid. war_war_id w \<le> war_war_id w')
    \<and> length (gc_allies g) \<le> 5
    \<and> (\<forall>a\<in>set (gc_allies g). gca_character_id a \<noteq> cid \<and> same_side w cid (gca_character_id a))"
proof -
  obtain w where "w \<in> causes_of s cid" "gc_war_id g = war_war_id w"
    "\<forall>w'\<in>causes_of s cid. war_war_id w \<le> war_war_id w'"
    "gc_allies g = great_cause_allies iter s w (resolve_side_for_character w cid) cid"
    using great_cause_found [OF assms] by auto
  then show ?thesis
    using great_cause_allies_length [of iter s w "resolve_side_for_character w cid" cid]
      great_cause_allies_side [of _ iter s w "resolve_side_for_character w cid" cid]
    by (intro bexI [of _ w])
      (auto simp: MAX_GREAT_CAUSE_ALLIES_def same_side_def resolve_side_for_character_def)
qed

definition crusade :: "int \<Rightarrow> string \<Rightarrow> war_snapshot" where
  "crusade wid cb = \<lparr>war_war_id = wid, war_name = None, war_start_date = None,
     war_casus_belli_type = Some cb, war_targeted_titles = [4], war_primary_attacker_id = Some 8,
     war_primary_defender_id = Some 7, war_claimant_id = None, war_attacker_participants = {|8, 9|},
     war_defender_participants = {|7|}\<rparr>"

definition crusade_save :: save_snapshot where
  "crusade_save = map_save
     \<lparr>sn_wars := [(31, crusade 31 ''papal_crusade''), (30, crusade 30 ''directed_great_holy_war''),
        (29, crusade 29 ''claim_cb'')],
      sn_character_to_wars := [(8, {|29, 30, 31|})]\<rparr>"

definition crusade_facts :: great_cause_facts where
  "crusade_facts = (case detect_great_cause py_sorted crusade_save 8 of Some g \<Rightarrow> g)"

lemma crusade_detected: "detect_great_cause py_sorted crusade_save 8 = Some crusade_facts"
  unfolding crusade_facts_def by code_simp

theorem great_cause_bounded_witness:
  "gc_war_id crusade_facts = 30 \<and> length (gc_allies crusade_facts) \<le> 5
   \<and> map gca_character_id (gc_allies crusade_facts) = [9] \<and> gc_target_kingdom_key crusade_facts = Some ''k_gaul''"
proof -
  have "length (gc_allies crusade_facts) \<le> 5"
    using great_cause_bounded [OF sorted_order.set_order_axioms crusade_detected] by blast
  moreover have "gc_war_id crusade_facts = 30 \<and> map gca_character_id (gc_allies crusade_facts) = [9]
      \<and> gc_target_kingdom_key crusade_facts = Some ''k_gaul''"
    by code_simp
  ultimately show ?thesis by blast
qed

end
