(* ===== verification/Autotrack.thy ===== *)
theory Autotrack
  imports Py_Json
begin

text \<open>
  \<open>save/autotrack.py\<close>: which characters a campaign tracks by itself, from the snapshot and from the
  rules of the campaign. A JSON text is represented by what it decodes to, \<^const>\<open>None\<close> where it does
  not decode. The tick reads the rules in its own way (\<open>_auto_track_new_candidates\<close> of
  \<open>save/tick.py\<close>); both readings are here.
\<close>

section \<open>The rules\<close>

type_synonym json_text = "json option"

definition AUTO_TRACK_RULES_DEFAULT :: "(string, bool) dict" where
  "AUTO_TRACK_RULES_DEFAULT =
     [(''include_heirs'', True), (''include_spouses'', True), (''include_grandchildren'', True),
      (''include_county_vassals'', False)]"

definition keep_flag :: "string \<times> json \<Rightarrow> (string, bool) dict \<Rightarrow> (string, bool) dict" where
  "keep_flag = (\<lambda>(k, v) out. case v of JBool b \<Rightarrow> dict_set out k b | _ \<Rightarrow> out)"

definition resolve_auto_track_rules :: "json_text option \<Rightarrow> (string, bool) dict" where
  "resolve_auto_track_rules rules_json =
     (case rules_json of
        Some (Some (JObj parsed)) \<Rightarrow> fold keep_flag parsed AUTO_TRACK_RULES_DEFAULT
      | _ \<Rightarrow> AUTO_TRACK_RULES_DEFAULT)"

definition tick_rules :: "json_text option \<Rightarrow> (string, bool) dict option" where
  "tick_rules rules_json =
     (case rules_json of
        Some (Some (JObj parsed)) \<Rightarrow> Some (map (\<lambda>(k, v). (k, truthy v)) parsed)
      | _ \<Rightarrow> None)"

text \<open>\<open>a | b\<close> of two dictionaries.\<close>

definition dict_merge :: "('k, 'v) dict \<Rightarrow> ('k, 'v) dict \<Rightarrow> ('k, 'v) dict" where
  "dict_merge a b = fold (\<lambda>(k, v) d. dict_set d k v) b a"

definition effective_rules :: "(string, bool) dict option \<Rightarrow> (string, bool) dict" where
  "effective_rules rules =
     dict_merge AUTO_TRACK_RULES_DEFAULT (case rules of None \<Rightarrow> [] | Some r \<Rightarrow> r)"

section \<open>County vassals\<close>

definition VASSAL_CHAIN_MAX_DEPTH :: nat where
  "VASSAL_CHAIN_MAX_DEPTH = 5"

text \<open>The inner loop: at most \<open>n\<close> steps up from a liege, ended by a repetition.\<close>

fun liege_walk ::
  "nat \<Rightarrow> (int, title_snapshot) dict \<Rightarrow> int fset \<Rightarrow> int fset \<Rightarrow> int option \<Rightarrow> bool" where
  "liege_walk 0 titles realm seen liege = False"
| "liege_walk (Suc n) titles realm seen None = False"
| "liege_walk (Suc n) titles realm seen (Some lid) =
     (if lid |\<in>| seen then False
      else if lid |\<in>| realm then True
      else case dict_get titles lid of
        None \<Rightarrow> False
      | Some parent \<Rightarrow>
          liege_walk n titles realm (finsert lid seen) (tit_de_jure_liege_id parent))"

definition player_realm :: "save_snapshot \<Rightarrow> int \<Rightarrow> int fset" where
  "player_realm snap player_id = fset_of_list (map tit_title_id
     (filter (\<lambda>t. tit_holder_id t = Some player_id
         \<and> tit_tier t \<in> set [''duchy'', ''kingdom'', ''empire'']) (map snd (sn_titles snap))))"

definition vassal_of_county :: "save_snapshot \<Rightarrow> int \<Rightarrow> title_snapshot \<Rightarrow> int option" where
  "vassal_of_county snap player_id county =
     (if tit_tier county \<noteq> ''county'' \<or> tit_holder_id county = Some player_id then None
      else if liege_walk VASSAL_CHAIN_MAX_DEPTH (sn_titles snap) (player_realm snap player_id) {||}
           (tit_de_jure_liege_id county) then tit_holder_id county
      else None)"

definition resolve_county_vassals :: "save_snapshot \<Rightarrow> int \<Rightarrow> int list" where
  "resolve_county_vassals snap player_id =
     (if player_realm snap player_id = {||} then []
      else py_sorted (fset_of_list
        (List.map_filter (vassal_of_county snap player_id) (map snd (sn_titles snap)))))"

section \<open>The candidates\<close>

text \<open>\<open>_add\<close>: the set \<open>seen\<close> holds the identifiers of \<open>out\<close>.\<close>

definition add_candidate :: "string \<Rightarrow> int \<Rightarrow> (int \<times> string) list \<Rightarrow> (int \<times> string) list" where
  "add_candidate note cid out = (if cid \<in> fst ` set out then out else out @ [(cid, note)])"

definition add_optional :: "string \<Rightarrow> int option \<Rightarrow> (int \<times> string) list \<Rightarrow> (int \<times> string) list" where
  "add_optional note cid out = (case cid of None \<Rightarrow> out | Some c \<Rightarrow> add_candidate note c out)"

definition grandchildren :: "save_snapshot \<Rightarrow> character_snapshot \<Rightarrow> int list" where
  "grandchildren snap player = concat (map (\<lambda>ch.
     case dict_get (sn_characters snap) ch of
       None \<Rightarrow> [] | Some child \<Rightarrow> fam_children (cs_family child)) (fam_children (cs_family player)))"

definition add_family ::
  "(string, bool) dict \<Rightarrow> save_snapshot \<Rightarrow> character_snapshot \<Rightarrow> (int \<times> string) list
   \<Rightarrow> (int \<times> string) list" where
  "add_family effective snap player out =
     (let fam = cs_family player;
          out = (if dict_get_default effective ''include_spouses'' True
                 then fold (add_candidate ''spouse'') (fam_spouses fam)
                   (add_optional ''spouse'' (fam_primary_spouse fam) out) else out);
          out = (if dict_get_default effective ''include_heirs'' True
                 then fold (add_candidate ''child'') (fam_children fam) out else out);
          out = (if dict_get_default effective ''include_grandchildren'' True
                 then fold (add_candidate ''grandchild'') (grandchildren snap player) out else out)
      in add_optional ''father'' (fam_father fam) (add_optional ''mother'' (fam_mother fam) out))"

definition auto_track_candidates ::
  "save_snapshot \<Rightarrow> (string, bool) dict option \<Rightarrow> (int \<times> string) list" where
  "auto_track_candidates snap rules =
     (case sn_player_character_id snap of
        None \<Rightarrow> []
      | Some pid \<Rightarrow>
          (let effective = effective_rules rules;
               out = add_candidate ''player'' pid [];
               out = (case dict_get (sn_characters snap) pid of
                   None \<Rightarrow> out
                 | Some player \<Rightarrow> add_family effective snap player out)
           in if dict_get_default effective ''include_county_vassals'' False
              then fold (add_candidate ''vassal'') (resolve_county_vassals snap pid) out
              else out))"

section \<open>The walk up the lieges\<close>

text \<open>The titles met on the way up, the liege itself first, without a bound and without a check
  for repetition.\<close>

fun nth_liege :: "(int, title_snapshot) dict \<Rightarrow> nat \<Rightarrow> int option \<Rightarrow> int option" where
  "nth_liege titles k None = None"
| "nth_liege titles 0 (Some lid) = Some lid"
| "nth_liege titles (Suc k) (Some lid) =
     (case dict_get titles lid of
        None \<Rightarrow> None
      | Some parent \<Rightarrow> nth_liege titles k (tit_de_jure_liege_id parent))"

text \<open>Ending the walk at a repetition loses nothing: what is reachable is met before it.\<close>

lemma liege_walk_sound:
  "liege_walk n titles realm seen l \<Longrightarrow> \<exists>k<n. \<exists>t. nth_liege titles k l = Some t \<and> t |\<in>| realm"
proof (induction n titles realm seen l rule: liege_walk.induct)
  case (3 n titles realm seen lid)
  show ?case
  proof (cases "lid |\<in>| realm")
    case True
    then show ?thesis by (intro exI [of _ 0]) simp
  next
    case False
    with 3 obtain p k t where "dict_get titles lid = Some p" "k < n"
        "nth_liege titles k (tit_de_jure_liege_id p) = Some t" "t |\<in>| realm"
      by (auto split: if_splits option.splits)
    then show ?thesis by (intro exI [of _ "Suc k"]) simp
  qed
qed simp_all

lemma nth_liege_add:
  "nth_liege titles k l = Some t \<Longrightarrow> nth_liege titles (k + m) l = nth_liege titles m (Some t)"
proof (induction titles k l rule: nth_liege.induct)
  case (3 titles k lid)
  then show ?case by (auto split: option.splits)
qed simp_all

text \<open>The least step at which the realm is met repeats no earlier title.\<close>

lemma liege_walk_complete:
  assumes "nth_liege titles k l = Some t" and "t |\<in>| realm" and "k < n"
    and "\<And>j u. j < k \<Longrightarrow> nth_liege titles j l = Some u \<Longrightarrow> u |\<notin>| realm"
    and "\<And>j u. j \<le> k \<Longrightarrow> nth_liege titles j l = Some u \<Longrightarrow> u |\<notin>| seen"
    and "\<And>i j u. i < j \<Longrightarrow> j \<le> k \<Longrightarrow> nth_liege titles i l = Some u \<Longrightarrow> nth_liege titles j l \<noteq> Some u"
  shows "liege_walk n titles realm seen l"
  using assms
proof (induction n titles realm seen l arbitrary: k rule: liege_walk.induct)
  case (3 n titles realm seen lid)
  note prems = 3(2-7)
  have fresh: "lid |\<notin>| seen" using prems(5) [of 0 lid] by simp
  show ?case
  proof (cases k)
    case 0
    then show ?thesis using prems(1,2) fresh by simp
  next
    case (Suc m)
    have out: "lid |\<notin>| realm" using prems(4) [of 0 lid] Suc by simp
    obtain p where p: "dict_get titles lid = Some p" using prems(1) Suc by (auto split: option.splits)
    have step: "nth_liege titles (Suc j) (Some lid) = nth_liege titles j (tit_de_jure_liege_id p)" for j
      using p by simp
    have "liege_walk n titles realm (finsert lid seen) (tit_de_jure_liege_id p)"
    proof (rule 3(1) [OF fresh out p, of m])
      show "nth_liege titles m (tit_de_jure_liege_id p) = Some t" using prems(1) Suc step by simp
      show "t |\<in>| realm" "m < n" using prems(2,3) Suc by simp_all
      show "u |\<notin>| realm" if "j < m" "nth_liege titles j (tit_de_jure_liege_id p) = Some u" for j u
        using prems(4) [of "Suc j" u] that Suc step by simp
      show "u |\<notin>| finsert lid seen" if "j \<le> m" "nth_liege titles j (tit_de_jure_liege_id p) = Some u" for j u
        using prems(5) [of "Suc j" u] prems(6) [of 0 "Suc j" lid] that Suc step by auto
      show "nth_liege titles j (tit_de_jure_liege_id p) \<noteq> Some u"
        if "i < j" "j \<le> m" "nth_liege titles i (tit_de_jure_liege_id p) = Some u" for i j u
        using prems(6) [of "Suc i" "Suc j" u] that Suc step by simp
    qed
    then show ?thesis using fresh out p by simp
  qed
next
  case (2 n titles realm seen)
  then show ?case by simp
qed simp

lemma least_no_repeat:
  assumes "nth_liege titles k l = Some t" and "t |\<in>| realm"
    and least: "\<And>j u. j < k \<Longrightarrow> nth_liege titles j l = Some u \<Longrightarrow> u |\<notin>| realm"
    and ij: "i < j" "j \<le> k" "nth_liege titles i l = Some u"
  shows "nth_liege titles j l \<noteq> Some u"
proof
  assume j: "nth_liege titles j l = Some u"
  have "nth_liege titles k l = nth_liege titles (k - j) (Some u)"
    using nth_liege_add [OF j, of "k - j"] ij(2) by simp
  then have "nth_liege titles (i + (k - j)) l = Some t"
    using nth_liege_add [OF ij(3), of "k - j"] assms(1) by simp
  moreover have "i + (k - j) < k" using ij(1,2) by simp
  ultimately show False using least assms(2) by blast
qed

lemma liege_walk_iff:
  "liege_walk n titles realm {||} l \<longleftrightarrow> (\<exists>k<n. \<exists>t. nth_liege titles k l = Some t \<and> t |\<in>| realm)"
proof
  assume "\<exists>k<n. \<exists>t. nth_liege titles k l = Some t \<and> t |\<in>| realm"
  then obtain k where k: "k < n" "\<exists>t. nth_liege titles k l = Some t \<and> t |\<in>| realm" by blast
  define m where "m = (LEAST m. \<exists>t. nth_liege titles m l = Some t \<and> t |\<in>| realm)"
  from LeastI [of "\<lambda>m. \<exists>t. nth_liege titles m l = Some t \<and> t |\<in>| realm", OF k(2)]
  obtain t where t: "nth_liege titles m l = Some t" "t |\<in>| realm" unfolding m_def by blast
  have "m < n" using Least_le [of "\<lambda>m. \<exists>t. nth_liege titles m l = Some t \<and> t |\<in>| realm", OF k(2)] k(1)
    unfolding m_def by simp
  have least: "u |\<notin>| realm" if "j < m" "nth_liege titles j l = Some u" for j u
    using not_less_Least [of j "\<lambda>m. \<exists>t. nth_liege titles m l = Some t \<and> t |\<in>| realm"] that
    unfolding m_def by blast
  show "liege_walk n titles realm {||} l"
    by (rule liege_walk_complete [OF t \<open>m < n\<close> least])
      (use least_no_repeat [OF t least] in auto)
qed (rule liege_walk_sound)

section \<open>Who is a candidate\<close>

lemma add_candidate_ids [simp]: "fst ` set (add_candidate note cid out) = insert cid (fst ` set out)"
  by (auto simp: add_candidate_def)

lemma add_optional_ids [simp]: "fst ` set (add_optional note c out) = set_option c \<union> fst ` set out"
  by (cases c) (simp_all add: add_optional_def)

lemma fold_candidate_ids [simp]:
  "fst ` set (fold (add_candidate note) cids out) = set cids \<union> fst ` set out"
  by (induction cids arbitrary: out) auto

lemma add_candidate_distinct:
  "distinct (map fst out) \<Longrightarrow> distinct (map fst (add_candidate note cid out))"
  by (auto simp: add_candidate_def image_iff)

lemma add_optional_distinct:
  "distinct (map fst out) \<Longrightarrow> distinct (map fst (add_optional note c out))"
  by (cases c) (simp_all add: add_optional_def add_candidate_distinct)

lemma fold_candidate_distinct:
  "distinct (map fst out) \<Longrightarrow> distinct (map fst (fold (add_candidate note) cids out))"
  by (induction cids arbitrary: out) (simp_all add: add_candidate_distinct)

lemmas candidate_distinct = add_candidate_distinct add_optional_distinct fold_candidate_distinct

lemma candidates_distinct: "distinct (map fst (auto_track_candidates snap rules))"
  by (simp add: auto_track_candidates_def add_family_def Let_def candidate_distinct
      split: option.split)

definition rule_on :: "(string, bool) dict option \<Rightarrow> string \<Rightarrow> bool" where
  "rule_on rules k = dict_get_default (effective_rules rules) k True"

definition family_of :: "(string, bool) dict option \<Rightarrow> save_snapshot \<Rightarrow> character_snapshot \<Rightarrow> int set" where
  "family_of rules snap player = (let fam = cs_family player in
     (if rule_on rules ''include_spouses''
      then set_option (fam_primary_spouse fam) \<union> set (fam_spouses fam) else {})
     \<union> (if rule_on rules ''include_heirs'' then set (fam_children fam) else {})
     \<union> (if rule_on rules ''include_grandchildren'' then set (grandchildren snap player) else {})
     \<union> set_option (fam_mother fam) \<union> set_option (fam_father fam))"

lemma add_family_ids:
  "fst ` set (add_family (effective_rules rules) snap player out) = family_of rules snap player \<union> fst ` set out"
  by (auto simp: add_family_def family_of_def rule_on_def Let_def)

lemma dict_merge_get:
  "dict_ok b \<Longrightarrow> dict_get (dict_merge a b) k = (case dict_get b k of None \<Rightarrow> dict_get a k | Some v \<Rightarrow> Some v)"
  unfolding dict_merge_def
proof (induction b arbitrary: a)
  case (Cons e b)
  obtain k' v where [simp]: "e = (k', v)" by force
  have "k' \<notin> fst ` set b" "dict_ok b" using Cons.prems by (simp_all add: dict_ok_def)
  then have "dict_get b k' = None" by (simp add: dict_get_def map_of_eq_None_iff)
  then show ?case using Cons.IH [OF \<open>dict_ok b\<close>] by (auto split: option.split)
qed simp

text \<open>The default of a rule the code asks for is always overridden by the table of defaults.\<close>

lemma rule_known:
  assumes "dict_ok (case rules of None \<Rightarrow> [] | Some r \<Rightarrow> r)"
  shows "dict_get_default (effective_rules rules) ''include_county_vassals'' d =
    rule_on rules ''include_county_vassals''"
  unfolding rule_on_def effective_rules_def dict_get_default_def dict_merge_get [OF assms]
  by (simp add: AUTO_TRACK_RULES_DEFAULT_def split: option.split)

lemma candidate_ids:
  assumes "sn_player_character_id snap = Some pid"
  shows "fst ` set (auto_track_candidates snap rules) = {pid}
    \<union> (case dict_get (sn_characters snap) pid of None \<Rightarrow> {} | Some player \<Rightarrow> family_of rules snap player)
    \<union> (if dict_get_default (effective_rules rules) ''include_county_vassals'' False
       then set (resolve_county_vassals snap pid) else {})"
  using assms by (auto simp: auto_track_candidates_def Let_def add_family_ids split: option.split)

lemma county_vassal_iff:
  "v \<in> set (resolve_county_vassals snap pid) \<longleftrightarrow>
     (\<exists>c\<in>snd ` set (sn_titles snap). tit_tier c = ''county'' \<and> tit_holder_id c = Some v \<and> v \<noteq> pid
        \<and> (\<exists>k<5. \<exists>t. nth_liege (sn_titles snap) k (tit_de_jure_liege_id c) = Some t
             \<and> t |\<in>| player_realm snap pid))"
  by (auto simp: resolve_county_vassals_def vassal_of_county_def liege_walk_iff set_map_filter
      fset_of_list.rep_eq VASSAL_CHAIN_MAX_DEPTH_def split: if_splits)

section \<open>The two readings of the rules\<close>

lemma fold_keep_flag:
  "fold keep_flag (map (\<lambda>(k, b). (k, JBool b)) fs) out = fold (\<lambda>(k, v) d. dict_set d k v) fs out"
  by (induction fs arbitrary: out) (auto simp: keep_flag_def)

lemma rules_agree:
  "effective_rules (tick_rules (Some (Some (JObj (map (\<lambda>(k, b). (k, JBool b)) fs))))) =
     resolve_auto_track_rules (Some (Some (JObj (map (\<lambda>(k, b). (k, JBool b)) fs))))"
  by (simp add: effective_rules_def tick_rules_def resolve_auto_track_rules_def dict_merge_def
      fold_keep_flag comp_def case_prod_beta)

end
