(* ===== verification/Registry.thy ===== *)
theory Registry
  imports Autotrack
begin

text \<open>
  The registry of campaigns, \<open>db/registry/campaigns.py\<close>, \<open>tracked.py\<close> and \<open>suppression.py\<close>: three
  tables of one SQLite file. A table is the list of its rows in the order of insertion; every
  statement that the modules execute is an operation here. The wall clock and \<open>uuid4\<close> are arguments.
  The lazy migration of old files is not modelled: every column exists.
\<close>

section \<open>The tables\<close>

record campaign =
  cp_id :: string
  cp_name :: string
  cp_ck3_playthrough_id :: "string option"
  cp_ck3_version :: "string option"
  cp_created_at :: string
  cp_last_event_at :: "string option"
  cp_archived :: bool
  cp_db_path :: string
  cp_founding_dynasty_name :: "string option"
  cp_tail_offset :: int
  cp_closing_chronicle :: "string option"
  cp_closing_chronicle_generated_at :: "string option"
  cp_closing_chronicle_input_tokens :: "int option"
  cp_closing_chronicle_output_tokens :: "int option"
  cp_closing_chronicle_provider :: "string option"
  cp_closing_chronicle_cache_read_tokens :: "int option"
  cp_closing_chronicle_cache_write_tokens :: "int option"
  cp_closing_chronicle_cost_usd :: "rat option"
  cp_bookmark_date :: "string option"
  cp_current_in_game_date :: "string option"
  cp_current_player_character_id :: "int option"
  cp_current_player_name :: "string option"
  cp_current_player_nickname :: "string option"
  cp_current_house_name :: "string option"
  cp_current_player_gold :: "rat option"
  cp_current_player_prestige_lifetime :: "rat option"
  cp_current_player_piety :: "rat option"
  cp_current_dynasty_renown :: "rat option"
  cp_auto_track_rules :: "json_text option"
  cp_last_save_filename :: "string option"
  cp_last_save_ingested_at :: "string option"
  cp_last_save_in_game_date :: "string option"
  cp_last_tick_event_count :: "int option"
  cp_last_tick_event_type_tally :: "(string, int) dict option"
  cp_last_event_in_game_date :: "string option"

record tracked_character =
  tk_campaign_id :: string
  tk_character_id :: int
  tk_note :: "string option"
  tk_added_at :: string
  tk_role :: "string option"
  tk_paused_at :: "string option"
  tk_bumped_at :: "string option"

record suppressed_kind =
  sk_campaign_id :: string
  sk_event_kind :: string
  sk_suppressed_at :: string

record registry =
  rg_campaigns :: "campaign list"
  rg_tracked :: "tracked_character list"
  rg_suppressed :: "suppressed_kind list"

definition empty_registry :: registry where
  "empty_registry = \<lparr>rg_campaigns = [], rg_tracked = [], rg_suppressed = []\<rparr>"

text \<open>\<open>UPDATE t SET \<dots> WHERE p\<close>, with the number of rows it changes.\<close>

definition sql_update :: "('r \<Rightarrow> bool) \<Rightarrow> ('r \<Rightarrow> 'r) \<Rightarrow> 'r list \<Rightarrow> 'r list" where
  "sql_update p f rows = map (\<lambda>r. if p r then f r else r) rows"

definition sql_rowcount :: "('r \<Rightarrow> bool) \<Rightarrow> 'r list \<Rightarrow> nat" where
  "sql_rowcount p rows = length (filter p rows)"

text \<open>\<open>ORDER BY key DESC\<close>: rows with equal keys stay in their order.\<close>

definition order_desc :: "('r \<Rightarrow> 'k::linorder) \<Rightarrow> 'r list \<Rightarrow> 'r list" where
  "order_desc key rows = rev (sort_key key (rev rows))"

definition fetchone :: "'r list \<Rightarrow> 'r option" where
  "fetchone rows = (case rows of [] \<Rightarrow> None | r # _ \<Rightarrow> Some r)"

section \<open>Campaigns\<close>

definition new_campaign ::
  "string \<Rightarrow> string \<Rightarrow> string option \<Rightarrow> string \<Rightarrow> string \<Rightarrow> string option \<Rightarrow> string option \<Rightarrow> campaign" where
  "new_campaign cid name ck3_version created_at db_path dynasty playthrough =
    \<lparr>cp_id = cid, cp_name = name, cp_ck3_playthrough_id = playthrough, cp_ck3_version = ck3_version,
     cp_created_at = created_at, cp_last_event_at = None, cp_archived = False, cp_db_path = db_path,
     cp_founding_dynasty_name = dynasty, cp_tail_offset = 0, cp_closing_chronicle = None,
     cp_closing_chronicle_generated_at = None, cp_closing_chronicle_input_tokens = None,
     cp_closing_chronicle_output_tokens = None, cp_closing_chronicle_provider = None,
     cp_closing_chronicle_cache_read_tokens = None, cp_closing_chronicle_cache_write_tokens = None,
     cp_closing_chronicle_cost_usd = None, cp_bookmark_date = None, cp_current_in_game_date = None,
     cp_current_player_character_id = None, cp_current_player_name = None,
     cp_current_player_nickname = None, cp_current_house_name = None, cp_current_player_gold = None,
     cp_current_player_prestige_lifetime = None, cp_current_player_piety = None,
     cp_current_dynasty_renown = None, cp_auto_track_rules = None, cp_last_save_filename = None,
     cp_last_save_ingested_at = None, cp_last_save_in_game_date = None,
     cp_last_tick_event_count = None, cp_last_tick_event_type_tally = None,
     cp_last_event_in_game_date = None\<rparr>"

definition campaign_db_path :: "string \<Rightarrow> string \<Rightarrow> string" where
  "campaign_db_path data_dir cid = data_dir @ ''/campaigns/'' @ cid @ ''.db''"

text \<open>\<open>id\<close> is the primary key: a second row with it is an \<open>IntegrityError\<close>, here \<^const>\<open>None\<close>.\<close>

definition create_campaign ::
  "string \<Rightarrow> string \<Rightarrow> string \<Rightarrow> string \<Rightarrow> string option \<Rightarrow> string option \<Rightarrow> string option
   \<Rightarrow> string option \<Rightarrow> registry \<Rightarrow> (campaign \<times> registry) option" where
  "create_campaign data_dir uuid now name db_path ck3_version dynasty playthrough rg =
     (if uuid \<in> cp_id ` set (rg_campaigns rg) then None
      else let path = (case db_path of Some p \<Rightarrow> if p = [] then campaign_db_path data_dir uuid else p
                       | None \<Rightarrow> campaign_db_path data_dir uuid);
               c = new_campaign uuid name ck3_version now path dynasty playthrough
           in Some (c, rg\<lparr>rg_campaigns := rg_campaigns rg @ [c]\<rparr>))"

definition get_campaign_by_id :: "string \<Rightarrow> registry \<Rightarrow> campaign option" where
  "get_campaign_by_id cid rg = fetchone (filter (\<lambda>c. cp_id c = cid) (rg_campaigns rg))"

definition get_campaign_by_name :: "string \<Rightarrow> bool \<Rightarrow> registry \<Rightarrow> campaign option" where
  "get_campaign_by_name name include_archived rg =
     fetchone (filter (\<lambda>c. cp_name c = name \<and> (include_archived \<or> \<not> cp_archived c)) (rg_campaigns rg))"

text \<open>\<open>ORDER BY created_at DESC\<close>.\<close>

definition list_campaigns :: "bool \<Rightarrow> registry \<Rightarrow> campaign list" where
  "list_campaigns include_archived rg =
     order_desc cp_created_at (filter (\<lambda>c. include_archived \<or> \<not> cp_archived c) (rg_campaigns rg))"

definition update_campaign :: "string \<Rightarrow> (campaign \<Rightarrow> campaign) \<Rightarrow> registry \<Rightarrow> registry" where
  "update_campaign cid f rg = rg\<lparr>rg_campaigns := sql_update (\<lambda>c. cp_id c = cid) f (rg_campaigns rg)\<rparr>"

definition set_tail_offset :: "string \<Rightarrow> int \<Rightarrow> registry \<Rightarrow> registry" where
  "set_tail_offset cid offset = update_campaign cid (cp_tail_offset_update (\<lambda>_. offset))"

definition get_tail_offset :: "string \<Rightarrow> registry \<Rightarrow> int" where
  "get_tail_offset cid rg = (case get_campaign_by_id cid rg of None \<Rightarrow> 0 | Some c \<Rightarrow> cp_tail_offset c)"

definition touch_last_event_at :: "string \<Rightarrow> string \<Rightarrow> string option \<Rightarrow> registry \<Rightarrow> registry" where
  "touch_last_event_at cid ts in_game_date = update_campaign cid (\<lambda>c. case in_game_date of
       None \<Rightarrow> c\<lparr>cp_last_event_at := Some ts\<rparr>
     | Some d \<Rightarrow> c\<lparr>cp_last_event_at := Some ts, cp_last_event_in_game_date := Some d\<rparr>)"

text \<open>
  \<open>update_campaign_overview\<close>: a keyword that is not passed (\<^const>\<open>None\<close>) leaves its column, one that
  is passed writes it, \<open>NULL\<close> included.
\<close>

record overview_fields =
  ov_ck3_playthrough_id :: "string option option"
  ov_bookmark_date :: "string option option"
  ov_current_in_game_date :: "string option option"
  ov_current_player_character_id :: "int option option"
  ov_current_player_name :: "string option option"
  ov_current_player_nickname :: "string option option"
  ov_current_house_name :: "string option option"
  ov_current_player_gold :: "rat option option"
  ov_current_player_prestige_lifetime :: "rat option option"
  ov_current_player_piety :: "rat option option"
  ov_current_dynasty_renown :: "rat option option"

definition if_set :: "'a option \<Rightarrow> 'a \<Rightarrow> 'a" where
  "if_set new old = (case new of None \<Rightarrow> old | Some v \<Rightarrow> v)"

definition update_campaign_overview :: "string \<Rightarrow> overview_fields \<Rightarrow> registry \<Rightarrow> registry" where
  "update_campaign_overview cid f = update_campaign cid (\<lambda>c. c
     \<lparr>cp_ck3_playthrough_id := if_set (ov_ck3_playthrough_id f) (cp_ck3_playthrough_id c),
      cp_bookmark_date := if_set (ov_bookmark_date f) (cp_bookmark_date c),
      cp_current_in_game_date := if_set (ov_current_in_game_date f) (cp_current_in_game_date c),
      cp_current_player_character_id :=
        if_set (ov_current_player_character_id f) (cp_current_player_character_id c),
      cp_current_player_name := if_set (ov_current_player_name f) (cp_current_player_name c),
      cp_current_player_nickname := if_set (ov_current_player_nickname f) (cp_current_player_nickname c),
      cp_current_house_name := if_set (ov_current_house_name f) (cp_current_house_name c),
      cp_current_player_gold := if_set (ov_current_player_gold f) (cp_current_player_gold c),
      cp_current_player_prestige_lifetime :=
        if_set (ov_current_player_prestige_lifetime f) (cp_current_player_prestige_lifetime c),
      cp_current_player_piety := if_set (ov_current_player_piety f) (cp_current_player_piety c),
      cp_current_dynasty_renown := if_set (ov_current_dynasty_renown f) (cp_current_dynasty_renown c)\<rparr>)"

definition set_auto_track_rules :: "string \<Rightarrow> json_text option \<Rightarrow> registry \<Rightarrow> registry" where
  "set_auto_track_rules cid rules = update_campaign cid (cp_auto_track_rules_update (\<lambda>_. rules))"

definition set_campaign_last_tick ::
  "string \<Rightarrow> string \<Rightarrow> string \<Rightarrow> string option \<Rightarrow> int \<Rightarrow> (string, int) dict \<Rightarrow> registry \<Rightarrow> registry" where
  "set_campaign_last_tick cid save_filename ingested_at in_game_date event_count tally =
     update_campaign cid (\<lambda>c. c
       \<lparr>cp_last_save_filename := Some save_filename, cp_last_save_ingested_at := Some ingested_at,
        cp_last_save_in_game_date := in_game_date, cp_last_tick_event_count := Some event_count,
        cp_last_tick_event_type_tally := Some (sort_key fst tally)\<rparr>)"

definition rename_campaign :: "string \<Rightarrow> string \<Rightarrow> registry \<Rightarrow> registry" where
  "rename_campaign cid new_name = update_campaign cid (cp_name_update (\<lambda>_. new_name))"

definition archive_campaign :: "string \<Rightarrow> registry \<Rightarrow> registry" where
  "archive_campaign cid = update_campaign cid (cp_archived_update (\<lambda>_. True))"

definition unarchive_campaign :: "string \<Rightarrow> registry \<Rightarrow> registry" where
  "unarchive_campaign cid = update_campaign cid (cp_archived_update (\<lambda>_. False))"

definition delete_campaign :: "string \<Rightarrow> registry \<Rightarrow> bool \<times> registry" where
  "delete_campaign cid rg =
     (sql_rowcount (\<lambda>c. cp_id c = cid) (rg_campaigns rg) > 0,
      \<lparr>rg_campaigns = filter (\<lambda>c. cp_id c \<noteq> cid) (rg_campaigns rg),
       rg_tracked = filter (\<lambda>t. tk_campaign_id t \<noteq> cid) (rg_tracked rg),
       rg_suppressed = filter (\<lambda>k. sk_campaign_id k \<noteq> cid) (rg_suppressed rg)\<rparr>)"

definition set_campaign_closing_chronicle ::
  "string \<Rightarrow> string \<Rightarrow> string \<Rightarrow> int option \<Rightarrow> int option \<Rightarrow> string option \<Rightarrow> int option \<Rightarrow> int option
   \<Rightarrow> rat option \<Rightarrow> registry \<Rightarrow> registry" where
  "set_campaign_closing_chronicle cid body generated_at input output provider cache_read cache_write cost =
     update_campaign cid (\<lambda>c. c
       \<lparr>cp_closing_chronicle := Some body, cp_closing_chronicle_generated_at := Some generated_at,
        cp_closing_chronicle_input_tokens := input, cp_closing_chronicle_output_tokens := output,
        cp_closing_chronicle_provider := provider, cp_closing_chronicle_cache_read_tokens := cache_read,
        cp_closing_chronicle_cache_write_tokens := cache_write, cp_closing_chronicle_cost_usd := cost\<rparr>)"

section \<open>From a save to its campaign\<close>

text \<open>\<open>strip\<close> over ASCII blanks, and the automatic name.\<close>

definition clean :: "string option \<Rightarrow> string" where
  "clean s = (case s of None \<Rightarrow> [] | Some t \<Rightarrow> trim t)"

definition auto_name_for_save :: "string option \<Rightarrow> string option \<Rightarrow> string option \<Rightarrow> string" where
  "auto_name_for_save player_first_name dynasty_name bookmark_date =
     (let name_part = (if clean dynasty_name \<noteq> [] then clean dynasty_name
            else if clean player_first_name \<noteq> [] then clean player_first_name else ''Unknown player'');
          date = map (\<lambda>ch. if ch = CHR ''.'' then CHR ''-'' else ch) (clean bookmark_date)
      in name_part @ '' '' @ (if date = [] then ''unknown date'' else date))"

text \<open>The object \<open>resolve_campaign_for_save\<close> reads.\<close>

record resolve_snap =
  sp_playthrough_id :: string
  sp_bookmark_date :: "string option"
  sp_founding_player_first_name :: "string option"
  sp_founding_dynasty_name :: "string option"

definition create_from_snap ::
  "string \<Rightarrow> string \<Rightarrow> string \<Rightarrow> resolve_snap \<Rightarrow> string option \<Rightarrow> registry \<Rightarrow> (campaign \<times> registry) option" where
  "create_from_snap data_dir uuid now snap ck3_version =
     create_campaign data_dir uuid now
       (auto_name_for_save (sp_founding_player_first_name snap) (sp_founding_dynasty_name snap)
          (sp_bookmark_date snap))
       None ck3_version (sp_founding_dynasty_name snap)
       (if sp_playthrough_id snap = [] then None else Some (sp_playthrough_id snap))"

text \<open>\<open>ORDER BY COALESCE(last_event_at, '') DESC, created_at DESC\<close>.\<close>

definition recency :: "campaign \<Rightarrow> string \<times> string" where
  "recency c = ((case cp_last_event_at c of None \<Rightarrow> [] | Some t \<Rightarrow> t), cp_created_at c)"

definition matches :: "string \<Rightarrow> bool \<Rightarrow> registry \<Rightarrow> campaign list" where
  "matches playthrough archived rg = order_desc recency
     (filter (\<lambda>c. cp_ck3_playthrough_id c = Some playthrough \<and> cp_archived c = archived) (rg_campaigns rg))"

definition find_active_campaign_for_playthrough :: "string option \<Rightarrow> registry \<Rightarrow> campaign option" where
  "find_active_campaign_for_playthrough playthrough rg =
     (case playthrough of None \<Rightarrow> None | Some p \<Rightarrow> if p = [] then None else fetchone (matches p False rg))"

definition find_archived_match_for_playthrough :: "string option \<Rightarrow> registry \<Rightarrow> campaign option" where
  "find_archived_match_for_playthrough playthrough rg =
     (case playthrough of None \<Rightarrow> None | Some p \<Rightarrow> if p = [] then None else fetchone (matches p True rg))"

datatype resolve_error = ArchivedCampaignConflict campaign | DuplicateUuid

definition created :: "(campaign \<times> registry) option \<Rightarrow> resolve_error + (campaign \<times> registry)" where
  "created r = (case r of None \<Rightarrow> Inl DuplicateUuid | Some cr \<Rightarrow> Inr cr)"

definition resolve_campaign_for_save ::
  "string \<Rightarrow> string \<Rightarrow> string \<Rightarrow> resolve_snap \<Rightarrow> string option \<Rightarrow> registry
   \<Rightarrow> resolve_error + (campaign \<times> registry)" where
  "resolve_campaign_for_save data_dir uuid now snap ck3_version rg =
     (if sp_playthrough_id snap = [] then created (create_from_snap data_dir uuid now snap ck3_version rg)
      else case matches (sp_playthrough_id snap) False rg of
        c # _ \<Rightarrow> Inr (c, rg)
      | [] \<Rightarrow>
          (case find_archived_match_for_playthrough (Some (sp_playthrough_id snap)) rg of
             Some c \<Rightarrow> Inl (ArchivedCampaignConflict c)
           | None \<Rightarrow> created (create_from_snap data_dir uuid now snap ck3_version rg)))"

section \<open>Tracked characters\<close>

definition tracked_row :: "string \<Rightarrow> int \<Rightarrow> tracked_character \<Rightarrow> bool" where
  "tracked_row cid character_id t \<longleftrightarrow> tk_campaign_id t = cid \<and> tk_character_id t = character_id"

definition coalesce :: "'a option \<Rightarrow> 'a option \<Rightarrow> 'a option" where
  "coalesce a b = (case a of None \<Rightarrow> b | Some v \<Rightarrow> Some v)"

text \<open>\<open>INSERT \<dots> ON CONFLICT \<dots> DO UPDATE SET note = COALESCE(\<dots>), role = COALESCE(\<dots>)\<close>.\<close>

definition add_tracked_character ::
  "string \<Rightarrow> string \<Rightarrow> int \<Rightarrow> string option \<Rightarrow> string option \<Rightarrow> registry \<Rightarrow> registry" where
  "add_tracked_character now cid character_id note role rg = rg\<lparr>rg_tracked :=
     (if sql_rowcount (tracked_row cid character_id) (rg_tracked rg) > 0
      then sql_update (tracked_row cid character_id)
        (\<lambda>t. t\<lparr>tk_note := coalesce note (tk_note t), tk_role := coalesce role (tk_role t)\<rparr>) (rg_tracked rg)
      else rg_tracked rg @ [\<lparr>tk_campaign_id = cid, tk_character_id = character_id, tk_note = note,
        tk_added_at = now, tk_role = role, tk_paused_at = None, tk_bumped_at = None\<rparr>])\<rparr>"

definition update_tracked ::
  "string \<Rightarrow> int \<Rightarrow> (tracked_character \<Rightarrow> tracked_character) \<Rightarrow> registry \<Rightarrow> bool \<times> registry" where
  "update_tracked cid character_id f rg =
     (sql_rowcount (tracked_row cid character_id) (rg_tracked rg) > 0,
      rg\<lparr>rg_tracked := sql_update (tracked_row cid character_id) f (rg_tracked rg)\<rparr>)"

text \<open>The keywords of \<open>update_tracked_character\<close>: a name and a value, \<^const>\<open>None\<close> for \<open>NULL\<close>.\<close>

definition TRACKED_UPDATABLE_FIELDS :: "string list" where
  "TRACKED_UPDATABLE_FIELDS = [''note'', ''role'']"

definition set_tracked_field :: "string \<times> string option \<Rightarrow> tracked_character \<Rightarrow> tracked_character" where
  "set_tracked_field = (\<lambda>(k, v) t.
     if k = ''note'' then t\<lparr>tk_note := v\<rparr> else if k = ''role'' then t\<lparr>tk_role := v\<rparr> else t)"

definition update_tracked_character ::
  "string \<Rightarrow> int \<Rightarrow> (string, string option) dict \<Rightarrow> registry \<Rightarrow> (bool \<times> registry) result" where
  "update_tracked_character cid character_id kwargs rg =
     (if \<not> list_all (\<lambda>(k, _). k \<in> set TRACKED_UPDATABLE_FIELDS) kwargs then Inl ValueError
      else if kwargs = [] then Inr (False, rg)
      else Inr (update_tracked cid character_id (fold set_tracked_field kwargs) rg))"

definition remove_tracked_character :: "string \<Rightarrow> int \<Rightarrow> registry \<Rightarrow> bool \<times> registry" where
  "remove_tracked_character cid character_id rg =
     (sql_rowcount (tracked_row cid character_id) (rg_tracked rg) > 0,
      rg\<lparr>rg_tracked := filter (\<lambda>t. \<not> tracked_row cid character_id t) (rg_tracked rg)\<rparr>)"

definition get_tracked_character :: "string \<Rightarrow> int \<Rightarrow> registry \<Rightarrow> tracked_character option" where
  "get_tracked_character cid character_id rg =
     fetchone (filter (tracked_row cid character_id) (rg_tracked rg))"

definition is_character_tracked :: "string \<Rightarrow> int \<Rightarrow> registry \<Rightarrow> bool" where
  "is_character_tracked cid character_id rg \<longleftrightarrow> get_tracked_character cid character_id rg \<noteq> None"

definition list_tracked_characters :: "string \<Rightarrow> registry \<Rightarrow> tracked_character list" where
  "list_tracked_characters cid rg =
     sort_key tk_added_at (filter (\<lambda>t. tk_campaign_id t = cid) (rg_tracked rg))"

definition pause_tracked_character :: "string \<Rightarrow> string \<Rightarrow> int \<Rightarrow> registry \<Rightarrow> bool \<times> registry" where
  "pause_tracked_character now cid character_id =
     update_tracked cid character_id (tk_paused_at_update (\<lambda>_. Some now))"

definition resume_tracked_character :: "string \<Rightarrow> int \<Rightarrow> registry \<Rightarrow> bool \<times> registry" where
  "resume_tracked_character cid character_id =
     update_tracked cid character_id (tk_paused_at_update (\<lambda>_. None))"

definition bump_tracked_character :: "string \<Rightarrow> string \<Rightarrow> int \<Rightarrow> registry \<Rightarrow> bool \<times> registry" where
  "bump_tracked_character now cid character_id =
     update_tracked cid character_id (tk_bumped_at_update (\<lambda>_. Some now))"

definition get_tracked_character_ids :: "string \<Rightarrow> registry \<Rightarrow> int fset" where
  "get_tracked_character_ids cid rg =
     fset_of_list (map tk_character_id (filter (\<lambda>t. tk_campaign_id t = cid) (rg_tracked rg)))"

definition get_tracked_status :: "string \<Rightarrow> int \<Rightarrow> registry \<Rightarrow> bool \<times> string option" where
  "get_tracked_status cid character_id rg =
     (case get_tracked_character cid character_id rg of
        None \<Rightarrow> (False, None)
      | Some t \<Rightarrow> (tk_paused_at t \<noteq> None, tk_bumped_at t))"

section \<open>Suppressed kinds of events\<close>

definition suppressed_row :: "string \<Rightarrow> string \<Rightarrow> suppressed_kind \<Rightarrow> bool" where
  "suppressed_row cid kind k \<longleftrightarrow> sk_campaign_id k = cid \<and> sk_event_kind k = kind"

definition add_suppressed_kind :: "string \<Rightarrow> string \<Rightarrow> string \<Rightarrow> registry \<Rightarrow> registry" where
  "add_suppressed_kind now cid kind rg =
     (if sql_rowcount (suppressed_row cid kind) (rg_suppressed rg) > 0 then rg
      else rg\<lparr>rg_suppressed := rg_suppressed rg
        @ [\<lparr>sk_campaign_id = cid, sk_event_kind = kind, sk_suppressed_at = now\<rparr>]\<rparr>)"

definition remove_suppressed_kind :: "string \<Rightarrow> string \<Rightarrow> registry \<Rightarrow> bool \<times> registry" where
  "remove_suppressed_kind cid kind rg =
     (sql_rowcount (suppressed_row cid kind) (rg_suppressed rg) > 0,
      rg\<lparr>rg_suppressed := filter (\<lambda>k. \<not> suppressed_row cid kind k) (rg_suppressed rg)\<rparr>)"

definition is_kind_suppressed :: "string \<Rightarrow> string option \<Rightarrow> registry \<Rightarrow> bool" where
  "is_kind_suppressed cid kind rg =
     (case kind of None \<Rightarrow> False
      | Some k \<Rightarrow> sql_rowcount (suppressed_row cid k) (rg_suppressed rg) > 0)"

definition list_suppressed_kinds :: "string \<Rightarrow> registry \<Rightarrow> suppressed_kind list" where
  "list_suppressed_kinds cid rg =
     sort_key sk_suppressed_at (filter (\<lambda>k. sk_campaign_id k = cid) (rg_suppressed rg))"

text \<open>
  What the registry keeps: its keys stay unique under every operation, a playthrough never gets
  two campaigns by way of \<open>resolve_campaign_for_save\<close>, and what each operation leaves alone.
\<close>

section \<open>Keys\<close>

definition tracked_key :: "tracked_character \<Rightarrow> string \<times> int" where
  "tracked_key t = (tk_campaign_id t, tk_character_id t)"

definition suppressed_key :: "suppressed_kind \<Rightarrow> string \<times> string" where
  "suppressed_key k = (sk_campaign_id k, sk_event_kind k)"

definition registry_ok :: "registry \<Rightarrow> bool" where
  "registry_ok rg \<longleftrightarrow> distinct (map cp_id (rg_campaigns rg))
     \<and> distinct (map tracked_key (rg_tracked rg)) \<and> distinct (map suppressed_key (rg_suppressed rg))"

lemma empty_registry_ok: "registry_ok empty_registry"
  by (simp add: registry_ok_def empty_registry_def)

lemma map_sql_update [simp]: "(\<And>r. p r \<Longrightarrow> g (f r) = g r) \<Longrightarrow> map g (sql_update p f rows) = map g rows"
  by (simp add: sql_update_def)

lemma sql_rowcount_pos: "sql_rowcount p rows > 0 \<longleftrightarrow> (\<exists>r\<in>set rows. p r)"
  by (auto simp: sql_rowcount_def filter_empty_conv)

lemma tracked_row_key: "tracked_row cid ch t \<longleftrightarrow> tracked_key t = (cid, ch)"
  by (simp add: tracked_row_def tracked_key_def)

lemma suppressed_row_key: "suppressed_row cid kind k \<longleftrightarrow> suppressed_key k = (cid, kind)"
  by (simp add: suppressed_row_def suppressed_key_def)

lemma registry_ok_campaign_update:
  "registry_ok rg \<Longrightarrow> (\<And>c. cp_id (f c) = cp_id c) \<Longrightarrow> registry_ok (update_campaign cid f rg)"
  by (simp add: registry_ok_def update_campaign_def)

lemma registry_ok_tracked_update:
  "registry_ok rg \<Longrightarrow> (\<And>t. tracked_key (f t) = tracked_key t) \<Longrightarrow>
     registry_ok (snd (update_tracked cid ch f rg))"
  by (simp add: registry_ok_def update_tracked_def)

lemma add_tracked_ok: "registry_ok rg \<Longrightarrow> registry_ok (add_tracked_character now cid ch note role rg)"
proof (cases "\<exists>t\<in>set (rg_tracked rg). tracked_row cid ch t")
  case True
  moreover have "tracked_key (t\<lparr>tk_note := n, tk_role := r\<rparr>) = tracked_key t" for t n r
    by (simp add: tracked_key_def)
  moreover assume "registry_ok rg"
  ultimately show ?thesis
    by (simp add: add_tracked_character_def sql_rowcount_pos registry_ok_def)
next
  case False
  moreover assume "registry_ok rg"
  ultimately show ?thesis
    by (auto simp: add_tracked_character_def sql_rowcount_pos registry_ok_def tracked_row_key)
      (auto simp: tracked_key_def)
qed

lemma registry_ok_filter:
  "registry_ok rg \<Longrightarrow> registry_ok \<lparr>rg_campaigns = filter P (rg_campaigns rg),
     rg_tracked = filter Q (rg_tracked rg), rg_suppressed = filter R (rg_suppressed rg)\<rparr>"
  by (simp add: registry_ok_def distinct_map_filter)

lemma create_campaign_ok:
  "registry_ok rg \<Longrightarrow> create_campaign dd uuid now name p v d pt rg = Some (c, rg') \<Longrightarrow> registry_ok rg'"
  by (auto simp: create_campaign_def registry_ok_def new_campaign_def Let_def split: if_splits)

section \<open>One campaign for a playthrough\<close>

lemma matches_set:
  "set (matches p a rg) =
     {c \<in> set (rg_campaigns rg). cp_ck3_playthrough_id c = Some p \<and> cp_archived c = a}"
  by (auto simp: matches_def order_desc_def)

definition one_per_playthrough :: "registry \<Rightarrow> bool" where
  "one_per_playthrough rg \<longleftrightarrow> (\<forall>c\<in>set (rg_campaigns rg). \<forall>c'\<in>set (rg_campaigns rg).
     cp_ck3_playthrough_id c \<noteq> None \<longrightarrow> cp_ck3_playthrough_id c = cp_ck3_playthrough_id c' \<longrightarrow> c = c')"

lemma created_campaign:
  "create_campaign dd uuid now name None v d pt rg = Some (c, rg') \<Longrightarrow>
     cp_ck3_playthrough_id c = pt \<and> \<not> cp_archived c \<and> rg' = rg\<lparr>rg_campaigns := rg_campaigns rg @ [c]\<rparr>"
  by (auto simp: create_campaign_def new_campaign_def Let_def split: if_splits)

text \<open>What a resolved save gets, and why nothing is forked.\<close>

lemma resolve_spec:
  assumes "resolve_campaign_for_save dd uuid now snap v rg = Inr (c, rg')"
    and "sp_playthrough_id snap \<noteq> []"
  shows "cp_ck3_playthrough_id c = Some (sp_playthrough_id snap) \<and> \<not> cp_archived c
    \<and> c \<in> set (rg_campaigns rg')
    \<and> (rg' = rg \<or> rg' = rg\<lparr>rg_campaigns := rg_campaigns rg @ [c]\<rparr>
         \<and> (\<forall>c'\<in>set (rg_campaigns rg). cp_ck3_playthrough_id c' \<noteq> Some (sp_playthrough_id snap)))"
proof (cases "matches (sp_playthrough_id snap) False rg")
  case (Cons m ms)
  then have "c = m" "rg' = rg" using assms by (simp_all add: resolve_campaign_for_save_def)
  then show ?thesis using matches_set [of "sp_playthrough_id snap" False rg] Cons by auto
next
  case Nil
  have none: "matches (sp_playthrough_id snap) True rg = []"
    using assms Nil by (auto simp: resolve_campaign_for_save_def find_archived_match_for_playthrough_def
        fetchone_def split: list.splits)
  then have "created (create_from_snap dd uuid now snap v rg) = Inr (c, rg')"
    using assms Nil by (simp add: resolve_campaign_for_save_def find_archived_match_for_playthrough_def fetchone_def)
  then have "create_from_snap dd uuid now snap v rg = Some (c, rg')"
    by (simp add: created_def split: option.splits)
  from created_campaign [OF this [unfolded create_from_snap_def]] assms(2)
  have "cp_ck3_playthrough_id c = Some (sp_playthrough_id snap)" "\<not> cp_archived c"
    "rg' = rg\<lparr>rg_campaigns := rg_campaigns rg @ [c]\<rparr>" by simp_all
  moreover have "\<forall>c'\<in>set (rg_campaigns rg). cp_ck3_playthrough_id c' \<noteq> Some (sp_playthrough_id snap)"
    using none Nil matches_set [of "sp_playthrough_id snap" True rg] matches_set [of "sp_playthrough_id snap" False rg]
    by auto
  ultimately show ?thesis by simp
qed

lemma resolve_blank:
  assumes "resolve_campaign_for_save dd uuid now snap v rg = Inr (c, rg')"
    and "sp_playthrough_id snap = []"
  shows "cp_ck3_playthrough_id c = None \<and> rg' = rg\<lparr>rg_campaigns := rg_campaigns rg @ [c]\<rparr>"
  using assms created_campaign [of dd uuid now _ v _ None rg c rg']
  by (auto simp: resolve_campaign_for_save_def created_def create_from_snap_def split: option.splits)

lemma one_per_playthrough_snoc:
  assumes one: "one_per_playthrough rg" and new: "cp_ck3_playthrough_id c = None
     \<or> (\<forall>c'\<in>set (rg_campaigns rg). cp_ck3_playthrough_id c' \<noteq> cp_ck3_playthrough_id c)"
  shows "one_per_playthrough (rg\<lparr>rg_campaigns := rg_campaigns rg @ [c]\<rparr>)"
  unfolding one_per_playthrough_def
proof (intro ballI impI)
  fix a b assume "a \<in> set (rg_campaigns (rg\<lparr>rg_campaigns := rg_campaigns rg @ [c]\<rparr>))"
    "b \<in> set (rg_campaigns (rg\<lparr>rg_campaigns := rg_campaigns rg @ [c]\<rparr>))"
    and same: "cp_ck3_playthrough_id a \<noteq> None" "cp_ck3_playthrough_id a = cp_ck3_playthrough_id b"
  then have "a = c \<or> a \<in> set (rg_campaigns rg)" "b = c \<or> b \<in> set (rg_campaigns rg)" by auto
  then show "a = b" using one new same unfolding one_per_playthrough_def by metis
qed

lemma resolve_one:
  assumes "one_per_playthrough rg" and "resolve_campaign_for_save dd uuid now snap v rg = Inr (c, rg')"
  shows "one_per_playthrough rg'"
proof (cases "sp_playthrough_id snap = []")
  case True
  then show ?thesis using resolve_blank [OF assms(2)] one_per_playthrough_snoc [OF assms(1)] by simp
next
  case False
  from resolve_spec [OF assms(2) False] consider "rg' = rg"
    | "rg' = rg\<lparr>rg_campaigns := rg_campaigns rg @ [c]\<rparr>"
      "\<forall>c'\<in>set (rg_campaigns rg). cp_ck3_playthrough_id c' \<noteq> cp_ck3_playthrough_id c"
    by force
  then show ?thesis using one_per_playthrough_snoc [OF assms(1), of c] assms(1) by cases simp_all
qed

lemma update_campaign_one:
  assumes "one_per_playthrough rg" and "\<And>c. cp_ck3_playthrough_id (f c) = cp_ck3_playthrough_id c"
  shows "one_per_playthrough (update_campaign cid f rg)"
  unfolding one_per_playthrough_def
proof (intro ballI impI)
  fix a b assume "a \<in> set (rg_campaigns (update_campaign cid f rg))" "b \<in> set (rg_campaigns (update_campaign cid f rg))"
    and same: "cp_ck3_playthrough_id a \<noteq> None" "cp_ck3_playthrough_id a = cp_ck3_playthrough_id b"
  then obtain c d where cd: "c \<in> set (rg_campaigns rg)" "d \<in> set (rg_campaigns rg)"
    "a = (if cp_id c = cid then f c else c)" "b = (if cp_id d = cid then f d else d)"
    by (auto simp: update_campaign_def sql_update_def)
  then have "cp_ck3_playthrough_id c \<noteq> None" "cp_ck3_playthrough_id c = cp_ck3_playthrough_id d"
    using same assms(2) by (auto split: if_splits)
  then show "a = b" using assms(1) cd unfolding one_per_playthrough_def by blast
qed

lemma delete_campaign_one: "one_per_playthrough rg \<Longrightarrow> one_per_playthrough (snd (delete_campaign cid rg))"
  unfolding one_per_playthrough_def delete_campaign_def by simp blast

section \<open>What tracking leaves alone\<close>

lemma tracked_ids_iff: "ch |\<in>| get_tracked_character_ids cid rg \<longleftrightarrow> (cid, ch) \<in> tracked_key ` set (rg_tracked rg)"
  by (auto simp: get_tracked_character_ids_def fset_of_list_elem tracked_key_def image_iff)

lemma add_tracked_keys:
  "tracked_key ` set (rg_tracked (add_tracked_character now cid ch note role rg)) =
     insert (cid, ch) (tracked_key ` set (rg_tracked rg))"
proof (cases "\<exists>t\<in>set (rg_tracked rg). tracked_row cid ch t")
  case True
  have "map tracked_key (sql_update (tracked_row cid ch)
      (\<lambda>t. t\<lparr>tk_note := coalesce note (tk_note t), tk_role := coalesce role (tk_role t)\<rparr>) (rg_tracked rg)) =
    map tracked_key (rg_tracked rg)"
    by (rule map_sql_update) (simp add: tracked_key_def)
  from arg_cong [OF this, of set] True show ?thesis
    by (force simp: add_tracked_character_def sql_rowcount_pos tracked_row_key)
next
  case False
  then have "sql_rowcount (tracked_row cid ch) (rg_tracked rg) = 0" using sql_rowcount_pos by blast
  then show ?thesis by (simp add: add_tracked_character_def tracked_key_def)
qed

lemma tracked_ids_add:
  "get_tracked_character_ids cid (add_tracked_character now cid' ch note role rg) =
     (if cid = cid' then finsert ch (get_tracked_character_ids cid rg) else get_tracked_character_ids cid rg)"
  by (rule fset_eqI) (auto simp: tracked_ids_iff add_tracked_keys)

lemma delete_campaign_orphans:
  "get_tracked_character_ids cid (snd (delete_campaign cid rg)) = {||}
   \<and> get_campaign_by_id cid (snd (delete_campaign cid rg)) = None
   \<and> list_suppressed_kinds cid (snd (delete_campaign cid rg)) = []"
  by (simp add: get_tracked_character_ids_def delete_campaign_def get_campaign_by_id_def fetchone_def
      list_suppressed_kinds_def)

end
