(* ===== verification/Campaign_Db.thy ===== *)
theory Campaign_Db
  imports Registry Events
begin

text \<open>
  The database of a campaign, \<open>db/models.py\<close> and \<open>db/repository.py\<close>: one list of rows for each
  table, and the operations with the constraints of the schema: primary keys, the UNIQUE on events,
  foreign keys (they are on). A column of JSON text holds the value the text encodes; the payload
  column of an event holds the event, which its canonical text determines (\<open>exclude_none\<close> drops
  exactly the missing fields of a known class, and the keys are sorted).
\<close>

section \<open>Tables\<close>

datatype cell = Null | Text string | Flag bool | Num int | Json json

text \<open>A row of \<open>characters\<close> is a dictionary of its columns; a column not in it is \<open>NULL\<close>.\<close>

type_synonym char_row = "(string, cell) dict"

definition column :: "char_row \<Rightarrow> string \<Rightarrow> cell" where
  "column row c = dict_get_default row c Null"

record coa_row =
  ca_id :: int
  ca_character_id :: int
  ca_observed_at :: string
  ca_coa_json :: cell

record event_row =
  er_id :: int
  er_schema_version :: int
  er_event_type :: string
  er_event_date :: string
  er_event_date_iso :: "string option"
  er_wall_clock_at :: string
  er_primary_character_id :: int
  er_payload :: event
  er_raw_line :: string

record participant_row =
  pr_event_id :: int
  pr_character_id :: int
  pr_role :: string

record biography_row =
  br_id :: int
  br_character_id :: int
  br_version :: int
  br_body :: string
  br_prompt_template_version :: string
  br_provider :: string
  br_model :: "string option"
  br_events_through_event_id :: "int option"
  br_generated_at :: string
  br_prompt_tokens :: "int option"
  br_completion_tokens :: "int option"
  br_cache_read_tokens :: "int option"
  br_cache_write_tokens :: "int option"
  br_cost_usd :: "rat option"

record quarantine_row =
  qr_id :: int
  qr_raw_line :: string
  qr_error :: string
  qr_ts :: string
  qr_event_kind :: "string option"

record campaign_db =
  db_characters :: "(int, char_row) dict"
  db_coa_history :: "coa_row list"
  db_events :: "event_row list"
  db_participants :: "participant_row list"
  db_biographies :: "biography_row list"
  db_quarantine :: "quarantine_row list"
  db_meta :: "(string, string) dict"

definition empty_db :: campaign_db where
  "empty_db = \<lparr>db_characters = [], db_coa_history = [], db_events = [], db_participants = [],
     db_biographies = [], db_quarantine = [], db_meta = []\<rparr>"

datatype db_error = IntegrityError | OperationalError | PlaythroughMismatchError string string | BadCall

type_synonym 'a db_result = "db_error + 'a"

text \<open>An \<open>INTEGER PRIMARY KEY\<close> left to SQLite: one more than the largest.\<close>

definition next_id :: "int list \<Rightarrow> int" where
  "next_id ids = fold max ids 0 + 1"

section \<open>Characters\<close>

definition CHARACTER_UPDATABLE_FIELDS :: "string list" where
  "CHARACTER_UPDATABLE_FIELDS =
     [''first_name'', ''dynasty_name'', ''house_name'', ''nickname'', ''female'', ''birth_date'',
      ''death_date'', ''culture'', ''faith'', ''last_seen_event_id'', ''save_snapshot_json'',
      ''coa_json'', ''region_summary_json'', ''great_cause_json'', ''primary_title_json'',
      ''held_titles_json'']"

definition CHARACTER_NULLABLE_ON_UPDATE_FIELDS :: "string list" where
  "CHARACTER_NULLABLE_ON_UPDATE_FIELDS = [''great_cause_json'']"

text \<open>The keyword arguments are a dictionary.\<close>

definition update_set :: "(string, cell) dict \<Rightarrow> (string, cell) dict" where
  "update_set payload = filter (\<lambda>(k, v). v \<noteq> Null \<or> k \<in> set CHARACTER_NULLABLE_ON_UPDATE_FIELDS) payload"

definition upsert_character :: "int \<Rightarrow> (string, cell) dict \<Rightarrow> campaign_db \<Rightarrow> campaign_db" where
  "upsert_character ck3_id kwargs db =
     (let payload = filter (\<lambda>(k, _). k \<in> set CHARACTER_UPDATABLE_FIELDS) kwargs
      in db\<lparr>db_characters := (case dict_get (db_characters db) ck3_id of
            None \<Rightarrow> dict_set (db_characters db) ck3_id payload
          | Some row \<Rightarrow> dict_set (db_characters db) ck3_id (dict_merge row (update_set payload)))\<rparr>)"

definition get_character :: "campaign_db \<Rightarrow> int \<Rightarrow> char_row option" where
  "get_character db ck3_id = dict_get (db_characters db) ck3_id"

section \<open>Events\<close>

definition event_row_key :: "event_row \<Rightarrow> string \<times> string \<times> int \<times> event" where
  "event_row_key r = (er_event_type r, er_event_date r, er_primary_character_id r, er_payload r)"

text \<open>A participant row that is there already is left (\<open>ON CONFLICT DO NOTHING\<close>).\<close>

definition insert_participant :: "int \<Rightarrow> int \<times> string \<Rightarrow> campaign_db \<Rightarrow> campaign_db db_result" where
  "insert_participant event_id = (\<lambda>(character_id, role) db.
     (let row = \<lparr>pr_event_id = event_id, pr_character_id = character_id, pr_role = role\<rparr>
      in if row \<in> set (db_participants db) then Inr db
         else if dict_get (db_characters db) character_id = None then Inl IntegrityError
         else Inr (db\<lparr>db_participants := db_participants db @ [row]\<rparr>)))"

fun insert_participants :: "int \<Rightarrow> (int \<times> string) list \<Rightarrow> campaign_db \<Rightarrow> campaign_db db_result" where
  "insert_participants event_id [] db = Inr db"
| "insert_participants event_id (p # ps) db =
     (case insert_participant event_id p db of
        Inl e \<Rightarrow> Inl e
      | Inr db' \<Rightarrow> insert_participants event_id ps db')"

text \<open>The arguments are a row whose identifier does not matter.\<close>

definition insert_event_idempotent ::
  "event_row \<Rightarrow> (int \<times> string) list \<Rightarrow> campaign_db \<Rightarrow> (int option \<times> campaign_db) db_result" where
  "insert_event_idempotent row participants db =
     (if event_row_key row \<in> event_row_key ` set (db_events db) then Inr (None, db)
      else if dict_get (db_characters db) (er_primary_character_id row) = None then Inl IntegrityError
      else
        let event_id = next_id (map er_id (db_events db))
        in case insert_participants event_id participants
             (db\<lparr>db_events := db_events db @ [row\<lparr>er_id := event_id\<rparr>]\<rparr>) of
          Inl e \<Rightarrow> Inl e
        | Inr db' \<Rightarrow> Inr (Some event_id, db'))"

definition count_events :: "campaign_db \<Rightarrow> nat" where
  "count_events db = length (db_events db)"

text \<open>\<open>ORDER BY event_date_iso, id\<close>; SQLite sorts \<open>NULL\<close> first.\<close>

definition event_order :: "event_row \<Rightarrow> (nat \<times> string) \<times> int" where
  "event_order r = ((case er_event_date_iso r of None \<Rightarrow> (0, []) | Some d \<Rightarrow> (1, d)), er_id r)"

definition list_events_for_character :: "campaign_db \<Rightarrow> int \<Rightarrow> nat option \<Rightarrow> event_row list" where
  "list_events_for_character db ck3_id limit =
     (let rows = sort_key event_order (filter (\<lambda>r. er_primary_character_id r = ck3_id) (db_events db))
      in case limit of None \<Rightarrow> rows | Some n \<Rightarrow> take n rows)"

section \<open>Coats of arms\<close>

text \<open>\<open>ORDER BY id DESC LIMIT 1\<close> over the rows of the character.\<close>

definition list_coa_history :: "campaign_db \<Rightarrow> int \<Rightarrow> coa_row list" where
  "list_coa_history db character_id =
     sort_key ca_id (filter (\<lambda>r. ca_character_id r = character_id) (db_coa_history db))"

definition latest_coa :: "campaign_db \<Rightarrow> int \<Rightarrow> cell option" where
  "latest_coa db character_id =
     (case rev (list_coa_history db character_id) of [] \<Rightarrow> None | r # _ \<Rightarrow> Some (ca_coa_json r))"

definition append_coa_history_if_changed ::
  "int \<Rightarrow> cell \<Rightarrow> string \<Rightarrow> campaign_db \<Rightarrow> (bool \<times> campaign_db) db_result" where
  "append_coa_history_if_changed character_id coa_json observed_at db =
     (if latest_coa db character_id = Some coa_json then Inr (False, db)
      else if dict_get (db_characters db) character_id = None then Inl IntegrityError
      else Inr (True, db\<lparr>db_coa_history := db_coa_history db
        @ [\<lparr>ca_id = next_id (map ca_id (db_coa_history db)), ca_character_id = character_id,
            ca_observed_at = observed_at, ca_coa_json = coa_json\<rparr>]\<rparr>))"

section \<open>Biographies, quarantine, metadata\<close>

definition next_biography_version :: "campaign_db \<Rightarrow> int \<Rightarrow> int" where
  "next_biography_version db character_id =
     next_id (map br_version (filter (\<lambda>r. br_character_id r = character_id) (db_biographies db)))"

text \<open>The arguments are a row whose identifier and version do not matter.\<close>

definition insert_biography :: "biography_row \<Rightarrow> campaign_db \<Rightarrow> (biography_row \<times> campaign_db) db_result" where
  "insert_biography args db =
     (let row = args\<lparr>br_id := next_id (map br_id (db_biographies db)),
            br_version := next_biography_version db (br_character_id args)\<rparr>
      in if dict_get (db_characters db) (br_character_id row) = None
           \<or> (case br_events_through_event_id row of None \<Rightarrow> False | Some i \<Rightarrow> i \<notin> er_id ` set (db_events db))
         then Inl IntegrityError
         else Inr (row, db\<lparr>db_biographies := db_biographies db @ [row]\<rparr>))"

definition get_latest_biography_for_character :: "campaign_db \<Rightarrow> int \<Rightarrow> biography_row option" where
  "get_latest_biography_for_character db character_id =
     fetchone (rev (sort_key br_version
       (filter (\<lambda>r. br_character_id r = character_id) (db_biographies db))))"

definition list_biographies_for_character :: "campaign_db \<Rightarrow> int \<Rightarrow> biography_row list" where
  "list_biographies_for_character db character_id =
     sort_key br_version (filter (\<lambda>r. br_character_id r = character_id) (db_biographies db))"

definition insert_quarantine ::
  "string \<Rightarrow> string \<Rightarrow> string \<Rightarrow> string option \<Rightarrow> campaign_db \<Rightarrow> int \<times> campaign_db" where
  "insert_quarantine raw_line err ts event_kind db =
     (let qid = next_id (map qr_id (db_quarantine db))
      in (qid, db\<lparr>db_quarantine := db_quarantine db
        @ [\<lparr>qr_id = qid, qr_raw_line = raw_line, qr_error = err, qr_ts = ts, qr_event_kind = event_kind\<rparr>]\<rparr>))"

definition PLAYTHROUGH_ID_META_KEY :: string where
  "PLAYTHROUGH_ID_META_KEY = ''playthrough_id''"

definition set_meta :: "string \<Rightarrow> string \<Rightarrow> campaign_db \<Rightarrow> campaign_db" where
  "set_meta k v db = db\<lparr>db_meta := dict_set (db_meta db) k v\<rparr>"

definition get_meta :: "campaign_db \<Rightarrow> string \<Rightarrow> string option" where
  "get_meta db k = dict_get (db_meta db) k"

definition assert_playthrough_or_pin ::
  "string \<Rightarrow> bool \<Rightarrow> bool \<Rightarrow> campaign_db \<Rightarrow> (string option \<times> campaign_db) db_result" where
  "assert_playthrough_or_pin observed allow_reset pin_if_unset db =
     (let pinned = get_meta db PLAYTHROUGH_ID_META_KEY;
          pin = set_meta PLAYTHROUGH_ID_META_KEY observed db
      in if observed = [] then Inr (pinned, db)
         else case pinned of
           None \<Rightarrow> if pin_if_unset then Inr (Some observed, pin) else Inr (None, db)
         | Some p \<Rightarrow>
             if allow_reset then Inr (Some observed, pin)
             else if p \<noteq> observed then Inl (PlaythroughMismatchError observed p)
             else Inr (Some p, db))"

section \<open>Who has been the player\<close>

text \<open>
  \<open>compute_played_character_ids\<close> without its cache (events are only ever appended, and the cache is
  keyed on the largest identifier): from the latest player back along the previous holders of the
  duchies, kingdoms and empires acquired, at most 200 rounds.
\<close>

definition title_edge :: "event_row \<Rightarrow> (int \<times> int) option" where
  "title_edge r =
     (case ev_p (er_payload r) of
        TitleAcquiredPayload p \<Rightarrow>
          if er_event_type r = ''title_acquired'' \<and> tap_tier p \<in> set [Some ''duchy'', Some ''kingdom'', Some ''empire'']
          then map_option (Pair (er_primary_character_id r)) (tap_from_holder_id p) else None
      | _ \<Rightarrow> None)"

definition backward_of :: "campaign_db \<Rightarrow> (int, int fset) dict" where
  "backward_of db = build_index (List.map_filter title_edge (db_events db))"

definition predecessors :: "(int, int fset) dict \<Rightarrow> int fset \<Rightarrow> int fset" where
  "predecessors backward frontier = ffUnion ((\<lambda>c. dict_get_default backward c {||}) |`| frontier)"

fun walk_played :: "nat \<Rightarrow> (int, int fset) dict \<Rightarrow> int fset \<Rightarrow> int fset \<Rightarrow> int fset" where
  "walk_played 0 backward played frontier = played"
| "walk_played (Suc n) backward played frontier =
     (if frontier = {||} then played
      else let fresh = predecessors backward frontier |-| played
           in walk_played n backward (played |\<union>| fresh) fresh)"

definition compute_played_character_ids :: "campaign_db \<Rightarrow> int option \<Rightarrow> int fset" where
  "compute_played_character_ids db current_player_id =
     (case current_player_id of
        None \<Rightarrow> {||}
      | Some pid \<Rightarrow> walk_played 200 (backward_of db) {|pid|} {|pid|})"

end
