(* ===== verification/Campaign_Db_Facts.thy ===== *)
theory Campaign_Db_Facts
  imports Campaign_Db
begin

text \<open>
  The integrity of the database of a campaign, and that every operation keeps it; what an upsert
  leaves of the old row; and that a repeated insert changes nothing.
\<close>

section \<open>New identifiers\<close>

lemma fold_max_ge: "m \<le> fold max ids m" "i \<in> set ids \<Longrightarrow> i \<le> fold max ids (m :: int)"
  by (induction ids arbitrary: m) (auto, (meson max.bounded_iff order_trans)+)

lemma next_id_fresh: "i \<in> set ids \<Longrightarrow> i < next_id ids"
  using fold_max_ge(2) [of i ids 0] by (simp add: next_id_def)

lemma next_id_notin: "next_id ids \<notin> set ids"
  using next_id_fresh by blast

lemma sorted_snoc_next: "sorted_wrt (<) ids \<Longrightarrow> sorted_wrt (<) (ids @ [next_id ids])"
  by (simp add: sorted_wrt_append next_id_fresh)

definition first_versions :: "nat \<Rightarrow> int list" where
  "first_versions n = map int [1..<Suc n]"

lemma next_id_versions: "next_id (first_versions n) = int n + 1"
proof -
  have "fold max (first_versions n) 0 = int n" by (induction n) (simp_all add: first_versions_def)
  then show ?thesis by (simp add: next_id_def)
qed

lemma length_first_versions [simp]: "length (first_versions n) = n"
  by (simp add: first_versions_def)

lemma first_versions_snoc: "first_versions n @ [int n + 1] = first_versions (Suc n)"
  by (simp add: first_versions_def)

section \<open>Integrity\<close>

definition known :: "campaign_db \<Rightarrow> int \<Rightarrow> bool" where
  "known db cid \<longleftrightarrow> dict_get (db_characters db) cid \<noteq> None"

definition events_ok :: "campaign_db \<Rightarrow> bool" where
  "events_ok db \<longleftrightarrow> distinct (map event_row_key (db_events db)) \<and> sorted_wrt (<) (map er_id (db_events db))
     \<and> (\<forall>r\<in>set (db_events db). known db (er_primary_character_id r))"

definition participants_ok :: "campaign_db \<Rightarrow> bool" where
  "participants_ok db \<longleftrightarrow> distinct (db_participants db)
     \<and> (\<forall>p\<in>set (db_participants db). pr_event_id p \<in> er_id ` set (db_events db) \<and> known db (pr_character_id p))"

definition coats_of :: "campaign_db \<Rightarrow> int \<Rightarrow> cell list" where
  "coats_of db cid = map ca_coa_json (filter (\<lambda>r. ca_character_id r = cid) (db_coa_history db))"

definition coats_ok :: "campaign_db \<Rightarrow> bool" where
  "coats_ok db \<longleftrightarrow> sorted_wrt (<) (map ca_id (db_coa_history db))
     \<and> (\<forall>r\<in>set (db_coa_history db). known db (ca_character_id r))
     \<and> (\<forall>cid. distinct_adj (coats_of db cid))"

definition versions_of :: "campaign_db \<Rightarrow> int \<Rightarrow> int list" where
  "versions_of db cid = map br_version (filter (\<lambda>r. br_character_id r = cid) (db_biographies db))"

definition biographies_ok :: "campaign_db \<Rightarrow> bool" where
  "biographies_ok db \<longleftrightarrow> (\<forall>r\<in>set (db_biographies db). known db (br_character_id r)
       \<and> set_option (br_events_through_event_id r) \<subseteq> er_id ` set (db_events db))
     \<and> (\<forall>cid. versions_of db cid = first_versions (length (versions_of db cid)))"

definition db_ok :: "campaign_db \<Rightarrow> bool" where
  "db_ok db \<longleftrightarrow> events_ok db \<and> participants_ok db \<and> coats_ok db \<and> biographies_ok db"

lemmas db_ok_defs = db_ok_def events_ok_def participants_ok_def coats_ok_def biographies_ok_def

lemma empty_db_ok: "db_ok empty_db"
  by (simp add: db_ok_defs empty_db_def coats_of_def versions_of_def first_versions_def)

section \<open>Upserting\<close>

lemma upsert_tables [simp]:
  "db_events (upsert_character cid kw db) = db_events db"
  "db_participants (upsert_character cid kw db) = db_participants db"
  "db_coa_history (upsert_character cid kw db) = db_coa_history db"
  "db_biographies (upsert_character cid kw db) = db_biographies db"
  "db_quarantine (upsert_character cid kw db) = db_quarantine db"
  "db_meta (upsert_character cid kw db) = db_meta db"
  by (simp_all add: upsert_character_def Let_def)

lemma known_upsert [simp]: "known (upsert_character cid kw db) c \<longleftrightarrow> c = cid \<or> known db c"
  by (simp add: known_def upsert_character_def Let_def split: option.split)

lemma upsert_lists [simp]:
  "coats_of (upsert_character cid kw db) = coats_of db" "versions_of (upsert_character cid kw db) = versions_of db"
  by (simp_all add: coats_of_def versions_of_def fun_eq_iff)

lemma upsert_ok: "db_ok db \<Longrightarrow> db_ok (upsert_character cid kw db)"
  by (simp add: db_ok_defs)

text \<open>A column after an upsert: the new value, unless it is \<open>NULL\<close> and the column is not one that
  \<open>NULL\<close> clears.\<close>

definition upserted :: "string \<Rightarrow> cell option \<Rightarrow> cell \<Rightarrow> cell" where
  "upserted c new old =
     (if c \<notin> set CHARACTER_UPDATABLE_FIELDS then old
      else case new of
        None \<Rightarrow> old
      | Some v \<Rightarrow> if v = Null \<and> c \<notin> set CHARACTER_NULLABLE_ON_UPDATE_FIELDS then old else v)"

lemma dict_get_filter_pairs: "dict_ok d \<Longrightarrow> dict_get (filter (\<lambda>(k, v). P k v) d) c =
    (case dict_get d c of None \<Rightarrow> None | Some v \<Rightarrow> if P c v then Some v else None)"
proof (induction d)
  case (Cons e d)
  have "c \<notin> fst ` set d \<Longrightarrow> dict_get d c = None" by (simp add: dict_get_def map_of_eq_None_iff)
  then show ?case using Cons by (cases e) (auto simp: dict_ok_def split: option.splits)
qed simp

lemma dict_ok_filter: "dict_ok d \<Longrightarrow> dict_ok (filter P d)"
  by (simp add: dict_ok_def distinct_map_filter)

lemma upsert_column:
  assumes "dict_ok kw" and "get_character db cid = Some row"
  shows "\<exists>row'. get_character (upsert_character cid kw db) cid = Some row'
    \<and> column row' c = upserted c (dict_get kw c) (column row c)"
proof -
  let ?p = "filter (\<lambda>(k, _). k \<in> set CHARACTER_UPDATABLE_FIELDS) kw"
  have ok: "dict_ok ?p" "dict_ok (update_set ?p)" using assms(1) by (simp_all add: dict_ok_filter update_set_def)
  have "get_character (upsert_character cid kw db) cid = Some (dict_merge row (update_set ?p))"
    using assms(2) by (simp add: upsert_character_def get_character_def Let_def)
  moreover note get1 = dict_get_filter_pairs [OF assms(1), of "\<lambda>k _. k \<in> set CHARACTER_UPDATABLE_FIELDS" c]
  note get2 = dict_get_filter_pairs [OF ok(1), of "\<lambda>k v. v \<noteq> Null \<or> k \<in> set CHARACTER_NULLABLE_ON_UPDATE_FIELDS" c,
      folded update_set_def]
  have "column (dict_merge row (update_set ?p)) c = upserted c (dict_get kw c) (column row c)"
    unfolding column_def dict_get_default_def dict_merge_get [OF ok(2)] get2 get1 upserted_def
    by (simp split: option.split)
  ultimately show ?thesis by blast
qed

lemma upsert_new_column:
  assumes "dict_ok kw" and "get_character db cid = None"
  shows "\<exists>row'. get_character (upsert_character cid kw db) cid = Some row'
    \<and> column row' c = (if c \<in> set CHARACTER_UPDATABLE_FIELDS then dict_get_default kw c Null else Null)"
proof -
  let ?p = "filter (\<lambda>(k, _). k \<in> set CHARACTER_UPDATABLE_FIELDS) kw"
  have "get_character (upsert_character cid kw db) cid = Some ?p"
    using assms(2) by (simp add: upsert_character_def get_character_def Let_def)
  moreover have "column ?p c = (if c \<in> set CHARACTER_UPDATABLE_FIELDS then dict_get_default kw c Null else Null)"
    unfolding column_def dict_get_default_def
    by (subst dict_get_filter_pairs [OF assms(1), of "\<lambda>k _. k \<in> set CHARACTER_UPDATABLE_FIELDS" c])
      (simp split: option.split)
  ultimately show ?thesis by blast
qed

lemma upsert_other: "c \<noteq> cid \<Longrightarrow> get_character (upsert_character cid kw db) c = get_character db c"
  by (simp add: upsert_character_def get_character_def Let_def split: option.split)

section \<open>Inserting an event\<close>

definition participant_of :: "int \<Rightarrow> int \<times> string \<Rightarrow> participant_row" where
  "participant_of eid p = \<lparr>pr_event_id = eid, pr_character_id = fst p, pr_role = snd p\<rparr>"

lemma insert_participant_spec:
  assumes "insert_participant eid p db = Inr db'"
  shows "\<exists>new. db' = db\<lparr>db_participants := db_participants db @ new\<rparr>
    \<and> set (db_participants db @ new) = insert (participant_of eid p) (set (db_participants db))
    \<and> (distinct (db_participants db) \<longrightarrow> distinct (db_participants db @ new))"
proof -
  obtain c r where p: "p = (c, r)" by force
  show ?thesis
  proof (cases "participant_of eid p \<in> set (db_participants db)")
    case True
    then have "db' = db" using assms by (auto simp: insert_participant_def Let_def p participant_of_def)
    then show ?thesis using True by (intro exI [of _ "[]"]) auto
  next
    case False
    then have "db' = db\<lparr>db_participants := db_participants db @ [participant_of eid p]\<rparr>"
      using assms by (auto simp: insert_participant_def Let_def p participant_of_def split: if_splits)
    then show ?thesis using False by (intro exI [of _ "[participant_of eid p]"]) auto
  qed
qed

lemma insert_participants_spec:
  "insert_participants eid ps db = Inr db' \<Longrightarrow>
    \<exists>new. db' = db\<lparr>db_participants := db_participants db @ new\<rparr>
    \<and> set (db_participants db @ new) = participant_of eid ` set ps \<union> set (db_participants db)
    \<and> (distinct (db_participants db) \<longrightarrow> distinct (db_participants db @ new))"
proof (induction eid ps db rule: insert_participants.induct)
  case (1 eid db)
  then show ?case by (intro exI [of _ "[]"]) auto
next
  case (2 eid p ps db)
  then obtain db1 where db1: "insert_participant eid p db = Inr db1" "insert_participants eid ps db1 = Inr db'"
    by (auto split: sum.splits)
  obtain n1 where n1: "db1 = db\<lparr>db_participants := db_participants db @ n1\<rparr>"
    "set (db_participants db @ n1) = insert (participant_of eid p) (set (db_participants db))"
    "distinct (db_participants db) \<longrightarrow> distinct (db_participants db @ n1)"
    using insert_participant_spec [OF db1(1)] by blast
  obtain n2 where n2: "db' = db1\<lparr>db_participants := db_participants db1 @ n2\<rparr>"
    "set (db_participants db1 @ n2) = participant_of eid ` set ps \<union> set (db_participants db1)"
    "distinct (db_participants db1) \<longrightarrow> distinct (db_participants db1 @ n2)"
    using 2(1) [OF db1] by blast
  have ps1: "db_participants db1 = db_participants db @ n1" by (simp add: n1(1))
  have "db' = db\<lparr>db_participants := db_participants db @ (n1 @ n2)\<rparr>" by (simp add: n2(1) n1(1))
  moreover have "set (db_participants db @ (n1 @ n2)) = participant_of eid ` set (p # ps) \<union> set (db_participants db)"
    using n2(2) n1(2) unfolding ps1 by auto
  moreover have "distinct (db_participants db) \<longrightarrow> distinct (db_participants db @ (n1 @ n2))"
    using n1(3) n2(3) unfolding ps1 append_assoc by blast
  ultimately show ?case by blast
qed

lemma insert_participants_total:
  "(\<And>c r. (c, r) \<in> set ps \<Longrightarrow> known db c) \<Longrightarrow> \<exists>db'. insert_participants eid ps db = Inr db'"
proof (induction eid ps db rule: insert_participants.induct)
  case (2 eid p ps db)
  obtain c r where p: "p = (c, r)" by force
  have "known db c" using 2(2) p by auto
  then have "\<exists>db1. insert_participant eid p db = Inr db1"
    by (auto simp: insert_participant_def Let_def p known_def)
  then obtain db1 where db1: "insert_participant eid p db = Inr db1" by blast
  have "known db1 c'" if "(c', r') \<in> set ps" for c' r'
    using 2(2) [of c' r'] that insert_participant_spec [OF db1] by (auto simp: known_def)
  from 2(1) [OF db1 this] show ?case using db1 by simp
qed simp

text \<open>The foreign key: the characters of the rows that went in are known.\<close>

lemma insert_participants_known:
  assumes "insert_participants eid ps db = Inr db'" and "(c, r) \<in> set ps"
  shows "participant_of eid (c, r) \<in> set (db_participants db) \<or> known db c"
  using assms
proof (induction eid ps db rule: insert_participants.induct)
  case (2 eid p ps db)
  then obtain db1 where db1: "insert_participant eid p db = Inr db1" "insert_participants eid ps db1 = Inr db'"
    by (auto split: sum.splits)
  show ?case
  proof (cases "p = (c, r)")
    case True
    then show ?thesis using db1(1)
      by (auto simp: insert_participant_def Let_def participant_of_def known_def split: if_splits)
  next
    case False
    then have "participant_of eid (c, r) \<in> set (db_participants db1) \<or> known db1 c"
      using 2(1) [OF db1] 2(3) by auto
    moreover obtain new where db': "db1 = db\<lparr>db_participants := db_participants db @ new\<rparr>"
      "set (db_participants db @ new) = insert (participant_of eid p) (set (db_participants db))"
      using insert_participant_spec [OF db1(1)] by blast
    moreover have "known db1 c = known db c" by (simp add: known_def db')
    ultimately show ?thesis using False
      by (cases p) (auto simp: participant_of_def)
  qed
qed simp

lemma insert_event_spec:
  assumes "insert_event_idempotent row ps db = Inr (out, db')"
  shows "(event_row_key row \<in> event_row_key ` set (db_events db) \<and> out = None \<and> db' = db) \<or>
    (event_row_key row \<notin> event_row_key ` set (db_events db)
      \<and> known db (er_primary_character_id row)
      \<and> out = Some (next_id (map er_id (db_events db)))
      \<and> insert_participants (next_id (map er_id (db_events db))) ps
          (db\<lparr>db_events := db_events db @ [row\<lparr>er_id := next_id (map er_id (db_events db))\<rparr>]\<rparr>) = Inr db')"
  using assms by (auto simp: insert_event_idempotent_def Let_def known_def split: if_splits sum.splits)

lemma event_row_key_id [simp]: "event_row_key (row\<lparr>er_id := i\<rparr>) = event_row_key row"
  by (simp add: event_row_key_def)

lemma insert_event_ok:
  assumes "insert_event_idempotent row ps db = Inr (out, db')" and ok: "db_ok db"
  shows "db_ok db'"
proof -
  from insert_event_spec [OF assms(1)] show ?thesis
  proof (elim disjE conjE)
    let ?i = "next_id (map er_id (db_events db))"
    let ?db = "db\<lparr>db_events := db_events db @ [row\<lparr>er_id := ?i\<rparr>]\<rparr>"
    assume new: "event_row_key row \<notin> event_row_key ` set (db_events db)" and
      prim: "known db (er_primary_character_id row)" and ins: "insert_participants ?i ps ?db = Inr db'"
    from insert_participants_spec [OF ins] obtain n where
      n: "db' = ?db\<lparr>db_participants := db_participants db @ n\<rparr>"
        "set (db_participants db @ n) = participant_of ?i ` set ps \<union> set (db_participants db)"
        "distinct (db_participants db) \<longrightarrow> distinct (db_participants db @ n)" by auto
    then have eqs: "db_events db' = db_events db @ [row\<lparr>er_id := ?i\<rparr>]"
      "db_characters db' = db_characters db" "db_coa_history db' = db_coa_history db"
      "db_biographies db' = db_biographies db"
      "set (db_participants db') = participant_of ?i ` set ps \<union> set (db_participants db)"
      "distinct (db_participants db) \<longrightarrow> distinct (db_participants db')" by simp_all
    have known': "known db' = known db" by (simp add: known_def eqs fun_eq_iff)
    have ps: "known db c" if "(c, r) \<in> set ps" for c r
    proof -
      have "participant_of ?i (c, r) \<notin> set (db_participants db)"
        using ok next_id_notin [of "map er_id (db_events db)"]
        by (auto simp: db_ok_def participants_ok_def participant_of_def)
      then show ?thesis using insert_participants_known [OF ins that] by (simp add: known_def)
    qed
    have "events_ok db'" using ok new prim
      by (simp add: db_ok_def events_ok_def eqs known' sorted_wrt_append next_id_fresh image_iff)
    moreover have "participants_ok db'" using ok ps
      by (auto simp: db_ok_def participants_ok_def eqs known' participant_of_def)
    moreover have "coats_ok db'" using ok by (simp add: db_ok_def coats_ok_def eqs known' coats_of_def)
    moreover have "biographies_ok db'"
    proof -
      have "versions_of db' = versions_of db" by (simp add: versions_of_def eqs fun_eq_iff)
      moreover have "er_id ` set (db_events db) \<subseteq> er_id ` set (db_events db')" by (auto simp: eqs)
      ultimately show ?thesis using ok unfolding db_ok_def biographies_ok_def known' eqs(4) by (metis order_trans)
    qed
    ultimately show ?thesis by (simp add: db_ok_def)
  qed (use ok in simp)
qed

lemma insert_event_total:
  assumes "known db (er_primary_character_id row)" and "\<And>c r. (c, r) \<in> set ps \<Longrightarrow> known db c"
  shows "\<exists>out db'. insert_event_idempotent row ps db = Inr (out, db')"
proof -
  let ?i = "next_id (map er_id (db_events db))"
  have "\<exists>db'. insert_participants ?i ps (db\<lparr>db_events := db_events db @ [row\<lparr>er_id := ?i\<rparr>]\<rparr>) = Inr db'"
    by (rule insert_participants_total) (use assms(2) in \<open>simp add: known_def\<close>)
  then show ?thesis using assms(1) by (auto simp: insert_event_idempotent_def Let_def known_def)
qed

lemma insert_event_duplicate:
  "event_row_key row \<in> event_row_key ` set (db_events db) \<Longrightarrow>
     insert_event_idempotent row ps db = Inr (None, db)"
  by (simp add: insert_event_idempotent_def)

section \<open>Coats of arms and biographies\<close>

lemma sorted_ids_sort: "sorted_wrt (<) (map f xs) \<Longrightarrow> sort_key f (filter P xs) = filter P xs" for f :: "'a \<Rightarrow> int"
proof (rule sort_key_id_if_sorted)
  assume s: "sorted_wrt (<) (map f xs)"
  have "sorted_wrt (<) (map f (filter P xs))" using s
    by (induction xs) auto
  then show "sorted (map f (filter P xs))" by (rule strict_sorted_imp_sorted)
qed

lemma latest_coa_last:
  assumes "coats_ok db"
  shows "latest_coa db cid = (if coats_of db cid = [] then None else Some (last (coats_of db cid)))"
proof -
  have "list_coa_history db cid = filter (\<lambda>r. ca_character_id r = cid) (db_coa_history db)"
    using assms sorted_ids_sort [of ca_id "db_coa_history db"] by (simp add: list_coa_history_def coats_ok_def)
  then show ?thesis
    by (cases "filter (\<lambda>r. ca_character_id r = cid) (db_coa_history db)" rule: rev_cases)
      (simp_all add: latest_coa_def coats_of_def)
qed

lemma append_coa_ok:
  assumes "append_coa_history_if_changed cid v now db = Inr (out, db')" and ok: "db_ok db"
  shows "db_ok db'"
proof (cases "latest_coa db cid = Some v")
  case True
  then show ?thesis using assms by (simp add: append_coa_history_if_changed_def)
next
  case False
  let ?row = "\<lparr>ca_id = next_id (map ca_id (db_coa_history db)), ca_character_id = cid,
            ca_observed_at = now, ca_coa_json = v\<rparr>"
  have db': "db' = db\<lparr>db_coa_history := db_coa_history db @ [?row]\<rparr>" and kn: "known db cid"
    using assms(1) False by (auto simp: append_coa_history_if_changed_def known_def split: if_splits)
  have coats: "coats_ok db" using ok by (simp add: db_ok_def)
  have same: "known db' = known db" "coats_of db' c = coats_of db c @ (if c = cid then [v] else [])" for c
    by (simp_all add: known_def db' coats_of_def fun_eq_iff)
  have "distinct_adj (coats_of db' c)" for c
    using coats False latest_coa_last [OF coats, of cid]
    by (auto simp: same coats_ok_def distinct_adj_append_iff split: if_splits)
  then have "coats_ok db'" using coats kn unfolding coats_ok_def same
    by (simp add: db' sorted_wrt_append next_id_fresh image_iff)
  then show ?thesis using ok by (simp add: db_ok_def events_ok_def participants_ok_def biographies_ok_def
        same versions_of_def) (simp add: db' )
qed

lemma insert_biography_ok:
  assumes "insert_biography args db = Inr (row, db')" and ok: "db_ok db"
  shows "db_ok db' \<and> br_version row = int (length (versions_of db (br_character_id args))) + 1"
proof -
  have db': "db' = db\<lparr>db_biographies := db_biographies db @ [row]\<rparr>" and kn: "known db (br_character_id row)"
    and ev: "set_option (br_events_through_event_id row) \<subseteq> er_id ` set (db_events db)"
    and row: "br_character_id row = br_character_id args"
      "br_version row = next_biography_version db (br_character_id args)"
    using assms(1) by (auto simp: insert_biography_def Let_def known_def split: if_splits option.splits)
  have vs: "versions_of db c = first_versions (length (versions_of db c))" for c
    using ok unfolding db_ok_def biographies_ok_def by blast
  have "next_id (versions_of db c) = int (length (versions_of db c)) + 1" for c
    by (subst vs) (rule next_id_versions)
  then have v: "br_version row = int (length (versions_of db (br_character_id args))) + 1"
    by (simp add: row next_biography_version_def versions_of_def)
  have same: "known db' = known db" "versions_of db' c = versions_of db c @ (if c = br_character_id args
      then [br_version row] else [])" for c
    by (simp_all add: known_def db' versions_of_def fun_eq_iff row)
  have "versions_of db c @ [int (length (versions_of db c)) + 1] = first_versions (Suc (length (versions_of db c)))"
    for c by (subst (1) vs) (rule first_versions_snoc)
  then have "versions_of db' c = first_versions (length (versions_of db' c))" for c
    using vs [of c] v unfolding same by (cases "c = br_character_id args") simp_all
  then have "biographies_ok db'" using ok kn ev
    by (simp add: biographies_ok_def db_ok_def same) (simp add: db')
  then show ?thesis using ok v by (simp add: db_ok_def events_ok_def participants_ok_def coats_ok_def
        same coats_of_def) (simp add: db')
qed

end
