(* ===== verification/Session.thy ===== *)
theory Session
  imports Campaign_Db_Facts Worldbuilding
begin

text \<open>
  The state a save tick works on and the effects it has: statements on the two databases that may
  raise, transactions and savepoints that roll back (\<open>db/engine.py\<close>), frames published to the
  browser, characters handed to the biography scheduler. Which statement raises is the argument
  \<open>faults\<close>: it is asked with the number of the statement, counted in the state.
\<close>

section \<open>State\<close>

datatype frame =
    EventIngested int string string int
  | SavePairCompleted string string string nat "(string, nat) dict"
  | SaveDroppedForeign string string string string
  | CampaignAutoResumed string string string string
  | ImportProgress string rat
  | CacheState nat nat nat
  | ChroniclerRecovering "string option" string "int option" nat
  | ChroniclerRecovered nat

record world =
  w_db :: campaign_db
  w_registry :: registry
  w_baseline :: "save_snapshot option"
  w_frames :: "frame list"
  w_scheduled :: "int list"
  w_resumed :: "(string \<times> string) list"
  w_clock :: nat

datatype exn = Db_Exn db_error | Py_Exn py_error

type_synonym 'a outcome = "exn + 'a"

type_synonym 'a op = "(nat \<Rightarrow> bool) \<Rightarrow> world \<Rightarrow> 'a outcome \<times> world"

definition no_faults :: "nat \<Rightarrow> bool" where
  "no_faults n \<longleftrightarrow> False"

section \<open>Sequencing\<close>

definition return_op :: "'a \<Rightarrow> 'a op" where
  "return_op a faults w = (Inr a, w)"

definition bind_op :: "'a op \<Rightarrow> ('a \<Rightarrow> 'b op) \<Rightarrow> 'b op" where
  "bind_op m k faults w =
     (case m faults w of (Inl e, w') \<Rightarrow> (Inl e, w') | (Inr a, w') \<Rightarrow> k a faults w')"

definition raise_op :: "exn \<Rightarrow> 'a op" where
  "raise_op e faults w = (Inl e, w)"

fun for_each :: "('a \<Rightarrow> unit op) \<Rightarrow> 'a list \<Rightarrow> unit op" where
  "for_each f [] = return_op ()"
| "for_each f (x # xs) = bind_op (f x) (\<lambda>_. for_each f xs)"

definition when_op :: "bool \<Rightarrow> unit op \<Rightarrow> unit op" where
  "when_op b m = (if b then m else return_op ())"

definition modify_op :: "(world \<Rightarrow> world) \<Rightarrow> unit op" where
  "modify_op f faults w = (Inr (), f w)"

text \<open>\<open>try: m except Exception: h\<close>.\<close>

definition catch_op :: "'a op \<Rightarrow> (exn \<Rightarrow> 'a op) \<Rightarrow> 'a op" where
  "catch_op m h faults w = (case m faults w of (Inl e, w') \<Rightarrow> h e faults w' | (Inr a, w') \<Rightarrow> (Inr a, w'))"

section \<open>Statements\<close>

definition statement :: "(world \<Rightarrow> 'a outcome \<times> world) \<Rightarrow> 'a op" where
  "statement f faults w =
     (let w' = w\<lparr>w_clock := Suc (w_clock w)\<rparr>
      in if faults (w_clock w) then (Inl (Db_Exn OperationalError), w') else f w')"

definition db_op :: "(campaign_db \<Rightarrow> ('a \<times> campaign_db) db_result) \<Rightarrow> 'a op" where
  "db_op g = statement (\<lambda>w. case g (w_db w) of
       Inl e \<Rightarrow> (Inl (Db_Exn e), w) | Inr (a, db) \<Rightarrow> (Inr a, w\<lparr>w_db := db\<rparr>))"

definition registry_op :: "(registry \<Rightarrow> 'a \<times> registry) \<Rightarrow> 'a op" where
  "registry_op g = statement (\<lambda>w. case g (w_registry w) of (a, rg) \<Rightarrow> (Inr a, w\<lparr>w_registry := rg\<rparr>))"

definition plain_statement :: "unit op" where
  "plain_statement = statement (\<lambda>w. (Inr (), w))"

section \<open>Transactions\<close>

text \<open>What an exception undoes: the database, not the frames, the schedule or the registry.\<close>

definition rollback_on_error :: "'a op \<Rightarrow> 'a op" where
  "rollback_on_error m faults w =
     (case m faults w of
        (Inl e, w') \<Rightarrow> (Inl e, w'\<lparr>w_db := w_db w\<rparr>)
      | (Inr a, w') \<Rightarrow> (Inr a, w'))"

text \<open>\<open>session_scope\<close>: the body, then the commit.\<close>

definition session_scope :: "'a op \<Rightarrow> 'a op" where
  "session_scope m =
     rollback_on_error (bind_op m (\<lambda>a. bind_op plain_statement (\<lambda>_. return_op a)))"

text \<open>\<open>with session.begin_nested()\<close>: a savepoint, the body, its release.\<close>

definition begin_nested :: "'a op \<Rightarrow> 'a op" where
  "begin_nested m =
     bind_op plain_statement (\<lambda>_. rollback_on_error
       (bind_op m (\<lambda>a. bind_op plain_statement (\<lambda>_. return_op a))))"

section \<open>Laws\<close>

lemma no_faults_never: "\<not> no_faults n"
  by (simp add: no_faults_def)

lemma bind_op_Inr: "bind_op m k F w = (Inr b, w2) \<longleftrightarrow> (\<exists>a w1. m F w = (Inr a, w1) \<and> k a F w1 = (Inr b, w2))"
  by (auto simp: bind_op_def split: prod.splits sum.splits)

lemma bind_op_Inl:
  "bind_op m k F w = (Inl e, w2) \<longleftrightarrow>
     m F w = (Inl e, w2) \<or> (\<exists>a w1. m F w = (Inr a, w1) \<and> k a F w1 = (Inl e, w2))"
  by (auto simp: bind_op_def split: prod.splits sum.splits)

lemma return_op_simps [simp]: "return_op a F w = (Inr a, w)" "bind_op (return_op a) k = k a"
  by (simp_all add: return_op_def bind_op_def fun_eq_iff)

text \<open>
  An invariant of the state that every operation keeps, whatever raises: \<open>keeps R m\<close> says that the
  states before and after \<open>m\<close> are related by \<open>R\<close>. For a reflexive and transitive \<open>R\<close> the operations
  compose; the locale is used with one relation for each thing that is kept.
\<close>

definition keeps :: "(world \<Rightarrow> world \<Rightarrow> bool) \<Rightarrow> 'a op \<Rightarrow> bool" where
  "keeps R m \<longleftrightarrow> (\<forall>F w. R w (snd (m F w)))"

lemma keepsD: "keeps R m \<Longrightarrow> m F w = (r, w') \<Longrightarrow> R w w'"
  by (metis keeps_def snd_conv)

locale kept_relation =
  fixes R :: "world \<Rightarrow> world \<Rightarrow> bool"
  assumes refl: "R w w"
    and trans: "R a b \<Longrightarrow> R b c \<Longrightarrow> R a c"
    and clock: "R w (w\<lparr>w_clock := n\<rparr>)"
begin

lemma keeps_return: "keeps R (return_op a)"
  by (simp add: keeps_def refl)

lemma keeps_bind: "keeps R m \<Longrightarrow> (\<And>a. keeps R (k a)) \<Longrightarrow> keeps R (bind_op m k)"
  unfolding keeps_def bind_op_def
  by (auto split: prod.split sum.split) (metis trans snd_conv)+

lemma keeps_for_each: "(\<And>x. keeps R (f x)) \<Longrightarrow> keeps R (for_each f xs)"
  by (induction xs) (simp_all add: keeps_return keeps_bind)

lemma keeps_when: "keeps R m \<Longrightarrow> keeps R (when_op b m)"
  by (simp add: when_op_def keeps_return)

lemma keeps_modify: "(\<And>w. R w (f w)) \<Longrightarrow> keeps R (modify_op f)"
  by (simp add: keeps_def modify_op_def)

lemma keeps_catch: "keeps R m \<Longrightarrow> (\<And>e. keeps R (h e)) \<Longrightarrow> keeps R (catch_op m h)"
  unfolding keeps_def catch_op_def
  by (auto split: prod.split sum.split) (metis trans snd_conv)+

lemma keeps_statement: "(\<And>w. R w (snd (f w))) \<Longrightarrow> keeps R (statement f)"
  unfolding keeps_def statement_def Let_def by (auto intro: clock trans [OF clock])

lemma keeps_plain: "keeps R plain_statement"
  unfolding plain_statement_def by (rule keeps_statement) (simp add: refl)

lemma keeps_db:
  "(\<And>w a db. g (w_db w) = Inr (a, db) \<Longrightarrow> R w (w\<lparr>w_db := db\<rparr>)) \<Longrightarrow> keeps R (db_op g)"
  unfolding db_op_def by (rule keeps_statement) (auto simp: refl split: sum.split)

lemma keeps_registry:
  "(\<And>w a rg. g (w_registry w) = (a, rg) \<Longrightarrow> R w (w\<lparr>w_registry := rg\<rparr>)) \<Longrightarrow> keeps R (registry_op g)"
  unfolding registry_op_def by (rule keeps_statement) (auto simp: refl split: prod.split)

lemmas keeps_intros = keeps_return keeps_bind keeps_for_each keeps_when keeps_modify keeps_catch keeps_plain

end

text \<open>Relations that a rollback keeps too.\<close>

locale rolled_back_relation = kept_relation +
  assumes rollback: "R w w' \<Longrightarrow> R w (w'\<lparr>w_db := w_db w\<rparr>)"
begin

lemma keeps_rollback: "keeps R m \<Longrightarrow> keeps R (rollback_on_error m)"
  unfolding keeps_def rollback_on_error_def
  by (auto split: prod.split sum.split) (metis rollback snd_conv)+

lemma keeps_scope: "keeps R m \<Longrightarrow> keeps R (session_scope m)"
  unfolding session_scope_def by (intro keeps_rollback keeps_intros) 

lemma keeps_nested: "keeps R m \<Longrightarrow> keeps R (begin_nested m)"
  unfolding begin_nested_def by (intro keeps_rollback keeps_intros)

lemmas keeps_all = keeps_intros keeps_scope keeps_nested

end

end
