(* ===== verification/Ingest_Event.thy ===== *)
theory Ingest_Event
  imports Session Diff_Runs
begin

text \<open>
  How an event gets into the database: \<open>ingest_common.py\<close>, and the part of \<open>save/tick.py\<close> that feeds
  it the events of a diff, one savepoint for each, and publishes after the commit.
\<close>

section \<open>The environment of a tick\<close>

text \<open>
  What does not change during a tick: the campaign, the save, the wall clock, whether there is an
  event bus, a scheduler, a path for the baseline and a callback for foreign playthroughs, whether
  generation is paused, and the orders in which sets are walked.
\<close>

record tick_env =
  te_campaign_id :: string
  te_save_name :: string
  te_now :: string
  te_bus :: bool
  te_scheduler :: bool
  te_paused :: bool
  te_persist_path :: bool
  te_on_foreign :: bool
  te_names :: "(string, string) dict"
  te_id_order :: "int fset \<Rightarrow> int list"
  te_key_order :: "string fset \<Rightarrow> string list"

text \<open>\<open>_publish_safely\<close>: no bus, no frame; a failing bus would lose the frame and nothing else.\<close>

definition publish :: "tick_env \<Rightarrow> frame \<Rightarrow> unit op" where
  "publish env f = when_op (te_bus env) (modify_op (\<lambda>w. w\<lparr>w_frames := w_frames w @ [f]\<rparr>))"

section \<open>Participants\<close>

definition payload_participants :: "event \<Rightarrow> (int \<times> string) list" where
  "payload_participants ev =
     (case ev_p ev of
        DeathPayload p \<Rightarrow> (case dp_killer p of None \<Rightarrow> [] | Some k \<Rightarrow> [(k, ''killer'')])
      | _ \<Rightarrow> [])"

text \<open>Later duplicates are dropped: the pairs already in \<open>out\<close> are the set \<open>seen\<close>.\<close>

definition merge_participants :: "(int \<times> string) list list \<Rightarrow> (int \<times> string) list" where
  "merge_participants sources =
     fold (\<lambda>pair out. if pair \<in> set out then out else out @ [pair]) (concat sources) []"

definition is_death_event :: "event \<Rightarrow> bool" where
  "is_death_event ev = (case ev_p ev of DeathPayload _ \<Rightarrow> True | _ \<Rightarrow> False)"

section \<open>One event\<close>

definition upsert_op :: "int \<Rightarrow> (string, cell) dict \<Rightarrow> unit op" where
  "upsert_op cid kwargs = db_op (\<lambda>db. Inr ((), upsert_character cid kwargs db))"

text \<open>The scheduler reads the registry before it takes the character, which may raise.\<close>

definition schedule_op :: "int \<Rightarrow> unit op" where
  "schedule_op cid = statement (\<lambda>w. (Inr (), w\<lparr>w_scheduled := w_scheduled w @ [cid]\<rparr>))"

definition row_of_event :: "event \<Rightarrow> string option \<Rightarrow> string \<Rightarrow> string \<Rightarrow> event_row" where
  "row_of_event ev date_iso now raw_line =
     \<lparr>er_id = 0, er_schema_version = ev_v ev, er_event_type = ev_t ev, er_event_date = ev_d ev,
      er_event_date_iso = date_iso, er_wall_clock_at = now, er_primary_character_id = ev_c ev,
      er_payload = ev, er_raw_line = raw_line\<rparr>"

definition ingest_event ::
  "event \<Rightarrow> string option \<Rightarrow> string \<Rightarrow> string \<Rightarrow> (int \<Rightarrow> unit op) \<Rightarrow> (int \<times> string) list \<Rightarrow> bool
   \<Rightarrow> bool \<Rightarrow> bool \<Rightarrow> (int \<Rightarrow> unit op) \<Rightarrow> int option op" where
  "ingest_event ev date_iso now raw_line upsert scope payload_first scheduler should_schedule on_ingested =
     bind_op (upsert (ev_c ev)) (\<lambda>_.
       let payload = payload_participants ev;
           participants = merge_participants (if payload_first then [payload, scope] else [scope, payload])
       in bind_op (for_each (\<lambda>(pid, _). upsert pid) participants) (\<lambda>_.
          bind_op (db_op (insert_event_idempotent (row_of_event ev date_iso now raw_line) participants)) (\<lambda>eid.
            case eid of
              None \<Rightarrow> return_op None
            | Some i \<Rightarrow>
                bind_op (upsert_op (ev_c ev) [(''last_seen_event_id'', Num i)]) (\<lambda>_.
                bind_op (when_op (scheduler \<and> is_death_event ev \<and> should_schedule) (schedule_op (ev_c ev))) (\<lambda>_.
                bind_op (on_ingested i) (\<lambda>_. return_op (Some i)))))))"

section \<open>One event of a diff\<close>

definition text_cell :: "string option \<Rightarrow> cell" where
  "text_cell s = (case s of None \<Rightarrow> Null | Some t \<Rightarrow> Text t)"

definition identity_fields :: "save_snapshot option \<Rightarrow> int \<Rightarrow> (string, cell) dict" where
  "identity_fields snap char_id =
     (case snap of
        None \<Rightarrow> []
      | Some s \<Rightarrow>
          (case dict_get (sn_characters s) char_id of
             None \<Rightarrow> []
           | Some c \<Rightarrow> [(''first_name'', text_cell (cs_first_name c)), (''nickname'', text_cell (cs_nickname c)),
               (''female'', Flag (cs_female c)), (''birth_date'', text_cell (cs_birth_date c)),
               (''death_date'', text_cell (cs_death_date c))]))"

definition upsert_character_from_snapshot :: "save_snapshot option \<Rightarrow> int \<Rightarrow> unit op" where
  "upsert_character_from_snapshot snap char_id = upsert_op char_id (identity_fields snap char_id)"

definition event_ingested_frame :: "event \<Rightarrow> int \<Rightarrow> frame" where
  "event_ingested_frame ev event_id = EventIngested event_id (ev_t ev) (ev_d ev) (ev_c ev)"

datatype process_outcome = Ingested | Duplicate | Error

record ingest_result =
  ir_outcome :: process_outcome
  ir_event_id :: "int option"

definition raw_line_of :: "string \<Rightarrow> event \<Rightarrow> string" where
  "raw_line_of save_name ev = ''save-diff: src='' @ save_name @ '' t='' @ ev_t ev @ '' d='' @ ev_d ev
     @ '' c='' @ show_int (ev_c ev)"

text \<open>The callback publishes at once where a bus is passed; the live path passes none.\<close>

definition ingest_diff_event ::
  "tick_env \<Rightarrow> save_snapshot option \<Rightarrow> bool \<Rightarrow> diff_event \<Rightarrow> ingest_result op" where
  "ingest_diff_event env snap publish_now d =
     (let ev = de_event d
      in bind_op (ingest_event ev (parse_ck3_date (ev_d ev)) (te_now env)
             (raw_line_of (te_save_name env) ev) (upsert_character_from_snapshot snap)
             (map (\<lambda>(role, cid). (cid, role)) (de_participants d)) False (te_scheduler env)
             (\<not> te_paused env)
             (\<lambda>i. when_op publish_now (publish env (event_ingested_frame ev i))))
           (\<lambda>eid. return_op (case eid of
              None \<Rightarrow> \<lparr>ir_outcome = Duplicate, ir_event_id = None\<rparr>
            | Some i \<Rightarrow> \<lparr>ir_outcome = Ingested, ir_event_id = Some i\<rparr>)))"

section \<open>A batch of events\<close>

definition error_result :: ingest_result where
  "error_result = \<lparr>ir_outcome = Error, ir_event_id = None\<rparr>"

text \<open>The loop: a savepoint for each event; what raises becomes an error result.\<close>

definition ingest_guarded :: "tick_env \<Rightarrow> save_snapshot option \<Rightarrow> diff_event \<Rightarrow> ingest_result op" where
  "ingest_guarded env snap d =
     catch_op (begin_nested (ingest_diff_event env snap False d)) (\<lambda>_. return_op error_result)"

fun ingest_all :: "tick_env \<Rightarrow> save_snapshot option \<Rightarrow> diff_event list \<Rightarrow> ingest_result list op" where
  "ingest_all env snap [] = return_op []"
| "ingest_all env snap (d # ds) =
     bind_op (ingest_guarded env snap d) (\<lambda>r.
     bind_op (ingest_all env snap ds) (\<lambda>rs. return_op (r # rs)))"

definition pending_frames :: "diff_event list \<Rightarrow> ingest_result list \<Rightarrow> frame list" where
  "pending_frames ds rs = List.map_filter (\<lambda>(d, r).
     if ir_outcome r = Ingested then map_option (event_ingested_frame (de_event d)) (ir_event_id r)
     else None) (zip ds rs)"

definition chars_with_new_events :: "diff_event list \<Rightarrow> ingest_result list \<Rightarrow> int fset" where
  "chars_with_new_events ds rs =
     fset_of_list (map (\<lambda>(d, _). de_c d) (filter (\<lambda>(_, r). ir_outcome r = Ingested) (zip ds rs)))"

definition ingest_diff_events ::
  "tick_env \<Rightarrow> save_snapshot option \<Rightarrow> diff_event list \<Rightarrow> (int fset \<times> ingest_result list) op" where
  "ingest_diff_events env snap ds =
     bind_op (session_scope (ingest_all env snap ds)) (\<lambda>rs.
     bind_op (for_each (publish env) (pending_frames ds rs)) (\<lambda>_.
     return_op (chars_with_new_events ds rs, rs)))"

text \<open>\<open>_tally_ingested_events\<close>.\<close>

definition tally_ingested_events :: "diff_event list \<Rightarrow> ingest_result list \<Rightarrow> nat \<times> (string, nat) dict" where
  "tally_ingested_events ds rs =
     fold (\<lambda>(d, r) (n, tally).
         if ir_outcome r = Ingested
         then (Suc n, dict_set tally (de_t d) (dict_get_default tally (de_t d) 0 + 1)) else (n, tally))
       (zip ds rs) (0, [])"

text \<open>\<open>process_save_pair\<close>: one session of the caller, no savepoints, frames at once.\<close>

fun ingest_each :: "tick_env \<Rightarrow> save_snapshot option \<Rightarrow> diff_event list \<Rightarrow> ingest_result list op" where
  "ingest_each env snap [] = return_op []"
| "ingest_each env snap (d # ds) =
     bind_op (ingest_diff_event env snap True d) (\<lambda>r.
     bind_op (ingest_each env snap ds) (\<lambda>rs. return_op (r # rs)))"

definition save_pair_completed :: "tick_env \<Rightarrow> string \<Rightarrow> nat \<Rightarrow> (string, nat) dict \<Rightarrow> frame" where
  "save_pair_completed env date n tally =
     SavePairCompleted (te_save_name env) date (te_now env) n tally"

definition process_save_pair :: "tick_env \<Rightarrow> save_snapshot \<Rightarrow> save_snapshot \<Rightarrow> ingest_result list op" where
  "process_save_pair env prev cur =
     (case diff_snapshots (te_id_order env) (te_key_order env) prev cur None of
        Inl e \<Rightarrow> raise_op (Py_Exn e)
      | Inr ds \<Rightarrow>
          bind_op (ingest_each env (Some cur) ds) (\<lambda>rs.
          case tally_ingested_events ds rs of (n, tally) \<Rightarrow>
          bind_op (publish env (save_pair_completed env (sn_current_date cur) n tally)) (\<lambda>_.
          return_op rs)))"

text \<open>
  What a batch of events does to the database: the abstract operation \<open>stored\<close> on the database
  alone, that every run of the code which returns does exactly that for the events that did not
  fail, that it leaves the database intact, and that a second run of the same batch changes nothing.
\<close>

section \<open>The abstract operation\<close>

definition participants_of :: "diff_event \<Rightarrow> (int \<times> string) list" where
  "participants_of d =
     merge_participants [map (\<lambda>(role, cid). (cid, role)) (de_participants d), payload_participants (de_event d)]"

definition touch_characters :: "save_snapshot option \<Rightarrow> int list \<Rightarrow> campaign_db \<Rightarrow> campaign_db" where
  "touch_characters snap cids = fold (\<lambda>cid. upsert_character cid (identity_fields snap cid)) cids"

definition touched :: "diff_event \<Rightarrow> int list" where
  "touched d = de_c d # map fst (participants_of d)"

definition diff_row :: "tick_env \<Rightarrow> diff_event \<Rightarrow> event_row" where
  "diff_row env d = row_of_event (de_event d) (parse_ck3_date (ev_d (de_event d))) (te_now env)
     (raw_line_of (te_save_name env) (de_event d))"

definition inserted :: "tick_env \<Rightarrow> diff_event \<Rightarrow> campaign_db \<Rightarrow> (int option \<times> campaign_db) db_result" where
  "inserted env d db = insert_event_idempotent (diff_row env d) (participants_of d) db"

definition stored :: "tick_env \<Rightarrow> save_snapshot option \<Rightarrow> diff_event \<Rightarrow> campaign_db \<Rightarrow> ingest_result \<times> campaign_db" where
  "stored env snap d db =
     (case inserted env d (touch_characters snap (touched d) db) of
        Inr (Some i, db') \<Rightarrow> (\<lparr>ir_outcome = Ingested, ir_event_id = Some i\<rparr>,
            upsert_character (de_c d) [(''last_seen_event_id'', Num i)] db')
      | Inr (None, db') \<Rightarrow> (\<lparr>ir_outcome = Duplicate, ir_event_id = None\<rparr>, db')
      | Inl _ \<Rightarrow> (error_result, db))"

definition announced :: "tick_env \<Rightarrow> diff_event \<Rightarrow> ingest_result \<Rightarrow> int list" where
  "announced env d r =
     (if ir_outcome r = Ingested \<and> te_scheduler env \<and> is_death_event (de_event d) \<and> \<not> te_paused env
      then [de_c d] else [])"

section \<open>Touching characters\<close>

lemma touch_simps [simp]:
  "touch_characters snap [] db = db"
  "touch_characters snap (c # cs) db = touch_characters snap cs (upsert_character c (identity_fields snap c) db)"
  by (simp_all add: touch_characters_def)

lemma touch_tables [simp]:
  "db_events (touch_characters snap cs db) = db_events db"
  "db_participants (touch_characters snap cs db) = db_participants db"
  "db_coa_history (touch_characters snap cs db) = db_coa_history db"
  "db_biographies (touch_characters snap cs db) = db_biographies db"
  "db_meta (touch_characters snap cs db) = db_meta db"
  "db_quarantine (touch_characters snap cs db) = db_quarantine db"
  by (induction cs arbitrary: db) simp_all

lemma known_touch [simp]: "known (touch_characters snap cs db) c \<longleftrightarrow> c \<in> set cs \<or> known db c"
  by (induction cs arbitrary: db) auto

lemma touch_ok: "db_ok db \<Longrightarrow> db_ok (touch_characters snap cs db)"
  by (induction cs arbitrary: db) (simp_all add: upsert_ok)

lemma inserted_total: "\<exists>out db'. inserted env d (touch_characters snap (touched d) db) = Inr (out, db')"
  unfolding inserted_def
proof (rule insert_event_total)
  show "known (touch_characters snap (touched d) db) (er_primary_character_id (diff_row env d))"
    by (simp add: diff_row_def row_of_event_def touched_def)
  show "known (touch_characters snap (touched d) db) c" if "(c, r) \<in> set (participants_of d)" for c r
    using that by (force simp: touched_def)
qed

section \<open>The code does the abstract operation\<close>

lemma statement_Inr:
  "statement f F w = (Inr a, w') \<Longrightarrow> f (w\<lparr>w_clock := Suc (w_clock w)\<rparr>) = (Inr a, w')"
  by (auto simp: statement_def Let_def split: if_splits)

lemma plain_statement_Inr: "plain_statement F w = (Inr a, w') \<Longrightarrow> w' = w\<lparr>w_clock := Suc (w_clock w)\<rparr>"
  unfolding plain_statement_def by (drule statement_Inr) simp

lemma db_op_Inr:
  "db_op g F w = (Inr a, w') \<Longrightarrow>
     \<exists>db. g (w_db w) = Inr (a, db) \<and> w' = w\<lparr>w_clock := Suc (w_clock w), w_db := db\<rparr>"
  unfolding db_op_def by (drule statement_Inr) (auto split: sum.splits prod.splits)

lemma upsert_op_Inr:
  "upsert_op cid kw F w = (Inr u, w') \<Longrightarrow>
     w' = w\<lparr>w_clock := Suc (w_clock w), w_db := upsert_character cid kw (w_db w)\<rparr>"
  unfolding upsert_op_def by (drule db_op_Inr) simp

lemma for_each_upsert_Inr:
  "for_each (\<lambda>(pid, _). upsert_character_from_snapshot snap pid) ps F w = (Inr u, w') \<Longrightarrow>
     \<exists>n. w' = w\<lparr>w_clock := n, w_db := touch_characters snap (map fst ps) (w_db w)\<rparr>"
proof (induction ps arbitrary: w)
  case (Cons p ps)
  obtain c r where p: "p = (c, r)" by force
  from Cons.prems obtain w1 where w1: "upsert_op c (identity_fields snap c) F w = (Inr (), w1)"
    "for_each (\<lambda>(pid, _). upsert_character_from_snapshot snap pid) ps F w1 = (Inr u, w')"
    by (auto simp: bind_op_Inr p upsert_character_from_snapshot_def)
  show ?case using Cons.IH [OF w1(2)] upsert_op_Inr [OF w1(1)] by (auto simp: p)
qed (auto intro!: exI [of _ "w_clock w'"])

lemma schedule_op_Inr:
  "schedule_op c F w = (Inr u, w') \<Longrightarrow>
     w' = w\<lparr>w_clock := Suc (w_clock w), w_scheduled := w_scheduled w @ [c]\<rparr>"
  unfolding schedule_op_def by (drule statement_Inr) simp

lemma when_op_simps [simp]: "when_op True m = m" "when_op False m = return_op ()"
  by (simp_all add: when_op_def)

definition after_insert :: "tick_env \<Rightarrow> diff_event \<Rightarrow> int option \<Rightarrow> int option op" where
  "after_insert env d eid =
     (case eid of
        None \<Rightarrow> return_op None
      | Some i \<Rightarrow>
          bind_op (upsert_op (de_c d) [(''last_seen_event_id'', Num i)]) (\<lambda>_.
          bind_op (when_op (te_scheduler env \<and> is_death_event (de_event d) \<and> \<not> te_paused env)
              (schedule_op (de_c d))) (\<lambda>_. return_op (Some i))))"

definition result_of :: "int option \<Rightarrow> ingest_result" where
  "result_of eid = (case eid of
       None \<Rightarrow> \<lparr>ir_outcome = Duplicate, ir_event_id = None\<rparr>
     | Some i \<Rightarrow> \<lparr>ir_outcome = Ingested, ir_event_id = Some i\<rparr>)"

lemma ingest_diff_event_eq:
  "ingest_diff_event env snap False d =
     bind_op (bind_op (upsert_op (de_c d) (identity_fields snap (de_c d))) (\<lambda>_.
       bind_op (for_each (\<lambda>(pid, _). upsert_character_from_snapshot snap pid) (participants_of d)) (\<lambda>_.
       bind_op (db_op (inserted env d)) (after_insert env d)))) (\<lambda>eid. return_op (result_of eid))"
  by (simp add: ingest_diff_event_def ingest_event_def Let_def participants_of_def diff_row_def
      inserted_def [abs_def] after_insert_def [abs_def] result_of_def [abs_def] upsert_character_from_snapshot_def
      del: return_op_simps(1) cong: option.case_cong)

lemma after_insert_Inr:
  assumes "after_insert env d eid F w = (Inr out, w')"
  shows "out = eid \<and> (\<exists>n. w' = w\<lparr>w_clock := n,
      w_db := (case eid of None \<Rightarrow> w_db w
        | Some i \<Rightarrow> upsert_character (de_c d) [(''last_seen_event_id'', Num i)] (w_db w)),
      w_scheduled := w_scheduled w @ announced env d (result_of eid)\<rparr>)"
proof (cases eid)
  case None
  then show ?thesis using assms
    by (auto simp: after_insert_def result_of_def announced_def intro!: exI [of _ "w_clock w"])
next
  case (Some i)
  with assms obtain w4 where w4: "upsert_op (de_c d) [(''last_seen_event_id'', Num i)] F w = (Inr (), w4)"
    and w': "when_op (te_scheduler env \<and> is_death_event (de_event d) \<and> \<not> te_paused env)
             (schedule_op (de_c d)) F w4 = (Inr (), w')" and out: "out = Some i"
    by (auto simp: after_insert_def bind_op_Inr)
  show ?thesis
  proof (cases "te_scheduler env \<and> is_death_event (de_event d) \<and> \<not> te_paused env")
    case True
    with w' have "schedule_op (de_c d) F w4 = (Inr (), w')" by simp
    from schedule_op_Inr [OF this] show ?thesis
      using upsert_op_Inr [OF w4] True Some out
      by (auto simp: result_of_def announced_def intro!: exI [of _ "w_clock w'"])
  next
    case False
    then have "w' = w4" using w' by (simp only: when_op_simps return_op_simps prod.inject simp_thms)
    then show ?thesis using upsert_op_Inr [OF w4] False Some out
      by (auto simp: result_of_def announced_def intro!: exI [of _ "w_clock w'"])
  qed
qed

lemma ingest_diff_event_Inr:
  assumes "ingest_diff_event env snap False d F w = (Inr r, w')"
  shows "r = fst (stored env snap d (w_db w)) \<and> (\<exists>n. w' = w\<lparr>w_clock := n,
      w_db := snd (stored env snap d (w_db w)), w_scheduled := w_scheduled w @ announced env d r\<rparr>)"
proof -
  let ?ps = "participants_of d" and ?db = "touch_characters snap (touched d) (w_db w)"
  from assms [unfolded ingest_diff_event_eq] obtain w1 w2 w3 out eid
    where w1: "upsert_op (de_c d) (identity_fields snap (de_c d)) F w = (Inr (), w1)"
    and w2: "for_each (\<lambda>(pid, _). upsert_character_from_snapshot snap pid) ?ps F w1 = (Inr (), w2)"
    and w3: "db_op (inserted env d) F w2 = (Inr eid, w3)"
    and w4: "after_insert env d eid F w3 = (Inr out, w')" and r: "r = result_of out"
    by (auto simp: bind_op_Inr)
  obtain n where n: "w2 = w\<lparr>w_clock := n, w_db := ?db\<rparr>"
    using upsert_op_Inr [OF w1] for_each_upsert_Inr [OF w2] by (auto simp: touched_def)
  obtain db where db: "inserted env d ?db = Inr (eid, db)" "w3 = w\<lparr>w_clock := Suc n, w_db := db\<rparr>"
    using db_op_Inr [OF w3] by (auto simp: n)
  show ?thesis using after_insert_Inr [OF w4] r db
    by (auto simp: stored_def result_of_def split: option.split)
qed

end
