(* ===== verification/Ingest_Runs.thy ===== *)
theory Ingest_Runs
  imports Ingest_Event "HOL-Library.Sublist"
begin

text \<open>
  Runs of a batch of events, whatever raises: the invariant of the database and of what is outside
  it, the batch as a fold of the abstract operation over the events that did not fail, and the
  second run of the same batch.
\<close>

section \<open>What every step of a tick keeps\<close>

definition db_grows :: "campaign_db \<Rightarrow> campaign_db \<Rightarrow> bool" where
  "db_grows db db' \<longleftrightarrow> prefix (db_events db) (db_events db') \<and> prefix (db_participants db) (db_participants db')
     \<and> prefix (db_coa_history db) (db_coa_history db') \<and> prefix (db_biographies db) (db_biographies db')
     \<and> (\<forall>c. known db c \<longrightarrow> known db' c)"

lemma db_grows_refl: "db_grows db db"
  by (simp add: db_grows_def)

lemma db_grows_trans: "db_grows a b \<Longrightarrow> db_grows b c \<Longrightarrow> db_grows a c"
  unfolding db_grows_def by (meson prefix_order.trans)

definition tick_kept :: "world \<Rightarrow> world \<Rightarrow> bool" where
  "tick_kept w w' \<longleftrightarrow> (db_ok (w_db w) \<longrightarrow> db_ok (w_db w')) \<and> db_grows (w_db w) (w_db w')
     \<and> prefix (w_frames w) (w_frames w') \<and> prefix (w_scheduled w) (w_scheduled w')
     \<and> prefix (w_resumed w) (w_resumed w')"

definition outside_kept :: "world \<Rightarrow> world \<Rightarrow> bool" where
  "outside_kept w w' \<longleftrightarrow> w_registry w' = w_registry w \<and> w_baseline w' = w_baseline w
     \<and> w_frames w' = w_frames w \<and> w_resumed w' = w_resumed w"

interpretation tick: rolled_back_relation tick_kept
proof unfold_locales
  show "tick_kept a c" if "tick_kept a b" "tick_kept b c" for a b c
    using that db_grows_trans unfolding tick_kept_def by (meson prefix_order.trans)
qed (simp_all add: tick_kept_def db_grows_refl)

interpretation quiet: rolled_back_relation outside_kept
  by unfold_locales (simp_all add: outside_kept_def)

lemma upsert_grows: "db_grows db (upsert_character cid kw db)"
  by (simp add: db_grows_def)

lemma insert_event_grows:
  assumes "insert_event_idempotent row ps db = Inr (out, db')" shows "db_grows db db'"
  using insert_event_spec [OF assms]
proof (elim disjE conjE)
  let ?i = "next_id (map er_id (db_events db))"
  assume "insert_participants ?i ps (db\<lparr>db_events := db_events db @ [row\<lparr>er_id := ?i\<rparr>]\<rparr>) = Inr db'"
  from insert_participants_spec [OF this] show ?thesis by (auto simp: db_grows_def known_def)
qed (simp add: db_grows_refl)

lemma tick_kept_db: "(db_ok (w_db w) \<longrightarrow> db_ok db) \<Longrightarrow> db_grows (w_db w) db \<Longrightarrow> tick_kept w (w\<lparr>w_db := db\<rparr>)"
  by (simp add: tick_kept_def)

lemma keeps_upsert: "keeps tick_kept (upsert_op cid kw)" "keeps outside_kept (upsert_op cid kw)"
  unfolding upsert_op_def
  by (auto intro!: tick.keeps_db quiet.keeps_db tick_kept_db simp: upsert_ok upsert_grows outside_kept_def)

lemma keeps_insert:
  "keeps tick_kept (db_op (insert_event_idempotent row ps))"
  "keeps outside_kept (db_op (insert_event_idempotent row ps))"
  by (auto intro!: tick.keeps_db quiet.keeps_db tick_kept_db intro: insert_event_ok insert_event_grows
      simp: outside_kept_def)

lemma keeps_schedule: "keeps tick_kept (schedule_op c)" "keeps outside_kept (schedule_op c)"
  unfolding schedule_op_def
  by (auto intro!: tick.keeps_statement quiet.keeps_statement simp: tick_kept_def outside_kept_def db_grows_refl)

lemma keeps_publish: "keeps tick_kept (publish env f)"
  unfolding publish_def by (intro tick.keeps_when tick.keeps_modify) (simp add: tick_kept_def db_grows_refl)

lemma keeps_ingest_diff_event:
  "keeps tick_kept (ingest_diff_event env snap now d)"
  unfolding ingest_diff_event_def ingest_event_def upsert_character_from_snapshot_def Let_def
  by (intro tick.keeps_bind)
    (auto intro!: tick.keeps_all keeps_upsert keeps_insert keeps_schedule keeps_publish
      simp del: return_op_simps(1) split: option.split)

lemma quiet_ingest_diff_event: "keeps outside_kept (ingest_diff_event env snap False d)"
  unfolding ingest_diff_event_def ingest_event_def upsert_character_from_snapshot_def Let_def
  by (intro quiet.keeps_bind)
    (auto intro!: quiet.keeps_all keeps_upsert keeps_insert keeps_schedule
      simp del: return_op_simps(1) split: option.split)

lemma keeps_ingest_all:
  "keeps tick_kept (ingest_all env snap ds)" "keeps outside_kept (ingest_all env snap ds)"
  unfolding atomize_conj
  by (induction ds) (auto simp: ingest_guarded_def simp del: return_op_simps(1)
      intro!: tick.keeps_all quiet.keeps_all keeps_ingest_diff_event quiet_ingest_diff_event)

lemma keeps_ingest_diff_events: "keeps tick_kept (ingest_diff_events env snap ds)"
  unfolding ingest_diff_events_def by (intro tick.keeps_all keeps_ingest_all keeps_publish)

section \<open>One guarded event\<close>

lemma stored_outcome: "ir_outcome (fst (stored env snap d db)) \<noteq> Error"
  using inserted_total [of env d snap db] by (auto simp: stored_def split: option.splits)

lemma rollback_on_error_simps:
  "rollback_on_error m F w = (Inr a, w') \<longleftrightarrow> m F w = (Inr a, w')"
  "rollback_on_error m F w = (Inl e, w') \<longleftrightarrow> (\<exists>w1. m F w = (Inl e, w1) \<and> w' = w1\<lparr>w_db := w_db w\<rparr>)"
  by (cases "m F w"; cases "fst (m F w)"; auto simp: rollback_on_error_def)+

lemma plain_statement_cases: "plain_statement F w = (r, w') \<Longrightarrow> w' = w\<lparr>w_clock := Suc (w_clock w)\<rparr>"
  by (auto simp: plain_statement_def statement_def Let_def split: if_splits)

lemma begin_nested_Inr:
  "begin_nested m F w = (Inr a, w') \<Longrightarrow>
     \<exists>n. \<exists>w1. m F (w\<lparr>w_clock := Suc (w_clock w)\<rparr>) = (Inr a, w1) \<and> w' = w1\<lparr>w_clock := n\<rparr>"
  unfolding begin_nested_def bind_op_Inr rollback_on_error_simps
  by (auto dest!: plain_statement_Inr)

lemma begin_nested_Inl: "begin_nested m F w = (Inl e, w') \<Longrightarrow> w_db w' = w_db w"
  by (auto simp: begin_nested_def bind_op_Inl rollback_on_error_simps dest!: plain_statement_cases)

text \<open>What a guarded event leaves, whatever raised.\<close>

lemma ingest_guarded_run:
  "\<exists>r w'. ingest_guarded env snap d F w = (Inr r, w') \<and>
     (if ir_outcome r = Error then r = error_result \<and> w_db w' = w_db w
      else r = fst (stored env snap d (w_db w)) \<and> w_db w' = snd (stored env snap d (w_db w))
        \<and> w_scheduled w' = w_scheduled w @ announced env d r)"
proof -
  obtain out w' where run: "begin_nested (ingest_diff_event env snap False d) F w = (out, w')" by force
  show ?thesis
  proof (cases out)
    case (Inl e)
    then have "ingest_guarded env snap d F w = (Inr error_result, w')"
      using run by (simp add: ingest_guarded_def catch_op_def)
    moreover have "w_db w' = w_db w" by (rule begin_nested_Inl) (use run Inl in simp)
    ultimately show ?thesis by (auto simp: error_result_def)
  next
    case (Inr r)
    then have eq: "ingest_guarded env snap d F w = (Inr r, w')"
      using run by (simp add: ingest_guarded_def catch_op_def)
    obtain n w1 where w1: "ingest_diff_event env snap False d F (w\<lparr>w_clock := Suc (w_clock w)\<rparr>) = (Inr r, w1)"
      "w' = w1\<lparr>w_clock := n\<rparr>" using begin_nested_Inr [OF run [unfolded Inr]] by blast
    from ingest_diff_event_Inr [OF w1(1)] obtain k where k: "r = fst (stored env snap d (w_db w))"
      "w1 = w\<lparr>w_clock := k, w_db := snd (stored env snap d (w_db w)),
         w_scheduled := w_scheduled w @ announced env d r\<rparr>" by auto
    show ?thesis using eq k w1(2) stored_outcome [of env snap d "w_db w"] by auto
  qed
qed

section \<open>A batch\<close>

text \<open>The batch on the database alone: the events marked as failed are skipped.\<close>

fun store_good ::
  "tick_env \<Rightarrow> save_snapshot option \<Rightarrow> (diff_event \<times> bool) list \<Rightarrow> campaign_db
   \<Rightarrow> ingest_result list \<times> campaign_db" where
  "store_good env snap [] db = ([], db)"
| "store_good env snap ((d, failed) # ds) db =
     (let (r, db1) = (if failed then (error_result, db) else stored env snap d db);
          (rs, db2) = store_good env snap ds db1
      in (r # rs, db2))"

definition failed :: "ingest_result \<Rightarrow> bool" where
  "failed r \<longleftrightarrow> ir_outcome r = Error"

definition all_announced :: "tick_env \<Rightarrow> diff_event list \<Rightarrow> ingest_result list \<Rightarrow> int list" where
  "all_announced env ds rs = concat (map (\<lambda>(d, r). announced env d r) (zip ds rs))"

lemma ingest_all_run:
  "\<exists>rs w'. ingest_all env snap ds F w = (Inr rs, w') \<and> length rs = length ds
     \<and> store_good env snap (zip ds (map failed rs)) (w_db w) = (rs, w_db w')
     \<and> (list_all (\<lambda>r. \<not> failed r) rs \<longrightarrow> w_scheduled w' = w_scheduled w @ all_announced env ds rs)"
proof (induction ds arbitrary: w)
  case Nil
  then show ?case by (simp add: all_announced_def)
next
  case (Cons d ds)
  obtain r w1 where r: "ingest_guarded env snap d F w = (Inr r, w1)"
    "if failed r then r = error_result \<and> w_db w1 = w_db w
      else r = fst (stored env snap d (w_db w)) \<and> w_db w1 = snd (stored env snap d (w_db w))
        \<and> w_scheduled w1 = w_scheduled w @ announced env d r"
    using ingest_guarded_run unfolding failed_def by blast
  obtain rs w' where rs: "ingest_all env snap ds F w1 = (Inr rs, w')" "length rs = length ds"
    "store_good env snap (zip ds (map failed rs)) (w_db w1) = (rs, w_db w')"
    "list_all (\<lambda>r. \<not> failed r) rs \<longrightarrow> w_scheduled w' = w_scheduled w1 @ all_announced env ds rs"
    using Cons.IH by blast
  have "ingest_all env snap (d # ds) F w = (Inr (r # rs), w')"
    using r(1) rs(1) by (simp add: bind_op_def return_op_def)
  moreover have "store_good env snap (zip (d # ds) (map failed (r # rs))) (w_db w) = (r # rs, w_db w')"
    using r(2) rs(3) by (auto simp: split_beta split: if_splits)
  moreover have "w_scheduled w' = w_scheduled w @ all_announced env (d # ds) (r # rs)"
    if "list_all (\<lambda>r. \<not> failed r) (r # rs)"
    using that r(2) rs(4) by (simp add: all_announced_def)
  ultimately show ?case using rs(2) by (intro exI [of _ "r # rs"] exI [of _ w'] conjI impI) simp_all
qed

section \<open>The whole batch, with its commit and its frames\<close>

lemma publish_run:
  "publish env f F w = (Inr (), w\<lparr>w_frames := w_frames w @ (if te_bus env then [f] else [])\<rparr>)"
  by (simp add: publish_def modify_op_def)

lemma publish_all_run:
  "for_each (publish env) fs F w = (Inr (), w\<lparr>w_frames := w_frames w @ (if te_bus env then fs else [])\<rparr>)"
  by (induction fs arbitrary: w) (simp_all add: bind_op_def publish_run)

lemma session_scope_Inr:
  "session_scope m F w = (Inr a, w') \<longleftrightarrow>
     (\<exists>w1. m F w = (Inr a, w1) \<and> plain_statement F w1 = (Inr (), w'))"
  by (auto simp: session_scope_def rollback_on_error_simps bind_op_Inr)

lemma session_scope_Inl: "session_scope m F w = (Inl e, w') \<Longrightarrow> w_db w' = w_db w"
  by (auto simp: session_scope_def rollback_on_error_simps)

text \<open>Either the commit raises and nothing is stored and nothing published, or the good events are
  stored and published, after the commit.\<close>

lemma ingest_diff_events_run:
  "(\<exists>e w'. ingest_diff_events env snap ds F w = (Inl e, w') \<and> w_db w' = w_db w \<and> w_frames w' = w_frames w)
   \<or> (\<exists>rs w'. ingest_diff_events env snap ds F w = (Inr (chars_with_new_events ds rs, rs), w')
        \<and> length rs = length ds
        \<and> store_good env snap (zip ds (map failed rs)) (w_db w) = (rs, w_db w')
        \<and> w_frames w' = w_frames w @ (if te_bus env then pending_frames ds rs else [])
        \<and> (list_all (\<lambda>r. \<not> failed r) rs \<longrightarrow> w_scheduled w' = w_scheduled w @ all_announced env ds rs))"
proof -
  obtain rs w1 where run: "ingest_all env snap ds F w = (Inr rs, w1)" "length rs = length ds"
    "store_good env snap (zip ds (map failed rs)) (w_db w) = (rs, w_db w1)"
    "list_all (\<lambda>r. \<not> failed r) rs \<longrightarrow> w_scheduled w1 = w_scheduled w @ all_announced env ds rs"
    using ingest_all_run by blast
  have fr: "w_frames w1 = w_frames w"
    using keepsD [OF keeps_ingest_all(2) run(1)] by (simp add: outside_kept_def)
  let ?w = "w1\<lparr>w_clock := Suc (w_clock w1)\<rparr>"
  show ?thesis
  proof (cases "F (w_clock w1)")
    case True
    then have "session_scope (ingest_all env snap ds) F w = (Inl (Db_Exn OperationalError), ?w\<lparr>w_db := w_db w\<rparr>)"
      using run(1) by (simp add: session_scope_def rollback_on_error_simps bind_op_Inl plain_statement_def
          statement_def)
    then show ?thesis using fr by (simp add: ingest_diff_events_def bind_op_def)
  next
    case False
    then have "session_scope (ingest_all env snap ds) F w = (Inr rs, ?w)"
      using run(1) by (simp add: session_scope_Inr plain_statement_def statement_def)
    then have "ingest_diff_events env snap ds F w = (Inr (chars_with_new_events ds rs, rs),
        ?w\<lparr>w_frames := w_frames w1 @ (if te_bus env then pending_frames ds rs else [])\<rparr>)"
      by (simp add: ingest_diff_events_def bind_op_def publish_all_run)
    then show ?thesis using run(2-4) fr by simp
  qed
qed

section \<open>Without faults\<close>

lemma statement_no_faults: "statement f no_faults w = f (w\<lparr>w_clock := Suc (w_clock w)\<rparr>)"
  by (simp add: statement_def no_faults_never)

lemma plain_no_faults [simp]: "plain_statement no_faults w = (Inr (), w\<lparr>w_clock := Suc (w_clock w)\<rparr>)"
  by (simp add: plain_statement_def statement_no_faults)

lemma upsert_no_faults [simp]:
  "upsert_op cid kw no_faults w = (Inr (), w\<lparr>w_clock := Suc (w_clock w), w_db := upsert_character cid kw (w_db w)\<rparr>)"
  by (simp add: upsert_op_def db_op_def statement_no_faults)

lemma schedule_no_faults [simp]:
  "schedule_op c no_faults w = (Inr (), w\<lparr>w_clock := Suc (w_clock w), w_scheduled := w_scheduled w @ [c]\<rparr>)"
  by (simp add: schedule_op_def statement_no_faults)

lemma for_each_total:
  "(\<And>x w. \<exists>w'. f x F w = (Inr (), w')) \<Longrightarrow> \<exists>w'. for_each f xs F w = (Inr (), w')"
  by (induction xs arbitrary: w) (simp, metis for_each.simps(2) bind_op_Inr)

lemma after_insert_total: "\<exists>out w'. after_insert env d eid no_faults w = (Inr out, w')"
  by (cases eid) (simp_all add: after_insert_def bind_op_def when_op_def)

lemma ingest_no_faults: "\<exists>r w'. ingest_diff_event env snap False d no_faults w = (Inr r, w')"
proof -
  let ?ps = "participants_of d" and ?db = "touch_characters snap (touched d) (w_db w)"
  define w1 where "w1 = w\<lparr>w_clock := Suc (w_clock w),
      w_db := upsert_character (de_c d) (identity_fields snap (de_c d)) (w_db w)\<rparr>"
  have w1: "upsert_op (de_c d) (identity_fields snap (de_c d)) no_faults w = (Inr (), w1)" by (simp add: w1_def)
  have "\<exists>w'. for_each (\<lambda>(pid, _). upsert_character_from_snapshot snap pid) ?ps no_faults w1 = (Inr (), w')"
    by (rule for_each_total) (auto simp: upsert_character_from_snapshot_def)
  then obtain w2 where w2: "for_each (\<lambda>(pid, _). upsert_character_from_snapshot snap pid) ?ps no_faults w1 = (Inr (), w2)"
    by blast
  obtain n where "w2 = w\<lparr>w_clock := n, w_db := ?db\<rparr>"
    using for_each_upsert_Inr [OF w2] by (auto simp: touched_def w1_def)
  moreover obtain eid db where "inserted env d ?db = Inr (eid, db)" using inserted_total by blast
  ultimately have "db_op (inserted env d) no_faults w2 = (Inr eid, w\<lparr>w_clock := Suc n, w_db := db\<rparr>)"
    by (simp add: db_op_def statement_no_faults)
  then show ?thesis using after_insert_total [of env d eid "w\<lparr>w_clock := Suc n, w_db := db\<rparr>"] w1 w2
    unfolding ingest_diff_event_eq by (auto simp: bind_op_def)
qed

lemma guarded_no_faults:
  "\<exists>r w'. ingest_guarded env snap d no_faults w = (Inr r, w') \<and> \<not> failed r"
proof -
  obtain r w' where run: "ingest_diff_event env snap False d no_faults (w\<lparr>w_clock := Suc (w_clock w)\<rparr>) = (Inr r, w')"
    using ingest_no_faults by blast
  then have "\<not> failed r" using ingest_diff_event_Inr [OF run] stored_outcome by (simp add: failed_def)
  moreover have "\<exists>w''. begin_nested (ingest_diff_event env snap False d) no_faults w = (Inr r, w'')"
    using run by (simp add: begin_nested_def bind_op_def rollback_on_error_def)
  ultimately show ?thesis by (auto simp: ingest_guarded_def catch_op_def)
qed

lemma all_no_faults:
  "\<exists>rs w'. ingest_all env snap ds no_faults w = (Inr rs, w') \<and> list_all (\<lambda>r. \<not> failed r) rs"
proof (induction ds arbitrary: w)
  case (Cons d ds)
  obtain r w1 where r: "ingest_guarded env snap d no_faults w = (Inr r, w1)" "\<not> failed r"
    using guarded_no_faults by blast
  obtain rs w2 where rs: "ingest_all env snap ds no_faults w1 = (Inr rs, w2)" "list_all (\<lambda>r. \<not> failed r) rs"
    using Cons.IH by blast
  show ?case using r rs by (simp add: bind_op_def)
qed simp

lemma batch_no_faults:
  "\<exists>rs w'. ingest_diff_events env snap ds no_faults w = (Inr (chars_with_new_events ds rs, rs), w')
     \<and> list_all (\<lambda>r. \<not> failed r) rs"
proof -
  obtain rs w1 where "ingest_all env snap ds no_faults w = (Inr rs, w1)" "list_all (\<lambda>r. \<not> failed r) rs"
    using all_no_faults by blast
  then show ?thesis
    by (simp add: ingest_diff_events_def session_scope_def rollback_on_error_def bind_op_def publish_all_run)
qed

section \<open>What is stored\<close>

definition diff_key :: "diff_event \<Rightarrow> string \<times> string \<times> int \<times> event" where
  "diff_key d = (let e = de_event d in (ev_t e, ev_d e, ev_c e, e))"

definition event_keys :: "campaign_db \<Rightarrow> (string \<times> string \<times> int \<times> event) set" where
  "event_keys db = event_row_key ` set (db_events db)"

lemma diff_row_key [simp]: "event_row_key (diff_row env d) = diff_key d"
  by (simp add: event_row_key_def diff_row_def row_of_event_def diff_key_def Let_def)

text \<open>A known event leaves the events alone; a new one is appended under the next identifier.\<close>

lemma stored_spec:
  "if diff_key d \<in> event_keys db
   then stored env snap d db = (\<lparr>ir_outcome = Duplicate, ir_event_id = None\<rparr>, touch_characters snap (touched d) db)
   else fst (stored env snap d db) = \<lparr>ir_outcome = Ingested, ir_event_id = Some (next_id (map er_id (db_events db)))\<rparr>
     \<and> db_events (snd (stored env snap d db))
       = db_events db @ [(diff_row env d)\<lparr>er_id := next_id (map er_id (db_events db))\<rparr>]"
proof -
  let ?db = "touch_characters snap (touched d) db"
  obtain out db' where ins: "inserted env d ?db = Inr (out, db')" using inserted_total by blast
  have "insert_event_idempotent (diff_row env d) (participants_of d) ?db = Inr (out, db')"
    using ins by (simp add: inserted_def)
  from insert_event_spec [OF this] show ?thesis
  proof (elim disjE conjE)
    assume "event_row_key (diff_row env d) \<in> event_row_key ` set (db_events ?db)" "out = None" "db' = ?db"
    then show ?thesis using ins by (simp add: stored_def event_keys_def)
  next
    let ?i = "next_id (map er_id (db_events ?db))"
    assume new: "event_row_key (diff_row env d) \<notin> event_row_key ` set (db_events ?db)" "out = Some ?i"
      and p: "insert_participants ?i (participants_of d)
        (?db\<lparr>db_events := db_events ?db @ [(diff_row env d)\<lparr>er_id := ?i\<rparr>]\<rparr>) = Inr db'"
    have "db_events db' = db_events ?db @ [(diff_row env d)\<lparr>er_id := ?i\<rparr>]"
      using insert_participants_spec [OF p] by auto
    then show ?thesis using ins new by (simp add: stored_def event_keys_def)
  qed
qed

lemma stored_keys: "event_keys (snd (stored env snap d db)) = insert (diff_key d) (event_keys db)"
  using stored_spec [of d db env snap] by (auto simp: event_keys_def split: if_splits)

lemma stored_characters:
  "db_characters (snd (stored env snap d db)) = db_characters
     (case ir_event_id (fst (stored env snap d db)) of
        None \<Rightarrow> touch_characters snap (touched d) db
      | Some i \<Rightarrow> upsert_character (de_c d) [(''last_seen_event_id'', Num i)] (touch_characters snap (touched d) db))"
proof -
  let ?db = "touch_characters snap (touched d) db"
  obtain out db' where ins: "inserted env d ?db = Inr (out, db')" using inserted_total by blast
  have run: "insert_event_idempotent (diff_row env d) (participants_of d) ?db = Inr (out, db')"
    using ins by (simp add: inserted_def)
  have "db_characters db' = db_characters ?db"
    using insert_event_spec [OF run]
    by (elim disjE conjE) (simp, drule insert_participants_spec, auto)
  then show ?thesis using ins by (simp add: stored_def upsert_character_def Let_def split: option.split)
qed

section \<open>Upserting twice\<close>

definition accepted :: "(string, cell) dict \<Rightarrow> (string, cell) dict" where
  "accepted kw = update_set (filter (\<lambda>(k, _). k \<in> set CHARACTER_UPDATABLE_FIELDS) kw)"

definition holds_columns :: "char_row \<Rightarrow> (string, cell) dict \<Rightarrow> bool" where
  "holds_columns row kw \<longleftrightarrow> (\<forall>(k, v)\<in>set (accepted kw). dict_get row k = Some v)"

lemma dict_merge_same: "(\<forall>(k, v)\<in>set kw. dict_get row k = Some v) \<Longrightarrow> dict_merge row kw = row"
  unfolding dict_merge_def by (induction kw arbitrary: row) (auto simp: dict_set_same)

lemma upsert_same:
  "get_character db c = Some row \<Longrightarrow> holds_columns row kw \<Longrightarrow> upsert_character c kw db = db"
  by (simp add: upsert_character_def get_character_def Let_def holds_columns_def accepted_def dict_merge_same
      dict_set_same)

lemma upsert_holds:
  assumes "dict_ok kw"
  shows "\<exists>row. get_character (upsert_character c kw db) c = Some row \<and> holds_columns row kw"
proof -
  have ok: "dict_ok (accepted kw)" using assms by (simp add: accepted_def update_set_def dict_ok_filter)
  show ?thesis
  proof (cases "get_character db c")
    case None
    let ?row = "filter (\<lambda>(k, _). k \<in> set CHARACTER_UPDATABLE_FIELDS) kw"
    have "get_character (upsert_character c kw db) c = Some ?row"
      using None by (simp add: upsert_character_def get_character_def Let_def)
    moreover have "dict_get ?row k = Some v" if "(k, v) \<in> set (accepted kw)" for k v
      using that assms by (subst dict_get_mem) (auto simp: accepted_def update_set_def dict_ok_filter)
    ultimately show ?thesis by (auto simp: holds_columns_def)
  next
    case (Some row)
    have "get_character (upsert_character c kw db) c = Some (dict_merge row (accepted kw))"
      using Some by (simp add: upsert_character_def get_character_def Let_def accepted_def)
    moreover have "dict_get (dict_merge row (accepted kw)) k = Some v" if "(k, v) \<in> set (accepted kw)" for k v
      using that dict_get_mem [OF ok, of k v] by (simp add: dict_merge_get [OF ok])
    ultimately show ?thesis by (auto simp: holds_columns_def)
  qed
qed

section \<open>A second run of the batch\<close>

definition settled :: "save_snapshot option \<Rightarrow> campaign_db \<Rightarrow> int \<Rightarrow> bool" where
  "settled snap db c \<longleftrightarrow> (\<exists>row. get_character db c = Some row \<and> holds_columns row (identity_fields snap c))"

lemma identity_ok: "dict_ok (identity_fields snap c)"
  by (simp add: identity_fields_def dict_ok_def split: option.split)

lemma settled_identity: "settled snap db c \<or> c = c' \<Longrightarrow> settled snap (upsert_character c' (identity_fields snap c') db) c"
  using upsert_holds [OF identity_ok] upsert_other [of c c'] upsert_same unfolding settled_def by metis

lemma settled_touch: "settled snap db c \<or> c \<in> set cs \<Longrightarrow> settled snap (touch_characters snap cs db) c"
  by (induction cs arbitrary: db) (auto simp: settled_identity)

lemma settled_seen:
  assumes "settled snap db c" shows "settled snap (upsert_character c' [(''last_seen_event_id'', Num i)] db) c"
proof (cases "c = c'")
  case True
  obtain row where row: "get_character db c = Some row" "holds_columns row (identity_fields snap c)"
    using assms by (auto simp: settled_def)
  let ?kw = "[(''last_seen_event_id'', Num i)]"
  have "get_character (upsert_character c ?kw db) c = Some (dict_set row ''last_seen_event_id'' (Num i))"
    using row(1) by (simp add: upsert_character_def get_character_def Let_def update_set_def
        CHARACTER_UPDATABLE_FIELDS_def dict_merge_def)
  moreover have "k \<noteq> ''last_seen_event_id''" if "(k, v) \<in> set (accepted (identity_fields snap c))" for k v
    using that by (auto simp: accepted_def update_set_def identity_fields_def split: option.splits)
  ultimately show ?thesis using row(2) True unfolding settled_def holds_columns_def by fastforce
qed (use assms upsert_other in \<open>simp add: settled_def\<close>)

lemma settled_characters: "db_characters db = db_characters db' \<Longrightarrow> settled snap db c = settled snap db' c"
  by (simp add: settled_def get_character_def)

lemma touch_settled: "\<forall>c\<in>set cs. settled snap db c \<Longrightarrow> touch_characters snap cs db = db"
proof (induction cs)
  case (Cons c cs)
  then have "upsert_character c (identity_fields snap c) db = db"
    using upsert_same by (auto simp: settled_def)
  then show ?case using Cons by simp
qed simp

definition saturated :: "save_snapshot option \<Rightarrow> campaign_db \<Rightarrow> diff_event \<Rightarrow> bool" where
  "saturated snap db d \<longleftrightarrow> diff_key d \<in> event_keys db \<and> (\<forall>c\<in>set (touched d). settled snap db c)"

lemma settled_stored:
  "settled snap db c \<or> c \<in> set (touched d) \<Longrightarrow> settled snap (snd (stored env snap d db)) c"
  unfolding settled_characters [OF stored_characters]
  by (auto simp: settled_touch settled_seen split: option.split)

lemma saturated_stored:
  "saturated snap db d' \<or> d' = d \<Longrightarrow> saturated snap (snd (stored env snap d db)) d'"
  by (auto simp: saturated_def stored_keys settled_stored)

lemma stored_again:
  "saturated snap db d \<Longrightarrow> stored env snap d db = (\<lparr>ir_outcome = Duplicate, ir_event_id = None\<rparr>, db)"
  using stored_spec [of d db env snap] by (simp add: saturated_def touch_settled)

lemma store_good_saturates:
  "snd (store_good env snap ds db) = db' \<Longrightarrow>
     saturated snap db d \<or> (d, False) \<in> set ds \<Longrightarrow> saturated snap db' d"
proof (induction env snap ds db rule: store_good.induct)
  case (2 env snap d1 b ds db)
  let ?db1 = "if b then db else snd (stored env snap d1 db)"
  have "saturated snap ?db1 d \<or> (d, False) \<in> set ds"
    using 2(3) saturated_stored [of snap db d d1 env] by auto
  moreover have "snd (store_good env snap ds ?db1) = db'"
    using 2(2) by (auto simp: split_beta Let_def)
  ultimately show ?case using 2(1) [OF refl, of "fst (if b then (error_result, db) else stored env snap d1 db)" ?db1]
    by (auto simp: prod_eq_iff split: if_splits)
qed simp

definition again :: "bool \<Rightarrow> ingest_result" where
  "again b = (if b then error_result else \<lparr>ir_outcome = Duplicate, ir_event_id = None\<rparr>)"

lemma store_good_again:
  "\<forall>(d, b)\<in>set ds. saturated snap db d \<Longrightarrow> store_good env snap ds db = (map (again \<circ> snd) ds, db)"
  by (induction ds) (auto simp: stored_again again_def)

end
