(* ===== verification/Heraldry.thy ===== *)
theory Heraldry
  imports Raw_Record
begin

text \<open>
  \<open>heraldry/resolver.py\<close>: from a character of the raw save to the definition of the coat of arms
  of the house, or of the dynasty where the house has none, in one normal form.
\<close>

section \<open>The normal form\<close>

text \<open>\<open>out.pop(key, None)\<close>.\<close>

definition pop :: "obj \<Rightarrow> string \<Rightarrow> obj" where
  "pop d k = filter (\<lambda>(k', v). k' \<noteq> k) d"

text \<open>The charges that \<open>rakaly\<close> groups in a list under the singular key.\<close>

definition merge_emblems :: "obj \<Rightarrow> obj" where
  "merge_emblems out =
     (case get out ''colored_emblem'' of
        JArr emblem \<Rightarrow>
          (let existing = (case get out ''colored_emblems'' of JArr xs \<Rightarrow> xs | _ \<Rightarrow> [])
           in pop (dict_set out ''colored_emblems'' (JArr (existing @ filter is_obj emblem))) ''colored_emblem'')
      | _ \<Rightarrow> out)"

lemma size_dict_get: "dict_get d k = Some v \<Longrightarrow> size v < size (JObj d)"
  by (induction d) (auto split: if_splits)

definition put_part :: "string \<Rightarrow> json option \<Rightarrow> obj \<Rightarrow> obj" where
  "put_part k v out = (case v of None \<Rightarrow> out | Some x \<Rightarrow> dict_set out k x)"

text \<open>Each nested part is read from the node; the emblems do not touch it.\<close>

function normalize_coa :: "json \<Rightarrow> json" where
  "normalize_coa node =
     (case node of
        JObj d \<Rightarrow> JObj
          (put_part ''subs''
             (case dict_get d ''subs'' of Some (JArr ss) \<Rightarrow> Some (JArr (map normalize_coa ss)) | _ \<Rightarrow> None)
          (put_part ''sub''
             (case dict_get d ''sub'' of Some (JObj s) \<Rightarrow> Some (normalize_coa (JObj s)) | _ \<Rightarrow> None)
          (merge_emblems d)))
      | _ \<Rightarrow> node)"
  by pat_completeness auto

termination
proof (relation "measure size", goal_cases)
  case (2 node d v ss s)
  then have "size s < size (JArr ss)" by (simp add: size_list_estimation' less_Suc_eq_le)
  with 2 show ?case using size_dict_get [of d "''subs''"] by fastforce
next
  case (3 node d v s)
  then show ?case using size_dict_get [of d "''sub''"] by auto
qed simp_all

declare normalize_coa.simps [simp del]

section \<open>The chain of references\<close>

definition dict_or_empty :: "json \<Rightarrow> obj option" where
  "dict_or_empty v = (case or_dict v of JObj d \<Rightarrow> Some d | _ \<Rightarrow> None)"

text \<open>\<open>table.get(str(i))\<close>, where \<open>i\<close> passed \<open>isinstance(i, int)\<close>.\<close>

definition int_key :: "json \<Rightarrow> string" where
  "int_key v = py_str (\<lambda>_. []) v"

definition int_field :: "obj \<Rightarrow> string \<Rightarrow> json option" where
  "int_field d k = (if int_instance (get d k) = None then None else Some (get d k))"

definition record_at :: "obj \<Rightarrow> json \<Rightarrow> obj option" where
  "record_at table i = (case get table (int_key i) of JObj d \<Rightarrow> Some d | _ \<Rightarrow> None)"

definition dynasty_coa_id :: "obj \<Rightarrow> json \<Rightarrow> json option" where
  "dynasty_coa_id dynasties_root dynasty_id =
     (if int_instance dynasty_id = None then None
      else do {
        dynasties \<leftarrow> dict_or_empty (get dynasties_root ''dynasties'');
        dyn \<leftarrow> record_at dynasties dynasty_id;
        int_field dyn ''coat_of_arms_id'' })"

definition coa_id_of :: "obj \<Rightarrow> int \<Rightarrow> json option" where
  "coa_id_of raw_save_data character_id = do {
     character \<leftarrow> lookup_character_record raw_save_data character_id;
     house_id \<leftarrow> int_field character ''dynasty_house'';
     dynasties_root \<leftarrow> dict_or_empty (get raw_save_data ''dynasties'');
     houses \<leftarrow> dict_or_empty (get dynasties_root ''dynasty_house'');
     house \<leftarrow> record_at houses house_id;
     (case int_field house ''coat_of_arms_id'' of
        Some i \<Rightarrow> Some i
      | None \<Rightarrow> dynasty_coa_id dynasties_root (get house ''dynasty'')) }"

text \<open>The section \<open>coat_of_arms\<close> is not checked before its \<open>.get\<close>.\<close>

definition resolve_character_coa :: "obj \<Rightarrow> int \<Rightarrow> obj option result" where
  "resolve_character_coa raw_save_data character_id =
     (case coa_id_of raw_save_data character_id of
        None \<Rightarrow> Inr None
      | Some coa_id \<Rightarrow> bindr (subsection_of raw_save_data ''coat_of_arms'' ''coat_of_arms_manager_database'')
          (\<lambda>coa_db. case coa_db of
             JObj db \<Rightarrow> (case record_at db coa_id of
                 None \<Rightarrow> Inr None
               | Some coa \<Rightarrow> (case normalize_coa (JObj coa) of JObj out \<Rightarrow> Inr (Some out) | _ \<Rightarrow> Inr None))
           | _ \<Rightarrow> Inr None))"

section \<open>Facts\<close>

lemma dict_get_pop [simp]: "dict_get (pop d k) k' = (if k' = k then None else dict_get d k')"
  by (induction d) (auto simp: pop_def)

lemma merge_emblems_get: "k \<noteq> ''colored_emblem'' \<Longrightarrow> k \<noteq> ''colored_emblems'' \<Longrightarrow>
  dict_get (merge_emblems d) k = dict_get d k"
  by (auto simp: merge_emblems_def Let_def split: json.split)

text \<open>What is left under the singular key is never a list.\<close>

lemma merge_emblems_done: "get (merge_emblems d) ''colored_emblem'' \<noteq> JArr xs"
  by (auto simp: merge_emblems_def Let_def get_def split: json.splits option.splits)

lemma merge_emblems_id: "(\<And>xs. get d ''colored_emblem'' \<noteq> JArr xs) \<Longrightarrow> merge_emblems d = d"
  by (simp add: merge_emblems_def split: json.split)

lemma put_part_get [simp]: "dict_get (put_part k v out) k' =
  (if k' = k \<and> v \<noteq> None then v else dict_get out k')"
  by (simp add: put_part_def split: option.split)

text \<open>The two nested parts of a node.\<close>

definition subs_of :: "obj \<Rightarrow> json option" where
  "subs_of d = (case dict_get d ''subs'' of Some (JArr ss) \<Rightarrow> Some (JArr (map normalize_coa ss)) | _ \<Rightarrow> None)"

definition sub_of :: "obj \<Rightarrow> json option" where
  "sub_of d = (case dict_get d ''sub'' of Some (JObj s) \<Rightarrow> Some (normalize_coa (JObj s)) | _ \<Rightarrow> None)"

definition normal_node :: "obj \<Rightarrow> obj" where
  "normal_node d = put_part ''subs'' (subs_of d) (put_part ''sub'' (sub_of d) (merge_emblems d))"

lemma normalize_coa_simps [simp]:
  "normalize_coa (JObj d) = JObj (normal_node d)"
  "\<not> is_obj v \<Longrightarrow> normalize_coa v = v"
  by (simp_all add: normalize_coa.simps [of "JObj d"] normalize_coa.simps [of v] normal_node_def subs_of_def
      sub_of_def is_obj_def split: json.splits)

lemma normal_node_emblem: "get (normal_node d) ''colored_emblem'' \<noteq> JArr xs"
  using merge_emblems_done [of d xs] by (simp add: normal_node_def get_def)

lemma normal_node_parts:
  assumes "\<And>s. dict_get d ''sub'' = Some (JObj s) \<Longrightarrow> normalize_coa (normalize_coa (JObj s)) = normalize_coa (JObj s)"
    and "\<And>ss s. dict_get d ''subs'' = Some (JArr ss) \<Longrightarrow> s \<in> set ss \<Longrightarrow> normalize_coa (normalize_coa s) = normalize_coa s"
  shows "normal_node (normal_node d) = normal_node d"
proof -
  let ?n = "normal_node d"
  have sub: "sub_of ?n = None \<or> sub_of ?n = dict_get ?n ''sub''"
    using assms(1) by (auto simp: normal_node_def sub_of_def merge_emblems_get split: option.splits json.splits)
  have subs: "subs_of ?n = None \<or> subs_of ?n = dict_get ?n ''subs''"
    using assms(2) by (auto simp: normal_node_def subs_of_def merge_emblems_get split: option.splits json.splits)
  have keep: "v = None \<or> v = dict_get out k \<Longrightarrow> put_part k v out = out" for k v out
    by (auto simp: put_part_def dict_set_same split: option.split)
  have "merge_emblems ?n = ?n"
    using normal_node_emblem by (intro merge_emblems_id) simp
  then show ?thesis
    using keep [OF sub] keep [OF subs] by (simp add: normal_node_def [of ?n])
qed

theorem normalize_coa_idempotent: "normalize_coa (normalize_coa node) = normalize_coa node"
proof (induction node rule: normalize_coa.induct)
  case (1 node)
  show ?case
  proof (cases node)
    case (JObj d)
    have "normal_node (normal_node d) = normal_node d"
      using 1 JObj by (intro normal_node_parts) (auto simp del: normalize_coa_simps(1))
    then show ?thesis by (simp add: JObj)
  qed (simp_all add: is_obj_def)
qed

text \<open>What the resolver returns is a definition of the save in normal form.\<close>

theorem resolved_coa_normal:
  assumes "resolve_character_coa data cid = Inr (Some coa)"
  shows "normalize_coa (JObj coa) = JObj coa"
proof -
  from assms obtain c where "normalize_coa (JObj c) = JObj coa"
    by (auto simp: resolve_character_coa_def bindr_def split: option.splits sum.splits json.splits)
  with normalize_coa_idempotent [of "JObj c"] show ?thesis by simp
qed

text \<open>Where it raises: only at a section \<open>coat_of_arms\<close> that is neither a dictionary nor empty.\<close>

theorem resolve_coa_raises_iff:
  "(\<exists>e. resolve_character_coa data cid = Inl e) \<longleftrightarrow>
     coa_id_of data cid \<noteq> None \<and> truthy (get data ''coat_of_arms'') \<and> \<not> is_obj (get data ''coat_of_arms'')"
  by (auto simp: resolve_character_coa_def subsection_of_def section_of_def or_dict_def bindr_def is_obj_def
      split: option.splits json.splits sum.splits)

end
