(* ===== verification/Tick.thy ===== *)
theory Tick
  imports Ingest_Runs Name_Decode Heraldry
begin

text \<open>
  One tick, \<open>save/tick.py\<close>: the guard against foreign and stale saves, the columns of the tracked
  characters (\<open>save/character_columns.py\<close>), the events, the new family
  members, the overview of the campaign (\<open>save/overview.py\<close>), the baseline, the last frame.
\<close>

section \<open>The guard\<close>

datatype candidate = Ok | Foreign | Stale

definition is_advance_candidate :: "save_snapshot \<Rightarrow> save_snapshot \<Rightarrow> candidate" where
  "is_advance_candidate snap last_snapshot =
     (if sn_playthrough_id snap \<noteq> [] \<and> sn_playthrough_id last_snapshot \<noteq> []
         \<and> sn_playthrough_id snap \<noteq> sn_playthrough_id last_snapshot then Foreign
      else case (parse_ck3_date (sn_current_date snap), parse_ck3_date (sn_current_date last_snapshot)) of
        (Some new_iso, Some old_iso) \<Rightarrow> if new_iso \<le> old_iso then Stale else Ok
      | _ \<Rightarrow> Ok)"

text \<open>\<open>except ValueError\<close>: another error passes on.\<close>

definition safe_diff ::
  "tick_env \<Rightarrow> save_snapshot \<Rightarrow> save_snapshot \<Rightarrow> int fset \<Rightarrow> diff_event list option result" where
  "safe_diff env snap last_snapshot tracked_set =
     (case diff_snapshots (te_id_order env) (te_key_order env) last_snapshot snap (Some tracked_set) of
        Inl ValueError \<Rightarrow> Inr None
      | Inl e \<Rightarrow> Inl e
      | Inr ds \<Rightarrow> Inr (Some ds))"

section \<open>The columns of a character\<close>

definition opt_json :: "string option \<Rightarrow> json" where
  "opt_json s = (case s of None \<Rightarrow> JNull | Some t \<Rightarrow> JStr t)"

definition title_json :: "title_snapshot \<Rightarrow> json" where
  "title_json t = JObj [(''key'', JStr (tit_key t)), (''name'', opt_json (tit_name t)), (''tier'', JStr (tit_tier t))]"

definition json_cell :: "json option \<Rightarrow> cell" where
  "json_cell j = (case j of None \<Rightarrow> Null | Some v \<Rightarrow> Json v)"

text \<open>\<open>tracked_raw_records.get(cid)\<close>: a stored \<open>None\<close> is as good as a missing key.\<close>

definition tracked_cell :: "(int, json) dict \<Rightarrow> int \<Rightarrow> cell" where
  "tracked_cell d cid = (case dict_get d cid of None \<Rightarrow> Null | Some v \<Rightarrow> if v = JNull then Null else Json v)"

definition column_values ::
  "tick_env \<Rightarrow> save_snapshot \<Rightarrow> character_snapshot \<Rightarrow> int \<Rightarrow> cell \<Rightarrow> cell \<Rightarrow> (string, cell) dict" where
  "column_values env snap char cid raw_record_json coa_json =
     (let culture_name = lookup_opt (sn_cultures_lookup snap) (cs_culture_id char);
          (dynasty_name, house_name) = resolve_dynasty_name (te_names env) (cs_dynasty_house_id char)
            (sn_houses_lookup snap) (sn_house_to_dynasty snap) (sn_dynasties_lookup snap) culture_name;
          faith_name = lookup_opt (sn_faiths_lookup snap) (cs_faith_id char);
          held_titles = get_held_titles_sorted (te_id_order env) snap cid
      in [(''first_name'', text_cell (cs_first_name char)), (''nickname'', text_cell (cs_nickname char)),
          (''female'', Flag (cs_female char)), (''birth_date'', text_cell (cs_birth_date char)),
          (''death_date'', text_cell (cs_death_date char)), (''dynasty_name'', text_cell dynasty_name),
          (''house_name'', text_cell house_name), (''culture'', text_cell culture_name),
          (''faith'', text_cell faith_name),
          (''save_snapshot_json'', raw_record_json), (''coa_json'', coa_json),
          (''primary_title_json'', case held_titles of [] \<Rightarrow> Null | t # _ \<Rightarrow> Json (title_json t)),
          (''held_titles_json'', if held_titles = [] then Null else Json (JArr (map title_json held_titles)))])"

text \<open>With no raw data: what the parse worker left on the snapshot.\<close>

definition live_columns ::
  "tick_env \<Rightarrow> save_snapshot \<Rightarrow> character_snapshot \<Rightarrow> int \<Rightarrow> (string, cell) dict" where
  "live_columns env snap char cid = column_values env snap char cid
     (tracked_cell (sn_tracked_raw_records snap) cid) (tracked_cell (sn_tracked_coa snap) cid)"

definition hydrate_character_columns ::
  "tick_env \<Rightarrow> save_snapshot \<Rightarrow> character_snapshot \<Rightarrow> int \<Rightarrow> obj option \<Rightarrow> (int, string) dict
   \<Rightarrow> (string, cell) dict result" where
  "hydrate_character_columns env snap char cid raw_save_data name_lookup =
     (case raw_save_data of
        None \<Rightarrow> Inr (live_columns env snap char cid)
      | Some data \<Rightarrow> bindr (resolve_character_coa data cid) (\<lambda>coa.
          Inr (column_values env snap char cid
            (json_cell (map_option JObj (extract_character_record data cid (Some name_lookup)
               (if sn_traits_lookup snap = [] then None else Some (sn_traits_lookup snap)))))
            (json_cell (map_option JObj coa)))))"

section \<open>The facts about the world as JSON\<close>

definition realm_json :: "realm_facts \<Rightarrow> json" where
  "realm_json r = JObj [(''kingdom_key'', JStr (rf_kingdom_key r)), (''kingdom_name'', opt_json (rf_kingdom_name r)),
     (''culture'', opt_json (rf_culture r)), (''faith'', opt_json (rf_faith r)),
     (''ruler_first_name'', opt_json (rf_ruler_first_name r)), (''ruler_nickname'', opt_json (rf_ruler_nickname r))]"

definition cross_current_json :: "cross_current \<Rightarrow> json" where
  "cross_current_json c = JObj [(''held_title_key'', JStr (cc_held_title_key c)),
     (''held_title_name'', opt_json (cc_held_title_name c)), (''held_tier'', JStr (cc_held_tier c)),
     (''de_jure_kingdom_key'', JStr (cc_de_jure_kingdom_key c)),
     (''de_jure_kingdom_name'', opt_json (cc_de_jure_kingdom_name c)),
     (''holder_realm_key'', JStr (cc_holder_realm_key c)), (''holder_realm_name'', opt_json (cc_holder_realm_name c)),
     (''holder_first_name'', opt_json (cc_holder_first_name c))]"

definition region_json :: "region_summary \<Rightarrow> json" where
  "region_json r = JObj [(''region_empire_key'', JStr (rs_region_empire_key r)),
     (''region_empire_name'', opt_json (rs_region_empire_name r)), (''self_realm'', realm_json (rs_self_realm r)),
     (''peers'', JArr (map realm_json (rs_peers r))),
     (''cross_currents'', JArr (map cross_current_json (rs_cross_currents r)))]"

definition ally_json :: "great_cause_ally \<Rightarrow> json" where
  "ally_json a = JObj [(''character_id'', JInt (gca_character_id a)), (''first_name'', opt_json (gca_first_name a)),
     (''realm_key'', JStr (gca_realm_key a)), (''realm_name'', opt_json (gca_realm_name a))]"

definition great_cause_json :: "great_cause_facts \<Rightarrow> json" where
  "great_cause_json g = JObj [(''war_id'', JInt (gc_war_id g)), (''casus_belli_type'', JStr (gc_casus_belli_type g)),
     (''war_name'', opt_json (gc_war_name g)), (''side'', JStr (gc_side g)), (''start_date'', opt_json (gc_start_date g)),
     (''target_kingdom_key'', opt_json (gc_target_kingdom_key g)),
     (''target_kingdom_name'', opt_json (gc_target_kingdom_name g)), (''allies'', JArr (map ally_json (gc_allies g)))]"

section \<open>Refreshing the tracked characters\<close>

definition refreshed_columns ::
  "tick_env \<Rightarrow> save_snapshot \<Rightarrow> character_snapshot \<Rightarrow> int \<Rightarrow> region_summary option \<Rightarrow> (string, cell) dict" where
  "refreshed_columns env snap char cid region_summary =
     live_columns env snap char cid
     @ [(''region_summary_json'', json_cell (map_option region_json region_summary)),
        (''great_cause_json'', json_cell (map_option great_cause_json (detect_great_cause (te_id_order env) snap cid)))]"

definition refresh_character :: "tick_env \<Rightarrow> save_snapshot \<Rightarrow> int \<Rightarrow> unit op" where
  "refresh_character env snap cid =
     (case dict_get (sn_characters snap) cid of
        None \<Rightarrow> return_op ()
      | Some char \<Rightarrow>
          (case summarise_region (te_id_order env) snap cid of
             Inl e \<Rightarrow> raise_op (Py_Exn e)
           | Inr region_summary \<Rightarrow>
               (let columns = refreshed_columns env snap char cid region_summary;
                    coa_json = dict_get_default columns ''coa_json'' Null
                in bind_op (upsert_op cid columns) (\<lambda>_.
                   when_op (coa_json \<noteq> Null)
                     (bind_op (db_op (append_coa_history_if_changed cid coa_json (te_now env)))
                        (\<lambda>_. return_op ()))))))"

definition refresh_tracked_characters :: "tick_env \<Rightarrow> save_snapshot \<Rightarrow> int fset \<Rightarrow> unit op" where
  "refresh_tracked_characters env snap tracked_set =
     session_scope (for_each (refresh_character env snap) (te_id_order env tracked_set))"

section \<open>New family members\<close>

definition track_op :: "tick_env \<Rightarrow> int \<Rightarrow> string \<Rightarrow> unit op" where
  "track_op env cid note = registry_op (\<lambda>rg. ((),
     add_tracked_character (te_now env) (te_campaign_id env) cid (Some note) (Some note) rg))"

definition auto_track_new_candidates :: "tick_env \<Rightarrow> save_snapshot \<Rightarrow> int fset \<Rightarrow> int fset op" where
  "auto_track_new_candidates env snap tracked_set =
     bind_op (registry_op (\<lambda>rg. (get_campaign_by_id (te_campaign_id env) rg, rg))) (\<lambda>campaign.
       let rules = (case campaign of None \<Rightarrow> None | Some c \<Rightarrow> tick_rules (cp_auto_track_rules c));
           fresh = filter (\<lambda>(cid, _). cid |\<notin>| tracked_set) (auto_track_candidates snap rules)
       in bind_op (for_each (\<lambda>(cid, note). track_op env cid note) fresh)
            (\<lambda>_. return_op (fset_of_list (map fst fresh))))"

section \<open>The overview of the campaign\<close>

definition resolve_player_identity ::
  "tick_env \<Rightarrow> save_snapshot \<Rightarrow> int option \<times> string option \<times> string option \<times> string option" where
  "resolve_player_identity env snap =
     (case sn_player_character_id snap of
        None \<Rightarrow> (None, None, None, None)
      | Some pid \<Rightarrow>
          (case dict_get (sn_characters snap) pid of
             None \<Rightarrow> (Some pid, None, None, None)
           | Some char \<Rightarrow>
               (let raw_house = lookup_opt (sn_houses_lookup snap) (cs_dynasty_house_id char);
                    culture_name = lookup_opt (sn_cultures_lookup snap) (cs_culture_id char)
                in (Some pid, cs_first_name char, cs_nickname char,
                    resolve_house_name (te_names env) raw_house culture_name))))"

definition resolve_player_stats ::
  "save_snapshot \<Rightarrow> rat option \<times> rat option \<times> rat option \<times> rat option" where
  "resolve_player_stats snap =
     (case lookup_opt (sn_characters snap) (sn_player_character_id snap) of
        None \<Rightarrow> (None, None, None, None)
      | Some char \<Rightarrow>
          (cs_gold char, cs_prestige_lifetime char, cs_piety_lifetime char,
           lookup_opt (sn_dynasties_renown snap)
             (lookup_opt (sn_house_to_dynasty snap) (cs_dynasty_house_id char))))"

definition overview_of :: "tick_env \<Rightarrow> save_snapshot \<Rightarrow> overview_fields" where
  "overview_of env snap =
     (case resolve_player_identity env snap of (pid, player_name, player_nickname, house_name) \<Rightarrow>
      case resolve_player_stats snap of (gold, prestige_lifetime, piety, renown) \<Rightarrow>
        \<lparr>ov_ck3_playthrough_id = Some (if sn_playthrough_id snap = [] then None else Some (sn_playthrough_id snap)),
         ov_bookmark_date = Some (sn_bookmark_date snap),
         ov_current_in_game_date = Some (Some (sn_current_date snap)),
         ov_current_player_character_id = Some pid, ov_current_player_name = Some player_name,
         ov_current_player_nickname = Some player_nickname, ov_current_house_name = Some house_name,
         ov_current_player_gold = Some gold, ov_current_player_prestige_lifetime = Some prestige_lifetime,
         ov_current_player_piety = Some piety, ov_current_dynasty_renown = Some renown\<rparr>)"

definition apply_campaign_overview_from_snap :: "tick_env \<Rightarrow> save_snapshot \<Rightarrow> unit op" where
  "apply_campaign_overview_from_snap env snap =
     registry_op (\<lambda>rg. ((), update_campaign_overview (te_campaign_id env) (overview_of env snap) rg))"

section \<open>The baseline and the tail of a tick\<close>

text \<open>The write may fail (\<open>OSError\<close>); then the file stays as it was and the tick goes on.\<close>

definition persist_baseline_safely :: "tick_env \<Rightarrow> save_snapshot \<Rightarrow> unit op" where
  "persist_baseline_safely env snap =
     when_op (te_persist_path env)
       (catch_op (statement (\<lambda>w. (Inr (), w\<lparr>w_baseline := Some snap\<rparr>))) (\<lambda>_. return_op ()))"

definition touch_op :: "tick_env \<Rightarrow> save_snapshot \<Rightarrow> unit op" where
  "touch_op env snap = registry_op (\<lambda>rg. ((), touch_last_event_at (te_campaign_id env) (te_now env)
     (if sn_current_date snap = [] then None else Some (sn_current_date snap)) rg))"

definition persist_per_save_state :: "tick_env \<Rightarrow> save_snapshot \<Rightarrow> unit op" where
  "persist_per_save_state env snap =
     bind_op (touch_op env snap) (\<lambda>_.
     bind_op (apply_campaign_overview_from_snap env snap) (\<lambda>_.
     persist_baseline_safely env snap))"

definition publish_tick_complete :: "tick_env \<Rightarrow> save_snapshot \<Rightarrow> nat \<Rightarrow> (string, nat) dict \<Rightarrow> unit op" where
  "publish_tick_complete env snap event_count tally =
     bind_op (registry_op (\<lambda>rg. ((), set_campaign_last_tick (te_campaign_id env) (te_save_name env)
         (te_now env) (Some (sn_current_date snap)) (int event_count) (map (\<lambda>(k, n). (k, int n)) tally) rg)))
       (\<lambda>_. publish env (save_pair_completed env (sn_current_date snap) event_count tally))"

definition handle_empty_tracked_tick :: "tick_env \<Rightarrow> save_snapshot \<Rightarrow> save_snapshot op" where
  "handle_empty_tracked_tick env snap =
     bind_op (persist_baseline_safely env snap) (\<lambda>_.
     bind_op (publish_tick_complete env snap 0 []) (\<lambda>_. return_op snap))"

section \<open>Foreign saves\<close>

definition publish_save_dropped_foreign :: "tick_env \<Rightarrow> save_snapshot \<Rightarrow> save_snapshot \<Rightarrow> unit op" where
  "publish_save_dropped_foreign env snap last_snapshot =
     publish env (SaveDroppedForeign (sn_playthrough_id snap) (sn_playthrough_id last_snapshot)
       (te_save_name env) (te_now env))"

text \<open>The callback is told the campaign and its database; what it raises is swallowed.\<close>

definition resume_campaign :: "tick_env \<Rightarrow> save_snapshot \<Rightarrow> campaign \<Rightarrow> unit op" where
  "resume_campaign env snap c =
     bind_op (modify_op (\<lambda>w. w\<lparr>w_resumed := w_resumed w @ [(cp_id c, cp_db_path c)]\<rparr>)) (\<lambda>_.
     publish env (CampaignAutoResumed (cp_id c) (cp_name c) (te_save_name env) (sn_current_date snap)))"

definition maybe_notify_foreign_playthrough :: "tick_env \<Rightarrow> save_snapshot \<Rightarrow> save_snapshot \<Rightarrow> unit op" where
  "maybe_notify_foreign_playthrough env snap last_snapshot =
     (if \<not> te_on_foreign env \<or> sn_playthrough_id snap = [] \<or> sn_playthrough_id last_snapshot = []
         \<or> sn_playthrough_id snap = sn_playthrough_id last_snapshot then return_op ()
      else bind_op (registry_op (\<lambda>rg. (find_active_campaign_for_playthrough (Some (sn_playthrough_id snap)) rg, rg)))
        (\<lambda>m. case m of
           None \<Rightarrow> return_op ()
         | Some c \<Rightarrow> if cp_id c = te_campaign_id env then return_op () else resume_campaign env snap c))"

definition drop_save :: "tick_env \<Rightarrow> save_snapshot \<Rightarrow> save_snapshot \<Rightarrow> candidate \<Rightarrow> save_snapshot op" where
  "drop_save env snap last_snapshot why =
     bind_op (when_op (why = Foreign) (publish_save_dropped_foreign env snap last_snapshot)) (\<lambda>_.
     bind_op (maybe_notify_foreign_playthrough env snap last_snapshot) (\<lambda>_.
     return_op last_snapshot))"

section \<open>The tick\<close>

definition ingest_save :: "tick_env \<Rightarrow> save_snapshot \<Rightarrow> int fset \<Rightarrow> diff_event list \<Rightarrow> save_snapshot op" where
  "ingest_save env snap tracked_set ds =
     bind_op (refresh_tracked_characters env snap tracked_set) (\<lambda>_.
     bind_op (ingest_diff_events env (Some snap) ds) (\<lambda>(chars, results).
     bind_op (auto_track_new_candidates env snap tracked_set) (\<lambda>_.
     bind_op (persist_per_save_state env snap) (\<lambda>_.
     let tally = tally_ingested_events ds results
     in bind_op (publish_tick_complete env snap (fst tally) (snd tally)) (\<lambda>_. return_op snap)))))"

definition advance_baseline :: "tick_env \<Rightarrow> save_snapshot \<Rightarrow> save_snapshot \<Rightarrow> save_snapshot op" where
  "advance_baseline env snap last_snapshot =
     (let why = is_advance_candidate snap last_snapshot
      in if why \<noteq> Ok then drop_save env snap last_snapshot why
         else bind_op (registry_op (\<lambda>rg. (get_tracked_character_ids (te_campaign_id env) rg, rg))) (\<lambda>tracked_set.
           if tracked_set = {||} then handle_empty_tracked_tick env snap
           else case safe_diff env snap last_snapshot tracked_set of
             Inl e \<Rightarrow> raise_op (Py_Exn e)
           | Inr None \<Rightarrow> return_op last_snapshot
           | Inr (Some ds) \<Rightarrow> ingest_save env snap tracked_set ds))"

end
