(* ===== verification/Tick_Facts.thy ===== *)
theory Tick_Facts
  imports Tick World_Facts Registry
begin

text \<open>
  A tick whatever raises: the database stays intact and only grows, the registry keeps its keys and
  its tracked characters, a dropped save changes nothing, and the baseline only moves to a save that
  passed the guard. Then the tick without faults.
\<close>

section \<open>Whatever raises\<close>

lemma keeps_append_coa:
  "keeps tick_kept (db_op (append_coa_history_if_changed cid v now))"
proof (rule tick.keeps_db, rule tick_kept_db)
  fix w a db assume run: "append_coa_history_if_changed cid v now (w_db w) = Inr (a, db)"
  show "db_ok (w_db w) \<longrightarrow> db_ok db" using append_coa_ok [OF run] by simp
  show "db_grows (w_db w) db" using run
    by (auto simp: append_coa_history_if_changed_def db_grows_def known_def split: if_splits)
qed

lemma keeps_track: "keeps tick_kept (track_op env cid note)"
  unfolding track_op_def by (rule tick.keeps_registry) (simp add: tick_kept_def db_grows_refl)

lemma keeps_registry_read: "keeps tick_kept (registry_op g)"
  by (rule tick.keeps_registry) (simp add: tick_kept_def db_grows_refl)

lemma keeps_raise: "keeps tick_kept (raise_op e)"
  by (simp add: keeps_def raise_op_def tick_kept_def db_grows_refl)

lemma keeps_refresh: "keeps tick_kept (refresh_tracked_characters env snap T)"
  unfolding refresh_tracked_characters_def refresh_character_def Let_def
  by (auto intro!: tick.keeps_all keeps_upsert keeps_append_coa keeps_raise
      simp del: return_op_simps(1) split: option.split sum.split)

lemma keeps_auto_track: "keeps tick_kept (auto_track_new_candidates env snap T)"
  unfolding auto_track_new_candidates_def Let_def
  by (auto intro!: tick.keeps_all keeps_registry_read keeps_track simp del: return_op_simps(1))

lemma keeps_persist_baseline: "keeps tick_kept (persist_baseline_safely env snap)"
  unfolding persist_baseline_safely_def
  by (intro tick.keeps_all tick.keeps_statement) (simp add: tick_kept_def db_grows_refl)

lemma keeps_persist: "keeps tick_kept (persist_per_save_state env snap)"
  unfolding persist_per_save_state_def touch_op_def apply_campaign_overview_from_snap_def
  by (intro tick.keeps_all keeps_registry_read keeps_persist_baseline)

lemma keeps_tick_complete: "keeps tick_kept (publish_tick_complete env snap n tally)"
  unfolding publish_tick_complete_def by (intro tick.keeps_all keeps_registry_read keeps_publish)

lemma keeps_drop: "keeps tick_kept (drop_save env snap last_snapshot why)"
  unfolding drop_save_def publish_save_dropped_foreign_def maybe_notify_foreign_playthrough_def resume_campaign_def
  by (auto intro!: tick.keeps_all keeps_registry_read keeps_publish tick.keeps_modify
      simp del: return_op_simps(1) simp: tick_kept_def db_grows_refl split: option.split)

lemma keeps_ingest_save: "keeps tick_kept (ingest_save env snap T ds)"
  unfolding ingest_save_def Let_def
  by (auto intro!: tick.keeps_all keeps_refresh keeps_ingest_diff_events keeps_auto_track keeps_persist
      keeps_tick_complete simp del: return_op_simps(1) split: prod.split)

lemma keeps_advance: "keeps tick_kept (advance_baseline env snap last_snapshot)"
  unfolding advance_baseline_def handle_empty_tracked_tick_def Let_def
  by (auto intro!: tick.keeps_all keeps_drop keeps_registry_read keeps_persist_baseline keeps_tick_complete
      keeps_ingest_save keeps_raise simp del: return_op_simps(1) split: sum.split option.split)

section \<open>The registry\<close>

text \<open>The keys of the registry and its tracked characters, and that the rows of other campaigns are
  not touched.\<close>

definition registry_kept :: "string \<Rightarrow> world \<Rightarrow> world \<Rightarrow> bool" where
  "registry_kept cid w w' \<longleftrightarrow> (registry_ok (w_registry w) \<longrightarrow> registry_ok (w_registry w'))
     \<and> get_tracked_character_ids cid (w_registry w) |\<subseteq>| get_tracked_character_ids cid (w_registry w')
     \<and> filter (\<lambda>c. cp_id c \<noteq> cid) (rg_campaigns (w_registry w'))
       = filter (\<lambda>c. cp_id c \<noteq> cid) (rg_campaigns (w_registry w))
     \<and> map_option cp_auto_track_rules (get_campaign_by_id cid (w_registry w'))
       = map_option cp_auto_track_rules (get_campaign_by_id cid (w_registry w))"

interpretation reg: rolled_back_relation "registry_kept cid"
  by unfold_locales (auto simp: registry_kept_def)

lemma registry_kept_eq: "w_registry w' = w_registry w \<Longrightarrow> registry_kept cid w w'"
  by (simp add: registry_kept_def)

lemma outside_registry: "keeps outside_kept m \<Longrightarrow> keeps (registry_kept cid) m"
  by (simp add: keeps_def outside_kept_def registry_kept_eq)

lemma filter_sql_update_other: "(\<And>r. p r \<Longrightarrow> \<not> q r) \<Longrightarrow> (\<And>r. p r \<Longrightarrow> \<not> q (f r)) \<Longrightarrow> filter q (sql_update p f rows) = filter q rows"
  by (induction rows) (auto simp: sql_update_def)

lemma filter_sql_update_same: "(\<And>r. p (f r) = p r) \<Longrightarrow> filter p (sql_update p f rows) = map f (filter p rows)"
  by (induction rows) (auto simp: sql_update_def)

lemma get_updated_campaign:
  assumes "\<And>c. cp_id (f c) = cp_id c"
  shows "get_campaign_by_id cid (update_campaign cid f rg) = map_option f (get_campaign_by_id cid rg)"
  using filter_sql_update_same [of "\<lambda>c. cp_id c = cid" f "rg_campaigns rg"] assms
  by (cases "filter (\<lambda>c. cp_id c = cid) (rg_campaigns rg)")
    (simp_all add: get_campaign_by_id_def update_campaign_def fetchone_def)

lemma update_campaign_tracked [simp]:
  "get_tracked_character_ids c (update_campaign cid f rg) = get_tracked_character_ids c rg"
  by (simp add: get_tracked_character_ids_def update_campaign_def)

lemma registry_kept_update:
  assumes "\<And>c. cp_id (f c) = cp_id c" and "\<And>c. cp_auto_track_rules (f c) = cp_auto_track_rules c"
  shows "registry_kept cid w (w\<lparr>w_registry := update_campaign cid f (w_registry w)\<rparr>)"
proof -
  have "filter (\<lambda>c. cp_id c \<noteq> cid) (rg_campaigns (update_campaign cid f (w_registry w))) =
      filter (\<lambda>c. cp_id c \<noteq> cid) (rg_campaigns (w_registry w))"
    unfolding update_campaign_def by (simp add: filter_sql_update_other assms(1))
  then show ?thesis using assms registry_ok_campaign_update [of "w_registry w" f cid]
    by (simp add: registry_kept_def get_updated_campaign option.map_comp comp_def)
qed

lemma reg_update_op:
  assumes "\<And>c. cp_id (f c) = cp_id c" and "\<And>c. cp_auto_track_rules (f c) = cp_auto_track_rules c"
  shows "keeps (registry_kept cid) (registry_op (\<lambda>rg. ((), update_campaign cid f rg)))"
  by (rule reg.keeps_registry) (use registry_kept_update [OF assms] in simp)

lemma reg_read: "(\<And>rg. snd (g rg) = rg) \<Longrightarrow> keeps (registry_kept cid) (registry_op g)"
proof (rule reg.keeps_registry)
  fix w :: world and a rg assume same: "\<And>rg. snd (g rg) = rg" and "g (w_registry w) = (a, rg)"
  then have "rg = w_registry w" by (metis snd_conv)
  then show "registry_kept cid w (w\<lparr>w_registry := rg\<rparr>)" by (simp add: registry_kept_eq)
qed

lemma add_tracked_campaigns [simp]: "rg_campaigns (add_tracked_character now cid ch note role rg) = rg_campaigns rg"
  by (simp add: add_tracked_character_def)

lemma reg_track: "keeps (registry_kept (te_campaign_id env)) (track_op env ch note)"
  unfolding track_op_def
  by (rule reg.keeps_registry)
    (auto simp: registry_kept_def add_tracked_ok tracked_ids_add get_campaign_by_id_def)

lemma reg_publish: "keeps (registry_kept cid) (publish env f)"
  unfolding publish_def by (intro reg.keeps_when reg.keeps_modify) (simp add: registry_kept_eq)

lemma reg_raise: "keeps (registry_kept cid) (raise_op e)"
  by (simp add: keeps_def raise_op_def registry_kept_eq)

lemma reg_upsert: "keeps (registry_kept cid) (upsert_op c kw)"
  by (rule outside_registry, rule keeps_upsert)

lemma reg_db: "keeps (registry_kept cid) (db_op g)"
  by (rule reg.keeps_db) (simp add: registry_kept_eq)

lemma reg_refresh: "keeps (registry_kept cid) (refresh_tracked_characters env snap T)"
  unfolding refresh_tracked_characters_def refresh_character_def Let_def
  by (auto intro!: reg.keeps_all reg_upsert reg_db reg_raise
      simp del: return_op_simps(1) split: option.split sum.split)

lemma reg_ingest: "keeps (registry_kept cid) (ingest_diff_events env snap ds)"
  unfolding ingest_diff_events_def
  by (intro reg.keeps_all reg_publish outside_registry [OF keeps_ingest_all(2)])

lemma reg_auto_track: "keeps (registry_kept (te_campaign_id env)) (auto_track_new_candidates env snap T)"
  unfolding auto_track_new_candidates_def Let_def
  by (auto intro!: reg.keeps_all reg_read reg_track simp del: return_op_simps(1))

lemma reg_baseline: "keeps (registry_kept cid) (persist_baseline_safely env snap)"
  unfolding persist_baseline_safely_def
  by (intro reg.keeps_all reg.keeps_statement) (simp add: registry_kept_eq)

lemma reg_touch: "keeps (registry_kept (te_campaign_id env)) (touch_op env snap)"
  unfolding touch_op_def touch_last_event_at_def by (rule reg_update_op) (simp_all split: option.split)

lemma reg_overview: "keeps (registry_kept (te_campaign_id env)) (apply_campaign_overview_from_snap env snap)"
  unfolding apply_campaign_overview_from_snap_def update_campaign_overview_def
  by (rule reg_update_op) simp_all

lemma reg_persist: "keeps (registry_kept (te_campaign_id env)) (persist_per_save_state env snap)"
  unfolding persist_per_save_state_def by (intro reg.keeps_all reg_touch reg_overview reg_baseline)

lemma reg_tick_complete: "keeps (registry_kept (te_campaign_id env)) (publish_tick_complete env snap n tally)"
  unfolding publish_tick_complete_def set_campaign_last_tick_def
  by (intro reg.keeps_all reg_publish reg_update_op) simp_all

lemma reg_drop: "keeps (registry_kept cid) (drop_save env snap last_snapshot why)"
  unfolding drop_save_def publish_save_dropped_foreign_def maybe_notify_foreign_playthrough_def resume_campaign_def
  by (auto intro!: reg.keeps_all reg_read reg_publish reg.keeps_modify registry_kept_eq
      simp del: return_op_simps(1) split: option.split)

lemma reg_advance: "keeps (registry_kept (te_campaign_id env)) (advance_baseline env snap last_snapshot)"
  unfolding advance_baseline_def handle_empty_tracked_tick_def ingest_save_def Let_def
  by (auto intro!: reg.keeps_all reg_drop reg_read reg_baseline reg_tick_complete reg_refresh reg_ingest
      reg_auto_track reg_persist reg_raise simp del: return_op_simps(1) split: sum.split option.split prod.split)

section \<open>A dropped save\<close>

definition nothing_stored :: "world \<Rightarrow> world \<Rightarrow> bool" where
  "nothing_stored w w' \<longleftrightarrow> w_db w' = w_db w \<and> w_registry w' = w_registry w \<and> w_baseline w' = w_baseline w
     \<and> w_scheduled w' = w_scheduled w"

interpretation drop: rolled_back_relation nothing_stored
  by unfold_locales (auto simp: nothing_stored_def)

lemma drop_read: "(\<And>rg. snd (g rg) = rg) \<Longrightarrow> keeps nothing_stored (registry_op g)"
proof (rule drop.keeps_registry)
  fix w :: world and a rg assume same: "\<And>rg. snd (g rg) = rg" and "g (w_registry w) = (a, rg)"
  then have "rg = w_registry w" by (metis snd_conv)
  then show "nothing_stored w (w\<lparr>w_registry := rg\<rparr>)" by (simp add: nothing_stored_def)
qed

lemma drop_publish: "keeps nothing_stored (publish env f)"
  unfolding publish_def by (intro drop.keeps_when drop.keeps_modify) (simp add: nothing_stored_def)

lemma drop_drop: "keeps nothing_stored (drop_save env snap last_snapshot why)"
  unfolding drop_save_def publish_save_dropped_foreign_def maybe_notify_foreign_playthrough_def resume_campaign_def
  by (auto intro!: drop.keeps_all drop_read drop_publish drop.keeps_modify
      simp del: return_op_simps(1) simp: nothing_stored_def split: option.split)

section \<open>Where the baseline goes\<close>

lemma drop_save_result: "drop_save env snap last_snapshot why F w = (Inr s, w') \<Longrightarrow> s = last_snapshot"
  by (auto simp: drop_save_def bind_op_Inr)

lemma ingest_save_result: "ingest_save env snap T ds F w = (Inr s, w') \<Longrightarrow> s = snap"
  by (auto simp: ingest_save_def bind_op_Inr Let_def)

lemma advance_result:
  assumes "advance_baseline env snap last_snapshot F w = (Inr s, w')"
  shows "s = last_snapshot \<or> s = snap \<and> is_advance_candidate snap last_snapshot = Ok"
proof (cases "is_advance_candidate snap last_snapshot = Ok")
  case True
  obtain T w1 where run: "(if T = {||} then handle_empty_tracked_tick env snap
      else case safe_diff env snap last_snapshot T of
             Inl e \<Rightarrow> raise_op (Py_Exn e)
           | Inr None \<Rightarrow> return_op last_snapshot
           | Inr (Some ds) \<Rightarrow> ingest_save env snap T ds) F w1 = (Inr s, w')"
    using assms True by (auto simp: advance_baseline_def Let_def bind_op_Inr)
  show ?thesis
  proof (cases "T = {||}")
    case True
    then show ?thesis using run \<open>is_advance_candidate snap last_snapshot = Ok\<close>
      by (auto simp: handle_empty_tracked_tick_def bind_op_Inr)
  next
    case False
    then show ?thesis using run \<open>is_advance_candidate snap last_snapshot = Ok\<close>
      by (auto simp: raise_op_def split: sum.splits option.splits dest: ingest_save_result)
  qed
next
  case False
  then have "drop_save env snap last_snapshot (is_advance_candidate snap last_snapshot) F w = (Inr s, w')"
    using assms by (simp add: advance_baseline_def Let_def)
  then show ?thesis by (simp add: drop_save_result)
qed

end
