(* ===== verification/Tick_Runs.thy ===== *)
theory Tick_Runs
  imports Tick_Facts
begin

text \<open>
  The tick without faults refines an abstract step on what a campaign is about: the characters
  tracked, the events told, the baseline. Then runs of several saves, with the guard of the loop.
\<close>

section \<open>Every step succeeds\<close>

definition registry_of_save :: "tick_env \<Rightarrow> save_snapshot \<Rightarrow> registry \<Rightarrow> registry" where
  "registry_of_save env snap rg =
     update_campaign_overview (te_campaign_id env) (overview_of env snap)
       (touch_last_event_at (te_campaign_id env) (te_now env)
         (if sn_current_date snap = [] then None else Some (sn_current_date snap)) rg)"

lemma registry_no_faults: "g (w_registry w) = (a, rg) \<Longrightarrow>
    registry_op g no_faults w = (Inr a, w\<lparr>w_clock := Suc (w_clock w), w_registry := rg\<rparr>)"
  by (simp add: registry_op_def statement_no_faults)

lemma touch_no_faults [simp]: "touch_op env snap no_faults w = (Inr (), w\<lparr>w_clock := Suc (w_clock w),
    w_registry := touch_last_event_at (te_campaign_id env) (te_now env)
      (if sn_current_date snap = [] then None else Some (sn_current_date snap)) (w_registry w)\<rparr>)"
  unfolding touch_op_def by (rule registry_no_faults) (rule refl)

lemma overview_no_faults [simp]: "apply_campaign_overview_from_snap env snap no_faults w =
    (Inr (), w\<lparr>w_clock := Suc (w_clock w),
      w_registry := update_campaign_overview (te_campaign_id env) (overview_of env snap) (w_registry w)\<rparr>)"
  unfolding apply_campaign_overview_from_snap_def by (rule registry_no_faults) (rule refl)

lemma track_no_faults [simp]: "track_op env cid r no_faults w = (Inr (), w\<lparr>w_clock := Suc (w_clock w),
    w_registry := add_tracked_character (te_now env) (te_campaign_id env) cid (Some r) (Some r) (w_registry w)\<rparr>)"
  unfolding track_op_def by (rule registry_no_faults) (rule refl)

lemma baseline_no_faults:
  "\<exists>n. persist_baseline_safely env snap no_faults w =
     (Inr (), w\<lparr>w_clock := n, w_baseline := (if te_persist_path env then Some snap else w_baseline w)\<rparr>)"
  by (intro exI [of _ "if te_persist_path env then Suc (w_clock w) else w_clock w"])
    (simp add: persist_baseline_safely_def catch_op_def statement_no_faults when_op_def return_op_def)

lemma persist_no_faults:
  "\<exists>n. persist_per_save_state env snap no_faults w =
     (Inr (), w\<lparr>w_clock := n, w_registry := registry_of_save env snap (w_registry w),
        w_baseline := (if te_persist_path env then Some snap else w_baseline w)\<rparr>)"
proof -
  let ?w = "w\<lparr>w_clock := Suc (Suc (w_clock w)), w_registry := registry_of_save env snap (w_registry w)\<rparr>"
  have "persist_per_save_state env snap no_faults w = persist_baseline_safely env snap no_faults ?w"
    by (simp add: persist_per_save_state_def bind_op_def registry_of_save_def)
  also obtain n where "persist_baseline_safely env snap no_faults ?w =
      (Inr (), ?w\<lparr>w_clock := n, w_baseline := (if te_persist_path env then Some snap else w_baseline ?w)\<rparr>)"
    using baseline_no_faults by blast
  finally show ?thesis by (intro exI [of _ n]) (simp cong: if_cong)
qed

lemma registry_of_save_tracked [simp]:
  "get_tracked_character_ids c (registry_of_save env snap rg) = get_tracked_character_ids c rg"
  by (simp add: registry_of_save_def update_campaign_overview_def touch_last_event_at_def)

lemma tick_complete_no_faults:
  "\<exists>n rg fs. publish_tick_complete env snap k tally no_faults w =
     (Inr (), w\<lparr>w_clock := n, w_registry := rg, w_frames := fs\<rparr>)
     \<and> get_tracked_character_ids c rg = get_tracked_character_ids c (w_registry w)"
proof -
  let ?rg = "set_campaign_last_tick (te_campaign_id env) (te_save_name env) (te_now env)
    (Some (sn_current_date snap)) (int k) (map (\<lambda>(k, n). (k, int n)) tally) (w_registry w)"
  have "publish_tick_complete env snap k tally no_faults w = (Inr (), w\<lparr>w_clock := Suc (w_clock w),
      w_registry := ?rg, w_frames := w_frames w @
        (if te_bus env then [save_pair_completed env (sn_current_date snap) k tally] else [])\<rparr>)"
    by (simp add: publish_tick_complete_def bind_op_def registry_op_def statement_no_faults publish_run)
  moreover have "get_tracked_character_ids c ?rg = get_tracked_character_ids c (w_registry w)"
    by (simp add: set_campaign_last_tick_def)
  ultimately show ?thesis by blast
qed

section \<open>Refreshing and tracking\<close>

definition events_kept :: "world \<Rightarrow> world \<Rightarrow> bool" where
  "events_kept w w' \<longleftrightarrow> db_events (w_db w') = db_events (w_db w) \<and> w_registry w' = w_registry w
     \<and> w_baseline w' = w_baseline w \<and> w_scheduled w' = w_scheduled w"

interpretation evs: rolled_back_relation events_kept
  by unfold_locales (auto simp: events_kept_def)

lemma evs_append_coa: "keeps events_kept (db_op (append_coa_history_if_changed cid v now))"
  by (rule evs.keeps_db) (auto simp: append_coa_history_if_changed_def events_kept_def split: if_splits)

lemma evs_upsert: "keeps events_kept (upsert_op cid kw)"
  unfolding upsert_op_def by (rule evs.keeps_db) (auto simp: events_kept_def)

lemma evs_refresh: "keeps events_kept (refresh_tracked_characters env snap T)"
proof -
  have "keeps events_kept (raise_op e)" for e :: exn
    by (simp add: keeps_def raise_op_def events_kept_def)
  then show ?thesis
    unfolding refresh_tracked_characters_def refresh_character_def Let_def
    by (auto intro!: evs.keeps_all evs_upsert evs_append_coa
        simp del: return_op_simps(1) split: option.split sum.split)
qed

lemma append_coa_total: "known db cid \<Longrightarrow> \<exists>b db'. append_coa_history_if_changed cid v now db = Inr (b, db')"
proof (cases "latest_coa db cid = Some v")
  case True
  then have "append_coa_history_if_changed cid v now db = Inr (False, db)"
    by (simp add: append_coa_history_if_changed_def)
  then show ?thesis by blast
next
  case False
  assume "known db cid"
  with False show ?thesis unfolding append_coa_history_if_changed_def known_def by (simp only: if_False) blast
qed

lemma refresh_character_total:
  assumes "wf_snapshot snap" shows "\<exists>w'. refresh_character env snap cid no_faults w = (Inr (), w')"
proof (cases "dict_get (sn_characters snap) cid")
  case None
  then show ?thesis by (simp add: refresh_character_def)
next
  case (Some char)
  obtain r where r: "summarise_region (te_id_order env) snap cid = Inr r"
    using summarise_region_total [OF assms] by blast
  let ?kw = "refreshed_columns env snap char cid r"
  let ?v = "dict_get_default ?kw ''coa_json'' Null" and ?db = "upsert_character cid ?kw (w_db w)"
  obtain b db' where "append_coa_history_if_changed cid ?v (te_now env) ?db = Inr (b, db')"
    using append_coa_total [of ?db cid ?v "te_now env"] by auto
  then show ?thesis
    by (simp add: refresh_character_def Some r Let_def bind_op_def when_op_def db_op_def statement_no_faults)
qed

lemma refresh_total:
  assumes "wf_snapshot snap" shows "\<exists>w'. refresh_tracked_characters env snap T no_faults w = (Inr (), w')"
proof -
  obtain w1 where "for_each (refresh_character env snap) (te_id_order env T) no_faults w = (Inr (), w1)"
    using for_each_total [of "refresh_character env snap" no_faults] refresh_character_total [OF assms] by blast
  then show ?thesis
    by (simp add: refresh_tracked_characters_def session_scope_def rollback_on_error_def bind_op_def)
qed

definition tick_candidates :: "tick_env \<Rightarrow> save_snapshot \<Rightarrow> registry \<Rightarrow> (int \<times> string) list" where
  "tick_candidates env snap rg = auto_track_candidates snap
     (case get_campaign_by_id (te_campaign_id env) rg of None \<Rightarrow> None | Some c \<Rightarrow> tick_rules (cp_auto_track_rules c))"

lemma track_all_no_faults:
  "\<exists>n rg. for_each (\<lambda>(cid, note). track_op env cid note) cs no_faults w = (Inr (), w\<lparr>w_clock := n, w_registry := rg\<rparr>)
     \<and> get_tracked_character_ids (te_campaign_id env) rg =
       get_tracked_character_ids (te_campaign_id env) (w_registry w) |\<union>| fset_of_list (map fst cs)"
proof (induction cs arbitrary: w)
  case Nil
  then show ?case by (auto intro!: exI [of _ "w_clock w"] exI [of _ "w_registry w"])
next
  case (Cons p cs)
  obtain cid r where p: "p = (cid, r)" by force
  let ?rg = "add_tracked_character (te_now env) (te_campaign_id env) cid (Some r) (Some r) (w_registry w)"
  let ?w = "w\<lparr>w_clock := Suc (w_clock w), w_registry := ?rg\<rparr>"
  obtain n rg where "for_each (\<lambda>(cid, note). track_op env cid note) cs no_faults ?w =
      (Inr (), ?w\<lparr>w_clock := n, w_registry := rg\<rparr>)"
    "get_tracked_character_ids (te_campaign_id env) rg =
       get_tracked_character_ids (te_campaign_id env) (w_registry ?w) |\<union>| fset_of_list (map fst cs)"
    using Cons.IH by blast
  then show ?case
    by (intro exI [of _ n] exI [of _ rg]) (simp add: p bind_op_def tracked_ids_add)
qed

lemma auto_track_no_faults:
  assumes T: "T = get_tracked_character_ids (te_campaign_id env) (w_registry w)"
  shows "\<exists>added n rg. auto_track_new_candidates env snap T no_faults w =
      (Inr added, w\<lparr>w_clock := n, w_registry := rg\<rparr>)
    \<and> get_tracked_character_ids (te_campaign_id env) rg =
        T |\<union>| fset_of_list (map fst (tick_candidates env snap (w_registry w)))"
proof -
  let ?cs = "filter (\<lambda>(cid, _). cid |\<notin>| T) (tick_candidates env snap (w_registry w))"
  let ?w = "w\<lparr>w_clock := Suc (w_clock w)\<rparr>"
  obtain n rg where run: "for_each (\<lambda>(cid, note). track_op env cid note) ?cs no_faults ?w =
      (Inr (), ?w\<lparr>w_clock := n, w_registry := rg\<rparr>)"
    "get_tracked_character_ids (te_campaign_id env) rg =
       get_tracked_character_ids (te_campaign_id env) (w_registry ?w) |\<union>| fset_of_list (map fst ?cs)"
    using track_all_no_faults by blast
  have "T |\<union>| fset_of_list (map fst ?cs) = T |\<union>| fset_of_list (map fst (tick_candidates env snap (w_registry w)))"
    by (rule fset_eqI) (auto simp: fset_of_list_elem image_iff)
  then have tracked: "get_tracked_character_ids (te_campaign_id env) rg =
      T |\<union>| fset_of_list (map fst (tick_candidates env snap (w_registry w)))"
    using run(2) T by simp
  have "auto_track_new_candidates env snap T no_faults w =
      bind_op (for_each (\<lambda>(cid, note). track_op env cid note) ?cs)
        (\<lambda>_. return_op (fset_of_list (map fst ?cs))) no_faults ?w"
    unfolding auto_track_new_candidates_def bind_op_def [of "registry_op _"] registry_no_faults [OF refl]
    by (simp add: tick_candidates_def Let_def)
  also have "\<dots> = (Inr (fset_of_list (map fst ?cs)), ?w\<lparr>w_clock := n, w_registry := rg\<rparr>)"
    using run(1) by (simp only: bind_op_def return_op_simps prod.case sum.case)
  finally show ?thesis using tracked by (intro exI conjI) simp_all
qed

section \<open>The events of a tick\<close>

definition store_only :: "world \<Rightarrow> world \<Rightarrow> bool" where
  "store_only w w' \<longleftrightarrow> w_registry w' = w_registry w \<and> w_baseline w' = w_baseline w"

interpretation sto: rolled_back_relation store_only
  by unfold_locales (auto simp: store_only_def)

lemma sto_ingest: "keeps store_only (ingest_diff_events env snap ds)"
proof -
  have "keeps store_only (ingest_all env snap ds)"
    using keeps_ingest_all(2) unfolding keeps_def outside_kept_def store_only_def by blast
  moreover have "keeps store_only (publish env f)" for f
    unfolding publish_def by (intro sto.keeps_when sto.keeps_modify) (simp add: store_only_def)
  ultimately show ?thesis
    unfolding ingest_diff_events_def by (intro sto.keeps_all)
qed

lemma store_good_keys:
  "event_keys (snd (store_good env snap ds db)) = event_keys db \<union> diff_key ` {d. (d, False) \<in> set ds}"
proof (induction ds arbitrary: db)
  case (Cons e ds)
  obtain d b where e: "e = (d, b)" by force
  let ?db = "if b then db else snd (stored env snap d db)"
  have "snd (store_good env snap (e # ds) db) = snd (store_good env snap ds ?db)"
    by (simp add: e split_beta Let_def)
  then show ?case using Cons.IH [of ?db] by (auto simp: e stored_keys)
qed simp

lemma zip_unfailed:
  assumes "length rs = length ds" and "list_all (\<lambda>r. \<not> failed r) rs"
  shows "zip ds (map failed rs) = map (\<lambda>d. (d, False)) ds"
  using assms by (induction ds rs rule: list_induct2') simp_all

lemma ingest_keys_no_faults:
  "\<exists>rs w'. ingest_diff_events env snap ds no_faults w = (Inr (chars_with_new_events ds rs, rs), w')
     \<and> event_keys (w_db w') = event_keys (w_db w) \<union> diff_key ` set ds
     \<and> w_scheduled w' = w_scheduled w @ all_announced env ds rs
     \<and> store_good env snap (map (\<lambda>d. (d, False)) ds) (w_db w) = (rs, w_db w')
     \<and> store_only w w'"
proof -
  obtain rs w' where run: "ingest_diff_events env snap ds no_faults w = (Inr (chars_with_new_events ds rs, rs), w')"
    "list_all (\<lambda>r. \<not> failed r) rs" using batch_no_faults by blast
  then have sg: "length rs = length ds" "store_good env snap (zip ds (map failed rs)) (w_db w) = (rs, w_db w')"
    "w_scheduled w' = w_scheduled w @ all_announced env ds rs"
    using ingest_diff_events_run [of env snap ds no_faults w] by auto
  note z = zip_unfailed [OF sg(1) run(2)]
  have "event_keys (w_db w') = event_keys (w_db w) \<union> diff_key ` set ds"
    using store_good_keys [of env snap "map (\<lambda>d. (d, False)) ds" "w_db w"] sg(2) unfolding z by (auto simp: image_iff)
  then show ?thesis using run(1) sg(2,3) keepsD [OF sto_ingest run(1)] unfolding z by blast
qed

section \<open>The abstract step\<close>

record campaign_view =
  cv_tracked :: "int fset"
  cv_told :: "(string \<times> string \<times> int \<times> event) set"

definition view_of :: "tick_env \<Rightarrow> world \<Rightarrow> campaign_view" where
  "view_of env w = \<lparr>cv_tracked = get_tracked_character_ids (te_campaign_id env) (w_registry w),
     cv_told = event_keys (w_db w)\<rparr>"

definition told_by :: "tick_env \<Rightarrow> save_snapshot \<Rightarrow> save_snapshot \<Rightarrow> int fset \<Rightarrow> (string \<times> string \<times> int \<times> event) set" where
  "told_by env last_snapshot snap T =
     diff_key ` set (projr (diff_snapshots (te_id_order env) (te_key_order env) last_snapshot snap (Some T)))"

definition campaign_rules :: "tick_env \<Rightarrow> registry \<Rightarrow> (string, bool) dict option" where
  "campaign_rules env rg =
     (case get_campaign_by_id (te_campaign_id env) rg of None \<Rightarrow> None | Some c \<Rightarrow> tick_rules (cp_auto_track_rules c))"

definition view_step ::
  "tick_env \<Rightarrow> (string, bool) dict option \<Rightarrow> save_snapshot \<Rightarrow> save_snapshot \<Rightarrow> campaign_view
   \<Rightarrow> save_snapshot \<times> campaign_view" where
  "view_step env rules last_snapshot snap v =
     (if is_advance_candidate snap last_snapshot \<noteq> Ok then (last_snapshot, v)
      else if cv_tracked v = {||} then (snap, v)
      else (snap, \<lparr>cv_tracked = cv_tracked v |\<union>| fset_of_list (map fst (auto_track_candidates snap rules)),
                  cv_told = cv_told v \<union> told_by env last_snapshot snap (cv_tracked v)\<rparr>))"

section \<open>The refinement\<close>

lemma drop_no_faults: "\<exists>w'. drop_save env snap last_snapshot why no_faults w = (Inr last_snapshot, w')"
proof -
  have notify: "\<exists>w'. maybe_notify_foreign_playthrough env snap last_snapshot no_faults w = (Inr (), w')" for w
  proof (cases "find_active_campaign_for_playthrough (Some (sn_playthrough_id snap)) (w_registry w)")
    case None
    then show ?thesis by (simp add: maybe_notify_foreign_playthrough_def bind_op_def registry_no_faults [OF refl])
  next
    case (Some c)
    then show ?thesis
      by (simp add: maybe_notify_foreign_playthrough_def bind_op_def registry_no_faults [OF refl]
          resume_campaign_def modify_op_def publish_run)
  qed
  obtain w1 where "when_op (why = Foreign) (publish_save_dropped_foreign env snap last_snapshot) no_faults w
      = (Inr (), w1)"
    by (cases "why = Foreign") (simp_all add: publish_save_dropped_foreign_def publish_run)
  moreover obtain w2 where "maybe_notify_foreign_playthrough env snap last_snapshot no_faults w1 = (Inr (), w2)"
    using notify by blast
  ultimately show ?thesis by (simp add: drop_save_def bind_op_def)
qed

lemma empty_no_faults:
  "\<exists>w'. handle_empty_tracked_tick env snap no_faults w = (Inr snap, w') \<and> view_of env w' = view_of env w"
proof -
  obtain n where b: "persist_baseline_safely env snap no_faults w =
     (Inr (), w\<lparr>w_clock := n, w_baseline := (if te_persist_path env then Some snap else w_baseline w)\<rparr>)"
    using baseline_no_faults by blast
  let ?w = "w\<lparr>w_clock := n, w_baseline := (if te_persist_path env then Some snap else w_baseline w)\<rparr>"
  obtain n' rg fs where c: "publish_tick_complete env snap 0 [] no_faults ?w =
     (Inr (), ?w\<lparr>w_clock := n', w_registry := rg, w_frames := fs\<rparr>)"
     "get_tracked_character_ids (te_campaign_id env) rg = get_tracked_character_ids (te_campaign_id env) (w_registry ?w)"
    using tick_complete_no_faults by blast
  have "handle_empty_tracked_tick env snap no_faults w =
      (Inr snap, ?w\<lparr>w_clock := n', w_registry := rg, w_frames := fs\<rparr>)"
    unfolding handle_empty_tracked_tick_def bind_op_def b by (simp only: prod.case sum.case c(1) return_op_simps)
  then show ?thesis using c(2) by (simp add: view_of_def)
qed

lemma ingest_save_no_faults:
  assumes wf: "wf_snapshot snap" and T: "T = get_tracked_character_ids (te_campaign_id env) (w_registry w)"
  shows "\<exists>rs w'. ingest_save env snap T ds no_faults w = (Inr snap, w')
    \<and> view_of env w' = \<lparr>cv_tracked = T |\<union>| fset_of_list (map fst (tick_candidates env snap (w_registry w))),
        cv_told = event_keys (w_db w) \<union> diff_key ` set ds\<rparr>
    \<and> w_scheduled w' = w_scheduled w @ all_announced env ds rs"
proof -
  obtain w1 where r1: "refresh_tracked_characters env snap T no_faults w = (Inr (), w1)"
    using refresh_total [OF wf] by blast
  note k1 = keepsD [OF evs_refresh r1, unfolded events_kept_def]
  obtain rs w2 where r2: "ingest_diff_events env (Some snap) ds no_faults w1 = (Inr (chars_with_new_events ds rs, rs), w2)"
    and k2: "event_keys (w_db w2) = event_keys (w_db w1) \<union> diff_key ` set ds"
      "w_scheduled w2 = w_scheduled w1 @ all_announced env ds rs" "store_only w1 w2"
    using ingest_keys_no_faults by blast
  have T2: "T = get_tracked_character_ids (te_campaign_id env) (w_registry w2)"
    using T k1 k2(3) by (simp add: store_only_def)
  obtain added n rg where r3: "auto_track_new_candidates env snap T no_faults w2 =
      (Inr added, w2\<lparr>w_clock := n, w_registry := rg\<rparr>)"
    and k3: "get_tracked_character_ids (te_campaign_id env) rg =
        T |\<union>| fset_of_list (map fst (tick_candidates env snap (w_registry w2)))"
    using auto_track_no_faults [OF T2] by blast
  let ?w3 = "w2\<lparr>w_clock := n, w_registry := rg\<rparr>"
  obtain n4 where r4: "persist_per_save_state env snap no_faults ?w3 =
     (Inr (), ?w3\<lparr>w_clock := n4, w_registry := registry_of_save env snap (w_registry ?w3),
        w_baseline := (if te_persist_path env then Some snap else w_baseline ?w3)\<rparr>)"
    using persist_no_faults by blast
  let ?w4 = "?w3\<lparr>w_clock := n4, w_registry := registry_of_save env snap (w_registry ?w3),
        w_baseline := (if te_persist_path env then Some snap else w_baseline ?w3)\<rparr>"
  let ?t = "tally_ingested_events ds rs"
  obtain n5 rg5 fs where r5: "publish_tick_complete env snap (fst ?t) (snd ?t) no_faults ?w4 =
     (Inr (), ?w4\<lparr>w_clock := n5, w_registry := rg5, w_frames := fs\<rparr>)"
     and k5: "get_tracked_character_ids (te_campaign_id env) rg5 =
       get_tracked_character_ids (te_campaign_id env) (w_registry ?w4)"
    using tick_complete_no_faults by blast
  have "ingest_save env snap T ds no_faults w = (Inr snap, ?w4\<lparr>w_clock := n5, w_registry := rg5, w_frames := fs\<rparr>)"
    unfolding ingest_save_def bind_op_def Let_def
    by (simp only: r1 r2 r3 r4 r5 prod.case sum.case return_op_simps)
  moreover have "w_registry w2 = w_registry w" using k1 k2(3) by (simp add: store_only_def)
  moreover have "event_keys (w_db w1) = event_keys (w_db w)" using k1 by (simp add: event_keys_def)
  ultimately show ?thesis using k1 k2 k3 k5
    by (intro exI [of _ rs] exI conjI) (assumption, simp_all add: view_of_def)
qed

text \<open>A save that passes the guard is of the same playthrough, as far as the identifiers say.\<close>

lemma candidate_same_playthrough:
  "is_advance_candidate snap last_snapshot = Ok \<Longrightarrow> same_playthrough last_snapshot snap"
  by (auto simp: is_advance_candidate_def same_playthrough_def split: if_splits)

lemma tick_refines_view:
  assumes wf: "wf_snapshot last_snapshot" "wf_snapshot snap"
  shows "\<exists>w'. advance_baseline env snap last_snapshot no_faults w =
      (Inr (fst (view_step env (campaign_rules env (w_registry w)) last_snapshot snap (view_of env w))), w')
    \<and> view_of env w' = snd (view_step env (campaign_rules env (w_registry w)) last_snapshot snap (view_of env w))"
proof (cases "is_advance_candidate snap last_snapshot = Ok")
  case False
  then have eq: "advance_baseline env snap last_snapshot no_faults w =
      drop_save env snap last_snapshot (is_advance_candidate snap last_snapshot) no_faults w"
    by (simp add: advance_baseline_def Let_def)
  obtain w' where w': "drop_save env snap last_snapshot (is_advance_candidate snap last_snapshot) no_faults w =
      (Inr last_snapshot, w')" using drop_no_faults by blast
  then have "view_of env w' = view_of env w"
    using keepsD [OF drop_drop w'] by (simp add: nothing_stored_def view_of_def)
  then show ?thesis using False w' eq by (simp add: view_step_def)
next
  case True
  let ?T = "get_tracked_character_ids (te_campaign_id env) (w_registry w)"
  let ?w = "w\<lparr>w_clock := Suc (w_clock w)\<rparr>"
  obtain ds where ds: "diff_snapshots (te_id_order env) (te_key_order env) last_snapshot snap (Some ?T) = Inr ds"
    using diff_snapshots_total [OF wf candidate_same_playthrough [OF True]] by metis
  have eq: "advance_baseline env snap last_snapshot no_faults w =
      (if ?T = {||} then handle_empty_tracked_tick env snap else ingest_save env snap ?T ds) no_faults ?w"
    using True ds by (simp add: advance_baseline_def Let_def bind_op_def registry_no_faults [OF refl] safe_diff_def)
  show ?thesis
  proof (cases "?T = {||}")
    case True
    then show ?thesis using empty_no_faults [of env snap ?w] eq \<open>is_advance_candidate snap last_snapshot = Ok\<close>
      by (auto simp: view_step_def view_of_def)
  next
    case False
    then show ?thesis
      using ingest_save_no_faults [OF wf(2), of ?T env ?w ds] eq \<open>is_advance_candidate snap last_snapshot = Ok\<close>
      by (auto simp: view_step_def view_of_def told_by_def ds tick_candidates_def campaign_rules_def)
  qed
qed

end
