(* ===== verification/Tick_Log.thy ===== *)
theory Tick_Log
  imports Tick_Runs
begin

text \<open>
  The saves one after the other, with the guard of the consumer loop: what fails keeps the old
  baseline. What the event table holds after a run is what the diffs of the run told.
\<close>

section \<open>The loop\<close>

text \<open>\<open>last_snapshot = await \<dots>\<close> inside \<open>try: \<dots> except Exception\<close>.\<close>

definition consume_save ::
  "tick_env \<Rightarrow> save_snapshot \<Rightarrow> save_snapshot \<Rightarrow> (nat \<Rightarrow> bool) \<Rightarrow> world \<Rightarrow> save_snapshot \<times> world" where
  "consume_save env snap last_snapshot faults w =
     (case advance_baseline env snap last_snapshot faults w of
        (Inl _, w') \<Rightarrow> (last_snapshot, w')
      | (Inr s, w') \<Rightarrow> (s, w'))"

text \<open>The saves in their order, each with the environment of its tick; the baselines after each.\<close>

fun run_ticks ::
  "(tick_env \<times> save_snapshot) list \<Rightarrow> save_snapshot \<Rightarrow> (nat \<Rightarrow> bool) \<Rightarrow> world
   \<Rightarrow> save_snapshot list \<times> world" where
  "run_ticks [] last_snapshot faults w = ([], w)"
| "run_ticks ((env, snap) # saves) last_snapshot faults w =
     (let (s, w1) = consume_save env snap last_snapshot faults w;
          (ss, w2) = run_ticks saves s faults w1
      in (s # ss, w2))"

section \<open>Any run\<close>

lemma consume_kept: "consume_save env snap last_snapshot F w = (s, w') \<Longrightarrow> tick_kept w w'"
  by (auto simp: consume_save_def split: prod.splits sum.splits dest: keepsD [OF keeps_advance])

lemma consume_registry:
  "consume_save env snap last_snapshot F w = (s, w') \<Longrightarrow> registry_kept (te_campaign_id env) w w'"
  by (auto simp: consume_save_def split: prod.splits sum.splits dest: keepsD [OF reg_advance])

lemma run_registry:
  "run_ticks saves last_snapshot F w = (ss, w') \<Longrightarrow> registry_ok (w_registry w) \<Longrightarrow> registry_ok (w_registry w')"
proof (induction saves arbitrary: last_snapshot w ss)
  case (Cons e saves)
  obtain env snap where e: "e = (env, snap)" by force
  obtain s w1 where s: "consume_save env snap last_snapshot F w = (s, w1)" by force
  obtain ss' w2 where ss: "run_ticks saves s F w1 = (ss', w2)" by force
  have "w2 = w'" using Cons.prems s ss by (simp add: e)
  then show ?case using consume_registry [OF s] Cons.IH [of s w1 ss'] Cons.prems(2) ss
    by (simp add: registry_kept_def)
qed simp

lemma consume_baseline:
  "consume_save env snap last_snapshot F w = (s, w') \<Longrightarrow>
     s = last_snapshot \<or> s = snap \<and> is_advance_candidate snap last_snapshot = Ok"
  by (auto simp: consume_save_def split: prod.splits sum.splits dest: advance_result)

lemma run_kept: "run_ticks saves last_snapshot F w = (ss, w') \<Longrightarrow> tick_kept w w'"
proof (induction saves arbitrary: last_snapshot w ss)
  case Nil
  then show ?case using tick.refl by simp
next
  case (Cons e saves)
  obtain env snap where e: "e = (env, snap)" by force
  obtain s w1 where s: "consume_save env snap last_snapshot F w = (s, w1)" by force
  obtain ss' w2 where ss: "run_ticks saves s F w1 = (ss', w2)" by force
  have "w2 = w'" using Cons.prems s ss by (simp add: e)
  then show ?case using tick.trans [OF consume_kept [OF s]] Cons.IH [of s w1 ss'] ss by simp
qed

text \<open>Consecutive baselines are equal, or the later one passed the guard against the earlier.\<close>

definition forward :: "save_snapshot \<Rightarrow> save_snapshot \<Rightarrow> bool" where
  "forward old new \<longleftrightarrow> new = old \<or> is_advance_candidate new old = Ok"

lemma run_forward: "run_ticks saves last_snapshot F w = (ss, w') \<Longrightarrow>
    adjacent_all forward (last_snapshot # ss) \<and> set ss \<subseteq> insert last_snapshot (snd ` set saves)"
proof (induction saves arbitrary: last_snapshot w ss)
  case (Cons e saves)
  obtain env snap where e: "e = (env, snap)" by force
  obtain s w1 where s: "consume_save env snap last_snapshot F w = (s, w1)" by force
  obtain ss' w2 where ss: "run_ticks saves s F w1 = (ss', w2)" by force
  have "forward last_snapshot s" "s \<in> {last_snapshot, snap}"
    using consume_baseline [OF s] by (auto simp: forward_def)
  moreover have "ss = s # ss'" "w2 = w'" using Cons.prems s ss by (simp_all add: e)
  ultimately show ?case using Cons.IH [of s w1 ss'] ss by (auto simp: e)
qed simp

lemma forward_date:
  assumes "forward old new" and "parse_ck3_date (sn_current_date old) = Some a"
    and "parse_ck3_date (sn_current_date new) = Some b"
  shows "a \<le> b"
  using assms by (auto simp: forward_def is_advance_candidate_def split: if_splits)

lemma forward_playthrough:
  "forward old new \<Longrightarrow> sn_playthrough_id old \<noteq> [] \<Longrightarrow> sn_playthrough_id new \<noteq> [] \<Longrightarrow>
     sn_playthrough_id new = sn_playthrough_id old"
  by (auto simp: forward_def is_advance_candidate_def split: if_splits)

definition iso_of :: "save_snapshot \<Rightarrow> string" where
  "iso_of s = (case parse_ck3_date (sn_current_date s) of None \<Rightarrow> [] | Some d \<Rightarrow> d)"

lemma adjacent_sorted:
  assumes "adjacent_all forward ss" and "\<forall>s\<in>set ss. parse_ck3_date (sn_current_date s) \<noteq> None"
  shows "sorted (map iso_of ss)"
  using assms
proof (induction ss rule: induct_list012)
  case (3 s t ss)
  have "iso_of s \<le> iso_of t" using forward_date [of s t] 3(3,4) by (auto simp: iso_of_def)
  then show ?case using 3 by auto
qed simp_all

lemma adjacent_playthrough:
  assumes "adjacent_all forward (s # ss)" and "\<forall>t\<in>set (s # ss). sn_playthrough_id t \<noteq> []"
  shows "\<forall>t\<in>set ss. sn_playthrough_id t = sn_playthrough_id s"
  using assms
proof (induction ss arbitrary: s)
  case (Cons t ss)
  have "sn_playthrough_id t = sn_playthrough_id s" using forward_playthrough [of s t] Cons.prems by simp
  then show ?case using Cons.IH [of t] Cons.prems by auto
qed simp

section \<open>Rows of one kind\<close>

definition rows_of :: "campaign_db \<Rightarrow> int \<Rightarrow> string \<Rightarrow> event_row list" where
  "rows_of db cid t = filter (\<lambda>r. er_primary_character_id r = cid \<and> er_event_type r = t) (db_events db)"

definition keys_of :: "(string \<times> string \<times> int \<times> event) set \<Rightarrow> int \<Rightarrow> string \<Rightarrow> (string \<times> string \<times> int \<times> event) set" where
  "keys_of K cid t = {k \<in> K. fst k = t \<and> fst (snd (snd k)) = cid}"

lemma keys_of_rows: "event_row_key ` set (rows_of db cid t) = keys_of (event_keys db) cid t"
  by (auto simp: rows_of_def keys_of_def event_keys_def event_row_key_def image_iff)

lemma rows_count:
  assumes "events_ok db" shows "length (rows_of db cid t) = card (keys_of (event_keys db) cid t)"
proof -
  have "distinct (map event_row_key (rows_of db cid t))"
    using assms by (simp add: events_ok_def rows_of_def distinct_map_filter)
  then show ?thesis unfolding keys_of_rows [symmetric] by (metis distinct_card length_map set_map)
qed

lemma keys_of_diff: "keys_of (diff_key ` set ds) cid t = diff_key ` set (events_of ds cid t)"
  by (auto simp: keys_of_def events_of_def event_key_def diff_key_def Let_def image_iff)

lemma keys_of_Un: "keys_of (A \<union> B) cid t = keys_of A cid t \<union> keys_of B cid t"
  by (auto simp: keys_of_def)

section \<open>A run without faults\<close>

text \<open>The campaign of the run, with set orders, and the saves: well-formed, each accepted.\<close>

definition ticks_of :: "string \<Rightarrow> (tick_env \<times> save_snapshot) list \<Rightarrow> bool" where
  "ticks_of cid saves \<longleftrightarrow> list_all (\<lambda>(env, _). te_campaign_id env = cid
     \<and> set_order (te_id_order env) \<and> set_order (te_key_order env)) saves"

definition tracked_in :: "string \<Rightarrow> world \<Rightarrow> int fset" where
  "tracked_in campaign w = get_tracked_character_ids campaign (w_registry w)"

lemma consume_no_faults:
  assumes "wf_snapshot last_snapshot" "wf_snapshot snap" and ok: "is_advance_candidate snap last_snapshot = Ok"
    and T: "tracked_in (te_campaign_id env) w \<noteq> {||}"
  shows "\<exists>w'. consume_save env snap last_snapshot no_faults w = (snap, w')
    \<and> tracked_in (te_campaign_id env) w |\<subseteq>| tracked_in (te_campaign_id env) w'
    \<and> event_keys (w_db w') = event_keys (w_db w)
        \<union> told_by env last_snapshot snap (tracked_in (te_campaign_id env) w)"
proof -
  obtain w' where w': "advance_baseline env snap last_snapshot no_faults w =
      (Inr (fst (view_step env (campaign_rules env (w_registry w)) last_snapshot snap (view_of env w))), w')"
    "view_of env w' = snd (view_step env (campaign_rules env (w_registry w)) last_snapshot snap (view_of env w))"
    using tick_refines_view [OF assms(1,2)] by blast
  then show ?thesis using ok T
    by (auto simp: consume_save_def view_step_def view_of_def tracked_in_def)
qed

lemma told_by_death:
  assumes "set_order (te_id_order env)" "set_order (te_key_order env)"
    and "cid |\<in>| T" and "followed pt None cid prev" "followed pt None cid cur"
  shows "keys_of (told_by env prev cur T) cid ''death'' =
    diff_key ` set (death_beat (char_at prev cid) (char_at cur cid) (sn_current_date cur))"
proof -
  have "followed pt (Some T) cid prev" "followed pt (Some T) cid cur"
    using assms(3-5) by (simp_all add: followed_def)
  from diffed_death [OF followed_diffed [OF assms(1,2) this]] show ?thesis
    by (simp add: told_by_def keys_of_diff)
qed

text \<open>The deaths the saves tell of one character.\<close>

definition deaths_told :: "int \<Rightarrow> save_snapshot list \<Rightarrow> diff_event list" where
  "deaths_told cid ss = adjacent (\<lambda>prev cur.
     death_beat (char_at prev cid) (char_at cur cid) (sn_current_date cur)) ss"

lemma run_deaths:
  assumes "ticks_of campaign saves" and "adjacent_all (\<lambda>a b. is_advance_candidate b a = Ok) (s # map snd saves)"
    and "\<forall>u\<in>set (s # map snd saves). followed pt None cid u" and "cid |\<in>| tracked_in campaign w"
  shows "\<exists>w'. run_ticks saves s no_faults w = (map snd saves, w')
    \<and> keys_of (event_keys (w_db w')) cid ''death'' =
      keys_of (event_keys (w_db w)) cid ''death'' \<union> diff_key ` set (deaths_told cid (s # map snd saves))"
  using assms
proof (induction saves arbitrary: s w)
  case Nil
  then show ?case by (simp add: deaths_told_def)
next
  case (Cons e saves)
  obtain env snap where e: "e = (env, snap)" by force
  have env: "te_campaign_id env = campaign" "set_order (te_id_order env)" "set_order (te_key_order env)"
    "ticks_of campaign saves" using Cons.prems(1) by (simp_all add: ticks_of_def e)
  have wf: "wf_snapshot s" "wf_snapshot snap" and f: "followed pt None cid s" "followed pt None cid snap"
    using Cons.prems(3) by (simp_all add: followed_def e)
  have ok: "is_advance_candidate snap s = Ok" using Cons.prems(2) by (simp add: e)
  have T: "tracked_in (te_campaign_id env) w \<noteq> {||}" using Cons.prems(4) env(1) by auto
  obtain w1 where w1: "consume_save env snap s no_faults w = (snap, w1)"
    "tracked_in campaign w |\<subseteq>| tracked_in campaign w1"
    "event_keys (w_db w1) = event_keys (w_db w) \<union> told_by env s snap (tracked_in campaign w)"
    using consume_no_faults [OF wf ok T] env(1) by auto
  have cid1: "cid |\<in>| tracked_in campaign w1" using w1(2) Cons.prems(4) by blast
  obtain w2 where w2: "run_ticks saves snap no_faults w1 = (map snd saves, w2)"
    "keys_of (event_keys (w_db w2)) cid ''death'' =
      keys_of (event_keys (w_db w1)) cid ''death'' \<union> diff_key ` set (deaths_told cid (snap # map snd saves))"
    using Cons.IH [OF env(4) _ _ cid1, of snap] Cons.prems(2,3) by (auto simp: e)
  have "keys_of (event_keys (w_db w1)) cid ''death'' = keys_of (event_keys (w_db w)) cid ''death''
      \<union> diff_key ` set (death_beat (char_at s cid) (char_at snap cid) (sn_current_date snap))"
    by (simp only: w1(3) keys_of_Un told_by_death [OF env(2,3) Cons.prems(4) f])
  then show ?case using w1(1) w2 by (auto simp: e deaths_told_def image_Un)
qed

lemma death_rows:
  assumes "ticks_of campaign saves" and "adjacent_all (\<lambda>a b. is_advance_candidate b a = Ok) (s # map snd saves)"
    and "\<forall>u\<in>set (s # map snd saves). followed pt None cid u \<and> dated (char_at u cid)"
    and "adjacent_all (death_keeps cid) (s # map snd saves)"
    and "cid |\<in>| tracked_in campaign w" and "db_ok (w_db w)" and "rows_of (w_db w) cid ''death'' = []"
  shows "\<exists>w'. run_ticks saves s no_faults w = (map snd saves, w')
    \<and> length (rows_of (w_db w') cid ''death'') = (if cs_death_date (char_at s cid) = None
        \<and> cs_death_date (char_at (last (s # map snd saves)) cid) \<noteq> None then 1 else 0)"
proof -
  obtain w' where w': "run_ticks saves s no_faults w = (map snd saves, w')"
    "keys_of (event_keys (w_db w')) cid ''death'' =
      keys_of (event_keys (w_db w)) cid ''death'' \<union> diff_key ` set (deaths_told cid (s # map snd saves))"
    using run_deaths [OF assms(1,2) _ assms(5)] assms(3) by blast
  have keys: "keys_of (event_keys (w_db w')) cid ''death'' = diff_key ` set (deaths_told cid (s # map snd saves))"
    using w'(2) assms(7) by (simp add: keys_of_rows [symmetric])
  have "events_ok (w_db w')" using run_kept [OF w'(1)] assms(6) by (simp add: tick_kept_def db_ok_def)
  then have "length (rows_of (w_db w') cid ''death'') = card (diff_key ` set (deaths_told cid (s # map snd saves)))"
    by (simp add: rows_count keys)
  moreover have "length (deaths_told cid (s # map snd saves)) = (if cs_death_date (char_at s cid) = None
        \<and> cs_death_date (char_at (last (s # map snd saves)) cid) \<noteq> None then 1 else 0)"
    unfolding deaths_told_def using assms(3) by (intro deaths_of_run [OF assms(4)]) blast
  then have "card (diff_key ` set (deaths_told cid (s # map snd saves))) = length (deaths_told cid (s # map snd saves))"
    by (cases "deaths_told cid (s # map snd saves)") (auto split: if_splits)
  ultimately show ?thesis using w'(1) \<open>length (deaths_told _ _) = _\<close> by auto
qed

end
