(* ===== verification/Tick_Feed.thy ===== *)
theory Tick_Feed
  imports Tick_Log
begin

text \<open>
  The feed of the browser and a second run: every event frame that was published has its row in
  the database, whatever raises; a batch run twice stores and publishes nothing the second time;
  and what happens when the commit, or something after it, fails.
\<close>

section \<open>Frames and rows\<close>

definition frame_of_row :: "event_row \<Rightarrow> frame" where
  "frame_of_row r = EventIngested (er_id r) (er_event_type r) (er_event_date r) (er_primary_character_id r)"

definition is_event_frame :: "frame \<Rightarrow> bool" where
  "is_event_frame f = (case f of EventIngested _ _ _ _ \<Rightarrow> True | _ \<Rightarrow> False)"

definition backed :: "world \<Rightarrow> bool" where
  "backed w \<longleftrightarrow> (\<forall>f\<in>set (w_frames w). is_event_frame f \<longrightarrow> f \<in> frame_of_row ` set (db_events (w_db w)))"

lemma backed_more:
  assumes "backed w" and "set (db_events (w_db w)) \<subseteq> set (db_events (w_db w'))"
    and "\<And>f. f \<in> set (w_frames w') \<Longrightarrow> f \<notin> set (w_frames w) \<Longrightarrow> is_event_frame f \<Longrightarrow>
      f \<in> frame_of_row ` set (db_events (w_db w'))"
  shows "backed w'"
  using assms unfolding backed_def by blast

lemma stored_frame:
  assumes "ir_event_id (fst (stored env snap d db)) = Some i"
  shows "event_ingested_frame (de_event d) i \<in> frame_of_row ` set (db_events (snd (stored env snap d db)))"
  using stored_spec [of d db env snap] assms
  by (auto simp: event_ingested_frame_def frame_of_row_def diff_row_def row_of_event_def split: if_splits)

lemma db_grows_events: "db_grows a b \<Longrightarrow> set (db_events a) \<subseteq> set (db_events b)"
  by (auto simp: db_grows_def dest: set_mono_prefix)

lemma stored_grows: "db_grows db (snd (stored env snap d db))"
proof -
  have touch: "db_grows a (touch_characters snap cs a)" for cs a by (simp add: db_grows_def)
  obtain out db' where ins: "inserted env d (touch_characters snap (touched d) db) = Inr (out, db')"
    using inserted_total by blast
  have "db_grows (touch_characters snap (touched d) db) db'"
    using ins unfolding inserted_def by (rule insert_event_grows)
  then have "db_grows db db'" using db_grows_trans touch by blast
  moreover have "db_grows db' (upsert_character c kw db')" for c kw by (rule upsert_grows)
  ultimately show ?thesis using ins by (auto simp: stored_def split: option.split intro: db_grows_trans)
qed

lemma store_good_grows: "db_grows db (snd (store_good env snap ds db))"
proof (induction ds arbitrary: db)
  case Nil
  then show ?case by (simp add: db_grows_refl)
next
  case (Cons e ds)
  obtain d b where e: "e = (d, b)" by force
  let ?db = "if b then db else snd (stored env snap d db)"
  have "db_grows db ?db" by (simp add: db_grows_refl stored_grows)
  moreover have "snd (store_good env snap (e # ds) db) = snd (store_good env snap ds ?db)"
    by (simp add: e split_beta Let_def)
  ultimately show ?case using db_grows_trans Cons.IH by metis
qed

lemma pending_frames_Cons:
  "pending_frames (d # ds) (r # rs) =
     (case (if ir_outcome r = Ingested then ir_event_id r else None) of
        None \<Rightarrow> [] | Some i \<Rightarrow> [event_ingested_frame (de_event d) i]) @ pending_frames ds rs"
  by (cases "ir_event_id r") (simp_all add: pending_frames_def)

lemma store_good_frames:
  "store_good env snap (zip ds fl) db = (rs, db') \<Longrightarrow> length fl = length ds \<Longrightarrow>
     f \<in> set (pending_frames ds rs) \<Longrightarrow> f \<in> frame_of_row ` set (db_events db')"
proof (induction ds fl arbitrary: db rs rule: list_induct2')
  case (4 d ds b fl)
  let ?r = "fst (if b then (error_result, db) else stored env snap d db)"
  let ?db = "if b then db else snd (stored env snap d db)"
  obtain rs' where rs': "store_good env snap (zip ds fl) ?db = (rs', db')" and rs: "rs = ?r # rs'"
    using 4(2) by (auto simp: split_beta Let_def prod_eq_iff)
  consider "f \<in> set (pending_frames ds rs')"
    | i where "ir_outcome ?r = Ingested" "ir_event_id ?r = Some i" "f = event_ingested_frame (de_event d) i"
    using 4(4) unfolding rs pending_frames_Cons
    by (cases "ir_outcome ?r = Ingested"; cases "ir_event_id ?r") auto
  then show ?case
  proof cases
    case 1
    then show ?thesis using 4(1) [OF rs'] 4(3) by simp
  next
    case 2
    then have "\<not> b" by (auto simp: error_result_def split: if_splits)
    then have "f \<in> frame_of_row ` set (db_events ?db)" using 2 stored_frame by auto
    moreover have "set (db_events ?db) \<subseteq> set (db_events db')"
      using db_grows_events [OF store_good_grows [of ?db env snap "zip ds fl"]] rs' by simp
    ultimately show ?thesis by blast
  qed
qed (simp_all add: pending_frames_def map_filter_def)

definition feed_kept :: "world \<Rightarrow> world \<Rightarrow> bool" where
  "feed_kept w w' \<longleftrightarrow> (backed w \<longrightarrow> backed w')"

interpretation feed: kept_relation feed_kept
  by unfold_locales (auto simp: feed_kept_def backed_def)

lemma feed_same:
  "w_frames w' = w_frames w \<Longrightarrow> db_events (w_db w') = db_events (w_db w) \<Longrightarrow> feed_kept w w'"
  by (simp add: feed_kept_def backed_def)

lemma feed_ingest: "keeps feed_kept (ingest_diff_events env snap ds)"
  unfolding keeps_def feed_kept_def
proof (intro allI impI)
  fix F w assume b: "backed w"
  consider e w' where "ingest_diff_events env snap ds F w = (Inl e, w')" "w_db w' = w_db w" "w_frames w' = w_frames w"
    | rs w' where "ingest_diff_events env snap ds F w = (Inr (chars_with_new_events ds rs, rs), w')"
      "length rs = length ds" "store_good env snap (zip ds (map failed rs)) (w_db w) = (rs, w_db w')"
      "w_frames w' = w_frames w @ (if te_bus env then pending_frames ds rs else [])"
    using ingest_diff_events_run [of env snap ds F w] by blast
  then show "backed (snd (ingest_diff_events env snap ds F w))"
  proof cases
    case 1
    then show ?thesis using b by (simp add: backed_def)
  next
    case 2
    have "backed w'"
    proof (rule backed_more [OF b])
      show "set (db_events (w_db w)) \<subseteq> set (db_events (w_db w'))"
        using db_grows_events [OF store_good_grows [of "w_db w" env snap "zip ds (map failed rs)"]] 2(3) by simp
      show "f \<in> frame_of_row ` set (db_events (w_db w'))" if "f \<in> set (w_frames w')" "f \<notin> set (w_frames w)" for f
        using store_good_frames [OF 2(3), of f] 2(2,4) that by (auto split: if_splits)
    qed
    then show ?thesis using 2(1) by simp
  qed
qed

lemma quiet_refresh: "keeps outside_kept (refresh_tracked_characters env snap T)"
proof -
  have "keeps outside_kept (db_op (append_coa_history_if_changed cid v now))" for cid v now
    by (rule quiet.keeps_db) (simp add: outside_kept_def)
  moreover have "keeps outside_kept (raise_op e)" for e :: exn
    by (simp add: keeps_def raise_op_def outside_kept_def)
  ultimately show ?thesis
    unfolding refresh_tracked_characters_def refresh_character_def Let_def
    by (auto intro!: quiet.keeps_all keeps_upsert
        simp del: return_op_simps(1) split: option.split sum.split)
qed

lemma feed_refresh: "keeps feed_kept (refresh_tracked_characters env snap T)"
  using quiet_refresh evs_refresh unfolding keeps_def outside_kept_def events_kept_def
  by (blast intro: feed_same)

lemma feed_registry: "keeps feed_kept (registry_op g)"
  by (rule feed.keeps_registry) (simp add: feed_same)

lemma feed_publish: "\<not> is_event_frame f \<Longrightarrow> keeps feed_kept (publish env f)"
  unfolding publish_def by (intro feed.keeps_when feed.keeps_modify) (auto simp: feed_kept_def backed_def)

lemma feed_raise: "keeps feed_kept (raise_op e)"
  by (simp add: keeps_def raise_op_def feed_kept_def)

lemma feed_baseline: "keeps feed_kept (persist_baseline_safely env snap)"
  unfolding persist_baseline_safely_def
  by (intro feed.keeps_intros feed.keeps_statement) (simp add: feed_same)

lemma feed_complete: "keeps feed_kept (publish_tick_complete env snap n tally)"
  unfolding publish_tick_complete_def
  by (intro feed.keeps_intros feed_registry feed_publish) (simp add: is_event_frame_def save_pair_completed_def)

lemma feed_drop: "keeps feed_kept (drop_save env snap last_snapshot why)"
  unfolding drop_save_def publish_save_dropped_foreign_def maybe_notify_foreign_playthrough_def resume_campaign_def
  by (auto intro!: feed.keeps_intros feed_registry feed_publish feed.keeps_modify feed_same
      simp del: return_op_simps(1) simp: is_event_frame_def split: option.split)

lemma feed_auto_track: "keeps feed_kept (auto_track_new_candidates env snap T)"
  unfolding auto_track_new_candidates_def track_op_def Let_def
  by (auto intro!: feed.keeps_intros feed_registry simp del: return_op_simps(1))

lemma feed_persist: "keeps feed_kept (persist_per_save_state env snap)"
  unfolding persist_per_save_state_def touch_op_def apply_campaign_overview_from_snap_def
  by (intro feed.keeps_intros feed_registry feed_baseline)

lemma feed_advance: "keeps feed_kept (advance_baseline env snap last_snapshot)"
  unfolding advance_baseline_def handle_empty_tracked_tick_def ingest_save_def Let_def
  by (auto intro!: feed.keeps_intros feed_drop feed_registry feed_baseline feed_complete feed_refresh feed_ingest
      feed_auto_track feed_persist feed_raise simp del: return_op_simps(1) split: sum.split option.split prod.split)

section \<open>A batch run twice\<close>

lemma pending_again: "pending_frames ds (map (again \<circ> snd) (zip ds fl)) = []"
  by (induction ds fl rule: list_induct2') (simp_all add: pending_frames_def map_filter_def again_def error_result_def)

lemma batch_twice:
  assumes "ingest_diff_events env snap ds F w = (Inr (cs, rs), w1)" and "list_all (\<lambda>r. \<not> failed r) rs"
    and "w_db w2 = w_db w1" and "ingest_diff_events env' snap ds F' w2 = (out, w3)"
  shows "w_db w3 = w_db w2 \<and> w_frames w3 = w_frames w2"
proof -
  have len: "length rs = length ds" and sg: "store_good env snap (zip ds (map failed rs)) (w_db w) = (rs, w_db w1)"
    using ingest_diff_events_run [of env snap ds F w] assms(1) by auto
  have sat: "saturated snap (w_db w1) d" if "d \<in> set ds" for d
    using store_good_saturates [of env snap "zip ds (map failed rs)" "w_db w" "w_db w1" d] sg that
      zip_unfailed [OF len assms(2)] by auto
  consider e where "out = Inl e" "w_db w3 = w_db w2" "w_frames w3 = w_frames w2"
    | rs' where "length rs' = length ds" "store_good env' snap (zip ds (map failed rs')) (w_db w2) = (rs', w_db w3)"
      "w_frames w3 = w_frames w2 @ (if te_bus env' then pending_frames ds rs' else [])"
    using ingest_diff_events_run [of env' snap ds F' w2] assms(4) by auto
  then show ?thesis
  proof cases
    case 2
    have "\<forall>(d, b)\<in>set (zip ds (map failed rs')). saturated snap (w_db w2) d"
      using sat assms(3) by (auto dest: set_zip_leftD)
    from store_good_again [OF this] have "rs' = map (again \<circ> snd) (zip ds (map failed rs'))" "w_db w3 = w_db w2"
      using 2(2) by simp_all
    moreover from this(1) have "pending_frames ds rs' = []" using pending_again by metis
    ultimately show ?thesis using 2(3) by simp
  qed simp
qed

section \<open>When the commit fails\<close>

lemma commit_failure:
  assumes "ingest_all env snap ds F w = (Inr rs, w1)" and "list_all (\<lambda>r. \<not> failed r) rs" and "F (w_clock w1)"
  shows "\<exists>w'. ingest_diff_events env snap ds F w = (Inl (Db_Exn OperationalError), w') \<and> w_db w' = w_db w
    \<and> w_scheduled w' = w_scheduled w @ all_announced env ds rs"
proof -
  have "w_scheduled w1 = w_scheduled w @ all_announced env ds rs"
    using ingest_all_run [of env snap ds F w] assms(1,2) by auto
  then show ?thesis using assms(1,3)
    by (simp add: ingest_diff_events_def session_scope_def rollback_on_error_simps bind_op_def
        plain_statement_def statement_def rollback_on_error_def)
qed

section \<open>When something after the commit fails\<close>

lemma told_again:
  assumes wf: "wf_snapshot last_snapshot" "wf_snapshot snap'" and ok: "is_advance_candidate snap' last_snapshot = Ok"
    and fail: "advance_baseline env snap last_snapshot F w = (Inl e, w1)"
    and stored: "told_by env last_snapshot snap (tracked_in (te_campaign_id env) w) \<subseteq> event_keys (w_db w1)"
    and T: "tracked_in (te_campaign_id env') w1 \<noteq> {||}"
  shows "\<exists>w2. run_ticks [(env, snap)] last_snapshot F w = ([last_snapshot], w1)
    \<and> run_ticks [(env', snap')] last_snapshot no_faults w1 = ([snap'], w2)
    \<and> told_by env last_snapshot snap (tracked_in (te_campaign_id env) w)
       \<union> told_by env' last_snapshot snap' (tracked_in (te_campaign_id env') w1) \<subseteq> event_keys (w_db w2)"
  using consume_no_faults [OF wf ok T] fail stored by (auto simp: consume_save_def)

end
