(* ===== verification/Demo_Tick.thy ===== *)
theory Demo_Tick
  imports Tick_Feed Demo
begin

text \<open>
  A campaign that follows Bob (2) of the example saves: its registry, its empty database, and the
  environment of its ticks.
\<close>

definition demo_env :: tick_env where
  "demo_env = \<lparr>te_campaign_id = ''c1'', te_save_name = ''autosave.ck3'', te_now = ''2026-01-01'',
     te_bus = True, te_scheduler = True, te_paused = False, te_persist_path = True, te_on_foreign = True,
     te_names = [], te_id_order = py_sorted, te_key_order = py_sorted\<rparr>"

definition demo_registry :: registry where
  "demo_registry = add_tracked_character ''2026-01-01'' ''c1'' 2 (Some ''player'') (Some ''player'')
     (empty_registry\<lparr>rg_campaigns :=
       [new_campaign ''c1'' ''Bob'' None ''2026-01-01'' ''c1.db'' None (Some ''run'')]\<rparr>)"

definition demo_world :: world where
  "demo_world = \<lparr>w_db = empty_db, w_registry = demo_registry, w_baseline = Some demo1, w_frames = [],
     w_scheduled = [], w_resumed = [], w_clock = 0\<rparr>"

lemma demo_world_ok: "db_ok (w_db demo_world)" "registry_ok (w_registry demo_world)"
  using add_tracked_ok [of "empty_registry\<lparr>rg_campaigns :=
       [new_campaign ''c1'' ''Bob'' None ''2026-01-01'' ''c1.db'' None (Some ''run'')]\<rparr>"]
  by (simp_all add: demo_world_def empty_db_ok demo_registry_def)
    (simp add: registry_ok_def empty_registry_def)

end
