(* ===== verification/Tick_Props.thy ===== *)
theory Tick_Props
  imports Demo_Tick
begin

text \<open>
  The properties of the save tick, of its databases and of the registry of campaigns.
\<close>

section \<open>The tick\<close>

text \<open>C4: without faults a tick refines the abstract step on what a campaign is about: the guard
  decides; an accepted save becomes the baseline, its diff against the old one, over the tracked
  characters, is added to the events told, and the family of the player to the tracked characters.\<close>

theorem tick_refines:
  assumes "wf_snapshot last_snapshot" and "wf_snapshot snap"
  shows "\<exists>w'. advance_baseline env snap last_snapshot no_faults w =
      (Inr (fst (view_step env (campaign_rules env (w_registry w)) last_snapshot snap (view_of env w))), w')
    \<and> view_of env w' = snd (view_step env (campaign_rules env (w_registry w)) last_snapshot snap (view_of env w))"
  using assms by (rule tick_refines_view)

lemma demo_dates: "parse_ck3_date ''1066.1.1'' = Some ''1066-01-01''" "parse_ck3_date ''1066.6.1'' = Some ''1066-06-01''"
  "parse_ck3_date ''1066.7.1'' = Some ''1066-07-01''" "parse_ck3_date ''1067.2.1'' = Some ''1067-02-01''"
  "parse_ck3_date ''1068.1.1'' = Some ''1068-01-01''"
  by code_simp+

lemma demo_accepted: "is_advance_candidate demo2 demo1 = Ok" "is_advance_candidate demo3 demo2 = Ok"
  by (simp_all add: is_advance_candidate_def demo_saves demo_dates)

lemma demo_tracked: "tracked_in ''c1'' demo_world = {|2|}"
  by (simp add: tracked_in_def demo_world_def demo_registry_def tracked_ids_add)
    (simp add: get_tracked_character_ids_def empty_registry_def)

lemma demo_env_simps [simp]: "te_campaign_id demo_env = ''c1''" "te_id_order demo_env = py_sorted"
  "te_key_order demo_env = py_sorted"
  by (simp_all add: demo_env_def)

theorem tick_refines_witness:
  "\<exists>w'. advance_baseline demo_env demo2 demo1 no_faults demo_world = (Inr demo2, w')
     \<and> 2 |\<in>| cv_tracked (view_of demo_env w')"
  using tick_refines [OF demo_wf(1,2), of demo_env demo_world] demo_tracked demo_accepted(1)
  by (auto simp: view_step_def view_of_def tracked_in_def)

text \<open>C9: over a run of accepted saves without faults, in which the dead records carry their dates
  and dates do not vanish, the event table ends with exactly one row for the death of a tracked
  character that died on the way, and none for one that did not.\<close>

theorem death_stored_once:
  assumes "ticks_of campaign saves"
    and "adjacent_all (\<lambda>a b. is_advance_candidate b a = Ok) (s # map snd saves)"
    and "\<forall>u\<in>set (s # map snd saves). followed pt None cid u \<and> dated (char_at u cid)"
    and "adjacent_all (death_keeps cid) (s # map snd saves)"
    and "cid |\<in>| tracked_in campaign w" and "db_ok (w_db w)" and "rows_of (w_db w) cid ''death'' = []"
  shows "\<exists>w'. run_ticks saves s no_faults w = (map snd saves, w')
    \<and> length (rows_of (w_db w') cid ''death'') = (if cs_death_date (char_at s cid) = None
        \<and> cs_death_date (char_at (last (s # map snd saves)) cid) \<noteq> None then 1 else 0)"
  using assms by (rule death_rows)

definition demo_alice_world :: world where
  "demo_alice_world = demo_world\<lparr>w_registry :=
     add_tracked_character ''2026-01-01'' ''c1'' 1 None None demo_registry\<rparr>"

theorem death_stored_once_witness:
  "\<exists>w'. run_ticks [(demo_env, demo2), (demo_env, demo3)] demo1 no_faults demo_alice_world = ([demo2, demo3], w')
     \<and> length (rows_of (w_db w') 1 ''death'') = 1"
proof -
  have "\<exists>w'. run_ticks [(demo_env, demo2), (demo_env, demo3)] demo1 no_faults demo_alice_world =
      (map snd [(demo_env, demo2), (demo_env, demo3)], w')
    \<and> length (rows_of (w_db w') 1 ''death'') = (if cs_death_date (char_at demo1 1) = None
        \<and> cs_death_date (char_at (last (demo1 # map snd [(demo_env, demo2), (demo_env, demo3)])) 1) \<noteq> None
        then 1 else 0)"
    by (rule death_stored_once [where campaign = "''c1''" and pt = "''run''"])
      (use demo_followed demo_accepted in \<open>simp_all add: ticks_of_def py_order demo_char_at rows_of_def
        demo_alice_world_def demo_world_def tracked_in_def tracked_ids_add empty_db_ok\<close>,
       simp_all add: dated_def death_keeps_def demo_char_at demo_chars empty_db_def)
  then show ?thesis by (simp add: demo_char_at demo_chars)
qed

section \<open>Failures\<close>

text \<open>C20: a batch of events, whatever raises, ends in one of two ways: the commit failed and the
  database and the feed are as before, or every event that did not fail is stored as the abstract
  operation on the database alone stores it, the failed ones are skipped, and the frames of the new
  rows are published after the commit, in order.\<close>

theorem batch_isolates_failures:
  "(\<exists>e w'. ingest_diff_events env snap ds F w = (Inl e, w') \<and> w_db w' = w_db w \<and> w_frames w' = w_frames w)
   \<or> (\<exists>rs w'. ingest_diff_events env snap ds F w = (Inr (chars_with_new_events ds rs, rs), w')
        \<and> length rs = length ds
        \<and> store_good env snap (zip ds (map failed rs)) (w_db w) = (rs, w_db w')
        \<and> w_frames w' = w_frames w @ (if te_bus env then pending_frames ds rs else []))"
  using ingest_diff_events_run [of env snap ds F w] by blast

text \<open>C7: whatever raises in a run of saves, the database keeps its integrity (unique event keys,
  foreign keys, coats of arms without repetition, versions of biographies), the registry keeps its
  keys, and rows are only appended.\<close>

theorem run_keeps_integrity:
  assumes "db_ok (w_db w)" and "registry_ok (w_registry w)"
  shows "db_ok (w_db (snd (run_ticks saves s F w))) \<and> registry_ok (w_registry (snd (run_ticks saves s F w)))
    \<and> db_grows (w_db w) (w_db (snd (run_ticks saves s F w)))"
  using run_kept [of saves s F w] run_registry [of saves s F w] assms
  by (cases "run_ticks saves s F w") (simp add: tick_kept_def)

definition fault_at :: "nat \<Rightarrow> nat \<Rightarrow> bool" where
  "fault_at k n \<longleftrightarrow> n = k"

theorem run_keeps_integrity_witness:
  "db_ok (w_db (snd (run_ticks [(demo_env, demo2), (demo_env, demo3)] demo1 (fault_at 9) demo_world)))"
  using run_keeps_integrity [OF demo_world_ok] by blast

text \<open>C21: every event frame in the feed has its row in the database, with the same identifier,
  type, date and character, whatever raises in a tick.\<close>

theorem feed_is_backed:
  assumes "backed w" shows "backed (snd (advance_baseline env snap last_snapshot F w))"
  using feed_advance assms unfolding keeps_def feed_kept_def by blast

theorem feed_is_backed_witness: "backed (snd (advance_baseline demo_env demo2 demo1 (fault_at 9) demo_world))"
  by (rule feed_is_backed) (simp add: backed_def demo_world_def)

text \<open>C22: running a batch again that was stored whole, which is one that was committed and of which no
  event failed, changes nothing in the database and publishes no frame: after a restart, later, under
  another name and whatever raises. (The events that failed in the first run are tried again in the
  second, so a batch with such an event is left out.)\<close>

theorem batch_idempotent:
  assumes "ingest_diff_events env snap ds F w = (Inr (cs, rs), w1)" and "list_all (\<lambda>r. \<not> failed r) rs"
    and "w_db w2 = w_db w1" and "ingest_diff_events env' snap ds F' w2 = (out, w3)"
  shows "w_db w3 = w_db w2 \<and> w_frames w3 = w_frames w2"
  using assms by (rule batch_twice)

theorem batch_idempotent_witness:
  "w_db (snd (ingest_diff_events demo_env (Some demo2) demo_diff (fault_at 3)
      (snd (ingest_diff_events demo_env (Some demo2) demo_diff no_faults demo_world)))) =
   w_db (snd (ingest_diff_events demo_env (Some demo2) demo_diff no_faults demo_world))"
proof -
  obtain rs w1 where run: "ingest_diff_events demo_env (Some demo2) demo_diff no_faults demo_world =
      (Inr (chars_with_new_events demo_diff rs, rs), w1)" "list_all (\<lambda>r. \<not> failed r) rs"
    using batch_no_faults by blast
  obtain out w3 where again: "ingest_diff_events demo_env (Some demo2) demo_diff (fault_at 3) w1 = (out, w3)"
    by force
  show ?thesis using batch_idempotent [OF run refl again] by (simp add: run(1) again)
qed

text \<open>An event that carries the date of the save is stored twice when something after the commit
  of the batch fails, the registry being locked for example: the loop keeps the old baseline, and
  the next save tells the change again under its own date.\<close>

theorem failed_tick_retold:
  assumes "wf_snapshot last_snapshot" and "wf_snapshot snap'" and "is_advance_candidate snap' last_snapshot = Ok"
    and "advance_baseline env snap last_snapshot F w = (Inl e, w1)" and "db_ok (w_db w1)"
    and "r \<in> set (rows_of (w_db w1) cid t)"
    and "d \<in> set (events_of (projr (diff_snapshots (te_id_order env') (te_key_order env') last_snapshot snap'
          (Some (tracked_in (te_campaign_id env') w1)))) cid t)"
    and "er_event_date r \<noteq> ev_d (de_event d)" and "tracked_in (te_campaign_id env') w1 \<noteq> {||}"
  shows "\<exists>w2. run_ticks [(env, snap)] last_snapshot F w = ([last_snapshot], w1)
    \<and> run_ticks [(env', snap')] last_snapshot no_faults w1 = ([snap'], w2)
    \<and> 2 \<le> length (rows_of (w_db w2) cid t)"
proof -
  obtain w2 where w2: "consume_save env' snap' last_snapshot no_faults w1 = (snap', w2)"
    "event_keys (w_db w2) = event_keys (w_db w1)
      \<union> told_by env' last_snapshot snap' (tracked_in (te_campaign_id env') w1)"
    using consume_no_faults [OF assms(1-3,9)] by blast
  have "event_row_key r \<in> keys_of (event_keys (w_db w1)) cid t"
    using assms(6) keys_of_rows [of "w_db w1" cid t] by blast
  moreover have "diff_key d \<in> keys_of (told_by env' last_snapshot snap' (tracked_in (te_campaign_id env') w1)) cid t"
    using assms(7) by (simp add: told_by_def keys_of_diff)
  moreover have "event_row_key r \<noteq> diff_key d"
    using assms(8) by (simp add: event_row_key_def diff_key_def Let_def)
  ultimately have two: "{event_row_key r, diff_key d} \<subseteq> keys_of (event_keys (w_db w2)) cid t"
    "card {event_row_key r, diff_key d} = 2"
    by (simp_all add: w2(2) keys_of_Un)
  have "finite (keys_of (event_keys (w_db w2)) cid t)" by (simp add: keys_of_def event_keys_def)
  from card_mono [OF this two(1)] two(2) have "2 \<le> card (keys_of (event_keys (w_db w2)) cid t)" by simp
  moreover have "events_ok (w_db w2)"
    using consume_kept [OF w2(1)] assms(5) by (simp add: tick_kept_def db_ok_def)
  ultimately show ?thesis using w2(1) assms(4) by (simp add: rows_count consume_save_def)
qed

text \<open>The registry is locked when the tick of the second save touches it; the next save is a month
  later.\<close>

definition demo_later :: save_snapshot where
  "demo_later = demo2\<lparr>sn_current_date := ''1066.7.1''\<rparr>"

definition demo_failed :: world where
  "demo_failed = snd (advance_baseline demo_env demo2 demo1 (fault_at 26) demo_world)"

lemma demo_failed_run:
  "case advance_baseline demo_env demo2 demo1 (fault_at 26) demo_world of (r, w) \<Rightarrow>
     isl r \<and> map er_event_date (rows_of (w_db w) 2 ''alliance_broken'') = [''1066.6.1'']
     \<and> tracked_in ''c1'' w = {|1, 2, 4|}"
  by code_simp

lemma demo_failed_rows:
  "isl (fst (advance_baseline demo_env demo2 demo1 (fault_at 26) demo_world))"
  "map er_event_date (rows_of (w_db demo_failed) 2 ''alliance_broken'') = [''1066.6.1'']"
  "tracked_in ''c1'' demo_failed = {|1, 2, 4|}"
  using demo_failed_run by (auto simp: demo_failed_def split: prod.splits)

lemma demo_later_diff:
  "map (\<lambda>d. (de_c d, de_t d, ev_d (de_event d))) (events_of (projr (diff_snapshots py_sorted py_sorted demo1 demo_later
     (Some {|1, 2, 4|}))) 2 ''alliance_broken'') = [(2, ''alliance_broken'', ''1066.7.1'')]"
  by code_simp

theorem failed_tick_retold_witness:
  "\<exists>w2. run_ticks [(demo_env, demo_later)] demo1 no_faults demo_failed = ([demo_later], w2)
     \<and> 2 \<le> length (rows_of (w_db w2) 2 ''alliance_broken'')"
proof -
  obtain e where e: "advance_baseline demo_env demo2 demo1 (fault_at 26) demo_world = (Inl e, demo_failed)"
    using demo_failed_rows(1) unfolding demo_failed_def by (metis isl_def prod.collapse)
  have wf: "wf_snapshot demo_later"
    using demo_wf(2) by (simp add: demo_later_def wf_snapshot_def wf_characters_def wf_titles_def holders_agree_def)
  have ok: "is_advance_candidate demo_later demo1 = Ok"
    by (simp add: is_advance_candidate_def demo_later_def demo_saves demo_dates)
  obtain r where r: "r \<in> set (rows_of (w_db demo_failed) 2 ''alliance_broken'')" "er_event_date r = ''1066.6.1''"
    using demo_failed_rows(2) by (auto simp: map_eq_Cons_conv)
  obtain d where d: "d \<in> set (events_of (projr (diff_snapshots py_sorted py_sorted demo1 demo_later
     (Some {|1, 2, 4|}))) 2 ''alliance_broken'')" "ev_d (de_event d) = ''1066.7.1''"
    using demo_later_diff by (auto simp: map_eq_Cons_conv)
  have "db_ok (w_db demo_failed)"
    using keepsD [OF keeps_advance e] demo_world_ok(1) by (simp add: tick_kept_def)
  from failed_tick_retold [OF demo_wf(1) wf ok e this r(1), of d demo_env] show ?thesis
    using d r(2) demo_failed_rows(3) by auto
qed

text \<open>When the commit of a batch fails, the characters whose deaths it held have already been
  handed to the biography scheduler, while their deaths are not in the database.\<close>

theorem failed_commit_schedules:
  assumes "ingest_all env snap ds F w = (Inr rs, w1)" and "list_all (\<lambda>r. \<not> failed r) rs" and "F (w_clock w1)"
  shows "\<exists>w'. ingest_diff_events env snap ds F w = (Inl (Db_Exn OperationalError), w') \<and> w_db w' = w_db w
    \<and> w_scheduled w' = w_scheduled w @ all_announced env ds rs"
  using assms by (rule commit_failure)

definition demo_deaths :: "diff_event list" where
  "demo_deaths = [make_death demo_alice3 ''1067.2.1'']"

lemma demo_deaths_run:
  "case ingest_all demo_env (Some demo3) demo_deaths (fault_at 7) demo_world of
     (Inl _, _) \<Rightarrow> False
   | (Inr rs, w1) \<Rightarrow> list_all (\<lambda>r. \<not> failed r) rs \<and> w_clock w1 = 7 \<and> all_announced demo_env demo_deaths rs = [1]"
  by code_simp

theorem failed_commit_schedules_witness:
  "\<exists>w'. ingest_diff_events demo_env (Some demo3) demo_deaths (fault_at 7) demo_world =
      (Inl (Db_Exn OperationalError), w') \<and> w_db w' = empty_db \<and> w_scheduled w' = [1]"
proof -
  obtain rs w1 where run: "ingest_all demo_env (Some demo3) demo_deaths (fault_at 7) demo_world = (Inr rs, w1)"
    "list_all (\<lambda>r. \<not> failed r) rs" "w_clock w1 = 7" "all_announced demo_env demo_deaths rs = [1]"
    using demo_deaths_run by (auto split: prod.splits sum.splits)
  have "fault_at 7 (w_clock w1)" by (simp add: run(3) fault_at_def)
  from failed_commit_schedules [OF run(1,2) this] show ?thesis by (simp add: run(4)) (simp add: demo_world_def)
qed

section \<open>The baseline\<close>

text \<open>C23: whatever raises, the baseline only moves forward: over a run of saves with readable dates
  and playthrough identifiers, the baselines have non-decreasing dates and stay with the
  playthrough of the first.\<close>

theorem baselines_forward:
  assumes "\<forall>t\<in>set (s # map snd saves). parse_ck3_date (sn_current_date t) \<noteq> None \<and> sn_playthrough_id t \<noteq> []"
  shows "sorted (map iso_of (s # fst (run_ticks saves s F w)))
    \<and> (\<forall>t\<in>set (fst (run_ticks saves s F w)). sn_playthrough_id t = sn_playthrough_id s)"
proof -
  obtain ss w' where run: "run_ticks saves s F w = (ss, w')" by force
  have "set (s # ss) \<subseteq> set (s # map snd saves)" using run_forward [OF run] by auto
  then have "\<forall>t\<in>set (s # ss). parse_ck3_date (sn_current_date t) \<noteq> None \<and> sn_playthrough_id t \<noteq> []"
    using assms by blast
  moreover have "adjacent_all forward (s # ss)" using run_forward [OF run] by blast
  ultimately have "sorted (map iso_of (s # ss))" "\<forall>t\<in>set ss. sn_playthrough_id t = sn_playthrough_id s"
    using adjacent_sorted [of "s # ss"] adjacent_playthrough [of s ss] by blast+
  then show ?thesis unfolding run by simp
qed

theorem baselines_forward_witness:
  "sorted (map iso_of (demo1 # fst (run_ticks [(demo_env, demo3), (demo_env, demo2)] demo1 (fault_at 9) demo_world)))"
  using baselines_forward [of demo1 "[(demo_env, demo3), (demo_env, demo2)]" "fault_at 9" demo_world]
  by (simp add: demo_saves demo_dates)

text \<open>A save without a playthrough identifier passes the guard in both directions, so that a
  foreign save behind it becomes the baseline, and every later save of the own game is foreign.\<close>

theorem blank_save_lets_foreign_in:
  assumes "wf_snapshot own" and "wf_snapshot blank" and "wf_snapshot foreign"
    and "sn_playthrough_id blank = []" and "sn_playthrough_id own \<noteq> []" and "sn_playthrough_id foreign \<noteq> []"
    and "sn_playthrough_id own \<noteq> sn_playthrough_id foreign"
    and "parse_ck3_date (sn_current_date own) = Some d1" and "parse_ck3_date (sn_current_date blank) = Some d2"
    and "parse_ck3_date (sn_current_date foreign) = Some d3" and "d1 < d2" and "d2 < d3"
    and "te_campaign_id env = campaign" and "tracked_in campaign w \<noteq> {||}"
  shows "is_advance_candidate foreign own = Foreign
    \<and> fst (run_ticks [(env, blank), (env, foreign)] own no_faults w) = [blank, foreign]
    \<and> (\<forall>later. sn_playthrough_id later = sn_playthrough_id own \<longrightarrow> is_advance_candidate later foreign = Foreign)"
proof -
  have ok: "is_advance_candidate blank own = Ok" "is_advance_candidate foreign blank = Ok"
    using assms by (auto simp: is_advance_candidate_def)
  obtain w1 where w1: "consume_save env blank own no_faults w = (blank, w1)"
    "tracked_in campaign w |\<subseteq>| tracked_in campaign w1"
    using consume_no_faults [OF assms(1,2) ok(1)] assms(13,14) by blast
  have "tracked_in campaign w1 \<noteq> {||}" using w1(2) assms(14) by auto
  then obtain w2 where "consume_save env foreign blank no_faults w1 = (foreign, w2)"
    using consume_no_faults [OF assms(2,3) ok(2)] assms(13) by blast
  then show ?thesis using w1(1) assms(5-7) by (auto simp: is_advance_candidate_def)
qed

definition demo_blank :: save_snapshot where
  "demo_blank = demo2\<lparr>sn_playthrough_id := []\<rparr>"

definition demo_foreign :: save_snapshot where
  "demo_foreign = demo3\<lparr>sn_playthrough_id := ''other'', sn_current_date := ''1068.1.1''\<rparr>"

lemma demo_hijack_wf: "wf_snapshot demo_blank" "wf_snapshot demo_foreign"
  using demo_wf(2,3) by (simp_all add: demo_blank_def demo_foreign_def wf_snapshot_def wf_characters_def
      wf_titles_def holders_agree_def)

theorem blank_save_lets_foreign_in_witness:
  "fst (run_ticks [(demo_env, demo_blank), (demo_env, demo_foreign)] demo1 no_faults demo_world) =
     [demo_blank, demo_foreign]"
  using blank_save_lets_foreign_in [OF demo_wf(1) demo_hijack_wf, of "''1066-01-01''" "''1066-06-01''" "''1068-01-01''"
      demo_env "''c1''" demo_world] demo_tracked
  by (simp add: demo_blank_def demo_foreign_def demo_saves demo_dates)

section \<open>The registry\<close>

text \<open>C40: resolving a save that has a playthrough identifier to its campaign never gives a playthrough a
  second campaign. What comes back is active and pinned to the playthrough of the save; either it is a
  row that was there, and the registry is left as it is, or it is a new one behind the others, and
  before that no row, active or archived, had the playthrough.\<close>

theorem one_campaign_per_playthrough:
  assumes "one_per_playthrough rg" and "resolve_campaign_for_save dd uuid now snap v rg = Inr (c, rg')"
    and "sp_playthrough_id snap \<noteq> []"
  shows "one_per_playthrough rg' \<and> cp_ck3_playthrough_id c = Some (sp_playthrough_id snap) \<and> \<not> cp_archived c
    \<and> (rg' = rg \<and> c \<in> set (rg_campaigns rg)
       \<or> rg' = rg\<lparr>rg_campaigns := rg_campaigns rg @ [c]\<rparr>
         \<and> Some (sp_playthrough_id snap) \<notin> cp_ck3_playthrough_id ` set (rg_campaigns rg))"
  using resolve_one [OF assms(1,2)] resolve_spec [OF assms(2,3)] by auto

theorem one_campaign_per_playthrough_witness:
  "\<exists>c rg'. resolve_campaign_for_save ''d'' ''u2'' ''2026'' \<lparr>sp_playthrough_id = ''other'', sp_bookmark_date = None,
       sp_founding_player_first_name = None, sp_founding_dynasty_name = None\<rparr> None demo_registry = Inr (c, rg')
     \<and> one_per_playthrough rg' \<and> length (rg_campaigns rg') = 2"
proof -
  let ?s = "\<lparr>sp_playthrough_id = ''other'', sp_bookmark_date = None,
       sp_founding_player_first_name = None, sp_founding_dynasty_name = None\<rparr>"
  have one: "one_per_playthrough demo_registry"
    by (simp add: one_per_playthrough_def demo_registry_def)
  obtain c rg' where r: "resolve_campaign_for_save ''d'' ''u2'' ''2026'' ?s None demo_registry = Inr (c, rg')"
    "length (rg_campaigns rg') = 2"
    by (simp add: resolve_campaign_for_save_def matches_def order_desc_def demo_registry_def new_campaign_def
        find_archived_match_for_playthrough_def fetchone_def created_def create_from_snap_def create_campaign_def Let_def)
  show ?thesis using one_campaign_per_playthrough [OF one r(1)] r by auto
qed

text \<open>The county vassals that automatic tracking adds are exactly the other holders of counties
  from which a title of the player's realm is met within five steps up the de jure lieges.\<close>

theorem county_vassals_within_five:
  "v \<in> set (resolve_county_vassals snap pid) \<longleftrightarrow>
     (\<exists>c\<in>snd ` set (sn_titles snap). tit_tier c = ''county'' \<and> tit_holder_id c = Some v \<and> v \<noteq> pid
        \<and> (\<exists>k<5. \<exists>t. nth_liege (sn_titles snap) k (tit_de_jure_liege_id c) = Some t
             \<and> t |\<in>| player_realm snap pid))"
  by (rule county_vassal_iff)

end
