(* ===== verification/Import.thy ===== *)
theory Import
  imports Tick_Facts Tick_Feed
begin

text \<open>
  The import of a whole save, \<open>save/importer.py\<close>: the playthrough is pinned, then every character
  of the save gets its row, then every memory becomes an event. Each of the three steps is a
  transaction of its own.
\<close>

section \<open>What the import reads and returns\<close>

text \<open>What \<open>rakaly\<close> makes of the file: the decoded save, \<open>RakalyError\<close> or \<open>FileNotFoundError\<close>, or
  another exception, which passes on.\<close>

datatype melt = Melted obj | Melt_Failed | Melt_Raised

record save_file =
  sf_is_file :: bool
  sf_melt :: melt

datatype import_error =
    Save_Not_Found
  | Rakaly_Failed
  | Parse_Failed py_error
  | Wrong_Playthrough string string

record import_result =
  im_success :: bool
  im_chars_upserted :: nat
  im_memories_inserted :: nat
  im_memories_duplicate :: nat
  im_error :: "import_error option"

definition failed_import :: "import_error \<Rightarrow> import_result" where
  "failed_import e = \<lparr>im_success = False, im_chars_upserted = 0, im_memories_inserted = 0,
     im_memories_duplicate = 0, im_error = Some e\<rparr>"

definition STAGE_FRACTIONS :: "(string, rat) dict" where
  "STAGE_FRACTIONS = [(''read_save'', 0), (''parse_history'', 1 / 4), (''backfill_events'', 1 / 2),
     (''generate_biographies'', 3 / 4), (''done'', 1), (''error'', 1)]"

text \<open>The callback publishes a frame; without one nothing happens.\<close>

definition emit :: "bool \<Rightarrow> string \<Rightarrow> unit op" where
  "emit progress stage = when_op progress
     (modify_op (\<lambda>w. w\<lparr>w_frames := w_frames w @ [ImportProgress stage (dict_get_default STAGE_FRACTIONS stage 0)]\<rparr>))"

definition emit_error :: "bool \<Rightarrow> import_error \<Rightarrow> import_result op" where
  "emit_error progress e = bind_op (emit progress ''error'') (\<lambda>_. return_op (failed_import e))"

section \<open>The steps\<close>

definition assert_op :: "string \<Rightarrow> bool \<Rightarrow> bool \<Rightarrow> string option op" where
  "assert_op observed allow_reset pin_if_unset = db_op (assert_playthrough_or_pin observed allow_reset pin_if_unset)"

text \<open>\<open>try: m except PlaythroughMismatchError\<close>: the mismatch as a value.\<close>

definition mismatch_of :: "'a op \<Rightarrow> (string \<times> string) option op" where
  "mismatch_of m = catch_op (bind_op m (\<lambda>_. return_op None))
     (\<lambda>e. case e of
        Db_Exn (PlaythroughMismatchError obs pinned) \<Rightarrow> return_op (Some (obs, pinned))
      | _ \<Rightarrow> raise_op e)"

definition name_lookup_of :: "save_snapshot \<Rightarrow> (int, string) dict" where
  "name_lookup_of snap = List.map_filter (\<lambda>(cid, char).
     case cs_first_name char of Some (c # n) \<Rightarrow> Some (cid, c # n) | _ \<Rightarrow> None) (sn_characters snap)"

definition upsert_imported ::
  "tick_env \<Rightarrow> save_snapshot \<Rightarrow> obj \<Rightarrow> int \<times> character_snapshot \<Rightarrow> unit op" where
  "upsert_imported env snap raw = (\<lambda>(cid, char).
     case hydrate_character_columns env snap char cid (Some raw) (name_lookup_of snap) of
       Inl e \<Rightarrow> raise_op (Py_Exn e)
     | Inr columns \<Rightarrow> upsert_op cid columns)"

definition imported_memory :: "int \<Rightarrow> memory_snapshot \<Rightarrow> event" where
  "imported_memory cid mem = VanillaMemoryEvent (mem_creation_date mem) cid
     \<lparr>vmp_memory_type = mem_memory_type mem, vmp_end_date = mem_end_date mem,
      vmp_participants = dict_of_pairs (mem_participants mem), vmp_deceased_cause = None,
      vmp_deceased_age = None, vmp_deceased_first_name = None, vmp_deceased_killer_id = None,
      vmp_deceased_killer_first_name = None\<rparr>"

definition import_memory :: "tick_env \<Rightarrow> int \<times> memory_snapshot \<Rightarrow> int option op" where
  "import_memory env = (\<lambda>(cid, mem).
     bind_op (for_each (\<lambda>(_, pid). upsert_op pid []) (mem_participants mem)) (\<lambda>_.
       db_op (insert_event_idempotent
         (row_of_event (imported_memory cid mem) (parse_ck3_date (mem_creation_date mem)) (te_now env)
            (''import-save: '' @ te_save_name env))
         (map (\<lambda>(role, pid). (pid, role)) (mem_participants mem)))))"

text \<open>The memories of a save with their owners, and the counts of new and known ones.\<close>

definition memories_of :: "save_snapshot \<Rightarrow> (int \<times> memory_snapshot) list" where
  "memories_of snap = concat (map (\<lambda>(cid, char). map (Pair cid) (cs_memories char)) (sn_characters snap))"

fun import_memories :: "tick_env \<Rightarrow> (int \<times> memory_snapshot) list \<Rightarrow> nat \<Rightarrow> nat \<Rightarrow> (nat \<times> nat) op" where
  "import_memories env [] n_inserted n_duplicate = return_op (n_inserted, n_duplicate)"
| "import_memories env (m # ms) n_inserted n_duplicate =
     bind_op (import_memory env m) (\<lambda>eid. case eid of
       None \<Rightarrow> import_memories env ms n_inserted (Suc n_duplicate)
     | Some _ \<Rightarrow> import_memories env ms (Suc n_inserted) n_duplicate)"

section \<open>The import\<close>

text \<open>After the snapshot is parsed. \<open>campaign\<close>: whether the caller names the campaign whose overview
  is written.\<close>

definition backfill :: "tick_env \<Rightarrow> bool \<Rightarrow> bool \<Rightarrow> obj \<Rightarrow> save_snapshot \<Rightarrow> import_result op" where
  "backfill env campaign progress raw snap =
     bind_op (emit progress ''backfill_events'') (\<lambda>_.
     bind_op (session_scope (for_each (upsert_imported env snap raw) (sn_characters snap))) (\<lambda>_.
     bind_op (session_scope (import_memories env (memories_of snap) 0 0)) (\<lambda>counts.
     bind_op (emit progress ''generate_biographies'') (\<lambda>_.
     bind_op (when_op campaign (apply_campaign_overview_from_snap env snap)) (\<lambda>_.
     bind_op (emit progress ''done'') (\<lambda>_.
       return_op \<lparr>im_success = True, im_chars_upserted = length (sn_characters snap),
         im_memories_inserted = fst counts, im_memories_duplicate = snd counts, im_error = None\<rparr>))))))"

definition import_parsed ::
  "tick_env \<Rightarrow> bool \<Rightarrow> bool \<Rightarrow> bool \<Rightarrow> obj \<Rightarrow> save_snapshot \<Rightarrow> import_result op" where
  "import_parsed env campaign progress force_reset raw snap =
     bind_op (session_scope (mismatch_of (assert_op (sn_playthrough_id snap) force_reset True))) (\<lambda>mismatch.
       case mismatch of
         Some (obs, pinned) \<Rightarrow> emit_error progress (Wrong_Playthrough obs pinned)
       | None \<Rightarrow> backfill env campaign progress raw snap)"

definition import_save ::
  "(json \<Rightarrow> string) \<Rightarrow> tick_env \<Rightarrow> bool \<Rightarrow> bool \<Rightarrow> bool \<Rightarrow> save_file \<Rightarrow> import_result op" where
  "import_save repr env campaign progress force_reset save_path =
     (if \<not> sf_is_file save_path then emit_error progress Save_Not_Found
      else bind_op (emit progress ''read_save'') (\<lambda>_.
        case sf_melt save_path of
          Melt_Failed \<Rightarrow> emit_error progress Rakaly_Failed
        | Melt_Raised \<Rightarrow> raise_op (Py_Exn BadType)
        | Melted raw \<Rightarrow> bind_op (emit progress ''parse_history'') (\<lambda>_.
            case parse_save repr (te_names env) (te_id_order env) raw of
              Inl e \<Rightarrow> emit_error progress (Parse_Failed e)
            | Inr snap \<Rightarrow> import_parsed env campaign progress force_reset raw snap)))"

text \<open>
  What an import leaves, whatever the database does: a successful one leaves the database imported,
  and on an imported database every further import is idle.
\<close>

section \<open>Steps that leave the tables as they are\<close>

definition fixed_db :: "campaign_db \<Rightarrow> world \<Rightarrow> world \<Rightarrow> bool" where
  "fixed_db db w w' \<longleftrightarrow> (w_db w = db \<longrightarrow> w_db w' = db)"

interpretation fixed: rolled_back_relation "fixed_db db" for db
  by unfold_locales (simp_all add: fixed_db_def)

lemma fixed_db_op: "(\<And>a db'. g db = Inr (a, db') \<Longrightarrow> db' = db) \<Longrightarrow> keeps (fixed_db db) (db_op g)"
  by (rule fixed.keeps_db) (auto simp: fixed_db_def)

lemma fixed_raise: "keeps (fixed_db db) (raise_op e)"
  by (simp add: keeps_def raise_op_def fixed_db_def)

lemma fixed_registry: "keeps (fixed_db db) (registry_op g)"
  by (rule fixed.keeps_registry) (simp add: fixed_db_def)

lemma fixed_emit: "keeps (fixed_db db) (emit progress stage)"
  unfolding emit_def by (intro fixed.keeps_when fixed.keeps_modify) (simp add: fixed_db_def)

section \<open>What an import is to leave\<close>

definition holds_row :: "campaign_db \<Rightarrow> int \<Rightarrow> (string, cell) dict \<Rightarrow> bool" where
  "holds_row db c kw \<longleftrightarrow> (\<exists>row. get_character db c = Some row \<and> holds_columns row kw)"

definition imported_columns :: "tick_env \<Rightarrow> save_snapshot \<Rightarrow> obj \<Rightarrow> int \<times> character_snapshot \<Rightarrow> (string, cell) dict result" where
  "imported_columns env snap raw x = hydrate_character_columns env snap (snd x) (fst x) (Some raw) (name_lookup_of snap)"

definition memory_row :: "tick_env \<Rightarrow> int \<times> memory_snapshot \<Rightarrow> event_row" where
  "memory_row env m = row_of_event (imported_memory (fst m) (snd m)) (parse_ck3_date (mem_creation_date (snd m)))
     (te_now env) (''import-save: '' @ te_save_name env)"

definition memory_key :: "int \<times> memory_snapshot \<Rightarrow> string \<times> string \<times> int \<times> event" where
  "memory_key m = (''vanilla_memory'', mem_creation_date (snd m), fst m, imported_memory (fst m) (snd m))"

lemma memory_row_key [simp]: "event_row_key (memory_row env m) = memory_key m"
  by (simp add: event_row_key_def memory_row_def memory_key_def row_of_event_def imported_memory_def)

definition has_rows :: "tick_env \<Rightarrow> save_snapshot \<Rightarrow> obj \<Rightarrow> campaign_db \<Rightarrow> (int \<times> character_snapshot) list \<Rightarrow> bool" where
  "has_rows env snap raw db xs \<longleftrightarrow>
     (\<forall>x\<in>set xs. \<exists>kw. imported_columns env snap raw x = Inr kw \<and> holds_row db (fst x) kw)"

definition has_memory :: "campaign_db \<Rightarrow> int \<times> memory_snapshot \<Rightarrow> bool" where
  "has_memory db m \<longleftrightarrow> memory_key m \<in> event_keys db \<and> (\<forall>p\<in>set (mem_participants (snd m)). known db (snd p))"

definition pinned_to :: "string \<Rightarrow> campaign_db \<Rightarrow> bool" where
  "pinned_to observed db \<longleftrightarrow> observed = [] \<or> get_meta db PLAYTHROUGH_ID_META_KEY = Some observed"

definition imported :: "tick_env \<Rightarrow> save_snapshot \<Rightarrow> obj \<Rightarrow> campaign_db \<Rightarrow> bool" where
  "imported env snap raw db \<longleftrightarrow> has_rows env snap raw db (sn_characters snap)
     \<and> (\<forall>m\<in>set (memories_of snap). has_memory db m) \<and> pinned_to (sn_playthrough_id snap) db"

section \<open>On an imported database every step is idle\<close>

lemma upsert_idle: "holds_row db c kw \<Longrightarrow> upsert_character c kw db = db"
  using upsert_same by (auto simp: holds_row_def)

lemma upsert_empty_idle: "known db c \<Longrightarrow> upsert_character c [] db = db"
  by (rule upsert_idle) (auto simp: holds_row_def holds_columns_def accepted_def update_set_def get_character_def known_def)

lemma fixed_upsert: "upsert_character c kw db = db \<Longrightarrow> keeps (fixed_db db) (upsert_op c kw)"
  unfolding upsert_op_def by (rule fixed_db_op) simp

lemma fixed_rows:
  "has_rows env snap raw db xs \<Longrightarrow> keeps (fixed_db db) (for_each (upsert_imported env snap raw) xs)"
proof (induction xs)
  case (Cons x xs)
  then obtain kw where "imported_columns env snap raw x = Inr kw" "holds_row db (fst x) kw"
    by (auto simp: has_rows_def)
  then have "keeps (fixed_db db) (upsert_imported env snap raw x)"
    by (auto simp: upsert_imported_def imported_columns_def split_beta intro!: fixed_upsert upsert_idle)
  moreover have "has_rows env snap raw db xs" using Cons.prems by (simp add: has_rows_def)
  ultimately show ?case using Cons.IH by (auto intro!: fixed.keeps_bind)
qed (simp add: fixed.keeps_return del: return_op_simps(1))

lemma fixed_memory:
  assumes "has_memory db m" shows "keeps (fixed_db db) (import_memory env m)"
proof -
  have part: "keeps (fixed_db db) (for_each (\<lambda>(_, pid). upsert_op pid []) ps)"
    if "set ps \<subseteq> set (mem_participants (snd m))" for ps
    using that assms
    by (induction ps) (auto simp: has_memory_def simp del: return_op_simps(1)
        intro!: fixed.keeps_intros fixed_upsert upsert_empty_idle)
  have "insert_event_idempotent (memory_row env m) ps db = Inr (None, db)" for ps
    using assms by (intro insert_event_duplicate) (simp add: has_memory_def event_keys_def)
  then have "keeps (fixed_db db) (db_op (insert_event_idempotent (memory_row env m) ps))" for ps
    by (intro fixed_db_op) simp
  then show ?thesis using part by (auto simp: import_memory_def memory_row_def split_beta intro!: fixed.keeps_bind)
qed

lemma fixed_memories:
  "\<forall>m\<in>set ms. has_memory db m \<Longrightarrow> keeps (fixed_db db) (import_memories env ms i d)"
  by (induction ms arbitrary: i d)
    (auto simp del: return_op_simps(1) intro!: fixed.keeps_intros fixed_memory split: option.split)

lemma fixed_assert:
  assumes "pinned_to observed db" shows "keeps (fixed_db db) (assert_op observed allow_reset True)"
  unfolding assert_op_def
proof (rule fixed_db_op)
  fix a db'
  assume run: "assert_playthrough_or_pin observed allow_reset True db = Inr (a, db')"
  have "set_meta PLAYTHROUGH_ID_META_KEY observed db = db" if "get_meta db PLAYTHROUGH_ID_META_KEY = Some observed"
    using that by (simp add: set_meta_def get_meta_def dict_set_same)
  with run assms show "db' = db"
    by (auto simp: assert_playthrough_or_pin_def pinned_to_def Let_def split: if_splits option.splits)
qed

lemma fixed_mismatch: "keeps (fixed_db db) m \<Longrightarrow> keeps (fixed_db db) (mismatch_of m)"
  unfolding mismatch_of_def
  by (auto intro!: fixed.keeps_intros fixed_raise simp del: return_op_simps(1) split: exn.split db_error.split)

lemma fixed_overview: "keeps (fixed_db db) (apply_campaign_overview_from_snap env snap)"
  unfolding apply_campaign_overview_from_snap_def
  by (auto intro!: fixed.keeps_intros fixed_registry simp del: return_op_simps(1) split: option.split)

lemma fixed_backfill:
  assumes "imported env snap raw db" shows "keeps (fixed_db db) (backfill env campaign progress raw snap)"
  using assms unfolding backfill_def imported_def
  by (auto intro!: fixed.keeps_all fixed_emit fixed_rows fixed_memories fixed_overview simp del: return_op_simps(1))

lemma fixed_import:
  assumes "imported env snap raw db" and "parse_save repr (te_names env) (te_id_order env) raw = Inr snap"
    and "sf_melt save_path = Melted raw"
  shows "keeps (fixed_db db) (import_save repr env campaign progress force_reset save_path)"
proof -
  have err: "keeps (fixed_db db) (emit_error progress e)" for e
    unfolding emit_error_def by (intro fixed.keeps_all fixed_emit)
  have "keeps (fixed_db db) (import_parsed env campaign progress force_reset raw snap)"
    unfolding import_parsed_def using assms(1)
    by (auto intro!: fixed.keeps_all fixed_mismatch fixed_assert fixed_backfill err simp: imported_def split: option.split)
  then show ?thesis using assms(2,3)
    by (auto simp: import_save_def intro!: fixed.keeps_all fixed_emit err simp del: return_op_simps(1))
qed

section \<open>A successful import leaves an imported database\<close>

lemma columns_ok: "imported_columns env snap raw x = Inr kw \<Longrightarrow> dict_ok kw"
  by (auto simp: imported_columns_def hydrate_character_columns_def column_values_def bindr_eq_Inr dict_ok_def
      Let_def split_beta)

lemma holds_upsert_other: "holds_row db c kw \<Longrightarrow> c \<noteq> c' \<Longrightarrow> holds_row (upsert_character c' kw' db) c kw"
  by (simp add: holds_row_def upsert_other)

lemma upsert_imported_Inr:
  "upsert_imported env snap raw x F w = (Inr u, w') \<Longrightarrow>
     \<exists>kw. imported_columns env snap raw x = Inr kw
       \<and> w' = w\<lparr>w_clock := Suc (w_clock w), w_db := upsert_character (fst x) kw (w_db w)\<rparr>"
  by (auto simp: upsert_imported_def imported_columns_def split_beta raise_op_def dest: upsert_op_Inr split: sum.splits)

lemma rows_Inr:
  assumes "for_each (upsert_imported env snap raw) xs F w = (Inr u, w')" and "distinct (map fst xs)"
  shows "has_rows env snap raw (w_db w') xs
    \<and> (\<forall>c kw. holds_row (w_db w) c kw \<and> c \<notin> fst ` set xs \<longrightarrow> holds_row (w_db w') c kw)
    \<and> db_meta (w_db w') = db_meta (w_db w)"
  using assms
proof (induction xs arbitrary: w)
  case (Cons x xs)
  from Cons.prems(1) obtain w1 where w1: "upsert_imported env snap raw x F w = (Inr (), w1)"
    "for_each (upsert_imported env snap raw) xs F w1 = (Inr u, w')" by (auto simp: bind_op_Inr)
  from upsert_imported_Inr [OF w1(1)] obtain kw where
    kw: "imported_columns env snap raw x = Inr kw" "w_db w1 = upsert_character (fst x) kw (w_db w)" by auto
  have "holds_row (w_db w1) (fst x) kw"
    using upsert_holds [OF columns_ok [OF kw(1)]] kw(2) by (simp add: holds_row_def)
  moreover have "db_meta (w_db w1) = db_meta (w_db w)" using kw(2) by (simp add: upsert_character_def Let_def)
  moreover have "holds_row (w_db w1) c kw'" if "holds_row (w_db w) c kw'" "c \<noteq> fst x" for c kw'
    using that kw(2) by (simp add: holds_upsert_other)
  ultimately show ?case using Cons.IH [OF w1(2)] Cons.prems(2) kw(1) by (auto simp: has_rows_def)
qed (simp add: has_rows_def)

definition db_widens :: "campaign_db \<Rightarrow> campaign_db \<Rightarrow> bool" where
  "db_widens db db' \<longleftrightarrow> (\<forall>c kw. holds_row db c kw \<longrightarrow> holds_row db' c kw) \<and> db_meta db' = db_meta db
     \<and> event_keys db \<subseteq> event_keys db' \<and> (\<forall>c. known db c \<longrightarrow> known db' c)"

lemma db_widens_trans: "db_widens a b \<Longrightarrow> db_widens b c \<Longrightarrow> db_widens a c"
  unfolding db_widens_def by (metis order_trans)

lemma holds_known: "holds_row db c kw \<Longrightarrow> known db c"
  by (auto simp: holds_row_def known_def get_character_def)

lemma upsert_meta: "db_meta (upsert_character c kw db) = db_meta db"
  by (simp add: upsert_character_def Let_def)

lemma upsert_empty_widens: "db_widens db (upsert_character p [] db)"
proof (cases "known db p")
  case True
  then show ?thesis by (simp add: upsert_empty_idle db_widens_def)
next
  case False
  then have "c \<noteq> p" if "holds_row db c kw" for c kw using that holds_known by blast
  then show ?thesis
    by (simp add: db_widens_def holds_upsert_other event_keys_def upsert_meta)
qed

lemma insert_widens:
  assumes "insert_event_idempotent row ps db = Inr (out, db')"
  shows "db_widens db db' \<and> event_row_key row \<in> event_keys db'"
  using insert_event_spec [OF assms]
proof (elim disjE conjE)
  let ?i = "next_id (map er_id (db_events db))"
  assume "insert_participants ?i ps (db\<lparr>db_events := db_events db @ [row\<lparr>er_id := ?i\<rparr>]\<rparr>) = Inr db'"
  from insert_participants_spec [OF this] show ?thesis
    by (auto simp: db_widens_def holds_row_def get_character_def known_def event_keys_def)
qed (simp add: db_widens_def event_keys_def)

lemma import_memory_Inr:
  assumes "import_memory env m F w = (Inr out, w')"
  shows "db_widens (w_db w) (w_db w') \<and> has_memory (w_db w') m"
proof -
  obtain w1 where w1: "for_each (\<lambda>(_, pid). upsert_op pid []) (mem_participants (snd m)) F w = (Inr (), w1)"
    "db_op (insert_event_idempotent (memory_row env m) (map (\<lambda>(role, pid). (pid, role)) (mem_participants (snd m)))) F w1
       = (Inr out, w')"
    using assms by (auto simp: import_memory_def memory_row_def split_beta bind_op_Inr)
  have parts: "for_each (\<lambda>(_, pid). upsert_op pid []) ps F w = (Inr (), w1) \<Longrightarrow>
      db_widens (w_db w) (w_db w1) \<and> (\<forall>p\<in>set ps. known (w_db w1) (snd p))" for ps w
  proof (induction ps arbitrary: w)
    case (Cons p ps)
    then obtain w2 where w2: "upsert_op (snd p) [] F w = (Inr (), w2)"
      "for_each (\<lambda>(_, pid). upsert_op pid []) ps F w2 = (Inr (), w1)"
      using that by (cases p) (auto simp: bind_op_Inr)
    from upsert_op_Inr [OF w2(1)] have "w_db w2 = upsert_character (snd p) [] (w_db w)" by simp
    then have "db_widens (w_db w) (w_db w2)" "known (w_db w2) (snd p)" by (simp_all add: upsert_empty_widens)
    with Cons.IH [OF w2(2)] show ?case using db_widens_trans by (auto simp: db_widens_def)
  qed (simp add: db_widens_def)
  from db_op_Inr [OF w1(2)] obtain db where
    "insert_event_idempotent (memory_row env m) (map (\<lambda>(role, pid). (pid, role)) (mem_participants (snd m))) (w_db w1)
       = Inr (out, db)" "w_db w' = db" by auto
  with insert_widens [OF this(1)] parts [OF w1(1)] show ?thesis
    using db_widens_trans by (auto simp: has_memory_def db_widens_def)
qed

lemma has_memory_widens: "has_memory db m \<Longrightarrow> db_widens db db' \<Longrightarrow> has_memory db' m"
  by (auto simp: has_memory_def db_widens_def)

lemma import_memories_Inr:
  "import_memories env ms i d F w = (Inr counts, w') \<Longrightarrow>
     db_widens (w_db w) (w_db w') \<and> (\<forall>m\<in>set ms. has_memory (w_db w') m) \<and> fst counts + snd counts = i + d + length ms"
proof (induction ms arbitrary: i d w)
  case (Cons m ms)
  from Cons.prems obtain eid w1 i' d' where w1: "import_memory env m F w = (Inr eid, w1)"
    "import_memories env ms i' d' F w1 = (Inr counts, w')" "i' + d' = Suc (i + d)"
    by (auto simp: bind_op_Inr split: option.splits)
  from import_memory_Inr [OF w1(1)] Cons.IH [OF w1(2)] w1(3) show ?case
    using has_memory_widens [of "w_db w1" m "w_db w'"] db_widens_trans by auto
qed (auto simp: db_widens_def)

lemma assert_op_Inr:
  assumes "session_scope (mismatch_of (assert_op observed allow_reset True)) F w = (Inr None, w')"
  shows "pinned_to observed (w_db w')"
proof -
  obtain a w1 where w1: "assert_op observed allow_reset True F w = (Inr a, w1)" "w_db w' = w_db w1"
    using assms by (auto simp: session_scope_Inr mismatch_of_def catch_op_def bind_op_Inr bind_op_Inl raise_op_def
        split: prod.splits sum.splits exn.splits db_error.splits dest!: plain_statement_cases)
  have set: "get_meta db' k = Some v" if "set_meta k v db = db'" for k v db db'
    using that by (auto simp: get_meta_def set_meta_def)
  from w1 show ?thesis
    by (auto simp: assert_op_def assert_playthrough_or_pin_def pinned_to_def Let_def
        dest!: db_op_Inr dest: set split: if_splits option.splits)
qed

lemma emit_run: "emit progress stage F w = (Inr u, w') \<Longrightarrow> w_db w' = w_db w"
  using keepsD [OF fixed_emit [of "w_db w"]] by (auto simp: fixed_db_def)

lemma backfill_Inr:
  assumes "backfill env campaign progress raw snap F w = (Inr r, w')" and "distinct (map fst (sn_characters snap))"
  shows "has_rows env snap raw (w_db w') (sn_characters snap) \<and> (\<forall>m\<in>set (memories_of snap). has_memory (w_db w') m)
    \<and> db_meta (w_db w') = db_meta (w_db w)
    \<and> (\<exists>i d. i + d = length (memories_of snap) \<and> r = \<lparr>im_success = True,
         im_chars_upserted = length (sn_characters snap), im_memories_inserted = i, im_memories_duplicate = d,
         im_error = None\<rparr>)"
proof -
  obtain w1 w2 w3 counts w4 w5 w6 where w1: "emit progress ''backfill_events'' F w = (Inr (), w1)"
    and w2: "session_scope (for_each (upsert_imported env snap raw) (sn_characters snap)) F w1 = (Inr (), w2)"
    and w3: "session_scope (import_memories env (memories_of snap) 0 0) F w2 = (Inr counts, w3)"
    and w4: "emit progress ''generate_biographies'' F w3 = (Inr (), w4)"
    and w5: "when_op campaign (apply_campaign_overview_from_snap env snap) F w4 = (Inr (), w5)"
    and w6: "emit progress ''done'' F w5 = (Inr (), w6)"
    and r: "w' = w6" "r = \<lparr>im_success = True, im_chars_upserted = length (sn_characters snap),
         im_memories_inserted = fst counts, im_memories_duplicate = snd counts, im_error = None\<rparr>"
    using assms(1) by (auto simp: backfill_def bind_op_Inr)
  obtain w2' where w2': "for_each (upsert_imported env snap raw) (sn_characters snap) F w1 = (Inr (), w2')"
    "w_db w2 = w_db w2'" using w2 by (auto simp: session_scope_Inr dest!: plain_statement_cases)
  obtain w3' where w3': "import_memories env (memories_of snap) 0 0 F w2 = (Inr counts, w3')"
    "w_db w3 = w_db w3'" using w3 by (auto simp: session_scope_Inr dest!: plain_statement_cases)
  have "keeps (fixed_db (w_db w4)) (when_op campaign (apply_campaign_overview_from_snap env snap))"
    by (intro fixed.keeps_all fixed_overview)
  from keepsD [OF this w5] have "w_db w' = w_db w3"
    using emit_run [OF w6] emit_run [OF w4] r(1) by (simp add: fixed_db_def)
  with rows_Inr [OF w2'(1) assms(2)] import_memories_Inr [OF w3'(1)] emit_run [OF w1] w2'(2) w3'(2) r(2)
  show ?thesis unfolding has_rows_def db_widens_def by (metis add_0)
qed

lemma parsed_characters_ok:
  assumes "parse_save repr names iter raw = Inr snap" shows "dict_ok (sn_characters snap)"
proof -
  obtain rows where "build_table rows = sn_characters snap"
    using parse_save_InrD(1) [OF assms] by (auto simp: parse_characters_def bindr_eq_Inr)
  then show ?thesis using build_table_ok by metis
qed

theorem import_imports:
  assumes "import_save repr env campaign progress force_reset save_path F w = (Inr r, w')" and "im_success r"
    and "sf_melt save_path = Melted raw" and "parse_save repr (te_names env) (te_id_order env) raw = Inr snap"
  shows "imported env snap raw (w_db w') \<and> (\<exists>i d. i + d = length (memories_of snap) \<and> r = \<lparr>im_success = True,
         im_chars_upserted = length (sn_characters snap), im_memories_inserted = i, im_memories_duplicate = d,
         im_error = None\<rparr>)"
proof -
  have err: "im_success r = False" if "emit_error progress e F w1 = (Inr r, w')" for e w1
    using that by (auto simp: emit_error_def bind_op_Inr failed_import_def)
  obtain w1 where w1: "import_parsed env campaign progress force_reset raw snap F w1 = (Inr r, w')"
    using assms err by (auto simp: import_save_def bind_op_Inr split: if_splits)
  obtain w2 where w2: "session_scope (mismatch_of (assert_op (sn_playthrough_id snap) force_reset True)) F w1 = (Inr None, w2)"
    "backfill env campaign progress raw snap F w2 = (Inr r, w')"
  proof -
    obtain mm w2 where mm: "session_scope (mismatch_of (assert_op (sn_playthrough_id snap) force_reset True)) F w1 = (Inr mm, w2)"
      "(case mm of Some (obs, pinned) \<Rightarrow> emit_error progress (Wrong_Playthrough obs pinned)
         | None \<Rightarrow> backfill env campaign progress raw snap) F w2 = (Inr r, w')"
      using w1 by (auto simp: import_parsed_def bind_op_Inr)
    show thesis
    proof (cases mm)
      case (Some op)
      then show thesis using mm(2) err assms(2) by (cases op) auto
    qed (use mm that in simp)
  qed
  have "distinct (map fst (sn_characters snap))"
    using parsed_characters_ok [OF assms(4)] by (simp add: dict_ok_def)
  from backfill_Inr [OF w2(2) this] assert_op_Inr [OF w2(1)] show ?thesis
    unfolding imported_def pinned_to_def get_meta_def by metis
qed

section \<open>A save imported again, a foreign save, a save that was followed\<close>

lemma imported_env:
  assumes "te_names env' = te_names env" and "te_id_order env' = te_id_order env"
  shows "imported env' snap raw db = imported env snap raw db"
proof -
  have "imported_columns env' snap raw x = imported_columns env snap raw x" for x
    by (simp add: imported_columns_def hydrate_character_columns_def live_columns_def column_values_def assms)
  then show ?thesis by (simp add: imported_def has_rows_def)
qed

text \<open>On an imported database no memory is new.\<close>

lemma import_memory_again:
  assumes "import_memory env m F w = (Inr out, w')" and "has_memory (w_db w) m"
  shows "out = None \<and> w_db w' = w_db w"
proof -
  have same: "w_db w' = w_db w" using keepsD [OF fixed_memory [OF assms(2)] assms(1)] by (simp add: fixed_db_def)
  obtain w1 where w1: "for_each (\<lambda>(_, pid). upsert_op pid []) (mem_participants (snd m)) F w = (Inr (), w1)"
    "db_op (insert_event_idempotent (memory_row env m) (map (\<lambda>(role, pid). (pid, role)) (mem_participants (snd m)))) F w1
       = (Inr out, w')"
    using assms(1) by (auto simp: import_memory_def memory_row_def split_beta bind_op_Inr)
  from db_op_Inr [OF w1(2)] obtain db where ins: "insert_event_idempotent (memory_row env m)
      (map (\<lambda>(role, pid). (pid, role)) (mem_participants (snd m))) (w_db w1) = (Inr (out, db))" "w_db w' = db" by auto
  have "memory_key m \<in> event_keys db" "w_db w = db" using assms(2) same ins(2) by (simp_all add: has_memory_def)
  moreover have "length (db_events (w_db w)) \<le> length (db_events (w_db w1))"
  proof -
    have "keeps tick_kept (for_each (\<lambda>(_, pid). upsert_op pid []) (mem_participants (snd m)))"
      by (intro tick.keeps_all) (auto intro: keeps_upsert)
    from keepsD [OF this w1(1)] show ?thesis by (auto simp: tick_kept_def db_grows_def dest: prefix_length_le)
  qed
  moreover have "out = None \<or> length (db_events db) = Suc (length (db_events (w_db w1)))"
    using insert_event_spec [OF ins(1)] by (auto dest!: insert_participants_spec)
  ultimately show ?thesis using same by auto
qed

lemma import_memories_again:
  "import_memories env ms i d F w = (Inr counts, w') \<Longrightarrow> \<forall>m\<in>set ms. has_memory (w_db w) m \<Longrightarrow>
     counts = (i, d + length ms)"
proof (induction ms arbitrary: d w)
  case (Cons m ms)
  from Cons.prems(1) obtain eid w1 where w1: "import_memory env m F w = (Inr eid, w1)"
    "(case eid of None \<Rightarrow> import_memories env ms i (Suc d)
       | Some _ \<Rightarrow> import_memories env ms (Suc i) d) F w1 = (Inr counts, w')" by (auto simp: bind_op_Inr)
  with import_memory_again [OF w1(1)] Cons.prems(2) have "eid = None" "w_db w1 = w_db w" by simp_all
  with Cons.IH [of "Suc d" w1] w1(2) Cons.prems(2) show ?case by simp
qed simp

lemma import_reads:
  assumes "import_save repr env campaign progress force_reset save_path F w = (Inr r, w')" and "im_success r"
  shows "\<exists>raw snap. sf_melt save_path = Melted raw \<and> parse_save repr (te_names env) (te_id_order env) raw = Inr snap"
  using assms by (auto simp: import_save_def emit_error_def failed_import_def bind_op_Inr raise_op_def
      split: if_splits melt.splits sum.splits)

lemma import_again:
  assumes run: "import_save repr env campaign progress force_reset save_path F w = (Inr r, w')"
    and all: "imported env snap raw (w_db w)" and "parse_save repr (te_names env) (te_id_order env) raw = Inr snap"
    and "sf_melt save_path = Melted raw"
  shows "im_memories_inserted r = 0"
proof (cases "im_success r")
  case True
  have err: "im_success r = False" if "emit_error progress e F w1 = (Inr r, w')" for e w1
    using that by (auto simp: emit_error_def bind_op_Inr failed_import_def)
  obtain w1 where w1: "import_parsed env campaign progress force_reset raw snap F w1 = (Inr r, w')" "w_db w1 = w_db w"
    using run assms(3,4) err True by (auto simp: import_save_def bind_op_Inr dest!: emit_run split: if_splits)
  have "\<exists>w2. backfill env campaign progress raw snap F w2 = (Inr r, w') \<and> w_db w2 = w_db w"
  proof -
    obtain mm w2 where mm: "session_scope (mismatch_of (assert_op (sn_playthrough_id snap) force_reset True)) F w1 = (Inr mm, w2)"
      "(case mm of Some (obs, pinned) \<Rightarrow> emit_error progress (Wrong_Playthrough obs pinned)
        | None \<Rightarrow> backfill env campaign progress raw snap) F w2 = (Inr r, w')"
      using w1(1) by (auto simp: import_parsed_def bind_op_Inr)
    have "keeps (fixed_db (w_db w)) (session_scope (mismatch_of (assert_op (sn_playthrough_id snap) force_reset True)))"
      using all by (intro fixed.keeps_all fixed_mismatch fixed_assert) (simp add: imported_def)
    from keepsD [OF this mm(1)] w1(2) have "w_db w2 = w_db w" by (simp add: fixed_db_def)
    with mm(2) err True show ?thesis by (cases mm) auto
  qed
  then obtain w2 where w2: "backfill env campaign progress raw snap F w2 = (Inr r, w')" "w_db w2 = w_db w" by blast
  obtain w3 w4 w5 counts where steps: "emit progress ''backfill_events'' F w2 = (Inr (), w3)"
      "session_scope (for_each (upsert_imported env snap raw) (sn_characters snap)) F w3 = (Inr (), w4)"
      "session_scope (import_memories env (memories_of snap) 0 0) F w4 = (Inr counts, w5)"
    and r: "im_memories_inserted r = fst counts"
    using w2(1) by (auto simp: backfill_def bind_op_Inr)
  have "keeps (fixed_db (w_db w)) (session_scope (for_each (upsert_imported env snap raw) (sn_characters snap)))"
    using all by (intro fixed.keeps_all fixed_rows) (simp add: imported_def)
  from keepsD [OF this steps(2)] emit_run [OF steps(1)] w2(2) have "w_db w4 = w_db w" by (simp add: fixed_db_def)
  moreover obtain w5' where "import_memories env (memories_of snap) 0 0 F w4 = (Inr counts, w5')"
    using steps(3) by (auto simp: session_scope_Inr)
  ultimately show ?thesis using import_memories_again [of env "memories_of snap" 0 0 F w4] all r by (simp add: imported_def)
next
  case False
  then show ?thesis using run
    by (auto simp: import_save_def import_parsed_def emit_error_def failed_import_def bind_op_Inr backfill_def raise_op_def
        split: if_splits melt.splits sum.splits option.splits prod.splits)
qed

text \<open>A save of another playthrough is refused.\<close>

theorem foreign_import_refused:
  assumes "sf_is_file save_path" and "sf_melt save_path = Melted raw"
    and "parse_save repr (te_names env) (te_id_order env) raw = Inr snap"
    and "get_meta (w_db w) PLAYTHROUGH_ID_META_KEY = Some pinned"
    and "sn_playthrough_id snap \<noteq> []" and "sn_playthrough_id snap \<noteq> pinned"
  shows "\<exists>w'. import_save repr env campaign progress False save_path no_faults w
      = (Inr (failed_import (Wrong_Playthrough (sn_playthrough_id snap) pinned)), w')
    \<and> w_db w' = w_db w \<and> w_registry w' = w_registry w"
  using assms
  by (cases progress) (simp_all add: import_save_def import_parsed_def emit_error_def emit_def modify_op_def bind_op_def
      session_scope_def rollback_on_error_def mismatch_of_def catch_op_def assert_op_def db_op_def
      statement_no_faults assert_playthrough_or_pin_def return_op_def)

text \<open>The event of a memory as the import makes it and as the diff makes it.\<close>

theorem memory_told_differently:
  assumes "deceased_of mem characters = Some deceased" and "mem_creation_date mem \<noteq> []"
    and "cs_first_name deceased \<noteq> None"
  shows "diff_key (make_vanilla_memory c mem characters date) \<noteq> memory_key (cs_ck3_id c, mem)
    \<and> ev_d (de_event (make_vanilla_memory c mem characters date)) = mem_creation_date mem
    \<and> ev_c (de_event (make_vanilla_memory c mem characters date)) = cs_ck3_id c"
  using assms by (auto simp: make_vanilla_memory_def diff_key_def memory_key_def imported_memory_def Let_def
      dest: arg_cong [of _ _ ev_p])

end
