(* ===== verification/Adoption.thy ===== *)
theory Adoption
  imports Import
begin

text \<open>
  \<open>save/adoption.py\<close>: from a save to its campaign, the schema of the campaign's database, the import.
\<close>

section \<open>Operations\<close>

text \<open>The house stands in for a dynasty without a name; there is no culture at this point.\<close>

definition build_resolve_snap :: "(string, string) dict \<Rightarrow> save_snapshot \<Rightarrow> resolve_snap" where
  "build_resolve_snap names parsed_snap =
     (let char = lookup_opt (sn_characters parsed_snap) (sn_player_character_id parsed_snap)
      in \<lparr>sp_playthrough_id = sn_playthrough_id parsed_snap,
          sp_bookmark_date = sn_bookmark_date parsed_snap,
          sp_founding_player_first_name = Option.bind char cs_first_name,
          sp_founding_dynasty_name = Option.bind char (\<lambda>c. fst (resolve_dynasty_name names (cs_dynasty_house_id c)
            (sn_houses_lookup parsed_snap) (sn_house_to_dynasty parsed_snap) (sn_dynasties_lookup parsed_snap) None))\<rparr>)"

datatype adoption_error =
    SaveNotFound
  | RakalyParseError
  | ParseError py_error
  | AlembicUpgradeFailed
  | Resolve_Raised resolve_error
  | Adoption_Raised exn

record adoption_result =
  ad_campaign :: campaign
  ad_parsed_snap :: save_snapshot
  ad_raw_save_data :: obj
  ad_import_result :: import_result

text \<open>What is outside: the data directory, the next UUID, the version, whether the schema upgrade of
  a database succeeds.\<close>

record adopt_env =
  ae_data_dir :: string
  ae_uuid :: string
  ae_upgrade :: "string \<Rightarrow> bool"

text \<open>The databases on disk by their paths; \<^const>\<open>empty_db\<close> is one that was just created.\<close>

type_synonym db_files = "string \<Rightarrow> campaign_db"

definition resolve_op :: "tick_env \<Rightarrow> adopt_env \<Rightarrow> resolve_snap \<Rightarrow> string option \<Rightarrow> (resolve_error + campaign) op" where
  "resolve_op env ae snap ck3_version = statement (\<lambda>w.
     case resolve_campaign_for_save (ae_data_dir ae) (ae_uuid ae) (te_now env) snap ck3_version (w_registry w) of
       Inl e \<Rightarrow> (Inr (Inl e), w)
     | Inr (c, rg) \<Rightarrow> (Inr (Inr c), w\<lparr>w_registry := rg\<rparr>))"

text \<open>With the database of the campaign open.\<close>

definition import_into ::
  "(json \<Rightarrow> string) \<Rightarrow> tick_env \<Rightarrow> bool \<Rightarrow> save_file \<Rightarrow> campaign \<Rightarrow> (nat \<Rightarrow> bool) \<Rightarrow> world \<Rightarrow> db_files
   \<Rightarrow> import_result outcome \<times> world \<times> db_files" where
  "import_into repr env force_reset save_path c faults w dbs =
     (case import_save repr (env\<lparr>te_campaign_id := cp_id c\<rparr>) True False force_reset save_path faults
         (w\<lparr>w_db := dbs (cp_db_path c)\<rparr>) of
        (out, w') \<Rightarrow> (out, w', dbs(cp_db_path c := w_db w')))"

definition adopt_parsed ::
  "(json \<Rightarrow> string) \<Rightarrow> tick_env \<Rightarrow> adopt_env \<Rightarrow> bool \<Rightarrow> save_file \<Rightarrow> obj \<Rightarrow> save_snapshot \<Rightarrow> (nat \<Rightarrow> bool)
   \<Rightarrow> world \<Rightarrow> db_files \<Rightarrow> (adoption_error + adoption_result) \<times> world \<times> db_files" where
  "adopt_parsed repr env ae force_reset save_path raw parsed_snap faults w dbs =
     (case resolve_op env ae (build_resolve_snap (te_names env) parsed_snap)
         (if sn_ck3_version parsed_snap = [] then None else Some (sn_ck3_version parsed_snap)) faults w of
        (Inl e, w1) \<Rightarrow> (Inl (Adoption_Raised e), w1, dbs)
      | (Inr (Inl e), w1) \<Rightarrow> (Inl (Resolve_Raised e), w1, dbs)
      | (Inr (Inr c), w1) \<Rightarrow>
          (if \<not> ae_upgrade ae (cp_db_path c) then (Inl AlembicUpgradeFailed, w1, dbs)
           else case import_into repr env force_reset save_path c faults w1 dbs of
             (Inl e, w2, dbs') \<Rightarrow> (Inl (Adoption_Raised e), w2, dbs')
           | (Inr r, w2, dbs') \<Rightarrow>
               (Inr \<lparr>ad_campaign = c, ad_parsed_snap = parsed_snap, ad_raw_save_data = raw, ad_import_result = r\<rparr>,
                w2, dbs')))"

definition adopt_save ::
  "(json \<Rightarrow> string) \<Rightarrow> tick_env \<Rightarrow> adopt_env \<Rightarrow> bool \<Rightarrow> save_file \<Rightarrow> (nat \<Rightarrow> bool)
   \<Rightarrow> world \<Rightarrow> db_files \<Rightarrow> (adoption_error + adoption_result) \<times> world \<times> db_files" where
  "adopt_save repr env ae force_reset save_path faults w dbs =
     (if \<not> sf_is_file save_path then (Inl SaveNotFound, w, dbs)
      else case sf_melt save_path of
        Melt_Failed \<Rightarrow> (Inl RakalyParseError, w, dbs)
      | Melt_Raised \<Rightarrow> (Inl (Adoption_Raised (Py_Exn BadType)), w, dbs)
      | Melted raw \<Rightarrow>
          (case parse_save repr (te_names env) (te_id_order env) raw of
             Inl e \<Rightarrow> (Inl (ParseError e), w, dbs)
           | Inr parsed_snap \<Rightarrow> adopt_parsed repr env ae force_reset save_path raw parsed_snap faults w dbs))"

section \<open>The registry during an import\<close>

definition same_registry :: "world \<Rightarrow> world \<Rightarrow> bool" where
  "same_registry w w' \<longleftrightarrow> w_registry w' = w_registry w"

interpretation sameR: rolled_back_relation same_registry
  by unfold_locales (simp_all add: same_registry_def)

lemma sameR_db: "keeps same_registry (db_op g)"
  by (rule sameR.keeps_db) (simp add: same_registry_def)

lemma sameR_raise: "keeps same_registry (raise_op e)"
  by (simp add: keeps_def raise_op_def same_registry_def)

lemma sameR_emit: "keeps same_registry (emit progress stage)"
  unfolding emit_def by (intro sameR.keeps_when sameR.keeps_modify) (simp add: same_registry_def)

lemma sameR_rows: "keeps same_registry (for_each (upsert_imported env snap raw) xs)"
  unfolding upsert_imported_def upsert_op_def
  by (auto intro!: sameR.keeps_all sameR_db sameR_raise simp del: return_op_simps(1) split: sum.split)

lemma sameR_memories: "keeps same_registry (import_memories env ms i d)"
  unfolding import_memory_def upsert_op_def
  by (induction ms arbitrary: i d)
    (auto simp: import_memory_def upsert_op_def simp del: return_op_simps(1)
      intro!: sameR.keeps_all sameR_db split: option.split prod.split)

lemma sameR_assert: "keeps same_registry (mismatch_of (assert_op observed allow_reset pin_if_unset))"
  unfolding mismatch_of_def assert_op_def
  by (auto intro!: sameR.keeps_all sameR_db sameR_raise simp del: return_op_simps(1) split: exn.split db_error.split)

text \<open>A successful import writes the overview of its campaign and nothing else of the registry.\<close>

lemma import_registry:
  assumes "import_save repr env True progress force_reset save_path F w = (Inr r, w')" and "im_success r"
    and "sf_melt save_path = Melted raw" and "parse_save repr (te_names env) (te_id_order env) raw = Inr snap"
  shows "w_registry w' = update_campaign_overview (te_campaign_id env) (overview_of env snap) (w_registry w)"
proof -
  have err: "im_success r = False" if "emit_error progress e F w1 = (Inr r, w')" for e w1
    using that by (auto simp: emit_error_def bind_op_Inr failed_import_def)
  have em: "w_registry w2 = w_registry w1" if "emit progress s F w1 = (Inr u, w2)" for s u w1 w2
    using keepsD [OF sameR_emit that] by (simp add: same_registry_def)
  obtain w1 where w1: "import_parsed env True progress force_reset raw snap F w1 = (Inr r, w')" "w_registry w1 = w_registry w"
    using assms err em by (auto simp: import_save_def bind_op_Inr split: if_splits)
  obtain w2 where w2: "backfill env True progress raw snap F w2 = (Inr r, w')" "w_registry w2 = w_registry w"
  proof -
    obtain mm w2 where mm: "session_scope (mismatch_of (assert_op (sn_playthrough_id snap) force_reset True)) F w1 = (Inr mm, w2)"
      "(case mm of Some (obs, pinned) \<Rightarrow> emit_error progress (Wrong_Playthrough obs pinned)
         | None \<Rightarrow> backfill env True progress raw snap) F w2 = (Inr r, w')"
      using w1 by (auto simp: import_parsed_def bind_op_Inr)
    have "w_registry w2 = w_registry w"
      using keepsD [OF sameR.keeps_scope [OF sameR_assert] mm(1)] w1(2) by (simp add: same_registry_def)
    then show thesis using mm(2) err assms(2) that by (cases mm) (auto split: prod.splits)
  qed
  obtain w3 w4 w5 w6 w7 counts where w3: "emit progress ''backfill_events'' F w2 = (Inr (), w3)"
    and w4: "session_scope (for_each (upsert_imported env snap raw) (sn_characters snap)) F w3 = (Inr (), w4)"
    and w5: "session_scope (import_memories env (memories_of snap) 0 0) F w4 = (Inr counts, w5)"
    and w6: "emit progress ''generate_biographies'' F w5 = (Inr (), w6)"
    and w7: "apply_campaign_overview_from_snap env snap F w6 = (Inr (), w7)"
    and w8: "emit progress ''done'' F w7 = (Inr (), w')"
    using w2(1) by (auto simp: backfill_def bind_op_Inr)
  have "w_registry w4 = w_registry w3" "w_registry w5 = w_registry w4"
    using keepsD [OF sameR.keeps_scope [OF sameR_rows] w4] keepsD [OF sameR.keeps_scope [OF sameR_memories] w5]
    by (simp_all add: same_registry_def)
  moreover have "w_registry w7 = update_campaign_overview (te_campaign_id env) (overview_of env snap) (w_registry w6)"
    using w7 by (auto simp: apply_campaign_overview_from_snap_def registry_op_def dest!: statement_Inr)
  ultimately show ?thesis using em [OF w3] em [OF w6] em [OF w8] w2(2) by simp
qed

section \<open>Adopting a save twice\<close>

lemma adopt_InrD:
  assumes "adopt_save repr env ae force_reset save_path F w dbs = (Inr ad, w', dbs')"
  obtains raw snap w1 rg where "sf_is_file save_path" and "sf_melt save_path = Melted raw"
    and "parse_save repr (te_names env) (te_id_order env) raw = Inr snap"
    and "resolve_campaign_for_save (ae_data_dir ae) (ae_uuid ae) (te_now env) (build_resolve_snap (te_names env) snap)
       (if sn_ck3_version snap = [] then None else Some (sn_ck3_version snap)) (w_registry w) = Inr (ad_campaign ad, rg)"
    and "w_registry w1 = rg"
    and "import_save repr (env\<lparr>te_campaign_id := cp_id (ad_campaign ad)\<rparr>) True False force_reset save_path F
       (w1\<lparr>w_db := dbs (cp_db_path (ad_campaign ad))\<rparr>) = (Inr (ad_import_result ad), w')"
    and "dbs' = dbs(cp_db_path (ad_campaign ad) := w_db w')" and "ad_parsed_snap ad = snap"
proof -
  obtain raw snap where a: "sf_is_file save_path" "sf_melt save_path = Melted raw"
    "parse_save repr (te_names env) (te_id_order env) raw = Inr snap"
    "adopt_parsed repr env ae force_reset save_path raw snap F w dbs = (Inr ad, w', dbs')"
    using assms by (auto simp: adopt_save_def split: if_splits melt.splits sum.splits)
  obtain c w1 where b: "resolve_op env ae (build_resolve_snap (te_names env) snap)
      (if sn_ck3_version snap = [] then None else Some (sn_ck3_version snap)) F w = (Inr (Inr c), w1)"
    "import_into repr env force_reset save_path c F w1 dbs = (Inr (ad_import_result ad), w', dbs')"
    "ad_campaign ad = c" "ad_parsed_snap ad = snap"
    using a(4) unfolding adopt_parsed_def
    by (auto split: prod.splits sum.splits if_splits simp del: if_split)
  obtain rg where c: "resolve_campaign_for_save (ae_data_dir ae) (ae_uuid ae) (te_now env)
      (build_resolve_snap (te_names env) snap)
      (if sn_ck3_version snap = [] then None else Some (sn_ck3_version snap)) (w_registry w) = Inr (c, rg)"
    "w_registry w1 = rg"
    using b(1) unfolding resolve_op_def by (auto dest!: statement_Inr split: sum.splits prod.splits simp del: if_split)
  show thesis
    by (rule that [of raw snap rg w1]) (use a(1-3) b(2-4) c in \<open>auto simp: import_into_def split: prod.splits\<close>)
qed

text \<open>The identifiers of the campaigns, whatever raises.\<close>

definition ids_kept :: "world \<Rightarrow> world \<Rightarrow> bool" where
  "ids_kept w w' \<longleftrightarrow> map cp_id (rg_campaigns (w_registry w')) = map cp_id (rg_campaigns (w_registry w))"

interpretation ids: rolled_back_relation ids_kept
  by unfold_locales (simp_all add: ids_kept_def)

lemma ids_same: "keeps same_registry m \<Longrightarrow> keeps ids_kept m"
  unfolding keeps_def same_registry_def ids_kept_def by (metis (no_types))

lemma overview_ids: "map cp_id (rg_campaigns (update_campaign_overview cid f rg)) = map cp_id (rg_campaigns rg)"
  by (auto simp: update_campaign_overview_def update_campaign_def sql_update_def)

lemma ids_import: "keeps ids_kept (import_save repr env campaign progress force_reset save_path)"
proof -
  have ov: "keeps ids_kept (apply_campaign_overview_from_snap env snap)" for snap
    unfolding apply_campaign_overview_from_snap_def
    by (rule ids.keeps_registry) (simp add: ids_kept_def overview_ids)
  have err: "keeps ids_kept (emit_error progress e)" for e
    unfolding emit_error_def by (intro ids.keeps_all ids_same [OF sameR_emit])
  have fill: "keeps ids_kept (backfill env campaign progress raw snap)" for raw snap
    unfolding backfill_def
    by (auto intro!: ids.keeps_all ids_same [OF sameR_emit] ids_same [OF sameR_rows] ids_same [OF sameR_memories] ov
        simp del: return_op_simps(1))
  show ?thesis
    unfolding import_save_def import_parsed_def
    by (auto intro!: ids.keeps_all ids_same [OF sameR_emit] ids_same [OF sameR_assert] ids_same [OF sameR_raise]
        err fill simp del: return_op_simps(1) split: melt.split sum.split option.split)
qed

lemma overview_pinned:
  assumes "sn_playthrough_id snap \<noteq> []" and "c' \<in> set (rg_campaigns (update_campaign_overview cid (overview_of env snap) rg))"
  shows "\<exists>c\<in>set (rg_campaigns rg). cp_id c' = cp_id c \<and> cp_db_path c' = cp_db_path c \<and> cp_archived c' = cp_archived c
    \<and> cp_ck3_playthrough_id c' = (if cp_id c = cid then Some (sn_playthrough_id snap) else cp_ck3_playthrough_id c)"
  using assms by (auto simp: update_campaign_overview_def update_campaign_def sql_update_def overview_of_def if_set_def
      split: prod.splits if_splits)

lemma resolve_registry_ok:
  "registry_ok rg \<Longrightarrow> resolve_campaign_for_save dd uuid now snap v rg = Inr (c, rg') \<Longrightarrow> registry_ok rg'"
  by (auto simp: resolve_campaign_for_save_def created_def create_from_snap_def
      split: if_splits list.splits option.splits dest: create_campaign_ok)

lemma sql_update_row: "r \<in> set rows \<Longrightarrow> p r \<Longrightarrow> f r \<in> set (sql_update p f rows)"
  by (force simp: sql_update_def)

lemma campaigns_updated: "rg_campaigns (update_campaign cid f rg) = sql_update (\<lambda>c. cp_id c = cid) f (rg_campaigns rg)"
  by (simp add: update_campaign_def)

lemma overview_writes:
  assumes "sn_playthrough_id snap \<noteq> []" and "c \<in> set (rg_campaigns rg)"
  shows "\<exists>c'\<in>set (rg_campaigns (update_campaign_overview (cp_id c) (overview_of env snap) rg)).
       cp_ck3_playthrough_id c' = Some (sn_playthrough_id snap)"
  unfolding update_campaign_overview_def campaigns_updated
  by (rule bexI [rotated, OF sql_update_row [OF assms(2)]])
    (use assms(1) in \<open>simp_all add: overview_of_def if_set_def split: prod.split\<close>)

theorem adopt_again:
  assumes first: "adopt_save repr env ae force_reset save_path F w dbs = (Inr ad, w1, dbs1)"
    and ok: "im_success (ad_import_result ad)" and id: "sn_playthrough_id (ad_parsed_snap ad) \<noteq> []"
    and one: "one_per_playthrough (w_registry w)" and keys: "registry_ok (w_registry w)"
    and env: "te_names env' = te_names env" "te_id_order env' = te_id_order env" and w1': "w_registry w1' = w_registry w1"
    and again: "adopt_save repr env' ae' force_reset' save_path F' w1' dbs1 = (out, w2, dbs2)"
  shows "dbs2 = dbs1 \<and> map cp_id (rg_campaigns (w_registry w2)) = map cp_id (rg_campaigns (w_registry w1))
    \<and> (\<forall>ad2. out = Inr ad2 \<longrightarrow> cp_id (ad_campaign ad2) = cp_id (ad_campaign ad))"
proof -
  from first obtain raw snap v rg where sf: "sf_is_file save_path" "sf_melt save_path = Melted raw"
      "parse_save repr (te_names env) (te_id_order env) raw = Inr snap"
    and res: "resolve_campaign_for_save (ae_data_dir ae) (ae_uuid ae) (te_now env) (build_resolve_snap (te_names env) snap)
       (if sn_ck3_version snap = [] then None else Some (sn_ck3_version snap)) (w_registry w) = Inr (ad_campaign ad, rg)"
    and v: "w_registry v = rg"
    and imp: "import_save repr (env\<lparr>te_campaign_id := cp_id (ad_campaign ad)\<rparr>) True False force_reset save_path F
       (v\<lparr>w_db := dbs (cp_db_path (ad_campaign ad))\<rparr>) = (Inr (ad_import_result ad), w1)"
    and dbs1: "dbs1 = dbs(cp_db_path (ad_campaign ad) := w_db w1)" and snap: "ad_parsed_snap ad = snap"
    by (rule adopt_InrD)
  let ?c = "ad_campaign ad" and ?env = "env\<lparr>te_campaign_id := cp_id (ad_campaign ad)\<rparr>"
  have pt: "sp_playthrough_id (build_resolve_snap (te_names env) snap) = sn_playthrough_id snap"
    by (simp add: build_resolve_snap_def Let_def)
  note spec = resolve_spec [OF res, unfolded pt, OF id [unfolded snap]]
  have one': "one_per_playthrough rg" by (rule resolve_one [OF one res])
  have keys': "distinct (map cp_id (rg_campaigns rg))"
    using resolve_registry_ok [OF keys res] by (simp add: registry_ok_def)
  have rg1: "w_registry w1 = update_campaign_overview (cp_id ?c) (overview_of ?env snap) rg"
    using import_registry [OF imp ok sf(2)] sf(3) v by simp
  have imported: "imported env snap raw (w_db w1)"
    using import_imports [OF imp ok sf(2)] sf(3) imported_env [of ?env env] by simp
  have match: "c' \<in> set (rg_campaigns (w_registry w1)) \<Longrightarrow> cp_ck3_playthrough_id c' = Some (sn_playthrough_id snap)
      \<Longrightarrow> cp_id c' = cp_id ?c \<and> cp_db_path c' = cp_db_path ?c \<and> \<not> cp_archived c'" for c'
  proof -
    assume c': "c' \<in> set (rg_campaigns (w_registry w1))" "cp_ck3_playthrough_id c' = Some (sn_playthrough_id snap)"
    from overview_pinned [OF id [unfolded snap] c'(1) [unfolded rg1]] c'(2) obtain c0 where
      c0: "c0 \<in> set (rg_campaigns rg)" "cp_id c' = cp_id c0" "cp_db_path c' = cp_db_path c0" "cp_archived c' = cp_archived c0"
        "cp_id c0 = cp_id ?c \<or> cp_ck3_playthrough_id c0 = Some (sn_playthrough_id snap)" by (auto split: if_splits)
    have "c0 = ?c"
      using c0(5)
    proof
      assume "cp_id c0 = cp_id ?c"
      then show ?thesis using keys' c0(1) spec by (meson distinct_map inj_onD)
    qed (use one' spec c0(1) in \<open>auto simp: one_per_playthrough_def\<close>)
    then show ?thesis using c0 spec by simp
  qed
  have first_match: "\<exists>c'. matches (sn_playthrough_id snap) False (w_registry w1) = c' # tl (matches (sn_playthrough_id snap) False (w_registry w1))
      \<and> cp_id c' = cp_id ?c \<and> cp_db_path c' = cp_db_path ?c"
  proof -
    have "\<exists>c'\<in>set (rg_campaigns (w_registry w1)). cp_ck3_playthrough_id c' = Some (sn_playthrough_id snap)"
      using spec overview_writes [of snap ?c rg ?env] id snap unfolding rg1 by blast
    then have "matches (sn_playthrough_id snap) False (w_registry w1) \<noteq> []"
      using match matches_set [of "sn_playthrough_id snap" False "w_registry w1"] by auto
    then obtain c' cs where m: "matches (sn_playthrough_id snap) False (w_registry w1) = c' # cs" by (cases "matches (sn_playthrough_id snap) False (w_registry w1)") auto
    then have "c' \<in> set (rg_campaigns (w_registry w1))" "cp_ck3_playthrough_id c' = Some (sn_playthrough_id snap)"
      using matches_set [of "sn_playthrough_id snap" False "w_registry w1"] by auto
    with match m show ?thesis by simp
  qed
  obtain c' cs where c': "matches (sn_playthrough_id snap) False (w_registry w1) = c' # cs" "cp_id c' = cp_id ?c"
    "cp_db_path c' = cp_db_path ?c" using first_match by blast
  have res2: "resolve_campaign_for_save dd uuid now (build_resolve_snap (te_names env) snap) ver (w_registry w1)
      = Inr (c', w_registry w1)" for dd uuid now ver
    using id c'(1) by (simp add: resolve_campaign_for_save_def pt snap)
  have adopt2: "adopt_parsed repr env' ae' force_reset' save_path raw snap F' w1' dbs1 = (out, w2, dbs2)"
    using again sf env by (simp add: adopt_save_def)
  show ?thesis
  proof (cases "F' (w_clock w1')")
    case True
    then show ?thesis using adopt2 w1' by (auto simp: adopt_parsed_def resolve_op_def statement_def)
  next
    case False
    let ?w = "w1'\<lparr>w_clock := Suc (w_clock w1')\<rparr>"
    have op: "resolve_op env' ae' (build_resolve_snap (te_names env') snap) ver F' w1' = (Inr (Inr c'), ?w)" for ver
      using False res2 w1' env by (simp add: resolve_op_def statement_def)
    let ?imp = "import_save repr (env'\<lparr>te_campaign_id := cp_id c'\<rparr>) True False force_reset' save_path"
    have "imported (env'\<lparr>te_campaign_id := cp_id c'\<rparr>) snap raw (w_db w1)"
      using imported imported_env [of "env'\<lparr>te_campaign_id := cp_id c'\<rparr>" env] env by simp
    then have idle: "keeps (fixed_db (w_db w1)) ?imp"
      by (rule fixed_import) (use sf env in simp_all)
    obtain o2 w3 where run: "?imp F' (?w\<lparr>w_db := dbs1 (cp_db_path c')\<rparr>) = (o2, w3)" by force
    have "dbs1 (cp_db_path c') = w_db w1" using dbs1 c'(3) by simp
    then have "w_db w3 = dbs1 (cp_db_path c')" using keepsD [OF idle run] by (simp add: fixed_db_def)
    moreover have "map cp_id (rg_campaigns (w_registry w3)) = map cp_id (rg_campaigns (w_registry w1))"
      using keepsD [OF ids_import run] w1' by (simp add: ids_kept_def)
    ultimately show ?thesis using adopt2 op run c'(2) w1'
      by (auto simp: adopt_parsed_def import_into_def split: if_splits sum.splits)
  qed
qed

end
