(* ===== verification/Import_Props.thy ===== *)
theory Import_Props
  imports Adoption Demo_Parse Demo_Tick
begin

text \<open>
  The properties of the import and the adoption of a save, and of the arms of a character.
\<close>

section \<open>Example\<close>

definition tiny_data :: obj where
  "tiny_data = [(''playthrough_id'', JStr ''run''), (''meta_data'', JObj [(''meta_date'', JStr ''1066.1.1'')]),
     (''living'', JObj [(''1'', JObj [(''first_name'', JStr ''Alice''), (''birth'', JStr ''1040.5.2'')])])]"

definition tiny_file :: save_file where
  "tiny_file = \<lparr>sf_is_file = True, sf_melt = Melted tiny_data\<rparr>"

definition tiny_adopt :: adopt_env where
  "tiny_adopt = \<lparr>ae_data_dir = ''data'', ae_uuid = ''u1'', ae_upgrade = (\<lambda>_. True)\<rparr>"

lemma tiny_imports:
  obtains r w where "import_save demo_repr demo_env True False False tiny_file no_faults demo_world = (Inr r, w)"
    and "im_success r"
proof -
  have "case import_save demo_repr demo_env True False False tiny_file no_faults demo_world of
      (Inr r, w) \<Rightarrow> im_success r | _ \<Rightarrow> False" by code_simp
  then show ?thesis using that by (auto split: prod.splits sum.splits)
qed

lemma tiny_adopted:
  obtains ad w dbs where "adopt_save demo_repr demo_env tiny_adopt False tiny_file no_faults demo_world (\<lambda>_. empty_db) = (Inr ad, w, dbs)"
    and "im_success (ad_import_result ad)" and "sn_playthrough_id (ad_parsed_snap ad) \<noteq> []"
proof -
  have "case adopt_save demo_repr demo_env tiny_adopt False tiny_file no_faults demo_world (\<lambda>_. empty_db) of
      (Inr ad, w, dbs) \<Rightarrow> im_success (ad_import_result ad) \<and> sn_playthrough_id (ad_parsed_snap ad) \<noteq> [] | _ \<Rightarrow> False"
    by code_simp
  then show ?thesis using that by (auto split: prod.splits sum.splits)
qed

section \<open>The import\<close>

text \<open>C17: a save imported a second time changes nothing. After an import that succeeded, importing the
  same save again, with whatever options and whatever fails, leaves the tables as they are, and no
  memory counts as new.\<close>

theorem import_idempotent:
  assumes "import_save repr env campaign progress force_reset save_path F w = (Inr r, w1)" and "im_success r"
    and "te_names env' = te_names env" and "te_id_order env' = te_id_order env" and "w_db w2 = w_db w1"
    and "import_save repr env' campaign' progress' force_reset' save_path F' w2 = (out, w3)"
  shows "w_db w3 = w_db w1 \<and> (\<forall>r2. out = Inr r2 \<longrightarrow> im_memories_inserted r2 = 0)"
proof -
  obtain raw snap where save: "sf_melt save_path = Melted raw"
    "parse_save repr (te_names env) (te_id_order env) raw = Inr snap"
    using import_reads [OF assms(1,2)] by blast
  have "imported env' snap raw (w_db w2)"
    using import_imports [OF assms(1,2) save] imported_env [OF assms(3,4)] assms(5) by simp
  moreover have "parse_save repr (te_names env') (te_id_order env') raw = Inr snap" using save(2) assms(3,4) by simp
  ultimately show ?thesis
    using keepsD [OF fixed_import [of env' snap raw "w_db w2" repr save_path campaign' progress' force_reset'] assms(6)]
      import_again [of repr env' campaign' progress' force_reset' save_path F' w2 _ w3 snap raw] save(1) assms(5,6)
    by (auto simp: fixed_db_def)
qed

theorem import_idempotent_witness:
  "\<exists>r w1. import_save demo_repr demo_env True False False tiny_file no_faults demo_world = (Inr r, w1) \<and> im_success r
     \<and> w_db (snd (import_save demo_repr demo_env False True True tiny_file no_faults w1)) = w_db w1"
proof -
  obtain r w1 where run: "import_save demo_repr demo_env True False False tiny_file no_faults demo_world = (Inr r, w1)"
    and ok: "im_success r" by (rule tiny_imports)
  obtain out w3 where again: "import_save demo_repr demo_env False True True tiny_file no_faults w1 = (out, w3)" by fastforce
  from import_idempotent [OF run ok refl refl refl again] run ok again show ?thesis by auto
qed

text \<open>A save of another playthrough than the one the database is pinned to is refused before
  anything is written, unless the caller forces it.\<close>

theorem foreign_save_refused:
  assumes "sf_is_file save_path" and "sf_melt save_path = Melted raw"
    and "parse_save repr (te_names env) (te_id_order env) raw = Inr snap"
    and "get_meta (w_db w) PLAYTHROUGH_ID_META_KEY = Some pinned"
    and "sn_playthrough_id snap \<noteq> []" and "sn_playthrough_id snap \<noteq> pinned"
  shows "\<exists>w'. import_save repr env campaign progress False save_path no_faults w
      = (Inr (failed_import (Wrong_Playthrough (sn_playthrough_id snap) pinned)), w')
    \<and> w_db w' = w_db w \<and> w_registry w' = w_registry w"
  using assms by (rule foreign_import_refused)

theorem foreign_save_refused_witness:
  "\<exists>w'. import_save demo_repr demo_env True False False \<lparr>sf_is_file = True, sf_melt = Melted (demo_data False)\<rparr> no_faults
      (demo_world\<lparr>w_db := set_meta PLAYTHROUGH_ID_META_KEY ''other'' empty_db\<rparr>)
      = (Inr (failed_import (Wrong_Playthrough ''run'' ''other'')), w') \<and> w_registry w' = demo_registry"
proof -
  have env: "parse_save demo_repr (te_names demo_env) (te_id_order demo_env) (demo_data False) = Inr (demo_save False)"
    using demo_parsed [of False] by (simp add: demo_env_def)
  have pinned: "get_meta (w_db (demo_world\<lparr>w_db := set_meta PLAYTHROUGH_ID_META_KEY ''other'' empty_db\<rparr>)) PLAYTHROUGH_ID_META_KEY
      = Some ''other''" by (simp add: get_meta_def set_meta_def)
  from foreign_save_refused [OF _ _ env pinned, of "\<lparr>sf_is_file = True, sf_melt = Melted (demo_data False)\<rparr>" True False]
  show ?thesis by (auto simp: demo_run demo_world_def)
qed

section \<open>Adoption\<close>

text \<open>A save adopted a second time. When an adoption has succeeded for a save that names its
  playthrough, adopting it again, with whatever fails, changes no database and no list of campaigns,
  and where it succeeds it finds the same campaign.\<close>

theorem adoption_idempotent:
  assumes "adopt_save repr env ae force_reset save_path F w dbs = (Inr ad, w1, dbs1)"
    and "im_success (ad_import_result ad)" and "sn_playthrough_id (ad_parsed_snap ad) \<noteq> []"
    and "one_per_playthrough (w_registry w)" and "registry_ok (w_registry w)"
    and "te_names env' = te_names env" and "te_id_order env' = te_id_order env" and "w_registry w1' = w_registry w1"
    and "adopt_save repr env' ae' force_reset' save_path F' w1' dbs1 = (out, w2, dbs2)"
  shows "dbs2 = dbs1 \<and> map cp_id (rg_campaigns (w_registry w2)) = map cp_id (rg_campaigns (w_registry w1))
    \<and> (\<forall>ad2. out = Inr ad2 \<longrightarrow> cp_id (ad_campaign ad2) = cp_id (ad_campaign ad))"
  using assms by (rule adopt_again)

theorem adoption_idempotent_witness:
  "\<exists>ad w1 dbs1. adopt_save demo_repr demo_env tiny_adopt False tiny_file no_faults demo_world (\<lambda>_. empty_db) = (Inr ad, w1, dbs1)
     \<and> im_success (ad_import_result ad)
     \<and> snd (snd (adopt_save demo_repr demo_env tiny_adopt False tiny_file no_faults w1 dbs1)) = dbs1"
proof -
  obtain ad w1 dbs1 where run: "adopt_save demo_repr demo_env tiny_adopt False tiny_file no_faults demo_world (\<lambda>_. empty_db)
      = (Inr ad, w1, dbs1)"
    and ok: "im_success (ad_import_result ad)" "sn_playthrough_id (ad_parsed_snap ad) \<noteq> []" by (rule tiny_adopted)
  obtain out w2 dbs2 where again: "adopt_save demo_repr demo_env tiny_adopt False tiny_file no_faults w1 dbs1 = (out, w2, dbs2)"
    using prod_cases3 by blast
  have rg: "one_per_playthrough (w_registry demo_world)" "registry_ok (w_registry demo_world)"
    using demo_world_ok by (simp_all add: demo_world_def one_per_playthrough_def demo_registry_def)
  from adoption_idempotent [OF run ok rg refl refl refl again] run ok again show ?thesis by auto
qed

section \<open>Arms\<close>

text \<open>The arms of a character are a definition of the save in normal form: no node has a list of
  charges under the singular key, normalising once more changes nothing; and the resolver raises
  exactly where the character leads to arms and the section of arms is a non-empty list or scalar.\<close>

theorem arms_in_normal_form:
  "normalize_coa (normalize_coa node) = normalize_coa node
   \<and> (resolve_character_coa data cid = Inr (Some coa) \<longrightarrow> normalize_coa (JObj coa) = JObj coa)
   \<and> ((\<exists>e. resolve_character_coa data cid = Inl e) \<longleftrightarrow>
        coa_id_of data cid \<noteq> None \<and> truthy (get data ''coat_of_arms'') \<and> \<not> is_obj (get data ''coat_of_arms''))"
  using normalize_coa_idempotent resolved_coa_normal resolve_coa_raises_iff by blast

definition demo_arms_data :: obj where
  "demo_arms_data = [(''living'', JObj [(''1'', JObj [(''dynasty_house'', JInt 5)])]),
     (''dynasties'', JObj [(''dynasty_house'', JObj [(''5'', JObj [(''coat_of_arms_id'', JInt 9)])])]),
     (''coat_of_arms'', JObj [(''coat_of_arms_manager_database'', JObj [(''9'', JObj [(''pattern'', JStr ''solid''),
        (''colored_emblem'', JArr [JObj [], JInt 3])])])])]"

theorem arms_in_normal_form_witness:
  "resolve_character_coa demo_arms_data 1 = Inr (Some [(''pattern'', JStr ''solid''), (''colored_emblems'', JArr [JObj []])])
     \<and> normalize_coa (JObj [(''pattern'', JStr ''solid''), (''colored_emblems'', JArr [JObj []])])
        = JObj [(''pattern'', JStr ''solid''), (''colored_emblems'', JArr [JObj []])]"
proof -
  have "resolve_character_coa demo_arms_data 1 = Inr (Some [(''pattern'', JStr ''solid''), (''colored_emblems'', JArr [JObj []])])"
    by code_simp
  with arms_in_normal_form [of "JNull" demo_arms_data 1] show ?thesis by blast
qed

end
