(* ===== verification/Save_Cache.thy ===== *)
theory Save_Cache
  imports Py_Json
begin

text \<open>
  The cache of saves, \<open>save/cache.py\<close>: a directory of copies named by a sequence number, each with
  an optional sidecar that names its playthrough. The directory is a dictionary from file names to
  files, in the order in which it lists them; what the operating system refuses is an argument.
\<close>

section \<open>Files\<close>

text \<open>What \<open>json.load\<close> does with a file: a value, \<open>JSONDecodeError\<close> or \<open>OSError\<close>, or another error
  (text that is not UTF-8).\<close>

datatype loaded = Json_Value json | Json_Error | Decode_Error

record cache_file =
  cf_size :: nat
  cf_loaded :: loaded

type_synonym directory = "(string, cache_file) dict"

definition remove_file :: "directory \<Rightarrow> string \<Rightarrow> directory" where
  "remove_file dir name = filter (\<lambda>(n, f). n \<noteq> name) dir"

text \<open>The calls of the operating system that fail, by the name of the file.\<close>

record os_env =
  os_iterdir_fails :: bool
  os_stat_fails :: "string \<Rightarrow> bool"
  os_unlink_fails :: "string \<Rightarrow> bool"

definition os_fine :: os_env where
  "os_fine = \<lparr>os_iterdir_fails = False, os_stat_fails = (\<lambda>_. False), os_unlink_fails = (\<lambda>_. False)\<rparr>"

section \<open>Names\<close>

definition SEQNO_WIDTH :: nat where
  "SEQNO_WIDTH = 12"

definition cache_name :: "nat \<Rightarrow> string" where
  "cache_name seqno = fmt0 SEQNO_WIDTH seqno @ ''.ck3''"

definition tmp_name :: "nat \<Rightarrow> string" where
  "tmp_name seqno = fmt0 SEQNO_WIDTH seqno @ ''.tmp''"

text \<open>The pattern \<open>^(\d{12})\.ck3$\<close>: the dollar lets a final newline pass.\<close>

definition match_seqno :: "string \<Rightarrow> nat option" where
  "match_seqno name =
     (let ds = take SEQNO_WIDTH name
      in if length ds = SEQNO_WIDTH \<and> list_all is_digit ds
           \<and> drop SEQNO_WIDTH name \<in> {''.ck3'', ''.ck3'' @ [CHR 0x0A]}
         then Some (parse_nat ds) else None)"

text \<open>\<open>path.with_suffix(suffix)\<close>: the last suffix is replaced, if there is one.\<close>

definition with_suffix :: "string \<Rightarrow> string \<Rightarrow> string" where
  "with_suffix name suffix =
     (let tail = takeWhile (\<lambda>c. c \<noteq> CHR ''.'') (rev name);
          rest = dropWhile (\<lambda>c. c \<noteq> CHR ''.'') (rev name)
      in if tail = [] \<or> tl rest = [] then name @ suffix else rev (tl rest) @ suffix)"

definition SIDECAR_SUFFIX :: string where
  "SIDECAR_SUFFIX = ''.meta.json''"

definition sidecar_path_for :: "string \<Rightarrow> string" where
  "sidecar_path_for name = with_suffix name SIDECAR_SUFFIX"

section \<open>What is pending\<close>

definition read_playthrough_sidecar :: "directory \<Rightarrow> string \<Rightarrow> string option result" where
  "read_playthrough_sidecar dir name =
     (case dict_get dir (sidecar_path_for name) of
        None \<Rightarrow> Inr None
      | Some f \<Rightarrow>
          (case cf_loaded f of
             Json_Error \<Rightarrow> Inr None
           | Decode_Error \<Rightarrow> Inl ValueError
           | Json_Value v \<Rightarrow> bindr (as_dict v) (\<lambda>data. Inr (opt_text (get data ''playthrough_id'')))))"

record cached_save =
  cv_path :: string
  cv_seqno :: nat
  cv_size_bytes :: nat
  cv_playthrough_id :: "string option"

definition pending_entry :: "os_env \<Rightarrow> directory \<Rightarrow> string \<times> cache_file \<Rightarrow> cached_save list result" where
  "pending_entry os dir = (\<lambda>(name, f).
     case match_seqno name of
       None \<Rightarrow> Inr []
     | Some seqno \<Rightarrow>
         if os_stat_fails os name then Inr []
         else bindr (read_playthrough_sidecar dir name) (\<lambda>pid.
           Inr [\<lparr>cv_path = name, cv_seqno = seqno, cv_size_bytes = cf_size f, cv_playthrough_id = pid\<rparr>]))"

definition pending_in :: "os_env \<Rightarrow> directory \<Rightarrow> cached_save list result" where
  "pending_in os dir =
     (if os_iterdir_fails os then Inr []
      else bindr (concat_mapr (pending_entry os dir) dir) (\<lambda>out. Inr (sort_key cv_seqno out)))"

definition total_size :: "cached_save list \<Rightarrow> nat" where
  "total_size cs = sum_list (map cv_size_bytes cs)"

definition snapshot_dir :: "os_env \<Rightarrow> directory \<Rightarrow> (nat \<times> nat) result" where
  "snapshot_dir os dir = bindr (pending_in os dir) (\<lambda>cs. Inr (length cs, total_size cs))"

section \<open>The cache\<close>

record cache =
  sv_dir :: directory
  sv_next_seqno :: nat
  sv_gc_drops_total :: nat
  sv_protected :: "nat fset"

definition compute_next_seqno :: "directory \<Rightarrow> nat" where
  "compute_next_seqno dir = fold max (List.map_filter match_seqno (map fst dir)) 0 + 1"

definition is_tmp :: "string \<Rightarrow> bool" where
  "is_tmp name \<longleftrightarrow> drop (length name - 4) name = ''.tmp''"

definition prune_orphan_tmps :: "os_env \<Rightarrow> directory \<Rightarrow> directory" where
  "prune_orphan_tmps os dir = filter (\<lambda>(n, f). \<not> is_tmp n \<or> os_unlink_fails os n) dir"

definition open_cache :: "os_env \<Rightarrow> directory \<Rightarrow> cache" where
  "open_cache os dir = \<lparr>sv_dir = prune_orphan_tmps os dir, sv_next_seqno = compute_next_seqno dir,
     sv_gc_drops_total = 0, sv_protected = {||}\<rparr>"

text \<open>How the copy of a save ends: the link or the copy is there, the source had vanished, another
  error; then whether the renaming works and the new file can be measured.\<close>

datatype materialized = Copied cache_file | Vanished | Copy_Failed

definition cache_save :: "os_env \<Rightarrow> materialized \<Rightarrow> bool \<Rightarrow> cache \<Rightarrow> cached_save option \<times> cache" where
  "cache_save os source replaced c =
     (let seqno = sv_next_seqno c;
          tmp = tmp_name seqno;
          cleaned = (\<lambda>d. if os_unlink_fails os tmp then d else remove_file d tmp)
      in case source of
           Vanished \<Rightarrow> (None, c)
         | Copy_Failed \<Rightarrow> (None, c\<lparr>sv_dir := cleaned (sv_dir c)\<rparr>)
         | Copied f \<Rightarrow>
             (let written = dict_set (sv_dir c) tmp f;
                  final = cache_name seqno
              in if \<not> replaced then (None, c\<lparr>sv_dir := cleaned written\<rparr>)
                 else (Some \<lparr>cv_path = final, cv_seqno = seqno,
                         cv_size_bytes = (if os_stat_fails os final then 0 else cf_size f), cv_playthrough_id = None\<rparr>,
                       c\<lparr>sv_dir := dict_set (remove_file written tmp) final f, sv_next_seqno := seqno + 1\<rparr>)))"

definition pending :: "os_env \<Rightarrow> cache \<Rightarrow> cached_save list result" where
  "pending os c = pending_in os (sv_dir c)"

text \<open>How the sidecar is written: whole, not at all, or up to the temporary file.\<close>

datatype written = Written | Not_Opened | Not_Replaced

definition tag_playthrough :: "written \<Rightarrow> cached_save \<Rightarrow> string \<Rightarrow> cache \<Rightarrow> cache" where
  "tag_playthrough how cached playthrough_id c =
     (let sidecar = sidecar_path_for (cv_path cached);
          tmp = with_suffix sidecar (SIDECAR_SUFFIX @ ''.tmp'');
          f = \<lparr>cf_size = 0, cf_loaded = Json_Value (JObj [(''playthrough_id'', JStr playthrough_id)])\<rparr>
      in case how of
           Not_Opened \<Rightarrow> c
         | Not_Replaced \<Rightarrow> c\<lparr>sv_dir := dict_set (sv_dir c) tmp f\<rparr>
         | Written \<Rightarrow> c\<lparr>sv_dir := dict_set (remove_file (sv_dir c) tmp) sidecar f\<rparr>)"

text \<open>The save goes if it can; for the sidecar only a missing file is forgiven.\<close>

definition mark_processed :: "os_env \<Rightarrow> cached_save \<Rightarrow> cache \<Rightarrow> bool \<times> cache" where
  "mark_processed os cached c =
     (let dir = (if os_unlink_fails os (cv_path cached) then sv_dir c else remove_file (sv_dir c) (cv_path cached));
          sidecar = sidecar_path_for (cv_path cached)
      in if dict_get dir sidecar \<noteq> None \<and> os_unlink_fails os sidecar then (False, c\<lparr>sv_dir := dir\<rparr>)
         else (True, c\<lparr>sv_dir := remove_file dir sidecar, sv_protected := sv_protected c |-| {|cv_seqno cached|}\<rparr>))"

definition protect :: "nat \<Rightarrow> cache \<Rightarrow> cache" where
  "protect seqno c = c\<lparr>sv_protected := finsert seqno (sv_protected c)\<rparr>"

definition total_bytes :: "os_env \<Rightarrow> cache \<Rightarrow> nat result" where
  "total_bytes os c = bindr (pending os c) (\<lambda>cs. Inr (total_size cs))"

text \<open>The snapshot for the event bus: pending, bytes, drops.\<close>

definition cache_snapshot :: "os_env \<Rightarrow> cache \<Rightarrow> (nat \<times> nat \<times> nat) result" where
  "cache_snapshot os c = bindr (snapshot_dir os (sv_dir c)) (\<lambda>(n, b). Inr (n, b, sv_gc_drops_total c))"

section \<open>Garbage collection\<close>

text \<open>The loop: the directory, the total and the count so far. A sidecar that cannot be deleted leaves
  the two numbers alone.\<close>

fun gc_loop :: "os_env \<Rightarrow> nat \<Rightarrow> nat fset \<Rightarrow> cached_save list \<Rightarrow> directory \<Rightarrow> int \<Rightarrow> nat \<Rightarrow> directory \<times> nat" where
  "gc_loop os max_bytes protected [] dir bytes deleted = (dir, deleted)"
| "gc_loop os max_bytes protected (c # cs) dir bytes deleted =
     (if bytes \<le> int max_bytes then (dir, deleted)
      else if cv_seqno c |\<in>| protected then gc_loop os max_bytes protected cs dir bytes deleted
      else if os_unlink_fails os (cv_path c) then gc_loop os max_bytes protected cs dir bytes deleted
      else
        let dir' = remove_file dir (cv_path c); sidecar = sidecar_path_for (cv_path c)
        in if dict_get dir' sidecar \<noteq> None \<and> os_unlink_fails os sidecar
           then gc_loop os max_bytes protected cs dir' bytes deleted
           else gc_loop os max_bytes protected cs (remove_file dir' sidecar) (bytes - int (cv_size_bytes c)) (Suc deleted))"

definition gc_oldest :: "os_env \<Rightarrow> nat \<Rightarrow> cache \<Rightarrow> nat result \<times> cache" where
  "gc_oldest os max_bytes c =
     (case pending os c of
        Inl e \<Rightarrow> (Inl e, c)
      | Inr cs \<Rightarrow>
          (case gc_loop os max_bytes (sv_protected c) cs (sv_dir c) (int (total_size cs)) 0 of
             (dir, deleted) \<Rightarrow>
               (Inr deleted, c\<lparr>sv_dir := dir, sv_gc_drops_total := sv_gc_drops_total c + deleted\<rparr>)))"

section \<open>Names are read back\<close>

lemma seqno_cache_name: "n < 10 ^ 12 \<Longrightarrow> match_seqno (cache_name n) = Some n"
proof -
  assume "n < 10 ^ 12"
  then have len: "length (fmt0 12 n) = 12" by (simp add: length_fmt0)
  have "list_all is_digit (fmt0 12 n)"
    using show_nat_digits [of n] by (auto simp: fmt0_def Let_def list_all_iff) (simp add: is_digit_def)
  with len show ?thesis by (simp add: match_seqno_def cache_name_def SEQNO_WIDTH_def Let_def)
qed

text \<open>
  The cache as a queue of saves: what was cached comes out last, in the order of the numbers; and
  the garbage collection takes the oldest unprotected saves, no more than it must.
\<close>

section \<open>Names\<close>

lemma cache_name_inj: "m < 10 ^ 12 \<Longrightarrow> n < 10 ^ 12 \<Longrightarrow> cache_name m = cache_name n \<Longrightarrow> m = n"
  using seqno_cache_name by (metis option.inject)

lemma tmp_no_match: "match_seqno (tmp_name n) = None"
proof -
  have "drop 12 (tmp_name n) \<noteq> ''.ck3'' \<and> drop 12 (tmp_name n) \<noteq> ''.ck3'' @ [CHR 0x0A]"
  proof -
    have "last (tmp_name n) = CHR ''p''" by (simp add: tmp_name_def)
    moreover have "drop 12 (tmp_name n) \<noteq> [] \<Longrightarrow> last (drop 12 (tmp_name n)) = last (tmp_name n)" by simp
    ultimately show ?thesis by fastforce
  qed
  then show ?thesis by (simp add: match_seqno_def SEQNO_WIDTH_def Let_def)
qed

lemma with_suffix_ends: "\<exists>pre. with_suffix name s = pre @ s"
  by (simp add: with_suffix_def Let_def)

lemma sidecar_last: "last (sidecar_path_for name) = CHR ''n''"
  using with_suffix_ends [of name SIDECAR_SUFFIX] by (auto simp: sidecar_path_for_def SIDECAR_SUFFIX_def)

lemma match_seqno_last:
  assumes "match_seqno name = Some k" shows "last name \<in> {CHR ''3'', CHR 0x0A} \<and> name \<noteq> []"
proof -
  have "drop 12 name \<in> {''.ck3'', ''.ck3'' @ [CHR 0x0A]}" "length (take 12 name) = 12"
    using assms by (auto simp: match_seqno_def SEQNO_WIDTH_def Let_def split: if_splits)
  moreover then have "last name = last (drop 12 name)" by (metis append_take_drop_id insert_iff last_appendR list.distinct(1) empty_iff append_is_Nil_conv)
  ultimately show ?thesis by auto
qed

lemma sidecar_no_match: "match_seqno (sidecar_path_for name) = None"
  using match_seqno_last [of "sidecar_path_for name"] sidecar_last [of name]
  by (cases "match_seqno (sidecar_path_for name)") auto

lemma last_names: "last (cache_name n) = CHR ''3''" "last (tmp_name n) = CHR ''p''"
  by (simp_all add: cache_name_def tmp_name_def)

lemma names_differ: "sidecar_path_for name \<noteq> cache_name n" "sidecar_path_for name \<noteq> tmp_name n" "cache_name n \<noteq> tmp_name m"
proof -
  have "last a \<noteq> last b \<Longrightarrow> a \<noteq> b" for a b :: string by auto
  then show "sidecar_path_for name \<noteq> cache_name n" "sidecar_path_for name \<noteq> tmp_name n" "cache_name n \<noteq> tmp_name m"
    by (simp_all add: sidecar_last last_names)
qed

section \<open>Files\<close>

lemma get_remove_file [simp]: "dict_get (remove_file dir n) m = (if m = n then None else dict_get dir m)"
  by (induction dir) (auto simp: remove_file_def)

lemma remove_absent: "dict_get dir n = None \<Longrightarrow> remove_file dir n = dir"
  by (induction dir) (auto simp: remove_file_def split: if_splits)

lemma remove_set: "remove_file (dict_set dir n f) n = remove_file dir n"
  by (induction dir) (auto simp: remove_file_def dict_set_def)

lemma dict_set_absent: "dict_get dir n = None \<Longrightarrow> dict_set dir n f = dir @ [(n, f)]"
  by (induction dir) (auto simp: dict_set_def split: if_splits)

lemma remove_file_ok: "dict_ok dir \<Longrightarrow> dict_ok (remove_file dir n)"
  by (simp add: remove_file_def dict_ok_def distinct_map_filter)

text \<open>What is pending depends on the saves and their sidecars only.\<close>

lemma pending_entry_cong:
  "dict_get d (sidecar_path_for (fst e)) = dict_get d' (sidecar_path_for (fst e)) \<Longrightarrow>
     pending_entry os d e = pending_entry os d' e"
proof -
  assume "dict_get d (sidecar_path_for (fst e)) = dict_get d' (sidecar_path_for (fst e))"
  then have "read_playthrough_sidecar d (fst e) = read_playthrough_sidecar d' (fst e)"
    by (simp add: read_playthrough_sidecar_def)
  then show ?thesis by (simp add: pending_entry_def split_beta split: option.split)
qed

lemma pending_entry_skip: "match_seqno (fst e) = None \<Longrightarrow> pending_entry os d e = Inr []"
  by (simp add: pending_entry_def split_beta)

lemma concat_mapr_cong: "(\<And>x. x \<in> set xs \<Longrightarrow> f x = g x) \<Longrightarrow> concat_mapr f xs = concat_mapr g xs"
  by (induction xs) simp_all

lemma concat_mapr_skip: "(\<And>x. x \<in> set xs \<Longrightarrow> \<not> P x \<Longrightarrow> f x = Inr []) \<Longrightarrow> concat_mapr f (filter P xs) = concat_mapr f xs"
  by (induction xs) (auto simp: bindr_def split: sum.split)

lemma concat_mapr_append: "concat_mapr f (xs @ ys) = bindr (concat_mapr f xs) (\<lambda>a. bindr (concat_mapr f ys) (\<lambda>b. Inr (a @ b)))"
  by (induction xs) (auto simp: bindr_def split: sum.splits)

lemma pending_seqnos:
  "pending_in os dir = Inr cs \<Longrightarrow> c \<in> set cs \<Longrightarrow>
     match_seqno (cv_path c) = Some (cv_seqno c) \<and> (\<exists>f. (cv_path c, f) \<in> set dir)"
  by (auto simp: pending_in_def bindr_eq_Inr pending_entry_def split: if_splits option.splits elim!: concat_mapr_elem)
    blast

lemma pending_sorted: "pending_in os dir = Inr cs \<Longrightarrow> sorted (map cv_seqno cs)"
  by (auto simp: pending_in_def bindr_eq_Inr split: if_splits)

lemma sort_key_snoc_max: "(\<And>y. y \<in> set xs \<Longrightarrow> f y \<le> f x) \<Longrightarrow> sort_key f (xs @ [x]) = sort_key f xs @ [x]" for f :: "'a \<Rightarrow> 'k::linorder"
proof (rule properties_for_sort_key)
  fix k assume "k \<in> set (sort_key f xs @ [x])"
  show "filter (\<lambda>y. f k = f y) (sort_key f xs @ [x]) = filter (\<lambda>y. f k = f y) (xs @ [x])"
    using sort_key_stable [of f "f k" xs] by (simp add: eq_commute)
qed (auto simp: sorted_append)

section \<open>A cached save comes out last\<close>

definition cache_ok :: "cache \<Rightarrow> bool" where
  "cache_ok c \<longleftrightarrow> dict_ok (sv_dir c) \<and>
     (\<forall>name\<in>fst ` set (sv_dir c). \<forall>k. match_seqno name = Some k \<longrightarrow> k < sv_next_seqno c)"

lemma next_seqno_above:
  assumes "k \<in> set (List.map_filter match_seqno names)" shows "k < fold max (List.map_filter match_seqno names) 0 + 1"
proof -
  have ge: "m \<le> fold max ks m" for ks and m :: nat
    by (induction ks arbitrary: m) (auto intro: order_trans [OF max.cobounded2])
  have "k \<in> set ks \<Longrightarrow> k \<le> fold max ks m" for ks and m :: nat
  proof (induction ks arbitrary: m)
    case (Cons a ks)
    then show ?case using ge [of "max a m" ks] by auto
  qed simp
  with assms show ?thesis by (simp add: less_Suc_eq_le)
qed

lemma open_cache_ok: "dict_ok dir \<Longrightarrow> cache_ok (open_cache os dir)"
proof -
  assume ok: "dict_ok dir"
  have "k < compute_next_seqno dir" if "(name, f) \<in> set dir" "match_seqno name = Some k" for name f k
    unfolding compute_next_seqno_def
    by (rule next_seqno_above) (use that in \<open>force simp: set_map_filter\<close>)
  with ok show ?thesis
    by (auto simp: cache_ok_def open_cache_def prune_orphan_tmps_def dict_ok_def distinct_map_filter)
qed

theorem cached_comes_last:
  assumes ok: "cache_ok c" and few: "sv_next_seqno c < 10 ^ 12"
    and orphan: "dict_get (sv_dir c) (sidecar_path_for (cache_name (sv_next_seqno c))) = None"
    and before: "pending os_fine c = Inr cs" and run: "cache_save os_fine (Copied f) True c = (Some cached, c')"
  shows "pending os_fine c' = Inr (cs @ [cached]) \<and> cache_ok c'
    \<and> (\<forall>b\<in>set cs. cv_seqno b < cv_seqno cached) \<and> sv_protected c' = sv_protected c"
proof -
  let ?n = "sv_next_seqno c" and ?d = "sv_dir c"
  let ?tmp = "tmp_name ?n" and ?final = "cache_name ?n"
  have fresh: "dict_get ?d ?final = None"
  proof (rule ccontr)
    assume "dict_get ?d ?final \<noteq> None"
    then obtain g where "(?final, g) \<in> set ?d" using dict_get_memD by fastforce
    then show False using ok seqno_cache_name [OF few] by (force simp: cache_ok_def)
  qed
  have dir': "sv_dir c' = remove_file ?d ?tmp @ [(?final, f)]" "sv_next_seqno c' = Suc ?n" "sv_protected c' = sv_protected c"
  proof -
    show "sv_dir c' = remove_file ?d ?tmp @ [(?final, f)]" "sv_next_seqno c' = Suc ?n" "sv_protected c' = sv_protected c"
      using run fresh dict_set_absent [of "remove_file ?d ?tmp" ?final f] names_differ(3) [of ?n ?n]
      by (auto simp: cache_save_def Let_def remove_set)
  qed
  have cached: "cached = \<lparr>cv_path = ?final, cv_seqno = ?n, cv_size_bytes = cf_size f, cv_playthrough_id = None\<rparr>"
    using run by (auto simp: cache_save_def Let_def os_fine_def)
  have old: "concat_mapr (pending_entry os_fine (sv_dir c')) (remove_file ?d ?tmp) = concat_mapr (pending_entry os_fine ?d) ?d"
  proof -
    have "concat_mapr (pending_entry os_fine (sv_dir c')) (remove_file ?d ?tmp)
        = concat_mapr (pending_entry os_fine ?d) (remove_file ?d ?tmp)"
    proof (rule concat_mapr_cong)
      fix e assume "e \<in> set (remove_file ?d ?tmp)"
      have "dict_get (sv_dir c') (sidecar_path_for (fst e)) = dict_get ?d (sidecar_path_for (fst e))"
        using names_differ(1,2) [of "fst e" ?n] by (simp add: dir'(1) dict_get_append split: option.split)
      then show "pending_entry os_fine (sv_dir c') e = pending_entry os_fine ?d e" by (rule pending_entry_cong)
    qed
    also have "\<dots> = concat_mapr (pending_entry os_fine ?d) ?d"
      unfolding remove_file_def by (rule concat_mapr_skip) (auto simp: pending_entry_skip tmp_no_match)
    finally show ?thesis .
  qed
  have new: "pending_entry os_fine (sv_dir c') (?final, f) = Inr [cached]"
    using seqno_cache_name [OF few] orphan names_differ(1,2) [of ?final ?n]
    by (simp add: pending_entry_def read_playthrough_sidecar_def os_fine_def cached dir'(1) dict_get_append split: option.split)
  obtain es where es: "concat_mapr (pending_entry os_fine ?d) ?d = Inr es" "cs = sort_key cv_seqno es"
    using before by (auto simp: pending_def pending_in_def bindr_eq_Inr os_fine_def)
  have less: "cv_seqno b < ?n" if b: "b \<in> set es" for b
  proof -
    obtain g where "(cv_path b, g) \<in> set ?d" "match_seqno (cv_path b) = Some (cv_seqno b)"
      using pending_seqnos [OF before [unfolded pending_def], of b] b es(2) by auto
    then show ?thesis using ok by (force simp: cache_ok_def)
  qed
  have "sort_key cv_seqno (es @ [cached]) = cs @ [cached]"
    using less by (simp add: es(2) cached sort_key_snoc_max less_imp_le)
  moreover have "concat_mapr (pending_entry os_fine (sv_dir c')) (sv_dir c') = Inr (es @ [cached])"
    using old new es(1) by (subst (2) dir'(1)) (simp add: concat_mapr_append)
  ultimately have "pending os_fine c' = Inr (cs @ [cached])"
    by (simp add: pending_def pending_in_def os_fine_def)
  moreover have "cache_ok c'"
    using ok fresh seqno_cache_name [OF few] unfolding cache_ok_def dir' dict_ok_def
    by (auto simp: remove_file_def distinct_map_filter less_Suc_eq dict_get_def map_of_eq_None_iff)
  ultimately show ?thesis using less es(2) cached dir'(3) by auto
qed

section \<open>What the garbage collection takes\<close>

text \<open>Everything protected: nothing is taken, whatever the operating system does.\<close>

lemma gc_protected_loop:
  "\<forall>c\<in>set cs. cv_seqno c |\<in>| protected \<or> os_unlink_fails os (cv_path c) \<Longrightarrow>
     gc_loop os max_bytes protected cs dir bytes deleted = (dir, deleted)"
  by (induction cs) auto

lemma gc_all_protected:
  assumes "\<And>cs. pending os c = Inr cs \<Longrightarrow> \<forall>s\<in>set cs. cv_seqno s |\<in>| sv_protected c \<or> os_unlink_fails os (cv_path s)"
  shows "snd (gc_oldest os max_bytes c) = c"
  using assms by (auto simp: gc_oldest_def gc_protected_loop split: sum.split)

text \<open>With a willing operating system: the oldest unprotected saves, until the rest fits.\<close>

definition removed :: "directory \<Rightarrow> cached_save list \<Rightarrow> directory" where
  "removed dir cs = foldl (\<lambda>d c. remove_file (remove_file d (cv_path c)) (sidecar_path_for (cv_path c))) dir cs"

lemma gc_loop_fine:
  "\<exists>k. gc_loop os_fine max_bytes protected cs dir bytes deleted =
       (removed dir (take k (filter (\<lambda>c. cv_seqno c |\<notin>| protected) cs)), deleted + k)
     \<and> k \<le> length (filter (\<lambda>c. cv_seqno c |\<notin>| protected) cs)
     \<and> (k < length (filter (\<lambda>c. cv_seqno c |\<notin>| protected) cs) \<longrightarrow>
          bytes - int (total_size (take k (filter (\<lambda>c. cv_seqno c |\<notin>| protected) cs))) \<le> int max_bytes)
     \<and> (\<forall>j<k. int max_bytes < bytes - int (total_size (take j (filter (\<lambda>c. cv_seqno c |\<notin>| protected) cs))))"
proof (induction cs arbitrary: dir bytes deleted)
  case (Cons c cs)
  let ?vs = "filter (\<lambda>c. cv_seqno c |\<notin>| protected) cs"
  consider "bytes \<le> int max_bytes" | "int max_bytes < bytes" "cv_seqno c |\<in>| protected"
    | "int max_bytes < bytes" "cv_seqno c |\<notin>| protected" by linarith
  then show ?case
  proof cases
    case 1
    then show ?thesis by (intro exI [of _ 0]) (simp add: removed_def total_size_def)
  next
    case 2
    then show ?thesis using Cons.IH [of dir bytes deleted] by simp
  next
    case 3
    let ?dir = "remove_file (remove_file dir (cv_path c)) (sidecar_path_for (cv_path c))"
    from Cons.IH [of ?dir "bytes - int (cv_size_bytes c)" "Suc deleted"] obtain k where
      k: "gc_loop os_fine max_bytes protected cs ?dir (bytes - int (cv_size_bytes c)) (Suc deleted)
           = (removed ?dir (take k ?vs), Suc deleted + k)" "k \<le> length ?vs"
        "k < length ?vs \<longrightarrow> bytes - int (cv_size_bytes c) - int (total_size (take k ?vs)) \<le> int max_bytes"
        "\<forall>j<k. int max_bytes < bytes - int (cv_size_bytes c) - int (total_size (take j ?vs))" by blast
    show ?thesis
    proof (intro exI [of _ "Suc k"] conjI)
      show "gc_loop os_fine max_bytes protected (c # cs) dir bytes deleted =
          (removed dir (take (Suc k) (filter (\<lambda>c. cv_seqno c |\<notin>| protected) (c # cs))), deleted + Suc k)"
        using 3 k(1) by (simp add: os_fine_def Let_def removed_def)
      show "\<forall>j<Suc k. int max_bytes < bytes - int (total_size (take j (filter (\<lambda>c. cv_seqno c |\<notin>| protected) (c # cs))))"
      proof (intro allI impI)
        fix j assume "j < Suc k"
        then show "int max_bytes < bytes - int (total_size (take j (filter (\<lambda>c. cv_seqno c |\<notin>| protected) (c # cs))))"
          using 3 k(4) by (cases j) (simp_all add: total_size_def algebra_simps)
      qed
    qed (use 3 k(2,3) in \<open>simp_all add: total_size_def algebra_simps\<close>)
  qed
qed (simp add: removed_def)

lemma get_removed:
  "dict_get (removed dir cs) n = (if n \<in> set (map cv_path cs) \<union> set (map (\<lambda>c. sidecar_path_for (cv_path c)) cs)
     then None else dict_get dir n)"
  unfolding removed_def by (induction cs arbitrary: dir) auto

theorem gc_takes_oldest:
  assumes "pending os_fine c = Inr cs" and "gc_oldest os_fine max_bytes c = (Inr deleted, c')"
  defines "victims \<equiv> take deleted (filter (\<lambda>s. cv_seqno s |\<notin>| sv_protected c) cs)"
  shows "sv_dir c' = removed (sv_dir c) victims \<and> length victims = deleted
    \<and> sv_gc_drops_total c' = sv_gc_drops_total c + deleted \<and> sv_protected c' = sv_protected c
    \<and> (total_size cs - total_size victims \<le> max_bytes
       \<or> victims = filter (\<lambda>s. cv_seqno s |\<notin>| sv_protected c) cs)
    \<and> (\<forall>j<deleted. max_bytes < total_size cs - total_size (take j victims))"
proof -
  let ?vs = "filter (\<lambda>s. cv_seqno s |\<notin>| sv_protected c) cs"
  have le: "total_size (take j ?vs) \<le> total_size cs" for j
  proof -
    have "total_size (take j ?vs) + total_size (drop j ?vs) = total_size ?vs"
      unfolding total_size_def by (metis append_take_drop_id map_append sum_list_append)
    moreover have "total_size ?vs \<le> total_size cs" unfolding total_size_def by (induction cs) auto
    ultimately show ?thesis by linarith
  qed
  obtain k where k: "gc_loop os_fine max_bytes (sv_protected c) cs (sv_dir c) (int (total_size cs)) 0
      = (removed (sv_dir c) (take k ?vs), k)" "k \<le> length ?vs"
    "k < length ?vs \<longrightarrow> int (total_size cs) - int (total_size (take k ?vs)) \<le> int max_bytes"
    "\<forall>j<k. int max_bytes < int (total_size cs) - int (total_size (take j ?vs))"
    using gc_loop_fine [of max_bytes "sv_protected c" cs "sv_dir c" "int (total_size cs)" 0] by auto
  have "deleted = k" "c' = c\<lparr>sv_dir := removed (sv_dir c) (take k ?vs), sv_gc_drops_total := sv_gc_drops_total c + k\<rparr>"
    using assms(1,2) k(1) by (auto simp: gc_oldest_def)
  moreover have "k < length ?vs \<Longrightarrow> total_size cs - total_size (take k ?vs) \<le> max_bytes"
    using k(3) le [of k] by linarith
  moreover have "max_bytes < total_size cs - total_size (take j ?vs)" if "j < k" for j
    using k(4) that le [of j] by fastforce
  ultimately show ?thesis using k(2) unfolding victims_def by (auto simp: min_def)
qed

section \<open>Deleting a save\<close>

lemma mark_processed_fine:
  "mark_processed os_fine s c = (True, c\<lparr>sv_dir := remove_file (remove_file (sv_dir c) (cv_path s)) (sidecar_path_for (cv_path s)),
     sv_protected := sv_protected c |-| {|cv_seqno s|}\<rparr>)"
  by (simp add: mark_processed_def os_fine_def Let_def)

end
