(* ===== verification/Consumer.thy ===== *)
theory Consumer
  imports Adoption Save_Cache Tick_Log
begin

text \<open>
  \<open>save/ingest.py\<close>: the start of the save tail (\<open>_verify_current_save\<close>, \<open>_select_starting_baseline\<close>,
  the seeded backlog), the parse worker (\<open>save/parse_worker.py\<close>), and what its consumer does with one
  save (\<open>_consume_one\<close>). \<open>_consume_one\<close> is cut where it hands work to a thread: the decision on the
  event loop, the work on the databases, the release of the cached file.
\<close>

section \<open>The parse worker\<close>

text \<open>The records and the arms of the tracked characters ride on the snapshot.\<close>

definition attach_tracked :: "obj \<Rightarrow> save_snapshot \<Rightarrow> int list \<Rightarrow> save_snapshot result" where
  "attach_tracked data snap tracked_ids =
     (let traits = (if sn_traits_lookup snap = [] then None else Some (sn_traits_lookup snap));
          raw_records = List.map_filter (\<lambda>cid. map_option (\<lambda>r. (cid, JObj r))
            (extract_character_record data cid (Some (name_lookup_of snap)) traits)) tracked_ids
      in bindr (concat_mapr (\<lambda>cid. bindr (resolve_character_coa data cid) (\<lambda>coa.
             Inr (case coa of None \<Rightarrow> [] | Some c \<Rightarrow> [(cid, JObj c)]))) tracked_ids) (\<lambda>coa.
         Inr (snap\<lparr>sn_tracked_raw_records := raw_records, sn_tracked_coa := coa\<rparr>)))"

text \<open>What reaches the consumer: nothing when the melt, the parser or an extraction raises.\<close>

definition parse_cached :: "(json \<Rightarrow> string) \<Rightarrow> tick_env \<Rightarrow> save_file \<Rightarrow> int fset \<Rightarrow> save_snapshot option" where
  "parse_cached repr env save_path tracked_ids =
     (case sf_melt save_path of
        Melted data \<Rightarrow>
          (case bindr (parse_save repr (te_names env) (te_id_order env) data)
             (\<lambda>snap. attach_tracked data snap (te_id_order env tracked_ids)) of
             Inl _ \<Rightarrow> None | Inr snap \<Rightarrow> Some snap)
      | _ \<Rightarrow> None)"

section \<open>Start-up\<close>

text \<open>The newest save on disk and its snapshot, if it could be parsed; a mismatch raises.\<close>

definition verify_current_save ::
  "(string \<times> save_snapshot option) option \<Rightarrow> (string option \<times> save_snapshot option) op" where
  "verify_current_save current =
     (case current of
        None \<Rightarrow> return_op (None, None)
      | Some (path, None) \<Rightarrow> return_op (Some path, None)
      | Some (path, Some snap) \<Rightarrow>
          bind_op (session_scope (assert_op (sn_playthrough_id snap) False False))
            (\<lambda>_. return_op (Some path, Some snap)))"

text \<open>A mismatch at start-up means no save to start from.\<close>

definition startup_save ::
  "(string \<times> save_snapshot option) option \<Rightarrow> (string option \<times> save_snapshot option) op" where
  "startup_save current = catch_op (verify_current_save current)
     (\<lambda>e. case e of Db_Exn (PlaythroughMismatchError _ _) \<Rightarrow> return_op (None, None) | _ \<Rightarrow> raise_op e)"

text \<open>\<open>for stale in cache.pending(): cache.mark_processed(stale)\<close>; it ends when a deletion raises.\<close>

fun mark_all :: "os_env \<Rightarrow> cached_save list \<Rightarrow> cache \<Rightarrow> bool \<times> cache" where
  "mark_all os [] c = (True, c)"
| "mark_all os (s # ss) c = (case mark_processed os s c of
     (False, c') \<Rightarrow> (False, c') | (True, c') \<Rightarrow> mark_all os ss c')"

definition select_starting_baseline ::
  "os_env \<Rightarrow> save_snapshot option \<Rightarrow> save_snapshot option \<Rightarrow> cache \<Rightarrow> save_snapshot option result \<times> cache" where
  "select_starting_baseline os persisted_baseline verified_current c =
     (case (persisted_baseline, verified_current) of
        (None, _) \<Rightarrow> (Inr None, c)
      | (Some b, None) \<Rightarrow> (Inr (Some b), c)
      | (Some b, Some cur) \<Rightarrow>
          if sn_playthrough_id cur = sn_playthrough_id b then (Inr (Some b), c)
          else case pending os c of
            Inl e \<Rightarrow> (Inl e, c)
          | Inr stale \<Rightarrow> (case mark_all os stale c of (ok, c') \<Rightarrow> (if ok then Inr None else Inl BadType, c')))"

text \<open>The sidecar names another playthrough than the baseline.\<close>

definition foreign_sidecar :: "cached_save \<Rightarrow> save_snapshot option \<Rightarrow> bool" where
  "foreign_sidecar cached last_snapshot =
     (case (cv_playthrough_id cached, last_snapshot) of
        (Some p, Some s) \<Rightarrow> sn_playthrough_id s \<noteq> [] \<and> p \<noteq> sn_playthrough_id s
      | _ \<Rightarrow> False)"

fun seed_pending ::
  "os_env \<Rightarrow> save_snapshot option \<Rightarrow> cached_save list \<Rightarrow> cache \<Rightarrow> (bool \<times> cached_save list) \<times> cache" where
  "seed_pending os last_snapshot [] c = ((True, []), c)"
| "seed_pending os last_snapshot (s # ss) c =
     (if foreign_sidecar s last_snapshot
      then case mark_processed os s c of
             (False, c') \<Rightarrow> ((False, []), c')
           | (True, c') \<Rightarrow> seed_pending os last_snapshot ss c'
      else case seed_pending os last_snapshot ss (protect (cv_seqno s) c) of
             ((ok, seeded), c') \<Rightarrow> ((ok, s # seeded), c'))"

text \<open>The saves a previous run left, then a fresh copy of the current one.\<close>

definition seed_backlog ::
  "os_env \<Rightarrow> materialized \<Rightarrow> bool \<Rightarrow> bool \<Rightarrow> save_snapshot option \<Rightarrow> cache \<Rightarrow> cached_save list option \<times> cache" where
  "seed_backlog os source replaced current_usable last_snapshot c =
     (case pending os c of
        Inl _ \<Rightarrow> (None, c)
      | Inr cs \<Rightarrow>
          (case seed_pending os last_snapshot cs c of
             ((False, _), c1) \<Rightarrow> (None, c1)
           | ((True, seeded), c1) \<Rightarrow>
               (if \<not> current_usable then (Some seeded, c1)
                else case cache_save os source replaced c1 of
                  (None, c2) \<Rightarrow> (Some seeded, c2)
                | (Some s, c2) \<Rightarrow> (Some (seeded @ [s]), protect (cv_seqno s) c2))))"

section \<open>One save\<close>

text \<open>What is outside, save by save. The last two: the registry raises when the tracked characters are
  read for the parse, the database raises when the events are counted at the end of the recovery.\<close>

record loop_env =
  le_tick :: tick_env
  le_os :: os_env
  le_tag :: written
  le_auto_import :: bool
  le_cache_max_bytes :: nat
  le_file :: save_file
  le_repr :: "json \<Rightarrow> string"
  le_registry_fails :: bool
  le_count_fails :: bool

text \<open>What is to be done with a save, decided before any thread is started.\<close>

datatype plan = Skip | Import_First save_snapshot | Establish save_snapshot | Advance save_snapshot save_snapshot

definition campaign_db_is_fresh :: "bool op" where
  "campaign_db_is_fresh = session_scope (db_op (\<lambda>db. Inr (count_events db = 0, db)))"

definition plan_first :: "loop_env \<Rightarrow> save_snapshot \<Rightarrow> plan op" where
  "plan_first le snap =
     bind_op (mismatch_of (session_scope (assert_op (sn_playthrough_id snap) False False))) (\<lambda>mismatch.
       if mismatch \<noteq> None then return_op Skip
       else if \<not> le_auto_import le then return_op (Establish snap)
       else bind_op campaign_db_is_fresh (\<lambda>fresh.
         return_op (if fresh then Import_First snap else Establish snap)))"

definition choose_plan ::
  "loop_env \<Rightarrow> cached_save \<Rightarrow> save_snapshot option \<Rightarrow> save_snapshot option \<Rightarrow> plan op" where
  "choose_plan le cached parsed last_snapshot =
     (if foreign_sidecar cached last_snapshot then return_op Skip
      else case parsed of
        None \<Rightarrow> return_op Skip
      | Some snap \<Rightarrow> (case last_snapshot of
            None \<Rightarrow> plan_first le snap
          | Some s \<Rightarrow> return_op (Advance s snap)))"

text \<open>The sidecar is written before the decision on the playthrough.\<close>

definition tag_parsed ::
  "loop_env \<Rightarrow> cached_save \<Rightarrow> save_snapshot option \<Rightarrow> save_snapshot option \<Rightarrow> cache \<Rightarrow> cache" where
  "tag_parsed le cached parsed last_snapshot c =
     (case parsed of
        Some snap \<Rightarrow>
          if \<not> foreign_sidecar cached last_snapshot \<and> sn_playthrough_id snap \<noteq> []
          then tag_playthrough (le_tag le) cached (sn_playthrough_id snap) c else c
      | None \<Rightarrow> c)"

definition maybe_auto_import_first_save :: "loop_env \<Rightarrow> save_snapshot \<Rightarrow> save_snapshot option op" where
  "maybe_auto_import_first_save le parsed_snap =
     bind_op (import_save (le_repr le) (le_tick le) False False False (le_file le)) (\<lambda>r.
       if \<not> im_success r then return_op None
       else bind_op (persist_baseline_safely (le_tick le) parsed_snap) (\<lambda>_.
            bind_op (touch_op (le_tick le) parsed_snap) (\<lambda>_.
            bind_op (apply_campaign_overview_from_snap (le_tick le) parsed_snap) (\<lambda>_.
              return_op (Some parsed_snap)))))"

text \<open>The work: the exception, if any, and the baseline, which is set before the state is persisted.\<close>

definition establish ::
  "loop_env \<Rightarrow> save_snapshot \<Rightarrow> (nat \<Rightarrow> bool) \<Rightarrow> world \<Rightarrow> (exn option \<times> save_snapshot option) \<times> world" where
  "establish le snap faults w =
     (case persist_per_save_state (le_tick le) snap faults w of
        (Inl e, w') \<Rightarrow> ((Some e, Some snap), w')
      | (Inr _, w') \<Rightarrow> ((None, Some snap), w'))"

definition run_plan ::
  "loop_env \<Rightarrow> plan \<Rightarrow> save_snapshot option \<Rightarrow> (nat \<Rightarrow> bool) \<Rightarrow> world \<Rightarrow> (exn option \<times> save_snapshot option) \<times> world" where
  "run_plan le p last_snapshot faults w =
     (case p of
        Skip \<Rightarrow> ((None, last_snapshot), w)
      | Advance s snap \<Rightarrow> (case advance_baseline (le_tick le) snap s faults w of
            (Inl e, w') \<Rightarrow> ((Some e, last_snapshot), w')
          | (Inr s', w') \<Rightarrow> ((None, Some s'), w'))
      | Establish snap \<Rightarrow> establish le snap faults w
      | Import_First snap \<Rightarrow> (case maybe_auto_import_first_save le snap faults w of
            (Inl e, w') \<Rightarrow> ((Some e, last_snapshot), w')
          | (Inr (Some s), w') \<Rightarrow> ((None, Some s), w')
          | (Inr None, w') \<Rightarrow> establish le snap faults w'))"

text \<open>The plan and its run, on the databases alone.\<close>

definition process_save ::
  "loop_env \<Rightarrow> cached_save \<Rightarrow> save_snapshot option \<Rightarrow> save_snapshot option \<Rightarrow> (nat \<Rightarrow> bool) \<Rightarrow> world
   \<Rightarrow> (exn option \<times> save_snapshot option) \<times> world" where
  "process_save le cached parsed last_snapshot faults w =
     (case choose_plan le cached parsed last_snapshot faults w of
        (Inl e, w') \<Rightarrow> ((Some e, last_snapshot), w')
      | (Inr p, w') \<Rightarrow> run_plan le p last_snapshot faults w')"

section \<open>The cached file afterwards\<close>

text \<open>The frames of the loop are kept in a list of their own, beside those of the ticks.\<close>

definition cache_state_frames :: "loop_env \<Rightarrow> cache \<Rightarrow> frame list" where
  "cache_state_frames le c =
     (case cache_snapshot (le_os le) c of
        Inl _ \<Rightarrow> []
      | Inr (n, b, d) \<Rightarrow> if te_bus (le_tick le) then [CacheState n b d] else [])"

text \<open>The guard of the loop: whether the consumer lives, and the cache.\<close>

definition release_failed :: "loop_env \<Rightarrow> cached_save \<Rightarrow> cache \<Rightarrow> bool \<times> cache" where
  "release_failed le cached c = mark_processed (le_os le) cached c"

definition is_advance :: "cached_save \<Rightarrow> save_snapshot option \<Rightarrow> save_snapshot option \<Rightarrow> bool" where
  "is_advance cached parsed last_snapshot \<longleftrightarrow>
     \<not> foreign_sidecar cached last_snapshot \<and> parsed \<noteq> None \<and> last_snapshot \<noteq> None"

definition release :: "loop_env \<Rightarrow> bool \<Rightarrow> bool \<Rightarrow> cached_save \<Rightarrow> cache \<Rightarrow> bool \<times> cache" where
  "release le raised advanced cached c =
     (if raised then release_failed le cached c
      else case mark_processed (le_os le) cached c of
        (False, c1) \<Rightarrow> release_failed le cached c1
      | (True, c1) \<Rightarrow>
          (if \<not> advanced then (True, c1)
           else case gc_oldest (le_os le) (le_cache_max_bytes le) c1 of
             (Inl _, c2) \<Rightarrow> release_failed le cached c2
           | (Inr _, c2) \<Rightarrow> (True, c2)))"

text \<open>Whether the consumer lives, the cache, the baseline and the world, the frames.\<close>

definition consume_one ::
  "loop_env \<Rightarrow> cached_save \<Rightarrow> save_snapshot option \<Rightarrow> (nat \<Rightarrow> bool) \<Rightarrow> cache \<Rightarrow> save_snapshot option \<Rightarrow> world
   \<Rightarrow> bool \<times> cache \<times> (save_snapshot option \<times> world) \<times> frame list" where
  "consume_one le cached parsed faults c last_snapshot w =
     (case process_save le cached parsed last_snapshot faults w of
        ((err, last'), w') \<Rightarrow>
          (case release le (err \<noteq> None) (is_advance cached parsed last_snapshot) cached
             (tag_parsed le cached parsed last_snapshot c) of
             (alive, c') \<Rightarrow> (alive, c', (last', w'), if alive then cache_state_frames le c' else [])))"

section \<open>With a baseline, the consumer of the ticks\<close>

lemma process_advance:
  assumes "\<not> foreign_sidecar cached (Some s)"
  shows "\<exists>err. process_save le cached (Some snap) (Some s) F w =
    ((err, Some (fst (consume_save (le_tick le) snap s F w))), snd (consume_save (le_tick le) snap s F w))"
  using assms by (auto simp: process_save_def choose_plan_def return_op_def run_plan_def consume_save_def
      split: prod.split sum.split)

lemma process_skip:
  assumes "foreign_sidecar cached last_snapshot \<or> parsed = None"
  shows "process_save le cached parsed last_snapshot F w = ((None, last_snapshot), w)"
  using assms by (auto simp: process_save_def choose_plan_def return_op_def run_plan_def)

section \<open>The first baseline\<close>

lemma establish_last: "establish le snap F w = ((err, last'), w') \<Longrightarrow> last' = Some snap"
  by (auto simp: establish_def split: prod.splits sum.splits)

lemma import_first_last: "maybe_auto_import_first_save le snap F w = (Inr (Some s), w') \<Longrightarrow> s = snap"
  by (auto simp: maybe_auto_import_first_save_def bind_op_Inr split: if_splits)

lemma run_plan_last:
  "run_plan le p None F w = ((err, Some s), w') \<Longrightarrow> (\<And>a b. p \<noteq> Advance a b) \<Longrightarrow> p = Establish s \<or> p = Import_First s"
  by (cases p) (auto simp: run_plan_def split: prod.splits sum.splits option.splits
      dest: establish_last import_first_last)

lemma mismatch_none:
  assumes "mismatch_of (session_scope (assert_op observed False False)) F w = (Inr None, w')"
  shows "observed = [] \<or> get_meta (w_db w) PLAYTHROUGH_ID_META_KEY \<in> {None, Some observed}"
proof -
  obtain a w1 where "assert_op observed False False F w = (Inr a, w1)"
    using assms by (auto simp: mismatch_of_def catch_op_def bind_op_Inr bind_op_Inl raise_op_def session_scope_Inr
        split: prod.splits sum.splits exn.splits db_error.splits)
  then show ?thesis
    by (auto simp: assert_op_def assert_playthrough_or_pin_def Let_def dest!: db_op_Inr
        split: if_splits option.splits)
qed

text \<open>Whatever fails: a campaign gets its first baseline only from a save of its own playthrough, or
  one that names none.\<close>

theorem first_baseline_gate:
  assumes "process_save le cached parsed None F w = ((err, Some s), w')"
  shows "parsed = Some s \<and> (sn_playthrough_id s = []
    \<or> get_meta (w_db w) PLAYTHROUGH_ID_META_KEY \<in> {None, Some (sn_playthrough_id s)})"
proof -
  obtain p w1 where p: "choose_plan le cached parsed None F w = (Inr p, w1)"
    "run_plan le p None F w1 = ((err, Some s), w')"
    using assms by (auto simp: process_save_def split: prod.splits sum.splits)
  obtain snap where snap: "parsed = Some snap" "plan_first le snap F w = (Inr p, w1)"
    using p by (cases parsed) (auto simp: choose_plan_def run_plan_def return_op_def foreign_sidecar_def
        split: if_splits option.splits)
  have "p = Skip \<or> ((p = Establish snap \<or> p = Import_First snap) \<and>
      (\<exists>w2. mismatch_of (session_scope (assert_op (sn_playthrough_id snap) False False)) F w = (Inr None, w2)))"
  proof -
    obtain mm w2 where mm: "mismatch_of (session_scope (assert_op (sn_playthrough_id snap) False False)) F w = (Inr mm, w2)"
      "(if mm \<noteq> None then return_op Skip else if \<not> le_auto_import le then return_op (Establish snap)
        else bind_op campaign_db_is_fresh (\<lambda>fresh.
          return_op (if fresh then Import_First snap else Establish snap))) F w2 = (Inr p, w1)"
      using snap(2) unfolding plan_first_def bind_op_Inr [where m = "mismatch_of _"] by blast
    show ?thesis
      by (cases mm) (use mm in \<open>auto simp: bind_op_Inr split: if_splits\<close>)
  qed
  moreover have "p \<noteq> Skip" using p(2) by (auto simp: run_plan_def)
  moreover have "p = Establish s \<or> p = Import_First s"
    by (rule run_plan_last [OF p(2)]) (use calculation in auto)
  ultimately show ?thesis using snap(1) mismatch_none by auto
qed

section \<open>A save without a playthrough at start-up\<close>

lemma mark_all_fine:
  "mark_all os_fine ss c = (True, c\<lparr>sv_dir := removed (sv_dir c) ss,
     sv_protected := sv_protected c |-| fset_of_list (map cv_seqno ss)\<rparr>)"
proof (induction ss arbitrary: c)
  case (Cons s ss)
  have "A |-| {|x|} |-| B = A |-| finsert x B" for A B :: "nat fset" and x by auto
  with Cons show ?case by (simp add: mark_processed_fine removed_def)
qed (simp add: removed_def)

theorem blank_save_discards_backlog:
  assumes "sn_playthrough_id cur = []" and "sn_playthrough_id b \<noteq> []" and "pending os_fine c = Inr cs"
  shows "\<exists>w'. startup_save (Some (path, Some cur)) no_faults w = (Inr (Some path, Some cur), w')
    \<and> select_starting_baseline os_fine (Some b) (Some cur) c = (Inr None, snd (mark_all os_fine cs c))
    \<and> (\<forall>s\<in>set cs. dict_get (sv_dir (snd (mark_all os_fine cs c))) (cv_path s) = None)"
proof -
  have "\<exists>w'. startup_save (Some (path, Some cur)) no_faults w = (Inr (Some path, Some cur), w')"
    using assms(1) by (simp add: startup_save_def verify_current_save_def catch_op_def bind_op_def session_scope_def
        rollback_on_error_def assert_op_def db_op_def statement_no_faults assert_playthrough_or_pin_def return_op_def)
  then show ?thesis using assms
    by (simp add: select_starting_baseline_def mark_all_fine get_removed)
qed

end
