(* ===== verification/Pipeline.thy ===== *)
theory Pipeline
  imports Consumer
begin

text \<open>
  The running save tail: the producer that caches saves and puts them on a bounded queue, the window
  of parses of \<open>map_ordered_bounded\<close> (\<open>util/async_pipeline.py\<close>), and the consumer. All three run on
  one event loop, so what lies between two suspension points is one step; the parses and the work of
  the consumer run beside it and end in steps of their own.
\<close>

section \<open>The window of parses\<close>

datatype 'i entry = Item 'i | Sentinel

text \<open>A parse that ends with an exception is \<open>Broken\<close>; the worker turns most of them into \<open>None\<close>.\<close>

datatype 'r parse = Parsing | Parsed 'r | Broken

text \<open>The inner loop: it takes what is there, and waits for the source only with an empty window.\<close>

fun fill_window ::
  "nat \<Rightarrow> bool \<Rightarrow> ('i \<times> 'r parse) list \<Rightarrow> 'i entry list \<Rightarrow> (bool \<times> ('i \<times> 'r parse) list) \<times> 'i entry list" where
  "fill_window width exhausted window [] = ((exhausted, window), [])"
| "fill_window width exhausted window (e # q) =
     (if exhausted \<or> width \<le> List.length window then ((exhausted, window), e # q)
      else case e of
        Sentinel \<Rightarrow> ((True, window), q)
      | Item i \<Rightarrow> fill_window width exhausted (window @ [(i, Parsing)]) q)"

text \<open>\<open>width = max(1, concurrency)\<close>.\<close>

definition window_width :: "int \<Rightarrow> nat" where
  "window_width concurrency = nat (max 1 concurrency)"

text \<open>Where the generator is: about to fill, at \<open>source.get()\<close>, at the head of the window, returned; or
  the consumer has the item it yielded, at work on the databases or at the release of the file.\<close>

datatype consumer =
    Refill
  | At_Source
  | At_Head
  | Returned
  | Working cached_save "save_snapshot option"
  | Releasing cached_save bool bool
  | Crashed

section \<open>The state\<close>

datatype producer = Seeding "cached_save list" | Watching | Putting cached_save | Draining | Produced

record pipeline =
  pl_cache :: cache
  pl_last :: "save_snapshot option"
  pl_world :: world
  pl_frames :: "frame list"
  pl_producer :: producer
  pl_queue :: "cached_save entry list"
  pl_exhausted :: bool
  pl_window :: "(cached_save \<times> save_snapshot option parse) list"
  pl_consumer :: consumer
  pl_history :: "(cached_save \<times> save_snapshot option) list"
  pl_recovery :: "(nat \<times> nat) option"

definition QUEUE_MAXSIZE :: nat where
  "QUEUE_MAXSIZE = 50"

text \<open>The banner of the recovery: with a baseline to recover from, a frame opens it, and the number of
  seeded saves still to be drained is kept beside the number of events at the start. \<open>forensics\<close>: when
  the baseline was written and its generation; \<open>backlog\<close>: the number of saves found in the cache.\<close>

definition recovery_active :: "loop_env \<Rightarrow> save_snapshot option \<Rightarrow> bool" where
  "recovery_active le last_snapshot \<longleftrightarrow> last_snapshot \<noteq> None \<and> te_bus (le_tick le)"

definition opening_frames ::
  "loop_env \<Rightarrow> string option \<times> int option \<Rightarrow> nat \<Rightarrow> cached_save list \<Rightarrow> save_snapshot option \<Rightarrow> frame list" where
  "opening_frames le forensics backlog seeded last_snapshot =
     (case last_snapshot of
        None \<Rightarrow> []
      | Some s \<Rightarrow> if \<not> te_bus (le_tick le) then []
          else ChroniclerRecovering (fst forensics) (sn_current_date s) (snd forensics) backlog
            # (if seeded = [] then [ChroniclerRecovered 0] else []))"

definition start_pipeline ::
  "loop_env \<Rightarrow> string option \<times> int option \<Rightarrow> nat \<Rightarrow> cached_save list \<Rightarrow> cache \<Rightarrow> save_snapshot option \<Rightarrow> world \<Rightarrow> pipeline" where
  "start_pipeline le forensics backlog seeded c last_snapshot w =
     \<lparr>pl_cache = c, pl_last = last_snapshot, pl_world = w,
      pl_frames = opening_frames le forensics backlog seeded last_snapshot, pl_producer = Seeding seeded,
      pl_queue = [], pl_exhausted = False, pl_window = [], pl_consumer = Refill, pl_history = [],
      pl_recovery = (if recovery_active le last_snapshot \<and> seeded \<noteq> []
        then Some (List.length seeded, count_events (w_db w)) else None)\<rparr>"

section \<open>The steps of the producer\<close>

definition has_room :: "pipeline \<Rightarrow> bool" where
  "has_room s \<longleftrightarrow> List.length (pl_queue s) < QUEUE_MAXSIZE"

definition put :: "cached_save entry \<Rightarrow> producer \<Rightarrow> pipeline \<Rightarrow> pipeline" where
  "put e p s = s\<lparr>pl_queue := pl_queue s @ [e], pl_producer := p\<rparr>"

text \<open>One change the watcher reports.\<close>

definition observe :: "loop_env \<Rightarrow> materialized \<Rightarrow> bool \<Rightarrow> pipeline \<Rightarrow> pipeline" where
  "observe le source replaced s =
     (case cache_save (le_os le) source replaced (pl_cache s) of
        (None, c) \<Rightarrow> s\<lparr>pl_cache := c\<rparr>
      | (Some cached, c) \<Rightarrow>
          (let c' = protect (cv_seqno cached) c
           in s\<lparr>pl_cache := c', pl_frames := pl_frames s @ cache_state_frames le c', pl_producer := Putting cached\<rparr>))"

section \<open>The steps of the consumer\<close>

definition refill :: "nat \<Rightarrow> pipeline \<Rightarrow> pipeline" where
  "refill width s =
     (case fill_window width (pl_exhausted s) (pl_window s) (pl_queue s) of
        ((exhausted, window), q) \<Rightarrow>
          s\<lparr>pl_exhausted := exhausted, pl_window := window, pl_queue := q,
            pl_consumer := (if window \<noteq> [] then At_Head else if exhausted then Returned else At_Source)\<rparr>)"

definition take_head :: "(cached_save \<Rightarrow> loop_env) \<Rightarrow> pipeline \<Rightarrow> pipeline" where
  "take_head env s =
     (case pl_window s of
        (cached, Parsed parsed) # window \<Rightarrow>
          s\<lparr>pl_window := window, pl_consumer := Working cached parsed,
            pl_cache := tag_parsed (env cached) cached parsed (pl_last s) (pl_cache s)\<rparr>
      | _ \<Rightarrow> s)"

definition work :: "(cached_save \<Rightarrow> loop_env) \<Rightarrow> (nat \<Rightarrow> bool) \<Rightarrow> cached_save \<Rightarrow> save_snapshot option \<Rightarrow> pipeline \<Rightarrow> pipeline" where
  "work env faults cached parsed s =
     (case process_save (env cached) cached parsed (pl_last s) faults (pl_world s) of
        ((err, last'), w) \<Rightarrow>
          s\<lparr>pl_last := last', pl_world := w, pl_history := pl_history s @ [(cached, parsed)],
            pl_consumer := Releasing cached (err \<noteq> None) (is_advance cached parsed (pl_last s))\<rparr>)"

text \<open>The \<open>finally\<close> of the loop: whatever became of a save, it counts towards the recovery; when the
  last seeded one is through, the events are counted outside the guard of the item.\<close>

definition finish_item :: "(cached_save \<Rightarrow> loop_env) \<Rightarrow> cached_save \<Rightarrow> pipeline \<Rightarrow> pipeline" where
  "finish_item env cached s =
     (case pl_recovery s of
        None \<Rightarrow> s
      | Some (remaining, before) \<Rightarrow>
          if 1 < remaining then s\<lparr>pl_recovery := Some (remaining - 1, before)\<rparr>
          else if le_count_fails (env cached) then s\<lparr>pl_recovery := None, pl_consumer := Crashed\<rparr>
          else s\<lparr>pl_recovery := None,
            pl_frames := pl_frames s @ [ChroniclerRecovered (count_events (w_db (pl_world s)) - before)]\<rparr>)"

definition let_go :: "(cached_save \<Rightarrow> loop_env) \<Rightarrow> cached_save \<Rightarrow> bool \<Rightarrow> bool \<Rightarrow> pipeline \<Rightarrow> pipeline" where
  "let_go env cached raised advanced s =
     (case release (env cached) raised advanced cached (pl_cache s) of
        (alive, c) \<Rightarrow> finish_item env cached
          (s\<lparr>pl_cache := c, pl_consumer := (if alive then Refill else Crashed),
             pl_frames := pl_frames s @ (if alive then cache_state_frames (env cached) c else [])\<rparr>))"

text \<open>The parse at a place of the window ends.\<close>

definition end_parse :: "nat \<Rightarrow> save_snapshot option parse \<Rightarrow> pipeline \<Rightarrow> pipeline" where
  "end_parse k r s = s\<lparr>pl_window := (pl_window s)[k := (fst (pl_window s ! k), r)]\<rparr>"

section \<open>The step relation\<close>

text \<open>What happens inside, once a save has been reported; the reports and the stop are steps of the
  outside. When the consumer has crashed, the task group cancels the producer: nothing moves.\<close>

inductive inner_step ::
  "(cached_save \<Rightarrow> loop_env) \<Rightarrow> (nat \<Rightarrow> bool) \<Rightarrow> nat \<Rightarrow> pipeline \<Rightarrow> pipeline \<Rightarrow> bool"
  for env faults width where
  put_seed: "pl_producer s = Seeding (c # cs) \<Longrightarrow> has_room s \<Longrightarrow> pl_consumer s \<noteq> Crashed
     \<Longrightarrow> inner_step env faults width s (put (Item c) (Seeding cs) s)"
| seeded: "pl_producer s = Seeding [] \<Longrightarrow> pl_consumer s \<noteq> Crashed
     \<Longrightarrow> inner_step env faults width s (s\<lparr>pl_producer := Watching\<rparr>)"
| put_save: "pl_producer s = Putting c \<Longrightarrow> has_room s \<Longrightarrow> pl_consumer s \<noteq> Crashed
     \<Longrightarrow> inner_step env faults width s (put (Item c) Watching s)"
| put_end: "pl_producer s = Draining \<Longrightarrow> has_room s \<Longrightarrow> pl_consumer s \<noteq> Crashed
     \<Longrightarrow> inner_step env faults width s (put Sentinel Produced s)"
| parsed: "k < List.length (pl_window s) \<Longrightarrow> snd (pl_window s ! k) = Parsing \<Longrightarrow> pl_consumer s \<noteq> Crashed
     \<Longrightarrow> (if le_registry_fails (env (fst (pl_window s ! k))) then r = Broken else \<exists>snap. r = Parsed snap)
     \<Longrightarrow> inner_step env faults width s (end_parse k r s)"
| filled: "pl_consumer s = Refill \<Longrightarrow> inner_step env faults width s (refill width s)"
| woken: "pl_consumer s = At_Source \<Longrightarrow> pl_queue s \<noteq> [] \<Longrightarrow> inner_step env faults width s (refill width s)"
| taken: "pl_consumer s = At_Head \<Longrightarrow> pl_window s = (c, Parsed r) # rest
     \<Longrightarrow> inner_step env faults width s (take_head env s)"
| broken: "pl_consumer s = At_Head \<Longrightarrow> pl_window s = (c, Broken) # rest
     \<Longrightarrow> inner_step env faults width s (s\<lparr>pl_consumer := Crashed\<rparr>)"
| worked: "pl_consumer s = Working c r \<Longrightarrow> inner_step env faults width s (work env faults c r s)"
| released: "pl_consumer s = Releasing c raised advanced
     \<Longrightarrow> inner_step env faults width s (let_go env c raised advanced s)"

inductive outer_step :: "loop_env \<Rightarrow> pipeline \<Rightarrow> pipeline \<Rightarrow> bool" for le where
  observed: "pl_producer s = Watching \<Longrightarrow> pl_consumer s \<noteq> Crashed
     \<Longrightarrow> outer_step le s (observe le source replaced s)"
| stopped: "pl_producer s = Watching \<Longrightarrow> pl_consumer s \<noteq> Crashed
     \<Longrightarrow> outer_step le s (s\<lparr>pl_producer := Draining\<rparr>)"

inductive reachable_from ::
  "(cached_save \<Rightarrow> loop_env) \<Rightarrow> loop_env \<Rightarrow> (nat \<Rightarrow> bool) \<Rightarrow> nat \<Rightarrow> pipeline \<Rightarrow> pipeline \<Rightarrow> bool"
  for env le faults width s0 where
  here: "reachable_from env le faults width s0 s0"
| inside: "reachable_from env le faults width s0 s \<Longrightarrow> inner_step env faults width s s'
     \<Longrightarrow> reachable_from env le faults width s0 s'"
| outside: "reachable_from env le faults width s0 s \<Longrightarrow> outer_step le s s'
     \<Longrightarrow> reachable_from env le faults width s0 s'"

inductive_cases outer_cases: "outer_step le s s'"
inductive_cases inner_cases: "inner_step env faults width s s'"

end
