(* ===== verification/Pipeline_Facts.thy ===== *)
theory Pipeline_Facts
  imports Pipeline
begin

text \<open>
  The save tail keeps the order of the saves and loses none, does on the databases what the saves
  one after the other would do, never collects a save that is on its way, and comes to rest.
\<close>

section \<open>The line of saves\<close>

definition items :: "cached_save entry list \<Rightarrow> cached_save list" where
  "items q = List.map_filter (\<lambda>e. case e of Item c \<Rightarrow> Some c | Sentinel \<Rightarrow> None) q"

lemma items_simps [simp]: "items [] = []" "items (Item c # q) = c # items q" "items (Sentinel # q) = items q"
  "items (p @ q) = items p @ items q"
  by (simp_all add: items_def map_filter_def)

definition held :: "consumer \<Rightarrow> cached_save list" where
  "held c = (case c of Working s _ \<Rightarrow> [s] | _ \<Rightarrow> [])"

definition waiting :: "producer \<Rightarrow> cached_save list" where
  "waiting p = (case p of Seeding cs \<Rightarrow> cs | Putting c \<Rightarrow> [c] | _ \<Rightarrow> [])"

text \<open>Consumed, in hand, being parsed, queued, still with the producer.\<close>

definition line :: "pipeline \<Rightarrow> cached_save list" where
  "line s = map fst (pl_history s) @ held (pl_consumer s) @ map fst (pl_window s) @ items (pl_queue s)
     @ waiting (pl_producer s)"

lemmas line_defs = line_def held_def waiting_def

lemma fill_line: "fill_window width ex win q = ((ex', win'), q') \<Longrightarrow> map fst win @ items q = map fst win' @ items q'"
proof (induction width ex win q rule: fill_window.induct)
  case (2 width ex win e q)
  then show ?case by (cases e) (auto split: if_splits)
qed simp

lemma refill_line: "held (pl_consumer s) = [] \<Longrightarrow> line (refill width s) = line s"
  using fill_line [of width "pl_exhausted s" "pl_window s" "pl_queue s"]
  by (auto simp: refill_def line_def held_def split: prod.split)

lemma end_parse_window: "k < List.length (pl_window s) \<Longrightarrow> map fst (pl_window (end_parse k r s)) = map fst (pl_window s)"
  by (simp add: end_parse_def map_update) (metis list_update_id nth_map)

lemma finish_item_fields [simp]:
  "pl_history (finish_item env c s) = pl_history s" "pl_last (finish_item env c s) = pl_last s"
  "pl_world (finish_item env c s) = pl_world s" "pl_producer (finish_item env c s) = pl_producer s"
  "pl_queue (finish_item env c s) = pl_queue s" "pl_window (finish_item env c s) = pl_window s"
  "pl_exhausted (finish_item env c s) = pl_exhausted s" "pl_cache (finish_item env c s) = pl_cache s"
  "pl_consumer (finish_item env c s) \<in> {pl_consumer s, Crashed}"
  by (simp_all add: finish_item_def split: option.split prod.split)

lemma let_go_fields [simp]:
  "pl_history (let_go env c a b s) = pl_history s" "pl_last (let_go env c a b s) = pl_last s"
  "pl_world (let_go env c a b s) = pl_world s" "pl_producer (let_go env c a b s) = pl_producer s"
  "pl_queue (let_go env c a b s) = pl_queue s" "pl_window (let_go env c a b s) = pl_window s"
  "pl_exhausted (let_go env c a b s) = pl_exhausted s"
  by (simp_all add: let_go_def split: prod.split)

lemma let_go_consumer: "pl_consumer (let_go env c a b s) = Refill \<or> pl_consumer (let_go env c a b s) = Crashed"
  by (auto simp: let_go_def finish_item_def split: prod.split option.split)

theorem line_inner: "inner_step env F width s s' \<Longrightarrow> line s' = line s"
proof (induction rule: inner_step.induct)
  case (parsed k s r)
  then show ?case using end_parse_window [of k s r] by (simp add: line_def) (simp add: end_parse_def)
next
  case (filled s)
  then show ?case by (simp add: refill_line held_def)
next
  case (woken s)
  then show ?case by (simp add: refill_line held_def)
next
  case (taken s c r rest)
  then show ?case by (simp add: line_defs take_head_def)
next
  case (worked s c r)
  then show ?case by (auto simp: line_defs work_def split: prod.split)
next
  case (released s c raised advanced)
  then show ?case using let_go_consumer [of env c raised advanced s] by (auto simp: line_defs)
qed (simp_all add: line_defs put_def)

lemma line_outer: "outer_step le s s' \<Longrightarrow> \<exists>new. line s' = line s @ new"
  by (auto elim!: outer_cases simp: line_defs observe_def Let_def split: prod.splits option.splits)

theorem line_grows: "reachable_from env le F width s0 s \<Longrightarrow> \<exists>new. line s = line s0 @ new"
proof (induction rule: reachable_from.induct)
  case (outside s s')
  from line_outer [OF this(2)] this(3) show ?case by auto
qed (simp_all add: line_inner)

lemma start_line [simp]: "line (start_pipeline le forensics n seeded c l w) = seeded"
  by (simp add: line_defs start_pipeline_def)

section \<open>What the databases see\<close>

text \<open>The saves one after the other, as if there were no pipeline.\<close>

fun run_saves ::
  "(cached_save \<Rightarrow> loop_env) \<Rightarrow> (nat \<Rightarrow> bool) \<Rightarrow> (cached_save \<times> save_snapshot option) list
   \<Rightarrow> save_snapshot option \<Rightarrow> world \<Rightarrow> save_snapshot option \<times> world" where
  "run_saves env faults [] last_snapshot w = (last_snapshot, w)"
| "run_saves env faults ((c, r) # saves) last_snapshot w =
     (let res = process_save (env c) c r last_snapshot faults w
      in run_saves env faults saves (snd (fst res)) (snd res))"

lemma run_saves_append:
  "run_saves env F (xs @ ys) l w = (let (l', w') = run_saves env F xs l w in run_saves env F ys l' w')"
  by (induction xs arbitrary: l w) (auto simp: Let_def split_beta)

lemma refill_fields [simp]:
  "pl_history (refill width s) = pl_history s" "pl_last (refill width s) = pl_last s"
  "pl_world (refill width s) = pl_world s" "pl_cache (refill width s) = pl_cache s"
  "pl_producer (refill width s) = pl_producer s"
  by (simp_all add: refill_def split: prod.split)

lemma observe_fields [simp]:
  "pl_history (observe le source replaced s) = pl_history s" "pl_last (observe le source replaced s) = pl_last s"
  "pl_world (observe le source replaced s) = pl_world s" "pl_consumer (observe le source replaced s) = pl_consumer s"
  "pl_queue (observe le source replaced s) = pl_queue s" "pl_window (observe le source replaced s) = pl_window s"
  "pl_exhausted (observe le source replaced s) = pl_exhausted s"
  by (simp_all add: observe_def Let_def split: prod.split option.split)

lemma take_fields [simp]:
  "pl_history (take_head env s) = pl_history s" "pl_last (take_head env s) = pl_last s" "pl_world (take_head env s) = pl_world s"
  by (auto simp: take_head_def split: list.split prod.split parse.split)

definition sequential :: "(cached_save \<Rightarrow> loop_env) \<Rightarrow> (nat \<Rightarrow> bool) \<Rightarrow> pipeline \<Rightarrow> pipeline \<Rightarrow> bool" where
  "sequential env F s0 s \<longleftrightarrow> (\<exists>hs. pl_history s = pl_history s0 @ hs
     \<and> (pl_last s, pl_world s) = run_saves env F hs (pl_last s0) (pl_world s0))"

lemma sequential_same:
  "sequential env F s0 s \<Longrightarrow> pl_history s' = pl_history s \<Longrightarrow> pl_last s' = pl_last s \<Longrightarrow> pl_world s' = pl_world s
     \<Longrightarrow> sequential env F s0 s'"
  by (simp add: sequential_def)

lemma sequential_work:
  assumes "sequential env F s0 s" shows "sequential env F s0 (work env F c r s)"
proof -
  obtain hs where hs: "pl_history s = pl_history s0 @ hs"
    "run_saves env F hs (pl_last s0) (pl_world s0) = (pl_last s, pl_world s)" using assms by (auto simp: sequential_def)
  obtain err l w where res: "process_save (env c) c r (pl_last s) F (pl_world s) = ((err, l), w)" by (metis prod.exhaust)
  then show ?thesis using hs
    by (auto simp: sequential_def work_def run_saves_append intro!: exI [of _ "hs @ [(c, r)]"])
qed

theorem sequential_reachable: "reachable_from env le F width s0 s \<Longrightarrow> sequential env F s0 s"
proof (induction rule: reachable_from.induct)
  case here
  then show ?case by (simp add: sequential_def)
next
  case (inside s s')
  from inside(2,3) show ?case
  proof (induction rule: inner_step.induct)
    case (worked s c r)
    then show ?case by (simp add: sequential_work)
  qed (erule sequential_same; simp add: put_def end_parse_def)+
next
  case (outside s s')
  from outside(2,3) show ?case by (auto elim!: outer_cases sequential_same)
qed

section \<open>Bounds, and where the parts wait\<close>

definition ending_ok :: "pipeline \<Rightarrow> bool" where
  "ending_ok s \<longleftrightarrow>
     (if pl_exhausted s then pl_producer s = Produced \<and> pl_queue s = []
      else (\<exists>q. pl_queue s = map Item q @ (if pl_producer s = Produced then [Sentinel] else [])))"

definition waits_ok :: "pipeline \<Rightarrow> bool" where
  "waits_ok s \<longleftrightarrow> (case pl_consumer s of
     At_Source \<Rightarrow> pl_window s = [] \<and> \<not> pl_exhausted s
   | At_Head \<Rightarrow> pl_window s \<noteq> []
   | Returned \<Rightarrow> pl_window s = [] \<and> pl_exhausted s
   | _ \<Rightarrow> True)"

definition pipe_ok :: "nat \<Rightarrow> pipeline \<Rightarrow> bool" where
  "pipe_ok width s \<longleftrightarrow> List.length (pl_queue s) \<le> QUEUE_MAXSIZE \<and> List.length (pl_window s) \<le> width
     \<and> ending_ok s \<and> waits_ok s"

lemma fill_bounds:
  "fill_window width ex win q = ((ex', win'), q') \<Longrightarrow> List.length win \<le> width \<Longrightarrow>
     List.length win' \<le> width \<and> List.length q' \<le> List.length q \<and> (ex \<longrightarrow> ex' \<and> win' = win \<and> q' = q)"
proof (induction width ex win q rule: fill_window.induct)
  case (2 width ex win e q)
  then show ?case by (cases e) (auto split: if_splits)
qed auto

lemma fill_ending:
  "fill_window width False win (map Item xs @ es) = ((ex', win'), q') \<Longrightarrow> es = [] \<or> es = [Sentinel] \<Longrightarrow>
     (if ex' then es = [Sentinel] \<and> q' = [] else (\<exists>ys. q' = map Item ys @ es))"
proof (induction xs arbitrary: win)
  case Nil
  then show ?case by (auto split: if_splits)
next
  case (Cons x xs)
  then show ?case by (auto split: if_splits) (metis list.map(2) append_Cons)+
qed

lemma refill_ok: "pipe_ok width s \<Longrightarrow> pipe_ok width (refill width s)"
proof -
  assume ok: "pipe_ok width s"
  obtain ex' win' q' where f: "fill_window width (pl_exhausted s) (pl_window s) (pl_queue s) = ((ex', win'), q')"
    by (metis prod.exhaust)
  have "if ex' then pl_producer s = Produced \<and> q' = []
      else (\<exists>ys. q' = map Item ys @ (if pl_producer s = Produced then [Sentinel] else []))"
  proof (cases "pl_exhausted s")
    case True
    then show ?thesis using ok f by (auto simp: pipe_ok_def ending_ok_def)
  next
    case False
    then obtain xs where "pl_queue s = map Item xs @ (if pl_producer s = Produced then [Sentinel] else [])"
      using ok by (auto simp: pipe_ok_def ending_ok_def)
    with fill_ending [of width "pl_window s" xs "if pl_producer s = Produced then [Sentinel] else []" ex' win' q'] f False
    show ?thesis by (auto split: if_splits)
  qed
  then show ?thesis using ok f fill_bounds [OF f]
    by (auto simp: pipe_ok_def refill_def ending_ok_def waits_ok_def)
qed

lemma put_ok: "pipe_ok width s \<Longrightarrow> has_room s \<Longrightarrow> pl_producer s \<noteq> Produced \<Longrightarrow>
  (p = Produced \<longleftrightarrow> e = Sentinel) \<Longrightarrow> pipe_ok width (put e p s)"
  by (cases e) (auto simp: pipe_ok_def put_def has_room_def ending_ok_def waits_ok_def split: consumer.split if_splits
      intro: exI [of _ "xs @ [x]" for xs x])

lemma inner_ok: "inner_step env F width s s' \<Longrightarrow> pipe_ok width s \<Longrightarrow> pipe_ok width s'"
proof (induction rule: inner_step.induct)
  case (taken s c r rest)
  then show ?case by (auto simp: pipe_ok_def take_head_def ending_ok_def waits_ok_def)
next
  case (worked s c r)
  then show ?case by (auto simp: pipe_ok_def work_def ending_ok_def waits_ok_def split: prod.split)
next
  case (released s c raised advanced)
  then show ?case using let_go_consumer [of env c raised advanced s]
    by (auto simp: pipe_ok_def ending_ok_def waits_ok_def)
next
  case (parsed k s r)
  then show ?case by (auto simp: pipe_ok_def end_parse_def ending_ok_def waits_ok_def split: consumer.split if_splits)
next
  case (seeded s)
  then show ?case by (auto simp: pipe_ok_def ending_ok_def waits_ok_def split: consumer.split if_splits)
next
  case (broken s c rest)
  then show ?case by (auto simp: pipe_ok_def ending_ok_def waits_ok_def split: if_splits)
qed (auto intro: refill_ok put_ok)

lemma outer_ok: "outer_step le s s' \<Longrightarrow> pipe_ok width s \<Longrightarrow> pipe_ok width s'"
proof (induction rule: outer_step.induct)
  case (observed s source replaced)
  have "pl_producer (observe le source replaced s) \<noteq> Produced"
    using observed(1) by (simp add: observe_def Let_def split: prod.split option.split)
  moreover have "waits_ok (observe le source replaced s) = waits_ok s"
    by (simp add: waits_ok_def split: consumer.split)
  ultimately show ?case using observed by (auto simp: pipe_ok_def ending_ok_def split: if_splits)
next
  case (stopped s)
  have "waits_ok (s\<lparr>pl_producer := Draining\<rparr>) = waits_ok s"
    by (simp add: waits_ok_def split: consumer.split)
  with stopped show ?case by (auto simp: pipe_ok_def ending_ok_def split: if_splits)
qed

lemma reachable_ok: "reachable_from env le F width s0 s \<Longrightarrow> pipe_ok width s0 \<Longrightarrow> pipe_ok width s"
  by (induction rule: reachable_from.induct) (auto intro: inner_ok outer_ok)

lemma start_ok: "pipe_ok width (start_pipeline le forensics n seeded c l w)"
  by (simp add: start_pipeline_def pipe_ok_def ending_ok_def waits_ok_def QUEUE_MAXSIZE_def)

section \<open>The pipeline comes to rest\<close>

definition at_rest :: "pipeline \<Rightarrow> bool" where
  "at_rest s \<longleftrightarrow> pl_queue s = [] \<and> pl_window s = []
     \<and> (pl_producer s = Watching \<and> pl_consumer s = At_Source \<or> pl_producer s = Produced \<and> pl_consumer s = Returned)"

lemma rest_line: "at_rest s \<Longrightarrow> line s = map fst (pl_history s)"
  by (auto simp: at_rest_def line_defs)

theorem stuck_at_rest:
  assumes "pipe_ok width s" and "pl_consumer s \<noteq> Crashed" and "\<And>s'. \<not> inner_step env F width s s'"
  shows "at_rest s"
proof -
  note no = assms(3)
  have "pl_consumer s \<noteq> Refill" "\<And>c r. pl_consumer s \<noteq> Working c r" "\<And>c a b. pl_consumer s \<noteq> Releasing c a b"
    using no inner_step.filled inner_step.worked inner_step.released by metis+
  moreover have "pl_consumer s \<noteq> At_Head"
  proof
    assume head: "pl_consumer s = At_Head"
    then obtain c p rest where w: "pl_window s = (c, p) # rest"
      using assms(1) by (cases "pl_window s") (auto simp: pipe_ok_def waits_ok_def)
    show False
    proof (cases p)
      case Parsing
      then have "inner_step env F width s (end_parse 0 (if le_registry_fails (env c) then Broken else Parsed None) s)"
        using w head by (intro inner_step.parsed) simp_all
      with no show False by blast
    next
      case (Parsed r)
      with w head no inner_step.taken show False by metis
    next
      case Broken
      with w head no inner_step.broken show False by metis
    qed
  qed
  ultimately have cons: "pl_consumer s = At_Source \<or> pl_consumer s = Returned"
    using assms(2) by (cases "pl_consumer s") auto
  have empty: "pl_window s = []" using cons assms(1) by (auto simp: pipe_ok_def waits_ok_def)
  have queue: "pl_queue s = []"
  proof (cases "pl_consumer s = At_Source")
    case True
    with no inner_step.woken show ?thesis by metis
  next
    case False
    with cons assms(1) show ?thesis by (auto simp: pipe_ok_def waits_ok_def ending_ok_def)
  qed
  then have room: "has_room s" by (simp add: has_room_def QUEUE_MAXSIZE_def)
  have "pl_producer s = Watching \<or> pl_producer s = Produced"
  proof (cases "pl_producer s")
    case (Seeding cs)
    then show ?thesis using no inner_step.seeded inner_step.put_seed room assms(2) by (cases cs) metis+
  next
    case (Putting c)
    then show ?thesis using no inner_step.put_save room assms(2) by metis
  next
    case Draining
    then show ?thesis using no inner_step.put_end room assms(2) by metis
  qed simp_all
  then show ?thesis using cons queue empty assms(1)
    by (auto simp: at_rest_def pipe_ok_def waits_ok_def ending_ok_def split: if_splits)
qed

fun parse_weight :: "'r parse \<Rightarrow> nat" where
  "parse_weight Parsing = 5"
| "parse_weight _ = 4"

fun producer_weight :: "producer \<Rightarrow> nat" where
  "producer_weight (Seeding cs) = 9 + 7 * List.length cs"
| "producer_weight Watching = 8"
| "producer_weight (Putting c) = 15"
| "producer_weight Draining = 7"
| "producer_weight Produced = 0"

fun consumer_weight :: "consumer \<Rightarrow> nat" where
  "consumer_weight Refill = 2"
| "consumer_weight (Working c r) = 4"
| "consumer_weight (Releasing c a b) = 3"
| "consumer_weight Crashed = 0"
| "consumer_weight _ = 1"

definition window_weight :: "(cached_save \<times> save_snapshot option parse) list \<Rightarrow> nat" where
  "window_weight win = sum_list (map (\<lambda>e. parse_weight (snd e)) win)"

definition steps_left :: "pipeline \<Rightarrow> nat" where
  "steps_left s = producer_weight (pl_producer s) + 6 * List.length (pl_queue s) + window_weight (pl_window s)
     + consumer_weight (pl_consumer s)"

lemma fill_weight:
  "fill_window width ex win q = ((ex', win'), q') \<Longrightarrow>
     6 * List.length q' + window_weight win' \<le> 6 * List.length q + window_weight win"
proof (induction width ex win q rule: fill_window.induct)
  case (2 width ex win e q)
  then show ?case by (cases e) (auto simp: window_weight_def split: if_splits)
qed simp

lemma fill_moves:
  "fill_window width False [] (e # q) = ((ex', win'), q') \<Longrightarrow> 0 < width \<Longrightarrow>
     6 * List.length q' + window_weight win' < 6 * List.length (e # q)"
  by (cases e) (auto dest!: fill_weight simp: window_weight_def)

lemma parse_weight_ended: "r \<noteq> Parsing \<Longrightarrow> parse_weight r = 4"
  by (cases r) simp_all

lemma window_weight_update:
  "k < List.length win \<Longrightarrow> snd (win ! k) = Parsing \<Longrightarrow> r \<noteq> Parsing \<Longrightarrow>
     window_weight (win[k := (fst (win ! k), r)]) < window_weight win"
  using parse_weight_ended [of r] unfolding window_weight_def
  by (induction win arbitrary: k) (auto simp: nth_Cons split: nat.splits)

theorem inner_descends:
  "inner_step env F width s s' \<Longrightarrow> pipe_ok width s \<Longrightarrow> 0 < width \<Longrightarrow> steps_left s' < steps_left s"
proof (induction rule: inner_step.induct)
  case (parsed k s r)
  then have "r \<noteq> Parsing" by (auto split: if_splits)
  with parsed show ?case using window_weight_update [of k "pl_window s" r] by (simp add: steps_left_def end_parse_def)
next
  case (filled s)
  then show ?case using fill_weight [of width "pl_exhausted s" "pl_window s" "pl_queue s"]
    by (fastforce simp: steps_left_def refill_def split: prod.split)
next
  case (woken s)
  then obtain e q where "pl_queue s = e # q" by (cases "pl_queue s") auto
  with woken show ?case using fill_moves [of width e q]
    by (fastforce simp: steps_left_def refill_def pipe_ok_def waits_ok_def window_weight_def split: prod.split)
next
  case (taken s c r rest)
  then show ?case by (simp add: steps_left_def take_head_def window_weight_def)
next
  case (worked s c r)
  then show ?case by (simp add: steps_left_def work_def split: prod.split)
next
  case (released s c raised advanced)
  then show ?case using let_go_consumer [of env c raised advanced s] by (auto simp: steps_left_def)
qed (simp_all add: steps_left_def put_def)

theorem inner_runs_end:
  assumes "(inner_step env F width ^^ n) s s'" and "pipe_ok width s" and "0 < width"
  shows "n + steps_left s' \<le> steps_left s \<and> pipe_ok width s'"
  using assms(1)
proof (induction n arbitrary: s')
  case (Suc n)
  then obtain t where t: "(inner_step env F width ^^ n) s t" "inner_step env F width t s'" by auto
  with Suc.IH [OF t(1)] inner_descends [OF t(2)] inner_ok [OF t(2)] assms(3) show ?case by fastforce
qed (use assms(2) in simp)

lemma rest_stuck: "at_rest s \<Longrightarrow> \<not> inner_step env F width s s'"
  by (auto simp: at_rest_def elim!: inner_cases)

lemma crash_is_final:
  assumes "pl_consumer s = Crashed" shows "\<not> inner_step env F width s s'" and "\<not> outer_step le s s'"
  using assms by (auto elim!: inner_cases outer_cases)

lemma reachable_run:
  "(inner_step env F width ^^ m) s s' \<Longrightarrow> reachable_from env le F width s0 s \<Longrightarrow> reachable_from env le F width s0 s'"
  by (induction m arbitrary: s') (auto intro: reachable_from.inside)

lemma runs_to_rest:
  assumes "pipe_ok width s" and "0 < width"
  shows "\<exists>m s'. (inner_step env F width ^^ m) s s' \<and> (at_rest s' \<or> pl_consumer s' = Crashed)"
  using assms(1)
proof (induction "steps_left s" arbitrary: s rule: less_induct)
  case less
  show ?case
  proof (cases "\<exists>t. inner_step env F width s t")
    case True
    then obtain t where t: "inner_step env F width s t" by blast
    from less.hyps [OF inner_descends [OF t less.prems assms(2)] inner_ok [OF t less.prems]]
    obtain m s' where "(inner_step env F width ^^ m) t s'" "at_rest s' \<or> pl_consumer s' = Crashed" by blast
    with t have "(inner_step env F width ^^ Suc m) s s'" by (metis relpowp_Suc_I2)
    then show ?thesis using \<open>at_rest s' \<or> _\<close> by blast
  next
    case False
    then have "at_rest s \<or> pl_consumer s = Crashed" using stuck_at_rest [OF less.prems] by blast
    then show ?thesis by (intro exI [of _ 0]) auto
  qed
qed

section \<open>The first save of a backlog\<close>

text \<open>One run: the first seeded save goes through the queue into the window.\<close>

lemma first_save_parsing:
  assumes "0 < width"
  shows "\<exists>s. reachable_from env le F width (start_pipeline le forensics n (c # cs) k l w) s
    \<and> pl_consumer s = At_Head \<and> pl_window s = [(c, Parsing)] \<and> pl_history s = [] \<and> pl_last s = l \<and> pl_world s = w"
proof -
  let ?s0 = "start_pipeline le forensics n (c # cs) k l w"
  have "inner_step env F width ?s0 (put (Item c) (Seeding cs) ?s0)"
    by (rule inner_step.put_seed) (simp_all add: start_pipeline_def has_room_def QUEUE_MAXSIZE_def)
  then have "reachable_from env le F width ?s0 (put (Item c) (Seeding cs) ?s0)"
    by (rule reachable_from.inside [OF reachable_from.here])
  moreover have "inner_step env F width (put (Item c) (Seeding cs) ?s0) (refill width (put (Item c) (Seeding cs) ?s0))"
    by (rule inner_step.filled) (simp add: start_pipeline_def put_def)
  ultimately have "reachable_from env le F width ?s0 (refill width (put (Item c) (Seeding cs) ?s0))"
    by (rule reachable_from.inside)
  then show ?thesis using assms
    by (intro exI [of _ "refill width (put (Item c) (Seeding cs) ?s0)"]) (simp add: refill_def put_def start_pipeline_def)
qed

lemma first_save_worked:
  assumes "0 < width" and "\<not> le_registry_fails (env c)"
  shows "\<exists>s. reachable_from env le F width (start_pipeline le forensics n (c # cs) k l w) s \<and> pl_history s = [(c, r)]"
proof -
  from first_save_parsing [OF assms(1)] obtain s where
    s: "reachable_from env le F width (start_pipeline le forensics n (c # cs) k l w) s"
      "pl_consumer s = At_Head" "pl_window s = [(c, Parsing)]" "pl_history s = []" by blast
  let ?s1 = "end_parse 0 (Parsed r) s"
  have s1: "pl_consumer ?s1 = At_Head" "pl_window ?s1 = [(c, Parsed r)]" "pl_history ?s1 = []"
    using s by (simp_all add: end_parse_def)
  have "inner_step env F width s ?s1" by (rule inner_step.parsed) (use s assms(2) in simp_all)
  moreover have "inner_step env F width ?s1 (take_head env ?s1)" by (rule inner_step.taken [OF s1(1,2)])
  moreover have "inner_step env F width (take_head env ?s1) (work env F c r (take_head env ?s1))"
    by (rule inner_step.worked) (simp add: take_head_def s1)
  ultimately have "reachable_from env le F width (start_pipeline le forensics n (c # cs) k l w) (work env F c r (take_head env ?s1))"
    using s(1) by (blast intro: reachable_from.inside)
  moreover have "pl_history (work env F c r (take_head env ?s1)) = [(c, r)]"
    using s1 by (simp add: work_def split: prod.split)
  ultimately show ?thesis by blast
qed

text \<open>Where the registry fails, the same save ends the tail.\<close>

lemma first_save_breaks:
  assumes "0 < width" and "le_registry_fails (env c)"
  shows "\<exists>s. reachable_from env le F width (start_pipeline le forensics n (c # cs) k l w) s
    \<and> pl_consumer s = Crashed \<and> pl_history s = [] \<and> pl_world s = w"
proof -
  from first_save_parsing [OF assms(1)] obtain s where
    s: "reachable_from env le F width (start_pipeline le forensics n (c # cs) k l w) s"
      "pl_consumer s = At_Head" "pl_window s = [(c, Parsing)]" "pl_history s = []" "pl_world s = w" by blast
  let ?s1 = "end_parse 0 Broken s"
  have s1: "pl_consumer ?s1 = At_Head" "pl_window ?s1 = [(c, Broken)]" "pl_history ?s1 = []" "pl_world ?s1 = w"
    using s by (simp_all add: end_parse_def)
  have "inner_step env F width s ?s1" by (rule inner_step.parsed) (use s assms(2) in simp_all)
  moreover have "inner_step env F width ?s1 (?s1\<lparr>pl_consumer := Crashed\<rparr>)" by (rule inner_step.broken [OF s1(1,2)])
  ultimately have "reachable_from env le F width (start_pipeline le forensics n (c # cs) k l w) (?s1\<lparr>pl_consumer := Crashed\<rparr>)"
    using s(1) by (blast intro: reachable_from.inside)
  then show ?thesis using s1 by (intro exI [of _ "?s1\<lparr>pl_consumer := Crashed\<rparr>"]) simp
qed

end
