(* ===== verification/Pipeline_Cache.thy ===== *)
theory Pipeline_Cache
  imports Pipeline_Facts
begin

text \<open>
  The cached files while the save tail runs, with an operating system that deletes what it is asked
  to: every save in the directory is protected, so the garbage collection of the loop has nothing to
  take.
\<close>

section \<open>Every file is guarded\<close>

definition guarded :: "cache \<Rightarrow> bool" where
  "guarded c \<longleftrightarrow> (\<forall>name\<in>fst ` set (sv_dir c). \<forall>k. match_seqno name = Some k \<longrightarrow>
     name = cache_name k \<and> k |\<in>| sv_protected c)"

lemma match_cache_name: "match_seqno (cache_name n) = Some k \<Longrightarrow> k = n"
proof -
  assume m: "match_seqno (cache_name n) = Some k"
  have "drop 12 (cache_name n) \<noteq> ''.ck3'' @ [CHR 0x0A]"
  proof
    assume "drop 12 (cache_name n) = ''.ck3'' @ [CHR 0x0A]"
    then have "last (drop 12 (cache_name n)) = CHR 0x0A" "drop 12 (cache_name n) \<noteq> []" by simp_all
    then show False using last_names(1) [of n] by simp
  qed
  then have "drop 12 (cache_name n) = ''.ck3''" "k = parse_nat (take 12 (cache_name n))"
    using m by (auto simp: match_seqno_def SEQNO_WIDTH_def Let_def split: if_splits)
  then have "take 12 (cache_name n) @ ''.ck3'' = fmt0 12 n @ ''.ck3''"
    by (metis append_take_drop_id cache_name_def SEQNO_WIDTH_def)
  then show "k = n" using \<open>k = _\<close> by simp
qed

lemma dict_set_elem: "(a, b) \<in> set (dict_set d n f) \<Longrightarrow> a = n \<or> (\<exists>b'. (a, b') \<in> set d)"
  by (induction d) (auto simp: dict_set_def split: if_splits)

lemma guarded_tag: "guarded c \<Longrightarrow> guarded (tag_playthrough how s pid c)"
proof -
  assume g: "guarded c"
  have tmp: "match_seqno (with_suffix (sidecar_path_for (cv_path s)) (SIDECAR_SUFFIX @ ''.tmp'')) = None" (is "match_seqno ?t = _")
  proof -
    have "last ?t = CHR ''p''"
      using with_suffix_ends [of "sidecar_path_for (cv_path s)" "SIDECAR_SUFFIX @ ''.tmp''"] by auto
    then show ?thesis using match_seqno_last [of ?t] by (cases "match_seqno ?t") auto
  qed
  show ?thesis using g tmp sidecar_no_match
    by (fastforce simp: guarded_def tag_playthrough_def Let_def remove_file_def dest!: dict_set_elem split: written.split)
qed

lemma guarded_mark:
  "guarded c \<Longrightarrow> cv_path s = cache_name (cv_seqno s) \<Longrightarrow> guarded (snd (mark_processed os_fine s c))"
  by (auto simp: guarded_def mark_processed_fine remove_file_def)

lemma guarded_pending: "guarded c \<Longrightarrow> pending os c = Inr cs \<Longrightarrow> s \<in> set cs \<Longrightarrow> cv_seqno s |\<in>| sv_protected c"
  using pending_seqnos [of os "sv_dir c" cs s] by (force simp: guarded_def pending_def)

lemma guarded_gc: "guarded c \<Longrightarrow> snd (gc_oldest os max_bytes c) = c"
  by (rule gc_all_protected) (use guarded_pending in blast)

lemma guarded_save:
  assumes "guarded c" and "cache_save os_fine source replaced c = (out, c')"
  shows "(out = None \<longrightarrow> guarded c' \<and> sv_next_seqno c' = sv_next_seqno c)
    \<and> (\<forall>s. out = Some s \<longrightarrow> guarded (protect (cv_seqno s) c') \<and> cv_path s = cache_name (cv_seqno s)
         \<and> cv_seqno s = sv_next_seqno c \<and> sv_next_seqno c' = Suc (sv_next_seqno c))
    \<and> sv_gc_drops_total c' = sv_gc_drops_total c \<and> sv_protected c' = sv_protected c"
proof -
  show ?thesis using assms match_cache_name tmp_no_match
    by (auto simp: guarded_def cache_save_def Let_def remove_file_def protect_def os_fine_def
        dest!: dict_set_elem split: materialized.splits if_splits) fastforce+
qed

section \<open>Numbers and files along the line\<close>

definition numbered :: "pipeline \<Rightarrow> bool" where
  "numbered s \<longleftrightarrow> sorted_wrt (<) (map cv_seqno (line s))
     \<and> (\<forall>c\<in>set (line s). cv_seqno c < sv_next_seqno (pl_cache s) \<and> cv_path c = cache_name (cv_seqno c))"

definition releasing_ok :: "pipeline \<Rightarrow> bool" where
  "releasing_ok s \<longleftrightarrow> (\<forall>c a b. pl_consumer s = Releasing c a b \<longrightarrow> c \<in> fst ` set (pl_history s))"

text \<open>No parse in the window has broken.\<close>

definition unbroken :: "('i \<times> 'r parse) list \<Rightarrow> bool" where
  "unbroken window \<longleftrightarrow> Broken \<notin> snd ` set window"

lemma fill_unbroken: "fill_window width ex win q = ((ex', win'), q') \<Longrightarrow> unbroken win \<Longrightarrow> unbroken win'"
proof (induction width ex win q rule: fill_window.induct)
  case (2 width ex win e q)
  then show ?case by (cases e) (auto simp: unbroken_def split: if_splits)
qed simp

lemma refill_unbroken: "unbroken (pl_window s) \<Longrightarrow> unbroken (pl_window (refill width s))"
  using fill_unbroken [of width "pl_exhausted s" "pl_window s" "pl_queue s"]
  by (auto simp: refill_def split: prod.split)

lemma unbroken_update: "unbroken win \<Longrightarrow> r \<noteq> Broken \<Longrightarrow> unbroken (win[k := (c, r)])"
  by (auto simp: unbroken_def dest: set_update_subset_insert [THEN subsetD])

text \<open>An outside without failures.\<close>

definition fine_env :: "loop_env \<Rightarrow> bool" where
  "fine_env le \<longleftrightarrow> le_os le = os_fine \<and> \<not> le_registry_fails le \<and> \<not> le_count_fails le"

definition cache_inv :: "nat \<Rightarrow> pipeline \<Rightarrow> bool" where
  "cache_inv drops s \<longleftrightarrow> guarded (pl_cache s) \<and> numbered s \<and> releasing_ok s \<and> unbroken (pl_window s)
     \<and> sv_gc_drops_total (pl_cache s) = drops \<and> pl_consumer s \<noteq> Crashed"

lemma tag_fields [simp]:
  "sv_next_seqno (tag_parsed le c r l x) = sv_next_seqno x" "sv_gc_drops_total (tag_parsed le c r l x) = sv_gc_drops_total x"
  by (simp_all add: tag_parsed_def tag_playthrough_def Let_def split: option.split written.split)

lemma guarded_tag_parsed: "guarded x \<Longrightarrow> guarded (tag_parsed le c r l x)"
  by (simp add: tag_parsed_def guarded_tag split: option.split)

lemma release_fine:
  assumes "le_os le = os_fine" and "guarded x" and "cv_path c = cache_name (cv_seqno c)"
  shows "\<exists>x'. release le raised advanced c x = (True, x') \<and> guarded x' \<and> sv_next_seqno x' = sv_next_seqno x
    \<and> sv_gc_drops_total x' = sv_gc_drops_total x"
proof -
  have mark: "\<exists>y. mark_processed os_fine c x = (True, y) \<and> guarded y \<and> sv_next_seqno y = sv_next_seqno x
      \<and> sv_gc_drops_total y = sv_gc_drops_total x" if "guarded x" for x
    using guarded_mark [OF that assms(3)] by (simp add: mark_processed_fine)
  from mark [OF assms(2)] obtain y where y: "mark_processed os_fine c x = (True, y)" "guarded y"
    "sv_next_seqno y = sv_next_seqno x" "sv_gc_drops_total y = sv_gc_drops_total x" by blast
  from mark [OF y(2)] obtain z where z: "mark_processed os_fine c y = (True, z)" "guarded z"
    "sv_next_seqno z = sv_next_seqno y" "sv_gc_drops_total z = sv_gc_drops_total y" by blast
  obtain out where "gc_oldest os_fine (le_cache_max_bytes le) y = (out, y)"
    using guarded_gc [OF y(2)] by (metis prod.collapse)
  then show ?thesis using assms(1) y z by (cases out) (auto simp: release_def release_failed_def)
qed

lemma inv_inner:
  assumes "inner_step env F width s s'" and "cache_inv drops s" and fine: "\<And>c. fine_env (env c)"
  shows "cache_inv drops s'"
  using assms(1,2)
proof (induction rule: inner_step.induct)
  case (taken s c r rest)
  have "line (take_head env s) = line s" using line_inner [OF inner_step.taken [OF taken(1,2)]] .
  with taken show ?case
    by (simp add: cache_inv_def numbered_def releasing_ok_def take_head_def guarded_tag_parsed unbroken_def)
next
  case (broken s c rest)
  then show ?case by (simp add: cache_inv_def unbroken_def)
next
  case (worked s c r)
  have "line (work env F c r s) = line s" using line_inner [OF inner_step.worked [OF worked(1)]] .
  with worked show ?case
    by (auto simp: cache_inv_def numbered_def releasing_ok_def work_def split: prod.splits)
next
  case (released s c raised advanced)
  have line: "line (let_go env c raised advanced s) = line s"
    using line_inner [OF inner_step.released [OF released(1)]] .
  have "c \<in> set (line s)" using released by (auto simp: cache_inv_def releasing_ok_def line_def)
  then have path: "cv_path c = cache_name (cv_seqno c)" using released by (auto simp: cache_inv_def numbered_def)
  have g: "guarded (pl_cache s)" using released by (simp add: cache_inv_def)
  have "le_os (env c) = os_fine" using fine [of c] by (simp add: fine_env_def)
  from release_fine [OF this g path] obtain x' where
    "release (env c) raised advanced c (pl_cache s) = (True, x')" "guarded x'"
    "sv_next_seqno x' = sv_next_seqno (pl_cache s)" "sv_gc_drops_total x' = sv_gc_drops_total (pl_cache s)" by blast
  then have "pl_cache (let_go env c raised advanced s) = x'" "pl_consumer (let_go env c raised advanced s) = Refill"
    using fine [of c] by (auto simp: let_go_def finish_item_def fine_env_def split: option.split)
  with released line \<open>guarded x'\<close> \<open>sv_next_seqno x' = _\<close> \<open>sv_gc_drops_total x' = _\<close> show ?case
    by (simp add: cache_inv_def numbered_def releasing_ok_def)
next
  case (filled s)
  have "line (refill width s) = line s" using line_inner [OF inner_step.filled [OF filled(1)]] .
  moreover have "\<nexists>c a b. pl_consumer (refill width s) = Releasing c a b" "pl_consumer (refill width s) \<noteq> Crashed"
    by (auto simp: refill_def split: prod.split)
  ultimately show ?case using filled refill_unbroken [of s width] by (simp add: cache_inv_def numbered_def releasing_ok_def)
next
  case (woken s)
  have "line (refill width s) = line s" using line_inner [OF inner_step.woken [OF woken(1,2)]] .
  moreover have "\<nexists>c a b. pl_consumer (refill width s) = Releasing c a b" "pl_consumer (refill width s) \<noteq> Crashed"
    by (auto simp: refill_def split: prod.split)
  ultimately show ?case using woken refill_unbroken [of s width] by (simp add: cache_inv_def numbered_def releasing_ok_def)
next
  case (parsed k s r)
  have "inner_step env F width s (end_parse k r s)" by (rule inner_step.parsed) (fact parsed)+
  then have "line (end_parse k r s) = line s" by (rule line_inner)
  moreover have "r \<noteq> Broken" using parsed(4) fine [of "fst (pl_window s ! k)"] by (auto simp: fine_env_def)
  ultimately show ?case using parsed unbroken_update [of "pl_window s" r]
    by (simp add: cache_inv_def numbered_def releasing_ok_def) (simp add: end_parse_def)
next
  case (put_seed s c cs)
  have "line (put (Item c) (Seeding cs) s) = line s" using line_inner [OF inner_step.put_seed [OF put_seed(1-3)]] .
  with put_seed show ?case by (simp add: cache_inv_def numbered_def releasing_ok_def) (simp add: put_def)
next
  case (put_save s c)
  have "line (put (Item c) Watching s) = line s" using line_inner [OF inner_step.put_save [OF put_save(1-3)]] .
  with put_save show ?case by (simp add: cache_inv_def numbered_def releasing_ok_def) (simp add: put_def)
next
  case (put_end s)
  have "line (put Sentinel Produced s) = line s" using line_inner [OF inner_step.put_end [OF put_end(1-3)]] .
  with put_end show ?case by (simp add: cache_inv_def numbered_def releasing_ok_def) (simp add: put_def)
next
  case (seeded s)
  have "line (s\<lparr>pl_producer := Watching\<rparr>) = line s" using line_inner [OF inner_step.seeded [OF seeded(1-2)]] .
  with seeded show ?case by (simp add: cache_inv_def numbered_def releasing_ok_def)
qed

lemma inv_outer:
  assumes "outer_step le s s'" and "cache_inv drops s" and fine: "le_os le = os_fine"
  shows "cache_inv drops s'"
  using assms(1,2)
proof (induction rule: outer_step.induct)
  case (observed s source replaced)
  obtain out x where save: "cache_save os_fine source replaced (pl_cache s) = (out, x)" by force
  have g: "guarded (pl_cache s)" using observed by (simp add: cache_inv_def)
  note spec = guarded_save [OF g save]
  show ?case
  proof (cases out)
    case None
    then have "observe le source replaced s = s\<lparr>pl_cache := x\<rparr>" using save fine by (simp add: observe_def)
    moreover have "line (s\<lparr>pl_cache := x\<rparr>) = line s" by (simp add: line_defs)
    moreover have "guarded x" "sv_next_seqno x = sv_next_seqno (pl_cache s)" "sv_gc_drops_total x = sv_gc_drops_total (pl_cache s)"
      using spec None by auto
    ultimately show ?thesis using observed by (simp add: cache_inv_def numbered_def releasing_ok_def)
  next
    case (Some cached)
    have l: "line (observe le source replaced s) = line s @ [cached]"
      using Some save fine observed(1) by (simp add: observe_def Let_def line_defs)
    have c: "pl_cache (observe le source replaced s) = protect (cv_seqno cached) x"
      using Some save fine by (simp add: observe_def Let_def)
    have s: "guarded (protect (cv_seqno cached) x)" "cv_path cached = cache_name (cv_seqno cached)"
      "cv_seqno cached = sv_next_seqno (pl_cache s)" "sv_next_seqno x = Suc (sv_next_seqno (pl_cache s))"
      "sv_gc_drops_total x = sv_gc_drops_total (pl_cache s)" using spec Some by auto
    have inv: "numbered s" "releasing_ok s" "sv_gc_drops_total (pl_cache s) = drops" "pl_consumer s \<noteq> Crashed"
      "unbroken (pl_window s)" using observed by (auto simp: cache_inv_def)
    have "numbered (observe le source replaced s)"
    proof -
      have below: "\<forall>k\<in>set (line s). cv_seqno k < sv_next_seqno (pl_cache s)" "\<forall>k\<in>set (line s). cv_path k = cache_name (cv_seqno k)"
        "sorted_wrt (<) (map cv_seqno (line s))" using inv(1) by (auto simp: numbered_def)
      have "sorted_wrt (<) (map cv_seqno (line s @ [cached]))" using below(1,3) s(3) by (simp add: sorted_wrt_append)
      moreover have "sv_next_seqno (protect (cv_seqno cached) x) = Suc (sv_next_seqno (pl_cache s))"
        using s(4) by (simp add: protect_def)
      ultimately show ?thesis unfolding numbered_def l c using below(1,2) s(2,3) by (simp add: less_Suc_eq)
    qed
    moreover have "releasing_ok (observe le source replaced s)" using inv(2) by (simp add: releasing_ok_def)
    ultimately show ?thesis using s(1,5) inv(3-5) c by (simp add: cache_inv_def protect_def)
  qed
next
  case (stopped s)
  then have "line (s\<lparr>pl_producer := Draining\<rparr>) = line s" by (simp add: line_defs)
  with stopped show ?case by (simp add: cache_inv_def numbered_def releasing_ok_def)
qed

theorem inv_reachable:
  assumes "reachable_from env le F width s0 s" and "cache_inv drops s0"
    and "\<And>c. fine_env (env c)" and "le_os le = os_fine"
  shows "cache_inv drops s"
  using assms(1,2) by (induction rule: reachable_from.induct) (auto intro: inv_inner inv_outer assms(3,4))

section \<open>The start of the tail\<close>

text \<open>Every save in the directory has the name the cache itself gives.\<close>

definition tidy :: "cache \<Rightarrow> bool" where
  "tidy c \<longleftrightarrow> cache_ok c \<and> (\<forall>name\<in>fst ` set (sv_dir c). \<forall>k. match_seqno name = Some k \<longrightarrow> name = cache_name k)"

lemma tidy_open:
  assumes "dict_ok dir" and "\<And>name k. name \<in> fst ` set dir \<Longrightarrow> match_seqno name = Some k \<Longrightarrow> name = cache_name k"
  shows "tidy (open_cache os dir)"
  using assms open_cache_ok [of dir os] by (fastforce simp: tidy_def open_cache_def prune_orphan_tmps_def)

lemma pending_entry_paths:
  "concat_mapr (pending_entry os_fine d) dir = Inr es \<Longrightarrow>
     map cv_path es = filter (\<lambda>n. match_seqno n \<noteq> None) (map fst dir)"
  by (induction dir arbitrary: es) (auto simp: bindr_eq_Inr pending_entry_def os_fine_def split: option.splits)

lemma pending_complete:
  assumes "tidy c" and "pending os_fine c = Inr cs"
  shows "cv_path ` set cs = {n \<in> fst ` set (sv_dir c). match_seqno n \<noteq> None}" and "sorted_wrt (<) (map cv_seqno cs)"
    and "\<forall>s\<in>set cs. cv_path s = cache_name (cv_seqno s) \<and> cv_seqno s < sv_next_seqno c"
proof -
  obtain es where es: "concat_mapr (pending_entry os_fine (sv_dir c)) (sv_dir c) = Inr es" "cs = sort_key cv_seqno es"
    using assms(2) by (auto simp: pending_def pending_in_def bindr_eq_Inr os_fine_def)
  note paths = pending_entry_paths [OF es(1)]
  have "set (map cv_path es) = set (filter (\<lambda>n. match_seqno n \<noteq> None) (map fst (sv_dir c)))" by (simp only: paths)
  then show "cv_path ` set cs = {n \<in> fst ` set (sv_dir c). match_seqno n \<noteq> None}" using es(2) by auto
  have seq: "match_seqno (cv_path s) = Some (cv_seqno s) \<and> cv_path s \<in> fst ` set (sv_dir c)" if "s \<in> set cs" for s
    using pending_seqnos [OF assms(2) [unfolded pending_def] that] by force
  then show names: "\<forall>s\<in>set cs. cv_path s = cache_name (cv_seqno s) \<and> cv_seqno s < sv_next_seqno c"
    using assms(1) by (fastforce simp: tidy_def cache_ok_def)
  have "distinct (map cv_path es)" using assms(1) by (simp add: paths tidy_def cache_ok_def dict_ok_def)
  moreover have "map cv_path es = map cache_name (map cv_seqno es)" using names es(2) by simp
  ultimately have "distinct (map cv_seqno es)" by (metis distinct_map)
  moreover have "mset (map cv_seqno cs) = mset (map cv_seqno es)" by (simp add: es(2))
  ultimately have "distinct (map cv_seqno cs)" by (metis mset_eq_imp_distinct_iff)
  then show "sorted_wrt (<) (map cv_seqno cs)"
    using pending_sorted [OF assms(2) [unfolded pending_def]] by (simp add: strict_sorted_iff)
qed

lemma removed_names: "fst ` set (removed d ss) \<subseteq> fst ` set d - cv_path ` set ss"
  unfolding removed_def by (induction ss arbitrary: d) (auto simp: remove_file_def, force+)

lemma seed_pending_fine:
  "\<exists>c'. seed_pending os_fine l ss c = ((True, filter (\<lambda>s. \<not> foreign_sidecar s l) ss), c')
     \<and> sv_dir c' = removed (sv_dir c) (filter (\<lambda>s. foreign_sidecar s l) ss)
     \<and> sv_next_seqno c' = sv_next_seqno c \<and> sv_gc_drops_total c' = sv_gc_drops_total c
     \<and> (\<forall>k. (k |\<in>| sv_protected c \<or> (\<exists>s\<in>set ss. \<not> foreign_sidecar s l \<and> cv_seqno s = k))
          \<longrightarrow> (\<forall>s\<in>set ss. foreign_sidecar s l \<longrightarrow> cv_seqno s \<noteq> k) \<longrightarrow> k |\<in>| sv_protected c')"
proof (induction ss arbitrary: c)
  case (Cons s ss)
  show ?case
  proof (cases "foreign_sidecar s l")
    case True
    define x where "x = snd (mark_processed os_fine s c)"
    have x: "mark_processed os_fine s c = (True, x)"
      "sv_dir x = remove_file (remove_file (sv_dir c) (cv_path s)) (sidecar_path_for (cv_path s))"
      "sv_next_seqno x = sv_next_seqno c" "sv_gc_drops_total x = sv_gc_drops_total c"
      "sv_protected x = sv_protected c |-| {|cv_seqno s|}" by (simp_all add: mark_processed_fine x_def)
    from Cons [of x] True x show ?thesis by (auto simp: removed_def)
  next
    case False
    from Cons [of "protect (cv_seqno s) c"] False show ?thesis by (auto simp: protect_def)
  qed
qed (simp add: removed_def)

text \<open>The state in which the tail starts: the backlog it seeds is the guarded, numbered line.\<close>

lemma seeded_guarded:
  assumes "tidy c" and "pending os_fine c = Inr cs" and "seed_pending os_fine l cs c = ((True, seeded), c1)"
  shows "guarded c1" and "sorted_wrt (<) (map cv_seqno seeded)"
    and "\<forall>s\<in>set seeded. cv_path s = cache_name (cv_seqno s) \<and> cv_seqno s < sv_next_seqno c1"
    and "sv_gc_drops_total c1 = sv_gc_drops_total c"
proof -
  note complete = pending_complete [OF assms(1,2)]
  have seeded: "seeded = filter (\<lambda>s. \<not> foreign_sidecar s l) cs"
    and dir: "sv_dir c1 = removed (sv_dir c) (filter (\<lambda>s. foreign_sidecar s l) cs)"
    and same: "sv_next_seqno c1 = sv_next_seqno c" "sv_gc_drops_total c1 = sv_gc_drops_total c"
    and kept: "\<And>s. s \<in> set cs \<Longrightarrow> \<not> foreign_sidecar s l \<Longrightarrow> (\<forall>t\<in>set cs. foreign_sidecar t l \<longrightarrow> cv_seqno t \<noteq> cv_seqno s)
      \<Longrightarrow> cv_seqno s |\<in>| sv_protected c1"
    using seed_pending_fine [of l cs c] assms(3) by auto
  show "sv_gc_drops_total c1 = sv_gc_drops_total c" by (fact same(2))
  show "sorted_wrt (<) (map cv_seqno seeded)"
    using complete(2) by (simp add: seeded sorted_wrt_map sorted_wrt_filter)
  show "\<forall>s\<in>set seeded. cv_path s = cache_name (cv_seqno s) \<and> cv_seqno s < sv_next_seqno c1"
    using complete(3) by (simp add: seeded same(1))
  have inj: "inj_on cv_seqno (set cs)"
    using complete(2) by (simp add: strict_sorted_iff distinct_map)
  show "guarded c1"
    unfolding guarded_def
  proof (intro ballI allI impI)
    fix name k assume n: "name \<in> fst ` set (sv_dir c1)" and k: "match_seqno name = Some k"
    note less = subsetD [OF removed_names n [unfolded dir]]
    have in_c: "name \<in> fst ` set (sv_dir c)" and not: "name \<notin> cv_path ` set (filter (\<lambda>s. foreign_sidecar s l) cs)"
      using less [unfolded Diff_iff] by iprover+
    have "name \<in> cv_path ` set cs" unfolding complete(1) using in_c k by simp
    then obtain s where s: "s \<in> set cs" "cv_path s = name" by (elim imageE) simp
    with not have own: "\<not> foreign_sidecar s l" by auto
    have "cv_seqno s = k" using pending_seqnos [OF assms(2) [unfolded pending_def] s(1)] s(2) k by simp
    moreover have "cv_seqno s |\<in>| sv_protected c1" using kept [OF s(1) own] inj s(1) own by (auto dest: inj_onD)
    ultimately show "name = cache_name k \<and> k |\<in>| sv_protected c1" using complete(3) s by auto
  qed
qed

lemma start_inv:
  assumes "guarded c" and "sorted_wrt (<) (map cv_seqno seeded)"
    and "\<forall>s\<in>set seeded. cv_path s = cache_name (cv_seqno s) \<and> cv_seqno s < sv_next_seqno c"
  shows "cache_inv (sv_gc_drops_total c) (start_pipeline le forensics n seeded c last_snapshot w)"
proof -
  let ?s = "start_pipeline le forensics n seeded c last_snapshot w"
  have "numbered ?s" unfolding numbered_def start_line using assms(2,3) by (simp add: start_pipeline_def)
  then show ?thesis using assms(1) by (simp add: cache_inv_def releasing_ok_def unbroken_def start_pipeline_def)
qed

lemma seed_backlog_inv:
  assumes "tidy c" and "seed_backlog os_fine source replaced usable last_snapshot c = (Some seeded, c')"
  shows "cache_inv (sv_gc_drops_total c) (start_pipeline le forensics n seeded c' last_snapshot w)"
proof -
  obtain cs where cs: "pending os_fine c = Inr cs" using assms(2) by (auto simp: seed_backlog_def split: sum.splits)
  obtain own c1 where own: "seed_pending os_fine last_snapshot cs c = ((True, own), c1)"
    using seed_pending_fine [of last_snapshot cs c] by blast
  note g = seeded_guarded [OF assms(1) cs own]
  show ?thesis
  proof (cases "usable")
    case False
    then have "seeded = own" "c' = c1" using assms(2) cs own by (simp_all add: seed_backlog_def)
    with start_inv [OF g(1-3)] g(4) show ?thesis by simp
  next
    case True
    obtain out x where save: "cache_save os_fine source replaced c1 = (out, x)" by fastforce
    note spec = guarded_save [OF g(1) save]
    show ?thesis
    proof (cases out)
      case None
      then have "seeded = own" "c' = x" using assms(2) cs own save True by (simp_all add: seed_backlog_def)
      with start_inv [of x own] g spec None show ?thesis by simp
    next
      case (Some s)
      then have "seeded = own @ [s]" "c' = protect (cv_seqno s) x"
        using assms(2) cs own save True by (simp_all add: seed_backlog_def)
      moreover have "sorted_wrt (<) (map cv_seqno (own @ [s]))" using g(2,3) spec Some by (simp add: sorted_wrt_append)
      moreover have "\<forall>t\<in>set (own @ [s]). cv_path t = cache_name (cv_seqno t) \<and> cv_seqno t < sv_next_seqno (protect (cv_seqno s) x)"
        using g(3) spec Some by (auto simp: protect_def)
      moreover have "guarded (protect (cv_seqno s) x)" using spec Some by blast
      ultimately have "cache_inv (sv_gc_drops_total c') (start_pipeline le forensics n seeded c' last_snapshot w)"
        by (simp only: start_inv)
      then show ?thesis using g(4) spec Some \<open>c' = _\<close> by (simp add: protect_def)
    qed
  qed
qed

section \<open>A tail without failures outside\<close>

text \<open>It never crashes, keeps its line, and where nothing moves it rests.\<close>

lemma fine_run:
  assumes "tidy c" and "seed_backlog os_fine source replaced usable last_snapshot c = (Some seeded, c')"
    and "0 < width" and "\<And>x. fine_env (env x)" and "le_os le = os_fine"
    and "reachable_from env le F width (start_pipeline le0 forensics n seeded c' last_snapshot w) s"
    and "(inner_step env F width ^^ m) s s'"
  shows "m \<le> steps_left s" and "line s' = line s" and "pl_consumer s' \<noteq> Crashed"
    and "(\<forall>t. \<not> inner_step env F width s' t) \<Longrightarrow> at_rest s'"
proof -
  have ok: "pipe_ok width s" by (rule reachable_ok [OF assms(6) start_ok])
  show "line s' = line s" using assms(7) by (induction m arbitrary: s') (auto dest: line_inner)
  show alive: "pl_consumer s' \<noteq> Crashed"
    using inv_reachable [OF reachable_run [OF assms(7,6)] seed_backlog_inv [OF assms(1,2)] assms(4,5)]
    by (simp add: cache_inv_def)
  show "m \<le> steps_left s" using inner_runs_end [OF assms(7) ok assms(3)] by simp
  assume "\<forall>t. \<not> inner_step env F width s' t"
  then show "at_rest s'" using inner_runs_end [OF assms(7) ok assms(3)] stuck_at_rest alive by blast
qed

lemma fine_run_rests:
  assumes "tidy c" and "seed_backlog os_fine source replaced usable last_snapshot c = (Some seeded, c')"
    and "0 < width" and "\<And>x. fine_env (env x)" and "le_os le = os_fine"
    and "reachable_from env le F width (start_pipeline le0 forensics n seeded c' last_snapshot w) s"
  shows "\<exists>m s'. (inner_step env F width ^^ m) s s' \<and> at_rest s'"
  using runs_to_rest [OF reachable_ok [OF assms(6) start_ok] assms(3), of env F] fine_run(3) [OF assms] by blast

end
