(* ===== verification/Pipeline_Banner.thy ===== *)
theory Pipeline_Banner
  imports Pipeline_Facts
begin

text \<open>
  The banner of the recovery: open while a save of the seeded backlog is on its way, closed by one
  frame when the last of them is through.
\<close>

section \<open>The countdown\<close>

text \<open>The saves that have left the loop.\<close>

definition drained :: "pipeline \<Rightarrow> nat" where
  "drained s = List.length (pl_history s) - (case pl_consumer s of Releasing _ _ _ \<Rightarrow> 1 | _ \<Rightarrow> 0)"

definition closing_frames :: "frame list \<Rightarrow> nat" where
  "closing_frames fs = List.length (filter (\<lambda>f. case f of ChroniclerRecovered _ \<Rightarrow> True | _ \<Rightarrow> False) fs)"

lemma closing_simps [simp]:
  "closing_frames [] = 0" "closing_frames (fs @ gs) = closing_frames fs + closing_frames gs"
  "closing_frames [ChroniclerRecovered n] = 1" "closing_frames (cache_state_frames le c) = 0"
  by (simp_all add: closing_frames_def cache_state_frames_def split: sum.split)

text \<open>\<open>k\<close> saves were seeded, \<open>before\<close> events stored at the start.\<close>

definition banner_ok :: "nat \<Rightarrow> nat \<Rightarrow> pipeline \<Rightarrow> bool" where
  "banner_ok k before s \<longleftrightarrow> pl_consumer s = Crashed \<or>
     (case pl_consumer s of Releasing _ _ _ \<Rightarrow> pl_history s \<noteq> [] | _ \<Rightarrow> True)
     \<and> pl_recovery s = (if drained s < k then Some (k - drained s, before) else None)
     \<and> closing_frames (pl_frames s) = (if drained s < k then 0 else 1)"

lemma banner_same:
  assumes "banner_ok k before s" and "pl_consumer s \<noteq> Crashed" and "pl_recovery s' = pl_recovery s" and "pl_history s' = pl_history s"
    and "closing_frames (pl_frames s') = closing_frames (pl_frames s)"
    and "pl_consumer s' = pl_consumer s \<or>
      (\<forall>c a b. pl_consumer s \<noteq> Releasing c a b) \<and> (\<forall>c a b. pl_consumer s' \<noteq> Releasing c a b)"
  shows "banner_ok k before s'"
proof (cases "pl_consumer s' = pl_consumer s")
  case False
  then have "drained s' = drained s" using assms(4,6) by (simp add: drained_def split: consumer.split)
  then show ?thesis using assms False by (simp add: banner_ok_def split: consumer.split)
next
  case True
  then have "drained s' = drained s" using assms(4) by (simp add: drained_def)
  then show ?thesis using assms True by (cases "pl_consumer s") (simp_all add: banner_ok_def)
qed

lemma banner_work:
  assumes "banner_ok k before s" and "pl_consumer s = Working c r"
  shows "banner_ok k before (work env F c r s)"
proof -
  obtain err l w where "process_save (env c) c r (pl_last s) F (pl_world s) = ((err, l), w)" by (metis prod.exhaust)
  then show ?thesis using assms by (simp add: banner_ok_def work_def drained_def)
qed

lemma banner_release:
  assumes "banner_ok k before s" and "pl_consumer s = Releasing c raised advanced"
  shows "banner_ok k before (let_go env c raised advanced s)"
proof -
  obtain alive x where rel: "release (env c) raised advanced c (pl_cache s) = (alive, x)" by fastforce
  have ne: "pl_history s \<noteq> []" using assms by (simp add: banner_ok_def)
  show ?thesis
  proof (cases alive)
    case True
    define m where "m = drained s"
    have h: "List.length (pl_history s) = Suc m" using ne assms(2) by (simp add: m_def drained_def)
    have r: "pl_recovery s = (if m < k then Some (k - m, before) else None)"
      "closing_frames (pl_frames s) = (if m < k then 0 else 1)" using assms by (simp_all add: banner_ok_def m_def)
    consider "m < k" "1 < k - m" | "m < k" "k - m = 1" | "\<not> m < k" by linarith
    then show ?thesis
    proof cases
      case 1
      then show ?thesis using rel True h r by (simp add: let_go_def finish_item_def banner_ok_def drained_def)
    next
      case 2
      then have "\<not> Suc m < k" by linarith
      with 2 show ?thesis using rel True h r by (simp add: let_go_def finish_item_def banner_ok_def drained_def)
    next
      case 3
      then show ?thesis using rel True h r by (simp add: let_go_def finish_item_def banner_ok_def drained_def)
    qed
  next
    case False
    then show ?thesis using rel by (simp add: let_go_def finish_item_def banner_ok_def split: option.split prod.split)
  qed
qed

lemma refill_banner [simp]:
  "pl_recovery (refill width s) = pl_recovery s" "pl_frames (refill width s) = pl_frames s"
  "pl_consumer (refill width s) \<noteq> Releasing c a b"
  by (simp_all add: refill_def split: prod.split)

lemma banner_inner: "inner_step env F width s s' \<Longrightarrow> banner_ok k before s \<Longrightarrow> banner_ok k before s'"
proof (induction rule: inner_step.induct)
  case (worked s c r)
  then show ?case by (simp add: banner_work)
next
  case (released s c raised advanced)
  then show ?case by (simp add: banner_release)
next
  case (broken s c rest)
  then show ?case by (simp add: banner_ok_def)
next
  case (filled s)
  then show ?case by (auto intro: banner_same)
next
  case (woken s)
  then show ?case by (auto intro: banner_same)
next
  case (taken s c r rest)
  show ?case by (rule banner_same [OF taken(3)]) (use taken(1,2) in \<open>simp_all add: take_head_def\<close>)
qed (auto intro: banner_same simp: put_def end_parse_def)

lemma banner_outer: "outer_step le s s' \<Longrightarrow> banner_ok k before s \<Longrightarrow> banner_ok k before s'"
proof (induction rule: outer_step.induct)
  case (observed s source replaced)
  have "pl_recovery (observe le source replaced s) = pl_recovery s"
    "closing_frames (pl_frames (observe le source replaced s)) = closing_frames (pl_frames s)"
    by (simp_all add: observe_def Let_def split: prod.split option.split)
  with observed show ?case by (auto intro: banner_same)
qed (auto intro: banner_same)

lemma banner_reachable: "reachable_from env le F width s0 s \<Longrightarrow> banner_ok k before s0 \<Longrightarrow> banner_ok k before s"
  by (induction rule: reachable_from.induct) (auto intro: banner_inner banner_outer)

lemma start_banner:
  "recovery_active le last_snapshot \<Longrightarrow>
     banner_ok (List.length seeded) (count_events (w_db w)) (start_pipeline le forensics n seeded c last_snapshot w)"
  by (auto simp: start_pipeline_def recovery_active_def opening_frames_def banner_ok_def drained_def closing_frames_def)

section \<open>At rest\<close>

theorem banner_closes:
  assumes run: "reachable_from env le F width (start_pipeline le0 forensics n seeded c last_snapshot w) s"
    and "recovery_active le0 last_snapshot" and rest: "at_rest s"
  shows "pl_recovery s = None \<and> closing_frames (pl_frames s) = 1"
proof -
  let ?s0 = "start_pipeline le0 forensics n seeded c last_snapshot w"
  obtain new where "line s = line ?s0 @ new" using line_grows [OF run] by blast
  then have "List.length seeded \<le> List.length (pl_history s)"
    using rest_line [OF rest] by (metis (no_types, lifting) start_line le_add1 length_append length_map)
  moreover have "banner_ok (List.length seeded) (count_events (w_db w)) s"
    by (rule banner_reachable [OF run start_banner]) fact
  moreover have "drained s = List.length (pl_history s)" "pl_consumer s \<noteq> Crashed"
    using rest by (auto simp: drained_def at_rest_def)
  ultimately show ?thesis by (simp add: banner_ok_def)
qed

end
