(* ===== verification/Ingest_Props.thy ===== *)
theory Ingest_Props
  imports Pipeline_Cache Pipeline_Banner Demo_Parse Demo_Tick
begin

text \<open>
  The properties of the save tail as a whole: the pipeline, the cache, the import and the adoption of
  a save.
\<close>

section \<open>Example\<close>

definition demo_loop :: loop_env where
  "demo_loop = \<lparr>le_tick = demo_env, le_os = os_fine, le_tag = Written, le_auto_import = False,
     le_cache_max_bytes = 0, le_file = \<lparr>sf_is_file = False, sf_melt = Melt_Failed\<rparr>, le_repr = demo_repr,
     le_registry_fails = False, le_count_fails = False\<rparr>"

definition demo_locked :: loop_env where
  "demo_locked = demo_loop\<lparr>le_registry_fails := True\<rparr>"

definition demo_cached :: cached_save where
  "demo_cached = \<lparr>cv_path = cache_name 1, cv_seqno = 1, cv_size_bytes = 10, cv_playthrough_id = None\<rparr>"

definition demo_cache :: cache where
  "demo_cache = open_cache os_fine []"

definition demo_file :: cache_file where
  "demo_file = \<lparr>cf_size = 10, cf_loaded = Decode_Error\<rparr>"

lemma demo_cache_fields: "sv_dir demo_cache = []" "sv_next_seqno demo_cache = 1"
  "sv_gc_drops_total demo_cache = 0" "sv_protected demo_cache = {||}"
  by (simp_all add: demo_cache_def open_cache_def prune_orphan_tmps_def compute_next_seqno_def map_filter_def)

lemma demo_cache_tidy: "tidy demo_cache"
  unfolding demo_cache_def by (rule tidy_open) (simp_all add: dict_ok_def)

lemma demo_fine: "fine_env demo_loop" "le_os demo_loop = os_fine"
  by (simp_all add: fine_env_def demo_loop_def)

section \<open>The pipeline\<close>

text \<open>C5: whatever the interleaving of producer, parses and consumer, the databases are what the
  saves give that are consumed so far, one after the other in the order in which they came; the saves
  on their way keep that order behind them, the seeded backlog first.\<close>

theorem tail_is_sequential:
  assumes "reachable_from env le F width (start_pipeline le0 forensics n seeded c last_snapshot w) s"
  shows "(pl_last s, pl_world s) = run_saves env F (pl_history s) last_snapshot w
    \<and> (\<exists>rest. line s = map fst (pl_history s) @ rest) \<and> (\<exists>new. line s = seeded @ new)"
proof -
  let ?s0 = "start_pipeline le0 forensics n seeded c last_snapshot w"
  have start: "pl_history ?s0 = []" "pl_last ?s0 = last_snapshot" "pl_world ?s0 = w" by (simp_all add: start_pipeline_def)
  from sequential_reachable [OF assms] have "(pl_last s, pl_world s) = run_saves env F (pl_history s) last_snapshot w"
    by (auto simp: sequential_def start)
  moreover have "\<exists>new. line s = seeded @ new" using line_grows [OF assms] by simp
  ultimately show ?thesis by (simp add: line_def)
qed

theorem tail_is_sequential_witness:
  "\<exists>s. reachable_from (\<lambda>_. demo_loop) demo_loop no_faults 2
       (start_pipeline demo_loop (None, None) 1 [demo_cached] demo_cache (Some demo1) demo_world) s
     \<and> pl_history s = [(demo_cached, Some demo2)]
     \<and> (pl_last s, pl_world s) = run_saves (\<lambda>_. demo_loop) no_faults [(demo_cached, Some demo2)] (Some demo1) demo_world"
proof -
  obtain s where s: "reachable_from (\<lambda>_. demo_loop) demo_loop no_faults 2
      (start_pipeline demo_loop (None, None) 1 [demo_cached] demo_cache (Some demo1) demo_world) s"
    "pl_history s = [(demo_cached, Some demo2)]"
    using first_save_worked [of 2 "\<lambda>_. demo_loop" demo_cached demo_loop no_faults "(None, None)" 1 "[]" demo_cache
      "Some demo1" demo_world "Some demo2"] by (auto simp: demo_loop_def)
  with tail_is_sequential [OF s(1)] show ?thesis by auto
qed

text \<open>C6: no save is lost. Opened on a directory with the names of the cache, with nothing failing
  outside, the tail can always be run to rest without another report; no run is longer than the count
  of the steps left; and where nothing moves any more, every save seeded or reported so far has been
  consumed, in order, and the tail waits for the next report or has returned.\<close>

theorem every_save_is_consumed:
  assumes "tidy c" and "seed_backlog os_fine source replaced usable last_snapshot c = (Some seeded, c')"
    and "0 < width" and "\<And>x. fine_env (env x)" and "le_os le = os_fine"
    and "reachable_from env le F width (start_pipeline le0 forensics n seeded c' last_snapshot w) s"
  shows "(\<exists>m s'. (inner_step env F width ^^ m) s s' \<and> at_rest s' \<and> map fst (pl_history s') = line s)
    \<and> (\<forall>m s'. (inner_step env F width ^^ m) s s' \<longrightarrow> m \<le> steps_left s
         \<and> ((\<forall>t. \<not> inner_step env F width s' t) \<longrightarrow> at_rest s' \<and> map fst (pl_history s') = line s))"
  using fine_run_rests [OF assms] fine_run [OF assms] rest_line by metis

lemma demo_seeded: "seed_backlog os_fine (Copied demo_file) True True (Some demo1) demo_cache =
    (Some [demo_cached], protect 1 (demo_cache\<lparr>sv_dir := [(cache_name 1, demo_file)], sv_next_seqno := 2\<rparr>))"
  using names_differ(3) [of 1 1]
  by (simp add: seed_backlog_def pending_def pending_in_def os_fine_def demo_cache_fields cache_save_def Let_def
      demo_cached_def demo_file_def dict_set_def remove_file_def del: One_nat_def)

theorem every_save_is_consumed_witness:
  "\<exists>m s'. (inner_step (\<lambda>_. demo_loop) no_faults 2 ^^ m)
       (start_pipeline demo_loop (None, None) 0 [demo_cached]
         (protect 1 (demo_cache\<lparr>sv_dir := [(cache_name 1, demo_file)], sv_next_seqno := 2\<rparr>)) (Some demo1) demo_world) s'
     \<and> at_rest s' \<and> map fst (pl_history s') = [demo_cached]"
  using every_save_is_consumed [OF demo_cache_tidy demo_seeded _ demo_fine(1) demo_fine(2) reachable_from.here,
      of 2 no_faults demo_loop "(None, None)" 0 demo_world] by auto

text \<open>C18: the cap on the cache is never enforced. Every save is protected the moment it enters the
  pipeline and its protection ends only with its deletion, so while nothing fails outside, no
  garbage collection of the tail ever takes a save, whatever the cap and however far the consumer is
  behind.\<close>

theorem cap_never_enforced:
  assumes "tidy c" and "seed_backlog os_fine source replaced usable last_snapshot c = (Some seeded, c')"
    and "\<And>x. fine_env (env x)" and "le_os le = os_fine"
    and "reachable_from env le F width (start_pipeline le0 forensics n seeded c' last_snapshot w) s"
  shows "sv_gc_drops_total (pl_cache s) = sv_gc_drops_total c
    \<and> (\<forall>max_bytes. snd (gc_oldest os_fine max_bytes (pl_cache s)) = pl_cache s)
    \<and> (\<forall>cs. pending os_fine (pl_cache s) = Inr cs \<longrightarrow> (\<forall>x\<in>set cs. cv_seqno x |\<in>| sv_protected (pl_cache s)))"
proof -
  have "cache_inv (sv_gc_drops_total c) s"
    by (rule inv_reachable [OF assms(5) seed_backlog_inv [OF assms(1,2)] assms(3,4)])
  then show ?thesis by (auto simp: cache_inv_def guarded_gc dest: guarded_pending)
qed

text \<open>A cap of nothing, ten bytes on disk.\<close>

theorem cap_never_enforced_witness:
  "snd (gc_oldest os_fine 0 (protect 1 (demo_cache\<lparr>sv_dir := [(cache_name 1, demo_file)], sv_next_seqno := 2\<rparr>)))
     = protect 1 (demo_cache\<lparr>sv_dir := [(cache_name 1, demo_file)], sv_next_seqno := 2\<rparr>)"
proof -
  let ?s = "start_pipeline demo_loop (None, None) 0 [demo_cached]
    (protect 1 (demo_cache\<lparr>sv_dir := [(cache_name 1, demo_file)], sv_next_seqno := 2\<rparr>)) (Some demo1) demo_world"
  have "snd (gc_oldest os_fine 0 (pl_cache ?s)) = pl_cache ?s"
    using cap_never_enforced [OF demo_cache_tidy demo_seeded demo_fine(1) demo_fine(2)
        reachable_from.here [of "\<lambda>_. demo_loop" demo_loop no_faults 2]] by blast
  then show ?thesis by (simp add: start_pipeline_def)
qed

text \<open>C35: the pipeline stays bounded: at most 50 entries on the queue and as many parses as the
  window is wide, in every state that any interleaving reaches.\<close>

theorem tail_stays_bounded:
  assumes "reachable_from env le F (window_width concurrency) (start_pipeline le0 forensics n seeded c last_snapshot w) s"
  shows "length (pl_queue s) \<le> 50 \<and> int (length (pl_window s)) \<le> max 1 concurrency"
  using reachable_ok [OF assms start_ok] by (auto simp: pipe_ok_def QUEUE_MAXSIZE_def window_width_def)

theorem tail_stays_bounded_witness:
  "\<exists>s. reachable_from (\<lambda>_. demo_loop) demo_loop no_faults (window_width 0)
       (start_pipeline demo_loop (None, None) 1 [demo_cached] demo_cache (Some demo1) demo_world) s
     \<and> pl_window s = [(demo_cached, Parsing)] \<and> int (length (pl_window s)) \<le> max 1 0"
proof -
  obtain s where s: "reachable_from (\<lambda>_. demo_loop) demo_loop no_faults (window_width 0)
      (start_pipeline demo_loop (None, None) 1 [demo_cached] demo_cache (Some demo1) demo_world) s"
    "pl_window s = [(demo_cached, Parsing)]"
    using first_save_parsing [of "window_width 0" "\<lambda>_. demo_loop" demo_loop no_faults "(None, None)" 1 demo_cached
      "[]" demo_cache "Some demo1" demo_world] by (auto simp: window_width_def)
  with tail_stays_bounded [OF s(1)] show ?thesis by auto
qed

text \<open>C29: the banner of the recovery closes. Started with a baseline to recover from, a tail that has
  come to rest has published exactly one frame that ends the recovery, whatever became of the seeded
  saves.\<close>

theorem recovery_banner_closes:
  assumes "reachable_from env le F width (start_pipeline le0 forensics n seeded c last_snapshot w) s"
    and "recovery_active le0 last_snapshot" and "at_rest s"
  shows "pl_recovery s = None \<and> closing_frames (pl_frames s) = 1"
  using assms by (rule banner_closes)

theorem recovery_banner_closes_witness:
  "\<exists>s. reachable_from (\<lambda>_. demo_loop) demo_loop no_faults 2
       (start_pipeline demo_loop (None, None) 0 [demo_cached]
         (protect 1 (demo_cache\<lparr>sv_dir := [(cache_name 1, demo_file)], sv_next_seqno := 2\<rparr>)) (Some demo1) demo_world) s
     \<and> at_rest s \<and> pl_recovery s = None \<and> closing_frames (pl_frames s) = 1"
proof -
  let ?s0 = "start_pipeline demo_loop (None, None) 0 [demo_cached]
    (protect 1 (demo_cache\<lparr>sv_dir := [(cache_name 1, demo_file)], sv_next_seqno := 2\<rparr>)) (Some demo1) demo_world"
  obtain m s where run: "(inner_step (\<lambda>_. demo_loop) no_faults 2 ^^ m) ?s0 s" "at_rest s"
    using fine_run_rests [OF demo_cache_tidy demo_seeded _ demo_fine(1) demo_fine(2) reachable_from.here,
      of 2 no_faults demo_loop "(None, None)" 0 demo_world] by auto
  have reach: "reachable_from (\<lambda>_. demo_loop) demo_loop no_faults 2 ?s0 s"
    by (rule reachable_run [OF run(1) reachable_from.here])
  from recovery_banner_closes [OF reach _ run(2)] run(2) reach show ?thesis
    by (auto simp: recovery_active_def demo_loop_def demo_env_def)
qed

text \<open>C33: one failing read of the registry ends the tail. The tracked characters are read outside the
  guard of the worker and of the loop: where that read raises for the first save of the backlog, the
  tail reaches a state from which neither a step of its own nor a report leads on, with every save
  unconsumed and the databases as they were.\<close>

theorem registry_failure_ends_tail:
  assumes "0 < width" and "le_registry_fails (env x)"
  shows "\<exists>s. reachable_from env le F width (start_pipeline le forensics n (x # xs) c last_snapshot w) s
    \<and> pl_history s = [] \<and> pl_world s = w
    \<and> (\<forall>t. \<not> inner_step env F width s t \<and> \<not> outer_step le' s t)"
  using first_save_breaks [where env = env and c = x, OF assms] crash_is_final by metis

theorem registry_failure_ends_tail_witness:
  "\<exists>s. reachable_from (\<lambda>_. demo_locked) demo_loop no_faults 2
       (start_pipeline demo_loop (None, None) 1 [demo_cached] demo_cache (Some demo1) demo_world) s
     \<and> pl_history s = [] \<and> pl_world s = demo_world
     \<and> (\<forall>t. \<not> inner_step (\<lambda>_. demo_locked) no_faults 2 s t \<and> \<not> outer_step demo_loop s t)"
  by (rule registry_failure_ends_tail) (simp_all add: demo_locked_def)

section \<open>The start of a campaign\<close>

text \<open>C34: whatever fails on the way, the first baseline of a campaign is the parsed save itself, and
  that save names the playthrough the campaign is pinned to, or none, or the campaign is not pinned.\<close>

theorem first_baseline_own_playthrough:
  assumes "process_save le cached parsed None F w = ((err, Some s), w')"
  shows "parsed = Some s \<and> (sn_playthrough_id s = []
    \<or> get_meta (w_db w) PLAYTHROUGH_ID_META_KEY \<in> {None, Some (sn_playthrough_id s)})"
  using assms by (rule first_baseline_gate)

theorem first_baseline_own_playthrough_witness:
  "\<exists>err s w'. process_save demo_loop demo_cached (Some demo1) None no_faults demo_world = ((err, Some s), w')
     \<and> s = demo1"
proof -
  have "process_save demo_loop demo_cached (Some demo1) None no_faults demo_world
      = establish demo_loop demo1 no_faults (snd (choose_plan demo_loop demo_cached (Some demo1) None no_faults demo_world))"
    by (simp add: process_save_def choose_plan_def plan_first_def foreign_sidecar_def demo_cached_def demo_loop_def
        run_plan_def bind_op_def mismatch_of_def catch_op_def session_scope_def rollback_on_error_def assert_op_def
        db_op_def statement_no_faults assert_playthrough_or_pin_def return_op_def demo_world_def get_meta_def empty_db_def
        Let_def)
  then obtain err w' where run: "process_save demo_loop demo_cached (Some demo1) None no_faults demo_world
      = ((err, Some demo1), w')" by (metis establish_last prod.exhaust)
  from first_baseline_own_playthrough [OF run] run show ?thesis by blast
qed

text \<open>A current save without a playthrough identifier passes the check at start-up, where blank
  means unknown, and is then taken for a foreign one: the persisted baseline is dropped and every save
  that waits in the cache is deleted unread.\<close>

theorem blank_current_save_discards_backlog:
  assumes "sn_playthrough_id cur = []" and "sn_playthrough_id b \<noteq> []" and "pending os_fine c = Inr cs"
  shows "\<exists>w' c'. startup_save (Some (path, Some cur)) no_faults w = (Inr (Some path, Some cur), w')
    \<and> select_starting_baseline os_fine (Some b) (Some cur) c = (Inr None, c')
    \<and> (\<forall>s\<in>set cs. dict_get (sv_dir c') (cv_path s) = None)"
  using blank_save_discards_backlog [OF assms] by blast

theorem blank_current_save_discards_backlog_witness:
  "\<exists>c'. select_starting_baseline os_fine (Some demo1) (Some (demo1\<lparr>sn_playthrough_id := []\<rparr>))
       (demo_cache\<lparr>sv_dir := [(cache_name 1, demo_file)]\<rparr>) = (Inr None, c')
     \<and> dict_get (sv_dir c') (cache_name 1) = None"
proof -
  have pid: "sn_playthrough_id demo1 \<noteq> []" by (simp add: demo_saves)
  have "pending os_fine (demo_cache\<lparr>sv_dir := [(cache_name 1, demo_file)]\<rparr>) = Inr [demo_cached]"
    using seqno_cache_name [of 1] names_differ(1) [of "cache_name 1" 1]
    by (simp add: pending_def pending_in_def pending_entry_def read_playthrough_sidecar_def os_fine_def demo_cached_def
        demo_file_def del: One_nat_def)
  from blank_current_save_discards_backlog [OF _ pid this, of "demo1\<lparr>sn_playthrough_id := []\<rparr>" "''a.ck3''" demo_world]
  show ?thesis by (auto simp: demo_cached_def)
qed

section \<open>The cache\<close>

text \<open>What is cached comes out again: with the directory as the cache keeps it and a working
  operating system, a save that was cached is listed as pending, with its number, size and name, behind
  all that were pending before, whose entries are untouched.\<close>

theorem cached_save_listed_last:
  assumes "cache_ok c" and "sv_next_seqno c < 10 ^ 12"
    and "dict_get (sv_dir c) (sidecar_path_for (cache_name (sv_next_seqno c))) = None"
    and "pending os_fine c = Inr cs" and "cache_save os_fine (Copied f) True c = (Some cached, c')"
  shows "pending os_fine c' = Inr (cs @ [cached]) \<and> cache_ok c'
    \<and> (\<forall>b\<in>set cs. cv_seqno b < cv_seqno cached) \<and> sv_protected c' = sv_protected c"
  using assms by (rule cached_comes_last)

theorem cached_save_listed_last_witness:
  "pending os_fine (snd (cache_save os_fine (Copied demo_file) True demo_cache)) = Inr [demo_cached]"
proof -
  have "cache_ok demo_cache" using demo_cache_tidy by (simp add: tidy_def)
  moreover have "cache_save os_fine (Copied demo_file) True demo_cache =
      (Some demo_cached, demo_cache\<lparr>sv_dir := [(cache_name 1, demo_file)], sv_next_seqno := 2\<rparr>)"
    using names_differ(3) [of 1 1]
    by (simp add: os_fine_def demo_cache_fields cache_save_def Let_def
        demo_cached_def demo_file_def dict_set_def remove_file_def del: One_nat_def)
  moreover have "pending os_fine demo_cache = Inr []"
    by (simp add: pending_def pending_in_def os_fine_def demo_cache_fields)
  ultimately show ?thesis using cached_save_listed_last [of demo_cache "[]" demo_file demo_cached]
    by (simp add: demo_cache_fields)
qed

text \<open>C28: if no operation on a file fails, the garbage collection takes the oldest unprotected saves with their sidecars, and no more
  than it must: afterwards the rest fits under the cap or only protected saves are left, and before
  each of its deletions the cap was exceeded. Protected saves stay, and the counter of drops is exact.\<close>

theorem gc_takes_no_more_than_it_must:
  assumes "pending os_fine c = Inr cs" and "gc_oldest os_fine max_bytes c = (Inr deleted, c')"
  shows "\<exists>victims. victims = take deleted (filter (\<lambda>s. cv_seqno s |\<notin>| sv_protected c) cs) \<and> length victims = deleted
    \<and> sv_dir c' = removed (sv_dir c) victims \<and> sv_gc_drops_total c' = sv_gc_drops_total c + deleted
    \<and> (total_size cs - total_size victims \<le> max_bytes
       \<or> victims = filter (\<lambda>s. cv_seqno s |\<notin>| sv_protected c) cs)
    \<and> (\<forall>j<deleted. max_bytes < total_size cs - total_size (take j victims))"
  using gc_takes_oldest [OF assms] by blast

theorem gc_takes_no_more_than_it_must_witness:
  "\<exists>c'. gc_oldest os_fine 5 (demo_cache\<lparr>sv_dir := [(cache_name 1, demo_file)]\<rparr>) = (Inr 1, c')
     \<and> sv_dir c' = removed [(cache_name 1, demo_file)] [demo_cached]"
proof -
  let ?c = "demo_cache\<lparr>sv_dir := [(cache_name 1, demo_file)]\<rparr>"
  have pend: "pending os_fine ?c = Inr [demo_cached]"
    using seqno_cache_name [of 1] names_differ(1) [of "cache_name 1" 1]
    by (simp add: pending_def pending_in_def pending_entry_def read_playthrough_sidecar_def os_fine_def demo_cached_def
        demo_file_def del: One_nat_def)
  obtain c' where c': "gc_oldest os_fine 5 ?c = (Inr 1, c')"
    by (simp add: gc_oldest_def pend del: One_nat_def)
      (simp add: total_size_def demo_cached_def os_fine_def Let_def demo_cache_fields)
  from gc_takes_no_more_than_it_must [OF pend c'] c' show ?thesis
    by (auto simp: demo_cache_fields)
qed

end
