(* ===== verification/Py_Text.thy ===== *)
theory Py_Text
  imports Prelude Dates
begin

text \<open>
  Splitting and joining texts.
\<close>

fun split_on :: "char \<Rightarrow> string \<Rightarrow> string list" where
  "split_on d [] = [[]]"
| "split_on d (c # cs) =
     (if c = d then [] # split_on d cs
      else case split_on d cs of [] \<Rightarrow> [[c]] | p # ps \<Rightarrow> (c # p) # ps)"

fun join_with :: "string \<Rightarrow> string list \<Rightarrow> string" where
  "join_with d [] = []"
| "join_with d [p] = p"
| "join_with d (p # ps) = p @ d @ join_with d ps"

lemma split_on_nonempty: "split_on d s \<noteq> []"
  by (induction s) (auto split: list.split)

lemma split_on_free: "d \<notin> set p \<Longrightarrow> split_on d p = [p]"
  by (induction p) auto

lemma split_on_at: "d \<notin> set p \<Longrightarrow> split_on d (p @ d # rest) = p # split_on d rest"
  by (induction p) (auto split: list.split)

lemma split_join: "ps \<noteq> [] \<Longrightarrow> (\<forall>p\<in>set ps. d \<notin> set p) \<Longrightarrow> split_on d (join_with [d] ps) = ps"
proof (induction ps)
  case (Cons p ps)
  then show ?case by (cases ps) (simp_all add: split_on_free split_on_at)
qed simp

lemma join_with_append: "ps \<noteq> [] \<Longrightarrow> join_with d (ps @ [p]) = join_with d ps @ d @ p"
  by (induction d ps rule: join_with.induct) simp_all

text \<open>
  Regular expressions as Python's \<open>re\<close> matches them, by backtracking: the matches of an expression at
  a place in the order in which they are tried. The classes \<open>\d\<close>, \<open>\s\<close> and \<open>\w\<close> are those of ASCII text.
\<close>

section \<open>Expressions\<close>

text \<open>\<open>Many\<close> is greedy and \<open>Few\<close> is lazy; \<open>Cap\<close> is a group that is read.\<close>

datatype rx =
    Eps
  | One "char \<Rightarrow> bool"
  | Bol
  | Eol
  | Seq rx rx
  | Alt rx rx
  | Many rx
  | Few rx
  | Cap rx

text \<open>Where the matcher stands: whether at the beginning, and what is left.\<close>

type_synonym place = "bool \<times> string"

type_synonym matching = "string list \<times> place"

section \<open>Matching\<close>

text \<open>A repetition goes on only if the text got shorter.\<close>

function repeat :: "bool \<Rightarrow> (place \<Rightarrow> matching list) \<Rightarrow> place \<Rightarrow> matching list" where
  "repeat greedy f p =
     (let more = concat (map (\<lambda>(caps, q).
            if length (snd q) < length (snd p)
            then map (\<lambda>(caps', r). (caps @ caps', r)) (repeat greedy f q) else []) (f p))
      in if greedy then more @ [([], p)] else ([], p) # more)"
  by pat_completeness auto

termination
  by (relation "measure (\<lambda>(greedy, f, p). length (snd p))") auto

declare repeat.simps [simp del]

primrec matches :: "rx \<Rightarrow> place \<Rightarrow> matching list" where
  "matches Eps p = [([], p)]"
| "matches (One f) p = (case snd p of [] \<Rightarrow> [] | c # cs \<Rightarrow> if f c then [([], (False, cs))] else [])"
| "matches Bol p = (if fst p then [([], p)] else [])"
| "matches Eol p = (if snd p \<in> {[], [CHR 0x0A]} then [([], p)] else [])"
| "matches (Seq r s) p =
     concat (map (\<lambda>(caps, q). map (\<lambda>(caps', q'). (caps @ caps', q')) (matches s q)) (matches r p))"
| "matches (Alt r s) p = matches r p @ matches s p"
| "matches (Many r) p = repeat True (matches r) p"
| "matches (Few r) p = repeat False (matches r) p"
| "matches (Cap r) p =
     map (\<lambda>(caps, q). (take (length (snd p) - length (snd q)) (snd p) # caps, q)) (matches r p)"

text \<open>\<open>re.match\<close> and \<open>re.search\<close>: the groups of the first match, at the beginning or anywhere.\<close>

definition match_at :: "rx \<Rightarrow> place \<Rightarrow> string list option" where
  "match_at r p = (case matches r p of [] \<Rightarrow> None | (caps, q) # ms \<Rightarrow> Some caps)"

definition re_match :: "rx \<Rightarrow> string \<Rightarrow> string list option" where
  "re_match r s = match_at r (True, s)"

fun search_from :: "rx \<Rightarrow> bool \<Rightarrow> string \<Rightarrow> string list option" where
  "search_from r start s =
     (case match_at r (start, s) of
        Some caps \<Rightarrow> Some caps
      | None \<Rightarrow> (case s of [] \<Rightarrow> None | c # cs \<Rightarrow> search_from r False cs))"

declare search_from.simps [simp del]

definition re_search :: "rx \<Rightarrow> string \<Rightarrow> string list option" where
  "re_search r s = search_from r True s"

section \<open>Building blocks\<close>

definition seqs :: "rx list \<Rightarrow> rx" where
  "seqs rs = foldr Seq rs Eps"

definition text_rx :: "string \<Rightarrow> rx" where
  "text_rx s = seqs (map (\<lambda>c. One (\<lambda>d. d = c)) s)"

definition digit_rx :: rx where
  "digit_rx = One is_digit"

definition space_rx :: rx where
  "space_rx = One is_space"

text \<open>\<open>.\<close>: anything but the line feed.\<close>

definition any_rx :: rx where
  "any_rx = One (\<lambda>c. c \<noteq> CHR 0x0A)"

definition plus :: "rx \<Rightarrow> rx" where
  "plus r = Seq r (Many r)"

definition lazy_plus :: "rx \<Rightarrow> rx" where
  "lazy_plus r = Seq r (Few r)"

definition opt :: "rx \<Rightarrow> rx" where
  "opt r = Alt r Eps"

lemmas rx_defs = seqs_def text_rx_def digit_rx_def space_rx_def any_rx_def plus_def lazy_plus_def opt_def

end
