(* ===== verification/Codec.thy ===== *)
theory Codec
  imports Raw_Record Py_Text
begin

text \<open>
  The generic codec between dataclasses and JSON, \<open>save/dataclass_codec.py\<close>: the encoder goes by the
  values, the decoder by the types of the fields.
\<close>

section \<open>Values and types\<close>

text \<open>The values of the snapshot's graph. A frozenset is listed in the order of its iteration; anything
  else that Python has is \<open>POther\<close>. Values of different types that compare equal (\<open>1\<close>, \<open>1.0\<close>, \<open>True\<close>)
  are kept apart.\<close>

datatype pyval =
    PNone
  | PBool bool
  | PInt int
  | PFloat rat
  | PStr string
  | PTuple "pyval list"
  | PList "pyval list"
  | PSet "pyval list"
  | PDict "(pyval \<times> pyval) list"
  | PData string "(string \<times> pyval) list"
  | POther

text \<open>Resolved type hints; \<open>TPlain\<close> is a class without parameters that is no dataclass, such as \<open>dict\<close>.\<close>

datatype pytype =
    TInt
  | TFloat
  | TStr
  | TBool
  | TPlain
  | TOptional pytype
  | TTupleOf pytype
  | TTuple "pytype list"
  | TFrozenset pytype
  | TList pytype
  | TDict pytype pytype
  | TData string

text \<open>\<open>fields(cls)\<close>: name, type, and the value of the default or its factory.\<close>

record field_info =
  fi_name :: string
  fi_type :: pytype
  fi_default :: "pyval option"

type_synonym classes = "(string, field_info list) dict"

fun mapr :: "('a \<Rightarrow> 'b result) \<Rightarrow> 'a list \<Rightarrow> 'b list result" where
  "mapr f [] = Inr []"
| "mapr f (x # xs) = bindr (f x) (\<lambda>y. bindr (mapr f xs) (\<lambda>ys. Inr (y # ys)))"

lemma mapr_cong [fundef_cong]: "xs = ys \<Longrightarrow> (\<And>x. x \<in> set ys \<Longrightarrow> f x = g x) \<Longrightarrow> mapr f xs = mapr g ys"
  by (induction ys arbitrary: xs) auto

section \<open>Encoding\<close>

definition int_items :: "json list \<Rightarrow> int list option" where
  "int_items js = those (map (\<lambda>j. case j of JInt i \<Rightarrow> Some i | _ \<Rightarrow> None) js)"

definition str_items :: "json list \<Rightarrow> string list option" where
  "str_items js = those (map (\<lambda>j. case j of JStr s \<Rightarrow> Some s | _ \<Rightarrow> None) js)"

definition row_items :: "json list \<Rightarrow> int list list option" where
  "row_items js = those (map (\<lambda>j. case j of JArr xs \<Rightarrow> int_items xs | _ \<Rightarrow> None) js)"

text \<open>\<open>sorted(items)\<close> for integers, texts and arrays of integers; a mixture keeps its order.\<close>

definition sorted_members :: "json list \<Rightarrow> json list" where
  "sorted_members js =
     (case int_items js of
        Some xs \<Rightarrow> map JInt (sort xs)
      | None \<Rightarrow> (case str_items js of
            Some xs \<Rightarrow> map JStr (sort xs)
          | None \<Rightarrow> (case row_items js of
                Some xs \<Rightarrow> map (\<lambda>r. JArr (map JInt r)) (sort xs)
              | None \<Rightarrow> js)))"

text \<open>\<open>str(part)\<close> of an integer and of a text; \<open>str_of\<close> is \<open>str\<close> of anything else.\<close>

definition key_text :: "(pyval \<Rightarrow> string) \<Rightarrow> pyval \<Rightarrow> string" where
  "key_text str_of k = (case k of PInt i \<Rightarrow> show_int i | PStr s \<Rightarrow> s | _ \<Rightarrow> str_of k)"

definition encode_key :: "(pyval \<Rightarrow> string) \<Rightarrow> pyval \<Rightarrow> string" where
  "encode_key str_of k =
     (case k of PTuple parts \<Rightarrow> join_with '':'' (map (key_text str_of) parts) | _ \<Rightarrow> key_text str_of k)"

fun to_jsonable :: "(pyval \<Rightarrow> string) \<Rightarrow> pyval \<Rightarrow> json result" where
  "to_jsonable str_of PNone = Inr JNull"
| "to_jsonable str_of (PBool b) = Inr (JBool b)"
| "to_jsonable str_of (PInt i) = Inr (JInt i)"
| "to_jsonable str_of (PFloat r) = Inr (JFloat r)"
| "to_jsonable str_of (PStr s) = Inr (JStr s)"
| "to_jsonable str_of (PData c fvs) =
     bindr (mapr (\<lambda>(n, v). bindr (to_jsonable str_of v) (\<lambda>j. Inr (n, j))) fvs) (\<lambda>kvs. Inr (JObj (dict_of_pairs kvs)))"
| "to_jsonable str_of (PSet vs) = bindr (mapr (to_jsonable str_of) vs) (\<lambda>js. Inr (JArr (sorted_members js)))"
| "to_jsonable str_of (PTuple vs) = bindr (mapr (to_jsonable str_of) vs) (\<lambda>js. Inr (JArr js))"
| "to_jsonable str_of (PList vs) = bindr (mapr (to_jsonable str_of) vs) (\<lambda>js. Inr (JArr js))"
| "to_jsonable str_of (PDict kvs) =
     bindr (mapr (\<lambda>(k, v). bindr (to_jsonable str_of v) (\<lambda>j. Inr (encode_key str_of k, j))) kvs)
       (\<lambda>kvs. Inr (JObj (dict_of_pairs kvs)))"
| "to_jsonable str_of POther = Inl BadType"

section \<open>Decoding\<close>

text \<open>A JSON value as it is.\<close>

fun plain :: "json \<Rightarrow> pyval" where
  "plain JNull = PNone"
| "plain (JBool b) = PBool b"
| "plain (JInt i) = PInt i"
| "plain (JFloat r) = PFloat r"
| "plain (JStr s) = PStr s"
| "plain (JArr js) = PList (map plain js)"
| "plain (JObj d) = PDict (map (\<lambda>(k, j). (PStr k, plain j)) d)"

text \<open>\<open>for v in value\<close>: the elements of a list, the keys of a dictionary, the characters of a text.\<close>

fun iterate :: "json \<Rightarrow> json list result" where
  "iterate (JArr js) = Inr js"
| "iterate (JObj d) = Inr (map (\<lambda>(k, j). JStr k) d)"
| "iterate (JStr s) = Inr (map (\<lambda>c. JStr [c]) s)"
| "iterate _ = Inl BadType"

fun hashable :: "pyval \<Rightarrow> bool" where
  "hashable (PList vs) = False"
| "hashable (PDict kvs) = False"
| "hashable (PTuple vs) = (\<forall>v\<in>set vs. hashable v)"
| "hashable (PData c fvs) = (\<forall>fv\<in>set fvs. hashable (snd fv))"
| "hashable _ = True"

text \<open>The first occurrence of every value.\<close>

fun distinct_values :: "'a list \<Rightarrow> 'a list" where
  "distinct_values [] = []"
| "distinct_values (x # xs) = x # filter (\<lambda>y. y \<noteq> x) (distinct_values xs)"

definition make_set :: "pyval list \<Rightarrow> pyval result" where
  "make_set vs = (if \<forall>v\<in>set vs. hashable v then Inr (PSet (distinct_values vs)) else Inl BadType)"

definition decode_scalar_key :: "pytype \<Rightarrow> string \<Rightarrow> pyval result" where
  "decode_scalar_key t key =
     (case t of
        TInt \<Rightarrow> (case int_of_text key of None \<Rightarrow> Inl ValueError | Some i \<Rightarrow> Inr (PInt i))
      | TFloat \<Rightarrow> (case float_of_text key of None \<Rightarrow> Inl ValueError | Some r \<Rightarrow> Inr (PFloat r))
      | _ \<Rightarrow> Inr (PStr key))"

text \<open>\<open>zip(value, args, strict=True)\<close>: the pairs first, the difference in length afterwards.\<close>

definition strict :: "'a list \<Rightarrow> 'b list \<Rightarrow> 'c \<Rightarrow> 'c result" where
  "strict xs ys r = (if length xs = length ys then Inr r else Inl ValueError)"

definition decode_key :: "pytype \<Rightarrow> string \<Rightarrow> pyval result" where
  "decode_key t key =
     (case t of
        TTupleOf a \<Rightarrow> bindr (mapr (decode_scalar_key a) (split_on (CHR '':'') key)) (\<lambda>vs. Inr (PTuple vs))
      | TTuple args \<Rightarrow> bindr (mapr (\<lambda>(p, a). decode_scalar_key a p) (zip (split_on (CHR '':'') key) args))
          (\<lambda>vs. strict (split_on (CHR '':'') key) args (PTuple vs))
      | _ \<Rightarrow> decode_scalar_key t key)"

lemma iterate_size: "iterate v = Inr xs \<Longrightarrow> x \<in> set xs \<Longrightarrow> size x \<le> size v"
proof (cases v)
  case (JArr js)
  assume "iterate v = Inr xs" "x \<in> set xs"
  then show ?thesis using JArr by (auto dest: size_list_estimation' [OF _ le_refl, of _ _ size])
next
  case (JObj d)
  assume "iterate v = Inr xs" "x \<in> set xs"
  then show ?thesis using JObj by auto
qed auto

lemma field_size: "dict_get d n = Some j \<Longrightarrow> size j < size (JObj d)"
  by (auto dest!: dict_get_memD size_list_estimation' [OF _ le_refl, of _ _ "size_prod (\<lambda>_. 0) size"])

lemma member_type_size: "(x, a) \<in> set (zip xs args) \<Longrightarrow> x \<in> set xs \<and> size a < size (TTuple args)"
proof -
  assume m: "(x, a) \<in> set (zip xs args)"
  then have "a \<in> set args" by (rule set_zip_rightD)
  then have "size a \<le> size_list size args" by (rule size_list_estimation') simp
  with m show ?thesis by (auto dest: set_zip_leftD)
qed

lemma entry_size: "(k, j) \<in> set d \<Longrightarrow> size j \<le> size (JObj d)"
  by (auto dest!: size_list_estimation' [OF _ le_refl, of _ _ "size_prod (\<lambda>_. 0) size"])

text \<open>\<open>_decode\<close>, with \<open>_decode_dataclass\<close> written into its branch. \<open>classes\<close> is what reflection tells of
  the dataclasses.\<close>

function decode :: "classes \<Rightarrow> pytype \<Rightarrow> json \<Rightarrow> pyval result" where
  "decode classes t v =
     (if v = JNull then Inr PNone
      else case t of
        TOptional a \<Rightarrow> decode classes a v
      | TData c \<Rightarrow>
          (case v of
             JObj data \<Rightarrow>
               bindr (mapr (\<lambda>f. case dict_get data (fi_name f) of
                   Some j \<Rightarrow> bindr (decode classes (fi_type f) j) (\<lambda>x. Inr (fi_name f, x))
                 | None \<Rightarrow> (case fi_default f of
                       Some d \<Rightarrow> Inr (fi_name f, d)
                     | None \<Rightarrow> (case fi_type f of TOptional _ \<Rightarrow> Inr (fi_name f, PNone) | _ \<Rightarrow> Inl KeyError)))
                 (dict_get_default classes c []))
               (\<lambda>kwargs. Inr (PData c kwargs))
           | _ \<Rightarrow> Inl BadType)
      | TTupleOf a \<Rightarrow> (case iterate v of
            Inl e \<Rightarrow> Inl e
          | Inr xs \<Rightarrow> bindr (mapr (decode classes a) xs) (\<lambda>vs. Inr (PTuple vs)))
      | TTuple args \<Rightarrow> (case iterate v of
            Inl e \<Rightarrow> Inl e
          | Inr xs \<Rightarrow> bindr (mapr (\<lambda>(x, a). decode classes a x) (zip xs args)) (\<lambda>vs. strict xs args (PTuple vs)))
      | TFrozenset a \<Rightarrow> (case iterate v of
            Inl e \<Rightarrow> Inl e
          | Inr xs \<Rightarrow> bindr (mapr (decode classes a) xs) make_set)
      | TList a \<Rightarrow> (case iterate v of
            Inl e \<Rightarrow> Inl e
          | Inr xs \<Rightarrow> bindr (mapr (decode classes a) xs) (\<lambda>vs. Inr (PList vs)))
      | TDict k a \<Rightarrow> (case v of
            JObj d \<Rightarrow> bindr (mapr (\<lambda>(key, j). bindr (decode_key k key) (\<lambda>key'.
                bindr (decode classes a j) (\<lambda>x. Inr (key', x)))) d) (\<lambda>kvs. Inr (PDict (dict_of_pairs kvs)))
          | _ \<Rightarrow> Inl AttributeError)
      | TFloat \<Rightarrow> (case v of JInt i \<Rightarrow> Inr (PFloat (of_int i)) | _ \<Rightarrow> Inr (plain v))
      | _ \<Rightarrow> Inr (plain v))"
  by pat_completeness auto

termination
  by (relation "measures [\<lambda>(classes, t, v). size v, \<lambda>(classes, t, v). size t]")
    (auto dest: iterate_size field_size member_type_size entry_size simp: le_less)

declare decode.simps [simp del]

definition from_jsonable :: "classes \<Rightarrow> string \<Rightarrow> json \<Rightarrow> pyval result" where
  "from_jsonable classes cls data = decode classes (TData cls) data"

text \<open>
  What the codec encodes it decodes to the same value: \<open>fits\<close> says which values of a type come back.
\<close>

section \<open>The values that come back\<close>

text \<open>Values that are JSON already: what an untyped field holds.\<close>

fun json_like :: "pyval \<Rightarrow> bool" where
  "json_like (PList vs) = (\<forall>v\<in>set vs. json_like v)"
| "json_like (PDict kvs) = (distinct (map fst kvs) \<and> (\<forall>kv\<in>set kvs. (\<exists>s. fst kv = PStr s) \<and> json_like (snd kv)))"
| "json_like (PTuple vs) = False"
| "json_like (PSet vs) = False"
| "json_like (PData c fvs) = False"
| "json_like POther = False"
| "json_like v = True"

text \<open>Keys that are read back: integers of at most 4300 digits, texts for a plain type, pairs of such
  integers.\<close>

fun key_part_fits :: "pytype \<Rightarrow> pyval \<Rightarrow> bool" where
  "key_part_fits TInt (PInt i) = readable i"
| "key_part_fits _ _ = False"

fun key_fits :: "pytype \<Rightarrow> pyval \<Rightarrow> bool" where
  "key_fits (TTuple args) (PTuple parts) = (parts \<noteq> [] \<and> list_all2 key_part_fits args parts)"
| "key_fits (TTupleOf a) (PTuple parts) = (parts \<noteq> [] \<and> (\<forall>p\<in>set parts. key_part_fits a p))"
| "key_fits TStr (PStr s) = True"
| "key_fits TInt (PInt i) = readable i"
| "key_fits _ _ = False"

text \<open>A frozenset is listed in the order of its encoding.\<close>

definition in_order :: "(pyval \<Rightarrow> string) \<Rightarrow> pyval list \<Rightarrow> bool" where
  "in_order str_of vs \<longleftrightarrow> distinct vs \<and> (\<forall>v\<in>set vs. hashable v)
     \<and> (\<forall>js. mapr (to_jsonable str_of) vs = Inr js \<longrightarrow> sorted_members js = js)"

inductive fits :: "(pyval \<Rightarrow> string) \<Rightarrow> classes \<Rightarrow> pytype \<Rightarrow> pyval \<Rightarrow> bool" for str_of classes where
  absent: "fits str_of classes (TOptional t) PNone"
| present: "fits str_of classes t v \<Longrightarrow> v \<noteq> PNone \<Longrightarrow> fits str_of classes (TOptional t) v"
| leaf: "t \<in> {TInt, TStr, TBool, TPlain} \<Longrightarrow> json_like v \<Longrightarrow> v \<noteq> PNone \<Longrightarrow> fits str_of classes t v"
| float: "fits str_of classes TFloat (PFloat r)"
| tuple_of: "(\<forall>v\<in>set vs. fits str_of classes t v) \<Longrightarrow> fits str_of classes (TTupleOf t) (PTuple vs)"
| tuple: "list_all2 (fits str_of classes) ts vs \<Longrightarrow> fits str_of classes (TTuple ts) (PTuple vs)"
| frozenset: "(\<forall>v\<in>set vs. fits str_of classes t v) \<Longrightarrow> in_order str_of vs \<Longrightarrow> fits str_of classes (TFrozenset t) (PSet vs)"
| list: "(\<forall>v\<in>set vs. fits str_of classes t v) \<Longrightarrow> fits str_of classes (TList t) (PList vs)"
| dict: "distinct (map fst kvs) \<Longrightarrow> (\<forall>kv\<in>set kvs. key_fits k (fst kv) \<and> fits str_of classes t (snd kv)) \<Longrightarrow>
    fits str_of classes (TDict k t) (PDict kvs)"
| data: "dict_get classes c = Some fs \<Longrightarrow> map fst fvs = map fi_name fs \<Longrightarrow> distinct (map fi_name fs) \<Longrightarrow>
    list_all2 (\<lambda>f fv. fits str_of classes (fi_type f) (snd fv)) fs fvs \<Longrightarrow> fits str_of classes (TData c) (PData c fvs)"

section \<open>Lists with errors\<close>

lemma mapr_map: "(\<And>x. x \<in> set xs \<Longrightarrow> f x = Inr (g x)) \<Longrightarrow> mapr f xs = Inr (map g xs)"
  by (induction xs) auto

lemma mapr_length: "mapr f xs = Inr ys \<Longrightarrow> length ys = length xs"
  by (induction xs arbitrary: ys) (auto simp: bindr_eq_Inr)

text \<open>Where every element has an image and every image leads back, so do the lists.\<close>

lemma mapr_back:
  assumes "\<And>x. x \<in> set xs \<Longrightarrow> \<exists>y. f x = Inr y \<and> g y = Inr x"
  shows "\<exists>ys. mapr f xs = Inr ys \<and> mapr g ys = Inr xs"
  using assms
proof (induction xs)
  case (Cons x xs)
  obtain y where "f x = Inr y" "g y = Inr x" using Cons.prems [of x] by auto
  moreover obtain ys where "mapr f xs = Inr ys" "mapr g ys = Inr xs" using Cons by auto
  ultimately show ?case by auto
qed simp

lemma mapr_back2:
  assumes "list_all2 (\<lambda>t x. \<exists>y. f x = Inr y \<and> g (y, t) = Inr x) ts xs"
  shows "\<exists>ys. mapr f xs = Inr ys \<and> length ys = length ts \<and> mapr g (zip ys ts) = Inr xs"
  using assms
proof (induction rule: list_all2_induct)
  case (Cons t ts x xs)
  then obtain y ys where "f x = Inr y" "g (y, t) = Inr x" "mapr f xs = Inr ys" "length ys = length ts"
    "mapr g (zip ys ts) = Inr xs" by auto
  then show ?case by auto
qed simp

lemma dict_of_pairs_id: "distinct (map fst kvs) \<Longrightarrow> dict_of_pairs kvs = kvs"
proof -
  have "foldl (\<lambda>d (k, v). dict_set d k v) acc kvs = acc @ kvs" if "distinct (map fst (acc @ kvs))"
    for acc :: "('a \<times> 'b) list" and kvs
    using that
  proof (induction kvs arbitrary: acc)
    case (Cons kv kvs)
    obtain k v where kv: "kv = (k, v)" by force
    have "k \<notin> fst ` set acc" using Cons.prems kv by auto
    then have "dict_set acc k v = acc @ [(k, v)]" unfolding dict_set_def
      by (induction acc) auto
    with Cons.IH [of "acc @ [kv]"] Cons.prems kv show ?case by simp
  qed simp
  from this [of "[]" kvs] show "distinct (map fst kvs) \<Longrightarrow> dict_of_pairs kvs = kvs" by (simp add: dict_of_pairs_def)
qed

lemma distinct_values_id: "distinct xs \<Longrightarrow> distinct_values xs = xs"
  by (induction xs) (auto simp: filter_id_conv)

section \<open>Plain values\<close>

lemma plain_back: "json_like v \<Longrightarrow> \<exists>j. to_jsonable str_of v = Inr j \<and> plain j = v \<and> (j = JNull \<longleftrightarrow> v = PNone)"
proof (induction v rule: json_like.induct)
  case (1 vs)
  then obtain g where "\<And>v. v \<in> set vs \<Longrightarrow> to_jsonable str_of v = Inr (g v) \<and> plain (g v) = v"
    by (metis json_like.simps(1))
  then show ?case using mapr_map [of vs "to_jsonable str_of" g] by (simp add: map_idI)
next
  case (2 kvs)
  then obtain g where g: "\<And>kv. kv \<in> set kvs \<Longrightarrow> to_jsonable str_of (snd kv) = Inr (g kv) \<and> plain (g kv) = snd kv"
    by (metis json_like.simps(2))
  define ktext where "ktext = (\<lambda>k. case k of PStr s \<Rightarrow> s | _ \<Rightarrow> '''')"
  have keys: "\<exists>s. fst kv = PStr s" if "kv \<in> set kvs" for kv using 2(2) that by auto
  have enc: "mapr (\<lambda>(k, v). bindr (to_jsonable str_of v) (\<lambda>j. Inr (encode_key str_of k, j))) kvs
      = Inr (map (\<lambda>kv. (ktext (fst kv), g kv)) kvs)"
    using g keys by (intro mapr_map) (force simp: encode_key_def key_text_def ktext_def)
  have "inj_on ktext (fst ` set kvs)"
    by (rule inj_on_inverseI [where g = PStr]) (use keys in \<open>force simp: ktext_def\<close>)
  moreover have "map fst (map (\<lambda>kv. (ktext (fst kv), g kv)) kvs) = map ktext (map fst kvs)" by simp
  ultimately have "distinct (map fst (map (\<lambda>kv. (ktext (fst kv), g kv)) kvs))"
    using 2(2) by (simp only: distinct_map set_map json_like.simps)
  moreover have "map (\<lambda>(k, j). (PStr k, plain j)) (map (\<lambda>kv. (ktext (fst kv), g kv)) kvs) = kvs"
    using g keys by (auto intro!: map_idI simp: ktext_def) force
  ultimately show ?case using enc by (simp add: dict_of_pairs_id)
qed auto

section \<open>Keys\<close>

lemma show_int_free: "CHR '':'' \<notin> set (show_int i)"
proof -
  have "CHR '':'' \<notin> set (show_nat n)" for n using show_nat_digits [of n] by (auto simp: is_digit_def)
  then show ?thesis by (simp add: show_int_def)
qed

lemma key_part_back:
  assumes "key_part_fits t p"
  shows "decode_scalar_key t (key_text str_of p) = Inr p" and "CHR '':'' \<notin> set (key_text str_of p)"
  using assms by (cases t; cases p; simp add: decode_scalar_key_def key_text_def int_of_show_int show_int_free)+

lemma mapr_all2: "list_all2 (\<lambda>x y. f x = Inr y) xs ys \<Longrightarrow> mapr f xs = Inr ys"
  by (induction rule: list_all2_induct) simp_all

lemma key_back: "key_fits t k \<Longrightarrow> decode_key t (encode_key str_of k) = Inr k"
proof (induction t k rule: key_fits.induct)
  case (1 args parts)
  let ?ps = "map (key_text str_of) parts"
  have "CHR '':'' \<notin> set p" if "p \<in> set ?ps" for p
    using 1 that key_part_back(2) by (fastforce simp: list_all2_conv_all_nth in_set_conv_nth)
  then have ps: "split_on (CHR '':'') (join_with '':'' ?ps) = ?ps" using 1 by (intro split_join) auto
  have "list_all2 (\<lambda>(p, a) v. decode_scalar_key a p = Inr v) (zip ?ps args) parts"
    using 1 key_part_back(1) by (auto simp: list_all2_conv_all_nth)
  then have "mapr (\<lambda>(p, a). decode_scalar_key a p) (zip ?ps args) = Inr parts"
    by (intro mapr_all2) (simp add: split_def)
  moreover have "length args = length parts" using 1 by (auto dest: list_all2_lengthD)
  ultimately show ?case using ps by (simp add: encode_key_def decode_key_def strict_def)
next
  case (2 a parts)
  let ?ps = "map (key_text str_of) parts"
  have ps: "split_on (CHR '':'') (join_with '':'' ?ps) = ?ps" using 2 key_part_back(2) by (intro split_join) auto
  have "mapr (decode_scalar_key a) ?ps = Inr parts"
    using 2 key_part_back(1) by (intro mapr_all2) (auto simp: list_all2_conv_all_nth)
  then show ?case using ps by (simp add: encode_key_def decode_key_def)
qed (simp_all add: encode_key_def decode_key_def key_text_def decode_scalar_key_def int_of_show_int)

section \<open>The round trip\<close>

definition comes_back :: "(pyval \<Rightarrow> string) \<Rightarrow> classes \<Rightarrow> pytype \<Rightarrow> pyval \<Rightarrow> bool" where
  "comes_back str_of classes t v \<longleftrightarrow>
     (\<exists>j. to_jsonable str_of v = Inr j \<and> decode classes t j = Inr v \<and> (j = JNull \<longleftrightarrow> v = PNone))"

lemma elements_back:
  assumes "\<forall>v\<in>set vs. comes_back str_of classes t v"
  shows "\<exists>js. mapr (to_jsonable str_of) vs = Inr js \<and> mapr (decode classes t) js = Inr vs"
  using assms by (intro mapr_back) (auto simp: comes_back_def)

lemma data_back:
  assumes cls: "dict_get classes c = Some fs" and names: "map fst fvs = map fi_name fs" and dist: "distinct (map fi_name fs)"
    and goes: "list_all2 (\<lambda>f fv. comes_back str_of classes (fi_type f) (snd fv)) fs fvs"
  shows "comes_back str_of classes (TData c) (PData c fvs)"
proof -
  have "\<forall>fv\<in>set fvs. \<exists>j. to_jsonable str_of (snd fv) = Inr j"
    using goes by (fastforce simp: comes_back_def list_all2_conv_all_nth in_set_conv_nth)
  then obtain g where g: "\<And>fv. fv \<in> set fvs \<Longrightarrow> to_jsonable str_of (snd fv) = Inr (g fv)" by metis
  define kvs where "kvs = map (\<lambda>fv. (fst fv, g fv)) fvs"
  have enc: "mapr (\<lambda>(n, v). bindr (to_jsonable str_of v) (\<lambda>j. Inr (n, j))) fvs = Inr kvs"
    unfolding kvs_def using g by (intro mapr_map) (simp add: split_beta)
  have dist': "distinct (map fst kvs)" using names dist by (simp add: kvs_def comp_def)
  have look: "dict_get kvs (fst fv) = Some (g fv)" if "fv \<in> set fvs" for fv
    using that dist' by (auto simp: kvs_def dict_get_def)
  let ?F = "\<lambda>f. case dict_get kvs (fi_name f) of
      Some j \<Rightarrow> bindr (decode classes (fi_type f) j) (\<lambda>x. Inr (fi_name f, x))
    | None \<Rightarrow> (case fi_default f of Some d \<Rightarrow> Inr (fi_name f, d)
        | None \<Rightarrow> (case fi_type f of TOptional _ \<Rightarrow> Inr (fi_name f, PNone) | _ \<Rightarrow> Inl KeyError))"
  have "list_all2 (\<lambda>f fv. ?F f = Inr fv) fs fvs"
    unfolding list_all2_conv_all_nth
  proof (intro conjI allI impI)
    show len: "length fs = length fvs" using goes by (rule list_all2_lengthD)
    fix i assume i: "i < length fs"
    have n: "fst (fvs ! i) = fi_name (fs ! i)" using arg_cong [OF names, of "\<lambda>l. l ! i"] i len by simp
    have m: "fvs ! i \<in> set fvs" using i len by simp
    from goes i have "comes_back str_of classes (fi_type (fs ! i)) (snd (fvs ! i))" by (rule list_all2_nthD)
    then have "decode classes (fi_type (fs ! i)) (g (fvs ! i)) = Inr (snd (fvs ! i))"
      using g [OF m] by (auto simp: comes_back_def)
    then show "?F (fs ! i) = Inr (fvs ! i)" using look [OF m] n by (simp add: prod_eq_iff)
  qed
  then have "mapr ?F fs = Inr fvs" by (rule mapr_all2)
  then have "decode classes (TData c) (JObj kvs) = Inr (PData c fvs)"
    using cls by (simp add: decode.simps [of classes "TData c"] dict_get_default_def)
  then show ?thesis using enc dist' by (simp add: comes_back_def dict_of_pairs_id)
qed

lemma dict_back:
  assumes dist: "distinct (map fst kvs)" and goes: "\<forall>kv\<in>set kvs. key_fits k (fst kv) \<and> comes_back str_of classes t (snd kv)"
  shows "comes_back str_of classes (TDict k t) (PDict kvs)"
proof -
  let ?f = "\<lambda>(k, v). bindr (to_jsonable str_of v) (\<lambda>j. Inr (encode_key str_of k, j))"
  let ?g = "\<lambda>(key, j). bindr (decode_key k key) (\<lambda>key'. bindr (decode classes t j) (\<lambda>x. Inr (key', x)))"
  have "\<exists>y. ?f kv = Inr y \<and> ?g y = Inr kv" if "kv \<in> set kvs" for kv
  proof -
    obtain j where "to_jsonable str_of (snd kv) = Inr j" "decode classes t j = Inr (snd kv)" "key_fits k (fst kv)"
      using goes \<open>kv \<in> set kvs\<close> unfolding comes_back_def by blast
    then show ?thesis using key_back [of k "fst kv" str_of] by (cases kv) simp
  qed
  from mapr_back [OF this] obtain js where js: "mapr ?f kvs = Inr js" "mapr ?g js = Inr kvs" by blast
  have "map fst js = map (encode_key str_of) (map fst kvs)"
    using js(1) by (induction kvs arbitrary: js) (auto simp: bindr_eq_Inr)
  moreover have "inj_on (encode_key str_of) (fst ` set kvs)"
    by (rule inj_on_inverseI [where g = "\<lambda>s. projr (decode_key k s)"]) (use goes key_back in fastforce)
  ultimately have "distinct (map fst js)" using dist by (simp only: distinct_map set_map)
  then show ?thesis using js dist
    by (simp add: comes_back_def dict_of_pairs_id decode.simps [of classes "TDict k t"])
qed

theorem decode_encode: "fits str_of classes t v \<Longrightarrow> comes_back str_of classes t v"
proof (induction rule: fits.induct)
  case (absent t)
  then show ?case by (simp add: comes_back_def decode.simps)
next
  case (present t v)
  then obtain j where j: "to_jsonable str_of v = Inr j" "decode classes t j = Inr v" "j \<noteq> JNull"
    unfolding comes_back_def by blast
  then show ?case using present by (simp add: comes_back_def decode.simps [of classes "TOptional t"])
next
  case (leaf t v)
  obtain j where j: "to_jsonable str_of v = Inr j" "plain j = v" "j \<noteq> JNull" using plain_back [OF leaf(2)] leaf(3) by blast
  have "decode classes t j = Inr (plain j)" using leaf(1) j(3) by (auto simp: decode.simps [of classes _ j])
  then show ?case using j leaf by (simp add: comes_back_def)
next
  case (float r)
  then show ?case by (simp add: comes_back_def decode.simps)
next
  case (tuple_of vs t)
  then obtain js where "mapr (to_jsonable str_of) vs = Inr js" "mapr (decode classes t) js = Inr vs"
    using elements_back [of vs str_of classes t] by auto
  then show ?case by (simp add: comes_back_def decode.simps [of classes "TTupleOf t"])
next
  case (tuple ts vs)
  have "list_all2 (\<lambda>t v. \<exists>j. to_jsonable str_of v = Inr j \<and> (\<lambda>(x, a). decode classes a x) (j, t) = Inr v) ts vs"
    using tuple by (rule list_all2_mono) (auto simp: comes_back_def)
  from mapr_back2 [OF this] obtain js where "mapr (to_jsonable str_of) vs = Inr js" "length js = length ts"
    "mapr (\<lambda>(x, a). decode classes a x) (zip js ts) = Inr vs" by blast
  then show ?case by (simp add: comes_back_def decode.simps [of classes "TTuple ts"] strict_def)
next
  case (frozenset vs t)
  then obtain js where js: "mapr (to_jsonable str_of) vs = Inr js" "mapr (decode classes t) js = Inr vs"
    using elements_back [of vs str_of classes t] by auto
  moreover have "sorted_members js = js" "make_set vs = Inr (PSet vs)"
    using frozenset js by (auto simp: in_order_def make_set_def distinct_values_id)
  ultimately show ?case by (simp add: comes_back_def decode.simps [of classes "TFrozenset t"])
next
  case (list vs t)
  then obtain js where "mapr (to_jsonable str_of) vs = Inr js" "mapr (decode classes t) js = Inr vs"
    using elements_back [of vs str_of classes t] by auto
  then show ?case by (simp add: comes_back_def decode.simps [of classes "TList t"])
next
  case (dict kvs k t)
  then show ?case by (intro dict_back) auto
next
  case (data c fs fvs)
  show ?case by (rule data_back [OF data(1-3)]) (use data(4) in \<open>auto elim: list_all2_mono\<close>)
qed

end
