(* ===== verification/Snapshot_Values.thy ===== *)
theory Snapshot_Values
  imports Codec
begin

text \<open>
  What reflection finds in \<open>save/snapshot.py\<close>: the fields of every dataclass with their types and
  defaults, in their order.
\<close>

definition required :: "string \<Rightarrow> pytype \<Rightarrow> field_info" where
  "required n t = \<lparr>fi_name = n, fi_type = t, fi_default = None\<rparr>"

definition defaulted :: "string \<Rightarrow> pytype \<Rightarrow> pyval \<Rightarrow> field_info" where
  "defaulted n t d = \<lparr>fi_name = n, fi_type = t, fi_default = Some d\<rparr>"

definition MEMORY_SNAPSHOT_FIELDS :: "field_info list" where
  "MEMORY_SNAPSHOT_FIELDS =
     [required ''memory_id'' TInt,
      required ''memory_type'' TStr,
      required ''creation_date'' TStr,
      required ''end_date'' (TOptional TStr),
      defaulted ''participants'' (TTupleOf (TTuple [TStr, TInt])) (PTuple [])]"

definition FAMILY_SNAPSHOT_FIELDS :: "field_info list" where
  "FAMILY_SNAPSHOT_FIELDS =
     [defaulted ''mother'' (TOptional TInt) PNone,
      defaulted ''father'' (TOptional TInt) PNone,
      defaulted ''primary_spouse'' (TOptional TInt) PNone,
      defaulted ''spouses'' (TTupleOf TInt) (PTuple []),
      defaulted ''former_spouses'' (TTupleOf TInt) (PTuple []),
      defaulted ''concubinist'' (TOptional TInt) PNone,
      defaulted ''concubines'' (TTupleOf TInt) (PTuple []),
      defaulted ''children'' (TTupleOf TInt) (PTuple []),
      defaulted ''betrothed'' (TTupleOf TInt) (PTuple [])]"

definition CHARACTER_SNAPSHOT_FIELDS :: "field_info list" where
  "CHARACTER_SNAPSHOT_FIELDS =
     [required ''ck3_id'' TInt,
      required ''first_name'' (TOptional TStr),
      required ''nickname'' (TOptional TStr),
      required ''is_dead'' TBool,
      required ''female'' TBool,
      required ''birth_date'' (TOptional TStr),
      required ''death_date'' (TOptional TStr),
      required ''culture_id'' (TOptional TInt),
      required ''faith_id'' (TOptional TInt),
      required ''dynasty_house_id'' (TOptional TInt),
      required ''ethnicity'' (TOptional TStr),
      required ''traits'' (TTupleOf TInt),
      required ''family'' (TData ''FamilySnapshot''),
      defaulted ''location_id'' (TOptional TInt) PNone,
      defaulted ''memories'' (TTupleOf (TData ''MemorySnapshot'')) (PTuple []),
      defaulted ''death_cause'' (TOptional TStr) PNone,
      defaulted ''death_killer'' (TOptional TInt) PNone,
      defaulted ''government'' (TOptional TStr) PNone,
      defaulted ''decisions_taken'' (TTupleOf (TTuple [TStr, TStr])) (PTuple []),
      defaulted ''gold'' (TOptional TFloat) PNone,
      defaulted ''prestige'' (TOptional TFloat) PNone,
      defaulted ''prestige_lifetime'' (TOptional TFloat) PNone,
      defaulted ''piety'' (TOptional TFloat) PNone,
      defaulted ''piety_lifetime'' (TOptional TFloat) PNone,
      defaulted ''modifiers'' (TTupleOf TStr) (PTuple []),
      defaulted ''perks'' (TTupleOf TStr) (PTuple [])]"

definition ARTIFACT_SNAPSHOT_FIELDS :: "field_info list" where
  "ARTIFACT_SNAPSHOT_FIELDS =
     [required ''artifact_id'' TInt,
      required ''name'' (TOptional TStr),
      required ''type'' (TOptional TStr),
      required ''rarity'' (TOptional TStr),
      required ''owner_id'' (TOptional TInt)]"

definition CONSTRUCTION_SNAPSHOT_FIELDS :: "field_info list" where
  "CONSTRUCTION_SNAPSHOT_FIELDS =
     [required ''province_id'' TInt,
      required ''slot_index'' TInt,
      required ''building'' TStr,
      required ''start_date'' (TOptional TStr),
      required ''character_id'' (TOptional TInt)]"

definition EPIDEMIC_SNAPSHOT_FIELDS :: "field_info list" where
  "EPIDEMIC_SNAPSHOT_FIELDS =
     [required ''epidemic_id'' TInt,
      required ''epidemic_type'' (TOptional TStr),
      required ''name'' (TOptional TStr),
      required ''intensity'' (TOptional TStr),
      required ''creation_date'' (TOptional TStr),
      required ''start_province'' (TOptional TInt),
      required ''num_infected_provinces'' TInt,
      required ''num_infected_characters'' TInt,
      required ''num_character_deaths'' TInt]"

definition ACTIVITY_SNAPSHOT_FIELDS :: "field_info list" where
  "ACTIVITY_SNAPSHOT_FIELDS =
     [required ''activity_id'' TInt,
      required ''activity_type'' (TOptional TStr),
      required ''host_id'' (TOptional TInt),
      required ''creation_date'' (TOptional TStr),
      required ''active_start_date'' (TOptional TStr),
      required ''start_province_id'' (TOptional TInt),
      required ''attendees'' (TFrozenset TInt)]"

definition INSPIRATION_SNAPSHOT_FIELDS :: "field_info list" where
  "INSPIRATION_SNAPSHOT_FIELDS =
     [required ''inspiration_id'' TInt,
      required ''inspiration_type'' (TOptional TStr),
      required ''sponsored'' (TOptional TStr),
      required ''total_cost'' TInt,
      required ''progress'' TInt,
      required ''artisan_character_id'' (TOptional TInt)]"

definition DOMICILE_SNAPSHOT_FIELDS :: "field_info list" where
  "DOMICILE_SNAPSHOT_FIELDS =
     [required ''domicile_id'' TInt,
      required ''owner_title_id'' (TOptional TInt),
      required ''domicile_type'' (TOptional TStr),
      required ''province_id'' (TOptional TInt)]"

definition COURT_POSITION_SNAPSHOT_FIELDS :: "field_info list" where
  "COURT_POSITION_SNAPSHOT_FIELDS =
     [required ''position_id'' TInt,
      required ''court_position'' (TOptional TStr),
      required ''employee_id'' (TOptional TInt),
      required ''employer_id'' (TOptional TInt),
      required ''hire_date'' (TOptional TStr)]"

definition CONTRACT_SNAPSHOT_FIELDS :: "field_info list" where
  "CONTRACT_SNAPSHOT_FIELDS =
     [required ''contract_id'' TInt,
      required ''contract_type'' (TOptional TStr),
      required ''name'' (TOptional TStr),
      required ''tier'' (TOptional TInt),
      required ''employer_id'' (TOptional TInt),
      required ''owner_id'' (TOptional TInt),
      required ''location_province_id'' (TOptional TInt),
      required ''status'' TStr,
      required ''acceptance_date'' (TOptional TStr),
      required ''completion_date'' (TOptional TStr)]"

definition WAR_SNAPSHOT_FIELDS :: "field_info list" where
  "WAR_SNAPSHOT_FIELDS =
     [required ''war_id'' TInt,
      required ''name'' (TOptional TStr),
      required ''start_date'' (TOptional TStr),
      required ''casus_belli_type'' (TOptional TStr),
      required ''targeted_titles'' (TTupleOf TInt),
      required ''primary_attacker_id'' (TOptional TInt),
      required ''primary_defender_id'' (TOptional TInt),
      required ''claimant_id'' (TOptional TInt),
      required ''attacker_participants'' (TFrozenset TInt),
      required ''defender_participants'' (TFrozenset TInt)]"

definition TITLE_SNAPSHOT_FIELDS :: "field_info list" where
  "TITLE_SNAPSHOT_FIELDS =
     [required ''title_id'' TInt,
      required ''key'' TStr,
      required ''name'' (TOptional TStr),
      required ''tier'' TStr,
      required ''holder_id'' (TOptional TInt),
      defaulted ''de_jure_liege_id'' (TOptional TInt) PNone]"

definition SAVE_SNAPSHOT_FIELDS :: "field_info list" where
  "SAVE_SNAPSHOT_FIELDS =
     [required ''playthrough_id'' TStr,
      required ''ck3_version'' TStr,
      required ''bookmark_date'' (TOptional TStr),
      required ''current_date'' TStr,
      required ''player_character_id'' (TOptional TInt),
      defaulted ''characters'' (TDict TInt (TData ''CharacterSnapshot'')) (PDict []),
      defaulted ''alliances'' (TDict TInt (TFrozenset TInt)) (PDict []),
      defaulted ''traits_lookup'' (TTupleOf TStr) (PTuple []),
      defaulted ''houses_lookup'' (TDict TInt TStr) (PDict []),
      defaulted ''cultures_lookup'' (TDict TInt TStr) (PDict []),
      defaulted ''faiths_lookup'' (TDict TInt TStr) (PDict []),
      defaulted ''dynasties_lookup'' (TDict TInt TStr) (PDict []),
      defaulted ''house_to_dynasty'' (TDict TInt TInt) (PDict []),
      defaulted ''titles'' (TDict TInt (TData ''TitleSnapshot'')) (PDict []),
      defaulted ''title_holders'' (TDict TInt (TFrozenset TInt)) (PDict []),
      defaulted ''kingdoms_by_de_jure_empire'' (TDict TInt (TFrozenset TInt)) (PDict []),
      defaulted ''wars'' (TDict TInt (TData ''WarSnapshot'')) (PDict []),
      defaulted ''character_to_wars'' (TDict TInt (TFrozenset TInt)) (PDict []),
      defaulted ''artifacts'' (TDict TInt (TData ''ArtifactSnapshot'')) (PDict []),
      defaulted ''character_to_artifacts'' (TDict TInt (TFrozenset TInt)) (PDict []),
      defaulted ''dynasty_perks'' (TDict TInt (TFrozenset TStr)) (PDict []),
      defaulted ''dynasty_renown'' (TDict TInt TFloat) (PDict []),
      defaulted ''dynasty_heads'' (TDict TInt TInt) (PDict []),
      defaulted ''epidemics'' (TDict TInt (TData ''EpidemicSnapshot'')) (PDict []),
      defaulted ''character_to_epidemics'' (TDict TInt (TFrozenset TInt)) (PDict []),
      defaulted ''in_flight_constructions'' (TDict (TTuple [TInt, TInt]) (TData ''ConstructionSnapshot'')) (PDict []),
      defaulted ''character_to_constructions'' (TDict TInt (TFrozenset (TTuple [TInt, TInt]))) (PDict []),
      defaulted ''holding_buildings_by_slot'' (TDict (TTuple [TInt, TInt]) TStr) (PDict []),
      defaulted ''activities'' (TDict TInt (TData ''ActivitySnapshot'')) (PDict []),
      defaulted ''character_to_activities'' (TDict TInt (TFrozenset TInt)) (PDict []),
      defaulted ''inspirations'' (TDict TInt (TData ''InspirationSnapshot'')) (PDict []),
      defaulted ''character_to_sponsored_inspirations'' (TDict TInt (TFrozenset TInt)) (PDict []),
      defaulted ''task_contracts'' (TDict TInt (TData ''ContractSnapshot'')) (PDict []),
      defaulted ''character_to_contracts'' (TDict TInt (TFrozenset TInt)) (PDict []),
      defaulted ''court_positions'' (TDict TInt (TData ''CourtPositionSnapshot'')) (PDict []),
      defaulted ''character_to_court_positions'' (TDict TInt (TFrozenset TInt)) (PDict []),
      defaulted ''domiciles'' (TDict TInt (TData ''DomicileSnapshot'')) (PDict []),
      defaulted ''character_to_domicile'' (TDict TInt TInt) (PDict []),
      defaulted ''dynasties_renown'' (TDict TInt TFloat) (PDict []),
      defaulted ''tracked_raw_records'' (TDict TInt TPlain) (PDict []),
      defaulted ''tracked_coa'' (TDict TInt TPlain) (PDict [])]"

definition SNAPSHOT_CLASSES :: classes where
  "SNAPSHOT_CLASSES =
     [(''MemorySnapshot'', MEMORY_SNAPSHOT_FIELDS),
      (''FamilySnapshot'', FAMILY_SNAPSHOT_FIELDS),
      (''CharacterSnapshot'', CHARACTER_SNAPSHOT_FIELDS),
      (''ArtifactSnapshot'', ARTIFACT_SNAPSHOT_FIELDS),
      (''ConstructionSnapshot'', CONSTRUCTION_SNAPSHOT_FIELDS),
      (''EpidemicSnapshot'', EPIDEMIC_SNAPSHOT_FIELDS),
      (''ActivitySnapshot'', ACTIVITY_SNAPSHOT_FIELDS),
      (''InspirationSnapshot'', INSPIRATION_SNAPSHOT_FIELDS),
      (''DomicileSnapshot'', DOMICILE_SNAPSHOT_FIELDS),
      (''CourtPositionSnapshot'', COURT_POSITION_SNAPSHOT_FIELDS),
      (''ContractSnapshot'', CONTRACT_SNAPSHOT_FIELDS),
      (''WarSnapshot'', WAR_SNAPSHOT_FIELDS),
      (''TitleSnapshot'', TITLE_SNAPSHOT_FIELDS),
      (''SaveSnapshot'', SAVE_SNAPSHOT_FIELDS)]"

text \<open>
  A snapshot record of the model as the Python value it stands for: an instance of its dataclass with
  the fields of \<open>Snapshot_Classes\<close>. Every such value fits its type, and no two records give the same.
\<close>

section \<open>Parts\<close>

definition val_opt :: "('a \<Rightarrow> pyval) \<Rightarrow> 'a option \<Rightarrow> pyval" where
  "val_opt f x = (case x of None \<Rightarrow> PNone | Some y \<Rightarrow> f y)"

definition val_tuple :: "('a \<Rightarrow> pyval) \<Rightarrow> 'a list \<Rightarrow> pyval" where
  "val_tuple f xs = PTuple (map f xs)"

definition val_pair :: "('a \<Rightarrow> pyval) \<Rightarrow> ('b \<Rightarrow> pyval) \<Rightarrow> 'a \<times> 'b \<Rightarrow> pyval" where
  "val_pair f g ab = PTuple [f (fst ab), g (snd ab)]"

text \<open>A set is listed in its order, which is the order of its encoding.\<close>

definition val_set :: "('a::linorder \<Rightarrow> pyval) \<Rightarrow> 'a fset \<Rightarrow> pyval" where
  "val_set f A = PSet (map f (sorted_list_of_fset A))"

definition val_dict :: "('k \<Rightarrow> pyval) \<Rightarrow> ('v \<Rightarrow> pyval) \<Rightarrow> ('k, 'v) dict \<Rightarrow> pyval" where
  "val_dict f g d = PDict (map (\<lambda>(k, v). (f k, g v)) d)"

section \<open>The records as values\<close>

definition val_of_memory_snapshot :: "memory_snapshot \<Rightarrow> pyval" where
  "val_of_memory_snapshot r = PData ''MemorySnapshot''
     [(''memory_id'', PInt (mem_memory_id r)),
      (''memory_type'', PStr (mem_memory_type r)),
      (''creation_date'', PStr (mem_creation_date r)),
      (''end_date'', val_opt PStr (mem_end_date r)),
      (''participants'', val_tuple (val_pair PStr PInt) (mem_participants r))]"

definition val_of_family_snapshot :: "family_snapshot \<Rightarrow> pyval" where
  "val_of_family_snapshot r = PData ''FamilySnapshot''
     [(''mother'', val_opt PInt (fam_mother r)),
      (''father'', val_opt PInt (fam_father r)),
      (''primary_spouse'', val_opt PInt (fam_primary_spouse r)),
      (''spouses'', val_tuple PInt (fam_spouses r)),
      (''former_spouses'', val_tuple PInt (fam_former_spouses r)),
      (''concubinist'', val_opt PInt (fam_concubinist r)),
      (''concubines'', val_tuple PInt (fam_concubines r)),
      (''children'', val_tuple PInt (fam_children r)),
      (''betrothed'', val_tuple PInt (fam_betrothed r))]"

definition val_of_character_snapshot :: "character_snapshot \<Rightarrow> pyval" where
  "val_of_character_snapshot r = PData ''CharacterSnapshot''
     [(''ck3_id'', PInt (cs_ck3_id r)),
      (''first_name'', val_opt PStr (cs_first_name r)),
      (''nickname'', val_opt PStr (cs_nickname r)),
      (''is_dead'', PBool (cs_is_dead r)),
      (''female'', PBool (cs_female r)),
      (''birth_date'', val_opt PStr (cs_birth_date r)),
      (''death_date'', val_opt PStr (cs_death_date r)),
      (''culture_id'', val_opt PInt (cs_culture_id r)),
      (''faith_id'', val_opt PInt (cs_faith_id r)),
      (''dynasty_house_id'', val_opt PInt (cs_dynasty_house_id r)),
      (''ethnicity'', val_opt plain (cs_ethnicity r)),
      (''traits'', val_tuple PInt (cs_traits r)),
      (''family'', val_of_family_snapshot (cs_family r)),
      (''location_id'', val_opt PInt (cs_location_id r)),
      (''memories'', val_tuple val_of_memory_snapshot (cs_memories r)),
      (''death_cause'', val_opt PStr (cs_death_cause r)),
      (''death_killer'', val_opt PInt (cs_death_killer r)),
      (''government'', val_opt PStr (cs_government r)),
      (''decisions_taken'', val_tuple (val_pair PStr PStr) (cs_decisions_taken r)),
      (''gold'', val_opt PFloat (cs_gold r)),
      (''prestige'', val_opt PFloat (cs_prestige r)),
      (''prestige_lifetime'', val_opt PFloat (cs_prestige_lifetime r)),
      (''piety'', val_opt PFloat (cs_piety r)),
      (''piety_lifetime'', val_opt PFloat (cs_piety_lifetime r)),
      (''modifiers'', val_tuple PStr (cs_modifiers r)),
      (''perks'', val_tuple PStr (cs_perks r))]"

definition val_of_artifact_snapshot :: "artifact_snapshot \<Rightarrow> pyval" where
  "val_of_artifact_snapshot r = PData ''ArtifactSnapshot''
     [(''artifact_id'', PInt (art_artifact_id r)),
      (''name'', val_opt PStr (art_name r)),
      (''type'', val_opt PStr (art_type r)),
      (''rarity'', val_opt PStr (art_rarity r)),
      (''owner_id'', val_opt PInt (art_owner_id r))]"

definition val_of_construction_snapshot :: "construction_snapshot \<Rightarrow> pyval" where
  "val_of_construction_snapshot r = PData ''ConstructionSnapshot''
     [(''province_id'', PInt (con_province_id r)),
      (''slot_index'', PInt (con_slot_index r)),
      (''building'', PStr (con_building r)),
      (''start_date'', val_opt PStr (con_start_date r)),
      (''character_id'', val_opt PInt (con_character_id r))]"

definition val_of_epidemic_snapshot :: "epidemic_snapshot \<Rightarrow> pyval" where
  "val_of_epidemic_snapshot r = PData ''EpidemicSnapshot''
     [(''epidemic_id'', PInt (ep_epidemic_id r)),
      (''epidemic_type'', val_opt PStr (ep_epidemic_type r)),
      (''name'', val_opt PStr (ep_name r)),
      (''intensity'', val_opt PStr (ep_intensity r)),
      (''creation_date'', val_opt PStr (ep_creation_date r)),
      (''start_province'', val_opt PInt (ep_start_province r)),
      (''num_infected_provinces'', PInt (ep_num_infected_provinces r)),
      (''num_infected_characters'', PInt (ep_num_infected_characters r)),
      (''num_character_deaths'', PInt (ep_num_character_deaths r))]"

definition val_of_activity_snapshot :: "activity_snapshot \<Rightarrow> pyval" where
  "val_of_activity_snapshot r = PData ''ActivitySnapshot''
     [(''activity_id'', PInt (act_activity_id r)),
      (''activity_type'', val_opt PStr (act_activity_type r)),
      (''host_id'', val_opt PInt (act_host_id r)),
      (''creation_date'', val_opt PStr (act_creation_date r)),
      (''active_start_date'', val_opt PStr (act_active_start_date r)),
      (''start_province_id'', val_opt PInt (act_start_province_id r)),
      (''attendees'', val_set PInt (act_attendees r))]"

definition val_of_inspiration_snapshot :: "inspiration_snapshot \<Rightarrow> pyval" where
  "val_of_inspiration_snapshot r = PData ''InspirationSnapshot''
     [(''inspiration_id'', PInt (insp_inspiration_id r)),
      (''inspiration_type'', val_opt PStr (insp_inspiration_type r)),
      (''sponsored'', val_opt PStr (insp_sponsored r)),
      (''total_cost'', PInt (insp_total_cost r)),
      (''progress'', PInt (insp_progress r)),
      (''artisan_character_id'', val_opt PInt (insp_artisan_character_id r))]"

definition val_of_domicile_snapshot :: "domicile_snapshot \<Rightarrow> pyval" where
  "val_of_domicile_snapshot r = PData ''DomicileSnapshot''
     [(''domicile_id'', PInt (dom_domicile_id r)),
      (''owner_title_id'', val_opt PInt (dom_owner_title_id r)),
      (''domicile_type'', val_opt PStr (dom_domicile_type r)),
      (''province_id'', val_opt PInt (dom_province_id r))]"

definition val_of_court_position_snapshot :: "court_position_snapshot \<Rightarrow> pyval" where
  "val_of_court_position_snapshot r = PData ''CourtPositionSnapshot''
     [(''position_id'', PInt (pos_position_id r)),
      (''court_position'', val_opt PStr (pos_court_position r)),
      (''employee_id'', val_opt PInt (pos_employee_id r)),
      (''employer_id'', val_opt PInt (pos_employer_id r)),
      (''hire_date'', val_opt PStr (pos_hire_date r))]"

definition val_of_contract_snapshot :: "contract_snapshot \<Rightarrow> pyval" where
  "val_of_contract_snapshot r = PData ''ContractSnapshot''
     [(''contract_id'', PInt (ctr_contract_id r)),
      (''contract_type'', val_opt PStr (ctr_contract_type r)),
      (''name'', val_opt PStr (ctr_name r)),
      (''tier'', val_opt PInt (ctr_tier r)),
      (''employer_id'', val_opt PInt (ctr_employer_id r)),
      (''owner_id'', val_opt PInt (ctr_owner_id r)),
      (''location_province_id'', val_opt PInt (ctr_location_province_id r)),
      (''status'', PStr (ctr_status r)),
      (''acceptance_date'', val_opt PStr (ctr_acceptance_date r)),
      (''completion_date'', val_opt PStr (ctr_completion_date r))]"

definition val_of_war_snapshot :: "war_snapshot \<Rightarrow> pyval" where
  "val_of_war_snapshot r = PData ''WarSnapshot''
     [(''war_id'', PInt (war_war_id r)),
      (''name'', val_opt PStr (war_name r)),
      (''start_date'', val_opt PStr (war_start_date r)),
      (''casus_belli_type'', val_opt PStr (war_casus_belli_type r)),
      (''targeted_titles'', val_tuple PInt (war_targeted_titles r)),
      (''primary_attacker_id'', val_opt PInt (war_primary_attacker_id r)),
      (''primary_defender_id'', val_opt PInt (war_primary_defender_id r)),
      (''claimant_id'', val_opt PInt (war_claimant_id r)),
      (''attacker_participants'', val_set PInt (war_attacker_participants r)),
      (''defender_participants'', val_set PInt (war_defender_participants r))]"

definition val_of_title_snapshot :: "title_snapshot \<Rightarrow> pyval" where
  "val_of_title_snapshot r = PData ''TitleSnapshot''
     [(''title_id'', PInt (tit_title_id r)),
      (''key'', PStr (tit_key r)),
      (''name'', val_opt PStr (tit_name r)),
      (''tier'', PStr (tit_tier r)),
      (''holder_id'', val_opt PInt (tit_holder_id r)),
      (''de_jure_liege_id'', val_opt PInt (tit_de_jure_liege_id r))]"

definition val_of_save_snapshot :: "save_snapshot \<Rightarrow> pyval" where
  "val_of_save_snapshot r = PData ''SaveSnapshot''
     [(''playthrough_id'', PStr (sn_playthrough_id r)),
      (''ck3_version'', PStr (sn_ck3_version r)),
      (''bookmark_date'', val_opt PStr (sn_bookmark_date r)),
      (''current_date'', PStr (sn_current_date r)),
      (''player_character_id'', val_opt PInt (sn_player_character_id r)),
      (''characters'', val_dict PInt val_of_character_snapshot (sn_characters r)),
      (''alliances'', val_dict PInt (val_set PInt) (sn_alliances r)),
      (''traits_lookup'', val_tuple PStr (sn_traits_lookup r)),
      (''houses_lookup'', val_dict PInt PStr (sn_houses_lookup r)),
      (''cultures_lookup'', val_dict PInt PStr (sn_cultures_lookup r)),
      (''faiths_lookup'', val_dict PInt PStr (sn_faiths_lookup r)),
      (''dynasties_lookup'', val_dict PInt PStr (sn_dynasties_lookup r)),
      (''house_to_dynasty'', val_dict PInt PInt (sn_house_to_dynasty r)),
      (''titles'', val_dict PInt val_of_title_snapshot (sn_titles r)),
      (''title_holders'', val_dict PInt (val_set PInt) (sn_title_holders r)),
      (''kingdoms_by_de_jure_empire'', val_dict PInt (val_set PInt) (sn_kingdoms_by_de_jure_empire r)),
      (''wars'', val_dict PInt val_of_war_snapshot (sn_wars r)),
      (''character_to_wars'', val_dict PInt (val_set PInt) (sn_character_to_wars r)),
      (''artifacts'', val_dict PInt val_of_artifact_snapshot (sn_artifacts r)),
      (''character_to_artifacts'', val_dict PInt (val_set PInt) (sn_character_to_artifacts r)),
      (''dynasty_perks'', val_dict PInt (val_set PStr) (sn_dynasty_perks r)),
      (''dynasty_renown'', val_dict PInt PFloat (sn_dynasty_renown r)),
      (''dynasty_heads'', val_dict PInt PInt (sn_dynasty_heads r)),
      (''epidemics'', val_dict PInt val_of_epidemic_snapshot (sn_epidemics r)),
      (''character_to_epidemics'', val_dict PInt (val_set PInt) (sn_character_to_epidemics r)),
      (''in_flight_constructions'', val_dict (val_pair PInt PInt) val_of_construction_snapshot (sn_in_flight_constructions r)),
      (''character_to_constructions'', val_dict PInt (val_set (val_pair PInt PInt)) (sn_character_to_constructions r)),
      (''holding_buildings_by_slot'', val_dict (val_pair PInt PInt) PStr (sn_holding_buildings_by_slot r)),
      (''activities'', val_dict PInt val_of_activity_snapshot (sn_activities r)),
      (''character_to_activities'', val_dict PInt (val_set PInt) (sn_character_to_activities r)),
      (''inspirations'', val_dict PInt val_of_inspiration_snapshot (sn_inspirations r)),
      (''character_to_sponsored_inspirations'', val_dict PInt (val_set PInt) (sn_character_to_sponsored_inspirations r)),
      (''task_contracts'', val_dict PInt val_of_contract_snapshot (sn_task_contracts r)),
      (''character_to_contracts'', val_dict PInt (val_set PInt) (sn_character_to_contracts r)),
      (''court_positions'', val_dict PInt val_of_court_position_snapshot (sn_court_positions r)),
      (''character_to_court_positions'', val_dict PInt (val_set PInt) (sn_character_to_court_positions r)),
      (''domiciles'', val_dict PInt val_of_domicile_snapshot (sn_domiciles r)),
      (''character_to_domicile'', val_dict PInt PInt (sn_character_to_domicile r)),
      (''dynasties_renown'', val_dict PInt PFloat (sn_dynasties_renown r)),
      (''tracked_raw_records'', val_dict PInt plain (sn_tracked_raw_records r)),
      (''tracked_coa'', val_dict PInt plain (sn_tracked_coa r))]"

section \<open>What is storable\<close>

text \<open>Dictionaries have their keys once, and integers in keys have no more digits than Python reads;
  untyped values are JSON objects with their keys once.\<close>

definition int_keys :: "(int, 'v) dict \<Rightarrow> bool" where
  "int_keys d \<longleftrightarrow> dict_ok d \<and> (\<forall>kv\<in>set d. readable (fst kv))"

definition slot_keys :: "(int \<times> int, 'v) dict \<Rightarrow> bool" where
  "slot_keys d \<longleftrightarrow> dict_ok d \<and> (\<forall>kv\<in>set d. readable (fst (fst kv)) \<and> readable (snd (fst kv)))"

definition json_ok :: "json \<Rightarrow> bool" where
  "json_ok j \<longleftrightarrow> json_like (plain j) \<and> j \<noteq> JNull"

definition storable_character :: "character_snapshot \<Rightarrow> bool" where
  "storable_character c \<longleftrightarrow> (case cs_ethnicity c of None \<Rightarrow> True | Some j \<Rightarrow> json_ok j)"

definition storable :: "save_snapshot \<Rightarrow> bool" where
  "storable s \<longleftrightarrow> int_keys (sn_characters s)
     \<and> int_keys (sn_alliances s)
     \<and> int_keys (sn_houses_lookup s)
     \<and> int_keys (sn_cultures_lookup s)
     \<and> int_keys (sn_faiths_lookup s)
     \<and> int_keys (sn_dynasties_lookup s)
     \<and> int_keys (sn_house_to_dynasty s)
     \<and> int_keys (sn_titles s)
     \<and> int_keys (sn_title_holders s)
     \<and> int_keys (sn_kingdoms_by_de_jure_empire s)
     \<and> int_keys (sn_wars s)
     \<and> int_keys (sn_character_to_wars s)
     \<and> int_keys (sn_artifacts s)
     \<and> int_keys (sn_character_to_artifacts s)
     \<and> int_keys (sn_dynasty_perks s)
     \<and> int_keys (sn_dynasty_renown s)
     \<and> int_keys (sn_dynasty_heads s)
     \<and> int_keys (sn_epidemics s)
     \<and> int_keys (sn_character_to_epidemics s)
     \<and> slot_keys (sn_in_flight_constructions s)
     \<and> int_keys (sn_character_to_constructions s)
     \<and> slot_keys (sn_holding_buildings_by_slot s)
     \<and> int_keys (sn_activities s)
     \<and> int_keys (sn_character_to_activities s)
     \<and> int_keys (sn_inspirations s)
     \<and> int_keys (sn_character_to_sponsored_inspirations s)
     \<and> int_keys (sn_task_contracts s)
     \<and> int_keys (sn_character_to_contracts s)
     \<and> int_keys (sn_court_positions s)
     \<and> int_keys (sn_character_to_court_positions s)
     \<and> int_keys (sn_domiciles s)
     \<and> int_keys (sn_character_to_domicile s)
     \<and> int_keys (sn_dynasties_renown s)
     \<and> int_keys (sn_tracked_raw_records s) \<and> (\<forall>kv\<in>set (sn_tracked_raw_records s). json_ok (snd kv))
     \<and> int_keys (sn_tracked_coa s) \<and> (\<forall>kv\<in>set (sn_tracked_coa s). json_ok (snd kv))
     \<and> (\<forall>kv\<in>set (sn_characters s). storable_character (snd kv))"

section \<open>The parts fit\<close>

named_theorems fit \<open>parts of a snapshot fit their types\<close>

lemma plain_none [simp]: "plain j = PNone \<longleftrightarrow> j = JNull" "PNone = plain j \<longleftrightarrow> j = JNull"
  by (cases j; auto)+

lemma fit_leaf [fit]: "fits so cl TInt (PInt i)" "fits so cl TStr (PStr s)" "fits so cl TBool (PBool b)"
  "fits so cl TFloat (PFloat r)"
  by (simp_all add: fits.leaf fits.float)

lemma fit_plain: "json_ok j \<Longrightarrow> t \<in> {TStr, TPlain} \<Longrightarrow> fits so cl t (plain j)"
  by (rule fits.leaf) (auto simp: json_ok_def)

lemma fit_opt [fit]: "(\<And>y. x = Some y \<Longrightarrow> fits so cl t (f y)) \<Longrightarrow> (\<And>y. x = Some y \<Longrightarrow> f y \<noteq> PNone) \<Longrightarrow>
    fits so cl (TOptional t) (val_opt f x)"
  by (cases x) (simp_all add: val_opt_def fits.absent fits.present)

lemma fit_tuple [fit]: "(\<And>x. x \<in> set xs \<Longrightarrow> fits so cl t (f x)) \<Longrightarrow> fits so cl (TTupleOf t) (val_tuple f xs)"
  unfolding val_tuple_def by (rule fits.tuple_of) simp

lemma fit_pair [fit]: "(\<And>x. fits so cl s (f x)) \<Longrightarrow> (\<And>y. fits so cl t (g y)) \<Longrightarrow>
    fits so cl (TTuple [s, t]) (val_pair f g ab)"
  unfolding val_pair_def by (rule fits.tuple) simp

lemma those_items: "(\<And>x. f (g x) = Some (h x)) \<Longrightarrow> those (map f (map g xs)) = Some (map h xs)"
  by (induction xs) simp_all

lemma int_items_ints: "int_items (map JInt xs) = Some xs"
  unfolding int_items_def using those_items [of "\<lambda>j. case j of JInt i \<Rightarrow> Some i | _ \<Rightarrow> None" JInt id xs] by simp

lemma sorted_ints: "sorted xs \<Longrightarrow> sorted_members (map JInt xs) = map JInt xs"
  by (simp add: sorted_members_def int_items_ints sorted_sort_id)

lemma sorted_texts: "sorted xs \<Longrightarrow> sorted_members (map JStr xs) = map JStr xs"
proof -
  have "str_items (map JStr xs) = Some xs"
    unfolding str_items_def using those_items [of "\<lambda>j. case j of JStr s \<Rightarrow> Some s | _ \<Rightarrow> None" JStr id xs] by simp
  moreover have "int_items (map JStr xs) = None \<or> xs = []" by (cases xs) (simp_all add: int_items_def)
  moreover assume "sorted xs"
  ultimately show ?thesis by (auto simp: sorted_members_def sorted_sort_id int_items_def)
qed

lemma row_order: "x \<le> y \<Longrightarrow> (case x of (a, b) \<Rightarrow> [a, b]) \<le> (case y of (a, b) \<Rightarrow> [a, b :: int])"
  by (cases x; cases y) auto

lemma sorted_slots:
  fixes xs :: "(int \<times> int) list"
  assumes "sorted xs"
  shows "sorted_members (map (\<lambda>(a, b). JArr [JInt a, JInt b]) xs) = map (\<lambda>(a, b). JArr [JInt a, JInt b]) xs"
proof (cases xs)
  case (Cons x ys)
  let ?slot = "\<lambda>(a, b). JArr [JInt a, JInt b]" and ?row = "\<lambda>(a, b). [a, b]"
  have rows: "row_items (map ?slot xs) = Some (map ?row xs)"
    unfolding row_items_def by (rule those_items) (auto simp: int_items_def)
  have others: "int_items (map ?slot xs) = None" "str_items (map ?slot xs) = None"
    by (cases x, simp add: Cons int_items_def str_items_def)+
  have "sorted (map ?row xs)"
    unfolding sorted_wrt_map by (rule sorted_wrt_mono_rel [OF _ assms]) (simp add: row_order)
  then have "sorted_members (map ?slot xs) = map (\<lambda>r. JArr (map JInt r)) (map ?row xs)"
    unfolding sorted_members_def by (simp only: rows others option.case sorted_sort_id)
  also have "\<dots> = map ?slot xs" by (simp add: comp_def split_beta)
  finally show ?thesis .
qed (simp add: sorted_members_def int_items_def)

lemma sorted_fset [simp]: "sorted (sorted_list_of_fset A)" "distinct (sorted_list_of_fset A)"
  by (simp_all add: sorted_list_of_fset.rep_eq)

lemma in_order_map:
  assumes "inj f" and "\<And>x. hashable (f x)" and "\<And>x. to_jsonable so (f x) = Inr (g x)"
    and "sorted_members (map g xs) = map g xs" and "distinct xs"
  shows "in_order so (map f xs)"
proof -
  have "mapr (to_jsonable so) (map f xs) = Inr (map g xs)"
    using assms(3) by (induction xs) simp_all
  moreover have "distinct (map f xs)" using assms(1,5) by (simp add: distinct_map inj_on_def)
  ultimately show ?thesis using assms(2,4) by (simp add: in_order_def)
qed

lemma fit_set_int [fit]: "fits so cl (TFrozenset TInt) (val_set PInt A)"
  unfolding val_set_def
  by (rule fits.frozenset) (auto intro!: fit in_order_map [where g = JInt] sorted_ints injI)

lemma fit_set_str [fit]: "fits so cl (TFrozenset TStr) (val_set PStr A)"
  unfolding val_set_def
  by (rule fits.frozenset) (auto intro!: fit in_order_map [where g = JStr] sorted_texts injI)

lemma fit_set_slot [fit]: "fits so cl (TFrozenset (TTuple [TInt, TInt])) (val_set (val_pair PInt PInt) A)"
  unfolding val_set_def
proof (rule fits.frozenset)
  show "in_order so (map (val_pair PInt PInt) (sorted_list_of_fset A))"
    by (rule in_order_map [where g = "\<lambda>(a, b). JArr [JInt a, JInt b]"])
      (auto simp: val_pair_def intro!: injI sorted_slots)
qed (auto intro!: fit)

lemma distinct_keys: "inj f \<Longrightarrow> dict_ok d \<Longrightarrow> distinct (map fst (map (\<lambda>(k, v). (f k, g v)) d))"
proof -
  have "map fst (map (\<lambda>(k, v). (f k, g v)) d) = map f (map fst d)" by (simp add: split_beta)
  moreover assume "inj f" "dict_ok d"
  ultimately show ?thesis unfolding dict_ok_def by (simp only: distinct_map inj_on_def) simp
qed

lemma fit_dict_int:
  "int_keys d \<Longrightarrow> (\<And>kv. kv \<in> set d \<Longrightarrow> fits so cl t (g (snd kv))) \<Longrightarrow> fits so cl (TDict TInt t) (val_dict PInt g d)"
  unfolding val_dict_def
  by (rule fits.dict, rule distinct_keys) (auto simp: int_keys_def inj_def)

lemma fit_dict_slot:
  "slot_keys d \<Longrightarrow> (\<And>kv. kv \<in> set d \<Longrightarrow> fits so cl t (g (snd kv))) \<Longrightarrow>
     fits so cl (TDict (TTuple [TInt, TInt]) t) (val_dict (val_pair PInt PInt) g d)"
  unfolding val_dict_def
  by (rule fits.dict, rule distinct_keys) (auto simp: slot_keys_def val_pair_def inj_def)


section \<open>Different parts are different values\<close>

named_theorems vals \<open>equal values of parts\<close>

lemma val_opt_eq [vals]: "inj f \<Longrightarrow> (\<And>x. f x \<noteq> PNone) \<Longrightarrow> val_opt f x = val_opt f y \<longleftrightarrow> x = y"
  by (cases x; cases y) (auto simp: val_opt_def dest: injD, metis)

lemma val_tuple_eq [vals]: "inj f \<Longrightarrow> val_tuple f xs = val_tuple f ys \<longleftrightarrow> xs = ys"
  by (simp add: val_tuple_def inj_map_eq_map)

lemma val_pair_eq [vals]: "inj f \<Longrightarrow> inj g \<Longrightarrow> val_pair f g a = val_pair f g b \<longleftrightarrow> a = b"
  by (auto simp: val_pair_def prod_eq_iff dest: injD)

lemma val_set_eq [vals]: "inj f \<Longrightarrow> val_set f A = val_set f B \<longleftrightarrow> A = B"
proof -
  assume "inj f"
  moreover have "sorted_list_of_fset A = sorted_list_of_fset B \<longleftrightarrow> A = B" by (metis sorted_list_of_fset_simps(2))
  ultimately show ?thesis by (simp add: val_set_def inj_map_eq_map)
qed

lemma val_dict_eq [vals]: "inj f \<Longrightarrow> inj g \<Longrightarrow> val_dict f g d = val_dict f g e \<longleftrightarrow> d = e"
proof -
  assume "inj f" "inj g"
  then have "inj (\<lambda>(k, v). (f k, g v))" by (auto simp: inj_def)
  then show ?thesis by (simp add: val_dict_def inj_map_eq_map)
qed

lemma inj_parts [vals]: "inj PInt" "inj PStr" "inj PBool" "inj PFloat"
  "inj f \<Longrightarrow> inj g \<Longrightarrow> inj (val_pair f g)" "inj h \<Longrightarrow> inj (val_set h)"
  by (auto simp: inj_def val_pair_eq val_set_eq prod_eq_iff)

lemma plain_scalar:
  "PBool x = plain b \<longleftrightarrow> b = JBool x" "PInt i = plain b \<longleftrightarrow> b = JInt i" "PFloat r = plain b \<longleftrightarrow> b = JFloat r"
  "PStr s = plain b \<longleftrightarrow> b = JStr s"
  by (cases b; auto)+

lemma inj_plain [vals]: "inj plain"
proof -
  have "plain a = plain b \<Longrightarrow> a = b" for a b
  proof (induction a arbitrary: b rule: plain.induct)
    case (6 js)
    then obtain ks where ks: "b = JArr ks" "map plain js = map plain ks" by (cases b) auto
    have "js = ks" by (rule list.inj_map_strong [OF _ ks(2)]) (rule 6(1))
    with ks(1) show ?case by simp
  next
    case (7 d)
    then obtain e where e: "b = JObj e" "map (\<lambda>(k, j). (PStr k, plain j)) d = map (\<lambda>(k, j). (PStr k, plain j)) e"
      by (cases b) auto
    have "d = e"
    proof (rule list.inj_map_strong [OF _ e(2)])
      fix x y assume "x \<in> set d" "y \<in> set e" "(case x of (k, j) \<Rightarrow> (PStr k, plain j)) = (case y of (k, j) \<Rightarrow> (PStr k, plain j))"
      then show "x = y" using 7(1) [of x "fst x" "snd x" "snd y"] by (auto simp: split_beta prod_eq_iff)
    qed
    with e(1) show ?case by simp
  qed (auto simp: plain_scalar)
  then show ?thesis by (auto intro: injI)
qed

section \<open>The records\<close>

lemma fit_memory_snapshot [fit]: "fits so SNAPSHOT_CLASSES (TData ''MemorySnapshot'') (val_of_memory_snapshot r)"
  unfolding val_of_memory_snapshot_def
  by (rule fits.data [where fs = MEMORY_SNAPSHOT_FIELDS], simp add: SNAPSHOT_CLASSES_def,
      simp_all add: MEMORY_SNAPSHOT_FIELDS_def required_def defaulted_def)
    (auto intro!: fit)

lemma memory_snapshot_eq [vals]: "val_of_memory_snapshot a = val_of_memory_snapshot b \<longleftrightarrow> a = b"
proof
  assume "val_of_memory_snapshot a = val_of_memory_snapshot b"
  then show "a = b" by (intro memory_snapshot.equality) (simp_all add: val_of_memory_snapshot_def vals)
qed simp

lemma inj_memory_snapshot [vals]: "inj val_of_memory_snapshot"
  by (simp add: inj_def vals)

lemma fit_family_snapshot [fit]: "fits so SNAPSHOT_CLASSES (TData ''FamilySnapshot'') (val_of_family_snapshot r)"
  unfolding val_of_family_snapshot_def
  by (rule fits.data [where fs = FAMILY_SNAPSHOT_FIELDS], simp add: SNAPSHOT_CLASSES_def,
      simp_all add: FAMILY_SNAPSHOT_FIELDS_def required_def defaulted_def)
    (auto intro!: fit)

lemma family_snapshot_eq [vals]: "val_of_family_snapshot a = val_of_family_snapshot b \<longleftrightarrow> a = b"
proof
  assume "val_of_family_snapshot a = val_of_family_snapshot b"
  then show "a = b" by (intro family_snapshot.equality) (simp_all add: val_of_family_snapshot_def vals)
qed simp

lemma inj_family_snapshot [vals]: "inj val_of_family_snapshot"
  by (simp add: inj_def vals)

lemma fit_character_snapshot [fit]:
  "storable_character r \<Longrightarrow> fits so SNAPSHOT_CLASSES (TData ''CharacterSnapshot'') (val_of_character_snapshot r)"
  unfolding val_of_character_snapshot_def
  by (rule fits.data [where fs = CHARACTER_SNAPSHOT_FIELDS], simp add: SNAPSHOT_CLASSES_def,
      simp_all add: CHARACTER_SNAPSHOT_FIELDS_def required_def defaulted_def)
    (auto simp: storable_character_def json_ok_def intro!: fit fit_plain)

lemma character_eq: "val_of_character_snapshot a = val_of_character_snapshot b \<Longrightarrow>
    storable_character a \<Longrightarrow> storable_character b \<Longrightarrow> a = b"
proof (rule character_snapshot.equality)
  assume v: "val_of_character_snapshot a = val_of_character_snapshot b"
    and ok: "storable_character a" "storable_character b"
  have "val_opt plain (cs_ethnicity a) = val_opt plain (cs_ethnicity b)" using v by (simp add: val_of_character_snapshot_def)
  then show "cs_ethnicity a = cs_ethnicity b"
    using ok inj_plain by (auto simp: val_opt_def storable_character_def json_ok_def dest: injD split: option.splits)
qed (simp_all add: val_of_character_snapshot_def vals)

lemma fit_artifact_snapshot [fit]: "fits so SNAPSHOT_CLASSES (TData ''ArtifactSnapshot'') (val_of_artifact_snapshot r)"
  unfolding val_of_artifact_snapshot_def
  by (rule fits.data [where fs = ARTIFACT_SNAPSHOT_FIELDS], simp add: SNAPSHOT_CLASSES_def,
      simp_all add: ARTIFACT_SNAPSHOT_FIELDS_def required_def defaulted_def)
    (auto intro!: fit)

lemma artifact_snapshot_eq [vals]: "val_of_artifact_snapshot a = val_of_artifact_snapshot b \<longleftrightarrow> a = b"
proof
  assume "val_of_artifact_snapshot a = val_of_artifact_snapshot b"
  then show "a = b" by (intro artifact_snapshot.equality) (simp_all add: val_of_artifact_snapshot_def vals)
qed simp

lemma inj_artifact_snapshot [vals]: "inj val_of_artifact_snapshot"
  by (simp add: inj_def vals)

lemma fit_construction_snapshot [fit]: "fits so SNAPSHOT_CLASSES (TData ''ConstructionSnapshot'') (val_of_construction_snapshot r)"
  unfolding val_of_construction_snapshot_def
  by (rule fits.data [where fs = CONSTRUCTION_SNAPSHOT_FIELDS], simp add: SNAPSHOT_CLASSES_def,
      simp_all add: CONSTRUCTION_SNAPSHOT_FIELDS_def required_def defaulted_def)
    (auto intro!: fit)

lemma construction_snapshot_eq [vals]: "val_of_construction_snapshot a = val_of_construction_snapshot b \<longleftrightarrow> a = b"
proof
  assume "val_of_construction_snapshot a = val_of_construction_snapshot b"
  then show "a = b" by (intro construction_snapshot.equality) (simp_all add: val_of_construction_snapshot_def vals)
qed simp

lemma inj_construction_snapshot [vals]: "inj val_of_construction_snapshot"
  by (simp add: inj_def vals)

lemma fit_epidemic_snapshot [fit]: "fits so SNAPSHOT_CLASSES (TData ''EpidemicSnapshot'') (val_of_epidemic_snapshot r)"
  unfolding val_of_epidemic_snapshot_def
  by (rule fits.data [where fs = EPIDEMIC_SNAPSHOT_FIELDS], simp add: SNAPSHOT_CLASSES_def,
      simp_all add: EPIDEMIC_SNAPSHOT_FIELDS_def required_def defaulted_def)
    (auto intro!: fit)

lemma epidemic_snapshot_eq [vals]: "val_of_epidemic_snapshot a = val_of_epidemic_snapshot b \<longleftrightarrow> a = b"
proof
  assume "val_of_epidemic_snapshot a = val_of_epidemic_snapshot b"
  then show "a = b" by (intro epidemic_snapshot.equality) (simp_all add: val_of_epidemic_snapshot_def vals)
qed simp

lemma inj_epidemic_snapshot [vals]: "inj val_of_epidemic_snapshot"
  by (simp add: inj_def vals)

lemma fit_activity_snapshot [fit]: "fits so SNAPSHOT_CLASSES (TData ''ActivitySnapshot'') (val_of_activity_snapshot r)"
  unfolding val_of_activity_snapshot_def
  by (rule fits.data [where fs = ACTIVITY_SNAPSHOT_FIELDS], simp add: SNAPSHOT_CLASSES_def,
      simp_all add: ACTIVITY_SNAPSHOT_FIELDS_def required_def defaulted_def)
    (auto intro!: fit)

lemma activity_snapshot_eq [vals]: "val_of_activity_snapshot a = val_of_activity_snapshot b \<longleftrightarrow> a = b"
proof
  assume "val_of_activity_snapshot a = val_of_activity_snapshot b"
  then show "a = b" by (intro activity_snapshot.equality) (simp_all add: val_of_activity_snapshot_def vals)
qed simp

lemma inj_activity_snapshot [vals]: "inj val_of_activity_snapshot"
  by (simp add: inj_def vals)

lemma fit_inspiration_snapshot [fit]: "fits so SNAPSHOT_CLASSES (TData ''InspirationSnapshot'') (val_of_inspiration_snapshot r)"
  unfolding val_of_inspiration_snapshot_def
  by (rule fits.data [where fs = INSPIRATION_SNAPSHOT_FIELDS], simp add: SNAPSHOT_CLASSES_def,
      simp_all add: INSPIRATION_SNAPSHOT_FIELDS_def required_def defaulted_def)
    (auto intro!: fit)

lemma inspiration_snapshot_eq [vals]: "val_of_inspiration_snapshot a = val_of_inspiration_snapshot b \<longleftrightarrow> a = b"
proof
  assume "val_of_inspiration_snapshot a = val_of_inspiration_snapshot b"
  then show "a = b" by (intro inspiration_snapshot.equality) (simp_all add: val_of_inspiration_snapshot_def vals)
qed simp

lemma inj_inspiration_snapshot [vals]: "inj val_of_inspiration_snapshot"
  by (simp add: inj_def vals)

lemma fit_domicile_snapshot [fit]: "fits so SNAPSHOT_CLASSES (TData ''DomicileSnapshot'') (val_of_domicile_snapshot r)"
  unfolding val_of_domicile_snapshot_def
  by (rule fits.data [where fs = DOMICILE_SNAPSHOT_FIELDS], simp add: SNAPSHOT_CLASSES_def,
      simp_all add: DOMICILE_SNAPSHOT_FIELDS_def required_def defaulted_def)
    (auto intro!: fit)

lemma domicile_snapshot_eq [vals]: "val_of_domicile_snapshot a = val_of_domicile_snapshot b \<longleftrightarrow> a = b"
proof
  assume "val_of_domicile_snapshot a = val_of_domicile_snapshot b"
  then show "a = b" by (intro domicile_snapshot.equality) (simp_all add: val_of_domicile_snapshot_def vals)
qed simp

lemma inj_domicile_snapshot [vals]: "inj val_of_domicile_snapshot"
  by (simp add: inj_def vals)

lemma fit_court_position_snapshot [fit]: "fits so SNAPSHOT_CLASSES (TData ''CourtPositionSnapshot'') (val_of_court_position_snapshot r)"
  unfolding val_of_court_position_snapshot_def
  by (rule fits.data [where fs = COURT_POSITION_SNAPSHOT_FIELDS], simp add: SNAPSHOT_CLASSES_def,
      simp_all add: COURT_POSITION_SNAPSHOT_FIELDS_def required_def defaulted_def)
    (auto intro!: fit)

lemma court_position_snapshot_eq [vals]: "val_of_court_position_snapshot a = val_of_court_position_snapshot b \<longleftrightarrow> a = b"
proof
  assume "val_of_court_position_snapshot a = val_of_court_position_snapshot b"
  then show "a = b" by (intro court_position_snapshot.equality) (simp_all add: val_of_court_position_snapshot_def vals)
qed simp

lemma inj_court_position_snapshot [vals]: "inj val_of_court_position_snapshot"
  by (simp add: inj_def vals)

lemma fit_contract_snapshot [fit]: "fits so SNAPSHOT_CLASSES (TData ''ContractSnapshot'') (val_of_contract_snapshot r)"
  unfolding val_of_contract_snapshot_def
  by (rule fits.data [where fs = CONTRACT_SNAPSHOT_FIELDS], simp add: SNAPSHOT_CLASSES_def,
      simp_all add: CONTRACT_SNAPSHOT_FIELDS_def required_def defaulted_def)
    (auto intro!: fit)

lemma contract_snapshot_eq [vals]: "val_of_contract_snapshot a = val_of_contract_snapshot b \<longleftrightarrow> a = b"
proof
  assume "val_of_contract_snapshot a = val_of_contract_snapshot b"
  then show "a = b" by (intro contract_snapshot.equality) (simp_all add: val_of_contract_snapshot_def vals)
qed simp

lemma inj_contract_snapshot [vals]: "inj val_of_contract_snapshot"
  by (simp add: inj_def vals)

lemma fit_war_snapshot [fit]: "fits so SNAPSHOT_CLASSES (TData ''WarSnapshot'') (val_of_war_snapshot r)"
  unfolding val_of_war_snapshot_def
  by (rule fits.data [where fs = WAR_SNAPSHOT_FIELDS], simp add: SNAPSHOT_CLASSES_def,
      simp_all add: WAR_SNAPSHOT_FIELDS_def required_def defaulted_def)
    (auto intro!: fit)

lemma war_snapshot_eq [vals]: "val_of_war_snapshot a = val_of_war_snapshot b \<longleftrightarrow> a = b"
proof
  assume "val_of_war_snapshot a = val_of_war_snapshot b"
  then show "a = b" by (intro war_snapshot.equality) (simp_all add: val_of_war_snapshot_def vals)
qed simp

lemma inj_war_snapshot [vals]: "inj val_of_war_snapshot"
  by (simp add: inj_def vals)

lemma fit_title_snapshot [fit]: "fits so SNAPSHOT_CLASSES (TData ''TitleSnapshot'') (val_of_title_snapshot r)"
  unfolding val_of_title_snapshot_def
  by (rule fits.data [where fs = TITLE_SNAPSHOT_FIELDS], simp add: SNAPSHOT_CLASSES_def,
      simp_all add: TITLE_SNAPSHOT_FIELDS_def required_def defaulted_def)
    (auto intro!: fit)

lemma title_snapshot_eq [vals]: "val_of_title_snapshot a = val_of_title_snapshot b \<longleftrightarrow> a = b"
proof
  assume "val_of_title_snapshot a = val_of_title_snapshot b"
  then show "a = b" by (intro title_snapshot.equality) (simp_all add: val_of_title_snapshot_def vals)
qed simp

lemma inj_title_snapshot [vals]: "inj val_of_title_snapshot"
  by (simp add: inj_def vals)

lemma fit_save_snapshot:
  "storable r \<Longrightarrow> fits so SNAPSHOT_CLASSES (TData ''SaveSnapshot'') (val_of_save_snapshot r)"
  unfolding val_of_save_snapshot_def
  by (rule fits.data [where fs = SAVE_SNAPSHOT_FIELDS], simp add: SNAPSHOT_CLASSES_def,
      simp_all add: SAVE_SNAPSHOT_FIELDS_def required_def defaulted_def)
    (auto simp: storable_def intro!: fit fit_dict_int fit_dict_slot fit_plain)

theorem save_snapshot_eq: "val_of_save_snapshot a = val_of_save_snapshot b \<Longrightarrow> storable a \<Longrightarrow> storable b \<Longrightarrow> a = b"
proof (rule save_snapshot.equality)
  assume v: "val_of_save_snapshot a = val_of_save_snapshot b" and ok: "storable a" "storable b"
  have "val_dict PInt val_of_character_snapshot (sn_characters a) = val_dict PInt val_of_character_snapshot (sn_characters b)"
    using v by (simp add: val_of_save_snapshot_def)
  then have m: "map (\<lambda>(k, c). (PInt k, val_of_character_snapshot c)) (sn_characters a)
      = map (\<lambda>(k, c). (PInt k, val_of_character_snapshot c)) (sn_characters b)" by (simp add: val_dict_def)
  show "sn_characters a = sn_characters b"
  proof (rule list.inj_map_strong [OF _ m])
    fix x y assume "x \<in> set (sn_characters a)" "y \<in> set (sn_characters b)"
      and "(case x of (k, c) \<Rightarrow> (PInt k, val_of_character_snapshot c)) = (case y of (k, c) \<Rightarrow> (PInt k, val_of_character_snapshot c))"
    then show "x = y" using ok character_eq [of "snd x" "snd y"] by (auto simp: storable_def split_beta prod_eq_iff)
  qed
qed (simp_all add: val_of_save_snapshot_def vals)

end
