(* ===== verification/Baseline.thy ===== *)
theory Baseline
  imports Save_Cache Snapshot_Values Demo
begin

text \<open>
  The persisted baseline, \<open>save/baseline.py\<close>: one JSON file per campaign with the snapshot, a counter of
  generations and the time of writing, replaced as a whole or not at all. What \<open>json\<close> reads back is
  what it wrote; \<open>loaded\<close> (\<open>Save_Cache\<close>) is what it makes of the text of a file.
\<close>

section \<open>The file\<close>

text \<open>The suffix of a path: from its last dot, unless the name begins or ends with it.\<close>

definition has_suffix :: "string \<Rightarrow> bool" where
  "has_suffix name =
     (let tail = takeWhile (\<lambda>c. c \<noteq> CHR ''.'') (rev name);
          rest = dropWhile (\<lambda>c. c \<noteq> CHR ''.'') (rev name)
      in tail \<noteq> [] \<and> rest \<noteq> [] \<and> tl rest \<noteq> [])"

definition baseline_path_for :: "string \<Rightarrow> string" where
  "baseline_path_for name =
     (if has_suffix name then with_suffix name ''.baseline.json'' else name @ ''.baseline.json'')"

text \<open>The baseline of a campaign and the temporary file beside it.\<close>

record baseline_files =
  bf_file :: "loaded option"
  bf_tmp :: "loaded option"

record baseline_load =
  bl_snapshot :: pyval
  bl_generation :: "int option"
  bl_persisted_at :: "string option"

definition BASELINE_FORMAT_VERSION :: int where
  "BASELINE_FORMAT_VERSION = 2"

text \<open>\<open>version == n\<close>: numbers and truth values are equal across their types.\<close>

definition equals_int :: "json \<Rightarrow> int \<Rightarrow> bool" where
  "equals_int v n = (case v of JFloat r \<Rightarrow> r = of_int n | _ \<Rightarrow> int_instance v = Some n)"

section \<open>Writing\<close>

text \<open>Text that is not UTF-8 raises a \<open>UnicodeDecodeError\<close>, which is a \<open>ValueError\<close> but no
  \<open>JSONDecodeError\<close>.\<close>

definition next_generation :: "loaded option \<Rightarrow> int result" where
  "next_generation before =
     (case before of
        None \<Rightarrow> Inr 1
      | Some Json_Error \<Rightarrow> Inr 1
      | Some Decode_Error \<Rightarrow> Inl ValueError
      | Some (Json_Value (JObj payload)) \<Rightarrow>
          (case int_instance (get payload ''generation'') of
             Some gen \<Rightarrow> Inr (if 0 \<le> gen then gen + 1 else 1)
           | None \<Rightarrow> Inr 1)
      | Some (Json_Value v) \<Rightarrow> Inr 1)"

definition baseline_payload :: "int \<Rightarrow> string \<Rightarrow> json \<Rightarrow> json" where
  "baseline_payload generation now snapshot =
     JObj [(''format_version'', JInt BASELINE_FORMAT_VERSION), (''generation'', JInt generation),
           (''persisted_at'', JStr now), (''snapshot'', snapshot)]"

datatype persisted = Persisted | Raised py_error | Os_Error

text \<open>The temporary file is written and takes the place of the baseline; after a failure it is removed,
  if the system lets it (\<open>unlinked\<close>), and the exception goes on. \<open>how\<close> is how far the system let the
  write come.\<close>

definition save_baseline ::
  "(pyval \<Rightarrow> string) \<Rightarrow> written \<Rightarrow> bool \<Rightarrow> string \<Rightarrow> save_snapshot \<Rightarrow> baseline_files \<Rightarrow> persisted \<times> baseline_files" where
  "save_baseline str_of how unlinked now snapshot bf =
     (case bindr (next_generation (bf_file bf)) (\<lambda>g.
             bindr (to_jsonable str_of (val_of_save_snapshot snapshot)) (\<lambda>j. Inr (baseline_payload g now j))) of
        Inl e \<Rightarrow> (Raised e, bf)
      | Inr payload \<Rightarrow>
          (let cleaned = (\<lambda>bf. if unlinked then bf\<lparr>bf_tmp := None\<rparr> else bf)
           in case how of
                Not_Opened \<Rightarrow> (Os_Error, cleaned bf)
              | Not_Replaced \<Rightarrow> (Os_Error, cleaned (bf\<lparr>bf_tmp := Some (Json_Value payload)\<rparr>))
              | Written \<Rightarrow> (Persisted, \<lparr>bf_file = Some (Json_Value payload), bf_tmp = None\<rparr>)))"

definition delete_baseline_if_exists :: "baseline_files \<Rightarrow> bool \<times> baseline_files" where
  "delete_baseline_if_exists bf = (bf_file bf \<noteq> None, bf\<lparr>bf_file := None\<rparr>)"

section \<open>Reading\<close>

definition missing_fields :: "obj \<Rightarrow> string list" where
  "missing_fields snap_dict = filter (\<lambda>n. dict_get snap_dict n = None) (map fi_name SAVE_SNAPSHOT_FIELDS)"

definition load_forensics :: "json \<Rightarrow> obj \<Rightarrow> pyval \<Rightarrow> baseline_load" where
  "load_forensics version payload snapshot =
     (let current = equals_int version BASELINE_FORMAT_VERSION
      in \<lparr>bl_snapshot = snapshot,
          bl_generation = (if current then int_instance (get payload ''generation'') else None),
          bl_persisted_at = (if current then case get payload ''persisted_at'' of JStr s \<Rightarrow> Some s | _ \<Rightarrow> None
                             else None)\<rparr>)"

text \<open>\<open>except (KeyError, TypeError, ValueError)\<close> around the decoder.\<close>

definition load_baseline :: "loaded option \<Rightarrow> baseline_load option result" where
  "load_baseline found =
     (case found of
        None \<Rightarrow> Inr None
      | Some Json_Error \<Rightarrow> Inr None
      | Some Decode_Error \<Rightarrow> Inl ValueError
      | Some (Json_Value (JObj payload)) \<Rightarrow>
          (let version = get payload ''format_version''
           in if \<not> equals_int version 1 \<and> \<not> equals_int version BASELINE_FORMAT_VERSION then Inr None
              else case get payload ''snapshot'' of
                  JObj snap_dict \<Rightarrow>
                    if missing_fields snap_dict \<noteq> [] then Inr None
                    else (case from_jsonable SNAPSHOT_CLASSES ''SaveSnapshot'' (JObj snap_dict) of
                        Inl AttributeError \<Rightarrow> Inl AttributeError
                      | Inl e \<Rightarrow> Inr None
                      | Inr snapshot \<Rightarrow> Inr (Some (load_forensics version payload snapshot)))
                | _ \<Rightarrow> Inr None)
      | Some (Json_Value v) \<Rightarrow> Inr None)"

section \<open>What the writer promises and the reader keeps\<close>

lemma dict_get_missing: "dict_get d k = None \<longleftrightarrow> k \<notin> fst ` set d"
  by (induction d) (auto split: if_splits)

text \<open>A snapshot is encoded as an object with all of its fields, and decodes to itself.\<close>

lemma snapshot_back:
  assumes "storable s"
  obtains d where "to_jsonable so (val_of_save_snapshot s) = Inr (JObj d)" and "missing_fields d = []"
    and "from_jsonable SNAPSHOT_CLASSES ''SaveSnapshot'' (JObj d) = Inr (val_of_save_snapshot s)"
proof -
  obtain j where j: "to_jsonable so (val_of_save_snapshot s) = Inr j"
    "decode SNAPSHOT_CLASSES (TData ''SaveSnapshot'') j = Inr (val_of_save_snapshot s)"
    using decode_encode [OF fit_save_snapshot [OF assms]] unfolding comes_back_def by blast
  obtain fvs where v: "val_of_save_snapshot s = PData ''SaveSnapshot'' fvs"
    and names: "map fst fvs = map fi_name SAVE_SNAPSHOT_FIELDS"
    by (simp add: val_of_save_snapshot_def SAVE_SNAPSHOT_FIELDS_def required_def defaulted_def)
  obtain kvs where kvs: "mapr (\<lambda>(n, v). bindr (to_jsonable so v) (\<lambda>j. Inr (n, j))) fvs = Inr kvs"
    "j = JObj (dict_of_pairs kvs)"
    using j(1) v by (auto simp: bindr_eq_Inr)
  have keys: "map fst kvs = map fst fvs"
    using kvs(1) by (induction fvs arbitrary: kvs) (auto simp: bindr_eq_Inr)
  have "distinct (map fi_name SAVE_SNAPSHOT_FIELDS)"
    by (simp add: SAVE_SNAPSHOT_FIELDS_def required_def defaulted_def)
  then have "dict_of_pairs kvs = kvs" using keys names by (simp add: dict_of_pairs_id)
  moreover have "dict_get kvs n \<noteq> None" if "n \<in> set (map fi_name SAVE_SNAPSHOT_FIELDS)" for n
    using that keys [symmetric] names by (auto simp: dict_get_missing simp flip: set_map)
  ultimately show ?thesis using that [of kvs] j kvs(2) by (auto simp: missing_fields_def from_jsonable_def)
qed

lemma reads_payload:
  assumes "storable s" and "to_jsonable so (val_of_save_snapshot s) = Inr j"
  shows "load_baseline (Some (Json_Value (baseline_payload g now j)))
    = Inr (Some \<lparr>bl_snapshot = val_of_save_snapshot s, bl_generation = Some g, bl_persisted_at = Some now\<rparr>)"
proof -
  obtain d where "j = JObj d" "missing_fields d = []"
    "from_jsonable SNAPSHOT_CLASSES ''SaveSnapshot'' (JObj d) = Inr (val_of_save_snapshot s)"
    using snapshot_back [OF assms(1), of so] assms(2) by auto
  then show ?thesis
    by (simp add: load_baseline_def baseline_payload_def load_forensics_def equals_int_def get_def
        BASELINE_FORMAT_VERSION_def)
qed

text \<open>
  The properties of the persisted baseline and of the codec below it.
\<close>

section \<open>The codec\<close>

text \<open>The codec brings back whatever its types describe. For any table of dataclasses, a value that
  fits its type (keys once, sets in the order of their encoding, integers in keys readable) is encoded
  without an error, and decoding the result with that type gives the value itself.\<close>

theorem codec_round_trip:
  assumes "fits str_of classes t v"
  shows "\<exists>j. to_jsonable str_of v = Inr j \<and> decode classes t j = Inr v"
  using decode_encode [OF assms] unfolding comes_back_def by blast

theorem codec_round_trip_witness:
  "\<exists>j. to_jsonable (\<lambda>_. []) (val_of_war_snapshot demo_war) = Inr j
     \<and> decode SNAPSHOT_CLASSES (TData ''WarSnapshot'') j = Inr (val_of_war_snapshot demo_war)"
  by (rule codec_round_trip) (rule fit)

section \<open>The baseline\<close>

lemma generation_positive: "next_generation before = Inr g \<Longrightarrow> 0 < g"
  by (auto simp: next_generation_def split: option.splits loaded.splits json.splits if_splits)

lemma generation_after: "0 \<le> g \<Longrightarrow> next_generation (Some (Json_Value (baseline_payload g now j))) = Inr (g + 1)"
  by (simp add: next_generation_def baseline_payload_def get_def)

text \<open>C13: a restart finds the baseline it left. When a snapshot is persisted and the system lets the write
  through, loading the file gives back exactly its value, under the next generation and the time of the
  write, the generation counts on from there, and no other snapshot has that value.\<close>

theorem baseline_round_trip:
  assumes "storable s" and "next_generation (bf_file bf) = Inr g"
    and "save_baseline str_of Written unlinked now s bf = (r, bf')"
  shows "r = Persisted \<and> bf_tmp bf' = None \<and> next_generation (bf_file bf') = Inr (g + 1)
    \<and> load_baseline (bf_file bf') = Inr (Some \<lparr>bl_snapshot = val_of_save_snapshot s, bl_generation = Some g,
          bl_persisted_at = Some now\<rparr>)
    \<and> (storable s' \<longrightarrow> val_of_save_snapshot s' = val_of_save_snapshot s \<longrightarrow> s' = s)"
proof -
  obtain d where d: "to_jsonable str_of (val_of_save_snapshot s) = Inr (JObj d)" using snapshot_back [OF assms(1)] by blast
  have "0 \<le> g" using generation_positive [OF assms(2)] by simp
  then show ?thesis
    using assms d save_snapshot_eq [of s' s]
    by (auto simp: save_baseline_def Let_def reads_payload generation_after)
qed

lemma demo_storable: "storable demo1"
proof -
  have "readable 1" "readable 2" "readable 100" by code_simp+
  then show ?thesis
    by (simp add: storable_def demo1_def new_snapshot_def int_keys_def slot_keys_def dict_ok_def
        storable_character_def demo_alice_def demo_bob_def new_character_def)
qed

theorem baseline_round_trip_witness:
  "\<exists>bf' :: baseline_files. load_baseline (bf_file bf') = Inr (Some \<lparr>bl_snapshot = val_of_save_snapshot demo1, bl_generation = Some 8,
     bl_persisted_at = Some ''now''\<rparr>)"
proof -
  let ?bf = "\<lparr>bf_file = Some (Json_Value (JObj [(''generation'', JInt 7)])), bf_tmp = None\<rparr>"
  have g: "next_generation (bf_file ?bf) = Inr 8" by (simp add: next_generation_def get_def)
  obtain r bf' where w: "save_baseline (\<lambda>_. []) Written True ''now'' demo1 ?bf = (r, bf')" by (rule prod.exhaust)
  from baseline_round_trip [OF demo_storable g w, of demo1] show ?thesis by blast
qed

text \<open>C27: a write replaces the baseline or leaves it alone. Whatever the previous file holds and however far
  the system lets the write come, either the file is afterwards the whole payload of this write and no
  temporary file is left, or an exception is raised and the baseline is the one from before.\<close>

theorem baseline_replaced_or_kept:
  assumes "save_baseline str_of how unlinked now s bf = (r, bf')"
  shows "(r = Persisted \<and> how = Written \<and> bf_tmp bf' = None
        \<and> (\<exists>g j. bf_file bf' = Some (Json_Value (baseline_payload g now j))
            \<and> next_generation (bf_file bf) = Inr g \<and> to_jsonable str_of (val_of_save_snapshot s) = Inr j))
    \<or> (r \<noteq> Persisted \<and> load_baseline (bf_file bf') = load_baseline (bf_file bf) \<and> bf_file bf' = bf_file bf)"
  using assms
  by (auto simp: save_baseline_def Let_def bindr_eq_Inr split: sum.splits written.splits if_splits)

theorem baseline_replaced_or_kept_witness:
  "\<exists>r bf'. save_baseline (\<lambda>_. []) Not_Replaced True ''now'' demo1 \<lparr>bf_file = None, bf_tmp = None\<rparr> = (r, bf')
     \<and> r \<noteq> Persisted"
proof -
  obtain r bf' where w: "save_baseline (\<lambda>_. []) Not_Replaced True ''now'' demo1 \<lparr>bf_file = None, bf_tmp = None\<rparr> = (r, bf')"
    by force
  show ?thesis using baseline_replaced_or_kept [OF w] w by auto
qed

text \<open>C26: a baseline of an older build is discarded. Where the stored snapshot lacks even one field of
  today's class, whatever its version and whether or not the field has a default, the loader gives no
  baseline.\<close>

theorem old_baseline_discarded:
  assumes "get payload ''snapshot'' = JObj d" and "n \<in> fi_name ` set SAVE_SNAPSHOT_FIELDS" and "n \<notin> fst ` set d"
  shows "load_baseline (Some (Json_Value (JObj payload))) = Inr None"
proof -
  have "missing_fields d \<noteq> []"
    using assms(2,3) by (auto simp: missing_fields_def filter_empty_conv dict_get_missing)
  then show ?thesis using assms(1) by (simp add: load_baseline_def Let_def)
qed

theorem old_baseline_discarded_witness:
  "load_baseline (Some (Json_Value (JObj [(''format_version'', JInt 2),
     (''snapshot'', JObj [(''playthrough_id'', JStr ''run''), (''ck3_version'', JStr ''1.12''),
        (''current_date'', JStr ''1066.1.1'')])]))) = Inr None
   \<and> from_jsonable SNAPSHOT_CLASSES ''SaveSnapshot'' (JObj [(''playthrough_id'', JStr ''run''),
        (''ck3_version'', JStr ''1.12''), (''current_date'', JStr ''1066.1.1'')])
     = Inr (val_of_save_snapshot (new_snapshot ''run'' ''1.12'' None ''1066.1.1'' None))"
proof
  show "load_baseline (Some (Json_Value (JObj [(''format_version'', JInt 2),
     (''snapshot'', JObj [(''playthrough_id'', JStr ''run''), (''ck3_version'', JStr ''1.12''),
        (''current_date'', JStr ''1066.1.1'')])]))) = Inr None"
    by (rule old_baseline_discarded [where n = "''wars''"])
      (auto simp: get_def SAVE_SNAPSHOT_FIELDS_def required_def defaulted_def)
qed (simp add: from_jsonable_def decode.simps SNAPSHOT_CLASSES_def SAVE_SNAPSHOT_FIELDS_def required_def
    defaulted_def val_of_save_snapshot_def new_snapshot_def val_opt_def val_dict_def val_tuple_def)

end
