(* ===== verification/Tail_Parser.thy ===== *)
theory Tail_Parser
  imports Py_Text Py_Json Events Localization
begin

text \<open>
  The parser of the debug log, \<open>tailer/parser.py\<close>: a tagged line opens an event, the dump of scopes behind
  it gives the character and the participants, and the next line with the prefix of the engine closes
  it. The model of the events decides what is valid, which is pydantic's work: a parameter, as are
  the wall clock and the representation of a text in a message.
\<close>

section \<open>The expressions\<close>

definition chronicler_re :: rx where
  "chronicler_re = seqs [Alt Bol (One (\<lambda>c. \<not> is_word c)), text_rx ''CHRONICLER|'', Cap (lazy_plus any_rx),
     Many space_rx, Eol]"

definition clock_rx :: rx where
  "clock_rx = seqs [text_rx ''['', digit_rx, digit_rx, text_rx '':'', digit_rx, digit_rx, text_rx '':'', digit_rx,
     digit_rx, text_rx '']'']"

definition engine_prefix_re :: rx where
  "engine_prefix_re = seqs [Bol, clock_rx, text_rx ''['', plus (One is_word), text_rx ''][''  ,
     plus (One (\<lambda>c. c \<noteq> CHR '']'')), text_rx '']:'']"

definition internal_id_rx :: rx where
  "internal_id_rx = seqs [text_rx ''Internal ID'', opt (text_rx '':''), plus space_rx, Cap (plus digit_rx)]"

definition character_rx :: rx where
  "character_rx = seqs [text_rx ''(Character'', Many space_rx, text_rx ''-'', Many space_rx, plus digit_rx, text_rx '')'']"

definition label_start :: "char \<Rightarrow> bool" where
  "label_start c \<longleftrightarrow> (let n = (of_char c :: nat) in 97 \<le> n \<and> n \<le> 122 \<or> n = 95)"

definition label_rx :: rx where
  "label_rx = Seq (Cap (Seq (One label_start) (Many (One is_word)))) (text_rx '':'')"

definition save_scope_re :: rx where
  "save_scope_re = seqs [Bol, label_rx, space_rx, Few any_rx, internal_id_rx, Few any_rx, character_rx]"

definition list_label_re :: rx where
  "list_label_re = seqs [Bol, label_rx, Many space_rx, Eol]"

definition list_item_re :: rx where
  "list_item_re = seqs [Few any_rx, text_rx ''('', internal_id_rx, Few any_rx, character_rx]"

definition EVENT_TARGETS_HEADER :: string where
  "EVENT_TARGETS_HEADER = ''Saved event targets:''"

definition LIST_TARGETS_HEADER :: string where
  "LIST_TARGETS_HEADER = ''Saved list targets:''"

section \<open>Results and the pending event\<close>

datatype failure_reason = Invalid_Format | Schema_Violation | Missing_Scope

record parsed_event =
  pv_event :: event
  pv_raw_line :: string
  pv_wall_clock_at :: string
  pv_participants :: "(string \<times> int) list"

record parse_failure =
  pf_raw_line :: string
  pf_error :: string
  pf_reason :: failure_reason
  pf_wall_clock_at :: string
  pf_event_kind :: "string option"

datatype parse_result = Parsed parsed_event | Rejected parse_failure

datatype dump_section = No_Section | Event_Targets | List_Targets

record pending_event =
  pe_envelope :: obj
  pe_wall_clock_at :: string
  pe_raw_lines :: "string list"
  pe_participants :: "(string \<times> int) list"
  pe_scope_lines_seen :: nat
  pe_saw_dump_start :: bool
  pe_section :: dump_section
  pe_current_list_name :: "string option"

text \<open>What the parser takes from outside: the event an envelope describes or pydantic's complaint, and
  \<open>repr\<close> of a text.\<close>

record parser_env =
  px_validate :: "obj \<Rightarrow> string + event"
  px_repr :: "string \<Rightarrow> string"

section \<open>The envelope\<close>

text \<open>\<open>segment.partition("=")\<close>, where there is one.\<close>

definition partition_eq :: "string \<Rightarrow> string \<times> string" where
  "partition_eq segment =
     (takeWhile (\<lambda>c. c \<noteq> CHR ''='') segment, tl (dropWhile (\<lambda>c. c \<noteq> CHR ''='') segment))"

definition ENVELOPE_KEYS :: "string set" where
  "ENVELOPE_KEYS = {''v'', ''t'', ''d''}"

fun add_segments :: "parser_env \<Rightarrow> string list \<Rightarrow> obj \<Rightarrow> obj \<Rightarrow> string + obj" where
  "add_segments px [] envelope payload = Inr (dict_set envelope ''p'' (JObj payload))"
| "add_segments px (segment # segments) envelope payload =
     (if CHR ''='' \<notin> set segment then Inl (''segment is not key=value: '' @ px_repr px segment)
      else case partition_eq segment of (key, v) \<Rightarrow>
        if strip key = [] then Inl (''empty key in segment: '' @ px_repr px segment)
        else if strip key \<in> ENVELOPE_KEYS
          then add_segments px segments (dict_set envelope (strip key) (JStr v)) payload
        else add_segments px segments envelope (dict_set payload (strip key) (JStr v)))"

definition build_envelope :: "parser_env \<Rightarrow> string \<Rightarrow> string + obj" where
  "build_envelope px body = add_segments px (split_on (CHR ''|'') body) [] []"

definition envelope_kind :: "obj \<Rightarrow> string option" where
  "envelope_kind envelope = opt_text (get envelope ''t'')"

section \<open>Closing an event\<close>

definition join_lines :: "string list \<Rightarrow> string" where
  "join_lines = join_with [CHR 0x0A]"

definition dedupe :: "'a list \<Rightarrow> 'a list" where
  "dedupe xs = fold (\<lambda>x out. if x \<in> set out then out else out @ [x]) xs []"

definition failure_of :: "pending_event \<Rightarrow> failure_reason \<Rightarrow> string \<Rightarrow> parse_result" where
  "failure_of pe reason error =
     Rejected \<lparr>pf_raw_line = join_lines (pe_raw_lines pe), pf_error = error, pf_reason = reason,
       pf_wall_clock_at = pe_wall_clock_at pe, pf_event_kind = envelope_kind (pe_envelope pe)\<rparr>"

definition finalise :: "parser_env \<Rightarrow> pending_event \<Rightarrow> parse_result" where
  "finalise px pe =
     (if dict_get (pe_envelope pe) ''c'' = None
      then failure_of pe Missing_Scope ''no Internal ID extracted from scope dump''
      else case px_validate px (pe_envelope pe) of
          Inl error \<Rightarrow> failure_of pe Schema_Violation error
        | Inr ev \<Rightarrow> Parsed \<lparr>pv_event = ev, pv_raw_line = join_lines (pe_raw_lines pe),
            pv_wall_clock_at = pe_wall_clock_at pe, pv_participants = dedupe (pe_participants pe)\<rparr>)"

section \<open>One line\<close>

definition SCOPE_TIMEOUT_LINES :: nat where
  "SCOPE_TIMEOUT_LINES = 80"

text \<open>\<open>line.rstrip("\r\n")\<close>.\<close>

definition rstrip_newlines :: "string \<Rightarrow> string" where
  "rstrip_newlines line = rev (dropWhile (\<lambda>c. c \<in> {CHR 0x0D, CHR 0x0A}) (rev line))"

text \<open>The new event of a tagged line, or the failure of its format.\<close>

definition open_event :: "parser_env \<Rightarrow> string \<Rightarrow> string \<Rightarrow> string \<Rightarrow> parse_result + pending_event" where
  "open_event px now stripped body =
     (case build_envelope px body of
        Inl e \<Rightarrow> Inl (Rejected \<lparr>pf_raw_line = stripped, pf_error = ''invalid format: '' @ e, pf_reason = Invalid_Format,
            pf_wall_clock_at = now, pf_event_kind = None\<rparr>)
      | Inr envelope \<Rightarrow> Inr \<lparr>pe_envelope = envelope, pe_wall_clock_at = now, pe_raw_lines = [stripped],
            pe_participants = [], pe_scope_lines_seen = 0, pe_saw_dump_start = False, pe_section = No_Section,
            pe_current_list_name = None\<rparr>)"

text \<open>The body of a dump, by section.\<close>

text \<open>\<open>int(m.group(i))\<close>: more than 4300 digits raise.\<close>

definition id_of_digits :: "string \<Rightarrow> int result" where
  "id_of_digits ds = (if 4300 < length ds then Inl ValueError else Inr (int (parse_nat ds)))"

definition add_participant :: "string \<Rightarrow> string \<Rightarrow> pending_event \<Rightarrow> pending_event result" where
  "add_participant role ds pe =
     bindr (id_of_digits ds) (\<lambda>char_id. Inr (pe\<lparr>pe_participants := pe_participants pe @ [(role, char_id)]\<rparr>))"

definition body_line :: "string \<Rightarrow> pending_event \<Rightarrow> pending_event result" where
  "body_line stripped pe =
     (if stripped = EVENT_TARGETS_HEADER then Inr (pe\<lparr>pe_section := Event_Targets, pe_current_list_name := None\<rparr>)
      else if stripped = LIST_TARGETS_HEADER then Inr (pe\<lparr>pe_section := List_Targets, pe_current_list_name := None\<rparr>)
      else if stripped = [] then Inr (pe\<lparr>pe_current_list_name := None\<rparr>)
      else case pe_section pe of
          No_Section \<Rightarrow> Inr pe
        | Event_Targets \<Rightarrow> (case re_match save_scope_re stripped of
              Some [role, ds] \<Rightarrow> add_participant role ds pe
            | _ \<Rightarrow> Inr pe)
        | List_Targets \<Rightarrow> (case re_match list_label_re stripped of
              Some [label] \<Rightarrow> Inr (pe\<lparr>pe_current_list_name := Some label\<rparr>)
            | _ \<Rightarrow> (case (pe_current_list_name pe, re_match list_item_re stripped) of
                  (Some name, Some [ds]) \<Rightarrow> add_participant name ds pe
                | _ \<Rightarrow> Inr pe)))"

text \<open>A line in a dump: its results or what it raises, and the pending event it leaves. When an identifier
  raises, the line is already among the raw lines, and the start of the dump already noted.\<close>

type_synonym fed = "parse_result list result \<times> pending_event option"

definition scope_line :: "parser_env \<Rightarrow> string \<Rightarrow> pending_event \<Rightarrow> fed" where
  "scope_line px stripped pe0 =
     (let pe = pe0\<lparr>pe_raw_lines := pe_raw_lines pe0 @ [stripped],
                   pe_scope_lines_seen := Suc (pe_scope_lines_seen pe0)\<rparr>
      in if SCOPE_TIMEOUT_LINES \<le> pe_scope_lines_seen pe
         then (Inr [failure_of pe Missing_Scope
                  (''scope dump exceeded '' @ show_nat SCOPE_TIMEOUT_LINES @ '' lines without terminator'')], None)
         else if re_match engine_prefix_re stripped \<noteq> None then
           (if pe_saw_dump_start pe then (Inr [finalise px pe], None)
            else case re_search internal_id_rx stripped of
                Some [ds] \<Rightarrow>
                  (let started = pe\<lparr>pe_saw_dump_start := True\<rparr>
                   in case id_of_digits ds of
                        Inl e \<Rightarrow> (Inl e, Some started)
                      | Inr i \<Rightarrow> (Inr [], Some (started\<lparr>pe_envelope := dict_set (pe_envelope pe) ''c'' (JInt i)\<rparr>)))
              | _ \<Rightarrow> (Inr [], Some pe))
         else case body_line stripped pe of
             Inl e \<Rightarrow> (Inl e, Some pe)
           | Inr pe' \<Rightarrow> (Inr [], Some pe'))"

text \<open>\<open>feed\<close>: the state of the parser is its pending event; \<open>now\<close> is the wall clock when the line comes.\<close>

definition feed :: "parser_env \<Rightarrow> string \<Rightarrow> string \<Rightarrow> pending_event option \<Rightarrow> fed" where
  "feed px now line st =
     (let stripped = rstrip_newlines line
      in case re_search chronicler_re stripped of
           Some [body] \<Rightarrow>
             (let finished = (case st of None \<Rightarrow> [] | Some pe \<Rightarrow> [finalise px pe])
              in case open_event px now stripped body of
                   Inl failure \<Rightarrow> (Inr (finished @ [failure]), None)
                 | Inr pe \<Rightarrow> (Inr finished, Some pe))
         | _ \<Rightarrow> (case st of None \<Rightarrow> (Inr [], None) | Some pe \<Rightarrow> scope_line px stripped pe))"

definition flush :: "parser_env \<Rightarrow> pending_event option \<Rightarrow> parse_result list" where
  "flush px st =
     (case st of
        None \<Rightarrow> []
      | Some pe \<Rightarrow>
          [if dict_get (pe_envelope pe) ''c'' \<noteq> None then finalise px pe
           else failure_of pe Missing_Scope ''end of stream with no scope dump''])"

text \<open>
  Facts on the matcher and the parser of the debug log: how many groups a match has, what the tagged line
  of the mod gives back, and that every tag ends in one result.
\<close>

section \<open>Groups\<close>

primrec groups :: "rx \<Rightarrow> nat" where
  "groups Eps = 0"
| "groups (One f) = 0"
| "groups Bol = 0"
| "groups Eol = 0"
| "groups (Seq r s) = groups r + groups s"
| "groups (Alt r s) = groups r"
| "groups (Many r) = 0"
| "groups (Few r) = 0"
| "groups (Cap r) = Suc (groups r)"

primrec well_grouped :: "rx \<Rightarrow> bool" where
  "well_grouped Eps = True"
| "well_grouped (One f) = True"
| "well_grouped Bol = True"
| "well_grouped Eol = True"
| "well_grouped (Seq r s) = (well_grouped r \<and> well_grouped s)"
| "well_grouped (Alt r s) = (well_grouped r \<and> well_grouped s \<and> groups s = groups r)"
| "well_grouped (Many r) = (well_grouped r \<and> groups r = 0)"
| "well_grouped (Few r) = (well_grouped r \<and> groups r = 0)"
| "well_grouped (Cap r) = well_grouped r"

lemma repeat_elem:
  "(caps, q) \<in> set (repeat greedy f p) \<longleftrightarrow> caps = [] \<and> q = p \<or>
     (\<exists>c1 q1 c2. (c1, q1) \<in> set (f p) \<and> length (snd q1) < length (snd p)
        \<and> (c2, q) \<in> set (repeat greedy f q1) \<and> caps = c1 @ c2)"
  by (subst repeat.simps) (force simp: Let_def split: if_splits)

lemma repeat_groups:
  assumes "\<And>p caps q. (caps, q) \<in> set (f p) \<Longrightarrow> caps = []"
  shows "(caps, q) \<in> set (repeat greedy f p) \<Longrightarrow> caps = []"
proof (induction "length (snd p)" arbitrary: caps p rule: less_induct)
  case less
  from less.prems [unfolded repeat_elem [of caps]] show ?case
  proof (elim disjE exE conjE)
    fix c1 q1 c2 assume "(c1, q1) \<in> set (f p)" "length (snd q1) < length (snd p)"
      "(c2, q) \<in> set (repeat greedy f q1)" "caps = c1 @ c2"
    then show ?thesis using less.hyps [of q1 c2] assms [of c1 q1 p] by simp
  qed
qed

lemma matches_groups: "well_grouped r \<Longrightarrow> (caps, q) \<in> set (matches r p) \<Longrightarrow> length caps = groups r"
proof (induction r arbitrary: caps p q)
  case (Many r)
  then show ?case using repeat_groups [of "matches r" caps q True p] by fastforce
next
  case (Few r)
  then show ?case using repeat_groups [of "matches r" caps q False p] by fastforce
next
  case (Seq r s)
  from Seq.prems obtain c1 q1 c2 where "(c1, q1) \<in> set (matches r p)" "(c2, q) \<in> set (matches s q1)" "caps = c1 @ c2" by auto
  then show ?case using Seq.IH Seq.prems(1) by simp
next
  case (Alt r s)
  then show ?case by (simp, metis)
next
  case (Cap r)
  from Cap.prems obtain c1 where "(c1, q) \<in> set (matches r p)"
    "caps = take (length (snd p) - length (snd q)) (snd p) # c1" by auto
  then show ?case using Cap.IH Cap.prems(1) by simp
qed (auto split: list.splits if_splits)

lemma match_at_groups: "well_grouped r \<Longrightarrow> match_at r p = Some caps \<Longrightarrow> length caps = groups r"
  using matches_groups [of r caps _ p] by (auto simp: match_at_def split: list.splits)

lemma search_groups: "well_grouped r \<Longrightarrow> search_from r b s = Some caps \<Longrightarrow> length caps = groups r"
  by (induction r b s rule: search_from.induct)
    (subst (asm) (2) search_from.simps, auto split: option.splits list.splits intro: match_at_groups)

lemma well_grouped_parts [simp]: "well_grouped (text_rx s)" "groups (text_rx s) = 0"
  by (induction s) (simp_all add: text_rx_def seqs_def)

lemma tag_groups: "re_search chronicler_re s = Some caps \<Longrightarrow> \<exists>body. caps = [body]"
  using search_groups [of chronicler_re True s caps]
  by (simp add: re_search_def chronicler_re_def seqs_def any_rx_def space_rx_def lazy_plus_def length_Suc_conv)

section \<open>The tagged line\<close>

lemma matches_text: "matches (text_rx t) (b, t @ s) = [([], (b \<and> t = [], s))]"
  by (induction t arbitrary: b) (simp_all add: text_rx_def seqs_def)

lemma matches_word: "t \<noteq> [] \<Longrightarrow> matches (text_rx t) (b, t @ s) = [([], (False, s))]"
  by (simp add: matches_text)

lemma single_then: "matches r p = [([], q)] \<Longrightarrow> matches (Seq r s) p = matches s q"
  by simp

lemma space_places:
  "(caps, q) \<in> set (repeat g (matches space_rx) p) \<Longrightarrow> \<exists>ws. snd p = ws @ snd q \<and> (\<forall>c\<in>set ws. is_space c)"
proof (induction "length (snd p)" arbitrary: caps p rule: less_induct)
  case less
  from less.prems [unfolded repeat_elem [of caps]] show ?case
  proof (elim disjE exE conjE)
    fix c1 q1 c2 assume q1: "(c1, q1) \<in> set (matches space_rx p)" "length (snd q1) < length (snd p)"
      "(c2, q) \<in> set (repeat g (matches space_rx) q1)"
    then obtain ws where "snd q1 = ws @ snd q" "\<forall>c\<in>set ws. is_space c" using less.hyps [of q1 c2] by blast
    moreover obtain c where "snd p = c # snd q1" "is_space c"
      using q1(1) by (cases "snd p") (auto simp: space_rx_def split: if_splits)
    ultimately show ?thesis by (intro exI [of _ "c # ws"]) simp
  qed simp
qed

lemma no_end_here:
  assumes "s \<noteq> []" and "\<not> is_space (last s)"
  shows "matches (Seq (Many space_rx) (Seq Eol Eps)) (b, s) = []"
proof -
  have "snd q \<notin> {[], [CHR 0x0A]}" if m: "(caps, q) \<in> set (repeat True (matches space_rx) (b, s))" for caps q
  proof -
    obtain ws where ws: "s = ws @ snd q" "\<forall>c\<in>set ws. is_space c" using space_places [OF m] by auto
    have "is_space (CHR 0x0A)" by (simp add: is_space_def)
    then show ?thesis using ws assms by (cases "snd q = []") auto
  qed
  then show ?thesis by (auto simp: concat_eq_Nil_conv)
qed

lemma end_here: "matches (Seq (Many space_rx) (Seq Eol Eps)) (b, []) = [([], (b, []))]"
  by (simp add: repeat.simps [of _ _ "(b, [])"] space_rx_def)

text \<open>The lazy group tries the shorter texts first; of those only the last goes through.\<close>

lemma few_any:
  "CHR 0x0A \<notin> set s \<Longrightarrow> \<exists>ms. repeat False (matches any_rx) (b, s) = ms @ [([], (b \<and> s = [], []))]
     \<and> (\<forall>m\<in>set ms. fst m = [] \<and> snd (snd m) \<noteq> [] \<and> (\<exists>pre. s = pre @ snd (snd m)))"
proof (induction s arbitrary: b)
  case Nil
  then show ?case by (simp add: repeat.simps [of _ _ "(b, [])"] any_rx_def)
next
  case (Cons c s)
  from Cons.prems have "CHR 0x0A \<notin> set s" by simp
  from Cons.IH [OF this, of False]
  obtain ms where ms: "repeat False (matches any_rx) (False, s) = ms @ [([], (False, []))]"
    "\<forall>m\<in>set ms. fst m = [] \<and> snd (snd m) \<noteq> [] \<and> (\<exists>pre. s = pre @ snd (snd m))" by auto
  have "repeat False (matches any_rx) (b, c # s) = ([], (b, c # s)) # ms @ [([], (False, []))]"
    using Cons.prems ms(1) by (auto simp: repeat.simps [of _ _ "(b, c # s)"] any_rx_def split_beta)
  then show ?case using ms(2)
    by (intro exI [of _ "([], (b, c # s)) # ms"]) (auto intro: exI [of _ "_ # _"])
qed

lemma tag_body_at:
  assumes "body \<noteq> []" and "CHR 0x0A \<notin> set body" and "\<not> is_space (last body)"
  shows "matches (Seq (text_rx ''CHRONICLER|'') (Seq (Cap (lazy_plus any_rx)) (Seq (Many space_rx) (Seq Eol Eps))))
      (b, ''CHRONICLER|'' @ body) = [([body], (False, []))]"
proof -
  let ?tail_end = "Seq (Many space_rx) (Seq Eol Eps)"
  obtain c s where body: "body = c # s" using assms(1) by (cases body) auto
  obtain ms where ms: "repeat False (matches any_rx) (False, s) = ms @ [([], (False, []))]"
    "\<forall>m\<in>set ms. fst m = [] \<and> snd (snd m) \<noteq> [] \<and> (\<exists>pre. s = pre @ snd (snd m))"
    using few_any [of s False] assms(2) body by auto
  have open_end: "snd (snd m) \<noteq> [] \<and> \<not> is_space (last (snd (snd m)))" if m: "m \<in> set ms" for m
  proof -
    obtain pre where pre: "s = pre @ snd (snd m)" "snd (snd m) \<noteq> []" using ms(2) m by blast
    then have "last body = last (snd (snd m))" unfolding body by (metis append_is_Nil_conv last.simps last_appendR)
    then show ?thesis using assms(3) pre(2) by simp
  qed
  have body_found: "matches (Seq (Cap (lazy_plus any_rx)) ?tail_end) (b, body) = [([body], (False, []))]" for b
  proof -
    have "matches (lazy_plus any_rx) (b, body) = ms @ [([], (False, []))]"
      using body assms(2) ms(1) by (auto simp: lazy_plus_def any_rx_def split_beta)
    then have "matches (Cap (lazy_plus any_rx)) (b, body)
        = map (\<lambda>(caps, q). (take (length body - length (snd q)) body # caps, q)) ms @ [([body], (False, []))]"
      by simp
    moreover have "matches ?tail_end (snd m) = []" if m: "m \<in> set ms" for m
      using no_end_here [of "snd (snd m)" "fst (snd m)"] open_end [OF m] by simp
    ultimately show ?thesis
      using end_here [of False] by (auto simp: concat_eq_Nil_conv split_beta simp del: matches.simps(5,7) 
          simp: matches.simps(5) [of "Cap (lazy_plus any_rx)" ?tail_end])
  qed
  have tag: "matches (text_rx ''CHRONICLER|'') (b, ''CHRONICLER|'' @ body) = [([], (False, body))]"
    by (rule matches_word) simp
  show ?thesis unfolding single_then [OF tag] by (rule body_found)
qed

text \<open>What may stand before the tag: nothing, or a text without a bar that ends in no letter of a word,
  as the prefix of the engine does.\<close>

definition before_tag :: "string \<Rightarrow> bool" where
  "before_tag pre \<longleftrightarrow> CHR ''|'' \<notin> set pre \<and> (pre = [] \<or> \<not> is_word (last pre))"

lemma no_text_here: "(\<And>x. s \<noteq> t @ x) \<Longrightarrow> matches (text_rx t) (b, s) = []"
proof (induction t arbitrary: b s)
  case (Cons c t)
  show ?case
  proof (cases s)
    case (Cons d s')
    then show ?thesis using Cons.IH [of s' False] Cons.prems by (auto simp: text_rx_def seqs_def)
  qed (simp add: text_rx_def seqs_def)
next
  case Nil
  from Nil [of s] show ?case by simp
qed

lemma tag_not_here:
  assumes "pre \<noteq> []" and "CHR ''|'' \<notin> set pre"
  shows "pre @ ''CHRONICLER|'' @ body \<noteq> ''CHRONICLER|'' @ x"
proof
  let ?f = "takeWhile (\<lambda>c. c \<noteq> CHR ''|'')"
  assume "pre @ ''CHRONICLER|'' @ body = ''CHRONICLER|'' @ x"
  then have "?f (pre @ ''CHRONICLER|'' @ body) = ?f (''CHRONICLER|'' @ x)" by simp
  moreover have "?f (pre @ ''CHRONICLER|'' @ body) = pre @ ''CHRONICLER''"
    using assms(2) by (subst takeWhile_append2) auto
  ultimately show False using assms(1) by simp
qed

lemma chronicler_parts:
  "chronicler_re = Seq (Alt Bol (One (\<lambda>c. \<not> is_word c)))
     (Seq (text_rx ''CHRONICLER|'') (Seq (Cap (lazy_plus any_rx)) (Seq (Many space_rx) (Seq Eol Eps))))"
  by (simp only: chronicler_re_def seqs_def foldr.simps o_apply id_apply)

lemma tag_body:
  assumes "before_tag pre" and "body \<noteq> []" and "CHR 0x0A \<notin> set body" and "\<not> is_space (last body)"
  shows "re_search chronicler_re (pre @ ''CHRONICLER|'' @ body) = Some [body]"
proof -
  let ?T = "''CHRONICLER|'' @ body"
  let ?rest = "Seq (text_rx ''CHRONICLER|'') (Seq (Cap (lazy_plus any_rx)) (Seq (Many space_rx) (Seq Eol Eps)))"
  have here: "matches ?rest (b, ?T) = [([body], (False, []))]" for b
    by (rule tag_body_at [OF assms(2-4)])
  have none: "matches ?rest (b, p @ ?T) = []" if "p \<noteq> []" "CHR ''|'' \<notin> set p" for b p
    using no_text_here [OF tag_not_here [OF that]] by simp
  have first: "matches chronicler_re (True, ?T) = [([body], (False, []))]"
  proof -
    have "matches (Alt Bol (One (\<lambda>c. \<not> is_word c))) (True, ?T) = [([], (True, ?T))]" by (simp add: is_word_def)
    then show ?thesis unfolding chronicler_parts by (simp only: single_then here)
  qed
  have step: "matches chronicler_re (b, c # p @ ?T) = (if \<not> is_word c \<and> p = [] then [([body], (False, []))] else [])"
    if "CHR ''|'' \<notin> set (c # p)" for b c p
  proof -
    have "matches (Alt Bol (One (\<lambda>c. \<not> is_word c))) (b, c # p @ ?T)
        = (if b then [([], (b, c # p @ ?T))] else []) @ (if \<not> is_word c then [([], (False, p @ ?T))] else [])"
      by simp
    then show ?thesis unfolding chronicler_parts
      using here [of False] none [of "c # p" b] none [of p False] that
      by (cases "p = []") (simp_all del: matches.simps(6) add: matches.simps(5) [of "Alt Bol _"])
  qed
  have "search_from chronicler_re b (pre @ ?T) = Some [body]" if "before_tag pre" "pre = [] \<longrightarrow> b" for b
    using that
  proof (induction pre arbitrary: b)
    case Nil
    then show ?case using first by (subst search_from.simps) (simp add: match_at_def)
  next
    case (Cons c p)
    show ?case
    proof (cases "p = []")
      case True
      then show ?thesis using Cons.prems(1) step [of c p b]
        by (subst search_from.simps) (simp add: match_at_def before_tag_def)
    next
      case False
      then have "search_from chronicler_re False (p @ ?T) = Some [body]"
        using Cons.prems(1) by (intro Cons.IH) (auto simp: before_tag_def)
      then show ?thesis using False Cons.prems(1) step [of c p b]
        by (subst search_from.simps) (simp add: match_at_def before_tag_def)
    qed
  qed
  from this [OF assms(1), of True] show ?thesis by (simp add: re_search_def)
qed

section \<open>Streams of lines\<close>

definition is_tagged :: "string \<Rightarrow> bool" where
  "is_tagged line \<longleftrightarrow> re_search chronicler_re (rstrip_newlines line) \<noteq> None"

text \<open>The results of a sequence of lines, each with the time at which it comes, up to the first that raises;
  the lines that are read, and whether the last of them raised.\<close>

fun feed_all :: "parser_env \<Rightarrow> (string \<times> string) list \<Rightarrow> pending_event option \<Rightarrow> parse_result list \<times> pending_event option" where
  "feed_all px [] st = ([], st)"
| "feed_all px ((now, line) # lines) st =
     (case feed px now line st of
        (Inl e, st') \<Rightarrow> ([], st')
      | (Inr rs, st') \<Rightarrow> (case feed_all px lines st' of (rs', st'') \<Rightarrow> (rs @ rs', st'')))"

fun read_lines :: "parser_env \<Rightarrow> (string \<times> string) list \<Rightarrow> pending_event option \<Rightarrow> (string \<times> string) list" where
  "read_lines px [] st = []"
| "read_lines px ((now, line) # lines) st =
     (now, line) # (case feed px now line st of (Inl e, st') \<Rightarrow> [] | (Inr rs, st') \<Rightarrow> read_lines px lines st')"

fun feed_raises :: "parser_env \<Rightarrow> (string \<times> string) list \<Rightarrow> pending_event option \<Rightarrow> bool" where
  "feed_raises px [] st = False"
| "feed_raises px ((now, line) # lines) st =
     (case feed px now line st of (Inl e, st') \<Rightarrow> True | (Inr rs, st') \<Rightarrow> feed_raises px lines st')"

lemma feed_all_append:
  "\<not> feed_raises px a st \<Longrightarrow> feed_all px a st = (rs, st') \<Longrightarrow>
     feed_all px (a @ b) st = (case feed_all px b st' of (rs', st'') \<Rightarrow> (rs @ rs', st''))
     \<and> feed_raises px (a @ b) st = feed_raises px b st'"
  by (induction px a st arbitrary: rs rule: feed_all.induct)
    (auto split: prod.splits sum.splits)

text \<open>A line without a tag, and one with.\<close>

lemma untagged_feed:
  "\<not> is_tagged line \<Longrightarrow> feed px now line st =
     (case st of None \<Rightarrow> (Inr [], None) | Some pe \<Rightarrow> scope_line px (rstrip_newlines line) pe)"
  by (simp add: feed_def is_tagged_def Let_def)

text \<open>The lines a result is about.\<close>

definition raw_of :: "parse_result \<Rightarrow> string" where
  "raw_of r = (case r of Parsed p \<Rightarrow> pv_raw_line p | Rejected f \<Rightarrow> pf_raw_line f)"

lemma raw_of_closed [simp]:
  "raw_of (finalise px pe) = join_lines (pe_raw_lines pe)"
  "raw_of (failure_of pe reason e) = join_lines (pe_raw_lines pe)"
  by (simp_all add: raw_of_def finalise_def failure_of_def split: sum.split)

lemma tagged_feed:
  assumes "is_tagged line"
  obtains rs st' where "\<And>st. feed px now line st = (Inr ((case st of None \<Rightarrow> [] | Some pe \<Rightarrow> [finalise px pe]) @ rs), st')"
    and "case st' of None \<Rightarrow> \<exists>r. rs = [r] \<and> raw_of r = rstrip_newlines line
      | Some pe \<Rightarrow> rs = [] \<and> pe_raw_lines pe = [rstrip_newlines line]"
proof -
  obtain body where body: "re_search chronicler_re (rstrip_newlines line) = Some [body]"
    using assms tag_groups by (auto simp: is_tagged_def)
  show thesis
  proof (cases "open_event px now (rstrip_newlines line) body")
    case (Inl failure)
    then have "raw_of failure = rstrip_newlines line" by (auto simp: open_event_def raw_of_def split: sum.splits)
    with Inl body show thesis by (intro that [of "[failure]" None]) (simp_all add: feed_def)
  next
    case (Inr pe)
    then have "pe_raw_lines pe = [rstrip_newlines line]" by (auto simp: open_event_def split: sum.splits)
    with Inr body show thesis by (intro that [of "[]" "Some pe"]) (simp_all add: feed_def)
  qed
qed

lemma scope_line_cases:
  assumes "scope_line px s pe = (res, st')"
  obtains (closed) r where "res = Inr [r]" "st' = None" "raw_of r = join_lines (pe_raw_lines pe @ [s])"
  | (kept) pe' where "res = Inr []" "st' = Some pe'" "pe_raw_lines pe' = pe_raw_lines pe @ [s]"
  | (raised) e pe' where "res = Inl e" "st' = Some pe'" "pe_raw_lines pe' = pe_raw_lines pe @ [s]"
proof -
  have keeps: "pe_raw_lines pe2 = pe_raw_lines pe1" if "body_line s pe1 = Inr pe2" for pe1 pe2
    using that by (auto simp: body_line_def add_participant_def bindr_eq_Inr
        split: if_splits dump_section.splits option.splits list.splits)
  show thesis using assms closed kept raised
    by (auto simp: scope_line_def Let_def keeps split: if_splits option.splits list.splits sum.splits)
qed

section \<open>Identifiers too long to convert\<close>

text \<open>A match reads on from left to right, so a group is no longer than the text.\<close>

definition inward :: "(place \<Rightarrow> matching list) \<Rightarrow> bool" where
  "inward f \<longleftrightarrow> (\<forall>p caps q. (caps, q) \<in> set (f p) \<longrightarrow>
     length (snd q) \<le> length (snd p) \<and> (\<forall>c\<in>set caps. length c \<le> length (snd p)))"

lemma within_repeat:
  assumes "inward f" shows "inward (repeat greedy f)"
proof -
  have "length (snd q) \<le> length (snd p) \<and> (\<forall>c\<in>set caps. length c \<le> length (snd p))"
    if "(caps, q) \<in> set (repeat greedy f p)" for p caps q
    using that
  proof (induction "length (snd p)" arbitrary: caps p rule: less_induct)
    case less
    from less.prems [unfolded repeat_elem [of caps]] show ?case
    proof (elim disjE exE conjE)
      fix c1 q1 c2 assume s: "(c1, q1) \<in> set (f p)" "length (snd q1) < length (snd p)"
        "(c2, q) \<in> set (repeat greedy f q1)" "caps = c1 @ c2"
      moreover have "\<forall>c\<in>set c1. length c \<le> length (snd p)" using assms s(1) unfolding inward_def by blast
      ultimately show ?thesis using less.hyps [OF s(2,3)] by auto
    qed simp
  qed
  then show ?thesis unfolding inward_def by blast
qed

lemma within_matches: "inward (matches r)"
proof (induction r)
  case (Seq r s)
  show ?case unfolding inward_def
  proof (intro allI impI)
    fix p caps q assume "(caps, q) \<in> set (matches (Seq r s) p)"
    then obtain c1 q1 c2 where m: "(c1, q1) \<in> set (matches r p)" "(c2, q) \<in> set (matches s q1)" "caps = c1 @ c2" by auto
    have "length (snd q1) \<le> length (snd p)" "\<forall>c\<in>set c1. length c \<le> length (snd p)"
      using Seq(1) m(1) unfolding inward_def by blast+
    moreover have "length (snd q) \<le> length (snd q1)" "\<forall>c\<in>set c2. length c \<le> length (snd q1)"
      using Seq(2) m(2) unfolding inward_def by blast+
    ultimately show "length (snd q) \<le> length (snd p) \<and> (\<forall>c\<in>set caps. length c \<le> length (snd p))"
      unfolding m(3) by auto
  qed
next
  case (Alt r s)
  show ?case unfolding inward_def
  proof (intro allI impI)
    fix p caps q assume "(caps, q) \<in> set (matches (Alt r s) p)"
    then have "(caps, q) \<in> set (matches r p) \<or> (caps, q) \<in> set (matches s p)" by simp
    then show "length (snd q) \<le> length (snd p) \<and> (\<forall>c\<in>set caps. length c \<le> length (snd p))"
      using Alt unfolding inward_def by blast
  qed
next
  case (Many r)
  then show ?case using within_repeat [of "matches r" True] by (simp add: inward_def)
next
  case (Few r)
  then show ?case using within_repeat [of "matches r" False] by (simp add: inward_def)
next
  case (Cap r)
  then show ?case unfolding inward_def by fastforce
qed (auto simp: inward_def split: list.splits)

lemma match_at_within: "match_at r p = Some caps \<Longrightarrow> c \<in> set caps \<Longrightarrow> length c \<le> length (snd p)"
proof -
  assume m: "match_at r p = Some caps" "c \<in> set caps"
  then obtain q ms where "matches r p = (caps, q) # ms" by (auto simp: match_at_def split: list.splits)
  then have "(caps, q) \<in> set (matches r p)" by simp
  then show ?thesis using within_matches [of r] m(2) unfolding inward_def by blast
qed

lemma search_within: "search_from r b s = Some caps \<Longrightarrow> c \<in> set caps \<Longrightarrow> length c \<le> length s"
proof (induction r b s rule: search_from.induct)
  case (1 r b s)
  show ?case
  proof (cases "match_at r (b, s)")
    case None
    then obtain d ds where "s = d # ds" "search_from r False ds = Some caps"
      using 1(2) by (subst (asm) search_from.simps) (auto split: list.splits)
    then show ?thesis using 1(1) [OF None, of d ds] 1(3) by simp
  next
    case (Some cs)
    then show ?thesis using 1(2,3) match_at_within [OF Some, of c] by (subst (asm) search_from.simps) simp
  qed
qed

lemma rstrip_shorter: "length (rstrip_newlines line) \<le> length line"
  using length_dropWhile_le [of _ "rev line"] by (simp add: rstrip_newlines_def)

text \<open>So only a line of more than 4300 characters can make \<open>feed\<close> raise.\<close>

lemma scope_line_raises:
  assumes "scope_line px s pe = (Inl e, st')" shows "4300 < length s"
proof -
  have re: "length ds \<le> length s" if "re_match r s = Some caps" "ds \<in> set caps" for r caps ds
    using match_at_within [of r "(True, s)" caps ds] that by (simp add: re_match_def)
  have "4300 < length s" if "add_participant role ds pe1 = Inl e1" "re_match r s = Some caps" "ds \<in> set caps"
    for role ds pe1 e1 r caps
    using that(1) re [OF that(2,3)] by (auto simp: add_participant_def id_of_digits_def split: if_splits)
  then have body: "4300 < length s" if "body_line s pe1 = Inl e1" for pe1 e1
    using that by (fastforce simp: body_line_def split: if_splits dump_section.splits option.splits list.splits)
  have "4300 < length s" if "re_search internal_id_rx s = Some [ds]" "id_of_digits ds = Inl e1" for ds e1
    using that(2) search_within [of internal_id_rx True s "[ds]" ds] that(1)
    by (auto simp: re_search_def id_of_digits_def split: if_splits)
  then show ?thesis using assms body
    by (auto simp: scope_line_def Let_def split: if_splits option.splits list.splits sum.splits)
qed

lemma feed_raises_only_long:
  assumes "feed px now line st = (Inl e, st')" shows "4300 < length line"
proof (cases "is_tagged line")
  case True
  then show ?thesis using assms tagged_feed [OF True, of px now] by (metis Inl_Inr_False prod.inject)
next
  case False
  then show ?thesis using assms scope_line_raises rstrip_shorter [of line]
    by (fastforce simp: untagged_feed split: option.splits)
qed

lemma lines_read:
  "\<exists>rest. lines = read_lines px lines st @ rest
     \<and> (rest = [] \<or> 4300 < length (snd (last (read_lines px lines st))))"
proof (induction px lines st rule: read_lines.induct)
  case (2 px now line lines st)
  show ?case
  proof (cases "feed px now line st")
    case (Pair res st')
    show ?thesis
    proof (cases res)
      case (Inl e)
      then have "4300 < length line" using Pair feed_raises_only_long by blast
      then show ?thesis using Pair Inl by simp
    next
      case (Inr rs)
      obtain rest where "lines = read_lines px lines st' @ rest"
        "rest = [] \<or> 4300 < length (snd (last (read_lines px lines st')))"
        using 2 [OF Pair [symmetric] Inr] by blast
      moreover have "read_lines px lines st' = [] \<longleftrightarrow> lines = []" by (cases lines) auto
      ultimately show ?thesis using Pair Inr by (cases "read_lines px lines st'") auto
    qed
  qed
qed simp

section \<open>Bounds\<close>

definition bounded_event :: "pending_event \<Rightarrow> bool" where
  "bounded_event pe \<longleftrightarrow> length (pe_raw_lines pe) = Suc (pe_scope_lines_seen pe)
     \<and> pe_scope_lines_seen pe < SCOPE_TIMEOUT_LINES \<and> length (pe_participants pe) \<le> pe_scope_lines_seen pe"

lemma body_line_grows:
  "body_line s pe = Inr pe' \<Longrightarrow> pe_raw_lines pe' = pe_raw_lines pe
     \<and> pe_scope_lines_seen pe' = pe_scope_lines_seen pe
     \<and> length (pe_participants pe') \<le> Suc (length (pe_participants pe))"
  by (auto simp: body_line_def add_participant_def bindr_eq_Inr
      split: if_splits dump_section.splits option.splits list.splits)

lemma feed_bounded:
  assumes "\<forall>pe. st = Some pe \<longrightarrow> bounded_event pe" and "feed px now line st = (res, Some pe)"
  shows "bounded_event pe"
proof (cases "\<exists>body. re_search chronicler_re (rstrip_newlines line) = Some [body]")
  case True
  then show ?thesis using assms(2)
    by (auto simp: feed_def open_event_def Let_def bounded_event_def SCOPE_TIMEOUT_LINES_def split: option.splits sum.splits)
next
  case False
  then obtain pe0 where pe0: "st = Some pe0" "scope_line px (rstrip_newlines line) pe0 = (res, Some pe)"
    using assms(2) by (auto simp: feed_def Let_def split: option.splits list.splits)
  have "bounded_event pe0" using assms(1) pe0(1) by simp
  then show ?thesis using pe0(2)
    by (auto simp: scope_line_def Let_def bounded_event_def split: if_splits option.splits list.splits sum.splits
        dest!: body_line_grows)
qed

end
