(* ===== verification/Tail_Ingest.thy ===== *)
theory Tail_Ingest
  imports Tail_Parser Ingest_Event
begin

text \<open>
  The tail of the debug log, \<open>tailer/watcher.py\<close> and \<open>tailer/ingest.py\<close>: complete lines are read from a
  file by a byte offset, fed to the parser, and what the parser finishes goes into the campaign's
  database. The bytes of the file are its text.
\<close>

section \<open>The file\<close>

record tailed_line =
  tl_text :: string
  tl_offset :: nat

text \<open>The complete lines from a position on: \<open>rev seen\<close> is what the current line has so far. A last line
  without its end is left in the file.\<close>

fun scan_lines :: "nat \<Rightarrow> string \<Rightarrow> string \<Rightarrow> tailed_line list" where
  "scan_lines pos seen [] = []"
| "scan_lines pos seen (c # cs) =
     (if c = CHR 0x0A
      then \<lparr>tl_text = rstrip_newlines (rev (c # seen)), tl_offset = Suc pos\<rparr> # scan_lines (Suc pos) [] cs
      else scan_lines (Suc pos) (c # seen) cs)"

text \<open>\<open>TailedFile.read_new_lines\<close> on a file with this content, or none: the lines and the offset behind
  them.\<close>

definition read_new_lines :: "string option \<Rightarrow> nat \<Rightarrow> tailed_line list \<times> nat" where
  "read_new_lines content offset =
     (case content of
        None \<Rightarrow> ([], offset)
      | Some bytes \<Rightarrow>
          (let start = (if length bytes < offset then 0 else offset);
               lines = (if length bytes = start then [] else scan_lines start [] (drop start bytes))
           in (lines, if lines = [] then start else tl_offset (last lines))))"

section \<open>A cached predicate\<close>

text \<open>\<open>_ttl_cached\<close>: the answer of the same question within the time to live, or a new one.\<close>

definition ttl_cached ::
  "rat \<Rightarrow> ('a \<Rightarrow> 'b) \<Rightarrow> rat \<Rightarrow> 'a \<Rightarrow> ('a, rat \<times> 'b) dict \<Rightarrow> 'b \<times> ('a, rat \<times> 'b) dict" where
  "ttl_cached ttl fn now arg cache =
     (case dict_get cache arg of
        Some (asked, v) \<Rightarrow> if now - asked < ttl then (v, cache) else (fn arg, dict_set cache arg (now, fn arg))
      | None \<Rightarrow> (fn arg, dict_set cache arg (now, fn arg)))"

section \<open>One result\<close>

datatype tail_outcome = Skipped | Tail_Ingested | Tail_Duplicate | Quarantined | Suppressed

record process_result =
  ps_outcome :: tail_outcome
  ps_event_id :: "int option"
  ps_quarantine_id :: "int option"
  ps_suppressed_kind :: "string option"

definition plain_result :: "tail_outcome \<Rightarrow> process_result" where
  "plain_result out = \<lparr>ps_outcome = out, ps_event_id = None, ps_quarantine_id = None, ps_suppressed_kind = None\<rparr>"

text \<open>What the tail works with: the campaign, the parser, whether there is a scheduler, the check of
  suppressed kinds (which reads the registry at most every two seconds), the wall clock.\<close>

record tail_env =
  tv_campaign_id :: string
  tv_parser :: parser_env
  tv_scheduler :: bool
  tv_is_kind_suppressed :: "(string option \<Rightarrow> bool op) option"
  tv_now :: string

definition ingest_parsed :: "tail_env \<Rightarrow> parsed_event \<Rightarrow> process_result op" where
  "ingest_parsed env parsed =
     (let ev = pv_event parsed;
          scope_pairs = map (\<lambda>(role, char_id). (char_id, role)) (pv_participants parsed)
      in bind_op (ingest_event ev (parse_ck3_long_date (ev_d ev)) (pv_wall_clock_at parsed) (pv_raw_line parsed)
             (\<lambda>char_id. upsert_op char_id []) scope_pairs True (tv_scheduler env) True (\<lambda>_. return_op ()))
           (\<lambda>event_id. return_op (case event_id of
              None \<Rightarrow> plain_result Tail_Duplicate
            | Some i \<Rightarrow> (plain_result Tail_Ingested)\<lparr>ps_event_id := Some i\<rparr>)))"

definition quarantine_op :: "parse_failure \<Rightarrow> process_result op" where
  "quarantine_op f =
     bind_op (db_op (\<lambda>db. Inr (insert_quarantine (pf_raw_line f) (pf_error f) (pf_wall_clock_at f) (pf_event_kind f) db)))
       (\<lambda>qid. return_op ((plain_result Quarantined)\<lparr>ps_quarantine_id := Some qid\<rparr>))"

definition apply_result :: "tail_env \<Rightarrow> parse_result \<Rightarrow> process_result op" where
  "apply_result env result =
     (case result of
        Parsed parsed \<Rightarrow> ingest_parsed env parsed
      | Rejected f \<Rightarrow>
          bind_op (case tv_is_kind_suppressed env of None \<Rightarrow> return_op False | Some check \<Rightarrow> check (pf_event_kind f))
            (\<lambda>suppressed. if suppressed
               then return_op ((plain_result Suppressed)\<lparr>ps_suppressed_kind := pf_event_kind f\<rparr>)
               else quarantine_op f))"

fun apply_results :: "tail_env \<Rightarrow> parse_result list \<Rightarrow> process_result list op" where
  "apply_results env [] = return_op []"
| "apply_results env (r # rs) =
     bind_op (apply_result env r) (\<lambda>p. bind_op (apply_results env rs) (\<lambda>ps. return_op (p # ps)))"

section \<open>Lines\<close>

text \<open>The parser has taken the line before anything is stored, so its state does not depend on what
  raises.\<close>

definition process_line ::
  "tail_env \<Rightarrow> string \<Rightarrow> pending_event option \<Rightarrow> process_result list op \<times> pending_event option" where
  "process_line env line st =
     (case feed (tv_parser env) (tv_now env) line st of
        (Inl e, st') \<Rightarrow> (raise_op (Py_Exn e), st')
      | (Inr results, st') \<Rightarrow>
          (if results = [] then return_op [plain_result Skipped] else apply_results env results, st'))"

fun process_rest :: "tail_env \<Rightarrow> string list \<Rightarrow> pending_event option \<Rightarrow> process_result list op" where
  "process_rest env [] st = apply_results env (flush (tv_parser env) st)"
| "process_rest env (line # lines) st =
     (case process_line env line st of
        (m, st') \<Rightarrow> bind_op m (\<lambda>ps. bind_op (process_rest env lines st') (\<lambda>qs. return_op (ps @ qs))))"

definition process_lines :: "tail_env \<Rightarrow> string list \<Rightarrow> process_result list op" where
  "process_lines env lines = process_rest env lines None"

section \<open>The loop\<close>

text \<open>One tailed line: a session of its own, then the offset and the time of the last event.\<close>

definition ingest_line :: "tail_env \<Rightarrow> tailed_line \<Rightarrow> pending_event option \<Rightarrow> unit op \<times> pending_event option" where
  "ingest_line env tailed st =
     (case process_line env (tl_text tailed) st of
        (m, st') \<Rightarrow>
          (bind_op (session_scope m) (\<lambda>_.
           bind_op (registry_op (\<lambda>rg. ((), set_tail_offset (tv_campaign_id env) (int (tl_offset tailed)) rg))) (\<lambda>_.
             registry_op (\<lambda>rg. ((), touch_last_event_at (tv_campaign_id env) (tv_now env) None rg)))), st'))"

text \<open>The lines until the tail stops or something raises, with the clock at each; then what is pending is
  closed in a session of its own. An exception there replaces the one before.\<close>

fun tail_lines ::
  "(tail_env \<times> tailed_line) list \<Rightarrow> pending_event option \<Rightarrow> (nat \<Rightarrow> bool) \<Rightarrow> world
   \<Rightarrow> exn option \<times> pending_event option \<times> world" where
  "tail_lines [] st faults w = (None, st, w)"
| "tail_lines ((env, tailed) # rest) st faults w =
     (case ingest_line env tailed st of
        (m, st') \<Rightarrow> (case m faults w of
            (Inl e, w') \<Rightarrow> (Some e, st', w')
          | (Inr _, w') \<Rightarrow> tail_lines rest st' faults w'))"

definition run_ingest ::
  "tail_env \<Rightarrow> (tail_env \<times> tailed_line) list \<Rightarrow> (nat \<Rightarrow> bool) \<Rightarrow> world \<Rightarrow> exn option \<times> world" where
  "run_ingest env lines faults w =
     (case tail_lines lines None faults w of
        (raised, st, w1) \<Rightarrow>
          (let results = flush (tv_parser env) st
           in if results = [] then (raised, w1)
              else case session_scope (apply_results env results) faults w1 of
                  (Inl e, w2) \<Rightarrow> (Some e, w2)
                | (Inr _, w2) \<Rightarrow> (raised, w2)))"

end
