(* ===== verification/Tail_Props.thy ===== *)
theory Tail_Props
  imports Tail_Parser Tail_Ingest Demo_Tick
begin

text \<open>
  The properties of the tail of the debug log: the file, the parser and the loop.
\<close>

section \<open>The tagged line\<close>

text \<open>The segments as the mod prints them, and the envelope they stand for.\<close>

definition print_segments :: "(string \<times> string) list \<Rightarrow> string" where
  "print_segments kvs = join_with ''|'' (map (\<lambda>(k, v). k @ ''='' @ v) kvs)"

definition as_texts :: "(string \<times> string) list \<Rightarrow> obj" where
  "as_texts kvs = foldl (\<lambda>d (k, v). dict_set d k (JStr v)) [] kvs"

definition envelope_of :: "(string \<times> string) list \<Rightarrow> obj" where
  "envelope_of kvs = dict_set (as_texts (filter (\<lambda>(k, v). k \<in> ENVELOPE_KEYS) kvs)) ''p''
     (JObj (as_texts (filter (\<lambda>(k, v). k \<notin> ENVELOPE_KEYS) kvs)))"

definition segment_ok :: "string \<times> string \<Rightarrow> bool" where
  "segment_ok kv \<longleftrightarrow> strip (fst kv) = fst kv \<and> fst kv \<noteq> [] \<and> CHR ''='' \<notin> set (fst kv)
     \<and> {CHR ''|'', CHR 0x0A} \<inter> (set (fst kv) \<union> set (snd kv)) = {}"

lemma partition_segment: "CHR ''='' \<notin> set k \<Longrightarrow> partition_eq (k @ ''='' @ v) = (k, v)"
  by (induction k) (auto simp: partition_eq_def)

lemma segments_added:
  "\<forall>kv\<in>set kvs. segment_ok kv \<Longrightarrow> add_segments px (map (\<lambda>(k, v). k @ ''='' @ v) kvs) env payload =
     Inr (dict_set (foldl (\<lambda>d (k, v). dict_set d k (JStr v)) env (filter (\<lambda>(k, v). k \<in> ENVELOPE_KEYS) kvs)) ''p''
       (JObj (foldl (\<lambda>d (k, v). dict_set d k (JStr v)) payload (filter (\<lambda>(k, v). k \<notin> ENVELOPE_KEYS) kvs))))"
proof (induction kvs arbitrary: env payload)
  case (Cons kv kvs)
  obtain k v where kv: "kv = (k, v)" by force
  have ok: "strip k = k" "k \<noteq> []" "CHR ''='' \<notin> set k" using Cons.prems kv by (simp_all add: segment_ok_def)
  show ?case using Cons.IH [of env "dict_set payload k (JStr v)"] Cons.IH [of "dict_set env k (JStr v)" payload]
      Cons.prems kv ok partition_segment [of k v] by simp
qed simp

lemma segments_split:
  assumes "kvs \<noteq> []" and "\<forall>kv\<in>set kvs. segment_ok kv"
  shows "split_on (CHR ''|'') (print_segments kvs) = map (\<lambda>(k, v). k @ ''='' @ v) kvs"
  unfolding print_segments_def
  by (rule split_join) (use assms in \<open>auto simp: segment_ok_def\<close>)

lemma printed_ends:
  assumes "kvs \<noteq> []" and "\<forall>kv\<in>set kvs. segment_ok kv" and "snd (last kvs) \<noteq> []" and "\<not> is_space (last (snd (last kvs)))"
  shows "print_segments kvs \<noteq> []" and "CHR 0x0A \<notin> set (print_segments kvs)" and "\<not> is_space (last (print_segments kvs))"
proof -
  obtain ks k v where kvs: "kvs = ks @ [(k, v)]" by (metis append_butlast_last_id assms(1) prod.collapse)
  obtain pre where pre: "print_segments kvs = pre @ v"
    unfolding print_segments_def kvs
    by (cases "ks = []") (auto simp: join_with_append)
  show "print_segments kvs \<noteq> []" "\<not> is_space (last (print_segments kvs))"
    using assms(3,4) pre kvs by auto
  have free: "CHR 0x0A \<notin> set (join_with ''|'' ps)" if "\<forall>p\<in>set ps. CHR 0x0A \<notin> set p" for ps
    using that by (induction "''|''" ps rule: join_with.induct) auto
  show "CHR 0x0A \<notin> set (print_segments kvs)"
    unfolding print_segments_def by (rule free) (use assms(2) in \<open>auto simp: segment_ok_def\<close>)
qed

lemma rstrip_id: "s \<noteq> [] \<Longrightarrow> \<not> is_space (last s) \<Longrightarrow> rstrip_newlines s = s"
  by (cases s rule: rev_cases) (auto simp: rstrip_newlines_def is_space_def)

lemma tagged_line_opens:
  assumes "before_tag pre" and "kvs \<noteq> []" and "\<forall>kv\<in>set kvs. segment_ok kv" and "snd (last kvs) \<noteq> []"
    and "\<not> is_space (last (snd (last kvs)))"
  shows "\<exists>pe. feed px now (pre @ ''CHRONICLER|'' @ print_segments kvs) st
      = (Inr (case st of None \<Rightarrow> [] | Some before \<Rightarrow> [finalise px before]), Some pe)
    \<and> pe_envelope pe = envelope_of kvs \<and> pe_raw_lines pe = [pre @ ''CHRONICLER|'' @ print_segments kvs]
    \<and> pe_participants pe = [] \<and> \<not> pe_saw_dump_start pe"
proof -
  have "rstrip_newlines (pre @ ''CHRONICLER|'' @ print_segments kvs) = pre @ ''CHRONICLER|'' @ print_segments kvs"
    by (rule rstrip_id) (use printed_ends [OF assms(2-5)] in simp_all)
  moreover have "build_envelope px (print_segments kvs) = Inr (envelope_of kvs)"
    unfolding build_envelope_def segments_split [OF assms(2,3)] segments_added [OF assms(3)]
    by (simp only: envelope_of_def as_texts_def)
  ultimately show ?thesis
    unfolding feed_def Let_def by (simp add: tag_body [OF assms(1) printed_ends [OF assms(2-5)]] open_event_def del: append_Cons)
qed

lemma dict_set_new: "k \<notin> fst ` set d \<Longrightarrow> dict_set d k x = d @ [(k, x)]"
  by (induction d) (auto simp: dict_set_def)

lemma as_texts_distinct:
  "distinct (map fst kvs) \<Longrightarrow> as_texts kvs = map (\<lambda>(k, v). (k, JStr v)) kvs"
proof (induction kvs rule: rev_induct)
  case (snoc kv kvs)
  then show ?case
    using dict_set_new [of "fst kv" "map (\<lambda>kv. (fst kv, JStr (snd kv))) kvs" "JStr (snd kv)"]
    by (auto simp: as_texts_def image_image case_prod_beta)
qed (simp add: as_texts_def)

lemma envelope_distinct:
  assumes "distinct (map fst kvs)"
  shows "envelope_of kvs = map (\<lambda>(k, v). (k, JStr v)) (filter (\<lambda>(k, v). k \<in> ENVELOPE_KEYS) kvs)
     @ [(''p'', JObj (map (\<lambda>(k, v). (k, JStr v)) (filter (\<lambda>(k, v). k \<notin> ENVELOPE_KEYS) kvs)))]"
proof -
  have "distinct (map fst (filter P kvs))" for P
    using assms by (simp add: distinct_map_filter)
  then show ?thesis
    unfolding envelope_of_def by (subst dict_set_new) (auto simp: as_texts_distinct ENVELOPE_KEYS_def)
qed

text \<open>C16: the line of the mod opens the event it prints, behind the prefix that the engine writes before
  it or at the start of a line. For segments with clean keys, each once, and a last value that does not
  end in a blank, the line leaves the parser with a pending event whose envelope has the version, the
  type and the date as they were printed, and every other segment in its payload, in the order of the
  line; it finishes whatever was pending before, and nothing else.\<close>

theorem tagged_line_round_trip:
  assumes "before_tag pre" and "kvs \<noteq> []" and "distinct (map fst kvs)" and "\<forall>kv\<in>set kvs. segment_ok kv"
    and "snd (last kvs) \<noteq> []" and "\<not> is_space (last (snd (last kvs)))"
  shows "\<exists>pe. feed px now (pre @ ''CHRONICLER|'' @ print_segments kvs) st
      = (Inr (case st of None \<Rightarrow> [] | Some before \<Rightarrow> [finalise px before]), Some pe)
    \<and> pe_envelope pe = map (\<lambda>(k, v). (k, JStr v)) (filter (\<lambda>(k, v). k \<in> ENVELOPE_KEYS) kvs)
        @ [(''p'', JObj (map (\<lambda>(k, v). (k, JStr v)) (filter (\<lambda>(k, v). k \<notin> ENVELOPE_KEYS) kvs)))]
    \<and> pe_raw_lines pe = [pre @ ''CHRONICLER|'' @ print_segments kvs]
    \<and> pe_participants pe = [] \<and> \<not> pe_saw_dump_start pe"
  using tagged_line_opens [OF assms(1,2,4-6), of px now st] unfolding envelope_distinct [OF assms(3)] .

lemma demo_prefix: "before_tag ''[18:54:27][D][effectimpl.cpp:1110]: ''"
  by code_simp

theorem tagged_line_round_trip_witness:
  "\<exists>pe. feed \<lparr>px_validate = (\<lambda>_. Inl []), px_repr = id\<rparr> ''now'' (''[18:54:27][D][effectimpl.cpp:1110]: '' @ ''CHRONICLER|'' @
       print_segments [(''v'', ''1''), (''t'', ''death''), (''d'', ''1 January, 1070''), (''cause'', ''fever'')]) None = (Inr [], Some pe)
     \<and> pe_envelope pe = [(''v'', JStr ''1''), (''t'', JStr ''death''), (''d'', JStr ''1 January, 1070''),
         (''p'', JObj [(''cause'', JStr ''fever'')])]"
proof -
  let ?kvs = "[(''v'', ''1''), (''t'', ''death''), (''d'', ''1 January, 1070''), (''cause'', ''fever'')]"
  have "\<forall>kv\<in>set ?kvs. segment_ok kv" by (simp add: segment_ok_def strip_def is_space_def)
  then show ?thesis
    using tagged_line_round_trip [OF demo_prefix, of ?kvs "\<lparr>px_validate = (\<lambda>_. Inl []), px_repr = id\<rparr>" "''now''" None]
    by (auto simp: is_space_def ENVELOPE_KEYS_def)
qed

section \<open>The file\<close>

lemma scan_bounds: "\<forall>l\<in>set (scan_lines pos seen s). pos < tl_offset l \<and> tl_offset l \<le> pos + length s"
  by (induction pos seen s rule: scan_lines.induct) (auto intro: Suc_lessD)

lemma scan_resume:
  "scan_lines pos seen a = ls \<Longrightarrow> ls \<noteq> [] \<Longrightarrow> scan_lines pos seen (a @ b)
     = ls @ scan_lines (tl_offset (last ls)) [] (drop (tl_offset (last ls) - pos) (a @ b))"
proof (induction pos seen a arbitrary: ls rule: scan_lines.induct)
  case (2 pos seen c cs)
  have after: "Suc pos < tl_offset (last xs)" if "xs \<noteq> []" "xs = scan_lines (Suc pos) s cs" for xs s
    using scan_bounds [of "Suc pos" s cs] that by simp
  have skip: "drop (n - pos) (c # cs @ b) = drop (n - Suc pos) (cs @ b)" if "Suc pos < n" for n
    using that by (simp add: drop_Cons')
  show ?case
  proof (cases "c = CHR 0x0A")
    case True
    let ?l = "\<lparr>tl_text = rstrip_newlines (rev (c # seen)), tl_offset = Suc pos\<rparr>"
    have ls: "ls = ?l # scan_lines (Suc pos) [] cs" using 2(3) True by simp
    show ?thesis
    proof (cases "scan_lines (Suc pos) [] cs = []")
      case True
      then show ?thesis using ls \<open>c = CHR 0x0A\<close> by simp
    next
      case False
      then have "last ls = last (scan_lines (Suc pos) [] cs)" using ls by simp
      then show ?thesis using 2(1) [OF True refl False] skip [OF after [OF False refl]] ls True by simp
    qed
  next
    case False
    have ls: "scan_lines (Suc pos) (c # seen) cs = ls" using 2(3) False by simp
    show ?thesis using 2(2) [OF False ls 2(4)] skip [OF after [OF 2(4) ls [symmetric]]] False by simp
  qed
qed simp

lemma read_scans:
  "read_new_lines (Some bytes) offset = (let start = (if length bytes < offset then 0 else offset);
      ls = scan_lines start [] (drop start bytes) in (ls, if ls = [] then start else tl_offset (last ls)))"
  by (auto simp: read_new_lines_def Let_def)

text \<open>C15: reading in pieces is reading at once. If the file has grown between two readings, the lines of
  both and the offset behind them are what one reading of the grown file gives from the first offset:
  no line is lost, none is read twice, and a line that was incomplete is read whole.\<close>

theorem reading_in_pieces:
  assumes "offset \<le> length bytes" and "read_new_lines (Some bytes) offset = (lines1, offset1)"
    and "read_new_lines (Some (bytes @ grown)) offset1 = (lines2, offset2)"
  shows "read_new_lines (Some (bytes @ grown)) offset = (lines1 @ lines2, offset2)"
proof (cases "lines1 = []")
  case True
  then have "offset1 = offset" using assms(1,2) by (auto simp: read_scans Let_def)
  then show ?thesis using assms(3) True by simp
next
  case False
  have l1: "lines1 = scan_lines offset [] (drop offset bytes)" "offset1 = tl_offset (last lines1)"
    using assms(1,2) False by (auto simp: read_scans Let_def)
  then have "offset < offset1" "offset1 \<le> length bytes"
    using False scan_bounds [of offset "[]" "drop offset bytes"] assms(1) by auto
  moreover have "scan_lines offset [] (drop offset (bytes @ grown))
      = lines1 @ scan_lines offset1 [] (drop (offset1 - offset) (drop offset (bytes @ grown)))"
    using scan_resume [OF l1(1) [symmetric] False, of grown] l1(2) assms(1) by simp
  ultimately have "scan_lines offset [] (drop offset (bytes @ grown))
      = lines1 @ scan_lines offset1 [] (drop offset1 (bytes @ grown))"
    by (simp only: drop_drop) simp
  moreover have "lines2 = scan_lines offset1 [] (drop offset1 (bytes @ grown))"
    "offset2 = (if lines2 = [] then offset1 else tl_offset (last lines2))"
    using assms(3) \<open>offset1 \<le> length bytes\<close> by (auto simp: read_scans Let_def)
  ultimately show ?thesis using assms(1) False l1(2) by (simp add: read_scans Let_def)
qed

theorem reading_in_pieces_witness:
  "read_new_lines (Some (''ab'' @ [CHR 0x0A] @ ''c'' @ [CHR 0x0A])) 0
     = ([\<lparr>tl_text = ''ab'', tl_offset = 3\<rparr>] @ [\<lparr>tl_text = ''c'', tl_offset = 5\<rparr>], 5)"
  using reading_in_pieces [of 0 "''ab'' @ [CHR 0x0A]" "[\<lparr>tl_text = ''ab'', tl_offset = 3\<rparr>]" 3 "''c'' @ [CHR 0x0A]"
      "[\<lparr>tl_text = ''c'', tl_offset = 5\<rparr>]" 5]
  by (simp add: read_scans Let_def rstrip_newlines_def)

section \<open>The parser\<close>

text \<open>The tagged lines of a stream, each with the lines behind it up to the next tag.\<close>

fun blocks :: "(string \<times> string) list \<Rightarrow> (string \<times> string) list list" where
  "blocks [] = []"
| "blocks (l # ls) =
     (if is_tagged (snd l) then (l # takeWhile (\<lambda>m. \<not> is_tagged (snd m)) ls) # blocks ls else blocks ls)"

definition stripped :: "(string \<times> string) list \<Rightarrow> string list" where
  "stripped = map (\<lambda>(now, line). rstrip_newlines line)"

text \<open>A result is that of a block: the one a new parser gives for the lines of the block alone, or, if they
  leave the event open, its closing by the next tag or by the end of the stream; and its raw text is
  the tagged line and the lines that follow it, as far as they were taken.\<close>

definition block_result :: "parser_env \<Rightarrow> (string \<times> string) list \<Rightarrow> parse_result \<Rightarrow> bool" where
  "block_result px block r \<longleftrightarrow>
     (case feed_all px block None of
        (rs, None) \<Rightarrow> rs = [r]
      | (rs, Some pe) \<Rightarrow> rs = [] \<and> (r = finalise px pe \<or> flush px (Some pe) = [r]))
     \<and> (\<exists>n>0. raw_of r = join_lines (take n (stripped block)))"

definition is_block :: "(string \<times> string) list \<Rightarrow> bool" where
  "is_block cur \<longleftrightarrow> cur \<noteq> [] \<and> is_tagged (snd (hd cur)) \<and> (\<forall>l\<in>set (tl cur). \<not> is_tagged (snd l))"

lemma is_block_snoc: "is_block cur \<Longrightarrow> \<not> is_tagged (snd l) \<Longrightarrow> is_block (cur @ [l])"
  by (cases cur) (auto simp: is_block_def)

lemma blocks_untagged: "\<forall>l\<in>set us. \<not> is_tagged (snd l) \<Longrightarrow> blocks (us @ ls) = blocks ls"
  by (induction us) simp_all

lemma blocks_block:
  assumes "is_block cur" and "ls = [] \<or> is_tagged (snd (hd ls))"
  shows "blocks (cur @ ls) = cur # blocks ls"
proof -
  obtain l us where cur: "cur = l # us" "is_tagged (snd l)" "\<forall>u\<in>set us. \<not> is_tagged (snd u)"
    using assms(1) by (cases cur) (auto simp: is_block_def)
  have "takeWhile (\<lambda>m. \<not> is_tagged (snd m)) (us @ ls) = us"
    using cur(3) assms(2) by (cases ls) (auto simp: takeWhile_append2)
  then show ?thesis using cur blocks_untagged [OF cur(3)] by simp
qed

text \<open>What the parser remembers of the lines it has read: nothing before the first tag, then the block it
  is in.\<close>

definition tracks :: "parser_env \<Rightarrow> (string \<times> string) list \<Rightarrow> parse_result list \<Rightarrow> pending_event option \<Rightarrow> bool" where
  "tracks px cur rs st \<longleftrightarrow> cur = [] \<and> rs = [] \<and> st = None
     \<or> is_block cur \<and> \<not> feed_raises px cur None \<and> feed_all px cur None = (rs, st)
       \<and> (case st of
            None \<Rightarrow> \<exists>r n. rs = [r] \<and> 0 < n \<and> raw_of r = join_lines (take n (stripped cur))
          | Some pe \<Rightarrow> rs = [] \<and> pe_raw_lines pe = stripped cur)"

lemma raw_of_flush: "flush px (Some pe) = [r] \<Longrightarrow> raw_of r = join_lines (pe_raw_lines pe)"
  by (auto simp: flush_def split: if_splits)

lemma open_result:
  assumes "feed_all px block None = ([], Some pe)" and "pe_raw_lines pe = stripped block" and "block \<noteq> []"
    and "r = finalise px pe \<or> flush px (Some pe) = [r]"
  shows "block_result px block r"
proof -
  have "raw_of r = join_lines (take (length (stripped block)) (stripped block))"
    using assms(2,4) raw_of_flush [of px pe r] by auto
  moreover have "0 < length (stripped block)" using assms(3) by (simp add: stripped_def)
  ultimately show ?thesis using assms(1,4) unfolding block_result_def by auto
qed

lemma tracks_closes:
  assumes "tracks px cur rs st" and "closing = flush px st \<or> closing = (case st of None \<Rightarrow> [] | Some pe \<Rightarrow> [finalise px pe])"
  shows "list_all2 (block_result px) (blocks cur) (rs @ closing)"
proof (cases "cur = []")
  case True
  then show ?thesis using assms by (auto simp: tracks_def is_block_def flush_def)
next
  case False
  have cur: "blocks cur = [cur]" using blocks_block [of cur "[]"] assms(1) False by (simp add: tracks_def)
  show ?thesis
  proof (cases st)
    case None
    with assms False obtain r where "rs = [r]" "closing = []" "block_result px cur r"
      by (auto simp: tracks_def block_result_def flush_def)
    then show ?thesis by (simp add: cur)
  next
    case (Some pe)
    moreover obtain r where "closing = [r]" "r = finalise px pe \<or> flush px (Some pe) = [r]"
      using assms(2) Some by (auto simp: flush_def)
    ultimately show ?thesis using assms(1) False open_result [of px cur pe r] by (auto simp: tracks_def cur)
  qed
qed

lemma tracks_tag:
  assumes "is_tagged line" and "\<And>st. feed px now line st = (Inr ((case st of None \<Rightarrow> [] | Some pe \<Rightarrow> [finalise px pe]) @ rs), st')"
    and "case st' of None \<Rightarrow> \<exists>r. rs = [r] \<and> raw_of r = rstrip_newlines line
      | Some pe \<Rightarrow> rs = [] \<and> pe_raw_lines pe = [rstrip_newlines line]"
  shows "tracks px [(now, line)] rs st'"
proof (cases st')
  case None
  with assms(3) obtain r where r: "rs = [r]" "raw_of r = rstrip_newlines line" by auto
  have "raw_of r = join_lines (take 1 (stripped [(now, line)]))" using r(2) by (simp add: stripped_def join_lines_def)
  then have "\<exists>r n. rs = [r] \<and> 0 < n \<and> raw_of r = join_lines (take n (stripped [(now, line)]))"
    using r(1) zero_less_one by blast
  then show ?thesis using assms(1) assms(2) [of None] None by (simp add: tracks_def is_block_def)
next
  case (Some pe)
  then show ?thesis using assms(1,3) assms(2) [of None] by (simp add: tracks_def is_block_def stripped_def)
qed

lemma tracks_untagged:
  assumes "tracks px cur rs st" and "cur \<noteq> []" and "\<not> is_tagged line" and "feed px now line st = (Inr rs', st')"
  shows "tracks px (cur @ [(now, line)]) (rs @ rs') st'"
proof -
  from assms(1,2) have cur: "is_block cur" "\<not> feed_raises px cur None" "feed_all px cur None = (rs, st)"
    and shape: "case st of None \<Rightarrow> \<exists>r n. rs = [r] \<and> 0 < n \<and> raw_of r = join_lines (take n (stripped cur))
          | Some pe \<Rightarrow> rs = [] \<and> pe_raw_lines pe = stripped cur"
    by (auto simp: tracks_def)
  have block: "is_block (cur @ [(now, line)])" using is_block_snoc [OF cur(1)] assms(3) by simp
  have all: "feed_all px (cur @ [(now, line)]) None = (rs @ rs', st')" "\<not> feed_raises px (cur @ [(now, line)]) None"
    using feed_all_append [OF cur(2,3), of "[(now, line)]"] assms(4) by simp_all
  show ?thesis
  proof (cases st)
    case None
    then have "rs' = []" "st' = None" using assms(4) untagged_feed [OF assms(3)] by simp_all
    moreover obtain r n where r: "rs = [r]" "0 < n" "raw_of r = join_lines (take n (stripped cur))"
      using shape None by auto
    moreover have "raw_of r = join_lines (take (min n (length cur)) (stripped (cur @ [(now, line)])))"
      using r(3) by (simp add: stripped_def min_def)
    moreover have "0 < min n (length cur)" using assms(2) r(2) by simp
    ultimately have "\<exists>r n. rs @ rs' = [r] \<and> 0 < n \<and> raw_of r = join_lines (take n (stripped (cur @ [(now, line)])))"
      by blast
    then show ?thesis using block all \<open>st' = None\<close> unfolding tracks_def by simp
  next
    case (Some pe)
    then have line: "scope_line px (rstrip_newlines line) pe = (Inr rs', st')" and rs: "rs = []"
      and raw: "pe_raw_lines pe @ [rstrip_newlines line] = stripped (cur @ [(now, line)])"
      using assms(4) untagged_feed [OF assms(3)] shape by (simp_all add: stripped_def)
    from line show ?thesis
    proof (cases rule: scope_line_cases)
      case (closed r)
      then have "raw_of r = join_lines (take (Suc (length cur)) (stripped (cur @ [(now, line)])))"
        by (simp add: raw) (simp add: stripped_def)
      then show ?thesis using closed block all rs unfolding tracks_def by auto
    next
      case (kept pe')
      then show ?thesis using block all rs raw unfolding tracks_def by simp
    qed simp
  qed
qed

lemma raise_result:
  assumes "tracks px cur rs st" and "\<not> is_tagged (snd l)" and "feed px (fst l) (snd l) st = (Inl e, st')"
  shows "rs = [] \<and> list_all2 (block_result px) (blocks (cur @ [l])) (flush px st')"
proof -
  obtain pe pe' where st: "st = Some pe" "st' = Some pe'" "pe_raw_lines pe' = pe_raw_lines pe @ [rstrip_newlines (snd l)]"
  proof (cases st)
    case None
    then show ?thesis using assms(3) untagged_feed [OF assms(2)] by simp
  next
    case (Some pe)
    then have "scope_line px (rstrip_newlines (snd l)) pe = (Inl e, st')" using assms(3) untagged_feed [OF assms(2)] by simp
    then show ?thesis using that Some by (cases rule: scope_line_cases) simp_all
  qed
  with assms(1) have cur: "is_block cur" "\<not> feed_raises px cur None" "feed_all px cur None = ([], Some pe)" "rs = []"
    "pe_raw_lines pe = stripped cur" by (auto simp: tracks_def)
  obtain r where r: "flush px (Some pe') = [r]" by (simp add: flush_def)
  have "feed_all px (cur @ [l]) None = ([], Some pe')"
    using feed_all_append [OF cur(2,3), of "[l]"] assms(3) st by (cases l) simp
  moreover have "pe_raw_lines pe' = stripped (cur @ [l])" using st(3) cur(5) by (simp add: stripped_def case_prod_beta)
  ultimately have "block_result px (cur @ [l]) r" using open_result [of px "cur @ [l]" pe' r] r by simp
  then show ?thesis
    using blocks_block [OF is_block_snoc [OF cur(1) assms(2)], of "[]"] cur(4) st(2) r by simp
qed

lemma results_of_blocks:
  "tracks px cur rs0 st \<Longrightarrow> feed_all px lines st = (rs, st') \<Longrightarrow>
     list_all2 (block_result px) (blocks (cur @ read_lines px lines st)) (rs0 @ rs @ flush px st')"
proof (induction lines arbitrary: cur rs0 st rs)
  case Nil
  then show ?case using tracks_closes [OF Nil.prems(1)] by simp
next
  case (Cons l lines)
  obtain now line where l: "l = (now, line)" by force
  obtain res s1 where f: "feed px now line st = (res, s1)" by force
  consider (tag) "is_tagged line" | (raised) e where "\<not> is_tagged line" "res = Inl e"
    | (before) r1 where "\<not> is_tagged line" "res = Inr r1" "cur = []"
    | (inside) r1 where "\<not> is_tagged line" "res = Inr r1" "cur \<noteq> []"
    by (cases res) auto
  then show ?case
  proof cases
    case tag
    let ?closing = "case st of None \<Rightarrow> [] | Some pe \<Rightarrow> [finalise px pe]"
    obtain r1 s2 where g: "\<And>st. feed px now line st = (Inr ((case st of None \<Rightarrow> [] | Some pe \<Rightarrow> [finalise px pe]) @ r1), s2)"
      and shape: "case s2 of None \<Rightarrow> \<exists>r. r1 = [r] \<and> raw_of r = rstrip_newlines line
        | Some pe \<Rightarrow> r1 = [] \<and> pe_raw_lines pe = [rstrip_newlines line]"
      using tagged_feed [OF tag, of px now] by blast
    obtain r2 where r2: "feed_all px lines s2 = (r2, st')" "rs = ?closing @ r1 @ r2"
      using Cons.prems(2) l g [of st] by (auto split: prod.splits)
    have "list_all2 (block_result px) (blocks cur) (rs0 @ ?closing)"
      using tracks_closes [OF Cons.prems(1)] by blast
    moreover have "list_all2 (block_result px) (blocks ([l] @ read_lines px lines s2)) (r1 @ r2 @ flush px st')"
      using Cons.IH [OF tracks_tag [OF tag g shape] r2(1)] l by simp
    moreover have "blocks (cur @ l # xs) = blocks cur @ blocks (l # xs)" for xs
      using blocks_block [of cur "l # xs"] blocks_block [of cur "[]"] Cons.prems(1) tag l
      by (cases "cur = []") (auto simp: tracks_def)
    moreover have "read_lines px (l # lines) st = l # read_lines px lines s2" using l g [of st] by simp
    ultimately show ?thesis
      using r2(2) list_all2_appendI [of "block_result px" "blocks cur" "rs0 @ ?closing" "blocks (l # read_lines px lines s2)"]
      by (simp del: blocks.simps)
  next
    case raised
    then show ?thesis using raise_result [OF Cons.prems(1), of l e s1] Cons.prems(2) l f by simp
  next
    case before
    then have "st = None" "rs0 = []" using Cons.prems(1) by (auto simp: tracks_def is_block_def)
    moreover have "r1 = []" "s1 = None" using untagged_feed [OF before(1), of px now st] f before(2) \<open>st = None\<close> by simp_all
    ultimately show ?thesis using Cons.IH [of "[]" "[]" None] Cons.prems(2) before f l
      by (auto simp: tracks_def split: prod.splits)
  next
    case inside
    then have "tracks px (cur @ [l]) (rs0 @ r1) s1"
      using tracks_untagged [OF Cons.prems(1)] f l by simp
    moreover obtain r2 where "feed_all px lines s1 = (r2, st')" "rs = r1 @ r2"
      using Cons.prems(2) l f inside(2) by (auto split: prod.splits)
    ultimately show ?thesis using Cons.IH [of "cur @ [l]" "rs0 @ r1" s1 r2] f inside(2) l by simp
  qed
qed

text \<open>C14: every tag ends in one result, of its own lines. Whatever the model of the events accepts, the
  results of a stream and of its end are as many as the tagged lines that were read, in their order, and
  each is the result of its own block: what a new parser makes of the tagged line and the lines up to the
  next tag alone (closed by the tag or by the end of the stream), with a raw text of just these lines.
  So no event is dropped, none is doubled, and none takes a line of another's dump. All lines are read,
  but for those behind a line of more than 4300 characters whose identifier has too many digits for
  \<open>int\<close>: there \<open>feed\<close> raises, and the event is still closed at the end of the stream.\<close>

theorem every_tag_one_result:
  "list_all2 (block_result px) (blocks (read_lines px lines None))
     (case feed_all px lines None of (results, st) \<Rightarrow> results @ flush px st)
   \<and> (\<exists>rest. lines = read_lines px lines None @ rest
       \<and> (rest = [] \<or> 4300 < length (snd (last (read_lines px lines None)))))"
proof -
  obtain rs st where f: "feed_all px lines None = (rs, st)" by force
  have "tracks px [] [] None" by (simp add: tracks_def)
  from results_of_blocks [OF this f] f lines_read [of lines px None] show ?thesis by simp
qed

text \<open>What the parser holds is bounded. After any lines, a pending event has at most eighty of them
  and no more participants than lines, so a dump without an end cannot stall the tail.\<close>

theorem pending_bounded:
  assumes "feed_all px lines None = (results, Some pe)"
  shows "length (pe_raw_lines pe) \<le> 80 \<and> length (pe_participants pe) < length (pe_raw_lines pe)"
proof -
  have "bounded_event pe" if "feed_all px lines st = (rs, Some pe)" "\<forall>pe. st = Some pe \<longrightarrow> bounded_event pe" for st rs
    using that
  proof (induction lines arbitrary: st rs)
    case (Cons l lines)
    obtain now line where l: "l = (now, line)" by force
    obtain res s1 where f: "feed px now line st = (res, s1)" by force
    show ?case
    proof (cases res)
      case (Inl e)
      then show ?thesis using Cons.prems l f feed_bounded [OF Cons.prems(2)] by simp
    next
      case (Inr r1)
      then obtain r2 where "feed_all px lines s1 = (r2, Some pe)" using Cons.prems(1) l f by (auto split: prod.splits)
      then show ?thesis using Cons.IH feed_bounded [OF Cons.prems(2)] f by blast
    qed
  qed simp
  then have "bounded_event pe" using assms by blast
  then show ?thesis by (simp add: bounded_event_def SCOPE_TIMEOUT_LINES_def)
qed

theorem pending_bounded_witness:
  "\<exists>pe. feed_all \<lparr>px_validate = (\<lambda>_. Inl []), px_repr = id\<rparr> [(''now'', ''CHRONICLER|'' @ print_segments [(''t'', ''death'')])] None
     = ([], Some pe) \<and> length (pe_raw_lines pe) \<le> 80"
proof -
  let ?px = "\<lparr>px_validate = (\<lambda>_. Inl []), px_repr = id\<rparr>"
  have "\<forall>kv\<in>set [(''t'', ''death'')]. segment_ok kv" by (simp add: segment_ok_def strip_def is_space_def)
  then obtain pe where "feed ?px ''now'' (''CHRONICLER|'' @ print_segments [(''t'', ''death'')]) None = (Inr [], Some pe)"
    using tagged_line_opens [of "[]" "[(''t'', ''death'')]" ?px "''now''" None] by (auto simp: is_space_def before_tag_def)
  then have f: "feed_all ?px [(''now'', ''CHRONICLER|'' @ print_segments [(''t'', ''death'')])] None = ([], Some pe)" by simp
  from pending_bounded [OF this] f show ?thesis by blast
qed

section \<open>The loop\<close>

lemma untagged_nothing: "\<forall>l\<in>set lines. \<not> is_tagged (snd l) \<Longrightarrow> feed_all px lines None = ([], None)"
  by (induction lines) (auto simp: feed_def is_tagged_def Let_def)

text \<open>C32: the offset runs ahead of the event. After the tagged line of an event, with nothing failing, the
  event is pending in memory and in no table, and the registry already holds the offset behind its
  line; a process that starts from that offset with a new parser gets nothing from the lines of the
  dump, so an event whose dump a crash interrupts is lost, and not read again as a duplicate.\<close>

theorem crash_loses_open_event:
  assumes "tl_text tailed = pre @ ''CHRONICLER|'' @ print_segments kvs" and "before_tag pre"
    and "kvs \<noteq> []" and "\<forall>kv\<in>set kvs. segment_ok kv" and "snd (last kvs) \<noteq> []" and "\<not> is_space (last (snd (last kvs)))"
    and "get_campaign_by_id (tv_campaign_id env) (w_registry w) \<noteq> None"
    and "ingest_line env tailed None = (m, st)" and "m no_faults w = (r, w')"
    and "\<forall>l\<in>set rest. \<not> is_tagged (snd l)"
  shows "(\<exists>pe. st = Some pe \<and> pe_envelope pe = envelope_of kvs) \<and> r = Inr () \<and> w_db w' = w_db w
    \<and> get_tail_offset (tv_campaign_id env) (w_registry w') = int (tl_offset tailed)
    \<and> (case feed_all px rest None of (results, st') \<Rightarrow> results @ flush px st') = []"
proof -
  obtain pe where pe: "feed (tv_parser env) (tv_now env) (tl_text tailed) None = (Inr [], Some pe)" "pe_envelope pe = envelope_of kvs"
    using tagged_line_opens [OF assms(2-6), of "tv_parser env" "tv_now env" None] assms(1) by auto
  have "st = Some pe" using assms(8) pe(1) by (simp add: ingest_line_def process_line_def)
  moreover have "r = Inr () \<and> w_db w' = w_db w \<and> get_tail_offset (tv_campaign_id env) (w_registry w') = int (tl_offset tailed)"
    using assms(7-9) pe(1)
    by (auto simp: ingest_line_def process_line_def session_scope_def rollback_on_error_def plain_statement_def
        statement_def registry_op_def bind_op_def no_faults_def get_tail_offset_def set_tail_offset_def
        touch_last_event_at_def get_updated_campaign)
  ultimately show ?thesis using pe(2) untagged_nothing [OF assms(10)] by (simp add: flush_def)
qed

definition demo_tail :: tail_env where
  "demo_tail = \<lparr>tv_campaign_id = ''c1'', tv_parser = \<lparr>px_validate = (\<lambda>_. Inl []), px_repr = id\<rparr>, tv_scheduler = True,
     tv_is_kind_suppressed = None, tv_now = ''now''\<rparr>"

lemma demo_untagged: "\<not> is_tagged EVENT_TARGETS_HEADER"
  by code_simp

theorem crash_loses_open_event_witness:
  "\<exists>m pe r w'. ingest_line demo_tail \<lparr>tl_text = ''CHRONICLER|'' @ print_segments [(''t'', ''death'')], tl_offset = 19\<rparr> None
       = (m, Some pe) \<and> m no_faults demo_world = (r, w') \<and> get_tail_offset ''c1'' (w_registry w') = 19 \<and> w_db w' = w_db demo_world"
proof -
  let ?line = "\<lparr>tl_text = ''CHRONICLER|'' @ print_segments [(''t'', ''death'')], tl_offset = 19\<rparr>"
  obtain m st where m: "ingest_line demo_tail ?line None = (m, st)" by (rule prod.exhaust)
  obtain r w' where r: "m no_faults demo_world = (r, w')" by (rule prod.exhaust)
  have "\<forall>kv\<in>set [(''t'', ''death'')]. segment_ok kv" by (simp add: segment_ok_def strip_def is_space_def)
  moreover have "get_campaign_by_id (tv_campaign_id demo_tail) (w_registry demo_world) \<noteq> None"
    by (simp add: demo_tail_def demo_world_def demo_registry_def get_campaign_by_id_def add_tracked_character_def
        new_campaign_def empty_registry_def fetchone_def)
  ultimately show ?thesis
    using crash_loses_open_event [of ?line "[]" "[(''t'', ''death'')]" demo_tail demo_world m st r w' "[(''now'', EVENT_TARGETS_HEADER)]"]
      m r demo_untagged by (auto simp: is_space_def demo_tail_def before_tag_def)
qed

end
