(* ===== verification/Event_Json.thy ===== *)
theory Event_Json
  imports Events Py_Json
begin

text \<open>
  The JSON of an event, \<open>payload_canonical_json\<close> of \<open>ingest_common.py\<close>: the dump of the event's model
  without what is None, with sorted keys. This is what the column \<open>payload_json\<close> of the events holds.
\<close>

section \<open>Payloads\<close>

text \<open>\<open>exclude_none=True\<close>.\<close>

definition present :: "(string \<times> json option) list \<Rightarrow> obj" where
  "present kvs = List.map_filter (\<lambda>(k, v). map_option (Pair k) v) kvs"

lemma present_simps:
  "present [] = []"
  "present ((k, None) # kvs) = present kvs"
  "present ((k, Some v) # kvs) = (k, v) # present kvs"
  by (simp_all add: present_def List.map_filter_simps)

definition dump_death_payload :: "death_payload \<Rightarrow> obj" where
  "dump_death_payload p = present
     [(''cause'', map_option JStr (dp_cause p)),
      (''death_age'', map_option JInt (dp_death_age p)),
      (''killer'', map_option JInt (dp_killer p))]"

definition dump_marriage_payload :: "marriage_payload \<Rightarrow> obj" where
  "dump_marriage_payload p = present
     [(''spouse_character_id'', map_option JInt (mp_spouse_character_id p))]"

definition dump_divorce_payload :: "divorce_payload \<Rightarrow> obj" where
  "dump_divorce_payload p = present
     [(''former_spouse_character_id'', map_option JInt (vp_former_spouse_character_id p))]"

definition dump_travel_payload :: "travel_payload \<Rightarrow> obj" where
  "dump_travel_payload p = present
     [(''from_location'', map_option JInt (tp_from_location p)),
      (''to_location'', map_option JInt (tp_to_location p))]"

definition dump_trait_payload :: "trait_payload \<Rightarrow> obj" where
  "dump_trait_payload p = present
     [(''trait_id'', Some (JInt (trp_trait_id p))),
      (''trait_name'', map_option JStr (trp_trait_name p))]"

definition dump_government_changed_payload :: "government_changed_payload \<Rightarrow> obj" where
  "dump_government_changed_payload p = present
     [(''new_government'', Some (JStr (gp_new_government p))),
      (''previous_government'', Some (JStr (gp_previous_government p)))]"

definition dump_alliance_payload :: "alliance_payload \<Rightarrow> obj" where
  "dump_alliance_payload p = present
     [(''ally_character_id'', Some (JInt (alp_ally_character_id p)))]"

definition dump_nickname_payload :: "nickname_payload \<Rightarrow> obj" where
  "dump_nickname_payload p = present
     [(''from_nickname'', map_option JStr (np_from_nickname p)),
      (''to_nickname'', map_option JStr (np_to_nickname p))]"

definition dump_title_acquired_payload :: "title_acquired_payload \<Rightarrow> obj" where
  "dump_title_acquired_payload p = present
     [(''from_holder_id'', map_option JInt (tap_from_holder_id p)),
      (''tier'', map_option JStr (tap_tier p)),
      (''title_id'', Some (JInt (tap_title_id p))),
      (''title_key'', Some (JStr (tap_title_key p))),
      (''title_name'', map_option JStr (tap_title_name p))]"

definition dump_title_relinquished_payload :: "title_relinquished_payload \<Rightarrow> obj" where
  "dump_title_relinquished_payload p = present
     [(''tier'', map_option JStr (trelp_tier p)),
      (''title_id'', Some (JInt (trelp_title_id p))),
      (''title_key'', Some (JStr (trelp_title_key p))),
      (''title_name'', map_option JStr (trelp_title_name p)),
      (''to_holder_id'', map_option JInt (trelp_to_holder_id p))]"

definition dump_title_created_payload :: "title_created_payload \<Rightarrow> obj" where
  "dump_title_created_payload p = present
     [(''tier'', map_option JStr (tcp_tier p)),
      (''title_id'', Some (JInt (tcp_title_id p))),
      (''title_key'', Some (JStr (tcp_title_key p))),
      (''title_name'', map_option JStr (tcp_title_name p))]"

definition dump_house_change_payload :: "house_change_payload \<Rightarrow> obj" where
  "dump_house_change_payload p = present
     [(''from_house_id'', map_option JInt (hcp_from_house_id p)),
      (''from_house_name'', map_option JStr (hcp_from_house_name p)),
      (''to_house_id'', map_option JInt (hcp_to_house_id p)),
      (''to_house_name'', map_option JStr (hcp_to_house_name p))]"

definition dump_culture_change_payload :: "culture_change_payload \<Rightarrow> obj" where
  "dump_culture_change_payload p = present
     [(''from_culture_id'', map_option JInt (ccp_from_culture_id p)),
      (''from_culture_name'', map_option JStr (ccp_from_culture_name p)),
      (''to_culture_id'', map_option JInt (ccp_to_culture_id p)),
      (''to_culture_name'', map_option JStr (ccp_to_culture_name p))]"

definition dump_faith_change_payload :: "faith_change_payload \<Rightarrow> obj" where
  "dump_faith_change_payload p = present
     [(''from_faith_id'', map_option JInt (fcp_from_faith_id p)),
      (''from_faith_name'', map_option JStr (fcp_from_faith_name p)),
      (''to_faith_id'', map_option JInt (fcp_to_faith_id p)),
      (''to_faith_name'', map_option JStr (fcp_to_faith_name p))]"

definition dump_war_side_payload :: "war_side_payload \<Rightarrow> obj" where
  "dump_war_side_payload p = present
     [(''casus_belli_type'', map_option JStr (wsp_casus_belli_type p)),
      (''claimant_id'', map_option JInt (wsp_claimant_id p)),
      (''primary_attacker_id'', map_option JInt (wsp_primary_attacker_id p)),
      (''primary_defender_id'', map_option JInt (wsp_primary_defender_id p)),
      (''side'', map_option JStr (wsp_side p)),
      (''targeted_titles'', Some (JArr (map JInt (wsp_targeted_titles p)))),
      (''war_id'', Some (JInt (wsp_war_id p))),
      (''war_name'', map_option JStr (wsp_war_name p))]"

definition dump_artifact_payload :: "artifact_payload \<Rightarrow> obj" where
  "dump_artifact_payload p = present
     [(''artifact_id'', Some (JInt (artp_artifact_id p))),
      (''name'', map_option JStr (artp_name p)),
      (''rarity'', map_option JStr (artp_rarity p)),
      (''type'', map_option JStr (artp_type p))]"

definition dump_dynasty_legacy_payload :: "dynasty_legacy_payload \<Rightarrow> obj" where
  "dump_dynasty_legacy_payload p = present
     [(''dynasty_id'', Some (JInt (dlp_dynasty_id p))),
      (''dynasty_name'', map_option JStr (dlp_dynasty_name p)),
      (''legacy_key'', Some (JStr (dlp_legacy_key p)))]"

definition dump_splendor_payload :: "splendor_payload \<Rightarrow> obj" where
  "dump_splendor_payload p = present
     [(''dynasty_head_id'', map_option JInt (sp_dynasty_head_id p)),
      (''dynasty_id'', Some (JInt (sp_dynasty_id p))),
      (''dynasty_name'', map_option JStr (sp_dynasty_name p)),
      (''new_tier'', Some (JInt (sp_new_tier p))),
      (''old_tier'', Some (JInt (sp_old_tier p))),
      (''total_renown_at_change'', Some (JFloat (sp_total_renown_at_change p)))]"

definition dump_concubine_payload :: "concubine_payload \<Rightarrow> obj" where
  "dump_concubine_payload p = present
     [(''concubine_id'', Some (JInt (cop_concubine_id p))),
      (''concubine_name'', map_option JStr (cop_concubine_name p))]"

definition dump_modifier_payload :: "modifier_payload \<Rightarrow> obj" where
  "dump_modifier_payload p = present
     [(''modifier_key'', Some (JStr (modp_modifier_key p)))]"

definition dump_perk_payload :: "perk_payload \<Rightarrow> obj" where
  "dump_perk_payload p = present
     [(''perk_key'', Some (JStr (pp_perk_key p)))]"

definition dump_lifestyle_committed_payload :: "lifestyle_committed_payload \<Rightarrow> obj" where
  "dump_lifestyle_committed_payload p = present
     [(''first_perk_key'', Some (JStr (lcp_first_perk_key p))),
      (''lifestyle_key'', Some (JStr (lcp_lifestyle_key p)))]"

definition dump_contract_payload :: "contract_payload \<Rightarrow> obj" where
  "dump_contract_payload p = present
     [(''acceptance_date'', map_option JStr (ctp_acceptance_date p)),
      (''completion_date'', map_option JStr (ctp_completion_date p)),
      (''contract_type'', map_option JStr (ctp_contract_type p)),
      (''employer_id'', map_option JInt (ctp_employer_id p)),
      (''location_province_id'', map_option JInt (ctp_location_province_id p)),
      (''name'', map_option JStr (ctp_name p)),
      (''outcome'', Some (JStr (ctp_outcome p))),
      (''tier'', map_option JInt (ctp_tier p))]"

definition dump_camp_companion_payload :: "camp_companion_payload \<Rightarrow> obj" where
  "dump_camp_companion_payload p = present
     [(''court_position'', map_option JStr (ccmp_court_position p)),
      (''employee_id'', map_option JInt (ccmp_employee_id p)),
      (''employee_name'', map_option JStr (ccmp_employee_name p)),
      (''hire_date'', map_option JStr (ccmp_hire_date p)),
      (''position_id'', Some (JInt (ccmp_position_id p)))]"

definition dump_domicile_payload :: "domicile_payload \<Rightarrow> obj" where
  "dump_domicile_payload p = present
     [(''domicile_id'', Some (JInt (domp_domicile_id p))),
      (''domicile_type'', map_option JStr (domp_domicile_type p)),
      (''from_province_id'', map_option JInt (domp_from_province_id p)),
      (''to_province_id'', map_option JInt (domp_to_province_id p))]"

definition dump_vanilla_memory_payload :: "vanilla_memory_payload \<Rightarrow> obj" where
  "dump_vanilla_memory_payload p = present
     [(''deceased_age'', map_option JInt (vmp_deceased_age p)),
      (''deceased_cause'', map_option JStr (vmp_deceased_cause p)),
      (''deceased_first_name'', map_option JStr (vmp_deceased_first_name p)),
      (''deceased_killer_first_name'', map_option JStr (vmp_deceased_killer_first_name p)),
      (''deceased_killer_id'', map_option JInt (vmp_deceased_killer_id p)),
      (''end_date'', map_option JStr (vmp_end_date p)),
      (''memory_type'', Some (JStr (vmp_memory_type p))),
      (''participants'', Some (JObj (map (\<lambda>(k, i). (k, JInt i)) (sort_key fst (vmp_participants p)))))]"

definition dump_epidemic_payload :: "epidemic_payload \<Rightarrow> obj" where
  "dump_epidemic_payload p = present
     [(''epidemic_id'', Some (JInt (epp_epidemic_id p))),
      (''epidemic_type'', map_option JStr (epp_epidemic_type p)),
      (''intensity'', map_option JStr (epp_intensity p)),
      (''name'', map_option JStr (epp_name p)),
      (''num_character_deaths'', Some (JInt (epp_num_character_deaths p))),
      (''num_infected_provinces'', Some (JInt (epp_num_infected_provinces p))),
      (''start_date'', map_option JStr (epp_start_date p))]"

definition dump_activity_payload :: "activity_payload \<Rightarrow> obj" where
  "dump_activity_payload p = present
     [(''activity_id'', Some (JInt (actp_activity_id p))),
      (''activity_type'', map_option JStr (actp_activity_type p)),
      (''host_id'', map_option JInt (actp_host_id p)),
      (''role'', Some (JStr (actp_role p))),
      (''start_date'', map_option JStr (actp_start_date p)),
      (''start_province_id'', map_option JInt (actp_start_province_id p))]"

definition dump_inspiration_sponsored_payload :: "inspiration_sponsored_payload \<Rightarrow> obj" where
  "dump_inspiration_sponsored_payload p = present
     [(''artisan_character_id'', map_option JInt (isp_artisan_character_id p)),
      (''inspiration_id'', Some (JInt (isp_inspiration_id p))),
      (''inspiration_type'', map_option JStr (isp_inspiration_type p)),
      (''total_cost'', map_option JInt (isp_total_cost p))]"

definition dump_miscarriage_payload :: "miscarriage_payload \<Rightarrow> obj" where
  "dump_miscarriage_payload p = present
     [(''assumed_father_id'', map_option JInt (misp_assumed_father_id p))]"

definition dump_decision_taken_payload :: "decision_taken_payload \<Rightarrow> obj" where
  "dump_decision_taken_payload p = present
     [(''cooldown_end_date'', map_option JStr (dtp_cooldown_end_date p)),
      (''decision_id'', Some (JStr (dtp_decision_id p)))]"

definition dump_building_completed_payload :: "building_completed_payload \<Rightarrow> obj" where
  "dump_building_completed_payload p = present
     [(''building'', Some (JStr (bcp_building p))),
      (''province_id'', Some (JInt (bcp_province_id p))),
      (''slot_index'', Some (JInt (bcp_slot_index p))),
      (''start_date'', map_option JStr (bcp_start_date p))]"

fun payload_dump :: "payload \<Rightarrow> obj" where
  "payload_dump EmptyPayload = []"
| "payload_dump (DeathPayload p) = dump_death_payload p"
| "payload_dump (MarriagePayload p) = dump_marriage_payload p"
| "payload_dump (DivorcePayload p) = dump_divorce_payload p"
| "payload_dump (TravelPayload p) = dump_travel_payload p"
| "payload_dump (TraitPayload p) = dump_trait_payload p"
| "payload_dump (GovernmentChangedPayload p) = dump_government_changed_payload p"
| "payload_dump (AlliancePayload p) = dump_alliance_payload p"
| "payload_dump (NicknamePayload p) = dump_nickname_payload p"
| "payload_dump (TitleAcquiredPayload p) = dump_title_acquired_payload p"
| "payload_dump (TitleRelinquishedPayload p) = dump_title_relinquished_payload p"
| "payload_dump (TitleCreatedPayload p) = dump_title_created_payload p"
| "payload_dump (HouseChangePayload p) = dump_house_change_payload p"
| "payload_dump (CultureChangePayload p) = dump_culture_change_payload p"
| "payload_dump (FaithChangePayload p) = dump_faith_change_payload p"
| "payload_dump (WarSidePayload p) = dump_war_side_payload p"
| "payload_dump (ArtifactPayload p) = dump_artifact_payload p"
| "payload_dump (DynastyLegacyPayload p) = dump_dynasty_legacy_payload p"
| "payload_dump (SplendorPayload p) = dump_splendor_payload p"
| "payload_dump (ConcubinePayload p) = dump_concubine_payload p"
| "payload_dump (ModifierPayload p) = dump_modifier_payload p"
| "payload_dump (PerkPayload p) = dump_perk_payload p"
| "payload_dump (LifestyleCommittedPayload p) = dump_lifestyle_committed_payload p"
| "payload_dump (ContractPayload p) = dump_contract_payload p"
| "payload_dump (CampCompanionPayload p) = dump_camp_companion_payload p"
| "payload_dump (DomicilePayload p) = dump_domicile_payload p"
| "payload_dump (VanillaMemoryPayload p) = dump_vanilla_memory_payload p"
| "payload_dump (EpidemicPayload p) = dump_epidemic_payload p"
| "payload_dump (ActivityPayload p) = dump_activity_payload p"
| "payload_dump (InspirationSponsoredPayload p) = dump_inspiration_sponsored_payload p"
| "payload_dump (MiscarriagePayload p) = dump_miscarriage_payload p"
| "payload_dump (DecisionTakenPayload p) = dump_decision_taken_payload p"
| "payload_dump (BuildingCompletedPayload p) = dump_building_completed_payload p"

section \<open>Events\<close>

definition event_json :: "event \<Rightarrow> json" where
  "event_json ev = JObj [(''c'', JInt (ev_c ev)), (''d'', JStr (ev_d ev)), (''p'', JObj (payload_dump (ev_p ev))),
     (''t'', JStr (ev_t ev)), (''v'', JInt (ev_v ev))]"

end
