(* ===== verification/Event_Rendering.thy ===== *)
theory Event_Rendering
  imports Event_Json Progression Py_Text Raw_Record
begin

text \<open>
  The sentence for an event, \<open>narrative/event_rendering.py\<close>: a renderer per type of event over the inner
  payload, and the type's name when there is none or when it raises.
\<close>

section \<open>Values in sentences\<close>

text \<open>\<open>p.get(k, d)\<close>, \<open>a or b\<close>, a method of texts, a key of a dictionary (which must be hashable).\<close>

definition get_or :: "obj \<Rightarrow> string \<Rightarrow> json \<Rightarrow> json" where
  "get_or p k d = (case dict_get p k of None \<Rightarrow> d | Some v \<Rightarrow> v)"

definition or_else :: "json \<Rightarrow> json \<Rightarrow> json" where
  "or_else a b = (if truthy a then a else b)"

fun as_text :: "json \<Rightarrow> string result" where
  "as_text (JStr s) = Inr s"
| "as_text _ = Inl AttributeError"

definition lookup :: "(string, 'a) dict \<Rightarrow> json \<Rightarrow> 'a option result" where
  "lookup table v =
     (case v of JArr _ \<Rightarrow> Inl BadType | JObj _ \<Rightarrow> Inl BadType | JStr s \<Rightarrow> Inr (dict_get table s) | _ \<Rightarrow> Inr None)"

definition replace_underscores :: "string \<Rightarrow> string" where
  "replace_underscores s = map (\<lambda>c. if c = CHR ''_'' then CHR '' '' else c) s"

definition starts_with :: "string \<Rightarrow> string \<Rightarrow> bool" where
  "starts_with pre s \<longleftrightarrow> take (length pre) s = pre"

definition strip_suffix :: "string \<Rightarrow> string \<Rightarrow> string" where
  "strip_suffix suf s = (if starts_with (rev suf) (rev s) then take (length s - length suf) s else s)"

type_synonym names_map = "(int, string) dict"
type_synonym titles_map = "(string, string) dict"

text \<open>The text of a value in a sentence is its argument \<open>sh\<close>, Python's \<open>str\<close>.\<close>

definition render_name :: "(json \<Rightarrow> string) \<Rightarrow> names_map \<Rightarrow> json \<Rightarrow> string" where
  "render_name sh names cid =
     (if cid = JNull then ''(unknown)''
      else case coerce_int cid of
          None \<Rightarrow> sh cid
        | Some i \<Rightarrow> dict_get_default names i (''id '' @ show_int i))"

definition participants_str :: "(json \<Rightarrow> string) \<Rightarrow> names_map \<Rightarrow> json \<Rightarrow> string" where
  "participants_str sh names participants =
     (case participants of
        JObj d \<Rightarrow> join_with '', '' (map (\<lambda>(role, ref). role @ ''='' @ (case ref of
            JArr rs \<Rightarrow> join_with '', '' (map (render_name sh names) rs)
          | _ \<Rightarrow> render_name sh names ref)) (sort_key fst d))
      | _ \<Rightarrow> [])"

definition build_titles_map_from_primary_title :: "json option \<Rightarrow> titles_map" where
  "build_titles_map_from_primary_title decoded =
     (case decoded of
        Some (JObj d) \<Rightarrow> (case (get d ''key'', get d ''tier'') of (JStr k, JStr t) \<Rightarrow> [(k, t)] | _ \<Rightarrow> [])
      | _ \<Rightarrow> [])"

definition resolve_tier :: "obj \<Rightarrow> titles_map \<Rightarrow> json" where
  "resolve_tier p titles =
     (let tier = get p ''tier''; payload_tier = or_else tier (JStr ''?'')
      in if tier \<in> {JNull, JStr [], JStr ''other''}
         then (case get p ''title_key'' of
                 JStr k \<Rightarrow> (case dict_get titles k of Some t \<Rightarrow> JStr t | None \<Rightarrow> payload_tier)
               | _ \<Rightarrow> payload_tier)
         else payload_tier)"

section \<open>Renderers\<close>

type_synonym renderer = "(json \<Rightarrow> string) \<Rightarrow> obj \<Rightarrow> names_map \<Rightarrow> titles_map \<Rightarrow> string result"

definition quoted :: "string \<Rightarrow> string" where
  "quoted s = [CHR 0x27] @ s @ [CHR 0x27]"

definition r_travel :: renderer where
  "r_travel sh p names titles =
     Inr (''travelled from province '' @ sh (get p ''from_location'') @ '' to province '' @ sh (get p ''to_location''))"

definition trait_of :: "(json \<Rightarrow> string) \<Rightarrow> obj \<Rightarrow> string" where
  "trait_of sh p = quoted (sh (get_or p ''trait_name'' (get_or p ''trait_id'' (JStr ''?''))))"

definition r_trait_gained :: renderer where
  "r_trait_gained sh p names titles = Inr (''gained trait '' @ trait_of sh p)"

definition r_trait_lost :: renderer where
  "r_trait_lost sh p names titles = Inr (''lost trait '' @ trait_of sh p)"

definition war_of :: "string \<Rightarrow> (json \<Rightarrow> string) \<Rightarrow> obj \<Rightarrow> string" where
  "war_of what sh p = what @ quoted (sh (get_or p ''war_name'' (JStr ''(unnamed war)''))) @ '' (as ''
     @ sh (get_or p ''side'' (JStr ''?'')) @ '')''"

definition r_war_concluded :: renderer where
  "r_war_concluded sh p names titles = Inr (war_of ''war concluded: '' sh p)"

definition r_war_joined :: renderer where
  "r_war_joined sh p names titles = Inr (war_of ''war joined: '' sh p)"

definition r_war_declared :: renderer where
  "r_war_declared sh p names titles = Inr (war_of ''war declared: '' sh p)"

definition r_war_left :: renderer where
  "r_war_left sh p names titles = Inr (war_of ''left war: '' sh p)"

definition title_of :: "(json \<Rightarrow> string) \<Rightarrow> obj \<Rightarrow> titles_map \<Rightarrow> string" where
  "title_of sh p titles = sh (resolve_tier p titles) @ '' title '' @ quoted (sh
     (or_else (get p ''title_name'') (or_else (get p ''title_key'') (JStr (''id '' @ sh (get p ''title_id''))))))"

text \<open>\<open>_name(x) if x else None\<close>, and what follows if it is not empty.\<close>

definition holder_part :: "(json \<Rightarrow> string) \<Rightarrow> names_map \<Rightarrow> string \<Rightarrow> json \<Rightarrow> string" where
  "holder_part sh names word holder =
     (if truthy holder \<and> render_name sh names holder \<noteq> [] then word @ render_name sh names holder else [])"

definition r_title_acquired :: renderer where
  "r_title_acquired sh p names titles =
     Inr (''acquired '' @ title_of sh p titles @ holder_part sh names '' from '' (get p ''from_holder_id''))"

definition r_title_created :: renderer where
  "r_title_created sh p names titles = Inr (''founded '' @ title_of sh p titles)"

definition r_title_relinquished :: renderer where
  "r_title_relinquished sh p names titles =
     Inr (''relinquished '' @ title_of sh p titles @ holder_part sh names '' to '' (get p ''to_holder_id''))"

definition r_alliance_formed :: renderer where
  "r_alliance_formed sh p names titles = Inr (''formed alliance with '' @ render_name sh names (get p ''ally_character_id''))"

definition r_alliance_broken :: renderer where
  "r_alliance_broken sh p names titles = Inr (''broke alliance with '' @ render_name sh names (get p ''ally_character_id''))"

definition r_marriage :: renderer where
  "r_marriage sh p names titles = Inr (''married '' @ render_name sh names (get p ''spouse_character_id''))"

definition r_divorce :: renderer where
  "r_divorce sh p names titles =
     (let ex = get p ''former_spouse_character_id''
      in Inr (if ex = JNull then ''divorced'' else ''divorced from '' @ render_name sh names ex))"

definition r_death :: renderer where
  "r_death sh p names titles =
     (let cause = sh (get_or p ''cause'' (JStr ''?'')); age = get p ''death_age''
      in Inr (''died (cause: '' @ cause @ (if age \<noteq> JNull then '', age: '' @ sh age @ '')'' else '')'')))"

definition r_miscarriage :: renderer where
  "r_miscarriage sh p names titles =
     (let father = get p ''assumed_father_id''
      in Inr (if truthy father then ''miscarriage (assumed father: '' @ render_name sh names father @ '')'' else ''miscarriage''))"

definition r_nickname :: renderer where
  "r_nickname sh p names titles = Inr (''received nickname '' @ quoted (sh (get_or p ''to_nickname'' (JStr ''?''))))"

definition r_adventurer_started :: renderer where
  "r_adventurer_started sh p names titles = Inr ''became a landless adventurer''"

definition r_adventurer_ended :: renderer where
  "r_adventurer_ended sh p names titles = Inr ''settled from landless adventuring''"

definition GOVERNMENT_LABELS :: "(string, string) dict" where
  "GOVERNMENT_LABELS =
     [(''tribal_government'', ''tribal''), (''feudal_government'', ''feudal''), (''clan_government'', ''clan''),
      (''administrative_government'', ''administrative''), (''republic_government'', ''republican''),
      (''theocracy_government'', ''theocratic''), (''nomadic_government'', ''nomadic''),
      (''mercenary_government'', ''mercenary''), (''holy_order_government'', ''holy-order''),
      (''landless_adventurer_government'', ''landless-adventurer'')]"

definition gov_label :: "(json \<Rightarrow> string) \<Rightarrow> json \<Rightarrow> string result" where
  "gov_label sh g = bindr (lookup GOVERNMENT_LABELS g) (\<lambda>l. Inr (case l of Some s \<Rightarrow> s | None \<Rightarrow> sh g))"

definition r_government_changed :: renderer where
  "r_government_changed sh p names titles =
     bindr (gov_label sh (get_or p ''previous_government'' (JStr []))) (\<lambda>prev.
     bindr (gov_label sh (get_or p ''new_government'' (JStr []))) (\<lambda>new.
       Inr (''adopted '' @ new @ '' government (from '' @ prev @ '')'')))"

definition r_house_change :: renderer where
  "r_house_change sh p names titles =
     (let a = get p ''from_house_name''; b = get p ''to_house_name''
      in Inr (if truthy a \<and> truthy b then ''changed house from '' @ quoted (sh a) @ '' to '' @ quoted (sh b)
              else if truthy b then ''joined house '' @ quoted (sh b)
              else if truthy a then ''left house '' @ quoted (sh a)
              else ''changed house''))"

definition r_culture_change :: renderer where
  "r_culture_change sh p names titles =
     (let a = get p ''from_culture_name''; b = get p ''to_culture_name''
      in Inr (if truthy b \<and> truthy a then ''adopted '' @ sh b @ '' culture (from '' @ sh a @ '')''
              else if truthy b then ''adopted '' @ sh b @ '' culture'' else ''culture changed''))"

definition r_faith_change :: renderer where
  "r_faith_change sh p names titles =
     (let a = get p ''from_faith_name''; b = get p ''to_faith_name''
      in Inr (if truthy b \<and> truthy a then ''converted to '' @ sh b @ '' (from '' @ sh a @ '')''
              else if truthy b then ''converted to '' @ sh b else ''faith changed''))"

definition r_decision_taken :: renderer where
  "r_decision_taken sh p names titles = Inr (''took decision '' @ quoted (sh (get_or p ''decision_id'' (JStr ''?''))))"

definition r_building_completed :: renderer where
  "r_building_completed sh p names titles =
     Inr (''completed building '' @ quoted (sh (get_or p ''building'' (JStr ''?''))) @ '' in province ''
       @ sh (get_or p ''province_id'' (JStr ''?'')))"

definition artifact_of :: "(json \<Rightarrow> string) \<Rightarrow> obj \<Rightarrow> string" where
  "artifact_of sh p = quoted (sh (get_or p ''name'' (JStr ''?''))) @ '' ('' @ sh (get_or p ''rarity'' (JStr ''?'')) @ '')''"

definition r_artifact_acquired :: renderer where
  "r_artifact_acquired sh p names titles = Inr (''acquired artifact '' @ artifact_of sh p)"

definition r_artifact_lost :: renderer where
  "r_artifact_lost sh p names titles = Inr (''lost artifact '' @ artifact_of sh p)"

definition r_epidemic_outbreak :: renderer where
  "r_epidemic_outbreak sh p names titles =
     Inr (''fell ill with '' @ sh (or_else (get p ''name'') (or_else (get p ''epidemic_type'') (JStr ''an epidemic'')))
       @ '' ('' @ sh (get_or p ''intensity'' (JStr ''?'')) @ '')'')"

definition r_dynasty_legacy_unlocked :: renderer where
  "r_dynasty_legacy_unlocked sh p names titles = Inr (''unlocked dynasty legacy '' @ quoted (sh (get_or p ''legacy_key'' (JStr ''?''))))"

definition r_modifier_acquired :: renderer where
  "r_modifier_acquired sh p names titles = Inr (''acquired modifier '' @ quoted (sh (get_or p ''modifier_key'' (JStr ''?''))))"

definition r_perk_acquired :: renderer where
  "r_perk_acquired sh p names titles = Inr (''acquired perk '' @ quoted (sh (get_or p ''perk_key'' (JStr ''?''))))"

definition r_lifestyle_committed :: renderer where
  "r_lifestyle_committed sh p names titles =
     bindr (as_text (get_or p ''lifestyle_key'' (JStr ''?''))) (\<lambda>k.
       Inr (''committed to the '' @ strip_suffix ''_lifestyle'' k @ '' lifestyle''))"

definition r_contract_completed :: renderer where
  "r_contract_completed sh p names titles =
     (let verb = (if get_or p ''outcome'' (JStr ''?'') = JStr ''completed'' then ''completed'' else ''failed'');
          head = verb @ '' the contract '' @ quoted (sh (or_else (get p ''name'') (or_else (get p ''contract_type'') (JStr ''?''))));
          employer_id = get p ''employer_id'';
          employer = (if truthy employer_id then render_name sh names employer_id else []);
          tier = get p ''tier''
      in Inr (if employer \<noteq> [] \<and> \<not> starts_with ''id '' employer then head @ '' for '' @ employer
              else if tier \<noteq> JNull then head @ '' (tier '' @ sh tier @ '')'' else head))"

definition humanise_court_position :: "json \<Rightarrow> string result" where
  "humanise_court_position key =
     (if \<not> truthy key then Inr ''an unknown role''
      else bindr (as_text key) (\<lambda>k. Inr (replace_underscores (strip_suffix ''_court_position'' k))))"

definition employee_of :: "(json \<Rightarrow> string) \<Rightarrow> obj \<Rightarrow> names_map \<Rightarrow> string" where
  "employee_of sh p names =
     (if truthy (get p ''employee_name'') then sh (get p ''employee_name'') else render_name sh names (get p ''employee_id''))"

definition r_camp_companion_joined :: renderer where
  "r_camp_companion_joined sh p names titles =
     bindr (humanise_court_position (get p ''court_position'')) (\<lambda>role.
       Inr (employee_of sh p names @ '' joined the court as '' @ role))"

definition r_camp_companion_left :: renderer where
  "r_camp_companion_left sh p names titles =
     bindr (humanise_court_position (get p ''court_position'')) (\<lambda>role.
       Inr (employee_of sh p names @ '' left the court ('' @ role @ '')''))"

definition r_domicile_moved :: renderer where
  "r_domicile_moved sh p names titles =
     Inr (''moved '' @ sh (or_else (get p ''domicile_type'') (JStr ''domicile'')) @ '' from province ''
       @ sh (get p ''from_province_id'') @ '' to province '' @ sh (get p ''to_province_id''))"

definition r_concubine_taken :: renderer where
  "r_concubine_taken sh p names titles =
     Inr (''took '' @ (if truthy (get p ''concubine_name'') then sh (get p ''concubine_name'')
                       else render_name sh names (get p ''concubine_id'')) @ '' as a concubine'')"

text \<open>\<open>int(v)\<close>, and \<open>f"{n:,}"\<close>.\<close>

fun to_int :: "json \<Rightarrow> int result" where
  "to_int JNull = Inl BadType"
| "to_int (JArr xs) = Inl BadType"
| "to_int (JObj d) = Inl BadType"
| "to_int v = (case coerce_int v of None \<Rightarrow> Inl ValueError | Some i \<Rightarrow> Inr i)"

fun group_digits :: "string \<Rightarrow> string" where
  "group_digits (a # b # c # d # ds) = a # b # c # CHR '','' # group_digits (d # ds)"
| "group_digits ds = ds"

definition with_commas :: "int \<Rightarrow> string" where
  "with_commas i = (if i < 0 then [CHR ''-''] else []) @ rev (group_digits (rev (show_nat (nat \<bar>i\<bar>))))"

definition r_splendor_increased :: renderer where
  "r_splendor_increased sh p names titles =
     bindr (to_int (get_or p ''new_tier'' (JInt 0))) (\<lambda>new_tier.
     bindr (to_int (get_or p ''total_renown_at_change'' (JInt 0))) (\<lambda>renown.
       let tier_label = (if 0 \<le> new_tier \<and> nat new_tier < length SPLENDOR_TIER_NAMES
             then SPLENDOR_TIER_NAMES ! nat new_tier else ''tier '' @ show_int new_tier);
           name = sh (or_else (get p ''dynasty_name'') (JStr (''Dynasty #'' @ sh (get_or p ''dynasty_id'' (JStr ''?'')))))
       in Inr (''House '' @ name @ '' reached splendor level '' @ tier_label @ '' ('' @ with_commas renown @ '' renown)'')))"

definition ACTIVITY_NOUN :: "(string, string) dict" where
  "ACTIVITY_NOUN =
     [(''activity_feast'', ''a feast''), (''activity_hunt'', ''a hunt''), (''activity_tournament'', ''a tournament''),
      (''activity_pilgrimage'', ''a pilgrimage''), (''activity_tour'', ''a tour''), (''activity_grand_tour'', ''a grand tour''),
      (''activity_chariot_race'', ''a chariot race''), (''activity_coronation'', ''a coronation''),
      (''activity_hold_court'', ''a court session'')]"

definition humanize_activity :: "json \<Rightarrow> string result" where
  "humanize_activity a_type =
     (if \<not> truthy a_type then Inr ''an activity''
      else bindr (lookup ACTIVITY_NOUN a_type) (\<lambda>mapped. case mapped of
          Some s \<Rightarrow> Inr s
        | None \<Rightarrow> bindr (as_text a_type) (\<lambda>s. Inr (replace_underscores
            (if starts_with ''activity_'' s then drop (length ''activity_'') s else s)))))"

definition r_activity_completed :: renderer where
  "r_activity_completed sh p names titles =
     bindr (humanize_activity (get p ''activity_type'')) (\<lambda>noun.
       let host_id = get p ''host_id''; host = render_name sh names host_id
       in Inr (if get p ''role'' = JStr ''host'' then ''hosted '' @ noun
               else if host_id \<noteq> JNull \<and> \<not> starts_with ''id '' host then ''attended '' @ noun @ '' hosted by '' @ host
               else ''attended '' @ noun))"

definition INSPIRATION_CRAFT :: "(string, string) dict" where
  "INSPIRATION_CRAFT =
     [(''weapon_inspiration'', ''weapon''), (''armor_inspiration'', ''armor''), (''smith_inspiration'', ''metalwork''),
      (''bow_inspiration'', ''bow''), (''weaver_inspiration'', ''textile''), (''book_inspiration'', ''book''),
      (''artisan_inspiration'', ''craft work''), (''adventure_inspiration'', ''adventure''),
      (''wonder_inspiration'', ''wonder'')]"

definition cost_suffix :: "(json \<Rightarrow> string) \<Rightarrow> json \<Rightarrow> string" where
  "cost_suffix sh cost =
     (case cost of
        JInt i \<Rightarrow> if 0 < i then '' ('' @ sh cost @ '' gold)'' else []
      | JBool True \<Rightarrow> '' ('' @ sh cost @ '' gold)''
      | _ \<Rightarrow> [])"

definition r_inspiration_sponsored :: renderer where
  "r_inspiration_sponsored sh p names titles =
     bindr (lookup INSPIRATION_CRAFT (or_else (get p ''inspiration_type'') (JStr []))) (\<lambda>craft.
       let artisan_id = get p ''artisan_character_id''; artisan = render_name sh names artisan_id;
           phrase = (if artisan_id \<noteq> JNull \<and> \<not> starts_with ''id '' artisan then artisan else ''an artisan'')
       in Inr (''sponsored '' @ phrase @ '' to make a '' @ (case craft of Some c \<Rightarrow> c | None \<Rightarrow> ''inspiration'')
            @ cost_suffix sh (get p ''total_cost'')))"

definition VANILLA_PHRASE :: "(string, string) dict" where
  "VANILLA_PHRASE = map (\<lambda>(k, s). (k, ''vanilla memory: '' @ s))
     [(''married'', ''married''), (''ascended_throne_memory'', ''ascended a throne''), (''battle_won_memory'', ''won a battle''),
      (''battle_lost_memory'', ''lost a battle''), (''war_won'', ''won a war''), (''war_lost'', ''lost a war''),
      (''offensive_war'', ''fought an offensive war''), (''defensive_war'', ''fought a defensive war''),
      (''joined_allys_war'', ''joined an ally'' @ [CHR 0x27] @ ''s war''), (''became_friends'', ''became friends''),
      (''became_rivals'', ''became rivals''), (''became_nemesis'', ''became nemesis''), (''became_lovers'', ''became lovers''),
      (''became_soulmates'', ''became soulmates''), (''developed_crush'', ''developed a crush''),
      (''relative_died'', ''a relative died''), (''rival_died'', ''a rival died''), (''child_born'', ''had a child''),
      (''first_born'', ''firstborn child''), (''twins_born'', ''twins born''), (''child_premature'', ''child born premature''),
      (''child_stillborn'', ''child stillborn''), (''miscarriage'', ''miscarriage''), (''imprisoned'', ''imprisoned''),
      (''released_from_prison_memory'', ''released from prison''),
      (''childhood_education_guardian'', ''childhood with guardian''),
      (''ward_education_completed'', ''ward education complete''),
      (''failed_provincial_exam_memory'', ''failed provincial exam''), (''lost_title_memory'', ''lost a title''),
      (''passed_provincial_exam_memory'', ''passed provincial exam''), (''ce1_contracted_epidemic'', ''contracted an epidemic''),
      (''accolade_created'', ''an accolade was created''), (''became_grudge'', ''developed a grudge''),
      (''childhood_education_no_guardian'', ''childhood without a guardian''), (''spouse_died'', ''spouse died'')]"

definition r_vanilla_memory :: renderer where
  "r_vanilla_memory sh p names titles =
     (let mt = get_or p ''memory_type'' (JStr ''?'')
      in bindr (lookup VANILLA_PHRASE mt) (\<lambda>phrase.
           let base = (case phrase of Some s \<Rightarrow> s | None \<Rightarrow> ''vanilla memory: '' @ sh mt);
               participants = participants_str sh names (get p ''participants'')
           in Inr (if participants \<noteq> [] then base @ '' ('' @ participants @ '')'' else base)))"

section \<open>Dispatch\<close>

definition RENDERERS :: "(string, renderer) dict" where
  "RENDERERS =
     [(''travel'', r_travel), (''trait_gained'', r_trait_gained), (''trait_lost'', r_trait_lost),
      (''war_concluded'', r_war_concluded), (''war_joined'', r_war_joined), (''war_declared'', r_war_declared),
      (''war_left'', r_war_left), (''title_acquired'', r_title_acquired), (''title_created'', r_title_created),
      (''title_relinquished'', r_title_relinquished), (''alliance_formed'', r_alliance_formed),
      (''alliance_broken'', r_alliance_broken), (''marriage'', r_marriage), (''divorce'', r_divorce),
      (''death'', r_death), (''miscarriage'', r_miscarriage), (''nickname'', r_nickname),
      (''adventurer_started'', r_adventurer_started), (''adventurer_ended'', r_adventurer_ended),
      (''government_changed'', r_government_changed), (''house_change'', r_house_change),
      (''culture_change'', r_culture_change), (''faith_change'', r_faith_change), (''decision_taken'', r_decision_taken),
      (''building_completed'', r_building_completed), (''artifact_acquired'', r_artifact_acquired),
      (''artifact_lost'', r_artifact_lost), (''epidemic_outbreak'', r_epidemic_outbreak),
      (''dynasty_legacy_unlocked'', r_dynasty_legacy_unlocked), (''splendor_increased'', r_splendor_increased),
      (''concubine_taken'', r_concubine_taken), (''modifier_acquired'', r_modifier_acquired),
      (''perk_acquired'', r_perk_acquired), (''lifestyle_committed'', r_lifestyle_committed),
      (''contract_completed'', r_contract_completed), (''camp_companion_joined'', r_camp_companion_joined),
      (''camp_companion_left'', r_camp_companion_left), (''domicile_moved'', r_domicile_moved),
      (''activity_completed'', r_activity_completed), (''inspiration_sponsored'', r_inspiration_sponsored),
      (''vanilla_memory'', r_vanilla_memory)]"

text \<open>\<open>except Exception\<close>: the name of the type again.\<close>

definition render_event_body :: "(json \<Rightarrow> string) \<Rightarrow> string \<Rightarrow> obj \<Rightarrow> names_map \<Rightarrow> titles_map \<Rightarrow> string" where
  "render_event_body sh event_type payload names titles =
     (case dict_get RENDERERS event_type of
        None \<Rightarrow> replace_underscores event_type
      | Some renderer \<Rightarrow> (case renderer sh payload names titles of
            Inl e \<Rightarrow> replace_underscores event_type
          | Inr s \<Rightarrow> s))"

text \<open>
  The glossary of a briefing, \<open>narrative/names.py\<close>: the characters the payloads of the events refer to.
\<close>

definition CHARACTER_ID_PAYLOAD_KEYS :: "string list" where
  "CHARACTER_ID_PAYLOAD_KEYS =
     [''from_holder_id'', ''to_holder_id'', ''host_id'', ''employer_id'', ''employee_id'', ''concubine_id'',
      ''assumed_father_id'', ''killer'']"

definition names_character :: "string \<Rightarrow> bool" where
  "names_character k \<longleftrightarrow> starts_with (rev ''_character_id'') (rev k) \<or> k \<in> set CHARACTER_ID_PAYLOAD_KEYS"

definition ints_of :: "obj \<Rightarrow> int list" where
  "ints_of d = List.map_filter (\<lambda>(k, v). int_instance v) d"

text \<open>The identifiers of one payload, that is of the JSON of one event; \<open>None\<close> is text that is no JSON.\<close>

definition payload_ids :: "json option \<Rightarrow> int list" where
  "payload_ids decoded =
     (case decoded of
        Some (JObj payload) \<Rightarrow> (case get payload ''p'' of
            JObj p \<Rightarrow> (case get p ''participants'' of JObj d \<Rightarrow> ints_of d | _ \<Rightarrow> [])
              @ ints_of (filter (\<lambda>(k, v). names_character k) p)
          | _ \<Rightarrow> [])
      | _ \<Rightarrow> [])"

definition extract_referenced_ids :: "json option list \<Rightarrow> int fset" where
  "extract_referenced_ids events = fset_of_list (concat (map payload_ids events))"

end
