(* ===== verification/Render_Facts.thy ===== *)
theory Render_Facts
  imports Event_Rendering Diff
begin

text \<open>
  Facts on the sentences for events: which payload a type of event has, that its renderer does not raise on
  it, and that it looks up no name outside the glossary.
\<close>

section \<open>The payload of a type\<close>

lemma payload_classes:
  "payload_class p = ''GovernmentChangedPayload'' \<longleftrightarrow> (\<exists>q. p = GovernmentChangedPayload q)"
  "payload_class p = ''LifestyleCommittedPayload'' \<longleftrightarrow> (\<exists>q. p = LifestyleCommittedPayload q)"
  "payload_class p = ''CampCompanionPayload'' \<longleftrightarrow> (\<exists>q. p = CampCompanionPayload q)"
  "payload_class p = ''SplendorPayload'' \<longleftrightarrow> (\<exists>q. p = SplendorPayload q)"
  "payload_class p = ''ActivityPayload'' \<longleftrightarrow> (\<exists>q. p = ActivityPayload q)"
  "payload_class p = ''InspirationSponsoredPayload'' \<longleftrightarrow> (\<exists>q. p = InspirationSponsoredPayload q)"
  "payload_class p = ''VanillaMemoryPayload'' \<longleftrightarrow> (\<exists>q. p = VanillaMemoryPayload q)"
  "payload_class p = ''TitleAcquiredPayload'' \<longleftrightarrow> (\<exists>q. p = TitleAcquiredPayload q)"
  "payload_class p = ''TitleRelinquishedPayload'' \<longleftrightarrow> (\<exists>q. p = TitleRelinquishedPayload q)"
  "payload_class p = ''AlliancePayload'' \<longleftrightarrow> (\<exists>q. p = AlliancePayload q)"
  "payload_class p = ''MarriagePayload'' \<longleftrightarrow> (\<exists>q. p = MarriagePayload q)"
  "payload_class p = ''DivorcePayload'' \<longleftrightarrow> (\<exists>q. p = DivorcePayload q)"
  "payload_class p = ''MiscarriagePayload'' \<longleftrightarrow> (\<exists>q. p = MiscarriagePayload q)"
  "payload_class p = ''ContractPayload'' \<longleftrightarrow> (\<exists>q. p = ContractPayload q)"
  "payload_class p = ''ConcubinePayload'' \<longleftrightarrow> (\<exists>q. p = ConcubinePayload q)"
  by (cases p; simp)+

named_theorems renders \<open>payloads and their renderers\<close>

lemma payload_get_simps [simp]:
  "get [] k = JNull" "get ((k', v) # d) k = (if k' = k then v else get d k)"
  "get_or [] k x = x" "get_or ((k', v) # d) k x = (if k' = k then v else get_or d k x)"
  by (simp_all add: get_def get_or_def)

lemma get_present [simp]:
  "get (present []) k = JNull"
  "get (present ((k', v) # kvs)) k = (if k' = k then case v of Some x \<Rightarrow> x | None \<Rightarrow> get (present kvs) k
     else get (present kvs) k)"
  "get_or (present []) k d = d"
  "get_or (present ((k', v) # kvs)) k d = (if k' = k then case v of Some x \<Rightarrow> x | None \<Rightarrow> get_or (present kvs) k d
     else get_or (present kvs) k d)"
  by (cases v; simp add: present_simps)+

lemma keys_named [simp]:
  "names_character ''from_holder_id''" "names_character ''to_holder_id''" "names_character ''host_id''"
  "names_character ''employer_id''" "names_character ''employee_id''" "names_character ''concubine_id''"
  "names_character ''assumed_father_id''" "names_character ''ally_character_id''" "names_character ''spouse_character_id''"
  "names_character ''former_spouse_character_id''" "names_character ''artisan_character_id''"
  by (simp_all add: names_character_def CHARACTER_ID_PAYLOAD_KEYS_def starts_with_def)

fun int_or_null :: "json \<Rightarrow> bool" where
  "int_or_null JNull = True"
| "int_or_null (JInt i) = True"
| "int_or_null _ = False"

fun int_values :: "json \<Rightarrow> bool" where
  "int_values (JObj d) = (\<forall>kv\<in>set d. int_or_null (snd kv))"
| "int_values _ = True"

lemma as_int_listed: "(k, JInt i) \<in> set d \<Longrightarrow> i \<in> set (ints_of d)"
  by (induction d) (auto simp: ints_of_def List.map_filter_simps split: option.split)

lemma same_name:
  "int_or_null v \<Longrightarrow> (\<And>i. v = JInt i \<Longrightarrow> dict_get names i = dict_get names' i) \<Longrightarrow>
     render_name sh names v = render_name sh names' v"
  by (cases v) (simp_all add: render_name_def dict_get_default_def)

lemma same_participants:
  assumes "int_values v" and "\<And>k i. v = JObj d \<Longrightarrow> (k, JInt i) \<in> set d \<Longrightarrow> dict_get names i = dict_get names' i"
    and "v = JObj d"
  shows "participants_str sh names v = participants_str sh names' v"
proof -
  have "(case ref of JArr rs \<Rightarrow> join_with '', '' (map (render_name sh names) rs) | _ \<Rightarrow> render_name sh names ref)
      = (case ref of JArr rs \<Rightarrow> join_with '', '' (map (render_name sh names') rs) | _ \<Rightarrow> render_name sh names' ref)"
    if "(role, ref) \<in> set d" for role ref
  proof -
    have "int_or_null ref" using assms(1,3) that by auto
    then show ?thesis using same_name [of ref names names' sh] assms(2) [OF assms(3)] that by (cases ref) auto
  qed
  then show ?thesis using assms(3) by (auto simp: participants_str_def intro!: arg_cong [where f = "join_with _"] map_cong)
qed

text \<open>The glossary of a payload has every name that a renderer asks for by one of its keys.\<close>

definition glossary_agrees :: "obj \<Rightarrow> names_map \<Rightarrow> names_map \<Rightarrow> bool" where
  "glossary_agrees p names names' \<longleftrightarrow>
     (\<forall>i\<in>set (payload_ids (Some (JObj [(''p'', JObj p)]))). dict_get names i = dict_get names' i)"

lemma glossary_name:
  assumes "glossary_agrees p names names'" and "names_character k" and "int_or_null (get p k)"
  shows "render_name sh names (get p k) = render_name sh names' (get p k)"
proof (rule same_name [OF assms(3)])
  fix i assume "get p k = JInt i"
  then have "(k, JInt i) \<in> set p" by (auto simp: get_def dest: dict_get_memD split: option.splits)
  then have "i \<in> set (ints_of (filter (\<lambda>(k, v). names_character k) p))" using assms(2) by (intro as_int_listed) auto
  then show "dict_get names i = dict_get names' i" using assms(1) by (simp add: glossary_agrees_def payload_ids_def)
qed

lemma glossary_participants:
  assumes "glossary_agrees p names names'" and "int_values (get p ''participants'')"
  shows "participants_str sh names (get p ''participants'') = participants_str sh names' (get p ''participants'')"
proof (cases "get p ''participants''")
  case (JObj d)
  show ?thesis
  proof (rule same_participants [OF assms(2) _ JObj])
    fix k i assume "(k, JInt i) \<in> set d"
    then have "i \<in> set (ints_of d)" by (rule as_int_listed)
    then show "dict_get names i = dict_get names' i" using assms(1) JObj by (simp add: glossary_agrees_def payload_ids_def)
  qed
qed (simp_all add: participants_str_def)

text \<open>A renderer fits a payload: it does not raise, and it depends on the glossary alone.\<close>

definition sentence_for :: "renderer \<Rightarrow> payload \<Rightarrow> bool" where
  "sentence_for r p \<longleftrightarrow> (\<forall>sh names names' titles. (\<exists>s. r sh (payload_dump p) names titles = Inr s)
     \<and> (glossary_agrees (payload_dump p) names names' \<longrightarrow>
        r sh (payload_dump p) names titles = r sh (payload_dump p) names' titles))"

lemma sentence_intro:
  assumes "\<And>sh names titles. \<exists>s. r sh (payload_dump p) names titles = Inr s"
    and "\<And>sh titles names names'. (\<And>k sh. names_character k \<Longrightarrow> int_or_null (get (payload_dump p) k) \<Longrightarrow>
        render_name sh names (get (payload_dump p) k) = render_name sh names' (get (payload_dump p) k)) \<Longrightarrow>
      (\<And>sh. int_values (get (payload_dump p) ''participants'') \<Longrightarrow>
        participants_str sh names (get (payload_dump p) ''participants'') = participants_str sh names' (get (payload_dump p) ''participants'')) \<Longrightarrow>
      r sh (payload_dump p) names titles = r sh (payload_dump p) names' titles"
  shows "sentence_for r p"
  unfolding sentence_for_def
  using assms(1) assms(2) [OF glossary_name glossary_participants] by blast

section \<open>What the payloads hold\<close>

lemma named_ints [simp]:
  "int_or_null (get (payload_dump (TitleAcquiredPayload q0)) ''from_holder_id'')"
  "int_or_null (get (payload_dump (TitleRelinquishedPayload q1)) ''to_holder_id'')"
  "int_or_null (get (payload_dump (AlliancePayload q2)) ''ally_character_id'')"
  "int_or_null (get (payload_dump (MarriagePayload q3)) ''spouse_character_id'')"
  "int_or_null (get (payload_dump (DivorcePayload q4)) ''former_spouse_character_id'')"
  "int_or_null (get (payload_dump (MiscarriagePayload q5)) ''assumed_father_id'')"
  "int_or_null (get (payload_dump (ContractPayload q6)) ''employer_id'')"
  "int_or_null (get (payload_dump (CampCompanionPayload q7)) ''employee_id'')"
  "int_or_null (get (payload_dump (ConcubinePayload q8)) ''concubine_id'')"
  "int_or_null (get (payload_dump (ActivityPayload q9)) ''host_id'')"
  "int_or_null (get (payload_dump (InspirationSponsoredPayload q10)) ''artisan_character_id'')"
  by (simp_all add: dump_title_acquired_payload_def dump_title_relinquished_payload_def dump_alliance_payload_def dump_marriage_payload_def dump_divorce_payload_def dump_miscarriage_payload_def dump_contract_payload_def dump_camp_companion_payload_def dump_concubine_payload_def dump_activity_payload_def dump_inspiration_sponsored_payload_def split: option.split)

lemma memory_participants [simp]: "int_values (get (payload_dump (VanillaMemoryPayload q)) ''participants'')"
  by (auto simp: dump_vanilla_memory_payload_def split: option.split)

lemma text_fields:
  "get_or (payload_dump (GovernmentChangedPayload g)) ''previous_government'' x = JStr (gp_previous_government g)"
  "get_or (payload_dump (GovernmentChangedPayload g)) ''new_government'' x = JStr (gp_new_government g)"
  "get_or (payload_dump (LifestyleCommittedPayload l)) ''lifestyle_key'' x = JStr (lcp_lifestyle_key l)"
  "get_or (payload_dump (SplendorPayload s)) ''new_tier'' x = JInt (sp_new_tier s)"
  "get_or (payload_dump (SplendorPayload s)) ''total_renown_at_change'' x = JFloat (sp_total_renown_at_change s)"
  "get_or (payload_dump (VanillaMemoryPayload m)) ''memory_type'' x = JStr (vmp_memory_type m)"
  by (simp_all add: dump_government_changed_payload_def dump_lifestyle_committed_payload_def dump_splendor_payload_def
      dump_vanilla_memory_payload_def)

lemma court_position_text: "\<exists>s. humanise_court_position (get (payload_dump (CampCompanionPayload q)) ''court_position'') = Inr s"
  by (simp add: humanise_court_position_def dump_camp_companion_payload_def split: option.split)

lemma activity_text: "\<exists>s. humanize_activity (get (payload_dump (ActivityPayload q)) ''activity_type'') = Inr s"
  by (simp add: humanize_activity_def lookup_def dump_activity_payload_def split: option.split)

lemma craft_text: "\<exists>s. lookup INSPIRATION_CRAFT (or_else (get (payload_dump (InspirationSponsoredPayload q)) ''inspiration_type'') (JStr [])) = Inr s"
  by (simp add: or_else_def lookup_def dump_inspiration_sponsored_payload_def split: option.split)

section \<open>Renderers and payloads\<close>

text \<open>Renderers without names, which never raise on anything.\<close>

lemma nameless [renders]:
  "sentence_for r_travel p"
  "sentence_for r_trait_gained p"
  "sentence_for r_trait_lost p"
  "sentence_for r_war_concluded p"
  "sentence_for r_war_joined p"
  "sentence_for r_war_declared p"
  "sentence_for r_war_left p"
  "sentence_for r_title_created p"
  "sentence_for r_death p"
  "sentence_for r_nickname p"
  "sentence_for r_adventurer_started p"
  "sentence_for r_adventurer_ended p"
  "sentence_for r_house_change p"
  "sentence_for r_culture_change p"
  "sentence_for r_faith_change p"
  "sentence_for r_decision_taken p"
  "sentence_for r_building_completed p"
  "sentence_for r_artifact_acquired p"
  "sentence_for r_artifact_lost p"
  "sentence_for r_epidemic_outbreak p"
  "sentence_for r_dynasty_legacy_unlocked p"
  "sentence_for r_modifier_acquired p"
  "sentence_for r_perk_acquired p"
  "sentence_for r_domicile_moved p"
  by (rule sentence_intro; simp add: r_travel_def r_trait_gained_def r_trait_lost_def r_war_concluded_def r_war_joined_def r_war_declared_def r_war_left_def r_title_created_def r_death_def r_nickname_def r_adventurer_started_def r_adventurer_ended_def r_house_change_def r_culture_change_def r_faith_change_def r_decision_taken_def r_building_completed_def r_artifact_acquired_def r_artifact_lost_def r_epidemic_outbreak_def r_dynasty_legacy_unlocked_def r_modifier_acquired_def r_perk_acquired_def r_domicile_moved_def Let_def)+

lemma text_renders [renders]:
  "sentence_for r_government_changed (GovernmentChangedPayload g)"
  "sentence_for r_lifestyle_committed (LifestyleCommittedPayload l)"
  "sentence_for r_splendor_increased (SplendorPayload s)"
  by (rule sentence_intro; simp add: r_government_changed_def r_lifestyle_committed_def r_splendor_increased_def
      gov_label_def lookup_def text_fields Let_def del: payload_dump.simps)+

text \<open>Renderers with a name.\<close>

lemma title_acquired_renders [renders]: "sentence_for r_title_acquired (TitleAcquiredPayload q)"
  by (rule sentence_intro; simp add: r_title_acquired_def holder_part_def Let_def del: payload_dump.simps)

lemma title_relinquished_renders [renders]: "sentence_for r_title_relinquished (TitleRelinquishedPayload q)"
  by (rule sentence_intro; simp add: r_title_relinquished_def holder_part_def Let_def del: payload_dump.simps)

lemma alliance_formed_renders [renders]: "sentence_for r_alliance_formed (AlliancePayload q)"
  by (rule sentence_intro; simp add: r_alliance_formed_def  Let_def del: payload_dump.simps)

lemma alliance_broken_renders [renders]: "sentence_for r_alliance_broken (AlliancePayload q)"
  by (rule sentence_intro; simp add: r_alliance_broken_def  Let_def del: payload_dump.simps)

lemma marriage_renders [renders]: "sentence_for r_marriage (MarriagePayload q)"
  by (rule sentence_intro; simp add: r_marriage_def  Let_def del: payload_dump.simps)

lemma divorce_renders [renders]: "sentence_for r_divorce (DivorcePayload q)"
  by (rule sentence_intro; simp add: r_divorce_def  Let_def del: payload_dump.simps)

lemma miscarriage_renders [renders]: "sentence_for r_miscarriage (MiscarriagePayload q)"
  by (rule sentence_intro; simp add: r_miscarriage_def  Let_def del: payload_dump.simps)

lemma contract_completed_renders [renders]: "sentence_for r_contract_completed (ContractPayload q)"
  by (rule sentence_intro; simp add: r_contract_completed_def  Let_def del: payload_dump.simps)

lemma concubine_taken_renders [renders]: "sentence_for r_concubine_taken (ConcubinePayload q)"
  by (rule sentence_intro; simp add: r_concubine_taken_def  Let_def del: payload_dump.simps)

lemma memory_renders [renders]: "sentence_for r_vanilla_memory (VanillaMemoryPayload q)"
  by (rule sentence_intro; simp add: r_vanilla_memory_def text_fields lookup_def Let_def del: payload_dump.simps)

lemma camp_renders [renders]:
  "sentence_for r_camp_companion_joined (CampCompanionPayload q)" "sentence_for r_camp_companion_left (CampCompanionPayload q)"
  using court_position_text [of q]
  by (auto intro!: sentence_intro simp: r_camp_companion_joined_def r_camp_companion_left_def employee_of_def
      simp del: payload_dump.simps)

lemma activity_renders [renders]: "sentence_for r_activity_completed (ActivityPayload q)"
  using activity_text [of q]
  by (auto intro!: sentence_intro simp: r_activity_completed_def Let_def simp del: payload_dump.simps)

lemma inspiration_renders [renders]: "sentence_for r_inspiration_sponsored (InspirationSponsoredPayload q)"
  using craft_text [of q]
  by (auto intro!: sentence_intro simp: r_inspiration_sponsored_def Let_def simp del: payload_dump.simps)

section \<open>Every type of event\<close>

lemma valid_renders:
  assumes "valid_event ev" and "dict_get RENDERERS (ev_t ev) = Some r"
  shows "sentence_for r (ev_p ev)"
proof -
  have u: "payload_class (ev_p ev) = the (dict_get EVENT_UNION (ev_t ev))" using assms(1) by (simp add: valid_event_def)
  have "(ev_t ev, r) \<in> set RENDERERS" using assms(2) by (rule dict_get_memD)
  then show ?thesis
    unfolding RENDERERS_def set_simps
    by (elim insertE emptyE; use u in \<open>auto simp: EVENT_UNION_get payload_classes renders\<close>)
qed

lemma diff_types_rendered: "t \<in> set diff_types \<Longrightarrow> dict_get RENDERERS t \<noteq> None"
proof -
  have "list_all (\<lambda>t. \<not> Option.is_none (dict_get RENDERERS t)) diff_types" by code_simp
  then show "t \<in> set diff_types \<Longrightarrow> dict_get RENDERERS t \<noteq> None" by (auto simp: list_all_iff Option.is_none_def)
qed

end
