(* ===== verification/Prompt_Builder.thy ===== *)
theory Prompt_Builder
  imports Event_Json Py_Text Event_Rendering Codec
begin

text \<open>
  Deaths of relatives that come close together, \<open>narrative/clusters.py\<close>. What \<open>json.loads\<close> makes of a text is
  the argument \<open>loads\<close>; an ISO date is the form with dashes, which is the one the application writes.
\<close>

section \<open>Days\<close>

definition is_leap :: "nat \<Rightarrow> bool" where
  "is_leap y \<longleftrightarrow> y mod 4 = 0 \<and> (y mod 100 \<noteq> 0 \<or> y mod 400 = 0)"

definition days_in_month :: "nat \<Rightarrow> nat \<Rightarrow> nat" where
  "days_in_month y m = (if m = 2 then (if is_leap y then 29 else 28) else if m \<in> {4, 6, 9, 11} then 30 else 31)"

text \<open>\<open>date.toordinal\<close>: the days since the year 1, whose first of January is day 1.\<close>

definition to_ordinal :: "nat \<Rightarrow> nat \<Rightarrow> nat \<Rightarrow> nat" where
  "to_ordinal y m d =
     365 * (y - 1) + (y - 1) div 4 - (y - 1) div 100 + (y - 1) div 400
     + sum_list (map (days_in_month y) [1..<m]) + d"

definition is_number :: "nat \<Rightarrow> string \<Rightarrow> bool" where
  "is_number n s \<longleftrightarrow> length s = n \<and> list_all is_digit s"

text \<open>\<open>date.fromisoformat\<close>, as a day.\<close>

definition from_iso :: "string \<Rightarrow> int option" where
  "from_iso s =
     (let y = take 4 s; m = take 2 (drop 5 s); d = drop 8 s
      in if is_number 4 y \<and> is_number 2 m \<and> is_number 2 d \<and> s = y @ ''-'' @ m @ ''-'' @ d
            \<and> 1 \<le> parse_nat y \<and> 1 \<le> parse_nat m \<and> parse_nat m \<le> 12
            \<and> 1 \<le> parse_nat d \<and> parse_nat d \<le> days_in_month (parse_nat y) (parse_nat m)
         then Some (int (to_ordinal (parse_nat y) (parse_nat m) (parse_nat d))) else None)"

section \<open>Events of a briefing\<close>

record event_snapshot =
  es_id :: int
  es_event_type :: string
  es_event_date :: string
  es_event_date_iso :: "string option"
  es_payload_json :: string

section \<open>Clusters\<close>

definition DEATH_CLUSTER_MIN_COUNT :: nat where
  "DEATH_CLUSTER_MIN_COUNT = 3"

definition DEATH_CLUSTER_WINDOW_DAYS :: int where
  "DEATH_CLUSTER_WINDOW_DAYS = 30"

record cluster_death =
  cd_date :: string
  cd_first_name :: json
  cd_age :: json
  cd_cause :: json

record death_cluster =
  dc_start_date :: string
  dc_end_date :: string
  dc_deaths :: "cluster_death list"

type_synonym cluster_candidate = "int \<times> event_snapshot \<times> obj"

definition cluster_candidate_of :: "(string \<Rightarrow> json option) \<Rightarrow> event_snapshot \<Rightarrow> cluster_candidate option" where
  "cluster_candidate_of loads e =
     (if es_event_type e \<noteq> ''vanilla_memory'' then None
      else case (es_event_date_iso e, loads (es_payload_json e)) of
          (Some iso_text, Some (JObj payload)) \<Rightarrow>
            if get payload ''memory_type'' \<noteq> JStr ''relative_died'' then None
            else map_option (\<lambda>day. (day, e, payload)) (from_iso iso_text)
        | _ \<Rightarrow> None)"

text \<open>The scan: \<open>current\<close> is the group that is open, its last candidate the anchor.\<close>

fun scan_groups :: "int \<Rightarrow> cluster_candidate list \<Rightarrow> cluster_candidate list \<Rightarrow> cluster_candidate list list" where
  "scan_groups window current [] = [current]"
| "scan_groups window current (c # cs) =
     (if current = [] then scan_groups window [c] cs
      else if fst c - fst (last current) \<le> window then scan_groups window (current @ [c]) cs
      else current # scan_groups window [c] cs)"

definition cluster_of :: "cluster_candidate list \<Rightarrow> death_cluster" where
  "cluster_of members =
     \<lparr>dc_start_date = es_event_date (fst (snd (hd members))), dc_end_date = es_event_date (fst (snd (last members))),
      dc_deaths = map (\<lambda>(day, ev, p). \<lparr>cd_date = es_event_date ev, cd_first_name = get p ''deceased_first_name'',
        cd_age = get p ''deceased_age'', cd_cause = get p ''deceased_cause''\<rparr>) members\<rparr>"

definition detect_death_clusters :: "(string \<Rightarrow> json option) \<Rightarrow> event_snapshot list \<Rightarrow> death_cluster list" where
  "detect_death_clusters loads events =
     map cluster_of (filter (\<lambda>g. DEATH_CLUSTER_MIN_COUNT \<le> length g)
       (scan_groups DEATH_CLUSTER_WINDOW_DAYS [] (sort_key fst (List.map_filter (cluster_candidate_of loads) events))))"

section \<open>The block of the prompt\<close>

definition EM_DASH :: string where
  "EM_DASH = [CHR 0xE2, CHR 0x80, CHR 0x94]"

definition ARROW :: string where
  "ARROW = [CHR 0xE2, CHR 0x86, CHR 0x92]"

definition format_one_death :: "(json \<Rightarrow> string) \<Rightarrow> cluster_death \<Rightarrow> string" where
  "format_one_death sh d =
     (let or_dash = (\<lambda>v. if truthy v then sh v else EM_DASH)
      in or_dash (cd_first_name d) @ '' ('' @ (if cd_age d \<noteq> JNull then sh (cd_age d) else EM_DASH) @ '', ''
         @ or_dash (cd_cause d) @ '')'')"

text \<open>Both dates in the forms of the game; a year that no date can have makes \<open>fromisoformat\<close> raise.\<close>

definition day_span :: "string \<Rightarrow> string \<Rightarrow> int result" where
  "day_span start_date end_date =
     (case (parse_ck3_date start_date, parse_ck3_date end_date) of
        (Some s, Some e) \<Rightarrow> (case (from_iso s, from_iso e) of (Some a, Some b) \<Rightarrow> Inr (b - a) | _ \<Rightarrow> Inl ValueError)
      | _ \<Rightarrow> Inr 0)"

fun cluster_lines :: "(json \<Rightarrow> string) \<Rightarrow> death_cluster list \<Rightarrow> string list result" where
  "cluster_lines sh [] = Inr []"
| "cluster_lines sh (c # cs) =
     bindr (day_span (dc_start_date c) (dc_end_date c)) (\<lambda>days.
     bindr (cluster_lines sh cs) (\<lambda>ls.
       Inr ((''- '' @ dc_start_date c @ '' '' @ ARROW @ '' '' @ dc_end_date c @ '' ('' @ show_int days @ '' days, ''
          @ show_nat (length (dc_deaths c)) @ '' relatives): '' @ join_with ''; '' (map (format_one_death sh) (dc_deaths c))
          @ ''.'') # ls)))"

definition format_death_cluster_block :: "(json \<Rightarrow> string) \<Rightarrow> death_cluster list \<Rightarrow> string result" where
  "format_death_cluster_block sh clusters =
     (if clusters = [] then Inr []
      else bindr (cluster_lines sh clusters) (\<lambda>ls.
        Inr (join_with [CHR 0x0A] ((''Recorded death clusters in this character'' @ [CHR 0x27] @ ''s life:'') # ls))))"

text \<open>
  The prompt of a biography, \<open>narrative/prompt_builder.py\<close>: from the columns of a character, its events
  and the names of the characters around it to the text for the language model. \<open>loads\<close> is \<open>json.loads\<close>
  of a text, \<open>None\<close> where that raises a \<open>JSONDecodeError\<close>; \<open>sh\<close> is \<open>str\<close>.
\<close>

section \<open>What the read phase gathers\<close>

record briefing_character =
  bc_ck3_id :: int
  bc_first_name :: "string option"
  bc_dynasty_name :: "string option"
  bc_nickname :: "string option"
  bc_female :: "bool option"
  bc_birth_date :: "string option"
  bc_death_date :: "string option"
  bc_culture :: "string option"
  bc_faith :: "string option"
  bc_raw_record_json :: "string option"
  bc_region_summary_json :: "string option"
  bc_great_cause_json :: "string option"
  bc_primary_title_json :: "string option"

record biography_inputs =
  bi_character :: briefing_character
  bi_events :: "event_snapshot list"
  bi_names_map :: names_map
  bi_name_genders :: "(int, bool option) dict"
  bi_related_snapshots :: "(int, string) dict"

record briefing =
  bg_kind :: string
  bg_prompt_version :: string
  bg_user_prompt :: string

text \<open>A text that is there and not empty; \<open>json.loads\<close> of one.\<close>

definition some_text :: "string option \<Rightarrow> string" where
  "some_text t = (case t of None \<Rightarrow> [] | Some s \<Rightarrow> s)"

definition text_or :: "string option \<Rightarrow> string \<Rightarrow> string" where
  "text_or t d = (if some_text t = [] then d else some_text t)"

definition load_obj :: "(string \<Rightarrow> json option) \<Rightarrow> string option \<Rightarrow> obj option" where
  "load_obj loads t =
     (if some_text t = [] then None else case loads (some_text t) of Some (JObj d) \<Rightarrow> Some d | _ \<Rightarrow> None)"

fun as_obj :: "json \<Rightarrow> obj result" where
  "as_obj (JObj d) = Inr d"
| "as_obj _ = Inl AttributeError"

section \<open>Relations\<close>

type_synonym relation_labels = "(int, string) dict"

definition id_of :: "json \<Rightarrow> int option" where
  "id_of entry = (case entry of JObj d \<Rightarrow> int_instance (get d ''id'') | _ \<Rightarrow> int_instance entry)"

definition set_if_unset :: "int option \<Rightarrow> string \<Rightarrow> relation_labels \<Rightarrow> relation_labels" where
  "set_if_unset cid label out =
     (case cid of None \<Rightarrow> out | Some c \<Rightarrow> if dict_get out c \<noteq> None then out else dict_set out c label)"

text \<open>\<open>for entry in value or []\<close>.\<close>

definition entries_of :: "json \<Rightarrow> json list result" where
  "entries_of v = iterate (or_else v (JArr []))"

definition label_all :: "(json \<Rightarrow> string) \<Rightarrow> json \<Rightarrow> relation_labels \<Rightarrow> relation_labels result" where
  "label_all label v out =
     bindr (entries_of v) (\<lambda>es. Inr (fold (\<lambda>e. set_if_unset (id_of e) (label e)) es out))"

definition gender_of :: "(int, bool option) dict \<Rightarrow> int option \<Rightarrow> bool option" where
  "gender_of name_genders cid = (case cid of None \<Rightarrow> None | Some c \<Rightarrow> dict_get_default name_genders c None)"

definition child_label :: "(int, bool option) dict \<Rightarrow> json \<Rightarrow> string" where
  "child_label name_genders entry =
     (case gender_of name_genders (id_of entry) of Some True \<Rightarrow> ''daughter'' | Some False \<Rightarrow> ''son'' | None \<Rightarrow> ''child'')"

definition own_relations :: "(int, bool option) dict \<Rightarrow> obj \<Rightarrow> relation_labels result" where
  "own_relations name_genders family =
     (let parents = set_if_unset (id_of (get family ''primary_spouse'')) ''spouse''
            (set_if_unset (id_of (get family ''mother'')) ''mother''
              (set_if_unset (id_of (get family ''father'')) ''father'' []))
      in bindr (label_all (\<lambda>_. ''spouse'') (get family ''spouse'') parents) (\<lambda>out.
         bindr (label_all (\<lambda>_. ''former spouse'') (get family ''former_spouses'') out) (\<lambda>out.
         bindr (label_all (\<lambda>_. ''concubine'') (get family ''concubine'')
                  (set_if_unset (id_of (get family ''concubinist'')) ''concubinist'' out)) (\<lambda>out.
         bindr (label_all (\<lambda>_. ''betrothed'') (get family ''betrothed'') out) (\<lambda>out.
           label_all (child_label name_genders) (get family ''child'') out)))))"

definition family_of :: "(string \<Rightarrow> json option) \<Rightarrow> string option \<Rightarrow> obj option" where
  "family_of loads t =
     (case load_obj loads t of
        None \<Rightarrow> None
      | Some record \<Rightarrow> (case get record ''family_data'' of JObj f \<Rightarrow> Some f | _ \<Rightarrow> None))"

definition parent_label :: "(int, bool option) dict \<Rightarrow> int \<Rightarrow> string" where
  "parent_label name_genders cid =
     (case gender_of name_genders (Some cid) of Some True \<Rightarrow> ''mother'' | Some False \<Rightarrow> ''father'' | None \<Rightarrow> ''parent'')"

fun reverse_scan ::
  "(string \<Rightarrow> json option) \<Rightarrow> int \<Rightarrow> (int, bool option) dict \<Rightarrow> (int, string) dict \<Rightarrow> relation_labels
   \<Rightarrow> relation_labels result" where
  "reverse_scan loads subject name_genders [] out = Inr out"
| "reverse_scan loads subject name_genders ((related_cid, related_json) # rest) out =
     (if related_cid = subject then reverse_scan loads subject name_genders rest out
      else case family_of loads (Some related_json) of
          None \<Rightarrow> reverse_scan loads subject name_genders rest out
        | Some f \<Rightarrow> bindr (entries_of (get f ''child'')) (\<lambda>children.
            reverse_scan loads subject name_genders rest
              (if \<exists>e\<in>set children. id_of e = Some subject
               then set_if_unset (Some related_cid) (parent_label name_genders related_cid) out else out)))"

definition build_relation_labels ::
  "(string \<Rightarrow> json option) \<Rightarrow> string option \<Rightarrow> int \<Rightarrow> (int, bool option) dict \<Rightarrow> (int, string) dict
   \<Rightarrow> relation_labels result" where
  "build_relation_labels loads save_snapshot_json subject name_genders related =
     bindr (case family_of loads save_snapshot_json of None \<Rightarrow> Inr [] | Some f \<Rightarrow> own_relations name_genders f)
       (reverse_scan loads subject name_genders related)"

section \<open>Events\<close>

definition format_event_line ::
  "(string \<Rightarrow> json option) \<Rightarrow> (json \<Rightarrow> string) \<Rightarrow> event_snapshot \<Rightarrow> names_map \<Rightarrow> titles_map \<Rightarrow> string" where
  "format_event_line loads sh e names titles =
     (let payload = (case load_obj loads (Some (es_payload_json e)) of
            None \<Rightarrow> []
          | Some outer \<Rightarrow> (case get outer ''p'' of JObj inner \<Rightarrow> inner | _ \<Rightarrow> []))
      in ''['' @ text_or (es_event_date_iso e) ''????-??-??'' @ ''] ''
         @ render_event_body sh (es_event_type e) payload names titles)"

section \<open>The world around\<close>

definition first_of :: "obj \<Rightarrow> string list \<Rightarrow> json \<Rightarrow> json" where
  "first_of d ks x = foldr (\<lambda>k. or_else (get d k)) ks x"

definition self_line :: "(json \<Rightarrow> string) \<Rightarrow> string option \<Rightarrow> string option \<Rightarrow> obj \<Rightarrow> string" where
  "self_line sh subject_culture subject_faith realm =
     (let name = sh (first_of realm [''kingdom_name'', ''kingdom_key''] (JStr ''(unknown)''));
          fallback = (\<lambda>t. case t of None \<Rightarrow> JNull | Some s \<Rightarrow> JStr s);
          culture = or_else (get realm ''culture'') (fallback subject_culture);
          faith = or_else (get realm ''faith'') (fallback subject_faith)
      in if truthy culture \<and> truthy faith
         then ''Self: '' @ name @ '' '' @ EM_DASH @ '' '' @ sh culture @ '', '' @ sh faith @ ''.''
         else if truthy culture \<or> truthy faith
         then ''Self: '' @ name @ '' '' @ EM_DASH @ '' '' @ sh (or_else culture faith) @ ''.''
         else ''Self: '' @ name @ ''.'')"

definition peer_line :: "(json \<Rightarrow> string) \<Rightarrow> json \<Rightarrow> string result" where
  "peer_line sh v = bindr (as_obj v) (\<lambda>peer.
     let ruler = get peer ''ruler_first_name''; nickname = get peer ''ruler_nickname'';
         segment = (if truthy nickname then '', ruled by '' @ sh ruler @ '', called '' @ sh nickname
                    else if truthy ruler then '', ruled by '' @ sh ruler else [])
     in Inr (''- '' @ sh (first_of peer [''kingdom_name'', ''kingdom_key''] (JStr ''(unknown)'')) @ '' '' @ EM_DASH @ '' ''
          @ sh (first_of peer [''culture''] (JStr ''(unknown culture)'')) @ '', ''
          @ sh (first_of peer [''faith''] (JStr ''(unknown faith)'')) @ segment))"

definition cross_current_line :: "(json \<Rightarrow> string) \<Rightarrow> json \<Rightarrow> string result" where
  "cross_current_line sh v = bindr (as_obj v) (\<lambda>cc.
     let name = (\<lambda>ks. sh (first_of cc ks (JStr ''(unknown)''))); holder = get cc ''holder_first_name''
     in Inr (''- '' @ name [''held_title_name'', ''held_title_key''] @ '' (de jure of ''
          @ name [''de_jure_kingdom_name'', ''de_jure_kingdom_key''] @ '') is held by''
          @ (if truthy holder then '' '' @ sh holder @ '', '' else '' '') @ ''whose realm is ''
          @ name [''holder_realm_name'', ''holder_realm_key'']))"

definition WORLD_FOOTER :: string where
  "WORLD_FOOTER = ''These facts are background. Do not open the biography with them. Bring a realm, ruler, culture or faith into the prose only where a recorded event touches it. Use the kingdom and ruler names exactly as given. Do not invent additional realms, rulers, or holdings.''"

definition lines_under :: "(json \<Rightarrow> string result) \<Rightarrow> string list \<Rightarrow> json \<Rightarrow> string list result" where
  "lines_under line heading v =
     (if \<not> truthy v then Inr []
      else bindr (iterate v) (\<lambda>vs. bindr (mapr line vs) (\<lambda>ls. Inr (heading @ ls))))"

definition format_world_context_block ::
  "(string \<Rightarrow> json option) \<Rightarrow> (json \<Rightarrow> string) \<Rightarrow> string option \<Rightarrow> string option \<Rightarrow> string option \<Rightarrow> string result" where
  "format_world_context_block loads sh region_summary_json subject_culture subject_faith =
     (case load_obj loads region_summary_json of
        None \<Rightarrow> Inr []
      | Some summary \<Rightarrow>
          (let region_name = or_else (get summary ''region_empire_name'') (get summary ''region_empire_key'');
               self_realm = get summary ''self_realm''
           in if \<not> truthy region_name then Inr []
              else bindr (if truthy self_realm
                     then bindr (as_obj self_realm) (\<lambda>r. Inr [self_line sh subject_culture subject_faith r]) else Inr [])
                (\<lambda>self.
                 bindr (lines_under (peer_line sh) [[], ''Other realms in the region:''] (get summary ''peers'')) (\<lambda>peers.
                 bindr (lines_under (cross_current_line sh)
                      [[], ''Cross-currents in the region (treat as factual; do not invent or alter):'']
                      (get summary ''cross_currents'')) (\<lambda>ccs.
                   Inr (join_with [CHR 0x0A]
                     ([''World context ('' @ sh region_name @ '', at the time of his/her death):'', []]
                      @ self @ peers @ ccs @ [[], WORLD_FOOTER])))))))"

section \<open>The great cause\<close>

definition ally_line :: "(json \<Rightarrow> string) \<Rightarrow> json \<Rightarrow> string result" where
  "ally_line sh v = bindr (as_obj v) (\<lambda>ally.
     Inr (''  - '' @ sh (first_of ally [''first_name''] (JStr ''(unnamed)'')) @ '' of ''
       @ sh (first_of ally [''realm_name'', ''realm_key''] (JStr ''(unknown realm)''))))"

definition CAUSE_FOOTER_DEAD :: string where
  "CAUSE_FOOTER_DEAD = ''This character died while bound to the cause above. Frame the death biography with that fact '' @ EM_DASH @ '' they did not see the cause through. Weave the cause name and target verbatim when describing their final years or the death scene; do not name a pope, holy site, treaty, or battle unless the events below already do.''"

definition CAUSE_FOOTER :: string where
  "CAUSE_FOOTER = ''When biographical events touch this great cause, weave the cause name and target verbatim. Do not name a pope, holy site, or treaty unless the events below already do.''"

definition format_great_cause_block ::
  "(string \<Rightarrow> json option) \<Rightarrow> (json \<Rightarrow> string) \<Rightarrow> string option \<Rightarrow> string option \<Rightarrow> string result" where
  "format_great_cause_block loads sh great_cause_json death_date =
     (case load_obj loads great_cause_json of
        None \<Rightarrow> Inr []
      | Some facts \<Rightarrow>
          (let dead = (some_text death_date \<noteq> []);
               cb_type = sh (first_of facts [''casus_belli_type''] (JStr ''great cause''));
               target = or_else (get facts ''target_kingdom_name'') (get facts ''target_kingdom_key'');
               headline = (if dead then ''Great cause active at death ('' else ''Current great cause ('') @ cb_type
                 @ ''; treat as factual, do not invent details):'';
               optional = (\<lambda>label v. if truthy v then [label @ sh v] else [])
           in bindr (lines_under (ally_line sh)
                  [''- Other sovereigns on the same side (use names exactly as given):''] (get facts ''allies'')) (\<lambda>allies.
                Inr (join_with [CHR 0x0A]
                  ([headline, []] @ optional ''- Cause: '' (get facts ''war_name'') @ optional ''- Target: '' target
                   @ [''- Side: '' @ sh (first_of facts [''side''] (JStr ''unknown''))]
                   @ optional ''- Joined: '' (get facts ''start_date'')
                   @ (if dead then [''- Died: '' @ some_text death_date
                        @ '' (cause unresolved at this character'' @ [CHR 0x27] @ ''s death)''] else [])
                   @ allies @ [[], if dead then CAUSE_FOOTER_DEAD else CAUSE_FOOTER])))))"

section \<open>The prompt\<close>

definition BLANK_LINE :: string where
  "BLANK_LINE = [CHR 0x0A, CHR 0x0A]"

definition header_of :: "briefing_character \<Rightarrow> string" where
  "header_of c =
     (let name = join_with '' '' (filter (\<lambda>s. s \<noteq> []) [some_text (bc_first_name c), some_text (bc_dynasty_name c)]);
          subject = (if name = [] then ''(unknown)'' else name)
            @ (if some_text (bc_nickname c) \<noteq> [] then '', called '' @ some_text (bc_nickname c) else [])
      in join_with [CHR 0x0A] ([''Known names: '' @ subject]
           @ (case bc_female c of None \<Rightarrow> [] | Some f \<Rightarrow> [''Gender: '' @ (if f then ''woman'' else ''man'')])
           @ [''Birth date (if known): '' @ text_or (bc_birth_date c) ''(unknown)'',
              ''Death date (if known): '' @ text_or (bc_death_date c) ''(unknown)'',
              ''Culture: '' @ text_or (bc_culture c) ''(unknown)'' @ ''; Faith: '' @ text_or (bc_faith c) ''(unknown)'']))"

definition glossary_line :: "relation_labels \<Rightarrow> int \<times> string \<Rightarrow> string" where
  "glossary_line labels entry =
     (case entry of (cid, label) \<Rightarrow> ''  '' @ show_int cid @ '' = '' @ label
        @ (case dict_get labels cid of Some r \<Rightarrow> if r \<noteq> [] then '' ('' @ r @ '')'' else [] | None \<Rightarrow> []))"

definition glossary_of :: "int \<Rightarrow> names_map \<Rightarrow> relation_labels \<Rightarrow> string" where
  "glossary_of subject names labels =
     (let rendered = map (glossary_line labels) (sort_key fst (filter (\<lambda>(cid, label). cid \<noteq> subject) names))
      in ''Other characters referenced in this person'' @ [CHR 0x27] @ ''s events (use these names, never the IDs):'' @ [CHR 0x0A]
         @ (if rendered = [] then ''(none)'' else join_with [CHR 0x0A] rendered))"

definition RAW_RECORD_INTRO :: string where
  "RAW_RECORD_INTRO = ''Full character record from save (source of additional detail '' @ EM_DASH @ '' traits, perks, adventurer state, location history, intrigue context). The structured header above (Known names, Gender, Birth, Death, Culture, Faith) takes precedence over any conflicting field in the raw record; use the raw record only for fields the header doesn'' @ [CHR 0x27] @ ''t cover. Family relationships in the raw record are expanded to {id, name} dicts '' @ EM_DASH @ '' write the name, never the id:''"

definition block_text :: "string \<Rightarrow> string" where
  "block_text t = (if t = [] then [] else t @ BLANK_LINE)"

definition build_user_prompt ::
  "(string \<Rightarrow> json option) \<Rightarrow> (json \<Rightarrow> string) \<Rightarrow> briefing_character \<Rightarrow> event_snapshot list \<Rightarrow> names_map \<Rightarrow> bool
   \<Rightarrow> relation_labels \<Rightarrow> string \<Rightarrow> string result" where
  "build_user_prompt loads sh c events names include_raw_record labels world_block_text =
     bindr (format_great_cause_block loads sh (bc_great_cause_json c) (bc_death_date c)) (\<lambda>great_cause.
       let raw = (if include_raw_record \<and> some_text (bc_raw_record_json c) \<noteq> []
                  then BLANK_LINE @ RAW_RECORD_INTRO @ [CHR 0x0A] @ some_text (bc_raw_record_json c) else []);
           front = block_text world_block_text @ block_text great_cause @ header_of c @ BLANK_LINE
             @ glossary_of (bc_ck3_id c) names labels @ BLANK_LINE;
           titles = build_titles_map_from_primary_title
             (map_option JObj (load_obj loads (bc_primary_title_json c)))
       in if events = [] then Inr (front @ ''Recorded events: (none)'' @ raw)
          else bindr (format_death_cluster_block sh (detect_death_clusters loads events)) (\<lambda>clusters.
            Inr (front @ ''Recorded events (chronological):'' @ [CHR 0x0A]
              @ join_with [CHR 0x0A] (map (\<lambda>e. format_event_line loads sh e names titles) events)
              @ (if clusters = [] then [] else BLANK_LINE @ clusters) @ raw)))"

definition resolve_prompt_version :: "string \<Rightarrow> string" where
  "resolve_prompt_version mode = (if mode = ''woven'' then ''biography_v5'' else ''biography_v3'')"

definition build_briefing ::
  "(string \<Rightarrow> json option) \<Rightarrow> (json \<Rightarrow> string) \<Rightarrow> biography_inputs \<Rightarrow> string \<Rightarrow> bool \<Rightarrow> briefing result" where
  "build_briefing loads sh inputs mode include_raw_record =
     (let c = bi_character inputs
      in bindr (build_relation_labels loads (bc_raw_record_json c) (bc_ck3_id c) (bi_name_genders inputs)
                  (bi_related_snapshots inputs)) (\<lambda>labels.
         bindr (format_world_context_block loads sh (bc_region_summary_json c) (bc_culture c) (bc_faith c)) (\<lambda>world_text.
         bindr (build_user_prompt loads sh c (bi_events inputs) (bi_names_map inputs) include_raw_record labels world_text)
           (\<lambda>prompt. Inr \<lparr>bg_kind = (if world_text \<noteq> [] then ''biography_woven'' else ''biography''),
              bg_prompt_version = resolve_prompt_version mode, bg_user_prompt = prompt\<rparr>))))"

end
