(* ===== verification/Biography.thy ===== *)
theory Biography
  imports Prompt_Builder Event_Rendering Ingest_Event
begin

text \<open>
  The generation of a biography, \<open>narrative/pipeline.py\<close>, and the catch-up of \<open>narrative/pause.py\<close>: read in one
  session, ask the model with no session open, store in another. The answer of the model is the
  argument \<open>provider\<close>, what the other tasks do meanwhile is \<open>meanwhile\<close>; \<open>dumps\<close> writes the JSON text
  of a column.
\<close>

section \<open>Reading\<close>

record narrative_env =
  ne_dumps :: "json \<Rightarrow> string"
  ne_loads :: "string \<Rightarrow> json option"
  ne_str :: "json \<Rightarrow> string"
  ne_mode :: string
  ne_now :: string

definition cell_text :: "(json \<Rightarrow> string) \<Rightarrow> cell \<Rightarrow> string option" where
  "cell_text dumps c = (case c of Text s \<Rightarrow> Some s | Json j \<Rightarrow> Some (dumps j) | _ \<Rightarrow> None)"

definition cell_flag :: "cell \<Rightarrow> bool option" where
  "cell_flag c = (case c of Flag b \<Rightarrow> Some b | _ \<Rightarrow> None)"

definition character_of_row :: "(json \<Rightarrow> string) \<Rightarrow> int \<Rightarrow> char_row \<Rightarrow> briefing_character" where
  "character_of_row dumps ck3_id row =
     (let cell = (\<lambda>k. cell_text dumps (column row k))
      in \<lparr>bc_ck3_id = ck3_id, bc_first_name = cell ''first_name'', bc_dynasty_name = cell ''dynasty_name'',
          bc_nickname = cell ''nickname'', bc_female = cell_flag (column row ''female''),
          bc_birth_date = cell ''birth_date'', bc_death_date = cell ''death_date'', bc_culture = cell ''culture'',
          bc_faith = cell ''faith'', bc_raw_record_json = cell ''save_snapshot_json'',
          bc_region_summary_json = cell ''region_summary_json'', bc_great_cause_json = cell ''great_cause_json'',
          bc_primary_title_json = cell ''primary_title_json''\<rparr>)"

definition event_of_row :: "(json \<Rightarrow> string) \<Rightarrow> event_row \<Rightarrow> event_snapshot" where
  "event_of_row dumps r =
     \<lparr>es_id = er_id r, es_event_type = er_event_type r, es_event_date = er_event_date r,
      es_event_date_iso = er_event_date_iso r, es_payload_json = dumps (event_json (er_payload r))\<rparr>"

definition name_label :: "(json \<Rightarrow> string) \<Rightarrow> char_row \<Rightarrow> string option" where
  "name_label dumps row =
     (let first = some_text (cell_text dumps (column row ''first_name''));
          nickname = some_text (cell_text dumps (column row ''nickname''))
      in if first = [] then None
         else Some (if nickname = [] then first else first @ '', called '' @ nickname))"

text \<open>The rows of the characters that the events name, and of the subject.\<close>

definition gather_inputs :: "narrative_env \<Rightarrow> campaign_db \<Rightarrow> int \<Rightarrow> biography_inputs option" where
  "gather_inputs ne db character_id =
     (case get_character db character_id of
        None \<Rightarrow> None
      | Some row \<Rightarrow>
          (let dumps = ne_dumps ne;
               events = map (event_of_row dumps) (list_events_for_character db character_id None);
               ref_ids = finsert character_id (extract_referenced_ids (map (\<lambda>e. ne_loads ne (es_payload_json e)) events));
               rows = filter (\<lambda>(cid, r). cid |\<in>| ref_ids) (db_characters db);
               snapshot = (\<lambda>r. cell_text dumps (column r ''save_snapshot_json''))
           in Some \<lparr>bi_character = character_of_row dumps character_id row, bi_events = events,
                bi_names_map = List.map_filter (\<lambda>(cid, r). map_option (Pair cid) (name_label dumps r)) rows,
                bi_name_genders = map (\<lambda>(cid, r). (cid, cell_flag (column r ''female''))) rows,
                bi_related_snapshots = List.map_filter (\<lambda>(cid, r).
                  if some_text (snapshot r) = [] then None else Some (cid, some_text (snapshot r))) rows\<rparr>))"

text \<open>Three statements in one session: the character, its events, the characters around.\<close>

definition read_inputs :: "narrative_env \<Rightarrow> int \<Rightarrow> biography_inputs option op" where
  "read_inputs ne character_id =
     session_scope (bind_op (db_op (\<lambda>db. Inr (get_character db character_id, db))) (\<lambda>found.
       if found = None then return_op None
       else bind_op plain_statement (\<lambda>_. db_op (\<lambda>db. Inr (gather_inputs ne db character_id, db)))))"

section \<open>Generating\<close>

text \<open>The answer of the provider: the text with the model and what it cost, or the message of what it
  raised (the assembly of the system prompt included).\<close>

record generated =
  gn_text :: string
  gn_model :: "string option"
  gn_provider :: string
  gn_input_tokens :: "int option"
  gn_output_tokens :: "int option"
  gn_cache_read_tokens :: "int option"
  gn_cache_write_tokens :: "int option"
  gn_cost_usd :: "rat option"

type_synonym provider = "briefing \<Rightarrow> string + generated"

record generation_outcome =
  go_biography_id :: "int option"
  go_error :: "string option"
  go_events_through_event_id :: "int option"

definition last_event_id :: "biography_inputs \<Rightarrow> int option" where
  "last_event_id inputs = (if bi_events inputs = [] then None else Some (es_id (last (bi_events inputs))))"

definition biography_args :: "narrative_env \<Rightarrow> int \<Rightarrow> briefing \<Rightarrow> int option \<Rightarrow> generated \<Rightarrow> biography_row" where
  "biography_args ne character_id b through g =
     \<lparr>br_id = 0, br_character_id = character_id, br_version = 0, br_body = gn_text g,
      br_prompt_template_version = bg_prompt_version b, br_provider = gn_provider g, br_model = gn_model g,
      br_events_through_event_id = through, br_generated_at = ne_now ne, br_prompt_tokens = gn_input_tokens g,
      br_completion_tokens = gn_output_tokens g, br_cache_read_tokens = gn_cache_read_tokens g,
      br_cache_write_tokens = gn_cache_write_tokens g, br_cost_usd = gn_cost_usd g\<rparr>"

text \<open>Only the provider is inside the error net.\<close>

definition generate_biography ::
  "narrative_env \<Rightarrow> provider \<Rightarrow> (world \<Rightarrow> world) \<Rightarrow> bool \<Rightarrow> int \<Rightarrow> generation_outcome op" where
  "generate_biography ne provider meanwhile include_raw_record character_id =
     bind_op (read_inputs ne character_id) (\<lambda>found. case found of
       None \<Rightarrow> return_op \<lparr>go_biography_id = None, go_error = Some (''unknown character: '' @ show_int character_id),
                 go_events_through_event_id = None\<rparr>
     | Some inputs \<Rightarrow>
         (case build_briefing (ne_loads ne) (ne_str ne) inputs (ne_mode ne) include_raw_record of
            Inl e \<Rightarrow> raise_op (Py_Exn e)
          | Inr b \<Rightarrow>
              (let through = last_event_id inputs
               in bind_op (modify_op meanwhile) (\<lambda>_.
                  case provider b of
                    Inl message \<Rightarrow> return_op \<lparr>go_biography_id = None, go_error = Some message,
                      go_events_through_event_id = through\<rparr>
                  | Inr g \<Rightarrow>
                      bind_op (session_scope (db_op (insert_biography (biography_args ne character_id b through g))))
                        (\<lambda>row. return_op \<lparr>go_biography_id = Some (br_id row), go_error = None,
                          go_events_through_event_id = through\<rparr>)))))"

section \<open>The flag that pauses generation\<close>

text \<open>\<open>_is_llm_paused\<close>: the value in the settings, read at most once a second.\<close>

record paused_cache =
  pc_checked_at :: rat
  pc_value :: bool

definition is_llm_paused :: "rat \<Rightarrow> bool \<Rightarrow> paused_cache \<Rightarrow> bool \<times> paused_cache" where
  "is_llm_paused now setting cache =
     (if now - pc_checked_at cache < 1 then (pc_value cache, cache)
      else (setting, \<lparr>pc_checked_at = now, pc_value = setting\<rparr>))"

definition reset_llm_paused_cache :: "paused_cache \<Rightarrow> paused_cache" where
  "reset_llm_paused_cache cache = \<lparr>pc_checked_at = 0, pc_value = False\<rparr>"

section \<open>Catching up\<close>

text \<open>The tracked characters with a date of death, in the order of the table.\<close>

definition tracked_dead :: "int list \<Rightarrow> campaign_db \<Rightarrow> int list" where
  "tracked_dead tracked_ids db =
     map fst (filter (\<lambda>(cid, row). cid \<in> set tracked_ids \<and> column row ''death_date'' \<noteq> Null) (db_characters db))"

definition drain_one :: "int \<Rightarrow> unit op" where
  "drain_one cid =
     bind_op (db_op (\<lambda>db. Inr (get_latest_biography_for_character db cid, db)))
       (\<lambda>latest. when_op (latest = None) (schedule_op cid))"

text \<open>The report says how much longer the queue became: \<open>queue_size\<close> is the number of the queue's
  biographies when the given requests have been made.\<close>

definition drain_for_campaign :: "(int list \<Rightarrow> nat) \<Rightarrow> string \<Rightarrow> nat op" where
  "drain_for_campaign queue_size campaign_id faults w =
     bind_op (registry_op (\<lambda>rg. (map tk_character_id (list_tracked_characters campaign_id rg), rg))) (\<lambda>tracked_ids.
       if tracked_ids = [] then return_op 0
       else bind_op (session_scope
              (bind_op (db_op (\<lambda>db. Inr (tracked_dead tracked_ids db, db))) (for_each drain_one)))
         (\<lambda>_ faults w'. (Inr (queue_size (w_scheduled w') - queue_size (w_scheduled w)), w'))) faults w"

section \<open>Laws\<close>

lemma read_inputs_effect:
  "read_inputs ne character_id F w = (r, w') \<Longrightarrow>
     (\<exists>n. w' = w\<lparr>w_clock := n\<rparr>) \<and> (case r of Inr found \<Rightarrow> found = gather_inputs ne (w_db w) character_id | Inl e \<Rightarrow> True)"
  by (auto simp: read_inputs_def session_scope_def rollback_on_error_def bind_op_def db_op_def statement_def
      plain_statement_def gather_inputs_def Let_def split: if_splits option.splits)

lemma insert_scope:
  "session_scope (db_op (insert_biography args)) F w = (r, w') \<Longrightarrow>
     (case r of Inr row \<Rightarrow> insert_biography args (w_db w) = Inr (row, w_db w') | Inl e \<Rightarrow> w_db w' = w_db w)"
  by (auto simp: session_scope_def rollback_on_error_def bind_op_def db_op_def statement_def plain_statement_def Let_def
      split: if_splits sum.splits prod.splits)

lemma insert_biography_row:
  "insert_biography args db = Inr (row, db') \<Longrightarrow>
     row = args\<lparr>br_id := next_id (map br_id (db_biographies db)),
       br_version := next_biography_version db (br_character_id args)\<rparr>
     \<and> db' = db\<lparr>db_biographies := db_biographies db @ [row]\<rparr>"
  by (auto simp: insert_biography_def Let_def split: if_splits)

text \<open>What the catch-up asks the scheduler for.\<close>

definition unwritten :: "int list \<Rightarrow> campaign_db \<Rightarrow> int list" where
  "unwritten cids db = filter (\<lambda>cid. get_latest_biography_for_character db cid = None) cids"

lemma drain_each:
  "for_each drain_one cids F w = (r, w') \<Longrightarrow>
     w_db w' = w_db w \<and> w_registry w' = w_registry w \<and>
     (\<exists>later. unwritten cids (w_db w) = drop (length (w_scheduled w)) (w_scheduled w') @ later
        \<and> w_scheduled w' = w_scheduled w @ drop (length (w_scheduled w)) (w_scheduled w')
        \<and> (case r of Inr u \<Rightarrow> later = [] | Inl e \<Rightarrow> True))"
proof (induction cids arbitrary: w)
  case Nil
  then show ?case by (auto simp: unwritten_def)
next
  case (Cons c cs)
  from Cons.prems consider
    (stop) e where "drain_one c F w = (Inl e, w')" "r = Inl e"
  | (go) w1 where "drain_one c F w = (Inr (), w1)" "for_each drain_one cs F w1 = (r, w')"
    by (auto simp: bind_op_def split: prod.splits sum.splits)
  then show ?case
  proof cases
    case stop
    then show ?thesis
      by (auto simp: drain_one_def bind_op_def db_op_def statement_def when_op_def schedule_op_def Let_def split: if_splits)
  next
    case go
    have w1: "w_db w1 = w_db w" "w_registry w1 = w_registry w"
      "w_scheduled w1 = w_scheduled w @ unwritten [c] (w_db w)"
      using go(1) by (auto simp: drain_one_def bind_op_def db_op_def statement_def when_op_def schedule_op_def
          unwritten_def Let_def split: if_splits)
    from Cons.IH [OF go(2)] obtain later new where
      "unwritten cs (w_db w1) = new @ later" "w_scheduled w' = w_scheduled w1 @ new"
      "case r of Inr u \<Rightarrow> later = [] | Inl e \<Rightarrow> True" "w_db w' = w_db w1" "w_registry w' = w_registry w1"
      by blast
    then show ?thesis by (auto simp: w1 unwritten_def)
  qed
qed

end
