(* ===== verification/Narrative_Props.thy ===== *)
theory Narrative_Props
  imports Render_Facts Biography Demo_Parse Demo_Tick Diff_Laws
begin

text \<open>
  The properties of the narrative part: sentences for events, the glossary, relations, clusters of deaths,
  and the generation of a biography.
\<close>

section \<open>Sentences\<close>

lemma glossary_of_event: "set (payload_ids (Some (event_json ev))) = fset (extract_referenced_ids [Some (event_json ev)])"
  by (simp add: extract_referenced_ids_def fset_of_list.rep_eq)

lemma ids_of_event: "payload_ids (Some (event_json ev)) = payload_ids (Some (JObj [(''p'', JObj (payload_dump (ev_p ev)))]))"
  by (simp add: payload_ids_def event_json_def)

text \<open>C12: what a diff finds can be told. Every event of a diff has a renderer, the renderer does not raise on
  the JSON that is stored for the event, so the sentence is its own and not the name of the type; and it
  depends on no names but those that the glossary of the briefing collects for the event.\<close>

theorem diff_events_are_told:
  assumes "set_order id_order" and "wf_characters cur"
    and "diff_snapshots id_order key_order prev cur tf = Inr out" and "e \<in> set out"
    and "get (case event_json (de_event e) of JObj d \<Rightarrow> d) ''p'' = JObj payload"
  shows "(\<exists>r s. dict_get RENDERERS (de_t e) = Some r \<and> r sh payload names titles = Inr s
      \<and> render_event_body sh (de_t e) payload names titles = s)
    \<and> ((\<forall>i. i |\<in>| extract_referenced_ids [Some (event_json (de_event e))] \<longrightarrow> dict_get names i = dict_get names' i) \<longrightarrow>
        render_event_body sh (de_t e) payload names titles = render_event_body sh (de_t e) payload names' titles)"
proof -
  have p: "payload = payload_dump (ev_p (de_event e))" using assms(5) by (simp add: event_json_def)
  have ok: "de_t e \<in> set diff_types" "valid_event (de_event e)" using diff_snapshots_ok [OF assms(1-4)] by auto
  obtain r where r: "dict_get RENDERERS (de_t e) = Some r" using diff_types_rendered [OF ok(1)] by auto
  have "sentence_for r (ev_p (de_event e))" using valid_renders [OF ok(2)] r by simp
  then have s: "\<exists>s. r sh payload names titles = Inr s"
    and same: "glossary_agrees payload names names' \<Longrightarrow> r sh payload names titles = r sh payload names' titles"
    unfolding sentence_for_def p by blast+
  show ?thesis
  proof (intro conjI impI)
    show "\<exists>r s. dict_get RENDERERS (de_t e) = Some r \<and> r sh payload names titles = Inr s
        \<and> render_event_body sh (de_t e) payload names titles = s"
      using r s by (auto simp: render_event_body_def)
  next
    assume "\<forall>i. i |\<in>| extract_referenced_ids [Some (event_json (de_event e))] \<longrightarrow> dict_get names i = dict_get names' i"
    then have "glossary_agrees payload names names'"
      using glossary_of_event [of "de_event e"] ids_of_event [of "de_event e"] p by (simp add: glossary_agrees_def)
    from same [OF this] show "render_event_body sh (de_t e) payload names titles = render_event_body sh (de_t e) payload names' titles"
      using r by (simp add: render_event_body_def)
  qed
qed

lemma demo_marriage:
  "DiffEvent (MarriageEvent ''1066.6.1'' 1 \<lparr>mp_spouse_character_id = Some 4\<rparr>) [(''spouse'', 4)] \<in> set demo_diff"
  by (subst marriage_mem [OF demo_diffed(1)]) (simp add: demo_chars, simp add: demo_saves)

theorem diff_events_are_told_witness:
  "\<exists>r s. dict_get RENDERERS ''marriage'' = Some r
     \<and> r demo_repr [(''spouse_character_id'', JInt 4)] [(4, ''Edith'')] [] = Inr s
     \<and> render_event_body demo_repr ''marriage'' [(''spouse_character_id'', JInt 4)] [(4, ''Edith'')] [] = s"
  using diff_events_are_told [OF py_order wf_snapshotD(1) [OF demo_wf(2)] diffedD(5) [OF demo_diffed(1)] demo_marriage,
      of "[(''spouse_character_id'', JInt 4)]" demo_repr "[(4, ''Edith'')]" "[]" "[(4, ''Edith'')]"]
  by (simp add: event_json_def present_def dump_marriage_payload_def)

section \<open>Clusters\<close>

text \<open>C31: no cluster of deaths reaches a prompt. The detector looks for the type of the memory at the top of
  the stored JSON, where the event's envelope has only its five fields; so whatever events a character
  has in the database, and however many relatives died within a month, it finds nothing.\<close>

theorem stored_deaths_form_no_cluster:
  assumes "\<And>r. r \<in> set rows \<Longrightarrow> loads (dumps (event_json (er_payload r))) = Some (event_json (er_payload r))"
  shows "detect_death_clusters loads (map (event_of_row dumps) rows) = []"
proof -
  have none: "cluster_candidate_of loads (event_of_row dumps r) = None" if "r \<in> set rows" for r
    unfolding cluster_candidate_of_def event_of_row_def using assms [OF that]
    by (auto simp: event_json_def get_def split: option.split)
  have "List.map_filter (cluster_candidate_of loads) (map (event_of_row dumps) rows) = []"
    using none by (induction rows) (simp_all add: List.map_filter_simps)
  then show ?thesis by (simp add: detect_death_clusters_def DEATH_CLUSTER_MIN_COUNT_def)
qed

definition demo_loss :: "int \<Rightarrow> string \<Rightarrow> event_row" where
  "demo_loss i date =
     \<lparr>er_id = i, er_schema_version = 1, er_event_type = ''vanilla_memory'', er_event_date = date,
      er_event_date_iso = Some date, er_wall_clock_at = ''2026-01-01'', er_primary_character_id = 1,
      er_payload = VanillaMemoryEvent ''1348.5.1'' 1 \<lparr>vmp_memory_type = ''relative_died'', vmp_end_date = None,
        vmp_participants = [], vmp_deceased_cause = Some ''death_plague'', vmp_deceased_age = Some 7,
        vmp_deceased_first_name = Some ''Edith'', vmp_deceased_killer_id = None,
        vmp_deceased_killer_first_name = None\<rparr>,
      er_raw_line = []\<rparr>"

theorem stored_deaths_form_no_cluster_witness:
  "detect_death_clusters (\<lambda>_. Some (event_json (er_payload (demo_loss 1 ''1348-05-01''))))
     (map (event_of_row (\<lambda>_. ''{}'')) [demo_loss 1 ''1348-05-01'', demo_loss 2 ''1348-05-02'', demo_loss 3 ''1348-05-03'']) = []"
  by (rule stored_deaths_form_no_cluster) (auto simp: demo_loss_def)

section \<open>Relations\<close>

lemma get_set [simp]: "get (dict_set f k v) k' = (if k = k' then v else get f k')"
  by (simp add: get_def)

lemma dict_get_mapped: "dict_get (map (\<lambda>(k, v). (k, g k v)) d) k = map_option (g k) (dict_get d k)"
  by (induction d) auto

lemma get_resolved: "get (resolve_family_names f names) k =
    (if k \<notin> set FAMILY_CHAR_ID_KEYS then get f k
     else case get f k of JArr xs \<Rightarrow> JArr (map (named names) xs) | v \<Rightarrow> named names v)"
  unfolding resolve_family_names_def get_def dict_get_mapped
  by (cases "dict_get f k"; cases "the (dict_get f k)") (simp_all add: named_def)

lemma label_all_nothing:
  "label_all label (JObj [(''id'', v), (''name'', u)]) out = label_all label (JArr []) out"
  by (simp add: label_all_def entries_of_def or_else_def set_if_unset_def id_of_def dict_set_def)

lemma label_all_one: "label_all label (JArr [JObj [(''id'', JInt i), (''name'', u)]]) out =
    Inr (set_if_unset (Some i) (label (JObj [(''id'', JInt i), (''name'', u)])) out)"
  by (simp add: label_all_def entries_of_def or_else_def id_of_def get_def)

lemma label_all_skip [simp]: "label_all label JNull out = Inr out"
  by (simp add: label_all_def entries_of_def or_else_def)

lemma own_relations_lone:
  assumes "key \<in> {''spouse'', ''former_spouses'', ''concubine'', ''betrothed'', ''child''}"
  shows "own_relations genders (resolve_family_names (dict_set family key (JInt i)) names)
       = own_relations genders (resolve_family_names (dict_set family key (JArr [])) names)"
proof -
  have same: "label_all label (get (resolve_family_names (dict_set family key (JInt i)) names) k)
      = label_all label (get (resolve_family_names (dict_set family key (JArr [])) names) k)" for label k
    using assms by (auto simp: fun_eq_iff get_resolved FAMILY_CHAR_ID_KEYS_def named_def label_all_nothing)
  have rest: "get (resolve_family_names (dict_set family key (JInt i)) names) k
      = get (resolve_family_names (dict_set family key (JArr [])) names) k"
    if "k \<in> {''primary_spouse'', ''mother'', ''father'', ''concubinist''}" for k
    using assms that by (auto simp: get_resolved)
  show ?thesis by (simp add: own_relations_def same rest)
qed

lemma own_relations_listed:
  assumes "key \<in> {''spouse'', ''former_spouses'', ''concubine'', ''betrothed'', ''child''}"
  shows "\<exists>label. own_relations genders (resolve_family_names [(key, JArr [JInt i])] names) = Inr [(i, label)]"
proof -
  have "get (resolve_family_names [(key, JArr [JInt i])] names) k
      = (if k = key then JArr [named names (JInt i)] else JNull)" for k
    using assms by (auto simp: resolve_family_names_def get_def FAMILY_CHAR_ID_KEYS_def)
  then show ?thesis using assms
    by (elim insertE emptyE) (simp_all add: own_relations_def named_def label_all_one set_if_unset_def id_of_def dict_set_def)
qed

text \<open>A relative who is the only one of his kind is not labelled. A save writes a key that occurs once
  without a list, and the stored record makes of it an object with the id and the name, whose two keys the
  loop goes through; so for the five relations that are loops, one relative counts as none, while in a
  list of one he is labelled.\<close>

theorem lone_relative_is_unlabelled:
  assumes "key \<in> {''spouse'', ''former_spouses'', ''concubine'', ''betrothed'', ''child''}"
  shows "own_relations genders (resolve_family_names (dict_set family key (JInt i)) names)
       = own_relations genders (resolve_family_names (dict_set family key (JArr [])) names)
    \<and> (\<exists>label. own_relations genders (resolve_family_names [(key, JArr [JInt i])] names) = Inr [(i, label)])"
  using own_relations_lone [OF assms] own_relations_listed [OF assms] by blast

theorem lone_relative_is_unlabelled_witness:
  "own_relations [] (resolve_family_names (dict_set [(''father'', JInt 3)] ''child'' (JInt 2)) [])
     = own_relations [] (resolve_family_names (dict_set [(''father'', JInt 3)] ''child'' (JArr [])) [])"
  by (rule lone_relative_is_unlabelled [THEN conjunct1]) simp

section \<open>Biographies\<close>

lemma generation_cases:
  assumes "generate_biography ne provider meanwhile include_raw_record cid F w = (r, w')"
  obtains (early) n where "w' = w\<lparr>w_clock := n\<rparr>"
      "case r of Inl e \<Rightarrow> True | Inr oc \<Rightarrow> go_biography_id oc = None \<and> go_error oc \<noteq> None"
  | (told) n inputs b where "gather_inputs ne (w_db w) cid = Some inputs"
      "build_briefing (ne_loads ne) (ne_str ne) inputs (ne_mode ne) include_raw_record = Inr b"
      "case provider b of
         Inl message \<Rightarrow> r = Inr \<lparr>go_biography_id = None, go_error = Some message,
             go_events_through_event_id = last_event_id inputs\<rparr> \<and> w' = meanwhile (w\<lparr>w_clock := n\<rparr>)
       | Inr g \<Rightarrow> bind_op (session_scope (db_op (insert_biography (biography_args ne cid b (last_event_id inputs) g))))
           (\<lambda>row. return_op \<lparr>go_biography_id = Some (br_id row), go_error = None,
              go_events_through_event_id = last_event_id inputs\<rparr>) F (meanwhile (w\<lparr>w_clock := n\<rparr>)) = (r, w')"
proof -
  obtain found w1 where read: "read_inputs ne cid F w = (found, w1)" by fastforce
  from read_inputs_effect [OF this] obtain n where w1: "w1 = w\<lparr>w_clock := n\<rparr>"
    and found: "case found of Inr inputs \<Rightarrow> inputs = gather_inputs ne (w_db w) cid | Inl e \<Rightarrow> True" by blast
  show thesis
  proof (cases "\<exists>inputs b. found = Inr (Some inputs)
      \<and> build_briefing (ne_loads ne) (ne_str ne) inputs (ne_mode ne) include_raw_record = Inr b")
    case True
    then obtain inputs b where ok: "found = Inr (Some inputs)"
      "build_briefing (ne_loads ne) (ne_str ne) inputs (ne_mode ne) include_raw_record = Inr b" by blast
    show thesis
      by (rule told [of inputs b n])
        (use assms found ok read in \<open>auto simp: generate_biography_def bind_op_def modify_op_def Let_def w1 split: sum.splits\<close>)
  next
    case False
    show thesis
      by (rule early [of n])
        (use assms read False in \<open>auto simp: generate_biography_def bind_op_def raise_op_def Let_def w1
          split: sum.splits option.splits\<close>)
  qed
qed

text \<open>C8: generating a biography. Whatever the other tasks do while the model writes, whatever it answers and
  whichever statement fails: the database is as it was or as the other tasks left it, except when the
  outcome names a biography; then the model has answered the briefing built from the rows read at the
  start, and exactly one row is added to what the others left, with the model's text, the last event of
  the briefing and the next version that is free now.\<close>

theorem generation_stores_one_biography:
  assumes "generate_biography ne provider meanwhile include_raw_record cid F w = (r, w')"
  shows "\<exists>n. let db = w_db (meanwhile (w\<lparr>w_clock := n\<rparr>)) in
    (case r of
       Inl e \<Rightarrow> w_db w' \<in> {w_db w, db}
     | Inr oc \<Rightarrow>
         (case go_biography_id oc of
            None \<Rightarrow> w_db w' \<in> {w_db w, db} \<and> go_error oc \<noteq> None
          | Some i \<Rightarrow> go_error oc = None
              \<and> (\<exists>inputs b g row. gather_inputs ne (w_db w) cid = Some inputs
                \<and> build_briefing (ne_loads ne) (ne_str ne) inputs (ne_mode ne) include_raw_record = Inr b
                \<and> provider b = Inr g
                \<and> w_db w' = db\<lparr>db_biographies := db_biographies db @ [row]\<rparr>
                \<and> br_id row = i \<and> br_character_id row = cid \<and> br_body row = gn_text g
                \<and> br_version row = next_biography_version db cid
                \<and> br_events_through_event_id row = last_event_id inputs)))"
  using assms
proof (cases rule: generation_cases)
  case (early n)
  then show ?thesis by (intro exI [of _ n]) (auto simp: Let_def split: sum.splits option.splits)
next
  case (told n inputs b)
  show ?thesis
  proof (cases "provider b")
    case (Inl message)
    with told(3) show ?thesis by (intro exI [of _ n]) (simp add: Let_def)
  next
    case (Inr g)
    let ?w1 = "meanwhile (w\<lparr>w_clock := n\<rparr>)"
    let ?args = "biography_args ne cid b (last_event_id inputs) g"
    obtain s w2 where stored: "session_scope (db_op (insert_biography ?args)) F ?w1 = (s, w2)" by fastforce
    with told(3) Inr have r: "w' = w2" "r = (case s of Inl e \<Rightarrow> Inl e | Inr row \<Rightarrow>
        Inr \<lparr>go_biography_id = Some (br_id row), go_error = None, go_events_through_event_id = last_event_id inputs\<rparr>)"
      by (auto simp: bind_op_def split: sum.splits)
    show ?thesis
    proof (cases s)
      case (Inl e)
      with insert_scope [OF stored] r show ?thesis by (intro exI [of _ n]) (simp add: Let_def)
    next
      case (Inr row)
      from insert_scope [OF stored] Inr have "insert_biography ?args (w_db ?w1) = Inr (row, w_db w2)" by simp
      from insert_biography_row [OF this]
      have row: "br_character_id row = cid" "br_body row = gn_text g" "br_version row = next_biography_version (w_db ?w1) cid"
        "br_events_through_event_id row = last_event_id inputs"
        and db: "w_db w2 = (w_db ?w1)\<lparr>db_biographies := db_biographies (w_db ?w1) @ [row]\<rparr>"
        by (simp_all add: biography_args_def)
      show ?thesis using told(1,2) \<open>provider b = Inr g\<close> r Inr row db
        by (intro exI [of _ n]) (simp add: Let_def, blast)
    qed
  qed
qed

definition demo_dead :: campaign_db where
  "demo_dead = empty_db\<lparr>db_characters := [(2, [(''first_name'', Text ''Bob''), (''death_date'', Text ''1067.1.1'')])]\<rparr>"

definition demo_narrative :: narrative_env where
  "demo_narrative = \<lparr>ne_dumps = (\<lambda>_. ''{}''), ne_loads = (\<lambda>_. None), ne_str = (\<lambda>_. []),
     ne_mode = ''scene_setter'', ne_now = ''2026-01-01''\<rparr>"

definition demo_answer :: generated where
  "demo_answer = \<lparr>gn_text = ''Bob lived.'', gn_model = None, gn_provider = ''claude'', gn_input_tokens = None,
     gn_output_tokens = None, gn_cache_read_tokens = None, gn_cache_write_tokens = None, gn_cost_usd = None\<rparr>"

definition demo_told :: "generation_outcome outcome \<times> world" where
  "demo_told = generate_biography demo_narrative (\<lambda>_. Inr demo_answer) (\<lambda>w. w) False 2 no_faults
     (demo_world\<lparr>w_db := demo_dead\<rparr>)"

lemma demo_told_first: "\<exists>oc. fst demo_told = Inr oc \<and> go_biography_id oc = Some 1"
proof -
  have "map_sum (\<lambda>_. ()) go_biography_id (fst demo_told) = Inr (Some 1)" by code_simp
  then show ?thesis by (cases "fst demo_told") simp_all
qed

theorem generation_stores_one_biography_witness:
  "\<exists>row. db_biographies (w_db (snd demo_told)) = [row] \<and> br_body row = ''Bob lived.'' \<and> br_id row = 1
     \<and> br_version row = 1"
proof -
  obtain oc where oc: "fst demo_told = Inr oc" "go_biography_id oc = Some 1" using demo_told_first by blast
  have "generate_biography demo_narrative (\<lambda>_. Inr demo_answer) (\<lambda>w. w) False 2 no_faults
     (demo_world\<lparr>w_db := demo_dead\<rparr>) = (Inr oc, snd demo_told)"
    using oc(1) by (simp add: demo_told_def prod_eq_iff)
  from generation_stores_one_biography [OF this] oc(2) show ?thesis
    by (auto simp: Let_def demo_dead_def empty_db_def demo_answer_def next_biography_version_def next_id_def)
qed

lemma drain_scope:
  assumes "session_scope (bind_op (db_op (\<lambda>db. Inr (tracked_dead ids db, db))) (for_each drain_one)) F w = (r, w')"
  shows "w_db w' = w_db w \<and> w_registry w' = w_registry w \<and>
    (\<exists>asked later. w_scheduled w' = w_scheduled w @ asked
       \<and> unwritten (tracked_dead ids (w_db w)) (w_db w) = asked @ later
       \<and> (case r of Inl e \<Rightarrow> True | Inr u \<Rightarrow> later = []))"
proof (cases "F (w_clock w)")
  case True
  with assms show ?thesis
    by (auto simp: session_scope_def rollback_on_error_def bind_op_def db_op_def statement_def Let_def)
next
  case False
  let ?w1 = "w\<lparr>w_clock := Suc (w_clock w)\<rparr>"
  obtain t w1 where each: "for_each drain_one (tracked_dead ids (w_db w)) F ?w1 = (t, w1)" by fastforce
  from drain_each [OF each] obtain asked later where
    kept: "w_db w1 = w_db w" "w_registry w1 = w_registry w" "w_scheduled w1 = w_scheduled w @ asked"
    and asked: "unwritten (tracked_dead ids (w_db w)) (w_db w) = asked @ later"
    and all: "case t of Inr u \<Rightarrow> later = [] | Inl e \<Rightarrow> True"
    by auto
  from assms each False have "w_scheduled w' = w_scheduled w1 \<and> w_registry w' = w_registry w1
    \<and> w_db w' \<in> {w_db w, w_db w1} \<and> (case r of Inr u \<Rightarrow> (case t of Inr u \<Rightarrow> True | Inl e \<Rightarrow> False) | Inl e \<Rightarrow> True)"
    by (auto simp: session_scope_def rollback_on_error_def bind_op_def db_op_def plain_statement_def
        statement_def Let_def split: sum.splits if_splits)
  with kept asked all show ?thesis by (auto split: sum.splits)
qed

text \<open>C30: catching up. It asks the scheduler for exactly the tracked characters who have died and of whom no
  biography is stored, each in its turn, and changes nothing else; when a statement fails it has asked
  for the first of them.\<close>

theorem drain_asks_for_the_unwritten:
  assumes "drain_for_campaign queue_size campaign_id F w = (r, w')"
  shows "w_db w' = w_db w \<and> w_registry w' = w_registry w \<and>
    (\<exists>asked later. w_scheduled w' = w_scheduled w @ asked
       \<and> unwritten (tracked_dead (map tk_character_id (list_tracked_characters campaign_id (w_registry w))) (w_db w)) (w_db w)
         = asked @ later
       \<and> (case r of Inl e \<Rightarrow> True | Inr report \<Rightarrow> later = []
            \<and> report = queue_size (w_scheduled w @ asked) - queue_size (w_scheduled w)))"
proof (cases "F (w_clock w) \<or> list_tracked_characters campaign_id (w_registry w) = []")
  case True
  with assms show ?thesis
    by (auto simp: drain_for_campaign_def bind_op_def registry_op_def statement_def Let_def tracked_dead_def
        unwritten_def split: if_splits)
next
  case False
  let ?ids = "map tk_character_id (list_tracked_characters campaign_id (w_registry w))"
  obtain s w1 where scope: "session_scope (bind_op (db_op (\<lambda>db. Inr (tracked_dead ?ids db, db))) (for_each drain_one)) F
      (w\<lparr>w_clock := Suc (w_clock w)\<rparr>) = (s, w1)"
    by fastforce
  with False assms have "w' = w1 \<and> r = (case s of Inl e \<Rightarrow> Inl e
      | Inr u \<Rightarrow> Inr (queue_size (w_scheduled w1) - queue_size (w_scheduled w)))"
    by (auto simp: drain_for_campaign_def bind_op_def registry_op_def statement_def Let_def split: sum.splits)
  with drain_scope [OF scope] show ?thesis by (auto split: sum.splits)
qed

theorem drain_asks_for_the_unwritten_witness:
  "w_scheduled (snd (drain_for_campaign length ''c1'' no_faults (demo_world\<lparr>w_db := demo_dead\<rparr>))) = [2]"
proof -
  let ?w = "demo_world\<lparr>w_db := demo_dead\<rparr>"
  have run: "drain_for_campaign length ''c1'' no_faults ?w
      = (Inr 1, snd (drain_for_campaign length ''c1'' no_faults ?w))"
  proof -
    have "fst (drain_for_campaign length ''c1'' no_faults ?w) = Inr 1" by code_simp
    then show ?thesis by (simp add: prod_eq_iff)
  qed
  have dead: "unwritten (tracked_dead (map tk_character_id (list_tracked_characters ''c1'' (w_registry demo_world)))
      demo_dead) demo_dead = [2]" by code_simp
  have "w_scheduled demo_world = []" by (simp add: demo_world_def)
  with drain_asks_for_the_unwritten [OF run] show ?thesis by (auto simp: dead)
qed

end
