(* ===== verification/Spec2Isabelle.thy ===== *)
theory Spec2Isabelle
  imports Parse_Props Queue_Props World_Props Tick_Props Import_Props Ingest_Props Baseline Tail_Props
    Narrative_Props
begin

text \<open>
  The chronicler reads the saves of a strategy game while it is played, finds out what happened to
  the characters a player follows, stores the events, and has a language model write biographies.
  This library models the part of it that decides: how a save becomes a snapshot, how two
  snapshots become events, how the events reach the database, and how the biographies are queued
  and run. Source paths below are under \<open>src/src/chronicler\<close>.

  The program's parts and how they interact. A watcher notices a new save, \<open>rakaly\<close> turns it into
  JSON, \<open>parse_save\<close> (\<open>save/parse.py\<close>) turns the JSON into a \<open>SaveSnapshot\<close> (\<open>save/snapshot.py\<close>).
  The tick (\<open>save/tick.py\<close>) decides whether the save follows the last one, \<open>diff_snapshots\<close>
  (\<open>save/diff.py\<close>) compares the two and returns events (\<open>schema/events.py\<close>), which the tick writes to
  the database of the campaign (\<open>ingest_common.py\<close>, \<open>db/repository.py\<close>); then it updates the registry
  of campaigns (\<open>db/registry\<close>), publishes its frames, and a death makes it schedule a biography
  (\<open>narrative/scheduler.py\<close>), whose progress the queue state (\<open>narrative/queue_state.py\<close>) announces.

  Theories and the code they model.
  \<^item> \<open>Prelude\<close>: errors as values, dictionaries as association lists, sets with the order in which
    they are iterated as an argument, stable sorting. \<open>Py_Json\<close>: Python's behaviour on untyped JSON
    values and the readers of \<open>save/parse.py\<close>.
  \<^item> \<open>Dates\<close> (\<open>util/dates.py\<close>, the age at death), \<open>Localization\<close> and \<open>Name_Decode\<close>
    (\<open>save/localization.py\<close>, the resolvers of \<open>save/ck3_names.py\<close>), \<open>Progression\<close>
    (\<open>save/dynasty_splendor.py\<close>, \<open>save/lifestyle_perks.py\<close>), \<open>Titles\<close> (\<open>save/titles.py\<close>).
  \<^item> \<open>Snapshot\<close> (\<open>save/snapshot.py\<close>): a record per frozen dataclass with its fields and defaults.
    \<open>Events\<close> (\<open>schema/events.py\<close>): a record per payload model, a datatype for the discriminated
    union, and \<open>valid_event\<close> for what the models accept.
  \<^item> \<open>Parse_Titles\<close>, \<open>Parse_Tables\<close>, \<open>Parse\<close>: the functions of \<open>save/parse.py\<close>, one definition each,
    in the error monad of the prelude. \<open>Raw_Record\<close>: \<open>save/raw_record.py\<close>. \<open>Parse_Facts\<close>: when
    \<open>parse_save\<close> raises, and that what it returns is well formed, the contract the diff relies on.
    \<open>Parse_Props\<close>, with the saves of \<open>Demo_Parse\<close>: the properties of the parser.
  \<^item> \<open>Event_Streams\<close> (\<open>DiffEvent\<close> and the contract of a stream, a locale), \<open>Diff_Character\<close> (the beats of one
    character), \<open>Diff_Streams\<close> (the declarative registry and the streams of a snapshot),
    \<open>Diff_Titles\<close>, \<open>Diff\<close> (\<open>diff_snapshots\<close>): the functions of \<open>save/diff.py\<close>. \<open>Stream_Facts\<close>,
    \<open>Character_Facts\<close>, \<open>Diff_Facts\<close>, \<open>Diff_Runs\<close>, \<open>Diff_Order\<close> and \<open>Diff_Laws\<close> prove what they do;
    \<open>Demo\<close> holds the snapshots of the witnesses. The properties are in this theory.
  \<^item> \<open>Worldbuilding\<close> (\<open>save/worldbuilding.py\<close>: the region, the cross-currents, the great cause), with
    \<open>World_Facts\<close> and the properties in \<open>World_Props\<close>.
  \<^item> \<open>Campaign_Db\<close> (\<open>db/models.py\<close> and the operations of \<open>db/repository.py\<close> that ingestion uses) and
    \<open>Registry\<close> (\<open>db/registry/campaigns.py\<close>, \<open>tracked.py\<close>, \<open>suppression.py\<close>): tables as lists of rows,
    an operation as a function that returns the new tables or the error of the database.
    \<open>Session\<close> (\<open>db/engine.py\<close>): the world a tick works on (the committed tables, those of the open
    transaction, the registry, the frames sent, the biographies scheduled), operations on it, and the
    transaction, the savepoint and \<open>except\<close> as combinators. Every statement counts up a clock, and an
    argument says at which ticks of the clock the database fails, so the theorems hold for every
    pattern of failures. \<open>Ingest_Event\<close> (\<open>ingest_common.py\<close> and the ingestion of a batch in
    \<open>save/tick.py\<close>), \<open>Autotrack\<close> (\<open>save/autotrack.py\<close>), \<open>Tick\<close> (the rest of \<open>save/tick.py\<close>,
    \<open>save/overview.py\<close>, \<open>save/character_columns.py\<close>). \<open>Campaign_Db_Facts\<close>, \<open>Ingest_Runs\<close>, \<open>Tick_Facts\<close> and \<open>Tick_Runs\<close> prove what one operation does, with
    and without failures; \<open>Tick_Log\<close> follows a run of saves through the consumer of
    \<open>save/ingest.py\<close>, \<open>Tick_Feed\<close> compares the frames with the rows. The properties are in
    \<open>Tick_Props\<close>, with the world of \<open>Demo_Tick\<close>.
  \<^item> \<open>Queue_State\<close> and \<open>Queue_History\<close>: \<open>narrative/queue_state.py\<close>, a record per class and a
    function per method; the lock of the object makes each method one transition.
    \<open>Scheduler\<close>: \<open>narrative/scheduler.py\<close> and the reorder and cancel routes of
    \<open>api/routes/narrative_queue.py\<close>, on the semaphore and the locks of asyncio; the coroutine is cut
    at its suspension points into the phases of a task, and \<open>sched_step\<close> is the step relation.
    \<open>Scheduler_Facts\<close> (the invariant), \<open>Scheduler_Runs\<close> (progress and termination),
    \<open>Scheduler_Reorder\<close>, and the properties in \<open>Queue_Props\<close>.
  \<^item> \<open>Heraldry\<close> (\<open>heraldry/resolver.py\<close>), \<open>Import\<close> (\<open>save/importer.py\<close>: three transactions on the
    operations of \<open>Session\<close>, with their progress frames), \<open>Adoption\<close> (\<open>save/adoption.py\<close>), with the
    properties in \<open>Import_Props\<close>.
  \<^item> \<open>Save_Cache\<close> (\<open>save/cache.py\<close>): a directory as a list of named files whose operating system may
    refuse, the sequence numbers, the sidecars, the garbage collection. \<open>Consumer\<close> and \<open>Pipeline\<close>
    (\<open>save/ingest.py\<close>, \<open>save/parse_worker.py\<close>, \<open>util/async_pipeline.py\<close>): what the tail does with one
    parsed save, and the producer, the window of parses and the consumer as the step relation
    \<open>inner_step\<close> over the record \<open>pipeline\<close>, \<open>outer_step\<close> adding the arrivals. \<open>Pipeline_Facts\<close>,
    \<open>Pipeline_Cache\<close> and \<open>Pipeline_Banner\<close> hold its invariants, the properties are in \<open>Ingest_Props\<close>.
  \<^item> \<open>Py_Text\<close> (split, join and Python's regular expressions by backtracking), \<open>Codec\<close>
    (\<open>save/dataclass_codec.py\<close> over a table of classes), \<open>Snapshot_Values\<close> (that table for
    \<open>save/snapshot.py\<close>, and a snapshot as a value of it), \<open>Baseline\<close> (\<open>save/baseline.py\<close>, its file and the
    temporary one, with its properties).
  \<^item> \<open>Tail_Parser\<close> (\<open>tailer/parser.py\<close>: \<open>feed\<close> maps a line and the pending event to results and the next
    pending event), \<open>Tail_Ingest\<close> (\<open>tailer/watcher.py\<close>, \<open>tailer/ingest.py\<close>), and \<open>Tail_Props\<close>.
  \<^item> \<open>Event_Json\<close> (the JSON of an event, \<open>payload_canonical_json\<close>), \<open>Event_Rendering\<close>
    (\<open>narrative/event_rendering.py\<close>, a function per renderer and their table, and \<open>narrative/names.py\<close>),
    \<open>Prompt_Builder\<close> (\<open>narrative/clusters.py\<close> and \<open>narrative/prompt_builder.py\<close>), \<open>Biography\<close>
    (\<open>narrative/pipeline.py\<close> and \<open>narrative/pause.py\<close>), with \<open>Render_Facts\<close> and the properties in
    \<open>Narrative_Props\<close>. The model, \<open>json.loads\<close> and \<open>json.dumps\<close> are arguments.

  What the groups of lemmas show.
  \<^item> The diff: it returns the same events whatever order the interpreter iterates its sets in;
    every event is accepted by the schema and belongs to a character that was asked for; it raises
    only as documented; a tracked filter selects from the unfiltered result; over a run of saves
    the log rebuilds alliances, wars, artifacts, titles and traits, and tells a death once; and
    each stream emits its events exactly when the snapshots say so.
  \<^item> The parser: when it raises; that the snapshots it returns satisfy what the diff needs, so that
    parsing a run of saves and diffing it composes; the tiers of titles; the kingdom index.
  \<^item> The tick: without failures it refines a three-line specification (guard, diff, union); whatever
    fails, the tables keep their keys and their foreign keys, a batch stores what its good events ask
    for and nothing of the others, no frame announces an event that is not stored, and the baseline
    moves only forward; a batch ingested again changes nothing; a death on the way is stored as
    exactly one row; and what happens when the registry or the commit fails.
  \<^item> The queue and the scheduler: the queue's views are functions of what it announced and lose no
    item; at most \<open>width\<close> generations run and one per character; every task ends, whatever the
    order of steps; which tasks a drain leaves behind; what a reorder does, and that with two campaigns it takes the items of the
    other one.
  \<^item> The import and the cache: an import repeated changes nothing; the arms of a character are in
    normal form; a cached save is the last of the list; the garbage collection takes no more than
    it must.
  \<^item> The save tail: whatever the order in which parses end, it does what the sequential program
    does; every save is consumed; the window and the queue stay bounded; the banner of a recovery
    is closed; when a baseline is adopted, and that the cap of the cache is never enforced.
  \<^item> The baseline: what was saved is loaded again, for every snapshot; an interrupted write leaves the
    old file; a file of an older build is discarded.
  \<^item> The log tail: a tagged line, behind the prefix of the engine, gives the envelope it was printed
    from; every tag ends in one result, of its own lines alone; the pending event is bounded; reading a growing file in pieces gives its lines; and that
    a crash loses the event that is open.
  \<^item> The narrative: every event a diff returns has a sentence of its own that needs only the names of
    the glossary; a generation stores at most one biography, built from what was read at its start,
    whatever happens meanwhile; the catch-up asks for exactly the dead without a biography; that the
    clusters of deaths are never found and that a single relative is not labelled.

  Bounds and choices. Python's integers are \<open>int\<close>; a text of more than 4300 digits makes the
  conversion raise, as in Python, also in the parser of the log, where \<open>feed\<close> then raises. Floating-point
  values of a save are rationals: infinities, NaN and rounding are left out; an integer too large for
  a double makes \<open>float\<close> raise, as in Python, and \<open>parse_save\<close> with it. Strings are strings of bytes: the order of UTF-8 bytes is that of code
  points. Every loop of the code is a structural recursion or has a measure; no definition needs
  fuel but \<open>run_tasks\<close>, the loop of the scheduler, which is bounded by seven steps per task, the
  number of phases a task can go through, \<open>run_until\<close> and \<open>drain_rounds\<close>, the awaits of a drain and its
  loop, and the walk to a character's county liege, whose depth
  the code itself bounds by five. The queue of the save tail holds 50 items (\<open>QUEUE_MAXSIZE\<close>) and its
  window is as wide as the pool of workers, as in the code; that it comes to rest is shown by a
  measure that counts the steps left. In a drain a turn of the loop is a step of a task or a call that
  another thread had posted before the drain began; its rounds are one more than these calls, and the
  turns after the cancellation are \<open>turns_left\<close>, which every turn lowers. Calls that are posted while it
  runs are not modelled. A pending event of the log is given up after 80 lines. A
  repetition of a regular expression goes on only while the rest of the text gets shorter. A set whose iteration order the language leaves open is
  iterated by an argument of the definition, constrained by the locale \<open>set_order\<close>.

  Not modelled: the read queries of the interface, the search and the schema migrations; the HTTP
  interface but for the two routes above; the closing chronicle of a campaign, the files of
  instructions for the model and the calls of language models (a generation of the scheduler is an
  arbitrary outcome, the answer in \<open>Biography\<close> an argument); in the save tail the scan for saves that
  were written while it was off and the cancellation at its end; the watchers, subprocesses and
  melting; costs and settings; the command line, the exports, the rendering of coats of arms and the
  frontend. Those parts are input and output around the core, or libraries. Logging is left out
  throughout.
\<close>

section \<open>The diff as a whole\<close>

text \<open>C1: the result of \<open>diff_snapshots\<close> does not depend on the order in which the interpreter
  iterates its sets, neither the set of character identifiers nor the hash-ordered set of perk
  keys: for well-formed snapshots any two iteration orders give the same list of events.\<close>

theorem diff_deterministic:
  assumes "set_order i1" and "set_order i2" and "set_order k1" and "set_order k2"
    and "wf_snapshot prev" and "wf_snapshot cur"
  shows "diff_snapshots i1 k1 prev cur tf = diff_snapshots i2 k2 prev cur tf"
  using assms by (rule diff_snapshots_order)

theorem diff_deterministic_witness:
  "diff_snapshots py_sorted py_sorted demo1 demo2 None =
   diff_snapshots (\<lambda>S. rev (py_sorted S)) (\<lambda>S. rev (py_sorted S)) demo1 demo2 None"
  by (rule diff_deterministic [OF py_order rev_order py_order rev_order demo_wf(1,2)])

text \<open>C2: whatever \<open>diff_snapshots\<close> returns is sorted by character and event type, belongs only to
  characters it was asked about, and every event in it is a member of the schema's union.\<close>

theorem diff_result_ok:
  assumes "set_order id_order" and "wf_characters cur"
    and "diff_snapshots id_order key_order prev cur tf = Inr out"
  shows "sorted (map event_key out)
    \<and> (\<forall>e\<in>set out. de_c e |\<in>| diff_ids prev cur tf \<and> de_t e \<in> set diff_types
         \<and> valid_event (de_event e))"
  using diff_snapshots_ok [OF assms] diff_snapshots_elem [OF assms(3)] by (metis sorted_sort_key)

theorem diff_result_ok_witness:
  "sorted (map event_key demo_diff) \<and>
   list_all (\<lambda>e. de_t e \<in> set diff_types \<and> valid_event (de_event e)) demo_diff"
  using diff_result_ok [OF py_order wf_snapshotD(1) [OF demo_wf(2)] diffedD(5) [OF demo_diffed(1)]]
  by (simp add: list_all_iff)

text \<open>C24: for well-formed snapshots of one playthrough \<open>diff_snapshots\<close> never raises; in
  particular no title subscript raises \<open>KeyError\<close>.\<close>

theorem diff_never_raises:
  assumes "wf_snapshot prev" and "wf_snapshot cur" and "sn_playthrough_id prev = sn_playthrough_id cur"
  shows "\<exists>out. diff_snapshots id_order key_order prev cur tf = Inr out"
  using diff_snapshots_total [OF assms(1,2)] assms(3) by (simp add: same_playthrough_def)

theorem diff_never_raises_witness:
  "\<exists>out. diff_snapshots py_sorted py_sorted demo1 demo2 (Some {|1, 7|}) = Inr out"
  by (rule diff_never_raises [OF demo_wf(1,2)]) (simp add: demo_saves)

text \<open>\<open>diff_snapshots\<close> raises \<open>ValueError\<close> exactly when both snapshots name a playthrough and
  the two differ.\<close>

theorem diff_playthrough_mismatch:
  "diff_snapshots id_order key_order prev cur tf = Inl ValueError \<longleftrightarrow>
     sn_playthrough_id prev \<noteq> [] \<and> sn_playthrough_id cur \<noteq> []
     \<and> sn_playthrough_id prev \<noteq> sn_playthrough_id cur"
  unfolding diff_snapshots_ValueError same_playthrough_def by blast

text \<open>Diffing a snapshot with itself yields no event, tracked filter or not.\<close>

theorem diff_same_silent: "diff_snapshots id_order key_order s s tf = Inr []"
  by (rule diff_snapshots_same)

text \<open>C10: passing a tracked filter is the same as filtering the full result by the primary
  character, as long as every tracked character that is in the current save was in the previous
  one: the restriction of the loop loses and adds nothing.\<close>

theorem diff_tracked_filter:
  assumes "set_order id_order" and "wf_snapshot prev" and "wf_snapshot cur"
    and "same_playthrough prev cur"
    and "\<And>cid. cid |\<in>| T \<Longrightarrow> dict_get (sn_characters cur) cid \<noteq> None \<Longrightarrow>
      dict_get (sn_characters prev) cid \<noteq> None"
    and "diff_snapshots id_order key_order prev cur None = Inr out"
  shows "diff_snapshots id_order key_order prev cur (Some T) =
    Inr (filter (\<lambda>e. de_c e |\<in>| T) out)"
  using assms by (rule diff_snapshots_tracked)

theorem diff_tracked_filter_witness:
  "diff_snapshots py_sorted py_sorted demo1 demo2 (Some {|2, 77|}) =
    Inr (filter (\<lambda>e. de_c e |\<in>| {|2, 77|}) demo_diff)"
  by (rule diff_tracked_filter [OF py_order demo_wf(1,2) demo_same(1) _ diffedD(5) [OF demo_diffed(1)]])
    (auto simp: demo_saves split: if_splits)

text \<open>A tracked character first observed already dead yields exactly the missed death, and
  without a filter a character missing from the previous save yields nothing.\<close>

theorem missed_death_recovered:
  assumes "set_order id_order" and "wf_snapshot prev" and "wf_snapshot cur"
    and "diff_snapshots id_order key_order prev cur tf = Inr out"
    and "dict_get (sn_characters prev) cid = None" and "dict_get (sn_characters cur) cid = Some c"
    and "cs_is_dead c"
  shows "filter (\<lambda>e. de_c e = cid) out =
    (if \<exists>T. tf = Some T \<and> cid |\<in>| T then [make_death c (sn_current_date cur)] else [])"
  using assms by (rule first_observed_dead)

theorem missed_death_recovered_witness:
  "filter (\<lambda>e. de_c e = 1) (projr (diff_snapshots py_sorted py_sorted
      (demo1\<lparr>sn_characters := [(2, demo_bob)]\<rparr>) demo3 (Some {|1|}))) =
    [make_death demo_alice3 ''1067.2.1'']"
proof -
  let ?prev = "demo1\<lparr>sn_characters := [(2, demo_bob)]\<rparr>"
  have wf: "wf_snapshot ?prev"
    using demo_wf(1) by (simp add: wf_snapshot_def wf_characters_def wf_titles_def holders_agree_def
        demo_saves)
  have "same_playthrough ?prev demo3" by (simp add: same_playthrough_def demo_saves)
  then have "diff_snapshots py_sorted py_sorted ?prev demo3 (Some {|1|}) =
      Inr (projr (diff_snapshots py_sorted py_sorted ?prev demo3 (Some {|1|})))"
    by (simp add: diff_snapshots_total [OF wf demo_wf(3)])
  from missed_death_recovered [OF py_order wf demo_wf(3) this _ demo_get(3)]
  show ?thesis by (simp add: demo_chars, simp add: demo_saves)
qed

text \<open>For a character who is dead in the current save only the death, the family and decision
  records, the memories and the titles are still reported.\<close>

theorem dead_are_silent:
  assumes "set_order id_order" and "wf_snapshot prev" and "wf_snapshot cur"
    and "diff_snapshots id_order key_order prev cur tf = Inr out"
    and "dict_get (sn_characters cur) cid = Some c" and "cs_is_dead c"
    and "e \<in> set out" and "de_c e = cid"
  shows "de_t e \<in> {''death'', ''marriage'', ''divorce'', ''vanilla_memory'', ''decision_taken'',
    ''title_acquired'', ''title_created'', ''title_relinquished''}"
  using dead_event_types [OF assms] by (auto simp: dead_types_def title_types_def)

theorem dead_are_silent_witness:
  "de_t (make_death demo_alice3 ''1067.2.1'') \<in> {''death'', ''marriage'', ''divorce'',
    ''vanilla_memory'', ''decision_taken'', ''title_acquired'', ''title_created'',
    ''title_relinquished''}"
proof -
  have d: "diffed py_sorted py_sorted None 1 demo2 demo_alice2 demo3 demo_alice3
      (projr (diff_snapshots py_sorted py_sorted demo2 demo3 None))"
    using followed_diffed [OF py_order py_order demo_followed(2,3)] by (simp add: demo_char_at)
  have "events_of (projr (diff_snapshots py_sorted py_sorted demo2 demo3 None)) 1 ''death'' =
      [make_death demo_alice3 ''1067.2.1'']"
    using diffed_death [OF d] by (simp add: death_beat_def demo_chars) (simp add: demo_saves)
  then have e: "make_death demo_alice3 ''1067.2.1''
      \<in> set (projr (diff_snapshots py_sorted py_sorted demo2 demo3 None))"
    and c: "de_c (make_death demo_alice3 ''1067.2.1'') = 1"
    by (auto simp: events_of_def event_key_def filter_eq_Cons_iff)
  show ?thesis
    by (rule dead_are_silent [OF py_order demo_wf(2,3) diffedD(5) [OF d] demo_get(3) _ e c])
      (simp add: demo_chars)
qed

section \<open>Over a run of the game\<close>

text \<open>C11: over a run in which every dead record carries its date and dates do not vanish, the log
  tells the death of a followed character exactly once, or not at all if nothing changed.\<close>

theorem death_told_once:
  assumes "set_order id_order" and "set_order key_order"
    and "\<forall>u\<in>set (s # ss). followed pt tf cid u"
    and "\<forall>u\<in>set (s # ss). dated (char_at u cid)" and "adjacent_all (death_keeps cid) (s # ss)"
  shows "length (events_of (run_log id_order key_order tf (s # ss)) cid ''death'') =
    (if cs_death_date (char_at s cid) = None
        \<and> cs_death_date (char_at (last (s # ss)) cid) \<noteq> None then 1 else 0)"
proof -
  have "events_of (run_log id_order key_order tf (s # ss)) cid ''death'' =
      adjacent (\<lambda>prev cur. death_beat (char_at prev cid) (char_at cur cid) (sn_current_date cur)) (s # ss)"
    using assms(3) followed_diffed [OF assms(1,2)]
    by (intro events_of_run [where P = "followed pt tf cid"] diffed_death) auto
  then show ?thesis by (simp only: deaths_of_run [OF assms(5,4)])
qed

theorem death_told_once_witness:
  "length (events_of (run_log py_sorted py_sorted None [demo1, demo2, demo3]) 1 ''death'') = 1"
  by (subst death_told_once [OF py_order py_order, where pt = "''run''"])
    (simp_all add: demo_followed demo_char_at, simp_all add: dated_def death_keeps_def demo_char_at demo_chars)

text \<open>Without the dates the death is told twice: a character who is first flagged dead and
  gets a date of death only in a later save has two death events in the log.\<close>

theorem undated_death_told_twice:
  assumes "set_order id_order" and "set_order key_order"
    and "\<forall>u\<in>{s0, s1, s2}. followed pt tf cid u"
    and "\<not> cs_is_dead (char_at s0 cid)" and "cs_death_date (char_at s0 cid) = None"
    and "cs_is_dead (char_at s1 cid)" and "cs_death_date (char_at s1 cid) = None"
    and "cs_death_date (char_at s2 cid) \<noteq> None"
  shows "length (events_of (run_log id_order key_order tf [s0, s1, s2]) cid ''death'') = 2"
proof -
  have "events_of (run_log id_order key_order tf [s0, s1, s2]) cid ''death'' =
      adjacent (\<lambda>prev cur. death_beat (char_at prev cid) (char_at cur cid) (sn_current_date cur))
        [s0, s1, s2]"
    using assms(3) followed_diffed [OF assms(1,2)]
    by (intro events_of_run [where P = "followed pt tf cid"] diffed_death) auto
  then show ?thesis using assms(4-8) by (simp add: death_beat_def Let_def)
qed

theorem undated_death_told_twice_witness:
  "length (events_of (run_log py_sorted py_sorted None [demo1, demo_undated, demo3]) 1 ''death'') = 2"
  by (rule undated_death_told_twice [OF py_order py_order, where pt = "''run''"])
    (simp_all add: demo_followed demo_undated_facts demo_char_at, simp_all add: demo_chars)

text \<open>Replaying the alliance events of the log over the first save's allies gives the last
  save's allies, for a living followed character.\<close>

theorem alliances_replay:
  assumes "set_order id_order" and "set_order key_order"
    and "\<forall>u\<in>set (s # ss). followed pt tf cid u \<and> \<not> cs_is_dead (char_at u cid)"
  shows "replay (dict_get_default (sn_alliances s) cid {||})
      (changes_of ally_change cid (run_log id_order key_order tf (s # ss))) =
    dict_get_default (sn_alliances (last (s # ss))) cid {||}"
proof -
  have "replay (watched sn_alliances cid s)
      (changes_of ally_change cid (run_log id_order key_order tf (s # ss))) =
    watched sn_alliances cid (last (s # ss))"
    by (rule run_replay [OF assms(3)])
      (simp add: diffed_changes(1) [OF followed_diffed [OF assms(1,2), of pt]]
        alliance_log.log.emit_changes [unfolded spec_index] no_record_needed_def)
  then show ?thesis by (simp only: watched_def)
qed

theorem alliances_replay_witness:
  "replay {|2|} (changes_of ally_change 1 (run_log py_sorted py_sorted None [demo1, demo2])) = {|3|}"
proof -
  have "replay (dict_get_default (sn_alliances demo1) 1 {||})
      (changes_of ally_change 1 (run_log py_sorted py_sorted None [demo1, demo2])) =
    dict_get_default (sn_alliances (last [demo1, demo2])) 1 {||}"
    by (rule alliances_replay [OF py_order py_order, where pt = "''run''"])
      (simp add: demo_followed demo_char_at, simp add: demo_chars)
  then show ?thesis by (simp add: demo_saves)
qed

text \<open>The war events of the log likewise rebuild the set of wars of a living character,
  whatever side or principal changed in between.\<close>

theorem wars_replay:
  assumes "set_order id_order" and "set_order key_order"
    and "\<forall>u\<in>set (s # ss). followed pt tf cid u \<and> \<not> cs_is_dead (char_at u cid) \<and> wars_known cid u"
  shows "replay (watched sn_character_to_wars cid s)
      (changes_of war_change cid (run_log id_order key_order tf (s # ss))) =
    watched sn_character_to_wars cid (last (s # ss))"
  by (rule run_replay [OF assms(3)])
    (simp add: diffed_changes(2) [OF followed_diffed [OF assms(1,2), of pt]] war_log.emit_changes)

theorem wars_replay_witness:
  "replay (watched sn_character_to_wars 1 demo1)
      (changes_of war_change 1 (run_log py_sorted py_sorted None [demo1, demo2])) =
    watched sn_character_to_wars 1 (last [demo1, demo2])"
  by (rule wars_replay [OF py_order py_order, where pt = "''run''"])
    (simp add: demo_followed demo_char_at demo_known, simp add: demo_chars)

text \<open>The artifact events of the log rebuild the artifacts a living character owns.\<close>

theorem artifacts_replay:
  assumes "set_order id_order" and "set_order key_order"
    and "\<forall>u\<in>set (s # ss). followed pt tf cid u \<and> \<not> cs_is_dead (char_at u cid)
      \<and> artifacts_known cid u"
  shows "replay (watched sn_character_to_artifacts cid s)
      (changes_of artifact_change cid (run_log id_order key_order tf (s # ss))) =
    watched sn_character_to_artifacts cid (last (s # ss))"
  by (rule run_replay [OF assms(3)])
    (simp add: diffed_changes(3) [OF followed_diffed [OF assms(1,2), of pt]]
      artifact_log.log.emit_changes [unfolded spec_index])

theorem artifacts_replay_witness:
  "replay (watched sn_character_to_artifacts 1 demo1)
      (changes_of artifact_change 1 (run_log py_sorted py_sorted None [demo1, demo2])) =
    watched sn_character_to_artifacts 1 (last [demo1, demo2])"
  by (rule artifacts_replay [OF py_order py_order, where pt = "''run''"])
    (simp add: demo_followed demo_char_at demo_known, simp add: demo_chars)

text \<open>C19: the title events of the log rebuild the holdings of a followed character, living or
  dead, as long as every save but the last has a title table.\<close>

theorem titles_replay:
  assumes "set_order id_order" and "set_order key_order"
    and "\<forall>u\<in>set (s # ss). followed pt tf cid u" and "\<forall>u\<in>set (butlast (s # ss)). sn_titles u \<noteq> []"
  shows "replay (held_of s cid)
      (changes_of title_log_change cid (run_log id_order key_order tf (s # ss))) =
    held_of (last (s # ss)) cid"
  by (rule run_replay_guarded [OF assms(3,4), where view = "\<lambda>u. held_of u cid"])
    (simp add: diffed_title_changes [OF followed_diffed [OF assms(1,2), of pt]]
      holdings.emit_changes followed_def)

theorem titles_replay_witness:
  "replay (held_of demo1 1)
      (changes_of title_log_change 1 (run_log py_sorted py_sorted None [demo1, demo2, demo3])) =
    held_of (last [demo1, demo2, demo3]) 1"
  by (rule titles_replay [OF py_order py_order, where pt = "''run''"])
    (simp add: demo_followed, simp add: demo_saves)

text \<open>The trait events of the log rebuild the trait set of a living character.\<close>

theorem traits_replay:
  assumes "set_order id_order" and "set_order key_order"
    and "\<forall>u\<in>set (s # ss). followed pt tf cid u \<and> \<not> cs_is_dead (char_at u cid)"
  shows "replay (fset_of_list (cs_traits (char_at s cid)))
      (changes_of trait_log_change cid (run_log id_order key_order tf (s # ss))) =
    fset_of_list (cs_traits (char_at (last (s # ss)) cid))"
proof -
  have "replay (trait_set (char_at s cid))
      (changes_of trait_log_change cid (run_log id_order key_order tf (s # ss))) =
    trait_set (char_at (last (s # ss)) cid)"
    by (rule run_replay [OF assms(3), where view = "\<lambda>u. trait_set (char_at u cid)"])
      (simp add: diffed_trait_changes [OF followed_diffed [OF assms(1,2), of pt]]
        trait_log.emit_changes)
  then show ?thesis by (simp only: trait_set_def)
qed

theorem traits_replay_witness:
  "replay {|5|} (changes_of trait_log_change 1 (run_log py_sorted py_sorted None [demo1, demo2])) =
    {|5, 6|}"
proof -
  have "replay (fset_of_list (cs_traits (char_at demo1 1)))
      (changes_of trait_log_change 1 (run_log py_sorted py_sorted None [demo1, demo2])) =
    fset_of_list (cs_traits (char_at (last [demo1, demo2]) 1))"
    by (rule traits_replay [OF py_order py_order, where pt = "''run''"])
      (simp add: demo_followed demo_char_at, simp add: demo_chars)
  then show ?thesis by (simp add: demo_char_at, simp add: demo_chars finsert_commute)
qed

section \<open>Titles\<close>

text \<open>A title that changes hands between two compared characters gives the new holder an
  acquisition naming the old holder and the old holder a relinquishment naming the new one.\<close>

theorem title_transfer_told_twice:
  assumes "diffed io ko tf a prev p cur c out" and "diffed io ko tf b prev q cur d out"
    and "dict_get (sn_titles prev) tid = Some u" and "tit_holder_id u = Some a"
    and "dict_get (sn_titles cur) tid = Some t" and "tit_holder_id t = Some b" and "a \<noteq> b"
  shows "DiffEvent (TitleAcquiredEvent (sn_current_date cur) b
      \<lparr>tap_title_id = tid, tap_title_key = tit_key t, tap_title_name = tit_name t,
       tap_tier = Some (tit_tier t), tap_from_holder_id = Some a\<rparr>) [(''former_holder'', a)] \<in> set out
    \<and> DiffEvent (TitleRelinquishedEvent (sn_current_date cur) a
      \<lparr>trelp_title_id = tid, trelp_title_key = tit_key u, trelp_title_name = tit_name u,
       trelp_tier = Some (tit_tier u), trelp_to_holder_id = Some b\<rparr>) [(''new_holder'', b)] \<in> set out"
  using title_transfer [OF assms] by (rule conjI)

theorem title_transfer_told_twice_witness:
  "DiffEvent (TitleAcquiredEvent ''1066.6.1'' 2
      \<lparr>tap_title_id = 100, tap_title_key = ''k_england'', tap_title_name = Some ''England'',
       tap_tier = Some ''kingdom'', tap_from_holder_id = Some 1\<rparr>) [(''former_holder'', 1)] \<in> set demo_diff
    \<and> DiffEvent (TitleRelinquishedEvent ''1066.6.1'' 1
      \<lparr>trelp_title_id = 100, trelp_title_key = ''k_england'', trelp_title_name = Some ''England'',
       trelp_tier = Some ''kingdom'', trelp_to_holder_id = Some 2\<rparr>) [(''new_holder'', 2)] \<in> set demo_diff"
proof -
  have prev: "dict_get (sn_titles demo1) 100 = Some (demo_england 1)"
    and cur: "dict_get (sn_titles demo2) 100 = Some (demo_england 2)"
    and date: "sn_current_date demo2 = ''1066.6.1''"
    by (simp_all add: demo_saves)
  show ?thesis
    using title_transfer_told_twice [OF demo_diffed(1,2) prev _ cur]
    by (simp add: date) (simp add: demo_england_def)
qed

text \<open>A \<open>title_created\<close> event with given payload is in the result exactly when the title is
  absent from the previous table and held by the character in the current one, and the payload
  is its record.\<close>

theorem title_created_iff:
  assumes "diffed io ko tf cid prev p cur c out" and "sn_titles prev \<noteq> []"
  shows "DiffEvent (TitleCreatedEvent date cid pl) ps \<in> set out \<longleftrightarrow>
    date = sn_current_date cur \<and> ps = [] \<and> dict_get (sn_titles prev) (tcp_title_id pl) = None
    \<and> (\<exists>t. dict_get (sn_titles cur) (tcp_title_id pl) = Some t \<and> tit_holder_id t = Some cid
         \<and> pl = \<lparr>tcp_title_id = tcp_title_id pl, tcp_title_key = tit_key t,
              tcp_title_name = tit_name t, tcp_tier = Some (tit_tier t)\<rparr>)"
  using assms by (rule title_created_mem)

theorem title_created_iff_witness:
  "DiffEvent (TitleCreatedEvent ''1066.6.1'' 1 \<lparr>tcp_title_id = 101, tcp_title_key = ''c_kent'',
     tcp_title_name = None, tcp_tier = Some ''county''\<rparr>) [] \<in> set demo_diff"
  by (subst title_created_iff [OF demo_diffed(1)])
    (simp_all add: demo_saves, simp_all add: demo_kent_def)

text \<open>A previous snapshot without a title table (a stale or crashed baseline) never makes the
  diff report titles, so no storm of phantom creations follows.\<close>

theorem no_title_storm:
  assumes "set_order io" and "set_order ko" and "wf_snapshot prev" and "wf_snapshot cur"
    and "diff_snapshots io ko prev cur tf = Inr out" and "sn_titles prev = []"
    and "e \<in> set out"
  shows "de_t e \<notin> {''title_acquired'', ''title_created'', ''title_relinquished''}"
  using no_title_storm_aux [OF assms] by (simp add: title_types_def)

theorem no_title_storm_witness:
  "\<exists>e out. diff_snapshots py_sorted py_sorted demo_bare demo2 None = Inr out \<and> e \<in> set out
    \<and> de_t e \<notin> {''title_acquired'', ''title_created'', ''title_relinquished''}"
proof -
  have wf: "wf_snapshot demo_bare"
    using demo_wf(1) by (simp add: demo_bare_def wf_snapshot_def wf_characters_def wf_titles_def
        holders_agree_def demo_saves)
  have chars: "dict_get (sn_characters demo_bare) 1 = Some demo_alice"
    and same: "same_playthrough demo_bare demo2"
    by (simp_all add: demo_bare_def demo_saves same_playthrough_def)
  let ?out = "projr (diff_snapshots py_sorted py_sorted demo_bare demo2 None)"
  have out: "diff_snapshots py_sorted py_sorted demo_bare demo2 None = Inr ?out"
    by (simp add: diff_snapshots_total [OF wf demo_wf(2) same])
  have "diffed py_sorted py_sorted None 1 demo_bare demo_alice demo2 demo_alice2 ?out"
    using out wf demo_wf(2) chars demo_get(2)
    by (simp add: diffed_def diff_ids_def fmember_dict_keys py_order)
  then have "events_of ?out 1 ''perk_acquired'' \<noteq> []"
    by (simp add: diffed_rest diff_perks_def demo_chars)
  then obtain e where e: "e \<in> set ?out"
    by (cases ?out) (simp_all add: events_of_def, blast)
  from no_title_storm [OF py_order py_order wf demo_wf(2) out _ e] out e
  show ?thesis by (auto simp: demo_bare_def)
qed

text \<open>A holder index that names a title missing from the table makes the diff of a compared
  character raise \<open>KeyError\<close> when the title counts as newly held: the index is trusted.\<close>

theorem stale_title_index_raises:
  assumes "set_order id_order" and "same_playthrough prev cur"
    and "cid |\<in>| diff_ids prev cur tf"
    and "dict_get (sn_characters prev) cid \<noteq> None" and "dict_get (sn_characters cur) cid \<noteq> None"
    and "sn_titles prev \<noteq> []"
    and "tid |\<in>| held_of cur cid |-| held_of prev cid" and "dict_get (sn_titles cur) tid = None"
  shows "diff_snapshots id_order key_order prev cur tf = Inl KeyError"
  using assms by (rule stale_title_index)

theorem stale_title_index_raises_witness:
  "diff_snapshots py_sorted py_sorted demo1 (demo2\<lparr>sn_title_holders := [(1, {|555|})]\<rparr>) None =
    Inl KeyError"
  by (rule stale_title_index_raises [OF py_order, where cid = 1 and tid = 555])
    (simp_all add: demo_saves same_playthrough_def diff_ids_def fmember_dict_keys held_of_def)

section \<open>Wars\<close>

text \<open>For a living character a war event of a given type about a given war is in the result
  exactly when the character entered the war (declared when the war is new and the character is
  one of its principals, joined otherwise) or left it (concluded when the war is gone, left
  otherwise).\<close>

theorem war_events_classified:
  assumes "diffed io ko tf cid prev p cur c out" and "\<not> cs_is_dead c"
    and "wars_known cid prev" and "wars_known cid cur"
    and "t \<in> {''war_declared'', ''war_joined'', ''war_concluded'', ''war_left''}"
  shows "war_event out cid t w \<longleftrightarrow>
    w |\<in>| watched sn_character_to_wars cid cur |-| watched sn_character_to_wars cid prev
      \<and> t = entry_type prev cur cid w
    \<or> w |\<in>| watched sn_character_to_wars cid prev |-| watched sn_character_to_wars cid cur
      \<and> t = exit_type cur w"
  using assms by (intro war_classification) (auto simp: war_types_def)

theorem war_events_classified_witness: "war_event demo_diff 1 ''war_declared'' 50"
  by (subst war_events_classified [OF demo_diffed(1) _ demo_known(1,2)])
    (simp_all add: demo_chars, simp add: demo_saves watched_def entry_type_def is_principal_def
      demo_war_def)

text \<open>A character who stays in the same wars has no war event, even when the side, the
  principal or the claimant of a war changed between the saves.\<close>

theorem war_side_switch_silent:
  assumes "diffed io ko tf cid prev p cur c out"
    and "t \<in> {''war_declared'', ''war_joined'', ''war_concluded'', ''war_left''}"
    and "dict_get_default (sn_character_to_wars prev) cid {||} =
      dict_get_default (sn_character_to_wars cur) cid {||}"
  shows "events_of out cid t = []"
  using assms by (intro war_silent [OF assms(1)]) (auto simp: war_types_def watched_def)

theorem war_side_switch_silent_witness:
  "resolve_war_side demo_war 1 = Some ''attacker''
    \<and> resolve_war_side (the (dict_get (sn_wars demo_switched) 50)) 1 = Some ''defender''
    \<and> events_of (projr (diff_snapshots py_sorted py_sorted demo2 demo_switched None)) 1 ''war_left'' = []"
proof (intro conjI)
  show "resolve_war_side demo_war 1 = Some ''attacker''"
    "resolve_war_side (the (dict_get (sn_wars demo_switched) 50)) 1 = Some ''defender''"
    by (simp_all add: resolve_war_side_def demo_war_def demo_switched_def)
  show "events_of (projr (diff_snapshots py_sorted py_sorted demo2 demo_switched None)) 1 ''war_left'' = []"
    by (rule war_side_switch_silent [OF demo_switched_diffed]) (simp_all add: demo_switched_def)
qed

section \<open>Contracts, buildings and splendor\<close>

text \<open>A contract is reported in the save in which its status becomes terminal, and then only:
  the event is in the result exactly when some contract of the living character is terminal now
  and was not before, and the payload is that contract's.\<close>

theorem contract_completed_iff:
  assumes "diffed io ko tf cid prev p cur c out" and "\<not> cs_is_dead c"
  shows "DiffEvent (ContractCompletedEvent date cid pl) ps \<in> set out \<longleftrightarrow>
    date = sn_current_date cur \<and> ps = []
    \<and> (\<exists>k snap. (k |\<in>| watched sn_character_to_contracts cid prev
                 \<or> k |\<in>| watched sn_character_to_contracts cid cur)
         \<and> dict_get (sn_task_contracts cur) k = Some snap
         \<and> ctr_status snap \<in> {''completed'', ''invalidated''}
         \<and> (\<forall>old. dict_get (sn_task_contracts prev) k = Some old \<longrightarrow>
              ctr_status old \<notin> {''completed'', ''invalidated''})
         \<and> pl = contract_payload_of snap)"
  using contract_event_mem [OF assms] by simp

theorem contract_completed_iff_witness:
  "DiffEvent (ContractCompletedEvent ''1066.6.1'' 1 (contract_payload_of demo_contract)) []
     \<in> set (projr (diff_snapshots py_sorted py_sorted demo1 demo_busy None))"
  by (subst contract_completed_iff [OF demo_busy_diffed])
    (simp_all add: demo_chars, auto simp: demo_busy_def demo_saves watched_def demo_contract_def)

text \<open>A finished building is reported exactly when a construction of the living character is
  gone from the works in progress and the slot now holds the building that was being built.\<close>

theorem building_completed_iff:
  assumes "diffed io ko tf cid prev p cur c out" and "\<not> cs_is_dead c"
  shows "DiffEvent (BuildingCompletedEvent date cid pl) ps \<in> set out \<longleftrightarrow>
    date = sn_current_date cur \<and> ps = []
    \<and> (\<exists>slot work. slot |\<in>| dict_get_default (sn_character_to_constructions prev) cid {||}
         \<and> slot |\<notin>| dict_get_default (sn_character_to_constructions cur) cid {||}
         \<and> dict_get (sn_in_flight_constructions prev) slot = Some work
         \<and> dict_get (sn_holding_buildings_by_slot cur) slot = Some (con_building work)
         \<and> pl = \<lparr>bcp_building = con_building work, bcp_province_id = con_province_id work,
              bcp_slot_index = con_slot_index work, bcp_start_date = con_start_date work\<rparr>)"
  using building_event_mem [OF assms] by simp

theorem building_completed_iff_witness:
  "DiffEvent (BuildingCompletedEvent ''1066.6.1'' 1 \<lparr>bcp_building = ''castle'', bcp_province_id = 3,
     bcp_slot_index = 0, bcp_start_date = None\<rparr>) []
     \<in> set (projr (diff_snapshots py_sorted py_sorted demo_works demo_busy None))"
  by (subst building_completed_iff [OF demo_works_diffed])
    (simp_all add: demo_chars, auto simp: demo_works_def demo_busy_def demo_saves demo_work_def)

text \<open>The splendor of the character's dynasty is reported exactly when its tier rose, never
  when it fell, with both tiers within the seven of the game and the old below the new.\<close>

theorem splendor_increased_spec:
  assumes "diffed io ko tf cid prev p cur c out"
  shows "(events_of out cid ''splendor_increased'' \<noteq> [] \<longleftrightarrow>
      \<not> cs_is_dead c \<and> (\<exists>dyn. dynasty_of c (sn_house_to_dynasty cur) = Some dyn
        \<and> derive_splendor_tier (dict_get_default (sn_dynasty_renown prev) dyn 0)
            < derive_splendor_tier (dict_get_default (sn_dynasty_renown cur) dyn 0)))
    \<and> (\<forall>e\<in>set (events_of out cid ''splendor_increased'').
      \<exists>pl. ev_p (de_event e) = SplendorPayload pl
        \<and> 0 \<le> sp_old_tier pl \<and> sp_old_tier pl < sp_new_tier pl \<and> sp_new_tier pl \<le> 6)"
  using derive_splendor_tier_bounds
  by (auto simp: diffed_bespoke(2) [OF assms] splendor_differ_def diff_dynasty_splendor_def Let_def
      not_le split: option.split if_splits)

theorem splendor_increased_spec_witness:
  "events_of (projr (diff_snapshots py_sorted py_sorted demo1 demo_busy None)) 1
     ''splendor_increased'' \<noteq> []"
  by (subst splendor_increased_spec [OF demo_busy_diffed, THEN conjunct1])
    (simp add: demo_chars dynasty_of_def, simp add: demo_busy_def demo_saves
      derive_splendor_tier_def SPLENDOR_THRESHOLDS_def)

text \<open>The splendor tier of an amount of renown is the number of thresholds it has reached, a
  value from 0 to 6 that grows with the renown.\<close>

theorem splendor_tier_counts:
  "derive_splendor_tier a = int (length (filter (\<lambda>t. t \<le> a) SPLENDOR_THRESHOLDS))
   \<and> 0 \<le> derive_splendor_tier a \<and> derive_splendor_tier a < int (length SPLENDOR_TIER_NAMES)
   \<and> derive_splendor_tier (min a b) \<le> derive_splendor_tier (max a b)"
  using derive_splendor_tier_count derive_splendor_tier_bounds [of a]
    derive_splendor_tier_mono [of "min a b" "max a b"] tier_names_cover
  by (simp add: SPLENDOR_THRESHOLDS_def)

section \<open>The beats of one character\<close>

text \<open>A marriage is reported for exactly the spouses who are new: those newly in the list, or
  newly primary without having been in the list; a spouse promoted to primary is not one.\<close>

theorem marriage_iff:
  assumes "diffed io ko tf cid prev p cur c out"
  shows "DiffEvent (MarriageEvent date cid pl) ps \<in> set out \<longleftrightarrow>
    date = sn_current_date cur
    \<and> (\<exists>sp. pl = \<lparr>mp_spouse_character_id = Some sp\<rparr> \<and> ps = [(''spouse'', sp)]
         \<and> sp \<notin> set (fam_spouses (cs_family p))
         \<and> (sp \<in> set (fam_spouses (cs_family c))
            \<or> fam_primary_spouse (cs_family c) = Some sp \<and> sp \<noteq> 0
              \<and> fam_primary_spouse (cs_family p) \<noteq> Some sp))"
  using marriage_mem [OF assms] by simp

theorem marriage_iff_witness:
  "DiffEvent (MarriageEvent ''1066.6.1'' 1 \<lparr>mp_spouse_character_id = Some 4\<rparr>) [(''spouse'', 4)]
     \<in> set demo_diff"
  by (subst marriage_iff [OF demo_diffed(1)]) (simp add: demo_chars, simp add: demo_saves)

text \<open>A diff reports at most one government beat per character, and one exactly when the
  living character's government changed and the change crosses the landless-adventurer boundary
  or is between two known governments.\<close>

theorem government_at_most_one:
  assumes "diffed io ko tf cid prev p cur c out"
  shows "length (events_of out cid ''adventurer_started'')
      + length (events_of out cid ''adventurer_ended'')
      + length (events_of out cid ''government_changed'') =
    (if \<not> cs_is_dead c \<and> cs_government p \<noteq> cs_government c
        \<and> (Some LANDLESS_ADVENTURER_GOVERNMENT \<in> {cs_government p, cs_government c}
           \<or> cs_government p \<noteq> None \<and> cs_government c \<noteq> None)
     then 1 else 0)"
  using diffed_government [OF assms]
  by (auto simp: government_types_def government_beat_def stream_defs Let_def split: option.split)

theorem government_at_most_one_witness:
  "length (events_of demo_diff 1 ''adventurer_started'')
      + length (events_of demo_diff 1 ''adventurer_ended'')
      + length (events_of demo_diff 1 ''government_changed'') = 0"
  by (subst government_at_most_one [OF demo_diffed(1)]) (simp add: demo_chars)

text \<open>A miscarriage is reported exactly when a living character lost the trait that the
  current save's table first calls \<open>pregnant\<close> without a \<open>child_born\<close> memory new in this window.\<close>

theorem miscarriage_reported_iff:
  assumes "diffed io ko tf cid prev p cur c out"
  shows "events_of out cid ''miscarriage'' \<noteq> [] \<longleftrightarrow>
    \<not> cs_is_dead c
    \<and> (\<exists>i. trait_id_by_name PREGNANT_TRAIT_NAME (sn_traits_lookup cur) = Some i
         \<and> i \<in> set (cs_traits p) \<and> i \<notin> set (cs_traits c))
    \<and> (\<forall>m\<in>set (cs_memories c). mem_memory_id m \<in> mem_memory_id ` set (cs_memories p)
         \<or> mem_memory_type m \<noteq> ''child_born'')"
  by (auto simp: diffed_rest(6) [OF assms] miscarriage_iff new_memories_def fset_of_list_elem)

theorem miscarriage_reported_iff_witness:
  "events_of demo_diff 1 ''miscarriage'' = []"
  using miscarriage_reported_iff [OF demo_diffed(1)] by (auto simp: demo_chars)

text \<open>A lifestyle commitment names a known lifestyle without any perk in the previous record
  and the alphabetically least of its new perks; there is at most one per lifestyle.\<close>

theorem lifestyle_committed_iff:
  assumes "diffed io ko tf cid prev p cur c out"
  shows "distinct (events_of out cid ''lifestyle_committed'')
    \<and> (DiffEvent (LifestyleCommittedEvent date cid pl) ps \<in> set out \<longleftrightarrow>
      \<not> cs_is_dead c \<and> date = sn_current_date cur \<and> ps = []
      \<and> lcp_lifestyle_key pl \<in> set KNOWN_LIFESTYLES
      \<and> (\<forall>perk\<in>set (cs_perks p). lifestyle_of_perk perk \<noteq> Some (lcp_lifestyle_key pl))
      \<and> is_arg_min id (\<lambda>perk. perk \<in> set (cs_perks c) - set (cs_perks p)
          \<and> lifestyle_of_perk perk = Some (lcp_lifestyle_key pl)) (lcp_first_perk_key pl))"
  using commits_distinct [OF assms] commits_mem [OF assms] by simp

theorem lifestyle_committed_iff_witness:
  "DiffEvent (LifestyleCommittedEvent ''1066.6.1'' 1 \<lparr>lcp_lifestyle_key = ''martial_lifestyle'',
     lcp_first_perk_key = ''gallant_perk''\<rparr>) [] \<in> set demo_diff"
  by (subst lifestyle_committed_iff [OF demo_diffed(1), THEN conjunct2])
    (auto simp: demo_chars KNOWN_LIFESTYLES_def is_arg_min_def lifestyle_of_perk_def
      LIFESTYLE_FOR_PERK_def, simp add: demo_saves)

section \<open>Dates, names and the title queries\<close>

text \<open>The two date forms of the game denote the same date: for a valid date the long English
  form, with any ordinal suffix, and the short form of the saves parse to the same ISO text, and
  the ISO texts of years up to 9999 sort as the dates do.\<close>

theorem date_forms_agree:
  assumes "date_ok y m d" and "(name, m) \<in> set MONTHS" and "sfx \<in> {''st'', ''nd'', ''rd'', ''th''}"
    and "date_ok y' m' d'" and "y \<le> 9999" and "y' \<le> 9999"
  shows "parse_ck3_date (long_form d sfx name y) = parse_ck3_date (short_form y m d)
    \<and> parse_ck3_date (short_form y m d) = Some (iso_date y m d)
    \<and> (iso_date y m d < iso_date y' m' d' \<longleftrightarrow> (y, m, d) < (y', m', d'))"
  using parse_date_short_form [OF assms(1)] parse_date_long_form [OF assms(1-3)]
    iso_date_less [OF assms(1,4-6)] by simp

theorem date_forms_agree_witness:
  "parse_ck3_date (long_form 16 ''th'' ''September'' 1066) = parse_ck3_date (short_form 1066 9 16)
    \<and> parse_ck3_date (short_form 1066 9 16) = Some (iso_date 1066 9 16)
    \<and> (iso_date 1066 9 16 < iso_date 1066 10 14 \<longleftrightarrow> (1066::nat, 9::nat, 16::nat) < (1066, 10, 14))"
  by (rule date_forms_agree) (simp_all add: date_ok_def MONTHS_def)

text \<open>The age at death is the number of completed years, never negative, for dates in either
  form with years up to 9999.\<close>

theorem death_age_completed_years:
  assumes "parse_ck3_date birth = Some (iso_date y m d)" and "date_ok y m d" and "y \<le> 9999"
    and "parse_ck3_date death = Some (iso_date y' m' d')" and "date_ok y' m' d'" and "y' \<le> 9999"
  shows "compute_death_age (Some birth) (Some death) =
    Some (max 0 (int y' - int y - (if (m', d') < (m, d) then 1 else 0)))"
  using assms by (rule compute_death_age_iso)

theorem death_age_completed_years_witness:
  "compute_death_age (Some (short_form 1040 5 2)) (Some (long_form 9 ''th'' ''January'' 1067)) =
    Some (max 0 (int 1067 - int 1040 - (if (1, 9) < (5::nat, 2::nat) then 1 else 0)))"
  by (rule death_age_completed_years)
    (simp_all add: parse_date_short_form parse_date_long_form date_ok_def MONTHS_def)

text \<open>Stripping the game's markup from a name removes every marker byte, leaves unmarked
  names alone and is idempotent.\<close>

theorem strip_markup_clean:
  "(\<forall>t. strip_loca_markup raw = Some t \<longrightarrow> NAK \<notin> set t)
   \<and> strip_loca_markup (strip_loca_markup raw) = strip_loca_markup raw
   \<and> (NAK \<notin> set r \<longrightarrow> strip_loca_markup (Some r) = Some r)"
  using strip_loca_markup_no_NAK strip_loca_markup_idem strip_loca_markup_unmarked by blast

theorem strip_markup_clean_witness:
  "strip_loca_markup (strip_loca_markup (Some (NAK # ''ONCLICK:TITLE,k_england ''))) =
     strip_loca_markup (Some (NAK # ''ONCLICK:TITLE,k_england ''))"
  using strip_markup_clean [where raw = "Some (NAK # ''ONCLICK:TITLE,k_england '')" and r = "''x''"]
  by simp

text \<open>The sorted holdings of a character do not depend on the set order nor on whether the
  index or the table is read, and list exactly the titles whose record names the character,
  the primary title first: no held title ranks before it.\<close>

theorem held_titles_canonical:
  assumes "set_order i1" and "set_order i2" and "wf_snapshot s"
  shows "get_held_titles_sorted i1 s cid =
      get_held_titles_sorted i2 (s\<lparr>sn_title_holders := []\<rparr>) cid
    \<and> set (get_held_titles_sorted i1 s cid) = {t. holds s cid t}
    \<and> (get_primary_title_held_by i1 s cid = None \<longleftrightarrow> (\<forall>t. \<not> holds s cid t))
    \<and> (\<forall>t. get_primary_title_held_by i1 s cid = Some t \<longrightarrow>
         holds s cid t \<and> (\<forall>t'. holds s cid t' \<longrightarrow> held_key t \<le> held_key t'))"
  using held_canonical [OF assms] primary_None [OF assms(1,3)] set_held_sorted [OF assms(1,3)]
    primary_best [OF assms(1,3)] by blast

theorem held_titles_canonical_witness:
  "get_held_titles_sorted py_sorted demo1 1 =
     get_held_titles_sorted (\<lambda>S. rev (py_sorted S)) (demo1\<lparr>sn_title_holders := []\<rparr>) 1"
  using held_titles_canonical [OF py_order rev_order demo_wf(1)] by blast

end
